(* ===== verification/Prelude.thy ===== *)
theory Prelude
  imports Main "HOL-Library.Word"
begin

text \<open>
  Shared vocabulary of the development: machine integer widths of the C sources, the
  result convention of fallible routines, and the list, option and word facts that the
  component theories use.

  Conventions of the translation:
  \<^item> \<open>unsigned\<close>/\<open>uint32_t\<close> is \<open>u32\<close>, \<open>uint64_t\<close> is \<open>u64\<close>, \<open>uint16_t\<close> is \<open>u16\<close>;
    arithmetic wraps as in C.
  \<^item> An array with its element count is a list; the count is the list's length.
  \<^item> An input pointer that the callee compares with NULL is an \<open>option\<close>; an output
    pointer becomes a component of the result, so its own NULL test has no counterpart.
  \<^item> A C \<open>int\<close> that is only used as a truth value is a \<open>bool\<close>.
  \<^item> A routine that delivers a value or an error code returns \<open>retval + 'a\<close>; one that
    delivers an error code and a new state returns a pair.
  \<^item> \<open>malloc\<close> succeeds, \<open>ASSERT\<close> is the empty macro of the release build, logging has no
    effect on the state.
\<close>

unbundle bit_operations_syntax

type_synonym u8 = "8 word"
type_synonym u16 = "16 word"
type_synonym u32 = "32 word"
type_synonym u64 = "64 word"

named_theorems frame_simps "facts that say which part of the state an operation leaves alone"

section \<open>Lists\<close>

text \<open>
  The search loop \<open>for (j = 0; j < n; j++) if (x == tab[j]) break;\<close> as the value of
  \<open>j\<close> after the loop.
\<close>

fun search_index :: "'a \<Rightarrow> 'a list \<Rightarrow> nat" where
  "search_index x [] = 0"
| "search_index x (y # ys) = (if x = y then 0 else Suc (search_index x ys))"

lemma search_index_le [simp]: "search_index x xs \<le> length xs"
  by (induction xs) auto

lemma search_index_less_iff [simp]: "search_index x xs < length xs \<longleftrightarrow> x \<in> set xs"
  by (induction xs) auto

lemma search_index_ge_iff [simp]: "length xs \<le> search_index x xs \<longleftrightarrow> x \<notin> set xs"
  using search_index_less_iff [of x xs] by linarith

lemma nth_search_index: "x \<in> set xs \<Longrightarrow> xs ! search_index x xs = x"
  by (induction xs) auto

lemma search_index_nth_distinct:
  "distinct xs \<Longrightarrow> i < length xs \<Longrightarrow> search_index (xs ! i) xs = i"
  by (induction xs arbitrary: i) (auto simp: nth_Cons split: nat.splits)

lemma find_eq_None_iff: "List.find P xs = None \<longleftrightarrow> (\<forall>x\<in>set xs. \<not> P x)"
  by (induction xs) auto

lemma find_SomeD: "List.find P xs = Some x \<Longrightarrow> x \<in> set xs \<and> P x"
  by (induction xs) (auto split: if_splits)

lemma find_Some_ex: "\<exists>x\<in>set xs. P x \<Longrightarrow> \<exists>x. List.find P xs = Some x"
  by (induction xs) auto

lemma find_cong_on: "(\<And>x. x \<in> set xs \<Longrightarrow> P x = Q x) \<Longrightarrow> List.find P xs = List.find Q xs"
  by (induction xs) auto

section \<open>Results\<close>

text \<open>Left-to-right composition of computations that may fail: the first error is returned.\<close>

lemma case_sum_Inr_iff:
  "(case r of Inl e \<Rightarrow> Inl e | Inr x \<Rightarrow> f x) = Inr y \<longleftrightarrow> (\<exists>x. r = Inr x \<and> f x = Inr y)"
  by (cases r) auto

section \<open>Words\<close>

lemma unat_less_u32 [simp]: "unat (x :: u32) < 4294967296"
  by (rule order.strict_trans2 [OF unsigned_less]) simp

lemma unat_of_nat_u32: "n < 4294967296 \<Longrightarrow> unat (of_nat n :: u32) = n"
  by (simp add: unat_of_nat take_bit_eq_mod)

end
