(* ===== verification/PqosTypes.thy ===== *)
theory PqosTypes
  imports Prelude
begin

text \<open>
  The data of the library (\<open>lib/pqos.h\<close>): status codes, capability structures, CPU
  topology, device information, class-of-service definitions and configuration
  requests.
\<close>

section \<open>Status codes\<close>

datatype retval =
    PQOS_RETVAL_OK
  | PQOS_RETVAL_ERROR
  | PQOS_RETVAL_PARAM
  | PQOS_RETVAL_RESOURCE
  | PQOS_RETVAL_INIT
  | PQOS_RETVAL_TRANSPORT
  | PQOS_RETVAL_PERF_CTR
  | PQOS_RETVAL_BUSY
  | PQOS_RETVAL_INTER
  | PQOS_RETVAL_OVERFLOW
  | PQOS_RETVAL_UNAVAILABLE

type_synonym 'a res = "retval + 'a"

section \<open>Enumerations\<close>

datatype pqos_interface =
    PQOS_INTER_MSR | PQOS_INTER_OS | PQOS_INTER_OS_RESCTRL_MON | PQOS_INTER_AUTO
  | PQOS_INTER_MMIO

datatype pqos_feature_cfg = PQOS_FEATURE_ANY | PQOS_FEATURE_OFF | PQOS_FEATURE_ON

datatype pqos_cdp_config = PQOS_REQUIRE_CDP_ANY | PQOS_REQUIRE_CDP_OFF | PQOS_REQUIRE_CDP_ON

datatype pqos_mba_config = PQOS_MBA_ANY | PQOS_MBA_DEFAULT | PQOS_MBA_CTRL

datatype pqos_iordt_config =
  PQOS_REQUIRE_IORDT_ANY | PQOS_REQUIRE_IORDT_OFF | PQOS_REQUIRE_IORDT_ON

datatype pqos_snc_mode = PQOS_SNC_LOCAL | PQOS_SNC_TOTAL

datatype pqos_snc_config = PQOS_REQUIRE_SNC_ANY | PQOS_REQUIRE_SNC_LOCAL | PQOS_REQUIRE_SNC_TOTAL

datatype pqos_vendor =
  PQOS_VENDOR_UNKNOWN | PQOS_VENDOR_INTEL | PQOS_VENDOR_AMD | PQOS_VENDOR_HYGON

datatype pqos_cap_type =
    PQOS_CAP_TYPE_MON | PQOS_CAP_TYPE_L3CA | PQOS_CAP_TYPE_L2CA | PQOS_CAP_TYPE_MBA
  | PQOS_CAP_TYPE_SMBA | PQOS_CAP_TYPE_NUMOF

text \<open>The enumerator's value, which is also its bit number in a technology mask.\<close>

fun cap_type_num :: "pqos_cap_type \<Rightarrow> nat" where
  "cap_type_num PQOS_CAP_TYPE_MON = 0"
| "cap_type_num PQOS_CAP_TYPE_L3CA = 1"
| "cap_type_num PQOS_CAP_TYPE_L2CA = 2"
| "cap_type_num PQOS_CAP_TYPE_MBA = 3"
| "cap_type_num PQOS_CAP_TYPE_SMBA = 4"
| "cap_type_num PQOS_CAP_TYPE_NUMOF = 5"

section \<open>Capabilities\<close>

text \<open>
  The structures' own byte sizes (\<open>mem_size\<close>) and the library version are left out:
  nothing in the modelled code reads them. \<open>ctrl\<close> of the MBA capability is an integer,
  because discovery stores -1 in it.
\<close>

record pqos_cap_l3ca =
  l3_num_classes :: u32
  l3_num_ways :: u32
  l3_way_size :: u32
  l3_way_contention :: u64
  l3_cdp :: bool
  l3_cdp_on :: bool
  l3_non_contiguous_cbm :: bool
  l3_iordt :: bool
  l3_iordt_on :: bool

record pqos_cap_l2ca =
  l2_num_classes :: u32
  l2_num_ways :: u32
  l2_way_size :: u32
  l2_way_contention :: u64
  l2_cdp :: bool
  l2_cdp_on :: bool
  l2_non_contiguous_cbm :: bool

record pqos_cap_mba =
  mba_num_classes :: u32
  mba_throttle_max :: u32
  mba_throttle_step :: u32
  mba_is_linear :: bool
  mba_ctrl :: int
  mba_ctrl_on :: bool
  mba_mba40 :: bool
  mba_mba40_on :: bool

record pqos_monitor =
  ev_type :: u32
  ev_max_rmid :: u32
  ev_scale_factor :: u32
  ev_counter_length :: u32
  ev_iordt :: bool

record pqos_cap_mon =
  mon_max_rmid :: u32
  mon_l3_size :: u32
  mon_iordt :: bool
  mon_iordt_on :: bool
  mon_snc_num :: u32
  mon_snc_mode :: pqos_snc_mode
  mon_events :: "pqos_monitor list"

text \<open>A capability is a tagged union; its tag is \<open>cap_type\<close>.\<close>

datatype pqos_capability =
    CapMon (u_mon: pqos_cap_mon)
  | CapL3ca (u_l3ca: pqos_cap_l3ca)
  | CapL2ca (u_l2ca: pqos_cap_l2ca)
  | CapMba (u_mba: pqos_cap_mba)
  | CapSmba (u_smba: pqos_cap_mba)

fun cap_type :: "pqos_capability \<Rightarrow> pqos_cap_type" where
  "cap_type (CapMon _) = PQOS_CAP_TYPE_MON"
| "cap_type (CapL3ca _) = PQOS_CAP_TYPE_L3CA"
| "cap_type (CapL2ca _) = PQOS_CAP_TYPE_L2CA"
| "cap_type (CapMba _) = PQOS_CAP_TYPE_MBA"
| "cap_type (CapSmba _) = PQOS_CAP_TYPE_SMBA"

type_synonym pqos_cap = "pqos_capability list"

lemma cap_type_eq_iff [simp]:
  "cap_type c = PQOS_CAP_TYPE_MON \<longleftrightarrow> (\<exists>m. c = CapMon m)"
  "cap_type c = PQOS_CAP_TYPE_L3CA \<longleftrightarrow> (\<exists>l3. c = CapL3ca l3)"
  "cap_type c = PQOS_CAP_TYPE_L2CA \<longleftrightarrow> (\<exists>l2. c = CapL2ca l2)"
  "cap_type c = PQOS_CAP_TYPE_MBA \<longleftrightarrow> (\<exists>b. c = CapMba b)"
  "cap_type c = PQOS_CAP_TYPE_SMBA \<longleftrightarrow> (\<exists>b. c = CapSmba b)"
  "cap_type c \<noteq> PQOS_CAP_TYPE_NUMOF"
  by (cases c; simp)+

section \<open>CPU topology\<close>

record pqos_coreinfo =
  lcore :: u32
  socket :: u32
  l3_id :: u32
  l2_id :: u32
  l3cat_id :: u32
  mba_id :: u32
  numa :: u32
  smba_id :: u32

record pqos_cacheinfo =
  detected :: bool
  num_ways :: u32
  num_sets :: u32
  num_partitions :: u32
  line_size :: u32
  total_size :: u32
  way_size :: u32

record pqos_cpuinfo =
  cpu_l2 :: pqos_cacheinfo
  cpu_l3 :: pqos_cacheinfo
  cpu_vendor :: pqos_vendor
  cores :: "pqos_coreinfo list"

section \<open>I/O devices\<close>

type_synonym pqos_channel_t = u64

definition PQOS_DEV_MAX_CHANNELS :: nat where
  "PQOS_DEV_MAX_CHANNELS = 8"

record pqos_channel =
  channel_id :: pqos_channel_t
  rmid_tagging :: bool
  clos_tagging :: bool
  cxld :: bool
  mmio_addr :: u64
  chan_numa :: u32

text \<open>\<open>dev_channel\<close> is the array of \<^const>\<open>PQOS_DEV_MAX_CHANNELS\<close> entries; 0 marks an unused one.\<close>

record pqos_dev =
  dev_segment :: u16
  dev_bdf :: u16
  dev_channel :: "pqos_channel_t list"

text \<open>The two tables are pointers in C and may be NULL.\<close>

record pqos_devinfo =
  channels :: "pqos_channel list option"
  devs :: "pqos_dev list option"

text \<open>A device's channel array has its declared length.\<close>

definition wf_dev :: "pqos_dev \<Rightarrow> bool" where
  "wf_dev d \<longleftrightarrow> length (dev_channel d) = PQOS_DEV_MAX_CHANNELS"

section \<open>Class-of-service definitions\<close>

text \<open>
  \<open>struct pqos_l3ca\<close> and \<open>struct pqos_l2ca\<close> end in a union whose member \<open>ways_mask\<close>
  overlays \<open>s.data_mask\<close>; \<open>s.code_mask\<close> is the word after it. The record keeps the two
  words, and the three C names read them.
\<close>

record pqos_ca =
  ca_class_id :: u32
  ca_cdp :: bool
  ca_word0 :: u64
  ca_word1 :: u64

abbreviation ways_mask :: "pqos_ca \<Rightarrow> u64" where
  "ways_mask \<equiv> ca_word0"

abbreviation data_mask :: "pqos_ca \<Rightarrow> u64" where
  "data_mask \<equiv> ca_word0"

abbreviation code_mask :: "pqos_ca \<Rightarrow> u64" where
  "code_mask \<equiv> ca_word1"

record pqos_mba =
  mb_class_id :: u32
  mb_max :: u32
  mb_ctrl :: bool
  mb_smba :: bool

section \<open>Allocation reset request\<close>

record pqos_alloc_config =
  cfg_l3_cdp :: pqos_cdp_config
  cfg_l2_cdp :: pqos_cdp_config
  cfg_mba :: pqos_mba_config
  cfg_mba40 :: pqos_feature_cfg
  cfg_l3_iordt :: pqos_iordt_config
  cfg_smba :: pqos_mba_config

section \<open>Limits\<close>

definition PQOS_MAX_CLOS :: nat where
  "PQOS_MAX_CLOS = 16"

definition PQOS_MAX_MEM_REGIONS :: nat where "PQOS_MAX_MEM_REGIONS = 4"

end
