(* ===== verification/Topology.thy ===== *)
theory Topology
  imports PqosTypes
begin

text \<open>
  Queries on the CPU topology (the \<open>pqos_cpu_*\<close> functions of \<open>lib/utils.c\<close>). Seven
  attributes of a core (socket, NUMA node, L2, L3, L3 CAT, MBA and SMBA id) each name a
  kind of topology object; for each kind the library lists the ids present and picks one
  core of a given id. The locale \<open>topo_object\<close> states what the callers rely on; it is
  interpreted for every kind.
\<close>

section \<open>Lists of identifiers\<close>

text \<open>
  The common loop of the \<open>pqos_cpu_get_*_ids\<close> family: \<open>ids\<close> is the table filled so far,
  the inner search loop is \<^const>\<open>search_index\<close>.
\<close>

fun collect_ids :: "(pqos_coreinfo \<Rightarrow> u32) \<Rightarrow> pqos_coreinfo list \<Rightarrow> u32 list \<Rightarrow> u32 list" where
  "collect_ids key [] ids = ids"
| "collect_ids key (c # cs) ids =
     (let j = search_index (key c) ids
      in if length ids \<le> j \<or> length ids = 0 then collect_ids key cs (ids @ [key c])
         else collect_ids key cs ids)"

definition pqos_cpu_get_mba_ids :: "pqos_cpuinfo option \<Rightarrow> u32 list option" where
  "pqos_cpu_get_mba_ids cpu = map_option (\<lambda>c. collect_ids mba_id (cores c) []) cpu"

definition pqos_cpu_get_smba_ids :: "pqos_cpuinfo option \<Rightarrow> u32 list option" where
  "pqos_cpu_get_smba_ids cpu = map_option (\<lambda>c. collect_ids smba_id (cores c) []) cpu"

definition pqos_cpu_get_l3cat_ids :: "pqos_cpuinfo option \<Rightarrow> u32 list option" where
  "pqos_cpu_get_l3cat_ids cpu = map_option (\<lambda>c. collect_ids l3cat_id (cores c) []) cpu"

definition pqos_cpu_get_sockets :: "pqos_cpuinfo option \<Rightarrow> u32 list option" where
  "pqos_cpu_get_sockets cpu = map_option (\<lambda>c. collect_ids socket (cores c) []) cpu"

definition pqos_cpu_get_numa :: "pqos_cpuinfo option \<Rightarrow> u32 list option" where
  "pqos_cpu_get_numa cpu = map_option (\<lambda>c. collect_ids numa (cores c) []) cpu"

definition pqos_cpu_get_l2ids :: "pqos_cpuinfo option \<Rightarrow> u32 list option" where
  "pqos_cpu_get_l2ids cpu = map_option (\<lambda>c. collect_ids l2_id (cores c) []) cpu"

definition pqos_cpu_get_l3_clusters :: "pqos_cpuinfo option \<Rightarrow> u32 list option" where
  "pqos_cpu_get_l3_clusters cpu = map_option (\<lambda>c. collect_ids l3_id (cores c) []) cpu"

lemma collect_ids_set: "set (collect_ids key cs ids) = set ids \<union> key ` set cs"
  by (induction cs arbitrary: ids) (auto simp: Let_def)

lemma collect_ids_distinct: "distinct ids \<Longrightarrow> distinct (collect_ids key cs ids)"
  by (induction cs arbitrary: ids) (auto simp: Let_def)

lemma collect_ids_length: "length (collect_ids key cs ids) \<le> length ids + length cs"
proof (induction cs arbitrary: ids)
  case (Cons c cs)
  show ?case
    using Cons.IH [of "ids @ [key c]"] Cons.IH [of ids] by (auto simp: Let_def)
qed simp

text \<open>The table keeps the order in which the ids are first met.\<close>

lemma collect_ids_remdups: "collect_ids key cs ids = ids @ rev (remdups (rev (filter (\<lambda>k. k \<notin> set ids) (map key cs))))"
proof (induction cs arbitrary: ids)
  case (Cons c cs)
  show ?case
  proof (cases "key c \<in> set ids")
    case True
    then show ?thesis using Cons.IH [of ids] by (auto simp: Let_def)
  next
    case False
    have flt: "filter (\<lambda>k. k \<noteq> key c \<and> k \<notin> set ids) (map key cs)
        = filter (\<lambda>k. k \<noteq> key c) (filter (\<lambda>k. k \<notin> set ids) (map key cs))"
      by (simp add: conj_commute)
    have rd: "remdups (ys @ [y]) = remdups (filter (\<lambda>k. k \<noteq> y) ys) @ [y]" for y and ys :: "u32 list"
      by (induction ys) auto
    show ?thesis
      using False Cons.IH [of "ids @ [key c]"] by (simp add: Let_def flt rd rev_filter)
  qed
qed simp

section \<open>Picking a core\<close>

text \<open>The common loop of the \<open>pqos_cpu_get_one_*\<close> family.\<close>

fun one_core_loop :: "(pqos_coreinfo \<Rightarrow> u32) \<Rightarrow> u32 \<Rightarrow> pqos_coreinfo list \<Rightarrow> u32 res" where
  "one_core_loop key i [] = Inl PQOS_RETVAL_ERROR"
| "one_core_loop key i (c # cs) = (if key c = i then Inr (lcore c) else one_core_loop key i cs)"

definition get_one :: "(pqos_coreinfo \<Rightarrow> u32) \<Rightarrow> pqos_cpuinfo option \<Rightarrow> u32 \<Rightarrow> u32 res" where
  "get_one key cpu i =
     (case cpu of None \<Rightarrow> Inl PQOS_RETVAL_PARAM | Some c \<Rightarrow> one_core_loop key i (cores c))"

definition pqos_cpu_get_one_core :: "pqos_cpuinfo option \<Rightarrow> u32 \<Rightarrow> u32 res" where
  "pqos_cpu_get_one_core = get_one socket"

definition pqos_cpu_get_one_by_numaid :: "pqos_cpuinfo option \<Rightarrow> u32 \<Rightarrow> u32 res" where
  "pqos_cpu_get_one_by_numaid = get_one numa"

definition pqos_cpu_get_one_by_l3cat_id :: "pqos_cpuinfo option \<Rightarrow> u32 \<Rightarrow> u32 res" where
  "pqos_cpu_get_one_by_l3cat_id = get_one l3cat_id"

definition pqos_cpu_get_one_by_mba_id :: "pqos_cpuinfo option \<Rightarrow> u32 \<Rightarrow> u32 res" where
  "pqos_cpu_get_one_by_mba_id = get_one mba_id"

definition pqos_cpu_get_one_by_smba_id :: "pqos_cpuinfo option \<Rightarrow> u32 \<Rightarrow> u32 res" where
  "pqos_cpu_get_one_by_smba_id = get_one smba_id"

definition pqos_cpu_get_one_by_l3id :: "pqos_cpuinfo option \<Rightarrow> u32 \<Rightarrow> u32 res" where
  "pqos_cpu_get_one_by_l3id = get_one l3_id"

definition pqos_cpu_get_one_by_l2id :: "pqos_cpuinfo option \<Rightarrow> u32 \<Rightarrow> u32 res" where
  "pqos_cpu_get_one_by_l2id = get_one l2_id"

lemmas get_one_defs =
  pqos_cpu_get_one_core_def pqos_cpu_get_one_by_numaid_def pqos_cpu_get_one_by_l3cat_id_def
  pqos_cpu_get_one_by_mba_id_def pqos_cpu_get_one_by_smba_id_def pqos_cpu_get_one_by_l3id_def
  pqos_cpu_get_one_by_l2id_def

lemmas get_ids_defs =
  pqos_cpu_get_mba_ids_def pqos_cpu_get_smba_ids_def pqos_cpu_get_l3cat_ids_def
  pqos_cpu_get_sockets_def pqos_cpu_get_numa_def pqos_cpu_get_l2ids_def
  pqos_cpu_get_l3_clusters_def

lemma one_core_loop_Inr: "one_core_loop key i cs = Inr l \<Longrightarrow> \<exists>c\<in>set cs. key c = i \<and> lcore c = l"
  by (induction cs) (auto split: if_splits)

lemma one_core_loop_Inl:
  "one_core_loop key i cs = Inl e \<Longrightarrow> e = PQOS_RETVAL_ERROR \<and> i \<notin> key ` set cs"
  by (induction cs) (auto split: if_splits)

section \<open>Cores of a topology object\<close>

datatype topo_obj = TOPO_OBJ_SOCKET | TOPO_OBJ_L2_CLUSTER | TOPO_OBJ_L3_CLUSTER

definition get_cores_per_topology_obj :: "pqos_cpuinfo option \<Rightarrow> topo_obj \<Rightarrow> u32 \<Rightarrow> u32 list option" where
  "get_cores_per_topology_obj cpu ty i =
     (case cpu of None \<Rightarrow> None
      | Some ci \<Rightarrow>
          (let core_list =
             map lcore (filter (\<lambda>c. (ty = TOPO_OBJ_L3_CLUSTER \<and> i = l3_id c) \<or>
                                    (ty = TOPO_OBJ_L2_CLUSTER \<and> i = l2_id c) \<or>
                                    (ty = TOPO_OBJ_SOCKET \<and> i = socket c)) (cores ci))
           in if length core_list = 0 then None else Some core_list))"

definition pqos_cpu_get_cores_l3id :: "pqos_cpuinfo option \<Rightarrow> u32 \<Rightarrow> u32 list option" where
  "pqos_cpu_get_cores_l3id cpu i = get_cores_per_topology_obj cpu TOPO_OBJ_L3_CLUSTER i"

definition pqos_cpu_get_cores :: "pqos_cpuinfo option \<Rightarrow> u32 \<Rightarrow> u32 list option" where
  "pqos_cpu_get_cores cpu i = get_cores_per_topology_obj cpu TOPO_OBJ_SOCKET i"

section \<open>Attributes of a core\<close>

definition pqos_cpu_get_core_info :: "pqos_cpuinfo option \<Rightarrow> u32 \<Rightarrow> pqos_coreinfo option" where
  "pqos_cpu_get_core_info cpu l =
     (case cpu of None \<Rightarrow> None | Some ci \<Rightarrow> List.find (\<lambda>c. lcore c = l) (cores ci))"

fun core_attr_loop :: "(pqos_coreinfo \<Rightarrow> u32) \<Rightarrow> u32 \<Rightarrow> pqos_coreinfo list \<Rightarrow> u32 res" where
  "core_attr_loop attr l [] = Inl PQOS_RETVAL_ERROR"
| "core_attr_loop attr l (c # cs) = (if lcore c = l then Inr (attr c) else core_attr_loop attr l cs)"

definition pqos_cpu_get_socketid :: "pqos_cpuinfo option \<Rightarrow> u32 \<Rightarrow> u32 res" where
  "pqos_cpu_get_socketid cpu l =
     (case cpu of None \<Rightarrow> Inl PQOS_RETVAL_PARAM | Some ci \<Rightarrow> core_attr_loop socket l (cores ci))"

definition pqos_cpu_get_numaid :: "pqos_cpuinfo option \<Rightarrow> u32 \<Rightarrow> u32 res" where
  "pqos_cpu_get_numaid cpu l =
     (case cpu of None \<Rightarrow> Inl PQOS_RETVAL_PARAM | Some ci \<Rightarrow> core_attr_loop numa l (cores ci))"

definition pqos_cpu_get_clusterid :: "pqos_cpuinfo option \<Rightarrow> u32 \<Rightarrow> u32 res" where
  "pqos_cpu_get_clusterid cpu l =
     (case cpu of None \<Rightarrow> Inl PQOS_RETVAL_PARAM | Some ci \<Rightarrow> core_attr_loop l3_id l (cores ci))"

definition pqos_cpu_check_core :: "pqos_cpuinfo option \<Rightarrow> u32 \<Rightarrow> retval" where
  "pqos_cpu_check_core cpu l =
     (case cpu of None \<Rightarrow> PQOS_RETVAL_PARAM
      | Some ci \<Rightarrow> if (\<exists>c\<in>set (cores ci). lcore c = l) then PQOS_RETVAL_OK else PQOS_RETVAL_ERROR)"

definition pqos_get_vendor :: "pqos_cpuinfo \<Rightarrow> pqos_vendor" where
  "pqos_get_vendor cpu = cpu_vendor cpu"

lemma core_attr_loop_find:
  "core_attr_loop attr l cs =
     (case List.find (\<lambda>c. lcore c = l) cs of None \<Rightarrow> Inl PQOS_RETVAL_ERROR | Some c \<Rightarrow> Inr (attr c))"
  by (induction cs) auto

lemma check_core_OK_iff [simp]:
  "pqos_cpu_check_core (Some cpu) l = PQOS_RETVAL_OK \<longleftrightarrow> l \<in> lcore ` set (cores cpu)"
  by (auto simp: pqos_cpu_check_core_def)

section \<open>The contract of a kind of topology object\<close>

locale topo_object =
  fixes key :: "pqos_coreinfo \<Rightarrow> u32"
    and get_ids :: "pqos_cpuinfo option \<Rightarrow> u32 list option"
    and get_core :: "pqos_cpuinfo option \<Rightarrow> u32 \<Rightarrow> u32 res"
  assumes ids_NULL: "get_ids None = None"
    and ids_Some: "\<exists>ids. get_ids (Some cpu) = Some ids \<and> distinct ids \<and> set ids = key ` set (cores cpu)"
    and core_NULL: "get_core None i = Inl PQOS_RETVAL_PARAM"
    and core_Inr: "get_core (Some cpu) i = Inr l \<Longrightarrow> \<exists>c\<in>set (cores cpu). key c = i \<and> lcore c = l"
    and core_Inl: "get_core (Some cpu) i = Inl e \<Longrightarrow> e = PQOS_RETVAL_ERROR \<and> i \<notin> key ` set (cores cpu)"
begin

lemma ids_SomeD:
  "get_ids (Some cpu) = Some ids \<Longrightarrow> distinct ids \<and> set ids = key ` set (cores cpu)"
  using ids_Some [of cpu] by auto

text \<open>Every listed id has a core, so a loop over the list never meets the lookup's error.\<close>

lemma listed_has_core:
  assumes "get_ids (Some cpu) = Some ids" and "i \<in> set ids"
  shows "\<exists>l. get_core (Some cpu) i = Inr l \<and> l \<in> lcore ` set (cores cpu)"
proof (cases "get_core (Some cpu) i")
  case (Inl e)
  with core_Inl [OF this] assms ids_SomeD show ?thesis by blast
next
  case (Inr l)
  with core_Inr [OF this] show ?thesis by blast
qed

lemma unlisted_has_none:
  assumes "get_ids (Some cpu) = Some ids" and "i \<notin> set ids"
  shows "get_core (Some cpu) i = Inl PQOS_RETVAL_ERROR"
proof (cases "get_core (Some cpu) i")
  case (Inl e)
  with core_Inl show ?thesis by auto
next
  case (Inr l)
  with core_Inr [OF this] assms ids_SomeD show ?thesis by blast
qed

lemma no_ids_iff_no_cores: "get_ids (Some cpu) = Some [] \<longleftrightarrow> cores cpu = []"
  using ids_Some [of cpu] by (auto dest: ids_SomeD)

lemma ids_le_cores: "get_ids (Some cpu) = Some ids \<Longrightarrow> length ids \<le> length (cores cpu)"
  by (metis ids_SomeD distinct_card card_image_le card_length le_trans finite_set)

text \<open>When logical core ids are unique, different objects are represented by different cores.\<close>

lemma core_inj:
  assumes "distinct (map lcore (cores cpu))"
    and "get_core (Some cpu) i = Inr l" and "get_core (Some cpu) j = Inr l"
  shows "i = j"
proof -
  obtain c d where "c \<in> set (cores cpu)" "key c = i" "lcore c = l"
    and "d \<in> set (cores cpu)" "key d = j" "lcore d = l"
    using core_Inr [OF assms(2)] core_Inr [OF assms(3)] by blast
  with assms(1) have "c = d" by (auto simp: distinct_map dest: inj_onD)
  with \<open>key c = i\<close> \<open>key d = j\<close> show ?thesis by simp
qed

end

lemma topo_objectI:
  assumes "\<And>cpu. ids cpu = map_option (\<lambda>c. collect_ids key (cores c) []) cpu"
    and "core = get_one key"
  shows "topo_object key ids core"
  by unfold_locales
    (use assms in \<open>auto simp: get_one_def collect_ids_set collect_ids_distinct
       dest: one_core_loop_Inr one_core_loop_Inl\<close>)

interpretation l3cat: topo_object l3cat_id pqos_cpu_get_l3cat_ids pqos_cpu_get_one_by_l3cat_id
  by (rule topo_objectI) (simp_all add: get_ids_defs get_one_defs)

interpretation l2obj: topo_object l2_id pqos_cpu_get_l2ids pqos_cpu_get_one_by_l2id
  by (rule topo_objectI) (simp_all add: get_ids_defs get_one_defs)

interpretation l3obj: topo_object l3_id pqos_cpu_get_l3_clusters pqos_cpu_get_one_by_l3id
  by (rule topo_objectI) (simp_all add: get_ids_defs get_one_defs)

interpretation mbaobj: topo_object mba_id pqos_cpu_get_mba_ids pqos_cpu_get_one_by_mba_id
  by (rule topo_objectI) (simp_all add: get_ids_defs get_one_defs)

interpretation smbaobj: topo_object smba_id pqos_cpu_get_smba_ids pqos_cpu_get_one_by_smba_id
  by (rule topo_objectI) (simp_all add: get_ids_defs get_one_defs)

interpretation sockobj: topo_object socket pqos_cpu_get_sockets pqos_cpu_get_one_core
  by (rule topo_objectI) (simp_all add: get_ids_defs get_one_defs)

interpretation numaobj: topo_object numa pqos_cpu_get_numa pqos_cpu_get_one_by_numaid
  by (rule topo_objectI) (simp_all add: get_ids_defs get_one_defs)

section \<open>Properties\<close>

text \<open>The elements of a list in the order in which they first appear.\<close>

definition first_occurrences :: "'a list \<Rightarrow> 'a list" where
  "first_occurrences xs = rev (remdups (rev xs))"

lemma collect_ids_first: "collect_ids key cs [] = first_occurrences (map key cs)"
  by (simp add: collect_ids_remdups first_occurrences_def)

text \<open>
  The seven functions that list topology ids (\<open>pqos_cpu_get_sockets\<close> and its siblings
  for NUMA nodes, L2, L3, L3 CAT, MBA and SMBA ids) all return the ids of the cores
  without repetition, in the order in which the core table first mentions them.
\<close>

theorem topology_ids_correct:
  "pqos_cpu_get_sockets (Some cpu) = Some (first_occurrences (map socket (cores cpu))) \<and>
   pqos_cpu_get_numa (Some cpu) = Some (first_occurrences (map numa (cores cpu))) \<and>
   pqos_cpu_get_l2ids (Some cpu) = Some (first_occurrences (map l2_id (cores cpu))) \<and>
   pqos_cpu_get_l3_clusters (Some cpu) = Some (first_occurrences (map l3_id (cores cpu))) \<and>
   pqos_cpu_get_l3cat_ids (Some cpu) = Some (first_occurrences (map l3cat_id (cores cpu))) \<and>
   pqos_cpu_get_mba_ids (Some cpu) = Some (first_occurrences (map mba_id (cores cpu))) \<and>
   pqos_cpu_get_smba_ids (Some cpu) = Some (first_occurrences (map smba_id (cores cpu)))"
  by (simp add: get_ids_defs collect_ids_first)

lemma core_attr_of_found:
  assumes "distinct (map lcore cs)" and "one_core_loop key i cs = Inr l"
  shows "core_attr_loop key l cs = Inr i"
  using assms by (induction cs) (auto split: if_splits dest!: one_core_loop_Inr)

text \<open>
  Picking a core and asking for its place agree: when logical core numbers are unique,
  the core that \<open>pqos_cpu_get_one_core\<close> picks for a socket is reported to be on that socket
  by \<open>pqos_cpu_get_socketid\<close>, and likewise for NUMA nodes and L3 clusters.
\<close>

theorem one_core_roundtrip:
  assumes "distinct (map lcore (cores cpu))"
  shows "(pqos_cpu_get_one_core (Some cpu) i = Inr l \<longrightarrow> pqos_cpu_get_socketid (Some cpu) l = Inr i) \<and>
    (pqos_cpu_get_one_by_numaid (Some cpu) i = Inr l \<longrightarrow> pqos_cpu_get_numaid (Some cpu) l = Inr i) \<and>
    (pqos_cpu_get_one_by_l3id (Some cpu) i = Inr l \<longrightarrow> pqos_cpu_get_clusterid (Some cpu) l = Inr i)"
  using core_attr_of_found [OF assms]
  by (simp add: get_one_defs get_one_def pqos_cpu_get_socketid_def pqos_cpu_get_numaid_def pqos_cpu_get_clusterid_def)

definition two_cores :: pqos_cpuinfo where
  "two_cores = (let cache = \<lparr>detected = True, num_ways = 8, num_sets = 64, num_partitions = 1, line_size = 64, total_size = 32768, way_size = 4096\<rparr>
     in \<lparr>cpu_l2 = cache, cpu_l3 = cache, cpu_vendor = PQOS_VENDOR_INTEL,
         cores = [\<lparr>lcore = 4, socket = 0, l3_id = 7, l2_id = 1, l3cat_id = 7, mba_id = 7, numa = 0, smba_id = 0\<rparr>,
                  \<lparr>lcore = 9, socket = 1, l3_id = 8, l2_id = 2, l3cat_id = 8, mba_id = 8, numa = 3, smba_id = 0\<rparr>]\<rparr>)"

theorem one_core_roundtrip_witness:
  "pqos_cpu_get_one_core (Some two_cores) 1 = Inr 9 \<and> pqos_cpu_get_socketid (Some two_cores) 9 = Inr 1 \<and>
   pqos_cpu_get_numaid (Some two_cores) 9 = Inr 3 \<and> pqos_cpu_get_clusterid (Some two_cores) 9 = Inr 8"
proof -
  have d: "distinct (map lcore (cores two_cores))" and s: "pqos_cpu_get_one_core (Some two_cores) 1 = Inr 9"
    and n: "pqos_cpu_get_one_by_numaid (Some two_cores) 3 = Inr 9" and c: "pqos_cpu_get_one_by_l3id (Some two_cores) 8 = Inr 9"
    by code_simp+
  from s n c one_core_roundtrip [OF d] show ?thesis by blast
qed

end
