(* ===== verification/TopoPartition.thy ===== *)
theory TopoPartition
  imports Topology "HOL-Library.Multiset"
begin

text \<open>
  The core lists of \<open>lib/utils.c\<close> as multisets: sockets and L3 clusters partition the
  cores of the machine.
\<close>

lemma grouped_mset:
  "distinct ids \<Longrightarrow> mset (concat (map (\<lambda>i. map f (filter (\<lambda>c. i = key c) cs)) ids)) =
     image_mset f (filter_mset (\<lambda>c. key c \<in> set ids) (mset cs))"
proof (induction ids)
  case (Cons i ids)
  have "filter_mset (\<lambda>c. key c \<in> set (i # ids)) (mset cs) =
      filter_mset (\<lambda>c. i = key c) (mset cs) + filter_mset (\<lambda>c. key c \<in> set ids) (mset cs)"
    using Cons.prems by (induction cs) auto
  with Cons show ?case by simp
qed simp

text \<open>
  Sockets partition the machine: listing the cores of each socket that
  \<open>pqos_cpu_get_sockets\<close> reports, with \<open>pqos_cpu_get_cores\<close>, gives every logical core
  exactly as often as the core table has it. The same holds for L3 clusters and
  \<open>pqos_cpu_get_cores_l3id\<close>.
\<close>

theorem cores_partitioned:
  "mset (concat (map (\<lambda>i. the (pqos_cpu_get_cores (Some cpu) i)) (the (pqos_cpu_get_sockets (Some cpu))))) = mset (map lcore (cores cpu)) \<and>
   mset (concat (map (\<lambda>i. the (pqos_cpu_get_cores_l3id (Some cpu) i)) (the (pqos_cpu_get_l3_clusters (Some cpu))))) = mset (map lcore (cores cpu))"
proof -
  have grp: "mset (concat (map (\<lambda>i. map lcore (filter (\<lambda>c. i = key c) (cores cpu))) (collect_ids key (cores cpu) []))) = mset (map lcore (cores cpu))"
    for key :: "pqos_coreinfo \<Rightarrow> u32"
  proof -
    have "filter_mset (\<lambda>c. key c \<in> key ` set (cores cpu)) (mset (cores cpu)) = filter_mset (\<lambda>_. True) (mset (cores cpu))"
      by (rule filter_mset_cong) auto
    then show ?thesis by (subst grouped_mset) (simp_all add: collect_ids_distinct collect_ids_set)
  qed
  have the1: "the (pqos_cpu_get_cores (Some cpu) i) = map lcore (filter (\<lambda>c. i = socket c) (cores cpu))"
    if "i \<in> set (collect_ids socket (cores cpu) [])" for i
    using that by (auto simp: pqos_cpu_get_cores_def get_cores_per_topology_obj_def Let_def collect_ids_set filter_empty_conv)
  have the2: "the (pqos_cpu_get_cores_l3id (Some cpu) i) = map lcore (filter (\<lambda>c. i = l3_id c) (cores cpu))"
    if "i \<in> set (collect_ids l3_id (cores cpu) [])" for i
    using that by (auto simp: pqos_cpu_get_cores_l3id_def get_cores_per_topology_obj_def Let_def collect_ids_set filter_empty_conv)
  have "concat (map (\<lambda>i. the (pqos_cpu_get_cores (Some cpu) i)) (the (pqos_cpu_get_sockets (Some cpu)))) =
      concat (map (\<lambda>i. map lcore (filter (\<lambda>c. i = socket c) (cores cpu))) (collect_ids socket (cores cpu) []))"
    by (simp add: pqos_cpu_get_sockets_def the1 cong: map_cong)
  moreover have "concat (map (\<lambda>i. the (pqos_cpu_get_cores_l3id (Some cpu) i)) (the (pqos_cpu_get_l3_clusters (Some cpu)))) =
      concat (map (\<lambda>i. map lcore (filter (\<lambda>c. i = l3_id c) (cores cpu))) (collect_ids l3_id (cores cpu) []))"
    by (simp add: pqos_cpu_get_l3_clusters_def the2 cong: map_cong)
  ultimately show ?thesis using grp by simp
qed

end
