(* ===== verification/Capability.thy ===== *)
theory Capability
  imports PqosTypes
begin

text \<open>
  Capability queries (the \<open>pqos_cap_*\<close>, \<open>pqos_l3ca_*\<close>, \<open>pqos_l2ca_*\<close>, \<open>pqos_mba_*\<close> and
  \<open>pqos_mon_*\<close> functions of \<open>lib/utils.c\<close>) and the pure updates of the capability table
  in \<open>lib/cap.c\<close>. A query's pair of out-pointers is a pair of results; the two flags say
  which of the pointers are not NULL.
\<close>

section \<open>Lookup\<close>

definition pqos_cap_get_type :: "pqos_cap option \<Rightarrow> pqos_cap_type \<Rightarrow> pqos_capability res" where
  "pqos_cap_get_type cap ty =
     (case cap of None \<Rightarrow> Inl PQOS_RETVAL_PARAM
      | Some cs \<Rightarrow>
          if ty = PQOS_CAP_TYPE_NUMOF then Inl PQOS_RETVAL_PARAM
          else (case List.find (\<lambda>c. cap_type c = ty) cs of
                  None \<Rightarrow> Inl PQOS_RETVAL_RESOURCE
                | Some c \<Rightarrow> Inr c))"

text \<open>The variant on the library's own table, which gives NULL instead of an error.\<close>

definition cap_get_type_or_null :: "pqos_cap \<Rightarrow> pqos_cap_type \<Rightarrow> pqos_capability option" where
  "cap_get_type_or_null cap ty =
     (case pqos_cap_get_type (Some cap) ty of Inl _ \<Rightarrow> None | Inr c \<Rightarrow> Some c)"

definition pqos_cap_get_event :: "pqos_cap option \<Rightarrow> u32 \<Rightarrow> pqos_monitor res" where
  "pqos_cap_get_event cap ev =
     (case cap of None \<Rightarrow> Inl PQOS_RETVAL_PARAM
      | Some _ \<Rightarrow>
         (case pqos_cap_get_type cap PQOS_CAP_TYPE_MON of
            Inl e \<Rightarrow> Inl e
          | Inr item \<Rightarrow>
              (case List.find (\<lambda>m. ev_type m = ev) (mon_events (u_mon item)) of
                 None \<Rightarrow> Inl PQOS_RETVAL_ERROR
               | Some m \<Rightarrow> Inr m)))"

section \<open>Number of classes\<close>

definition pqos_l3ca_get_clos_num :: "pqos_cap option \<Rightarrow> u32 res" where
  "pqos_l3ca_get_clos_num cap =
     (case cap of None \<Rightarrow> Inl PQOS_RETVAL_PARAM
      | Some _ \<Rightarrow> (case pqos_cap_get_type cap PQOS_CAP_TYPE_L3CA of
                     Inl e \<Rightarrow> Inl e | Inr item \<Rightarrow> Inr (l3_num_classes (u_l3ca item))))"

definition pqos_l2ca_get_clos_num :: "pqos_cap option \<Rightarrow> u32 res" where
  "pqos_l2ca_get_clos_num cap =
     (case cap of None \<Rightarrow> Inl PQOS_RETVAL_PARAM
      | Some _ \<Rightarrow> (case pqos_cap_get_type cap PQOS_CAP_TYPE_L2CA of
                     Inl e \<Rightarrow> Inl e | Inr item \<Rightarrow> Inr (l2_num_classes (u_l2ca item))))"

definition pqos_mba_get_clos_num :: "pqos_cap option \<Rightarrow> u32 res" where
  "pqos_mba_get_clos_num cap =
     (case cap of None \<Rightarrow> Inl PQOS_RETVAL_PARAM
      | Some _ \<Rightarrow> (case pqos_cap_get_type cap PQOS_CAP_TYPE_MBA of
                     Inl e \<Rightarrow> Inl e | Inr item \<Rightarrow> Inr (mba_num_classes (u_mba item))))"

definition pqos_smba_get_clos_num :: "pqos_cap option \<Rightarrow> u32 res" where
  "pqos_smba_get_clos_num cap =
     (case cap of None \<Rightarrow> Inl PQOS_RETVAL_PARAM
      | Some _ \<Rightarrow> (case pqos_cap_get_type cap PQOS_CAP_TYPE_SMBA of
                     Inl e \<Rightarrow> Inl e | Inr item \<Rightarrow> Inr (mba_num_classes (u_smba item))))"

text \<open>
  The callers' idiom: a technology that is absent (\<open>PQOS_RETVAL_RESOURCE\<close>) leaves the
  count at its initial value 0, any other error is returned.
\<close>

definition clos_num_or_zero :: "u32 res \<Rightarrow> u32 res" where
  "clos_num_or_zero r =
     (case r of Inr n \<Rightarrow> Inr n
      | Inl e \<Rightarrow> if e \<noteq> PQOS_RETVAL_OK \<and> e \<noteq> PQOS_RETVAL_RESOURCE then Inl e else Inr 0)"

section \<open>Feature status\<close>

definition pqos_l3ca_cdp_enabled :: "pqos_cap option \<Rightarrow> bool \<Rightarrow> bool \<Rightarrow> (bool \<times> bool) res" where
  "pqos_l3ca_cdp_enabled cap supp enab =
     (if cap = None \<or> (\<not> enab \<and> \<not> supp) then Inl PQOS_RETVAL_PARAM
      else (case pqos_cap_get_type cap PQOS_CAP_TYPE_L3CA of
              Inl e \<Rightarrow> Inl e
            | Inr item \<Rightarrow> Inr (l3_cdp (u_l3ca item), l3_cdp_on (u_l3ca item))))"

definition pqos_l3ca_iordt_enabled :: "pqos_cap option \<Rightarrow> bool \<Rightarrow> bool \<Rightarrow> (bool \<times> bool) res" where
  "pqos_l3ca_iordt_enabled cap supp enab =
     (if cap = None \<or> (\<not> supp \<and> \<not> enab) then Inl PQOS_RETVAL_PARAM
      else (case pqos_cap_get_type cap PQOS_CAP_TYPE_L3CA of
              Inl e \<Rightarrow> Inl e
            | Inr item \<Rightarrow> Inr (l3_iordt (u_l3ca item), l3_iordt_on (u_l3ca item))))"

definition pqos_l2ca_cdp_enabled :: "pqos_cap option \<Rightarrow> bool \<Rightarrow> bool \<Rightarrow> (bool \<times> bool) res" where
  "pqos_l2ca_cdp_enabled cap supp enab =
     (if cap = None \<or> (\<not> enab \<and> \<not> supp) then Inl PQOS_RETVAL_PARAM
      else (case pqos_cap_get_type cap PQOS_CAP_TYPE_L2CA of
              Inl e \<Rightarrow> Inl e
            | Inr item \<Rightarrow> Inr (l2_cdp (u_l2ca item), l2_cdp_on (u_l2ca item))))"

definition pqos_mba_ctrl_enabled :: "pqos_cap option \<Rightarrow> bool \<Rightarrow> bool \<Rightarrow> (int \<times> bool) res" where
  "pqos_mba_ctrl_enabled cap supp enab =
     (if cap = None \<or> (\<not> supp \<and> \<not> enab) then Inl PQOS_RETVAL_PARAM
      else (case pqos_cap_get_type cap PQOS_CAP_TYPE_MBA of
              Inl e \<Rightarrow> Inl e
            | Inr item \<Rightarrow> Inr (mba_ctrl (u_mba item), mba_ctrl_on (u_mba item))))"

definition pqos_mon_iordt_enabled :: "pqos_cap option \<Rightarrow> bool \<Rightarrow> bool \<Rightarrow> (bool \<times> bool) res" where
  "pqos_mon_iordt_enabled cap supp enab =
     (if cap = None \<or> (\<not> supp \<and> \<not> enab) then Inl PQOS_RETVAL_PARAM
      else (case pqos_cap_get_type cap PQOS_CAP_TYPE_MON of
              Inl e \<Rightarrow> Inl e
            | Inr item \<Rightarrow> Inr (mon_iordt (u_mon item), mon_iordt_on (u_mon item))))"

text \<open>Without the capability the code answers that only contiguous masks are supported.\<close>

definition cap_get_l3ca_non_contignous :: "pqos_cap \<Rightarrow> bool" where
  "cap_get_l3ca_non_contignous cap =
     (case cap_get_type_or_null cap PQOS_CAP_TYPE_L3CA of
        None \<Rightarrow> False | Some c \<Rightarrow> l3_non_contiguous_cbm (u_l3ca c))"

definition cap_get_l2ca_non_contignous :: "pqos_cap \<Rightarrow> bool" where
  "cap_get_l2ca_non_contignous cap =
     (case cap_get_type_or_null cap PQOS_CAP_TYPE_L2CA of
        None \<Rightarrow> False | Some c \<Rightarrow> l2_non_contiguous_cbm (u_l2ca c))"

section \<open>Updates of the capability table\<close>

text \<open>
  The updates of \<open>lib/cap.c\<close> find the first capability of a type and change the
  structure it points to.
\<close>

fun update_first :: "('a \<Rightarrow> bool) \<Rightarrow> ('a \<Rightarrow> 'a) \<Rightarrow> 'a list \<Rightarrow> 'a list" where
  "update_first P f [] = []"
| "update_first P f (x # xs) = (if P x then f x # xs else x # update_first P f xs)"

definition pqos_cap_l3iordt_change :: "pqos_iordt_config \<Rightarrow> pqos_cap \<Rightarrow> pqos_cap" where
  "pqos_cap_l3iordt_change iordt =
     update_first (\<lambda>c. cap_type c = PQOS_CAP_TYPE_L3CA)
       (\<lambda>c. let l3 = u_l3ca c;
                l3 = (if iordt = PQOS_REQUIRE_IORDT_ON \<and> \<not> l3_iordt_on l3
                      then l3\<lparr>l3_iordt_on := True\<rparr> else l3);
                l3 = (if iordt = PQOS_REQUIRE_IORDT_OFF \<and> l3_iordt_on l3
                      then l3\<lparr>l3_iordt_on := False\<rparr> else l3)
            in CapL3ca l3)"

definition pqos_cap_mon_iordt_change :: "pqos_iordt_config \<Rightarrow> pqos_cap \<Rightarrow> pqos_cap" where
  "pqos_cap_mon_iordt_change iordt =
     update_first (\<lambda>c. cap_type c = PQOS_CAP_TYPE_MON)
       (\<lambda>c. let m = u_mon c;
                m = (if iordt = PQOS_REQUIRE_IORDT_ON \<and> \<not> mon_iordt_on m
                     then m\<lparr>mon_iordt_on := True\<rparr> else m);
                m = (if iordt = PQOS_REQUIRE_IORDT_OFF \<and> mon_iordt_on m
                     then m\<lparr>mon_iordt_on := False\<rparr> else m)
            in CapMon m)"

definition pqos_cap_mon_snc_change :: "pqos_snc_config \<Rightarrow> pqos_cap \<Rightarrow> pqos_cap" where
  "pqos_cap_mon_snc_change cfg =
     update_first (\<lambda>c. cap_type c = PQOS_CAP_TYPE_MON)
       (\<lambda>c. let m = u_mon c
            in if mon_snc_num m = 1 then CapMon m
               else (let m = (if cfg = PQOS_REQUIRE_SNC_TOTAL
                              then m\<lparr>mon_snc_mode := PQOS_SNC_TOTAL\<rparr> else m);
                         m = (if cfg = PQOS_REQUIRE_SNC_LOCAL
                              then m\<lparr>mon_snc_mode := PQOS_SNC_LOCAL\<rparr> else m)
                     in CapMon m))"

text \<open>
  \<open>cap_limit_num_classes_to_erdt\<close>: on the MMIO interface the class counts of L3 CAT and
  MBA are cut to the ERDT maximum. \<open>max_clos\<close> is \<open>erdt->max_clos\<close>, \<open>None\<close> when there
  is no ERDT.
\<close>

fun limit_capability :: "u32 \<Rightarrow> pqos_capability \<Rightarrow> pqos_capability" where
  "limit_capability m (CapL3ca l3) =
     CapL3ca (if m < l3_num_classes l3 then l3\<lparr>l3_num_classes := m\<rparr> else l3)"
| "limit_capability m (CapMba b) =
     CapMba (if m < mba_num_classes b then b\<lparr>mba_num_classes := m\<rparr> else b)"
| "limit_capability m c = c"

definition cap_limit_num_classes_to_erdt :: "u32 option \<Rightarrow> pqos_cap \<Rightarrow> pqos_cap" where
  "cap_limit_num_classes_to_erdt max_clos cap =
     (case max_clos of None \<Rightarrow> cap
      | Some m \<Rightarrow> if m = 0 then cap else map (limit_capability m) cap)"

section \<open>Facts\<close>

lemma cap_get_type_Inr:
  "pqos_cap_get_type cap ty = Inr c \<Longrightarrow> \<exists>cs. cap = Some cs \<and> c \<in> set cs \<and> cap_type c = ty"
  by (auto simp: pqos_cap_get_type_def dest: find_SomeD split: option.splits if_splits)

lemma cap_get_type_Inl:
  "pqos_cap_get_type (Some cs) ty = Inl e \<Longrightarrow> ty \<noteq> PQOS_CAP_TYPE_NUMOF \<Longrightarrow>
     e = PQOS_RETVAL_RESOURCE \<and> (\<forall>c\<in>set cs. cap_type c \<noteq> ty)"
  by (auto simp: pqos_cap_get_type_def find_eq_None_iff split: option.splits if_splits)

lemma update_first_find:
  "(\<And>c. P c \<Longrightarrow> P (f c)) \<Longrightarrow> List.find P (update_first P f cs) = map_option f (List.find P cs)"
  by (induction cs) auto

lemma update_first_find_other:
  "(\<And>c. P c \<Longrightarrow> \<not> Q c \<and> \<not> Q (f c)) \<Longrightarrow> List.find Q (update_first P f cs) = List.find Q cs"
  by (induction cs) auto

lemma update_first_map_type:
  "(\<And>c. P c \<Longrightarrow> g (f c) = g c) \<Longrightarrow> map g (update_first P f cs) = map g cs"
  by (induction cs) auto

section \<open>The contract of a class-count query\<close>

locale clos_num_query =
  fixes ty :: pqos_cap_type
    and classes :: "pqos_capability \<Rightarrow> u32"
    and get_num :: "pqos_cap option \<Rightarrow> u32 res"
  assumes ty_valid: "ty \<noteq> PQOS_CAP_TYPE_NUMOF"
    and get_num_eq: "get_num cap = (case pqos_cap_get_type cap ty of Inl e \<Rightarrow> Inl e | Inr c \<Rightarrow> Inr (classes c))"
begin

lemma get_num_error: "get_num (Some cs) = Inl e \<Longrightarrow> e = PQOS_RETVAL_RESOURCE"
  by (auto simp: get_num_eq split: sum.splits dest: cap_get_type_Inl [OF _ ty_valid])

text \<open>On an initialised library the callers' idiom never takes its error branch.\<close>

lemma or_zero_total:
  "clos_num_or_zero (get_num (Some cs)) =
     Inr (case List.find (\<lambda>c. cap_type c = ty) cs of None \<Rightarrow> 0 | Some c \<Rightarrow> classes c)"
  using ty_valid
  by (auto simp: get_num_eq clos_num_or_zero_def pqos_cap_get_type_def split: option.splits)

lemma get_num_present:
  "(\<exists>n. get_num (Some cs) = Inr n) \<longleftrightarrow> (\<exists>c\<in>set cs. cap_type c = ty)"
  using ty_valid
  by (auto simp: get_num_eq pqos_cap_get_type_def find_eq_None_iff dest: find_SomeD
      split: option.splits)

end

interpretation l3clos: clos_num_query PQOS_CAP_TYPE_L3CA "\<lambda>c. l3_num_classes (u_l3ca c)" pqos_l3ca_get_clos_num
  by unfold_locales
    (auto simp: pqos_l3ca_get_clos_num_def pqos_cap_get_type_def split: option.splits)

interpretation l2clos: clos_num_query PQOS_CAP_TYPE_L2CA "\<lambda>c. l2_num_classes (u_l2ca c)" pqos_l2ca_get_clos_num
  by unfold_locales
    (auto simp: pqos_l2ca_get_clos_num_def pqos_cap_get_type_def split: option.splits)

interpretation mbaclos: clos_num_query PQOS_CAP_TYPE_MBA "\<lambda>c. mba_num_classes (u_mba c)" pqos_mba_get_clos_num
  by unfold_locales
    (auto simp: pqos_mba_get_clos_num_def pqos_cap_get_type_def split: option.splits)

interpretation smbaclos: clos_num_query PQOS_CAP_TYPE_SMBA "\<lambda>c. mba_num_classes (u_smba c)" pqos_smba_get_clos_num
  by unfold_locales
    (auto simp: pqos_smba_get_clos_num_def pqos_cap_get_type_def split: option.splits)

section \<open>Properties\<close>

lemma limit_type [simp]: "cap_type (limit_capability m c) = cap_type c"
  by (cases c) auto

lemma find_map_limit:
  "List.find (\<lambda>c. cap_type c = ty) (map (limit_capability m) cs) =
     map_option (limit_capability m) (List.find (\<lambda>c. cap_type c = ty) cs)"
  by (induction cs) auto

lemma get_type_limit:
  "pqos_cap_get_type (Some (cap_limit_num_classes_to_erdt (Some m) cap)) ty =
     (case pqos_cap_get_type (Some cap) ty of Inl e \<Rightarrow> Inl e | Inr c \<Rightarrow> Inr (if m = 0 then c else limit_capability m c))"
  by (auto simp: pqos_cap_get_type_def cap_limit_num_classes_to_erdt_def find_map_limit split: option.splits)

lemma limit_counts:
  "cap_type c = PQOS_CAP_TYPE_L3CA \<Longrightarrow> l3_num_classes (u_l3ca (limit_capability m c)) = min m (l3_num_classes (u_l3ca c))"
  "cap_type c = PQOS_CAP_TYPE_MBA \<Longrightarrow> mba_num_classes (u_mba (limit_capability m c)) = min m (mba_num_classes (u_mba c))"
  "cap_type c = PQOS_CAP_TYPE_L2CA \<Longrightarrow> limit_capability m c = c"
  "cap_type c = PQOS_CAP_TYPE_SMBA \<Longrightarrow> limit_capability m c = c"
  by (cases c; auto simp: min_def not_less)+

text \<open>
  Cutting the class counts to the ERDT maximum (\<open>cap_limit_num_classes_to_erdt\<close>) makes
  the class-count queries for L3 CAT and MBA answer the smaller of the old count and the
  maximum, where a maximum of 0 means no limit; the answers for L2 CAT and SMBA, and every
  error answer, stay the same.
\<close>

theorem erdt_limit_counts:
  "pqos_l3ca_get_clos_num (Some (cap_limit_num_classes_to_erdt (Some m) cap)) =
     (case pqos_l3ca_get_clos_num (Some cap) of Inl e \<Rightarrow> Inl e | Inr n \<Rightarrow> Inr (if m = 0 then n else min m n)) \<and>
   pqos_mba_get_clos_num (Some (cap_limit_num_classes_to_erdt (Some m) cap)) =
     (case pqos_mba_get_clos_num (Some cap) of Inl e \<Rightarrow> Inl e | Inr n \<Rightarrow> Inr (if m = 0 then n else min m n)) \<and>
   pqos_l2ca_get_clos_num (Some (cap_limit_num_classes_to_erdt (Some m) cap)) = pqos_l2ca_get_clos_num (Some cap) \<and>
   pqos_smba_get_clos_num (Some (cap_limit_num_classes_to_erdt (Some m) cap)) = pqos_smba_get_clos_num (Some cap)"
  by (auto simp: l3clos.get_num_eq l2clos.get_num_eq mbaclos.get_num_eq smbaclos.get_num_eq get_type_limit limit_counts
      split: sum.splits dest!: cap_get_type_Inr)

lemma get_type_update_first:
  assumes "\<And>c. cap_type c = ty \<Longrightarrow> cap_type (f c) = ty"
  shows "pqos_cap_get_type (Some (update_first (\<lambda>c. cap_type c = ty) f cap)) ty' =
    (case pqos_cap_get_type (Some cap) ty' of Inl e \<Rightarrow> Inl e | Inr c \<Rightarrow> Inr (if ty' = ty then f c else c))"
proof (cases "ty' = ty")
  case True
  with update_first_find [of "\<lambda>c. cap_type c = ty" f cap] assms show ?thesis
    by (auto simp: pqos_cap_get_type_def split: option.splits)
next
  case False
  with update_first_find_other [of "\<lambda>c. cap_type c = ty" "\<lambda>c. cap_type c = ty'" f cap] assms show ?thesis
    by (auto simp: pqos_cap_get_type_def split: option.splits)
qed

lemma l3iordt_change_get:
  "\<exists>f. (\<forall>c. f c = CapL3ca (u_l3ca c \<lparr>l3_iordt_on := (if req = PQOS_REQUIRE_IORDT_ANY then l3_iordt_on (u_l3ca c) else req = PQOS_REQUIRE_IORDT_ON)\<rparr>)) \<and>
     pqos_cap_get_type (Some (pqos_cap_l3iordt_change req cap)) ty =
      (case pqos_cap_get_type (Some cap) ty of Inl e \<Rightarrow> Inl e | Inr c \<Rightarrow> Inr (if ty = PQOS_CAP_TYPE_L3CA then f c else c))"
  unfolding pqos_cap_l3iordt_change_def
  by (rule exI, rule conjI [rotated], rule get_type_update_first; cases req; auto simp: Let_def)

lemma mon_iordt_change_get:
  "\<exists>f. (\<forall>c. f c = CapMon (u_mon c \<lparr>mon_iordt_on := (if req = PQOS_REQUIRE_IORDT_ANY then mon_iordt_on (u_mon c) else req = PQOS_REQUIRE_IORDT_ON)\<rparr>)) \<and>
     pqos_cap_get_type (Some (pqos_cap_mon_iordt_change req cap)) ty =
      (case pqos_cap_get_type (Some cap) ty of Inl e \<Rightarrow> Inl e | Inr c \<Rightarrow> Inr (if ty = PQOS_CAP_TYPE_MON then f c else c))"
  unfolding pqos_cap_mon_iordt_change_def
  by (rule exI, rule conjI [rotated], rule get_type_update_first; cases req; auto simp: Let_def)

text \<open>
  Recording an I/O RDT switch in the capability table changes exactly the answer it is
  about: after \<open>_pqos_cap_l3iordt_change\<close> the query \<open>pqos_l3ca_iordt_enabled\<close> reports the
  requested state (the old one for ANY) and the same support, while the CDP, class-count
  and monitoring queries answer as before; symmetrically for \<open>_pqos_cap_mon_iordt_change\<close>.
\<close>

theorem iordt_change_queries:
  "pqos_l3ca_iordt_enabled (Some (pqos_cap_l3iordt_change req cap)) True True =
     (case pqos_l3ca_iordt_enabled (Some cap) True True of Inl e \<Rightarrow> Inl e
      | Inr (s, on) \<Rightarrow> Inr (s, if req = PQOS_REQUIRE_IORDT_ANY then on else req = PQOS_REQUIRE_IORDT_ON)) \<and>
   pqos_l3ca_cdp_enabled (Some (pqos_cap_l3iordt_change req cap)) True True = pqos_l3ca_cdp_enabled (Some cap) True True \<and>
   pqos_l3ca_get_clos_num (Some (pqos_cap_l3iordt_change req cap)) = pqos_l3ca_get_clos_num (Some cap) \<and>
   pqos_mon_iordt_enabled (Some (pqos_cap_l3iordt_change req cap)) True True = pqos_mon_iordt_enabled (Some cap) True True \<and>
   pqos_mon_iordt_enabled (Some (pqos_cap_mon_iordt_change req cap)) True True =
     (case pqos_mon_iordt_enabled (Some cap) True True of Inl e \<Rightarrow> Inl e
      | Inr (s, on) \<Rightarrow> Inr (s, if req = PQOS_REQUIRE_IORDT_ANY then on else req = PQOS_REQUIRE_IORDT_ON)) \<and>
   pqos_l3ca_iordt_enabled (Some (pqos_cap_mon_iordt_change req cap)) True True = pqos_l3ca_iordt_enabled (Some cap) True True"
  using l3iordt_change_get [of req cap PQOS_CAP_TYPE_L3CA] l3iordt_change_get [of req cap PQOS_CAP_TYPE_MON]
    mon_iordt_change_get [of req cap PQOS_CAP_TYPE_MON] mon_iordt_change_get [of req cap PQOS_CAP_TYPE_L3CA]
  by (auto simp: pqos_l3ca_iordt_enabled_def pqos_l3ca_cdp_enabled_def pqos_mon_iordt_enabled_def l3clos.get_num_eq
      split: sum.splits)

end
