(* ===== verification/Machine.thy ===== *)
theory Machine
  imports PqosTypes
begin

text \<open>
  Access to model specific registers (\<open>lib/machine.c\<close>), on top of the library's static
  state. The operating system and the processor are not part of the sources: they are the
  functions of a \<open>platform\<close> record over an abstract machine state \<open>'h\<close>. What the code
  relies on is the locale \<open>msr_driver\<close>; its consequences for \<open>msr_read\<close> and \<open>msr_write\<close>
  are the locale \<open>register_file\<close>, which the allocation theories use.
\<close>

section \<open>The platform\<close>

record cpuid_out =
  eax :: u32
  ebx :: u32
  ecx :: u32
  edx :: u32

text \<open>
  \<open>os_open_msr l\<close> is \<open>open("/dev/cpu/l/msr", O_RDWR)\<close>; \<open>os_pread\<close> and \<open>os_pwrite\<close> are
  the 8-byte accesses at the register's offset (\<open>None\<close>/\<open>False\<close> when they transfer
  anything but 8 bytes); \<open>os_mmap\<close> says whether mapping a range of physical memory
  succeeds; \<open>mem_ld16\<close> and so on are accesses to mapped registers at a physical address.
\<close>

record 'h platform =
  os_open_msr :: "u32 \<Rightarrow> 'h \<Rightarrow> int \<times> 'h"
  os_pread :: "int \<Rightarrow> u32 \<Rightarrow> 'h \<Rightarrow> u64 option"
  os_pwrite :: "int \<Rightarrow> u32 \<Rightarrow> u64 \<Rightarrow> 'h \<Rightarrow> bool \<times> 'h"
  os_close :: "int \<Rightarrow> 'h \<Rightarrow> 'h"
  os_cpuid :: "u32 \<Rightarrow> u32 \<Rightarrow> cpuid_out"
  os_probe_msr_env :: bool
  os_mmap :: "u64 \<Rightarrow> u64 \<Rightarrow> 'h \<Rightarrow> bool"
  mem_ld16 :: "u64 \<Rightarrow> 'h \<Rightarrow> u16"
  mem_ld32 :: "u64 \<Rightarrow> 'h \<Rightarrow> u32"
  mem_st16 :: "u64 \<Rightarrow> u16 \<Rightarrow> 'h \<Rightarrow> 'h"
  mem_st32 :: "u64 \<Rightarrow> u32 \<Rightarrow> 'h \<Rightarrow> 'h"

section \<open>The library's static state\<close>

record cpuinfo_config =
  cpuid_cache_leaf :: u32
  mba_max :: u32
  mba_default_val :: u32
  mba_msr_reg :: u32
  smba_msr_reg :: u32

text \<open>One block of I/O RDT registers (\<open>struct iordt_mmio\<close>).\<close>

record iordt_mmio =
  mmio_id :: u64
  mmio_base :: u64
  mmio_numa :: u32
  mmio_rmid_offset :: u16
  mmio_clos_offset :: u16
  mmio_flags :: u64

text \<open>
  \<open>m_msr_fd\<close>/\<open>m_maxcores\<close> belong to \<open>machine.c\<close>, \<open>m_sysconf\<close>'s members and
  \<open>m_interface\<close> to \<open>cap.c\<close>, \<open>m_config\<close> to \<open>cpuinfo.c\<close>, \<open>m_mmioinfo\<close> to \<open>iordt.c\<close>.
\<close>

record 'h lib =
  m_msr_fd :: "int list option"
  m_maxcores :: u32
  m_cap :: pqos_cap
  m_cpu :: pqos_cpuinfo
  m_dev :: "pqos_devinfo option"
  m_interface :: pqos_interface
  m_config :: cpuinfo_config
  m_mmioinfo :: "iordt_mmio list option"
  m_hw :: 'h

section \<open>Register addresses\<close>

definition PQOS_MSR_ASSOC :: u32 where "PQOS_MSR_ASSOC = 0xC8F"
definition PQOS_MSR_ASSOC_QECLOS_SHIFT :: nat where "PQOS_MSR_ASSOC_QECLOS_SHIFT = 32"
definition PQOS_MSR_ASSOC_QECLOS_MASK :: u64 where "PQOS_MSR_ASSOC_QECLOS_MASK = 0xffffffff00000000"
definition PQOS_MSR_L3CA_MASK_START :: u32 where "PQOS_MSR_L3CA_MASK_START = 0xC90"
definition PQOS_MSR_L3CA_MASK_END :: u32 where "PQOS_MSR_L3CA_MASK_END = 0xD0F"
definition PQOS_MSR_L2CA_MASK_START :: u32 where "PQOS_MSR_L2CA_MASK_START = 0xD10"
definition PQOS_MSR_MBA_MASK_START :: u32 where "PQOS_MSR_MBA_MASK_START = 0xD50"
definition PQOS_MSR_MBA_MASK_START_AMD :: u32 where "PQOS_MSR_MBA_MASK_START_AMD = 0xC0000200"
definition PQOS_MSR_SMBA_MASK_START_AMD :: u32 where "PQOS_MSR_SMBA_MASK_START_AMD = 0xC0000280"
definition PQOS_MSR_L3_QOS_CFG :: u32 where "PQOS_MSR_L3_QOS_CFG = 0xC81"
definition PQOS_MSR_L3_QOS_CFG_CDP_EN :: u64 where "PQOS_MSR_L3_QOS_CFG_CDP_EN = 1"
definition PQOS_MSR_L3_IO_QOS_CFG :: u32 where "PQOS_MSR_L3_IO_QOS_CFG = 0xC83"
definition PQOS_MSR_L3_IO_QOS_CA_EN :: u64 where "PQOS_MSR_L3_IO_QOS_CA_EN = 1"
definition PQOS_MSR_L2_QOS_CFG :: u32 where "PQOS_MSR_L2_QOS_CFG = 0xC82"
definition PQOS_MSR_L2_QOS_CFG_CDP_EN :: u64 where "PQOS_MSR_L2_QOS_CFG_CDP_EN = 1"
definition PQOS_MSR_MBA_CFG :: u32 where "PQOS_MSR_MBA_CFG = 0xC84"
definition PQOS_MSR_MBA_CFG_MBA40_EN :: u64 where "PQOS_MSR_MBA_CFG_MBA40_EN = 4"
definition PQOS_MBA_LINEAR_MAX :: u32 where "PQOS_MBA_LINEAR_MAX = 100"
definition PQOS_MBA_MAX_AMD :: u32 where "PQOS_MBA_MAX_AMD = 0x800"

lemmas reg_defs =
  PQOS_MSR_ASSOC_def PQOS_MSR_L3CA_MASK_START_def PQOS_MSR_L3CA_MASK_END_def
  PQOS_MSR_L2CA_MASK_START_def PQOS_MSR_MBA_MASK_START_def PQOS_MSR_MBA_MASK_START_AMD_def
  PQOS_MSR_SMBA_MASK_START_AMD_def PQOS_MSR_L3_QOS_CFG_def PQOS_MSR_L3_IO_QOS_CFG_def
  PQOS_MSR_L2_QOS_CFG_def PQOS_MSR_MBA_CFG_def

section \<open>Operations\<close>

datatype machine_retval = MACHINE_RETVAL_OK | MACHINE_RETVAL_ERROR | MACHINE_RETVAL_PARAM

text \<open>The two sets of status codes agree numerically; some callers pass one for the other.\<close>

fun pqos_of_machine :: "machine_retval \<Rightarrow> retval" where
  "pqos_of_machine MACHINE_RETVAL_OK = PQOS_RETVAL_OK"
| "pqos_of_machine MACHINE_RETVAL_ERROR = PQOS_RETVAL_ERROR"
| "pqos_of_machine MACHINE_RETVAL_PARAM = PQOS_RETVAL_PARAM"

definition machine_init :: "u32 \<Rightarrow> 'h lib \<Rightarrow> machine_retval \<times> 'h lib" where
  "machine_init max_core_id s =
     (let s = s\<lparr>m_maxcores := max_core_id + 1\<rparr>
      in if m_msr_fd s \<noteq> None then (MACHINE_RETVAL_ERROR, s)
         else (MACHINE_RETVAL_OK, s\<lparr>m_msr_fd := Some (replicate (unat (m_maxcores s)) (- 1))\<rparr>))"

definition machine_fini :: "'h platform \<Rightarrow> 'h lib \<Rightarrow> machine_retval \<times> 'h lib" where
  "machine_fini E s =
     (case m_msr_fd s of
        None \<Rightarrow> (MACHINE_RETVAL_ERROR, s)
      | Some fds \<Rightarrow>
          (MACHINE_RETVAL_OK,
           s\<lparr>m_hw := fold (\<lambda>fd h. if fd \<noteq> - 1 then os_close E fd h else h) fds (m_hw s),
             m_msr_fd := None, m_maxcores := 0\<rparr>))"

definition lcpuid :: "'h platform \<Rightarrow> u32 \<Rightarrow> u32 \<Rightarrow> cpuid_out" where
  "lcpuid E leaf subleaf = os_cpuid E leaf subleaf"

definition msr_file_open :: "'h platform \<Rightarrow> u32 \<Rightarrow> int list \<Rightarrow> 'h lib \<Rightarrow> int \<times> 'h lib" where
  "msr_file_open E l fds s =
     (let fd = fds ! unat l
      in if fd < 0
         then (case os_open_msr E l (m_hw s) of (fd, h) \<Rightarrow>
                 if fd < 0 then (fd, s\<lparr>m_hw := h\<rparr>)
                 else (fd, s\<lparr>m_hw := h, m_msr_fd := Some (fds[unat l := fd])\<rparr>))
         else (fd, s))"

definition msr_read :: "'h platform \<Rightarrow> u32 \<Rightarrow> u32 \<Rightarrow> 'h lib \<Rightarrow> (machine_retval + u64) \<times> 'h lib" where
  "msr_read E l reg s =
     (if m_maxcores s \<le> l then (Inl MACHINE_RETVAL_PARAM, s)
      else (case m_msr_fd s of
              None \<Rightarrow> (Inl MACHINE_RETVAL_ERROR, s)
            | Some fds \<Rightarrow>
                (case msr_file_open E l fds s of (fd, s) \<Rightarrow>
                   if fd < 0 then (Inl MACHINE_RETVAL_ERROR, s)
                   else (case os_pread E fd reg (m_hw s) of
                           None \<Rightarrow> (Inl MACHINE_RETVAL_ERROR, s)
                         | Some v \<Rightarrow> (Inr v, s)))))"

definition msr_write :: "'h platform \<Rightarrow> u32 \<Rightarrow> u32 \<Rightarrow> u64 \<Rightarrow> 'h lib \<Rightarrow> machine_retval \<times> 'h lib" where
  "msr_write E l reg v s =
     (if m_maxcores s \<le> l then (MACHINE_RETVAL_PARAM, s)
      else (case m_msr_fd s of
              None \<Rightarrow> (MACHINE_RETVAL_ERROR, s)
            | Some fds \<Rightarrow>
                (case msr_file_open E l fds s of (fd, s) \<Rightarrow>
                   if fd < 0 then (MACHINE_RETVAL_ERROR, s)
                   else (case os_pwrite E fd reg v (m_hw s) of (ok, h) \<Rightarrow>
                           (if ok then MACHINE_RETVAL_OK else MACHINE_RETVAL_ERROR,
                            s\<lparr>m_hw := h\<rparr>)))))"

text \<open>The part of the static state that register accesses never touch.\<close>

definition same_config :: "'h lib \<Rightarrow> 'h lib \<Rightarrow> bool" where
  "same_config s t \<longleftrightarrow>
     m_cap t = m_cap s \<and> m_cpu t = m_cpu s \<and> m_dev t = m_dev s \<and> m_interface t = m_interface s \<and>
     m_config t = m_config s \<and> m_mmioinfo t = m_mmioinfo s \<and> m_maxcores t = m_maxcores s"

lemma same_config_refl [simp]: "same_config s s"
  by (simp add: same_config_def)

lemma same_config_trans: "same_config s t \<Longrightarrow> same_config t u \<Longrightarrow> same_config s u"
  by (simp add: same_config_def)

lemma same_configD:
  assumes "same_config s t"
  shows "m_cap t = m_cap s" and "m_cpu t = m_cpu s" and "m_dev t = m_dev s"
    and "m_interface t = m_interface s" and "m_config t = m_config s"
    and "m_mmioinfo t = m_mmioinfo s" and "m_maxcores t = m_maxcores s"
  using assms by (simp_all add: same_config_def)

text \<open>The core's device file is open.\<close>

definition fd_open :: "u32 \<Rightarrow> 'h lib \<Rightarrow> bool" where
  "fd_open l s \<longleftrightarrow> l < m_maxcores s \<and> (\<exists>fds. m_msr_fd s = Some fds \<and> 0 \<le> fds ! unat l)"

section \<open>The contract of a register file\<close>

text \<open>
  What a client of the register accesses relies on: \<open>rd\<close> and \<open>wr\<close> are the accesses,
  \<open>view\<close> the registers they act on, \<open>wf\<close> the state invariant. A failed access may have
  opened a device file but leaves every register alone; a successful write changes no
  register of another address, and a write to the association register is seen by one
  logical core only. A write to any other register may be seen by other cores too: class
  masks are shared by the cores of a cache or socket.
\<close>

locale register_file =
  fixes rd :: "u32 \<Rightarrow> u32 \<Rightarrow> 's \<Rightarrow> (machine_retval + u64) \<times> 's"
    and wr :: "u32 \<Rightarrow> u32 \<Rightarrow> u64 \<Rightarrow> 's \<Rightarrow> machine_retval \<times> 's"
    and view :: "'s \<Rightarrow> u32 \<Rightarrow> u32 \<Rightarrow> u64 option"
    and wf :: "'s \<Rightarrow> bool"
    and keeps :: "'s \<Rightarrow> 's \<Rightarrow> bool"
  assumes rd_wf: "wf s \<Longrightarrow> rd l r s = (x, t) \<Longrightarrow> wf t"
    and rd_view: "wf s \<Longrightarrow> rd l r s = (x, t) \<Longrightarrow> view t = view s"
    and rd_val: "wf s \<Longrightarrow> rd l r s = (Inr v, t) \<Longrightarrow> view s l r = Some v"
    and rd_keeps: "rd l r s = (x, t) \<Longrightarrow> keeps s t"
    and rd_error: "rd l r s = (Inl e, t) \<Longrightarrow> e \<noteq> MACHINE_RETVAL_OK"
    and wr_wf: "wf s \<Longrightarrow> wr l r v s = (m, t) \<Longrightarrow> wf t"
    and wr_same: "wf s \<Longrightarrow> wr l r v s = (MACHINE_RETVAL_OK, t) \<Longrightarrow> view t l r = Some v"
    and wr_other: "wf s \<Longrightarrow> wr l r v s = (m, t) \<Longrightarrow> r' \<noteq> r \<Longrightarrow> view t l' r' = view s l' r'"
    and wr_fail: "wf s \<Longrightarrow> wr l r v s = (m, t) \<Longrightarrow> m \<noteq> MACHINE_RETVAL_OK \<Longrightarrow> view t = view s"
    and wr_assoc: "wf s \<Longrightarrow> wr l PQOS_MSR_ASSOC v s = (m, t) \<Longrightarrow> l' \<noteq> l \<Longrightarrow>
                     view t l' PQOS_MSR_ASSOC = view s l' PQOS_MSR_ASSOC"
    and wr_keeps: "wr l r v s = (m, t) \<Longrightarrow> keeps s t"

section \<open>What the code relies on of the MSR driver\<close>

text \<open>
  \<open>core_of h fd\<close> is the logical core whose device file \<open>fd\<close> refers to, \<open>regs h l r\<close> the
  value of register \<open>r\<close> on core \<open>l\<close>, \<open>None\<close> where the register does not exist.
  Opening a device file does not disturb other descriptors or registers; an access through
  a descriptor reaches the registers of its core; a write that is not carried out changes
  nothing; other cores see a write of a shared register with the value written.
\<close>

locale msr_driver =
  fixes E :: "'h platform"
    and core_of :: "'h \<Rightarrow> int \<Rightarrow> u32 option"
    and regs :: "'h \<Rightarrow> u32 \<Rightarrow> u32 \<Rightarrow> u64 option"
  assumes open_core: "os_open_msr E l h = (fd, h') \<Longrightarrow> 0 \<le> fd \<Longrightarrow> core_of h' fd = Some l"
    and open_others: "os_open_msr E l h = (fd, h') \<Longrightarrow> core_of h fd' = Some l' \<Longrightarrow> core_of h' fd' = Some l'"
    and open_regs: "os_open_msr E l h = (fd, h') \<Longrightarrow> regs h' = regs h"
    and pread_regs: "core_of h fd = Some l \<Longrightarrow> os_pread E fd r h = regs h l r"
    and pwrite_same: "core_of h fd = Some l \<Longrightarrow> os_pwrite E fd r v h = (True, h') \<Longrightarrow> regs h' l r = Some v"
    and pwrite_other: "core_of h fd = Some l \<Longrightarrow> os_pwrite E fd r v h = (b, h') \<Longrightarrow> r' \<noteq> r \<Longrightarrow>
                         regs h' l' r' = regs h l' r'"
    and pwrite_fail: "core_of h fd = Some l \<Longrightarrow> os_pwrite E fd r v h = (False, h') \<Longrightarrow> regs h' = regs h"
    and pwrite_assoc: "core_of h fd = Some l \<Longrightarrow> os_pwrite E fd PQOS_MSR_ASSOC v h = (b, h') \<Longrightarrow> l' \<noteq> l \<Longrightarrow>
                         regs h' l' PQOS_MSR_ASSOC = regs h l' PQOS_MSR_ASSOC"
    and pwrite_fds: "os_pwrite E fd r v h = (b, h') \<Longrightarrow> core_of h' = core_of h"
    and pwrite_scope: "core_of h fd = Some l \<Longrightarrow> os_pwrite E fd r v h = (b, h') \<Longrightarrow>
                         regs h' l' r = regs h l' r \<or> regs h' l' r = Some v"

text \<open>The descriptor table has one entry per core, and an open entry belongs to its core.\<close>

definition machine_wf :: "('h \<Rightarrow> int \<Rightarrow> u32 option) \<Rightarrow> 'h lib \<Rightarrow> bool" where
  "machine_wf core_of s \<longleftrightarrow>
     (case m_msr_fd s of
        None \<Rightarrow> False
      | Some fds \<Rightarrow> length fds = unat (m_maxcores s) \<and>
          (\<forall>i<length fds. 0 \<le> fds ! i \<longrightarrow> core_of (m_hw s) (fds ! i) = Some (of_nat i)))"

abbreviation lib_view :: "('h \<Rightarrow> u32 \<Rightarrow> u32 \<Rightarrow> u64 option) \<Rightarrow> 'h lib \<Rightarrow> u32 \<Rightarrow> u32 \<Rightarrow> u64 option" where
  "lib_view regs s \<equiv> regs (m_hw s)"

lemma machine_init_wf:
  "m_msr_fd s = None \<Longrightarrow> \<exists>t. machine_init n s = (MACHINE_RETVAL_OK, t) \<and> machine_wf core_of t"
  by (auto simp: machine_init_def machine_wf_def Let_def)


lemma msr_file_open_keeps:
  assumes "msr_file_open E l fds s = (fd, t)"
  shows "same_config s t"
  using assms by (auto simp: msr_file_open_def Let_def same_config_def split: prod.splits if_splits)

lemma msr_read_keeps: "msr_read E l r s = (x, t) \<Longrightarrow> same_config s t"
  by (auto simp: msr_read_def dest: msr_file_open_keeps split: if_splits option.splits prod.splits)

lemma msr_write_keeps:
  assumes "msr_write E l r v s = (m, t)"
  shows "same_config s t"
proof -
  have "same_config s u \<Longrightarrow> same_config s (u\<lparr>m_hw := h\<rparr>)" for u :: "'a lib" and h
    by (simp add: same_config_def)
  with assms show ?thesis
    by (auto simp: msr_write_def dest: msr_file_open_keeps split: if_splits option.splits prod.splits)
qed

text \<open>The two accesses once the core is in range and its descriptor has been looked up.\<close>

lemma msr_read_opened:
  assumes "l < m_maxcores s" and "m_msr_fd s = Some fds" and "msr_file_open E l fds s = (fd, u)"
  shows "msr_read E l r s =
    (if fd < 0 then (Inl MACHINE_RETVAL_ERROR, u)
     else (case os_pread E fd r (m_hw u) of None \<Rightarrow> (Inl MACHINE_RETVAL_ERROR, u) | Some v \<Rightarrow> (Inr v, u)))"
  using assms by (simp add: msr_read_def not_less [symmetric])

lemma msr_write_opened:
  assumes "l < m_maxcores s" and "m_msr_fd s = Some fds" and "msr_file_open E l fds s = (fd, u)"
  shows "msr_write E l r v s =
    (if fd < 0 then (MACHINE_RETVAL_ERROR, u)
     else (case os_pwrite E fd r v (m_hw u) of (ok, h) \<Rightarrow>
             (if ok then MACHINE_RETVAL_OK else MACHINE_RETVAL_ERROR, u\<lparr>m_hw := h\<rparr>)))"
  using assms by (simp add: msr_write_def not_less [symmetric])

context msr_driver begin

lemma file_open:
  assumes wf: "machine_wf core_of s" and fds: "m_msr_fd s = Some fds" and l: "l < m_maxcores s"
    and op: "msr_file_open E l fds s = (fd, t)"
  shows "machine_wf core_of t" and "regs (m_hw t) = regs (m_hw s)"
    and "0 \<le> fd \<Longrightarrow> core_of (m_hw t) fd = Some l"
proof -
  have len: "unat l < length fds" and inv: "\<And>i. i < length fds \<Longrightarrow> 0 \<le> fds ! i \<Longrightarrow> core_of (m_hw s) (fds ! i) = Some (of_nat i)"
    using wf fds l by (auto simp: machine_wf_def word_less_nat_alt)
  show "machine_wf core_of t"
  proof (cases "fds ! unat l < 0")
    case False
    with op wf show ?thesis by (simp add: msr_file_open_def)
  next
    case True
    obtain fd' h where o: "os_open_msr E l (m_hw s) = (fd', h)" by fastforce
    have old: "core_of h (fds ! i) = Some (of_nat i)" if "i < length fds" "0 \<le> fds ! i" for i
      using open_others [OF o inv [OF that]] .
    show ?thesis
    proof (cases "fd' < 0")
      case True
      with op o \<open>fds ! unat l < 0\<close> wf fds old show ?thesis
        by (auto simp: msr_file_open_def machine_wf_def)
    next
      case False
      with open_core [OF o] have "core_of h fd' = Some (of_nat (unat l))" by simp
      with False op o \<open>fds ! unat l < 0\<close> wf fds old len show ?thesis
        by (auto simp: msr_file_open_def machine_wf_def nth_list_update)
    qed
  qed
  show "regs (m_hw t) = regs (m_hw s)"
    using op by (auto simp: msr_file_open_def Let_def split: prod.splits if_splits dest: open_regs)
  show "core_of (m_hw t) fd = Some l" if "0 \<le> fd"
    using op that len inv [of "unat l"]
    by (auto simp: msr_file_open_def Let_def split: prod.splits if_splits dest: open_core)
qed

lemma read_facts:
  assumes "machine_wf core_of s" and "msr_read E l r s = (x, t)"
  shows "machine_wf core_of t" and "regs (m_hw t) = regs (m_hw s)"
    and "x = Inr v \<Longrightarrow> regs (m_hw s) l r = Some v"
proof -
  have "machine_wf core_of t \<and> regs (m_hw t) = regs (m_hw s) \<and> (\<forall>v. x = Inr v \<longrightarrow> regs (m_hw s) l r = Some v)"
  proof (cases "l < m_maxcores s \<and> m_msr_fd s \<noteq> None")
    case False
    with assms show ?thesis by (auto simp: msr_read_def split: if_splits option.splits)
  next
    case True
    then obtain fds where fds: "m_msr_fd s = Some fds" and l: "l < m_maxcores s" by auto
    obtain fd u where op: "msr_file_open E l fds s = (fd, u)" by fastforce
    note facts = file_open [OF assms(1) fds l op]
    show ?thesis
    proof (cases "fd < 0")
      case True
      with assms(2) facts msr_read_opened [OF l fds op] show ?thesis by auto
    next
      case False
      with facts(3) have c: "core_of (m_hw u) fd = Some l" by simp
      from assms(2) False facts(1,2) pread_regs [OF c, of r] msr_read_opened [OF l fds op] show ?thesis
        by (auto split: option.splits)
    qed
  qed
  then show "machine_wf core_of t" and "regs (m_hw t) = regs (m_hw s)"
    and "x = Inr v \<Longrightarrow> regs (m_hw s) l r = Some v" by blast+
qed

lemma write_facts:
  assumes "machine_wf core_of s" and "msr_write E l r v s = (m, t)"
  shows "machine_wf core_of t"
    and "m = MACHINE_RETVAL_OK \<Longrightarrow> regs (m_hw t) l r = Some v"
    and "r' \<noteq> r \<Longrightarrow> regs (m_hw t) l' r' = regs (m_hw s) l' r'"
    and "m \<noteq> MACHINE_RETVAL_OK \<Longrightarrow> regs (m_hw t) = regs (m_hw s)"
    and "r = PQOS_MSR_ASSOC \<Longrightarrow> l' \<noteq> l \<Longrightarrow> regs (m_hw t) l' r = regs (m_hw s) l' r"
proof -
  let ?P = "machine_wf core_of t \<and> (m = MACHINE_RETVAL_OK \<longrightarrow> regs (m_hw t) l r = Some v) \<and>
    (\<forall>l' r'. r' \<noteq> r \<longrightarrow> regs (m_hw t) l' r' = regs (m_hw s) l' r') \<and>
    (m \<noteq> MACHINE_RETVAL_OK \<longrightarrow> regs (m_hw t) = regs (m_hw s)) \<and>
    (\<forall>l'. r = PQOS_MSR_ASSOC \<and> l' \<noteq> l \<longrightarrow> regs (m_hw t) l' r = regs (m_hw s) l' r)"
  have ?P
  proof (cases "l < m_maxcores s \<and> m_msr_fd s \<noteq> None")
    case False
    with assms show ?thesis by (auto simp: msr_write_def split: if_splits option.splits)
  next
    case True
    then obtain fds where fds: "m_msr_fd s = Some fds" and l: "l < m_maxcores s" by auto
    obtain fd u where op: "msr_file_open E l fds s = (fd, u)" by fastforce
    note facts = file_open [OF assms(1) fds l op]
    show ?thesis
    proof (cases "fd < 0")
      case True
      with assms(2) facts msr_write_opened [OF l fds op] show ?thesis by auto
    next
      case False
      with facts(3) have c: "core_of (m_hw u) fd = Some l" by simp
      obtain b h where pw: "os_pwrite E fd r v (m_hw u) = (b, h)" by fastforce
      from assms(2) False pw msr_write_opened [OF l fds op]
      have t: "t = u\<lparr>m_hw := h\<rparr>" and m: "m = (if b then MACHINE_RETVAL_OK else MACHINE_RETVAL_ERROR)"
        by auto
      have wf: "machine_wf core_of t"
        using facts(1) pwrite_fds [OF pw] by (auto simp: t machine_wf_def split: option.splits)
      show ?thesis
        using wf facts(2) pw
        by (auto simp: t m pwrite_other [OF c] pwrite_same [OF c] pwrite_fail [OF c] pwrite_assoc [OF c])
    qed
  qed
  then show "machine_wf core_of t"
    and "m = MACHINE_RETVAL_OK \<Longrightarrow> regs (m_hw t) l r = Some v"
    and "r' \<noteq> r \<Longrightarrow> regs (m_hw t) l' r' = regs (m_hw s) l' r'"
    and "m \<noteq> MACHINE_RETVAL_OK \<Longrightarrow> regs (m_hw t) = regs (m_hw s)"
    and "r = PQOS_MSR_ASSOC \<Longrightarrow> l' \<noteq> l \<Longrightarrow> regs (m_hw t) l' r = regs (m_hw s) l' r" by blast+
qed

end

lemma msr_read_error: "msr_read E l r s = (Inl e, t) \<Longrightarrow> e \<noteq> MACHINE_RETVAL_OK"
  by (auto simp: msr_read_def split: if_splits option.splits prod.splits)

text \<open>On such a driver, the library's register accesses are a register file.\<close>

sublocale msr_driver \<subseteq> rf: register_file "msr_read E" "msr_write E" "lib_view regs" "machine_wf core_of" same_config
  by unfold_locales
    (auto dest: read_facts write_facts msr_read_keeps msr_write_keeps msr_read_error)

context msr_driver begin

text \<open>Another core's copy of a written register is as before or has the value written.\<close>

lemma write_scope:
  assumes "machine_wf core_of s" and "msr_write E l r v s = (m, t)"
  shows "regs (m_hw t) l' r = regs (m_hw s) l' r \<or> regs (m_hw t) l' r = Some v"
proof (cases "m = MACHINE_RETVAL_OK")
  case False
  with write_facts(4) [OF assms] show ?thesis by simp
next
  case True
  with assms(2) obtain fds where fds: "m_msr_fd s = Some fds" and l: "l < m_maxcores s"
    by (auto simp: msr_write_def split: if_splits option.splits)
  obtain fd u where op: "msr_file_open E l fds s = (fd, u)" by fastforce
  obtain b h where pw: "os_pwrite E fd r v (m_hw u) = (b, h)" by fastforce
  note f = file_open [OF assms(1) fds l op]
  from assms(2) True msr_write_opened [OF l fds op, of r v] pw have fd: "0 \<le> fd" and t: "t = u\<lparr>m_hw := h\<rparr>"
    by (auto split: if_splits)
  from pwrite_scope [OF f(3) [OF fd] pw, of l'] f(2) show ?thesis by (simp add: t)
qed

end

section \<open>Open device files\<close>

text \<open>
  A successful access leaves the core's file open, open files stay open, and on an open
  file a read answers exactly the register's value: after a successful access, reading back
  cannot fail for another reason than a missing register.
\<close>

lemma msr_file_open_mono:
  assumes "m_msr_fd s = Some fds" and "msr_file_open E l fds s = (fd, t)" and "fd_open k s"
  shows "fd_open k t"
proof (cases "fds ! unat l < 0 \<and> k = l")
  case True
  with assms show ?thesis by (auto simp: fd_open_def)
next
  case False
  then have "unat k \<noteq> unat l \<or> 0 \<le> fds ! unat l" by (auto simp: word_unat_eq_iff)
  with assms show ?thesis
    by (auto simp: msr_file_open_def fd_open_def Let_def split: prod.splits if_splits)
qed

lemma msr_read_open_mono:
  assumes "msr_read E l r s = (x, t)" and "fd_open k s"
  shows "fd_open k t"
  using assms msr_file_open_mono
  by (fastforce simp: msr_read_def split: if_splits option.splits prod.splits)

lemma msr_write_open_mono:
  assumes "msr_write E l r v s = (m, t)" and "fd_open k s"
  shows "fd_open k t"
proof -
  have hw: "fd_open k u \<Longrightarrow> fd_open k (u\<lparr>m_hw := h\<rparr>)" for u :: "'a lib" and h
    by (simp add: fd_open_def)
  show ?thesis
    using assms msr_file_open_mono hw
    by (fastforce simp: msr_write_def split: if_splits option.splits prod.splits)
qed

context msr_driver begin

lemma read_open:
  assumes "machine_wf core_of s" and "fd_open l s"
  shows "msr_read E l r s =
    (case regs (m_hw s) l r of None \<Rightarrow> (Inl MACHINE_RETVAL_ERROR, s) | Some v \<Rightarrow> (Inr v, s))"
proof -
  from assms(2) obtain fds where l: "l < m_maxcores s" and fds: "m_msr_fd s = Some fds" and o: "0 \<le> fds ! unat l"
    by (auto simp: fd_open_def)
  have op: "msr_file_open E l fds s = (fds ! unat l, s)" using o by (simp add: msr_file_open_def)
  from file_open(3) [OF assms(1) fds l op o] msr_read_opened [OF l fds op, of r] o show ?thesis
    by (simp add: pread_regs)
qed

lemma file_open_opens:
  assumes "machine_wf core_of s" and "m_msr_fd s = Some fds" and "l < m_maxcores s"
    and "msr_file_open E l fds s = (fd, t)" and "0 \<le> fd"
  shows "fd_open l t"
proof -
  have "unat l < length fds" using assms(1-3) by (auto simp: machine_wf_def word_less_nat_alt)
  with assms(2-5) show ?thesis
    by (auto simp: msr_file_open_def fd_open_def Let_def split: prod.splits if_splits)
qed

lemma write_opens:
  assumes "machine_wf core_of s" and "msr_write E l r v s = (MACHINE_RETVAL_OK, t)"
  shows "fd_open l t"
proof -
  from assms(2) obtain fds where fds: "m_msr_fd s = Some fds" and l: "l < m_maxcores s"
    by (auto simp: msr_write_def split: if_splits option.splits)
  obtain fd u where op: "msr_file_open E l fds s = (fd, u)" by fastforce
  from assms(2) msr_write_opened [OF l fds op, of r v]
  have "0 \<le> fd" and t: "\<exists>h. t = u\<lparr>m_hw := h\<rparr>" by (auto split: if_splits prod.splits)
  from file_open_opens [OF assms(1) fds l op \<open>0 \<le> fd\<close>] t show ?thesis by (auto simp: fd_open_def)
qed

lemma read_opens:
  assumes "machine_wf core_of s" and "msr_read E l r s = (Inr v, t)"
  shows "fd_open l t"
proof -
  from assms(2) obtain fds where fds: "m_msr_fd s = Some fds" and l: "l < m_maxcores s"
    by (auto simp: msr_read_def split: if_splits option.splits)
  obtain fd u where op: "msr_file_open E l fds s = (fd, u)" by fastforce
  from assms(2) msr_read_opened [OF l fds op, of r] have "0 \<le> fd" and "t = u"
    by (auto split: if_splits option.splits)
  with file_open_opens [OF assms(1) fds l op] show ?thesis by simp
qed

end

end
