(* ===== verification/RefPlatform.thy ===== *)
theory RefPlatform
  imports Machine
begin

text \<open>
  A concrete platform that satisfies the assumptions on the MSR driver: descriptors are
  core numbers, every core has its own copy of the registers that exist, and a write to a
  register that does not exist fails. The examples of the development run on it.
\<close>

type_synonym ref_hw = "u32 \<Rightarrow> u32 \<Rightarrow> u64 option"

definition ref_core :: "int \<Rightarrow> u32" where
  "ref_core fd = of_int fd"

definition ref_pwrite :: "int \<Rightarrow> u32 \<Rightarrow> u64 \<Rightarrow> ref_hw \<Rightarrow> bool \<times> ref_hw" where
  "ref_pwrite fd r v h =
     (case h (ref_core fd) r of
        None \<Rightarrow> (False, h)
      | Some _ \<Rightarrow> (True, h(ref_core fd := (h (ref_core fd))(r := Some v))))"

definition ref_platform :: "ref_hw platform" where
  "ref_platform =
     \<lparr>os_open_msr = (\<lambda>l h. (uint l, h)),
      os_pread = (\<lambda>fd r h. h (ref_core fd) r),
      os_pwrite = ref_pwrite,
      os_close = (\<lambda>fd h. h),
      os_cpuid = (\<lambda>leaf subleaf. \<lparr>eax = 0, ebx = 0, ecx = 0, edx = 0\<rparr>),
      os_probe_msr_env = False,
      os_mmap = (\<lambda>addr size h. False),
      mem_ld16 = (\<lambda>addr h. 0), mem_ld32 = (\<lambda>addr h. 0),
      mem_st16 = (\<lambda>addr v h. h), mem_st32 = (\<lambda>addr v h. h)\<rparr>"

definition ref_core_of :: "ref_hw \<Rightarrow> int \<Rightarrow> u32 option" where
  "ref_core_of h fd = Some (ref_core fd)"

definition ref_regs :: "ref_hw \<Rightarrow> u32 \<Rightarrow> u32 \<Rightarrow> u64 option" where
  "ref_regs h = h"

interpretation refdrv: msr_driver ref_platform ref_core_of ref_regs
  by unfold_locales
    (auto simp: ref_platform_def ref_core_of_def ref_core_def ref_regs_def ref_pwrite_def
      split: option.splits if_splits)

section \<open>A sample system\<close>

text \<open>Two sockets with two cores each, four L3 classes and four MBA classes.\<close>

definition sample_core :: "u32 \<Rightarrow> u32 \<Rightarrow> pqos_coreinfo" where
  "sample_core l k = \<lparr>lcore = l, socket = k, l3_id = k, l2_id = l, l3cat_id = k, mba_id = k, numa = k, smba_id = k\<rparr>"

definition sample_cache :: pqos_cacheinfo where
  "sample_cache = \<lparr>detected = True, num_ways = 8, num_sets = 64, num_partitions = 1, line_size = 64,
     total_size = 32768, way_size = 4096\<rparr>"

definition sample_cpu :: pqos_cpuinfo where
  "sample_cpu = \<lparr>cpu_l2 = sample_cache, cpu_l3 = sample_cache, cpu_vendor = PQOS_VENDOR_INTEL,
     cores = [sample_core 0 0, sample_core 1 0, sample_core 2 1, sample_core 3 1]\<rparr>"

definition sample_l3ca :: pqos_cap_l3ca where
  "sample_l3ca = \<lparr>l3_num_classes = 4, l3_num_ways = 8, l3_way_size = 4096, l3_way_contention = 0,
     l3_cdp = True, l3_cdp_on = False, l3_non_contiguous_cbm = False, l3_iordt = False,
     l3_iordt_on = False\<rparr>"

definition sample_mba :: pqos_cap_mba where
  "sample_mba = \<lparr>mba_num_classes = 4, mba_throttle_max = 90, mba_throttle_step = 10, mba_is_linear = True,
     mba_ctrl = -1, mba_ctrl_on = False, mba_mba40 = False, mba_mba40_on = False\<rparr>"

definition sample_config :: cpuinfo_config where
  "sample_config = \<lparr>cpuid_cache_leaf = 4, mba_max = 100, mba_default_val = 0, mba_msr_reg = 0xD50,
     smba_msr_reg = 0\<rparr>"

text \<open>The registers of the sample: association, configuration, class masks, throttling.\<close>

definition sample_hw :: ref_hw where
  "sample_hw = (\<lambda>l r. if r = 0xC8F then Some 0
     else if r = 0xC81 \<or> r = 0xC82 \<or> r = 0xC83 \<or> r = 0xC84 then Some 0
     else if 0xC90 \<le> r \<and> r < 0xC98 then Some 0xff
     else if 0xD10 \<le> r \<and> r < 0xD20 then Some 0xff
     else if 0xD50 \<le> r \<and> r < 0xD60 then Some 0 else None)"

definition sample_lib :: "ref_hw lib" where
  "sample_lib = \<lparr>m_msr_fd = Some [-1, -1, -1, -1], m_maxcores = 4,
     m_cap = [CapL3ca sample_l3ca, CapMba sample_mba], m_cpu = sample_cpu, m_dev = None,
     m_interface = PQOS_INTER_MSR, m_config = sample_config, m_mmioinfo = None, m_hw = sample_hw\<rparr>"

lemma sample_lib_sel [simp]:
  "m_msr_fd sample_lib = Some [-1, -1, -1, -1]" "m_maxcores sample_lib = 4"
  "m_cap sample_lib = [CapL3ca sample_l3ca, CapMba sample_mba]" "m_cpu sample_lib = sample_cpu"
  "m_dev sample_lib = None" "m_interface sample_lib = PQOS_INTER_MSR"
  "m_config sample_lib = sample_config" "m_mmioinfo sample_lib = None" "m_hw sample_lib = sample_hw"
  by (simp_all add: sample_lib_def)

lemma sample_wf: "machine_wf ref_core_of sample_lib"
  by (auto simp: machine_wf_def less_Suc_eq_0_disj)

lemmas sample_defs = sample_lib_def sample_cpu_def sample_core_def sample_l3ca_def sample_mba_def
  sample_cache_def sample_config_def

end
