(* ===== verification/MsrSeq.thy ===== *)
theory MsrSeq
  imports RefPlatform
begin

text \<open>
  Sequences of register writes. The allocation functions program several registers of one
  core in a loop that stops at the first failure; \<open>msr_write_seq\<close> is that pattern, and
  \<open>regs_after\<close> the effect of its complete run on the core's registers.
\<close>

fun msr_write_seq :: "'h platform \<Rightarrow> u32 \<Rightarrow> (u32 \<times> u64) list \<Rightarrow> 'h lib \<Rightarrow> machine_retval \<times> 'h lib" where
  "msr_write_seq E l [] s = (MACHINE_RETVAL_OK, s)"
| "msr_write_seq E l ((r, v) # ws) s =
     (case msr_write E l r v s of (m, s) \<Rightarrow>
        if m \<noteq> MACHINE_RETVAL_OK then (m, s) else msr_write_seq E l ws s)"

fun regs_after :: "(u32 \<times> u64) list \<Rightarrow> (u32 \<Rightarrow> u64 option) \<Rightarrow> u32 \<Rightarrow> u64 option" where
  "regs_after [] f = f"
| "regs_after ((r, v) # ws) f = regs_after ws (f(r \<mapsto> v))"

lemma regs_after_other: "r \<notin> fst ` set ws \<Longrightarrow> regs_after ws f r = f r"
  by (induction ws f rule: regs_after.induct) auto

lemma regs_after_cong: "f r = g r \<Longrightarrow> regs_after ws f r = regs_after ws g r"
proof (induction ws arbitrary: f g)
  case (Cons a ws)
  obtain q v where a: "a = (q, v)" by fastforce
  have "(f(q \<mapsto> v)) r = (g(q \<mapsto> v)) r" using Cons.prems by simp
  from Cons.IH [of "f(q \<mapsto> v)" "g(q \<mapsto> v)", OF this] show ?case by (simp only: a regs_after.simps)
qed simp

lemma regs_after_last: "distinct (map fst ws) \<Longrightarrow> (r, v) \<in> set ws \<Longrightarrow> regs_after ws f r = Some v"
proof (induction ws arbitrary: f)
  case (Cons a ws)
  then show ?case
    by (cases a; cases "r \<in> fst ` set ws") (auto simp: regs_after_other image_iff)
qed simp

lemma regs_after_exists: "f r \<noteq> None \<Longrightarrow> regs_after ws f r \<noteq> None"
proof (induction ws arbitrary: f)
  case (Cons a ws)
  then show ?case by (cases a) (auto simp del: not_None_eq)
qed simp

context msr_driver begin

lemma write_seq_facts:
  assumes "machine_wf core_of s" and "msr_write_seq E l ws s = (m, t)"
  shows "machine_wf core_of t" and "same_config s t"
    and "r \<notin> fst ` set ws \<Longrightarrow> regs (m_hw t) l' r = regs (m_hw s) l' r"
    and "m = MACHINE_RETVAL_OK \<Longrightarrow> regs (m_hw t) l r = regs_after ws (regs (m_hw s) l) r"
    and "m = MACHINE_RETVAL_OK \<Longrightarrow> ws \<noteq> [] \<Longrightarrow> fd_open l t"
proof -
  have "machine_wf core_of t \<and> same_config s t \<and>
    (\<forall>l' r. r \<notin> fst ` set ws \<longrightarrow> regs (m_hw t) l' r = regs (m_hw s) l' r) \<and>
    (m = MACHINE_RETVAL_OK \<longrightarrow> (\<forall>r. regs (m_hw t) l r = regs_after ws (regs (m_hw s) l) r)) \<and>
    (m = MACHINE_RETVAL_OK \<longrightarrow> ws \<noteq> [] \<or> fd_open l s \<longrightarrow> fd_open l t)"
    using assms
  proof (induction ws arbitrary: s)
    case Nil
    then show ?case by simp
  next
    case (Cons a ws)
    obtain q v where a: "a = (q, v)" by fastforce
    obtain n u where wr: "msr_write E l q v s = (n, u)" by fastforce
    note f = write_facts [OF Cons.prems(1) wr] msr_write_keeps [OF wr]
    show ?case
    proof (cases "n = MACHINE_RETVAL_OK")
      case False
      with Cons.prems a wr f(1,4,6) show ?thesis by auto
    next
      case True
      with Cons.prems(2) a wr have "msr_write_seq E l ws u = (m, t)" by simp
      note ih = Cons.IH [OF f(1) this]
      have op: "fd_open l u" using write_opens [OF Cons.prems(1)] wr True by simp
      have upd: "regs (m_hw u) l r = ((regs (m_hw s) l)(q \<mapsto> v)) r" for r
        using f(2) [OF True] f(3) [where l' = l and r' = r] by auto
      have "regs_after ws (regs (m_hw u) l) r = regs_after (a # ws) (regs (m_hw s) l) r" for r
        using regs_after_cong [of "regs (m_hw u) l" r "(regs (m_hw s) l)(q \<mapsto> v)" ws] upd by (simp add: a)
      moreover have "regs (m_hw t) l' r = regs (m_hw s) l' r" if "r \<notin> fst ` set (a # ws)" for l' r
        using ih f(3) [where l' = l' and r' = r] that a by auto
      moreover have "same_config s t" using ih f(6) by (blast intro: same_config_trans)
      ultimately show ?thesis using ih op by auto
    qed
  qed
  then show "machine_wf core_of t" and "same_config s t"
    and "r \<notin> fst ` set ws \<Longrightarrow> regs (m_hw t) l' r = regs (m_hw s) l' r"
    and "m = MACHINE_RETVAL_OK \<Longrightarrow> regs (m_hw t) l r = regs_after ws (regs (m_hw s) l) r"
    and "m = MACHINE_RETVAL_OK \<Longrightarrow> ws \<noteq> [] \<Longrightarrow> fd_open l t" by blast+
qed

end

end
