(* ===== verification/Bitmask.thy ===== *)
theory Bitmask
  imports PqosTypes
begin

text \<open>
  The test for contiguous capacity bit masks (\<open>alloc_is_bitmask_contiguous\<close> of
  \<open>lib/allocation.c\<close>). Its two loops are partial functions, so that a loop that does not
  end is the value \<open>None\<close>; they are shown to end, and the answer to be the specification
  \<open>contiguous\<close>.
\<close>

partial_function (option) skip_zeros :: "u64 \<Rightarrow> u64 option" where
  "skip_zeros bitmask = (if bitmask AND 1 = 0 then skip_zeros (drop_bit (Suc 0) bitmask) else Some bitmask)"

partial_function (option) skip_ones :: "u64 \<Rightarrow> u64 option" where
  "skip_ones bitmask = (if bitmask AND 1 \<noteq> 0 then skip_ones (drop_bit (Suc 0) bitmask) else Some bitmask)"

declare skip_zeros.simps [code] skip_ones.simps [code]

definition alloc_is_bitmask_contiguous :: "u64 \<Rightarrow> bool option" where
  "alloc_is_bitmask_contiguous bitmask =
     (if bitmask = 0 then Some False
      else (case skip_zeros bitmask of
              None \<Rightarrow> None
            | Some bitmask \<Rightarrow>
                (case skip_ones bitmask of
                   None \<Rightarrow> None
                 | Some bitmask \<Rightarrow> Some (bitmask = 0))))"

text \<open>One run of set bits.\<close>

definition contiguous :: "u64 \<Rightarrow> bool" where
  "contiguous m \<longleftrightarrow> (\<exists>lo hi. lo < hi \<and> hi \<le> 64 \<and> (\<forall>i. bit m i \<longleftrightarrow> lo \<le> i \<and> i < hi))"

section \<open>The loops end\<close>

lemma unat_drop_bit_1_less:
  assumes "m \<noteq> (0 :: u64)"
  shows "unat (drop_bit (Suc 0) m) < unat m"
proof -
  have "unat (drop_bit (Suc 0) m) = unat m div 2"
    by (simp add: drop_bit_Suc unat_div)
  moreover from assms have "0 < unat m" by (simp add: unat_gt_0)
  ultimately show ?thesis by simp
qed

lemma bit_drop_1 [simp]: "bit (drop_bit (Suc 0) (m :: u64)) i \<longleftrightarrow> bit m (Suc i)"
  by (simp add: bit_drop_bit_eq del: drop_bit_Suc)

lemma drop_bit_1_nonzero: "m \<noteq> (0 :: u64) \<Longrightarrow> \<not> bit m 0 \<Longrightarrow> drop_bit (Suc 0) m \<noteq> 0"
  by (metis bit_drop_1 bit_eq_iff bit_0_eq bot_apply bot_bool_def not0_implies_Suc)

lemma and_1_iff_bit: "(m :: u64) AND 1 = 0 \<longleftrightarrow> \<not> bit m 0"
  by (simp add: and_one_eq bit_0 even_iff_mod_2_eq_zero)

lemma skip_zeros_ends:
  "m \<noteq> 0 \<Longrightarrow> \<exists>k. skip_zeros m = Some (drop_bit k m) \<and> bit m k \<and> (\<forall>i<k. \<not> bit m i)"
proof (induction "unat m" arbitrary: m rule: less_induct)
  case less
  show ?case
  proof (cases "bit m 0")
    case True
    then show ?thesis by (intro exI [of _ 0]) (simp add: skip_zeros.simps and_1_iff_bit)
  next
    case False
    from less.hyps [OF unat_drop_bit_1_less [OF less.prems] drop_bit_1_nonzero [OF less.prems False]] obtain k
      where k: "skip_zeros (drop_bit (Suc 0) m) = Some (drop_bit k (drop_bit (Suc 0) m))"
        "bit (drop_bit (Suc 0) m) k" "\<forall>i<k. \<not> bit (drop_bit (Suc 0) m) i" by blast
    have "\<not> bit m i" if "i < Suc k" for i
      using False k(3) that by (cases i) (auto simp del: bit_0)
    with k(1,2) False show ?thesis
      by (intro exI [of _ "Suc k"]) (subst skip_zeros.simps, simp add: and_1_iff_bit del: bit_0 drop_bit_Suc)
  qed
qed

lemma skip_ones_ends:
  "\<exists>n. skip_ones m = Some (drop_bit n m) \<and> \<not> bit m n \<and> (\<forall>i<n. bit m i)"
proof (induction "unat m" arbitrary: m rule: less_induct)
  case less
  show ?case
  proof (cases "bit m 0")
    case False
    then show ?thesis by (intro exI [of _ 0]) (simp add: skip_ones.simps and_1_iff_bit)
  next
    case True
    then have "m \<noteq> 0" by auto
    from less.hyps [OF unat_drop_bit_1_less [OF this]] obtain n
      where n: "skip_ones (drop_bit (Suc 0) m) = Some (drop_bit n (drop_bit (Suc 0) m))"
        "\<not> bit (drop_bit (Suc 0) m) n" "\<forall>i<n. bit (drop_bit (Suc 0) m) i" by blast
    have "bit m i" if "i < Suc n" for i
      using True n(3) that by (cases i) (auto simp del: bit_0)
    with n(1,2) True show ?thesis
      by (intro exI [of _ "Suc n"]) (subst skip_ones.simps, simp add: and_1_iff_bit del: bit_0 drop_bit_Suc)
  qed
qed

lemma contiguous_run:
  assumes "bit m k" and "\<forall>i<k. \<not> bit m i" and "\<not> bit m (k + n)" and "\<forall>i<n. bit m (k + i)"
  shows "contiguous m \<longleftrightarrow> drop_bit (k + n) m = 0"
proof
  assume "contiguous m"
  then obtain lo hi where b: "\<And>i. bit m i \<longleftrightarrow> lo \<le> i \<and> i < hi" by (auto simp: contiguous_def)
  have "\<not> bit m (k + n + i)" for i using assms(1,3) by (auto simp: b)
  then show "drop_bit (k + n) m = 0" by (auto simp: bit_eq_iff bit_simps)
next
  assume z: "drop_bit (k + n) m = 0"
  have hi: "\<not> bit m i" if "k + n \<le> i" for i
  proof -
    from that obtain j where "i = k + n + j" using le_iff_add by blast
    moreover have "\<not> bit (drop_bit (k + n) m) j" using z by simp
    ultimately show ?thesis by (simp add: bit_simps)
  qed
  have run: "bit m i" if "k \<le> i" "i < k + n" for i
    using assms(4) that by (metis add_diff_inverse_nat leD nat_add_left_cancel_less)
  have "0 < n" using assms(1,3) by (cases n) auto
  then have "bit m (k + n - 1)" using run by auto
  then have "k + n \<le> 64" using bit_imp_le_length [of m "k + n - 1"] \<open>0 < n\<close> by simp
  moreover have "bit m i \<longleftrightarrow> k \<le> i \<and> i < k + n" for i
    using assms(2) hi run by (meson not_le)
  ultimately show "contiguous m" using \<open>0 < n\<close>
    unfolding contiguous_def by (intro exI [of _ k] exI [of _ "k + n"] conjI allI) simp_all
qed

text \<open>
  C39. \<open>alloc_is_bitmask_contiguous\<close> always returns, and it answers true exactly for masks
  whose set bits are one non-empty run.
\<close>

theorem bitmask_contiguous_correct: "alloc_is_bitmask_contiguous m = Some (contiguous m)"
proof (cases "m = 0")
  case True
  then show ?thesis by (auto simp: alloc_is_bitmask_contiguous_def contiguous_def)
next
  case False
  from skip_zeros_ends [OF this] obtain k where k: "skip_zeros m = Some (drop_bit k m)"
    "bit m k" "\<forall>i<k. \<not> bit m i" by blast
  from skip_ones_ends [of "drop_bit k m"] obtain n where n: "skip_ones (drop_bit k m) = Some (drop_bit n (drop_bit k m))"
    "\<not> bit (drop_bit k m) n" "\<forall>i<n. bit (drop_bit k m) i" by blast
  have "contiguous m \<longleftrightarrow> drop_bit (k + n) m = 0"
    by (rule contiguous_run) (use k n in \<open>auto simp: bit_simps\<close>)
  with False k n show ?thesis by (simp add: alloc_is_bitmask_contiguous_def add.commute)
qed

end
