(* ===== verification/DevInfo.thy ===== *)
theory DevInfo
  imports PqosTypes
begin

text \<open>
  Queries on I/O devices and their channels (the \<open>pqos_devinfo_*\<close> functions of
  \<open>lib/utils.c\<close>). A table that is NULL has no entries.
\<close>

definition table :: "'a list option \<Rightarrow> 'a list" where
  "table t = (case t of None \<Rightarrow> [] | Some xs \<Rightarrow> xs)"

fun dev_loop :: "u16 \<Rightarrow> u16 \<Rightarrow> pqos_dev list \<Rightarrow> pqos_dev option" where
  "dev_loop segment bdf [] = None"
| "dev_loop segment bdf (d # ds) =
     (if dev_segment d \<noteq> segment then dev_loop segment bdf ds
      else if dev_bdf d \<noteq> bdf then dev_loop segment bdf ds
      else Some d)"

definition pqos_devinfo_get_channel_id :: "pqos_devinfo option \<Rightarrow> u16 \<Rightarrow> u16 \<Rightarrow> u32 \<Rightarrow> pqos_channel_t" where
  "pqos_devinfo_get_channel_id devinfo segment bdf vc =
     (case devinfo of None \<Rightarrow> 0
      | Some di \<Rightarrow>
          if devs di = None \<or> PQOS_DEV_MAX_CHANNELS \<le> unat vc then 0
          else (case dev_loop segment bdf (table (devs di)) of
                  None \<Rightarrow> 0
                | Some d \<Rightarrow> dev_channel d ! unat vc))"

text \<open>The inner loop that grows the result array.\<close>

fun channel_ids_loop :: "pqos_channel_t list \<Rightarrow> pqos_channel_t list \<Rightarrow> pqos_channel_t list" where
  "channel_ids_loop [] acc = acc"
| "channel_ids_loop (c # cs) acc =
     (if c = 0 then channel_ids_loop cs acc else channel_ids_loop cs (acc @ [c]))"

text \<open>
  The returned array and the count stored in \<open>*num_channels\<close> (\<open>None\<close> where nothing is
  stored). The array stays NULL when the device has no channel.
\<close>

definition pqos_devinfo_get_channel_ids ::
  "pqos_devinfo option \<Rightarrow> u16 \<Rightarrow> u16 \<Rightarrow> pqos_channel_t list option \<times> nat option" where
  "pqos_devinfo_get_channel_ids devinfo segment bdf =
     (case devinfo of None \<Rightarrow> (None, None)
      | Some di \<Rightarrow>
          if devs di = None then (None, None)
          else (case dev_loop segment bdf (table (devs di)) of
                  None \<Rightarrow> (None, None)
                | Some d \<Rightarrow>
                    (let chans = channel_ids_loop (take PQOS_DEV_MAX_CHANNELS (dev_channel d)) []
                     in (if chans = [] then None else Some chans, Some (length chans)))))"

definition pqos_devinfo_get_channel :: "pqos_devinfo option \<Rightarrow> pqos_channel_t \<Rightarrow> pqos_channel option" where
  "pqos_devinfo_get_channel dev ch =
     (case dev of None \<Rightarrow> None
      | Some di \<Rightarrow>
          if ch = 0 \<or> length (table (channels di)) = 0 \<or> channels di = None then None
          else List.find (\<lambda>c. channel_id c = ch) (table (channels di)))"

text \<open>
  The counting loops of \<open>pqos_devinfo_get_channel_shared\<close>; \<open>None\<close> is the early return
  once the count exceeds one.
\<close>

fun shared_channels :: "pqos_channel_t \<Rightarrow> pqos_channel_t list \<Rightarrow> nat \<Rightarrow> nat option" where
  "shared_channels ch [] count = Some count"
| "shared_channels ch (c # cs) count =
     (if c = ch then (if 1 < Suc count then None else shared_channels ch cs (Suc count))
      else shared_channels ch cs count)"

fun shared_devs :: "pqos_channel_t \<Rightarrow> pqos_dev list \<Rightarrow> nat \<Rightarrow> nat option" where
  "shared_devs ch [] count = Some count"
| "shared_devs ch (d # ds) count =
     (case shared_channels ch (take PQOS_DEV_MAX_CHANNELS (dev_channel d)) count of
        None \<Rightarrow> None
      | Some count \<Rightarrow> shared_devs ch ds count)"

definition pqos_devinfo_get_channel_shared :: "pqos_devinfo option \<Rightarrow> pqos_channel_t \<Rightarrow> bool res" where
  "pqos_devinfo_get_channel_shared dev ch =
     (case dev of None \<Rightarrow> Inl PQOS_RETVAL_PARAM
      | Some di \<Rightarrow>
          (case shared_devs ch (table (devs di)) 0 of
             None \<Rightarrow> Inr True
           | Some count \<Rightarrow> if count = 1 then Inr False else Inl PQOS_RETVAL_PARAM))"

text \<open>Channels and their domains (\<open>struct pqos_channels_domains\<close>): the two arrays run in parallel.\<close>

record pqos_channels_domains =
  cd_channel_ids :: "pqos_channel_t list"
  cd_domain_ids :: "u16 list"

fun domain_loop :: "pqos_channel_t \<Rightarrow> pqos_channel_t list \<Rightarrow> u16 list \<Rightarrow> u16 option" where
  "domain_loop ch (c # cs) (d # ds) = (if ch = c then Some d else domain_loop ch cs ds)"
| "domain_loop ch _ _ = None"

definition pqos_devinfo_get_domain_id ::
  "pqos_channels_domains option \<Rightarrow> pqos_devinfo option \<Rightarrow> u16 \<Rightarrow> u16 \<Rightarrow> u16 res" where
  "pqos_devinfo_get_domain_id channels_domains devinfo segment bdf =
     (case (channels_domains, devinfo) of
        (Some cd, Some di) \<Rightarrow>
          if devs di = None then Inl PQOS_RETVAL_PARAM
          else (let channel = pqos_devinfo_get_channel_id devinfo segment bdf 0
                in case domain_loop channel (cd_channel_ids cd) (cd_domain_ids cd) of
                     Some d \<Rightarrow> Inr d
                   | None \<Rightarrow> Inl PQOS_RETVAL_UNAVAILABLE)
      | _ \<Rightarrow> Inl PQOS_RETVAL_PARAM)"

section \<open>The loops\<close>

lemma dev_loop_find:
  "dev_loop segment bdf ds = List.find (\<lambda>d. dev_segment d = segment \<and> dev_bdf d = bdf) ds"
  by (induction ds) auto

lemma channel_ids_loop_filter: "channel_ids_loop cs acc = acc @ filter (\<lambda>c. c \<noteq> 0) cs"
  by (induction cs arbitrary: acc) auto

lemma shared_channels_count:
  "count \<le> 1 \<Longrightarrow> shared_channels ch cs count =
     (if count + count_list cs ch \<le> 1 then Some (count + count_list cs ch) else None)"
  by (induction cs arbitrary: count) auto

text \<open>The entries of all devices' channel tables.\<close>

definition all_channels :: "pqos_dev list \<Rightarrow> pqos_channel_t list" where
  "all_channels ds = concat (map (\<lambda>d. take PQOS_DEV_MAX_CHANNELS (dev_channel d)) ds)"

lemma shared_devs_count:
  "count \<le> 1 \<Longrightarrow> shared_devs ch ds count =
     (if count + count_list (all_channels ds) ch \<le> 1 then Some (count + count_list (all_channels ds) ch) else None)"
proof (induction ds arbitrary: count)
  case (Cons d ds)
  let ?n = "count_list (take PQOS_DEV_MAX_CHANNELS (dev_channel d)) ch"
  show ?case
    using Cons.IH [of "count + ?n"] Cons.prems
    by (auto simp: shared_channels_count all_channels_def)
qed (simp add: all_channels_def)

section \<open>Properties\<close>

text \<open>
  \<open>pqos_devinfo_get_channel_shared\<close> answers whether a channel occurs more than once in
  the channel tables of all devices, stopping early without changing the answer; it
  refuses a channel that occurs nowhere.
\<close>

theorem channel_shared_correct:
  "pqos_devinfo_get_channel_shared (Some di) ch =
     (let n = count_list (all_channels (table (devs di))) ch
      in if n = 0 then Inl PQOS_RETVAL_PARAM else Inr (1 < n))"
  by (auto simp: pqos_devinfo_get_channel_shared_def shared_devs_count Let_def)

text \<open>
  The list of a device's channels agrees with the queries by virtual channel:
  \<open>pqos_devinfo_get_channel_ids\<close> delivers the non-zero answers of
  \<open>pqos_devinfo_get_channel_id\<close> for the virtual channels in order, a NULL array when
  there is none, and stores the number of them.
\<close>

theorem channel_ids_agree:
  assumes "devs di = Some ds" and "\<forall>d\<in>set ds. wf_dev d"
    and "d \<in> set ds" and "dev_segment d = segment" and "dev_bdf d = bdf"
  shows "pqos_devinfo_get_channel_ids (Some di) segment bdf =
    (let ids = filter (\<lambda>c. c \<noteq> 0)
        (map (\<lambda>vc. pqos_devinfo_get_channel_id (Some di) segment bdf (of_nat vc)) [0..<PQOS_DEV_MAX_CHANNELS])
     in (if ids = [] then None else Some ids, Some (length ids)))"
proof -
  from assms(3-5) obtain e where e: "dev_loop segment bdf ds = Some e"
    using find_Some_ex [of ds "\<lambda>d. dev_segment d = segment \<and> dev_bdf d = bdf"] by (auto simp: dev_loop_find)
  with assms(2) have wf: "length (dev_channel e) = PQOS_DEV_MAX_CHANNELS"
    by (auto simp: dev_loop_find wf_dev_def dest: find_SomeD)
  have "pqos_devinfo_get_channel_id (Some di) segment bdf (of_nat vc) = dev_channel e ! vc"
    if "vc < PQOS_DEV_MAX_CHANNELS" for vc
    using that e assms(1) unat_of_nat_u32 [of vc]
    by (simp add: pqos_devinfo_get_channel_id_def table_def PQOS_DEV_MAX_CHANNELS_def)
  then have "map (\<lambda>vc. pqos_devinfo_get_channel_id (Some di) segment bdf (of_nat vc)) [0..<PQOS_DEV_MAX_CHANNELS]
      = dev_channel e"
    using wf by (intro nth_equalityI) auto
  with e assms(1) wf show ?thesis
    by (simp add: pqos_devinfo_get_channel_ids_def table_def channel_ids_loop_filter Let_def)
qed

definition sample_dev :: pqos_dev where
  "sample_dev = \<lparr>dev_segment = 0, dev_bdf = 0x10, dev_channel = [5, 0, 7, 0, 0, 0, 0, 0]\<rparr>"

theorem channel_ids_agree_witness:
  "pqos_devinfo_get_channel_ids (Some \<lparr>channels = None, devs = Some [sample_dev]\<rparr>) 0 0x10 = (Some [5, 7], Some 2)"
proof -
  let ?di = "\<lparr>channels = None, devs = Some [sample_dev]\<rparr>"
  have flt: "filter (\<lambda>c. c \<noteq> 0)
      (map (\<lambda>vc. pqos_devinfo_get_channel_id (Some ?di) 0 0x10 (of_nat vc)) [0..<PQOS_DEV_MAX_CHANNELS]) = [5, 7]"
    by code_simp
  have "wf_dev sample_dev" and "dev_segment sample_dev = 0" and "dev_bdf sample_dev = 0x10" by code_simp+
  then show ?thesis
    using channel_ids_agree [of ?di "[sample_dev]" sample_dev 0 "0x10"] unfolding flt Let_def by simp
qed

end
