(* ===== verification/HwAssoc.thy ===== *)
theory HwAssoc
  imports Topology Capability RefPlatform
begin

text \<open>
  Association of logical cores with classes of service through the MSR interface (the
  \<open>hw_alloc_assoc_*\<close>, \<open>hw_alloc_assign\<close> and \<open>hw_alloc_release\<close> functions of
  \<open>lib/allocation.c\<close>).
\<close>

section \<open>The association register\<close>

definition hw_alloc_assoc_read :: "'h platform \<Rightarrow> u32 \<Rightarrow> 'h lib \<Rightarrow> u32 res \<times> 'h lib" where
  "hw_alloc_assoc_read E l s =
     (case msr_read E l PQOS_MSR_ASSOC s of
        (Inl _, s) \<Rightarrow> (Inl PQOS_RETVAL_ERROR, s)
      | (Inr val, s) \<Rightarrow> (Inr (ucast (drop_bit PQOS_MSR_ASSOC_QECLOS_SHIFT val)), s))"

definition hw_alloc_assoc_write :: "'h platform \<Rightarrow> u32 \<Rightarrow> u32 \<Rightarrow> 'h lib \<Rightarrow> retval \<times> 'h lib" where
  "hw_alloc_assoc_write E l class_id s =
     (case msr_read E l PQOS_MSR_ASSOC s of
        (Inl _, s) \<Rightarrow> (PQOS_RETVAL_ERROR, s)
      | (Inr val, s) \<Rightarrow>
          (let val = val AND NOT PQOS_MSR_ASSOC_QECLOS_MASK;
               val = val OR push_bit PQOS_MSR_ASSOC_QECLOS_SHIFT (ucast class_id :: u64)
           in case msr_write E l PQOS_MSR_ASSOC val s of
                (MACHINE_RETVAL_OK, s) \<Rightarrow> (PQOS_RETVAL_OK, s)
              | (_, s) \<Rightarrow> (PQOS_RETVAL_ERROR, s)))"

section \<open>Finding an unused class\<close>

definition tech_req :: "pqos_cap_type \<Rightarrow> u32 \<Rightarrow> bool" where
  "tech_req ty technology = (technology AND push_bit (cap_type_num ty) 1 \<noteq> 0)"

text \<open>
  The local variables of \<open>hw_alloc_assoc_unused\<close> that stay fixed once the scope of the
  search is known; an id with its \<open>_set\<close> flag is an option.
\<close>

record assoc_scope =
  sc_l3cat_id :: "u32 option"
  sc_mba_id :: "u32 option"
  sc_smba_id :: "u32 option"
  sc_l2cat_id :: "u32 option"
  sc_num_clos :: u32
  sc_num_l3_clos :: u32
  sc_num_mba_clos :: u32
  sc_num_smba_clos :: u32

definition num_clos_requested :: "u32 \<Rightarrow> u32 \<Rightarrow> u32 \<Rightarrow> u32 \<Rightarrow> u32 \<Rightarrow> u32" where
  "num_clos_requested technology n_l3 n_l2 n_mba n_smba =
     (let n = (if tech_req PQOS_CAP_TYPE_L3CA technology then n_l3 else 0);
          n = (if tech_req PQOS_CAP_TYPE_L2CA technology \<and> (n = 0 \<or> n_l2 < n) then n_l2 else n);
          n = (if tech_req PQOS_CAP_TYPE_MBA technology \<and> (n = 0 \<or> n_mba < n) then n_mba else n)
      in if tech_req PQOS_CAP_TYPE_SMBA technology \<and> (n = 0 \<or> n_smba < n) then n_smba else n)"

text \<open>The loop that takes over the L3, MBA or SMBA id of a core of the L2 cluster.\<close>

fun l2_cluster_scope ::
  "u32 \<Rightarrow> u32 \<Rightarrow> u32 \<Rightarrow> u32 \<Rightarrow> pqos_coreinfo list \<Rightarrow> u32 option \<times> u32 option \<times> u32 option" where
  "l2_cluster_scope l2 n_l3 n_mba n_smba [] = (None, None, None)"
| "l2_cluster_scope l2 n_l3 n_mba n_smba (c # cs) =
     (if l2_id c = l2 then
        if 0 < n_l3 then (Some (l3cat_id c), None, None)
        else if 0 < n_mba then (None, Some (mba_id c), None)
        else if 0 < n_smba then (None, None, Some (smba_id c))
        else l2_cluster_scope l2 n_l3 n_mba n_smba cs
      else l2_cluster_scope l2 n_l3 n_mba n_smba cs)"

text \<open>The tests of the marking loop: which cores it reads, and which classes it marks.\<close>

definition in_scope :: "assoc_scope \<Rightarrow> pqos_coreinfo \<Rightarrow> bool" where
  "in_scope sc c \<longleftrightarrow>
     (sc_l3cat_id sc = None \<or> sc_l3cat_id sc = Some (l3cat_id c)) \<and>
     (sc_mba_id sc = None \<or> sc_mba_id sc = Some (mba_id c)) \<and>
     (sc_smba_id sc = None \<or> sc_smba_id sc = Some (smba_id c))"

definition l2_only_elsewhere :: "assoc_scope \<Rightarrow> pqos_coreinfo \<Rightarrow> u32 \<Rightarrow> bool" where
  "l2_only_elsewhere sc c clos \<longleftrightarrow>
     sc_num_l3_clos sc \<le> clos \<and> sc_num_mba_clos sc \<le> clos \<and> sc_num_smba_clos sc \<le> clos \<and>
     (\<exists>l2\<in>set_option (sc_l2cat_id sc). l2_id c \<noteq> l2)"

fun mark_used :: "'h platform \<Rightarrow> assoc_scope \<Rightarrow> pqos_coreinfo list \<Rightarrow> bool list \<Rightarrow> 'h lib
    \<Rightarrow> bool list res \<times> 'h lib" where
  "mark_used E sc [] used s = (Inr used, s)"
| "mark_used E sc (c # cs) used s =
     (if \<not> in_scope sc c then mark_used E sc cs used s
      else (case hw_alloc_assoc_read E (lcore c) s of
              (Inl e, s) \<Rightarrow> (Inl e, s)
            | (Inr clos, s) \<Rightarrow>
                if sc_num_clos sc \<le> clos then mark_used E sc cs used s
                else if l2_only_elsewhere sc c clos then mark_used E sc cs used s
                else mark_used E sc cs (used[unat clos := True]) s))"

text \<open>The downward search for a class that is not marked; it stops before class 0.\<close>

fun find_unused :: "bool list \<Rightarrow> nat \<Rightarrow> nat option" where
  "find_unused used 0 = None"
| "find_unused used (Suc n) = (if \<not> used ! Suc n then Some (Suc n) else find_unused used n)"

text \<open>The scope of the search: the ids to match and the class counts.\<close>

definition assoc_scope_of ::
  "u32 \<Rightarrow> u32 \<Rightarrow> u32 \<Rightarrow> u32 \<Rightarrow> u32 \<Rightarrow> u32 \<Rightarrow> u32 \<Rightarrow> u32 \<Rightarrow> u32 \<Rightarrow> pqos_coreinfo list \<Rightarrow> assoc_scope" where
  "assoc_scope_of technology l3 l2 mba smba n_l3 n_l2 n_mba n_smba cs =
     (let l3_req = tech_req PQOS_CAP_TYPE_L3CA technology;
          l2_req = tech_req PQOS_CAP_TYPE_L2CA technology;
          mba_req = tech_req PQOS_CAP_TYPE_MBA technology;
          smba_req = tech_req PQOS_CAP_TYPE_SMBA technology;
          ids = (if l2_req \<and> \<not> l3_req \<and> \<not> mba_req \<and> \<not> smba_req
                 then l2_cluster_scope l2 n_l3 n_mba n_smba cs
                 else (if l3_req then Some l3 else None,
                       if mba_req then Some mba else None,
                       if smba_req then Some smba else None))
      in \<lparr>sc_l3cat_id = fst ids, sc_mba_id = fst (snd ids), sc_smba_id = snd (snd ids),
          sc_l2cat_id = (if l2_req then Some l2 else None),
          sc_num_clos = num_clos_requested technology n_l3 n_l2 n_mba n_smba,
          sc_num_l3_clos = n_l3, sc_num_mba_clos = n_mba, sc_num_smba_clos = n_smba\<rparr>)"

definition hw_alloc_assoc_unused ::
  "'h platform \<Rightarrow> u32 \<Rightarrow> u32 \<Rightarrow> u32 \<Rightarrow> u32 \<Rightarrow> u32 \<Rightarrow> 'h lib \<Rightarrow> u32 res \<times> 'h lib" where
  "hw_alloc_assoc_unused E technology l3 l2 mba smba s =
     (let cap = Some (m_cap s)
      in case clos_num_or_zero (pqos_l3ca_get_clos_num cap) of Inl e \<Rightarrow> (Inl e, s) | Inr n_l3 \<Rightarrow>
         (case clos_num_or_zero (pqos_l2ca_get_clos_num cap) of Inl e \<Rightarrow> (Inl e, s) | Inr n_l2 \<Rightarrow>
         (case clos_num_or_zero (pqos_mba_get_clos_num cap) of Inl e \<Rightarrow> (Inl e, s) | Inr n_mba \<Rightarrow>
         (case clos_num_or_zero (pqos_smba_get_clos_num cap) of Inl e \<Rightarrow> (Inl e, s) | Inr n_smba \<Rightarrow>
           (let sc = assoc_scope_of technology l3 l2 mba smba n_l3 n_l2 n_mba n_smba (cores (m_cpu s))
            in if sc_num_clos sc = 0 then (Inl PQOS_RETVAL_ERROR, s)
               else (case mark_used E sc (cores (m_cpu s)) (replicate PQOS_MAX_CLOS False) s of
                       (Inl e, s) \<Rightarrow> (Inl e, s)
                     | (Inr used, s) \<Rightarrow>
                         (case find_unused used (unat (sc_num_clos sc) - 1) of
                            None \<Rightarrow> (Inl PQOS_RETVAL_RESOURCE, s)
                          | Some clos \<Rightarrow> (Inr (of_nat clos), s))))))))"

section \<open>Association requests\<close>

definition hw_alloc_assoc_set :: "'h platform \<Rightarrow> u32 \<Rightarrow> u32 \<Rightarrow> 'h lib \<Rightarrow> retval \<times> 'h lib" where
  "hw_alloc_assoc_set E l class_id s =
     (let cap = Some (m_cap s)
      in if pqos_cpu_check_core (Some (m_cpu s)) l \<noteq> PQOS_RETVAL_OK then (PQOS_RETVAL_PARAM, s)
         else (case clos_num_or_zero (pqos_l3ca_get_clos_num cap) of Inl e \<Rightarrow> (e, s) | Inr n_l3 \<Rightarrow>
              (case clos_num_or_zero (pqos_l2ca_get_clos_num cap) of Inl e \<Rightarrow> (e, s) | Inr n_l2 \<Rightarrow>
              (case clos_num_or_zero (pqos_mba_get_clos_num cap) of Inl e \<Rightarrow> (e, s) | Inr n_mba \<Rightarrow>
                if n_l3 \<le> class_id \<and> n_l2 \<le> class_id \<and> n_mba \<le> class_id
                then (PQOS_RETVAL_PARAM, s)
                else hw_alloc_assoc_write E l class_id s))))"

text \<open>\<open>cap_absent\<close>: the lookup leaves the item pointer NULL; other errors are returned.\<close>

definition optional_cap :: "pqos_cap \<Rightarrow> pqos_cap_type \<Rightarrow> pqos_capability option res" where
  "optional_cap cap ty =
     (case pqos_cap_get_type (Some cap) ty of
        Inr c \<Rightarrow> Inr (Some c)
      | Inl e \<Rightarrow> if e \<noteq> PQOS_RETVAL_OK \<and> e \<noteq> PQOS_RETVAL_RESOURCE then Inl e else Inr None)"

definition hw_alloc_assoc_get :: "'h platform \<Rightarrow> u32 \<Rightarrow> 'h lib \<Rightarrow> u32 res \<times> 'h lib" where
  "hw_alloc_assoc_get E l s =
     (if pqos_cpu_check_core (Some (m_cpu s)) l \<noteq> PQOS_RETVAL_OK then (Inl PQOS_RETVAL_PARAM, s)
      else (case optional_cap (m_cap s) PQOS_CAP_TYPE_L3CA of Inl e \<Rightarrow> (Inl e, s) | Inr l3_cap \<Rightarrow>
           (case optional_cap (m_cap s) PQOS_CAP_TYPE_L2CA of Inl e \<Rightarrow> (Inl e, s) | Inr l2_cap \<Rightarrow>
           (case optional_cap (m_cap s) PQOS_CAP_TYPE_MBA of Inl e \<Rightarrow> (Inl e, s) | Inr mba_cap \<Rightarrow>
           (case optional_cap (m_cap s) PQOS_CAP_TYPE_SMBA of Inl e \<Rightarrow> (Inl e, s) | Inr smba_cap \<Rightarrow>
             if l2_cap = None \<and> l3_cap = None \<and> mba_cap = None then (Inl PQOS_RETVAL_RESOURCE, s)
             else hw_alloc_assoc_read E l s)))))"

record assign_ids =
  as_l3cat_id :: u32
  as_l2cat_id :: u32
  as_mba_id :: u32
  as_smba_id :: u32

text \<open>
  The check that all cores belong to one resource entity. \<open>first\<close> is \<open>i == 0\<close>.
\<close>

fun assign_check :: "u32 \<Rightarrow> pqos_cpuinfo \<Rightarrow> bool \<Rightarrow> u32 list \<Rightarrow> assign_ids \<Rightarrow> assign_ids res" where
  "assign_check technology cpu first [] ids = Inr ids"
| "assign_check technology cpu first (l # ls) ids =
     (let l3_req = tech_req PQOS_CAP_TYPE_L3CA technology;
          l2_req = tech_req PQOS_CAP_TYPE_L2CA technology;
          mba_req = tech_req PQOS_CAP_TYPE_MBA technology;
          smba_req = tech_req PQOS_CAP_TYPE_SMBA technology
      in case pqos_cpu_get_core_info (Some cpu) l of
           None \<Rightarrow> Inl PQOS_RETVAL_PARAM
         | Some c \<Rightarrow>
             if l3_req \<and> \<not> first \<and> as_l3cat_id ids \<noteq> l3cat_id c then Inl PQOS_RETVAL_PARAM
             else (let ids = (if l3_req then ids\<lparr>as_l3cat_id := l3cat_id c\<rparr> else ids)
             in if mba_req \<and> \<not> first \<and> as_mba_id ids \<noteq> mba_id c then Inl PQOS_RETVAL_PARAM
             else (let ids = (if mba_req then ids\<lparr>as_mba_id := mba_id c\<rparr> else ids)
             in if smba_req \<and> \<not> first \<and> as_smba_id ids \<noteq> smba_id c then Inl PQOS_RETVAL_PARAM
             else (let ids = (if smba_req then ids\<lparr>as_smba_id := smba_id c\<rparr> else ids);
                       l2_only = (l2_req \<and> \<not> l3_req \<and> \<not> mba_req \<and> \<not> smba_req)
             in if l2_only \<and> \<not> first \<and> as_l2cat_id ids \<noteq> l2_id c then Inl PQOS_RETVAL_PARAM
             else assign_check technology cpu False ls
                    (if l2_only then ids\<lparr>as_l2cat_id := l2_id c\<rparr> else ids)))))"

fun assoc_write_all :: "'h platform \<Rightarrow> u32 \<Rightarrow> u32 list \<Rightarrow> 'h lib \<Rightarrow> retval \<times> 'h lib" where
  "assoc_write_all E class_id [] s = (PQOS_RETVAL_OK, s)"
| "assoc_write_all E class_id (l # ls) s =
     (case hw_alloc_assoc_write E l class_id s of (ret, s) \<Rightarrow>
        if ret \<noteq> PQOS_RETVAL_OK then (ret, s) else assoc_write_all E class_id ls s)"

text \<open>
  On success the class is delivered through the out-parameter as well; it is already set
  when a later write fails, which the second component shows.
\<close>

definition hw_alloc_assign ::
  "'h platform \<Rightarrow> u32 \<Rightarrow> u32 list \<Rightarrow> 'h lib \<Rightarrow> retval \<times> u32 option \<times> 'h lib" where
  "hw_alloc_assign E technology core_array s =
     (case assign_check technology (m_cpu s) True core_array
             \<lparr>as_l3cat_id = 0, as_l2cat_id = 0, as_mba_id = 0, as_smba_id = 0\<rparr> of
        Inl e \<Rightarrow> (e, None, s)
      | Inr ids \<Rightarrow>
          (case hw_alloc_assoc_unused E technology (as_l3cat_id ids) (as_l2cat_id ids)
                  (as_mba_id ids) (as_smba_id ids) s of
             (Inl e, s) \<Rightarrow> (e, None, s)
           | (Inr class_id, s) \<Rightarrow>
               (case assoc_write_all E class_id core_array s of (ret, s) \<Rightarrow> (ret, Some class_id, s))))"

text \<open>The release loop goes on after a failed write and remembers the failure.\<close>

fun release_loop :: "'h platform \<Rightarrow> u32 list \<Rightarrow> retval \<Rightarrow> 'h lib \<Rightarrow> retval \<times> 'h lib" where
  "release_loop E [] ret s = (ret, s)"
| "release_loop E (l # ls) ret s =
     (case hw_alloc_assoc_write E l 0 s of (r, s) \<Rightarrow>
        release_loop E ls (if r \<noteq> PQOS_RETVAL_OK then PQOS_RETVAL_ERROR else ret) s)"

definition hw_alloc_release :: "'h platform \<Rightarrow> u32 list \<Rightarrow> 'h lib \<Rightarrow> retval \<times> 'h lib" where
  "hw_alloc_release E core_array s = release_loop E core_array PQOS_RETVAL_OK s"

definition hw_alloc_reset_assoc_cores :: "'h platform \<Rightarrow> 'h lib \<Rightarrow> retval \<times> 'h lib" where
  "hw_alloc_reset_assoc_cores E s = release_loop E (map lcore (cores (m_cpu s))) PQOS_RETVAL_OK s"

section \<open>The class field of the register\<close>

definition clos_field :: "u64 \<Rightarrow> u32" where
  "clos_field v = ucast (drop_bit PQOS_MSR_ASSOC_QECLOS_SHIFT v)"

definition rmid_field :: "u64 \<Rightarrow> u64" where
  "rmid_field v = take_bit PQOS_MSR_ASSOC_QECLOS_SHIFT v"

definition set_clos :: "u32 \<Rightarrow> u64 \<Rightarrow> u64" where
  "set_clos c v = v AND NOT PQOS_MSR_ASSOC_QECLOS_MASK OR push_bit PQOS_MSR_ASSOC_QECLOS_SHIFT (ucast c)"

lemma qeclos_mask: "NOT PQOS_MSR_ASSOC_QECLOS_MASK = mask 32"
  by (simp add: PQOS_MSR_ASSOC_QECLOS_MASK_def mask_eq_exp_minus_1)

lemma clos_field_set_clos [simp]: "clos_field (set_clos c v) = c"
  by (auto simp: clos_field_def set_clos_def qeclos_mask PQOS_MSR_ASSOC_QECLOS_SHIFT_def bit_eq_iff bit_simps)

lemma rmid_field_set_clos [simp]: "rmid_field (set_clos c v) = rmid_field v"
  by (auto simp: rmid_field_def set_clos_def qeclos_mask PQOS_MSR_ASSOC_QECLOS_SHIFT_def bit_eq_iff bit_simps)

lemma set_clos_set_clos [simp]: "set_clos c (set_clos d v) = set_clos c v"
  by (auto simp: set_clos_def qeclos_mask PQOS_MSR_ASSOC_QECLOS_SHIFT_def bit_eq_iff bit_simps)

section \<open>Specification notions\<close>

text \<open>The class count of a technology in the capability table, 0 when it is absent.\<close>

definition class_count :: "u32 res \<Rightarrow> u32" where
  "class_count r = (case clos_num_or_zero r of Inl _ \<Rightarrow> 0 | Inr n \<Rightarrow> n)"

definition search_scope :: "u32 \<Rightarrow> u32 \<Rightarrow> u32 \<Rightarrow> u32 \<Rightarrow> u32 \<Rightarrow> 'h lib \<Rightarrow> assoc_scope" where
  "search_scope technology l3 l2 mba smba s =
     assoc_scope_of technology l3 l2 mba smba
       (class_count (pqos_l3ca_get_clos_num (Some (m_cap s))))
       (class_count (pqos_l2ca_get_clos_num (Some (m_cap s))))
       (class_count (pqos_mba_get_clos_num (Some (m_cap s))))
       (class_count (pqos_smba_get_clos_num (Some (m_cap s)))) (cores (m_cpu s))"

text \<open>A core of the scope is associated with the class in the registers \<open>rg\<close>.\<close>

definition class_in_use :: "assoc_scope \<Rightarrow> (u32 \<Rightarrow> u32 \<Rightarrow> u64 option) \<Rightarrow> pqos_coreinfo list \<Rightarrow> u32 \<Rightarrow> bool" where
  "class_in_use sc rg cs clos \<longleftrightarrow>
     (\<exists>c\<in>set cs. in_scope sc c \<and> \<not> l2_only_elsewhere sc c clos \<and>
        map_option clos_field (rg (lcore c) PQOS_MSR_ASSOC) = Some clos)"

section \<open>Facts of the loops that need no driver\<close>

lemma find_unused_Some:
  "find_unused used n = Some c \<Longrightarrow> 0 < c \<and> c \<le> n \<and> \<not> used ! c \<and> (\<forall>d. c < d \<and> d \<le> n \<longrightarrow> used ! d)"
  by (induction n) (auto split: if_splits simp: le_Suc_eq)

lemma find_unused_None: "find_unused used n = None \<Longrightarrow> 0 < d \<Longrightarrow> d \<le> n \<Longrightarrow> used ! d"
  by (induction n) (auto split: if_splits simp: le_Suc_eq)

lemma nth_list_update_True: "n < length xs \<Longrightarrow> xs[i := True] ! n \<longleftrightarrow> i = n \<or> xs ! n"
  by (cases "i < length xs") (auto simp: nth_list_update)

lemma assoc_read_error: "hw_alloc_assoc_read E l s = (Inl e, t) \<Longrightarrow> e = PQOS_RETVAL_ERROR"
  by (auto simp: hw_alloc_assoc_read_def split: prod.splits sum.splits)

lemma mark_used_error: "mark_used E sc cs used s = (Inl e, t) \<Longrightarrow> e = PQOS_RETVAL_ERROR"
  by (induction cs arbitrary: used s) (auto split: if_splits prod.splits sum.splits dest: assoc_read_error)

lemma mark_used_length: "mark_used E sc cs used s = (Inr used', t) \<Longrightarrow> length used' = length used"
  by (induction cs arbitrary: used s) (auto split: if_splits prod.splits sum.splits)

lemma assign_check_core:
  "assign_check technology cpu first ls ids = Inr ids' \<Longrightarrow> l \<in> set ls \<Longrightarrow>
     \<exists>c. pqos_cpu_get_core_info (Some cpu) l = Some c"
  by (induction ls arbitrary: first ids)
    (auto simp: Let_def simp del: not_None_eq split: if_splits option.splits)

text \<open>
  Writing the class of core \<open>l\<close> and then those of \<open>ls\<close>, seen in the association values
  before (\<open>S\<close>), between (\<open>U\<close>) and after (\<open>T\<close>) the writes.
\<close>

lemma class_write_chain:
  fixes S U T :: "u32 \<Rightarrow> u32 \<Rightarrow> u64 option"
  assumes "k \<in> set (l # ls)"
    and "\<exists>w. S l r = Some w \<and> U l r = Some (set_clos c w)" and "k \<noteq> l \<Longrightarrow> U k r = S k r"
    and "k \<in> set ls \<Longrightarrow> \<exists>v. U k r = Some v \<and> T k r = Some (set_clos c v)"
    and "k \<notin> set ls \<Longrightarrow> T k r = U k r"
  shows "\<exists>v. S k r = Some v \<and> T k r = Some (set_clos c v)"
  using assms by (cases "k \<in> set ls"; cases "k = l") auto

section \<open>Behaviour on a register file\<close>

context msr_driver begin

lemma assoc_read_facts:
  assumes "machine_wf core_of s" and "hw_alloc_assoc_read E l s = (x, t)"
  shows "machine_wf core_of t" and "regs (m_hw t) = regs (m_hw s)" and "same_config s t"
    and "x = Inr c \<Longrightarrow> \<exists>v. regs (m_hw s) l PQOS_MSR_ASSOC = Some v \<and> c = clos_field v"
  using assms
  by (auto simp: hw_alloc_assoc_read_def clos_field_def split: prod.splits sum.splits
      dest: rf.rd_wf rf.rd_view rf.rd_val rf.rd_keeps)

text \<open>One association write touches the class field of one core's register.\<close>

lemma assoc_write_facts:
  assumes "machine_wf core_of s" and "hw_alloc_assoc_write E l c s = (ret, t)"
  shows "machine_wf core_of t" and "same_config s t"
    and "ret = PQOS_RETVAL_OK \<or> ret = PQOS_RETVAL_ERROR"
    and "ret \<noteq> PQOS_RETVAL_OK \<Longrightarrow> regs (m_hw t) = regs (m_hw s)"
    and "ret = PQOS_RETVAL_OK \<Longrightarrow>
      \<exists>v. regs (m_hw s) l PQOS_MSR_ASSOC = Some v \<and> regs (m_hw t) l PQOS_MSR_ASSOC = Some (set_clos c v)"
    and "l' \<noteq> l \<or> r \<noteq> PQOS_MSR_ASSOC \<Longrightarrow> regs (m_hw t) l' r = regs (m_hw s) l' r"
proof -
  obtain x u where rd: "msr_read E l PQOS_MSR_ASSOC s = (x, u)" by fastforce
  note r = read_facts [OF assms(1) rd] msr_read_keeps [OF rd]
  have all: "machine_wf core_of t \<and> same_config s t \<and> (ret = PQOS_RETVAL_OK \<or> ret = PQOS_RETVAL_ERROR) \<and>
    (ret \<noteq> PQOS_RETVAL_OK \<longrightarrow> regs (m_hw t) = regs (m_hw s)) \<and>
    (ret = PQOS_RETVAL_OK \<longrightarrow>
      (\<exists>v. regs (m_hw s) l PQOS_MSR_ASSOC = Some v \<and> regs (m_hw t) l PQOS_MSR_ASSOC = Some (set_clos c v))) \<and>
    (l' \<noteq> l \<or> r \<noteq> PQOS_MSR_ASSOC \<longrightarrow> regs (m_hw t) l' r = regs (m_hw s) l' r)"
  proof (cases x)
    case (Inl e)
    with assms(2) rd r show ?thesis by (auto simp: hw_alloc_assoc_write_def)
  next
    case (Inr v)
    obtain m w where wr: "msr_write E l PQOS_MSR_ASSOC (set_clos c v) u = (m, w)" by fastforce
    note f = write_facts [OF r(1) wr] msr_write_keeps [OF wr]
    from assms(2) rd Inr wr
    have tw: "t = w" and ret: "ret = (if m = MACHINE_RETVAL_OK then PQOS_RETVAL_OK else PQOS_RETVAL_ERROR)"
      by (auto simp: hw_alloc_assoc_write_def set_clos_def split: machine_retval.splits)
    from r(3) [OF Inr] have v: "regs (m_hw s) l PQOS_MSR_ASSOC = Some v" .
    have oth: "l' \<noteq> l \<or> r \<noteq> PQOS_MSR_ASSOC \<longrightarrow> regs (m_hw w) l' r = regs (m_hw s) l' r"
      using f(3) [where r' = r and l' = l'] f(5) [where l' = l'] r(2) by auto
    show ?thesis
      using f(1,2,4) oth v r(2) same_config_trans [OF r(4) f(6)] by (simp add: tw ret)
  qed
  then show "machine_wf core_of t" and "same_config s t"
    and "ret = PQOS_RETVAL_OK \<or> ret = PQOS_RETVAL_ERROR"
    and "ret \<noteq> PQOS_RETVAL_OK \<Longrightarrow> regs (m_hw t) = regs (m_hw s)"
    and "ret = PQOS_RETVAL_OK \<Longrightarrow>
      \<exists>v. regs (m_hw s) l PQOS_MSR_ASSOC = Some v \<and> regs (m_hw t) l PQOS_MSR_ASSOC = Some (set_clos c v)"
    and "l' \<noteq> l \<or> r \<noteq> PQOS_MSR_ASSOC \<Longrightarrow> regs (m_hw t) l' r = regs (m_hw s) l' r"
    by blast+
qed

lemma mark_used_facts:
  assumes "machine_wf core_of s" and "mark_used E sc cs used s = (x, t)"
  shows "machine_wf core_of t \<and> regs (m_hw t) = regs (m_hw s) \<and> same_config s t"
  using assms
proof (induction cs arbitrary: used s)
  case (Cons c cs)
  show ?case
  proof (cases "in_scope sc c")
    case False
    with Cons show ?thesis by simp
  next
    case True
    obtain y u where rd: "hw_alloc_assoc_read E (lcore c) s = (y, u)" by fastforce
    note f = assoc_read_facts [OF Cons.prems(1) rd]
    show ?thesis
    proof (cases y)
      case (Inl e)
      with Cons.prems rd True f show ?thesis by simp
    next
      case (Inr clos)
      with Cons.prems(2) rd True obtain used' where "mark_used E sc cs used' u = (x, t)"
        by (auto split: if_splits)
      from Cons.IH [OF f(1) this] f show ?thesis by (auto intro: same_config_trans)
    qed
  qed
qed simp

lemma mark_used_marks:
  assumes "machine_wf core_of s" and "mark_used E sc cs used s = (Inr used', t)"
    and "n < length used" and "n < unat (sc_num_clos sc)"
  shows "used' ! n \<longleftrightarrow> used ! n \<or> class_in_use sc (regs (m_hw s)) cs (of_nat n)"
  using assms
proof (induction cs arbitrary: used s)
  case Nil
  then show ?case by (simp add: class_in_use_def)
next
  case (Cons c cs)
  have iu: "class_in_use sc rg (c # cs) k \<longleftrightarrow>
      (in_scope sc c \<and> \<not> l2_only_elsewhere sc c k \<and> map_option clos_field (rg (lcore c) PQOS_MSR_ASSOC) = Some k)
      \<or> class_in_use sc rg cs k" for rg k
    by (auto simp: class_in_use_def)
  show ?case
  proof (cases "in_scope sc c")
    case False
    with Cons iu show ?thesis by simp
  next
    case True
    obtain y u where rd: "hw_alloc_assoc_read E (lcore c) s = (y, u)" by fastforce
    note f = assoc_read_facts [OF Cons.prems(1) rd]
    from Cons.prems(2) rd True obtain clos where y: "y = Inr clos" by (cases y) auto
    with f(4) obtain v where v: "regs (m_hw s) (lcore c) PQOS_MSR_ASSOC = Some v" "clos = clos_field v" by auto
    let ?skip = "sc_num_clos sc \<le> clos \<or> l2_only_elsewhere sc c clos"
    let ?used = "if ?skip then used else used[unat clos := True]"
    from Cons.prems(2) rd True y have "mark_used E sc cs ?used u = (Inr used', t)"
      by (auto split: if_splits)
    from Cons.IH [OF f(1) this] Cons.prems(3,4)
    have ih: "used' ! n \<longleftrightarrow> ?used ! n \<or> class_in_use sc (regs (m_hw s)) cs (of_nat n)"
      by (auto simp: f(2))
    have nw: "unat (of_nat n :: u32) = n" using Cons.prems(4) by (simp add: unat_of_nat_u32 less_trans)
    have "(?used ! n \<longleftrightarrow> used ! n \<or> (\<not> l2_only_elsewhere sc c (of_nat n) \<and> clos = of_nat n))"
      using Cons.prems(3,4) nw
      by (auto simp: nth_list_update_True word_le_nat_alt word_unat_eq_iff)
    with ih iu True v show ?thesis by auto
  qed
qed

text \<open>The class counts are always delivered, so the search runs on its scope.\<close>

lemma assoc_unused_unfold:
  "hw_alloc_assoc_unused E technology l3 l2 mba smba s =
     (let sc = search_scope technology l3 l2 mba smba s
      in if sc_num_clos sc = 0 then (Inl PQOS_RETVAL_ERROR, s)
         else (case mark_used E sc (cores (m_cpu s)) (replicate PQOS_MAX_CLOS False) s of
                 (Inl e, s) \<Rightarrow> (Inl e, s)
               | (Inr used, s) \<Rightarrow>
                   (case find_unused used (unat (sc_num_clos sc) - 1) of
                      None \<Rightarrow> (Inl PQOS_RETVAL_RESOURCE, s)
                    | Some clos \<Rightarrow> (Inr (of_nat clos), s))))"
  by (simp add: hw_alloc_assoc_unused_def search_scope_def class_count_def Let_def
      l3clos.or_zero_total l2clos.or_zero_total mbaclos.or_zero_total smbaclos.or_zero_total)

lemma assoc_unused_frame:
  assumes "machine_wf core_of s" and "hw_alloc_assoc_unused E technology l3 l2 mba smba s = (x, t)"
  shows "machine_wf core_of t \<and> regs (m_hw t) = regs (m_hw s) \<and> same_config s t"
  using assms
  by (auto simp: assoc_unused_unfold Let_def dest: mark_used_facts
      split: if_splits prod.splits sum.splits option.splits)

lemma assoc_unused_search:
  assumes wf: "machine_wf core_of s"
    and sc: "sc = search_scope technology l3 l2 mba smba s"
    and fit: "unat (sc_num_clos sc) \<le> PQOS_MAX_CLOS"
    and run: "hw_alloc_assoc_unused E technology l3 l2 mba smba s = (x, t)"
  shows "x = Inr c \<Longrightarrow> 0 < c \<and> c < sc_num_clos sc \<and>
           \<not> class_in_use sc (regs (m_hw s)) (cores (m_cpu s)) c \<and>
           (\<forall>d. c < d \<and> d < sc_num_clos sc \<longrightarrow> class_in_use sc (regs (m_hw s)) (cores (m_cpu s)) d)"
    and "x = Inl PQOS_RETVAL_RESOURCE \<Longrightarrow> 0 < d \<Longrightarrow> d < sc_num_clos sc \<Longrightarrow>
           class_in_use sc (regs (m_hw s)) (cores (m_cpu s)) d"
proof -
  let ?n = "unat (sc_num_clos sc)"
  let ?U = "class_in_use sc (regs (m_hw s)) (cores (m_cpu s))"
  have use: "used ! unat d \<longleftrightarrow> ?U d"
    if "mark_used E sc (cores (m_cpu s)) (replicate PQOS_MAX_CLOS False) s = (Inr used, u)" and "d < sc_num_clos sc"
    for used u d
    using mark_used_marks [OF wf that(1), of "unat d"] that(2) fit by (simp add: word_less_nat_alt)
  show "0 < c \<and> c < sc_num_clos sc \<and> \<not> ?U c \<and> (\<forall>d. c < d \<and> d < sc_num_clos sc \<longrightarrow> ?U d)" if "x = Inr c"
  proof -
    from run that obtain used u k where m: "mark_used E sc (cores (m_cpu s)) (replicate PQOS_MAX_CLOS False) s = (Inr used, u)"
      and k: "find_unused used (?n - 1) = Some k" and c: "c = of_nat k" and nz: "sc_num_clos sc \<noteq> 0"
      by (auto simp: assoc_unused_unfold Let_def sc [symmetric] split: if_splits prod.splits sum.splits option.splits)
    note fk = find_unused_Some [OF k]
    from nz have "0 < ?n" by (simp add: unat_gt_0)
    with fk have kn: "k < ?n" by linarith
    then have uk: "unat c = k" by (simp add: c unat_of_nat_u32 less_trans)
    have "0 < c" and "c < sc_num_clos sc" using fk kn uk by (simp_all add: word_less_nat_alt)
    moreover have "\<not> ?U c" using use [OF m \<open>c < sc_num_clos sc\<close>] fk uk by simp
    moreover have "?U d" if "c < d" "d < sc_num_clos sc" for d
      using use [OF m that(2)] fk uk that by (simp add: word_less_nat_alt)
    ultimately show ?thesis by blast
  qed
  show "?U d" if "x = Inl PQOS_RETVAL_RESOURCE" "0 < d" "d < sc_num_clos sc" for d
  proof -
    from run that(1) obtain used u where m: "mark_used E sc (cores (m_cpu s)) (replicate PQOS_MAX_CLOS False) s = (Inr used, u)"
      and n: "find_unused used (?n - 1) = None"
      by (auto simp: assoc_unused_unfold Let_def sc [symmetric] dest: mark_used_error split: if_splits prod.splits sum.splits option.splits)
    have "used ! unat d"
      using find_unused_None [OF n, of "unat d"] that(2,3) by (simp add: word_less_nat_alt)
    with use [OF m that(3)] show ?thesis by simp
  qed
qed

lemma write_all_facts:
  assumes "machine_wf core_of s" and "assoc_write_all E c ls s = (ret, t)"
  shows "machine_wf core_of t \<and> same_config s t \<and>
    (\<forall>l r. l \<notin> set ls \<or> r \<noteq> PQOS_MSR_ASSOC \<longrightarrow> regs (m_hw t) l r = regs (m_hw s) l r) \<and>
    (ret = PQOS_RETVAL_OK \<longrightarrow> (\<forall>l\<in>set ls. \<exists>v. regs (m_hw s) l PQOS_MSR_ASSOC = Some v \<and>
       regs (m_hw t) l PQOS_MSR_ASSOC = Some (set_clos c v)))"
  using assms
proof (induction ls arbitrary: s)
  case (Cons l ls)
  obtain r u where wr: "hw_alloc_assoc_write E l c s = (r, u)" by fastforce
  note f = assoc_write_facts [OF Cons.prems(1) wr]
  show ?case
  proof (cases "r = PQOS_RETVAL_OK")
    case False
    with Cons.prems wr f(1,2,4) show ?thesis by auto
  next
    case True
    with Cons.prems(2) wr have "assoc_write_all E c ls u = (ret, t)" by simp
    note ih = Cons.IH [OF f(1) this]
    have cfg: "same_config s t" using ih f(2) by (blast intro: same_config_trans)
    have oth: "regs (m_hw t) k q = regs (m_hw s) k q" if "k \<notin> set (l # ls) \<or> q \<noteq> PQOS_MSR_ASSOC" for k q
      using ih f(6) [of k q] that by auto
    have "\<exists>v. regs (m_hw s) k PQOS_MSR_ASSOC = Some v \<and> regs (m_hw t) k PQOS_MSR_ASSOC = Some (set_clos c v)"
      if "ret = PQOS_RETVAL_OK" "k \<in> set (l # ls)" for k
      by (rule class_write_chain [OF that(2), where U = "regs (m_hw u)"])
        (use ih f(5) [OF True] f(6) [of k PQOS_MSR_ASSOC] that in auto)
    with ih cfg oth show ?thesis by blast
  qed
qed auto

lemma release_loop_facts:
  assumes "machine_wf core_of s" and "release_loop E ls ret s = (ret', t)"
  shows "machine_wf core_of t \<and> same_config s t \<and>
    (\<forall>l r. l \<notin> set ls \<or> r \<noteq> PQOS_MSR_ASSOC \<longrightarrow> regs (m_hw t) l r = regs (m_hw s) l r) \<and>
    (\<forall>l v. regs (m_hw s) l PQOS_MSR_ASSOC = Some v \<longrightarrow> regs (m_hw t) l PQOS_MSR_ASSOC \<in> {Some v, Some (set_clos 0 v)}) \<and>
    (ret' = PQOS_RETVAL_OK \<longrightarrow> ret = PQOS_RETVAL_OK \<and>
       (\<forall>l\<in>set ls. \<exists>v. regs (m_hw s) l PQOS_MSR_ASSOC = Some v \<and>
          regs (m_hw t) l PQOS_MSR_ASSOC = Some (set_clos 0 v)))"
  using assms
proof (induction ls arbitrary: s ret)
  case (Cons l ls)
  obtain r u where wr: "hw_alloc_assoc_write E l 0 s = (r, u)" by fastforce
  note f = assoc_write_facts [OF Cons.prems(1) wr]
  let ?ret = "if r \<noteq> PQOS_RETVAL_OK then PQOS_RETVAL_ERROR else ret"
  from Cons.prems(2) wr have "release_loop E ls ?ret u = (ret', t)" by simp
  note ih = Cons.IH [OF f(1) this]
  have cfg: "same_config s t" using ih f(2) by (blast intro: same_config_trans)
  have oth: "regs (m_hw t) k q = regs (m_hw s) k q" if "k \<notin> set (l # ls) \<or> q \<noteq> PQOS_MSR_ASSOC" for k q
    using ih f(6) [of k q] that by auto
  have step: "regs (m_hw s) k PQOS_MSR_ASSOC = Some v \<Longrightarrow>
      regs (m_hw u) k PQOS_MSR_ASSOC \<in> {Some v, Some (set_clos 0 v)}" for k v
    using f(4,5) f(6) [of k PQOS_MSR_ASSOC] by (cases "k = l"; cases "r = PQOS_RETVAL_OK") auto
  have two: "regs (m_hw t) k PQOS_MSR_ASSOC \<in> {Some v, Some (set_clos 0 v)}"
    if "regs (m_hw s) k PQOS_MSR_ASSOC = Some v" for k v
    using step [OF that] ih by fastforce
  have "\<exists>v. regs (m_hw s) k PQOS_MSR_ASSOC = Some v \<and> regs (m_hw t) k PQOS_MSR_ASSOC = Some (set_clos 0 v)"
    if "ret' = PQOS_RETVAL_OK" "k \<in> set (l # ls)" for k
  proof -
    from ih that(1) have r: "r = PQOS_RETVAL_OK" by (auto split: if_splits)
    show ?thesis
      by (rule class_write_chain [OF that(2), where U = "regs (m_hw u)"])
        (use ih f(5) [OF r] f(6) [of k PQOS_MSR_ASSOC] that in auto)
  qed
  moreover have "ret = PQOS_RETVAL_OK" if "ret' = PQOS_RETVAL_OK"
    using ih that by (auto split: if_splits)
  ultimately show ?case using ih cfg oth two by blast
qed auto

lemma assign_facts:
  assumes wf: "machine_wf core_of s" and run: "hw_alloc_assign E technology ls s = (PQOS_RETVAL_OK, cls, t)"
  shows "\<exists>ids c u. assign_check technology (m_cpu s) True ls
      \<lparr>as_l3cat_id = 0, as_l2cat_id = 0, as_mba_id = 0, as_smba_id = 0\<rparr> = Inr ids \<and> cls = Some c \<and>
    hw_alloc_assoc_unused E technology (as_l3cat_id ids) (as_l2cat_id ids) (as_mba_id ids) (as_smba_id ids) s
      = (Inr c, u) \<and>
    (\<forall>l r. l \<notin> set ls \<or> r \<noteq> PQOS_MSR_ASSOC \<longrightarrow> regs (m_hw t) l r = regs (m_hw s) l r) \<and>
    (\<forall>l\<in>set ls. \<exists>v. regs (m_hw s) l PQOS_MSR_ASSOC = Some v \<and>
       regs (m_hw t) l PQOS_MSR_ASSOC = Some (set_clos c v))"
proof -
  have err: "x \<noteq> Inl PQOS_RETVAL_OK" if "hw_alloc_assoc_unused E technology a b d e s = (x, u)" for a b d e x u
    using that by (auto simp: assoc_unused_unfold Let_def dest: mark_used_error
        split: if_splits prod.splits sum.splits option.splits)
  have chk: "assign_check technology cpu first ks ids \<noteq> Inl PQOS_RETVAL_OK" for cpu first ks ids
    by (induction ks arbitrary: first ids) (auto simp: Let_def split: option.splits if_splits)
  from run obtain ids x u where ids: "assign_check technology (m_cpu s) True ls
      \<lparr>as_l3cat_id = 0, as_l2cat_id = 0, as_mba_id = 0, as_smba_id = 0\<rparr> = Inr ids"
    and un: "hw_alloc_assoc_unused E technology (as_l3cat_id ids) (as_l2cat_id ids) (as_mba_id ids) (as_smba_id ids) s = (x, u)"
    using chk by (auto simp: hw_alloc_assign_def split: sum.splits prod.splits)
  with run err [OF un] obtain c where c: "x = Inr c" and w: "assoc_write_all E c ls u = (PQOS_RETVAL_OK, t)"
    and cls: "cls = Some c"
    by (auto simp: hw_alloc_assign_def split: sum.splits prod.splits)
  note uf = assoc_unused_frame [OF wf un]
  from write_all_facts [OF conjunct1 [OF uf] w] uf ids un c cls show ?thesis by auto
qed

lemma assoc_write_opens:
  assumes "machine_wf core_of s" and "hw_alloc_assoc_write E l c s = (PQOS_RETVAL_OK, t)"
  shows "fd_open l t"
proof -
  obtain x u where rd: "msr_read E l PQOS_MSR_ASSOC s = (x, u)" by fastforce
  with assms(2) obtain v where x: "x = Inr v" by (cases x) (auto simp: hw_alloc_assoc_write_def)
  obtain m w where wr: "msr_write E l PQOS_MSR_ASSOC (set_clos c v) u = (m, w)" by fastforce
  from assms(2) rd x wr have "m = MACHINE_RETVAL_OK" and "w = t"
    by (auto simp: hw_alloc_assoc_write_def set_clos_def split: machine_retval.splits)
  with wr write_opens [OF read_facts(1) [OF assms(1) rd]] show ?thesis by simp
qed

lemma assoc_read_open:
  assumes "machine_wf core_of s" and "fd_open l s" and "regs (m_hw s) l PQOS_MSR_ASSOC = Some v"
  shows "hw_alloc_assoc_read E l s = (Inr (clos_field v), s)"
  using assms by (simp add: hw_alloc_assoc_read_def read_open clos_field_def)

end

section \<open>Branches of the requests\<close>

lemma optional_cap_eq:
  "ty \<noteq> PQOS_CAP_TYPE_NUMOF \<Longrightarrow> optional_cap cap ty = Inr (List.find (\<lambda>c. cap_type c = ty) cap)"
  by (auto simp: optional_cap_def pqos_cap_get_type_def split: option.splits)

text \<open>A class count above zero needs the capability to be present.\<close>

lemmas count_present =
  l3clos.or_zero_total l2clos.or_zero_total mbaclos.or_zero_total smbaclos.or_zero_total

lemma assoc_set_cases:
  "hw_alloc_assoc_set E l c s =
     (if l \<in> lcore ` set (cores (m_cpu s)) \<and>
         (c < class_count (pqos_l3ca_get_clos_num (Some (m_cap s))) \<or>
          c < class_count (pqos_l2ca_get_clos_num (Some (m_cap s))) \<or>
          c < class_count (pqos_mba_get_clos_num (Some (m_cap s))))
      then hw_alloc_assoc_write E l c s else (PQOS_RETVAL_PARAM, s))"
  by (auto simp: hw_alloc_assoc_set_def class_count_def count_present Let_def not_less)

lemma assoc_get_cases:
  "hw_alloc_assoc_get E l s =
     (if l \<notin> lcore ` set (cores (m_cpu s)) then (Inl PQOS_RETVAL_PARAM, s)
      else if \<forall>c\<in>set (m_cap s). cap_type c \<notin> {PQOS_CAP_TYPE_L3CA, PQOS_CAP_TYPE_L2CA, PQOS_CAP_TYPE_MBA}
      then (Inl PQOS_RETVAL_RESOURCE, s)
      else hw_alloc_assoc_read E l s)"
  by (auto simp: hw_alloc_assoc_get_def optional_cap_eq find_eq_None_iff)

lemma class_count_pos:
  assumes "c < class_count (pqos_l3ca_get_clos_num (Some cap)) \<or>
    c < class_count (pqos_l2ca_get_clos_num (Some cap)) \<or> c < class_count (pqos_mba_get_clos_num (Some cap))"
  shows "\<exists>d\<in>set cap. cap_type d \<in> {PQOS_CAP_TYPE_L3CA, PQOS_CAP_TYPE_L2CA, PQOS_CAP_TYPE_MBA}"
  using assms
  by (auto simp: class_count_def count_present find_eq_None_iff dest!: find_SomeD split: option.splits)

text \<open>The entity check leaves the ids of the requested technologies, shared by all cores.\<close>

lemma assign_check_kept:
  assumes "assign_check technology cpu False ls ids = Inr ids'"
  shows "(tech_req PQOS_CAP_TYPE_L3CA technology \<longrightarrow> as_l3cat_id ids' = as_l3cat_id ids) \<and>
    (tech_req PQOS_CAP_TYPE_MBA technology \<longrightarrow> as_mba_id ids' = as_mba_id ids) \<and>
    (tech_req PQOS_CAP_TYPE_SMBA technology \<longrightarrow> as_smba_id ids' = as_smba_id ids)"
  using assms
proof (induction ls arbitrary: ids)
  case (Cons l ls)
  from Cons.prems obtain c ids'' where rest: "assign_check technology cpu False ls ids'' = Inr ids'"
    and step: "tech_req PQOS_CAP_TYPE_L3CA technology \<longrightarrow> as_l3cat_id ids'' = as_l3cat_id ids"
      "tech_req PQOS_CAP_TYPE_MBA technology \<longrightarrow> as_mba_id ids'' = as_mba_id ids"
      "tech_req PQOS_CAP_TYPE_SMBA technology \<longrightarrow> as_smba_id ids'' = as_smba_id ids"
    by (auto simp: Let_def split: if_splits option.splits)
  from Cons.IH [OF rest] step show ?case by simp
qed simp

lemma assign_check_ids:
  assumes "assign_check technology cpu first ls ids = Inr ids'"
    and "l \<in> set ls" and "pqos_cpu_get_core_info (Some cpu) l = Some d"
  shows "(tech_req PQOS_CAP_TYPE_L3CA technology \<longrightarrow> as_l3cat_id ids' = l3cat_id d) \<and>
    (tech_req PQOS_CAP_TYPE_MBA technology \<longrightarrow> as_mba_id ids' = mba_id d) \<and>
    (tech_req PQOS_CAP_TYPE_SMBA technology \<longrightarrow> as_smba_id ids' = smba_id d)"
  using assms
proof (induction ls arbitrary: first ids)
  case (Cons k ls)
  from Cons.prems(1) obtain c ids'' where rest: "assign_check technology cpu False ls ids'' = Inr ids'"
    and c: "pqos_cpu_get_core_info (Some cpu) k = Some c"
    and step: "tech_req PQOS_CAP_TYPE_L3CA technology \<longrightarrow> as_l3cat_id ids'' = l3cat_id c"
      "tech_req PQOS_CAP_TYPE_MBA technology \<longrightarrow> as_mba_id ids'' = mba_id c"
      "tech_req PQOS_CAP_TYPE_SMBA technology \<longrightarrow> as_smba_id ids'' = smba_id c"
    by (auto simp: Let_def split: if_splits option.splits)
  show ?case
  proof (cases "l \<in> set ls")
    case True
    from Cons.IH [OF rest True Cons.prems(3)] show ?thesis .
  next
    case False
    with Cons.prems(2,3) c have "c = d" by simp
    with assign_check_kept [OF rest] step show ?thesis by simp
  qed
qed simp

text \<open>
  Two cores compete for a class of the requested technologies: they share the L3 CAT, MBA
  and SMBA ids of those that are requested.
\<close>

definition shares_class :: "u32 \<Rightarrow> pqos_coreinfo \<Rightarrow> pqos_coreinfo \<Rightarrow> bool" where
  "shares_class technology d k \<longleftrightarrow>
     (tech_req PQOS_CAP_TYPE_L3CA technology \<longrightarrow> l3cat_id k = l3cat_id d) \<and>
     (tech_req PQOS_CAP_TYPE_MBA technology \<longrightarrow> mba_id k = mba_id d) \<and>
     (tech_req PQOS_CAP_TYPE_SMBA technology \<longrightarrow> smba_id k = smba_id d)"

lemma search_scope_shares:
  assumes "\<not> tech_req PQOS_CAP_TYPE_L2CA technology"
    and "assign_check technology cpu first ls ids = Inr ids'"
    and "l \<in> set ls" and "pqos_cpu_get_core_info (Some cpu) l = Some d" and "shares_class technology d k"
  shows "in_scope (search_scope technology (as_l3cat_id ids') (as_l2cat_id ids') (as_mba_id ids') (as_smba_id ids') s) k"
    and "\<not> l2_only_elsewhere (search_scope technology (as_l3cat_id ids') (as_l2cat_id ids') (as_mba_id ids') (as_smba_id ids') s) k c"
  using assign_check_ids [OF assms(2-4)] assms(1,5)
  by (auto simp: in_scope_def l2_only_elsewhere_def search_scope_def assoc_scope_of_def shares_class_def Let_def)

section \<open>Properties\<close>

abbreviation all_counts_fit :: "'h lib \<Rightarrow> bool" where
  "all_counts_fit s \<equiv>
     unat (class_count (pqos_l3ca_get_clos_num (Some (m_cap s)))) \<le> PQOS_MAX_CLOS \<and>
     unat (class_count (pqos_l2ca_get_clos_num (Some (m_cap s)))) \<le> PQOS_MAX_CLOS \<and>
     unat (class_count (pqos_mba_get_clos_num (Some (m_cap s)))) \<le> PQOS_MAX_CLOS \<and>
     unat (class_count (pqos_smba_get_clos_num (Some (m_cap s)))) \<le> PQOS_MAX_CLOS"

lemma search_scope_fits:
  "all_counts_fit s \<Longrightarrow> unat (sc_num_clos (search_scope technology l3 l2 mba smba s)) \<le> PQOS_MAX_CLOS"
  by (simp add: search_scope_def assoc_scope_of_def num_clos_requested_def Let_def)

text \<open>A successful association is read back and touches one register.\<close>

lemma assoc_set_then_get:
  assumes "msr_driver E core_of regs" and "machine_wf core_of s"
    and "hw_alloc_assoc_set E l c s = (PQOS_RETVAL_OK, t)"
  shows "hw_alloc_assoc_get E l t = (Inr c, t) \<and>
    (\<exists>v w. regs (m_hw s) l PQOS_MSR_ASSOC = Some v \<and> regs (m_hw t) l PQOS_MSR_ASSOC = Some w \<and>
       rmid_field w = rmid_field v) \<and>
    (\<forall>l' r. l' \<noteq> l \<or> r \<noteq> PQOS_MSR_ASSOC \<longrightarrow> regs (m_hw t) l' r = regs (m_hw s) l' r)"
proof -
  from assms(3) have l: "l \<in> lcore ` set (cores (m_cpu s))" and wr: "hw_alloc_assoc_write E l c s = (PQOS_RETVAL_OK, t)"
    and c: "\<exists>d\<in>set (m_cap s). cap_type d \<in> {PQOS_CAP_TYPE_L3CA, PQOS_CAP_TYPE_L2CA, PQOS_CAP_TYPE_MBA}"
    using class_count_pos [of c "m_cap s"] by (auto simp: assoc_set_cases split: if_splits)
  note f = msr_driver.assoc_write_facts [OF assms(1,2) wr]
  from f(5) obtain v where v: "regs (m_hw s) l PQOS_MSR_ASSOC = Some v"
    and w: "regs (m_hw t) l PQOS_MSR_ASSOC = Some (set_clos c v)" by auto
  have "hw_alloc_assoc_read E l t = (Inr c, t)"
    using msr_driver.assoc_read_open [OF assms(1) f(1) msr_driver.assoc_write_opens [OF assms(1,2) wr] w] by simp
  then have "hw_alloc_assoc_get E l t = (Inr c, t)"
    using l c same_configD(1,2) [OF f(2)] by (auto simp: assoc_get_cases)
  with v w f(6) show ?thesis by auto
qed

text \<open>
  C1. After a successful \<open>hw_alloc_assoc_set\<close> of class \<open>c\<close> to core \<open>l\<close>, \<open>hw_alloc_assoc_get\<close>
  succeeds and answers \<open>c\<close>; the RMID in the same register is kept, and no other register
  of any core has changed.
\<close>

theorem assoc_set_get:
  assumes "msr_driver E core_of regs" and "machine_wf core_of s"
    and "hw_alloc_assoc_set E l c s = (PQOS_RETVAL_OK, t)"
  shows "hw_alloc_assoc_get E l t = (Inr c, t) \<and>
    (\<exists>v w. regs (m_hw s) l PQOS_MSR_ASSOC = Some v \<and> regs (m_hw t) l PQOS_MSR_ASSOC = Some w \<and>
       rmid_field w = rmid_field v) \<and>
    (\<forall>l' r. l' \<noteq> l \<or> r \<noteq> PQOS_MSR_ASSOC \<longrightarrow> regs (m_hw t) l' r = regs (m_hw s) l' r)"
  using assoc_set_then_get [OF assms] .

theorem assoc_set_get_witness:
  "fst (hw_alloc_assoc_set ref_platform 1 3 sample_lib) = PQOS_RETVAL_OK \<and>
   fst (hw_alloc_assoc_get ref_platform 1 (snd (hw_alloc_assoc_set ref_platform 1 3 sample_lib))) = Inr 3"
proof -
  let ?r = "hw_alloc_assoc_set ref_platform 1 3 sample_lib"
  have ok: "fst ?r = PQOS_RETVAL_OK" by code_simp
  then have "?r = (PQOS_RETVAL_OK, snd ?r)" by (metis prod.collapse)
  from assoc_set_get [OF refdrv.msr_driver_axioms sample_wf this] ok show ?thesis by simp
qed

text \<open>
  A refused association changes no register: \<open>hw_alloc_assoc_set\<close> answers
  \<open>PQOS_RETVAL_PARAM\<close> exactly when the core is not in the topology or the class is outside
  the L3 CAT, L2 CAT and MBA class ranges, and otherwise \<open>OK\<close> or \<open>ERROR\<close>; unless the
  answer is \<open>OK\<close> all registers are as before.
\<close>

theorem assoc_set_errors:
  assumes "msr_driver E core_of regs" and "machine_wf core_of s"
    and "hw_alloc_assoc_set E l c s = (ret, t)"
  shows "ret \<in> {PQOS_RETVAL_OK, PQOS_RETVAL_PARAM, PQOS_RETVAL_ERROR} \<and>
    (ret = PQOS_RETVAL_PARAM \<longleftrightarrow> l \<notin> lcore ` set (cores (m_cpu s)) \<or>
       (class_count (pqos_l3ca_get_clos_num (Some (m_cap s))) \<le> c \<and>
        class_count (pqos_l2ca_get_clos_num (Some (m_cap s))) \<le> c \<and>
        class_count (pqos_mba_get_clos_num (Some (m_cap s))) \<le> c)) \<and>
    (ret \<noteq> PQOS_RETVAL_OK \<longrightarrow> regs (m_hw t) = regs (m_hw s)) \<and> machine_wf core_of t"
proof -
  obtain r u where wr: "hw_alloc_assoc_write E l c s = (r, u)" by fastforce
  note f = msr_driver.assoc_write_facts [OF assms(1,2) wr]
  from f(3) have "r \<noteq> PQOS_RETVAL_PARAM" by auto
  with assms(2,3) wr f(1,3,4) show ?thesis
    by (auto simp: assoc_set_cases not_less split: if_splits)
qed

theorem assoc_set_errors_witness:
  "ref_regs (m_hw (snd (hw_alloc_assoc_set ref_platform 1 4 sample_lib))) = ref_regs sample_hw \<and>
   fst (hw_alloc_assoc_set ref_platform 1 4 sample_lib) = PQOS_RETVAL_PARAM"
proof -
  have p: "fst (hw_alloc_assoc_set ref_platform 1 4 sample_lib) = PQOS_RETVAL_PARAM" by code_simp
  from assoc_set_errors [OF refdrv.msr_driver_axioms sample_wf prod.collapse [symmetric], where l = 1 and c = 4] p
  show ?thesis by simp
qed

text \<open>
  \<open>hw_alloc_assoc_unused\<close> searches soundly and completely: the class it answers is not 0,
  is in range, is not associated with any core of the search scope, and is the highest
  such class; when it answers \<open>PQOS_RETVAL_RESOURCE\<close> every class but 0 is in use. The
  search leaves the registers alone. (The class counts are at most \<open>PQOS_MAX_CLOS\<close>, the
  size of the table of used classes.)
\<close>

theorem assoc_unused_correct:
  assumes "msr_driver E core_of regs" and "machine_wf core_of s" and "all_counts_fit s"
    and "hw_alloc_assoc_unused E technology l3 l2 mba smba s = (x, t)"
    and "sc = search_scope technology l3 l2 mba smba s"
    and "used = class_in_use sc (regs (m_hw s)) (cores (m_cpu s))"
  shows "(\<forall>c. x = Inr c \<longrightarrow> 0 < c \<and> c < sc_num_clos sc \<and> \<not> used c \<and>
            (\<forall>d. c < d \<and> d < sc_num_clos sc \<longrightarrow> used d)) \<and>
    (x = Inl PQOS_RETVAL_RESOURCE \<longrightarrow> (\<forall>d. 0 < d \<and> d < sc_num_clos sc \<longrightarrow> used d)) \<and>
    regs (m_hw t) = regs (m_hw s)"
  using msr_driver.assoc_unused_search [OF assms(1,2,5) _ assms(4)] search_scope_fits [OF assms(3)]
    msr_driver.assoc_unused_frame [OF assms(1,2,4)]
  by (auto simp: assms(5,6))

theorem assoc_unused_correct_witness:
  "fst (hw_alloc_assoc_unused ref_platform 2 0 0 0 0 sample_lib) = Inr 3 \<and>
   \<not> class_in_use (search_scope 2 0 0 0 0 sample_lib) (ref_regs sample_hw) (cores sample_cpu) 3"
proof -
  have x: "fst (hw_alloc_assoc_unused ref_platform 2 0 0 0 0 sample_lib) = Inr 3" by code_simp
  have f: "all_counts_fit sample_lib" by code_simp
  from assoc_unused_correct [OF refdrv.msr_driver_axioms sample_wf f prod.collapse [symmetric] refl refl, of 2 0 0 0 0] x
  show ?thesis by simp
qed

text \<open>
  C2. \<open>hw_alloc_assign\<close> hands out a class exclusively. When it succeeds (L2 CAT not
  requested) the class is not 0, every requested core is now associated with it and keeps
  its RMID, no other register has changed, and no other core that shares the requested
  technologies' resource entity is associated with the class.
\<close>

theorem assign_exclusive:
  assumes drv: "msr_driver E core_of regs" and wf: "machine_wf core_of s" and fit: "all_counts_fit s"
    and tech: "\<not> tech_req PQOS_CAP_TYPE_L2CA technology"
    and run: "hw_alloc_assign E technology ls s = (PQOS_RETVAL_OK, cls, t)"
  shows "\<exists>c. cls = Some c \<and> 0 < c \<and>
    (\<forall>l\<in>set ls. \<exists>v w. regs (m_hw s) l PQOS_MSR_ASSOC = Some v \<and> regs (m_hw t) l PQOS_MSR_ASSOC = Some w \<and>
       clos_field w = c \<and> rmid_field w = rmid_field v) \<and>
    (\<forall>l r. l \<notin> set ls \<or> r \<noteq> PQOS_MSR_ASSOC \<longrightarrow> regs (m_hw t) l r = regs (m_hw s) l r) \<and>
    (\<forall>l\<in>set ls. \<forall>d. pqos_cpu_get_core_info (Some (m_cpu s)) l = Some d \<longrightarrow>
       (\<forall>k\<in>set (cores (m_cpu s)). shares_class technology d k \<and> lcore k \<notin> set ls \<longrightarrow>
          map_option clos_field (regs (m_hw t) (lcore k) PQOS_MSR_ASSOC) \<noteq> Some c))"
proof -
  from msr_driver.assign_facts [OF drv wf run] obtain ids c u where
    chk: "assign_check technology (m_cpu s) True ls
      \<lparr>as_l3cat_id = 0, as_l2cat_id = 0, as_mba_id = 0, as_smba_id = 0\<rparr> = Inr ids" and cls: "cls = Some c"
    and un: "hw_alloc_assoc_unused E technology (as_l3cat_id ids) (as_l2cat_id ids) (as_mba_id ids) (as_smba_id ids) s = (Inr c, u)"
    and oth: "\<forall>l r. l \<notin> set ls \<or> r \<noteq> PQOS_MSR_ASSOC \<longrightarrow> regs (m_hw t) l r = regs (m_hw s) l r"
    and new: "\<forall>l\<in>set ls. \<exists>v. regs (m_hw s) l PQOS_MSR_ASSOC = Some v \<and> regs (m_hw t) l PQOS_MSR_ASSOC = Some (set_clos c v)"
    by blast
  let ?sc = "search_scope technology (as_l3cat_id ids) (as_l2cat_id ids) (as_mba_id ids) (as_smba_id ids) s"
  from msr_driver.assoc_unused_search(1) [OF drv wf refl search_scope_fits [OF fit] un refl]
  have c: "0 < c" and free: "\<not> class_in_use ?sc (regs (m_hw s)) (cores (m_cpu s)) c" by auto
  have "map_option clos_field (regs (m_hw t) (lcore k) PQOS_MSR_ASSOC) \<noteq> Some c"
    if "l \<in> set ls" "pqos_cpu_get_core_info (Some (m_cpu s)) l = Some d" "k \<in> set (cores (m_cpu s))"
      "shares_class technology d k" "lcore k \<notin> set ls" for l d k
    using search_scope_shares [OF tech chk that(1,2,4), of s] free oth that(3,5) by (auto simp: class_in_use_def)
  moreover have "\<exists>v w. regs (m_hw s) l PQOS_MSR_ASSOC = Some v \<and> regs (m_hw t) l PQOS_MSR_ASSOC = Some w \<and>
       clos_field w = c \<and> rmid_field w = rmid_field v" if "l \<in> set ls" for l
    using new that by fastforce
  ultimately show ?thesis using cls c oth by blast
qed

theorem assign_exclusive_witness:
  "fst (hw_alloc_assign ref_platform 2 [0, 1] sample_lib) = PQOS_RETVAL_OK \<and>
   (\<exists>c. fst (snd (hw_alloc_assign ref_platform 2 [0, 1] sample_lib)) = Some c \<and> 0 < c)"
proof -
  let ?r = "hw_alloc_assign ref_platform 2 [0, 1] sample_lib"
  have ok: "fst ?r = PQOS_RETVAL_OK" by code_simp
  then have run: "?r = (PQOS_RETVAL_OK, fst (snd ?r), snd (snd ?r))" by (metis prod.collapse)
  have fit: "all_counts_fit sample_lib" and tech: "\<not> tech_req PQOS_CAP_TYPE_L2CA 2" by code_simp+
  from assign_exclusive [OF refdrv.msr_driver_axioms sample_wf fit tech run] ok show ?thesis by blast
qed

text \<open>
  \<open>hw_alloc_assign\<close> only ever pools cores of one resource entity: when it gets past its
  checks every requested core exists and all of them have the same L3 CAT, MBA and SMBA id
  for the technologies requested; otherwise it answers \<open>PQOS_RETVAL_PARAM\<close> and the state
  is untouched.
\<close>

theorem assign_one_entity:
  "(\<exists>l\<in>set ls. pqos_cpu_get_core_info (Some (m_cpu s)) l = None) \<or>
   (\<exists>l\<in>set ls. \<exists>k\<in>set ls. \<exists>c d. pqos_cpu_get_core_info (Some (m_cpu s)) l = Some c \<and>
      pqos_cpu_get_core_info (Some (m_cpu s)) k = Some d \<and> \<not> shares_class technology c d)
   \<Longrightarrow> hw_alloc_assign E technology ls s = (PQOS_RETVAL_PARAM, None, s)"
proof -
  assume bad: "(\<exists>l\<in>set ls. pqos_cpu_get_core_info (Some (m_cpu s)) l = None) \<or>
   (\<exists>l\<in>set ls. \<exists>k\<in>set ls. \<exists>c d. pqos_cpu_get_core_info (Some (m_cpu s)) l = Some c \<and>
      pqos_cpu_get_core_info (Some (m_cpu s)) k = Some d \<and> \<not> shares_class technology c d)"
  let ?chk = "assign_check technology (m_cpu s) True ls \<lparr>as_l3cat_id = 0, as_l2cat_id = 0, as_mba_id = 0, as_smba_id = 0\<rparr>"
  have "?chk \<noteq> Inr ids" for ids
  proof
    assume chk: "?chk = Inr ids"
    from bad show False
    proof
      assume "\<exists>l\<in>set ls. pqos_cpu_get_core_info (Some (m_cpu s)) l = None"
      with assign_check_core [OF chk] show False by force
    next
      assume "\<exists>l\<in>set ls. \<exists>k\<in>set ls. \<exists>c d. pqos_cpu_get_core_info (Some (m_cpu s)) l = Some c \<and>
        pqos_cpu_get_core_info (Some (m_cpu s)) k = Some d \<and> \<not> shares_class technology c d"
      then obtain l k c d where "l \<in> set ls" "pqos_cpu_get_core_info (Some (m_cpu s)) l = Some c"
        and "k \<in> set ls" "pqos_cpu_get_core_info (Some (m_cpu s)) k = Some d" and "\<not> shares_class technology c d"
        by blast
      with assign_check_ids [OF chk, of l c] assign_check_ids [OF chk, of k d] show False
        by (auto simp: shares_class_def)
    qed
  qed
  moreover have "assign_check technology cpu first ks ids = Inl e \<Longrightarrow> e = PQOS_RETVAL_PARAM" for cpu first ks ids e
    by (induction ks arbitrary: first ids) (auto simp: Let_def split: option.splits if_splits)
  ultimately show ?thesis by (cases ?chk) (auto simp: hw_alloc_assign_def)
qed

theorem assign_one_entity_witness:
  "pqos_cpu_get_core_info (Some sample_cpu) 9 = None \<and>
   hw_alloc_assign ref_platform 2 [0, 9] sample_lib = (PQOS_RETVAL_PARAM, None, sample_lib)"
proof -
  have n: "pqos_cpu_get_core_info (Some sample_cpu) 9 = None" by code_simp
  then show ?thesis using assign_one_entity [of "[0, 9]" sample_lib 2 ref_platform] by simp
qed

text \<open>
  \<open>hw_alloc_release\<close> returns cores to class 0: when it answers \<open>OK\<close> every core of the
  list is in class 0 and keeps its RMID; whatever it answers, other cores and registers
  are untouched and a register of the list is either as before or moved to class 0.
\<close>

theorem release_to_default:
  assumes "msr_driver E core_of regs" and "machine_wf core_of s"
    and "hw_alloc_release E ls s = (ret, t)"
  shows "(ret = PQOS_RETVAL_OK \<longrightarrow> (\<forall>l\<in>set ls. \<exists>v w. regs (m_hw s) l PQOS_MSR_ASSOC = Some v \<and>
       regs (m_hw t) l PQOS_MSR_ASSOC = Some w \<and> clos_field w = 0 \<and> rmid_field w = rmid_field v)) \<and>
    (\<forall>l r. l \<notin> set ls \<or> r \<noteq> PQOS_MSR_ASSOC \<longrightarrow> regs (m_hw t) l r = regs (m_hw s) l r) \<and>
    (\<forall>l v. regs (m_hw s) l PQOS_MSR_ASSOC = Some v \<longrightarrow>
       (\<exists>w. regs (m_hw t) l PQOS_MSR_ASSOC = Some w \<and> rmid_field w = rmid_field v \<and>
          (w = v \<or> clos_field w = 0))) \<and> machine_wf core_of t"
proof -
  from assms(3) have run: "release_loop E ls PQOS_RETVAL_OK s = (ret, t)" by (simp add: hw_alloc_release_def)
  note f = msr_driver.release_loop_facts [OF assms(1,2) run]
  have "\<exists>w. regs (m_hw t) l PQOS_MSR_ASSOC = Some w \<and> rmid_field w = rmid_field v \<and> (w = v \<or> clos_field w = 0)"
    if "regs (m_hw s) l PQOS_MSR_ASSOC = Some v" for l v
    using f that by fastforce
  moreover have "ret = PQOS_RETVAL_OK \<longrightarrow> (\<forall>l\<in>set ls. \<exists>v w. regs (m_hw s) l PQOS_MSR_ASSOC = Some v \<and>
       regs (m_hw t) l PQOS_MSR_ASSOC = Some w \<and> clos_field w = 0 \<and> rmid_field w = rmid_field v)"
    using f by fastforce
  ultimately show ?thesis using f by blast
qed

theorem release_to_default_witness:
  "fst (hw_alloc_release ref_platform [0, 1] sample_lib) = PQOS_RETVAL_OK \<and>
   map_option clos_field (ref_regs (m_hw (snd (hw_alloc_release ref_platform [0, 1] sample_lib))) 1 PQOS_MSR_ASSOC) = Some 0"
proof -
  have ok: "fst (hw_alloc_release ref_platform [0, 1] sample_lib) = PQOS_RETVAL_OK" by code_simp
  from release_to_default [OF refdrv.msr_driver_axioms sample_wf prod.collapse [symmetric], of "[0, 1]"] ok
  show ?thesis by force
qed

end
