(* ===== verification/HwCat.thy ===== *)
theory HwCat
  imports HwAssoc MsrSeq Bitmask
begin

text \<open>
  Cache allocation through the MSR interface (\<open>hw_l3ca_*\<close> and \<open>hw_l2ca_*\<close> of
  \<open>lib/allocation.c\<close>). A table of class definitions with its count is a list; a table
  that a function fills is passed in as a list (its length is the table's size) and the
  filled table returned, so that members the code does not assign keep their value. What
  a failing read leaves in the table is not modelled.
\<close>

section \<open>Checks of a class definition\<close>

text \<open>The result variable of the zero test is an \<open>int\<close>, which cuts a mask without CDP to 32 bits.\<close>

definition ca_nonzero :: "pqos_ca \<Rightarrow> bool" where
  "ca_nonzero ca = (if ca_cdp ca then data_mask ca \<noteq> 0 \<and> code_mask ca \<noteq> 0 else (ucast (ways_mask ca) :: u32) \<noteq> 0)"

definition ca_within :: "u64 \<Rightarrow> pqos_ca \<Rightarrow> bool" where
  "ca_within l3_ways_mask ca =
     (if ca_cdp ca then code_mask ca \<le> l3_ways_mask \<and> data_mask ca \<le> l3_ways_mask
      else ways_mask ca \<le> l3_ways_mask)"

text \<open>The macro \<open>IS_CONTIGNOUS\<close>.\<close>

definition IS_CONTIGNOUS :: "pqos_ca \<Rightarrow> bool" where
  "IS_CONTIGNOUS ca =
     (if ca_cdp ca
      then alloc_is_bitmask_contiguous (data_mask ca) = Some True \<and>
           alloc_is_bitmask_contiguous (code_mask ca) = Some True
      else alloc_is_bitmask_contiguous (ways_mask ca) = Some True)"

section \<open>Writing and reading class masks\<close>

text \<open>The data and code masks that a definition asks for when CDP is on.\<close>

definition dmask :: "pqos_ca \<Rightarrow> u64" where
  "dmask ca = (if ca_cdp ca then data_mask ca else ways_mask ca)"

definition cmask :: "pqos_ca \<Rightarrow> u64" where
  "cmask ca = (if ca_cdp ca then code_mask ca else ways_mask ca)"

fun ca_write_cdp_loop :: "'h platform \<Rightarrow> u32 \<Rightarrow> u32 \<Rightarrow> pqos_ca list \<Rightarrow> 'h lib \<Rightarrow> retval \<times> 'h lib" where
  "ca_write_cdp_loop E core start [] s = (PQOS_RETVAL_OK, s)"
| "ca_write_cdp_loop E core start (ca # cas) s =
     (let reg = ca_class_id ca * 2 + start
      in case msr_write E core reg (dmask ca) s of (retval, s) \<Rightarrow>
           if retval \<noteq> MACHINE_RETVAL_OK then (PQOS_RETVAL_ERROR, s)
           else (case msr_write E core (reg + 1) (cmask ca) s of (retval, s) \<Rightarrow>
                   if retval \<noteq> MACHINE_RETVAL_OK then (PQOS_RETVAL_ERROR, s)
                   else ca_write_cdp_loop E core start cas s))"

fun ca_write_loop :: "'h platform \<Rightarrow> u32 \<Rightarrow> u32 \<Rightarrow> pqos_ca list \<Rightarrow> 'h lib \<Rightarrow> retval \<times> 'h lib" where
  "ca_write_loop E core start [] s = (PQOS_RETVAL_OK, s)"
| "ca_write_loop E core start (ca # cas) s =
     (if ca_cdp ca then (PQOS_RETVAL_ERROR, s)
      else (case msr_write E core (ca_class_id ca + start) (ways_mask ca) s of (retval, s) \<Rightarrow>
              if retval \<noteq> MACHINE_RETVAL_OK then (PQOS_RETVAL_ERROR, s)
              else ca_write_loop E core start cas s))"

text \<open>
  The reading loops for the classes \<open>i, i + 1, ...\<close>, \<open>n\<close> of them; \<open>tab\<close> is the part of
  the table from index \<open>i\<close> on.
\<close>

fun ca_read_cdp_loop :: "'h platform \<Rightarrow> u32 \<Rightarrow> u32 \<Rightarrow> u32 \<Rightarrow> nat \<Rightarrow> pqos_ca list \<Rightarrow> 'h lib
    \<Rightarrow> pqos_ca list res \<times> 'h lib" where
  "ca_read_cdp_loop E core reg i 0 tab s = (Inr tab, s)"
| "ca_read_cdp_loop E core reg i (Suc n) [] s = (Inl PQOS_RETVAL_ERROR, s)"
| "ca_read_cdp_loop E core reg i (Suc n) (ca # tab) s =
     (case msr_read E core reg s of
        (Inl _, s) \<Rightarrow> (Inl PQOS_RETVAL_ERROR, s)
      | (Inr dval, s) \<Rightarrow>
          (case msr_read E core (reg + 1) s of
             (Inl _, s) \<Rightarrow> (Inl PQOS_RETVAL_ERROR, s)
           | (Inr cval, s) \<Rightarrow>
               (case ca_read_cdp_loop E core (reg + 2) (i + 1) n tab s of
                  (Inl e, s) \<Rightarrow> (Inl e, s)
                | (Inr rest, s) \<Rightarrow>
                    (Inr (ca\<lparr>ca_cdp := True, ca_class_id := i, ca_word0 := dval, ca_word1 := cval\<rparr> # rest), s))))"

fun ca_read_loop :: "'h platform \<Rightarrow> u32 \<Rightarrow> u32 \<Rightarrow> u32 \<Rightarrow> nat \<Rightarrow> pqos_ca list \<Rightarrow> 'h lib
    \<Rightarrow> pqos_ca list res \<times> 'h lib" where
  "ca_read_loop E core reg i 0 tab s = (Inr tab, s)"
| "ca_read_loop E core reg i (Suc n) [] s = (Inl PQOS_RETVAL_ERROR, s)"
| "ca_read_loop E core reg i (Suc n) (ca # tab) s =
     (case msr_read E core reg s of
        (Inl _, s) \<Rightarrow> (Inl PQOS_RETVAL_ERROR, s)
      | (Inr val, s) \<Rightarrow>
          (case ca_read_loop E core (reg + 1) (i + 1) n tab s of
             (Inl e, s) \<Rightarrow> (Inl e, s)
           | (Inr rest, s) \<Rightarrow>
               (Inr (ca\<lparr>ca_cdp := False, ca_class_id := i, ca_word0 := val\<rparr> # rest), s)))"

section \<open>L3 cache allocation\<close>

text \<open>
  \<open>1ULL << num_ways\<close> is undefined in C from 64 ways on; the shift gives 0 there, and the
  mask all ones.
\<close>

definition hw_l3ca_set :: "'h platform \<Rightarrow> u32 \<Rightarrow> pqos_ca list \<Rightarrow> 'h lib \<Rightarrow> retval \<times> 'h lib" where
  "hw_l3ca_set E l3cat cas s =
     (let cap = Some (m_cap s);
          l3_ways_mask = push_bit (unat (num_ways (cpu_l3 (m_cpu s)))) 1 - 1
      in if \<exists>ca\<in>set cas. \<not> ca_nonzero ca then (PQOS_RETVAL_PARAM, s)
         else if \<exists>ca\<in>set cas. \<not> ca_within l3_ways_mask ca then (PQOS_RETVAL_PARAM, s)
         else if \<not> cap_get_l3ca_non_contignous (m_cap s) \<and> (\<exists>ca\<in>set cas. \<not> IS_CONTIGNOUS ca)
         then (PQOS_RETVAL_PARAM, s)
         else (case pqos_l3ca_get_clos_num cap of Inl e \<Rightarrow> (e, s) | Inr count \<Rightarrow>
                if unat count < length cas then (PQOS_RETVAL_ERROR, s)
                else (case pqos_l3ca_cdp_enabled cap False True of Inl e \<Rightarrow> (e, s) | Inr (_, cdp_enabled) \<Rightarrow>
                     (case pqos_cpu_get_one_by_l3cat_id (Some (m_cpu s)) l3cat of Inl e \<Rightarrow> (e, s) | Inr core \<Rightarrow>
                       if cdp_enabled then ca_write_cdp_loop E core PQOS_MSR_L3CA_MASK_START cas s
                       else ca_write_loop E core PQOS_MSR_L3CA_MASK_START cas s))))"

text \<open>The result is the table, of which the first \<open>*num_ca\<close> entries are filled, and \<open>*num_ca\<close>.\<close>

definition hw_l3ca_get :: "'h platform \<Rightarrow> u32 \<Rightarrow> pqos_ca list \<Rightarrow> 'h lib
    \<Rightarrow> (pqos_ca list \<times> u32) res \<times> 'h lib" where
  "hw_l3ca_get E l3cat tab s =
     (let cap = Some (m_cap s)
      in case pqos_l3ca_get_clos_num cap of Inl e \<Rightarrow> (Inl e, s) | Inr count \<Rightarrow>
         (case pqos_l3ca_cdp_enabled cap False True of Inl e \<Rightarrow> (Inl e, s) | Inr (_, cdp_enabled) \<Rightarrow>
           if length tab < unat count then (Inl PQOS_RETVAL_ERROR, s)
           else (case pqos_cpu_get_one_by_l3cat_id (Some (m_cpu s)) l3cat of Inl e \<Rightarrow> (Inl e, s) | Inr core \<Rightarrow>
                  (case (if cdp_enabled then ca_read_cdp_loop E core PQOS_MSR_L3CA_MASK_START 0 (unat count) tab s
                         else ca_read_loop E core PQOS_MSR_L3CA_MASK_START 0 (unat count) tab s) of
                     (Inl e, s) \<Rightarrow> (Inl e, s)
                   | (Inr tab, s) \<Rightarrow> (Inr (tab, count), s)))))"

section \<open>L2 cache allocation\<close>

fun l2ca_write_loop :: "'h platform \<Rightarrow> u32 \<Rightarrow> bool \<Rightarrow> pqos_ca list \<Rightarrow> 'h lib \<Rightarrow> retval \<times> 'h lib" where
  "l2ca_write_loop E core cdp_enabled [] s = (PQOS_RETVAL_OK, s)"
| "l2ca_write_loop E core cdp_enabled (ca # cas) s =
     (if cdp_enabled
      then (let reg = ca_class_id ca * 2 + PQOS_MSR_L2CA_MASK_START
            in case msr_write E core reg (dmask ca) s of (retval, s) \<Rightarrow>
                 if retval \<noteq> MACHINE_RETVAL_OK then (PQOS_RETVAL_ERROR, s)
                 else (case msr_write E core (reg + 1) (cmask ca) s of (retval, s) \<Rightarrow>
                         if retval \<noteq> MACHINE_RETVAL_OK then (PQOS_RETVAL_ERROR, s)
                         else l2ca_write_loop E core cdp_enabled cas s))
      else if ca_cdp ca then (PQOS_RETVAL_ERROR, s)
      else (case msr_write E core (ca_class_id ca + PQOS_MSR_L2CA_MASK_START) (ways_mask ca) s of (retval, s) \<Rightarrow>
              if retval \<noteq> MACHINE_RETVAL_OK then (PQOS_RETVAL_ERROR, s)
              else l2ca_write_loop E core cdp_enabled cas s))"

definition hw_l2ca_set :: "'h platform \<Rightarrow> u32 \<Rightarrow> pqos_ca list \<Rightarrow> 'h lib \<Rightarrow> retval \<times> 'h lib" where
  "hw_l2ca_set E l2id cas s =
     (let cap = Some (m_cap s)
      in if \<not> cap_get_l2ca_non_contignous (m_cap s) \<and> (\<exists>ca\<in>set cas. \<not> IS_CONTIGNOUS ca)
         then (PQOS_RETVAL_PARAM, s)
         else (case pqos_l2ca_get_clos_num cap of Inl _ \<Rightarrow> (PQOS_RETVAL_RESOURCE, s) | Inr count \<Rightarrow>
                if \<exists>ca\<in>set cas. count \<le> ca_class_id ca then (PQOS_RETVAL_PARAM, s)
                else (case pqos_l2ca_cdp_enabled cap False True of Inl e \<Rightarrow> (e, s) | Inr (_, cdp_enabled) \<Rightarrow>
                     (case pqos_cpu_get_one_by_l2id (Some (m_cpu s)) l2id of Inl e \<Rightarrow> (e, s) | Inr core \<Rightarrow>
                       l2ca_write_loop E core cdp_enabled cas s))))"

fun l2ca_read_loop :: "'h platform \<Rightarrow> u32 \<Rightarrow> bool \<Rightarrow> u32 \<Rightarrow> nat \<Rightarrow> pqos_ca list \<Rightarrow> 'h lib
    \<Rightarrow> pqos_ca list res \<times> 'h lib" where
  "l2ca_read_loop E core cdp_enabled i 0 tab s = (Inr tab, s)"
| "l2ca_read_loop E core cdp_enabled i (Suc n) [] s = (Inl PQOS_RETVAL_ERROR, s)"
| "l2ca_read_loop E core cdp_enabled i (Suc n) (ca # tab) s =
     (let ca = ca\<lparr>ca_class_id := i, ca_cdp := cdp_enabled\<rparr>
      in if cdp_enabled
         then (let reg = PQOS_MSR_L2CA_MASK_START + i * 2
               in case msr_read E core reg s of
                    (Inl _, s) \<Rightarrow> (Inl PQOS_RETVAL_ERROR, s)
                  | (Inr dval, s) \<Rightarrow>
                      (case msr_read E core (reg + 1) s of
                         (Inl _, s) \<Rightarrow> (Inl PQOS_RETVAL_ERROR, s)
                       | (Inr cval, s) \<Rightarrow>
                           (case l2ca_read_loop E core cdp_enabled (i + 1) n tab s of
                              (Inl e, s) \<Rightarrow> (Inl e, s)
                            | (Inr rest, s) \<Rightarrow> (Inr (ca\<lparr>ca_word0 := dval, ca_word1 := cval\<rparr> # rest), s))))
         else (case msr_read E core (PQOS_MSR_L2CA_MASK_START + i) s of
                 (Inl _, s) \<Rightarrow> (Inl PQOS_RETVAL_ERROR, s)
               | (Inr val, s) \<Rightarrow>
                   (case l2ca_read_loop E core cdp_enabled (i + 1) n tab s of
                      (Inl e, s) \<Rightarrow> (Inl e, s)
                    | (Inr rest, s) \<Rightarrow> (Inr (ca\<lparr>ca_word0 := val\<rparr> # rest), s))))"

definition hw_l2ca_get :: "'h platform \<Rightarrow> u32 \<Rightarrow> pqos_ca list \<Rightarrow> 'h lib
    \<Rightarrow> (pqos_ca list \<times> u32) res \<times> 'h lib" where
  "hw_l2ca_get E l2id tab s =
     (let cap = Some (m_cap s)
      in case pqos_l2ca_get_clos_num cap of Inl _ \<Rightarrow> (Inl PQOS_RETVAL_RESOURCE, s) | Inr count \<Rightarrow>
         (case pqos_l2ca_cdp_enabled cap False True of Inl e \<Rightarrow> (Inl e, s) | Inr (_, cdp_enabled) \<Rightarrow>
           if length tab < unat count then (Inl PQOS_RETVAL_PARAM, s)
           else (case pqos_cpu_get_one_by_l2id (Some (m_cpu s)) l2id of Inl e \<Rightarrow> (Inl e, s) | Inr core \<Rightarrow>
                  (case l2ca_read_loop E core cdp_enabled 0 (unat count) tab s of
                     (Inl e, s) \<Rightarrow> (Inl e, s)
                   | (Inr tab, s) \<Rightarrow> (Inr (tab, count), s)))))"

section \<open>The registers a request programs\<close>

definition ca_writes_cdp :: "u32 \<Rightarrow> pqos_ca list \<Rightarrow> (u32 \<times> u64) list" where
  "ca_writes_cdp start cas =
     concat (map (\<lambda>ca. [(ca_class_id ca * 2 + start, dmask ca), (ca_class_id ca * 2 + start + 1, cmask ca)]) cas)"

definition ca_writes :: "u32 \<Rightarrow> pqos_ca list \<Rightarrow> (u32 \<times> u64) list" where
  "ca_writes start cas = map (\<lambda>ca. (ca_class_id ca + start, ways_mask ca)) cas"

lemma ca_write_cdp_loop_seq:
  "ca_write_cdp_loop E core start cas s =
     (case msr_write_seq E core (ca_writes_cdp start cas) s of (m, t) \<Rightarrow>
        (if m = MACHINE_RETVAL_OK then PQOS_RETVAL_OK else PQOS_RETVAL_ERROR, t))"
  by (induction cas arbitrary: s) (auto simp: ca_writes_cdp_def Let_def split: prod.splits)

lemma ca_write_loop_seq:
  "\<forall>ca\<in>set cas. \<not> ca_cdp ca \<Longrightarrow>
   ca_write_loop E core start cas s =
     (case msr_write_seq E core (ca_writes start cas) s of (m, t) \<Rightarrow>
        (if m = MACHINE_RETVAL_OK then PQOS_RETVAL_OK else PQOS_RETVAL_ERROR, t))"
  by (induction cas arbitrary: s) (auto simp: ca_writes_def split: prod.splits)

lemma ca_write_loop_OK:
  "ca_write_loop E core start cas s = (PQOS_RETVAL_OK, t) \<Longrightarrow> \<forall>ca\<in>set cas. \<not> ca_cdp ca"
  by (induction cas arbitrary: s) (auto split: prod.splits if_splits)

text \<open>The single loop of the L2 code is the two loops of the L3 code.\<close>

lemma l2ca_write_loop_eq:
  "l2ca_write_loop E core cdp cas s =
     (if cdp then ca_write_cdp_loop E core PQOS_MSR_L2CA_MASK_START cas s
      else ca_write_loop E core PQOS_MSR_L2CA_MASK_START cas s)"
proof (cases cdp)
  case True
  then show ?thesis by (induction cas arbitrary: s) (auto simp: Let_def split: prod.splits)
next
  case False
  then show ?thesis by (induction cas arbitrary: s) (auto split: prod.splits)
qed

lemma l2ca_read_loop_eq:
  "l2ca_read_loop E core cdp i n tab s =
     (if cdp then ca_read_cdp_loop E core (PQOS_MSR_L2CA_MASK_START + i * 2) i n tab s
      else ca_read_loop E core (PQOS_MSR_L2CA_MASK_START + i) i n tab s)"
proof (cases cdp)
  case True
  have "l2ca_read_loop E core True i n tab s = ca_read_cdp_loop E core (PQOS_MSR_L2CA_MASK_START + i * 2) i n tab s"
  proof (induction n arbitrary: i tab s)
    case (Suc n)
    have st: "l2ca_read_loop E core True (i + 1) n cas u =
        ca_read_cdp_loop E core (PQOS_MSR_L2CA_MASK_START + i * 2 + 2) (i + 1) n cas u" for cas u
      by (subst Suc.IH) (simp add: algebra_simps)
    show ?case by (cases tab) (auto simp add: st Let_def split: prod.splits sum.splits)
  qed simp
  with True show ?thesis by simp
next
  case False
  have "l2ca_read_loop E core False i n tab s = ca_read_loop E core (PQOS_MSR_L2CA_MASK_START + i) i n tab s"
  proof (induction n arbitrary: i tab s)
    case (Suc n)
    have st: "l2ca_read_loop E core False (i + 1) n cas u =
        ca_read_loop E core (PQOS_MSR_L2CA_MASK_START + i + 1) (i + 1) n cas u" for cas u
      by (subst Suc.IH) (simp add: algebra_simps)
    show ?case by (cases tab) (auto simp add: st Let_def split: prod.splits sum.splits)
  qed simp
  with False show ?thesis by simp
qed

section \<open>Reading on an open device file\<close>

text \<open>The table entry for class \<open>i\<close>, read from the registers \<open>f\<close> of a core.\<close>

definition ca_entry_cdp :: "(u32 \<Rightarrow> u64 option) \<Rightarrow> u32 \<Rightarrow> pqos_ca \<Rightarrow> u32 \<Rightarrow> pqos_ca" where
  "ca_entry_cdp f reg ca i =
     ca\<lparr>ca_cdp := True, ca_class_id := i, ca_word0 := the (f reg), ca_word1 := the (f (reg + 1))\<rparr>"

definition ca_entry :: "(u32 \<Rightarrow> u64 option) \<Rightarrow> u32 \<Rightarrow> pqos_ca \<Rightarrow> u32 \<Rightarrow> pqos_ca" where
  "ca_entry f reg ca i = ca\<lparr>ca_cdp := False, ca_class_id := i, ca_word0 := the (f reg)\<rparr>"

fun ca_table :: "bool \<Rightarrow> (u32 \<Rightarrow> u64 option) \<Rightarrow> u32 \<Rightarrow> u32 \<Rightarrow> nat \<Rightarrow> pqos_ca list \<Rightarrow> pqos_ca list" where
  "ca_table cdp f reg i (Suc n) (ca # tab) =
     (if cdp then ca_entry_cdp f reg ca i # ca_table cdp f (reg + 2) (i + 1) n tab
      else ca_entry f reg ca i # ca_table cdp f (reg + 1) (i + 1) n tab)"
| "ca_table cdp f reg i _ tab = tab"

lemma ca_table_length [simp]: "length (ca_table cdp f reg i n tab) = length tab"
  by (induction cdp f reg i n tab rule: ca_table.induct) auto

lemma ca_table_nth:
  "k < n \<Longrightarrow> n \<le> length tab \<Longrightarrow> ca_table cdp f reg i n tab ! k =
     (if cdp then ca_entry_cdp f (reg + 2 * of_nat k) (tab ! k) (i + of_nat k)
      else ca_entry f (reg + of_nat k) (tab ! k) (i + of_nat k))"
proof (induction cdp f reg i n tab arbitrary: k rule: ca_table.induct)
  case (1 cdp f reg i n ca tab)
  show ?case
  proof (cases k)
    case 0
    then show ?thesis by simp
  next
    case (Suc j)
    with 1 show ?thesis by (auto simp: add.assoc add.left_commute)
  qed
qed auto

text \<open>The mask registers of \<open>n\<close> classes exist.\<close>

definition masks_exist :: "bool \<Rightarrow> (u32 \<Rightarrow> u64 option) \<Rightarrow> u32 \<Rightarrow> nat \<Rightarrow> bool" where
  "masks_exist cdp f reg n \<longleftrightarrow> (\<forall>k<(if cdp then 2 * n else n). f (reg + of_nat k) \<noteq> None)"

lemma masks_exist_Suc:
  "masks_exist cdp f reg (Suc n) \<longleftrightarrow>
     (if cdp then f reg \<noteq> None \<and> f (reg + 1) \<noteq> None \<and> masks_exist cdp f (reg + 2) n
      else f reg \<noteq> None \<and> masks_exist cdp f (reg + 1) n)"
  unfolding masks_exist_def
  by (simp add: All_less_Suc2 ac_simps del: not_None_eq)

context msr_driver begin

lemma read_table_open:
  assumes "machine_wf core_of s" and "fd_open core s" and "masks_exist cdp (regs (m_hw s) core) reg n"
    and "n \<le> length tab"
  shows "(if cdp then ca_read_cdp_loop E core reg i n tab s else ca_read_loop E core reg i n tab s)
    = (Inr (ca_table cdp (regs (m_hw s) core) reg i n tab), s)"
  using assms(3,4)
proof (induction n arbitrary: reg i tab)
  case 0
  then show ?case by simp
next
  case (Suc n)
  then obtain ca rest where tab: "tab = ca # rest" by (cases tab) auto
  note ih = Suc.IH [of "if cdp then reg + 2 else reg + 1" rest "i + 1"]
  from Suc.prems show ?case
    using ih by (cases cdp)
      (auto simp: tab masks_exist_Suc read_open [OF assms(1,2)] ca_entry_cdp_def ca_entry_def)
qed

lemma read_table_frame:
  assumes "machine_wf core_of s"
    and "(if cdp then ca_read_cdp_loop E core reg i n tab s else ca_read_loop E core reg i n tab s) = (x, t)"
  shows "machine_wf core_of t \<and> same_config s t \<and> regs (m_hw t) = regs (m_hw s) \<and>
    (\<forall>tab'. x = Inr tab' \<longrightarrow> tab' = ca_table cdp (regs (m_hw s) core) reg i n tab \<and>
       masks_exist cdp (regs (m_hw s) core) reg n)"
  using assms
proof (induction n arbitrary: reg i tab s x t)
  case 0
  then show ?case by (auto simp: masks_exist_def split: if_splits)
next
  case (Suc n)
  show ?case
  proof (cases tab)
    case Nil
    with Suc.prems show ?thesis by (auto split: if_splits)
  next
    case (Cons ca rest)
    obtain d u where rd: "msr_read E core reg s = (d, u)" by fastforce
    note r = read_facts [OF Suc.prems(1) rd] msr_read_keeps [OF rd]
    obtain c v where rd2: "msr_read E core (reg + 1) u = (c, v)" by fastforce
    note q = read_facts [OF r(1) rd2] msr_read_keeps [OF rd2]
    let ?w = "if cdp then v else u"
    let ?reg = "if cdp then reg + 2 else reg + 1"
    obtain y w where rec: "(if cdp then ca_read_cdp_loop E core ?reg (i + 1) n rest ?w
        else ca_read_loop E core ?reg (i + 1) n rest ?w) = (y, w)" by fastforce
    have wf: "machine_wf core_of ?w" and rg: "regs (m_hw ?w) = regs (m_hw s)" and cfg: "same_config s ?w"
      using r q by (auto intro: same_config_trans)
    note ih = Suc.IH [OF wf rec]
    show ?thesis
    proof (cases "\<exists>e. d = Inl e \<or> (cdp \<and> c = Inl e)")
      case True
      with Suc.prems(2) Cons rd rd2 r q cfg show ?thesis
        by (auto split: if_splits sum.splits intro: same_config_trans)
    next
      case False
      then obtain dv where d: "d = Inr dv" by (cases d) auto
      from False have c: "cdp \<Longrightarrow> \<exists>cv. c = Inr cv" by (cases c) auto
      from r(3) [OF d] have dv: "regs (m_hw s) core reg = Some dv" .
      have t: "t = w" and x: "case y of Inl e \<Rightarrow> x = Inl e | Inr tab' \<Rightarrow> \<exists>e. x = Inr (e # tab') \<and>
          e = (if cdp then ca_entry_cdp (regs (m_hw s) core) reg ca i else ca_entry (regs (m_hw s) core) reg ca i)"
        and cv: "cdp \<Longrightarrow> regs (m_hw s) core (reg + 1) \<noteq> None"
        using Suc.prems(2) Cons rd rd2 d c dv q(3) r(2) rec
        by (auto simp: ca_entry_cdp_def ca_entry_def split: if_splits sum.splits prod.splits)
      show ?thesis
        using ih rg cfg x dv cv
        by (auto simp: t Cons masks_exist_Suc split: sum.splits if_splits intro: same_config_trans)
    qed
  qed
qed

end

definition ca_write_either :: "'h platform \<Rightarrow> u32 \<Rightarrow> u32 \<Rightarrow> bool \<Rightarrow> pqos_ca list \<Rightarrow> 'h lib \<Rightarrow> retval \<times> 'h lib" where
  "ca_write_either E core start cdp cas s =
     (if cdp then ca_write_cdp_loop E core start cas s else ca_write_loop E core start cas s)"

definition ca_writes_either :: "u32 \<Rightarrow> bool \<Rightarrow> pqos_ca list \<Rightarrow> (u32 \<times> u64) list" where
  "ca_writes_either start cdp cas = (if cdp then ca_writes_cdp start cas else ca_writes start cas)"

lemma cat_write_OK:
  assumes "ca_write_either E core start cdp cas s = (PQOS_RETVAL_OK, t)"
  shows "(\<not> cdp \<longrightarrow> (\<forall>ca\<in>set cas. \<not> ca_cdp ca)) \<and>
    msr_write_seq E core (ca_writes_either start cdp cas) s = (MACHINE_RETVAL_OK, t)"
  using assms ca_write_loop_OK [of E core start cas s t] ca_write_loop_seq [of cas E core start s]
  by (auto simp: ca_write_cdp_loop_seq ca_write_either_def ca_writes_either_def split: if_splits prod.splits)

text \<open>With CDP off the loop stops at the first CDP definition.\<close>

lemma ca_write_loop_prefix:
  "snd (ca_write_loop E core start cas s) =
     snd (msr_write_seq E core (ca_writes start (takeWhile (\<lambda>ca. \<not> ca_cdp ca) cas)) s)"
  by (induction cas arbitrary: s) (auto simp: ca_writes_def split: prod.splits)

context msr_driver begin

lemma ca_write_either_frame:
  assumes "machine_wf core_of s" and "ca_write_either E core start cdp cas s = (ret, t)"
  shows "machine_wf core_of t" and "same_config s t"
    and "r \<notin> fst ` set (ca_writes_either start cdp cas) \<Longrightarrow> regs (m_hw t) l r = regs (m_hw s) l r"
proof -
  let ?ws = "if cdp then ca_writes_cdp start cas else ca_writes start (takeWhile (\<lambda>ca. \<not> ca_cdp ca) cas)"
  obtain m u where seq: "msr_write_seq E core ?ws s = (m, u)" by fastforce
  with assms(2) ca_write_loop_prefix [of E core start cas s] have t: "t = u"
    by (auto simp: ca_write_either_def ca_write_cdp_loop_seq split: if_splits)
  note f = write_seq_facts [OF assms(1) seq]
  show "machine_wf core_of t" and "same_config s t" using f(1,2) t by simp_all
  have "fst ` set ?ws \<subseteq> fst ` set (ca_writes_either start cdp cas)"
    by (auto simp: ca_writes_either_def ca_writes_def dest!: set_takeWhileD)
  then show "regs (m_hw t) l r = regs (m_hw s) l r"
    if "r \<notin> fst ` set (ca_writes_either start cdp cas)"
    using f(3) [where l' = l and r = r] that t by blast
qed

end

text \<open>The mask registers of a class, with CDP off and on.\<close>

definition class_regs :: "u32 \<Rightarrow> bool \<Rightarrow> u32 \<Rightarrow> u32 set" where
  "class_regs start cdp c = (if cdp then {c * 2 + start, c * 2 + start + 1} else {c + start})"

lemma writes_either_regs:
  "fst ` set (ca_writes_either start cdp cas) = (\<Union>ca\<in>set cas. class_regs start cdp (ca_class_id ca))"
  by (cases cdp) (simp_all add: ca_writes_either_def ca_writes_cdp_def ca_writes_def class_regs_def image_UN image_image UNION_singleton_eq_range)

section \<open>The contract of a level of cache allocation\<close>

lemma small_class_reg:
  fixes a b :: u32
  assumes "a < 16" and "b < 16"
  shows "a * 2 = b * 2 \<longleftrightarrow> a = b" and "a * 2 + 1 \<noteq> b * 2"
proof -
  have u: "unat (c * 2) = unat c * 2" "unat (c * 2 + 1) = unat c * 2 + 1" if "c < 16" for c :: u32
  proof -
    from that have c: "unat c < 16" by (simp add: word_less_nat_alt)
    then have "unat c * 2 < 2 ^ LENGTH(32)" by simp
    then show m: "unat (c * 2) = unat c * 2" using unat_mult_lem [of c 2] by simp
    with c have "unat (c * 2) + unat (1 :: u32) < 2 ^ LENGTH(32)" by simp
    then show "unat (c * 2 + 1) = unat c * 2 + 1" using unat_add_lem [of "c * 2" 1] m by simp
  qed
  show "a * 2 = b * 2 \<longleftrightarrow> a = b" using u(1) [OF assms(1)] u(1) [OF assms(2)] by (auto simp: word_unat_eq_iff)
  show "a * 2 + 1 \<noteq> b * 2"
  proof
    assume "a * 2 + 1 = b * 2"
    then have "unat a * 2 + 1 = unat b * 2" using u(2) [OF assms(1)] u(1) [OF assms(2)] by metis
    then show False by presburger
  qed
qed

lemma writes_distinct:
  assumes "distinct (map ca_class_id cas)" and "\<forall>ca\<in>set cas. ca_class_id ca < 16"
  shows "distinct (map fst (ca_writes start cas))" and "distinct (map fst (ca_writes_cdp start cas))"
proof -
  show "distinct (map fst (ca_writes start cas))"
    using assms(1) by (auto simp: ca_writes_def distinct_map comp_def inj_on_def)
  show "distinct (map fst (ca_writes_cdp start cas))"
    using assms
  proof (induction cas)
    case (Cons ca cas)
    have "ca_class_id ca * 2 \<noteq> ca_class_id d * 2" and "ca_class_id ca * 2 \<noteq> ca_class_id d * 2 + 1"
      and "ca_class_id ca * 2 + 1 \<noteq> ca_class_id d * 2" if "d \<in> set cas" for d
      using that Cons.prems small_class_reg [of "ca_class_id ca" "ca_class_id d"]
        small_class_reg(2) [of "ca_class_id d" "ca_class_id ca"] by auto
    with Cons show ?case
      by (auto simp: ca_writes_cdp_def algebra_simps)
  qed (simp add: ca_writes_cdp_def)
qed

text \<open>
  \<open>cfg\<close> is the class count and the CDP state, \<open>core_for\<close> the core used for an id. A
  successful \<open>set_ca\<close> programs the registers of the request, one after the other, and
  \<open>get_ca\<close> reads the registers of all classes.
\<close>

locale cat_level = msr_driver E core_of regs
  for E :: "'h platform" and core_of and regs +
  fixes start :: u32
    and cfg :: "'h lib \<Rightarrow> (u32 \<times> bool) option"
    and core_for :: "'h lib \<Rightarrow> u32 \<Rightarrow> u32 option"
    and set_ca :: "u32 \<Rightarrow> pqos_ca list \<Rightarrow> 'h lib \<Rightarrow> retval \<times> 'h lib"
    and get_ca :: "u32 \<Rightarrow> pqos_ca list \<Rightarrow> 'h lib \<Rightarrow> (pqos_ca list \<times> u32) res \<times> 'h lib"
  assumes cfg_static: "same_config s t \<Longrightarrow> cfg t = cfg s \<and> core_for t = core_for s"
    and set_runs: "set_ca i cas s = (ret, t) \<Longrightarrow> (t = s \<and> ret \<noteq> PQOS_RETVAL_OK) \<or>
      (\<exists>count cdp core. cfg s = Some (count, cdp) \<and> core_for s i = Some core \<and>
        ca_write_either E core start cdp cas s = (ret, t))"
    and get_eq: "cfg s = Some (count, cdp) \<Longrightarrow> core_for s i = Some core \<Longrightarrow> unat count \<le> length tab \<Longrightarrow>
      get_ca i tab s =
        (case (if cdp then ca_read_cdp_loop E core start 0 (unat count) tab s
               else ca_read_loop E core start 0 (unat count) tab s) of
           (Inl e, s) \<Rightarrow> (Inl e, s) | (Inr tab, s) \<Rightarrow> (Inr (tab, count), s))"
begin

lemma set_OK:
  assumes "set_ca i cas s = (PQOS_RETVAL_OK, t)"
  shows "\<exists>count cdp core. cfg s = Some (count, cdp) \<and> core_for s i = Some core \<and>
        (\<not> cdp \<longrightarrow> (\<forall>ca\<in>set cas. \<not> ca_cdp ca)) \<and>
        msr_write_seq E core (ca_writes_either start cdp cas) s = (MACHINE_RETVAL_OK, t)"
  using set_runs [OF assms] cat_write_OK by blast

lemma set_frame:
  assumes wf: "machine_wf core_of s" and set: "set_ca i cas s = (ret, t)"
  shows "machine_wf core_of t" and "same_config s t"
    and "cfg s = Some (count, cdp) \<Longrightarrow> r \<notin> (\<Union>ca\<in>set cas. class_regs start cdp (ca_class_id ca)) \<Longrightarrow>
      regs (m_hw t) l r = regs (m_hw s) l r"
  using set_runs [OF set] wf
  by (auto dest: ca_write_either_frame [OF wf] simp: writes_either_regs [symmetric])

lemma set_get:
  assumes wf: "machine_wf core_of s" and set: "set_ca i cas s = (PQOS_RETVAL_OK, t)" and ne: "cas \<noteq> []"
    and cfg: "cfg s = Some (count, cdp)" and small: "unat count \<le> PQOS_MAX_CLOS"
    and core: "core_for s i = Some core" and ex: "masks_exist cdp (regs (m_hw s) core) start (unat count)"
    and ids: "distinct (map ca_class_id cas)" "\<forall>ca\<in>set cas. ca_class_id ca < count" and len: "unat count \<le> length tab"
  shows "\<exists>tab'. get_ca i tab t = (Inr (tab', count), t) \<and>
    (\<forall>ca\<in>set cas. let e = tab' ! unat (ca_class_id ca) in
       ca_class_id e = ca_class_id ca \<and> ca_cdp e = cdp \<and> dmask e = dmask ca \<and> cmask e = cmask ca)"
proof -
  let ?ws = "ca_writes_either start cdp cas"
  from set_OK [OF set] cfg core have plain: "\<not> cdp \<longrightarrow> (\<forall>ca\<in>set cas. \<not> ca_cdp ca)"
    and seq: "msr_write_seq E core ?ws s = (MACHINE_RETVAL_OK, t)" by auto
  note f = write_seq_facts [OF wf seq]
  have "?ws \<noteq> []" using ne by (cases cas) (auto simp: ca_writes_either_def ca_writes_cdp_def ca_writes_def)
  then have op: "fd_open core t" using f(5) by simp
  have after: "regs (m_hw t) core r = regs_after ?ws (regs (m_hw s) core) r" for r using f(4) by simp
  have ex': "masks_exist cdp (regs (m_hw t) core) start (unat count)"
    using ex regs_after_exists [of "regs (m_hw s) core" _ ?ws] after by (auto simp: masks_exist_def simp del: not_None_eq)
  let ?tab = "ca_table cdp (regs (m_hw t) core) start 0 (unat count) tab"
  have get: "get_ca i tab t = (Inr (?tab, count), t)"
    using read_table_open [OF f(1) op ex' len, of 0] get_eq [of t count cdp i core tab] cfg_static [OF f(2)] cfg core len
    by (simp split: if_splits)
  have lt16: "ca_class_id ca < 16" if "ca \<in> set cas" for ca
    using ids(2) that small by (auto simp: word_less_nat_alt PQOS_MAX_CLOS_def)
  then have dist: "distinct (map fst ?ws)" using writes_distinct [OF ids(1)] by (simp add: ca_writes_either_def)
  have "let e = ?tab ! unat (ca_class_id ca) in
       ca_class_id e = ca_class_id ca \<and> ca_cdp e = cdp \<and> dmask e = dmask ca \<and> cmask e = cmask ca" if ca: "ca \<in> set cas" for ca
  proof (cases cdp)
    case True
    have "(ca_class_id ca * 2 + start, dmask ca) \<in> set ?ws" and "(ca_class_id ca * 2 + start + 1, cmask ca) \<in> set ?ws"
      using ca True by (auto simp: ca_writes_either_def ca_writes_cdp_def intro!: bexI [of _ ca])
    then have "regs (m_hw t) core (start + 2 * ca_class_id ca) = Some (dmask ca)"
      and "regs (m_hw t) core (start + 2 * ca_class_id ca + 1) = Some (cmask ca)"
      using regs_after_last [OF dist] after by (auto simp: algebra_simps)
    with True ids(2) ca len show ?thesis
      by (simp add: ca_table_nth word_less_nat_alt ca_entry_cdp_def Let_def) (simp add: dmask_def cmask_def)
  next
    case False
    have "(ca_class_id ca + start, ways_mask ca) \<in> set ?ws"
      using ca False by (auto simp: ca_writes_either_def ca_writes_def)
    then have "regs (m_hw t) core (start + ca_class_id ca) = Some (ways_mask ca)"
      using regs_after_last [OF dist] after by (auto simp: algebra_simps)
    with False plain ids(2) ca len show ?thesis
      by (simp add: ca_table_nth word_less_nat_alt ca_entry_def Let_def) (simp add: dmask_def cmask_def)
  qed
  with get show ?thesis by blast
qed

end

text \<open>The two levels: class count, CDP state and representative core.\<close>

definition cat_cfg :: "u32 res \<Rightarrow> (bool \<times> bool) res \<Rightarrow> (u32 \<times> bool) option" where
  "cat_cfg num cdp =
     (case num of Inl _ \<Rightarrow> None | Inr count \<Rightarrow> (case cdp of Inl _ \<Rightarrow> None | Inr (_, on) \<Rightarrow> Some (count, on)))"

abbreviation l3_cfg :: "'h lib \<Rightarrow> (u32 \<times> bool) option" where
  "l3_cfg s \<equiv> cat_cfg (pqos_l3ca_get_clos_num (Some (m_cap s))) (pqos_l3ca_cdp_enabled (Some (m_cap s)) False True)"

abbreviation l2_cfg :: "'h lib \<Rightarrow> (u32 \<times> bool) option" where
  "l2_cfg s \<equiv> cat_cfg (pqos_l2ca_get_clos_num (Some (m_cap s))) (pqos_l2ca_cdp_enabled (Some (m_cap s)) False True)"

definition value_of :: "'a res \<Rightarrow> 'a option" where
  "value_of r = (case r of Inl _ \<Rightarrow> None | Inr x \<Rightarrow> Some x)"

lemma value_of_simps [simp]: "value_of (Inl e) = None" "value_of (Inr x) = Some x"
  by (simp_all add: value_of_def)

abbreviation l3_core :: "'h lib \<Rightarrow> u32 \<Rightarrow> u32 option" where
  "l3_core s i \<equiv> value_of (pqos_cpu_get_one_by_l3cat_id (Some (m_cpu s)) i)"

abbreviation l2_core :: "'h lib \<Rightarrow> u32 \<Rightarrow> u32 option" where
  "l2_core s i \<equiv> value_of (pqos_cpu_get_one_by_l2id (Some (m_cpu s)) i)"

lemma get_one_error: "pqos_cpu_get_one_by_l3cat_id (Some cpu) i = Inl e \<Longrightarrow> e = PQOS_RETVAL_ERROR"
  and get_one_l2_error: "pqos_cpu_get_one_by_l2id (Some cpu) i = Inl e \<Longrightarrow> e = PQOS_RETVAL_ERROR"
  using l3cat.core_Inl l2obj.core_Inl by blast+

lemma cdp_enabled_error:
  "pqos_l3ca_cdp_enabled (Some cs) False True = Inl e \<Longrightarrow> e = PQOS_RETVAL_RESOURCE"
  "pqos_l2ca_cdp_enabled (Some cs) False True = Inl e \<Longrightarrow> e = PQOS_RETVAL_RESOURCE"
  by (auto simp: pqos_l3ca_cdp_enabled_def pqos_l2ca_cdp_enabled_def dest: cap_get_type_Inl split: sum.splits)

text \<open>Which requests are refused before any register is written.\<close>

definition l3ca_valid :: "'h lib \<Rightarrow> pqos_ca list \<Rightarrow> bool" where
  "l3ca_valid s cas \<longleftrightarrow>
     (\<forall>ca\<in>set cas. ca_nonzero ca \<and> ca_within (push_bit (unat (num_ways (cpu_l3 (m_cpu s)))) 1 - 1) ca \<and>
        (cap_get_l3ca_non_contignous (m_cap s) \<or> IS_CONTIGNOUS ca))"

lemma l3ca_set_cases:
  "hw_l3ca_set E i cas s =
     (if \<not> l3ca_valid s cas then (PQOS_RETVAL_PARAM, s)
      else (case l3_cfg s of None \<Rightarrow> (PQOS_RETVAL_RESOURCE, s)
            | Some (count, cdp) \<Rightarrow>
                if unat count < length cas then (PQOS_RETVAL_ERROR, s)
                else (case l3_core s i of None \<Rightarrow> (PQOS_RETVAL_ERROR, s)
                      | Some core \<Rightarrow>
                          ca_write_either E core PQOS_MSR_L3CA_MASK_START cdp cas s)))"
proof -
  have both: "pqos_l3ca_get_clos_num (Some (m_cap s)) = Inr n \<Longrightarrow>
      \<exists>c. pqos_l3ca_cdp_enabled (Some (m_cap s)) False True = Inr c" for n
    by (auto simp: pqos_l3ca_get_clos_num_def pqos_l3ca_cdp_enabled_def split: sum.splits)
  show ?thesis
    using both l3clos.get_num_error [of "m_cap s"] get_one_error [of "m_cpu s" i]
    by (auto simp: hw_l3ca_set_def l3ca_valid_def ca_write_either_def cat_cfg_def Let_def value_of_def split: sum.splits prod.splits)
qed

lemma l2ca_set_cases:
  "hw_l2ca_set E i cas s =
     (if \<not> cap_get_l2ca_non_contignous (m_cap s) \<and> (\<exists>ca\<in>set cas. \<not> IS_CONTIGNOUS ca) then (PQOS_RETVAL_PARAM, s)
      else (case l2_cfg s of None \<Rightarrow> (PQOS_RETVAL_RESOURCE, s)
            | Some (count, cdp) \<Rightarrow>
                if \<exists>ca\<in>set cas. count \<le> ca_class_id ca then (PQOS_RETVAL_PARAM, s)
                else (case l2_core s i of None \<Rightarrow> (PQOS_RETVAL_ERROR, s)
                      | Some core \<Rightarrow>
                          ca_write_either E core PQOS_MSR_L2CA_MASK_START cdp cas s)))"
proof -
  have both: "pqos_l2ca_get_clos_num (Some (m_cap s)) = Inr n \<Longrightarrow>
      \<exists>c. pqos_l2ca_cdp_enabled (Some (m_cap s)) False True = Inr c" for n
    by (auto simp: pqos_l2ca_get_clos_num_def pqos_l2ca_cdp_enabled_def split: sum.splits)
  show ?thesis
    using both get_one_l2_error [of "m_cpu s" i]
    by (auto simp: hw_l2ca_set_def ca_write_either_def cat_cfg_def Let_def value_of_def l2ca_write_loop_eq split: sum.splits prod.splits)
qed

sublocale msr_driver \<subseteq> l3lev: cat_level E core_of regs PQOS_MSR_L3CA_MASK_START l3_cfg l3_core "hw_l3ca_set E" "hw_l3ca_get E"
proof unfold_locales
  fix s t :: "'h lib"
  assume "same_config s t"
  then show "l3_cfg t = l3_cfg s \<and> l3_core t = l3_core s" by (simp add: same_configD)
next
  fix i cas ret and s t :: "'h lib"
  assume "hw_l3ca_set E i cas s = (ret, t)"
  then show "(t = s \<and> ret \<noteq> PQOS_RETVAL_OK) \<or> (\<exists>count cdp core. l3_cfg s = Some (count, cdp) \<and>
      l3_core s i = Some core \<and> ca_write_either E core PQOS_MSR_L3CA_MASK_START cdp cas s = (ret, t))"
    by (auto simp: l3ca_set_cases split: if_splits option.splits)
next
  fix s :: "'h lib" and count cdp i core and tab :: "pqos_ca list"
  assume "l3_cfg s = Some (count, cdp)" and "l3_core s i = Some core" and "unat count \<le> length tab"
  then show "hw_l3ca_get E i tab s =
        (case (if cdp then ca_read_cdp_loop E core PQOS_MSR_L3CA_MASK_START 0 (unat count) tab s
               else ca_read_loop E core PQOS_MSR_L3CA_MASK_START 0 (unat count) tab s) of
           (Inl e, s) \<Rightarrow> (Inl e, s) | (Inr tab, s) \<Rightarrow> (Inr (tab, count), s))"
    by (auto simp: hw_l3ca_get_def cat_cfg_def value_of_def Let_def split: sum.splits prod.splits)
qed

sublocale msr_driver \<subseteq> l2lev: cat_level E core_of regs PQOS_MSR_L2CA_MASK_START l2_cfg l2_core "hw_l2ca_set E" "hw_l2ca_get E"
proof unfold_locales
  fix s t :: "'h lib"
  assume "same_config s t"
  then show "l2_cfg t = l2_cfg s \<and> l2_core t = l2_core s" by (simp add: same_configD)
next
  fix i cas ret and s t :: "'h lib"
  assume "hw_l2ca_set E i cas s = (ret, t)"
  then show "(t = s \<and> ret \<noteq> PQOS_RETVAL_OK) \<or> (\<exists>count cdp core. l2_cfg s = Some (count, cdp) \<and>
      l2_core s i = Some core \<and> ca_write_either E core PQOS_MSR_L2CA_MASK_START cdp cas s = (ret, t))"
    by (auto simp: l2ca_set_cases split: if_splits option.splits)
next
  fix s :: "'h lib" and count cdp i core and tab :: "pqos_ca list"
  assume "l2_cfg s = Some (count, cdp)" and "l2_core s i = Some core" and "unat count \<le> length tab"
  then show "hw_l2ca_get E i tab s =
        (case (if cdp then ca_read_cdp_loop E core PQOS_MSR_L2CA_MASK_START 0 (unat count) tab s
               else ca_read_loop E core PQOS_MSR_L2CA_MASK_START 0 (unat count) tab s) of
           (Inl e, s) \<Rightarrow> (Inl e, s) | (Inr tab, s) \<Rightarrow> (Inr (tab, count), s))"
    by (auto simp: hw_l2ca_get_def cat_cfg_def value_of_def Let_def l2ca_read_loop_eq split: sum.splits prod.splits)
qed

context msr_driver begin

lemmas l3_set_get = l3lev.set_get
lemmas l2_set_get = l2lev.set_get
lemmas l3_set_frame = l3lev.set_frame
lemmas l2_set_frame = l2lev.set_frame

end

section \<open>Properties\<close>

text \<open>
  C3. What \<open>hw_l3ca_set\<close> programs is what \<open>hw_l3ca_get\<close> reports: after a successful set of
  classes with distinct ids in range, get succeeds and the entry of every requested class
  carries the requested data and code masks (with CDP off, the ways mask) and the CDP
  state. The mask registers of all classes exist on the representative core.
\<close>

theorem l3ca_set_get:
  assumes "msr_driver E core_of regs" and "machine_wf core_of s"
    and "hw_l3ca_set E i cas s = (PQOS_RETVAL_OK, t)" and "cas \<noteq> []"
    and "l3_cfg s = Some (count, cdp)" and "unat count \<le> PQOS_MAX_CLOS" and "l3_core s i = Some core"
    and "masks_exist cdp (regs (m_hw s) core) PQOS_MSR_L3CA_MASK_START (unat count)"
    and "distinct (map ca_class_id cas)" and "\<forall>ca\<in>set cas. ca_class_id ca < count" and "unat count \<le> length tab"
  shows "\<exists>tab'. hw_l3ca_get E i tab t = (Inr (tab', count), t) \<and>
    (\<forall>ca\<in>set cas. let e = tab' ! unat (ca_class_id ca) in
       ca_class_id e = ca_class_id ca \<and> ca_cdp e = cdp \<and> dmask e = dmask ca \<and> cmask e = cmask ca)"
  by (rule msr_driver.l3_set_get [OF assms])

definition sample_ca :: "u32 \<Rightarrow> u64 \<Rightarrow> pqos_ca" where
  "sample_ca c m = \<lparr>ca_class_id = c, ca_cdp = False, ca_word0 = m, ca_word1 = 0\<rparr>"

theorem l3ca_set_get_witness:
  "fst (hw_l3ca_set ref_platform 0 [sample_ca 2 0xf] sample_lib) = PQOS_RETVAL_OK \<and>
   (\<exists>tab' t. hw_l3ca_get ref_platform 0 (replicate 4 (sample_ca 0 0)) (snd (hw_l3ca_set ref_platform 0 [sample_ca 2 0xf] sample_lib))
      = (Inr (tab', 4), t) \<and> dmask (tab' ! 2) = 0xf)"
proof -
  let ?r = "hw_l3ca_set ref_platform 0 [sample_ca 2 0xf] sample_lib"
  have ok: "fst ?r = PQOS_RETVAL_OK" by code_simp
  then have run: "?r = (PQOS_RETVAL_OK, snd ?r)" by (metis prod.collapse)
  have cfg: "l3_cfg sample_lib = Some (4, False)" and core: "l3_core sample_lib 0 = Some 0" by code_simp+
  have ex: "masks_exist False (ref_regs (m_hw sample_lib) 0) PQOS_MSR_L3CA_MASK_START (unat (4 :: u32))" by code_simp
  have small: "unat (4 :: u32) \<le> PQOS_MAX_CLOS" by code_simp
  have lt: "\<forall>ca\<in>set [sample_ca 2 0xf]. ca_class_id ca < 4" and d: "distinct (map ca_class_id [sample_ca 2 0xf])"
    and n: "unat (4 :: u32) \<le> length (replicate 4 (sample_ca 0 0))" by code_simp+
  have m: "dmask (sample_ca 2 0xf) = 0xf" "ca_class_id (sample_ca 2 0xf) = 2" by code_simp+
  from l3ca_set_get [where regs = ref_regs and s = sample_lib and core = 0, OF refdrv.msr_driver_axioms sample_wf run _ cfg small core ex d lt n] ok m show ?thesis
    by (auto simp: Let_def)
qed

text \<open>
  The same round trip for L2 cache allocation.
\<close>

theorem l2ca_set_get:
  assumes "msr_driver E core_of regs" and "machine_wf core_of s"
    and "hw_l2ca_set E i cas s = (PQOS_RETVAL_OK, t)" and "cas \<noteq> []"
    and "l2_cfg s = Some (count, cdp)" and "unat count \<le> PQOS_MAX_CLOS" and "l2_core s i = Some core"
    and "masks_exist cdp (regs (m_hw s) core) PQOS_MSR_L2CA_MASK_START (unat count)"
    and "distinct (map ca_class_id cas)" and "unat count \<le> length tab"
  shows "\<exists>tab'. hw_l2ca_get E i tab t = (Inr (tab', count), t) \<and>
    (\<forall>ca\<in>set cas. let e = tab' ! unat (ca_class_id ca) in
       ca_class_id e = ca_class_id ca \<and> ca_cdp e = cdp \<and> dmask e = dmask ca \<and> cmask e = cmask ca)"
proof -
  have "\<forall>ca\<in>set cas. ca_class_id ca < count"
    using assms(3,5) by (auto simp: l2ca_set_cases not_less split: if_splits)
  from msr_driver.l2_set_get [OF assms(1-9) this assms(10)] show ?thesis .
qed

definition sample_l2_lib :: "ref_hw lib" where
  "sample_l2_lib = sample_lib\<lparr>m_cap := [CapL2ca \<lparr>l2_num_classes = 4, l2_num_ways = 8, l2_way_size = 4096,
     l2_way_contention = 0, l2_cdp = True, l2_cdp_on = True, l2_non_contiguous_cbm = False\<rparr>]\<rparr>"

theorem l2ca_set_get_witness:
  "fst (hw_l2ca_set ref_platform 1 [sample_ca 3 0x6] sample_l2_lib) = PQOS_RETVAL_OK \<and>
   (\<exists>tab' t. hw_l2ca_get ref_platform 1 (replicate 4 (sample_ca 0 0)) (snd (hw_l2ca_set ref_platform 1 [sample_ca 3 0x6] sample_l2_lib))
      = (Inr (tab', 4), t) \<and> cmask (tab' ! 3) = 0x6)"
proof -
  let ?r = "hw_l2ca_set ref_platform 1 [sample_ca 3 0x6] sample_l2_lib"
  have ok: "fst ?r = PQOS_RETVAL_OK" by code_simp
  then have run: "?r = (PQOS_RETVAL_OK, snd ?r)" by (metis prod.collapse)
  have wf: "machine_wf ref_core_of sample_l2_lib" using sample_wf by (simp add: sample_l2_lib_def machine_wf_def)
  have cfg: "l2_cfg sample_l2_lib = Some (4, True)" and core: "l2_core sample_l2_lib 1 = Some 1" by code_simp+
  have ex: "masks_exist True (ref_regs (m_hw sample_l2_lib) 1) PQOS_MSR_L2CA_MASK_START (unat (4 :: u32))" by code_simp
  have small: "unat (4 :: u32) \<le> PQOS_MAX_CLOS" by code_simp
  have d: "distinct (map ca_class_id [sample_ca 3 0x6])"
    and n: "unat (4 :: u32) \<le> length (replicate 4 (sample_ca 0 0))" by code_simp+
  have m: "cmask (sample_ca 3 0x6) = 0x6" "ca_class_id (sample_ca 3 0x6) = 3" by code_simp+
  from l2ca_set_get [where regs = ref_regs and s = sample_l2_lib and core = 1, OF refdrv.msr_driver_axioms wf run _ cfg small core ex d n] ok m show ?thesis
    by (auto simp: Let_def)
qed

text \<open>
  C27. \<open>hw_l3ca_set\<close> validates before it writes. A request with a zero mask, a mask beyond
  the cache's ways, or (without non-contiguous support) a mask with a hole answers
  \<open>PQOS_RETVAL_PARAM\<close> with the state untouched; success implies that the request is valid
  and has no more entries than there are classes; whatever happens, only registers of the
  requested classes change.
\<close>

theorem l3ca_set_safe:
  assumes "msr_driver E core_of regs" and "machine_wf core_of s" and "hw_l3ca_set E i cas s = (ret, t)"
  shows "(\<not> l3ca_valid s cas \<longrightarrow> ret = PQOS_RETVAL_PARAM \<and> t = s) \<and>
    (ret = PQOS_RETVAL_OK \<longrightarrow> l3ca_valid s cas \<and> (\<exists>count cdp. l3_cfg s = Some (count, cdp) \<and> length cas \<le> unat count)) \<and>
    (\<forall>l r. regs (m_hw t) l r \<noteq> regs (m_hw s) l r \<longrightarrow>
       (\<exists>count cdp. l3_cfg s = Some (count, cdp) \<and>
         (\<exists>ca\<in>set cas. r \<in> class_regs PQOS_MSR_L3CA_MASK_START cdp (ca_class_id ca)))) \<and> machine_wf core_of t"
proof -
  have "(\<not> l3ca_valid s cas \<longrightarrow> ret = PQOS_RETVAL_PARAM \<and> t = s) \<and>
    (ret = PQOS_RETVAL_OK \<longrightarrow> l3ca_valid s cas \<and> (\<exists>count cdp. l3_cfg s = Some (count, cdp) \<and> length cas \<le> unat count))"
    using assms(3) by (auto simp: l3ca_set_cases split: if_splits option.splits)
  moreover have "\<exists>count cdp. l3_cfg s = Some (count, cdp) \<and>
      (\<exists>ca\<in>set cas. r \<in> class_regs PQOS_MSR_L3CA_MASK_START cdp (ca_class_id ca))"
    if "regs (m_hw t) l r \<noteq> regs (m_hw s) l r" for l r
  proof -
    from that assms(3) obtain count cdp where c: "l3_cfg s = Some (count, cdp)"
      by (cases "l3_cfg s") (auto simp: l3ca_set_cases split: if_splits)
    from msr_driver.l3_set_frame(3) [OF assms this] that c show ?thesis by blast
  qed
  ultimately show ?thesis using msr_driver.l3_set_frame(1) [OF assms] by blast
qed

theorem l3ca_set_safe_witness:
  "hw_l3ca_set ref_platform 0 [sample_ca 2 0x5] sample_lib = (PQOS_RETVAL_PARAM, sample_lib)"
proof -
  have "\<not> l3ca_valid sample_lib [sample_ca 2 0x5]" by code_simp
  with l3ca_set_safe [OF refdrv.msr_driver_axioms sample_wf prod.collapse [symmetric], where i = 0 and cas = "[sample_ca 2 0x5]"]
  show ?thesis by (metis prod.collapse)
qed

text \<open>
  \<open>hw_l3ca_set\<close> does not compare class ids with the class count: on a system with four
  L3 classes a request for class 128 succeeds and overwrites the first L2 mask register.
\<close>

theorem l3ca_class_unchecked:
  "l3_cfg sample_lib = Some (4, False) \<and>
   fst (hw_l3ca_set ref_platform 0 [sample_ca 128 0x1] sample_lib) = PQOS_RETVAL_OK \<and>
   ref_regs (m_hw sample_lib) 0 PQOS_MSR_L2CA_MASK_START = Some 0xff \<and>
   ref_regs (m_hw (snd (hw_l3ca_set ref_platform 0 [sample_ca 128 0x1] sample_lib))) 0 PQOS_MSR_L2CA_MASK_START = Some 0x1"
  by (intro conjI; code_simp)

end
