(* ===== verification/CatProbe.thy ===== *)
theory CatProbe
  imports HwCat
begin

text \<open>
  The probe for the smallest capacity mask (\<open>hw_l3ca_get_min_cbm_bits\<close> and
  \<open>hw_l2ca_get_min_cbm_bits\<close> of \<open>lib/allocation.c\<close>). The two functions share their loops,
  which take the level's set and get operations as arguments. \<open>buf\<close> is the content of the
  stack arrays before they are filled. The result is the return value and the number
  stored in \<open>*min_cbm_bits\<close>, \<open>None\<close> when nothing is stored.
\<close>

section \<open>The loops\<close>

text \<open>Find an id with a free class; the list is never empty when the code starts the loop.\<close>

fun free_class_loop :: "(u32 \<Rightarrow> 'h lib \<Rightarrow> u32 res \<times> 'h lib) \<Rightarrow> u32 list \<Rightarrow> 'h lib \<Rightarrow> (u32 \<times> u32) res \<times> 'h lib" where
  "free_class_loop unused [] s = (Inl PQOS_RETVAL_RESOURCE, s)"
| "free_class_loop unused (i # ids) s =
     (case unused i s of
        (Inr class_id, s) \<Rightarrow> (Inr (i, class_id), s)
      | (Inl e, s) \<Rightarrow> if e \<noteq> PQOS_RETVAL_RESOURCE then (Inl e, s) else free_class_loop unused ids s)"

text \<open>\<open>(1 << ways) - 1\<close> in \<open>int\<close> arithmetic, converted to \<open>uint64_t\<close>.\<close>

definition probe_mask :: "nat \<Rightarrow> u64" where
  "probe_mask ways = scast (push_bit ways 1 - 1 :: 32 word)"

definition probe_hit :: "u32 \<Rightarrow> u64 \<Rightarrow> pqos_ca \<Rightarrow> bool" where
  "probe_hit class_id m ca \<longleftrightarrow>
     ca_class_id ca = class_id \<and>
     ((ca_cdp ca \<and> data_mask ca = m \<and> code_mask ca = m) \<or> (\<not> ca_cdp ca \<and> ways_mask ca = m))"

fun probe_loop :: "(pqos_ca list \<Rightarrow> 'h lib \<Rightarrow> retval \<times> 'h lib)
    \<Rightarrow> (pqos_ca list \<Rightarrow> 'h lib \<Rightarrow> (pqos_ca list \<times> u32) res \<times> 'h lib)
    \<Rightarrow> u32 \<Rightarrow> pqos_ca list \<Rightarrow> nat list \<Rightarrow> retval \<Rightarrow> 'h lib \<Rightarrow> retval \<times> nat option \<times> 'h lib" where
  "probe_loop set_ca get_ca class_id buf [] ret s = (ret, None, s)"
| "probe_loop set_ca get_ca class_id buf (ways # ws) ret s =
     (let first = \<lparr>ca_class_id = class_id, ca_cdp = False, ca_word0 = probe_mask ways, ca_word1 = 0\<rparr>
      in case set_ca [first] s of (ret, s) \<Rightarrow>
           if ret \<noteq> PQOS_RETVAL_OK then probe_loop set_ca get_ca class_id buf ws ret s
           else (case get_ca (buf[0 := first]) s of
                   (Inl e, s) \<Rightarrow> (e, None, s)
                 | (Inr (tab, num_ca), s) \<Rightarrow>
                     if \<exists>ca\<in>set (take (unat num_ca) tab). probe_hit class_id (probe_mask ways) ca
                     then (PQOS_RETVAL_OK, Some ways, s)
                     else probe_loop set_ca get_ca class_id buf ws PQOS_RETVAL_OK s))"

fun restore_loop :: "(pqos_ca list \<Rightarrow> 'h lib \<Rightarrow> retval \<times> 'h lib) \<Rightarrow> u32 \<Rightarrow> pqos_ca list \<Rightarrow> retval \<Rightarrow> 'h lib
    \<Rightarrow> retval \<times> 'h lib" where
  "restore_loop set_ca class_id [] ret s = (ret, s)"
| "restore_loop set_ca class_id (ca # cas) ret s =
     (if ca_class_id ca \<noteq> class_id then restore_loop set_ca class_id cas ret s
      else (case set_ca [ca] s of (ret_val, s) \<Rightarrow>
              if ret_val \<noteq> PQOS_RETVAL_OK then (ret_val, s)
              else restore_loop set_ca class_id cas ret s))"

section \<open>The two functions\<close>

text \<open>What the two functions do after the capability check; \<open>ids\<close> is the list of ids, NULL or a table.\<close>

definition min_cbm_bits :: "(u32 \<Rightarrow> 'h lib \<Rightarrow> u32 res \<times> 'h lib) \<Rightarrow> (u32 \<Rightarrow> pqos_ca list \<Rightarrow> 'h lib \<Rightarrow> retval \<times> 'h lib)
    \<Rightarrow> (u32 \<Rightarrow> pqos_ca list \<Rightarrow> 'h lib \<Rightarrow> (pqos_ca list \<times> u32) res \<times> 'h lib)
    \<Rightarrow> nat \<Rightarrow> pqos_ca list \<Rightarrow> u32 list option \<Rightarrow> 'h lib \<Rightarrow> retval \<times> nat option \<times> 'h lib" where
  "min_cbm_bits unused set_ca get_ca ways buf ids s =
     (case ids of
        None \<Rightarrow> (PQOS_RETVAL_ERROR, None, s)
      | Some ids \<Rightarrow>
          if length ids = 0 then (PQOS_RETVAL_ERROR, None, s)
          else (case free_class_loop unused (map of_nat [0..<length ids]) s of
                  (Inl e, s) \<Rightarrow> (e, None, s)
                | (Inr (i, class_id), s) \<Rightarrow>
                    (case get_ca i buf s of
                       (Inl e, s) \<Rightarrow> (e, None, s)
                     | (Inr (config, num), s) \<Rightarrow>
                         (case probe_loop (set_ca i) (get_ca i) class_id buf [1..<Suc ways] PQOS_RETVAL_OK s of
                            (ret, bits, s) \<Rightarrow>
                              (case restore_loop (set_ca i) class_id (take (unat num) config) ret s of
                                 (ret, s) \<Rightarrow> (ret, bits, s))))))"

definition hw_l3ca_get_min_cbm_bits :: "'h platform \<Rightarrow> pqos_ca list \<Rightarrow> 'h lib \<Rightarrow> retval \<times> nat option \<times> 'h lib" where
  "hw_l3ca_get_min_cbm_bits E buf s =
     (case pqos_cap_get_type (Some (m_cap s)) PQOS_CAP_TYPE_L3CA of
        Inl _ \<Rightarrow> (PQOS_RETVAL_RESOURCE, None, s)
      | Inr l3_cap \<Rightarrow>
          min_cbm_bits (\<lambda>i. hw_alloc_assoc_unused E (push_bit (cap_type_num PQOS_CAP_TYPE_L3CA) 1) i 0 0 0)
            (hw_l3ca_set E) (hw_l3ca_get E) (unat (l3_num_ways (u_l3ca l3_cap))) buf
            (pqos_cpu_get_l3cat_ids (Some (m_cpu s))) s)"

definition hw_l2ca_get_min_cbm_bits :: "'h platform \<Rightarrow> pqos_ca list \<Rightarrow> 'h lib \<Rightarrow> retval \<times> nat option \<times> 'h lib" where
  "hw_l2ca_get_min_cbm_bits E buf s =
     (case pqos_cap_get_type (Some (m_cap s)) PQOS_CAP_TYPE_L2CA of
        Inl _ \<Rightarrow> (PQOS_RETVAL_RESOURCE, None, s)
      | Inr l2_cap \<Rightarrow>
          min_cbm_bits (\<lambda>i. hw_alloc_assoc_unused E (push_bit (cap_type_num PQOS_CAP_TYPE_L2CA) 1) 0 i 0 0)
            (hw_l2ca_set E) (hw_l2ca_get E) (unat (l2_num_ways (u_l2ca l2_cap))) buf
            (pqos_cpu_get_l2ids (Some (m_cpu s))) s)"

section \<open>The probe leaves the configuration as it was\<close>

lemma free_class_loop_frame:
  assumes "\<And>i s x t. Q s \<Longrightarrow> unused i s = (x, t) \<Longrightarrow> R s t \<and> Q t"
    and "\<And>s. R s s" and "\<And>s t u. R s t \<Longrightarrow> R t u \<Longrightarrow> R s u"
    and "Q s" and "free_class_loop unused ids s = (x, t)"
  shows "R s t \<and> Q t \<and> (\<forall>i c. x = Inr (i, c) \<longrightarrow> (\<exists>u. R s u \<and> Q u \<and> unused i u = (Inr c, t)))"
  using assms(4,5)
proof (induction ids arbitrary: s)
  case Nil
  with assms(2) show ?case by auto
next
  case (Cons i ids)
  obtain y u where y: "unused i s = (y, u)" by fastforce
  with assms(1) Cons.prems(1) have R: "R s u" and Q: "Q u" by blast+
  show ?case
  proof (cases "y = Inl PQOS_RETVAL_RESOURCE")
    case True
    with Cons.prems(2) y have "free_class_loop unused ids u = (x, t)" by simp
    from Cons.IH [OF Q this] R assms(3) show ?thesis by blast
  next
    case False
    with Cons.prems y R Q assms(2) show ?thesis by (auto split: sum.splits if_splits)
  qed
qed

lemma masks_exist_class:
  assumes "masks_exist cdp f start n" and "unat c < n"
  shows "cdp \<Longrightarrow> f (start + 2 * c) \<noteq> None" and "cdp \<Longrightarrow> f (start + 2 * c + 1) \<noteq> None"
    and "\<not> cdp \<Longrightarrow> f (start + c) \<noteq> None"
proof -
  from assms have all: "f (start + of_nat k) \<noteq> None" if "k < (if cdp then 2 * n else n)" for k
    using that by (auto simp: masks_exist_def simp del: not_None_eq)
  show "cdp \<Longrightarrow> f (start + 2 * c) \<noteq> None" using all [of "2 * unat c"] assms(2) by simp
  show "cdp \<Longrightarrow> f (start + 2 * c + 1) \<noteq> None" using all [of "2 * unat c + 1"] assms(2) by (simp add: ac_simps)
  show "\<not> cdp \<Longrightarrow> f (start + c) \<noteq> None" using all [of "unat c"] assms(2) by simp
qed

text \<open>Relation between states of the probe: only the probed class's registers differ.\<close>

definition probed :: "('h \<Rightarrow> int \<Rightarrow> u32 option) \<Rightarrow> ('h \<Rightarrow> u32 \<Rightarrow> u32 \<Rightarrow> u64 option) \<Rightarrow> u32 set \<Rightarrow> 'h lib \<Rightarrow> 'h lib \<Rightarrow> bool" where
  "probed core_of regs R s t \<longleftrightarrow> machine_wf core_of t \<and> same_config s t \<and>
     (\<forall>l r. r \<notin> R \<longrightarrow> regs (m_hw t) l r = regs (m_hw s) l r)"

lemma probed_trans: "probed core_of regs R s t \<Longrightarrow> probed core_of regs R t u \<Longrightarrow> probed core_of regs R s u"
  by (auto simp: probed_def intro: same_config_trans)

lemma restore_skip:
  "\<forall>ca\<in>set cas. ca_class_id ca \<noteq> c \<Longrightarrow> restore_loop set_ca c (cas @ ds) ret s = restore_loop set_ca c ds ret s"
  by (induction cas) auto

text \<open>The table of all classes has one entry for each class.\<close>

lemma restore_table:
  assumes "c < count" and "unat count \<le> length tab"
  shows "restore_loop set_ca c (take (unat count) (ca_table cdp f start 0 (unat count) tab)) ret s =
    (case set_ca [ca_table cdp f start 0 (unat count) tab ! unat c] s of (r, s) \<Rightarrow>
       if r \<noteq> PQOS_RETVAL_OK then (r, s) else (ret, s))"
proof -
  let ?t = "take (unat count) (ca_table cdp f start 0 (unat count) tab)"
  have k: "unat c < unat count" using assms(1) by (simp add: word_less_nat_alt)
  have id: "ca_class_id (?t ! j) = of_nat j" if "j < unat count" for j
    using that assms(2) by (auto simp: ca_table_nth ca_entry_cdp_def ca_entry_def)
  have ne: "ca_class_id (?t ! j) \<noteq> c" if "j < unat count" "j \<noteq> unat c" for j
    using id [OF that(1)] that unat_of_nat_u32 [of j] less_trans [OF that(1) unat_less_u32] by auto
  have "?t = take (unat c) ?t @ ?t ! unat c # drop (Suc (unat c)) ?t"
    using k assms(2) by (intro id_take_nth_drop) simp
  moreover have "\<forall>ca\<in>set (take (unat c) ?t). ca_class_id ca \<noteq> c"
  proof
    fix ca assume "ca \<in> set (take (unat c) ?t)"
    then obtain j where "j < unat c" "ca = ?t ! j" by (auto simp: in_set_conv_nth)
    with ne [of j] k show "ca_class_id ca \<noteq> c" by simp
  qed
  moreover have "\<forall>ca\<in>set (drop (Suc (unat c)) ?t). ca_class_id ca \<noteq> c"
  proof
    fix ca assume "ca \<in> set (drop (Suc (unat c)) ?t)"
    then obtain j where "j < unat count - Suc (unat c)" "ca = ?t ! (Suc (unat c) + j)"
      using assms(2) by (auto simp: in_set_conv_nth min_absorb2)
    with ne [of "Suc (unat c) + j"] show "ca_class_id ca \<noteq> c" by simp
  qed
  ultimately have "restore_loop set_ca c ?t ret s =
      restore_loop set_ca c (?t ! unat c # drop (Suc (unat c)) ?t) ret s"
    and "restore_loop set_ca c (drop (Suc (unat c)) ?t) ret u = (ret, u)" for u
    using restore_skip [of "take (unat c) ?t" c set_ca "?t ! unat c # drop (Suc (unat c)) ?t" ret s]
      restore_skip [of "drop (Suc (unat c)) ?t" c set_ca "[]" ret u] by simp_all
  then show ?thesis using id [OF k] k by (auto split: prod.splits)
qed

lemma free_class_loop_error:
  assumes "\<forall>i s e t. unused i s = (Inl e, t) \<longrightarrow> e \<noteq> PQOS_RETVAL_OK"
  shows "free_class_loop unused ids s = (Inl e, t) \<Longrightarrow> e \<noteq> PQOS_RETVAL_OK"
  using assms by (induction ids arbitrary: s) (auto split: prod.splits sum.splits if_splits)

lemma min_cbm_bits_OK:
  assumes "min_cbm_bits unused set_ca get_ca ways buf ids s = (PQOS_RETVAL_OK, bits, t)"
    and "\<forall>i s e t. unused i s = (Inl e, t) \<longrightarrow> e \<noteq> PQOS_RETVAL_OK"
    and "\<forall>i tab s e t. get_ca i tab s = (Inl e, t) \<longrightarrow> e \<noteq> PQOS_RETVAL_OK"
  shows "\<exists>is i c u config num v ret w. free_class_loop unused is s = (Inr (i, c), u) \<and>
    get_ca i buf u = (Inr (config, num), v) \<and>
    probe_loop (set_ca i) (get_ca i) c buf [1..<Suc ways] PQOS_RETVAL_OK v = (ret, bits, w) \<and>
    restore_loop (set_ca i) c (take (unat num) config) ret w = (PQOS_RETVAL_OK, t)"
proof -
  from assms(1) obtain is' x u where free: "free_class_loop unused is' s = (x, u)"
    and k: "(case x of Inl e \<Rightarrow> (e, None, u) | Inr (i, c) \<Rightarrow>
      (case get_ca i buf u of (Inl e, s) \<Rightarrow> (e, None, s) | (Inr (config, num), s) \<Rightarrow>
        (case probe_loop (set_ca i) (get_ca i) c buf [1..<Suc ways] PQOS_RETVAL_OK s of (ret, bits, s) \<Rightarrow>
          (case restore_loop (set_ca i) c (take (unat num) config) ret s of (ret, s) \<Rightarrow> (ret, bits, s)))))
      = (PQOS_RETVAL_OK, bits, t)"
    unfolding min_cbm_bits_def by (auto simp del: upt_Suc split: option.splits if_splits prod.splits)
  have "x \<noteq> Inl PQOS_RETVAL_OK"
    using free_class_loop_error [OF assms(2)] free by auto
  with k obtain i c where x: "x = Inr (i, c)" by (cases x) auto
  obtain y v where get: "get_ca i buf u = (y, v)" by fastforce
  have "y \<noteq> Inl PQOS_RETVAL_OK" using assms(3) get by metis
  with k x get obtain config num where y: "y = Inr (config, num)" by (cases y) auto
  obtain ret b w where probe: "probe_loop (set_ca i) (get_ca i) c buf [1..<Suc ways] PQOS_RETVAL_OK v = (ret, b, w)"
    by (metis prod_cases3)
  from k [unfolded x sum.case prod.case get y probe] have "b = bits"
    and "restore_loop (set_ca i) c (take (unat num) config) ret w = (PQOS_RETVAL_OK, t)"
    by (auto split: prod.splits)
  with free x get y probe show ?thesis by blast
qed

context cat_level begin

lemma get_frame:
  assumes "machine_wf core_of s" and "cfg s = Some (count, cdp)" and "core_for s i = Some core"
    and "unat count \<le> length tab" and "get_ca i tab s = (x, t)"
  shows "machine_wf core_of t" and "same_config s t" and "regs (m_hw t) = regs (m_hw s)"
    and "x = Inr (tab', n) \<Longrightarrow> n = count \<and> tab' = ca_table cdp (regs (m_hw s) core) start 0 (unat count) tab \<and>
      masks_exist cdp (regs (m_hw s) core) start (unat count)"
proof -
  obtain y u where rd: "(if cdp then ca_read_cdp_loop E core start 0 (unat count) tab s
      else ca_read_loop E core start 0 (unat count) tab s) = (y, u)" by fastforce
  note f = read_table_frame [OF assms(1) rd]
  from get_eq [OF assms(2-4)] rd assms(5) have "u = t" and "y = (case x of Inl e \<Rightarrow> Inl e | Inr (tab', n) \<Rightarrow> Inr tab')"
    and "\<forall>tab' n. x = Inr (tab', n) \<longrightarrow> n = count"
    by (auto split: sum.splits)
  with f show "machine_wf core_of t" and "same_config s t" and "regs (m_hw t) = regs (m_hw s)"
    and "x = Inr (tab', n) \<Longrightarrow> n = count \<and> tab' = ca_table cdp (regs (m_hw s) core) start 0 (unat count) tab \<and>
      masks_exist cdp (regs (m_hw s) core) start (unat count)" by auto
qed

lemma set_probed:
  assumes "machine_wf core_of s" and "cfg s = Some (count, cdp)" and "set_ca i [ca] s = (ret, t)" and "ca_class_id ca = c"
  shows "probed core_of regs (class_regs start cdp c) s t"
  using set_frame [OF assms(1,3)] assms(2,4) by (auto simp: probed_def)

lemma probe_loop_probed:
  assumes "machine_wf core_of s" and "cfg s = Some (count, cdp)" and "core_for s i = Some core"
    and "unat count \<le> length buf"
    and "probe_loop (set_ca i) (get_ca i) c buf ws ret0 s = (ret, bits, t)"
  shows "probed core_of regs (class_regs start cdp c) s t \<and> (\<forall>w. bits = Some w \<longrightarrow> w \<in> set ws \<and> ret = PQOS_RETVAL_OK)"
  using assms
proof (induction ws arbitrary: s ret0)
  case Nil
  then show ?case by (auto simp: probed_def)
next
  case (Cons w ws)
  let ?f = "\<lparr>ca_class_id = c, ca_cdp = False, ca_word0 = probe_mask w, ca_word1 = 0\<rparr>"
  obtain r u where set: "set_ca i [?f] s = (r, u)" by fastforce
  have pu: "probed core_of regs (class_regs start cdp c) s u" by (rule set_probed [OF Cons.prems(1,2) set]) simp
  then have wfu: "machine_wf core_of u" and cfgu: "cfg u = Some (count, cdp)" and coreu: "core_for u i = Some core"
    using Cons.prems(2,3) cfg_static by (auto simp: probed_def)
  show ?case
  proof (cases "r = PQOS_RETVAL_OK")
    case False
    with Cons.prems(5) set have "probe_loop (set_ca i) (get_ca i) c buf ws r u = (ret, bits, t)" by (simp add: Let_def)
    from Cons.IH [OF wfu cfgu coreu Cons.prems(4) this] pu show ?thesis by (auto intro: probed_trans)
  next
    case True
    obtain y v where get: "get_ca i (buf[0 := ?f]) u = (y, v)" by fastforce
    note g = get_frame [OF wfu cfgu coreu _ get]
    have len: "unat count \<le> length (buf[0 := ?f])" using Cons.prems(4) by simp
    have pv: "probed core_of regs (class_regs start cdp c) s v"
      using g(1-3) [OF len] pu by (auto simp: probed_def intro: same_config_trans)
    then have wfv: "machine_wf core_of v" and cfgv: "cfg v = Some (count, cdp)" and corev: "core_for v i = Some core"
      using Cons.prems(2,3) cfg_static by (auto simp: probed_def)
    show ?thesis
    proof (cases "probe_loop (set_ca i) (get_ca i) c buf ws PQOS_RETVAL_OK v = (ret, bits, t)")
      case True
      from Cons.IH [OF wfv cfgv corev Cons.prems(4) True] pv show ?thesis by (auto intro: probed_trans)
    next
      case False
      with Cons.prems(5) set \<open>r = PQOS_RETVAL_OK\<close> get pv show ?thesis
        by (auto simp: Let_def split: sum.splits if_splits)
    qed
  qed
qed

lemma restored:
  assumes wf: "machine_wf core_of s" and cfg: "cfg s = Some (count, cdp)" and core: "core_for s i = Some core"
    and pr: "probed core_of regs (class_regs start cdp c) s0 s"
    and ex: "masks_exist cdp (regs (m_hw s0) core) start (unat count)"
    and c: "c < count" and small: "unat count \<le> PQOS_MAX_CLOS" and len: "unat count \<le> length tab"
    and run: "restore_loop (set_ca i) c (take (unat count) (ca_table cdp (regs (m_hw s0) core) start 0 (unat count) tab)) ret0 s
      = (PQOS_RETVAL_OK, t)"
  shows "regs (m_hw t) core r = regs (m_hw s0) core r" and "probed core_of regs (class_regs start cdp c) s0 t" and "ret0 = PQOS_RETVAL_OK"
proof -
  let ?f = "regs (m_hw s0) core"
  let ?e = "ca_table cdp ?f start 0 (unat count) tab ! unat c"
  from run have set: "set_ca i [?e] s = (PQOS_RETVAL_OK, t)" and "ret0 = PQOS_RETVAL_OK"
    by (auto simp: restore_table [OF c len] split: prod.splits if_splits)
  then show "ret0 = PQOS_RETVAL_OK" by simp
  have k: "unat c < unat count" using c by (simp add: word_less_nat_alt)
  then have e: "?e = (if cdp then ca_entry_cdp ?f (start + 2 * c) (tab ! unat c) c else ca_entry ?f (start + c) (tab ! unat c) c)"
    using len by (simp add: ca_table_nth)
  then have ec: "ca_class_id ?e = c" by (simp add: ca_entry_cdp_def ca_entry_def)
  show "probed core_of regs (class_regs start cdp c) s0 t"
    using pr set_probed [OF wf cfg set ec] by (rule probed_trans)
  from set_OK [OF set] cfg core have seq: "msr_write_seq E core (ca_writes_either start cdp [?e]) s = (MACHINE_RETVAL_OK, t)"
    by auto
  have c16: "c < 16" using k small by (simp add: word_less_nat_alt PQOS_MAX_CLOS_def)
  have "regs (m_hw t) core r = ?f r" if "r \<in> class_regs start cdp c"
  proof (cases cdp)
    case True
    from masks_exist_class [OF ex k] True have "?f (start + 2 * c) \<noteq> None" "?f (start + 2 * c + 1) \<noteq> None" by auto
    then show ?thesis
      using write_seq_facts(4) [OF wf seq refl, of r] that True e
      by (auto simp: class_regs_def ca_writes_either_def ca_writes_cdp_def ca_entry_cdp_def dmask_def cmask_def ac_simps)
  next
    case False
    from masks_exist_class [OF ex k] False have "?f (start + c) \<noteq> None" by auto
    then show ?thesis
      using write_seq_facts(4) [OF wf seq refl, of r] that False e
      by (auto simp: class_regs_def ca_writes_either_def ca_writes_def ca_entry_def ac_simps)
  qed
  with \<open>probed core_of regs (class_regs start cdp c) s0 t\<close> show "regs (m_hw t) core r = ?f r" by (auto simp: probed_def)
qed

lemma probe_restores:
  assumes wf: "machine_wf core_of s" and cfg: "cfg s = Some (count, cdp)" and core: "core_for s i = Some core"
    and c: "c < count" and small: "unat count \<le> PQOS_MAX_CLOS" and len: "unat count \<le> length buf"
    and get: "get_ca i buf s = (Inr (config, num), u)"
    and probe: "probe_loop (set_ca i) (get_ca i) c buf ws ret0 u = (ret, bits, v)"
    and restore: "restore_loop (set_ca i) c (take (unat num) config) ret v = (PQOS_RETVAL_OK, t)"
  shows "regs (m_hw t) core r = regs (m_hw s) core r"
    and "r \<notin> class_regs start cdp c \<Longrightarrow> regs (m_hw t) l r = regs (m_hw s) l r"
    and "bits = Some w \<Longrightarrow> w \<in> set ws"
proof -
  note g = get_frame [OF wf cfg core len get]
  have st: "cfg u = Some (count, cdp)" "core_for u i = Some core" using cfg core cfg_static [OF g(2)] by simp_all
  note p = probe_loop_probed [OF g(1) st len probe]
  from p g(2) have wfv: "machine_wf core_of v" and sv: "same_config s v" by (auto simp: probed_def intro: same_config_trans)
  have stv: "cfg v = Some (count, cdp)" "core_for v i = Some core" using cfg core cfg_static [OF sv] by simp_all
  have g4: "num = count" "config = ca_table cdp (regs (m_hw s) core) start 0 (unat count) buf"
      "masks_exist cdp (regs (m_hw s) core) start (unat count)" using g(4) [OF refl] by simp_all
  have pr: "probed core_of regs (class_regs start cdp c) s v"
    using p g(2,3) by (auto simp: probed_def intro: same_config_trans)
  note r = restored [OF wfv stv pr g4(3) c small len restore [unfolded g4(1,2)]]
  show "regs (m_hw t) core r = regs (m_hw s) core r" by (rule r(1))
  show "regs (m_hw t) l r = regs (m_hw s) l r" if "r \<notin> class_regs start cdp c"
    using r(2) that by (simp add: probed_def)
  show "w \<in> set ws" if "bits = Some w" using p that by blast
qed

text \<open>The whole probe, for any search that leaves the registers alone and finds a class in range.\<close>

lemma min_cbm_bits_restores:
  assumes wf: "machine_wf core_of s" and cfg: "cfg s = Some (count, cdp)" and small: "unat count \<le> PQOS_MAX_CLOS"
    and buf: "unat count \<le> length buf" and run: "min_cbm_bits unused set_ca get_ca ways buf ids s = (PQOS_RETVAL_OK, bits, t)"
    and err: "\<forall>i s e t. unused i s = (Inl e, t) \<longrightarrow> e \<noteq> PQOS_RETVAL_OK"
      "\<forall>i tab s e t. get_ca i tab s = (Inl e, t) \<longrightarrow> e \<noteq> PQOS_RETVAL_OK"
    and unused: "\<And>i s x t. machine_wf core_of s \<Longrightarrow> unused i s = (x, t) \<Longrightarrow>
      (regs (m_hw t) = regs (m_hw s) \<and> same_config s t) \<and> machine_wf core_of t"
    and range: "\<And>i u c v. machine_wf core_of u \<Longrightarrow> same_config s u \<Longrightarrow> regs (m_hw u) = regs (m_hw s) \<Longrightarrow>
      unused i u = (Inr c, v) \<Longrightarrow> P i c \<and> c < count"
    and core: "\<And>i tab s r t. get_ca i tab s = (Inr r, t) \<Longrightarrow> core_for s i \<noteq> None"
  shows "\<exists>i core c. core_for s i = Some core \<and> P i c \<and> c < count \<and>
    (\<forall>r. regs (m_hw t) core r = regs (m_hw s) core r) \<and>
    (\<forall>l r. r \<notin> class_regs start cdp c \<longrightarrow> regs (m_hw t) l r = regs (m_hw s) l r) \<and>
    (\<forall>w. bits = Some w \<longrightarrow> 1 \<le> w \<and> w \<le> ways)"
proof -
  from min_cbm_bits_OK [OF run err] obtain is' i c u config num v ret w
    where free: "free_class_loop unused is' s = (Inr (i, c), u)" and get: "get_ca i buf u = (Inr (config, num), v)"
    and probe: "probe_loop (set_ca i) (get_ca i) c buf [1..<Suc ways] PQOS_RETVAL_OK v = (ret, bits, w)"
    and restore: "restore_loop (set_ca i) c (take (unat num) config) ret w = (PQOS_RETVAL_OK, t)" by blast
  have f: "(regs (m_hw u) = regs (m_hw s) \<and> same_config s u) \<and> machine_wf core_of u \<and> (\<forall>j d. Inr (i, c) = (Inr (j, d) :: (u32 \<times> u32) res) \<longrightarrow>
      (\<exists>z. (regs (m_hw z) = regs (m_hw s) \<and> same_config s z) \<and> machine_wf core_of z \<and> unused j z = (Inr d, u)))"
    by (rule free_class_loop_frame [where R = "\<lambda>s t. regs (m_hw t) = regs (m_hw s) \<and> same_config s t"
          and Q = "machine_wf core_of", OF unused _ _ wf free])
      (auto intro: same_config_trans)
  then have wfu: "machine_wf core_of u" and su: "same_config s u" and ru: "regs (m_hw u) = regs (m_hw s)" by auto
  from f range have Pc: "P i c" "c < count" by blast+
  have st: "cfg u = Some (count, cdp)" "core_for u = core_for s" using cfg cfg_static [OF su] by simp_all
  from core [OF get] st(2) obtain k where k: "core_for u i = Some k" by auto
  note p = probe_restores [OF wfu st(1) k Pc(2) small buf get probe restore]
  show ?thesis
    using k st(2) Pc p(1,2) p(3) ru by (intro exI [of _ i] exI [of _ k] exI [of _ c]) auto
qed

end

lemma ca_read_error:
  "ca_read_cdp_loop E core reg i n tab s = (Inl e, t) \<Longrightarrow> e = PQOS_RETVAL_ERROR"
  "ca_read_loop E core reg i n tab s = (Inl e, t) \<Longrightarrow> e = PQOS_RETVAL_ERROR"
  by (induction E core reg i n tab s rule: ca_read_cdp_loop.induct; auto split: prod.splits sum.splits)
    (induction E core reg i n tab s rule: ca_read_loop.induct; auto split: prod.splits sum.splits)

lemma ca_get_error:
  "hw_l3ca_get E i tab s = (Inl e, t) \<Longrightarrow> e \<noteq> PQOS_RETVAL_OK"
  "hw_l2ca_get E i tab s = (Inl e, t) \<Longrightarrow> e \<noteq> PQOS_RETVAL_OK"
  by (auto simp: hw_l3ca_get_def hw_l2ca_get_def Let_def l2ca_read_loop_eq split: sum.splits prod.splits if_splits
      dest: ca_read_error l3clos.get_num_error cdp_enabled_error get_one_error get_one_l2_error)

context msr_driver begin

lemma assoc_unused_error: "hw_alloc_assoc_unused E tech a b c d s = (Inl e, t) \<Longrightarrow> e \<noteq> PQOS_RETVAL_OK"
  by (auto simp: assoc_unused_unfold Let_def dest: mark_used_error
        split: if_splits prod.splits sum.splits option.splits)

lemmas l3_min_cbm = l3lev.min_cbm_bits_restores
lemmas l2_min_cbm = l2lev.min_cbm_bits_restores

end

section \<open>Properties\<close>

text \<open>With a single technology the search scope has that technology's class count.\<close>

lemma single_scope_count:
  "sc_num_clos (search_scope (push_bit (cap_type_num PQOS_CAP_TYPE_L3CA) 1) a b c d s) =
     class_count (pqos_l3ca_get_clos_num (Some (m_cap s)))"
  "sc_num_clos (search_scope (push_bit (cap_type_num PQOS_CAP_TYPE_L2CA) 1) a b c d s) =
     class_count (pqos_l2ca_get_clos_num (Some (m_cap s)))"
  by (simp_all add: search_scope_def assoc_scope_of_def num_clos_requested_def tech_req_def Let_def)

text \<open>
  C35. Probing for the smallest L3 mask is not destructive: when
  \<open>hw_l3ca_get_min_cbm_bits\<close> answers \<open>OK\<close>, every register of the probed L3 id's
  representative core has its old value and, on all cores, only registers of one class
  that was not in use can have been touched; the number delivered is between 1 and the number of ways.
\<close>

theorem l3_probe_restores:
  assumes drv: "msr_driver E core_of regs" and wf: "machine_wf core_of s" and fit: "all_counts_fit s"
    and cfg: "l3_cfg s = Some (count, cdp)" and cap: "pqos_cap_get_type (Some (m_cap s)) PQOS_CAP_TYPE_L3CA = Inr item"
    and buf: "length buf = PQOS_MAX_CLOS"
    and run: "hw_l3ca_get_min_cbm_bits E buf s = (PQOS_RETVAL_OK, bits, t)"
  shows "\<exists>i core c. l3_core s i = Some core \<and> 0 < c \<and> c < count \<and>
    \<not> class_in_use (search_scope (push_bit (cap_type_num PQOS_CAP_TYPE_L3CA) 1) i 0 0 0 s) (regs (m_hw s)) (cores (m_cpu s)) c \<and>
    (\<forall>r. regs (m_hw t) core r = regs (m_hw s) core r) \<and>
    (\<forall>l r. r \<notin> class_regs PQOS_MSR_L3CA_MASK_START cdp c \<longrightarrow> regs (m_hw t) l r = regs (m_hw s) l r) \<and>
    (\<forall>w. bits = Some w \<longrightarrow> 1 \<le> w \<and> w \<le> unat (l3_num_ways (u_l3ca item)))"
proof -
  let ?tech = "push_bit (cap_type_num PQOS_CAP_TYPE_L3CA) 1"
  have count: "class_count (pqos_l3ca_get_clos_num (Some (m_cap s))) = count"
    using cfg by (auto simp: cat_cfg_def class_count_def clos_num_or_zero_def split: sum.splits)
  have small: "unat count \<le> PQOS_MAX_CLOS" using fit count by simp
  have run': "min_cbm_bits (\<lambda>i. hw_alloc_assoc_unused E ?tech i 0 0 0) (hw_l3ca_set E) (hw_l3ca_get E)
      (unat (l3_num_ways (u_l3ca item))) buf (pqos_cpu_get_l3cat_ids (Some (m_cpu s))) s = (PQOS_RETVAL_OK, bits, t)"
    using run by (simp only: hw_l3ca_get_min_cbm_bits_def cap sum.case)
  have "\<exists>i core c. l3_core s i = Some core \<and>
    (0 < c \<and> \<not> class_in_use (search_scope ?tech i 0 0 0 s) (regs (m_hw s)) (cores (m_cpu s)) c) \<and> c < count \<and>
    (\<forall>r. regs (m_hw t) core r = regs (m_hw s) core r) \<and>
    (\<forall>l r. r \<notin> class_regs PQOS_MSR_L3CA_MASK_START cdp c \<longrightarrow> regs (m_hw t) l r = regs (m_hw s) l r) \<and>
    (\<forall>w. bits = Some w \<longrightarrow> 1 \<le> w \<and> w \<le> unat (l3_num_ways (u_l3ca item)))"
  proof (rule msr_driver.l3_min_cbm [OF drv wf cfg small _ run'])
    fix i c and u v :: "'a lib"
    assume u: "machine_wf core_of u" "same_config s u" "regs (m_hw u) = regs (m_hw s)"
      and un: "hw_alloc_assoc_unused E ?tech i 0 0 0 u = (Inr c, v)"
    have "search_scope ?tech i 0 0 0 u = search_scope ?tech i 0 0 0 s" using same_configD [OF u(2)] by (simp add: search_scope_def)
    with msr_driver.assoc_unused_search(1) [OF drv u(1) refl _ un refl] search_scope_fits [OF fit, of ?tech i 0 0 0]
    show "(0 < c \<and> \<not> class_in_use (search_scope ?tech i 0 0 0 s) (regs (m_hw s)) (cores (m_cpu s)) c) \<and> c < count"
      using single_scope_count(1) [of i 0 0 0 s] count same_configD(2) [OF u(2)] u(3) by auto
  next
    show "\<forall>i s e t. hw_alloc_assoc_unused E ?tech i 0 0 0 s = (Inl e, t) \<longrightarrow> e \<noteq> PQOS_RETVAL_OK"
      using msr_driver.assoc_unused_error [OF drv] by blast
  next
    show "\<forall>i tab s e t. hw_l3ca_get E i tab s = (Inl e, t) \<longrightarrow> e \<noteq> PQOS_RETVAL_OK"
      using ca_get_error(1) by blast
  next
    fix i tab r and s t :: "'a lib"
    assume "hw_l3ca_get E i tab s = (Inr r, t)"
    then show "l3_core s i \<noteq> None" by (auto simp: hw_l3ca_get_def Let_def split: sum.splits if_splits)
  qed (use msr_driver.assoc_unused_frame [OF drv] small buf in auto)
  then show ?thesis by blast
qed

definition sample_buf :: "pqos_ca list" where
  "sample_buf = replicate PQOS_MAX_CLOS (sample_ca 0 0)"

theorem l3_probe_restores_witness:
  "\<exists>t. hw_l3ca_get_min_cbm_bits ref_platform sample_buf sample_lib = (PQOS_RETVAL_OK, Some 1, t) \<and>
     (\<exists>core. \<forall>r. ref_regs (m_hw t) core r = ref_regs (m_hw sample_lib) core r)"
proof -
  let ?r = "hw_l3ca_get_min_cbm_bits ref_platform sample_buf sample_lib"
  have "fst ?r = PQOS_RETVAL_OK" and "fst (snd ?r) = Some 1" by code_simp+
  then have run: "?r = (PQOS_RETVAL_OK, Some 1, snd (snd ?r))" by (metis prod.collapse)
  have fit: "all_counts_fit sample_lib" and cfg: "l3_cfg sample_lib = Some (4, False)" by code_simp+
  have cap: "pqos_cap_get_type (Some (m_cap sample_lib)) PQOS_CAP_TYPE_L3CA = Inr (CapL3ca sample_l3ca)" by code_simp
  have len: "length sample_buf = PQOS_MAX_CLOS" by (simp add: sample_buf_def)
  from l3_probe_restores [OF refdrv.msr_driver_axioms sample_wf fit cfg cap len run] run show ?thesis by metis
qed

definition sample_id7_lib :: "ref_hw lib" where
  "sample_id7_lib = sample_lib\<lparr>m_cpu := sample_cpu\<lparr>cores := [sample_core 0 7, sample_core 1 7]\<rparr>\<rparr>"

text \<open>
  The L3 probe walks over list positions instead of the ids themselves: on a system
  whose only L3 id is 7 it looks for cores of id 0, finds the class unused there, and then
  fails with \<open>PQOS_RETVAL_ERROR\<close> although the smallest mask could have been found.
\<close>

theorem l3_probe_uses_positions:
  "pqos_cpu_get_l3cat_ids (Some (m_cpu sample_id7_lib)) = Some [7] \<and>
   fst (hw_l3ca_get_min_cbm_bits ref_platform sample_buf sample_id7_lib) = PQOS_RETVAL_ERROR \<and>
   fst (hw_l3ca_set ref_platform 7 [sample_ca 1 1] sample_id7_lib) = PQOS_RETVAL_OK"
  by (intro conjI; code_simp)

end
