(* ===== verification/HwMba.thy ===== *)
theory HwMba
  imports HwCat
begin

text \<open>
  Memory bandwidth allocation through the MSR interface (\<open>hw_mba_*\<close> and \<open>hw_smba_*\<close> of
  \<open>lib/allocation.c\<close>). The set functions return the entries they stored in the caller's
  table \<open>actual\<close>, in order; \<open>want\<close> says whether that table is not NULL.
\<close>

section \<open>Checks\<close>

text \<open>The range and controller checks, one class after the other.\<close>

definition mba_refused :: "u32 \<Rightarrow> pqos_mba \<Rightarrow> bool" where
  "mba_refused count req \<longleftrightarrow> count \<le> mb_class_id req \<or> mb_ctrl req"

section \<open>Writing\<close>

text \<open>
  The throttling value for a bandwidth in percent, in unsigned arithmetic before it is
  widened to 64 bits. A step of 0, which discovery
  stores when CPUID reports a largest delay of 99, is a division by zero in C; the result here is then without
  meaning, and the round trip of \<open>hw_mba_set\<close> and \<open>hw_mba_get\<close> assumes that the step divides 100.
\<close>

definition mba_throttle :: "u32 \<Rightarrow> u32 \<Rightarrow> u32 \<Rightarrow> u64" where
  "mba_throttle step throttle_max bw =
     (let val = (ucast (PQOS_MBA_LINEAR_MAX - ((bw + step div 2) div step) * step) :: u64)
      in if ucast throttle_max < val then ucast throttle_max else val)"

text \<open>
  The loop of the set functions. \<open>enc\<close> computes the register value, \<open>dec\<close> the reported
  bandwidth, \<open>fail\<close> the status returned when a register access fails.
\<close>

fun mba_write_loop :: "'h platform \<Rightarrow> u32 \<Rightarrow> u32 \<Rightarrow> (u32 \<Rightarrow> u64) \<Rightarrow> (u64 \<Rightarrow> u32) \<Rightarrow> (machine_retval \<Rightarrow> retval) \<Rightarrow> bool
    \<Rightarrow> pqos_mba list \<Rightarrow> 'h lib \<Rightarrow> retval \<times> pqos_mba list \<times> 'h lib" where
  "mba_write_loop E core start enc dec fail want [] s = (PQOS_RETVAL_OK, [], s)"
| "mba_write_loop E core start enc dec fail want (req # reqs) s =
     (let reg = mb_class_id req + start
      in case msr_write E core reg (enc (mb_max req)) s of (retval, s) \<Rightarrow>
           if retval \<noteq> MACHINE_RETVAL_OK then (fail retval, [], s)
           else if \<not> want then mba_write_loop E core start enc dec fail want reqs s
           else (case msr_read E core reg s of
                   (Inl retval, s) \<Rightarrow> (fail retval, [], s)
                 | (Inr val, s) \<Rightarrow>
                     (case mba_write_loop E core start enc dec fail want reqs s of
                        (ret, actual, s) \<Rightarrow> (ret, req\<lparr>mb_max := dec val\<rparr> # actual, s))))"

abbreviation io_error :: "machine_retval \<Rightarrow> retval" where
  "io_error \<equiv> \<lambda>_. PQOS_RETVAL_ERROR"

definition hw_mba_set :: "'h platform \<Rightarrow> u32 \<Rightarrow> pqos_mba list \<Rightarrow> bool \<Rightarrow> 'h lib \<Rightarrow> retval \<times> pqos_mba list \<times> 'h lib" where
  "hw_mba_set E mba requested want s =
     (case pqos_cap_get_type (Some (m_cap s)) PQOS_CAP_TYPE_MBA of
        Inl _ \<Rightarrow> (PQOS_RETVAL_RESOURCE, [], s)
      | Inr mba_cap \<Rightarrow>
          (let count = mba_num_classes (u_mba mba_cap); step = mba_throttle_step (u_mba mba_cap)
           in if \<not> mba_is_linear (u_mba mba_cap) then (PQOS_RETVAL_RESOURCE, [], s)
              else if \<exists>req\<in>set requested. mba_refused count req then (PQOS_RETVAL_PARAM, [], s)
              else (case pqos_cpu_get_one_by_mba_id (Some (m_cpu s)) mba of
                      Inl e \<Rightarrow> (e, [], s)
                    | Inr core \<Rightarrow>
                        mba_write_loop E core PQOS_MSR_MBA_MASK_START
                          (mba_throttle step (mba_throttle_max (u_mba mba_cap)))
                          (\<lambda>val. ucast (ucast PQOS_MBA_LINEAR_MAX - val)) io_error want requested s)))"

text \<open>Here the code returns the status of the register access itself.\<close>

definition hw_smba_set_amd :: "'h platform \<Rightarrow> u32 \<Rightarrow> pqos_mba list \<Rightarrow> bool \<Rightarrow> 'h lib \<Rightarrow> retval \<times> pqos_mba list \<times> 'h lib" where
  "hw_smba_set_amd E smba requested want s =
     (case pqos_cap_get_type (Some (m_cap s)) PQOS_CAP_TYPE_SMBA of
        Inl _ \<Rightarrow> (PQOS_RETVAL_RESOURCE, [], s)
      | Inr smba_cap \<Rightarrow>
          if \<exists>req\<in>set requested. mba_refused (mba_num_classes (u_smba smba_cap)) req then (PQOS_RETVAL_PARAM, [], s)
          else (case pqos_cpu_get_one_by_smba_id (Some (m_cpu s)) smba of
                  Inl e \<Rightarrow> (e, [], s)
                | Inr core \<Rightarrow>
                    mba_write_loop E core PQOS_MSR_SMBA_MASK_START_AMD ucast ucast pqos_of_machine want requested s))"

text \<open>The first entry decides between the two kinds (\<open>requested->smba\<close>).\<close>

definition hw_mba_set_amd :: "'h platform \<Rightarrow> u32 \<Rightarrow> pqos_mba list \<Rightarrow> bool \<Rightarrow> 'h lib \<Rightarrow> retval \<times> pqos_mba list \<times> 'h lib" where
  "hw_mba_set_amd E mba requested want s =
     (if mb_smba (hd requested) then hw_smba_set_amd E mba requested want s
      else (case pqos_cap_get_type (Some (m_cap s)) PQOS_CAP_TYPE_MBA of
              Inl _ \<Rightarrow> (PQOS_RETVAL_RESOURCE, [], s)
            | Inr mba_cap \<Rightarrow>
                if \<exists>req\<in>set requested. mba_refused (mba_num_classes (u_mba mba_cap)) req then (PQOS_RETVAL_PARAM, [], s)
                else (case pqos_cpu_get_one_by_mba_id (Some (m_cpu s)) mba of
                        Inl e \<Rightarrow> (e, [], s)
                      | Inr core \<Rightarrow>
                          mba_write_loop E core PQOS_MSR_MBA_MASK_START_AMD ucast ucast io_error want requested s)))"

section \<open>Reading\<close>

fun mba_read_loop :: "'h platform \<Rightarrow> u32 \<Rightarrow> u32 \<Rightarrow> (u64 \<Rightarrow> u32) \<Rightarrow> u32 \<Rightarrow> nat \<Rightarrow> pqos_mba list \<Rightarrow> 'h lib
    \<Rightarrow> pqos_mba list res \<times> 'h lib" where
  "mba_read_loop E core start dec i 0 tab s = (Inr tab, s)"
| "mba_read_loop E core start dec i (Suc n) [] s = (Inl PQOS_RETVAL_ERROR, s)"
| "mba_read_loop E core start dec i (Suc n) (mb # tab) s =
     (case msr_read E core (start + i) s of
        (Inl _, s) \<Rightarrow> (Inl PQOS_RETVAL_ERROR, s)
      | (Inr val, s) \<Rightarrow>
          (case mba_read_loop E core start dec (i + 1) n tab s of
             (Inl e, s) \<Rightarrow> (Inl e, s)
           | (Inr rest, s) \<Rightarrow> (Inr (mb\<lparr>mb_ctrl := False, mb_class_id := i, mb_max := dec val\<rparr> # rest), s)))"

text \<open>The common shape of the three get functions: class count, table size, core, loop.\<close>

definition mba_get_with :: "'h platform \<Rightarrow> u32 res \<Rightarrow> u32 res \<Rightarrow> u32 \<Rightarrow> (u64 \<Rightarrow> u32) \<Rightarrow> pqos_mba list \<Rightarrow> 'h lib
    \<Rightarrow> (pqos_mba list \<times> u32) res \<times> 'h lib" where
  "mba_get_with E num core_res start dec tab s =
     (case num of Inl e \<Rightarrow> (Inl e, s) | Inr count \<Rightarrow>
        if length tab < unat count then (Inl PQOS_RETVAL_ERROR, s)
        else (case core_res of Inl e \<Rightarrow> (Inl e, s) | Inr core \<Rightarrow>
               (case mba_read_loop E core start dec 0 (unat count) tab s of
                  (Inl e, s) \<Rightarrow> (Inl e, s)
                | (Inr tab, s) \<Rightarrow> (Inr (tab, count), s))))"

definition hw_mba_get :: "'h platform \<Rightarrow> u32 \<Rightarrow> pqos_mba list \<Rightarrow> 'h lib \<Rightarrow> (pqos_mba list \<times> u32) res \<times> 'h lib" where
  "hw_mba_get E mba tab s =
     mba_get_with E (pqos_mba_get_clos_num (Some (m_cap s))) (pqos_cpu_get_one_by_mba_id (Some (m_cpu s)) mba)
       PQOS_MSR_MBA_MASK_START (\<lambda>val. ucast (ucast PQOS_MBA_LINEAR_MAX - val)) tab s"

definition hw_smba_get_amd :: "'h platform \<Rightarrow> u32 \<Rightarrow> pqos_mba list \<Rightarrow> 'h lib \<Rightarrow> (pqos_mba list \<times> u32) res \<times> 'h lib" where
  "hw_smba_get_amd E smba tab s =
     mba_get_with E (pqos_smba_get_clos_num (Some (m_cap s))) (pqos_cpu_get_one_by_smba_id (Some (m_cpu s)) smba)
       PQOS_MSR_SMBA_MASK_START_AMD ucast tab s"

definition hw_mba_get_amd :: "'h platform \<Rightarrow> u32 \<Rightarrow> pqos_mba list \<Rightarrow> 'h lib \<Rightarrow> (pqos_mba list \<times> u32) res \<times> 'h lib" where
  "hw_mba_get_amd E mba tab s =
     (if mb_smba (hd tab) then hw_smba_get_amd E mba tab s
      else mba_get_with E (pqos_mba_get_clos_num (Some (m_cap s))) (pqos_cpu_get_one_by_mba_id (Some (m_cpu s)) mba)
             PQOS_MSR_MBA_MASK_START_AMD ucast tab s)"

section \<open>Rounding\<close>

text \<open>The bandwidth that a request is rounded to: the nearest multiple of the step.\<close>

definition mba_round :: "nat \<Rightarrow> nat \<Rightarrow> nat" where
  "mba_round step bw = ((bw + step div 2) div step) * step"

lemma mba_round_near:
  assumes "0 < step"
  shows "mba_round step bw \<le> bw + step div 2" and "bw \<le> mba_round step bw + (step - 1) div 2"
proof -
  let ?x = "bw + step div 2"
  have "mba_round step bw + ?x mod step = ?x" by (simp add: mba_round_def)
  moreover have "?x mod step < step" using assms by simp
  ultimately show "mba_round step bw \<le> bw + step div 2" and "bw \<le> mba_round step bw + (step - 1) div 2"
    by linarith+
qed

lemma mba_round_le_100:
  assumes "step dvd 100" and "bw \<le> 100"
  shows "mba_round step bw \<le> 100"
proof -
  from assms(1) obtain k where k: "100 = step * k" by blast
  then have pos: "0 < step" by (cases step) auto
  have "bw + step div 2 < step * Suc k" using assms(2) k pos by (simp add: div_less_iff_less_mult)
  then have "(bw + step div 2) div step < Suc k" using pos by (simp add: less_mult_imp_div_less mult.commute)
  then have "(bw + step div 2) div step * step \<le> k * step" by (intro mult_le_mono1) simp
  also have "k * step = 100" using k by (simp add: mult.commute)
  finally show ?thesis by (simp only: mba_round_def)
qed

lemma unat_ucast_u64 [simp]: "unat (ucast (x :: u32) :: u64) = unat x"
  by (simp add: unsigned_ucast_eq take_bit_nat_eq_self_iff less_trans [OF unat_less_u32])

lemma mba_throttle_nat:
  assumes "step dvd (100 :: nat)" and "unat st = step" and "unat bw \<le> 100"
  shows "unat (mba_throttle st tmax bw) = min (unat tmax) (100 - mba_round step (unat bw))"
proof -
  from assms(1) have step: "0 < step" "step \<le> 100" by (auto dest: dvd_imp_le intro: Nat.gr0I)
  have half: "unat (st div 2) = step div 2" by (simp add: unat_div assms(2))
  have "unat bw + step div 2 < 2 ^ LENGTH(32)" using assms(3) step by (simp add: less_trans)
  then have sum: "unat (bw + st div 2) = unat bw + step div 2" using unat_add_lem [of bw "st div 2"] half by simp
  have q: "unat ((bw + st div 2) div st) = (unat bw + step div 2) div step" by (simp add: unat_div sum assms(2))
  have r: "mba_round step (unat bw) \<le> 100" by (rule mba_round_le_100 [OF assms(1,3)])
  then have "unat ((bw + st div 2) div st) * unat st < 2 ^ LENGTH(32)" by (simp add: q assms(2) mba_round_def)
  then have prod: "unat ((bw + st div 2) div st * st) = mba_round step (unat bw)"
    using unat_mult_lem [of "(bw + st div 2) div st" st] by (simp add: q assms(2) mba_round_def)
  have "unat (PQOS_MBA_LINEAR_MAX - (bw + st div 2) div st * st) = 100 - mba_round step (unat bw)"
    using r prod by (simp add: PQOS_MBA_LINEAR_MAX_def unat_sub word_le_nat_alt)
  then show ?thesis
    by (simp add: mba_throttle_def Let_def word_less_nat_alt unat_ucast_u64 min_def)
qed

abbreviation mba_bandwidth :: "u64 \<Rightarrow> u32" where
  "mba_bandwidth val \<equiv> ucast (ucast PQOS_MBA_LINEAR_MAX - val)"

lemma mba_bandwidth_nat:
  assumes "unat (val :: u64) \<le> 100"
  shows "unat (mba_bandwidth val) = 100 - unat val"
proof -
  have "unat (ucast PQOS_MBA_LINEAR_MAX - val) = 100 - unat val"
    using assms by (simp add: PQOS_MBA_LINEAR_MAX_def unat_sub word_le_nat_alt)
  moreover have "(100 :: nat) - unat val < 2 ^ LENGTH(32)" by (rule le_less_trans [of _ 100]) simp_all
  ultimately show ?thesis by (simp add: unsigned_ucast_eq take_bit_nat_eq_self)
qed

section \<open>Effect of the loops\<close>

definition mba_writes :: "u32 \<Rightarrow> (u32 \<Rightarrow> u64) \<Rightarrow> pqos_mba list \<Rightarrow> (u32 \<times> u64) list" where
  "mba_writes start enc reqs = map (\<lambda>req. (mb_class_id req + start, enc (mb_max req))) reqs"

fun mba_table :: "(u32 \<Rightarrow> u64 option) \<Rightarrow> (u64 \<Rightarrow> u32) \<Rightarrow> u32 \<Rightarrow> u32 \<Rightarrow> nat \<Rightarrow> pqos_mba list \<Rightarrow> pqos_mba list" where
  "mba_table f dec start i (Suc n) (mb # tab) =
     mb\<lparr>mb_ctrl := False, mb_class_id := i, mb_max := dec (the (f (start + i)))\<rparr> # mba_table f dec start (i + 1) n tab"
| "mba_table f dec start i _ tab = tab"

lemma mba_table_nth:
  "k < n \<Longrightarrow> n \<le> length tab \<Longrightarrow> mba_table f dec start i n tab ! k =
     (tab ! k)\<lparr>mb_ctrl := False, mb_class_id := i + of_nat k, mb_max := dec (the (f (start + (i + of_nat k))))\<rparr>"
proof (induction f dec start i n tab arbitrary: k rule: mba_table.induct)
  case (1 f dec start i n mb tab)
  then show ?case by (cases k) (auto simp: ac_simps)
qed auto

context msr_driver begin

lemma mba_loop_facts:
  assumes "machine_wf core_of s"
    and "mba_write_loop E core start enc dec fail want reqs s = (ret, actual, t)" and "\<And>m. m \<noteq> MACHINE_RETVAL_OK \<Longrightarrow> fail m \<noteq> PQOS_RETVAL_OK"
  shows "machine_wf core_of t \<and> same_config s t \<and>
    (\<forall>l r. r \<notin> fst ` set (mba_writes start enc reqs) \<longrightarrow> regs (m_hw t) l r = regs (m_hw s) l r) \<and>
    (ret = PQOS_RETVAL_OK \<longrightarrow> (\<forall>r. regs (m_hw t) core r = regs_after (mba_writes start enc reqs) (regs (m_hw s) core) r) \<and>
       (reqs \<noteq> [] \<or> fd_open core s \<longrightarrow> fd_open core t) \<and>
       actual = (if want then map (\<lambda>req. req\<lparr>mb_max := dec (enc (mb_max req))\<rparr>) reqs else []))"
  using assms(1,2)
proof (induction reqs arbitrary: s ret actual t)
  case Nil
  then show ?case by (auto simp: mba_writes_def)
next
  case (Cons req reqs)
  let ?reg = "mb_class_id req + start"
  let ?val = "enc (mb_max req)"
  obtain m u where wr: "msr_write E core ?reg ?val s = (m, u)" by fastforce
  note w = write_facts [OF Cons.prems(1) wr] msr_write_keeps [OF wr]
  have oth: "regs (m_hw u) l r = regs (m_hw s) l r" if "r \<noteq> ?reg" for l r using w(3) that by blast
  show ?case
  proof (cases "m = MACHINE_RETVAL_OK")
    case False
    with Cons.prems wr w(1,4,6) assms(3) show ?thesis by (auto simp: Let_def)
  next
    case True
    have op: "fd_open core u" using write_opens [OF Cons.prems(1)] wr True by simp
    have val: "regs (m_hw u) core ?reg = Some ?val" using w(2) True by simp
    have rd: "msr_read E core ?reg u = (Inr ?val, u)" using read_open [OF w(1) op, of ?reg] val by simp
    obtain ret' act' t' where rec: "mba_write_loop E core start enc dec fail want reqs u = (ret', act', t')"
      by (metis prod_cases3)
    note ih = Cons.IH [OF w(1) rec]
    from Cons.prems(2) wr True rd rec have eqs: "ret' = ret" "t' = t"
      "actual = (if want then req\<lparr>mb_max := dec ?val\<rparr> # act' else act')"
      by (auto simp: Let_def split: if_splits)
    have upd: "regs (m_hw u) core r = ((regs (m_hw s) core)(?reg \<mapsto> ?val)) r" for r
      using val oth [of r core] by auto
    have "regs_after (mba_writes start enc reqs) (regs (m_hw u) core) r
        = regs_after (mba_writes start enc (req # reqs)) (regs (m_hw s) core) r" for r
      using regs_after_cong [of "regs (m_hw u) core" r "(regs (m_hw s) core)(?reg \<mapsto> ?val)" "mba_writes start enc reqs"] upd
      by (simp add: mba_writes_def)
    moreover have "same_config s t" using ih w(6) eqs by (blast intro: same_config_trans)
    moreover have "regs (m_hw t) l r = regs (m_hw s) l r" if "r \<notin> fst ` set (mba_writes start enc (req # reqs))" for l r
      using ih oth [of r l] that eqs by (auto simp: mba_writes_def)
    ultimately show ?thesis using ih op eqs by auto
  qed
qed

lemma mba_read_open:
  assumes "machine_wf core_of s" and "fd_open core s"
    and "\<And>k. k < n \<Longrightarrow> regs (m_hw s) core (start + (i + of_nat k)) \<noteq> None" and "n \<le> length tab"
  shows "mba_read_loop E core start dec i n tab s = (Inr (mba_table (regs (m_hw s) core) dec start i n tab), s)"
  using assms(3,4)
proof (induction n arbitrary: i tab)
  case (Suc n)
  then obtain mb rest where tab: "tab = mb # rest" by (cases tab) auto
  have "regs (m_hw s) core (start + i) \<noteq> None" using Suc.prems(1) [of 0] by simp
  moreover have "regs (m_hw s) core (start + (i + 1 + of_nat k)) \<noteq> None" if "k < n" for k
    using Suc.prems(1) [of "Suc k"] that by (simp add: ac_simps)
  ultimately show ?case
    using Suc.IH [of "i + 1" rest] Suc.prems(2) by (auto simp: tab read_open [OF assms(1,2)])
qed simp

end

section \<open>Properties\<close>

text \<open>
  The throttling value that \<open>hw_mba_set\<close> programs encodes the requested bandwidth
  rounded to the nearest multiple of the throttling step (at most half a step away), cut
  at the largest throttling value: no intermediate result wraps around for a bandwidth of
  at most 100 percent and a step that divides 100.
\<close>

theorem mba_throttle_rounds:
  assumes "unat step dvd 100" and "unat bw \<le> 100"
  shows "unat (mba_throttle step tmax bw) = min (unat tmax) (100 - mba_round (unat step) (unat bw)) \<and>
    unat step dvd mba_round (unat step) (unat bw) \<and> mba_round (unat step) (unat bw) \<le> 100 \<and>
    mba_round (unat step) (unat bw) \<le> unat bw + unat step div 2 \<and>
    unat bw \<le> mba_round (unat step) (unat bw) + unat step div 2"
proof -
  from assms(1) have pos: "0 < unat step" by (auto intro: Nat.gr0I)
  have "(unat step - 1) div 2 \<le> unat step div 2" by (rule div_le_mono) simp
  then show ?thesis
    using mba_throttle_nat [OF assms(1) refl assms(2), of tmax] mba_round_near [OF pos, of "unat bw"]
      mba_round_le_100 [OF assms] by (auto simp: mba_round_def)
qed

theorem mba_throttle_rounds_witness:
  "unat (mba_throttle 10 90 43) = 60 \<and> mba_round (unat (10 :: u32)) (unat (43 :: u32)) = 40"
  using mba_throttle_rounds [of 10 43 90] by (simp add: mba_round_def)

text \<open>
  C28. \<open>hw_mba_set\<close> and \<open>hw_mba_get\<close> agree: after a successful set of classes with distinct
  ids, get succeeds and reports for each of them the rounded bandwidth (cut where the
  throttling maximum is exceeded), which is also what set stores in \<open>actual\<close>; every
  register that belongs to no requested class is unchanged.
\<close>

theorem mba_set_get:
  assumes drv: "msr_driver E core_of regs" and wf: "machine_wf core_of s"
    and run: "hw_mba_set E i reqs want s = (PQOS_RETVAL_OK, actual, t)" and ne: "reqs \<noteq> []"
    and cap: "pqos_cap_get_type (Some (m_cap s)) PQOS_CAP_TYPE_MBA = Inr item"
    and step: "unat (mba_throttle_step (u_mba item)) dvd 100" and tmax: "unat (mba_throttle_max (u_mba item)) \<le> 100"
    and core: "pqos_cpu_get_one_by_mba_id (Some (m_cpu s)) i = Inr core"
    and ex: "\<forall>k<unat (mba_num_classes (u_mba item)). regs (m_hw s) core (PQOS_MSR_MBA_MASK_START + of_nat k) \<noteq> None"
    and ids: "distinct (map mb_class_id reqs)" and bw: "\<forall>req\<in>set reqs. unat (mb_max req) \<le> 100"
    and len: "unat (mba_num_classes (u_mba item)) \<le> length tab"
  shows "(\<exists>tab'. hw_mba_get E i tab t = (Inr (tab', mba_num_classes (u_mba item)), t) \<and>
      (\<forall>req\<in>set reqs. let e = tab' ! unat (mb_class_id req) in mb_class_id e = mb_class_id req \<and> \<not> mb_ctrl e \<and>
         unat (mb_max e) = max (100 - unat (mba_throttle_max (u_mba item)))
           (mba_round (unat (mba_throttle_step (u_mba item))) (unat (mb_max req))))) \<and>
    (want \<longrightarrow> map (\<lambda>a. unat (mb_max a)) actual = map (\<lambda>req. max (100 - unat (mba_throttle_max (u_mba item)))
           (mba_round (unat (mba_throttle_step (u_mba item))) (unat (mb_max req)))) reqs) \<and>
    (\<forall>l r. r \<notin> (\<lambda>req. mb_class_id req + PQOS_MSR_MBA_MASK_START) ` set reqs \<longrightarrow> regs (m_hw t) l r = regs (m_hw s) l r)"
proof -
  let ?enc = "mba_throttle (mba_throttle_step (u_mba item)) (mba_throttle_max (u_mba item))"
  let ?f = "\<lambda>req. max (100 - unat (mba_throttle_max (u_mba item))) (mba_round (unat (mba_throttle_step (u_mba item))) (unat (mb_max req)))"
  let ?n = "unat (mba_num_classes (u_mba item))"
  let ?ws = "mba_writes PQOS_MSR_MBA_MASK_START ?enc reqs"
  from run cap core have loop: "mba_write_loop E core PQOS_MSR_MBA_MASK_START ?enc mba_bandwidth io_error want reqs s = (PQOS_RETVAL_OK, actual, t)"
    and cls: "\<forall>req\<in>set reqs. mb_class_id req < mba_num_classes (u_mba item)"
    by (auto simp: hw_mba_set_def Let_def mba_refused_def not_le split: if_splits)
  note f = msr_driver.mba_loop_facts [OF drv wf loop, simplified]
  have enc: "unat (mba_bandwidth (?enc (mb_max req))) = ?f req" if "req \<in> set reqs" for req
  proof -
    note th = mba_throttle_nat [OF step refl, of "mb_max req" "mba_throttle_max (u_mba item)"]
    from bw that have "unat (mb_max req) \<le> 100" by blast
    note th = th [OF this] and r = mba_round_le_100 [OF step this]
    show ?thesis using th r tmax mba_bandwidth_nat [of "?enc (mb_max req)"] by (simp add: min_def max_def) arith
  qed
  have ex': "regs (m_hw t) core (PQOS_MSR_MBA_MASK_START + (0 + of_nat k)) \<noteq> None" if "k < ?n" for k
    using ex that f regs_after_exists [of "regs (m_hw s) core" "PQOS_MSR_MBA_MASK_START + of_nat k" ?ws] by simp
  let ?tab = "mba_table (regs (m_hw t) core) mba_bandwidth PQOS_MSR_MBA_MASK_START 0 ?n tab"
  have num: "pqos_mba_get_clos_num (Some (m_cap s)) = Inr (mba_num_classes (u_mba item))"
    using cap by (simp add: pqos_mba_get_clos_num_def)
  have rd: "mba_read_loop E core PQOS_MSR_MBA_MASK_START mba_bandwidth 0 ?n tab t = (Inr ?tab, t)"
    by (rule msr_driver.mba_read_open [OF drv _ _ ex' len]) (use f ne in auto)
  have get: "hw_mba_get E i tab t = (Inr (?tab, mba_num_classes (u_mba item)), t)"
    using f len by (simp add: hw_mba_get_def mba_get_with_def same_configD(1,2) [of s t] num core rd)
  have dist: "distinct (map fst ?ws)" using ids by (auto simp: mba_writes_def distinct_map comp_def inj_on_def)
  have "let e = ?tab ! unat (mb_class_id req) in mb_class_id e = mb_class_id req \<and> \<not> mb_ctrl e \<and> unat (mb_max e) = ?f req"
    if "req \<in> set reqs" for req
  proof -
    have "(PQOS_MSR_MBA_MASK_START + mb_class_id req, ?enc (mb_max req)) \<in> set ?ws" using that by (auto simp: mba_writes_def)
    from regs_after_last [OF dist this, of "regs (m_hw s) core"] f
    have "regs (m_hw t) core (PQOS_MSR_MBA_MASK_START + mb_class_id req) = Some (?enc (mb_max req))" by simp
    then show ?thesis
      using cls that len enc [OF that] mba_table_nth [of "unat (mb_class_id req)" ?n tab] by (simp add: word_less_nat_alt Let_def)
  qed
  moreover have "want \<longrightarrow> map (\<lambda>a. unat (mb_max a)) actual = map ?f reqs" using f enc by auto
  moreover have "\<forall>l r. r \<notin> (\<lambda>req. mb_class_id req + PQOS_MSR_MBA_MASK_START) ` set reqs \<longrightarrow> regs (m_hw t) l r = regs (m_hw s) l r"
    using f by (auto simp: mba_writes_def image_image)
  ultimately show ?thesis using get by blast
qed

definition sample_mb :: "u32 \<Rightarrow> u32 \<Rightarrow> pqos_mba" where
  "sample_mb c b = \<lparr>mb_class_id = c, mb_max = b, mb_ctrl = False, mb_smba = False\<rparr>"

theorem mba_set_get_witness:
  "\<exists>t tab'. hw_mba_set ref_platform 1 [sample_mb 2 43] False sample_lib = (PQOS_RETVAL_OK, [], t) \<and>
     hw_mba_get ref_platform 1 (replicate 4 (sample_mb 0 0)) t = (Inr (tab', 4), t) \<and> unat (mb_max (tab' ! 2)) = 40"
proof -
  let ?r = "hw_mba_set ref_platform 1 [sample_mb 2 43] False sample_lib"
  have "fst ?r = PQOS_RETVAL_OK" and "fst (snd ?r) = []" by code_simp+
  then have run: "?r = (PQOS_RETVAL_OK, [], snd (snd ?r))" by (metis prod.collapse)
  have cap: "pqos_cap_get_type (Some (m_cap sample_lib)) PQOS_CAP_TYPE_MBA = Inr (CapMba sample_mba)"
    and core: "pqos_cpu_get_one_by_mba_id (Some (m_cpu sample_lib)) 1 = Inr 2" by code_simp+
  have step: "unat (mba_throttle_step (u_mba (CapMba sample_mba))) dvd 100"
    and tmax: "unat (mba_throttle_max (u_mba (CapMba sample_mba))) \<le> 100"
    and ex: "\<forall>k<unat (mba_num_classes (u_mba (CapMba sample_mba))). ref_regs (m_hw sample_lib) 2 (PQOS_MSR_MBA_MASK_START + of_nat k) \<noteq> None"
    and ids: "distinct (map mb_class_id [sample_mb 2 43])" and bw: "\<forall>req\<in>set [sample_mb 2 43]. unat (mb_max req) \<le> 100"
    and len: "unat (mba_num_classes (u_mba (CapMba sample_mba))) \<le> length (replicate 4 (sample_mb 0 0))" by code_simp+
  have v: "max (100 - unat (mba_throttle_max sample_mba))
      (mba_round (unat (mba_throttle_step sample_mba)) (unat (mb_max (sample_mb 2 43)))) = 40"
    and c: "mba_num_classes (u_mba (CapMba sample_mba)) = 4" and k: "unat (mb_class_id (sample_mb 2 43)) = 2" by code_simp+
  from mba_set_get [where regs = ref_regs and s = sample_lib and core = 2,
      OF refdrv.msr_driver_axioms sample_wf run _ cap step tmax core ex ids bw len]
  have "\<exists>tab'. hw_mba_get ref_platform 1 (replicate 4 (sample_mb 0 0)) (snd (snd ?r)) = (Inr (tab', 4), snd (snd ?r)) \<and>
      unat (mb_max (tab' ! 2)) = 40" unfolding c by (auto simp: Let_def v k)
  with run show ?thesis by blast
qed

end
