(* ===== verification/Iordt.thy ===== *)
theory Iordt
  imports Capability RefPlatform
begin

text \<open>
  Association of I/O channels with classes of service and RMIDs through memory mapped
  registers (\<open>lib/iordt.c\<close>), and its callers in \<open>lib/allocation.c\<close>. A mapped block is
  accessed at physical addresses; \<open>os_mmap\<close> says whether the mapping succeeds. What the
  code relies on of the memory is the locale \<open>mmio_memory\<close>.
\<close>

section \<open>Channel identifiers and register blocks\<close>

definition PQOS_IRDT_CHAN_MMIO :: "pqos_channel_t \<Rightarrow> u64" where
  "PQOS_IRDT_CHAN_MMIO chan = chan AND NOT 0xFF"

definition PQOS_IRDT_CHAN :: "pqos_channel_t \<Rightarrow> u64" where
  "PQOS_IRDT_CHAN chan = chan AND 0xFF"

definition MMIO_MAX_CHANNELS :: u64 where "MMIO_MAX_CHANNELS = 8"

definition RCS_FLAGS_REGW :: u64 where "RCS_FLAGS_REGW = 8"
definition RCS_FLAGS_REF :: u64 where "RCS_FLAGS_REF = 0x20"
definition RCS_FLAGS_CEF :: u64 where "RCS_FLAGS_CEF = 0x40"

definition has_flag :: "iordt_mmio \<Rightarrow> u64 \<Rightarrow> bool" where
  "has_flag mmio f = (mmio_flags mmio AND f \<noteq> 0)"

definition get_mmio :: "iordt_mmio list option \<Rightarrow> pqos_channel_t \<Rightarrow> iordt_mmio option" where
  "get_mmio mmioinfo ch =
     (case mmioinfo of None \<Rightarrow> None
      | Some ms \<Rightarrow> List.find (\<lambda>m. mmio_id m = PQOS_IRDT_CHAN_MMIO ch) ms)"

definition MMIO_REGW :: "iordt_mmio \<Rightarrow> u64" where
  "MMIO_REGW mmio = (if has_flag mmio RCS_FLAGS_REGW then 2 else 4)"

definition iordt_check_support :: "pqos_cap option \<Rightarrow> retval" where
  "iordt_check_support cap =
     (case pqos_l3ca_iordt_enabled cap True False of
        Inr (True, _) \<Rightarrow> PQOS_RETVAL_OK
      | _ \<Rightarrow> (case pqos_mon_iordt_enabled cap True False of
                Inr (True, _) \<Rightarrow> PQOS_RETVAL_OK
              | _ \<Rightarrow> PQOS_RETVAL_RESOURCE))"

section \<open>Register access\<close>

text \<open>
  The instances of \<open>IORDT_WRITE\<close> and \<open>IORDT_READ\<close> for 16 and 32 bits. The 16-bit
  instances take and give their value as \<open>uint16_t\<close>.
\<close>

definition iordt_write_uint16 :: "'h platform \<Rightarrow> u64 \<Rightarrow> u64 \<Rightarrow> bool \<Rightarrow> u16 \<Rightarrow> 'h \<Rightarrow> retval \<times> 'h" where
  "iordt_write_uint16 E mem index enable val h =
     (let m = (if enable then drop_bit 1 (- 1) else - 1)
      in if val AND m \<noteq> val then (PQOS_RETVAL_PARAM, h)
         else (PQOS_RETVAL_OK, mem_st16 E (mem + index * 2) (val OR (if enable then push_bit 15 1 else 0)) h))"

definition iordt_write_uint32 :: "'h platform \<Rightarrow> u64 \<Rightarrow> u64 \<Rightarrow> bool \<Rightarrow> u32 \<Rightarrow> 'h \<Rightarrow> retval \<times> 'h" where
  "iordt_write_uint32 E mem index enable val h =
     (let m = (if enable then drop_bit 1 (- 1) else - 1)
      in if val AND m \<noteq> val then (PQOS_RETVAL_PARAM, h)
         else (PQOS_RETVAL_OK, mem_st32 E (mem + index * 4) (val OR (if enable then push_bit 31 1 else 0)) h))"

definition iordt_read_uint16 :: "'h platform \<Rightarrow> u64 \<Rightarrow> u64 \<Rightarrow> bool \<Rightarrow> 'h \<Rightarrow> u32 res" where
  "iordt_read_uint16 E mem index enable h =
     (let val = mem_ld16 E (mem + index * 2) h;
          m = (if enable then drop_bit 1 (- 1) else - 1)
      in if enable \<and> val AND push_bit 15 1 = 0 then Inl PQOS_RETVAL_RESOURCE
         else Inr (ucast (val AND m)))"

definition iordt_read_uint32 :: "'h platform \<Rightarrow> u64 \<Rightarrow> u64 \<Rightarrow> bool \<Rightarrow> 'h \<Rightarrow> u32 res" where
  "iordt_read_uint32 E mem index enable h =
     (let val = mem_ld32 E (mem + index * 4) h;
          m = (if enable then drop_bit 1 (- 1) else - 1)
      in if enable \<and> val AND push_bit 31 1 = 0 then Inl PQOS_RETVAL_RESOURCE
         else Inr (val AND m))"

text \<open>
  The common body of the association routines: find the block, check the channel number,
  map the registers of the block at \<open>offset\<close>, write or read one of them.
\<close>

definition chan_write :: "'h platform \<Rightarrow> (iordt_mmio \<Rightarrow> u16) \<Rightarrow> (iordt_mmio \<Rightarrow> bool) \<Rightarrow> pqos_channel_t \<Rightarrow> u32 \<Rightarrow> 'h lib
    \<Rightarrow> retval \<times> 'h lib" where
  "chan_write E offset enable ch val s =
     (case get_mmio (m_mmioinfo s) ch of
        None \<Rightarrow> (PQOS_RETVAL_PARAM, s)
      | Some mmio \<Rightarrow>
          if MMIO_MAX_CHANNELS \<le> PQOS_IRDT_CHAN ch then (PQOS_RETVAL_PARAM, s)
          else (let addr = mmio_base mmio + ucast (offset mmio);
                    size = MMIO_REGW mmio * MMIO_MAX_CHANNELS;
                    index = PQOS_IRDT_CHAN ch
                in if \<not> os_mmap E addr size (m_hw s) then (PQOS_RETVAL_ERROR, s)
                   else (case (if has_flag mmio RCS_FLAGS_REGW
                               then iordt_write_uint16 E addr index (enable mmio) (ucast val) (m_hw s)
                               else iordt_write_uint32 E addr index (enable mmio) val (m_hw s)) of
                           (ret, h) \<Rightarrow> (ret, s\<lparr>m_hw := h\<rparr>))))"

definition chan_read :: "'h platform \<Rightarrow> (iordt_mmio \<Rightarrow> u16) \<Rightarrow> (iordt_mmio \<Rightarrow> bool) \<Rightarrow> pqos_channel_t \<Rightarrow> 'h lib \<Rightarrow> u32 res" where
  "chan_read E offset enable ch s =
     (case get_mmio (m_mmioinfo s) ch of
        None \<Rightarrow> Inl PQOS_RETVAL_PARAM
      | Some mmio \<Rightarrow>
          if MMIO_MAX_CHANNELS \<le> PQOS_IRDT_CHAN ch then Inl PQOS_RETVAL_PARAM
          else (let addr = mmio_base mmio + ucast (offset mmio);
                    size = MMIO_REGW mmio * MMIO_MAX_CHANNELS;
                    index = PQOS_IRDT_CHAN ch
                in if \<not> os_mmap E addr size (m_hw s) then Inl PQOS_RETVAL_ERROR
                   else if has_flag mmio RCS_FLAGS_REGW
                   then iordt_read_uint16 E addr index (enable mmio) (m_hw s)
                   else iordt_read_uint32 E addr index (enable mmio) (m_hw s)))"

section \<open>RMID association\<close>

definition iordt_mon_assoc_write :: "'h platform \<Rightarrow> pqos_channel_t \<Rightarrow> u32 \<Rightarrow> 'h lib \<Rightarrow> retval \<times> 'h lib" where
  "iordt_mon_assoc_write E ch rmid =
     chan_write E mmio_rmid_offset (\<lambda>mmio. rmid \<noteq> 0 \<and> has_flag mmio RCS_FLAGS_REF) ch rmid"

definition iordt_mon_assoc_read :: "'h platform \<Rightarrow> pqos_channel_t \<Rightarrow> 'h lib \<Rightarrow> u32 res" where
  "iordt_mon_assoc_read E ch = chan_read E mmio_rmid_offset (\<lambda>mmio. has_flag mmio RCS_FLAGS_REF) ch"

text \<open>The reset loops go on after a failure and return the last failing status.\<close>

fun chan_reset_loop :: "(pqos_channel \<Rightarrow> bool) \<Rightarrow> (pqos_channel_t \<Rightarrow> 'h lib \<Rightarrow> retval \<times> 'h lib) \<Rightarrow> pqos_channel list
    \<Rightarrow> retval \<Rightarrow> 'h lib \<Rightarrow> retval \<times> 'h lib" where
  "chan_reset_loop tagging wr [] ret s = (ret, s)"
| "chan_reset_loop tagging wr (c # cs) ret s =
     (if \<not> tagging c then chan_reset_loop tagging wr cs ret s
      else (case wr (channel_id c) s of (retval, s) \<Rightarrow>
              chan_reset_loop tagging wr cs (if retval \<noteq> PQOS_RETVAL_OK then retval else ret) s))"

definition iordt_mon_assoc_reset :: "'h platform \<Rightarrow> pqos_devinfo \<Rightarrow> 'h lib \<Rightarrow> retval \<times> 'h lib" where
  "iordt_mon_assoc_reset E dev s =
     chan_reset_loop rmid_tagging (\<lambda>ch. iordt_mon_assoc_write E ch 0)
       (case channels dev of None \<Rightarrow> [] | Some cs \<Rightarrow> cs) PQOS_RETVAL_OK s"

section \<open>Class association\<close>

definition assoc_write_channel :: "'h platform \<Rightarrow> pqos_channel_t \<Rightarrow> u32 \<Rightarrow> bool \<Rightarrow> 'h lib \<Rightarrow> retval \<times> 'h lib" where
  "assoc_write_channel E ch class_id enable =
     chan_write E mmio_clos_offset (\<lambda>mmio. enable \<and> has_flag mmio RCS_FLAGS_CEF) ch class_id"

definition iordt_assoc_write :: "'h platform \<Rightarrow> pqos_channel_t \<Rightarrow> u32 \<Rightarrow> 'h lib \<Rightarrow> retval \<times> 'h lib" where
  "iordt_assoc_write E ch class_id = assoc_write_channel E ch class_id True"

definition iordt_assoc_read :: "'h platform \<Rightarrow> pqos_channel_t \<Rightarrow> 'h lib \<Rightarrow> u32 res" where
  "iordt_assoc_read E ch = chan_read E mmio_clos_offset (\<lambda>mmio. has_flag mmio RCS_FLAGS_CEF) ch"

definition iordt_assoc_reset :: "'h platform \<Rightarrow> pqos_devinfo \<Rightarrow> 'h lib \<Rightarrow> retval \<times> 'h lib" where
  "iordt_assoc_reset E dev s =
     chan_reset_loop clos_tagging (\<lambda>ch. assoc_write_channel E ch 0 False)
       (case channels dev of None \<Rightarrow> [] | Some cs \<Rightarrow> cs) PQOS_RETVAL_OK s"

section \<open>The callers in allocation.c\<close>

text \<open>The loop over the channels: the first one with the id decides.\<close>

fun channel_tagged :: "pqos_channel_t \<Rightarrow> pqos_channel list \<Rightarrow> bool" where
  "channel_tagged ch [] = False"
| "channel_tagged ch (c # cs) = (if channel_id c \<noteq> ch then channel_tagged ch cs else clos_tagging c)"

definition hw_alloc_assoc_get_channel :: "'h platform \<Rightarrow> pqos_channel_t \<Rightarrow> 'h lib \<Rightarrow> u32 res" where
  "hw_alloc_assoc_get_channel E ch s =
     (case m_dev s of None \<Rightarrow> Inl PQOS_RETVAL_ERROR | Some dev \<Rightarrow>
        (case pqos_l3ca_iordt_enabled (Some (m_cap s)) False True of Inl e \<Rightarrow> Inl e | Inr (_, iordt_enabled) \<Rightarrow>
           if \<not> iordt_enabled then Inl PQOS_RETVAL_ERROR
           else if channel_tagged ch (case channels dev of None \<Rightarrow> [] | Some cs \<Rightarrow> cs)
           then iordt_assoc_read E ch s
           else Inl PQOS_RETVAL_PARAM))"

definition hw_alloc_assoc_set_channel :: "'h platform \<Rightarrow> pqos_channel_t \<Rightarrow> u32 \<Rightarrow> 'h lib \<Rightarrow> retval \<times> 'h lib" where
  "hw_alloc_assoc_set_channel E ch class_id s =
     (case m_dev s of None \<Rightarrow> (PQOS_RETVAL_ERROR, s) | Some dev \<Rightarrow>
        (case pqos_l3ca_iordt_enabled (Some (m_cap s)) False True of Inl e \<Rightarrow> (e, s) | Inr (_, iordt_enabled) \<Rightarrow>
           if \<not> iordt_enabled then (PQOS_RETVAL_ERROR, s)
           else (case clos_num_or_zero (pqos_l3ca_get_clos_num (Some (m_cap s))) of Inl e \<Rightarrow> (e, s) | Inr num_l3_clos \<Rightarrow>
                  if class_id \<noteq> 0 \<and> num_l3_clos \<le> class_id then (PQOS_RETVAL_PARAM, s)
                  else if channel_tagged ch (case channels dev of None \<Rightarrow> [] | Some cs \<Rightarrow> cs)
                  then iordt_assoc_write E ch class_id s
                  else (PQOS_RETVAL_PARAM, s))))"

definition hw_alloc_reset_assoc_channels :: "'h platform \<Rightarrow> 'h lib \<Rightarrow> retval \<times> 'h lib" where
  "hw_alloc_reset_assoc_channels E s =
     (case pqos_l3ca_iordt_enabled (Some (m_cap s)) True True of
        Inl e \<Rightarrow> if e = PQOS_RETVAL_RESOURCE then (PQOS_RETVAL_OK, s) else (e, s)
      | Inr (iordt_supported, iordt_enabled) \<Rightarrow>
          if \<not> iordt_supported \<or> \<not> iordt_enabled then (PQOS_RETVAL_OK, s)
          else (case m_dev s of None \<Rightarrow> (PQOS_RETVAL_OK, s) | Some dev \<Rightarrow> iordt_assoc_reset E dev s))"

section \<open>The enable bit\<close>

lemma enable_bit:
  fixes v :: "'a :: len word"
  assumes "v AND drop_bit 1 (- 1) = v"
  shows "(v OR push_bit (LENGTH('a) - 1) 1) AND drop_bit 1 (- 1) = v"
    and "(v OR push_bit (LENGTH('a) - 1) 1) AND push_bit (LENGTH('a) - 1) 1 \<noteq> 0"
proof -
  have v: "bit v n \<Longrightarrow> Suc n < LENGTH('a)" for n
  proof -
    assume b: "bit v n"
    then have "bit (drop_bit 1 (- 1) :: 'a word) n" using assms by (metis bit_and_iff)
    then show "Suc n < LENGTH('a)" by (auto simp: bit_simps)
  qed
  show "(v OR push_bit (LENGTH('a) - 1) 1) AND drop_bit 1 (- 1) = v"
    by (rule bit_word_eqI) (use v in \<open>auto simp: bit_simps less_diff_conv\<close>)
  have "bit ((v OR push_bit (LENGTH('a) - 1) 1) AND push_bit (LENGTH('a) - 1) 1) (LENGTH('a) - 1)"
    by (simp add: bit_simps)
  then show "(v OR push_bit (LENGTH('a) - 1) 1) AND push_bit (LENGTH('a) - 1) 1 \<noteq> 0" by auto
qed

section \<open>What the code relies on of mapped memory\<close>

text \<open>
  A store is seen by the next load of the same register and not by loads of registers
  that do not overlap it; mappings do not depend on the register contents.
\<close>

locale mmio_memory =
  fixes E :: "'h platform"
  assumes ld16_st16: "mem_ld16 E a (mem_st16 E a v h) = v"
    and ld32_st32: "mem_ld32 E a (mem_st32 E a w h) = w"
    and ld16_other: "b \<noteq> a \<Longrightarrow> b \<noteq> a + 1 \<Longrightarrow> b + 1 \<noteq> a \<Longrightarrow> mem_ld16 E b (mem_st16 E a v h) = mem_ld16 E b h"
    and ld32_other: "b \<noteq> a \<Longrightarrow> b \<noteq> a + 1 \<Longrightarrow> b \<noteq> a + 2 \<Longrightarrow> b \<noteq> a + 3 \<Longrightarrow> b + 1 \<noteq> a \<Longrightarrow> b + 2 \<noteq> a \<Longrightarrow> b + 3 \<noteq> a \<Longrightarrow>
                       mem_ld32 E b (mem_st32 E a w h) = mem_ld32 E b h"
    and mmap_st16: "os_mmap E p n (mem_st16 E a v h) = os_mmap E p n h"
    and mmap_st32: "os_mmap E p n (mem_st32 E a w h) = os_mmap E p n h"
begin

lemma read_write_16:
  assumes "iordt_write_uint16 E m i en v h = (PQOS_RETVAL_OK, h')"
  shows "iordt_read_uint16 E m i en h' = Inr (ucast v)"
  using assms enable_bit [of v]
  by (auto simp: iordt_write_uint16_def iordt_read_uint16_def Let_def ld16_st16 split: if_splits)

lemma read_write_32:
  assumes "iordt_write_uint32 E m i en v h = (PQOS_RETVAL_OK, h')"
  shows "iordt_read_uint32 E m i en h' = Inr v"
  using assms enable_bit [of v]
  by (auto simp: iordt_write_uint32_def iordt_read_uint32_def Let_def ld32_st32 split: if_splits)

lemma mmap_kept:
  "iordt_write_uint16 E m i en v h = (r, h') \<Longrightarrow> os_mmap E p n h' = os_mmap E p n h"
  "iordt_write_uint32 E m i en w h = (r, h') \<Longrightarrow> os_mmap E p n h' = os_mmap E p n h"
  by (auto simp: iordt_write_uint16_def iordt_write_uint32_def Let_def mmap_st16 mmap_st32 split: if_splits)

text \<open>Reading a channel back with the enable requirement the write used.\<close>

lemma chan_read_write:
  assumes "chan_write E off en ch val s = (PQOS_RETVAL_OK, t)"
    and "get_mmio (m_mmioinfo s) ch = Some mmio" and "en' mmio = en mmio"
  shows "chan_read E off en' ch t =
    Inr (if has_flag mmio RCS_FLAGS_REGW then ucast (ucast val :: u16) else val)"
  using assms
  by (auto simp: chan_write_def chan_read_def Let_def mmap_kept dest: read_write_16 read_write_32
      split: if_splits prod.splits)

end

section \<open>A platform with byte-addressed memory\<close>

type_synonym byte_mem = "u64 \<Rightarrow> u8"

definition bm_ld16 :: "u64 \<Rightarrow> byte_mem \<Rightarrow> u16" where
  "bm_ld16 a h = push_bit 8 (ucast (h (a + 1))) OR ucast (h a)"

definition bm_st16 :: "u64 \<Rightarrow> u16 \<Rightarrow> byte_mem \<Rightarrow> byte_mem" where
  "bm_st16 a v h = h(a := ucast v, a + 1 := ucast (drop_bit 8 v))"

definition bm_ld32 :: "u64 \<Rightarrow> byte_mem \<Rightarrow> u32" where
  "bm_ld32 a h = push_bit 16 (ucast (bm_ld16 (a + 2) h)) OR ucast (bm_ld16 a h)"

definition bm_st32 :: "u64 \<Rightarrow> u32 \<Rightarrow> byte_mem \<Rightarrow> byte_mem" where
  "bm_st32 a v h = bm_st16 (a + 2) (ucast (drop_bit 16 v)) (bm_st16 a (ucast v) h)"

definition mem_platform :: "byte_mem platform" where
  "mem_platform =
     \<lparr>os_open_msr = (\<lambda>l h. (- 1, h)), os_pread = (\<lambda>fd r h. None), os_pwrite = (\<lambda>fd r v h. (False, h)),
      os_close = (\<lambda>fd h. h), os_cpuid = (\<lambda>leaf subleaf. \<lparr>eax = 0, ebx = 0, ecx = 0, edx = 0\<rparr>),
      os_probe_msr_env = False, os_mmap = (\<lambda>addr size h. True),
      mem_ld16 = bm_ld16, mem_ld32 = bm_ld32, mem_st16 = bm_st16, mem_st32 = bm_st32\<rparr>"

lemma bm_16: "bm_ld16 a (bm_st16 a v h) = v"
proof -
  have "a + 1 \<noteq> a" by simp
  then show ?thesis
    by (simp add: bm_ld16_def bm_st16_def) (rule bit_word_eqI, auto simp: bit_simps)
qed

lemma bm_16_other: "b \<noteq> a \<Longrightarrow> b \<noteq> a + 1 \<Longrightarrow> b + 1 \<noteq> a \<Longrightarrow> bm_ld16 b (bm_st16 a v h) = bm_ld16 b h"
  by (simp add: bm_ld16_def bm_st16_def)

lemma bm_32: "bm_ld32 a (bm_st32 a v h) = v"
proof -
  have "bm_ld16 a (bm_st16 (a + 2) w g) = bm_ld16 a g" for w g by (rule bm_16_other) auto
  then show ?thesis
    by (simp add: bm_ld32_def bm_st32_def bm_16) (rule bit_word_eqI, auto simp: bit_simps)
qed

lemma bm_32_other:
  assumes "b \<noteq> a" "b \<noteq> a + 1" "b \<noteq> a + 2" "b \<noteq> a + 3" "b + 1 \<noteq> a" "b + 2 \<noteq> a" "b + 3 \<noteq> a"
  shows "bm_ld32 b (bm_st32 a v h) = bm_ld32 b h"
proof -
  have "bm_ld16 c (bm_st16 (a + 2) w (bm_st16 a u h)) = bm_ld16 c h" if "c = b \<or> c = b + 2" for c w u
    using assms that by (auto simp: bm_ld16_def bm_st16_def algebra_simps)
  then show ?thesis by (simp add: bm_ld32_def bm_st32_def)
qed

interpretation memplat: mmio_memory mem_platform
  by unfold_locales (simp_all add: mem_platform_def bm_16 bm_16_other bm_32 bm_32_other)

section \<open>Properties\<close>

lemma iordt_enabled_error: "pqos_l3ca_iordt_enabled (Some cap) False True = Inl e \<Longrightarrow> e = PQOS_RETVAL_RESOURCE"
  by (auto simp: pqos_l3ca_iordt_enabled_def dest: cap_get_type_Inl split: sum.splits)

text \<open>
  C38. Class association of an I/O channel round-trips: after a successful
  \<open>hw_alloc_assoc_set_channel\<close> of a class below \<open>2^15\<close>, \<open>hw_alloc_assoc_get_channel\<close>
  answers that class, for 16-bit and 32-bit registers, with and without the enable bit.
\<close>

theorem channel_assoc_set_get:
  assumes "mmio_memory E" and "hw_alloc_assoc_set_channel E ch c s = (PQOS_RETVAL_OK, t)" and "unat c < 2 ^ 15"
  shows "hw_alloc_assoc_get_channel E ch t = Inr c"
proof -
  from assms(2) obtain dev x where dev: "m_dev s = Some dev"
    and en: "pqos_l3ca_iordt_enabled (Some (m_cap s)) False True = Inr (x, True)"
    and tag: "channel_tagged ch (case channels dev of None \<Rightarrow> [] | Some cs \<Rightarrow> cs)"
    and wr: "iordt_assoc_write E ch c s = (PQOS_RETVAL_OK, t)"
    by (auto simp: hw_alloc_assoc_set_channel_def clos_num_or_zero_def dest: l3clos.get_num_error iordt_enabled_error
        split: option.splits sum.splits if_splits)
  from wr obtain mmio where mmio: "get_mmio (m_mmioinfo s) ch = Some mmio"
    by (auto simp: iordt_assoc_write_def assoc_write_channel_def chan_write_def split: option.splits)
  have "m_dev t = m_dev s" "m_cap t = m_cap s"
    using wr by (auto simp: iordt_assoc_write_def assoc_write_channel_def chan_write_def Let_def
        split: option.splits if_splits prod.splits)
  moreover have "ucast (ucast c :: u16) = c"
    using assms(3) by (simp add: word_unat_eq_iff unsigned_ucast_eq unsigned_take_bit_eq take_bit_nat_eq_self)
  then have "iordt_assoc_read E ch t = Inr c"
    using mmio_memory.chan_read_write [OF assms(1) wr [unfolded iordt_assoc_write_def assoc_write_channel_def] mmio,
        of "\<lambda>mmio. has_flag mmio RCS_FLAGS_CEF"]
    by (simp add: iordt_assoc_read_def)
  ultimately show ?thesis using dev en tag by (simp add: hw_alloc_assoc_get_channel_def)
qed

definition sample_io_lib :: "byte_mem lib" where
  "sample_io_lib = \<lparr>m_msr_fd = None, m_maxcores = 0, m_cap = [CapL3ca (sample_l3ca\<lparr>l3_iordt := True, l3_iordt_on := True\<rparr>)],
     m_cpu = sample_cpu,
     m_dev = Some \<lparr>channels = Some [\<lparr>channel_id = 0x102, rmid_tagging = True, clos_tagging = True, cxld = False,
                                     mmio_addr = 0x1000, chan_numa = 0\<rparr>], devs = None\<rparr>,
     m_interface = PQOS_INTER_MSR, m_config = sample_config,
     m_mmioinfo = Some [\<lparr>mmio_id = 0x100, mmio_base = 0x1000, mmio_numa = 0, mmio_rmid_offset = 0x40,
                         mmio_clos_offset = 0x80, mmio_flags = 0x48\<rparr>],
     m_hw = (\<lambda>_. 0)\<rparr>"

theorem channel_assoc_set_get_witness:
  "fst (hw_alloc_assoc_set_channel mem_platform 0x102 3 sample_io_lib) = PQOS_RETVAL_OK \<and>
   hw_alloc_assoc_get_channel mem_platform 0x102 (snd (hw_alloc_assoc_set_channel mem_platform 0x102 3 sample_io_lib)) = Inr 3"
proof -
  let ?r = "hw_alloc_assoc_set_channel mem_platform 0x102 3 sample_io_lib"
  have ok: "fst ?r = PQOS_RETVAL_OK" by code_simp
  then have run: "?r = (PQOS_RETVAL_OK, snd ?r)" by (metis prod.collapse)
  have "unat (3 :: u32) < 2 ^ 15" by simp
  from channel_assoc_set_get [OF memplat.mmio_memory_axioms run this] ok show ?thesis by simp
qed

text \<open>
  A value that does not fit next to the enable bit is refused without a store: the
  register write answers \<open>PQOS_RETVAL_PARAM\<close> exactly when the enable bit is requested and
  the value has its top bit set; otherwise the value can be read back.
\<close>

theorem register_write_range:
  assumes "mmio_memory E"
  shows "(iordt_write_uint32 E m i en v h = (PQOS_RETVAL_PARAM, h) \<longleftrightarrow> en \<and> bit v 31) \<and>
    (\<not> (en \<and> bit v 31) \<longrightarrow> (\<exists>h'. iordt_write_uint32 E m i en v h = (PQOS_RETVAL_OK, h') \<and>
       iordt_read_uint32 E m i en h' = Inr v))"
proof -
  have fits: "v AND drop_bit 1 (- 1) = v \<longleftrightarrow> \<not> bit v 31"
  proof
    assume "v AND drop_bit 1 (- 1) = v"
    then have "bit v 31 \<Longrightarrow> bit (drop_bit 1 (- 1) :: u32) 31" by (metis bit_and_iff)
    then show "\<not> bit v 31" by (auto simp: bit_simps)
  next
    assume "\<not> bit v 31"
    then have "bit v n \<Longrightarrow> n < 32 \<Longrightarrow> n < 31" for n by (cases "n = 31") auto
    then show "v AND drop_bit 1 (- 1) = v" by (intro bit_word_eqI) (auto simp: bit_simps)
  qed
  have "iordt_write_uint32 E m i en v h =
      (if en \<and> bit v 31 then (PQOS_RETVAL_PARAM, h)
       else (PQOS_RETVAL_OK, mem_st32 E (m + i * 4) (v OR (if en then push_bit 31 1 else 0)) h))"
    using fits by (simp add: iordt_write_uint32_def Let_def)
  with mmio_memory.read_write_32 [OF assms, of m i en v h] show ?thesis by auto
qed

theorem register_write_range_witness:
  "iordt_write_uint32 mem_platform 0x1000 2 True 0x80000001 (\<lambda>_. 0) = (PQOS_RETVAL_PARAM, \<lambda>_. 0)"
proof -
  have "bit (0x80000001 :: u32) 31" by simp
  with register_write_range [OF memplat.mmio_memory_axioms, of "0x1000" 2 True "0x80000001" "\<lambda>_. 0"] show ?thesis by blast
qed

end
