(* ===== verification/HwCap.thy ===== *)
theory HwCap
  imports Topology Capability RefPlatform
begin

text \<open>
  Discovery of the cache allocation capabilities from CPUID and registers
  (\<open>lib/hw_cap.c\<close>), the processor identification it uses (\<open>lib/cpuinfo.c\<close>), and the
  updates of the capability table that rediscover a capability (\<open>lib/cap.c\<close>).
\<close>

section \<open>Processor identification\<close>

definition detect_vendor :: "'h platform \<Rightarrow> pqos_vendor" where
  "detect_vendor E =
     (let vendor = lcpuid E 0 0
      in if ebx vendor = 0x756e6547 \<and> edx vendor = 0x49656e69 \<and> ecx vendor = 0x6c65746e then PQOS_VENDOR_INTEL
         else if ebx vendor = 0x68747541 \<and> edx vendor = 0x69746E65 \<and> ecx vendor = 0x444D4163 then PQOS_VENDOR_AMD
         else if ebx vendor = 0x6f677948 \<and> edx vendor = 0x6e65476e \<and> ecx vendor = 0x656e6975 then PQOS_VENDOR_HYGON
         else PQOS_VENDOR_UNKNOWN)"

definition cpuinfo_get_cpu_model :: "'h platform \<Rightarrow> u32" where
  "cpuinfo_get_cpu_model E =
     (let out = lcpuid E 1 0
      in drop_bit 4 (eax out AND 0xf0) OR drop_bit 12 (eax out AND 0xf0000))"

definition cpuinfo_get_cpu_family :: "'h platform \<Rightarrow> u32" where
  "cpuinfo_get_cpu_family E =
     (let out = lcpuid E 1 0
      in drop_bit 8 (eax out AND 0xf00) OR drop_bit 16 (eax out AND 0xff00000))"

text \<open>\<open>None\<close> is the error return \<open>-EFAULT\<close>.\<close>

definition init_config :: "pqos_vendor \<Rightarrow> cpuinfo_config option" where
  "init_config vendor =
     (let config = \<lparr>cpuid_cache_leaf = 0, mba_max = 0, mba_default_val = 0, mba_msr_reg = 0, smba_msr_reg = 0\<rparr>
      in if vendor = PQOS_VENDOR_INTEL then
           Some (config\<lparr>cpuid_cache_leaf := 4, mba_max := PQOS_MBA_LINEAR_MAX,
                        mba_msr_reg := PQOS_MSR_MBA_MASK_START, mba_default_val := 0\<rparr>)
         else if vendor = PQOS_VENDOR_AMD then
           Some (config\<lparr>cpuid_cache_leaf := 0x8000001D, mba_max := PQOS_MBA_MAX_AMD,
                        mba_msr_reg := PQOS_MSR_MBA_MASK_START_AMD, mba_default_val := PQOS_MBA_MAX_AMD,
                        smba_msr_reg := PQOS_MSR_SMBA_MASK_START_AMD\<rparr>)
         else if vendor = PQOS_VENDOR_HYGON then
           Some (config\<lparr>cpuid_cache_leaf := 0x8000001D, mba_max := PQOS_MBA_MAX_AMD,
                        mba_msr_reg := PQOS_MSR_MBA_MASK_START_AMD, mba_default_val := PQOS_MBA_MAX_AMD\<rparr>)
         else None)"

section \<open>Cache information and feature state\<close>

text \<open>Number of ways and total size, where the cache was detected.\<close>

definition get_cache_info :: "pqos_cacheinfo \<Rightarrow> (u32 \<times> u32) res" where
  "get_cache_info cache_info =
     (if \<not> detected cache_info then Inl PQOS_RETVAL_RESOURCE
      else Inr (num_ways cache_info, total_size cache_info))"

text \<open>The counting loop over the ids: \<open>(enabled_num, disabled_num)\<close>.\<close>

fun feature_loop :: "'h platform \<Rightarrow> (u32 \<Rightarrow> u32 res) \<Rightarrow> u32 \<Rightarrow> u64 \<Rightarrow> u32 list \<Rightarrow> nat \<Rightarrow> nat \<Rightarrow> 'h lib
    \<Rightarrow> (nat \<times> nat) res \<times> 'h lib" where
  "feature_loop E get_core reg b [] en dis s = (Inr (en, dis), s)"
| "feature_loop E get_core reg b (i # ids) en dis s =
     (case get_core i of
        Inl e \<Rightarrow> (Inl e, s)
      | Inr core \<Rightarrow>
          (case msr_read E core reg s of
             (Inl _, s) \<Rightarrow> (Inl PQOS_RETVAL_ERROR, s)
           | (Inr val, s) \<Rightarrow>
               if val AND b \<noteq> 0 then feature_loop E get_core reg b ids (Suc en) dis s
               else feature_loop E get_core reg b ids en (Suc dis) s))"

definition hw_cap_l3_feature :: "'h platform \<Rightarrow> pqos_cpuinfo \<Rightarrow> u32 \<Rightarrow> u64 \<Rightarrow> 'h lib \<Rightarrow> bool res \<times> 'h lib" where
  "hw_cap_l3_feature E cpu reg b s =
     (case pqos_cpu_get_l3cat_ids (Some cpu) of
        None \<Rightarrow> (Inl PQOS_RETVAL_RESOURCE, s)
      | Some l3cat_ids \<Rightarrow>
          (case feature_loop E (pqos_cpu_get_one_by_l3cat_id (Some cpu)) reg b l3cat_ids 0 0 s of
             (Inl e, s) \<Rightarrow> (Inl e, s)
           | (Inr (enabled_num, disabled_num), s) \<Rightarrow>
               if 0 < disabled_num \<and> 0 < enabled_num then (Inl PQOS_RETVAL_ERROR, s)
               else (Inr (0 < enabled_num), s)))"

definition hw_cap_l3ca_cdp :: "'h platform \<Rightarrow> pqos_cpuinfo \<Rightarrow> 'h lib \<Rightarrow> bool res \<times> 'h lib" where
  "hw_cap_l3ca_cdp E cpu s = hw_cap_l3_feature E cpu PQOS_MSR_L3_QOS_CFG PQOS_MSR_L3_QOS_CFG_CDP_EN s"

definition hw_cap_l3ca_iordt :: "'h platform \<Rightarrow> pqos_cpuinfo \<Rightarrow> 'h lib \<Rightarrow> bool res \<times> 'h lib" where
  "hw_cap_l3ca_iordt E cpu s = hw_cap_l3_feature E cpu PQOS_MSR_L3_IO_QOS_CFG PQOS_MSR_L3_IO_QOS_CA_EN s"

definition hw_cap_l2ca_cdp :: "'h platform \<Rightarrow> pqos_cpuinfo \<Rightarrow> 'h lib \<Rightarrow> bool res \<times> 'h lib" where
  "hw_cap_l2ca_cdp E cpu s =
     (case pqos_cpu_get_l2ids (Some cpu) of
        None \<Rightarrow> (Inl PQOS_RETVAL_RESOURCE, s)
      | Some l2ids \<Rightarrow>
          if length l2ids = 0 then (Inl PQOS_RETVAL_RESOURCE, s)
          else (case feature_loop E (pqos_cpu_get_one_by_l2id (Some cpu)) PQOS_MSR_L2_QOS_CFG
                       PQOS_MSR_L2_QOS_CFG_CDP_EN l2ids 0 0 s of
                  (Inl e, s) \<Rightarrow> (Inl e, s)
                | (Inr (enabled_num, disabled_num), s) \<Rightarrow>
                    if 0 < disabled_num \<and> 0 < enabled_num then (Inl PQOS_RETVAL_ERROR, s)
                    else (Inr (0 < enabled_num), s)))"

section \<open>Detection of L3 CAT\<close>

text \<open>The probing loop: the number of mask registers read before the first failure.\<close>

fun probe_classes :: "'h platform \<Rightarrow> u32 \<Rightarrow> u32 \<Rightarrow> nat \<Rightarrow> 'h lib \<Rightarrow> u32 \<times> 'h lib" where
  "probe_classes E l i 0 s = (i, s)"
| "probe_classes E l i (Suc n) s =
     (case msr_read E l (PQOS_MSR_L3CA_MASK_START + i) s of
        (Inl _, s) \<Rightarrow> (i, s)
      | (Inr _, s) \<Rightarrow> probe_classes E l (i + 1) n s)"

definition hw_cap_l3ca_probe :: "'h platform \<Rightarrow> pqos_cpuinfo \<Rightarrow> pqos_cap_l3ca \<Rightarrow> 'h lib \<Rightarrow> (retval \<times> pqos_cap_l3ca) \<times> 'h lib" where
  "hw_cap_l3ca_probe E cpu cap s =
     (let max_classes = PQOS_MSR_L3CA_MASK_END - PQOS_MSR_L3CA_MASK_START + 1
      in case probe_classes E (lcore (cores cpu ! 0)) 0 (unat max_classes) s of (i, s) \<Rightarrow>
           if i = 0 then ((PQOS_RETVAL_RESOURCE, cap), s)
           else ((PQOS_RETVAL_OK, cap\<lparr>l3_num_classes := i\<rparr>), s))"

text \<open>The brand string: the characters of the CPUID registers up to the first NUL.\<close>

definition u32_chars :: "u32 \<Rightarrow> string" where
  "u32_chars w = map (\<lambda>i. char_of (unat (take_bit 8 (drop_bit (8 * i) w)))) [0..<4]"

definition brand_string :: "'h platform \<Rightarrow> string" where
  "brand_string E =
     takeWhile (\<lambda>c. c \<noteq> CHR 0x00)
       (concat (map (\<lambda>i. let res = lcpuid E (0x80000002 + of_nat i) 0
                         in u32_chars (eax res) @ u32_chars (ebx res) @ u32_chars (ecx res) @ u32_chars (edx res))
                    [0..<3]))"

fun starts_with :: "string \<Rightarrow> string \<Rightarrow> bool" where
  "starts_with [] s = True"
| "starts_with (p # ps) [] = False"
| "starts_with (p # ps) (c # cs) = (p = c \<and> starts_with ps cs)"

fun strstr :: "string \<Rightarrow> string \<Rightarrow> bool" where
  "strstr [] pat = starts_with pat []"
| "strstr (c # cs) pat = (starts_with pat (c # cs) \<or> strstr cs pat)"

definition supported_brands :: "string list" where
  "supported_brands =
     [''E5-2658 v3'', ''E5-2648L v3'', ''E5-2628L v3'', ''E5-2618L v3'',
      ''E5-2608L v3'', ''E5-2658A v3'', ''E3-1258L v4'', ''E3-1278L v4'']"

definition hw_cap_l3ca_brandstr :: "'h platform \<Rightarrow> pqos_cap_l3ca \<Rightarrow> retval \<times> pqos_cap_l3ca" where
  "hw_cap_l3ca_brandstr E cap =
     (if eax (lcpuid E 0x80000000 0) < 0x80000004 then (PQOS_RETVAL_ERROR, cap)
      else if \<not> (\<exists>b\<in>set supported_brands. strstr (brand_string E) b) then (PQOS_RETVAL_RESOURCE, cap)
      else (PQOS_RETVAL_OK, cap\<lparr>l3_num_classes := 4\<rparr>))"

definition hw_cap_l3ca_model :: "'h platform \<Rightarrow> retval" where
  "hw_cap_l3ca_model E =
     (if cpuinfo_get_cpu_model E = 0x3f \<and> cpuinfo_get_cpu_family E = 0x06 then PQOS_RETVAL_OK
      else PQOS_RETVAL_RESOURCE)"

text \<open>
  A capability that is being filled in is passed along and returned with the status, since
  the caller keeps what was stored before an error.
\<close>

definition hw_cap_l3ca_cpuid :: "'h platform \<Rightarrow> pqos_cpuinfo \<Rightarrow> pqos_cap_l3ca \<Rightarrow> 'h lib \<Rightarrow> (retval \<times> pqos_cap_l3ca) \<times> 'h lib" where
  "hw_cap_l3ca_cpuid E cpu cap s =
     (if ebx (lcpuid E 0x10 0) AND push_bit 1 1 = 0 then ((PQOS_RETVAL_RESOURCE, cap), s)
      else
        (let res = lcpuid E 0x10 1;
             cap = cap\<lparr>l3_num_classes := edx res + 1, l3_num_ways := eax res + 1,
                       l3_cdp := (drop_bit 2 (ecx res) AND 1 \<noteq> 0), l3_cdp_on := False,
                       l3_way_contention := ucast (ebx res),
                       l3_non_contiguous_cbm :=
                         (case cpu_vendor cpu of
                            PQOS_VENDOR_INTEL \<Rightarrow> drop_bit 3 (ecx res) AND 1 \<noteq> 0
                          | PQOS_VENDOR_AMD \<Rightarrow> True
                          | PQOS_VENDOR_HYGON \<Rightarrow> True
                          | _ \<Rightarrow> False),
                       l3_iordt := (drop_bit 1 (ecx res) AND 1 \<noteq> 0), l3_iordt_on := False\<rparr>
         in case (if l3_cdp cap
                  then (case hw_cap_l3ca_cdp E cpu s of
                          (Inl e, s) \<Rightarrow> ((e, cap), s)
                        | (Inr cdp_on, s) \<Rightarrow>
                            ((PQOS_RETVAL_OK,
                              cap\<lparr>l3_cdp_on := cdp_on,
                                  l3_num_classes := (if cdp_on then l3_num_classes cap div 2 else l3_num_classes cap)\<rparr>), s))
                  else ((PQOS_RETVAL_OK, cap), s)) of
              ((ret, cap), s) \<Rightarrow>
                if ret \<noteq> PQOS_RETVAL_OK then ((ret, cap), s)
                else if l3_iordt cap
                then (case hw_cap_l3ca_iordt E cpu s of
                        (Inl e, s) \<Rightarrow> ((e, cap), s)
                      | (Inr on, s) \<Rightarrow> ((PQOS_RETVAL_OK, cap\<lparr>l3_iordt_on := on\<rparr>), s))
                else ((PQOS_RETVAL_OK, cap), s)))"

definition empty_l3ca :: pqos_cap_l3ca where
  "empty_l3ca = \<lparr>l3_num_classes = 0, l3_num_ways = 0, l3_way_size = 0, l3_way_contention = 0,
     l3_cdp = False, l3_cdp_on = False, l3_non_contiguous_cbm = False, l3_iordt = False, l3_iordt_on = False\<rparr>"

text \<open>The fallbacks that run when CPUID does not report L3 CAT.\<close>

definition l3ca_fallback :: "'h platform \<Rightarrow> pqos_cpuinfo \<Rightarrow> bool \<Rightarrow> pqos_cap_l3ca \<Rightarrow> 'h lib
    \<Rightarrow> (retval \<times> pqos_cap_l3ca \<times> u32) \<times> 'h lib" where
  "l3ca_fallback E cpu check_cpu_model cap s =
     (case hw_cap_l3ca_brandstr E cap of (ret, cap) \<Rightarrow>
        (let ret = (if ret \<noteq> PQOS_RETVAL_OK \<and> check_cpu_model then hw_cap_l3ca_model E else ret)
         in case (if ret \<noteq> PQOS_RETVAL_OK \<and> os_probe_msr_env E then hw_cap_l3ca_probe E cpu cap s
                  else ((ret, cap), s)) of
              ((ret, cap), s) \<Rightarrow>
                if ret \<noteq> PQOS_RETVAL_OK then ((ret, cap, 0), s)
                else (case get_cache_info (cpu_l3 cpu) of
                        Inl e \<Rightarrow> ((e, cap, 0), s)
                      | Inr (ways, l3_size) \<Rightarrow> ((PQOS_RETVAL_OK, cap\<lparr>l3_num_ways := ways\<rparr>, l3_size), s))))"

definition hw_cap_l3ca_discover :: "'h platform \<Rightarrow> pqos_cpuinfo \<Rightarrow> 'h lib \<Rightarrow> (retval \<times> pqos_cap_l3ca) \<times> 'h lib" where
  "hw_cap_l3ca_discover E cpu s =
     (case (if ebx (lcpuid E 7 0) AND push_bit 15 1 \<noteq> 0
            then (case hw_cap_l3ca_cpuid E cpu empty_l3ca s of
                    ((ret, cap), s) \<Rightarrow>
                      if ret = PQOS_RETVAL_RESOURCE then l3ca_fallback E cpu False cap s
                      else if ret = PQOS_RETVAL_OK
                      then (case get_cache_info (cpu_l3 cpu) of
                              Inl e \<Rightarrow> ((e, cap, 0), s)
                            | Inr (_, l3_size) \<Rightarrow> ((PQOS_RETVAL_OK, cap, l3_size), s))
                      else ((ret, cap, 0), s))
            else l3ca_fallback E cpu True empty_l3ca s) of
        ((ret, cap, l3_size), s) \<Rightarrow>
          ((ret, if 0 < l3_num_ways cap then cap\<lparr>l3_way_size := l3_size div l3_num_ways cap\<rparr> else cap), s))"

section \<open>Detection of L2 CAT\<close>

definition empty_l2ca :: pqos_cap_l2ca where
  "empty_l2ca = \<lparr>l2_num_classes = 0, l2_num_ways = 0, l2_way_size = 0, l2_way_contention = 0,
     l2_cdp = False, l2_cdp_on = False, l2_non_contiguous_cbm = False\<rparr>"

definition hw_cap_l2ca_discover :: "'h platform \<Rightarrow> pqos_cpuinfo \<Rightarrow> 'h lib \<Rightarrow> pqos_cap_l2ca res \<times> 'h lib" where
  "hw_cap_l2ca_discover E cpu s =
     (if ebx (lcpuid E 7 0) AND push_bit 15 1 = 0 then (Inl PQOS_RETVAL_RESOURCE, s)
      else if ebx (lcpuid E 0x10 0) AND push_bit 2 1 = 0 then (Inl PQOS_RETVAL_RESOURCE, s)
      else
        (let res = lcpuid E 0x10 2;
             cap = empty_l2ca\<lparr>l2_num_classes := edx res + 1, l2_num_ways := eax res + 1,
                              l2_cdp := (drop_bit 2 (ecx res) AND 1 \<noteq> 0), l2_cdp_on := False,
                              l2_way_contention := ucast (ebx res),
                              l2_non_contiguous_cbm := (drop_bit 3 (ecx res) AND 1 \<noteq> 0)\<rparr>
         in case (if l2_cdp cap
                  then (case hw_cap_l2ca_cdp E cpu s of
                          (Inl e, s) \<Rightarrow> (Inl e, s)
                        | (Inr cdp_on, s) \<Rightarrow>
                            (Inr (cap\<lparr>l2_cdp_on := cdp_on,
                                      l2_num_classes := (if cdp_on then l2_num_classes cap div 2 else l2_num_classes cap)\<rparr>), s))
                  else (Inr cap, s)) of
              (Inl e, s) \<Rightarrow> (Inl e, s)
            | (Inr cap, s) \<Rightarrow>
                (case get_cache_info (cpu_l2 cpu) of
                   Inl _ \<Rightarrow> (Inl PQOS_RETVAL_ERROR, s)
                 | Inr (_, l2_size) \<Rightarrow>
                     (Inr (if 0 < l2_num_ways cap then cap\<lparr>l2_way_size := l2_size div l2_num_ways cap\<rparr> else cap), s))))"

section \<open>Capability updates after a reset\<close>

text \<open>
  \<open>os_cap_l3ca_discover\<close> and \<open>os_cap_l2ca_discover\<close> of the resctrl interface are arguments
  here: \<open>os_l3\<close> and \<open>os_l2\<close> are their results.
\<close>

definition l3cdp_flip :: "pqos_cdp_config \<Rightarrow> pqos_cap_l3ca \<Rightarrow> pqos_cap_l3ca" where
  "l3cdp_flip cdp l3 =
     (let l3 = (if cdp = PQOS_REQUIRE_CDP_ON \<and> \<not> l3_cdp_on l3
                then l3\<lparr>l3_cdp_on := True, l3_num_classes := l3_num_classes l3 div 2\<rparr> else l3)
      in if cdp = PQOS_REQUIRE_CDP_OFF \<and> l3_cdp_on l3
         then l3\<lparr>l3_cdp_on := False, l3_num_classes := l3_num_classes l3 * 2\<rparr> else l3)"

definition pqos_cap_l3cdp_change :: "'h platform \<Rightarrow> pqos_cap_l3ca res \<Rightarrow> pqos_cdp_config \<Rightarrow> 'h lib \<Rightarrow> 'h lib" where
  "pqos_cap_l3cdp_change E os_l3 cdp s =
     (if \<forall>c\<in>set (m_cap s). cap_type c \<noteq> PQOS_CAP_TYPE_L3CA then s
      else (case (case m_interface s of
                    PQOS_INTER_MSR \<Rightarrow> hw_cap_l3ca_discover E (m_cpu s) s
                  | PQOS_INTER_MMIO \<Rightarrow> hw_cap_l3ca_discover E (m_cpu s) s
                  | PQOS_INTER_AUTO \<Rightarrow> ((PQOS_RETVAL_RESOURCE, empty_l3ca), s)
                  | _ \<Rightarrow> (case os_l3 of Inl e \<Rightarrow> ((e, empty_l3ca), s) | Inr cap \<Rightarrow> ((PQOS_RETVAL_OK, cap), s))) of
              ((ret, cap), s) \<Rightarrow>
                s\<lparr>m_cap := update_first (\<lambda>c. cap_type c = PQOS_CAP_TYPE_L3CA)
                     (\<lambda>c. CapL3ca (if ret = PQOS_RETVAL_OK then cap else l3cdp_flip cdp (u_l3ca c))) (m_cap s)\<rparr>))"

definition l2cdp_flip :: "pqos_cdp_config \<Rightarrow> pqos_cap_l2ca \<Rightarrow> pqos_cap_l2ca" where
  "l2cdp_flip cdp l2 =
     (let l2 = (if cdp = PQOS_REQUIRE_CDP_ON \<and> \<not> l2_cdp_on l2
                then l2\<lparr>l2_cdp_on := True, l2_num_classes := l2_num_classes l2 div 2\<rparr> else l2)
      in if cdp = PQOS_REQUIRE_CDP_OFF \<and> l2_cdp_on l2
         then l2\<lparr>l2_cdp_on := False, l2_num_classes := l2_num_classes l2 * 2\<rparr> else l2)"

definition pqos_cap_l2cdp_change :: "'h platform \<Rightarrow> pqos_cap_l2ca res \<Rightarrow> pqos_cdp_config \<Rightarrow> 'h lib \<Rightarrow> 'h lib" where
  "pqos_cap_l2cdp_change E os_l2 cdp s =
     (if \<forall>c\<in>set (m_cap s). cap_type c \<noteq> PQOS_CAP_TYPE_L2CA then s
      else (case (case m_interface s of
                    PQOS_INTER_MSR \<Rightarrow> hw_cap_l2ca_discover E (m_cpu s) s
                  | PQOS_INTER_OS \<Rightarrow> (os_l2, s)
                  | PQOS_INTER_OS_RESCTRL_MON \<Rightarrow> (os_l2, s)
                  | _ \<Rightarrow> (Inl PQOS_RETVAL_RESOURCE, s)) of
              (r, s) \<Rightarrow>
                s\<lparr>m_cap := update_first (\<lambda>c. cap_type c = PQOS_CAP_TYPE_L2CA)
                     (\<lambda>c. CapL2ca (case r of Inr cap \<Rightarrow> cap | Inl e \<Rightarrow> l2cdp_flip cdp (u_l2ca c))) (m_cap s)\<rparr>))"

section \<open>Behaviour on a register file\<close>

text \<open>The state of the feature on the core of an id, as the registers \<open>rg\<close> have it.\<close>

definition feature_on :: "(u32 \<Rightarrow> u32 \<Rightarrow> u64 option) \<Rightarrow> (u32 \<Rightarrow> u32 res) \<Rightarrow> u32 \<Rightarrow> u64 \<Rightarrow> u32 \<Rightarrow> bool" where
  "feature_on rg get_core reg b i \<longleftrightarrow>
     (\<exists>core v. get_core i = Inr core \<and> rg core reg = Some v \<and> v AND b \<noteq> 0)"

context msr_driver begin

lemma feature_loop_facts:
  assumes "machine_wf core_of s" and "feature_loop E get_core reg b ids en dis s = (x, t)"
  shows "machine_wf core_of t \<and> same_config s t \<and> regs (m_hw t) = regs (m_hw s) \<and>
    (\<forall>n m. x = Inr (n, m) \<longrightarrow> n = en + length (filter (feature_on (regs (m_hw s)) get_core reg b) ids) \<and>
       n + m = en + dis + length ids)"
  using assms
proof (induction ids arbitrary: en dis s)
  case (Cons i ids)
  show ?case
  proof (cases "get_core i")
    case (Inl e)
    with Cons.prems show ?thesis by auto
  next
    case (Inr core)
    obtain y u where rd: "msr_read E core reg s = (y, u)" by fastforce
    note r = read_facts [OF Cons.prems(1) rd] msr_read_keeps [OF rd]
    show ?thesis
    proof (cases y)
      case (Inl e)
      with Cons.prems(2) Inr rd r show ?thesis by auto
    next
      case y: (Inr v)
      let ?on = "v AND b \<noteq> 0"
      from Cons.prems(2) Inr rd y
      have rec: "feature_loop E get_core reg b ids (if ?on then Suc en else en) (if ?on then dis else Suc dis) u = (x, t)"
        by (auto split: if_splits)
      note ih = Cons.IH [OF r(1) rec]
      have "feature_on (regs (m_hw s)) get_core reg b i \<longleftrightarrow> ?on"
        using Inr r(3) [OF y] by (auto simp: feature_on_def)
      with ih r(2,4) show ?thesis by (auto intro: same_config_trans split: if_splits)
    qed
  qed
qed auto

end

lemma feature_loop_error: "feature_loop E get_core reg b ids en dis s = (Inl e, t) \<Longrightarrow>
    (\<And>i. get_core i \<noteq> Inl PQOS_RETVAL_OK) \<Longrightarrow> e \<noteq> PQOS_RETVAL_OK"
  by (induction ids arbitrary: en dis s) (auto split: sum.splits prod.splits if_splits)

section \<open>Properties\<close>

text \<open>
  A feature is reported only when all L3 CAT ids agree: if \<open>hw_cap_l3_feature\<close> answers
  on (off), the bit is set (clear) on the representative core of every id, and if it is
  set on one and clear on another the answer is an error, never a state. The registers
  are only read.
\<close>

theorem l3_feature_consistent:
  assumes "msr_driver E core_of regs" and "machine_wf core_of s"
    and "hw_cap_l3_feature E cpu reg b s = (x, t)" and "pqos_cpu_get_l3cat_ids (Some cpu) = Some ids"
    and "on = feature_on (regs (m_hw s)) (pqos_cpu_get_one_by_l3cat_id (Some cpu)) reg b"
  shows "(x = Inr True \<longrightarrow> ids \<noteq> [] \<and> (\<forall>i\<in>set ids. on i)) \<and> (x = Inr False \<longrightarrow> (\<forall>i\<in>set ids. \<not> on i)) \<and>
    ((\<exists>i\<in>set ids. on i) \<and> (\<exists>i\<in>set ids. \<not> on i) \<longrightarrow> (\<exists>e. x = Inl e)) \<and> regs (m_hw t) = regs (m_hw s)"
proof -
  obtain y u where loop: "feature_loop E (pqos_cpu_get_one_by_l3cat_id (Some cpu)) reg b ids 0 0 s = (y, u)" by fastforce
  note f = msr_driver.feature_loop_facts [OF assms(1,2) loop]
  from assms(3,4) loop have t: "t = u" and x: "x = (case y of Inl e \<Rightarrow> Inl e | Inr (n, m) \<Rightarrow>
      if 0 < m \<and> 0 < n then Inl PQOS_RETVAL_ERROR else Inr (0 < n))"
    by (auto simp: hw_cap_l3_feature_def split: sum.splits if_splits)
  show ?thesis
  proof (cases y)
    case (Inl e)
    with x t f show ?thesis by auto
  next
    case (Inr nm)
    obtain n m where nm: "nm = (n, m)" by fastforce
    have n: "n = length (filter on ids)" and sum: "n + m = length ids" using f Inr nm assms(5) by auto
    have "n = 0 \<longleftrightarrow> (\<forall>i\<in>set ids. \<not> on i)" using n by (simp add: filter_empty_conv)
    moreover have "m = 0 \<longleftrightarrow> (\<forall>i\<in>set ids. on i)"
      using sum n by (metis add_cancel_right_right filter_id_conv length_filter_less add_eq_self_zero less_irrefl)
    ultimately show ?thesis using x t f Inr nm by auto
  qed
qed

theorem l3_feature_consistent_witness:
  "fst (hw_cap_l3_feature ref_platform sample_cpu PQOS_MSR_L3_QOS_CFG 1 sample_lib) = Inr False \<and>
   \<not> feature_on (ref_regs sample_hw) (pqos_cpu_get_one_by_l3cat_id (Some sample_cpu)) PQOS_MSR_L3_QOS_CFG 1 1"
proof -
  have x: "fst (hw_cap_l3_feature ref_platform sample_cpu PQOS_MSR_L3_QOS_CFG 1 sample_lib) = Inr False"
    and ids: "pqos_cpu_get_l3cat_ids (Some sample_cpu) = Some [0, 1]" by code_simp+
  from l3_feature_consistent [OF refdrv.msr_driver_axioms sample_wf prod.collapse [symmetric] ids refl,
      of PQOS_MSR_L3_QOS_CFG 1] x
  show ?thesis by simp
qed

text \<open>
  A processor without CPUID support for allocation whose model is on the list but whose
  brand string is not.
\<close>

definition hsx_platform :: "ref_hw platform" where
  "hsx_platform = ref_platform\<lparr>os_cpuid := (\<lambda>leaf subleaf.
     if leaf = 1 then \<lparr>eax = 0x306f2, ebx = 0, ecx = 0, edx = 0\<rparr>
     else if leaf = 0x80000000 then \<lparr>eax = 0x80000008, ebx = 0, ecx = 0, edx = 0\<rparr>
     else \<lparr>eax = 0, ebx = 0, ecx = 0, edx = 0\<rparr>)\<rparr>"

text \<open>
  Detection by processor model reports L3 CAT with no classes: where only the model
  and family match, \<open>hw_cap_l3ca_discover\<close> succeeds with the cache's number of ways and
  a class count of 0.
\<close>

theorem l3ca_model_without_classes:
  "cpuinfo_get_cpu_model hsx_platform = 0x3f \<and> cpuinfo_get_cpu_family hsx_platform = 6 \<and>
   fst (hw_cap_l3ca_discover hsx_platform sample_cpu sample_lib) =
     (PQOS_RETVAL_OK, empty_l3ca\<lparr>l3_num_ways := 8, l3_way_size := 4096\<rparr>)"
  by (intro conjI; code_simp)

text \<open>
  Switching CDP in the capability table without rediscovery is reversible for an even
  class count: on then off gives back the table entry, and the effective number of mask
  registers (classes, twice as many with CDP) is the same in both modes.
\<close>

theorem cdp_flip_roundtrip:
  assumes "\<not> l3_cdp_on l3" and "even (l3_num_classes l3)"
  shows "l3cdp_flip PQOS_REQUIRE_CDP_OFF (l3cdp_flip PQOS_REQUIRE_CDP_ON l3) = l3 \<and>
    l3_num_classes (l3cdp_flip PQOS_REQUIRE_CDP_ON l3) * 2 = l3_num_classes l3 \<and>
    l3cdp_flip PQOS_REQUIRE_CDP_ANY l3 = l3"
proof -
  have "l3_num_classes l3 div 2 * 2 = l3_num_classes l3"
    using assms(2) div_mult_mod_eq [of "l3_num_classes l3" 2] by (simp add: even_iff_mod_2_eq_zero)
  with assms(1) show ?thesis by (cases l3) (simp add: l3cdp_flip_def Let_def)
qed

theorem cdp_flip_roundtrip_witness:
  "\<not> l3_cdp_on sample_l3ca \<and> even (l3_num_classes sample_l3ca) \<and>
   l3cdp_flip PQOS_REQUIRE_CDP_OFF (l3cdp_flip PQOS_REQUIRE_CDP_ON sample_l3ca) = sample_l3ca"
proof -
  have "\<not> l3_cdp_on sample_l3ca" and "even (l3_num_classes sample_l3ca)" by (simp_all add: sample_l3ca_def)
  with cdp_flip_roundtrip [of sample_l3ca] show ?thesis by simp
qed

end
