(* ===== verification/AllocReset.thy ===== *)
theory AllocReset
  imports HwAssoc MsrSeq Iordt HwCap
begin

text \<open>
  Reset of the allocation configuration (\<open>alloc_reset\<close> of \<open>lib/allocation_common.c\<close> and
  the \<open>hw_alloc_reset_*\<close> functions of \<open>lib/allocation.c\<close>). \<open>alloc_reset\<close> is one long C
  function; its consecutive parts are separate definitions here. A part answers \<open>Inl ret\<close>
  for \<open>goto pqos_alloc_reset_exit\<close> with that return value and \<open>Inr\<close> to go on.
\<close>

section \<open>Register loops\<close>

text \<open>The loop goes on after a failed write and remembers the failure.\<close>

fun reset_clos_loop :: "'h platform \<Rightarrow> u32 \<Rightarrow> u32 \<Rightarrow> u64 \<Rightarrow> nat list \<Rightarrow> retval \<Rightarrow> 'h lib \<Rightarrow> retval \<times> 'h lib" where
  "reset_clos_loop E msr_start core val [] ret s = (ret, s)"
| "reset_clos_loop E msr_start core val (i # is) ret s =
     (case msr_write E core (msr_start + of_nat i) val s of (retval, s) \<Rightarrow>
        reset_clos_loop E msr_start core val is
          (if retval \<noteq> MACHINE_RETVAL_OK then PQOS_RETVAL_ERROR else ret) s)"

definition hw_alloc_reset_clos :: "'h platform \<Rightarrow> u32 \<Rightarrow> u32 \<Rightarrow> u32 \<Rightarrow> u64 \<Rightarrow> 'h lib \<Rightarrow> retval \<times> 'h lib" where
  "hw_alloc_reset_clos E msr_start msr_num core val s =
     reset_clos_loop E msr_start core val [0..<unat msr_num] PQOS_RETVAL_OK s"

text \<open>
  The loop that sets or clears one bit of a configuration register on a core of every id.
\<close>

fun cfg_bit_loop :: "'h platform \<Rightarrow> (u32 \<Rightarrow> u32 res) \<Rightarrow> u32 \<Rightarrow> u64 \<Rightarrow> bool \<Rightarrow> u32 list \<Rightarrow> 'h lib \<Rightarrow> retval \<times> 'h lib" where
  "cfg_bit_loop E get_core reg b enable [] s = (PQOS_RETVAL_OK, s)"
| "cfg_bit_loop E get_core reg b enable (i # ids) s =
     (case get_core i of
        Inl e \<Rightarrow> (e, s)
      | Inr core \<Rightarrow>
          (case msr_read E core reg s of
             (Inl _, s) \<Rightarrow> (PQOS_RETVAL_ERROR, s)
           | (Inr val, s) \<Rightarrow>
               (case msr_write E core reg (if enable then val OR b else val AND NOT b) s of (m, s) \<Rightarrow>
                  if m \<noteq> MACHINE_RETVAL_OK then (PQOS_RETVAL_ERROR, s)
                  else cfg_bit_loop E get_core reg b enable ids s)))"

definition hw_alloc_reset_l3cdp :: "'h platform \<Rightarrow> u32 list \<Rightarrow> bool \<Rightarrow> 'h lib \<Rightarrow> retval \<times> 'h lib" where
  "hw_alloc_reset_l3cdp E l3cat_ids enable s =
     cfg_bit_loop E (pqos_cpu_get_one_by_l3cat_id (Some (m_cpu s))) PQOS_MSR_L3_QOS_CFG
       PQOS_MSR_L3_QOS_CFG_CDP_EN enable l3cat_ids s"

definition hw_alloc_reset_l3iordt :: "'h platform \<Rightarrow> pqos_cpuinfo \<Rightarrow> bool \<Rightarrow> 'h lib \<Rightarrow> retval \<times> 'h lib" where
  "hw_alloc_reset_l3iordt E cpu enable s =
     (case pqos_cpu_get_l3_clusters (Some cpu) of
        None \<Rightarrow> (PQOS_RETVAL_ERROR, s)
      | Some l3ids \<Rightarrow>
          if length l3ids = 0 then (PQOS_RETVAL_ERROR, s)
          else cfg_bit_loop E (pqos_cpu_get_one_by_l3id (Some cpu)) PQOS_MSR_L3_IO_QOS_CFG
                 PQOS_MSR_L3_IO_QOS_CA_EN enable l3ids s)"

definition hw_alloc_reset_l2cdp :: "'h platform \<Rightarrow> u32 list \<Rightarrow> bool \<Rightarrow> 'h lib \<Rightarrow> retval \<times> 'h lib" where
  "hw_alloc_reset_l2cdp E l2ids enable s =
     cfg_bit_loop E (pqos_cpu_get_one_by_l2id (Some (m_cpu s))) PQOS_MSR_L2_QOS_CFG
       PQOS_MSR_L2_QOS_CFG_CDP_EN enable l2ids s"

definition hw_alloc_reset_mba40 :: "'h platform \<Rightarrow> u32 list \<Rightarrow> bool \<Rightarrow> 'h lib \<Rightarrow> retval \<times> 'h lib" where
  "hw_alloc_reset_mba40 E mba_ids enable s =
     cfg_bit_loop E
       (\<lambda>i. case pqos_cpu_get_one_by_mba_id (Some (m_cpu s)) i of Inl _ \<Rightarrow> Inl PQOS_RETVAL_ERROR | Inr core \<Rightarrow> Inr core)
       PQOS_MSR_MBA_CFG PQOS_MSR_MBA_CFG_MBA40_EN enable mba_ids s"

definition hw_alloc_reset_assoc :: "'h platform \<Rightarrow> 'h lib \<Rightarrow> retval \<times> 'h lib" where
  "hw_alloc_reset_assoc E s =
     (case hw_alloc_reset_assoc_cores E s of (r1, s) \<Rightarrow>
        (case hw_alloc_reset_assoc_channels E s of (r2, s) \<Rightarrow>
           (if r2 \<noteq> PQOS_RETVAL_OK then r2 else r1, s)))"

section \<open>Checks of the request\<close>

definition cap_l3 :: "pqos_cap \<Rightarrow> pqos_cap_l3ca option" where
  "cap_l3 cap = map_option u_l3ca (cap_get_type_or_null cap PQOS_CAP_TYPE_L3CA)"

definition cap_l2 :: "pqos_cap \<Rightarrow> pqos_cap_l2ca option" where
  "cap_l2 cap = map_option u_l2ca (cap_get_type_or_null cap PQOS_CAP_TYPE_L2CA)"

definition cap_mba :: "pqos_cap \<Rightarrow> pqos_cap_mba option" where
  "cap_mba cap = map_option u_mba (cap_get_type_or_null cap PQOS_CAP_TYPE_MBA)"

definition cap_smba :: "pqos_cap \<Rightarrow> pqos_cap_mba option" where
  "cap_smba cap = map_option u_smba (cap_get_type_or_null cap PQOS_CAP_TYPE_SMBA)"

text \<open>A NULL configuration asks for no change.\<close>

definition default_alloc_config :: pqos_alloc_config where
  "default_alloc_config = \<lparr>cfg_l3_cdp = PQOS_REQUIRE_CDP_ANY, cfg_l2_cdp = PQOS_REQUIRE_CDP_ANY, cfg_mba = PQOS_MBA_ANY,
     cfg_mba40 = PQOS_FEATURE_ANY, cfg_l3_iordt = PQOS_REQUIRE_IORDT_ANY, cfg_smba = PQOS_MBA_ANY\<rparr>"

definition alloc_reset_check :: "pqos_alloc_config \<Rightarrow> pqos_cap \<Rightarrow> retval" where
  "alloc_reset_check cfg cap =
     (if cap_l2 cap = None \<and> cap_l3 cap = None \<and> cap_mba cap = None then PQOS_RETVAL_RESOURCE
      else if cap_l3 cap = None \<and> cfg_l3_cdp cfg \<noteq> PQOS_REQUIRE_CDP_ANY then PQOS_RETVAL_RESOURCE
      else if cap_l3 cap = None \<and> cfg_l3_iordt cfg \<noteq> PQOS_REQUIRE_IORDT_ANY then PQOS_RETVAL_RESOURCE
      else if cap_l2 cap = None \<and> cfg_l2_cdp cfg \<noteq> PQOS_REQUIRE_CDP_ANY then PQOS_RETVAL_RESOURCE
      else if cap_mba cap = None \<and> cfg_mba cfg \<noteq> PQOS_MBA_ANY then PQOS_RETVAL_RESOURCE
      else if cap_mba cap = None \<and> cfg_mba40 cfg \<noteq> PQOS_FEATURE_ANY then PQOS_RETVAL_RESOURCE
      else if cap_smba cap = None \<and> cfg_smba cfg \<noteq> PQOS_MBA_ANY then PQOS_RETVAL_RESOURCE
      else if (\<exists>l3\<in>set_option (cap_l3 cap). cfg_l3_cdp cfg = PQOS_REQUIRE_CDP_ON \<and> \<not> l3_cdp l3) then PQOS_RETVAL_PARAM
      else if (\<exists>l3\<in>set_option (cap_l3 cap). cfg_l3_iordt cfg = PQOS_REQUIRE_IORDT_ON \<and> \<not> l3_iordt l3) then PQOS_RETVAL_PARAM
      else if (\<exists>l2\<in>set_option (cap_l2 cap). cfg_l2_cdp cfg = PQOS_REQUIRE_CDP_ON \<and> \<not> l2_cdp l2) then PQOS_RETVAL_PARAM
      else if (\<exists>mba\<in>set_option (cap_mba cap). cfg_mba cfg = PQOS_MBA_CTRL) then PQOS_RETVAL_PARAM
      else if (\<exists>mba\<in>set_option (cap_mba cap). \<not> mba_mba40 mba \<and> cfg_mba40 cfg = PQOS_FEATURE_ON) then PQOS_RETVAL_PARAM
      else PQOS_RETVAL_OK)"

definition max_l3_clos :: "pqos_cap_l3ca \<Rightarrow> u32" where
  "max_l3_clos l3 = (if l3_cdp l3 \<and> l3_cdp_on l3 then l3_num_classes l3 * 2 else l3_num_classes l3)"

definition max_l2_clos :: "pqos_cap_l2ca \<Rightarrow> u32" where
  "max_l2_clos l2 = (if l2_cdp l2 \<and> l2_cdp_on l2 then l2_num_classes l2 * 2 else l2_num_classes l2)"

section \<open>Class definitions\<close>

fun reset_ids_loop :: "'h platform \<Rightarrow> (u32 \<Rightarrow> u32 res) \<Rightarrow> u32 \<Rightarrow> u32 \<Rightarrow> u64 \<Rightarrow> u32 list \<Rightarrow> 'h lib \<Rightarrow> retval \<times> 'h lib" where
  "reset_ids_loop E get_core msr_start msr_num val [] s = (PQOS_RETVAL_OK, s)"
| "reset_ids_loop E get_core msr_start msr_num val (i # ids) s =
     (case get_core i of
        Inl e \<Rightarrow> (e, s)
      | Inr core \<Rightarrow>
          (case hw_alloc_reset_clos E msr_start msr_num core val s of (ret, s) \<Rightarrow>
             if ret \<noteq> PQOS_RETVAL_OK then (ret, s) else reset_ids_loop E get_core msr_start msr_num val ids s))"

text \<open>
  One technology: list the ids, leave with the current status \<open>PQOS_RETVAL_OK\<close> when there
  are none, and program the default on one core of each. \<open>Inr\<close> gives the list of ids.
\<close>

definition reset_classes :: "'h platform \<Rightarrow> u32 list option \<Rightarrow> (u32 \<Rightarrow> u32 res) \<Rightarrow> u32 \<Rightarrow> u32 \<Rightarrow> u64 \<Rightarrow> 'h lib
    \<Rightarrow> (retval + u32 list) \<times> 'h lib" where
  "reset_classes E ids get_core msr_start msr_num val s =
     (case ids of
        None \<Rightarrow> (Inl PQOS_RETVAL_OK, s)
      | Some ids \<Rightarrow>
          if length ids = 0 then (Inl PQOS_RETVAL_OK, s)
          else (case reset_ids_loop E get_core msr_start msr_num val ids s of (ret, s) \<Rightarrow>
                  if ret \<noteq> PQOS_RETVAL_OK then (Inl ret, s) else (Inr ids, s)))"

definition reset_l3_classes :: "'h platform \<Rightarrow> 'h lib \<Rightarrow> (retval + u32 list) \<times> 'h lib" where
  "reset_l3_classes E s =
     (case cap_l3 (m_cap s) of
        None \<Rightarrow> (Inr [], s)
      | Some l3 \<Rightarrow> reset_classes E (pqos_cpu_get_l3cat_ids (Some (m_cpu s))) (pqos_cpu_get_one_by_l3cat_id (Some (m_cpu s)))
                     PQOS_MSR_L3CA_MASK_START (max_l3_clos l3) (push_bit (unat (l3_num_ways l3)) 1 - 1) s)"

definition reset_l2_classes :: "'h platform \<Rightarrow> 'h lib \<Rightarrow> (retval + u32 list) \<times> 'h lib" where
  "reset_l2_classes E s =
     (case cap_l2 (m_cap s) of
        None \<Rightarrow> (Inr [], s)
      | Some l2 \<Rightarrow> reset_classes E (pqos_cpu_get_l2ids (Some (m_cpu s))) (pqos_cpu_get_one_by_l2id (Some (m_cpu s)))
                     PQOS_MSR_L2CA_MASK_START (max_l2_clos l2) (push_bit (unat (l2_num_ways l2)) 1 - 1) s)"

definition reset_mba_classes :: "'h platform \<Rightarrow> 'h lib \<Rightarrow> (retval + u32 list) \<times> 'h lib" where
  "reset_mba_classes E s =
     (case cap_mba (m_cap s) of
        None \<Rightarrow> (Inr [], s)
      | Some mba \<Rightarrow> reset_classes E (pqos_cpu_get_mba_ids (Some (m_cpu s))) (pqos_cpu_get_one_by_mba_id (Some (m_cpu s)))
                      (mba_msr_reg (m_config s)) (mba_num_classes mba) (ucast (mba_default_val (m_config s))) s)"

text \<open>The code looks up the core of an SMBA id among the MBA ids.\<close>

definition reset_smba_classes :: "'h platform \<Rightarrow> 'h lib \<Rightarrow> (retval + u32 list) \<times> 'h lib" where
  "reset_smba_classes E s =
     (case cap_smba (m_cap s) of
        None \<Rightarrow> (Inr [], s)
      | Some smba \<Rightarrow> reset_classes E (pqos_cpu_get_smba_ids (Some (m_cpu s))) (pqos_cpu_get_one_by_mba_id (Some (m_cpu s)))
                       (smba_msr_reg (m_config s)) (mba_num_classes smba) (ucast (mba_default_val (m_config s))) s)"

section \<open>Feature switches\<close>

text \<open>
  The switches run after the association reset. \<open>on\<close> is the state that the capability
  table has for the feature; a switch that is not needed leaves \<open>ret\<close> as it was.
\<close>

definition switch_l3cdp :: "'h platform \<Rightarrow> pqos_cap_l3ca res \<Rightarrow> pqos_cdp_config \<Rightarrow> u32 list \<Rightarrow> 'h lib \<Rightarrow> (retval + unit) \<times> 'h lib" where
  "switch_l3cdp E os_l3 cdp_cfg l3cat_ids s =
     (case cap_l3 (m_cap s) of
        None \<Rightarrow> (Inr (), s)
      | Some l3 \<Rightarrow>
          (case (if cdp_cfg = PQOS_REQUIRE_CDP_ON \<and> \<not> l3_cdp_on l3 then hw_alloc_reset_l3cdp E l3cat_ids True s
                 else (PQOS_RETVAL_OK, s)) of (ret, s) \<Rightarrow>
             if ret \<noteq> PQOS_RETVAL_OK then (Inl ret, s)
             else (case (if cdp_cfg = PQOS_REQUIRE_CDP_OFF \<and> l3_cdp_on l3 then hw_alloc_reset_l3cdp E l3cat_ids False s
                         else (PQOS_RETVAL_OK, s)) of (ret, s) \<Rightarrow>
                     if ret \<noteq> PQOS_RETVAL_OK then (Inl ret, s)
                     else (Inr (), pqos_cap_l3cdp_change E os_l3 cdp_cfg s))))"

text \<open>\<open>Inr ret\<close>: go on with that value in \<open>ret\<close>, which the channel reset may have made an error.\<close>

definition switch_l3iordt :: "'h platform \<Rightarrow> pqos_iordt_config \<Rightarrow> 'h lib \<Rightarrow> (retval + retval) \<times> 'h lib" where
  "switch_l3iordt E iordt_cfg s =
     (case cap_l3 (m_cap s) of
        None \<Rightarrow> (Inr PQOS_RETVAL_OK, s)
      | Some l3 \<Rightarrow>
          (case (if iordt_cfg = PQOS_REQUIRE_IORDT_ON \<and> \<not> l3_iordt_on l3
                 then (case hw_alloc_reset_l3iordt E (m_cpu s) True s of (ret, s) \<Rightarrow>
                         if ret \<noteq> PQOS_RETVAL_OK then (Inl ret, s)
                         else (case hw_alloc_reset_assoc_channels E s of (ret, s) \<Rightarrow> (Inr ret, s)))
                 else (Inr PQOS_RETVAL_OK, s)) of
             (Inl ret, s) \<Rightarrow> (Inl ret, s)
           | (Inr ret, s) \<Rightarrow>
               if iordt_cfg = PQOS_REQUIRE_IORDT_OFF \<and> l3_iordt_on l3
               then (case hw_alloc_reset_l3iordt E (m_cpu s) False s of (ret, s) \<Rightarrow>
                       if ret \<noteq> PQOS_RETVAL_OK then (Inl ret, s)
                       else (Inr ret, s\<lparr>m_cap := pqos_cap_l3iordt_change iordt_cfg (m_cap s)\<rparr>))
               else (Inr ret, s\<lparr>m_cap := pqos_cap_l3iordt_change iordt_cfg (m_cap s)\<rparr>)))"

definition switch_l2cdp :: "'h platform \<Rightarrow> pqos_cap_l2ca res \<Rightarrow> pqos_cdp_config \<Rightarrow> u32 list \<Rightarrow> retval \<Rightarrow> 'h lib
    \<Rightarrow> (retval + retval) \<times> 'h lib" where
  "switch_l2cdp E os_l2 cdp_cfg l2ids ret s =
     (case cap_l2 (m_cap s) of
        None \<Rightarrow> (Inr ret, s)
      | Some l2 \<Rightarrow>
          (case (if cdp_cfg = PQOS_REQUIRE_CDP_ON \<and> \<not> l2_cdp_on l2
                 then (case hw_alloc_reset_l2cdp E l2ids True s of (r, s) \<Rightarrow> (r \<noteq> PQOS_RETVAL_OK, r, s))
                 else (False, ret, s)) of (exit, ret, s) \<Rightarrow>
             if exit then (Inl ret, s)
             else (case (if cdp_cfg = PQOS_REQUIRE_CDP_OFF \<and> l2_cdp_on l2
                         then (case hw_alloc_reset_l2cdp E l2ids False s of (r, s) \<Rightarrow> (r \<noteq> PQOS_RETVAL_OK, r, s))
                         else (False, ret, s)) of (exit, ret, s) \<Rightarrow>
                     if exit then (Inl ret, s)
                     else (Inr ret, pqos_cap_l2cdp_change E os_l2 cdp_cfg s))))"

definition switch_mba40 :: "'h platform \<Rightarrow> pqos_feature_cfg \<Rightarrow> u32 list \<Rightarrow> retval \<Rightarrow> 'h lib \<Rightarrow> retval \<times> 'h lib" where
  "switch_mba40 E mba40_cfg mba_ids ret s =
     (case cap_mba (m_cap s) of
        None \<Rightarrow> (ret, s)
      | Some mba \<Rightarrow>
          if mba40_cfg = PQOS_FEATURE_ON \<and> \<not> mba_mba40_on mba then hw_alloc_reset_mba40 E mba_ids True s
          else if mba40_cfg = PQOS_FEATURE_OFF \<and> mba_mba40_on mba then hw_alloc_reset_mba40 E mba_ids False s
          else (ret, s))"

section \<open>The whole reset\<close>

text \<open>The parts that program class definitions, up to the association reset: the ids of L3, L2 and MBA.\<close>

definition alloc_reset_classes :: "'h platform \<Rightarrow> 'h lib \<Rightarrow> (retval + u32 list \<times> u32 list \<times> u32 list) \<times> 'h lib" where
  "alloc_reset_classes E s =
     (case reset_l3_classes E s of (Inl ret, s) \<Rightarrow> (Inl ret, s) | (Inr l3cat_ids, s) \<Rightarrow>
        (case reset_l2_classes E s of (Inl ret, s) \<Rightarrow> (Inl ret, s) | (Inr l2ids, s) \<Rightarrow>
           (case reset_mba_classes E s of (Inl ret, s) \<Rightarrow> (Inl ret, s) | (Inr mba_ids, s) \<Rightarrow>
              (case reset_smba_classes E s of (Inl ret, s) \<Rightarrow> (Inl ret, s) | (Inr _, s) \<Rightarrow>
                 (Inr (l3cat_ids, l2ids, mba_ids), s)))))"

definition alloc_reset_switches :: "'h platform \<Rightarrow> pqos_cap_l3ca res \<Rightarrow> pqos_cap_l2ca res \<Rightarrow> pqos_alloc_config
    \<Rightarrow> u32 list \<Rightarrow> u32 list \<Rightarrow> u32 list \<Rightarrow> 'h lib \<Rightarrow> retval \<times> 'h lib" where
  "alloc_reset_switches E os_l3 os_l2 cfg l3cat_ids l2ids mba_ids s =
     (case switch_l3cdp E os_l3 (cfg_l3_cdp cfg) l3cat_ids s of (Inl ret, s) \<Rightarrow> (ret, s) | (Inr _, s) \<Rightarrow>
        (case switch_l3iordt E (cfg_l3_iordt cfg) s of (Inl ret, s) \<Rightarrow> (ret, s) | (Inr ret, s) \<Rightarrow>
           (case switch_l2cdp E os_l2 (cfg_l2_cdp cfg) l2ids ret s of (Inl ret, s) \<Rightarrow> (ret, s) | (Inr ret, s) \<Rightarrow>
              switch_mba40 E (cfg_mba40 cfg) mba_ids ret s)))"

definition alloc_reset :: "'h platform \<Rightarrow> pqos_cap_l3ca res \<Rightarrow> pqos_cap_l2ca res \<Rightarrow> pqos_alloc_config option \<Rightarrow> 'h lib
    \<Rightarrow> retval \<times> 'h lib" where
  "alloc_reset E os_l3 os_l2 cfg s =
     (let cfg = (case cfg of None \<Rightarrow> default_alloc_config | Some c \<Rightarrow> c);
          chk = alloc_reset_check cfg (m_cap s)
      in if chk \<noteq> PQOS_RETVAL_OK then (chk, s)
         else (case alloc_reset_classes E s of
                 (Inl ret, s) \<Rightarrow> (ret, s)
               | (Inr (l3cat_ids, l2ids, mba_ids), s) \<Rightarrow>
                   (case hw_alloc_reset_assoc E s of (ret, s) \<Rightarrow>
                      if ret \<noteq> PQOS_RETVAL_OK then (ret, s)
                      else alloc_reset_switches E os_l3 os_l2 cfg l3cat_ids l2ids mba_ids s)))"

definition hw_alloc_reset :: "'h platform \<Rightarrow> pqos_cap_l3ca res \<Rightarrow> pqos_cap_l2ca res \<Rightarrow> pqos_alloc_config \<Rightarrow> 'h lib
    \<Rightarrow> retval \<times> 'h lib" where
  "hw_alloc_reset E os_l3 os_l2 cfg s = alloc_reset E os_l3 os_l2 (Some cfg) s"

section \<open>Behaviour on a register file\<close>

text \<open>The registers \<open>msr_start\<close>, \<open>msr_start + 1\<close>, ... of \<open>n\<close> classes.\<close>

definition clos_regs :: "u32 \<Rightarrow> nat \<Rightarrow> u32 set" where
  "clos_regs start n = (\<lambda>i. start + of_nat i) ` {0..<n}"

text \<open>
  One part of the reset: the registers outside \<open>R\<close> are untouched, the topology, devices
  and register configuration are kept. The capability table may change.
\<close>

definition reset_step :: "('h \<Rightarrow> int \<Rightarrow> u32 option) \<Rightarrow> ('h \<Rightarrow> u32 \<Rightarrow> u32 \<Rightarrow> u64 option) \<Rightarrow> u32 set \<Rightarrow> 'h lib \<Rightarrow> 'h lib \<Rightarrow> bool" where
  "reset_step core_of regs R s t \<longleftrightarrow> machine_wf core_of t \<and> m_cpu t = m_cpu s \<and> m_dev t = m_dev s \<and>
     m_config t = m_config s \<and> m_interface t = m_interface s \<and>
     (\<forall>l r. r \<notin> R \<longrightarrow> regs (m_hw t) l r = regs (m_hw s) l r)"

lemma reset_step_refl: "machine_wf core_of s \<Longrightarrow> reset_step core_of regs R s s"
  by (simp add: reset_step_def)

lemma reset_step_trans:
  "reset_step core_of regs R s t \<Longrightarrow> reset_step core_of regs S t u \<Longrightarrow> reset_step core_of regs (R \<union> S) s u"
  by (auto simp: reset_step_def)

lemma reset_step_mono: "reset_step core_of regs R s t \<Longrightarrow> R \<subseteq> S \<Longrightarrow> reset_step core_of regs S s t"
  by (auto simp: reset_step_def)

lemma reset_step_of_config:
  assumes "machine_wf core_of t" and "same_config s t" and "\<And>l r. r \<notin> R \<Longrightarrow> regs (m_hw t) l r = regs (m_hw s) l r"
  shows "reset_step core_of regs R s t"
  using assms by (auto simp: reset_step_def same_configD)

context msr_driver begin

lemma reset_clos_facts:
  assumes "machine_wf core_of s" and "reset_clos_loop E start core val is ret s = (ret', t)"
  shows "machine_wf core_of t \<and> same_config s t \<and>
    (\<forall>l r. r \<notin> (\<lambda>i. start + of_nat i) ` set is \<longrightarrow> regs (m_hw t) l r = regs (m_hw s) l r) \<and>
    (\<forall>l r. regs (m_hw t) l r = regs (m_hw s) l r \<or> regs (m_hw t) l r = Some val) \<and>
    (ret' = PQOS_RETVAL_OK \<longrightarrow> ret = PQOS_RETVAL_OK \<and> (\<forall>i\<in>set is. regs (m_hw t) core (start + of_nat i) = Some val))"
  using assms
proof (induction "is" arbitrary: s ret)
  case (Cons i "is")
  let ?r = "start + of_nat i"
  obtain m u where wr: "msr_write E core ?r val s = (m, u)" by fastforce
  note w = write_facts [OF Cons.prems(1) wr] msr_write_keeps [OF wr]
  let ?ret = "if m \<noteq> MACHINE_RETVAL_OK then PQOS_RETVAL_ERROR else ret"
  from Cons.prems(2) wr have "reset_clos_loop E start core val is ?ret u = (ret', t)" by simp
  note ih = Cons.IH [OF w(1) this]
  have su: "regs (m_hw u) l r = regs (m_hw s) l r \<or> regs (m_hw u) l r = Some val" for l r
    using write_scope [OF Cons.prems(1) wr, of l] w(3) [where r' = r and l' = l] by (cases "r = ?r") auto
  have oth: "regs (m_hw t) l r = regs (m_hw s) l r" if "r \<notin> (\<lambda>i. start + of_nat i) ` set (i # is)" for l r
    using ih w(3) [where r' = r and l' = l] that by auto
  have sc: "regs (m_hw t) l r = regs (m_hw s) l r \<or> regs (m_hw t) l r = Some val" for l r
    using ih su [of l r] by metis
  have all: "ret = PQOS_RETVAL_OK \<and> (\<forall>j\<in>set (i # is). regs (m_hw t) core (start + of_nat j) = Some val)"
    if "ret' = PQOS_RETVAL_OK"
  proof -
    from ih that have ok: "m = MACHINE_RETVAL_OK" "ret = PQOS_RETVAL_OK" by (auto split: if_splits)
    have "regs (m_hw t) core ?r = Some val" using ih w(2) [OF ok(1)] by metis
    with ih that ok show ?thesis by auto
  qed
  show ?case using ih w(6) oth sc all by (blast intro: same_config_trans)
qed auto

lemma reset_ids_facts:
  assumes "machine_wf core_of s" and "reset_ids_loop E get_core start n val ids s = (ret, t)"
  shows "machine_wf core_of t \<and> same_config s t \<and>
    (\<forall>l r. r \<notin> clos_regs start (unat n) \<longrightarrow> regs (m_hw t) l r = regs (m_hw s) l r) \<and>
    (\<forall>l r. regs (m_hw t) l r = regs (m_hw s) l r \<or> regs (m_hw t) l r = Some val) \<and>
    ((\<forall>i. get_core i \<noteq> Inl PQOS_RETVAL_OK) \<longrightarrow> ret = PQOS_RETVAL_OK \<longrightarrow>
       (\<forall>i\<in>set ids. \<exists>core. get_core i = Inr core \<and> (\<forall>r\<in>clos_regs start (unat n). regs (m_hw t) core r = Some val)))"
  using assms
proof (induction ids arbitrary: s)
  case (Cons i ids)
  show ?case
  proof (cases "get_core i")
    case (Inl e)
    with Cons.prems show ?thesis by auto
  next
    case (Inr core)
    obtain r1 u where cl: "hw_alloc_reset_clos E start n core val s = (r1, u)" by fastforce
    note f = reset_clos_facts [OF Cons.prems(1) cl [unfolded hw_alloc_reset_clos_def]]
    have regset: "(\<lambda>i. start + of_nat i) ` set [0..<unat n] = clos_regs start (unat n)" by (simp add: clos_regs_def)
    show ?thesis
    proof (cases "r1 = PQOS_RETVAL_OK")
      case False
      with Cons.prems(2) Inr cl f regset show ?thesis by auto
    next
      case True
      with Cons.prems(2) Inr cl have rec: "reset_ids_loop E get_core start n val ids u = (ret, t)" by simp
      note ih = Cons.IH [OF conjunct1 [OF f] rec]
      have "regs (m_hw u) core r = Some val" if "r \<in> clos_regs start (unat n)" for r
        using f True that by (auto simp: clos_regs_def)
      then have this_id: "regs (m_hw t) core r = Some val" if "r \<in> clos_regs start (unat n)" for r
        using ih that by metis
      have sc: "regs (m_hw t) l r = regs (m_hw s) l r \<or> regs (m_hw t) l r = Some val" for l r
        using ih f by metis
      have oth: "regs (m_hw t) l r = regs (m_hw s) l r" if "r \<notin> clos_regs start (unat n)" for l r
        using ih f that regset by auto
      show ?thesis using ih f this_id sc oth Inr by (auto intro: same_config_trans)
    qed
  qed
qed auto

lemma cfg_bit_facts:
  assumes "machine_wf core_of s" and "cfg_bit_loop E get_core reg b enable ids s = (ret, t)"
    and "\<forall>i. get_core i \<noteq> Inl PQOS_RETVAL_OK"
  shows "machine_wf core_of t \<and> same_config s t \<and>
    (\<forall>l r. r \<noteq> reg \<longrightarrow> regs (m_hw t) l r = regs (m_hw s) l r) \<and>
    (\<forall>l. regs (m_hw t) l reg = regs (m_hw s) l reg \<or>
       (\<exists>v. regs (m_hw t) l reg = Some v \<and> v AND b = (if enable then b else 0))) \<and>
    (ret = PQOS_RETVAL_OK \<longrightarrow> (\<forall>i\<in>set ids. \<exists>core v. get_core i = Inr core \<and>
       regs (m_hw t) core reg = Some v \<and> v AND b = (if enable then b else 0)))"
  using assms(1,2)
proof (induction ids arbitrary: s)
  case (Cons i ids)
  show ?case
  proof (cases "get_core i")
    case (Inl e)
    with Cons.prems assms(3) show ?thesis by auto
  next
    case (Inr core)
    obtain x u where rd: "msr_read E core reg s = (x, u)" by fastforce
    note r = read_facts [OF Cons.prems(1) rd] msr_read_keeps [OF rd]
    show ?thesis
    proof (cases x)
      case (Inl e)
      with Cons.prems(2) Inr rd r show ?thesis by auto
    next
      case x: (Inr v)
      let ?v = "if enable then v OR b else v AND NOT b"
      have vb: "?v AND b = (if enable then b else 0)" by (auto simp: bit_eq_iff bit_simps)
      obtain m w where wr: "msr_write E core reg ?v u = (m, w)" by fastforce
      note f = write_facts [OF r(1) wr] msr_write_keeps [OF wr]
      have sc: "regs (m_hw w) l reg = regs (m_hw s) l reg \<or> regs (m_hw w) l reg = Some ?v" for l
        using write_scope [OF r(1) wr, of l] r(2) by simp
      have cfg: "same_config s w" using r(4) f(6) by (rule same_config_trans)
      have oth: "regs (m_hw w) l q = regs (m_hw s) l q" if "q \<noteq> reg" for l q using f(3) that r(2) by simp
      show ?thesis
      proof (cases "m = MACHINE_RETVAL_OK")
        case False
        with Cons.prems(2) Inr rd x wr f(1,4) cfg r(2) show ?thesis by auto
      next
        case True
        with Cons.prems(2) Inr rd x wr have rec: "cfg_bit_loop E get_core reg b enable ids w = (ret, t)" by simp
        note ih = Cons.IH [OF f(1) rec]
        have here: "\<exists>v. regs (m_hw t) core reg = Some v \<and> v AND b = (if enable then b else 0)"
          using ih f(2) [OF True] vb by metis
        have sc': "regs (m_hw t) l reg = regs (m_hw s) l reg \<or>
            (\<exists>v. regs (m_hw t) l reg = Some v \<and> v AND b = (if enable then b else 0))" for l
          using ih sc [of l] vb by metis
        have oth': "regs (m_hw t) l q = regs (m_hw s) l q" if "q \<noteq> reg" for l q using ih oth that by simp
        show ?thesis using ih here sc' oth' Inr cfg by (auto intro: same_config_trans)
      qed
    qed
  qed
qed auto

end

text \<open>
  The platform as a whole: stores to mapped I/O registers touch neither model specific
  registers nor open descriptors.
\<close>

locale io_driver = msr_driver E core_of regs
  for E :: "'h platform" and core_of and regs +
  assumes st16_regs: "regs (mem_st16 E a v h) = regs h"
    and st32_regs: "regs (mem_st32 E a w h) = regs h"
    and st16_fds: "core_of (mem_st16 E a v h) = core_of h"
    and st32_fds: "core_of (mem_st32 E a w h) = core_of h"
begin

lemma chan_write_facts:
  assumes "machine_wf core_of s" and "chan_write E off en ch val s = (ret, t)"
  shows "machine_wf core_of t \<and> same_config s t \<and> regs (m_hw t) = regs (m_hw s)"
proof -
  have st: "core_of h = core_of (m_hw s) \<Longrightarrow> machine_wf core_of (s\<lparr>m_hw := h\<rparr>)" for h
    using assms(1) by (auto simp: machine_wf_def split: option.splits)
  have cfg: "same_config s (s\<lparr>m_hw := h\<rparr>)" for h by (simp add: same_config_def)
  show ?thesis
    using assms st cfg
    by (auto simp: chan_write_def Let_def iordt_write_uint16_def iordt_write_uint32_def
        st16_regs st32_regs st16_fds st32_fds split: option.splits if_splits)
qed

lemma chan_reset_facts:
  assumes "machine_wf core_of s" and "chan_reset_loop tagging (\<lambda>ch. chan_write E off en ch val) cs ret s = (ret', t)"
  shows "machine_wf core_of t \<and> same_config s t \<and> regs (m_hw t) = regs (m_hw s)"
  using assms
proof (induction cs arbitrary: s ret)
  case (Cons c cs)
  obtain r u where w: "chan_write E off en (channel_id c) val s = (r, u)" by fastforce
  note f = chan_write_facts [OF Cons.prems(1) w]
  show ?case
  proof (cases "tagging c")
    case True
    with Cons.prems(2) w have "chan_reset_loop tagging (\<lambda>ch. chan_write E off en ch val) cs
        (if r \<noteq> PQOS_RETVAL_OK then r else ret) u = (ret', t)" by simp
    from Cons.IH [OF conjunct1 [OF f] this] f show ?thesis by (auto intro: same_config_trans)
  next
    case False
    with Cons show ?thesis by simp
  qed
qed auto

lemma assoc_channels_facts:
  assumes "machine_wf core_of s" and "hw_alloc_reset_assoc_channels E s = (ret, t)"
  shows "machine_wf core_of t \<and> same_config s t \<and> regs (m_hw t) = regs (m_hw s)"
proof (cases "hw_alloc_reset_assoc_channels E s = (fst (hw_alloc_reset_assoc_channels E s), s)")
  case True
  with assms show ?thesis by (metis prod.inject same_config_refl)
next
  case False
  then obtain dev where "hw_alloc_reset_assoc_channels E s = iordt_assoc_reset E dev s"
    by (auto simp: hw_alloc_reset_assoc_channels_def split: sum.splits prod.splits if_splits option.splits)
  with assms(2) have "iordt_assoc_reset E dev s = (ret, t)" by simp
  from chan_reset_facts [OF assms(1) this [unfolded iordt_assoc_reset_def assoc_write_channel_def]] show ?thesis .
qed

lemma reset_assoc_facts:
  assumes "machine_wf core_of s" and "hw_alloc_reset_assoc E s = (ret, t)"
  shows "machine_wf core_of t \<and> same_config s t \<and>
    (\<forall>l r. r \<noteq> PQOS_MSR_ASSOC \<longrightarrow> regs (m_hw t) l r = regs (m_hw s) l r) \<and>
    (ret = PQOS_RETVAL_OK \<longrightarrow> (\<forall>c\<in>set (cores (m_cpu s)). \<exists>v. regs (m_hw s) (lcore c) PQOS_MSR_ASSOC = Some v \<and>
       regs (m_hw t) (lcore c) PQOS_MSR_ASSOC = Some (set_clos 0 v)))"
proof -
  obtain r1 u where c: "release_loop E (map lcore (cores (m_cpu s))) PQOS_RETVAL_OK s = (r1, u)" by fastforce
  note f = release_loop_facts [OF assms(1) c]
  obtain r2 w where h: "hw_alloc_reset_assoc_channels E u = (r2, w)" by fastforce
  note g = assoc_channels_facts [OF conjunct1 [OF f] h]
  from assms(2) c h have "t = w" and "ret = (if r2 \<noteq> PQOS_RETVAL_OK then r2 else r1)"
    by (auto simp: hw_alloc_reset_assoc_def hw_alloc_reset_assoc_cores_def)
  with f g show ?thesis by (auto intro: same_config_trans)
qed

end

sublocale io_driver \<subseteq> iod: msr_driver E core_of regs by unfold_locales

interpretation refio: io_driver ref_platform ref_core_of ref_regs
  by unfold_locales (simp_all add: ref_platform_def)

section \<open>Rediscovery only reads\<close>

context msr_driver begin

lemma l3_feature_frame:
  assumes "machine_wf core_of s" and "hw_cap_l3_feature E cpu reg b s = (x, t)"
  shows "machine_wf core_of t \<and> same_config s t \<and> regs (m_hw t) = regs (m_hw s)"
proof -
  obtain ids where ids: "pqos_cpu_get_l3cat_ids (Some cpu) = Some ids" using l3cat.ids_Some by blast
  obtain y u where l: "feature_loop E (pqos_cpu_get_one_by_l3cat_id (Some cpu)) reg b ids 0 0 s = (y, u)" by fastforce
  with assms(2) ids have "t = u" by (auto simp: hw_cap_l3_feature_def split: sum.splits if_splits)
  with feature_loop_facts [OF assms(1) l] show ?thesis by simp
qed

lemma l2_feature_frame:
  assumes "machine_wf core_of s" and "hw_cap_l2ca_cdp E cpu s = (x, t)"
  shows "machine_wf core_of t \<and> same_config s t \<and> regs (m_hw t) = regs (m_hw s)"
proof -
  obtain ids where ids: "pqos_cpu_get_l2ids (Some cpu) = Some ids" using l2obj.ids_Some by blast
  obtain y u where l: "feature_loop E (pqos_cpu_get_one_by_l2id (Some cpu)) PQOS_MSR_L2_QOS_CFG PQOS_MSR_L2_QOS_CFG_CDP_EN ids 0 0 s = (y, u)"
    by fastforce
  with assms(2) ids have "t = u \<or> t = s" by (auto simp: hw_cap_l2ca_cdp_def split: sum.splits if_splits)
  with feature_loop_facts [OF assms(1) l] assms(1) show ?thesis by auto
qed

lemma probe_classes_frame:
  assumes "machine_wf core_of s" and "probe_classes E l i n s = (j, t)"
  shows "machine_wf core_of t \<and> same_config s t \<and> regs (m_hw t) = regs (m_hw s)"
  using assms
proof (induction n arbitrary: i s)
  case (Suc n)
  obtain x u where rd: "msr_read E l (PQOS_MSR_L3CA_MASK_START + i) s = (x, u)" by fastforce
  note r = read_facts [OF Suc.prems(1) rd] msr_read_keeps [OF rd]
  show ?case
  proof (cases x)
    case (Inl e)
    with Suc.prems(2) rd r show ?thesis by auto
  next
    case (Inr v)
    with Suc.prems(2) rd have "probe_classes E l (i + 1) n u = (j, t)" by simp
    from Suc.IH [OF r(1) this] r show ?thesis by (auto intro: same_config_trans)
  qed
qed auto

lemma l3ca_probe_frame:
  assumes "machine_wf core_of s" and "hw_cap_l3ca_probe E cpu cap s = (x, t)"
  shows "machine_wf core_of t \<and> same_config s t \<and> regs (m_hw t) = regs (m_hw s)"
proof -
  obtain j u where p: "probe_classes E (lcore (cores cpu ! 0)) 0 (unat (PQOS_MSR_L3CA_MASK_END - PQOS_MSR_L3CA_MASK_START + 1)) s = (j, u)"
    by fastforce
  with assms(2) have "t = u" by (auto simp: hw_cap_l3ca_probe_def Let_def split: if_splits)
  with probe_classes_frame [OF assms(1) p] show ?thesis by simp
qed

lemma l3ca_fallback_frame:
  assumes "machine_wf core_of s" and "l3ca_fallback E cpu chk cap s = (x, t)"
  shows "machine_wf core_of t \<and> same_config s t \<and> regs (m_hw t) = regs (m_hw s)"
proof -
  obtain r c where br: "hw_cap_l3ca_brandstr E cap = (r, c)" by fastforce
  let ?r = "if r \<noteq> PQOS_RETVAL_OK \<and> chk then hw_cap_l3ca_model E else r"
  obtain r' c' u where p: "(if ?r \<noteq> PQOS_RETVAL_OK \<and> os_probe_msr_env E then hw_cap_l3ca_probe E cpu c s else ((?r, c), s))
      = ((r', c'), u)" by (metis prod.collapse)
  have "machine_wf core_of u \<and> same_config s u \<and> regs (m_hw u) = regs (m_hw s)"
    using p assms(1) l3ca_probe_frame [OF assms(1), of cpu c] by (auto split: if_splits)
  moreover have "t = u" using assms(2) br p by (auto simp: l3ca_fallback_def Let_def split: if_splits sum.splits)
  ultimately show ?thesis by simp
qed

text \<open>Reading a feature state and going on, seen from the resulting state.\<close>

lemma l3ca_cpuid_frame:
  assumes "machine_wf core_of s" and "hw_cap_l3ca_cpuid E cpu cap s = (x, t)"
  shows "machine_wf core_of t \<and> same_config s t \<and> regs (m_hw t) = regs (m_hw s)"
proof -
  let ?same = "\<lambda>s t. machine_wf core_of t \<and> same_config s t \<and> regs (m_hw t) = regs (m_hw s)"
  obtain y u where cd: "hw_cap_l3ca_cdp E cpu s = (y, u)" by fastforce
  have u: "?same s u" using l3_feature_frame [OF assms(1) cd [unfolded hw_cap_l3ca_cdp_def]] .
  obtain z v where io: "hw_cap_l3ca_iordt E cpu s = (z, v)" by fastforce
  have v: "?same s v" using l3_feature_frame [OF assms(1) io [unfolded hw_cap_l3ca_iordt_def]] .
  obtain z' w where io': "hw_cap_l3ca_iordt E cpu u = (z', w)" by fastforce
  have w: "?same s w"
    using l3_feature_frame [OF conjunct1 [OF u] io' [unfolded hw_cap_l3ca_iordt_def]] u by (auto intro: same_config_trans)
  have "t \<in> {s, u, v, w}"
    using assms(2) cd io io' unfolding hw_cap_l3ca_cpuid_def Let_def
    by (auto split: if_splits sum.splits simp del: not_None_eq)
  with u v w assms(1) show ?thesis by auto
qed

lemma l3ca_discover_frame:
  assumes "machine_wf core_of s" and "hw_cap_l3ca_discover E cpu s = (x, t)"
  shows "machine_wf core_of t \<and> same_config s t \<and> regs (m_hw t) = regs (m_hw s)"
proof -
  obtain r c u where cp: "hw_cap_l3ca_cpuid E cpu empty_l3ca s = ((r, c), u)" by (metis prod.collapse)
  note f = l3ca_cpuid_frame [OF assms(1) cp]
  obtain y v where fb: "l3ca_fallback E cpu False c u = (y, v)" by fastforce
  note g = l3ca_fallback_frame [OF conjunct1 [OF f] fb]
  obtain z w where fb': "l3ca_fallback E cpu True empty_l3ca s = (z, w)" by fastforce
  note h = l3ca_fallback_frame [OF assms(1) fb']
  have "t \<in> {u, v, w}"
    using assms(2) cp fb fb' by (auto simp: hw_cap_l3ca_discover_def split: if_splits sum.splits prod.splits)
  with f g h show ?thesis by (auto intro: same_config_trans)
qed

lemma l2ca_discover_frame:
  assumes "machine_wf core_of s" and "hw_cap_l2ca_discover E cpu s = (x, t)"
  shows "machine_wf core_of t \<and> same_config s t \<and> regs (m_hw t) = regs (m_hw s)"
proof -
  obtain y u where cd: "hw_cap_l2ca_cdp E cpu s = (y, u)" by fastforce
  have "t \<in> {s, u}"
    using assms(2) cd by (auto simp: hw_cap_l2ca_discover_def Let_def split: if_splits sum.splits)
  with l2_feature_frame [OF assms(1) cd] assms(1) show ?thesis by auto
qed

lemma cap_change_step:
  assumes "machine_wf core_of s"
  shows "reset_step core_of regs {} s (pqos_cap_l3cdp_change E os_l3 cdp s)"
    and "reset_step core_of regs {} s (pqos_cap_l2cdp_change E os_l2 cdp s)"
    and "reset_step core_of regs {} s (s\<lparr>m_cap := c\<rparr>)"
proof -
  have upd: "machine_wf core_of t \<Longrightarrow> same_config s t \<Longrightarrow> regs (m_hw t) = regs (m_hw s) \<Longrightarrow>
      reset_step core_of regs {} s (t\<lparr>m_cap := c\<rparr>)" for t c
    by (auto simp: reset_step_def same_configD machine_wf_def split: option.splits)
  obtain x t where d: "hw_cap_l3ca_discover E (m_cpu s) s = (x, t)" by fastforce
  obtain y u where e: "hw_cap_l2ca_discover E (m_cpu s) s = (y, u)" by fastforce
  note f = l3ca_discover_frame [OF assms d] and g = l2ca_discover_frame [OF assms e]
  show "reset_step core_of regs {} s (s\<lparr>m_cap := c\<rparr>)" using upd [of s] assms by simp
  have us: "reset_step core_of regs {} s (s\<lparr>m_cap := c\<rparr>)" and ut: "reset_step core_of regs {} s (t\<lparr>m_cap := c\<rparr>)"
    and uu: "reset_step core_of regs {} s (u\<lparr>m_cap := c\<rparr>)" for c
    using upd [of s] upd [of t] upd [of u] f g assms by simp_all
  obtain r cap where x: "x = (r, cap)" by fastforce
  show "reset_step core_of regs {} s (pqos_cap_l3cdp_change E os_l3 cdp s)"
    unfolding pqos_cap_l3cdp_change_def d x
    by (cases "m_interface s"; cases os_l3) (simp_all add: us ut reset_step_refl [OF assms] split del: if_split, simp_all add: us ut reset_step_refl [OF assms])
  show "reset_step core_of regs {} s (pqos_cap_l2cdp_change E os_l2 cdp s)"
    unfolding pqos_cap_l2cdp_change_def e
    by (cases "m_interface s") (simp_all add: us uu reset_step_refl [OF assms])
qed

end

section \<open>The parts of the reset\<close>

lemma get_core_not_OK:
  "pqos_cpu_get_one_by_l3cat_id (Some cpu) i \<noteq> Inl PQOS_RETVAL_OK"
  "pqos_cpu_get_one_by_l2id (Some cpu) i \<noteq> Inl PQOS_RETVAL_OK"
  "pqos_cpu_get_one_by_l3id (Some cpu) i \<noteq> Inl PQOS_RETVAL_OK"
  "pqos_cpu_get_one_by_mba_id (Some cpu) i \<noteq> Inl PQOS_RETVAL_OK"
  using l3cat.core_Inl l2obj.core_Inl l3obj.core_Inl mbaobj.core_Inl by fastforce+

text \<open>A configuration bit has the requested value on a core of every id.\<close>

definition cfg_bit_set :: "(u32 \<Rightarrow> u32 \<Rightarrow> u64 option) \<Rightarrow> (u32 \<Rightarrow> u32 res) \<Rightarrow> u32 \<Rightarrow> u64 \<Rightarrow> bool \<Rightarrow> u32 list \<Rightarrow> bool" where
  "cfg_bit_set rg get_core reg b enable ids \<longleftrightarrow>
     (\<forall>i\<in>set ids. \<exists>core v. get_core i = Inr core \<and> rg core reg = Some v \<and> v AND b = (if enable then b else 0))"

context msr_driver begin

lemma reset_classes_facts:
  assumes "machine_wf core_of s" and "reset_classes E ids get_core start n val s = (x, t)"
    and "\<forall>i. get_core i \<noteq> Inl PQOS_RETVAL_OK"
  shows "machine_wf core_of t \<and> same_config s t \<and>
    (\<forall>l r. r \<notin> clos_regs start (unat n) \<longrightarrow> regs (m_hw t) l r = regs (m_hw s) l r) \<and>
    (\<forall>ids'. x = Inr ids' \<longrightarrow> ids = Some ids' \<and>
       (\<forall>i\<in>set ids'. \<exists>core. get_core i = Inr core \<and> (\<forall>r\<in>clos_regs start (unat n). regs (m_hw t) core r = Some val))) \<and>
    (x = Inl PQOS_RETVAL_OK \<longrightarrow> ids = None \<or> ids = Some [])"
proof (cases "ids = None \<or> ids = Some []")
  case True
  with assms show ?thesis by (auto simp: reset_classes_def)
next
  case False
  then obtain is' where ids: "ids = Some is'" "is' \<noteq> []" by auto
  obtain r u where l: "reset_ids_loop E get_core start n val is' s = (r, u)" by fastforce
  note f = reset_ids_facts [OF assms(1) l]
  from assms(2) ids l have "t = u" and "x = (if r \<noteq> PQOS_RETVAL_OK then Inl r else Inr is')"
    by (auto simp: reset_classes_def split: if_splits)
  with f ids assms(3) show ?thesis by auto
qed

lemma cfg_bit_step:
  assumes "machine_wf core_of s" and "cfg_bit_loop E get_core reg b enable ids s = (ret, t)"
    and "\<forall>i. get_core i \<noteq> Inl PQOS_RETVAL_OK"
  shows "reset_step core_of regs {reg} s t" and "same_config s t"
    and "ret = PQOS_RETVAL_OK \<Longrightarrow> cfg_bit_set (regs (m_hw t)) get_core reg b enable ids"
  using cfg_bit_facts [OF assms] by (auto intro!: reset_step_of_config simp: cfg_bit_set_def)

lemma reset_l3iordt_step:
  assumes "machine_wf core_of s" and "hw_alloc_reset_l3iordt E cpu enable s = (ret, t)"
  shows "reset_step core_of regs {PQOS_MSR_L3_IO_QOS_CFG} s t"
proof (cases "t = s")
  case True
  with assms(1) show ?thesis by (simp add: reset_step_refl)
next
  case False
  with assms(2) obtain ids where "cfg_bit_loop E (pqos_cpu_get_one_by_l3id (Some cpu)) PQOS_MSR_L3_IO_QOS_CFG
      PQOS_MSR_L3_IO_QOS_CA_EN enable ids s = (ret, t)"
    by (auto simp: hw_alloc_reset_l3iordt_def split: option.splits if_splits)
  from cfg_bit_step(1) [OF assms(1) this] get_core_not_OK(3) show ?thesis by blast
qed

lemma reset_l3iordt_cap:
  assumes "machine_wf core_of s" and "hw_alloc_reset_l3iordt E cpu enable s = (ret, t)"
  shows "m_cap t = m_cap s"
proof (cases "t = s")
  case False
  with assms(2) obtain ids where "cfg_bit_loop E (pqos_cpu_get_one_by_l3id (Some cpu)) PQOS_MSR_L3_IO_QOS_CFG
      PQOS_MSR_L3_IO_QOS_CA_EN enable ids s = (ret, t)"
    by (auto simp: hw_alloc_reset_l3iordt_def split: option.splits if_splits)
  from cfg_bit_step(2) [OF assms(1) this] get_core_not_OK(3) show ?thesis by (auto simp: same_config_def)
qed simp

lemma switch_l3cdp_step:
  assumes wf: "machine_wf core_of s" and run: "switch_l3cdp E os_l3 cfg ids s = (x, t)"
  shows "reset_step core_of regs {PQOS_MSR_L3_QOS_CFG} s t"
    and "x = Inr () \<Longrightarrow> cap_l3 (m_cap s) = Some l3 \<Longrightarrow> cfg = PQOS_REQUIRE_CDP_ON \<and> \<not> l3_cdp_on l3 \<or> cfg = PQOS_REQUIRE_CDP_OFF \<and> l3_cdp_on l3 \<Longrightarrow>
      cfg_bit_set (regs (m_hw t)) (pqos_cpu_get_one_by_l3cat_id (Some (m_cpu s))) PQOS_MSR_L3_QOS_CFG PQOS_MSR_L3_QOS_CFG_CDP_EN
        (cfg = PQOS_REQUIRE_CDP_ON) ids"
proof -
  have chg: "machine_wf core_of u \<Longrightarrow> reset_step core_of regs {} u (pqos_cap_l3cdp_change E os_l3 cfg u)" for u
    by (rule cap_change_step(1))
  obtain r1 u where a: "hw_alloc_reset_l3cdp E ids True s = (r1, u)" by fastforce
  note f = cfg_bit_step [OF wf a [unfolded hw_alloc_reset_l3cdp_def]] 
  obtain r2 v where b: "hw_alloc_reset_l3cdp E ids False s = (r2, v)" by fastforce
  note g = cfg_bit_step [OF wf b [unfolded hw_alloc_reset_l3cdp_def]]
  have gc: "\<forall>i. pqos_cpu_get_one_by_l3cat_id (Some (m_cpu s)) i \<noteq> Inl PQOS_RETVAL_OK" using get_core_not_OK(1) by blast
  let ?d = "pqos_cap_l3cdp_change E os_l3 cfg"
  have cases: "t = s \<or> (t = u \<and> x \<noteq> Inr ()) \<or> (t = v \<and> x \<noteq> Inr ()) \<or> t = ?d s \<or> (t = ?d u \<and> r1 = PQOS_RETVAL_OK) \<or> (t = ?d v \<and> r2 = PQOS_RETVAL_OK)"
    using run a b by (auto simp: switch_l3cdp_def split: option.splits if_splits)
  have st: "reset_step core_of regs {PQOS_MSR_L3_QOS_CFG} s w" "reset_step core_of regs {PQOS_MSR_L3_QOS_CFG} s (?d w)"
    if "w \<in> {s, u, v}" for w
  proof -
    show w: "reset_step core_of regs {PQOS_MSR_L3_QOS_CFG} s w" using that f(1) [OF gc] g(1) [OF gc] wf by (auto intro: reset_step_refl)
    from reset_step_trans [OF w chg] w show "reset_step core_of regs {PQOS_MSR_L3_QOS_CFG} s (?d w)" by (simp add: reset_step_def)
  qed
  with cases show "reset_step core_of regs {PQOS_MSR_L3_QOS_CFG} s t" by auto
  have kept: "regs (m_hw (?d w)) = regs (m_hw w)" if "w \<in> {u, v}" for w
    using chg [of w] st(1) [of w] that by (auto simp: reset_step_def fun_eq_iff)
  show "cfg_bit_set (regs (m_hw t)) (pqos_cpu_get_one_by_l3cat_id (Some (m_cpu s))) PQOS_MSR_L3_QOS_CFG PQOS_MSR_L3_QOS_CFG_CDP_EN
        (cfg = PQOS_REQUIRE_CDP_ON) ids"
    if "x = Inr ()" "cap_l3 (m_cap s) = Some l3" "cfg = PQOS_REQUIRE_CDP_ON \<and> \<not> l3_cdp_on l3 \<or> cfg = PQOS_REQUIRE_CDP_OFF \<and> l3_cdp_on l3"
  proof -
    from that run a b have "cfg = PQOS_REQUIRE_CDP_ON \<and> r1 = PQOS_RETVAL_OK \<and> t = ?d u \<or>
        cfg = PQOS_REQUIRE_CDP_OFF \<and> r2 = PQOS_RETVAL_OK \<and> t = ?d v"
      by (auto simp: switch_l3cdp_def split: if_splits)
    with f(3) [OF gc] g(3) [OF gc] kept show ?thesis by auto
  qed
qed

lemma switch_l2cdp_step:
  assumes wf: "machine_wf core_of s" and run: "switch_l2cdp E os_l2 cfg ids ret s = (x, t)"
  shows "reset_step core_of regs {PQOS_MSR_L2_QOS_CFG} s t"
proof -
  have chg: "machine_wf core_of u \<Longrightarrow> reset_step core_of regs {} u (pqos_cap_l2cdp_change E os_l2 cfg u)" for u
    by (rule cap_change_step(2))
  obtain r1 u where a: "hw_alloc_reset_l2cdp E ids True s = (r1, u)" by fastforce
  obtain r2 v where b: "hw_alloc_reset_l2cdp E ids False s = (r2, v)" by fastforce
  have gc: "\<forall>i. pqos_cpu_get_one_by_l2id (Some (m_cpu s)) i \<noteq> Inl PQOS_RETVAL_OK" using get_core_not_OK(2) by blast
  note f = cfg_bit_step(1) [OF wf a [unfolded hw_alloc_reset_l2cdp_def] gc]
    and g = cfg_bit_step(1) [OF wf b [unfolded hw_alloc_reset_l2cdp_def] gc]
  let ?d = "pqos_cap_l2cdp_change E os_l2 cfg"
  have st: "reset_step core_of regs {PQOS_MSR_L2_QOS_CFG} s w" "reset_step core_of regs {PQOS_MSR_L2_QOS_CFG} s (?d w)"
    if "w \<in> {s, u, v}" for w
  proof -
    show w: "reset_step core_of regs {PQOS_MSR_L2_QOS_CFG} s w" using that f g wf by (auto intro: reset_step_refl)
    from reset_step_trans [OF w chg] w show "reset_step core_of regs {PQOS_MSR_L2_QOS_CFG} s (?d w)" by (simp add: reset_step_def)
  qed
  have "t \<in> {s, u, v, ?d s, ?d u, ?d v}"
    using run a b by (auto simp: switch_l2cdp_def split: option.splits if_splits)
  with st show ?thesis by auto
qed

lemma switch_mba40_step:
  assumes wf: "machine_wf core_of s" and run: "switch_mba40 E cfg ids ret s = (r, t)"
  shows "reset_step core_of regs {PQOS_MSR_MBA_CFG} s t"
proof (cases "t = s")
  case True
  with wf show ?thesis by (simp add: reset_step_refl)
next
  case False
  with run obtain en where h: "hw_alloc_reset_mba40 E ids en s = (r, t)"
    by (auto simp: switch_mba40_def split: option.splits if_splits)
  show ?thesis
    by (rule cfg_bit_step(1) [OF wf h [unfolded hw_alloc_reset_mba40_def]]) (auto split: sum.splits)
qed

text \<open>The four class definition parts, with what each leaves in the registers.\<close>

lemma reset_l3_facts:
  assumes "machine_wf core_of s" and "reset_l3_classes E s = (x, t)"
  shows "machine_wf core_of t" and "same_config s t"
    and "r \<notin> clos_regs PQOS_MSR_L3CA_MASK_START (case cap_l3 (m_cap s) of None \<Rightarrow> 0 | Some l3 \<Rightarrow> unat (max_l3_clos l3)) \<Longrightarrow>
      regs (m_hw t) l r = regs (m_hw s) l r"
    and "x = Inl PQOS_RETVAL_OK \<Longrightarrow> cores (m_cpu s) = []"
    and "x = Inr ids \<Longrightarrow> cap_l3 (m_cap s) = Some l3 \<Longrightarrow> pqos_cpu_get_l3cat_ids (Some (m_cpu s)) = Some ids \<and>
      (\<forall>i\<in>set ids. \<exists>core. pqos_cpu_get_one_by_l3cat_id (Some (m_cpu s)) i = Inr core \<and>
         (\<forall>r\<in>clos_regs PQOS_MSR_L3CA_MASK_START (unat (max_l3_clos l3)). regs (m_hw t) core r = Some (push_bit (unat (l3_num_ways l3)) 1 - 1)))"
  using assms l3cat.ids_Some [of "m_cpu s"] l3cat.no_ids_iff_no_cores [of "m_cpu s"]
  by (auto simp: reset_l3_classes_def get_core_not_OK split: option.splits dest!: reset_classes_facts [OF assms(1)])

lemma reset_l2_facts:
  assumes "machine_wf core_of s" and "reset_l2_classes E s = (x, t)"
  shows "machine_wf core_of t" and "same_config s t"
    and "r \<notin> clos_regs PQOS_MSR_L2CA_MASK_START (case cap_l2 (m_cap s) of None \<Rightarrow> 0 | Some l2 \<Rightarrow> unat (max_l2_clos l2)) \<Longrightarrow>
      regs (m_hw t) l r = regs (m_hw s) l r"
    and "x = Inl PQOS_RETVAL_OK \<Longrightarrow> cores (m_cpu s) = []"
  using assms l2obj.ids_Some [of "m_cpu s"] l2obj.no_ids_iff_no_cores [of "m_cpu s"]
  by (auto simp: reset_l2_classes_def get_core_not_OK split: option.splits dest!: reset_classes_facts [OF assms(1)])

lemma reset_mba_facts:
  assumes "machine_wf core_of s" and "reset_mba_classes E s = (x, t)"
  shows "machine_wf core_of t" and "same_config s t"
    and "r \<notin> clos_regs (mba_msr_reg (m_config s)) (case cap_mba (m_cap s) of None \<Rightarrow> 0 | Some mba \<Rightarrow> unat (mba_num_classes mba)) \<Longrightarrow>
      regs (m_hw t) l r = regs (m_hw s) l r"
    and "x = Inl PQOS_RETVAL_OK \<Longrightarrow> cores (m_cpu s) = []"
  using assms mbaobj.ids_Some [of "m_cpu s"] mbaobj.no_ids_iff_no_cores [of "m_cpu s"]
  by (auto simp: reset_mba_classes_def get_core_not_OK split: option.splits dest!: reset_classes_facts [OF assms(1)])

lemma reset_smba_facts:
  assumes "machine_wf core_of s" and "reset_smba_classes E s = (x, t)"
  shows "machine_wf core_of t" and "same_config s t"
    and "r \<notin> clos_regs (smba_msr_reg (m_config s)) (case cap_smba (m_cap s) of None \<Rightarrow> 0 | Some smba \<Rightarrow> unat (mba_num_classes smba)) \<Longrightarrow>
      regs (m_hw t) l r = regs (m_hw s) l r"
    and "x = Inl PQOS_RETVAL_OK \<Longrightarrow> cores (m_cpu s) = []"
  using assms smbaobj.ids_Some [of "m_cpu s"] smbaobj.no_ids_iff_no_cores [of "m_cpu s"]
  by (auto simp: reset_smba_classes_def get_core_not_OK split: option.splits dest!: reset_classes_facts [OF assms(1)])

end

section \<open>The whole reset\<close>

text \<open>The registers that the L2, MBA and SMBA parts program.\<close>

definition later_regs :: "'h lib \<Rightarrow> u32 set" where
  "later_regs s =
     clos_regs PQOS_MSR_L2CA_MASK_START (case cap_l2 (m_cap s) of None \<Rightarrow> 0 | Some l2 \<Rightarrow> unat (max_l2_clos l2)) \<union>
     clos_regs (mba_msr_reg (m_config s)) (case cap_mba (m_cap s) of None \<Rightarrow> 0 | Some mba \<Rightarrow> unat (mba_num_classes mba)) \<union>
     clos_regs (smba_msr_reg (m_config s)) (case cap_smba (m_cap s) of None \<Rightarrow> 0 | Some smba \<Rightarrow> unat (mba_num_classes smba))"

text \<open>All class definition registers.\<close>

definition all_class_regs :: "'h lib \<Rightarrow> u32 set" where
  "all_class_regs s =
     clos_regs PQOS_MSR_L3CA_MASK_START (case cap_l3 (m_cap s) of None \<Rightarrow> 0 | Some l3 \<Rightarrow> unat (max_l3_clos l3)) \<union> later_regs s"

definition cfg_regs :: "u32 set" where
  "cfg_regs = {PQOS_MSR_L3_QOS_CFG, PQOS_MSR_L3_IO_QOS_CFG, PQOS_MSR_L2_QOS_CFG, PQOS_MSR_MBA_CFG}"

text \<open>Every class mask of every L3 CAT id is the mask of all ways.\<close>

definition l3_masks_full :: "(u32 \<Rightarrow> u32 \<Rightarrow> u64 option) \<Rightarrow> pqos_cpuinfo \<Rightarrow> pqos_cap_l3ca \<Rightarrow> bool" where
  "l3_masks_full rg cpu l3 \<longleftrightarrow>
     (\<forall>i\<in>l3cat_id ` set (cores cpu). \<exists>core. pqos_cpu_get_one_by_l3cat_id (Some cpu) i = Inr core \<and>
        (\<forall>r\<in>clos_regs PQOS_MSR_L3CA_MASK_START (unat (max_l3_clos l3)). rg core r = Some (push_bit (unat (l3_num_ways l3)) 1 - 1)))"

context msr_driver begin

lemma alloc_classes_facts:
  assumes wf: "machine_wf core_of s" and run: "alloc_reset_classes E s = (x, t)"
  shows "machine_wf core_of t \<and> same_config s t \<and> (x = Inl PQOS_RETVAL_OK \<longrightarrow> cores (m_cpu s) = []) \<and>
    (\<forall>l3. cap_l3 (m_cap s) = Some l3 \<longrightarrow> clos_regs PQOS_MSR_L3CA_MASK_START (unat (max_l3_clos l3)) \<inter> later_regs s = {} \<longrightarrow>
       (\<exists>ids. x = Inr ids) \<longrightarrow> l3_masks_full (regs (m_hw t)) (m_cpu s) l3) \<and>
    (\<forall>ids. x = Inr ids \<longrightarrow> cap_l3 (m_cap s) \<noteq> None \<longrightarrow> pqos_cpu_get_l3cat_ids (Some (m_cpu s)) = Some (fst ids))"
proof -
  obtain x1 u1 where p1: "reset_l3_classes E s = (x1, u1)" by fastforce
  note f1 = reset_l3_facts [OF wf p1]
  obtain x2 u2 where p2: "reset_l2_classes E u1 = (x2, u2)" by fastforce
  note f2 = reset_l2_facts [OF f1(1) p2]
  obtain x3 u3 where p3: "reset_mba_classes E u2 = (x3, u3)" by fastforce
  note f3 = reset_mba_facts [OF f2(1) p3]
  obtain x4 u4 where p4: "reset_smba_classes E u3 = (x4, u4)" by fastforce
  note f4 = reset_smba_facts [OF f3(1) p4]
  have c2: "same_config s u2" and c3: "same_config s u3" and c4: "same_config s u4"
    using f1(2) f2(2) f3(2) f4(2) by (blast intro: same_config_trans)+
  note cfg = same_configD [OF f1(2)] same_configD [OF c2] same_configD [OF c3]
  have later: "regs (m_hw u4) l r = regs (m_hw u1) l r" if "r \<notin> later_regs s" for l r
    using that f2(3) [of r l] f3(3) [of r l] f4(3) [of r l] by (simp add: later_regs_def cfg)
  have run': "x = Inl e \<and> t = u1 \<and> x1 = Inl e \<or> x = Inl e \<and> t = u2 \<and> x2 = Inl e \<or> x = Inl e \<and> t = u3 \<and> x3 = Inl e \<or> x = Inl e \<and> t = u4 \<and> x4 = Inl e"
    if "x = Inl e" for e
    using run p1 p2 p3 p4 that by (auto simp: alloc_reset_classes_def split: sum.splits)
  have ok: "\<exists>l3ids. x1 = Inr l3ids \<and> fst ids = l3ids \<and> t = u4" if "x = Inr ids" for ids
    using run p1 p2 p3 p4 that by (auto simp: alloc_reset_classes_def split: sum.splits)
  have wfs: "machine_wf core_of t \<and> same_config s t"
    using run' ok f1(1,2) f2(1) f3(1) f4(1) c2 c3 c4 by (cases x) blast+
  have none: "cores (m_cpu s) = []" if "x = Inl PQOS_RETVAL_OK"
    using run' [OF that] f1(4) f2(4) f3(4) f4(4) by (auto simp: cfg)
  have full: "l3_masks_full (regs (m_hw t)) (m_cpu s) l3"
    if l3: "cap_l3 (m_cap s) = Some l3" and dis: "clos_regs PQOS_MSR_L3CA_MASK_START (unat (max_l3_clos l3)) \<inter> later_regs s = {}"
      and x: "x = Inr ids" for l3 ids
  proof -
    from ok [OF x] obtain l3ids where x1: "x1 = Inr l3ids" and t: "t = u4" by blast
    note f5 = f1(5) [OF x1 l3]
    with l3cat.ids_SomeD [of "m_cpu s" l3ids] have ids: "set l3ids = l3cat_id ` set (cores (m_cpu s))" by simp
    have "regs (m_hw u4) core r = regs (m_hw u1) core r" if "r \<in> clos_regs PQOS_MSR_L3CA_MASK_START (unat (max_l3_clos l3))" for core r
      using later that dis by blast
    with f5 show ?thesis unfolding l3_masks_full_def t ids [symmetric] by fastforce
  qed
  have idl: "pqos_cpu_get_l3cat_ids (Some (m_cpu s)) = Some (fst ids)" if "x = Inr ids" "cap_l3 (m_cap s) \<noteq> None" for ids
    using ok [OF that(1)] f1(5) that(2) by auto
  show ?thesis using wfs none full idl by blast
qed

lemma alloc_classes_frame:
  assumes wf: "machine_wf core_of s" and run: "alloc_reset_classes E s = (x, t)"
    and r: "r \<notin> all_class_regs s"
  shows "regs (m_hw t) l r = regs (m_hw s) l r"
proof -
  obtain x1 u1 where p1: "reset_l3_classes E s = (x1, u1)" by fastforce
  note f1 = reset_l3_facts [OF wf p1]
  obtain x2 u2 where p2: "reset_l2_classes E u1 = (x2, u2)" by fastforce
  note f2 = reset_l2_facts [OF f1(1) p2]
  obtain x3 u3 where p3: "reset_mba_classes E u2 = (x3, u3)" by fastforce
  note f3 = reset_mba_facts [OF f2(1) p3]
  obtain x4 u4 where p4: "reset_smba_classes E u3 = (x4, u4)" by fastforce
  note f4 = reset_smba_facts [OF f3(1) p4]
  have c2: "same_config s u2" and c3: "same_config s u3" using f1(2) f2(2) f3(2) by (blast intro: same_config_trans)+
  note cfg = same_configD [OF f1(2)] same_configD [OF c2] same_configD [OF c3]
  have "t \<in> {u1, u2, u3, u4}"
    using run p1 p2 p3 p4 by (auto simp: alloc_reset_classes_def split: sum.splits)
  with r f1(3) [of r l] f2(3) [of r l] f3(3) [of r l] f4(3) [of r l] show ?thesis
    by (auto simp: all_class_regs_def later_regs_def cfg)
qed

end

context io_driver begin

lemma switch_l3iordt_step:
  assumes wf: "machine_wf core_of s" and run: "switch_l3iordt E cfg s = (x, t)"
  shows "reset_step core_of regs {PQOS_MSR_L3_IO_QOS_CFG} s t"
proof -
  let ?R = "{PQOS_MSR_L3_IO_QOS_CFG}"
  obtain r1 u where a: "hw_alloc_reset_l3iordt E (m_cpu s) True s = (r1, u)" by fastforce
  have u: "reset_step core_of regs ?R s u" by (rule reset_l3iordt_step [OF wf a])
  obtain r2 v where b: "hw_alloc_reset_assoc_channels E u = (r2, v)" by fastforce
  have v: "reset_step core_of regs ?R s v"
    using u assoc_channels_facts [OF _ b] by (auto simp: reset_step_def same_configD)
  obtain r3 w where c: "hw_alloc_reset_l3iordt E (m_cpu s) False s = (r3, w)" by fastforce
  have w: "reset_step core_of regs ?R s w" by (rule reset_l3iordt_step [OF wf c])
  have upd: "reset_step core_of regs ?R s z \<Longrightarrow> reset_step core_of regs ?R s (z\<lparr>m_cap := k\<rparr>)" for z k
    by (auto simp: reset_step_def machine_wf_def split: option.splits)
  have "\<exists>z k. z \<in> {s, u, v, w} \<and> (t = z \<or> t = z\<lparr>m_cap := k\<rparr>)"
    using run a b c by (auto simp: switch_l3iordt_def split: option.splits if_splits)
  with u v w reset_step_refl [OF wf] upd show ?thesis by blast
qed

lemma switches_facts:
  assumes wf: "machine_wf core_of s" and run: "alloc_reset_switches E os_l3 os_l2 cfg l3ids l2ids mbaids s = (ret, t)"
  shows "reset_step core_of regs cfg_regs s t"
    and "ret = PQOS_RETVAL_OK \<Longrightarrow> cap_l3 (m_cap s) = Some l3 \<Longrightarrow>
      cfg_l3_cdp cfg = PQOS_REQUIRE_CDP_ON \<and> \<not> l3_cdp_on l3 \<or> cfg_l3_cdp cfg = PQOS_REQUIRE_CDP_OFF \<and> l3_cdp_on l3 \<Longrightarrow>
      cfg_bit_set (regs (m_hw t)) (pqos_cpu_get_one_by_l3cat_id (Some (m_cpu s))) PQOS_MSR_L3_QOS_CFG PQOS_MSR_L3_QOS_CFG_CDP_EN
        (cfg_l3_cdp cfg = PQOS_REQUIRE_CDP_ON) l3ids"
proof -
  obtain x1 u1 where p1: "switch_l3cdp E os_l3 (cfg_l3_cdp cfg) l3ids s = (x1, u1)" by fastforce
  note f1 = switch_l3cdp_step [OF wf p1]
  have wf1: "machine_wf core_of u1" using f1(1) by (simp add: reset_step_def)
  obtain x2 u2 where p2: "switch_l3iordt E (cfg_l3_iordt cfg) u1 = (x2, u2)" by fastforce
  note f2 = switch_l3iordt_step [OF wf1 p2]
  have wf2: "machine_wf core_of u2" using f2 by (simp add: reset_step_def)
  obtain x3 u3 where p3: "switch_l2cdp E os_l2 (cfg_l2_cdp cfg) l2ids (case x2 of Inl r \<Rightarrow> r | Inr r \<Rightarrow> r) u2 = (x3, u3)" by fastforce
  note f3 = switch_l2cdp_step [OF wf2 p3]
  have wf3: "machine_wf core_of u3" using f3 by (simp add: reset_step_def)
  obtain x4 u4 where p4: "switch_mba40 E (cfg_mba40 cfg) mbaids (case x3 of Inl r \<Rightarrow> r | Inr r \<Rightarrow> r) u3 = (x4, u4)" by fastforce
  note f4 = switch_mba40_step [OF wf3 p4]
  have t: "t \<in> {u1, u2, u3, u4}" and x1: "x1 = Inl e \<Longrightarrow> ret = e" for e
    using run p1 p2 p3 p4 by (auto simp: alloc_reset_switches_def split: sum.splits)
  have tail: "reset_step core_of regs {PQOS_MSR_L3_IO_QOS_CFG, PQOS_MSR_L2_QOS_CFG, PQOS_MSR_MBA_CFG} u1 u"
    if "u \<in> {u1, u2, u3, u4}" for u
    using that f2 f3 f4 wf1 by (auto simp: reset_step_def)
  then have tl: "reset_step core_of regs {PQOS_MSR_L3_IO_QOS_CFG, PQOS_MSR_L2_QOS_CFG, PQOS_MSR_MBA_CFG} u1 t" using t by blast
  from reset_step_trans [OF f1(1) tl] show "reset_step core_of regs cfg_regs s t"
    by (rule reset_step_mono) (auto simp: cfg_regs_def)
  have e1: "x1 \<noteq> Inl PQOS_RETVAL_OK"
    using p1 by (auto simp: switch_l3cdp_def split: option.splits if_splits prod.splits)
  show "cfg_bit_set (regs (m_hw t)) (pqos_cpu_get_one_by_l3cat_id (Some (m_cpu s))) PQOS_MSR_L3_QOS_CFG PQOS_MSR_L3_QOS_CFG_CDP_EN
        (cfg_l3_cdp cfg = PQOS_REQUIRE_CDP_ON) l3ids"
    if "ret = PQOS_RETVAL_OK" "cap_l3 (m_cap s) = Some l3"
      "cfg_l3_cdp cfg = PQOS_REQUIRE_CDP_ON \<and> \<not> l3_cdp_on l3 \<or> cfg_l3_cdp cfg = PQOS_REQUIRE_CDP_OFF \<and> l3_cdp_on l3"
  proof -
    have "x1 = Inr ()" using x1 e1 that(1) by (cases x1) auto
    from f1(2) [OF this that(2,3)] tl show ?thesis by (auto simp: cfg_bit_set_def reset_step_def reg_defs)
  qed
qed

lemma alloc_reset_facts:
  assumes wf: "machine_wf core_of s" and ne: "cores (m_cpu s) \<noteq> []"
    and run: "alloc_reset E os_l3 os_l2 cfg s = (PQOS_RETVAL_OK, t)"
  shows "\<exists>ids a v. alloc_reset_check (case cfg of None \<Rightarrow> default_alloc_config | Some c \<Rightarrow> c) (m_cap s) = PQOS_RETVAL_OK \<and>
    alloc_reset_classes E s = (Inr ids, a) \<and> hw_alloc_reset_assoc E a = (PQOS_RETVAL_OK, v) \<and>
    alloc_reset_switches E os_l3 os_l2 (case cfg of None \<Rightarrow> default_alloc_config | Some c \<Rightarrow> c) (fst ids) (fst (snd ids)) (snd (snd ids)) v
      = (PQOS_RETVAL_OK, t) \<and>
    machine_wf core_of a \<and> same_config s a \<and> machine_wf core_of v \<and> same_config s v"
proof -
  obtain x a where p: "alloc_reset_classes E s = (x, a)" by fastforce
  note f = alloc_classes_facts [OF wf p]
  from f ne have "x \<noteq> Inl PQOS_RETVAL_OK" by blast
  with run p obtain ids where x: "x = Inr ids"
    by (cases x) (auto simp: alloc_reset_def Let_def split: if_splits)
  obtain r v where q: "hw_alloc_reset_assoc E a = (r, v)" by fastforce
  note g = reset_assoc_facts [OF conjunct1 [OF f] q]
  from run p x q show ?thesis using f g
    by (auto simp: alloc_reset_def Let_def intro: same_config_trans split: if_splits prod.splits)
qed

end


lemma clos_regs_below:
  assumes "r < start" and "unat start + n \<le> 2 ^ 32"
  shows "r \<notin> clos_regs start n"
proof
  assume "r \<in> clos_regs start n"
  then obtain i where i: "i < n" "r = start + of_nat i" by (auto simp: clos_regs_def)
  have "unat (start + of_nat i) = unat start + i"
    using assms(2) i(1) by (simp add: unat_word_ariths unat_of_nat)
  with i assms(1) show False by (simp add: word_less_nat_alt)
qed

section \<open>Properties\<close>

text \<open>A sample with every core in class 2, narrow L3 masks and throttled classes.\<close>

definition sample_busy :: "ref_hw lib" where
  "sample_busy = sample_lib\<lparr>m_hw := (\<lambda>l r. if r = 0xC8F then Some 0x200000005
     else if 0xC90 \<le> r \<and> r < 0xC98 then Some 3 else if 0xD50 \<le> r \<and> r < 0xD58 then Some 50 else sample_hw l r)\<rparr>"

definition sample_iordt :: "ref_hw lib" where
  "sample_iordt = sample_lib\<lparr>m_cap := [CapL3ca (sample_l3ca\<lparr>l3_iordt := True\<rparr>)], m_dev := m_dev sample_io_lib\<rparr>"

lemma sample_iordt_wf: "machine_wf ref_core_of sample_iordt"
  by (auto simp: machine_wf_def sample_iordt_def less_Suc_eq_0_disj)

lemma sample_busy_wf: "machine_wf ref_core_of sample_busy"
  by (auto simp: machine_wf_def sample_busy_def less_Suc_eq_0_disj)

lemma sample_busy_apart: "PQOS_MSR_ASSOC \<notin> all_class_regs sample_busy"
  by code_simp

text \<open>
  What a request asks of the capabilities: a setting other than ANY needs the technology,
  switching on needs the support of the feature, and MBA CTRL is not available here.
\<close>

definition request_supported :: "pqos_alloc_config \<Rightarrow> pqos_cap \<Rightarrow> bool" where
  "request_supported cfg cap \<longleftrightarrow>
     (cfg_l3_cdp cfg \<noteq> PQOS_REQUIRE_CDP_ANY \<or> cfg_l3_iordt cfg \<noteq> PQOS_REQUIRE_IORDT_ANY \<longrightarrow> cap_l3 cap \<noteq> None) \<and>
     (cfg_l2_cdp cfg \<noteq> PQOS_REQUIRE_CDP_ANY \<longrightarrow> cap_l2 cap \<noteq> None) \<and>
     (cfg_mba cfg \<noteq> PQOS_MBA_ANY \<or> cfg_mba40 cfg \<noteq> PQOS_FEATURE_ANY \<longrightarrow> cap_mba cap \<noteq> None) \<and>
     (cfg_smba cfg \<noteq> PQOS_MBA_ANY \<longrightarrow> cap_smba cap \<noteq> None) \<and>
     (cfg_l3_cdp cfg = PQOS_REQUIRE_CDP_ON \<longrightarrow> l3_cdp (the (cap_l3 cap))) \<and>
     (cfg_l3_iordt cfg = PQOS_REQUIRE_IORDT_ON \<longrightarrow> l3_iordt (the (cap_l3 cap))) \<and>
     (cfg_l2_cdp cfg = PQOS_REQUIRE_CDP_ON \<longrightarrow> l2_cdp (the (cap_l2 cap))) \<and>
     cfg_mba cfg \<noteq> PQOS_MBA_CTRL \<and>
     (cfg_mba40 cfg = PQOS_FEATURE_ON \<longrightarrow> mba_mba40 (the (cap_mba cap)))"

lemma check_OK_supported: "alloc_reset_check cfg cap = PQOS_RETVAL_OK \<Longrightarrow> request_supported cfg cap"
  by (cases "cap_l3 cap"; cases "cap_l2 cap"; cases "cap_mba cap"; cases "cap_smba cap";
      simp add: alloc_reset_check_def request_supported_def split: if_splits; blast?)

lemma check_codes: "alloc_reset_check cfg cap \<in> {PQOS_RETVAL_OK, PQOS_RETVAL_RESOURCE, PQOS_RETVAL_PARAM}"
  by (simp add: alloc_reset_check_def)

text \<open>
  A reset whose request the capabilities do not support is refused before anything is
  touched: \<open>alloc_reset\<close> answers \<open>PQOS_RETVAL_RESOURCE\<close> (technology missing) or
  \<open>PQOS_RETVAL_PARAM\<close> (feature missing) and the whole library state is as before.
\<close>

theorem reset_refuses_unsupported:
  assumes "\<not> request_supported cfg (m_cap s)"
  shows "alloc_reset E os_l3 os_l2 (Some cfg) s = (PQOS_RETVAL_RESOURCE, s) \<or>
    alloc_reset E os_l3 os_l2 (Some cfg) s = (PQOS_RETVAL_PARAM, s)"
  using check_OK_supported [of cfg "m_cap s"] check_codes [of cfg "m_cap s"] assms
  by (auto simp: alloc_reset_def Let_def)

theorem reset_refuses_unsupported_witness:
  "fst (alloc_reset ref_platform (Inr sample_l3ca) (Inl PQOS_RETVAL_ERROR)
     (Some (default_alloc_config\<lparr>cfg_mba40 := PQOS_FEATURE_ON\<rparr>)) sample_lib) \<in> {PQOS_RETVAL_RESOURCE, PQOS_RETVAL_PARAM}"
proof -
  have "\<not> request_supported (default_alloc_config\<lparr>cfg_mba40 := PQOS_FEATURE_ON\<rparr>) (m_cap sample_lib)" by code_simp
  from reset_refuses_unsupported [OF this, of ref_platform "Inr sample_l3ca" "Inl PQOS_RETVAL_ERROR"] show ?thesis by auto
qed

text \<open>
  C4. A successful \<open>alloc_reset\<close> returns every core to class 0 and keeps its RMID, whatever
  the request and whichever technologies exist.
\<close>

theorem reset_releases_cores:
  assumes drv: "io_driver E core_of regs" and wf: "machine_wf core_of s"
    and run: "alloc_reset E os_l3 os_l2 cfg s = (PQOS_RETVAL_OK, t)"
    and apart: "PQOS_MSR_ASSOC \<notin> all_class_regs s" and c: "c \<in> set (cores (m_cpu s))"
  shows "\<exists>v w. regs (m_hw s) (lcore c) PQOS_MSR_ASSOC = Some v \<and> regs (m_hw t) (lcore c) PQOS_MSR_ASSOC = Some w \<and>
    clos_field w = 0 \<and> rmid_field w = rmid_field v"
proof -
  note md = io_driver.axioms(1) [OF drv]
  from c have ne: "cores (m_cpu s) \<noteq> []" by auto
  from io_driver.alloc_reset_facts [OF drv wf ne run] obtain ids a v
    where p: "alloc_reset_classes E s = (Inr ids, a)" and q: "hw_alloc_reset_assoc E a = (PQOS_RETVAL_OK, v)"
      and sw: "alloc_reset_switches E os_l3 os_l2 (case cfg of None \<Rightarrow> default_alloc_config | Some c \<Rightarrow> c)
        (fst ids) (fst (snd ids)) (snd (snd ids)) v = (PQOS_RETVAL_OK, t)"
      and wfa: "machine_wf core_of a" and ca: "same_config s a" and wfv: "machine_wf core_of v" by blast
  have "regs (m_hw a) (lcore c) PQOS_MSR_ASSOC = regs (m_hw s) (lcore c) PQOS_MSR_ASSOC"
    by (rule msr_driver.alloc_classes_frame [OF md wf p apart])
  moreover have "\<exists>x. regs (m_hw a) (lcore c) PQOS_MSR_ASSOC = Some x \<and> regs (m_hw v) (lcore c) PQOS_MSR_ASSOC = Some (set_clos 0 x)"
    using io_driver.reset_assoc_facts [OF drv wfa q] c ca by (simp add: same_configD)
  moreover have "regs (m_hw t) (lcore c) PQOS_MSR_ASSOC = regs (m_hw v) (lcore c) PQOS_MSR_ASSOC"
    using io_driver.switches_facts(1) [OF drv wfv sw] by (simp add: reset_step_def cfg_regs_def reg_defs)
  ultimately show ?thesis by auto
qed

theorem reset_releases_cores_witness:
  "\<exists>v. ref_regs (m_hw (snd (alloc_reset ref_platform (Inr sample_l3ca) (Inl PQOS_RETVAL_ERROR) None sample_busy))) 3 PQOS_MSR_ASSOC = Some v \<and>
     clos_field v = 0"
proof -
  let ?r = "alloc_reset ref_platform (Inr sample_l3ca) (Inl PQOS_RETVAL_ERROR) None sample_busy"
  have "fst ?r = PQOS_RETVAL_OK" by code_simp
  then have run: "?r = (PQOS_RETVAL_OK, snd ?r)" by (metis prod.collapse)
  from reset_releases_cores [OF refio.io_driver_axioms sample_busy_wf run sample_busy_apart, of "sample_core 3 1"]
  show ?thesis by (auto simp: sample_busy_def sample_cpu_def sample_core_def)
qed

text \<open>
  C5. A successful \<open>alloc_reset\<close> opens the whole L3 cache to every class: on the core found
  for each L3 CAT id all class mask registers hold the mask of all ways (both code and
  data masks while CDP is on), and neither the later parts nor the feature switches
  disturb them.
\<close>

theorem reset_opens_l3_cache:
  assumes drv: "io_driver E core_of regs" and wf: "machine_wf core_of s" and ne: "cores (m_cpu s) \<noteq> []"
    and run: "alloc_reset E os_l3 os_l2 cfg s = (PQOS_RETVAL_OK, t)"
    and l3: "cap_l3 (m_cap s) = Some l3" and few: "unat (max_l3_clos l3) \<le> 128"
    and apart: "clos_regs PQOS_MSR_L3CA_MASK_START (unat (max_l3_clos l3)) \<inter> later_regs s = {}"
  shows "l3_masks_full (regs (m_hw t)) (m_cpu s) l3"
proof -
  note md = io_driver.axioms(1) [OF drv]
  from io_driver.alloc_reset_facts [OF drv wf ne run] obtain ids a v
    where p: "alloc_reset_classes E s = (Inr ids, a)" and q: "hw_alloc_reset_assoc E a = (PQOS_RETVAL_OK, v)"
      and sw: "alloc_reset_switches E os_l3 os_l2 (case cfg of None \<Rightarrow> default_alloc_config | Some c \<Rightarrow> c)
        (fst ids) (fst (snd ids)) (snd (snd ids)) v = (PQOS_RETVAL_OK, t)"
      and wfa: "machine_wf core_of a" and wfv: "machine_wf core_of v" by blast
  have full: "l3_masks_full (regs (m_hw a)) (m_cpu s) l3"
    using msr_driver.alloc_classes_facts [OF md wf p] l3 apart by blast
  have eq: "regs (m_hw t) l r = regs (m_hw a) l r" if r: "r \<in> clos_regs PQOS_MSR_L3CA_MASK_START (unat (max_l3_clos l3))" for l r
  proof -
    have "q \<notin> clos_regs PQOS_MSR_L3CA_MASK_START (unat (max_l3_clos l3))" if "q \<in> insert PQOS_MSR_ASSOC cfg_regs" for q
      using that few by (intro clos_regs_below) (auto simp: cfg_regs_def reg_defs)
    with r have "r \<noteq> PQOS_MSR_ASSOC" "r \<notin> cfg_regs" by blast+
    with io_driver.reset_assoc_facts [OF drv wfa q] io_driver.switches_facts(1) [OF drv wfv sw] show ?thesis
      by (simp add: reset_step_def)
  qed
  show ?thesis using full unfolding l3_masks_full_def by (simp add: eq cong: ball_cong_simp)
qed

theorem reset_opens_l3_cache_witness:
  "ref_regs (m_hw (snd (alloc_reset ref_platform (Inr sample_l3ca) (Inl PQOS_RETVAL_ERROR) None sample_busy))) 2 (0xC90 + 3) = Some 0xff"
proof -
  let ?r = "alloc_reset ref_platform (Inr sample_l3ca) (Inl PQOS_RETVAL_ERROR) None sample_busy"
  have ok: "fst ?r = PQOS_RETVAL_OK" and l3: "cap_l3 (m_cap sample_busy) = Some sample_l3ca"
    and few: "unat (max_l3_clos sample_l3ca) \<le> 128" and ne: "cores (m_cpu sample_busy) \<noteq> []"
    and apart: "clos_regs PQOS_MSR_L3CA_MASK_START (unat (max_l3_clos sample_l3ca)) \<inter> later_regs sample_busy = {}"
    and core: "pqos_cpu_get_one_by_l3cat_id (Some (m_cpu sample_busy)) 1 = Inr 2" and one: "1 \<in> l3cat_id ` set (cores (m_cpu sample_busy))"
    and reg: "0xC90 + 3 \<in> clos_regs PQOS_MSR_L3CA_MASK_START (unat (max_l3_clos sample_l3ca))"
    and val: "push_bit (unat (l3_num_ways sample_l3ca)) 1 - 1 = (0xff :: u64)" by code_simp+
  from ok have run: "?r = (PQOS_RETVAL_OK, snd ?r)" by (metis prod.collapse)
  from reset_opens_l3_cache [OF refio.io_driver_axioms sample_busy_wf ne run l3 few apart] one
  have "\<forall>r\<in>clos_regs PQOS_MSR_L3CA_MASK_START (unat (max_l3_clos sample_l3ca)).
      ref_regs (m_hw (snd ?r)) 2 r = Some (push_bit (unat (l3_num_ways sample_l3ca)) 1 - 1)"
    unfolding l3_masks_full_def using core by force
  with reg val show ?thesis by metis
qed

text \<open>
  \<open>alloc_reset\<close> switches L3 CDP as requested: when the request differs from the state in
  the capability table and the reset succeeds, the CDP enable bit of the L3 QoS
  configuration register is set (request ON) or clear (request OFF) on the core of every
  L3 CAT id of the system.
\<close>

theorem reset_switches_l3cdp:
  assumes drv: "io_driver E core_of regs" and wf: "machine_wf core_of s" and ne: "cores (m_cpu s) \<noteq> []"
    and run: "alloc_reset E os_l3 os_l2 (Some cfg) s = (PQOS_RETVAL_OK, t)"
    and l3: "cap_l3 (m_cap s) = Some l3"
    and req: "cfg_l3_cdp cfg = PQOS_REQUIRE_CDP_ON \<and> \<not> l3_cdp_on l3 \<or> cfg_l3_cdp cfg = PQOS_REQUIRE_CDP_OFF \<and> l3_cdp_on l3"
    and i: "i \<in> l3cat_id ` set (cores (m_cpu s))"
  shows "\<exists>core v. pqos_cpu_get_one_by_l3cat_id (Some (m_cpu s)) i = Inr core \<and>
    regs (m_hw t) core PQOS_MSR_L3_QOS_CFG = Some v \<and>
    v AND PQOS_MSR_L3_QOS_CFG_CDP_EN = (if cfg_l3_cdp cfg = PQOS_REQUIRE_CDP_ON then PQOS_MSR_L3_QOS_CFG_CDP_EN else 0)"
proof -
  note md = io_driver.axioms(1) [OF drv]
  from io_driver.alloc_reset_facts [OF drv wf ne run] obtain ids a v
    where p: "alloc_reset_classes E s = (Inr ids, a)"
      and sw: "alloc_reset_switches E os_l3 os_l2 cfg (fst ids) (fst (snd ids)) (snd (snd ids)) v = (PQOS_RETVAL_OK, t)"
      and wfv: "machine_wf core_of v" and cv: "same_config s v" by auto
  have ids: "pqos_cpu_get_l3cat_ids (Some (m_cpu s)) = Some (fst ids)"
    using msr_driver.alloc_classes_facts [OF md wf p] l3 by simp
  from l3cat.ids_SomeD [OF ids] i have "i \<in> set (fst ids)" by simp
  with io_driver.switches_facts(2) [OF drv wfv sw refl _ req] l3 show ?thesis
    by (auto simp: same_configD [OF cv] cfg_bit_set_def)
qed

theorem reset_switches_l3cdp_witness:
  "\<exists>core v. pqos_cpu_get_one_by_l3cat_id (Some sample_cpu) 1 = Inr core \<and>
    ref_regs (m_hw (snd (alloc_reset ref_platform (Inr sample_l3ca) (Inl PQOS_RETVAL_ERROR)
      (Some (default_alloc_config\<lparr>cfg_l3_cdp := PQOS_REQUIRE_CDP_ON\<rparr>)) sample_busy))) core PQOS_MSR_L3_QOS_CFG = Some v \<and>
    v AND PQOS_MSR_L3_QOS_CFG_CDP_EN = PQOS_MSR_L3_QOS_CFG_CDP_EN"
proof -
  let ?c = "default_alloc_config\<lparr>cfg_l3_cdp := PQOS_REQUIRE_CDP_ON\<rparr>"
  let ?r = "alloc_reset ref_platform (Inr sample_l3ca) (Inl PQOS_RETVAL_ERROR) (Some ?c) sample_busy"
  have ok: "fst ?r = PQOS_RETVAL_OK" and l3: "cap_l3 (m_cap sample_busy) = Some sample_l3ca"
    and ne: "cores (m_cpu sample_busy) \<noteq> []"
    and req: "cfg_l3_cdp ?c = PQOS_REQUIRE_CDP_ON \<and> \<not> l3_cdp_on sample_l3ca \<or> cfg_l3_cdp ?c = PQOS_REQUIRE_CDP_OFF \<and> l3_cdp_on sample_l3ca"
    and one: "1 \<in> l3cat_id ` set (cores (m_cpu sample_busy))"
    and cpu: "m_cpu sample_busy = sample_cpu" by code_simp+
  from ok have run: "?r = (PQOS_RETVAL_OK, snd ?r)" by (metis prod.collapse)
  from reset_switches_l3cdp [OF refio.io_driver_axioms sample_busy_wf ne run l3 req one] show ?thesis
    by (simp add: cpu)
qed

text \<open>
  Switching L3 I/O RDT on never reaches the channels. \<open>alloc_reset\<close> calls
  \<open>hw_alloc_reset_assoc_channels\<close> (\<open>reset channel assoc - initialize mmio tables\<close>) before
  \<open>_pqos_cap_l3iordt_change\<close>, while the capability table still says that I/O RDT is off, so
  that call does nothing: the part is the register switch followed by the table update.
\<close>

theorem iordt_on_skips_channels:
  assumes drv: "msr_driver E core_of regs" and wf: "machine_wf core_of s"
    and l3: "cap_l3 (m_cap s) = Some l3" and off: "\<not> l3_iordt_on l3"
    and on: "hw_alloc_reset_l3iordt E (m_cpu s) True s = (PQOS_RETVAL_OK, t)"
  shows "hw_alloc_reset_assoc_channels E t = (PQOS_RETVAL_OK, t) \<and>
    switch_l3iordt E PQOS_REQUIRE_IORDT_ON s =
      (Inr PQOS_RETVAL_OK, t\<lparr>m_cap := pqos_cap_l3iordt_change PQOS_REQUIRE_IORDT_ON (m_cap s)\<rparr>)"
proof -
  have cap: "m_cap t = m_cap s" by (rule msr_driver.reset_l3iordt_cap [OF drv wf on])
  have "hw_alloc_reset_assoc_channels E t = (PQOS_RETVAL_OK, t)"
    using l3 off by (auto simp: hw_alloc_reset_assoc_channels_def cap cap_l3_def cap_get_type_or_null_def
        pqos_l3ca_iordt_enabled_def split: sum.splits option.splits)
  with l3 off on show ?thesis by (simp add: switch_l3iordt_def cap)
qed

theorem iordt_on_skips_channels_witness:
  "\<exists>t. hw_alloc_reset_l3iordt ref_platform sample_cpu True sample_iordt = (PQOS_RETVAL_OK, t) \<and>
     hw_alloc_reset_assoc_channels ref_platform t = (PQOS_RETVAL_OK, t) \<and>
     m_cap (snd (switch_l3iordt ref_platform PQOS_REQUIRE_IORDT_ON sample_iordt)) =
       [CapL3ca (sample_l3ca\<lparr>l3_iordt := True, l3_iordt_on := True\<rparr>)]"
proof -
  let ?r = "hw_alloc_reset_l3iordt ref_platform (m_cpu sample_iordt) True sample_iordt"
  have cpu: "m_cpu sample_iordt = sample_cpu" by (simp add: sample_iordt_def)
  have ok: "fst ?r = PQOS_RETVAL_OK" and l3: "cap_l3 (m_cap sample_iordt) = Some (sample_l3ca\<lparr>l3_iordt := True\<rparr>)"
    and off: "\<not> l3_iordt_on (sample_l3ca\<lparr>l3_iordt := True\<rparr>)"
    and chg: "pqos_cap_l3iordt_change PQOS_REQUIRE_IORDT_ON (m_cap sample_iordt) = [CapL3ca (sample_l3ca\<lparr>l3_iordt := True, l3_iordt_on := True\<rparr>)]"
    by code_simp+
  from ok have run: "?r = (PQOS_RETVAL_OK, snd ?r)" by (metis prod.collapse)
  from iordt_on_skips_channels [OF refdrv.msr_driver_axioms sample_iordt_wf l3 off run] run show ?thesis
    by (intro exI [of _ "snd ?r"]) (simp add: cpu chg)
qed

end
