(* ===== verification/ErdtLimit.thy ===== *)
theory ErdtLimit
  imports AllocReset
begin

text \<open>
  The number of L3 classes in the course of a reset: what the rediscovery of the capability (\<open>lib/hw_cap.c\<close>, \<open>lib/cap.c\<close>) makes of it,
  whatever the table said before, and that the later parts of \<open>alloc_reset\<close> leave it alone.
\<close>

section \<open>Discovery\<close>

text \<open>The number of L3 classes that the library advertises.\<close>

abbreviation l3_count :: "'h lib \<Rightarrow> u32 res" where
  "l3_count s \<equiv> pqos_l3ca_get_clos_num (Some (m_cap s))"

text \<open>A processor whose CPUID enumerates L3 CAT with \<open>n\<close> classes, without CDP and I/O RDT.\<close>

definition cpuid_l3_classes :: "'h platform \<Rightarrow> pqos_cpuinfo \<Rightarrow> u32 \<Rightarrow> bool" where
  "cpuid_l3_classes E cpu n \<longleftrightarrow>
     ebx (lcpuid E 7 0) AND push_bit 15 1 \<noteq> 0 \<and> ebx (lcpuid E 0x10 0) AND push_bit 1 1 \<noteq> 0 \<and> edx (lcpuid E 0x10 1) + 1 = n \<and>
     drop_bit 2 (ecx (lcpuid E 0x10 1)) AND 1 = 0 \<and> drop_bit 1 (ecx (lcpuid E 0x10 1)) AND 1 = 0 \<and> detected (cpu_l3 cpu)"

lemma discover_count:
  "cpuid_l3_classes E cpu n \<Longrightarrow> \<exists>cap. hw_cap_l3ca_discover E cpu s = ((PQOS_RETVAL_OK, cap), s) \<and> l3_num_classes cap = n"
  by (auto simp: cpuid_l3_classes_def hw_cap_l3ca_discover_def hw_cap_l3ca_cpuid_def get_cache_info_def Let_def)

lemma l3cdp_change_count:
  assumes "cpuid_l3_classes E (m_cpu s) n" and "m_interface s \<in> {PQOS_INTER_MSR, PQOS_INTER_MMIO}" and "l3_count s = Inr k"
  shows "l3_count (pqos_cap_l3cdp_change E os_l3 cdp s) = Inr n"
proof -
  from discover_count [OF assms(1)] obtain cap where d: "hw_cap_l3ca_discover E (m_cpu s) s = ((PQOS_RETVAL_OK, cap), s)" "l3_num_classes cap = n"
    by blast
  from assms(3) obtain c where c: "pqos_cap_get_type (Some (m_cap s)) PQOS_CAP_TYPE_L3CA = Inr c"
    by (auto simp: pqos_l3ca_get_clos_num_def split: sum.splits)
  from cap_get_type_Inr [OF this] have "\<not> (\<forall>c\<in>set (m_cap s). cap_type c \<noteq> PQOS_CAP_TYPE_L3CA)" by auto
  with d assms(2) have m: "m_cap (pqos_cap_l3cdp_change E os_l3 cdp s) = update_first (\<lambda>c. cap_type c = PQOS_CAP_TYPE_L3CA) (\<lambda>c. CapL3ca cap) (m_cap s)"
    by (auto simp: pqos_cap_l3cdp_change_def)
  have "pqos_cap_get_type (Some (m_cap (pqos_cap_l3cdp_change E os_l3 cdp s))) PQOS_CAP_TYPE_L3CA = Inr (CapL3ca cap)"
    unfolding m by (subst get_type_update_first) (simp_all add: c)
  with d(2) show ?thesis by (simp add: pqos_l3ca_get_clos_num_def)
qed

lemma l3iordt_change_count: "pqos_l3ca_get_clos_num (Some (pqos_cap_l3iordt_change req cap)) = pqos_l3ca_get_clos_num (Some cap)"
  using l3iordt_change_get [of req cap PQOS_CAP_TYPE_L3CA] by (auto simp: pqos_l3ca_get_clos_num_def split: sum.split)

section \<open>The parts of the reset\<close>

context io_driver begin

lemma l2cdp_change_count:
  assumes "machine_wf core_of s"
  shows "l3_count (pqos_cap_l2cdp_change E os_l2 cdp s) = l3_count s"
proof -
  obtain r u where d: "hw_cap_l2ca_discover E (m_cpu s) s = (r, u)" by fastforce
  have u: "m_cap u = m_cap s" using l2ca_discover_frame [OF assms d] by (simp add: same_configD)
  have "m_cap (pqos_cap_l2cdp_change E os_l2 cdp s) = m_cap s \<or>
      (\<exists>x\<in>{r, os_l2, Inl PQOS_RETVAL_RESOURCE}. m_cap (pqos_cap_l2cdp_change E os_l2 cdp s) =
        update_first (\<lambda>c. cap_type c = PQOS_CAP_TYPE_L2CA) (\<lambda>c. CapL2ca (case x of Inl e \<Rightarrow> l2cdp_flip cdp (u_l2ca c) | Inr cap \<Rightarrow> cap)) (m_cap s))"
    unfolding pqos_cap_l2cdp_change_def d by (cases "m_interface s") (simp_all add: u)
  then show ?thesis
  proof (elim disjE bexE)
    fix x
    assume m: "m_cap (pqos_cap_l2cdp_change E os_l2 cdp s) =
      update_first (\<lambda>c. cap_type c = PQOS_CAP_TYPE_L2CA) (\<lambda>c. CapL2ca (case x of Inl e \<Rightarrow> l2cdp_flip cdp (u_l2ca c) | Inr cap \<Rightarrow> cap)) (m_cap s)"
    show ?thesis
      unfolding pqos_l3ca_get_clos_num_def m by (subst get_type_update_first) (simp_all split: sum.split)
  qed simp
qed

lemma switch_l3cdp_count:
  assumes "machine_wf core_of s" and "cpuid_l3_classes E (m_cpu s) n" and "m_interface s \<in> {PQOS_INTER_MSR, PQOS_INTER_MMIO}" and "l3_count s = Inr k"
    and "switch_l3cdp E os_l3 cfg ids s = (Inr (), t)"
  shows "l3_count t = Inr n"
proof -
  have gc: "\<forall>i. pqos_cpu_get_one_by_l3cat_id (Some (m_cpu s)) i \<noteq> Inl PQOS_RETVAL_OK" using get_core_not_OK(1) by blast
  have ch: "l3_count (pqos_cap_l3cdp_change E os_l3 cfg u) = Inr n" if "same_config s u" for u
    by (rule l3cdp_change_count) (use assms(2-4) same_configD [OF that] in auto)
  have st: "same_config s u" if "hw_alloc_reset_l3cdp E ids en s = (r, u)" for en r u
    by (rule cfg_bit_step(2) [OF assms(1) that [unfolded hw_alloc_reset_l3cdp_def] gc])
  from assms(4) have l3: "\<exists>l3. cap_l3 (m_cap s) = Some l3"
    by (auto simp: cap_l3_def cap_get_type_or_null_def pqos_l3ca_get_clos_num_def split: sum.splits)
  obtain r1 u where a: "hw_alloc_reset_l3cdp E ids True s = (r1, u)" by fastforce
  obtain r2 v where b: "hw_alloc_reset_l3cdp E ids False s = (r2, v)" by fastforce
  from l3 assms(5) a b have "t \<in> pqos_cap_l3cdp_change E os_l3 cfg ` {s, u, v}"
    by (auto simp: switch_l3cdp_def split: if_splits)
  then show ?thesis using ch [OF same_config_refl] ch [OF st [OF a]] ch [OF st [OF b]] by blast
qed

lemma switch_l3iordt_count:
  assumes "machine_wf core_of s" and "switch_l3iordt E cfg s = (x, t)"
  shows "l3_count t = l3_count s"
proof -
  obtain r1 u where a: "hw_alloc_reset_l3iordt E (m_cpu s) True s = (r1, u)" by fastforce
  obtain r2 v where b: "hw_alloc_reset_assoc_channels E u = (r2, v)" by fastforce
  obtain r3 w where c: "hw_alloc_reset_l3iordt E (m_cpu s) False s = (r3, w)" by fastforce
  have cap: "m_cap u = m_cap s" "m_cap v = m_cap s" "m_cap w = m_cap s"
    using reset_l3iordt_cap [OF assms(1)] a c assoc_channels_facts [OF _ b] reset_l3iordt_step [OF assms(1) a]
    by (auto simp: reset_step_def same_configD)
  have "\<exists>z\<in>{s, u, v, w}. t = z \<or> t = z\<lparr>m_cap := pqos_cap_l3iordt_change cfg (m_cap z)\<rparr>"
    using assms(2) a b c by (auto simp: switch_l3iordt_def split: option.splits if_splits)
  with cap show ?thesis by (auto simp: l3iordt_change_count)
qed

lemma switch_l2cdp_count:
  assumes "machine_wf core_of s" and "switch_l2cdp E os_l2 cfg ids ret s = (x, t)"
  shows "l3_count t = l3_count s"
proof -
  have gc: "\<forall>i. pqos_cpu_get_one_by_l2id (Some (m_cpu s)) i \<noteq> Inl PQOS_RETVAL_OK" using get_core_not_OK(2) by blast
  let ?d = "pqos_cap_l2cdp_change E os_l2 cfg"
  have st: "l3_count u = l3_count s" "l3_count (?d u) = l3_count s" if "hw_alloc_reset_l2cdp E ids en s = (r, u)" for en r u
    using cfg_bit_step(1,2) [OF assms(1) that [unfolded hw_alloc_reset_l2cdp_def] gc] l2cdp_change_count
    by (simp_all add: reset_step_def same_configD)
  obtain r1 u where a: "hw_alloc_reset_l2cdp E ids True s = (r1, u)" by fastforce
  obtain r2 v where b: "hw_alloc_reset_l2cdp E ids False s = (r2, v)" by fastforce
  have "t \<in> {s, u, v, ?d s, ?d u, ?d v}"
    using assms(2) a b by (auto simp: switch_l2cdp_def split: option.splits if_splits)
  then show ?thesis using st [OF a] st [OF b] l2cdp_change_count [OF assms(1)] by auto
qed

lemma switch_mba40_count:
  assumes "machine_wf core_of s" and "switch_mba40 E cfg ids ret s = (r, t)"
  shows "l3_count t = l3_count s"
proof -
  have a: "m_cap u = m_cap s" if "hw_alloc_reset_mba40 E ids en s = (r, u)" for en r u
    by (rule same_configD, rule cfg_bit_step(2) [OF assms(1) that [unfolded hw_alloc_reset_mba40_def]]) (auto split: sum.splits)
  from assms(2) show ?thesis by (auto simp: switch_mba40_def split: option.splits if_splits dest: a)
qed

lemma switches_count:
  assumes wf: "machine_wf core_of s" and cnt: "cpuid_l3_classes E (m_cpu s) n" "m_interface s \<in> {PQOS_INTER_MSR, PQOS_INTER_MMIO}" "l3_count s = Inr k"
    and run: "alloc_reset_switches E os_l3 os_l2 cfg l3ids l2ids mbaids s = (PQOS_RETVAL_OK, t)"
  shows "l3_count t = Inr n"
proof -
  obtain x1 u1 where p1: "switch_l3cdp E os_l3 (cfg_l3_cdp cfg) l3ids s = (x1, u1)" by fastforce
  have wf1: "machine_wf core_of u1" using switch_l3cdp_step(1) [OF wf p1] by (simp add: reset_step_def)
  obtain x2 u2 where p2: "switch_l3iordt E (cfg_l3_iordt cfg) u1 = (x2, u2)" by fastforce
  have wf2: "machine_wf core_of u2" using switch_l3iordt_step [OF wf1 p2] by (simp add: reset_step_def)
  obtain x3 u3 where p3: "switch_l2cdp E os_l2 (cfg_l2_cdp cfg) l2ids (case x2 of Inl r \<Rightarrow> r | Inr r \<Rightarrow> r) u2 = (x3, u3)" by fastforce
  have wf3: "machine_wf core_of u3" using switch_l2cdp_step [OF wf2 p3] by (simp add: reset_step_def)
  obtain x4 u4 where p4: "switch_mba40 E (cfg_mba40 cfg) mbaids (case x3 of Inl r \<Rightarrow> r | Inr r \<Rightarrow> r) u3 = (x4, u4)" by fastforce
  have x1: "x1 \<noteq> Inl PQOS_RETVAL_OK" using p1 by (auto simp: switch_l3cdp_def split: option.splits if_splits prod.splits)
  with run p1 have "x1 = Inr ()" by (cases x1) (auto simp: alloc_reset_switches_def)
  then have "l3_count u1 = Inr n" using switch_l3cdp_count [OF wf cnt] p1 by blast
  moreover have "t \<in> {u2, u3, u4}"
    using run p1 p2 p3 p4 \<open>x1 = Inr ()\<close> by (auto simp: alloc_reset_switches_def split: sum.splits)
  ultimately show ?thesis
    using switch_l3iordt_count [OF wf1 p2] switch_l2cdp_count [OF wf2 p3] switch_mba40_count [OF wf3 p4] by auto
qed

end

end
