(* ===== verification/CString.thy ===== *)
theory CString
  imports Prelude
begin

text \<open>
  The parts of the C library's string handling that the sources rely on: character
  classes, \<open>strcasecmp\<close>, \<open>strchr\<close>, \<open>strtok_r\<close>, \<open>strtoull\<close>, the \<open>printf\<close> conversions of
  unsigned numbers and the lines that \<open>fgets\<close> delivers. A C string is the list of its
  characters up to the terminating NUL.
\<close>

section \<open>Characters\<close>

definition isspace :: "char \<Rightarrow> bool" where
  "isspace c = (let n = (of_char c :: int) in n = 32 \<or> (9 \<le> n \<and> n \<le> 13))"

definition tolower :: "char \<Rightarrow> char" where
  "tolower c = (let n = (of_char c :: int) in if 65 \<le> n \<and> n \<le> 90 then char_of (n + 32) else c)"

definition strcasecmp0 :: "string \<Rightarrow> string \<Rightarrow> bool" where
  "strcasecmp0 s t \<longleftrightarrow> map tolower s = map tolower t"

text \<open>The value of a digit; letters count from 10 on.\<close>

definition digit_val :: "char \<Rightarrow> int option" where
  "digit_val c =
     (let n = (of_char c :: int)
      in if 48 \<le> n \<and> n \<le> 57 then Some (n - 48)
         else if 97 \<le> n \<and> n \<le> 122 then Some (n - 87)
         else if 65 \<le> n \<and> n \<le> 90 then Some (n - 55)
         else None)"

definition is_digit :: "int \<Rightarrow> char \<Rightarrow> bool" where
  "is_digit base c = (case digit_val c of None \<Rightarrow> False | Some d \<Rightarrow> d < base)"

definition digit_char :: "int \<Rightarrow> char" where
  "digit_char d = char_of (if d < 10 then 48 + d else 87 + d)"

section \<open>Numbers\<close>

fun digits_value :: "int \<Rightarrow> int \<Rightarrow> string \<Rightarrow> int \<times> string" where
  "digits_value base acc [] = (acc, [])"
| "digits_value base acc (c # cs) =
     (if is_digit base c then digits_value base (acc * base + the (digit_val c)) cs else (acc, c # cs))"

text \<open>
  \<open>strtoull\<close>: leading white space, an optional sign, for base 16 an optional \<open>0x\<close> before a
  digit; the result saturates at \<open>ULLONG_MAX\<close>; without digits the end pointer is the
  start of the string.
\<close>

definition strtoull :: "int \<Rightarrow> string \<Rightarrow> u64 \<times> string" where
  "strtoull base s =
     (let t = dropWhile isspace s;
          (neg, t) = (case t of c # cs \<Rightarrow> if c = CHR ''-'' then (True, cs) else if c = CHR ''+'' then (False, cs) else (False, t)
                      | [] \<Rightarrow> (False, t));
          t = (if base = 16 \<and> map tolower (take 2 t) = ''0x'' \<and> (case drop 2 t of c # _ \<Rightarrow> is_digit 16 c | [] \<Rightarrow> False)
               then drop 2 t else t)
      in case t of
           [] \<Rightarrow> (0, s)
         | c # _ \<Rightarrow>
             if \<not> is_digit base c then (0, s)
             else (case digits_value base 0 t of (v, rest) \<Rightarrow>
                     (if 2 ^ 64 \<le> v then - 1 else if neg then - of_int v else of_int v, rest)))"

text \<open>The conversions \<open>%u\<close> (base 10) and \<open>%llx\<close> (base 16) of a number that is not negative.\<close>

function show_num :: "int \<Rightarrow> int \<Rightarrow> string" where
  "show_num base n =
     (if n < base \<or> base < 2 then [digit_char n] else show_num base (n div base) @ [digit_char (n mod base)])"
  by pat_completeness auto

termination
  by (relation "measure (\<lambda>(base, n). nat n)") (auto simp: nat_mono_iff intro!: int_div_less_self)

declare show_num.simps [simp del]

section \<open>Tokens and lines\<close>

fun split_on :: "char \<Rightarrow> string \<Rightarrow> string list" where
  "split_on d [] = [[]]"
| "split_on d (c # cs) =
     (if c = d then [] # split_on d cs
      else (case split_on d cs of [] \<Rightarrow> [[c]] | w # ws \<Rightarrow> (c # w) # ws))"

text \<open>\<open>strtok_r\<close> with one delimiter: the non-empty pieces.\<close>

definition strtok :: "char \<Rightarrow> string \<Rightarrow> string list" where
  "strtok d s = filter (\<lambda>w. w \<noteq> []) (split_on d s)"

text \<open>\<open>strchr\<close> followed by cutting the string there: the part before and the part after.\<close>

definition cut_at :: "char \<Rightarrow> string \<Rightarrow> (string \<times> string) option" where
  "cut_at d s =
     (if d \<in> set s then Some (takeWhile (\<lambda>c. c \<noteq> d) s, tl (dropWhile (\<lambda>c. c \<noteq> d) s)) else None)"

text \<open>
  What successive calls of \<open>fgets\<close> with a buffer of \<open>n + 1\<close> characters deliver: lines with
  their newline, longer ones in pieces of \<open>n\<close> characters. \<open>k\<close> is the room left.
\<close>

fun fgets_lines :: "int \<Rightarrow> int \<Rightarrow> string \<Rightarrow> string \<Rightarrow> string list" where
  "fgets_lines n k acc [] = (if acc = [] then [] else [rev acc])"
| "fgets_lines n k acc (c # cs) =
     (if c = CHR 0x0A \<or> k \<le> 1 then rev (c # acc) # fgets_lines n n [] cs
      else fgets_lines n (k - 1) (c # acc) cs)"

definition c_str :: "string \<Rightarrow> string" where
  "c_str s = takeWhile (\<lambda>c. c \<noteq> CHR 0x00) s"

section \<open>Facts\<close>

lemma digit_char_val: "0 \<le> d \<Longrightarrow> d < 16 \<Longrightarrow> digit_val (digit_char d) = Some d"
  by (auto simp: digit_val_def digit_char_def Let_def)

lemma is_digit_char: "0 \<le> d \<Longrightarrow> d < base \<Longrightarrow> base \<le> 16 \<Longrightarrow> is_digit base (digit_char d)"
  by (simp add: is_digit_def digit_char_val)

lemma show_num_digits: "0 \<le> n \<Longrightarrow> 2 \<le> base \<Longrightarrow> base \<le> 16 \<Longrightarrow> \<forall>c\<in>set (show_num base n). is_digit base c"
proof (induction base n rule: show_num.induct)
  case (1 base n)
  show ?case
  proof (cases "n < base")
    case True
    with 1 show ?thesis by (subst show_num.simps) (simp add: is_digit_char)
  next
    case False
    with 1 have "\<forall>c\<in>set (show_num base (n div base)). is_digit base c" by (simp add: pos_imp_zdiv_nonneg_iff)
    with False 1 show ?thesis by (subst show_num.simps) (auto simp: is_digit_char)
  qed
qed

lemma show_num_length:
  "0 \<le> n \<Longrightarrow> n < base ^ Suc k \<Longrightarrow> 2 \<le> base \<Longrightarrow> length (show_num base n) \<le> Suc k"
proof (induction k arbitrary: n)
  case 0
  then show ?case by (subst show_num.simps) simp
next
  case (Suc k)
  show ?case
  proof (cases "n < base")
    case True
    then show ?thesis by (subst show_num.simps) simp
  next
    case False
    have "\<not> base ^ Suc k \<le> n div base"
    proof
      assume "base ^ Suc k \<le> n div base"
      then have "base ^ Suc k * base \<le> n div base * base" using Suc.prems(3) by (intro mult_right_mono) simp_all
      also have "\<dots> \<le> n" using Suc.prems(3) by (simp add: minus_mod_eq_div_mult [symmetric])
      finally show False using Suc.prems(2) by (simp add: mult.commute)
    qed
    with Suc.IH [of "n div base"] Suc.prems have "length (show_num base (n div base)) \<le> Suc k" by (simp add: pos_imp_zdiv_nonneg_iff)
    with False Suc.prems show ?thesis by (subst show_num.simps) simp
  qed
qed

lemma show_num_ne [simp]: "show_num base n \<noteq> []"
  by (subst show_num.simps) simp

lemma digits_value_append:
  "\<forall>c\<in>set xs. is_digit base c \<Longrightarrow> digits_value base acc (xs @ ys) = digits_value base (fst (digits_value base acc xs)) ys"
  by (induction xs arbitrary: acc) auto

lemma digits_value_show:
  "0 \<le> n \<Longrightarrow> 2 \<le> base \<Longrightarrow> base \<le> 16 \<Longrightarrow> fst (digits_value base 0 (show_num base n)) = n"
proof (induction base n rule: show_num.induct)
  case (1 base n)
  show ?case
  proof (cases "n < base")
    case True
    with 1 show ?thesis by (subst show_num.simps) (simp add: is_digit_char digit_char_val)
  next
    case False
    from False 1 have ih: "fst (digits_value base 0 (show_num base (n div base))) = n div base" and nn: "0 \<le> n div base"
      by (simp_all add: pos_imp_zdiv_nonneg_iff)
    have "digits_value base 0 (show_num base (n div base) @ [digit_char (n mod base)])
        = digits_value base (n div base) [digit_char (n mod base)]"
      using ih digits_value_append [OF show_num_digits [OF nn 1(3,4)]] by simp
    with False 1(3,4) show ?thesis
      by (subst show_num.simps) (simp add: is_digit_char digit_char_val order.strict_trans2 [OF pos_mod_bound])
  qed
qed

lemma digits_value_shown:
  assumes "0 \<le> n" "2 \<le> base" "base \<le> 16" and "case rest of [] \<Rightarrow> True | c # _ \<Rightarrow> \<not> is_digit base c"
  shows "digits_value base 0 (show_num base n @ rest) = (n, rest)"
  using assms(4) by (auto simp: digits_value_append [OF show_num_digits [OF assms(1-3)]] digits_value_show [OF assms(1-3)] split: list.splits)

lemma is_digit_facts:
  assumes "is_digit base c" "base \<le> 16"
  shows "\<not> isspace c" and "c \<noteq> CHR ''-''" and "c \<noteq> CHR ''+''" and "c \<noteq> CHR '';''" and "c \<noteq> CHR ''=''"
    and "c \<noteq> CHR '':''" and "c \<noteq> CHR 0x0A" and "c \<noteq> CHR 0x00"
  using assms by (auto simp: is_digit_def digit_val_def isspace_def Let_def split: if_splits)

lemma is_digit_not_x:
  assumes "is_digit base c" "base \<le> 16"
  shows "tolower c \<noteq> CHR ''x''"
proof
  assume "tolower c = CHR ''x''"
  then have "(of_char (tolower c) :: int) = 120" by simp
  with assms show False
    by (auto simp: is_digit_def digit_val_def tolower_def Let_def of_char_of split: if_splits)
qed

lemma digits_no_prefix:
  assumes "\<forall>c\<in>set t. is_digit base c" "base \<le> 16" and "\<forall>c\<in>set r. tolower c \<noteq> CHR ''x''"
  shows "map tolower (take 2 (t @ r)) \<noteq> ''0x''"
proof
  assume a: "map tolower (take 2 (t @ r)) = ''0x''"
  then obtain c d cs where e: "t @ r = c # d # cs" and d: "tolower d = CHR ''x''"
    by (cases "t @ r"; cases "tl (t @ r)") auto
  from e have "d \<in> set (t @ r)" by simp
  with d assms is_digit_not_x [of base d] show False by auto
qed

lemma strtoull_show:
  assumes "base = 10 \<or> base = 16" and "0 \<le> n" and "n < 2 ^ 64" and "r = [] \<or> r = [CHR 0x0A]"
  shows "strtoull base (show_num base n @ r) = (of_int n, r)"
proof -
  have b: "2 \<le> base" "base \<le> 16" using assms(1) by auto
  note dg = show_num_digits [OF assms(2) b]
  obtain c cs where s: "show_num base n = c # cs" by (cases "show_num base n") simp_all
  with dg have c: "is_digit base c" by simp
  note cf = is_digit_facts [OF c b(2)]
  have np: "map tolower (take 2 (show_num base n @ r)) \<noteq> ''0x''"
    using assms(4) by (intro digits_no_prefix [OF dg b(2)]) (auto simp: tolower_def)
  have dv: "digits_value base 0 (show_num base n @ r) = (n, r)"
    using assms(1,4) by (intro digits_value_shown [OF assms(2) b]) (auto simp: is_digit_def digit_val_def)
  define t where "t = show_num base n @ r"
  have 1: "dropWhile isspace t = t" using cf(1) by (simp add: t_def s)
  have 2: "(case t of c # cs \<Rightarrow> if c = CHR ''-'' then (True, cs) else if c = CHR ''+'' then (False, cs) else (False, t)
      | [] \<Rightarrow> (False, t)) = (False, t)" using cf(2,3) by (simp add: t_def s)
  have 3: "(case t of [] \<Rightarrow> (0, t) | c # _ \<Rightarrow> if \<not> is_digit base c then (0, t) else f) = f" for f :: "u64 \<times> string"
    using c by (simp add: t_def s)
  have "strtoull base t = (of_int n, r)"
    using np dv assms(3) unfolding strtoull_def 1 2 Let_def prod.case t_def [symmetric] by (simp add: 3)
  then show ?thesis by (simp add: t_def)
qed

lemma split_on_plain: "d \<notin> set w \<Longrightarrow> split_on d w = [w]"
  by (induction w) auto

lemma split_on_first: "d \<notin> set w \<Longrightarrow> split_on d (w @ d # r) = w # split_on d r"
  by (induction w) auto

lemma cut_at_first: "d \<notin> set a \<Longrightarrow> cut_at d (a @ d # b) = Some (a, b)"
  by (auto simp: cut_at_def takeWhile_append dropWhile_append takeWhile_eq_all_conv)

lemma fgets_line:
  "CHR 0x0A \<notin> set b \<Longrightarrow> int (length b) < k \<Longrightarrow>
     fgets_lines n k acc (b @ CHR 0x0A # r) = (rev acc @ b @ [CHR 0x0A]) # fgets_lines n n [] r"
  by (induction b arbitrary: k acc) auto

lemma c_str_plain: "CHR 0x00 \<notin> set s \<Longrightarrow> c_str s = s"
  by (auto simp: c_str_def takeWhile_eq_all_conv)

end
