(* ===== verification/Schemata.thy ===== *)
theory Schemata
  imports CString Topology Capability Machine
begin

text \<open>
  The schemata files of the resctrl file system (\<open>lib/resctrl_schemata.c\<close> and
  \<open>resctrl_utils_strtouint64\<close> of \<open>lib/resctrl_utils.c\<close>): the table of class definitions per
  resource id, its textual form and the parser of that form.
\<close>

section \<open>The table\<close>

text \<open>
  An array is \<open>None\<close> when it is NULL, that is when the technology is absent; then the id
  list is empty as well.
\<close>

record resctrl_schemata =
  sch_l3ids :: "u32 list"
  sch_l3ca :: "pqos_ca list option"
  sch_mbaids :: "u32 list"
  sch_mba :: "pqos_mba list option"
  sch_smbaids :: "u32 list"
  sch_smba :: "pqos_mba list option"
  sch_l2ids :: "u32 list"
  sch_l2ca :: "pqos_ca list option"

definition zero_ca :: pqos_ca where
  "zero_ca = \<lparr>ca_class_id = 0, ca_cdp = False, ca_word0 = 0, ca_word1 = 0\<rparr>"

definition zero_mba :: pqos_mba where
  "zero_mba = \<lparr>mb_class_id = 0, mb_max = 0, mb_ctrl = False, mb_smba = False\<rparr>"

definition resctrl_schemata_alloc :: "pqos_cap option \<Rightarrow> pqos_cpuinfo option \<Rightarrow> resctrl_schemata option" where
  "resctrl_schemata_alloc cap cpu =
     (let s = \<lparr>sch_l3ids = [], sch_l3ca = None, sch_mbaids = [], sch_mba = None,
               sch_smbaids = [], sch_smba = None, sch_l2ids = [], sch_l2ca = None\<rparr>
      in case (case pqos_cap_get_type cap PQOS_CAP_TYPE_L2CA of
                 Inl _ \<Rightarrow> Some s
               | Inr _ \<Rightarrow> map_option (\<lambda>ids. s\<lparr>sch_l2ids := ids, sch_l2ca := Some (replicate (length ids) zero_ca)\<rparr>)
                            (pqos_cpu_get_l2ids cpu)) of None \<Rightarrow> None | Some s \<Rightarrow>
         (case (case pqos_cap_get_type cap PQOS_CAP_TYPE_L3CA of
                  Inl _ \<Rightarrow> Some s
                | Inr _ \<Rightarrow> map_option (\<lambda>ids. s\<lparr>sch_l3ids := ids, sch_l3ca := Some (replicate (length ids) zero_ca)\<rparr>)
                             (pqos_cpu_get_l3cat_ids cpu)) of None \<Rightarrow> None | Some s \<Rightarrow>
         (case (case pqos_cap_get_type cap PQOS_CAP_TYPE_MBA of
                  Inl _ \<Rightarrow> Some s
                | Inr _ \<Rightarrow> (case pqos_cpu_get_mba_ids cpu of None \<Rightarrow> None | Some ids \<Rightarrow>
                             (case pqos_mba_ctrl_enabled cap False True of
                                Inl _ \<Rightarrow> None
                              | Inr (_, ctrl_enabled) \<Rightarrow>
                                  Some (s\<lparr>sch_mbaids := ids,
                                          sch_mba := Some (replicate (length ids) (zero_mba\<lparr>mb_ctrl := ctrl_enabled\<rparr>))\<rparr>)))) of
            None \<Rightarrow> None | Some s \<Rightarrow>
         (case pqos_cap_get_type cap PQOS_CAP_TYPE_SMBA of
            Inl _ \<Rightarrow> Some s
          | Inr _ \<Rightarrow> map_option (\<lambda>ids. s\<lparr>sch_smbaids := ids, sch_smba := Some (replicate (length ids) (zero_mba\<lparr>mb_smba := True\<rparr>))\<rparr>)
                       (pqos_cpu_get_smba_ids cpu)))))"

section \<open>Reset\<close>

definition reset_ca :: "bool \<Rightarrow> u64 \<Rightarrow> pqos_ca \<Rightarrow> pqos_ca" where
  "reset_ca cdp_on m ca =
     (if cdp_on then ca\<lparr>ca_cdp := True, ca_word1 := m, ca_word0 := m\<rparr> else ca\<lparr>ca_cdp := False, ca_word0 := m\<rparr>)"

text \<open>The value for all bandwidth; the controller counts in steps.\<close>

definition default_bw :: "cpuinfo_config \<Rightarrow> pqos_cap_mba \<Rightarrow> u32" where
  "default_bw vconfig mba = (if mba_ctrl_on mba then (- 1) - (- 1) mod mba_throttle_step mba else mba_max vconfig)"

text \<open>
  A loop over the first \<open>n\<close> elements of an array; \<open>None\<close> when the array is shorter, where
  the C code writes out of bounds.
\<close>

definition map_first :: "nat \<Rightarrow> ('a \<Rightarrow> 'a) \<Rightarrow> 'a list option \<Rightarrow> 'a list option option" where
  "map_first n f tab =
     (case tab of
        None \<Rightarrow> if n = 0 then Some None else None
      | Some xs \<Rightarrow> if length xs < n then None else Some (Some (map f (take n xs) @ drop n xs)))"

text \<open>The loop of the SMBA part is bounded by the number of MBA ids.\<close>

definition resctrl_schemata_reset ::
  "cpuinfo_config \<Rightarrow> pqos_cap_l3ca option \<Rightarrow> pqos_cap_l2ca option \<Rightarrow> pqos_cap_mba option \<Rightarrow> pqos_cap_mba option
    \<Rightarrow> resctrl_schemata \<Rightarrow> resctrl_schemata option" where
  "resctrl_schemata_reset vconfig l3 l2 mba smba s =
     (case (case l3 of None \<Rightarrow> Some s
            | Some c \<Rightarrow> map_option (\<lambda>t. s\<lparr>sch_l3ca := t\<rparr>)
                (map_first (length (sch_l3ids s)) (reset_ca (l3_cdp_on c) (push_bit (unat (l3_num_ways c)) 1 - 1)) (sch_l3ca s))) of
        None \<Rightarrow> None | Some s \<Rightarrow>
      (case (case l2 of None \<Rightarrow> Some s
             | Some c \<Rightarrow> map_option (\<lambda>t. s\<lparr>sch_l2ca := t\<rparr>)
                 (map_first (length (sch_l2ids s)) (reset_ca (l2_cdp_on c) (push_bit (unat (l2_num_ways c)) 1 - 1)) (sch_l2ca s))) of
         None \<Rightarrow> None | Some s \<Rightarrow>
      (case (case mba of None \<Rightarrow> Some s
             | Some c \<Rightarrow> map_option (\<lambda>t. s\<lparr>sch_mba := t\<rparr>)
                 (map_first (length (sch_mbaids s)) (\<lambda>m. m\<lparr>mb_max := default_bw vconfig c\<rparr>) (sch_mba s))) of
         None \<Rightarrow> None | Some s \<Rightarrow>
      (case smba of None \<Rightarrow> Some s
       | Some c \<Rightarrow> map_option (\<lambda>t. s\<lparr>sch_smba := t\<rparr>)
           (map_first (length (sch_mbaids s)) (\<lambda>m. m\<lparr>mb_max := default_bw vconfig c, mb_smba := True\<rparr>) (sch_smba s))))))"

section \<open>Access by resource id\<close>

text \<open>The search loops \<open>get_l2_index\<close>, ...; \<open>None\<close> is the answer -1.\<close>

fun id_index :: "u32 \<Rightarrow> u32 list \<Rightarrow> nat option" where
  "id_index i [] = None"
| "id_index i (j # js) = (if j = i then Some 0 else map_option Suc (id_index i js))"

definition get_l2_index :: "resctrl_schemata \<Rightarrow> u32 \<Rightarrow> nat option" where
  "get_l2_index s i = id_index i (sch_l2ids s)"

definition get_l3_index :: "resctrl_schemata \<Rightarrow> u32 \<Rightarrow> nat option" where
  "get_l3_index s i = id_index i (sch_l3ids s)"

definition get_mba_index :: "resctrl_schemata \<Rightarrow> u32 \<Rightarrow> nat option" where
  "get_mba_index s i = id_index i (sch_mbaids s)"

definition get_smba_index :: "resctrl_schemata \<Rightarrow> u32 \<Rightarrow> nat option" where
  "get_smba_index s i = id_index i (sch_smbaids s)"

definition entry_at :: "'e list option \<Rightarrow> nat option \<Rightarrow> 'e res" where
  "entry_at tab j = (case (j, tab) of (Some j, Some t) \<Rightarrow> Inr (t ! j) | _ \<Rightarrow> Inl PQOS_RETVAL_ERROR)"

definition resctrl_schemata_l2ca_get :: "resctrl_schemata \<Rightarrow> u32 \<Rightarrow> pqos_ca res" where
  "resctrl_schemata_l2ca_get s i = entry_at (sch_l2ca s) (get_l2_index s i)"

definition resctrl_schemata_l2ca_set :: "resctrl_schemata \<Rightarrow> u32 \<Rightarrow> pqos_ca \<Rightarrow> retval \<times> resctrl_schemata" where
  "resctrl_schemata_l2ca_set s i ca =
     (case get_l2_index s i of None \<Rightarrow> (PQOS_RETVAL_ERROR, s)
      | Some j \<Rightarrow> (PQOS_RETVAL_OK, s\<lparr>sch_l2ca := map_option (\<lambda>t. t[j := ca]) (sch_l2ca s)\<rparr>))"

definition resctrl_schemata_l3ca_get :: "resctrl_schemata \<Rightarrow> u32 \<Rightarrow> pqos_ca res" where
  "resctrl_schemata_l3ca_get s i = entry_at (sch_l3ca s) (get_l3_index s i)"

definition resctrl_schemata_l3ca_set :: "resctrl_schemata \<Rightarrow> u32 \<Rightarrow> pqos_ca \<Rightarrow> retval \<times> resctrl_schemata" where
  "resctrl_schemata_l3ca_set s i ca =
     (case get_l3_index s i of None \<Rightarrow> (PQOS_RETVAL_ERROR, s)
      | Some j \<Rightarrow> (PQOS_RETVAL_OK, s\<lparr>sch_l3ca := map_option (\<lambda>t. t[j := ca]) (sch_l3ca s)\<rparr>))"

definition resctrl_schemata_mba_get :: "resctrl_schemata \<Rightarrow> u32 \<Rightarrow> pqos_mba res" where
  "resctrl_schemata_mba_get s i = entry_at (sch_mba s) (get_mba_index s i)"

definition resctrl_schemata_mba_set :: "resctrl_schemata \<Rightarrow> u32 \<Rightarrow> pqos_mba \<Rightarrow> retval \<times> resctrl_schemata" where
  "resctrl_schemata_mba_set s i ca =
     (case get_mba_index s i of None \<Rightarrow> (PQOS_RETVAL_ERROR, s)
      | Some j \<Rightarrow> (PQOS_RETVAL_OK, s\<lparr>sch_mba := map_option (\<lambda>t. t[j := ca]) (sch_mba s)\<rparr>))"

definition resctrl_schemata_smba_get :: "resctrl_schemata \<Rightarrow> u32 \<Rightarrow> pqos_mba res" where
  "resctrl_schemata_smba_get s i = entry_at (sch_smba s) (get_smba_index s i)"

definition resctrl_schemata_smba_set :: "resctrl_schemata \<Rightarrow> u32 \<Rightarrow> pqos_mba \<Rightarrow> retval \<times> resctrl_schemata" where
  "resctrl_schemata_smba_set s i ca =
     (case get_smba_index s i of None \<Rightarrow> (PQOS_RETVAL_ERROR, s)
      | Some j \<Rightarrow> (PQOS_RETVAL_OK, s\<lparr>sch_smba := map_option (\<lambda>t. t[j := ca]) (sch_smba s)\<rparr>))"

section \<open>Parsing\<close>

definition resctrl_utils_strtouint64 :: "string \<Rightarrow> int \<Rightarrow> u64 res" where
  "resctrl_utils_strtouint64 s base =
     (let (base, s) = (if strcasecmp0 (take 2 s) ''0x'' then (16, drop 2 s) else (base, s))
      in case strtoull base s of (val, endptr) \<Rightarrow>
           if s \<noteq> [] \<and> (case endptr of [] \<Rightarrow> True | c # _ \<Rightarrow> c = CHR 0x0A) then Inr val else Inl PQOS_RETVAL_ERROR)"

datatype resctrl_schemata_type =
    RESCTRL_SCHEMATA_TYPE_NONE | RESCTRL_SCHEMATA_TYPE_L2 | RESCTRL_SCHEMATA_TYPE_L2CODE
  | RESCTRL_SCHEMATA_TYPE_L2DATA | RESCTRL_SCHEMATA_TYPE_L3 | RESCTRL_SCHEMATA_TYPE_L3CODE
  | RESCTRL_SCHEMATA_TYPE_L3DATA | RESCTRL_SCHEMATA_TYPE_MB | RESCTRL_SCHEMATA_TYPE_SMBA

definition resctrl_schemata_type_get :: "string \<Rightarrow> resctrl_schemata_type" where
  "resctrl_schemata_type_get str =
     (if strcasecmp0 str ''L2'' then RESCTRL_SCHEMATA_TYPE_L2
      else if strcasecmp0 str ''L2CODE'' then RESCTRL_SCHEMATA_TYPE_L2CODE
      else if strcasecmp0 str ''L2DATA'' then RESCTRL_SCHEMATA_TYPE_L2DATA
      else if strcasecmp0 str ''L3'' then RESCTRL_SCHEMATA_TYPE_L3
      else if strcasecmp0 str ''L3CODE'' then RESCTRL_SCHEMATA_TYPE_L3CODE
      else if strcasecmp0 str ''L3DATA'' then RESCTRL_SCHEMATA_TYPE_L3DATA
      else if strcasecmp0 str ''MB'' then RESCTRL_SCHEMATA_TYPE_MB
      else if strcasecmp0 str ''SMBA'' then RESCTRL_SCHEMATA_TYPE_SMBA
      else RESCTRL_SCHEMATA_TYPE_NONE)"

text \<open>The two switches of \<open>resctrl_schemata_set\<close>: the index, and the member to change.\<close>

fun type_index :: "resctrl_schemata_type \<Rightarrow> resctrl_schemata \<Rightarrow> u32 \<Rightarrow> nat option" where
  "type_index RESCTRL_SCHEMATA_TYPE_NONE s i = None"
| "type_index RESCTRL_SCHEMATA_TYPE_L2 s i = get_l2_index s i"
| "type_index RESCTRL_SCHEMATA_TYPE_L2CODE s i = get_l2_index s i"
| "type_index RESCTRL_SCHEMATA_TYPE_L2DATA s i = get_l2_index s i"
| "type_index RESCTRL_SCHEMATA_TYPE_L3 s i = get_l3_index s i"
| "type_index RESCTRL_SCHEMATA_TYPE_L3CODE s i = get_l3_index s i"
| "type_index RESCTRL_SCHEMATA_TYPE_L3DATA s i = get_l3_index s i"
| "type_index RESCTRL_SCHEMATA_TYPE_MB s i = get_mba_index s i"
| "type_index RESCTRL_SCHEMATA_TYPE_SMBA s i = get_smba_index s i"

definition put_ways :: "u64 \<Rightarrow> pqos_ca \<Rightarrow> pqos_ca" where
  "put_ways v ca = ca\<lparr>ca_cdp := False, ca_word0 := v\<rparr>"

definition put_code :: "u64 \<Rightarrow> pqos_ca \<Rightarrow> pqos_ca" where
  "put_code v ca = ca\<lparr>ca_cdp := True, ca_word1 := v\<rparr>"

definition put_data :: "u64 \<Rightarrow> pqos_ca \<Rightarrow> pqos_ca" where
  "put_data v ca = ca\<lparr>ca_cdp := True, ca_word0 := v\<rparr>"

definition put_bw :: "u64 \<Rightarrow> pqos_mba \<Rightarrow> pqos_mba" where
  "put_bw v m = m\<lparr>mb_max := ucast v\<rparr>"

definition at_index :: "('e \<Rightarrow> 'e) \<Rightarrow> nat \<Rightarrow> 'e list option \<Rightarrow> 'e list option" where
  "at_index f j tab = map_option (\<lambda>t. t[j := f (t ! j)]) tab"

fun type_update :: "resctrl_schemata_type \<Rightarrow> nat \<Rightarrow> u64 \<Rightarrow> resctrl_schemata \<Rightarrow> resctrl_schemata" where
  "type_update RESCTRL_SCHEMATA_TYPE_NONE j v s = s"
| "type_update RESCTRL_SCHEMATA_TYPE_L2 j v s = s\<lparr>sch_l2ca := at_index (put_ways v) j (sch_l2ca s)\<rparr>"
| "type_update RESCTRL_SCHEMATA_TYPE_L2CODE j v s = s\<lparr>sch_l2ca := at_index (put_code v) j (sch_l2ca s)\<rparr>"
| "type_update RESCTRL_SCHEMATA_TYPE_L2DATA j v s = s\<lparr>sch_l2ca := at_index (put_data v) j (sch_l2ca s)\<rparr>"
| "type_update RESCTRL_SCHEMATA_TYPE_L3 j v s = s\<lparr>sch_l3ca := at_index (put_ways v) j (sch_l3ca s)\<rparr>"
| "type_update RESCTRL_SCHEMATA_TYPE_L3CODE j v s = s\<lparr>sch_l3ca := at_index (put_code v) j (sch_l3ca s)\<rparr>"
| "type_update RESCTRL_SCHEMATA_TYPE_L3DATA j v s = s\<lparr>sch_l3ca := at_index (put_data v) j (sch_l3ca s)\<rparr>"
| "type_update RESCTRL_SCHEMATA_TYPE_MB j v s = s\<lparr>sch_mba := at_index (put_bw v) j (sch_mba s)\<rparr>"
| "type_update RESCTRL_SCHEMATA_TYPE_SMBA j v s = s\<lparr>sch_smba := at_index (put_bw v) j (sch_smba s)\<rparr>"

definition resctrl_schemata_set :: "u32 \<Rightarrow> u64 \<Rightarrow> resctrl_schemata_type \<Rightarrow> resctrl_schemata \<Rightarrow> retval \<times> resctrl_schemata" where
  "resctrl_schemata_set res_id val ty s =
     (case type_index ty s res_id of
        None \<Rightarrow> (PQOS_RETVAL_ERROR, s)
      | Some j \<Rightarrow> (PQOS_RETVAL_OK, type_update ty j val s))"

definition type_base :: "resctrl_schemata_type \<Rightarrow> int" where
  "type_base ty = (if ty = RESCTRL_SCHEMATA_TYPE_MB \<or> ty = RESCTRL_SCHEMATA_TYPE_SMBA then 10 else 16)"

text \<open>The loop over the tokens of a line; the id is cut to \<open>unsigned\<close> by the call.\<close>

fun read_tokens :: "resctrl_schemata_type \<Rightarrow> string list \<Rightarrow> resctrl_schemata \<Rightarrow> retval \<times> resctrl_schemata" where
  "read_tokens ty [] s = (PQOS_RETVAL_OK, s)"
| "read_tokens ty (token # ts) s =
     (case cut_at (CHR ''='') token of
        None \<Rightarrow> (PQOS_RETVAL_ERROR, s)
      | Some (key, v) \<Rightarrow>
          (case resctrl_utils_strtouint64 key 10 of Inl e \<Rightarrow> (e, s) | Inr i \<Rightarrow>
             (case resctrl_utils_strtouint64 v (type_base ty) of Inl e \<Rightarrow> (e, s) | Inr val \<Rightarrow>
                (case resctrl_schemata_set (ucast i) val ty s of (ret, s) \<Rightarrow>
                   if ret \<noteq> PQOS_RETVAL_OK then (ret, s) else read_tokens ty ts s))))"

fun read_lines :: "string list \<Rightarrow> resctrl_schemata \<Rightarrow> retval \<times> resctrl_schemata" where
  "read_lines [] s = (PQOS_RETVAL_OK, s)"
| "read_lines (buf # ls) s =
     (case cut_at (CHR '':'') (dropWhile isspace (c_str buf)) of
        None \<Rightarrow> (PQOS_RETVAL_ERROR, s)
      | Some (label, p) \<Rightarrow>
          (let ty = resctrl_schemata_type_get label
           in if ty = RESCTRL_SCHEMATA_TYPE_NONE then read_lines ls s
              else (case read_tokens ty (strtok (CHR '';'') p) s of (ret, s) \<Rightarrow>
                      if ret \<noteq> PQOS_RETVAL_OK then (ret, s) else read_lines ls s)))"

text \<open>The argument is the content of the file; the buffer has 16 KB.\<close>

definition resctrl_schemata_read :: "string \<Rightarrow> resctrl_schemata \<Rightarrow> retval \<times> resctrl_schemata" where
  "resctrl_schemata_read file s = read_lines (fgets_lines 16383 16383 [] file) s"

section \<open>Printing\<close>

definition id_entry :: "int \<Rightarrow> u32 \<times> u64 \<Rightarrow> string" where
  "id_entry base e = show_num 10 (uint (fst e)) @ ''='' @ show_num base (uint (snd e))"

text \<open>The separator is printed before every entry but the first.\<close>

fun join_entries :: "string list \<Rightarrow> string" where
  "join_entries [] = []"
| "join_entries [e] = e"
| "join_entries (e # es) = e @ '';'' @ join_entries es"

definition schemata_line :: "string \<Rightarrow> int \<Rightarrow> (u32 \<times> u64) list \<Rightarrow> string" where
  "schemata_line label base es = label @ '':'' @ join_entries (map (id_entry base) es) @ [CHR 0x0A]"

text \<open>The code looks at the first entry of the array, which exists on a machine with cores.\<close>

definition ca_lines :: "string \<Rightarrow> u32 list \<Rightarrow> pqos_ca list option \<Rightarrow> string" where
  "ca_lines label ids tab =
     (case tab of
        None \<Rightarrow> []
      | Some t \<Rightarrow>
          (if \<not> ca_cdp (hd t) then schemata_line label 16 (zip ids (map ways_mask t)) else []) @
          (if ca_cdp (hd t)
           then schemata_line (label @ ''CODE'') 16 (zip ids (map code_mask t)) @
                schemata_line (label @ ''DATA'') 16 (zip ids (map data_mask t))
           else []))"

definition resctrl_schemata_l3ca_write :: "resctrl_schemata \<Rightarrow> string" where
  "resctrl_schemata_l3ca_write s = ca_lines ''L3'' (sch_l3ids s) (sch_l3ca s)"

definition resctrl_schemata_l2ca_write :: "resctrl_schemata \<Rightarrow> string" where
  "resctrl_schemata_l2ca_write s = ca_lines ''L2'' (sch_l2ids s) (sch_l2ca s)"

text \<open>An entry with the value \<open>UINT32_MAX\<close> is left out.\<close>

definition resctrl_schemata_mba_write :: "resctrl_schemata \<Rightarrow> string" where
  "resctrl_schemata_mba_write s =
     (case sch_mba s of
        None \<Rightarrow> []
      | Some t \<Rightarrow> schemata_line ''MB'' 10
                   (map (\<lambda>(i, v). (i, ucast v)) (filter (\<lambda>(i, v). v \<noteq> - 1) (zip (sch_mbaids s) (map mb_max t)))))"

definition resctrl_schemata_smba_write :: "resctrl_schemata \<Rightarrow> string" where
  "resctrl_schemata_smba_write s =
     (case sch_smba s of
        None \<Rightarrow> []
      | Some t \<Rightarrow> schemata_line ''SMBA'' 10 (zip (sch_smbaids s) (map (\<lambda>m. ucast (mb_max m)) t)))"

definition resctrl_schemata_write :: "resctrl_schemata \<Rightarrow> string" where
  "resctrl_schemata_write s =
     resctrl_schemata_l2ca_write s @ resctrl_schemata_l3ca_write s @ resctrl_schemata_mba_write s @ resctrl_schemata_smba_write s"

section \<open>A line is read back\<close>

lemma strtouint64_shown:
  assumes "base = 10 \<or> base = 16" and "0 \<le> n" and "n < 2 ^ 64" and "r = [] \<or> r = [CHR 0x0A]"
  shows "resctrl_utils_strtouint64 (show_num base n @ r) base = Inr (of_int n)"
proof -
  have b: "2 \<le> base" "base \<le> 16" using assms(1) by auto
  have "map tolower (take 2 (show_num base n @ r)) \<noteq> ''0x''"
    using assms(4) by (intro digits_no_prefix [OF show_num_digits [OF assms(2) b] b(2)]) (auto simp: tolower_def)
  then have "\<not> strcasecmp0 (take 2 (show_num base n @ r)) ''0x''"
    by (simp add: strcasecmp0_def tolower_def)
  with strtoull_show [OF assms] assms(4) show ?thesis
    by (auto simp: resctrl_utils_strtouint64_def)
qed

lemma id_entry_chars:
  assumes "base = 10 \<or> base = 16" and "c \<in> set (id_entry base e)"
  shows "c \<noteq> CHR '';''" and "c \<noteq> CHR 0x0A" and "c \<noteq> CHR 0x00"
proof -
  have b: "2 \<le> base" "base \<le> 16" using assms(1) by auto
  have d: "c \<noteq> CHR '';'' \<and> c \<noteq> CHR 0x0A \<and> c \<noteq> CHR 0x00" if "is_digit k c" "k \<le> 16" for k
    using is_digit_facts [OF that] by blast
  have "c \<in> set (show_num 10 (uint (fst e))) \<or> c = CHR ''='' \<or> c \<in> set (show_num base (uint (snd e)))"
    using assms(2) by (auto simp: id_entry_def)
  then have "c \<noteq> CHR '';'' \<and> c \<noteq> CHR 0x0A \<and> c \<noteq> CHR 0x00"
  proof (elim disjE)
    assume "c \<in> set (show_num 10 (uint (fst e)))"
    with show_num_digits [of "uint (fst e)" 10] show ?thesis by (intro d [of 10]) auto
  next
    assume "c \<in> set (show_num base (uint (snd e)))"
    with show_num_digits [OF _ b, of "uint (snd e)"] b show ?thesis by (intro d [of base]) auto
  qed simp
  then show "c \<noteq> CHR '';''" "c \<noteq> CHR 0x0A" "c \<noteq> CHR 0x00" by auto
qed

text \<open>The tokens of a printed line: the entries, the last one with the newline.\<close>

fun seal :: "string list \<Rightarrow> string \<Rightarrow> string list" where
  "seal [] r = []"
| "seal [e] r = [e @ r]"
| "seal (e # es) r = e # seal es r"

lemma strtok_join:
  "es \<noteq> [] \<Longrightarrow> \<forall>e\<in>set es. e \<noteq> [] \<and> CHR '';'' \<notin> set e \<Longrightarrow> CHR '';'' \<notin> set r \<Longrightarrow>
     strtok (CHR '';'') (join_entries es @ r) = seal es r"
  by (induction es rule: join_entries.induct) (auto simp: strtok_def split_on_plain split_on_first)

lemma read_token_shown:
  assumes "type_base ty = base" and "r = [] \<or> r = [CHR 0x0A]"
  shows "read_tokens ty ((id_entry base e @ r) # ts) s =
    (case resctrl_schemata_set (fst e) (snd e) ty s of (ret, s) \<Rightarrow>
       if ret \<noteq> PQOS_RETVAL_OK then (ret, s) else read_tokens ty ts s)"
proof -
  have b: "base = 10 \<or> base = 16" unfolding assms(1) [symmetric] type_base_def by simp
  have "CHR ''='' \<notin> set (show_num 10 (uint (fst e)))"
    using show_num_digits [of "uint (fst e)" 10] is_digit_facts(5) [of 10] by force
  then have "cut_at (CHR ''='') (id_entry base e @ r) = Some (show_num 10 (uint (fst e)), show_num base (uint (snd e)) @ r)"
    by (simp add: id_entry_def cut_at_first)
  moreover have "resctrl_utils_strtouint64 (show_num 10 (uint (fst e))) 10 = Inr (of_int (uint (fst e)))"
    using strtouint64_shown [of 10 "uint (fst e)" "[]"] uint_lt2p [of "fst e"] by simp
  moreover have "resctrl_utils_strtouint64 (show_num base (uint (snd e)) @ r) base = Inr (snd e)"
    using strtouint64_shown [OF b _ _ assms(2), of "uint (snd e)"] uint_lt2p [of "snd e"] by simp
  moreover have "ucast (of_int (uint (fst e)) :: u64) = fst e" by (simp add: unsigned_ucast_eq take_bit_word_eq_self)
  ultimately show ?thesis by (simp add: assms(1))
qed

fun set_all :: "resctrl_schemata_type \<Rightarrow> (u32 \<times> u64) list \<Rightarrow> resctrl_schemata \<Rightarrow> retval \<times> resctrl_schemata" where
  "set_all ty [] s = (PQOS_RETVAL_OK, s)"
| "set_all ty (e # es) s =
     (case resctrl_schemata_set (fst e) (snd e) ty s of (ret, s) \<Rightarrow> if ret \<noteq> PQOS_RETVAL_OK then (ret, s) else set_all ty es s)"

lemma read_tokens_shown:
  "type_base ty = base \<Longrightarrow> read_tokens ty (seal (map (id_entry base) es) [CHR 0x0A]) s = set_all ty es s"
proof (induction es arbitrary: s rule: induct_list012)
  case (2 e)
  from read_token_shown [OF 2, of "[CHR 0x0A]"] show ?case by (simp del: read_tokens.simps(2) split: prod.splits)
next
  case (3 e f es)
  have "read_tokens ty (id_entry base e # seal (map (id_entry base) (f # es)) [CHR 0x0A]) s =
      (case resctrl_schemata_set (fst e) (snd e) ty s of (ret, s) \<Rightarrow>
        if ret \<noteq> PQOS_RETVAL_OK then (ret, s) else read_tokens ty (seal (map (id_entry base) (f # es)) [CHR 0x0A]) s)"
    using read_token_shown [OF 3(3) disjI1 [OF refl], of e] by (simp only: append_Nil2)
  with 3 show ?case by (simp del: read_tokens.simps(2) split: prod.splits)
qed simp


text \<open>A whole line, followed by the rest of the file.\<close>

lemma read_line_shown:
  assumes "resctrl_schemata_type_get label = ty" and "ty \<noteq> RESCTRL_SCHEMATA_TYPE_NONE" and "type_base ty = base"
    and label: "label \<noteq> []" "\<forall>c\<in>set label. \<not> isspace c \<and> c \<noteq> CHR '':'' \<and> c \<noteq> CHR 0x00" and es: "es \<noteq> []"
  shows "read_lines (schemata_line label base es # ls) s =
    (case set_all ty es s of (ret, s) \<Rightarrow> if ret \<noteq> PQOS_RETVAL_OK then (ret, s) else read_lines ls s)"
proof -
  have b: "base = 10 \<or> base = 16" unfolding assms(3) [symmetric] type_base_def by simp
  have nul: "CHR 0x00 \<notin> set (join_entries (map (id_entry base) es))"
    using id_entry_chars(3) [OF b] by (induction es rule: induct_list012) auto
  let ?l = "schemata_line label base es"
  have "c_str ?l = ?l" using nul label(2) by (intro c_str_plain) (auto simp: schemata_line_def)
  moreover have "dropWhile isspace ?l = ?l" using label by (cases label) (auto simp: schemata_line_def)
  moreover have "cut_at (CHR '':'') ?l = Some (label, join_entries (map (id_entry base) es) @ [CHR 0x0A])"
    using label(2) by (auto simp: schemata_line_def intro!: cut_at_first)
  moreover have "strtok (CHR '';'') (join_entries (map (id_entry base) es) @ [CHR 0x0A]) = seal (map (id_entry base) es) [CHR 0x0A]"
    using es id_entry_chars(1) [OF b] by (intro strtok_join) (auto simp: id_entry_def)
  ultimately show ?thesis using assms(1,2) by (simp add: read_tokens_shown [OF assms(3)])
qed

lemma fgets_schemata_line:
  assumes "base = 10 \<or> base = 16" and "CHR 0x0A \<notin> set label" and "length (schemata_line label base es) \<le> 16383"
  shows "fgets_lines 16383 16383 [] (schemata_line label base es @ r) =
    schemata_line label base es # fgets_lines 16383 16383 [] r"
proof -
  have nl: "CHR 0x0A \<notin> set (join_entries (map (id_entry base) es))"
    using id_entry_chars(2) [OF assms(1)] by (induction es rule: induct_list012) auto
  with assms fgets_line [of "label @ '':'' @ join_entries (map (id_entry base) es)" 16383 16383 "[]" r]
  show ?thesis by (simp add: schemata_line_def)
qed

section \<open>Filling a table\<close>

lemma id_index_search: "id_index i ids = (if i \<in> set ids then Some (search_index i ids) else None)"
  by (induction ids) auto

lemma id_index_nth: "distinct ids \<Longrightarrow> j < length ids \<Longrightarrow> id_index (ids ! j) ids = Some j"
  by (simp add: id_index_search search_index_nth_distinct)

text \<open>One assignment after the other, at increasing positions.\<close>

lemma fill_table:
  "length vs = length ts \<Longrightarrow>
     fold (\<lambda>j t. t[j := f (vs ! j) (t ! j)]) [0..<length ts] ts = map2 (\<lambda>e v. f v e) ts vs"
proof -
  assume len: "length vs = length ts"
  have "k \<le> length ts \<Longrightarrow> fold (\<lambda>j t. t[j := f (vs ! j) (t ! j)]) [0..<k] ts = map2 (\<lambda>e v. f v e) (take k ts) (take k vs) @ drop k ts" for k
  proof (induction k)
    case (Suc k)
    then have "drop k ts = ts ! k # drop (Suc k) ts" by (simp add: Cons_nth_drop_Suc)
    with Suc len show ?case by (simp add: take_Suc_conv_app_nth list_update_append nth_append min_def)
  qed simp
  from this [of "length ts"] len show ?thesis by simp
qed

lemma type_index_update [simp]: "type_index ty (type_update ty' j v s) = type_index ty s"
  by (cases ty; cases ty') (simp_all add: fun_eq_iff get_l2_index_def get_l3_index_def get_mba_index_def get_smba_index_def)

lemma set_all_indices:
  "\<forall>j\<in>set js. type_index ty s (ids ! j) = Some j \<Longrightarrow>
     set_all ty (map (\<lambda>j. (ids ! j, vs ! j)) js) s = (PQOS_RETVAL_OK, fold (\<lambda>j s. type_update ty j (vs ! j) s) js s)"
  by (induction js arbitrary: s) (auto simp: resctrl_schemata_set_def)

lemma zip_nth: "length vs = length ids \<Longrightarrow> zip ids vs = map (\<lambda>j. (ids ! j, vs ! j)) [0..<length ids]"
  by (auto intro: nth_equalityI)

lemma set_all_zip:
  assumes "type_index ty s = (\<lambda>i. id_index i ids)" and "distinct ids" and "length vs = length ids"
  shows "set_all ty (zip ids vs) s = (PQOS_RETVAL_OK, fold (\<lambda>j s. type_update ty j (vs ! j) s) [0..<length ids] s)"
  unfolding zip_nth [OF assms(3)] using assms(1,2) by (intro set_all_indices) (simp add: id_index_nth)

lemma fold_updates:
  "fold (\<lambda>j s. type_update RESCTRL_SCHEMATA_TYPE_L3 j (vs ! j) s) js s =
     s\<lparr>sch_l3ca := map_option (fold (\<lambda>j t. t[j := put_ways (vs ! j) (t ! j)]) js) (sch_l3ca s)\<rparr>"
  "fold (\<lambda>j s. type_update RESCTRL_SCHEMATA_TYPE_L3CODE j (vs ! j) s) js s =
     s\<lparr>sch_l3ca := map_option (fold (\<lambda>j t. t[j := put_code (vs ! j) (t ! j)]) js) (sch_l3ca s)\<rparr>"
  "fold (\<lambda>j s. type_update RESCTRL_SCHEMATA_TYPE_L3DATA j (vs ! j) s) js s =
     s\<lparr>sch_l3ca := map_option (fold (\<lambda>j t. t[j := put_data (vs ! j) (t ! j)]) js) (sch_l3ca s)\<rparr>"
  "fold (\<lambda>j s. type_update RESCTRL_SCHEMATA_TYPE_L2 j (vs ! j) s) js s =
     s\<lparr>sch_l2ca := map_option (fold (\<lambda>j t. t[j := put_ways (vs ! j) (t ! j)]) js) (sch_l2ca s)\<rparr>"
  "fold (\<lambda>j s. type_update RESCTRL_SCHEMATA_TYPE_L2CODE j (vs ! j) s) js s =
     s\<lparr>sch_l2ca := map_option (fold (\<lambda>j t. t[j := put_code (vs ! j) (t ! j)]) js) (sch_l2ca s)\<rparr>"
  "fold (\<lambda>j s. type_update RESCTRL_SCHEMATA_TYPE_L2DATA j (vs ! j) s) js s =
     s\<lparr>sch_l2ca := map_option (fold (\<lambda>j t. t[j := put_data (vs ! j) (t ! j)]) js) (sch_l2ca s)\<rparr>"
  "fold (\<lambda>j s. type_update RESCTRL_SCHEMATA_TYPE_MB j (vs ! j) s) js s =
     s\<lparr>sch_mba := map_option (fold (\<lambda>j t. t[j := put_bw (vs ! j) (t ! j)]) js) (sch_mba s)\<rparr>"
  "fold (\<lambda>j s. type_update RESCTRL_SCHEMATA_TYPE_SMBA j (vs ! j) s) js s =
     s\<lparr>sch_smba := map_option (fold (\<lambda>j t. t[j := put_bw (vs ! j) (t ! j)]) js) (sch_smba s)\<rparr>"
  by (induction js arbitrary: s; simp add: at_index_def option.map_comp comp_def option.map_id option.map_ident)+

section \<open>The printed file is read back\<close>

text \<open>The definitions of \<open>src\<close> put over those of \<open>e\<close>; the class id is not part of the file.\<close>

definition copy_ca :: "pqos_ca \<Rightarrow> pqos_ca \<Rightarrow> pqos_ca" where
  "copy_ca e src =
     (if ca_cdp src then e\<lparr>ca_cdp := True, ca_word0 := data_mask src, ca_word1 := code_mask src\<rparr>
      else e\<lparr>ca_cdp := False, ca_word0 := ways_mask src\<rparr>)"

definition copy_bw :: "pqos_mba \<Rightarrow> pqos_mba \<Rightarrow> pqos_mba" where
  "copy_bw e src = e\<lparr>mb_max := mb_max src\<rparr>"

fun over :: "('e \<Rightarrow> 'e \<Rightarrow> 'e) \<Rightarrow> 'e list option \<Rightarrow> 'e list option \<Rightarrow> 'e list option" where
  "over f (Some t) (Some u) = Some (map2 f t u)"
| "over f t u = t"

text \<open>A table as the code builds it: one entry per id, ids without repetition.\<close>

definition tab_ok :: "u32 list \<Rightarrow> 'e list option \<Rightarrow> bool" where
  "tab_ok ids tab = (case tab of None \<Rightarrow> True | Some t \<Rightarrow> t \<noteq> [] \<and> length t = length ids \<and> distinct ids)"

definition one_cdp :: "pqos_ca list option \<Rightarrow> bool" where
  "one_cdp tab = (case tab of None \<Rightarrow> True | Some t \<Rightarrow> \<forall>ca\<in>set t. ca_cdp ca = ca_cdp (hd t))"

lemma copy_parts:
  "\<not> ca_cdp src \<Longrightarrow> put_ways (ways_mask src) e = copy_ca e src"
  "ca_cdp src \<Longrightarrow> put_data (data_mask src) (put_code (code_mask src) e) = copy_ca e src"
  "put_bw (ucast (mb_max m)) f = copy_bw f m"
  by (simp_all add: copy_ca_def copy_bw_def put_ways_def put_data_def put_code_def put_bw_def unsigned_ucast_eq take_bit_word_eq_self)

lemma map2_cong_on:
  "length t = length u \<Longrightarrow> (\<And>x. x \<in> set u \<Longrightarrow> \<forall>e. f e (h x) = g e x) \<Longrightarrow> map2 f t (map h u) = map2 g t u"
  by (induction t u rule: list_induct2) auto

lemma map2_map2:
  "length t = length u \<Longrightarrow> (\<And>x. x \<in> set u \<Longrightarrow> \<forall>e. f2 (f1 e (h1 x)) (h2 x) = g e x) \<Longrightarrow>
     map2 f2 (map2 f1 t (map h1 u)) (map h2 u) = map2 g t u"
  by (induction t u rule: list_induct2) auto

lemmas index_defs = get_l2_index_def get_l3_index_def get_mba_index_def get_smba_index_def

lemma type_labels:
  "resctrl_schemata_type_get ''L3'' = RESCTRL_SCHEMATA_TYPE_L3" "resctrl_schemata_type_get ''L3CODE'' = RESCTRL_SCHEMATA_TYPE_L3CODE"
  "resctrl_schemata_type_get ''L3DATA'' = RESCTRL_SCHEMATA_TYPE_L3DATA"
  "resctrl_schemata_type_get ''L2'' = RESCTRL_SCHEMATA_TYPE_L2" "resctrl_schemata_type_get ''L2CODE'' = RESCTRL_SCHEMATA_TYPE_L2CODE"
  "resctrl_schemata_type_get ''L2DATA'' = RESCTRL_SCHEMATA_TYPE_L2DATA"
  "resctrl_schemata_type_get ''MB'' = RESCTRL_SCHEMATA_TYPE_MB" "resctrl_schemata_type_get ''SMBA'' = RESCTRL_SCHEMATA_TYPE_SMBA"
  by code_simp+

lemma label_chars:
  "label \<in> {''L3'', ''L3CODE'', ''L3DATA'', ''L2'', ''L2CODE'', ''L2DATA'', ''MB'', ''SMBA''} \<Longrightarrow>
     label \<noteq> [] \<and> (\<forall>c\<in>set label. \<not> isspace c \<and> c \<noteq> CHR '':'' \<and> c \<noteq> CHR 0x00 \<and> c \<noteq> CHR 0x0A)"
  by (auto simp: isspace_def)

text \<open>One line of the file and the assignments it stands for.\<close>

lemma read_file_line:
  assumes "label \<in> {''L3'', ''L3CODE'', ''L3DATA'', ''L2'', ''L2CODE'', ''L2DATA'', ''MB'', ''SMBA''}"
    and ty: "resctrl_schemata_type_get label = ty" and base: "type_base ty = base"
    and "type_index ty s = (\<lambda>i. id_index i ids)" and "distinct ids" and "length vs = length ids" and "ids \<noteq> []"
    and "length (schemata_line label base (zip ids vs)) \<le> 16383"
  shows "read_lines (fgets_lines 16383 16383 [] (schemata_line label base (zip ids vs) @ r)) s =
    read_lines (fgets_lines 16383 16383 [] r) (fold (\<lambda>j s. type_update ty j (vs ! j) s) [0..<length ids] s)"
proof -
  note lc = label_chars [OF assms(1)]
  have b: "base = 10 \<or> base = 16" unfolding base [symmetric] type_base_def by simp
  have nn: "ty \<noteq> RESCTRL_SCHEMATA_TYPE_NONE" using assms(1) ty by (auto simp: type_labels)
  have ne: "zip ids vs \<noteq> []" using assms(6,7) by (cases ids; cases vs) auto
  have nl: "CHR 0x0A \<notin> set label" and lab: "label \<noteq> []" "\<forall>c\<in>set label. \<not> isspace c \<and> c \<noteq> CHR '':'' \<and> c \<noteq> CHR 0x00"
    using lc by auto
  show ?thesis
    unfolding fgets_schemata_line [OF b nl assms(8)] read_line_shown [OF ty nn base lab ne] set_all_zip [OF assms(4-6)] by simp
qed

text \<open>
  The four parts of the file. A cache level has three kinds of lines that change one
  table, a bandwidth kind has one.
\<close>

locale schemata_level =
  fixes label :: string and ty tyc tyd :: resctrl_schemata_type
    and ids_of :: "resctrl_schemata \<Rightarrow> u32 list"
    and get :: "resctrl_schemata \<Rightarrow> pqos_ca list option"
    and put :: "pqos_ca list option \<Rightarrow> resctrl_schemata \<Rightarrow> resctrl_schemata"
  assumes level: "label \<in> {''L3'', ''L2''}"
    and types: "resctrl_schemata_type_get label = ty" "resctrl_schemata_type_get (label @ ''CODE'') = tyc"
      "resctrl_schemata_type_get (label @ ''DATA'') = tyd"
    and bases: "type_base ty = 16" "type_base tyc = 16" "type_base tyd = 16"
    and indices: "type_index ty s = (\<lambda>i. id_index i (ids_of s))" "type_index tyc s = (\<lambda>i. id_index i (ids_of s))"
      "type_index tyd s = (\<lambda>i. id_index i (ids_of s))"
    and put_laws: "get (put x s) = x" "put x (put y s) = put x s" "put (get s) s = s" "ids_of (put x s) = ids_of s"
    and folds: "fold (\<lambda>j s. type_update ty j (vs ! j) s) js s = put (map_option (fold (\<lambda>j t. t[j := put_ways (vs ! j) (t ! j)]) js) (get s)) s"
      "fold (\<lambda>j s. type_update tyc j (vs ! j) s) js s = put (map_option (fold (\<lambda>j t. t[j := put_code (vs ! j) (t ! j)]) js) (get s)) s"
      "fold (\<lambda>j s. type_update tyd j (vs ! j) s) js s = put (map_option (fold (\<lambda>j t. t[j := put_data (vs ! j) (t ! j)]) js) (get s)) s"
begin

lemma read_ca_part:
  assumes ids: "ids_of b = ids" and like: "rel_option (\<lambda>x y. length x = length y) (get b) tab"
    and ok: "tab_ok ids tab" "one_cdp tab" and len: "length (ca_lines label ids tab) \<le> 16383"
  shows "read_lines (fgets_lines 16383 16383 [] (ca_lines label ids tab @ r)) b =
    read_lines (fgets_lines 16383 16383 [] r) (put (over copy_ca (get b) tab) b)"
proof (cases tab)
  case None
  then have "over copy_ca (get b) tab = get b" by (cases "get b") simp_all
  with None show ?thesis by (simp add: ca_lines_def put_laws)
next
  case (Some u)
  with like obtain t where t: "get b = Some t" and tu: "length t = length u" by (auto simp: rel_option_iff split: option.splits)
  have u: "u \<noteq> []" "length u = length ids" "distinct ids" using ok(1) Some by (simp_all add: tab_ok_def)
  have cdp: "\<forall>ca\<in>set u. ca_cdp ca = ca_cdp (hd u)" using ok(2) unfolding Some one_cdp_def option.case .
  have ne: "ids \<noteq> []" using u(1,2) by auto
  have labels: "label \<in> {''L3'', ''L3CODE'', ''L3DATA'', ''L2'', ''L2CODE'', ''L2DATA'', ''MB'', ''SMBA''}"
    "label @ ''CODE'' \<in> {''L3'', ''L3CODE'', ''L3DATA'', ''L2'', ''L2CODE'', ''L2DATA'', ''MB'', ''SMBA''}"
    "label @ ''DATA'' \<in> {''L3'', ''L3CODE'', ''L3DATA'', ''L2'', ''L2CODE'', ''L2DATA'', ''MB'', ''SMBA''}"
    using level by auto
  have lm: "length (map f u) = length ids" for f :: "pqos_ca \<Rightarrow> u64" using u(2) by simp
  show ?thesis
  proof (cases "ca_cdp (hd u)")
    case False
    with Some have w: "ca_lines label ids tab = schemata_line label 16 (zip ids (map ways_mask u))"
      by (simp add: ca_lines_def)
    have e: "map2 (\<lambda>e v. put_ways v e) t (map ways_mask u) = map2 copy_ca t u"
      using cdp False by (intro map2_cong_on [OF tu]) (metis copy_parts(1))
    have "fold (\<lambda>j s. type_update ty j (map ways_mask u ! j) s) [0..<length ids] b = put (Some (map2 copy_ca t u)) b"
      using fill_table [of "map ways_mask u" t put_ways] tu u(2) by (simp add: folds t e)
    with read_file_line [OF labels(1) types(1) bases(1) indices(1) [of b, unfolded ids] u(3) lm ne len [unfolded w]]
    show ?thesis unfolding w by (simp add: t Some)
  next
    case True
    with Some have w: "ca_lines label ids tab =
        schemata_line (label @ ''CODE'') 16 (zip ids (map code_mask u)) @ schemata_line (label @ ''DATA'') 16 (zip ids (map data_mask u))"
      by (simp add: ca_lines_def)
    let ?t = "map2 (\<lambda>e v. put_code v e) t (map code_mask u)"
    have e: "map2 (\<lambda>e v. put_data v e) ?t (map data_mask u) = map2 copy_ca t u"
      using cdp True by (intro map2_map2 [OF tu]) (metis copy_parts(2))
    have c: "fold (\<lambda>j s. type_update tyc j (map code_mask u ! j) s) [0..<length ids] b = put (Some ?t) b"
      using fill_table [of "map code_mask u" t put_code] tu u(2) by (simp add: folds t)
    have d: "fold (\<lambda>j s. type_update tyd j (map data_mask u ! j) s) [0..<length ids] (put (Some ?t) b) = put (Some (map2 copy_ca t u)) b"
      using fill_table [of "map data_mask u" ?t put_data] tu u(2) by (simp add: folds put_laws e)
    have "read_lines (fgets_lines 16383 16383 [] (schemata_line (label @ ''CODE'') 16 (zip ids (map code_mask u)) @ q)) b =
        read_lines (fgets_lines 16383 16383 [] q) (put (Some ?t) b)" for q
      using read_file_line [OF labels(2) types(2) bases(2) indices(2) [of b, unfolded ids] u(3) lm ne, of code_mask] len c
      by (simp add: w)
    moreover have "read_lines (fgets_lines 16383 16383 [] (schemata_line (label @ ''DATA'') 16 (zip ids (map data_mask u)) @ q)) (put (Some ?t) b) =
        read_lines (fgets_lines 16383 16383 [] q) (put (Some (map2 copy_ca t u)) b)" for q
      using read_file_line [OF labels(3) types(3) bases(3) indices(3) [of "put (Some ?t) b", unfolded put_laws(4) ids] u(3) lm ne, of data_mask] len d
      by (simp add: w)
    ultimately show ?thesis unfolding w by (simp add: t Some)
  qed
qed

end

interpretation l3sch: schemata_level "''L3''" RESCTRL_SCHEMATA_TYPE_L3 RESCTRL_SCHEMATA_TYPE_L3CODE RESCTRL_SCHEMATA_TYPE_L3DATA
  sch_l3ids sch_l3ca "\<lambda>x s. s\<lparr>sch_l3ca := x\<rparr>"
  by unfold_locales (rule fold_updates | simp add: type_labels type_base_def fun_eq_iff index_defs)+

interpretation l2sch: schemata_level "''L2''" RESCTRL_SCHEMATA_TYPE_L2 RESCTRL_SCHEMATA_TYPE_L2CODE RESCTRL_SCHEMATA_TYPE_L2DATA
  sch_l2ids sch_l2ca "\<lambda>x s. s\<lparr>sch_l2ca := x\<rparr>"
  by unfold_locales (rule fold_updates | simp add: type_labels type_base_def fun_eq_iff index_defs)+

locale schemata_bandwidth =
  fixes label :: string and ty :: resctrl_schemata_type
    and ids_of :: "resctrl_schemata \<Rightarrow> u32 list"
    and get :: "resctrl_schemata \<Rightarrow> pqos_mba list option"
    and put :: "pqos_mba list option \<Rightarrow> resctrl_schemata \<Rightarrow> resctrl_schemata"
  assumes kind: "label \<in> {''MB'', ''SMBA''}" and bw_type: "resctrl_schemata_type_get label = ty" and bw_base: "type_base ty = 10"
    and bw_index: "type_index ty s = (\<lambda>i. id_index i (ids_of s))"
    and bw_fold: "fold (\<lambda>j s. type_update ty j (vs ! j) s) js s = put (map_option (fold (\<lambda>j t. t[j := put_bw (vs ! j) (t ! j)]) js) (get s)) s"
begin

lemma read_bw_part:
  assumes "ids_of b = ids" and "get b = Some t" and "length t = length u" and "tab_ok ids (Some u)"
    and "length (schemata_line label 10 (zip ids (map (\<lambda>m. ucast (mb_max m)) u))) \<le> 16383"
  shows "read_lines (fgets_lines 16383 16383 [] (schemata_line label 10 (zip ids (map (\<lambda>m. ucast (mb_max m)) u)) @ r)) b =
    read_lines (fgets_lines 16383 16383 [] r) (put (Some (map2 copy_bw t u)) b)"
proof -
  let ?v = "map (\<lambda>m. ucast (mb_max m) :: u64) u"
  have u: "u \<noteq> []" "length u = length ids" "distinct ids" using assms(4) by (auto simp: tab_ok_def)
  then have ne: "ids \<noteq> []" by auto
  have e: "map2 (\<lambda>e v. put_bw v e) t ?v = map2 copy_bw t u"
    using assms(3) by (intro map2_cong_on) (auto simp: copy_parts)
  have "fold (\<lambda>j s. type_update ty j (?v ! j) s) [0..<length ids] b = put (Some (map2 copy_bw t u)) b"
    using fill_table [of ?v t put_bw] assms(2,3) u(2) by (simp add: bw_fold e)
  moreover have "label \<in> {''L3'', ''L3CODE'', ''L3DATA'', ''L2'', ''L2CODE'', ''L2DATA'', ''MB'', ''SMBA''}" using kind by auto
  moreover have "length ?v = length ids" using u(2) by simp
  ultimately show ?thesis using read_file_line [OF _ bw_type bw_base bw_index [of b, unfolded assms(1)] u(3) _ ne] assms(5) by simp
qed

end

interpretation mbasch: schemata_bandwidth "''MB''" RESCTRL_SCHEMATA_TYPE_MB sch_mbaids sch_mba "\<lambda>x s. s\<lparr>sch_mba := x\<rparr>"
  by unfold_locales (rule fold_updates | simp add: type_labels type_base_def fun_eq_iff index_defs)+

interpretation smbasch: schemata_bandwidth "''SMBA''" RESCTRL_SCHEMATA_TYPE_SMBA sch_smbaids sch_smba "\<lambda>x s. s\<lparr>sch_smba := x\<rparr>"
  by unfold_locales (rule fold_updates | simp add: type_labels type_base_def fun_eq_iff index_defs)+

section \<open>Properties\<close>

definition schemata_ok :: "resctrl_schemata \<Rightarrow> bool" where
  "schemata_ok s \<longleftrightarrow> tab_ok (sch_l3ids s) (sch_l3ca s) \<and> tab_ok (sch_l2ids s) (sch_l2ca s) \<and>
     tab_ok (sch_mbaids s) (sch_mba s) \<and> tab_ok (sch_smbaids s) (sch_smba s)"

text \<open>Tables for the same ids.\<close>

definition schemata_like :: "resctrl_schemata \<Rightarrow> resctrl_schemata \<Rightarrow> bool" where
  "schemata_like b s \<longleftrightarrow>
     sch_l3ids b = sch_l3ids s \<and> rel_option (\<lambda>x y. length x = length y) (sch_l3ca b) (sch_l3ca s) \<and>
     sch_l2ids b = sch_l2ids s \<and> rel_option (\<lambda>x y. length x = length y) (sch_l2ca b) (sch_l2ca s) \<and>
     sch_mbaids b = sch_mbaids s \<and> rel_option (\<lambda>x y. length x = length y) (sch_mba b) (sch_mba s) \<and>
     sch_smbaids b = sch_smbaids s \<and> rel_option (\<lambda>x y. length x = length y) (sch_smba b) (sch_smba s)"

lemma read_mba_part:
  assumes ids: "sch_mbaids b = sch_mbaids s" and like: "rel_option (\<lambda>x y. length x = length y) (sch_mba b) (sch_mba s)"
    and ok: "tab_ok (sch_mbaids s) (sch_mba s)" and max: "\<forall>t\<in>set_option (sch_mba s). \<forall>m\<in>set t. mb_max m \<noteq> - 1"
    and len: "length (resctrl_schemata_mba_write s) \<le> 16383"
  shows "read_lines (fgets_lines 16383 16383 [] (resctrl_schemata_mba_write s @ r)) b =
    read_lines (fgets_lines 16383 16383 [] r) (b\<lparr>sch_mba := over copy_bw (sch_mba b) (sch_mba s)\<rparr>)"
proof (cases "sch_mba s")
  case None
  then have "over copy_bw (sch_mba b) (sch_mba s) = sch_mba b" by (cases "sch_mba b") simp_all
  with None show ?thesis by (simp add: resctrl_schemata_mba_write_def)
next
  case (Some u)
  with like obtain t where t: "sch_mba b = Some t" "length t = length u" by (auto simp: rel_option_iff split: option.splits)
  have "filter (\<lambda>(i, v). v \<noteq> - 1) (zip (sch_mbaids s) (map mb_max u)) = zip (sch_mbaids s) (map mb_max u)"
  proof (intro filter_True ballI)
    fix p assume "p \<in> set (zip (sch_mbaids s) (map mb_max u))"
    then have "snd p \<in> mb_max ` set u" using set_zip_rightD [of "fst p" "snd p"] by fastforce
    with max Some show "case p of (i, v) \<Rightarrow> v \<noteq> - 1" by (auto simp: split_def)
  qed
  then have w: "resctrl_schemata_mba_write s = schemata_line ''MB'' 10 (zip (sch_mbaids s) (map (\<lambda>m. ucast (mb_max m)) u))"
    using Some by (simp add: resctrl_schemata_mba_write_def zip_map2 split_def comp_def)
  show ?thesis
    using mbasch.read_bw_part [OF ids t ok [unfolded Some]] len unfolding w by (simp add: t Some)
qed

lemma read_smba_part:
  assumes ids: "sch_smbaids b = sch_smbaids s" and like: "rel_option (\<lambda>x y. length x = length y) (sch_smba b) (sch_smba s)"
    and ok: "tab_ok (sch_smbaids s) (sch_smba s)" and len: "length (resctrl_schemata_smba_write s) \<le> 16383"
  shows "read_lines (fgets_lines 16383 16383 [] (resctrl_schemata_smba_write s @ r)) b =
    read_lines (fgets_lines 16383 16383 [] r) (b\<lparr>sch_smba := over copy_bw (sch_smba b) (sch_smba s)\<rparr>)"
proof (cases "sch_smba s")
  case None
  then have "over copy_bw (sch_smba b) (sch_smba s) = sch_smba b" by (cases "sch_smba b") simp_all
  with None show ?thesis by (simp add: resctrl_schemata_smba_write_def)
next
  case (Some u)
  with like obtain t where t: "sch_smba b = Some t" "length t = length u" by (auto simp: rel_option_iff split: option.splits)
  have w: "resctrl_schemata_smba_write s = schemata_line ''SMBA'' 10 (zip (sch_smbaids s) (map (\<lambda>m. ucast (mb_max m)) u))"
    using Some by (simp add: resctrl_schemata_smba_write_def)
  show ?thesis
    using smbasch.read_bw_part [OF ids t ok [unfolded Some]] len unfolding w by (simp add: t Some)
qed

text \<open>
  C34. The schemata file round-trips: what \<open>resctrl_schemata_write\<close> prints,
  \<open>resctrl_schemata_read\<close> accepts, and reading it into any table for the same ids gives
  every L3, L2, MBA and SMBA entry the printed masks, CDP state and bandwidth, leaving
  class ids and flags alone. The tables have one entry per id, CDP is on for all entries
  of a level or for none, no MBA entry has the value that the writer leaves out, and the
  text fits the reader's 16 KB line buffer.
\<close>

theorem schemata_write_read:
  assumes ok: "schemata_ok s" and like: "schemata_like b s" and cdp: "one_cdp (sch_l3ca s)" "one_cdp (sch_l2ca s)"
    and max: "\<forall>t\<in>set_option (sch_mba s). \<forall>m\<in>set t. mb_max m \<noteq> - 1"
    and len: "length (resctrl_schemata_write s) \<le> 16383"
  shows "resctrl_schemata_read (resctrl_schemata_write s) b =
    (PQOS_RETVAL_OK, b\<lparr>sch_l3ca := over copy_ca (sch_l3ca b) (sch_l3ca s), sch_l2ca := over copy_ca (sch_l2ca b) (sch_l2ca s),
                       sch_mba := over copy_bw (sch_mba b) (sch_mba s), sch_smba := over copy_bw (sch_smba b) (sch_smba s)\<rparr>)"
proof -
  note o = ok [unfolded schemata_ok_def] and l = like [unfolded schemata_like_def]
  have ln: "length (ca_lines ''L2'' (sch_l2ids s) (sch_l2ca s)) \<le> 16383" "length (ca_lines ''L3'' (sch_l3ids s) (sch_l3ca s)) \<le> 16383"
    "length (resctrl_schemata_mba_write s) \<le> 16383" "length (resctrl_schemata_smba_write s) \<le> 16383"
    using len by (simp_all add: resctrl_schemata_write_def resctrl_schemata_l2ca_write_def resctrl_schemata_l3ca_write_def)
  let ?b2 = "b\<lparr>sch_l2ca := over copy_ca (sch_l2ca b) (sch_l2ca s)\<rparr>"
  let ?b3 = "?b2\<lparr>sch_l3ca := over copy_ca (sch_l3ca ?b2) (sch_l3ca s)\<rparr>"
  let ?b4 = "?b3\<lparr>sch_mba := over copy_bw (sch_mba ?b3) (sch_mba s)\<rparr>"
  have "resctrl_schemata_read (resctrl_schemata_write s) b =
      read_lines (fgets_lines 16383 16383 [] (ca_lines ''L3'' (sch_l3ids s) (sch_l3ca s) @ resctrl_schemata_mba_write s @ resctrl_schemata_smba_write s)) ?b2"
    using l2sch.read_ca_part [of b "sch_l2ids s" "sch_l2ca s"] o l cdp ln
    by (simp add: resctrl_schemata_read_def resctrl_schemata_write_def resctrl_schemata_l2ca_write_def resctrl_schemata_l3ca_write_def)
  also have "\<dots> = read_lines (fgets_lines 16383 16383 [] (resctrl_schemata_mba_write s @ resctrl_schemata_smba_write s)) ?b3"
    using l3sch.read_ca_part [of ?b2 "sch_l3ids s" "sch_l3ca s"] o l cdp ln by simp
  also have "\<dots> = read_lines (fgets_lines 16383 16383 [] (resctrl_schemata_smba_write s)) ?b4"
    using read_mba_part [of ?b3 s] o l max ln by simp
  also have "\<dots> = (PQOS_RETVAL_OK, ?b4\<lparr>sch_smba := over copy_bw (sch_smba ?b4) (sch_smba s)\<rparr>)"
    using read_smba_part [of ?b4 s "[]"] o l ln by simp
  finally show ?thesis by simp
qed

definition sample_schemata :: resctrl_schemata where
  "sample_schemata = \<lparr>sch_l3ids = [0, 1], sch_l3ca = Some [zero_ca\<lparr>ca_cdp := True, ca_word0 := 0xff, ca_word1 := 0x7f0\<rparr>,
       zero_ca\<lparr>ca_cdp := True, ca_word0 := 0xabc, ca_word1 := 1\<rparr>],
     sch_mbaids = [0, 1], sch_mba = Some [zero_mba\<lparr>mb_max := 100\<rparr>, zero_mba\<lparr>mb_max := 30\<rparr>],
     sch_smbaids = [], sch_smba = None, sch_l2ids = [4], sch_l2ca = Some [zero_ca\<lparr>ca_word0 := 0xf\<rparr>]\<rparr>"

definition blank_schemata :: resctrl_schemata where
  "blank_schemata = sample_schemata\<lparr>sch_l3ca := Some [zero_ca, zero_ca], sch_mba := Some [zero_mba, zero_mba], sch_l2ca := Some [zero_ca]\<rparr>"

theorem schemata_write_read_witness:
  "resctrl_schemata_read ''L2:4=f\<newline>L3CODE:0=7f0;1=1\<newline>L3DATA:0=ff;1=abc\<newline>MB:0=100;1=30\<newline>'' blank_schemata
     = (PQOS_RETVAL_OK, sample_schemata)"
proof -
  have w: "resctrl_schemata_write sample_schemata = ''L2:4=f\<newline>L3CODE:0=7f0;1=1\<newline>L3DATA:0=ff;1=abc\<newline>MB:0=100;1=30\<newline>''"
    by code_simp
  have ok: "schemata_ok sample_schemata" and cdp: "one_cdp (sch_l3ca sample_schemata)" "one_cdp (sch_l2ca sample_schemata)"
    and max: "\<forall>t\<in>set_option (sch_mba sample_schemata). \<forall>m\<in>set t. mb_max m \<noteq> - 1"
    by code_simp+
  have like: "schemata_like blank_schemata sample_schemata"
    by (simp add: schemata_like_def blank_schemata_def sample_schemata_def)
  have len: "length (resctrl_schemata_write sample_schemata) \<le> 16383" unfolding w by simp
  from schemata_write_read [OF ok like cdp max len, unfolded w] show ?thesis
    by (simp add: blank_schemata_def sample_schemata_def copy_ca_def copy_bw_def zero_ca_def zero_mba_def)
qed

text \<open>
  The contract of the four kinds of access by resource id: an unknown id is refused by
  both operations, a known one is stored and found again, other entries stay.
\<close>

definition table_access :: "(resctrl_schemata \<Rightarrow> u32 list) \<Rightarrow> (resctrl_schemata \<Rightarrow> u32 \<Rightarrow> 'e res)
    \<Rightarrow> (resctrl_schemata \<Rightarrow> u32 \<Rightarrow> 'e \<Rightarrow> retval \<times> resctrl_schemata) \<Rightarrow> resctrl_schemata \<Rightarrow> bool" where
  "table_access ids_of get_entry set_entry s \<longleftrightarrow> (\<forall>i e.
     (i \<notin> set (ids_of s) \<longrightarrow> set_entry s i e = (PQOS_RETVAL_ERROR, s) \<and> get_entry s i = Inl PQOS_RETVAL_ERROR) \<and>
     (i \<in> set (ids_of s) \<longrightarrow> (\<exists>s'. set_entry s i e = (PQOS_RETVAL_OK, s') \<and> get_entry s' i = Inr e \<and>
        (\<forall>k. k \<noteq> i \<longrightarrow> get_entry s' k = get_entry s k) \<and> ids_of s' = ids_of s)))"

locale id_table =
  fixes ids_of :: "resctrl_schemata \<Rightarrow> u32 list"
    and get_entry :: "resctrl_schemata \<Rightarrow> u32 \<Rightarrow> 'e res"
    and set_entry :: "resctrl_schemata \<Rightarrow> u32 \<Rightarrow> 'e \<Rightarrow> retval \<times> resctrl_schemata"
    and tab_of :: "resctrl_schemata \<Rightarrow> 'e list option"
    and with_tab :: "'e list option \<Rightarrow> resctrl_schemata \<Rightarrow> resctrl_schemata"
  assumes get_eq: "get_entry s i = entry_at (tab_of s) (id_index i (ids_of s))"
    and set_eq: "set_entry s i e = (case id_index i (ids_of s) of None \<Rightarrow> (PQOS_RETVAL_ERROR, s)
      | Some j \<Rightarrow> (PQOS_RETVAL_OK, with_tab (map_option (\<lambda>t. t[j := e]) (tab_of s)) s))"
    and tab_with: "tab_of (with_tab x s) = x" and ids_with: "ids_of (with_tab x s) = ids_of s"
begin

lemma id_index_less: "id_index i ids = Some j \<Longrightarrow> j < length ids \<and> ids ! j = i"
  by (auto simp: id_index_search nth_search_index split: if_splits)

lemma access_laws:
  assumes "tab_ok (ids_of s) (tab_of s)" and "tab_of s \<noteq> None"
  shows "table_access ids_of get_entry set_entry s"
proof -
  obtain t where t: "tab_of s = Some t" using assms(2) by blast
  with assms(1) have len: "length t = length (ids_of s)" "t \<noteq> []" "distinct (ids_of s)" by (simp_all add: tab_ok_def)
  have oth: "get_entry (with_tab (Some (t[j := e])) s) k = get_entry s k" if "id_index i (ids_of s) = Some j" "k \<noteq> i" for i e j k
  proof (cases "id_index k (ids_of s)")
    case None
    then show ?thesis by (simp add: get_eq entry_at_def tab_with ids_with t)
  next
    case (Some l)
    from id_index_less [OF Some] id_index_less [OF that(1)] that(2) have "l \<noteq> j" by auto
    then show ?thesis by (simp add: get_eq entry_at_def tab_with ids_with t Some)
  qed
  have "(i \<notin> set (ids_of s) \<longrightarrow> set_entry s i e = (PQOS_RETVAL_ERROR, s) \<and> get_entry s i = Inl PQOS_RETVAL_ERROR) \<and>
     (i \<in> set (ids_of s) \<longrightarrow> (\<exists>s'. set_entry s i e = (PQOS_RETVAL_OK, s') \<and> get_entry s' i = Inr e \<and>
        (\<forall>k. k \<noteq> i \<longrightarrow> get_entry s' k = get_entry s k) \<and> ids_of s' = ids_of s))" for i e
  proof (cases "id_index i (ids_of s)")
    case None
    then have "i \<notin> set (ids_of s)" by (simp add: id_index_search split: if_splits)
    with None show ?thesis by (simp add: set_eq get_eq entry_at_def)
  next
    case (Some j)
    then have "i \<in> set (ids_of s)" by (simp add: id_index_search split: if_splits)
    let ?s = "with_tab (Some (t[j := e])) s"
    have "set_entry s i e = (PQOS_RETVAL_OK, ?s)" by (simp add: set_eq t Some)
    moreover have "get_entry ?s i = Inr e"
      using Some id_index_less [OF Some] len by (simp add: get_eq entry_at_def tab_with ids_with)
    moreover have "ids_of ?s = ids_of s" by (simp add: ids_with)
    ultimately show ?thesis using oth [OF Some] \<open>i \<in> set (ids_of s)\<close> by blast
  qed
  then show ?thesis unfolding table_access_def by blast
qed

end

interpretation l3tab: id_table sch_l3ids resctrl_schemata_l3ca_get resctrl_schemata_l3ca_set sch_l3ca "\<lambda>x s. s\<lparr>sch_l3ca := x\<rparr>"
  by unfold_locales (simp_all add: resctrl_schemata_l3ca_get_def resctrl_schemata_l3ca_set_def index_defs)

interpretation l2tab: id_table sch_l2ids resctrl_schemata_l2ca_get resctrl_schemata_l2ca_set sch_l2ca "\<lambda>x s. s\<lparr>sch_l2ca := x\<rparr>"
  by unfold_locales (simp_all add: resctrl_schemata_l2ca_get_def resctrl_schemata_l2ca_set_def index_defs)

interpretation mbatab: id_table sch_mbaids resctrl_schemata_mba_get resctrl_schemata_mba_set sch_mba "\<lambda>x s. s\<lparr>sch_mba := x\<rparr>"
  by unfold_locales (simp_all add: resctrl_schemata_mba_get_def resctrl_schemata_mba_set_def index_defs)

interpretation smbatab: id_table sch_smbaids resctrl_schemata_smba_get resctrl_schemata_smba_set sch_smba "\<lambda>x s. s\<lparr>sch_smba := x\<rparr>"
  by unfold_locales (simp_all add: resctrl_schemata_smba_get_def resctrl_schemata_smba_set_def index_defs)

text \<open>
  Access to the schemata table by resource id behaves like a finite map for L3, L2,
  MBA and SMBA: setting an unknown id fails and changes nothing, a known id can be read
  back after it is set, and no other entry changes.
\<close>

theorem schemata_access:
  assumes "schemata_ok s"
  shows "(sch_l3ca s \<noteq> None \<longrightarrow> table_access sch_l3ids resctrl_schemata_l3ca_get resctrl_schemata_l3ca_set s) \<and>
    (sch_l2ca s \<noteq> None \<longrightarrow> table_access sch_l2ids resctrl_schemata_l2ca_get resctrl_schemata_l2ca_set s) \<and>
    (sch_mba s \<noteq> None \<longrightarrow> table_access sch_mbaids resctrl_schemata_mba_get resctrl_schemata_mba_set s) \<and>
    (sch_smba s \<noteq> None \<longrightarrow> table_access sch_smbaids resctrl_schemata_smba_get resctrl_schemata_smba_set s)"
  using assms l3tab.access_laws l2tab.access_laws mbatab.access_laws smbatab.access_laws
  unfolding schemata_ok_def by blast

theorem schemata_access_witness:
  "\<exists>s'. resctrl_schemata_l3ca_set sample_schemata 1 zero_ca = (PQOS_RETVAL_OK, s') \<and> resctrl_schemata_l3ca_get s' 1 = Inr zero_ca"
proof -
  have ok: "schemata_ok sample_schemata" by code_simp
  have "sch_l3ca sample_schemata \<noteq> None" and i: "1 \<in> set (sch_l3ids sample_schemata)" by (simp_all add: sample_schemata_def)
  with schemata_access [OF ok] have "table_access sch_l3ids resctrl_schemata_l3ca_get resctrl_schemata_l3ca_set sample_schemata" by blast
  with i show ?thesis unfolding table_access_def by blast
qed

text \<open>
  \<open>resctrl_schemata_reset\<close> bounds its SMBA loop by the number of MBA ids. On a table with
  an SMBA entry and no MBA ids the entry keeps its old value (50 here) instead of the
  default; with two MBA ids and one SMBA entry the loop writes behind the array.
\<close>

theorem smba_reset_wrong_bound:
  "resctrl_schemata_reset \<lparr>cpuid_cache_leaf = 4, mba_max = 0x800, mba_default_val = 0x800, mba_msr_reg = 0, smba_msr_reg = 0\<rparr> None None None
     (Some \<lparr>mba_num_classes = 4, mba_throttle_max = 90, mba_throttle_step = 10, mba_is_linear = True, mba_ctrl = - 1, mba_ctrl_on = False, mba_mba40 = False, mba_mba40_on = False\<rparr>)
     (sample_schemata\<lparr>sch_mbaids := [], sch_mba := None, sch_smbaids := [0], sch_smba := Some [zero_mba\<lparr>mb_max := 50\<rparr>]\<rparr>)
     = Some (sample_schemata\<lparr>sch_mbaids := [], sch_mba := None, sch_smbaids := [0], sch_smba := Some [zero_mba\<lparr>mb_max := 50\<rparr>]\<rparr>) \<and>
   resctrl_schemata_reset \<lparr>cpuid_cache_leaf = 4, mba_max = 0x800, mba_default_val = 0x800, mba_msr_reg = 0, smba_msr_reg = 0\<rparr> None None None
     (Some \<lparr>mba_num_classes = 4, mba_throttle_max = 90, mba_throttle_step = 10, mba_is_linear = True, mba_ctrl = - 1, mba_ctrl_on = False, mba_mba40 = False, mba_mba40_on = False\<rparr>)
     (sample_schemata\<lparr>sch_smbaids := [0], sch_smba := Some [zero_mba]\<rparr>) = None"
  by (simp add: resctrl_schemata_reset_def map_first_def sample_schemata_def)

end
