(* ===== verification/Cpumask.thy ===== *)
theory Cpumask
  imports CString PqosTypes
begin

text \<open>
  The CPU masks of the resctrl file system (\<open>struct resctrl_cpumask\<close> and the
  \<open>resctrl_cpumask_*\<close> functions of \<open>lib/resctrl.c\<close>): a table of 512 bytes for 4096 logical
  cores, the core with the lowest number in the last byte, its textual form and the
  parser of that form. An access outside of the table, undefined in C, is \<open>None\<close>.
\<close>

section \<open>The table\<close>

definition RESCTRL_MAX_CPUS :: nat where
  "RESCTRL_MAX_CPUS = 4096"

definition CHAR_BIT :: nat where
  "CHAR_BIT = 8"

record resctrl_cpumask =
  cm_tab :: "u8 list"

definition zero_mask :: resctrl_cpumask where
  "zero_mask = \<lparr>cm_tab = replicate (RESCTRL_MAX_CPUS div CHAR_BIT) 0\<rparr>"

definition cpumask_item :: "u32 \<Rightarrow> nat" where
  "cpumask_item core = unat ((of_nat (RESCTRL_MAX_CPUS div CHAR_BIT) - 1) - core div of_nat CHAR_BIT :: u32)"

definition cpumask_bit :: "u32 \<Rightarrow> nat" where
  "cpumask_bit core = unat (core mod of_nat CHAR_BIT)"

definition resctrl_cpumask_set :: "u32 \<Rightarrow> resctrl_cpumask \<Rightarrow> resctrl_cpumask option" where
  "resctrl_cpumask_set core m =
     (let item = cpumask_item core
      in if item < length (cm_tab m)
         then Some (m\<lparr>cm_tab := (cm_tab m)[item := cm_tab m ! item OR push_bit (cpumask_bit core) 1]\<rparr>)
         else None)"

definition resctrl_cpumask_unset :: "u32 \<Rightarrow> resctrl_cpumask \<Rightarrow> resctrl_cpumask option" where
  "resctrl_cpumask_unset core m =
     (let item = cpumask_item core
      in if item < length (cm_tab m)
         then Some (m\<lparr>cm_tab := (cm_tab m)[item := cm_tab m ! item AND NOT (push_bit (cpumask_bit core) 1)]\<rparr>)
         else None)"

definition resctrl_cpumask_get :: "u32 \<Rightarrow> resctrl_cpumask \<Rightarrow> bool option" where
  "resctrl_cpumask_get core m =
     (let item = cpumask_item core
      in if item < length (cm_tab m)
         then Some (drop_bit (cpumask_bit core) (cm_tab m ! item) AND 1 \<noteq> 0)
         else None)"

section \<open>Text\<close>

text \<open>The conversion \<open>%02x\<close> of a byte.\<close>

definition hex2 :: "u8 \<Rightarrow> string" where
  "hex2 v = [digit_char (uint v div 16), digit_char (uint v mod 16)]"

text \<open>
  The text stays below the size of a stdio buffer, so that \<open>fprintf\<close> itself does not fail;
  errors show when the file is closed.
\<close>

fun cpumask_write_loop :: "nat \<Rightarrow> bool \<Rightarrow> u8 list \<Rightarrow> string" where
  "cpumask_write_loop i found_nonzero [] = (if found_nonzero then [] else ''0'')"
| "cpumask_write_loop i found_nonzero (v # vs) =
     (if \<not> found_nonzero \<and> v = 0 then cpumask_write_loop (Suc i) found_nonzero vs
      else hex2 v @ (if (i + 1) mod 4 = 0 then '','' else []) @ cpumask_write_loop (Suc i) True vs)"

definition resctrl_cpumask_write :: "resctrl_cpumask \<Rightarrow> string" where
  "resctrl_cpumask_write m = cpumask_write_loop 0 False (cm_tab m)"

definition hex_num :: "char \<Rightarrow> int option" where
  "hex_num c =
     (let n = (of_char c :: int)
      in if 48 \<le> n \<and> n \<le> 57 then Some (n - 48)
         else if 97 \<le> n \<and> n \<le> 102 then Some (10 + n - 97)
         else if 65 \<le> n \<and> n \<le> 70 then Some (10 + n - 65)
         else None)"

fun cpumask_read_loop :: "string \<Rightarrow> bool \<Rightarrow> int \<Rightarrow> u8 list \<Rightarrow> u8 list" where
  "cpumask_read_loop [] hex_offset idx tab = tab"
| "cpumask_read_loop (c # cs) hex_offset idx tab =
     (case hex_num c of
        None \<Rightarrow> cpumask_read_loop cs hex_offset idx tab
      | Some h \<Rightarrow>
          if \<not> hex_offset then cpumask_read_loop cs True idx (tab[nat idx := of_int h])
          else cpumask_read_loop cs False (idx - 1) (tab[nat idx := tab ! nat idx OR push_bit 4 (of_int h)]))"

text \<open>
  At most 512 characters are read into a buffer whose last character is then cleared;
  the loop goes over it from the end. The argument is the content of the file.
\<close>

definition resctrl_cpumask_read :: "string \<Rightarrow> resctrl_cpumask" where
  "resctrl_cpumask_read file =
     (let cpus = (take (RESCTRL_MAX_CPUS div CHAR_BIT) file)[RESCTRL_MAX_CPUS div CHAR_BIT - 1 := CHR 0x00]
      in zero_mask\<lparr>cm_tab := cpumask_read_loop (rev cpus) False 511 (cm_tab zero_mask)\<rparr>)"

section \<open>Access laws\<close>

text \<open>A table of the declared size.\<close>

definition mask_wf :: "resctrl_cpumask \<Rightarrow> bool" where
  "mask_wf m \<longleftrightarrow> length (cm_tab m) = 512"

lemma zero_mask_tab [simp]: "cm_tab zero_mask = replicate 512 0"
  by (simp add: zero_mask_def RESCTRL_MAX_CPUS_def CHAR_BIT_def)

lemma zero_mask_wf [simp]: "mask_wf zero_mask"
  by (simp add: mask_wf_def)

lemma cpumask_item_nat:
  assumes "core < 4096"
  shows "cpumask_item core = 511 - unat core div 8"
proof -
  have l: "unat core < 4096" using assms by (simp add: word_less_nat_alt)
  have d: "unat (core div 8) = unat core div 8" by (simp add: unat_div_distrib)
  then have "core div 8 \<le> 511" using l by (simp add: word_le_nat_alt)
  then show ?thesis using d by (simp add: cpumask_item_def RESCTRL_MAX_CPUS_def CHAR_BIT_def unat_sub)
qed

lemma cpumask_bit_nat: "cpumask_bit core = unat core mod 8"
  by (simp add: cpumask_bit_def CHAR_BIT_def unat_mod_distrib)

text \<open>Cores beyond the table: the index wraps to a number that no table has.\<close>

lemma cpumask_item_outside:
  assumes "4096 \<le> core"
  shows "512 \<le> cpumask_item core"
proof -
  have "unat (core div 8) = unat core div 8" by (simp add: unat_div_distrib)
  moreover have "4096 \<le> unat core" using assms by (simp add: word_le_nat_alt)
  ultimately have lo: "512 \<le> uint (core div 8)" and hi: "uint (core div 8) < 536870912"
    using unat_less_u32 [of core] by (simp_all add: uint_nat del: unat_less_u32)
  have "uint (511 - core div 8) = (511 - uint (core div 8)) mod 2 ^ 32"
    by (simp add: uint_word_ariths)
  also have "\<dots> = (511 - uint (core div 8) + 2 ^ 32) mod 2 ^ 32" by (rule mod_add_self2 [symmetric])
  also have "\<dots> = 511 - uint (core div 8) + 2 ^ 32" using lo hi by (intro mod_pos_pos_trivial) simp_all
  also have "\<dots> = 4294967807 - uint (core div 8)" by simp
  finally have "512 \<le> uint (511 - core div 8)" using hi by linarith
  then have "512 \<le> nat (uint (511 - core div 8))" by linarith
  then show ?thesis unfolding cpumask_item_def RESCTRL_MAX_CPUS_def CHAR_BIT_def unat_eq_nat_uint by simp
qed

text \<open>The set of cores that a table stands for.\<close>

definition mask_bit :: "resctrl_cpumask \<Rightarrow> nat \<Rightarrow> bool" where
  "mask_bit m l \<longleftrightarrow> bit (cm_tab m ! (511 - l div 8)) (l mod 8)"

lemma cpumask_get_bit:
  "mask_wf m \<Longrightarrow> core < 4096 \<Longrightarrow> resctrl_cpumask_get core m = Some (mask_bit m (unat core))"
  by (simp add: resctrl_cpumask_get_def cpumask_item_nat cpumask_bit_nat mask_wf_def mask_bit_def Let_def
      bit_iff_odd_drop_bit and_one_eq odd_iff_mod_2_eq_one)

lemma mask_index_neq:
  assumes "l < 4096" "k < 4096" "l \<noteq> (k :: nat)" and "511 - l div 8 = 511 - k div 8"
  shows "l mod 8 \<noteq> k mod 8"
proof -
  have "l div 8 \<le> 511" "k div 8 \<le> 511" using assms by linarith+
  with assms(4) have "l div 8 = k div 8" by linarith
  with assms(3) show ?thesis using div_mult_mod_eq [of l 8] div_mult_mod_eq [of k 8] by metis
qed

text \<open>Setting and clearing a core changes that core only.\<close>

lemma bit_set_bit: "bit (w OR 2 ^ n) j \<longleftrightarrow> bit w j \<or> (j = n \<and> n < LENGTH('a))" for w :: "'a::len word"
  by (auto simp: bit_or_iff bit_exp_iff)

lemma bit_unset_bit: "bit (w AND NOT (2 ^ n)) j \<longleftrightarrow> bit w j \<and> j \<noteq> n" for w :: "'a::len word"
  by (auto simp: bit_and_iff bit_not_iff bit_exp_iff dest: bit_imp_le_length)

lemma mask_bit_update:
  assumes "mask_wf m" "core < 4096" and b: "\<And>j. j < 8 \<Longrightarrow> bit w j = (if j = cpumask_bit core then v else bit (cm_tab m ! cpumask_item core) j)"
    and "k < 4096"
  shows "mask_bit (m\<lparr>cm_tab := (cm_tab m)[cpumask_item core := w]\<rparr>) k = (if k = unat core then v else mask_bit m k)"
proof -
  have l: "unat core < 4096" using assms(2) by (simp add: word_less_nat_alt)
  then show ?thesis
    using assms(1,4) b [of "k mod 8"] mask_index_neq [OF assms(4) l]
    by (auto simp: mask_bit_def cpumask_item_nat [OF assms(2)] cpumask_bit_nat mask_wf_def nth_list_update)
qed

lemma cpumask_set_bit:
  assumes "mask_wf m" "core < 4096"
  obtains m' where "resctrl_cpumask_set core m = Some m'" "mask_wf m'"
    and "\<And>k. k < 4096 \<Longrightarrow> mask_bit m' k \<longleftrightarrow> k = unat core \<or> mask_bit m k"
proof
  let ?w = "cm_tab m ! cpumask_item core OR push_bit (cpumask_bit core) 1"
  let ?m = "m\<lparr>cm_tab := (cm_tab m)[cpumask_item core := ?w]\<rparr>"
  show "resctrl_cpumask_set core m = Some ?m"
    using assms by (simp add: resctrl_cpumask_set_def Let_def mask_wf_def cpumask_item_nat)
  show "mask_wf ?m" using assms by (simp add: mask_wf_def)
  show "mask_bit ?m k \<longleftrightarrow> k = unat core \<or> mask_bit m k" if "k < 4096" for k
    by (subst mask_bit_update [OF assms _ that, of _ True]) (auto simp: bit_set_bit cpumask_bit_nat)
qed

lemma cpumask_unset_bit:
  assumes "mask_wf m" "core < 4096"
  obtains m' where "resctrl_cpumask_unset core m = Some m'" "mask_wf m'"
    and "\<And>k. k < 4096 \<Longrightarrow> mask_bit m' k \<longleftrightarrow> k \<noteq> unat core \<and> mask_bit m k"
proof
  let ?w = "cm_tab m ! cpumask_item core AND NOT (push_bit (cpumask_bit core) 1)"
  let ?m = "m\<lparr>cm_tab := (cm_tab m)[cpumask_item core := ?w]\<rparr>"
  show "resctrl_cpumask_unset core m = Some ?m"
    using assms by (simp add: resctrl_cpumask_unset_def Let_def mask_wf_def cpumask_item_nat)
  show "mask_wf ?m" using assms by (simp add: mask_wf_def)
  show "mask_bit ?m k \<longleftrightarrow> k \<noteq> unat core \<and> mask_bit m k" if "k < 4096" for k
    by (subst mask_bit_update [OF assms _ that, of _ False]) (auto simp: bit_unset_bit cpumask_bit_nat)
qed

section \<open>The digits of a mask\<close>

text \<open>The hexadecimal digits of a text, the lowest first, and the bits they stand for.\<close>

definition hex_digits :: "string \<Rightarrow> int list" where
  "hex_digits t = List.map_filter hex_num (rev t)"

definition hex_bit :: "string \<Rightarrow> nat \<Rightarrow> bool" where
  "hex_bit t l \<longleftrightarrow> l div 4 < length (hex_digits t) \<and> bit (hex_digits t ! (l div 4)) (l mod 4)"

text \<open>Pairs of digits as bytes.\<close>

fun pack :: "int list \<Rightarrow> u8 list" where
  "pack [] = []"
| "pack [d] = [of_int d]"
| "pack (d # e # ds) = (of_int d OR push_bit 4 (of_int e)) # pack ds"

lemma length_pack: "length (pack ds) = (length ds + 1) div 2"
  by (induction ds rule: pack.induct) auto

fun digit_loop :: "int list \<Rightarrow> bool \<Rightarrow> int \<Rightarrow> u8 list \<Rightarrow> u8 list" where
  "digit_loop [] hex_offset idx tab = tab"
| "digit_loop (h # hs) hex_offset idx tab =
     (if \<not> hex_offset then digit_loop hs True idx (tab[nat idx := of_int h])
      else digit_loop hs False (idx - 1) (tab[nat idx := tab ! nat idx OR push_bit 4 (of_int h)]))"

lemma read_loop_digit_loop:
  "cpumask_read_loop cs off idx tab = digit_loop (List.map_filter hex_num cs) off idx tab"
  by (induction cs off idx tab rule: cpumask_read_loop.induct) (auto simp: map_filter_simps split: option.splits)

lemma digit_loop_pack:
  assumes "n < length tab" "length ds \<le> 2 * (n + 1)"
  shows "digit_loop ds False (int n) tab = take (n + 1 - length (pack ds)) tab @ rev (pack ds) @ drop (n + 1) tab"
  using assms
proof (induction ds arbitrary: n tab rule: pack.induct)
  case 1
  then show ?case by simp
next
  case (2 d)
  then show ?case by (simp add: upd_conv_take_nth_drop)
next
  case (3 d e ds)
  let ?b = "of_int d OR push_bit 4 (of_int e) :: u8"
  have step: "digit_loop (d # e # ds) False (int n) tab = digit_loop ds False (int n - 1) (tab[n := ?b])"
    using 3 by simp
  show ?case
  proof (cases n)
    case 0
    with 3 have "ds = []" by simp
    with 0 3 show ?thesis by (simp add: upd_conv_take_nth_drop)
  next
    case (Suc j)
    have l: "length (pack ds) \<le> Suc j" using 3 Suc by (simp add: length_pack)
    have "digit_loop ds False (int j) (tab[n := ?b]) =
        take (j + 1 - length (pack ds)) (tab[n := ?b]) @ rev (pack ds) @ drop (j + 1) (tab[n := ?b])"
      using 3 Suc by (intro 3(1)) simp_all
    then show ?thesis
      using 3 Suc l step by (simp add: drop_update_swap Cons_nth_drop_Suc [symmetric])
  qed
qed

lemma hex_num_range: "hex_num c = Some d \<Longrightarrow> 0 \<le> d \<and> d < 16"
  by (auto simp: hex_num_def Let_def split: if_splits)

lemma hex_digits_range: "\<forall>d\<in>set (hex_digits t). 0 \<le> d \<and> d < 16"
proof
  fix d
  assume "d \<in> set (hex_digits t)"
  then obtain c where "hex_num c = Some d" by (auto simp: hex_digits_def List.map_filter_def)
  then show "0 \<le> d \<and> d < 16" by (rule hex_num_range)
qed

lemma small_no_high_bits: "0 \<le> d \<Longrightarrow> d < 16 \<Longrightarrow> bit (d :: int) j \<Longrightarrow> j < 4"
proof (rule ccontr)
  assume d: "0 \<le> d" "d < 16" "bit d j" "\<not> j < 4"
  then have "take_bit 4 d = d" by (intro take_bit_int_eq_self) simp_all
  then have "bit (take_bit 4 d) j" using d(3) by simp
  then show False using d(4) by (simp add: bit_take_bit_iff)
qed

lemma pack_bit:
  assumes "\<forall>d\<in>set ds. 0 \<le> d \<and> d < 16" "l div 8 < length (pack ds)"
  shows "bit (pack ds ! (l div 8)) (l mod 8) \<longleftrightarrow> l div 4 < length ds \<and> bit (ds ! (l div 4)) (l mod 4)"
  using assms
proof (induction ds arbitrary: l rule: pack.induct)
  case 1
  then show ?case by simp
next
  case (2 d)
  then have l: "l < 8" by simp
  have "l div 4 = 0 \<and> l mod 4 = l \<or> l div 4 = 1" using l by auto
  then show ?case
    using 2 l small_no_high_bits [of d l] by (auto simp: bit_of_int_iff div_eq_0_iff)
next
  case (3 d e ds)
  show ?case
  proof (cases "l < 8")
    case True
    have "l div 4 = 0 \<and> l mod 4 = l \<or> l div 4 = 1 \<and> l mod 4 = l - 4 \<and> 4 \<le> l" using True by presburger
    then show ?thesis
      using 3(2) True small_no_high_bits [of d l] by (auto simp: bit_or_iff bit_push_bit_iff bit_of_int_iff div_eq_0_iff)
  next
    case False
    then obtain k where k: "l = 8 + k" using le_iff_add by (metis not_less)
    have "(8 + k) div 4 = Suc (Suc (k div 4))" "(8 + k) mod 4 = k mod 4" "(8 + k) div 8 = Suc (k div 8)" "(8 + k) mod 8 = k mod 8"
      by presburger+
    with 3(1) [of k] 3(2,3) k show ?thesis by simp
  qed
qed

lemma rev_nth_back: "j < length xs \<Longrightarrow> rev xs ! (length xs - Suc j) = xs ! j"
  by (subst rev_nth) (simp_all add: Suc_diff_Suc)

lemma cpumask_read_bits:
  assumes "l < 4096"
  shows "mask_bit (resctrl_cpumask_read t) l \<longleftrightarrow> hex_bit (take 511 t) l"
proof -
  let ?c = "(take 512 t)[511 := CHR 0x00]"
  let ?ds = "hex_digits (take 511 t)"
  have c: "?c = take 511 t @ (if 512 \<le> length t then [CHR 0x00] else [])"
  proof (cases "512 \<le> length t")
    case True
    then have "take 512 t = take 511 t @ [t ! 511]" using take_Suc_conv_app_nth [of 511 t] by simp
    with True show ?thesis by (simp add: list_update_append)
  next
    case False
    then show ?thesis by (simp add: list_update_beyond)
  qed
  have "hex_num (CHR 0x00) = None" by (simp add: hex_num_def)
  then have d: "List.map_filter hex_num (rev ?c) = ?ds" by (simp add: c hex_digits_def map_filter_simps)
  have "length ?ds \<le> length (rev (take 511 t))"
    unfolding hex_digits_def List.map_filter_def length_map by (rule length_filter_le)
  then have n: "length ?ds \<le> 511" by simp
  then have p: "length (pack ?ds) \<le> 256" by (simp add: length_pack)
  have tab: "cm_tab (resctrl_cpumask_read t) = replicate (512 - length (pack ?ds)) 0 @ rev (pack ?ds)"
    using digit_loop_pack [of 511 "replicate 512 0" ?ds] n
    by (simp add: resctrl_cpumask_read_def RESCTRL_MAX_CPUS_def CHAR_BIT_def read_loop_digit_loop d Let_def)
  have i: "l div 8 \<le> 511" using assms by linarith
  show ?thesis
  proof (cases "l div 8 < length (pack ?ds)")
    case True
    then have "511 - l div 8 \<ge> 512 - length (pack ?ds)" "511 - l div 8 - (512 - length (pack ?ds)) = length (pack ?ds) - Suc (l div 8)"
      using i p by linarith+
    with True have "cm_tab (resctrl_cpumask_read t) ! (511 - l div 8) = pack ?ds ! (l div 8)"
      unfolding tab by (simp add: nth_append rev_nth_back)
    then show ?thesis
      using pack_bit [OF hex_digits_range True] by (simp add: mask_bit_def hex_bit_def)
  next
    case False
    then have "511 - l div 8 < 512 - length (pack ?ds)" using i p by linarith
    then have "cm_tab (resctrl_cpumask_read t) ! (511 - l div 8) = 0" unfolding tab by (simp add: nth_append)
    moreover have "\<not> l div 4 < length ?ds" using False by (simp add: length_pack)
    ultimately show ?thesis by (simp add: mask_bit_def hex_bit_def)
  qed
qed

lemma cpumask_read_wf: "mask_wf (resctrl_cpumask_read t)"
proof -
  have "length (digit_loop ds off idx tab) = length tab" for ds off idx tab
    by (induction ds off idx tab rule: digit_loop.induct) simp_all
  then show ?thesis
    by (simp add: mask_wf_def resctrl_cpumask_read_def read_loop_digit_loop Let_def)
qed

text \<open>The digits that the writer prints are those of the bytes.\<close>

definition nibbles :: "u8 \<Rightarrow> int list" where
  "nibbles v = [uint v mod 16, uint v div 16]"

lemma u8_halves: "0 \<le> uint (v :: u8) div 16" "uint v div 16 < 16"
proof -
  have "uint v < 256" using uint_bounded [of v] by simp
  then show "0 \<le> uint v div 16" "uint v div 16 < 16" by (auto simp: pos_imp_zdiv_nonneg_iff)
qed

lemma hex_num_digit_char: "0 \<le> d \<Longrightarrow> d < 16 \<Longrightarrow> hex_num (digit_char d) = Some d"
  by (auto simp: hex_num_def digit_char_def Let_def)

lemma map_filter_hex2: "List.map_filter hex_num (rev (hex2 v)) = nibbles v"
  using u8_halves [of v] by (simp add: hex2_def nibbles_def map_filter_simps hex_num_digit_char)

lemma map_filter_append: "List.map_filter f (xs @ ys) = List.map_filter f xs @ List.map_filter f ys"
  by (simp add: List.map_filter_def)

lemma write_loop_digits:
  "List.map_filter hex_num (rev (cpumask_write_loop i True vs)) = concat (map nibbles (rev vs))"
  by (induction vs arbitrary: i) (simp_all add: map_filter_append map_filter_hex2 map_filter_simps hex_num_def)

lemma write_loop_skip:
  "cpumask_write_loop i False vs =
     (if \<forall>v\<in>set vs. v = 0 then ''0''
      else cpumask_write_loop (i + length (takeWhile (\<lambda>v. v = 0) vs)) True (dropWhile (\<lambda>v. v = 0) vs))"
  by (induction vs arbitrary: i) auto

lemma join_nibbles: "of_int (uint v mod 16) OR push_bit 4 (of_int (uint v div 16)) = (v :: u8)"
proof (rule bit_word_eqI)
  fix n
  assume "n < LENGTH(8)"
  have "uint v mod 16 = take_bit 4 (uint v)" "uint v div 16 = drop_bit 4 (uint v)"
    by (simp_all add: take_bit_eq_mod drop_bit_eq_div)
  with \<open>n < LENGTH(8)\<close> show "bit (of_int (uint v mod 16) OR push_bit 4 (of_int (uint v div 16)) :: u8) n = bit v n"
    by (auto simp: bit_or_iff bit_push_bit_iff bit_of_int_iff bit_take_bit_iff bit_drop_bit_eq bit_uint_iff)
qed

lemma pack_nibbles: "pack (concat (map nibbles bs)) = bs"
  by (induction bs) (simp_all add: nibbles_def join_nibbles)

lemma write_digits:
  "pack (hex_digits (resctrl_cpumask_write m)) =
     (if \<forall>v\<in>set (cm_tab m). v = 0 then [0] else rev (dropWhile (\<lambda>v. v = 0) (cm_tab m)))"
  by (simp add: resctrl_cpumask_write_def hex_digits_def write_loop_skip write_loop_digits pack_nibbles map_filter_simps hex_num_def)

lemma hex_bit_pack:
  "hex_bit t l \<longleftrightarrow> l div 8 < length (pack (hex_digits t)) \<and> bit (pack (hex_digits t) ! (l div 8)) (l mod 8)"
proof (cases "l div 8 < length (pack (hex_digits t))")
  case True
  then show ?thesis using pack_bit [OF hex_digits_range True] by (simp add: hex_bit_def)
next
  case False
  then have "\<not> l div 4 < length (hex_digits t)" by (simp add: length_pack)
  with False show ?thesis by (simp add: hex_bit_def)
qed

text \<open>What is printed has the bits of the table.\<close>

lemma cpumask_write_bits:
  assumes "mask_wf m" "l < 4096"
  shows "hex_bit (resctrl_cpumask_write m) l \<longleftrightarrow> mask_bit m l"
proof -
  let ?z = "takeWhile (\<lambda>v. v = 0) (cm_tab m)" and ?d = "dropWhile (\<lambda>v. v = 0) (cm_tab m)"
  have tab: "cm_tab m = ?z @ ?d" by simp
  have len: "length ?z + length ?d = 512" using assms(1) unfolding mask_wf_def length_append [symmetric] by simp
  have i: "l div 8 \<le> 511" using assms(2) by linarith
  have zero: "cm_tab m ! (511 - l div 8) = 0" if "length ?d \<le> l div 8"
  proof -
    have "511 - l div 8 < length ?z" using that len i by linarith
    then show ?thesis using takeWhile_nth [of "511 - l div 8" "\<lambda>v. v = 0" "cm_tab m"] nth_mem [of "511 - l div 8" ?z]
      by (metis (mono_tags, lifting) set_takeWhileD)
  qed
  have digit: "cm_tab m ! (511 - l div 8) = rev ?d ! (l div 8)" if "l div 8 < length ?d"
  proof -
    let ?j = "length ?d - Suc (l div 8)"
    have "rev ?d ! (l div 8) = ?d ! ?j" using that by (rule rev_nth)
    also have "\<dots> = cm_tab m ! (?j + length ?z)" using that by (intro dropWhile_nth) linarith
    finally show ?thesis using that len by (simp add: diff_add_assoc2 [symmetric] add.commute)
  qed
  show ?thesis
  proof (cases "\<forall>v\<in>set (cm_tab m). v = 0")
    case True
    then have "cm_tab m ! (511 - l div 8) = 0" using assms i by (simp add: mask_wf_def)
    then show ?thesis using True by (auto simp: hex_bit_pack write_digits mask_bit_def)
  next
    case False
    then have "pack (hex_digits (resctrl_cpumask_write m)) = rev ?d" unfolding write_digits by (rule if_not_P)
    then show ?thesis
      using zero digit by (cases "l div 8 < length ?d") (simp_all add: hex_bit_pack mask_bit_def)
  qed
qed

lemma mask_eqI:
  assumes "mask_wf m" "mask_wf m'" "\<And>l. l < 4096 \<Longrightarrow> mask_bit m l = mask_bit m' l"
  shows "m = m'"
proof -
  have "cm_tab m = cm_tab m'"
  proof (rule nth_equalityI)
    show "length (cm_tab m) = length (cm_tab m')" using assms by (simp add: mask_wf_def)
    fix i
    assume "i < length (cm_tab m)"
    then have i: "i < 512" using assms by (simp add: mask_wf_def)
    show "cm_tab m ! i = cm_tab m' ! i"
    proof (rule bit_word_eqI)
      fix n
      assume n: "n < LENGTH(8)"
      let ?l = "8 * (511 - i) + n"
      have "?l div 8 = 511 - i" "?l mod 8 = n" "?l < 4096" using n i by simp_all
      with assms(3) [of ?l] i show "bit (cm_tab m ! i) n = bit (cm_tab m' ! i) n" by (simp add: mask_bit_def)
    qed
  qed
  then show ?thesis by (cases m; cases m') simp
qed

lemma length_write_loop:
  "length (cpumask_write_loop i True vs) = 2 * length vs + ((i + length vs) div 4 - i div 4)"
proof (induction vs arbitrary: i)
  case Nil
  then show ?case by simp
next
  case (Cons v vs)
  have "(Suc i) div 4 = (if (i + 1) mod 4 = 0 then Suc (i div 4) else i div 4)" by (simp add: div_Suc)
  moreover have "(Suc i) div 4 \<le> (Suc i + length vs) div 4" by (intro div_le_mono) simp
  moreover have "i div 4 \<le> (Suc i) div 4" by (intro div_le_mono) simp
  ultimately show ?case using Cons [of "Suc i"] by (simp add: hex2_def split: if_splits)
qed

lemma cpumask_write_nonempty: "resctrl_cpumask_write m \<noteq> []"
proof -
  have "cpumask_write_loop i True vs \<noteq> []" if "vs \<noteq> []" for i vs
    using that by (cases vs) (simp_all add: hex2_def)
  then show ?thesis by (auto simp: resctrl_cpumask_write_def write_loop_skip)
qed

text \<open>With no core above 1815 the text fits the reader's buffer.\<close>

lemma write_length:
  assumes "mask_wf m" and low: "\<forall>k<4096. mask_bit m k \<longrightarrow> k < 1816"
  shows "length (resctrl_cpumask_write m) \<le> 511"
proof (cases "\<forall>v\<in>set (cm_tab m). v = 0")
  case True
  then show ?thesis by (simp add: resctrl_cpumask_write_def write_loop_skip)
next
  case False
  let ?z = "takeWhile (\<lambda>v. v = 0) (cm_tab m)" and ?d = "dropWhile (\<lambda>v. v = 0) (cm_tab m)"
  have "length (?z @ ?d) = 512" using assms(1) by (simp add: mask_wf_def)
  then have len: "length ?z + length ?d = 512" by (simp only: length_append)
  have ne: "?d \<noteq> []" using False by auto
  then have z: "length ?z < 512" using len by (metis add_cancel_right_right length_greater_0_conv less_add_same_cancel1)
  have "cm_tab m ! length ?z \<noteq> 0"
    using ne hd_dropWhile [of "\<lambda>v. v = 0" "cm_tab m"] hd_conv_nth [OF ne] nth_length_takeWhile [of "\<lambda>v. v = 0" "cm_tab m"] z assms(1)
    by (simp add: mask_wf_def)
  then obtain n where n: "bit (cm_tab m ! length ?z) n" "n < 8" using bit_imp_le_length bit_word_eqI [of "cm_tab m ! length ?z" 0] by fastforce
  let ?l = "8 * (511 - length ?z) + n"
  have "?l div 8 = 511 - length ?z" "?l mod 8 = n" "?l < 4096" using n z by simp_all
  with n z have "mask_bit m ?l" by (simp add: mask_bit_def)
  with low \<open>?l < 4096\<close> have "?l < 1816" by blast
  then have "285 \<le> length ?z" using z by linarith
  then have "length ?z div 4 \<ge> 71" by linarith
  with len \<open>285 \<le> length ?z\<close> show ?thesis using False by (simp add: resctrl_cpumask_write_def write_loop_skip length_write_loop)
qed

text \<open>
  C33. CPU masks survive a trip through a resctrl file: parsing what
  \<open>resctrl_cpumask_write\<close> prints gives back the same table of 512 bytes, as long as no
  core above 1815 is in it.
\<close>

theorem cpumask_write_read:
  assumes "mask_wf m" and "\<forall>k<4096. mask_bit m k \<longrightarrow> k < 1816"
  shows "resctrl_cpumask_read (resctrl_cpumask_write m) = m"
proof (rule mask_eqI [OF cpumask_read_wf assms(1)])
  fix l :: nat
  assume "l < 4096"
  then show "mask_bit (resctrl_cpumask_read (resctrl_cpumask_write m)) l = mask_bit m l"
    using write_length [OF assms] cpumask_write_bits [OF assms(1)] by (simp add: cpumask_read_bits)
qed

theorem cpumask_write_read_witness:
  "\<exists>m. resctrl_cpumask_set 1815 zero_mask = Some m \<and> resctrl_cpumask_read (resctrl_cpumask_write m) = m \<and>
     resctrl_cpumask_get 1815 m = Some True"
proof -
  obtain m where m: "resctrl_cpumask_set 1815 zero_mask = Some m" "mask_wf m"
    "\<And>k. k < 4096 \<Longrightarrow> mask_bit m k \<longleftrightarrow> k = unat (1815 :: u32) \<or> mask_bit zero_mask k"
    using cpumask_set_bit [of zero_mask 1815] by auto
  have zero: "\<not> mask_bit zero_mask k" for k by (simp add: mask_bit_def)
  have "resctrl_cpumask_read (resctrl_cpumask_write m) = m" by (rule cpumask_write_read) (auto simp: m zero)
  moreover have "resctrl_cpumask_get 1815 m = Some True" by (simp add: cpumask_get_bit m)
  ultimately show ?thesis using m(1) by blast
qed

lemma write_loop_append:
  "cpumask_write_loop i True (us @ vs) = cpumask_write_loop i True us @ cpumask_write_loop (i + length us) True vs"
  by (induction us arbitrary: i) simp_all

lemma concat_zero_nibbles: "concat (map nibbles (replicate n 0)) = replicate (2 * n) 0"
  by (induction n) (simp_all add: nibbles_def)

lemma digits_of_1816:
  assumes "cm_tab m = replicate 284 0 @ 1 # replicate 227 0"
  shows "hex_digits (take 511 (resctrl_cpumask_write m)) = replicate 453 0 @ [1, 0]"
proof -
  let ?vs = "1 # replicate 226 (0 :: u8)"
  let ?s = "cpumask_write_loop 284 True ?vs"
  have "replicate 227 (0 :: u8) = replicate 226 0 @ [0]"
    using replicate_append_same [of 226 "0 :: u8"] replicate_Suc [of 226 "0 :: u8"] by (simp del: replicate_Suc)
  then have tab: "cm_tab m = replicate 284 0 @ (?vs @ [0])" using assms by simp
  have "length ?s = 510" by (simp only: length_write_loop length_Cons length_replicate) simp
  have skip: "takeWhile (\<lambda>v. v = 0) (replicate 284 0 @ (?vs @ [0])) = replicate 284 0"
    "dropWhile (\<lambda>v. v = 0) (replicate 284 0 @ (?vs @ [0])) = ?vs @ [0]"
    by (simp_all add: takeWhile_append dropWhile_append)
  have "resctrl_cpumask_write m = cpumask_write_loop 284 True (?vs @ [0])"
    unfolding resctrl_cpumask_write_def tab write_loop_skip skip by (simp)
  also have "\<dots> = ?s @ cpumask_write_loop 511 True [0]"
    by (simp only: write_loop_append length_Cons length_replicate) simp
  also have "cpumask_write_loop 511 True [0] = ''00,''" by code_simp
  finally have "take 511 (resctrl_cpumask_write m) = ?s @ ''0''" using \<open>length ?s = 510\<close> by simp
  then have "hex_digits (take 511 (resctrl_cpumask_write m)) = 0 # concat (map nibbles (rev ?vs))"
    by (simp only: hex_digits_def rev_append map_filter_append write_loop_digits) (simp add: map_filter_simps hex_num_def)
  also have "\<dots> = 0 # replicate 452 0 @ [1, 0]"
    using concat_zero_nibbles [of 226] by (simp add: nibbles_def)
  also have "\<dots> = replicate (Suc 452) 0 @ [1, 0]" unfolding replicate_Suc by simp
  finally show ?thesis by simp
qed

text \<open>
  The bound is sharp and the error silent. \<open>resctrl_cpumask_read\<close> reads 512 characters
  although the text of a mask needs more than two per byte of the table: the mask of core
  1816, which has a text of 513 characters, is read back as the mask of core 1812.
\<close>

theorem cpumask_read_truncates:
  "resctrl_cpumask_read (resctrl_cpumask_write (the (resctrl_cpumask_set 1816 zero_mask))) = the (resctrl_cpumask_set 1812 zero_mask)"
proof -
  have zero: "\<not> mask_bit zero_mask k" for k by (simp add: mask_bit_def)
  obtain m where m: "resctrl_cpumask_set 1812 zero_mask = Some m" "mask_wf m"
    "\<And>k. k < 4096 \<Longrightarrow> mask_bit m k \<longleftrightarrow> k = unat (1812 :: u32) \<or> mask_bit zero_mask k"
    using cpumask_set_bit [of zero_mask 1812] by auto
  have item: "cpumask_item 1816 = 284" "cpumask_bit 1816 = 0" by (simp_all add: cpumask_item_nat cpumask_bit_nat)
  have r: "replicate 512 (0 :: u8) = replicate 284 0 @ 0 # replicate 227 0"
    using replicate_add [of 284 228 "0 :: u8"] replicate_Suc [of 227 "0 :: u8"] by (simp del: replicate_Suc)
  have "cm_tab (the (resctrl_cpumask_set 1816 zero_mask)) = replicate 284 0 @ 1 # replicate 227 0"
    by (simp add: resctrl_cpumask_set_def Let_def item r list_update_append nth_append)
  note d = digits_of_1816 [OF this]
  show ?thesis unfolding m option.sel
  proof (rule mask_eqI [OF cpumask_read_wf m(2)])
    fix l :: nat
    assume l: "l < 4096"
    have "hex_bit (take 511 (resctrl_cpumask_write (the (resctrl_cpumask_set 1816 zero_mask)))) l \<longleftrightarrow> l = 1812"
      unfolding hex_bit_def d by (auto simp: nth_append nth_Cons bit_1_iff split: nat.splits)
    then show "mask_bit (resctrl_cpumask_read (resctrl_cpumask_write (the (resctrl_cpumask_set 1816 zero_mask)))) l = mask_bit m l"
      using l by (simp add: cpumask_read_bits m zero)
  qed
qed

end
