(* ===== verification/ResctrlAlloc.thy ===== *)
theory ResctrlAlloc
  imports Cpumask Schemata
begin

text \<open>
  Classes of service as groups of the resctrl file system (\<open>lib/resctrl_alloc.c\<close>), with the
  file helpers of \<open>lib/common.c\<close>, the lock of \<open>lib/resctrl.c\<close> and the association of cores
  with monitoring groups in \<open>lib/resctrl_monitoring.c\<close> that it calls. The system calls
  belong to the record \<open>resctrl_os\<close>.
\<close>

section \<open>System calls\<close>

record file_stat =
  st_mode :: u32
  st_ino :: u64
  st_dev :: u64

datatype lock_type = LOCK_SH | LOCK_EX

text \<open>
  A file is named by its path. Reading delivers \<open>fs_content\<close> and leaves the machine alone;
  \<open>fs_fopen_w\<close> opens (and truncates) a file for writing; what is printed stays in the stdio
  buffer until \<open>fs_fclose_w\<close> hands it to the kernel, whose answer is the error number, 0
  for success. \<open>fs_fstat\<close> is \<open>fstat\<close> on the file opened under that path, \<open>os_kill0\<close> says
  whether \<open>kill (task, 0)\<close> succeeds, \<open>fs_flock\<close> whether the lock is obtained before the
  alarm.
\<close>

record 'h resctrl_os =
  fs_lstat :: "string \<Rightarrow> 'h \<Rightarrow> file_stat option"
  fs_fstat :: "string \<Rightarrow> 'h \<Rightarrow> file_stat option"
  fs_fopen_r :: "string \<Rightarrow> 'h \<Rightarrow> bool"
  fs_content :: "string \<Rightarrow> 'h \<Rightarrow> string"
  fs_ferror :: "string \<Rightarrow> 'h \<Rightarrow> bool"
  fs_fclose_r :: "string \<Rightarrow> 'h \<Rightarrow> bool"
  fs_fopen_w :: "string \<Rightarrow> 'h \<Rightarrow> 'h option"
  fs_fclose_w :: "string \<Rightarrow> string \<Rightarrow> 'h \<Rightarrow> int \<times> 'h"
  fs_mkdir :: "string \<Rightarrow> 'h \<Rightarrow> int \<times> 'h"
  fs_scandir :: "string \<Rightarrow> 'h \<Rightarrow> string list option"
  fs_open_dir :: "string \<Rightarrow> 'h \<Rightarrow> int"
  fs_flock :: "int \<Rightarrow> lock_type \<Rightarrow> 'h \<Rightarrow> bool"
  os_kill0 :: "int \<Rightarrow> 'h \<Rightarrow> bool"

text \<open>The library's state on this interface: \<open>supported_events\<close> and \<open>resctrl_lock_fd\<close> are added.\<close>

record 'h rlib = "'h lib" +
  supported_events :: u32
  resctrl_lock_fd :: int

definition ESRCH :: int where
  "ESRCH = 3"

definition EEXIST :: int where
  "EEXIST = 17"

section \<open>Opening files\<close>

text \<open>A file that is a symbolic link shows in the comparison of the two status records.\<close>

definition pqos_fopen_r :: "'h resctrl_os \<Rightarrow> string \<Rightarrow> 'h \<Rightarrow> bool" where
  "pqos_fopen_r K name h =
     (case fs_lstat K name h of
        None \<Rightarrow> False
      | Some l \<Rightarrow> fs_fopen_r K name h \<and> fs_fstat K name h = Some l)"

definition pqos_fopen_w :: "'h resctrl_os \<Rightarrow> string \<Rightarrow> 'h \<Rightarrow> bool \<times> 'h" where
  "pqos_fopen_w K name h =
     (case fs_lstat K name h of
        None \<Rightarrow> (False, h)
      | Some l \<Rightarrow>
          (case fs_fopen_w K name h of
             None \<Rightarrow> (False, h)
           | Some h' \<Rightarrow> if fs_fstat K name h' = Some l then (True, h') else (False, snd (fs_fclose_w K name [] h'))))"

section \<open>The lock\<close>

definition RESCTRL_PATH :: string where
  "RESCTRL_PATH = ''/sys/fs/resctrl''"

definition resctrl_lock :: "'h resctrl_os \<Rightarrow> lock_type \<Rightarrow> 'h rlib \<Rightarrow> retval \<times> 'h rlib" where
  "resctrl_lock K ty s =
     (let fd = fs_open_dir K RESCTRL_PATH (m_hw s); s = s\<lparr>resctrl_lock_fd := fd\<rparr>
      in if fd < 0 then (PQOS_RETVAL_ERROR, s)
         else if fs_flock K fd ty (m_hw s) then (PQOS_RETVAL_OK, s)
         else (PQOS_RETVAL_ERROR, s\<lparr>resctrl_lock_fd := - 1\<rparr>))"

definition resctrl_lock_shared :: "'h resctrl_os \<Rightarrow> 'h rlib \<Rightarrow> retval \<times> 'h rlib" where
  "resctrl_lock_shared K = resctrl_lock K LOCK_SH"

definition resctrl_lock_exclusive :: "'h resctrl_os \<Rightarrow> 'h rlib \<Rightarrow> retval \<times> 'h rlib" where
  "resctrl_lock_exclusive K = resctrl_lock K LOCK_EX"

text \<open>A failure to unlock is only reported to the log.\<close>

definition resctrl_lock_release :: "'h rlib \<Rightarrow> retval \<times> 'h rlib" where
  "resctrl_lock_release s =
     (if resctrl_lock_fd s < 0 then (PQOS_RETVAL_ERROR, s) else (PQOS_RETVAL_OK, s\<lparr>resctrl_lock_fd := - 1\<rparr>))"

section \<open>The number of groups\<close>

definition smaller_clos :: "u32 \<Rightarrow> u32 \<Rightarrow> u32" where
  "smaller_clos max_rctl_grps num_clos =
     (if max_rctl_grps = 0 then num_clos else if num_clos < max_rctl_grps then num_clos else max_rctl_grps)"

text \<open>The class count of a capability's type; other types have none.\<close>

definition type_clos_num :: "pqos_cap \<Rightarrow> pqos_capability \<Rightarrow> (u32 res) option" where
  "type_clos_num cap p =
     (case cap_type p of
        PQOS_CAP_TYPE_L3CA \<Rightarrow> Some (pqos_l3ca_get_clos_num (Some cap))
      | PQOS_CAP_TYPE_L2CA \<Rightarrow> Some (pqos_l2ca_get_clos_num (Some cap))
      | PQOS_CAP_TYPE_MBA \<Rightarrow> Some (pqos_mba_get_clos_num (Some cap))
      | PQOS_CAP_TYPE_SMBA \<Rightarrow> Some (pqos_smba_get_clos_num (Some cap))
      | _ \<Rightarrow> None)"

fun grps_num_loop :: "pqos_cap \<Rightarrow> pqos_capability list \<Rightarrow> u32 \<Rightarrow> u32 res" where
  "grps_num_loop cap [] max_rctl_grps = Inr max_rctl_grps"
| "grps_num_loop cap (p # ps) max_rctl_grps =
     (case type_clos_num cap p of
        None \<Rightarrow> grps_num_loop cap ps max_rctl_grps
      | Some (Inl e) \<Rightarrow> Inl e
      | Some (Inr n) \<Rightarrow> grps_num_loop cap ps (smaller_clos max_rctl_grps n))"

definition resctrl_alloc_get_grps_num :: "pqos_cap \<Rightarrow> u32 res" where
  "resctrl_alloc_get_grps_num cap = grps_num_loop cap cap 0"

section \<open>Files of a class\<close>

text \<open>\<open>snprintf\<close> into 127 characters.\<close>

definition resctrl_alloc_path :: "u32 \<Rightarrow> string \<Rightarrow> string" where
  "resctrl_alloc_path class_id name =
     take 126 (if class_id = 0 then RESCTRL_PATH @ ''/'' @ name
               else RESCTRL_PATH @ ''/COS'' @ show_num 10 (uint class_id) @ ''/'' @ name)"

definition resctrl_alloc_fopen_r :: "'h resctrl_os \<Rightarrow> u32 \<Rightarrow> string \<Rightarrow> 'h rlib \<Rightarrow> bool" where
  "resctrl_alloc_fopen_r K class_id name s = pqos_fopen_r K (resctrl_alloc_path class_id name) (m_hw s)"

definition resctrl_alloc_fopen_w :: "'h resctrl_os \<Rightarrow> u32 \<Rightarrow> string \<Rightarrow> 'h rlib \<Rightarrow> bool \<times> 'h rlib" where
  "resctrl_alloc_fopen_w K class_id name s =
     (case pqos_fopen_w K (resctrl_alloc_path class_id name) (m_hw s) of (fd, h) \<Rightarrow> (fd, s\<lparr>m_hw := h\<rparr>))"

definition resctrl_alloc_fclose_r :: "'h resctrl_os \<Rightarrow> u32 \<Rightarrow> string \<Rightarrow> 'h rlib \<Rightarrow> retval" where
  "resctrl_alloc_fclose_r K class_id name s =
     (if fs_fclose_r K (resctrl_alloc_path class_id name) (m_hw s) then PQOS_RETVAL_OK else PQOS_RETVAL_ERROR)"

text \<open>Closing with the text printed so far; the error number is part of the answer (\<open>errno\<close>).\<close>

definition resctrl_alloc_fclose_w :: "'h resctrl_os \<Rightarrow> u32 \<Rightarrow> string \<Rightarrow> string \<Rightarrow> 'h rlib \<Rightarrow> retval \<times> int \<times> 'h rlib" where
  "resctrl_alloc_fclose_w K class_id name txt s =
     (case fs_fclose_w K (resctrl_alloc_path class_id name) txt (m_hw s) of
        (e, h) \<Rightarrow> (if e = 0 then PQOS_RETVAL_OK else PQOS_RETVAL_ERROR, e, s\<lparr>m_hw := h\<rparr>))"

abbreviation class_content :: "'h resctrl_os \<Rightarrow> u32 \<Rightarrow> string \<Rightarrow> 'h rlib \<Rightarrow> string" where
  "class_content K class_id name s \<equiv> fs_content K (resctrl_alloc_path class_id name) (m_hw s)"

definition resctrl_alloc_cpumask_write :: "'h resctrl_os \<Rightarrow> u32 \<Rightarrow> resctrl_cpumask \<Rightarrow> 'h rlib \<Rightarrow> retval \<times> 'h rlib" where
  "resctrl_alloc_cpumask_write K class_id m s =
     (case resctrl_alloc_fopen_w K class_id ''cpus'' s of (fd, s) \<Rightarrow>
        if \<not> fd then (PQOS_RETVAL_ERROR, s)
        else (case resctrl_alloc_fclose_w K class_id ''cpus'' (resctrl_cpumask_write m) s of (ret, _, s) \<Rightarrow> (ret, s)))"

definition resctrl_alloc_cpumask_read :: "'h resctrl_os \<Rightarrow> u32 \<Rightarrow> 'h rlib \<Rightarrow> resctrl_cpumask res" where
  "resctrl_alloc_cpumask_read K class_id s =
     (if \<not> resctrl_alloc_fopen_r K class_id ''cpus'' s then Inl PQOS_RETVAL_ERROR
      else if resctrl_alloc_fclose_r K class_id ''cpus'' s \<noteq> PQOS_RETVAL_OK then Inl PQOS_RETVAL_ERROR
      else if fs_ferror K (resctrl_alloc_path class_id ''cpus'') (m_hw s) then Inl PQOS_RETVAL_ERROR
      else Inr (resctrl_cpumask_read (class_content K class_id ''cpus'' s)))"

text \<open>The table is filled as far as the text could be parsed, also when the answer is an error.\<close>

definition resctrl_alloc_schemata_read :: "'h resctrl_os \<Rightarrow> u32 \<Rightarrow> resctrl_schemata \<Rightarrow> 'h rlib \<Rightarrow> retval \<times> resctrl_schemata" where
  "resctrl_alloc_schemata_read K class_id schemata s =
     (if \<not> resctrl_alloc_fopen_r K class_id ''schemata'' s then (PQOS_RETVAL_ERROR, schemata)
      else (case resctrl_schemata_read (class_content K class_id ''schemata'' s) schemata of (ret, schemata) \<Rightarrow>
              (if ret = PQOS_RETVAL_OK then resctrl_alloc_fclose_r K class_id ''schemata'' s else ret, schemata)))"

definition PQOS_TECHNOLOGY_L3CA :: u32 where
  "PQOS_TECHNOLOGY_L3CA = 2"

definition PQOS_TECHNOLOGY_L2CA :: u32 where
  "PQOS_TECHNOLOGY_L2CA = 4"

definition PQOS_TECHNOLOGY_MBA :: u32 where
  "PQOS_TECHNOLOGY_MBA = 8"

definition PQOS_TECHNOLOGY_SMBA :: u32 where
  "PQOS_TECHNOLOGY_SMBA = 16"

definition schemata_text :: "u32 \<Rightarrow> resctrl_schemata \<Rightarrow> string" where
  "schemata_text technology schemata =
     (if technology AND PQOS_TECHNOLOGY_L3CA = PQOS_TECHNOLOGY_L3CA then resctrl_schemata_l3ca_write schemata else []) @
     (if technology AND PQOS_TECHNOLOGY_L2CA = PQOS_TECHNOLOGY_L2CA then resctrl_schemata_l2ca_write schemata else []) @
     (if technology AND PQOS_TECHNOLOGY_MBA = PQOS_TECHNOLOGY_MBA then resctrl_schemata_mba_write schemata else []) @
     (if technology AND PQOS_TECHNOLOGY_SMBA = PQOS_TECHNOLOGY_SMBA then resctrl_schemata_smba_write schemata else [])"

text \<open>The stdio buffer holds 16 KB, more than the text, so that the kernel sees one write.\<close>

definition resctrl_alloc_schemata_write ::
  "'h resctrl_os \<Rightarrow> u32 \<Rightarrow> u32 \<Rightarrow> resctrl_schemata \<Rightarrow> 'h rlib \<Rightarrow> retval \<times> 'h rlib" where
  "resctrl_alloc_schemata_write K class_id technology schemata s =
     (case resctrl_alloc_fopen_w K class_id ''schemata'' s of (fd, s) \<Rightarrow>
        if \<not> fd then (PQOS_RETVAL_ERROR, s)
        else (case resctrl_alloc_fclose_w K class_id ''schemata'' (schemata_text technology schemata) s of (ret, _, s) \<Rightarrow> (ret, s)))"

section \<open>Tasks\<close>

definition resctrl_alloc_task_validate :: "'h resctrl_os \<Rightarrow> int \<Rightarrow> 'h rlib \<Rightarrow> retval" where
  "resctrl_alloc_task_validate K task s = (if os_kill0 K task (m_hw s) then PQOS_RETVAL_OK else PQOS_RETVAL_ERROR)"

text \<open>The conversion \<open>%d\<close>.\<close>

definition show_int :: "int \<Rightarrow> string" where
  "show_int n = (if n < 0 then CHR ''-'' # show_num 10 (- n) else show_num 10 n)"

definition resctrl_alloc_task_write :: "'h resctrl_os \<Rightarrow> u32 \<Rightarrow> int \<Rightarrow> 'h rlib \<Rightarrow> retval \<times> 'h rlib" where
  "resctrl_alloc_task_write K class_id task s =
     (if resctrl_alloc_task_validate K task s \<noteq> PQOS_RETVAL_OK then (PQOS_RETVAL_PARAM, s)
      else (case resctrl_alloc_fopen_w K class_id ''tasks'' s of (fd, s) \<Rightarrow>
              if \<not> fd then (PQOS_RETVAL_ERROR, s)
              else (case resctrl_alloc_fclose_w K class_id ''tasks'' (show_int task @ [CHR 0x0A]) s of (ret, errno, s) \<Rightarrow>
                      (if ret \<noteq> PQOS_RETVAL_OK \<and> errno = ESRCH then PQOS_RETVAL_PARAM else ret, s))))"

definition task_lines :: "string \<Rightarrow> string list" where
  "task_lines content = map c_str (fgets_lines 127 127 [] content)"

text \<open>\<open>None\<close> is the NULL that stands for every failure; ids are cut to \<open>unsigned\<close>.\<close>

fun task_read_loop :: "string list \<Rightarrow> u32 list option" where
  "task_read_loop [] = Some []"
| "task_read_loop (buf # bufs) =
     (case resctrl_utils_strtouint64 buf 10 of
        Inl _ \<Rightarrow> None
      | Inr tmp \<Rightarrow> map_option (\<lambda>ts. ucast tmp # ts) (task_read_loop bufs))"

definition resctrl_alloc_task_read :: "'h resctrl_os \<Rightarrow> u32 \<Rightarrow> 'h rlib \<Rightarrow> u32 list option" where
  "resctrl_alloc_task_read K class_id s =
     (if \<not> resctrl_alloc_fopen_r K class_id ''tasks'' s then None
      else task_read_loop (task_lines (class_content K class_id ''tasks'' s)))"

text \<open>Lines that are no number are skipped; the id is converted to the signed \<open>pid_t\<close>.\<close>

definition task_listed :: "int \<Rightarrow> string \<Rightarrow> bool" where
  "task_listed task content \<longleftrightarrow>
     (\<exists>buf\<in>set (task_lines content).
        case resctrl_utils_strtouint64 buf 10 of Inl _ \<Rightarrow> False | Inr tid \<Rightarrow> task = sint (ucast tid :: u32))"

fun task_search_loop :: "'h resctrl_os \<Rightarrow> int \<Rightarrow> u32 list \<Rightarrow> 'h rlib \<Rightarrow> u32 res" where
  "task_search_loop K task [] s = Inl PQOS_RETVAL_ERROR"
| "task_search_loop K task (i # is) s =
     (if \<not> resctrl_alloc_fopen_r K i ''tasks'' s then Inl PQOS_RETVAL_ERROR
      else if resctrl_alloc_fclose_r K i ''tasks'' s \<noteq> PQOS_RETVAL_OK then Inl PQOS_RETVAL_ERROR
      else if task_listed task (class_content K i ''tasks'' s) then Inr i
      else task_search_loop K task is s)"

text \<open>The classes from the highest down; the loop variable is compared as a signed number.\<close>

definition resctrl_alloc_task_search :: "'h resctrl_os \<Rightarrow> pqos_cap \<Rightarrow> int \<Rightarrow> 'h rlib \<Rightarrow> u32 res" where
  "resctrl_alloc_task_search K cap task s =
     (if resctrl_alloc_task_validate K task s \<noteq> PQOS_RETVAL_OK then Inl PQOS_RETVAL_PARAM
      else (case resctrl_alloc_get_grps_num cap of
              Inl e \<Rightarrow> Inl e
            | Inr max_clos \<Rightarrow>
                if max_clos = 0 then Inl PQOS_RETVAL_ERROR
                else if sint (max_clos - 1) < 0 then Inl PQOS_RETVAL_ERROR
                else task_search_loop K task (map of_nat (rev [0..<unat max_clos])) s))"

definition resctrl_alloc_task_file_check :: "'h resctrl_os \<Rightarrow> u32 \<Rightarrow> bool \<Rightarrow> 'h rlib \<Rightarrow> bool res" where
  "resctrl_alloc_task_file_check K class_id found s =
     (if \<not> resctrl_alloc_fopen_r K class_id ''tasks'' s then Inl PQOS_RETVAL_ERROR
      else if resctrl_alloc_fclose_r K class_id ''tasks'' s \<noteq> PQOS_RETVAL_OK then Inl PQOS_RETVAL_ERROR
      else Inr (found \<or> fgets_lines 127 127 [] (class_content K class_id ''tasks'' s) \<noteq> []))"

section \<open>The group of a core\<close>

text \<open>
  \<open>None\<close> in the outer option is an access outside of the mask table. The answer OK with no
  class (\<open>Inr None\<close>) leaves the caller's variable as it was.
\<close>

fun assoc_get_loop :: "'h resctrl_os \<Rightarrow> u32 \<Rightarrow> u32 list \<Rightarrow> 'h rlib \<Rightarrow> u32 option res option" where
  "assoc_get_loop K core [] s = Some (Inr None)"
| "assoc_get_loop K core (i # is) s =
     (case resctrl_alloc_cpumask_read K i s of
        Inl e \<Rightarrow> Some (Inl e)
      | Inr m \<Rightarrow>
          (case resctrl_cpumask_get core m of
             None \<Rightarrow> None
           | Some b \<Rightarrow> if b then Some (Inr (Some i)) else assoc_get_loop K core is s))"

definition resctrl_alloc_assoc_get :: "'h resctrl_os \<Rightarrow> u32 \<Rightarrow> 'h rlib \<Rightarrow> u32 option res option" where
  "resctrl_alloc_assoc_get K core s =
     (case resctrl_alloc_get_grps_num (m_cap s) of
        Inl e \<Rightarrow> Some (Inl e)
      | Inr grps \<Rightarrow> assoc_get_loop K core (map of_nat [0..<unat grps]) s)"

section \<open>Monitoring groups\<close>

definition resctrl_mon_is_supported :: "'h rlib \<Rightarrow> bool" where
  "resctrl_mon_is_supported s \<longleftrightarrow> supported_events s \<noteq> 0"

definition alloc_assoc_get :: "'h resctrl_os \<Rightarrow> u32 \<Rightarrow> 'h rlib \<Rightarrow> u32 option res option" where
  "alloc_assoc_get K core s =
     (case resctrl_alloc_get_grps_num (m_cap s) of
        Inl e \<Rightarrow> Some (Inl e)
      | Inr max_clos \<Rightarrow> if max_clos = 0 then Some (Inr (Some 0)) else resctrl_alloc_assoc_get K core s)"

definition resctrl_mon_group_path :: "u32 \<Rightarrow> string option \<Rightarrow> string \<Rightarrow> nat \<Rightarrow> string res" where
  "resctrl_mon_group_path class_id resctrl_group suffix buf_size =
     (let cos = (if class_id = 0 then [] else ''/COS'' @ show_num 10 (uint class_id));
          path = RESCTRL_PATH @ cos @
                 (case resctrl_group of None \<Rightarrow> [] | Some g \<Rightarrow> ''/mon_groups/'' @ g) @ suffix
      in if buf_size \<le> length path then Inl PQOS_RETVAL_ERROR else Inr path)"

definition resctrl_mon_cpumask_write :: "'h resctrl_os \<Rightarrow> u32 \<Rightarrow> string \<Rightarrow> resctrl_cpumask \<Rightarrow> 'h rlib \<Rightarrow> retval \<times> 'h rlib" where
  "resctrl_mon_cpumask_write K class_id resctrl_group m s =
     (case resctrl_mon_group_path class_id (Some resctrl_group) ''/cpus'' 128 of
        Inl e \<Rightarrow> (e, s)
      | Inr path \<Rightarrow>
          (case pqos_fopen_w K path (m_hw s) of (fd, h) \<Rightarrow>
             if \<not> fd then (PQOS_RETVAL_ERROR, s\<lparr>m_hw := h\<rparr>)
             else (case fs_fclose_w K path (resctrl_cpumask_write m) h of (e, h) \<Rightarrow>
                     (if e \<noteq> 0 then PQOS_RETVAL_ERROR else PQOS_RETVAL_OK, s\<lparr>m_hw := h\<rparr>))))"

definition resctrl_mon_cpumask_read :: "'h resctrl_os \<Rightarrow> u32 \<Rightarrow> string \<Rightarrow> 'h rlib \<Rightarrow> resctrl_cpumask res" where
  "resctrl_mon_cpumask_read K class_id resctrl_group s =
     (case resctrl_mon_group_path class_id (Some resctrl_group) ''/cpus'' 128 of
        Inl e \<Rightarrow> Inl e
      | Inr path \<Rightarrow>
          if \<not> pqos_fopen_r K path (m_hw s) then Inl PQOS_RETVAL_ERROR
          else if fs_ferror K path (m_hw s) then Inl PQOS_RETVAL_ERROR
          else Inr (resctrl_cpumask_read (fs_content K path (m_hw s))))"

definition resctrl_mon_mkdir :: "'h resctrl_os \<Rightarrow> u32 \<Rightarrow> string \<Rightarrow> 'h rlib \<Rightarrow> retval \<times> 'h rlib" where
  "resctrl_mon_mkdir K class_id name s =
     (case resctrl_mon_group_path class_id (Some name) [] 128 of
        Inl _ \<Rightarrow> (PQOS_RETVAL_ERROR, s)
      | Inr path \<Rightarrow>
          (case fs_mkdir K path (m_hw s) of (e, h) \<Rightarrow>
             (if e \<noteq> 0 \<and> e \<noteq> EEXIST then PQOS_RETVAL_BUSY else PQOS_RETVAL_OK, s\<lparr>m_hw := h\<rparr>)))"

definition RESCTRL_MON_GROUP_NAME_SIZE :: nat where
  "RESCTRL_MON_GROUP_NAME_SIZE = 256"

definition resctrl_mon_name_copy :: "nat \<Rightarrow> string \<Rightarrow> string res" where
  "resctrl_mon_name_copy dst_size src = (if dst_size < length src + 1 then Inl PQOS_RETVAL_PARAM else Inr src)"

fun mon_assoc_get_loop :: "'h resctrl_os \<Rightarrow> u32 \<Rightarrow> u32 \<Rightarrow> nat \<Rightarrow> string list \<Rightarrow> 'h rlib \<Rightarrow> string res option" where
  "mon_assoc_get_loop K core class_id name_size [] s = Some (Inl PQOS_RETVAL_RESOURCE)"
| "mon_assoc_get_loop K core class_id name_size (d # ds) s =
     (case resctrl_mon_cpumask_read K class_id d s of
        Inl e \<Rightarrow> Some (Inl e)
      | Inr m \<Rightarrow>
          (case resctrl_cpumask_get core m of
             None \<Rightarrow> None
           | Some b \<Rightarrow> if b then Some (resctrl_mon_name_copy name_size d) else mon_assoc_get_loop K core class_id name_size ds s))"

text \<open>
  The directory entries without the hidden ones. With no class found the code goes on with
  an uninitialised class number, which is \<open>None\<close> here.
\<close>

definition resctrl_mon_assoc_get :: "'h resctrl_os \<Rightarrow> u32 \<Rightarrow> nat \<Rightarrow> 'h rlib \<Rightarrow> string res option" where
  "resctrl_mon_assoc_get K core name_size s =
     (if \<not> resctrl_mon_is_supported s then Some (Inl PQOS_RETVAL_RESOURCE)
      else (case alloc_assoc_get K core s of
              None \<Rightarrow> None
            | Some (Inl e) \<Rightarrow> Some (Inl e)
            | Some (Inr None) \<Rightarrow> None
            | Some (Inr (Some class_id)) \<Rightarrow>
                (case resctrl_mon_group_path class_id (Some []) [] 256 of
                   Inl e \<Rightarrow> Some (Inl e)
                 | Inr dir \<Rightarrow>
                     (case fs_scandir K dir (m_hw s) of
                        None \<Rightarrow> Some (Inl PQOS_RETVAL_ERROR)
                      | Some names \<Rightarrow>
                          mon_assoc_get_loop K core class_id name_size (filter (\<lambda>d. take 1 d \<noteq> ''.'') names) s))))"

text \<open>Here the class number is initialised with 0.\<close>

definition resctrl_mon_assoc_set :: "'h resctrl_os \<Rightarrow> u32 \<Rightarrow> string \<Rightarrow> 'h rlib \<Rightarrow> (retval \<times> 'h rlib) option" where
  "resctrl_mon_assoc_set K core name s =
     (if \<not> resctrl_mon_is_supported s then Some (PQOS_RETVAL_RESOURCE, s)
      else (case alloc_assoc_get K core s of
              None \<Rightarrow> None
            | Some (Inl e) \<Rightarrow> Some (e, s)
            | Some (Inr c) \<Rightarrow>
                (let class_id = (case c of None \<Rightarrow> 0 | Some i \<Rightarrow> i)
                 in case resctrl_mon_mkdir K class_id name s of (ret, s) \<Rightarrow>
                      if ret \<noteq> PQOS_RETVAL_OK then Some (ret, s)
                      else (case resctrl_mon_cpumask_read K class_id name s of
                              Inl e \<Rightarrow> Some (e, s)
                            | Inr m \<Rightarrow>
                                (case resctrl_cpumask_set core m of
                                   None \<Rightarrow> None
                                 | Some m \<Rightarrow> Some (resctrl_mon_cpumask_write K class_id name m s))))))"

section \<open>Association\<close>

definition resctrl_alloc_assoc_set :: "'h resctrl_os \<Rightarrow> u32 \<Rightarrow> u32 \<Rightarrow> 'h rlib \<Rightarrow> (retval \<times> 'h rlib) option" where
  "resctrl_alloc_assoc_set K core class_id s =
     (case resctrl_mon_assoc_get K core RESCTRL_MON_GROUP_NAME_SIZE s of
        None \<Rightarrow> None
      | Some ret_mon \<Rightarrow>
          (case resctrl_alloc_cpumask_read K class_id s of
             Inl e \<Rightarrow> Some (e, s)
           | Inr m \<Rightarrow>
               (case resctrl_cpumask_set core m of
                  None \<Rightarrow> None
                | Some m \<Rightarrow>
                    (case resctrl_alloc_cpumask_write K class_id m s of (ret, s) \<Rightarrow>
                       (case ret_mon of
                          Inl _ \<Rightarrow> Some (ret, s)
                        | Inr name \<Rightarrow> map_option (\<lambda>(_, s). (ret, s)) (resctrl_mon_assoc_set K core name s))))))"

definition resctrl_alloc_assoc_set_pid :: "'h resctrl_os \<Rightarrow> int \<Rightarrow> u32 \<Rightarrow> 'h rlib \<Rightarrow> retval \<times> 'h rlib" where
  "resctrl_alloc_assoc_set_pid K task class_id s = resctrl_alloc_task_write K class_id task s"

definition resctrl_alloc_assoc_get_pid :: "'h resctrl_os \<Rightarrow> int \<Rightarrow> 'h rlib \<Rightarrow> u32 res" where
  "resctrl_alloc_assoc_get_pid K task s = resctrl_alloc_task_search K (m_cap s) task s"

section \<open>The search for an unused group\<close>

text \<open>The table \<open>used_groups\<close>, filled from the highest group down; group 0 is never looked at.\<close>

fun used_groups_loop :: "'h resctrl_os \<Rightarrow> nat \<Rightarrow> bool list \<Rightarrow> 'h rlib \<Rightarrow> bool list res" where
  "used_groups_loop K 0 used s = Inr used"
| "used_groups_loop K (Suc i) used s =
     (case resctrl_alloc_cpumask_read K (of_nat (Suc i)) s of
        Inl e \<Rightarrow> Inl e
      | Inr m \<Rightarrow>
          if \<exists>v\<in>set (cm_tab m). 0 < v then used_groups_loop K i (used[Suc i := True]) s
          else (case resctrl_alloc_task_file_check K (of_nat (Suc i)) (used ! Suc i) s of
                  Inl e \<Rightarrow> Inl e
                | Inr f \<Rightarrow> used_groups_loop K i (used[Suc i := f]) s))"

fun unused_group_loop :: "bool list \<Rightarrow> nat \<Rightarrow> u32 res" where
  "unused_group_loop used 0 = Inl PQOS_RETVAL_RESOURCE"
| "unused_group_loop used (Suc i) = (if \<not> used ! Suc i then Inr (of_nat (Suc i)) else unused_group_loop used i)"

definition resctrl_alloc_get_unused_group :: "'h resctrl_os \<Rightarrow> u32 \<Rightarrow> 'h rlib \<Rightarrow> u32 res" where
  "resctrl_alloc_get_unused_group K grps_num s =
     (if grps_num = 0 then Inl PQOS_RETVAL_PARAM
      else (case used_groups_loop K (unat grps_num - 1) (replicate (unat grps_num) False) s of
              Inl e \<Rightarrow> Inl e
            | Inr used \<Rightarrow> unused_group_loop used (unat grps_num - 1)))"

end
