(* ===== verification/ResctrlKernel.thy ===== *)
theory ResctrlKernel
  imports ResctrlAlloc RefPlatform
begin

text \<open>
  What the resctrl functions achieve on a file system that behaves as documented. The
  locale \<open>resctrl_kernel\<close> states the behaviour of the \<open>cpus\<close> files: which core
  belongs to which group is the abstract state \<open>owner\<close>.
\<close>

section \<open>The number of groups\<close>

definition class_counts :: "pqos_cap \<Rightarrow> u32 set" where
  "class_counts cap = {n. pqos_l3ca_get_clos_num (Some cap) = Inr n \<or> pqos_l2ca_get_clos_num (Some cap) = Inr n \<or>
     pqos_mba_get_clos_num (Some cap) = Inr n \<or> pqos_smba_get_clos_num (Some cap) = Inr n}"

lemma type_clos_num_present:
  assumes "p \<in> set cap" "type_clos_num cap p = Some r"
  shows "\<exists>n\<in>class_counts cap. r = Inr n"
proof -
  note pr = l3clos.get_num_present [of cap] l2clos.get_num_present [of cap] mbaclos.get_num_present [of cap] smbaclos.get_num_present [of cap]
  show ?thesis
    using assms pr by (fastforce simp: type_clos_num_def class_counts_def split: pqos_cap_type.splits)
qed

lemma class_count_of_type:
  assumes "n \<in> class_counts cap"
  shows "\<exists>p\<in>set cap. type_clos_num cap p = Some (Inr n)"
proof -
  note pr = l3clos.get_num_present [of cap] l2clos.get_num_present [of cap] mbaclos.get_num_present [of cap] smbaclos.get_num_present [of cap]
  consider "pqos_l3ca_get_clos_num (Some cap) = Inr n" | "pqos_l2ca_get_clos_num (Some cap) = Inr n"
    | "pqos_mba_get_clos_num (Some cap) = Inr n" | "pqos_smba_get_clos_num (Some cap) = Inr n"
    using assms unfolding class_counts_def by blast
  then show ?thesis
  proof cases
    case 1
    with pr(1) obtain p where "p \<in> set cap" "cap_type p = PQOS_CAP_TYPE_L3CA" by blast
    then have "type_clos_num cap p = Some (Inr n)" using 1 by (auto simp: type_clos_num_def)
    with \<open>p \<in> set cap\<close> show ?thesis by blast
  next
    case 2
    with pr(2) obtain p where "p \<in> set cap" "cap_type p = PQOS_CAP_TYPE_L2CA" by blast
    then have "type_clos_num cap p = Some (Inr n)" using 2 by (auto simp: type_clos_num_def)
    with \<open>p \<in> set cap\<close> show ?thesis by blast
  next
    case 3
    with pr(3) obtain p where "p \<in> set cap" "cap_type p = PQOS_CAP_TYPE_MBA" by blast
    then have "type_clos_num cap p = Some (Inr n)" using 3 by (auto simp: type_clos_num_def)
    with \<open>p \<in> set cap\<close> show ?thesis by blast
  next
    case 4
    with pr(4) obtain p where "p \<in> set cap" "cap_type p = PQOS_CAP_TYPE_SMBA" by blast
    then have "type_clos_num cap p = Some (Inr n)" using 4 by (auto simp: type_clos_num_def)
    with \<open>p \<in> set cap\<close> show ?thesis by blast
  qed
qed

definition counted :: "pqos_cap \<Rightarrow> pqos_capability list \<Rightarrow> u32 set" where
  "counted cap ps = {n. \<exists>p\<in>set ps. type_clos_num cap p = Some (Inr n)}"

lemma counted_Cons:
  "counted cap (p # ps) = (case type_clos_num cap p of Some (Inr n) \<Rightarrow> insert n (counted cap ps) | _ \<Rightarrow> counted cap ps)"
  by (auto simp: counted_def split: option.splits sum.splits)

lemma finite_counted [simp]: "finite (counted cap ps)"
  by (simp add: finite)

lemma grps_loop_min:
  assumes "set ps \<subseteq> set cap" "0 \<notin> class_counts cap"
  shows "grps_num_loop cap ps m = Inr (if m = 0 then if counted cap ps = {} then 0 else Min (counted cap ps) else Min (insert m (counted cap ps)))"
  using assms(1)
proof (induction ps arbitrary: m)
  case Nil
  then show ?case by (simp add: counted_def)
next
  case (Cons p ps)
  show ?case
  proof (cases "type_clos_num cap p")
    case None
    with Cons show ?thesis by (simp add: counted_Cons)
  next
    case (Some r)
    with Cons.prems type_clos_num_present [of p cap r] obtain n where n: "r = Inr n" "n \<in> class_counts cap" by auto
    then have nz: "n \<noteq> 0" using assms(2) by metis
    have c: "counted cap (p # ps) = insert n (counted cap ps)" by (simp add: counted_Cons Some n)
    have "grps_num_loop cap (p # ps) m = grps_num_loop cap ps (smaller_clos m n)" by (simp add: Some n)
    also have "\<dots> = Inr (Min (insert (smaller_clos m n) (counted cap ps)))"
      using Cons nz by (simp add: smaller_clos_def)
    also have "smaller_clos m n = (if m = 0 then n else min m n)" by (auto simp: smaller_clos_def min_def)
    finally show ?thesis unfolding c
      by (cases "counted cap ps = {}") (simp_all add: Min_insert2 insert_commute min.assoc)
  qed
qed

text \<open>
  The number of resctrl groups that the library uses is the smallest number of classes
  among the allocation technologies of the machine, and 0 when there are none. (The
  technologies present have at least one class.)
\<close>

theorem grps_num_min:
  assumes "0 \<notin> class_counts cap"
  shows "resctrl_alloc_get_grps_num cap = Inr (if class_counts cap = {} then 0 else Min (class_counts cap))"
proof -
  have "counted cap cap = class_counts cap"
    using type_clos_num_present [of _ cap] class_count_of_type [of _ cap] by (fastforce simp: counted_def)
  with grps_loop_min [OF subset_refl assms, of 0] show ?thesis by (simp add: resctrl_alloc_get_grps_num_def)
qed

section \<open>The files of the groups\<close>

lemma some_class_below:
  assumes "set js = {..<n}" "n < 2 ^ 32"
  shows "(\<exists>j\<in>set js. x = Some (of_nat j)) \<longleftrightarrow> (\<exists>c :: u32. x = Some c \<and> unat c < n)"
proof
  assume "\<exists>j\<in>set js. x = Some (of_nat j)"
  then obtain j where "j < n" "x = Some (of_nat j)" using assms(1) by auto
  moreover have "unat (of_nat j :: u32) = j" using \<open>j < n\<close> assms(2) by (simp add: unat_of_nat_u32)
  ultimately show "\<exists>c. x = Some c \<and> unat c < n" by simp
next
  assume "\<exists>c. x = Some c \<and> unat c < n"
  then obtain c where "x = Some c" "unat c < n" by blast
  then show "\<exists>j\<in>set js. x = Some (of_nat j)" using assms(1) by (intro bexI [of _ "unat c"]) simp_all
qed

abbreviation cpus_path :: "nat \<Rightarrow> string" where
  "cpus_path i \<equiv> resctrl_alloc_path (of_nat i) ''cpus''"

text \<open>
  The kernel's documentation of the \<open>cpus\<close> file: reading it shows the mask of the cores that
  the group owns; writing a mask adds its cores to the group, taking them from their
  owners, and returns cores that are no longer in it to the default group; a refused
  write changes nothing. Monitoring groups do not change the owner of a core. The groups
  below \<open>grps\<close> exist, and their texts fit the library's buffer; no core has a number
  above 4095.
\<close>

locale resctrl_kernel =
  fixes K :: "'h resctrl_os" and owner :: "'h \<Rightarrow> nat \<Rightarrow> u32 option" and grps :: nat
  assumes cpus_readable: "i < grps \<Longrightarrow> pqos_fopen_r K (cpus_path i) h \<and> fs_fclose_r K (cpus_path i) h \<and> \<not> fs_ferror K (cpus_path i) h"
    and cpus_text: "i < grps \<Longrightarrow> l < 4096 \<Longrightarrow> hex_bit (fs_content K (cpus_path i) h) l \<longleftrightarrow> owner h l = Some (of_nat i)"
    and cpus_fits: "i < grps \<Longrightarrow> length (fs_content K (cpus_path i) h) \<le> 511"
    and open_keeps: "fs_fopen_w K p h = Some h' \<Longrightarrow> owner h' = owner h"
    and unwritten_keeps: "owner (snd (fs_fclose_w K p [] h)) = owner h"
    and cpus_written: "i < grps \<Longrightarrow> t \<noteq> [] \<Longrightarrow> fs_fclose_w K (cpus_path i) t h = (0, h') \<Longrightarrow>
      owner h' l = (case owner h l of None \<Rightarrow> None
        | Some c \<Rightarrow> Some (if l < 4096 \<and> hex_bit t l then of_nat i else if c = of_nat i then 0 else c))"
    and cpus_refused: "fs_fclose_w K (cpus_path i) t h = (e, h') \<Longrightarrow> e \<noteq> 0 \<Longrightarrow> owner h' = owner h"
    and mon_written: "resctrl_mon_group_path c (Some g) ''/cpus'' 128 = Inr p \<Longrightarrow> owner (snd (fs_fclose_w K p t h)) = owner h"
    and mkdir_keeps: "owner (snd (fs_mkdir K p h)) = owner h"
    and high_cores: "4096 \<le> l \<Longrightarrow> owner h l = None"
begin

lemma read_mask:
  assumes "i < grps"
  obtains m where "resctrl_alloc_cpumask_read K (of_nat i) s = Inr m" "mask_wf m"
    and "\<And>l. l < 4096 \<Longrightarrow> mask_bit m l \<longleftrightarrow> owner (m_hw s) l = Some (of_nat i)"
proof
  let ?t = "fs_content K (cpus_path i) (m_hw s)"
  show "resctrl_alloc_cpumask_read K (of_nat i) s = Inr (resctrl_cpumask_read ?t)"
    using cpus_readable [OF assms, of "m_hw s"]
    by (simp add: resctrl_alloc_cpumask_read_def resctrl_alloc_fopen_r_def resctrl_alloc_fclose_r_def)
  show "mask_wf (resctrl_cpumask_read ?t)" by (rule cpumask_read_wf)
  show "mask_bit (resctrl_cpumask_read ?t) l \<longleftrightarrow> owner (m_hw s) l = Some (of_nat i)" if "l < 4096" for l
    using cpus_text [OF assms that] cpus_fits [OF assms] by (simp add: cpumask_read_bits [OF that])
qed

lemma get_loop_owner:
  assumes "core < 4096" "set js \<subseteq> {..<grps}"
  shows "assoc_get_loop K core (map of_nat js) s =
    Some (Inr (if \<exists>j\<in>set js. owner (m_hw s) (unat core) = Some (of_nat j) then owner (m_hw s) (unat core) else None))"
  using assms(2)
proof (induction js)
  case Nil
  then show ?case by simp
next
  case (Cons j js)
  then have "j < grps" by simp
  from read_mask [OF this] obtain m where m: "resctrl_alloc_cpumask_read K (of_nat j) s = Inr m" "mask_wf m"
    "\<And>l. l < 4096 \<Longrightarrow> mask_bit m l \<longleftrightarrow> owner (m_hw s) l = Some (of_nat j)" by blast
  have c: "unat core < 4096" using assms(1) by (simp add: word_less_nat_alt)
  show ?case using Cons m(3) [OF c] by (simp add: m(1) cpumask_get_bit [OF m(2) assms(1)])
qed

definition groups_known :: "'h rlib \<Rightarrow> bool" where
  "groups_known s \<longleftrightarrow> resctrl_alloc_get_grps_num (m_cap s) = Inr (of_nat grps) \<and> grps < 2 ^ 32"

text \<open>The answer for a core is its owner.\<close>

lemma assoc_get_owner:
  assumes "groups_known s" "core < 4096"
  shows "resctrl_alloc_assoc_get K core s =
    Some (Inr (case owner (m_hw s) (unat core) of None \<Rightarrow> None | Some c \<Rightarrow> if unat c < grps then Some c else None))"
proof -
  have g: "unat (of_nat grps :: u32) = grps" using assms(1) by (simp add: groups_known_def unat_of_nat_u32)
  have e: "(\<exists>j\<in>set [0..<grps]. x = Some (of_nat j)) \<longleftrightarrow> (\<exists>c. x = Some c \<and> unat c < grps)" for x :: "u32 option"
    by (rule some_class_below) (use assms(1) in \<open>simp_all add: groups_known_def lessThan_atLeast0\<close>)
  have "resctrl_alloc_assoc_get K core s = assoc_get_loop K core (map of_nat [0..<grps]) s"
    using assms(1) g by (simp add: resctrl_alloc_assoc_get_def groups_known_def)
  also have "\<dots> = Some (Inr (if \<exists>j\<in>set [0..<grps]. owner (m_hw s) (unat core) = Some (of_nat j) then owner (m_hw s) (unat core) else None))"
    by (rule get_loop_owner [OF assms(2)]) auto
  finally show ?thesis unfolding e by (simp split: option.splits)
qed

lemma fopen_w_keeps: "pqos_fopen_w K p h = (b, h') \<Longrightarrow> owner h' = owner h"
  using unwritten_keeps [of p] open_keeps [of p h]
  by (auto simp: pqos_fopen_w_def split: option.splits if_splits)

text \<open>Writing the mask of a group.\<close>

lemma mask_written:
  assumes "i < grps" "mask_wf m" "resctrl_alloc_cpumask_write K (of_nat i) m s = (ret, s')"
  shows "owner (m_hw s') l = (if ret \<noteq> PQOS_RETVAL_OK then owner (m_hw s) l
      else case owner (m_hw s) l of None \<Rightarrow> None
        | Some c \<Rightarrow> Some (if l < 4096 \<and> mask_bit m l then of_nat i else if c = of_nat i then 0 else c))"
    and "m_cap s' = m_cap s" and "m_cpu s' = m_cpu s" and "supported_events s' = supported_events s"
proof -
  let ?t = "resctrl_cpumask_write m" and ?p = "cpus_path i"
  obtain b h where o: "pqos_fopen_w K ?p (m_hw s) = (b, h)" by fastforce
  obtain e h' where c: "fs_fclose_w K ?p ?t h = (e, h')" by fastforce
  have s': "(ret, s') = (if \<not> b then (PQOS_RETVAL_ERROR, s\<lparr>m_hw := h\<rparr>)
      else (if e = 0 then PQOS_RETVAL_OK else PQOS_RETVAL_ERROR, s\<lparr>m_hw := h'\<rparr>))"
    using assms(3) o c by (cases b) (simp_all add: resctrl_alloc_cpumask_write_def resctrl_alloc_fopen_w_def resctrl_alloc_fclose_w_def)
  then show "m_cap s' = m_cap s" "m_cpu s' = m_cpu s" "supported_events s' = supported_events s" by (auto split: if_splits)
  have "?t \<noteq> []" by (simp add: cpumask_write_nonempty)
  with cpus_written [OF assms(1) this, of h h' l] cpus_refused [OF c] c s' fopen_w_keeps [OF o] cpumask_write_bits [OF assms(2)]
  show "owner (m_hw s') l = (if ret \<noteq> PQOS_RETVAL_OK then owner (m_hw s) l
      else case owner (m_hw s) l of None \<Rightarrow> None
        | Some c \<Rightarrow> Some (if l < 4096 \<and> mask_bit m l then of_nat i else if c = of_nat i then 0 else c))"
    by (auto split: if_splits option.splits)
qed

lemma mon_cpumask_write_keeps:
  assumes "resctrl_mon_cpumask_write K c g m s = (ret, s')"
  shows "owner (m_hw s') = owner (m_hw s) \<and> m_cap s' = m_cap s"
proof (cases "resctrl_mon_group_path c (Some g) ''/cpus'' 128")
  case (Inl e)
  with assms show ?thesis by (simp add: resctrl_mon_cpumask_write_def)
next
  case (Inr p)
  obtain b h where o: "pqos_fopen_w K p (m_hw s) = (b, h)" by fastforce
  obtain e h' where f: "fs_fclose_w K p (resctrl_cpumask_write m) h = (e, h')" by fastforce
  from assms have "s' = s\<lparr>m_hw := if b then h' else h\<rparr>"
    by (cases b) (simp_all add: resctrl_mon_cpumask_write_def Inr o f)
  then show ?thesis
    using fopen_w_keeps [OF o] mon_written [OF Inr, of "resctrl_cpumask_write m" h] f by simp
qed

lemma mon_cpumask_read_wf: "resctrl_mon_cpumask_read K c g s = Inr m \<Longrightarrow> mask_wf m"
  by (auto simp: resctrl_mon_cpumask_read_def cpumask_read_wf split: sum.splits if_splits)

lemma mon_get_defined:
  assumes "core < 4096"
  shows "mon_assoc_get_loop K core c n ds s \<noteq> None"
  by (induction ds)
    (auto simp: cpumask_get_bit [OF mon_cpumask_read_wf assms] split: sum.splits option.splits)

text \<open>A core whose group the library knows.\<close>

definition known_core :: "'h rlib \<Rightarrow> u32 \<Rightarrow> bool" where
  "known_core s core \<longleftrightarrow> core < 4096 \<and> (\<exists>c. owner (m_hw s) (unat core) = Some c \<and> unat c < grps)"

lemma alloc_assoc_get_known:
  assumes "groups_known s" "known_core s core"
  shows "\<exists>c. alloc_assoc_get K core s = Some (Inr (Some c))"
  using assms assoc_get_owner [OF assms(1), of core]
  by (auto simp: alloc_assoc_get_def groups_known_def known_core_def)

lemma mon_assoc_get_defined:
  assumes "groups_known s" "known_core s core"
  shows "resctrl_mon_assoc_get K core n s \<noteq> None"
  using alloc_assoc_get_known [OF assms] mon_get_defined [of core] assms(2)
  by (auto simp: resctrl_mon_assoc_get_def known_core_def split: sum.splits option.splits)

lemma mon_assoc_set_keeps:
  assumes "groups_known s" "known_core s core"
  obtains ret s' where "resctrl_mon_assoc_set K core name s = Some (ret, s')"
    and "owner (m_hw s') = owner (m_hw s)" and "m_cap s' = m_cap s"
proof (cases "resctrl_mon_is_supported s")
  case False
  then show thesis by (intro that [of PQOS_RETVAL_RESOURCE s]) (simp_all add: resctrl_mon_assoc_set_def)
next
  case True
  obtain c where c: "alloc_assoc_get K core s = Some (Inr (Some c))" using alloc_assoc_get_known [OF assms] by blast
  obtain r s1 where mk: "resctrl_mon_mkdir K c name s = (r, s1)" by fastforce
  have k1: "owner (m_hw s1) = owner (m_hw s) \<and> m_cap s1 = m_cap s"
    using mk mkdir_keeps by (auto simp: resctrl_mon_mkdir_def split: sum.splits prod.splits) (metis snd_conv)
  show thesis
  proof (cases "r = PQOS_RETVAL_OK")
    case False
    then show thesis using True c mk k1 by (intro that [of r s1]) (simp_all add: resctrl_mon_assoc_set_def)
  next
    case OK: True
    show thesis
    proof (cases "resctrl_mon_cpumask_read K c name s1")
      case (Inl e)
      then show thesis using True OK c mk k1 by (intro that [of e s1]) (simp_all add: resctrl_mon_assoc_set_def)
    next
      case (Inr m)
      have cc: "core < 4096" using assms(2) by (simp add: known_core_def)
      obtain m' where m': "resctrl_cpumask_set core m = Some m'" using cpumask_set_bit [OF mon_cpumask_read_wf [OF Inr] cc] by blast
      obtain r2 s2 where w: "resctrl_mon_cpumask_write K c name m' s1 = (r2, s2)" by fastforce
      from True OK c mk Inr m' w mon_cpumask_write_keeps [OF w] k1 show thesis
        by (intro that [of r2 s2]) (simp_all add: resctrl_mon_assoc_set_def)
    qed
  qed
qed

text \<open>Association as an update of the owner.\<close>

lemma assoc_set_owner:
  assumes known: "groups_known s" "known_core s core" and i: "i < grps"
  obtains ret s' where "resctrl_alloc_assoc_set K core (of_nat i) s = Some (ret, s')" and "m_cap s' = m_cap s"
    and "owner (m_hw s') = (if ret = PQOS_RETVAL_OK then (owner (m_hw s))(unat core := Some (of_nat i)) else owner (m_hw s))"
proof -
  have cc: "core < 4096" using known(2) by (simp add: known_core_def)
  obtain rm where rm: "resctrl_mon_assoc_get K core RESCTRL_MON_GROUP_NAME_SIZE s = Some rm"
    using mon_assoc_get_defined [OF known] by blast
  from read_mask [OF i] obtain m where m: "resctrl_alloc_cpumask_read K (of_nat i) s = Inr m" "mask_wf m"
    "\<And>l. l < 4096 \<Longrightarrow> mask_bit m l \<longleftrightarrow> owner (m_hw s) l = Some (of_nat i)" by blast
  from cpumask_set_bit [OF m(2) cc] obtain m' where m': "resctrl_cpumask_set core m = Some m'" "mask_wf m'"
    "\<And>k. k < 4096 \<Longrightarrow> mask_bit m' k \<longleftrightarrow> k = unat core \<or> mask_bit m k" by blast
  obtain ret s1 where w: "resctrl_alloc_cpumask_write K (of_nat i) m' s = (ret, s1)" by fastforce
  note mw = mask_written [OF i m'(2) w]
  have c4: "unat core < 4096" using cc by (simp add: word_less_nat_alt)
  have o1: "owner (m_hw s1) = (if ret = PQOS_RETVAL_OK then (owner (m_hw s))(unat core := Some (of_nat i)) else owner (m_hw s))"
  proof
    fix l
    show "owner (m_hw s1) l = (if ret = PQOS_RETVAL_OK then (owner (m_hw s))(unat core := Some (of_nat i)) else owner (m_hw s)) l"
      using known(2) m(3) [of l] m'(3) [of l] c4 high_cores [of l] by (auto simp: mw(1) known_core_def split: option.splits)
  qed
  show thesis
  proof (cases rm)
    case (Inl e)
    then show thesis using rm m m' w mw(2) o1 by (intro that [of ret s1]) (simp_all add: resctrl_alloc_assoc_set_def)
  next
    case (Inr name)
    have g1: "groups_known s1" using known(1) mw(2) by (simp add: groups_known_def)
    have "known_core s1 core"
      using known o1 i by (auto simp: known_core_def groups_known_def unat_of_nat_u32)
    from mon_assoc_set_keeps [OF g1 this] obtain r2 s2 where r2: "resctrl_mon_assoc_set K core name s1 = Some (r2, s2)"
      "owner (m_hw s2) = owner (m_hw s1)" "m_cap s2 = m_cap s1" by blast
    from rm m m' w mw(2) o1 r2 Inr show thesis
      by (intro that [of ret s2]) (simp_all add: resctrl_alloc_assoc_set_def)
  qed
qed

end

section \<open>The search for an unused group\<close>

definition group_free :: "'h resctrl_os \<Rightarrow> 'h rlib \<Rightarrow> nat \<Rightarrow> bool" where
  "group_free K s i \<longleftrightarrow> (\<exists>m. resctrl_alloc_cpumask_read K (of_nat i) s = Inr m \<and> (\<forall>v\<in>set (cm_tab m). v = 0)) \<and>
     class_content K (of_nat i) ''tasks'' s = []"

definition group_readable :: "'h resctrl_os \<Rightarrow> 'h rlib \<Rightarrow> nat \<Rightarrow> bool" where
  "group_readable K s i \<longleftrightarrow> (\<exists>m. resctrl_alloc_cpumask_read K (of_nat i) s = Inr m) \<and>
     resctrl_alloc_fopen_r K (of_nat i) ''tasks'' s \<and> resctrl_alloc_fclose_r K (of_nat i) ''tasks'' s = PQOS_RETVAL_OK"

lemma fgets_lines_Nil_iff: "fgets_lines n k acc cs = [] \<longleftrightarrow> acc = [] \<and> cs = []"
  by (induction n k acc cs rule: fgets_lines.induct) auto

lemma used_groups_table:
  assumes "\<forall>j. 0 < j \<and> j \<le> i \<longrightarrow> group_readable K s j \<and> \<not> used ! j" "i < length used"
  shows "used_groups_loop K i used s = Inr (map (\<lambda>j. if 0 < j \<and> j \<le> i then \<not> group_free K s j else used ! j) [0..<length used])"
  using assms
proof (induction i arbitrary: used)
  case 0
  then show ?case by (auto intro!: nth_equalityI)
next
  case (Suc i)
  from Suc.prems have r: "group_readable K s (Suc i)" and u: "\<not> used ! Suc i" by auto
  then obtain m where m: "resctrl_alloc_cpumask_read K (of_nat (Suc i)) s = Inr m" by (auto simp: group_readable_def)
  let ?f = "\<not> group_free K s (Suc i)"
  have f: "group_free K s (Suc i) \<longleftrightarrow> (\<forall>v\<in>set (cm_tab m). v = 0) \<and> class_content K (of_nat (Suc i)) ''tasks'' s = []"
    unfolding group_free_def m by auto
  have pos: "(\<exists>v\<in>set (cm_tab m). 0 < v) \<longleftrightarrow> \<not> (\<forall>v\<in>set (cm_tab m). v = 0)" by (auto simp: word_gt_0)
  have tc: "resctrl_alloc_task_file_check K (of_nat (Suc i)) (used ! Suc i) s = Inr (class_content K (of_nat (Suc i)) ''tasks'' s \<noteq> [])"
    using r u unfolding group_readable_def resctrl_alloc_task_file_check_def by (simp add: fgets_lines_Nil_iff)
  have "used_groups_loop K (Suc i) used s = used_groups_loop K i (used[Suc i := ?f]) s"
    unfolding used_groups_loop.simps m sum.case pos tc f by (cases "\<forall>v\<in>set (cm_tab m). v = 0") simp_all
  also have "\<dots> = Inr (map (\<lambda>j. if 0 < j \<and> j \<le> i then \<not> group_free K s j else used[Suc i := ?f] ! j) [0..<length (used[Suc i := ?f])])"
    using Suc.prems by (intro Suc.IH) (auto simp: nth_list_update)
  also have "\<dots> = Inr (map (\<lambda>j. if 0 < j \<and> j \<le> Suc i then \<not> group_free K s j else used ! j) [0..<length used])"
    using Suc.prems(2) by (auto simp: nth_list_update le_Suc_eq)
  finally show ?case .
qed

lemma unused_group_highest:
  "unused_group_loop used i =
     (if \<exists>j. 0 < j \<and> j \<le> i \<and> \<not> used ! j then Inr (of_nat (GREATEST j. 0 < j \<and> j \<le> i \<and> \<not> used ! j)) else Inl PQOS_RETVAL_RESOURCE)"
proof (induction i)
  case 0
  then show ?case by simp
next
  case (Suc i)
  show ?case
  proof (cases "used ! Suc i")
    case True
    then have "(0 < j \<and> j \<le> Suc i \<and> \<not> used ! j) = (0 < j \<and> j \<le> i \<and> \<not> used ! j)" for j by (auto simp: le_Suc_eq)
    with Suc show ?thesis by (simp only: unused_group_loop.simps True simp_thms if_False)
  next
    case False
    then have "(GREATEST j. 0 < j \<and> j \<le> Suc i \<and> \<not> used ! j) = Suc i" by (intro Greatest_equality) auto
    with False show ?thesis by (simp del: of_nat_Suc) blast
  qed
qed

lemma unused_group_max:
  assumes "0 < n" and "\<forall>j. 0 < j \<and> j < unat n \<longrightarrow> group_readable K s j"
  shows "resctrl_alloc_get_unused_group K n s =
    (let free = {j. 0 < j \<and> j < unat n \<and> group_free K s j}
     in if free = {} then Inl PQOS_RETVAL_RESOURCE else Inr (of_nat (Max free)))"
proof -
  let ?u = "map (\<lambda>j. if 0 < j \<and> j \<le> unat n - 1 then \<not> group_free K s j else replicate (unat n) False ! j) [0..<unat n]"
  let ?F = "{j. 0 < j \<and> j < unat n \<and> group_free K s j}"
  have n: "0 < unat n" using assms(1) by (simp add: unat_gt_0 word_gt_0)
  have "used_groups_loop K (unat n - 1) (replicate (unat n) False) s = Inr ?u"
    by (rule used_groups_table [of "unat n - 1" K s "replicate (unat n) False", unfolded length_replicate]) (use assms(2) n in auto)
  then have r: "resctrl_alloc_get_unused_group K n s = unused_group_loop ?u (unat n - 1)"
    using assms(1) by (simp add: resctrl_alloc_get_unused_group_def word_gt_0)
  have P: "(0 < j \<and> j \<le> unat n - 1 \<and> \<not> ?u ! j) \<longleftrightarrow> j \<in> ?F" for j using n by auto
  have fin: "finite ?F" by simp
  have "(GREATEST j. j \<in> ?F) = Max ?F" if "?F \<noteq> {}"
  proof (rule Greatest_equality)
    show "Max ?F \<in> ?F" using fin that by (rule Max_in)
    show "\<And>y. y \<in> ?F \<Longrightarrow> y \<le> Max ?F" using fin by (rule Max_ge)
  qed
  then show ?thesis unfolding r unused_group_highest P Let_def by auto
qed

text \<open>
  The search for an unused resctrl group finds the highest group, other than the
  default group 0, that has neither cores in its \<open>cpus\<close> file nor anything in its \<open>tasks\<close>
  file, and answers \<open>PQOS_RETVAL_RESOURCE\<close> exactly when there is none. (The files of the
  groups can be read.)
\<close>

theorem unused_group_correct:
  assumes "0 < n" and "\<forall>j. 0 < j \<and> j < unat n \<longrightarrow> group_readable K s j"
  shows "resctrl_alloc_get_unused_group K n s =
    (let free = {j. 0 < j \<and> j < unat n \<and> group_free K s j}
     in if free = {} then Inl PQOS_RETVAL_RESOURCE else Inr (of_nat (Max free)))"
  using assms by (rule unused_group_max)

section \<open>Tasks\<close>

abbreviation tasks_path :: "nat \<Rightarrow> string" where
  "tasks_path i \<equiv> resctrl_alloc_path (of_nat i) ''tasks''"

definition tasks_text :: "int list \<Rightarrow> string" where
  "tasks_text ts = concat (map (\<lambda>t. show_num 10 t @ [CHR 0x0A]) ts)"

lemma task_lines_text:
  assumes "\<forall>t\<in>set ts. 0 < t \<and> t < 2 ^ 31"
  shows "task_lines (tasks_text ts) = map (\<lambda>t. show_num 10 t @ [CHR 0x0A]) ts"
  using assms
proof (induction ts)
  case Nil
  then show ?case by (simp add: task_lines_def tasks_text_def)
next
  case (Cons t ts)
  then have t: "0 \<le> t" "t < 10 ^ Suc 9" by simp_all
  note dg = show_num_digits [OF t(1), of 10]
  have nl: "CHR 0x0A \<notin> set (show_num 10 t)" "CHR 0x00 \<notin> set (show_num 10 t @ [CHR 0x0A])"
    using dg is_digit_facts(7,8) [of 10] by fastforce+
  have "length (show_num 10 t) < 127" using show_num_length [of t 10 9] t by simp
  then have "fgets_lines 127 127 [] (show_num 10 t @ CHR 0x0A # tasks_text ts) =
      (show_num 10 t @ [CHR 0x0A]) # fgets_lines 127 127 [] (tasks_text ts)"
    using fgets_line [OF nl(1), of 127 127 "[]"] by simp
  with Cons nl show ?case by (simp add: task_lines_def tasks_text_def c_str_plain)
qed

lemma task_listed_text:
  assumes "\<forall>t\<in>set ts. 0 < t \<and> t < 2 ^ 31"
  shows "task_listed t (tasks_text ts) \<longleftrightarrow> t \<in> set ts"
proof -
  have p: "(case resctrl_utils_strtouint64 (show_num 10 u @ [CHR 0x0A]) 10 of Inl _ \<Rightarrow> False | Inr tid \<Rightarrow> t = sint (ucast tid :: u32)) \<longleftrightarrow> t = u"
    if "u \<in> set ts" for u
  proof -
    have u: "0 \<le> u" "u < 2 ^ 31" using assms that by auto
    then have "resctrl_utils_strtouint64 (show_num 10 u @ [CHR 0x0A]) 10 = Inr (of_int u)" by (intro strtouint64_shown) simp_all
    moreover have "sint (ucast (of_int u :: u64) :: u32) = u"
      using u by (simp add: unsigned_of_int signed_of_int take_bit_int_eq_self signed_take_bit_int_eq_self)
    ultimately show ?thesis by simp
  qed
  show ?thesis unfolding task_listed_def task_lines_text [OF assms] using p by auto
qed

text \<open>
  The documentation of the \<open>tasks\<close> file: reading it shows the ids of the group's tasks, one
  per line; writing an id moves that task to the group.
\<close>

locale resctrl_task_kernel =
  fixes K :: "'h resctrl_os" and task_group :: "'h \<Rightarrow> int \<Rightarrow> u32 option" and grps :: nat
  assumes tasks_readable: "i < grps \<Longrightarrow> pqos_fopen_r K (tasks_path i) h \<and> fs_fclose_r K (tasks_path i) h"
    and tasks_content: "i < grps \<Longrightarrow> \<exists>ts. fs_content K (tasks_path i) h = tasks_text ts \<and> (\<forall>t\<in>set ts. 0 < t \<and> t < 2 ^ 31) \<and>
      (\<forall>t. t \<in> set ts \<longleftrightarrow> task_group h t = Some (of_nat i))"
    and tasks_open_keeps: "fs_fopen_w K p h = Some h' \<Longrightarrow> task_group h' = task_group h"
    and tasks_unwritten: "task_group (snd (fs_fclose_w K p [] h)) = task_group h"
    and tasks_written: "i < grps \<Longrightarrow> 0 < t \<Longrightarrow> fs_fclose_w K (tasks_path i) (tasks_text [t]) h = (0, h') \<Longrightarrow>
      task_group h' = (task_group h)(t := Some (of_nat i))"
    and tasks_refused: "fs_fclose_w K (tasks_path i) txt h = (e, h') \<Longrightarrow> e \<noteq> 0 \<Longrightarrow> task_group h' = task_group h"
begin

lemma search_loop_group:
  assumes "set js \<subseteq> {..<grps}"
  shows "task_search_loop K t (map of_nat js) s =
    (if \<exists>j\<in>set js. task_group (m_hw s) t = Some (of_nat j) then Inr (the (task_group (m_hw s) t)) else Inl PQOS_RETVAL_ERROR)"
  using assms
proof (induction js)
  case Nil
  then show ?case by simp
next
  case (Cons j js)
  then have j: "j < grps" by simp
  from tasks_content [OF j, of "m_hw s"] obtain ts where ts: "fs_content K (tasks_path j) (m_hw s) = tasks_text ts"
    "\<forall>t\<in>set ts. 0 < t \<and> t < 2 ^ 31" "\<forall>t. t \<in> set ts \<longleftrightarrow> task_group (m_hw s) t = Some (of_nat j)" by blast
  have "task_listed t (fs_content K (tasks_path j) (m_hw s)) \<longleftrightarrow> task_group (m_hw s) t = Some (of_nat j)"
    unfolding ts(1) task_listed_text [OF ts(2)] using ts(3) by blast
  with Cons tasks_readable [OF j, of "m_hw s"] show ?case
    by (simp add: resctrl_alloc_fopen_r_def resctrl_alloc_fclose_r_def)
qed

lemma search_group:
  assumes "resctrl_alloc_get_grps_num cap = Inr (of_nat grps)" "0 < grps" "grps < 2 ^ 31" "os_kill0 K t (m_hw s)"
  shows "resctrl_alloc_task_search K cap t s =
    (case task_group (m_hw s) t of None \<Rightarrow> Inl PQOS_RETVAL_ERROR | Some c \<Rightarrow> if unat c < grps then Inr c else Inl PQOS_RETVAL_ERROR)"
proof -
  have g: "unat (of_nat grps :: u32) = grps" using assms(3) by (simp add: unat_of_nat_u32)
  then have nz: "(of_nat grps :: u32) \<noteq> 0" using assms(2) by (metis less_not_refl unat_0)
  have sg: "0 \<le> sint ((of_nat grps :: u32) - 1)"
  proof -
    have "(of_nat grps :: u32) - 1 = of_int (int grps - 1)" by simp
    then show ?thesis using assms(2,3) by (simp only: signed_of_int) (simp add: signed_take_bit_int_eq_self)
  qed
  have e: "(\<exists>j\<in>set (rev [0..<grps]). x = Some (of_nat j)) \<longleftrightarrow> (\<exists>c. x = Some c \<and> unat c < grps)" for x :: "u32 option"
    by (rule some_class_below) (use assms(3) in \<open>simp_all add: lessThan_atLeast0\<close>)
  have "resctrl_alloc_task_search K cap t s = task_search_loop K t (map of_nat (rev [0..<grps])) s"
    using assms g nz sg by (simp add: resctrl_alloc_task_search_def resctrl_alloc_task_validate_def)
  also have "\<dots> = (if \<exists>j\<in>set (rev [0..<grps]). task_group (m_hw s) t = Some (of_nat j) then Inr (the (task_group (m_hw s) t)) else Inl PQOS_RETVAL_ERROR)"
    by (rule search_loop_group) auto
  finally show ?thesis unfolding e by (auto split: option.splits)
qed

lemma task_written:
  assumes "i < grps" "0 < t" "os_kill0 K t (m_hw s)"
  obtains ret s' where "resctrl_alloc_task_write K (of_nat i) t s = (ret, s')" and "m_cap s' = m_cap s"
    and "task_group (m_hw s') = (if ret = PQOS_RETVAL_OK then (task_group (m_hw s))(t := Some (of_nat i)) else task_group (m_hw s))"
proof -
  let ?p = "tasks_path i" and ?t = "tasks_text [t]"
  obtain b h where o: "pqos_fopen_w K ?p (m_hw s) = (b, h)" by fastforce
  obtain e h' where c: "fs_fclose_w K ?p ?t h = (e, h')" by fastforce
  have k: "task_group h = task_group (m_hw s)"
    using o tasks_unwritten [of ?p] tasks_open_keeps [of ?p "m_hw s"] by (auto simp: pqos_fopen_w_def split: option.splits if_splits)
  have line: "show_int t @ [CHR 0x0A] = ?t" using assms(2) by (simp add: show_int_def tasks_text_def)
  show thesis
  proof (cases b)
    case False
    then show thesis using o k assms(3) by (intro that [of PQOS_RETVAL_ERROR "s\<lparr>m_hw := h\<rparr>"])
      (simp_all add: resctrl_alloc_task_write_def resctrl_alloc_task_validate_def resctrl_alloc_fopen_w_def)
  next
    case True
    let ?ret = "if e = 0 then PQOS_RETVAL_OK else if e = ESRCH then PQOS_RETVAL_PARAM else PQOS_RETVAL_ERROR"
    show thesis
    proof (rule that [of ?ret "s\<lparr>m_hw := h'\<rparr>"])
      show "resctrl_alloc_task_write K (of_nat i) t s = (?ret, s\<lparr>m_hw := h'\<rparr>)"
        using o c True assms(3)
        by (simp add: resctrl_alloc_task_write_def resctrl_alloc_task_validate_def resctrl_alloc_fopen_w_def resctrl_alloc_fclose_w_def line)
      show "task_group (m_hw (s\<lparr>m_hw := h'\<rparr>)) = (if ?ret = PQOS_RETVAL_OK then (task_group (m_hw s))(t := Some (of_nat i)) else task_group (m_hw s))"
        using tasks_written [OF assms(1,2), of h h'] tasks_refused [OF c] c k by auto
    qed simp
  qed
qed

end

section \<open>A reference file system\<close>

text \<open>
  Four groups, the cores 0 to 3 and the tasks 100 to 102; no monitoring groups. It meets
  both contracts.
\<close>

record ref_groups =
  rg_owner :: "nat \<Rightarrow> u32"
  rg_task :: "int \<Rightarrow> u32"

definition ref_owner :: "ref_groups \<Rightarrow> nat \<Rightarrow> u32 option" where
  "ref_owner h l = (if l < 4 then Some (rg_owner h l) else None)"

definition ref_pids :: "int list" where
  "ref_pids = [100, 101, 102]"

definition ref_task_group :: "ref_groups \<Rightarrow> int \<Rightarrow> u32 option" where
  "ref_task_group h t = (if t \<in> set ref_pids then Some (rg_task h t) else None)"

definition ref_cpus :: "string \<Rightarrow> nat option" where
  "ref_cpus p = List.find (\<lambda>i. cpus_path i = p) [0, 1, 2, 3]"

definition ref_tasks :: "string \<Rightarrow> nat option" where
  "ref_tasks p = List.find (\<lambda>i. tasks_path i = p) [0, 1, 2, 3]"

definition ref_content :: "string \<Rightarrow> ref_groups \<Rightarrow> string" where
  "ref_content p h =
     (case ref_cpus p of
        Some i \<Rightarrow> [digit_char (horner_sum of_bool 2 (map (\<lambda>l. rg_owner h l = of_nat i) [0, 1, 2, 3]))]
      | None \<Rightarrow> (case ref_tasks p of Some i \<Rightarrow> tasks_text (filter (\<lambda>t. rg_task h t = of_nat i) ref_pids) | None \<Rightarrow> []))"

definition ref_commit :: "string \<Rightarrow> string \<Rightarrow> ref_groups \<Rightarrow> int \<times> ref_groups" where
  "ref_commit p t h =
     (if t = [] then (0, h)
      else case ref_cpus p of
        Some i \<Rightarrow> (0, h\<lparr>rg_owner := (\<lambda>l. if hex_bit t l then of_nat i else if rg_owner h l = of_nat i then 0 else rg_owner h l)\<rparr>)
      | None \<Rightarrow>
          (case ref_tasks p of
             None \<Rightarrow> (2, h)
           | Some i \<Rightarrow>
               (case List.find (\<lambda>u. tasks_text [u] = t) ref_pids of
                  None \<Rightarrow> (ESRCH, h)
                | Some u \<Rightarrow> (0, h\<lparr>rg_task := (rg_task h)(u := of_nat i)\<rparr>))))"

definition ref_resctrl :: "ref_groups resctrl_os" where
  "ref_resctrl = \<lparr>fs_lstat = (\<lambda>p h. Some \<lparr>st_mode = 0x81A4, st_ino = 1, st_dev = 1\<rparr>),
     fs_fstat = (\<lambda>p h. Some \<lparr>st_mode = 0x81A4, st_ino = 1, st_dev = 1\<rparr>),
     fs_fopen_r = (\<lambda>p h. ref_cpus p \<noteq> None \<or> ref_tasks p \<noteq> None), fs_content = ref_content,
     fs_ferror = (\<lambda>p h. False), fs_fclose_r = (\<lambda>p h. True),
     fs_fopen_w = (\<lambda>p h. if ref_cpus p \<noteq> None \<or> ref_tasks p \<noteq> None then Some h else None), fs_fclose_w = ref_commit,
     fs_mkdir = (\<lambda>p h. (2, h)), fs_scandir = (\<lambda>p h. Some []), fs_open_dir = (\<lambda>p h. 3), fs_flock = (\<lambda>fd ty h. True),
     os_kill0 = (\<lambda>t h. t \<in> set ref_pids)\<rparr>"

lemma less_4_cases: "i < (4 :: nat) \<Longrightarrow> i = 0 \<or> i = 1 \<or> i = 2 \<or> i = 3"
  by linarith

lemma ref_cpus_concrete:
  "ref_cpus (cpus_path 0) = Some 0" "ref_cpus (cpus_path 1) = Some 1" "ref_cpus (cpus_path 2) = Some 2" "ref_cpus (cpus_path 3) = Some 3"
  by code_simp+

lemma ref_tasks_concrete:
  "ref_cpus (tasks_path 0) = None" "ref_cpus (tasks_path 1) = None" "ref_cpus (tasks_path 2) = None" "ref_cpus (tasks_path 3) = None"
  "ref_tasks (tasks_path 0) = Some 0" "ref_tasks (tasks_path 1) = Some 1" "ref_tasks (tasks_path 2) = Some 2" "ref_tasks (tasks_path 3) = Some 3"
  by code_simp+

lemma ref_cpus_path [simp]: "i < 4 \<Longrightarrow> ref_cpus (cpus_path i) = Some i"
  using less_4_cases [of i] ref_cpus_concrete by fastforce

lemma ref_tasks_path [simp]: "i < 4 \<Longrightarrow> ref_cpus (tasks_path i) = None \<and> ref_tasks (tasks_path i) = Some i"
  using less_4_cases [of i] ref_tasks_concrete by fastforce

lemma ref_paths_plain:
  "CHR ''_'' \<notin> set (cpus_path 0)" "CHR ''_'' \<notin> set (cpus_path 1)" "CHR ''_'' \<notin> set (cpus_path 2)" "CHR ''_'' \<notin> set (cpus_path 3)"
  by code_simp+

lemma ref_cpus_not_mon:
  assumes "resctrl_mon_group_path c (Some g) ''/cpus'' 128 = Inr p"
  shows "ref_cpus p = None"
proof (rule ccontr)
  assume "ref_cpus p \<noteq> None"
  then obtain i where "ref_cpus p = Some i" by blast
  then have "i \<in> set [0, 1, 2, 3] \<and> cpus_path i = p" unfolding ref_cpus_def by (rule find_SomeD)
  then have "CHR ''_'' \<notin> set p" using ref_paths_plain by auto
  moreover have "CHR ''_'' \<in> set p" using assms by (auto simp: resctrl_mon_group_path_def Let_def split: if_splits)
  ultimately show False by simp
qed

lemma hex_digit_text:
  assumes "length bs = 4"
  shows "hex_bit [digit_char (horner_sum of_bool 2 bs)] l \<longleftrightarrow> l < 4 \<and> bs ! l"
proof -
  let ?v = "horner_sum of_bool 2 bs :: int"
  have "0 \<le> ?v" "?v < 2 ^ length bs" by (rule horner_sum_nonnegative) (simp_all add: horner_sum_of_bool_2_less)
  then have "hex_num (digit_char ?v) = Some ?v" using assms by (intro hex_num_digit_char) simp_all
  then have "hex_digits [digit_char ?v] = [?v]" by (simp add: hex_digits_def map_filter_simps)
  then show ?thesis using assms by (auto simp: hex_bit_def bit_horner_sum_bit_iff div_eq_0_iff)
qed

lemma tasks_text_inj: "0 \<le> t \<Longrightarrow> 0 \<le> u \<Longrightarrow> tasks_text [t] = tasks_text [u] \<Longrightarrow> t = u"
proof -
  assume "0 \<le> t" "0 \<le> u" "tasks_text [t] = tasks_text [u]"
  then have eq: "show_num 10 t = show_num 10 u" by (simp add: tasks_text_def)
  have "t = fst (digits_value 10 0 (show_num 10 t))" by (rule digits_value_show [symmetric]) (simp_all add: \<open>0 \<le> t\<close>)
  also have "\<dots> = fst (digits_value 10 0 (show_num 10 u))" by (simp only: eq)
  also have "\<dots> = u" by (rule digits_value_show) (simp_all add: \<open>0 \<le> u\<close>)
  finally show "t = u" .
qed

lemma ref_fopen_r: "pqos_fopen_r ref_resctrl p h \<longleftrightarrow> ref_cpus p \<noteq> None \<or> ref_tasks p \<noteq> None"
  by (simp add: pqos_fopen_r_def ref_resctrl_def)

lemma ref_sel [simp]:
  "fs_content ref_resctrl = ref_content" "fs_fclose_w ref_resctrl = ref_commit" "fs_fclose_r ref_resctrl p h"
  "\<not> fs_ferror ref_resctrl p h" "snd (fs_mkdir ref_resctrl p h) = h" "os_kill0 ref_resctrl t h \<longleftrightarrow> t \<in> set ref_pids"
  "fs_fopen_w ref_resctrl p h = (if ref_cpus p \<noteq> None \<or> ref_tasks p \<noteq> None then Some h else None)"
  by (simp_all add: ref_resctrl_def)

lemma ref_nth4: "l < 4 \<Longrightarrow> [0, Suc 0, 2, 3] ! l = l"
  using less_4_cases [of l] by auto

interpretation refgrp: resctrl_kernel ref_resctrl ref_owner 4
proof
  fix i l :: nat and h
  assume i: "i < 4" and "l < 4096"
  show "hex_bit (fs_content ref_resctrl (cpus_path i) h) l \<longleftrightarrow> ref_owner h l = Some (of_nat i)"
    using i by (auto simp: ref_content_def hex_digit_text ref_nth4 ref_owner_def nth_map simp del: list.map)
next
  fix i l :: nat and t h h'
  assume "i < 4" "t \<noteq> []" "fs_fclose_w ref_resctrl (cpus_path i) t h = (0, h')"
  then show "ref_owner h' l = (case ref_owner h l of None \<Rightarrow> None
      | Some c \<Rightarrow> Some (if l < 4096 \<and> hex_bit t l then of_nat i else if c = of_nat i then 0 else c))"
    by (auto simp: ref_commit_def ref_owner_def split: if_splits)
next
  fix i t h e h'
  assume "fs_fclose_w ref_resctrl (cpus_path i) t h = (e, h')" "e \<noteq> 0"
  then show "ref_owner h' = ref_owner h" by (auto simp: ref_commit_def split: if_splits option.splits)
next
  fix c g p t h
  assume "resctrl_mon_group_path c (Some g) ''/cpus'' 128 = Inr p"
  then show "ref_owner (snd (fs_fclose_w ref_resctrl p t h)) = ref_owner h"
    by (auto simp: ref_cpus_not_mon ref_commit_def ref_owner_def split: option.splits)
qed (auto simp: ref_fopen_r ref_content_def ref_commit_def ref_owner_def split: if_splits)

interpretation reftsk: resctrl_task_kernel ref_resctrl ref_task_group 4
proof
  fix i :: nat and h
  assume "i < 4"
  then show "\<exists>ts. fs_content ref_resctrl (tasks_path i) h = tasks_text ts \<and> (\<forall>t\<in>set ts. 0 < t \<and> t < 2 ^ 31) \<and>
      (\<forall>t. t \<in> set ts \<longleftrightarrow> ref_task_group h t = Some (of_nat i))"
    by (intro exI [of _ "filter (\<lambda>t. rg_task h t = of_nat i) ref_pids"]) (auto simp: ref_content_def ref_task_group_def ref_pids_def)
next
  fix i :: nat and t h h'
  assume i: "i < 4" and t: "0 < t" and c: "fs_fclose_w ref_resctrl (tasks_path i) (tasks_text [t]) h = (0, h')"
  have "tasks_text [t] \<noteq> []" by (simp add: tasks_text_def)
  with i c obtain u where u: "List.find (\<lambda>u. tasks_text [u] = tasks_text [t]) ref_pids = Some u"
    and h': "h' = h\<lparr>rg_task := (rg_task h)(u := of_nat i)\<rparr>"
    by (auto simp: ref_commit_def ESRCH_def split: option.splits)
  have "u \<in> set ref_pids" "tasks_text [u] = tasks_text [t]" using find_SomeD [OF u] by auto
  moreover have "u = t" using tasks_text_inj [of u t] t calculation by (auto simp: ref_pids_def)
  ultimately show "ref_task_group h' = (ref_task_group h)(t := Some (of_nat i))"
    by (auto simp: h' ref_task_group_def)
next
  fix i t h e h'
  assume "fs_fclose_w ref_resctrl (tasks_path i) t h = (e, h')" "e \<noteq> 0"
  then show "ref_task_group h' = ref_task_group h" by (auto simp: ref_commit_def split: if_splits option.splits)
qed (auto simp: ref_fopen_r ref_commit_def split: if_splits)

section \<open>Properties\<close>

text \<open>
  C29. Associating a core through resctrl is an update of a map from cores to classes. On a
  file system with the documented behaviour of the \<open>cpus\<close> files, \<open>resctrl_alloc_assoc_set\<close>
  on a core that belongs to some class always returns; after the answer OK
  \<open>resctrl_alloc_assoc_get\<close> gives the new class for this core, after an error the old
  one, and for every other core the answer it gave before. This includes saving and
  restoring the core's monitoring group on the way.
\<close>

theorem resctrl_assoc_set_get:
  assumes "resctrl_kernel K owner grps" and "resctrl_alloc_get_grps_num (m_cap s) = Inr (of_nat grps)" and "grps < 2 ^ 32"
    and "core < 4096" and "owner (m_hw s) (unat core) = Some c" and "unat c < grps" and "unat class_id < grps"
  shows "\<exists>ret s'. resctrl_alloc_assoc_set K core class_id s = Some (ret, s') \<and>
    (\<forall>k<4096. resctrl_alloc_assoc_get K k s' =
       (if ret = PQOS_RETVAL_OK \<and> k = core then Some (Inr (Some class_id)) else resctrl_alloc_assoc_get K k s))"
proof -
  note g = resctrl_kernel.groups_known_def [OF assms(1)] and kc = resctrl_kernel.known_core_def [OF assms(1)]
  have known: "resctrl_kernel.groups_known grps s" "resctrl_kernel.known_core owner grps s core" using assms by (auto simp: g kc)
  from resctrl_kernel.assoc_set_owner [OF assms(1) known assms(7)] obtain ret s' where
    r: "resctrl_alloc_assoc_set K core (of_nat (unat class_id)) s = Some (ret, s')" "m_cap s' = m_cap s"
    "owner (m_hw s') = (if ret = PQOS_RETVAL_OK then (owner (m_hw s))(unat core := Some (of_nat (unat class_id))) else owner (m_hw s))"
    by blast
  have known': "resctrl_kernel.groups_known grps s'" using known(1) r(2) by (simp add: g)
  have "resctrl_alloc_assoc_get K k s' =
      (if ret = PQOS_RETVAL_OK \<and> k = core then Some (Inr (Some class_id)) else resctrl_alloc_assoc_get K k s)" if "k < 4096" for k
    using resctrl_kernel.assoc_get_owner [OF assms(1) known' that] resctrl_kernel.assoc_get_owner [OF assms(1) known(1) that] r(3) assms(7)
    by (auto simp: word_unat_eq_iff)
  then show ?thesis using r(1) by auto
qed

definition sample_rlib :: "ref_groups rlib" where
  "sample_rlib = \<lparr>m_msr_fd = None, m_maxcores = 0,
     m_cap = [CapL3ca (sample_l3ca\<lparr>l3_num_classes := 4\<rparr>)], m_cpu = sample_cpu, m_dev = None,
     m_interface = PQOS_INTER_OS, m_config = sample_config, m_mmioinfo = None,
     m_hw = \<lparr>rg_owner = (\<lambda>l. 0), rg_task = (\<lambda>t. 0)\<rparr>, supported_events = 0, resctrl_lock_fd = - 1\<rparr>"

lemma sample_rlib_sel [simp]:
  "m_hw sample_rlib = \<lparr>rg_owner = (\<lambda>l. 0), rg_task = (\<lambda>t. 0)\<rparr>" "supported_events sample_rlib = 0" "m_cpu sample_rlib = sample_cpu"
  "m_cap sample_rlib = [CapL3ca (sample_l3ca\<lparr>l3_num_classes := 4\<rparr>)]" "resctrl_lock_fd sample_rlib = - 1"
  by (simp_all add: sample_rlib_def)

lemma sample_grps [simp]: "resctrl_alloc_get_grps_num [CapL3ca (sample_l3ca\<lparr>l3_num_classes := 4\<rparr>)] = Inr 4"
  by code_simp

text \<open>On the reference file system masks are not refused.\<close>

lemma ref_write_OK:
  assumes "i < 4" "resctrl_alloc_cpumask_write ref_resctrl (of_nat i) m s = (ret, s')"
  shows "ret = PQOS_RETVAL_OK"
proof -
  have "pqos_fopen_w ref_resctrl (cpus_path i) h = (True, h)" for h
    using assms(1) by (simp add: pqos_fopen_w_def ref_resctrl_def)
  moreover have "fst (ref_commit (cpus_path i) (resctrl_cpumask_write m) h) = 0" for h
    using assms(1) cpumask_write_nonempty [of m] by (simp add: ref_commit_def)
  ultimately show ?thesis
    using assms(2) by (auto simp: resctrl_alloc_cpumask_write_def resctrl_alloc_fopen_w_def resctrl_alloc_fclose_w_def split_def)
qed

lemma ref_assoc_OK:
  assumes "supported_events s = 0" "i < 4" "core < 4096" "resctrl_alloc_assoc_set ref_resctrl core (of_nat i) s = Some (ret, s')"
  shows "ret = PQOS_RETVAL_OK"
  using assms(1,4) ref_write_OK [OF assms(2)]
  by (auto simp: resctrl_alloc_assoc_set_def resctrl_mon_assoc_get_def resctrl_mon_is_supported_def
      resctrl_alloc_cpumask_read_def ref_fopen_r resctrl_alloc_fopen_r_def resctrl_alloc_fclose_r_def assms(2)
      split: prod.splits option.splits)

theorem resctrl_assoc_set_get_witness:
  "\<exists>s'. resctrl_alloc_assoc_set ref_resctrl 1 2 sample_rlib = Some (PQOS_RETVAL_OK, s') \<and>
     resctrl_alloc_assoc_get ref_resctrl 1 s' = Some (Inr (Some 2)) \<and>
     resctrl_alloc_assoc_get ref_resctrl 0 s' = resctrl_alloc_assoc_get ref_resctrl 0 sample_rlib"
proof -
  have "ref_owner (m_hw sample_rlib) (unat (1 :: u32)) = Some 0" by (simp add: ref_owner_def)
  from resctrl_assoc_set_get [OF refgrp.resctrl_kernel_axioms _ _ _ this, of 2] obtain ret s' where
    r: "resctrl_alloc_assoc_set ref_resctrl 1 2 sample_rlib = Some (ret, s')"
    "\<forall>k<4096. resctrl_alloc_assoc_get ref_resctrl k s' =
       (if ret = PQOS_RETVAL_OK \<and> k = 1 then Some (Inr (Some 2)) else resctrl_alloc_assoc_get ref_resctrl k sample_rlib)"
    by auto
  moreover have "ret = PQOS_RETVAL_OK" using ref_assoc_OK [of sample_rlib 2 1 ret s'] r(1) by simp
  ultimately show ?thesis by simp
qed

text \<open>
  Moving a task to a class through resctrl: on a file system with the documented
  behaviour of the \<open>tasks\<close> files, \<open>resctrl_alloc_assoc_set_pid\<close> answers OK or an error;
  after OK the search \<open>resctrl_alloc_assoc_get_pid\<close> over all groups finds the task in the
  new class, after an error where it was, and every other living task where it was.
\<close>

theorem resctrl_task_set_get:
  assumes "resctrl_task_kernel K task_group grps" and "resctrl_alloc_get_grps_num (m_cap s) = Inr (of_nat grps)" and "grps < 2 ^ 31"
    and "0 < t" and "os_kill0 K t (m_hw s)" and "unat class_id < grps" and "resctrl_alloc_assoc_set_pid K t class_id s = (ret, s')"
    and "\<forall>u. os_kill0 K u (m_hw s') = os_kill0 K u (m_hw s)" and "os_kill0 K u (m_hw s)"
  shows "resctrl_alloc_assoc_get_pid K u s' =
    (if ret = PQOS_RETVAL_OK \<and> u = t then Inr class_id else resctrl_alloc_assoc_get_pid K u s)"
proof -
  have w: "resctrl_alloc_task_write K (of_nat (unat class_id)) t s = (ret, s')"
    using assms(7) by (simp add: resctrl_alloc_assoc_set_pid_def)
  have s': "m_cap s' = m_cap s"
    "task_group (m_hw s') = (if ret = PQOS_RETVAL_OK then (task_group (m_hw s))(t := Some class_id) else task_group (m_hw s))"
    by (rule resctrl_task_kernel.task_written [OF assms(1,6,4,5)], use w in auto)+
  have g0: "0 < grps" using assms(6) by simp
  show ?thesis
    using resctrl_task_kernel.search_group [OF assms(1,2) g0 assms(3,9)]
      resctrl_task_kernel.search_group [OF assms(1) _ g0 assms(3), of "m_cap s'" u s'] assms(2,6,8,9) s'
    by (auto simp: resctrl_alloc_assoc_get_pid_def)
qed

theorem resctrl_task_set_get_witness:
  "\<exists>s'. resctrl_alloc_assoc_set_pid ref_resctrl 101 3 sample_rlib = (PQOS_RETVAL_OK, s') \<and>
     resctrl_alloc_assoc_get_pid ref_resctrl 101 s' = Inr 3 \<and>
     resctrl_alloc_assoc_get_pid ref_resctrl 100 s' = resctrl_alloc_assoc_get_pid ref_resctrl 100 sample_rlib"
proof -
  obtain ret s' where w: "resctrl_alloc_assoc_set_pid ref_resctrl 101 3 sample_rlib = (ret, s')" by fastforce
  have "fst (resctrl_alloc_assoc_set_pid ref_resctrl 101 3 sample_rlib) = PQOS_RETVAL_OK"
    by code_simp
  then have ok: "ret = PQOS_RETVAL_OK" using w by simp
  have p: "(101 :: int) \<in> set ref_pids" "100 \<in> set ref_pids" by (simp_all add: ref_pids_def)
  from resctrl_task_set_get [OF reftsk.resctrl_task_kernel_axioms _ _ _ _ _ w] p ok w show ?thesis by simp
qed

theorem grps_num_min_witness:
  "resctrl_alloc_get_grps_num [CapL3ca (sample_l3ca\<lparr>l3_num_classes := 16\<rparr>), CapMba (sample_mba\<lparr>mba_num_classes := 8\<rparr>)] = Inr 8"
proof -
  let ?cap = "[CapL3ca (sample_l3ca\<lparr>l3_num_classes := 16\<rparr>), CapMba (sample_mba\<lparr>mba_num_classes := 8\<rparr>)]"
  have "pqos_l3ca_get_clos_num (Some ?cap) = Inr 16" "pqos_l2ca_get_clos_num (Some ?cap) = Inl PQOS_RETVAL_RESOURCE"
    "pqos_mba_get_clos_num (Some ?cap) = Inr 8" "pqos_smba_get_clos_num (Some ?cap) = Inl PQOS_RETVAL_RESOURCE"
    by code_simp+
  then have c: "class_counts ?cap = {16, 8}" by (auto simp: class_counts_def)
  show ?thesis using grps_num_min [of ?cap] unfolding c by simp
qed

lemma ref_group_readable: "j < 4 \<Longrightarrow> group_readable ref_resctrl s j"
  using refgrp.read_mask [of j s] reftsk.tasks_readable [of j "m_hw s"]
  by (auto simp: group_readable_def resctrl_alloc_fopen_r_def resctrl_alloc_fclose_r_def)

lemma ref_group_free:
  assumes "j < 4" "\<forall>l<4. rg_owner (m_hw s) l \<noteq> of_nat j" "\<forall>t\<in>set ref_pids. rg_task (m_hw s) t \<noteq> of_nat j"
  shows "group_free ref_resctrl s j"
proof -
  from refgrp.read_mask [OF assms(1)] obtain m where m: "resctrl_alloc_cpumask_read ref_resctrl (of_nat j) s = Inr m" "mask_wf m"
    "\<And>l. l < 4096 \<Longrightarrow> mask_bit m l \<longleftrightarrow> ref_owner (m_hw s) l = Some (of_nat j)" by blast
  have "m = zero_mask" using m(2,3) assms(2) by (intro mask_eqI) (auto simp: mask_bit_def ref_owner_def)
  then show ?thesis
    using m(1) assms by (simp add: group_free_def ref_content_def tasks_text_def filter_False)
qed

lemma ref_free_groups:
  "{j. 0 < j \<and> j < unat (4 :: u32) \<and> group_free ref_resctrl sample_rlib j} \<noteq> {}"
  "Max {j. 0 < j \<and> j < unat (4 :: u32) \<and> group_free ref_resctrl sample_rlib j} = 3"
proof -
  let ?F = "{j. 0 < j \<and> j < unat (4 :: u32) \<and> group_free ref_resctrl sample_rlib j}"
  have "group_free ref_resctrl sample_rlib 3" by (rule ref_group_free) simp_all
  then have "3 \<in> ?F" by simp
  then show "?F \<noteq> {}" by blast
  show "Max ?F = 3" using \<open>3 \<in> ?F\<close> by (intro Max_eqI) auto
qed

lemma ref_unused: "resctrl_alloc_get_unused_group ref_resctrl 4 sample_rlib = Inr 3"
  by (subst unused_group_max) (simp_all add: ref_group_readable ref_free_groups [simplified])

theorem unused_group_correct_witness:
  "resctrl_alloc_get_unused_group ref_resctrl 4 sample_rlib = Inr 3"
  by (subst unused_group_correct) (simp_all add: ref_group_readable ref_free_groups [simplified])

text \<open>A core in no group of the library: the answer is OK and no class is stored.\<close>

lemma assoc_get_class_unset: "resctrl_alloc_assoc_get ref_resctrl 5 sample_rlib = Some (Inr None)"
proof -
  have "refgrp.groups_known sample_rlib" by (simp add: refgrp.groups_known_def)
  from refgrp.assoc_get_owner [OF this, of 5] show ?thesis by (simp add: ref_owner_def)
qed

end
