(* ===== verification/OsAssoc.thy ===== *)
theory OsAssoc
  imports ResctrlKernel
begin

text \<open>
  Association of cores and tasks with classes on the operating system interface (the
  association functions of \<open>lib/os_allocation.c\<close>): checks, the lock on the resctrl
  directory around each change, and the saving of monitoring groups (with the task part
  of \<open>lib/resctrl_monitoring.c\<close>).
\<close>

section \<open>Tasks in monitoring groups\<close>

text \<open>\<open>strtol\<close> in base 10, saturating at the bounds of \<open>long\<close>.\<close>

definition strtol10 :: "string \<Rightarrow> int \<times> string" where
  "strtol10 s =
     (let t = dropWhile isspace s;
          (neg, t) = (case t of c # cs \<Rightarrow> if c = CHR ''-'' then (True, cs) else if c = CHR ''+'' then (False, cs) else (False, t)
                      | [] \<Rightarrow> (False, t))
      in case t of
           [] \<Rightarrow> (0, s)
         | c # _ \<Rightarrow>
             if \<not> is_digit 10 c then (0, s)
             else (case digits_value 10 0 t of (v, rest) \<Rightarrow>
                     (if neg then max (- (2 ^ 63)) (- v) else min (2 ^ 63 - 1) v, rest)))"

definition alloc_assoc_get_pid :: "'h resctrl_os \<Rightarrow> int \<Rightarrow> 'h rlib \<Rightarrow> u32 res" where
  "alloc_assoc_get_pid K task s =
     (case resctrl_alloc_get_grps_num (m_cap s) of
        Inl e \<Rightarrow> Inl e
      | Inr max_clos \<Rightarrow> if max_clos = 0 then Inr 0 else resctrl_alloc_assoc_get_pid K task s)"

text \<open>
  The lines of a group's \<open>tasks\<close> file: \<open>Inr True\<close> when the task is there. The number is cut
  to \<open>pid_t\<close>.
\<close>

fun mon_task_lines :: "int \<Rightarrow> string list \<Rightarrow> bool res" where
  "mon_task_lines task [] = Inr False"
| "mon_task_lines task (buf # bufs) =
     (case strtol10 buf of (v, endptr) \<Rightarrow>
        if \<not> (buf \<noteq> [] \<and> (case endptr of [] \<Rightarrow> True | c # _ \<Rightarrow> c = CHR 0x0A)) then Inl PQOS_RETVAL_ERROR
        else if sint (of_int v :: u32) = task then Inr True
        else mon_task_lines task bufs)"

text \<open>
  A file that cannot be opened ends the search with the status of the preceding call, OK,
  and no name is stored: \<open>Inr None\<close>.
\<close>

fun mon_get_pid_loop :: "'h resctrl_os \<Rightarrow> int \<Rightarrow> u32 \<Rightarrow> nat \<Rightarrow> string list \<Rightarrow> 'h rlib \<Rightarrow> string option res" where
  "mon_get_pid_loop K task class_id name_size [] s = Inl PQOS_RETVAL_RESOURCE"
| "mon_get_pid_loop K task class_id name_size (d # ds) s =
     (case resctrl_mon_group_path class_id (Some d) ''/tasks'' 256 of
        Inl e \<Rightarrow> Inl e
      | Inr path \<Rightarrow>
          if \<not> pqos_fopen_r K path (m_hw s) then Inr None
          else (case mon_task_lines task (task_lines (fs_content K path (m_hw s))) of
                  Inl e \<Rightarrow> Inl e
                | Inr b \<Rightarrow>
                    if b then (case resctrl_mon_name_copy name_size d of Inl e \<Rightarrow> Inl e | Inr n \<Rightarrow> Inr (Some n))
                    else mon_get_pid_loop K task class_id name_size ds s))"

definition resctrl_mon_assoc_get_pid :: "'h resctrl_os \<Rightarrow> int \<Rightarrow> nat \<Rightarrow> 'h rlib \<Rightarrow> string option res" where
  "resctrl_mon_assoc_get_pid K task name_size s =
     (if \<not> resctrl_mon_is_supported s then Inl PQOS_RETVAL_RESOURCE
      else (case alloc_assoc_get_pid K task s of
              Inl e \<Rightarrow> Inl e
            | Inr class_id \<Rightarrow>
                (case resctrl_mon_group_path class_id (Some []) [] 256 of
                   Inl e \<Rightarrow> Inl e
                 | Inr dir \<Rightarrow>
                     (case fs_scandir K dir (m_hw s) of
                        None \<Rightarrow> Inl PQOS_RETVAL_ERROR
                      | Some names \<Rightarrow>
                          mon_get_pid_loop K task class_id name_size (filter (\<lambda>d. take 1 d \<noteq> ''.'') names) s))))"

definition resctrl_mon_assoc_set_pid :: "'h resctrl_os \<Rightarrow> int \<Rightarrow> string option \<Rightarrow> 'h rlib \<Rightarrow> retval \<times> 'h rlib" where
  "resctrl_mon_assoc_set_pid K task name s =
     (if \<not> resctrl_mon_is_supported s then (PQOS_RETVAL_RESOURCE, s)
      else (case alloc_assoc_get_pid K task s of
              Inl e \<Rightarrow> (e, s)
            | Inr class_id \<Rightarrow>
                (case (case name of None \<Rightarrow> (PQOS_RETVAL_OK, s) | Some n \<Rightarrow> resctrl_mon_mkdir K class_id n s) of (ret, s) \<Rightarrow>
                   if ret \<noteq> PQOS_RETVAL_OK then (ret, s)
                   else (case resctrl_mon_group_path class_id name ''/tasks'' 128 of
                           Inl e \<Rightarrow> (e, s)
                         | Inr path \<Rightarrow>
                             (case pqos_fopen_w K path (m_hw s) of (fd, h) \<Rightarrow>
                                if \<not> fd then (PQOS_RETVAL_ERROR, s\<lparr>m_hw := h\<rparr>)
                                else (case fs_fclose_w K path (show_int task @ [CHR 0x0A]) h of (e, h) \<Rightarrow>
                                        (if e \<noteq> 0 then PQOS_RETVAL_ERROR else PQOS_RETVAL_OK, s\<lparr>m_hw := h\<rparr>)))))))"

section \<open>Cores\<close>

definition os_alloc_assoc_set :: "'h resctrl_os \<Rightarrow> u32 \<Rightarrow> u32 \<Rightarrow> 'h rlib \<Rightarrow> (retval \<times> 'h rlib) option" where
  "os_alloc_assoc_set K core class_id s =
     (if pqos_cpu_check_core (Some (m_cpu s)) core \<noteq> PQOS_RETVAL_OK then Some (PQOS_RETVAL_PARAM, s)
      else (case resctrl_alloc_get_grps_num (m_cap s) of
              Inl e \<Rightarrow> Some (e, s)
            | Inr grps \<Rightarrow>
                if grps \<le> class_id then Some (PQOS_RETVAL_PARAM, s)
                else (case resctrl_lock_exclusive K s of (ret, s) \<Rightarrow>
                        if ret \<noteq> PQOS_RETVAL_OK then Some (ret, s)
                        else (case resctrl_mon_assoc_get K core RESCTRL_MON_GROUP_NAME_SIZE s of
                                None \<Rightarrow> None
                              | Some ret_mon \<Rightarrow>
                                  (case resctrl_alloc_assoc_set K core class_id s of
                                     None \<Rightarrow> None
                                   | Some (ret, s) \<Rightarrow>
                                       if ret \<noteq> PQOS_RETVAL_OK then Some (ret, snd (resctrl_lock_release s))
                                       else (case ret_mon of
                                               Inl _ \<Rightarrow> Some (ret, snd (resctrl_lock_release s))
                                             | Inr mon_group \<Rightarrow>
                                                 map_option (\<lambda>(_, s). (ret, snd (resctrl_lock_release s)))
                                                   (resctrl_mon_assoc_set K core mon_group s)))))))"

definition os_alloc_assoc_get :: "'h resctrl_os \<Rightarrow> u32 \<Rightarrow> 'h rlib \<Rightarrow> (u32 option res \<times> 'h rlib) option" where
  "os_alloc_assoc_get K core s =
     (if pqos_cpu_check_core (Some (m_cpu s)) core \<noteq> PQOS_RETVAL_OK then Some (Inl PQOS_RETVAL_PARAM, s)
      else (case resctrl_lock_shared K s of (ret, s) \<Rightarrow>
              if ret \<noteq> PQOS_RETVAL_OK then Some (Inl ret, s)
              else map_option (\<lambda>r. (r, snd (resctrl_lock_release s))) (resctrl_alloc_assoc_get K core s)))"

text \<open>\<open>None\<close> inside the result is NULL.\<close>

definition os_pid_get_pid_assoc :: "'h resctrl_os \<Rightarrow> u32 \<Rightarrow> 'h rlib \<Rightarrow> u32 list option \<times> 'h rlib" where
  "os_pid_get_pid_assoc K class_id s =
     (case resctrl_alloc_get_grps_num (m_cap s) of
        Inl _ \<Rightarrow> (None, s)
      | Inr grps \<Rightarrow>
          if grps \<le> class_id then (None, s)
          else (case resctrl_lock_shared K s of (ret, s) \<Rightarrow>
                  if ret \<noteq> PQOS_RETVAL_OK then (None, s)
                  else (resctrl_alloc_task_read K class_id s, snd (resctrl_lock_release s))))"

fun os_assoc_all :: "'h resctrl_os \<Rightarrow> u32 list \<Rightarrow> u32 \<Rightarrow> 'h rlib \<Rightarrow> (retval \<times> 'h rlib) option" where
  "os_assoc_all K [] class_id s = Some (PQOS_RETVAL_OK, s)"
| "os_assoc_all K (c # cs) class_id s =
     (case os_alloc_assoc_set K c class_id s of
        None \<Rightarrow> None
      | Some (ret, s) \<Rightarrow> if ret \<noteq> PQOS_RETVAL_OK then Some (ret, s) else os_assoc_all K cs class_id s)"

text \<open>The class found is stored before the cores are moved, so an error still leaves it behind.\<close>

definition os_alloc_assign :: "'h resctrl_os \<Rightarrow> u32 list \<Rightarrow> 'h rlib \<Rightarrow> (retval \<times> u32 option \<times> 'h rlib) option" where
  "os_alloc_assign K core_array s =
     (case resctrl_alloc_get_grps_num (m_cap s) of
        Inl e \<Rightarrow> Some (e, None, s)
      | Inr num_rctl_grps \<Rightarrow>
          if num_rctl_grps = 0 then Some (PQOS_RETVAL_ERROR, None, s)
          else (case resctrl_alloc_get_unused_group K num_rctl_grps s of
                  Inl e \<Rightarrow> Some (e, None, s)
                | Inr class_id \<Rightarrow> map_option (\<lambda>(ret, s). (ret, Some class_id, s)) (os_assoc_all K core_array class_id s)))"

fun mask_set_all :: "u32 list \<Rightarrow> resctrl_cpumask \<Rightarrow> resctrl_cpumask option" where
  "mask_set_all [] m = Some m"
| "mask_set_all (c # cs) m = (case resctrl_cpumask_set c m of None \<Rightarrow> None | Some m \<Rightarrow> mask_set_all cs m)"

text \<open>The loop over the cores: an id at or above the number of cores is an error.\<close>

fun release_mask_loop :: "u32 \<Rightarrow> u32 list \<Rightarrow> resctrl_cpumask \<Rightarrow> resctrl_cpumask res option" where
  "release_mask_loop num_cores [] m = Some (Inr m)"
| "release_mask_loop num_cores (c # cs) m =
     (if num_cores \<le> c then Some (Inl PQOS_RETVAL_ERROR)
      else (case resctrl_cpumask_set c m of None \<Rightarrow> None | Some m \<Rightarrow> release_mask_loop num_cores cs m))"

definition os_alloc_release :: "'h resctrl_os \<Rightarrow> u32 list \<Rightarrow> 'h rlib \<Rightarrow> (retval \<times> 'h rlib) option" where
  "os_alloc_release K core_array s =
     (case resctrl_lock_exclusive K s of (ret, s) \<Rightarrow>
        if ret \<noteq> PQOS_RETVAL_OK then Some (ret, s)
        else (case resctrl_alloc_cpumask_read K 0 s of
                Inl e \<Rightarrow> Some (e, snd (resctrl_lock_release s))
              | Inr m \<Rightarrow>
                  (case release_mask_loop (of_nat (length (cores (m_cpu s)))) core_array m of
                     None \<Rightarrow> None
                   | Some (Inl e) \<Rightarrow> Some (e, snd (resctrl_lock_release s))
                   | Some (Inr m) \<Rightarrow>
                       (case resctrl_alloc_cpumask_write K 0 m s of (ret, s) \<Rightarrow> Some (ret, snd (resctrl_lock_release s))))))"

definition os_alloc_reset_cores :: "'h resctrl_os \<Rightarrow> 'h rlib \<Rightarrow> (retval \<times> 'h rlib) option" where
  "os_alloc_reset_cores K s =
     (case resctrl_alloc_cpumask_read K 0 s of
        Inl e \<Rightarrow> Some (e, s)
      | Inr m \<Rightarrow> map_option (\<lambda>m. resctrl_alloc_cpumask_write K 0 m s) (mask_set_all (map lcore (cores (m_cpu s))) m))"

section \<open>Tasks\<close>

text \<open>\<open>None\<close> is the use of an uninitialised group name.\<close>

definition os_alloc_assoc_set_pid :: "'h resctrl_os \<Rightarrow> int \<Rightarrow> u32 \<Rightarrow> 'h rlib \<Rightarrow> (retval \<times> 'h rlib) option" where
  "os_alloc_assoc_set_pid K task class_id s =
     (case resctrl_alloc_get_grps_num (m_cap s) of
        Inl e \<Rightarrow> Some (e, s)
      | Inr max_clos \<Rightarrow>
          if max_clos \<le> class_id then Some (PQOS_RETVAL_PARAM, s)
          else (case resctrl_lock_exclusive K s of (ret, s) \<Rightarrow>
                  if ret \<noteq> PQOS_RETVAL_OK then Some (ret, s)
                  else (let ret_mon = resctrl_mon_assoc_get_pid K task RESCTRL_MON_GROUP_NAME_SIZE s
                        in case resctrl_alloc_assoc_set_pid K task class_id s of (ret, s) \<Rightarrow>
                             if ret \<noteq> PQOS_RETVAL_OK then Some (ret, snd (resctrl_lock_release s))
                             else (case ret_mon of
                                     Inl _ \<Rightarrow> Some (ret, snd (resctrl_lock_release s))
                                   | Inr None \<Rightarrow> None
                                   | Inr (Some mon_group) \<Rightarrow>
                                       (case resctrl_mon_assoc_set_pid K task (Some mon_group) s of (_, s) \<Rightarrow>
                                          Some (ret, snd (resctrl_lock_release s)))))))"

definition os_alloc_assoc_get_pid :: "'h resctrl_os \<Rightarrow> int \<Rightarrow> 'h rlib \<Rightarrow> u32 res \<times> 'h rlib" where
  "os_alloc_assoc_get_pid K task s =
     (case resctrl_lock_shared K s of (ret, s) \<Rightarrow>
        if ret \<noteq> PQOS_RETVAL_OK then (Inl ret, s)
        else (resctrl_alloc_assoc_get_pid K task s, snd (resctrl_lock_release s)))"

fun task_write_all :: "'h resctrl_os \<Rightarrow> u32 \<Rightarrow> int list \<Rightarrow> 'h rlib \<Rightarrow> retval \<times> 'h rlib" where
  "task_write_all K class_id [] s = (PQOS_RETVAL_OK, s)"
| "task_write_all K class_id (t # ts) s =
     (case resctrl_alloc_task_write K class_id t s of (ret, s) \<Rightarrow>
        if ret \<noteq> PQOS_RETVAL_OK then (ret, s) else task_write_all K class_id ts s)"

definition os_alloc_assign_pid :: "'h resctrl_os \<Rightarrow> int list \<Rightarrow> 'h rlib \<Rightarrow> retval \<times> u32 option \<times> 'h rlib" where
  "os_alloc_assign_pid K task_array s =
     (case resctrl_alloc_get_grps_num (m_cap s) of
        Inl e \<Rightarrow> (e, None, s)
      | Inr num_rctl_grps \<Rightarrow>
          if num_rctl_grps = 0 then (PQOS_RETVAL_ERROR, None, s)
          else (case resctrl_lock_exclusive K s of (ret, s) \<Rightarrow>
                  if ret \<noteq> PQOS_RETVAL_OK then (ret, None, s)
                  else (case resctrl_alloc_get_unused_group K num_rctl_grps s of
                          Inl e \<Rightarrow> (e, None, snd (resctrl_lock_release s))
                        | Inr class_id \<Rightarrow>
                            (case task_write_all K class_id task_array s of (ret, s) \<Rightarrow>
                               (ret, Some class_id, snd (resctrl_lock_release s))))))"

definition os_alloc_release_pid :: "'h resctrl_os \<Rightarrow> int list \<Rightarrow> 'h rlib \<Rightarrow> retval \<times> 'h rlib" where
  "os_alloc_release_pid K task_array s =
     (case resctrl_lock_exclusive K s of (ret, s) \<Rightarrow>
        if ret \<noteq> PQOS_RETVAL_OK then (ret, s)
        else (case task_write_all K 0 task_array s of (ret, s) \<Rightarrow> (ret, snd (resctrl_lock_release s))))"

section \<open>What an operation leaves alone\<close>

text \<open>Below the lock only the machine changes.\<close>

definition hw_only :: "'h rlib \<Rightarrow> 'h rlib \<Rightarrow> bool" where
  "hw_only s s' \<longleftrightarrow> (\<exists>h. s' = s\<lparr>m_hw := h\<rparr>)"

lemma hw_only_refl [simp]: "hw_only s s"
  unfolding hw_only_def by (intro exI [of _ "m_hw s"]) simp

lemma hw_only_upd [simp]: "hw_only s (s\<lparr>m_hw := h\<rparr>)"
  unfolding hw_only_def by blast

lemma hw_only_trans: "hw_only s s' \<Longrightarrow> hw_only s' s'' \<Longrightarrow> hw_only s s''"
  by (auto simp: hw_only_def)

lemma hw_only_sel:
  assumes "hw_only s s'"
  shows "m_cap s' = m_cap s" "m_cpu s' = m_cpu s" "resctrl_lock_fd s' = resctrl_lock_fd s" "supported_events s' = supported_events s"
  using assms by (auto simp: hw_only_def)

lemma cpumask_write_hw_only: "resctrl_alloc_cpumask_write K c m s = (ret, s') \<Longrightarrow> hw_only s s'"
  by (auto simp: resctrl_alloc_cpumask_write_def resctrl_alloc_fopen_w_def resctrl_alloc_fclose_w_def split: prod.splits if_splits)

lemma mon_assoc_set_hw_only: "resctrl_mon_assoc_set K core name s = Some (ret, s') \<Longrightarrow> hw_only s s'"
  by (auto simp: resctrl_mon_assoc_set_def resctrl_mon_mkdir_def resctrl_mon_cpumask_write_def Let_def
      split: prod.splits if_splits sum.splits option.splits)

lemma assoc_set_hw_only: "resctrl_alloc_assoc_set K core c s = Some (ret, s') \<Longrightarrow> hw_only s s'"
  by (auto simp: resctrl_alloc_assoc_set_def split: prod.splits sum.splits option.splits
      dest!: cpumask_write_hw_only mon_assoc_set_hw_only intro: hw_only_trans)

lemma task_write_hw_only: "resctrl_alloc_task_write K c t s = (ret, s') \<Longrightarrow> hw_only s s'"
  by (auto simp: resctrl_alloc_task_write_def resctrl_alloc_fopen_w_def resctrl_alloc_fclose_w_def split: prod.splits if_splits)

lemma task_write_all_hw_only: "task_write_all K c ts s = (ret, s') \<Longrightarrow> hw_only s s'"
  by (induction ts arbitrary: s) (auto split: prod.splits if_splits dest!: task_write_hw_only intro: hw_only_trans)

lemma mon_set_pid_hw_only: "resctrl_mon_assoc_set_pid K t n s = (ret, s') \<Longrightarrow> hw_only s s'"
  by (auto simp: resctrl_mon_assoc_set_pid_def resctrl_mon_mkdir_def split: prod.splits if_splits sum.splits option.splits)

lemmas below_lock = cpumask_write_hw_only mon_assoc_set_hw_only assoc_set_hw_only task_write_hw_only task_write_all_hw_only mon_set_pid_hw_only

section \<open>The lock is given back\<close>

lemma lock_failed: "resctrl_lock K ty s = (ret, s') \<Longrightarrow> ret \<noteq> PQOS_RETVAL_OK \<Longrightarrow> resctrl_lock_fd s' < 0"
  by (auto simp: resctrl_lock_def Let_def split: if_splits)

lemma lock_released [simp]: "resctrl_lock_fd (snd (resctrl_lock_release s)) < 0"
  by (simp add: resctrl_lock_release_def)

lemmas lock_defs = resctrl_lock_exclusive_def resctrl_lock_shared_def

lemma assoc_set_unlocks:
  "resctrl_lock_fd s < 0 \<Longrightarrow> os_alloc_assoc_set K core c s = Some (ret, s') \<Longrightarrow> resctrl_lock_fd s' < 0"
  by (auto simp: os_alloc_assoc_set_def lock_defs split: prod.splits if_splits sum.splits option.splits dest: lock_failed)

lemma assoc_all_unlocks:
  "resctrl_lock_fd s < 0 \<Longrightarrow> os_assoc_all K cs c s = Some (ret, s') \<Longrightarrow> resctrl_lock_fd s' < 0"
  by (induction cs arbitrary: s) (auto split: option.splits if_splits dest: assoc_set_unlocks)

text \<open>
  No operation on the association of cores and tasks keeps the lock on the resctrl
  directory: on every path, error paths included, the library holds no lock descriptor
  after \<open>os_alloc_assoc_set\<close>, \<open>os_alloc_assoc_get\<close>, \<open>os_alloc_assign\<close>,
  \<open>os_alloc_release\<close> and their counterparts for tasks, if it held none before.
\<close>

lemma os_assoc_unlocks:
  assumes "resctrl_lock_fd s < 0"
  shows "(\<forall>ret s'. os_alloc_assoc_set K core c s = Some (ret, s') \<longrightarrow> resctrl_lock_fd s' < 0) \<and>
    (\<forall>r s'. os_alloc_assoc_get K core s = Some (r, s') \<longrightarrow> resctrl_lock_fd s' < 0) \<and>
    (\<forall>ret g s'. os_alloc_assign K cs s = Some (ret, g, s') \<longrightarrow> resctrl_lock_fd s' < 0) \<and>
    (\<forall>ret s'. os_alloc_release K cs s = Some (ret, s') \<longrightarrow> resctrl_lock_fd s' < 0) \<and>
    (\<forall>ret s'. os_alloc_assoc_set_pid K t c s = Some (ret, s') \<longrightarrow> resctrl_lock_fd s' < 0) \<and>
    resctrl_lock_fd (snd (os_alloc_assoc_get_pid K t s)) < 0 \<and> resctrl_lock_fd (snd (os_pid_get_pid_assoc K c s)) < 0 \<and>
    resctrl_lock_fd (snd (snd (os_alloc_assign_pid K ts s))) < 0 \<and> resctrl_lock_fd (snd (os_alloc_release_pid K ts s)) < 0"
proof (intro conjI allI impI)
  fix ret s'
  show "os_alloc_assoc_set K core c s = Some (ret, s') \<Longrightarrow> resctrl_lock_fd s' < 0" by (rule assoc_set_unlocks [OF assms])
  show "os_alloc_release K cs s = Some (ret, s') \<Longrightarrow> resctrl_lock_fd s' < 0"
    by (auto simp: os_alloc_release_def lock_defs split: prod.splits if_splits sum.splits option.splits dest: lock_failed)
  show "os_alloc_assoc_set_pid K t c s = Some (ret, s') \<Longrightarrow> resctrl_lock_fd s' < 0"
    using assms by (auto simp: os_alloc_assoc_set_pid_def lock_defs Let_def split: prod.splits if_splits sum.splits option.splits dest: lock_failed)
next
  fix r s'
  show "os_alloc_assoc_get K core s = Some (r, s') \<Longrightarrow> resctrl_lock_fd s' < 0"
    using assms by (auto simp: os_alloc_assoc_get_def lock_defs split: prod.splits if_splits dest: lock_failed)
next
  fix ret g s'
  show "os_alloc_assign K cs s = Some (ret, g, s') \<Longrightarrow> resctrl_lock_fd s' < 0"
    using assms by (auto simp: os_alloc_assign_def split: prod.splits if_splits sum.splits dest: assoc_all_unlocks)
qed (use assms in \<open>auto simp: os_alloc_assoc_get_pid_def os_pid_get_pid_assoc_def os_alloc_assign_pid_def os_alloc_release_pid_def lock_defs
      split: prod.splits if_splits sum.splits dest: lock_failed\<close>)

section \<open>Cores and their classes\<close>

lemma lock_keeps: "resctrl_lock K ty s = (ret, s') \<Longrightarrow> m_hw s' = m_hw s \<and> m_cap s' = m_cap s \<and> m_cpu s' = m_cpu s"
  by (auto simp: resctrl_lock_def Let_def split: if_splits)

lemma release_keeps [simp]:
  "m_hw (snd (resctrl_lock_release s)) = m_hw s" "m_cap (snd (resctrl_lock_release s)) = m_cap s" "m_cpu (snd (resctrl_lock_release s)) = m_cpu s"
  by (simp_all add: resctrl_lock_release_def)

lemma used_groups_free:
  assumes "used_groups_loop K i used s = Inr used'" "i < length used" "0 < j" "j \<le> i" "\<not> used' ! j"
  shows "group_free K s j"
proof -
  have keep: "used_groups_loop K i used s = Inr used' \<Longrightarrow> i < k \<Longrightarrow> used' ! k = used ! k" for i used k
  proof (induction i arbitrary: used)
    case (Suc i)
    then show ?case by (auto split: sum.splits if_splits simp del: of_nat_Suc)
  qed simp
  show ?thesis using assms
  proof (induction i arbitrary: used)
    case (Suc i)
    show ?case
    proof (cases "j = Suc i")
      case False
      with Suc show ?thesis by (auto split: sum.splits if_splits simp del: of_nat_Suc)
    next
      case True
      from Suc.prems(1) obtain m where m: "resctrl_alloc_cpumask_read K (of_nat (Suc i)) s = Inr m"
        by (auto split: sum.splits simp del: of_nat_Suc)
      have zero: "\<forall>v\<in>set (cm_tab m). v = 0"
        using Suc.prems m True keep [of i "used[Suc i := True]" "Suc i"] by (auto simp: word_gt_0 split: if_splits simp del: of_nat_Suc)
      then have "\<not> (\<exists>v\<in>set (cm_tab m). 0 < v)" by auto
      then obtain f where f: "resctrl_alloc_task_file_check K (of_nat (Suc i)) (used ! Suc i) s = Inr f"
        "used_groups_loop K i (used[Suc i := f]) s = Inr used'"
        using Suc.prems(1) m by (auto split: sum.splits simp del: of_nat_Suc)
      with keep [OF f(2), of "Suc i"] Suc.prems True have "\<not> f" by auto
      with f(1) have "class_content K (of_nat (Suc i)) ''tasks'' s = []"
        by (auto simp: resctrl_alloc_task_file_check_def fgets_lines_Nil_iff split: if_splits simp del: of_nat_Suc)
      with m zero True show ?thesis unfolding group_free_def by blast
    qed
  qed simp
qed

lemma unused_group_found:
  assumes "resctrl_alloc_get_unused_group K n s = Inr g"
  obtains j where "g = of_nat j" "0 < j" "j < unat n" "group_free K s j"
proof -
  have n: "n \<noteq> 0" using assms by (auto simp: resctrl_alloc_get_unused_group_def)
  then obtain used where u: "used_groups_loop K (unat n - 1) (replicate (unat n) False) s = Inr used"
    and g: "unused_group_loop used (unat n - 1) = Inr g"
    using assms by (auto simp: resctrl_alloc_get_unused_group_def split: sum.splits)
  have "\<exists>j. 0 < j \<and> j \<le> i \<and> \<not> used ! j \<and> g = of_nat j" if "unused_group_loop used i = Inr g" for i
    using that
  proof (induction i)
    case (Suc i)
    then show ?case by (cases "used ! Suc i") (auto simp del: of_nat_Suc)
  qed simp
  from this [OF g] obtain j where j: "0 < j" "j \<le> unat n - 1" "\<not> used ! j" "g = of_nat j" by blast
  have "0 < unat n" using n by (simp add: unat_gt_0)
  then have "group_free K s j" using used_groups_free [OF u _ j(1,2,3)] by simp
  with j \<open>0 < unat n\<close> show thesis by (intro that [of j]) simp_all
qed

lemma unat_mem_iff [simp]: "unat (k :: u32) \<in> unat ` S \<longleftrightarrow> k \<in> S"
  by (auto simp: image_iff word_unat_eq_iff [symmetric])

lemma unused_group_error: "resctrl_alloc_get_unused_group K n s = Inl e \<Longrightarrow> e \<noteq> PQOS_RETVAL_OK"
proof -
  have u: "used_groups_loop K i used s = Inl e \<Longrightarrow> e = PQOS_RETVAL_ERROR" for i used
  proof (induction i arbitrary: used)
    case (Suc i)
    then show ?case
      by (auto simp: resctrl_alloc_cpumask_read_def resctrl_alloc_task_file_check_def split: sum.splits if_splits simp del: of_nat_Suc)
  qed simp
  have "unused_group_loop used i = Inl e \<Longrightarrow> e = PQOS_RETVAL_RESOURCE" for used i
    by (induction i) (auto split: if_splits simp del: of_nat_Suc)
  then show "resctrl_alloc_get_unused_group K n s = Inl e \<Longrightarrow> e \<noteq> PQOS_RETVAL_OK"
    using u by (fastforce simp: resctrl_alloc_get_unused_group_def split: if_splits sum.splits)
qed

context resctrl_kernel
begin

text \<open>The cores of the machine belong to groups of the library.\<close>

definition machine_known :: "'h rlib \<Rightarrow> bool" where
  "machine_known s \<longleftrightarrow> groups_known s \<and> (\<forall>c\<in>set (cores (m_cpu s)). known_core s (lcore c))"

lemma known_after:
  assumes "machine_known s" "m_cap s' = m_cap s" "m_cpu s' = m_cpu s" "\<forall>l. owner (m_hw s') l = owner (m_hw s) l \<or> owner (m_hw s') l = Some (of_nat i)" "i < grps"
  shows "machine_known s'"
proof -
  have u: "unat (of_nat i :: u32) = i" using assms(1,5) by (simp add: machine_known_def groups_known_def unat_of_nat_u32)
  have "known_core s' c" if "known_core s c" for c
  proof (cases "owner (m_hw s') (unat c) = owner (m_hw s) (unat c)")
    case True
    with that show ?thesis by (simp add: known_core_def)
  next
    case False
    with assms(4) have "owner (m_hw s') (unat c) = Some (of_nat i)" by blast
    with that u assms(5) show ?thesis by (simp add: known_core_def)
  qed
  with assms show ?thesis by (simp add: machine_known_def groups_known_def)
qed

lemma os_assoc_set_owner:
  assumes known: "machine_known s" and i: "i < grps"
  obtains ret s' where "os_alloc_assoc_set K core (of_nat i) s = Some (ret, s')" and "m_cap s' = m_cap s" "m_cpu s' = m_cpu s"
    and "owner (m_hw s') = (if ret = PQOS_RETVAL_OK then (owner (m_hw s))(unat core := Some (of_nat i)) else owner (m_hw s))"
proof -
  have g: "resctrl_alloc_get_grps_num (m_cap s) = Inr (of_nat grps)" "grps < 2 ^ 32" using known by (simp_all add: machine_known_def groups_known_def)
  have below: "\<not> (of_nat grps :: u32) \<le> of_nat i" using i g(2) by (simp add: word_le_nat_alt unat_of_nat_u32)
  obtain ret1 s1 where l: "resctrl_lock_exclusive K s = (ret1, s1)" by fastforce
  then have k1: "m_hw s1 = m_hw s" "m_cap s1 = m_cap s" "m_cpu s1 = m_cpu s" using lock_keeps unfolding lock_defs by blast+
  show thesis
  proof (cases "pqos_cpu_check_core (Some (m_cpu s)) core = PQOS_RETVAL_OK")
    case False
    then show thesis by (intro that [of PQOS_RETVAL_PARAM s]) (simp_all add: os_alloc_assoc_set_def)
  next
    case core: True
    show thesis
    proof (cases "ret1 = PQOS_RETVAL_OK")
      case False
      then show thesis using core g below l k1 by (intro that [of ret1 s1]) (simp_all add: os_alloc_assoc_set_def)
    next
      case True
      from core known have "known_core s core" by (auto simp: machine_known_def check_core_OK_iff)
      then have kn: "groups_known s1" "known_core s1 core" using known k1 by (auto simp: machine_known_def groups_known_def known_core_def)
      from mon_assoc_get_defined [OF kn] obtain rm where rm: "resctrl_mon_assoc_get K core RESCTRL_MON_GROUP_NAME_SIZE s1 = Some rm" by blast
      from assoc_set_owner [OF kn i] obtain ret s2 where a: "resctrl_alloc_assoc_set K core (of_nat i) s1 = Some (ret, s2)"
        "owner (m_hw s2) = (if ret = PQOS_RETVAL_OK then (owner (m_hw s1))(unat core := Some (of_nat i)) else owner (m_hw s1))" by blast
      note k2 = hw_only_sel [OF assoc_set_hw_only [OF a(1)]]
      show thesis
      proof (cases "ret = PQOS_RETVAL_OK \<and> (\<exists>n. rm = Inr n)")
        case False
        then show thesis using core g below l True rm a k1 k2
          by (intro that [of ret "snd (resctrl_lock_release s2)"]) (auto simp: os_alloc_assoc_set_def split: sum.splits)
      next
        case inner: True
        then obtain n where n: "rm = Inr n" by blast
        have "groups_known s2" using kn(1) k2 by (simp add: groups_known_def)
        moreover have "known_core s2 core"
          using kn inner a(2) i g(2) by (auto simp: known_core_def unat_of_nat_u32)
        ultimately obtain r3 s3 where m: "resctrl_mon_assoc_set K core n s2 = Some (r3, s3)" "owner (m_hw s3) = owner (m_hw s2)"
          using mon_assoc_set_keeps by blast
        note k3 = hw_only_sel [OF mon_assoc_set_hw_only [OF m(1)]]
        show thesis using core g below l True rm a k1 k2 inner n m k3
          by (intro that [of ret "snd (resctrl_lock_release s3)"]) (simp_all add: os_alloc_assoc_set_def)
      qed
    qed
  qed
qed

lemma os_assoc_all_owner:
  assumes "machine_known s" and i: "i < grps"
  shows "\<exists>ret s'. os_assoc_all K cs (of_nat i) s = Some (ret, s') \<and> m_cap s' = m_cap s \<and>
    (ret = PQOS_RETVAL_OK \<longrightarrow> (\<forall>l. owner (m_hw s') l = (if l \<in> unat ` set cs then Some (of_nat i) else owner (m_hw s) l)))"
  using assms(1)
proof (induction cs arbitrary: s)
  case Nil
  then show ?case by simp
next
  case (Cons c cs)
  from os_assoc_set_owner [OF Cons.prems i, of c] obtain ret s1 where r: "os_alloc_assoc_set K c (of_nat i) s = Some (ret, s1)"
    "m_cap s1 = m_cap s" "m_cpu s1 = m_cpu s"
    "owner (m_hw s1) = (if ret = PQOS_RETVAL_OK then (owner (m_hw s))(unat c := Some (of_nat i)) else owner (m_hw s))" by blast
  show ?case
  proof (cases "ret = PQOS_RETVAL_OK")
    case False
    with r show ?thesis by simp
  next
    case True
    have "machine_known s1" by (rule known_after [OF Cons.prems r(2,3) _ i]) (simp add: r(4) True)
    from Cons.IH [OF this] obtain ret2 s2 where s2: "os_assoc_all K cs (of_nat i) s1 = Some (ret2, s2)" "m_cap s2 = m_cap s1"
      "ret2 = PQOS_RETVAL_OK \<longrightarrow> (\<forall>l. owner (m_hw s2) l = (if l \<in> unat ` set cs then Some (of_nat i) else owner (m_hw s1) l))" by blast
    with r True show ?thesis by auto
  qed
qed

lemma group_free_unowned:
  assumes "group_free K s i" "i < grps" "l < 4096"
  shows "owner (m_hw s) l \<noteq> Some (of_nat i)"
proof -
  from read_mask [OF assms(2)] obtain m where m: "resctrl_alloc_cpumask_read K (of_nat i) s = Inr m" "mask_wf m"
    "\<And>l. l < 4096 \<Longrightarrow> mask_bit m l \<longleftrightarrow> owner (m_hw s) l = Some (of_nat i)" by blast
  with assms(1) have z: "\<forall>v\<in>set (cm_tab m). v = 0" by (auto simp: group_free_def)
  have "cm_tab m ! (511 - l div 8) \<in> set (cm_tab m)" using m(2) by (intro nth_mem) (simp add: mask_wf_def)
  with z have "cm_tab m ! (511 - l div 8) = 0" by blast
  then have "\<not> mask_bit m l" by (simp add: mask_bit_def)
  with m(3) [OF assms(3)] show ?thesis by simp
qed

lemma mask_set_all_bits:
  assumes "mask_wf m" "\<forall>c\<in>set cs. c < 4096"
  shows "\<exists>m'. mask_set_all cs m = Some m' \<and> mask_wf m' \<and> (\<forall>l<4096. mask_bit m' l \<longleftrightarrow> l \<in> unat ` set cs \<or> mask_bit m l)"
  using assms
proof (induction cs arbitrary: m)
  case Nil
  then show ?case by simp
next
  case (Cons c cs)
  from Cons.prems cpumask_set_bit [of m c] obtain m1 where m1: "resctrl_cpumask_set c m = Some m1" "mask_wf m1"
    "\<And>k. k < 4096 \<Longrightarrow> mask_bit m1 k \<longleftrightarrow> k = unat c \<or> mask_bit m k" by auto
  from Cons.IH [OF m1(2)] Cons.prems m1 show ?case by auto
qed

lemma release_loop_set_all:
  "release_mask_loop n cs m = (if \<forall>c\<in>set cs. c < n then map_option Inr (mask_set_all cs m) else release_mask_loop n cs m)"
  by (induction cs arbitrary: m) (auto split: option.splits)

text \<open>Writing the mask of the default group with more cores.\<close>

lemma default_mask_owner:
  assumes "0 < grps" "\<forall>c\<in>set cs. known_core s c"
  obtains m m' ret s' where "resctrl_alloc_cpumask_read K 0 s = Inr m" "mask_set_all cs m = Some m'"
    "resctrl_alloc_cpumask_write K 0 m' s = (ret, s')"
    "ret = PQOS_RETVAL_OK \<Longrightarrow> owner (m_hw s') = (\<lambda>l. if l \<in> unat ` set cs then Some 0 else owner (m_hw s) l)"
    "ret \<noteq> PQOS_RETVAL_OK \<Longrightarrow> owner (m_hw s') = owner (m_hw s)"
proof -
  from read_mask [OF assms(1)] obtain m where m: "resctrl_alloc_cpumask_read K 0 s = Inr m" "mask_wf m"
    "\<And>l. l < 4096 \<Longrightarrow> mask_bit m l \<longleftrightarrow> owner (m_hw s) l = Some 0" by auto
  from mask_set_all_bits [OF m(2), of cs] assms(2) obtain m' where m': "mask_set_all cs m = Some m'" "mask_wf m'"
    "\<forall>l<4096. mask_bit m' l \<longleftrightarrow> l \<in> unat ` set cs \<or> mask_bit m l" by (auto simp: known_core_def)
  obtain ret s' where w: "resctrl_alloc_cpumask_write K 0 m' s = (ret, s')" by fastforce
  note mw = mask_written(1) [OF assms(1) m'(2), of s ret s', simplified, OF w]
  have cs: "l < 4096 \<and> (\<exists>c. owner (m_hw s) l = Some c)" if "l \<in> unat ` set cs" for l
    using that assms(2) by (auto simp: known_core_def word_less_nat_alt)
  have "owner (m_hw s') l = (if l \<in> unat ` set cs then Some 0 else owner (m_hw s) l)" if "ret = PQOS_RETVAL_OK" for l
    using mw [of l] that m(3) [of l] m'(3) cs [of l] high_cores [of l "m_hw s"]
    by (cases "owner (m_hw s) l"; cases "l \<in> unat ` set cs"; cases "l < 4096") auto
  moreover have "owner (m_hw s') = owner (m_hw s)" if "ret \<noteq> PQOS_RETVAL_OK" using mw that by auto
  ultimately show thesis using m m' w by (intro that [of m m' ret s']) auto
qed

lemma get_by_owner:
  assumes "groups_known s" "groups_known s'" "core < 4096" "owner (m_hw s') (unat core) = owner (m_hw s) (unat core)"
  shows "resctrl_alloc_assoc_get K core s' = resctrl_alloc_assoc_get K core s"
  using assoc_get_owner [OF assms(1,3)] assoc_get_owner [OF assms(2,3)] assms(4) by simp

lemma assign_exclusive_kernel:
  assumes "machine_known s" and "\<forall>c\<in>set cs. c < 4096"
  shows "\<exists>ret g s'. os_alloc_assign K cs s = Some (ret, g, s') \<and>
    (ret = PQOS_RETVAL_OK \<longrightarrow> (\<exists>j. g = Some j \<and> 0 < j \<and> unat j < grps \<and>
       (\<forall>k<4096. resctrl_alloc_assoc_get K k s \<noteq> Some (Inr (Some j))) \<and>
       (\<forall>k<4096. resctrl_alloc_assoc_get K k s' = (if k \<in> set cs then Some (Inr (Some j)) else resctrl_alloc_assoc_get K k s))))"
proof -
  have g: "resctrl_alloc_get_grps_num (m_cap s) = Inr (of_nat grps)" "grps < 2 ^ 32" and gk: "groups_known s"
    using assms(1) by (simp_all add: machine_known_def groups_known_def)
  have gu: "unat (of_nat grps :: u32) = grps" using g(2) by (simp add: unat_of_nat_u32)
  show ?thesis
  proof (cases "(of_nat grps :: u32) = 0")
    case True
    then show ?thesis using g by (simp add: os_alloc_assign_def)
  next
    case nz: False
    show ?thesis
    proof (cases "resctrl_alloc_get_unused_group K (of_nat grps) s")
      case (Inl e)
      then have "e \<noteq> PQOS_RETVAL_OK" by (rule unused_group_error)
      with Inl g nz show ?thesis by (simp add: os_alloc_assign_def)
    next
      case (Inr x)
      then obtain j where j: "x = of_nat j" "0 < j" "j < grps" "group_free K s j"
        using unused_group_found [OF Inr] gu by metis
      have ju: "unat (of_nat j :: u32) = j" using j(3) g(2) by (simp add: unat_of_nat_u32)
      then have j0: "0 < (of_nat j :: u32)" using j(2) by (simp add: word_less_nat_alt)
      from os_assoc_all_owner [OF assms(1) j(3), of cs] obtain ret s' where a: "os_assoc_all K cs (of_nat j) s = Some (ret, s')"
        "m_cap s' = m_cap s" "ret = PQOS_RETVAL_OK \<longrightarrow> (\<forall>l. owner (m_hw s') l = (if l \<in> unat ` set cs then Some (of_nat j) else owner (m_hw s) l))"
        by blast
      have gk': "groups_known s'" using gk a(2) by (simp add: groups_known_def)
      have un: "resctrl_alloc_assoc_get K k s \<noteq> Some (Inr (Some (of_nat j)))" if "k < 4096" for k
        using assoc_get_owner [OF gk that] group_free_unowned [OF j(4,3), of "unat k"] that
        by (auto simp: word_less_nat_alt split: option.splits if_splits)
      have "resctrl_alloc_assoc_get K k s' = (if k \<in> set cs then Some (Inr (Some (of_nat j))) else resctrl_alloc_assoc_get K k s)"
        if "k < 4096" "ret = PQOS_RETVAL_OK" for k
        using assoc_get_owner [OF gk' that(1)] get_by_owner [OF gk gk' that(1)] a(3) that(2) ju j(3)
        by auto
      with un j0 ju j(3) a g nz Inr j(1) show ?thesis by (simp add: os_alloc_assign_def)
    qed
  qed
qed

lemma release_default_kernel:
  assumes "groups_known s" "0 < grps" "\<forall>c\<in>set cs. known_core s c" "\<forall>c\<in>set cs. c < of_nat (length (cores (m_cpu s)))"
  shows "\<exists>ret s'. os_alloc_release K cs s = Some (ret, s') \<and>
    (\<forall>k<4096. resctrl_alloc_assoc_get K k s' =
       (if ret = PQOS_RETVAL_OK \<and> k \<in> set cs then Some (Inr (Some 0)) else resctrl_alloc_assoc_get K k s))"
proof -
  obtain ret1 s1 where l: "resctrl_lock_exclusive K s = (ret1, s1)" by fastforce
  then have k1: "m_hw s1 = m_hw s" "m_cap s1 = m_cap s" "m_cpu s1 = m_cpu s" using lock_keeps unfolding lock_defs by blast+
  have gk1: "groups_known s1" using assms(1) k1 by (simp add: groups_known_def)
  show ?thesis
  proof (cases "ret1 = PQOS_RETVAL_OK")
    case False
    have "resctrl_alloc_assoc_get K k s1 = resctrl_alloc_assoc_get K k s" if "k < 4096" for k
      by (rule get_by_owner [OF assms(1) gk1 that]) (simp add: k1)
    with False l show ?thesis by (simp add: os_alloc_release_def)
  next
    case True
    have kn1: "\<forall>c\<in>set cs. known_core s1 c" using assms(3) k1 by (simp add: known_core_def)
    from default_mask_owner [OF assms(2) kn1] obtain m m' ret s2 where d: "resctrl_alloc_cpumask_read K 0 s1 = Inr m"
      "mask_set_all cs m = Some m'" "resctrl_alloc_cpumask_write K 0 m' s1 = (ret, s2)"
      "ret = PQOS_RETVAL_OK \<Longrightarrow> owner (m_hw s2) = (\<lambda>l. if l \<in> unat ` set cs then Some 0 else owner (m_hw s1) l)"
      "ret \<noteq> PQOS_RETVAL_OK \<Longrightarrow> owner (m_hw s2) = owner (m_hw s1)" by blast
    let ?s = "snd (resctrl_lock_release s2)"
    note k2 = hw_only_sel [OF cpumask_write_hw_only [OF d(3)]]
    have gk2: "groups_known ?s" using gk1 k2 by (simp add: groups_known_def)
    have lp: "release_mask_loop (of_nat (length (cores (m_cpu s1)))) cs m = Some (Inr m')"
      using release_loop_set_all [of "of_nat (length (cores (m_cpu s1)))" cs m] assms(4) d(2) k1 by simp
    have "resctrl_alloc_assoc_get K k ?s = (if ret = PQOS_RETVAL_OK \<and> k \<in> set cs then Some (Inr (Some 0)) else resctrl_alloc_assoc_get K k s)"
      if "k < 4096" for k
      using assoc_get_owner [OF gk2 that] get_by_owner [OF assms(1) gk2 that] d(4,5) assms(2) k1
      by (cases "ret = PQOS_RETVAL_OK") auto
    then show ?thesis using l True d(1,3) lp by (simp add: os_alloc_release_def)
  qed
qed

end

section \<open>Properties\<close>

text \<open>
  C31. \<open>os_alloc_assign\<close> hands out a class exclusively. On a resctrl file system with the
  documented behaviour it always returns, and after the answer OK the class it stores is a
  class other than 0 that no core was in before; every requested core is in it now, and the
  association of all other cores is as before.
\<close>

theorem os_assign_exclusive:
  assumes K: "resctrl_kernel K owner grps" and "resctrl_alloc_get_grps_num (m_cap s) = Inr (of_nat grps)" and "grps < 2 ^ 32"
    and "\<forall>c\<in>set (cores (m_cpu s)). lcore c < 4096 \<and> (\<exists>d. owner (m_hw s) (unat (lcore c)) = Some d \<and> unat d < grps)"
    and "\<forall>c\<in>set cs. c < 4096"
  shows "\<exists>ret g s'. os_alloc_assign K cs s = Some (ret, g, s') \<and>
    (ret = PQOS_RETVAL_OK \<longrightarrow> (\<exists>j. g = Some j \<and> 0 < j \<and> unat j < grps \<and>
       (\<forall>k<4096. resctrl_alloc_assoc_get K k s \<noteq> Some (Inr (Some j))) \<and>
       (\<forall>k<4096. resctrl_alloc_assoc_get K k s' = (if k \<in> set cs then Some (Inr (Some j)) else resctrl_alloc_assoc_get K k s))))"
  using assms by (intro resctrl_kernel.assign_exclusive_kernel [OF K])
    (simp_all add: resctrl_kernel.machine_known_def [OF K] resctrl_kernel.groups_known_def [OF K] resctrl_kernel.known_core_def [OF K])

text \<open>
  \<open>os_alloc_release\<close> returns cores to class 0. For cores of the machine it always
  returns; after OK the listed cores are in class 0, after an error where they were, and
  every other core is where it was.
\<close>

theorem os_release_default:
  assumes K: "resctrl_kernel K owner grps" and "resctrl_alloc_get_grps_num (m_cap s) = Inr (of_nat grps)" and "grps < 2 ^ 32"
    and "0 < grps" and "\<forall>c\<in>set cs. c < 4096 \<and> c < of_nat (length (cores (m_cpu s))) \<and> (\<exists>d. owner (m_hw s) (unat c) = Some d \<and> unat d < grps)"
  shows "\<exists>ret s'. os_alloc_release K cs s = Some (ret, s') \<and>
    (\<forall>k<4096. resctrl_alloc_assoc_get K k s' =
       (if ret = PQOS_RETVAL_OK \<and> k \<in> set cs then Some (Inr (Some 0)) else resctrl_alloc_assoc_get K k s))"
  using assms by (intro resctrl_kernel.release_default_kernel [OF K])
    (simp_all add: resctrl_kernel.groups_known_def [OF K] resctrl_kernel.known_core_def [OF K])

text \<open>Examples on the reference file system.\<close>

lemma ref_lock [simp]: "resctrl_lock ref_resctrl ty s = (PQOS_RETVAL_OK, s\<lparr>resctrl_lock_fd := 3\<rparr>)"
  by (simp add: resctrl_lock_def ref_resctrl_def Let_def)

lemma ref_os_assoc_OK:
  assumes "supported_events s = 0" "i < 4" "core < 4096" "pqos_cpu_check_core (Some (m_cpu s)) core = PQOS_RETVAL_OK"
    "resctrl_alloc_get_grps_num (m_cap s) = Inr 4" "os_alloc_assoc_set ref_resctrl core (of_nat i) s = Some (ret, s')"
  shows "ret = PQOS_RETVAL_OK \<and> supported_events s' = 0 \<and> m_cpu s' = m_cpu s \<and> m_cap s' = m_cap s"
proof -
  let ?s = "s\<lparr>resctrl_lock_fd := 3\<rparr>"
  have "\<not> (4 :: u32) \<le> of_nat i" using assms(2) by (simp add: word_le_nat_alt unat_of_nat_u32)
  then obtain r s1 where r: "resctrl_alloc_assoc_set ref_resctrl core (of_nat i) ?s = Some (r, s1)" and e: "ret = r" "s' = snd (resctrl_lock_release s1)"
    using assms by (auto simp: os_alloc_assoc_set_def lock_defs resctrl_mon_assoc_get_def resctrl_mon_is_supported_def
        split: option.splits if_splits)
  have "r = PQOS_RETVAL_OK" using ref_assoc_OK [OF _ assms(2,3) r] assms(1) by simp
  with e hw_only_sel [OF assoc_set_hw_only [OF r]] assms(1) show ?thesis by (simp add: resctrl_lock_release_def)
qed

lemma ref_assign_OK:
  assumes "os_alloc_assign ref_resctrl [1, 2] sample_rlib = Some (ret, g, s')"
  shows "ret = PQOS_RETVAL_OK \<and> g = Some 3"
proof -
  have cc: "pqos_cpu_check_core (Some sample_cpu) 1 = PQOS_RETVAL_OK" "pqos_cpu_check_core (Some sample_cpu) 2 = PQOS_RETVAL_OK" by code_simp+
  from assms have all: "os_assoc_all ref_resctrl [1, 2] 3 sample_rlib = Some (ret, s')" and g: "g = Some 3"
    by (auto simp: os_alloc_assign_def ref_unused)
  then obtain r1 s1 where r1: "os_alloc_assoc_set ref_resctrl 1 3 sample_rlib = Some (r1, s1)" by (auto split: option.splits)
  have k1: "r1 = PQOS_RETVAL_OK \<and> supported_events s1 = 0 \<and> m_cpu s1 = m_cpu sample_rlib \<and> m_cap s1 = m_cap sample_rlib"
    by (rule ref_os_assoc_OK [of sample_rlib 3 1]) (use r1 cc in simp_all)
  with all r1 obtain r2 s2 where r2: "os_alloc_assoc_set ref_resctrl 2 3 s1 = Some (r2, s2)" by (auto split: option.splits)
  have "r2 = PQOS_RETVAL_OK \<and> supported_events s2 = 0 \<and> m_cpu s2 = m_cpu s1 \<and> m_cap s2 = m_cap s1"
    by (rule ref_os_assoc_OK [of s1 3 2]) (use r2 k1 cc in simp_all)
  with all r1 r2 k1 g show ?thesis by (auto split: if_splits)
qed

lemma sample_cores: "\<forall>c\<in>set (cores (m_cpu sample_rlib)). lcore c < 4096 \<and> (\<exists>d. ref_owner (m_hw sample_rlib) (unat (lcore c)) = Some d \<and> unat d < 4)"
  by (simp add: sample_cpu_def sample_core_def ref_owner_def)

theorem os_assign_exclusive_witness:
  "\<exists>s'. os_alloc_assign ref_resctrl [1, 2] sample_rlib = Some (PQOS_RETVAL_OK, Some 3, s') \<and>
     resctrl_alloc_assoc_get ref_resctrl 1 s' = Some (Inr (Some 3)) \<and> resctrl_alloc_assoc_get ref_resctrl 2 s' = Some (Inr (Some 3)) \<and>
     resctrl_alloc_assoc_get ref_resctrl 0 s' = resctrl_alloc_assoc_get ref_resctrl 0 sample_rlib"
proof -
  have "\<forall>c\<in>set [1, 2 :: u32]. c < 4096" by simp
  from os_assign_exclusive [OF refgrp.resctrl_kernel_axioms _ _ sample_cores this] obtain ret g s' where
    a: "os_alloc_assign ref_resctrl [1, 2] sample_rlib = Some (ret, g, s')"
    and r: "ret = PQOS_RETVAL_OK \<longrightarrow> (\<exists>j. g = Some j \<and> 0 < j \<and> unat j < 4 \<and>
       (\<forall>k<4096. resctrl_alloc_assoc_get ref_resctrl k sample_rlib \<noteq> Some (Inr (Some j))) \<and>
       (\<forall>k<4096. resctrl_alloc_assoc_get ref_resctrl k s' =
         (if k \<in> set [1, 2] then Some (Inr (Some j)) else resctrl_alloc_assoc_get ref_resctrl k sample_rlib)))"
    by (auto simp del: set_simps)
  from ref_assign_OK [OF a] r have "\<forall>k<4096. resctrl_alloc_assoc_get ref_resctrl k s' =
      (if k \<in> set [1, 2] then Some (Inr (Some 3)) else resctrl_alloc_assoc_get ref_resctrl k sample_rlib)" by simp
  with a ref_assign_OK [OF a] show ?thesis by simp
qed

definition class2_rlib :: "ref_groups rlib" where
  "class2_rlib = sample_rlib\<lparr>m_hw := \<lparr>rg_owner = (\<lambda>l. 2), rg_task = (\<lambda>t. 0)\<rparr>\<rparr>"

lemma ref_release_OK:
  assumes "os_alloc_release ref_resctrl [1, 3] class2_rlib = Some (ret, s')"
  shows "ret = PQOS_RETVAL_OK"
proof -
  let ?s = "class2_rlib\<lparr>resctrl_lock_fd := 3\<rparr>"
  obtain m where m: "resctrl_alloc_cpumask_read ref_resctrl 0 ?s = Inr m" using refgrp.read_mask [of 0 ?s] by auto
  have n: "of_nat (length (cores (m_cpu class2_rlib))) = (4 :: u32)" by (simp add: class2_rlib_def sample_cpu_def)
  have "\<forall>c\<in>set [1, 3 :: u32]. c < 4" by simp
  then have "release_mask_loop 4 [1, 3] m = map_option Inr (mask_set_all [1, 3] m)"
    by (rule trans [OF refgrp.release_loop_set_all if_P])
  with assms m obtain m' s2 where "resctrl_alloc_cpumask_write ref_resctrl 0 m' ?s = (ret, s2)"
    by (auto simp: os_alloc_release_def lock_defs n simp del: release_mask_loop.simps mask_set_all.simps split: option.splits prod.splits)
  then show ?thesis using ref_write_OK [of 0] by auto
qed

theorem os_release_default_witness:
  "\<exists>s'. os_alloc_release ref_resctrl [1, 3] class2_rlib = Some (PQOS_RETVAL_OK, s') \<and>
     resctrl_alloc_assoc_get ref_resctrl 1 s' = Some (Inr (Some 0)) \<and>
     resctrl_alloc_assoc_get ref_resctrl 2 s' = resctrl_alloc_assoc_get ref_resctrl 2 class2_rlib"
proof -
  have "\<forall>c\<in>set [1, 3 :: u32]. c < 4096 \<and> c < of_nat (length (cores (m_cpu class2_rlib))) \<and>
      (\<exists>d. ref_owner (m_hw class2_rlib) (unat c) = Some d \<and> unat d < 4)"
    by (simp add: class2_rlib_def sample_cpu_def ref_owner_def)
  moreover have "resctrl_alloc_get_grps_num (m_cap class2_rlib) = Inr (of_nat 4)" by (simp add: class2_rlib_def)
  ultimately obtain ret s' where r: "os_alloc_release ref_resctrl [1, 3] class2_rlib = Some (ret, s')"
    "\<forall>k<4096. resctrl_alloc_assoc_get ref_resctrl k s' =
       (if ret = PQOS_RETVAL_OK \<and> k \<in> set [1, 3] then Some (Inr (Some 0)) else resctrl_alloc_assoc_get ref_resctrl k class2_rlib)"
    using os_release_default [OF refgrp.resctrl_kernel_axioms, of class2_rlib "[1, 3]"] by auto
  with ref_release_OK [OF r(1)] show ?thesis by simp
qed

end
