(* ===== verification/OsCat.thy ===== *)
theory OsCat
  imports OsAssoc HwCat
begin

text \<open>
  Cache and bandwidth allocation on the operating system interface (\<open>os_l3ca_*\<close>,
  \<open>os_l2ca_*\<close>, \<open>os_mba_*\<close> and \<open>os_smba_*\<close> of \<open>lib/os_allocation.c\<close>): each class is changed
  by reading its schemata file into a table, changing one entry and writing the lines of
  the technology back, under the lock.
\<close>

section \<open>Resource ids\<close>

definition verify_id :: "u32 list option \<Rightarrow> u32 \<Rightarrow> retval" where
  "verify_id ids i =
     (case ids of None \<Rightarrow> PQOS_RETVAL_ERROR | Some ids \<Rightarrow> if i \<in> set ids then PQOS_RETVAL_OK else PQOS_RETVAL_PARAM)"

definition verify_l3cat_id :: "u32 \<Rightarrow> pqos_cpuinfo \<Rightarrow> retval" where
  "verify_l3cat_id l3cat cpu = verify_id (pqos_cpu_get_l3cat_ids (Some cpu)) l3cat"

definition verify_mba_id :: "u32 \<Rightarrow> pqos_cpuinfo \<Rightarrow> retval" where
  "verify_mba_id mba cpu = verify_id (pqos_cpu_get_mba_ids (Some cpu)) mba"

definition verify_smba_id :: "u32 \<Rightarrow> pqos_cpuinfo \<Rightarrow> retval" where
  "verify_smba_id smba cpu = verify_id (pqos_cpu_get_smba_ids (Some cpu)) smba"

definition verify_l2_id :: "u32 \<Rightarrow> pqos_cpuinfo \<Rightarrow> retval" where
  "verify_l2_id l2id cpu = verify_id (pqos_cpu_get_l2ids (Some cpu)) l2id"

section \<open>Changing the schemata of a class\<close>

text \<open>A new table filled from the file of the class.\<close>

definition schemata_load :: "'h resctrl_os \<Rightarrow> u32 \<Rightarrow> 'h rlib \<Rightarrow> resctrl_schemata res" where
  "schemata_load K class_id s =
     (case resctrl_schemata_alloc (Some (m_cap s)) (Some (m_cpu s)) of
        None \<Rightarrow> Inl PQOS_RETVAL_ERROR
      | Some schmt \<Rightarrow>
          (case resctrl_alloc_schemata_read K class_id schmt s of (ret, schmt) \<Rightarrow>
             if ret \<noteq> PQOS_RETVAL_OK then Inl ret else Inr schmt))"

text \<open>The result of the change of an entry is written, if it was accepted; the table is kept.\<close>

definition schemata_store ::
  "'h resctrl_os \<Rightarrow> u32 \<Rightarrow> u32 \<Rightarrow> retval \<times> resctrl_schemata \<Rightarrow> 'h rlib \<Rightarrow> resctrl_schemata res \<times> 'h rlib" where
  "schemata_store K class_id technology upd s =
     (case upd of (ret, schmt) \<Rightarrow>
        if ret \<noteq> PQOS_RETVAL_OK then (Inl ret, s)
        else (case resctrl_alloc_schemata_write K class_id technology schmt s of (ret, s) \<Rightarrow>
                (if ret \<noteq> PQOS_RETVAL_OK then Inl ret else Inr schmt, s)))"

text \<open>With CDP on, one mask stands for code and data.\<close>

definition os_ca_entry :: "bool \<Rightarrow> pqos_ca \<Rightarrow> pqos_ca" where
  "os_ca_entry cdp_enabled ca =
     (if cdp_enabled \<and> \<not> ca_cdp ca then ca\<lparr>ca_cdp := True, ca_word0 := ways_mask ca, ca_word1 := ways_mask ca\<rparr> else ca)"

fun os_ca_set_loop ::
  "'h resctrl_os \<Rightarrow> u32 \<Rightarrow> (resctrl_schemata \<Rightarrow> u32 \<Rightarrow> pqos_ca \<Rightarrow> retval \<times> resctrl_schemata) \<Rightarrow> u32 \<Rightarrow> bool \<Rightarrow> pqos_ca list \<Rightarrow> 'h rlib
    \<Rightarrow> retval \<times> 'h rlib" where
  "os_ca_set_loop K technology set_entry res_id cdp_enabled [] s = (PQOS_RETVAL_OK, s)"
| "os_ca_set_loop K technology set_entry res_id cdp_enabled (ca # cas) s =
     (if ca_cdp ca \<and> \<not> cdp_enabled then (PQOS_RETVAL_ERROR, s)
      else (case schemata_load K (ca_class_id ca) s of
              Inl ret \<Rightarrow> (ret, s)
            | Inr schmt \<Rightarrow>
                (case schemata_store K (ca_class_id ca) technology (set_entry schmt res_id (os_ca_entry cdp_enabled ca)) s of
                   (Inl ret, s) \<Rightarrow> (ret, s)
                 | (Inr _, s) \<Rightarrow> os_ca_set_loop K technology set_entry res_id cdp_enabled cas s)))"

definition os_l3ca_set :: "'h resctrl_os \<Rightarrow> u32 \<Rightarrow> pqos_ca list \<Rightarrow> 'h rlib \<Rightarrow> retval \<times> 'h rlib" where
  "os_l3ca_set K l3cat cas s =
     (if \<exists>ca\<in>set cas. \<not> ca_nonzero ca then (PQOS_RETVAL_PARAM, s)
      else if \<not> cap_get_l3ca_non_contignous (m_cap s) \<and> (\<exists>ca\<in>set cas. \<not> IS_CONTIGNOUS ca) then (PQOS_RETVAL_PARAM, s)
      else (case pqos_l3ca_get_clos_num (Some (m_cap s)) of Inl _ \<Rightarrow> (PQOS_RETVAL_RESOURCE, s) | Inr _ \<Rightarrow>
             (case resctrl_alloc_get_grps_num (m_cap s) of Inl e \<Rightarrow> (e, s) | Inr num_grps \<Rightarrow>
                if unat num_grps < length cas then (PQOS_RETVAL_ERROR, s)
                else (let ret = verify_l3cat_id l3cat (m_cpu s)
                      in if ret \<noteq> PQOS_RETVAL_OK then (ret, s)
                         else (case pqos_l3ca_cdp_enabled (Some (m_cap s)) False True of Inl e \<Rightarrow> (e, s) | Inr (_, cdp_enabled) \<Rightarrow>
                                (case resctrl_lock_exclusive K s of (ret, s) \<Rightarrow>
                                   if ret \<noteq> PQOS_RETVAL_OK then (ret, s)
                                   else (case os_ca_set_loop K PQOS_TECHNOLOGY_L3CA resctrl_schemata_l3ca_set l3cat cdp_enabled cas s of
                                           (ret, s) \<Rightarrow> (ret, snd (resctrl_lock_release s)))))))))"

definition os_l2ca_set :: "'h resctrl_os \<Rightarrow> u32 \<Rightarrow> pqos_ca list \<Rightarrow> 'h rlib \<Rightarrow> retval \<times> 'h rlib" where
  "os_l2ca_set K l2id cas s =
     (if \<not> cap_get_l2ca_non_contignous (m_cap s) \<and> (\<exists>ca\<in>set cas. \<not> IS_CONTIGNOUS ca) then (PQOS_RETVAL_PARAM, s)
      else (case pqos_l2ca_get_clos_num (Some (m_cap s)) of Inl _ \<Rightarrow> (PQOS_RETVAL_RESOURCE, s) | Inr l2ca_num \<Rightarrow>
             (case resctrl_alloc_get_grps_num (m_cap s) of Inl e \<Rightarrow> (e, s) | Inr num_grps \<Rightarrow>
                if unat num_grps < length cas then (PQOS_RETVAL_PARAM, s)
                else (case pqos_l2ca_cdp_enabled (Some (m_cap s)) False True of Inl e \<Rightarrow> (e, s) | Inr (_, cdp_enabled) \<Rightarrow>
                       if \<exists>ca\<in>set cas. l2ca_num \<le> ca_class_id ca then (PQOS_RETVAL_PARAM, s)
                       else (let ret = verify_l2_id l2id (m_cpu s)
                             in if ret \<noteq> PQOS_RETVAL_OK then (ret, s)
                                else (case resctrl_lock_exclusive K s of (ret, s) \<Rightarrow>
                                        if ret \<noteq> PQOS_RETVAL_OK then (ret, s)
                                        else (case os_ca_set_loop K PQOS_TECHNOLOGY_L2CA resctrl_schemata_l2ca_set l2id cdp_enabled cas s of
                                                (ret, s) \<Rightarrow> (ret, snd (resctrl_lock_release s)))))))))"

section \<open>Reading the classes\<close>

text \<open>The entry of one class; \<open>set_id\<close> stores the class number in it.\<close>

definition schemata_entry ::
  "'h resctrl_os \<Rightarrow> (resctrl_schemata \<Rightarrow> u32 \<Rightarrow> 'e res) \<Rightarrow> (u32 \<Rightarrow> 'e \<Rightarrow> 'e) \<Rightarrow> u32 \<Rightarrow> u32 \<Rightarrow> 'h rlib \<Rightarrow> 'e res" where
  "schemata_entry K get_entry set_id res_id class_id s =
     (case schemata_load K class_id s of
        Inl e \<Rightarrow> Inl e
      | Inr schmt \<Rightarrow> (case get_entry schmt res_id of Inl e \<Rightarrow> Inl e | Inr x \<Rightarrow> Inr (set_id class_id x)))"

fun os_get_loop ::
  "'h resctrl_os \<Rightarrow> (resctrl_schemata \<Rightarrow> u32 \<Rightarrow> 'e res) \<Rightarrow> (u32 \<Rightarrow> 'e \<Rightarrow> 'e) \<Rightarrow> u32 \<Rightarrow> u32 list \<Rightarrow> 'h rlib \<Rightarrow> 'e list res" where
  "os_get_loop K get_entry set_id res_id [] s = Inr []"
| "os_get_loop K get_entry set_id res_id (c # cs) s =
     (case schemata_entry K get_entry set_id res_id c s of
        Inl e \<Rightarrow> Inl e
      | Inr x \<Rightarrow> (case os_get_loop K get_entry set_id res_id cs s of Inl e \<Rightarrow> Inl e | Inr xs \<Rightarrow> Inr (x # xs)))"

text \<open>The common end of the queries, after the check of the table size.\<close>

definition os_get_classes ::
  "'h resctrl_os \<Rightarrow> (resctrl_schemata \<Rightarrow> u32 \<Rightarrow> 'e res) \<Rightarrow> (u32 \<Rightarrow> 'e \<Rightarrow> 'e) \<Rightarrow> retval \<Rightarrow> u32 \<Rightarrow> u32 \<Rightarrow> 'h rlib \<Rightarrow> 'e list res \<times> 'h rlib" where
  "os_get_classes K get_entry set_id verified res_id num s =
     (if verified \<noteq> PQOS_RETVAL_OK then (Inl verified, s)
      else (case resctrl_lock_shared K s of (ret, s) \<Rightarrow>
              if ret \<noteq> PQOS_RETVAL_OK then (Inl ret, s)
              else (os_get_loop K get_entry set_id res_id (map of_nat [0..<unat num]) s, snd (resctrl_lock_release s))))"

definition os_l3ca_get :: "'h resctrl_os \<Rightarrow> u32 \<Rightarrow> u32 \<Rightarrow> 'h rlib \<Rightarrow> pqos_ca list res \<times> 'h rlib" where
  "os_l3ca_get K l3cat max_num_ca s =
     (case pqos_l3ca_get_clos_num (Some (m_cap s)) of Inl _ \<Rightarrow> (Inl PQOS_RETVAL_RESOURCE, s) | Inr _ \<Rightarrow>
       (case resctrl_alloc_get_grps_num (m_cap s) of Inl e \<Rightarrow> (Inl e, s) | Inr num \<Rightarrow>
          if max_num_ca < num then (Inl PQOS_RETVAL_ERROR, s)
          else os_get_classes K resctrl_schemata_l3ca_get (\<lambda>i ca. ca\<lparr>ca_class_id := i\<rparr>) (verify_l3cat_id l3cat (m_cpu s)) l3cat num s))"

definition os_l2ca_get :: "'h resctrl_os \<Rightarrow> u32 \<Rightarrow> u32 \<Rightarrow> 'h rlib \<Rightarrow> pqos_ca list res \<times> 'h rlib" where
  "os_l2ca_get K l2id max_num_ca s =
     (case pqos_l2ca_get_clos_num (Some (m_cap s)) of Inl _ \<Rightarrow> (Inl PQOS_RETVAL_RESOURCE, s) | Inr _ \<Rightarrow>
       (case resctrl_alloc_get_grps_num (m_cap s) of Inl e \<Rightarrow> (Inl e, s) | Inr num \<Rightarrow>
          if max_num_ca < num then (Inl PQOS_RETVAL_PARAM, s)
          else os_get_classes K resctrl_schemata_l2ca_get (\<lambda>i ca. ca\<lparr>ca_class_id := i\<rparr>) (verify_l2_id l2id (m_cpu s)) l2id num s))"

definition os_mba_get :: "'h resctrl_os \<Rightarrow> u32 \<Rightarrow> u32 \<Rightarrow> 'h rlib \<Rightarrow> pqos_mba list res \<times> 'h rlib" where
  "os_mba_get K mba max_num_clos s =
     (case pqos_cap_get_type (Some (m_cap s)) PQOS_CAP_TYPE_MBA of Inl _ \<Rightarrow> (Inl PQOS_RETVAL_RESOURCE, s) | Inr _ \<Rightarrow>
       (case resctrl_alloc_get_grps_num (m_cap s) of Inl e \<Rightarrow> (Inl e, s) | Inr num \<Rightarrow>
          if max_num_clos < num then (Inl PQOS_RETVAL_ERROR, s)
          else os_get_classes K resctrl_schemata_mba_get (\<lambda>i m. m\<lparr>mb_class_id := i\<rparr>) (verify_mba_id mba (m_cpu s)) mba num s))"

definition os_smba_get_amd :: "'h resctrl_os \<Rightarrow> u32 \<Rightarrow> u32 \<Rightarrow> 'h rlib \<Rightarrow> pqos_mba list res \<times> 'h rlib" where
  "os_smba_get_amd K smba max_num_clos s =
     (case pqos_cap_get_type (Some (m_cap s)) PQOS_CAP_TYPE_SMBA of Inl _ \<Rightarrow> (Inl PQOS_RETVAL_RESOURCE, s) | Inr _ \<Rightarrow>
       (case resctrl_alloc_get_grps_num (m_cap s) of Inl e \<Rightarrow> (Inl e, s) | Inr num \<Rightarrow>
          if max_num_clos < num then (Inl PQOS_RETVAL_ERROR, s)
          else os_get_classes K resctrl_schemata_smba_get (\<lambda>i m. m\<lparr>mb_class_id := i\<rparr>) (verify_smba_id smba (m_cpu s)) smba num s))"

text \<open>The first entry of the caller's table selects SMBA.\<close>

definition os_mba_get_amd :: "'h resctrl_os \<Rightarrow> u32 \<Rightarrow> u32 \<Rightarrow> bool \<Rightarrow> 'h rlib \<Rightarrow> pqos_mba list res \<times> 'h rlib" where
  "os_mba_get_amd K mba max_num_clos want_smba s =
     (if want_smba then os_smba_get_amd K mba max_num_clos s else os_mba_get K mba max_num_clos s)"

section \<open>Bandwidth\<close>

text \<open>
  The value written for a request: rounded to the step, or cut below the largest number with
  the controller on. A step of 0 is a division by zero in C, the value \<open>None\<close> here.
\<close>

definition os_mba_value :: "u32 \<Rightarrow> pqos_mba \<Rightarrow> pqos_mba option" where
  "os_mba_value step req =
     (if \<not> mb_ctrl req
      then if step = 0 then None
           else (let v = ((mb_max req + step div 2) div step) * step in Some (req\<lparr>mb_max := if v = 0 then step else v\<rparr>))
      else if (- 1) - step < mb_max req then if step = 0 then None else Some (req\<lparr>mb_max := mb_max req - mb_max req mod step\<rparr>)
           else Some req)"

text \<open>
  One request: the controller flag has to agree with the capability; with \<open>want_actual\<close> the
  class is read again, into the same table, and its entry delivered.
\<close>

definition os_mba_one ::
  "'h resctrl_os \<Rightarrow> u32 \<Rightarrow> (resctrl_schemata \<Rightarrow> u32 \<Rightarrow> pqos_mba \<Rightarrow> retval \<times> resctrl_schemata) \<Rightarrow> (resctrl_schemata \<Rightarrow> u32 \<Rightarrow> pqos_mba res)
    \<Rightarrow> bool \<Rightarrow> (pqos_mba \<Rightarrow> pqos_mba option) \<Rightarrow> bool \<Rightarrow> u32 \<Rightarrow> pqos_mba \<Rightarrow> 'h rlib \<Rightarrow> (pqos_mba res \<times> 'h rlib) option" where
  "os_mba_one K technology set_entry get_entry ctrl_on value want_actual res_id req s =
     (if mb_ctrl req \<noteq> ctrl_on then Some (Inl PQOS_RETVAL_PARAM, s)
      else (case schemata_load K (mb_class_id req) s of
              Inl ret \<Rightarrow> Some (Inl ret, s)
            | Inr schmt \<Rightarrow>
                (case value req of None \<Rightarrow> None | Some mba \<Rightarrow>
                   Some (case schemata_store K (mb_class_id req) technology (set_entry schmt res_id mba) s of
                           (Inl ret, s) \<Rightarrow> (Inl ret, s)
                         | (Inr schmt, s) \<Rightarrow>
                             if \<not> want_actual then (Inr req, s)
                             else (case resctrl_alloc_schemata_read K (mb_class_id req) schmt s of (ret, schmt) \<Rightarrow>
                                     if ret \<noteq> PQOS_RETVAL_OK then (Inl ret, s)
                                     else (case get_entry schmt res_id of
                                             Inl e \<Rightarrow> (Inl e, s)
                                           | Inr m \<Rightarrow> (Inr (m\<lparr>mb_class_id := mb_class_id req\<rparr>), s)))))))"

fun os_mba_loop :: "(pqos_mba \<Rightarrow> 'h rlib \<Rightarrow> (pqos_mba res \<times> 'h rlib) option) \<Rightarrow> pqos_mba list \<Rightarrow> 'h rlib \<Rightarrow> (pqos_mba list res \<times> 'h rlib) option" where
  "os_mba_loop one [] s = Some (Inr [], s)"
| "os_mba_loop one (req # reqs) s =
     (case one req s of
        None \<Rightarrow> None
      | Some (Inl e, s) \<Rightarrow> Some (Inl e, s)
      | Some (Inr m, s) \<Rightarrow>
          (case os_mba_loop one reqs s of
             None \<Rightarrow> None
           | Some (Inl e, s) \<Rightarrow> Some (Inl e, s)
           | Some (Inr ms, s) \<Rightarrow> Some (Inr (m # ms), s)))"

text \<open>The checks and the locked loop that the three functions share.\<close>

definition os_mba_requests ::
  "'h resctrl_os \<Rightarrow> retval \<Rightarrow> (pqos_mba \<Rightarrow> 'h rlib \<Rightarrow> (pqos_mba res \<times> 'h rlib) option) \<Rightarrow> pqos_mba list \<Rightarrow> 'h rlib \<Rightarrow> (pqos_mba list res \<times> 'h rlib) option" where
  "os_mba_requests K verified one reqs s =
     (case resctrl_alloc_get_grps_num (m_cap s) of Inl e \<Rightarrow> Some (Inl e, s) | Inr num_grps \<Rightarrow>
        if unat num_grps < length reqs then Some (Inl PQOS_RETVAL_PARAM, s)
        else if \<exists>req\<in>set reqs. num_grps \<le> mb_class_id req then Some (Inl PQOS_RETVAL_PARAM, s)
        else if verified \<noteq> PQOS_RETVAL_OK then Some (Inl verified, s)
        else (case resctrl_lock_exclusive K s of (ret, s) \<Rightarrow>
                if ret \<noteq> PQOS_RETVAL_OK then Some (Inl ret, s)
                else map_option (\<lambda>(r, s). (r, snd (resctrl_lock_release s))) (os_mba_loop one reqs s)))"

definition os_mba_set :: "'h resctrl_os \<Rightarrow> u32 \<Rightarrow> pqos_mba list \<Rightarrow> bool \<Rightarrow> 'h rlib \<Rightarrow> (pqos_mba list res \<times> 'h rlib) option" where
  "os_mba_set K mba requested want_actual s =
     (case pqos_cap_get_type (Some (m_cap s)) PQOS_CAP_TYPE_MBA of Inl _ \<Rightarrow> Some (Inl PQOS_RETVAL_RESOURCE, s) | Inr mba_cap \<Rightarrow>
        os_mba_requests K (verify_mba_id mba (m_cpu s))
          (os_mba_one K PQOS_TECHNOLOGY_MBA resctrl_schemata_mba_set resctrl_schemata_mba_get (mba_ctrl_on (u_mba mba_cap))
             (os_mba_value (mba_throttle_step (u_mba mba_cap))) want_actual mba) requested s)"

definition os_smba_set_amd :: "'h resctrl_os \<Rightarrow> u32 \<Rightarrow> pqos_mba list \<Rightarrow> bool \<Rightarrow> 'h rlib \<Rightarrow> (pqos_mba list res \<times> 'h rlib) option" where
  "os_smba_set_amd K smba requested want_actual s =
     (case pqos_cap_get_type (Some (m_cap s)) PQOS_CAP_TYPE_SMBA of Inl _ \<Rightarrow> Some (Inl PQOS_RETVAL_RESOURCE, s) | Inr smba_cap \<Rightarrow>
        os_mba_requests K (verify_smba_id smba (m_cpu s))
          (os_mba_one K PQOS_TECHNOLOGY_SMBA resctrl_schemata_smba_set resctrl_schemata_smba_get (mba_ctrl_on (u_smba smba_cap))
             Some want_actual smba) requested s)"

text \<open>The first request selects SMBA; the caller passes at least one.\<close>

definition os_mba_set_amd :: "'h resctrl_os \<Rightarrow> u32 \<Rightarrow> pqos_mba list \<Rightarrow> bool \<Rightarrow> 'h rlib \<Rightarrow> (pqos_mba list res \<times> 'h rlib) option" where
  "os_mba_set_amd K mba requested want_actual s =
     (if mb_smba (hd requested) then os_smba_set_amd K mba requested want_actual s
      else (case pqos_cap_get_type (Some (m_cap s)) PQOS_CAP_TYPE_MBA of Inl _ \<Rightarrow> Some (Inl PQOS_RETVAL_RESOURCE, s) | Inr mba_cap \<Rightarrow>
        os_mba_requests K (verify_mba_id mba (m_cpu s))
          (os_mba_one K PQOS_TECHNOLOGY_MBA resctrl_schemata_mba_set resctrl_schemata_mba_get (mba_ctrl_on (u_mba mba_cap))
             Some want_actual mba) requested s))"

section \<open>The lock\<close>

lemma get_classes_unlocks:
  "resctrl_lock_fd s < 0 \<Longrightarrow> resctrl_lock_fd (snd (os_get_classes K get_entry set_id verified res_id num s)) < 0"
  by (auto simp: os_get_classes_def lock_defs split: prod.splits dest: lock_failed)

lemma ca_set_unlocks:
  assumes "resctrl_lock_fd s < 0"
  shows "resctrl_lock_fd (snd (os_l3ca_set K l3cat cas s)) < 0" and "resctrl_lock_fd (snd (os_l2ca_set K l2id cas s)) < 0"
  using assms by (auto simp: os_l3ca_set_def os_l2ca_set_def lock_defs Let_def split: prod.splits sum.splits dest: lock_failed)

lemma mba_requests_unlock:
  assumes "resctrl_lock_fd s < 0" "os_mba_requests K verified one reqs s = Some (r, s')"
  shows "resctrl_lock_fd s' < 0"
  using assms by (auto simp: os_mba_requests_def lock_defs split: prod.splits sum.splits if_splits dest: lock_failed)

lemma mba_set_unlocks:
  assumes "resctrl_lock_fd s < 0"
  shows "os_mba_set K mba reqs want s = Some (r, s') \<Longrightarrow> resctrl_lock_fd s' < 0"
    and "os_smba_set_amd K mba reqs want s = Some (r, s') \<Longrightarrow> resctrl_lock_fd s' < 0"
    and "os_mba_set_amd K mba reqs want s = Some (r, s') \<Longrightarrow> resctrl_lock_fd s' < 0"
  using assms by (auto simp: os_mba_set_def os_mba_set_amd_def os_smba_set_amd_def split: sum.splits if_splits intro: mba_requests_unlock)

text \<open>
  C32. No operation of the operating system interface keeps the lock on the resctrl
  directory: if the library held no lock descriptor before, it holds none after setting or
  reading L3 and L2 masks, setting or reading bandwidth, and changing or reading the
  association of cores and tasks, on every path, error paths included.
\<close>

theorem os_unlocks:
  assumes "resctrl_lock_fd s < 0"
  shows "resctrl_lock_fd (snd (os_l3ca_set K l3cat cas s)) < 0 \<and> resctrl_lock_fd (snd (os_l3ca_get K l3cat max_num s)) < 0 \<and>
    resctrl_lock_fd (snd (os_l2ca_set K l2id cas s)) < 0 \<and> resctrl_lock_fd (snd (os_l2ca_get K l2id max_num s)) < 0 \<and>
    resctrl_lock_fd (snd (os_mba_get_amd K mba max_num want_smba s)) < 0 \<and>
    (\<forall>r s'. os_mba_set K mba reqs want_actual s = Some (r, s') \<or> os_mba_set_amd K mba reqs want_actual s = Some (r, s') \<longrightarrow> resctrl_lock_fd s' < 0) \<and>
    (\<forall>ret s'. os_alloc_assoc_set K core c s = Some (ret, s') \<or> os_alloc_release K cs s = Some (ret, s') \<or>
       os_alloc_assoc_set_pid K t c s = Some (ret, s') \<longrightarrow> resctrl_lock_fd s' < 0) \<and>
    (\<forall>r s'. os_alloc_assoc_get K core s = Some (r, s') \<longrightarrow> resctrl_lock_fd s' < 0) \<and>
    (\<forall>ret g s'. os_alloc_assign K cs s = Some (ret, g, s') \<longrightarrow> resctrl_lock_fd s' < 0) \<and>
    resctrl_lock_fd (snd (os_alloc_assoc_get_pid K t s)) < 0 \<and> resctrl_lock_fd (snd (os_pid_get_pid_assoc K c s)) < 0 \<and>
    resctrl_lock_fd (snd (snd (os_alloc_assign_pid K ts s))) < 0 \<and> resctrl_lock_fd (snd (os_alloc_release_pid K ts s)) < 0"
proof -
  have get: "resctrl_lock_fd (snd (os_l3ca_get K l3cat max_num s)) < 0" "resctrl_lock_fd (snd (os_l2ca_get K l2id max_num s)) < 0"
    "resctrl_lock_fd (snd (os_mba_get_amd K mba max_num want_smba s)) < 0"
    using assms by (simp_all add: os_l3ca_get_def os_l2ca_get_def os_mba_get_amd_def os_mba_get_def os_smba_get_amd_def get_classes_unlocks split: sum.splits)
  have mba: "\<forall>r s'. os_mba_set K mba reqs want_actual s = Some (r, s') \<or> os_mba_set_amd K mba reqs want_actual s = Some (r, s') \<longrightarrow> resctrl_lock_fd s' < 0"
    using mba_set_unlocks [OF assms] by blast
  from get mba ca_set_unlocks [OF assms] os_assoc_unlocks [OF assms, of K core c cs t ts] show ?thesis by blast
qed

theorem os_unlocks_witness:
  "resctrl_lock_fd (snd (os_l3ca_set ref_resctrl 0 [] sample_rlib)) < 0 \<and> resctrl_lock_fd (snd (os_alloc_release_pid ref_resctrl [100, 101] sample_rlib)) < 0"
  using os_unlocks [of sample_rlib ref_resctrl 0 "[]" 0 0 0 False "[]" False 0 0 "[]" 0 "[100, 101]"] by simp

end
