(* ===== verification/OsCatKernel.thy ===== *)
theory OsCatKernel
  imports OsCat ResctrlKernel
begin

text \<open>
  What the cache allocation functions of the operating system interface achieve on a file
  system that behaves as documented. The locale \<open>resctrl_schemata_kernel\<close> is the contract of
  the \<open>schemata\<close> files: the abstract state \<open>settings\<close> gives the table of every class.
\<close>

section \<open>Shape of the tables\<close>

lemma schemata_like_refl [simp]: "schemata_like s s"
  by (simp add: schemata_like_def option.rel_refl)

lemma schemata_like_trans: "schemata_like a b \<Longrightarrow> schemata_like b c \<Longrightarrow> schemata_like a c"
  by (auto simp: schemata_like_def rel_option_iff split: option.splits)

lemma at_index_like: "rel_option (\<lambda>x y. length x = length y) (at_index f j tab) tab"
  by (cases tab) (simp_all add: at_index_def)

lemma type_update_like: "schemata_like (type_update ty j v s) s"
  by (cases ty) (simp_all add: schemata_like_def at_index_like option.rel_refl)

lemma read_tokens_like: "read_tokens ty ts s = (r, s') \<Longrightarrow> schemata_like s' s"
proof (induction ty ts s rule: read_tokens.induct)
  case (2 ty token ts s)
  from 2(2) show ?case
    by (auto simp: resctrl_schemata_set_def split: option.splits prod.splits sum.splits if_splits
        dest!: 2(1) intro: type_update_like schemata_like_trans)
qed simp

lemma read_lines_like: "read_lines ls s = (r, s') \<Longrightarrow> schemata_like s' s"
proof (induction ls arbitrary: s)
  case (Cons buf ls)
  from Cons.prems show ?case
    by (auto simp: Let_def split: option.splits prod.splits if_splits dest!: Cons.IH read_tokens_like intro: schemata_like_trans)
qed simp

lemma read_like: "resctrl_schemata_read t s = (r, s') \<Longrightarrow> schemata_like s' s"
  unfolding resctrl_schemata_read_def by (rule read_lines_like)

lemma tab_ok_like:
  assumes "rel_option (\<lambda>x y. length x = length y) a b" "tab_ok ids b"
  shows "tab_ok ids a"
proof (cases b)
  case None
  with assms show ?thesis by (simp add: rel_option_iff tab_ok_def split: option.splits)
next
  case (Some u)
  with assms obtain t where "a = Some t" "length t = length u" by (auto simp: rel_option_iff split: option.splits)
  with Some assms(2) show ?thesis by (auto simp: tab_ok_def)
qed

lemma schemata_ok_like: "schemata_like a b \<Longrightarrow> schemata_ok b \<Longrightarrow> schemata_ok a"
  unfolding schemata_like_def schemata_ok_def by (auto intro: tab_ok_like)

section \<open>Length of the printed lines\<close>

lemma id_entry_length: "length (id_entry 16 e) \<le> 27"
proof -
  have "length (show_num 10 (uint (fst e))) \<le> Suc 9"
    using uint_bounded [of "fst e"] by (intro show_num_length) simp_all
  moreover have "length (show_num 16 (uint (snd e))) \<le> Suc 15"
    using uint_bounded [of "snd e"] by (intro show_num_length) simp_all
  ultimately show ?thesis by (simp add: id_entry_def)
qed

lemma join_length: "\<forall>e\<in>set es. length e \<le> n \<Longrightarrow> length (join_entries es) \<le> Suc n * length es"
  by (induction es rule: join_entries.induct) auto

lemma schemata_line_length: "length (schemata_line label 16 es) \<le> length label + 28 * length es + 2"
  using join_length [of "map (id_entry 16) es" 27] id_entry_length by (simp add: schemata_line_def)

lemma ca_lines_length:
  assumes "label \<in> {''L3'', ''L2''}" "length ids \<le> 290"
  shows "length (ca_lines label ids tab) \<le> 16383"
proof (cases tab)
  case (Some t)
  have l: "length label = 2" using assms(1) by auto
  have b: "length (schemata_line lb 16 (zip ids (map f t))) \<le> length lb + 8122" for lb and f :: "pqos_ca \<Rightarrow> u64"
    using schemata_line_length [of lb "zip ids (map f t)"] assms(2) by simp
  show ?thesis
    using b [of label ways_mask] b [of "label @ ''CODE''" code_mask] b [of "label @ ''DATA''" data_mask] l by (simp add: ca_lines_def Some)
qed (simp add: ca_lines_def)

section \<open>The contract of the schemata files\<close>

abbreviation sch_path :: "nat \<Rightarrow> string" where
  "sch_path i \<equiv> resctrl_alloc_path (of_nat i) ''schemata''"

text \<open>
  The kernel's documentation of the \<open>schemata\<close> file: reading it shows the settings of the
  group, one line per resource, with code and data lines for a level that is mounted with
  CDP; a line that is written changes the named entries of the group to the given
  masks and no others, or is refused and changes nothing. Nothing is said about bandwidth
  values, which the kernel rounds. \<open>blank\<close> is the empty table for the machine's resource ids.
\<close>

locale resctrl_schemata_kernel =
  fixes K :: "'h resctrl_os" and settings :: "'h \<Rightarrow> nat \<Rightarrow> resctrl_schemata" and grps :: nat and blank :: resctrl_schemata
    and cdp3 cdp2 :: bool
  assumes sch_readable: "i < grps \<Longrightarrow> pqos_fopen_r K (sch_path i) h \<and> fs_fclose_r K (sch_path i) h"
    and sch_shown: "i < grps \<Longrightarrow> resctrl_schemata_read (fs_content K (sch_path i) h) blank = (PQOS_RETVAL_OK, settings h i)"
    and sch_open_keeps: "fs_fopen_w K p h = Some h' \<Longrightarrow> settings h' = settings h"
    and sch_unwritten: "settings (snd (fs_fclose_w K p [] h)) = settings h"
    and sch_written: "i < grps \<Longrightarrow> fs_fclose_w K (sch_path i) t h = (0, h') \<Longrightarrow>
      resctrl_schemata_read t (settings h i) = (PQOS_RETVAL_OK, S) \<Longrightarrow>
      sch_mba S = sch_mba (settings h i) \<Longrightarrow> sch_smba S = sch_smba (settings h i) \<Longrightarrow> settings h' = (settings h)(i := S)"
    and sch_refused: "fs_fclose_w K (sch_path i) t h = (e, h') \<Longrightarrow> e \<noteq> 0 \<Longrightarrow> settings h' = settings h"
    and l3_cdp: "i < grps \<Longrightarrow> sch_l3ca (settings h i) = Some tab \<Longrightarrow> ca \<in> set tab \<Longrightarrow> ca_cdp ca = cdp3"
    and l2_cdp: "i < grps \<Longrightarrow> sch_l2ca (settings h i) = Some tab \<Longrightarrow> ca \<in> set tab \<Longrightarrow> ca_cdp ca = cdp2"
begin

lemma load_settings:
  assumes "i < grps" "resctrl_schemata_alloc (Some (m_cap s)) (Some (m_cpu s)) = Some blank"
  shows "schemata_load K (of_nat i) s = Inr (settings (m_hw s) i)"
  using sch_readable [OF assms(1), of "m_hw s"] sch_shown [OF assms(1), of "m_hw s"] assms(2)
  by (simp add: schemata_load_def resctrl_alloc_schemata_read_def resctrl_alloc_fopen_r_def resctrl_alloc_fclose_r_def)

lemma settings_like: "i < grps \<Longrightarrow> schemata_like (settings h i) blank"
  using read_like [OF sch_shown] .

lemma write_masks:
  assumes "i < grps" "resctrl_schemata_read (schemata_text technology T) (settings (m_hw s) i) = (PQOS_RETVAL_OK, S)"
    "sch_mba S = sch_mba (settings (m_hw s) i)" "sch_smba S = sch_smba (settings (m_hw s) i)"
    "resctrl_alloc_schemata_write K (of_nat i) technology T s = (ret, s')"
  shows "settings (m_hw s') = (if ret = PQOS_RETVAL_OK then (settings (m_hw s))(i := S) else settings (m_hw s))"
    and "hw_only s s'"
proof -
  let ?t = "schemata_text technology T" and ?p = "sch_path i"
  obtain b h where o: "pqos_fopen_w K ?p (m_hw s) = (b, h)" by fastforce
  obtain e h' where c: "fs_fclose_w K ?p ?t h = (e, h')" by fastforce
  have k: "settings h = settings (m_hw s)"
    using o sch_unwritten [of ?p] sch_open_keeps [of ?p "m_hw s"] by (auto simp: pqos_fopen_w_def split: option.splits if_splits)
  have s': "(ret, s') = (if \<not> b then (PQOS_RETVAL_ERROR, s\<lparr>m_hw := h\<rparr>)
      else (if e = 0 then PQOS_RETVAL_OK else PQOS_RETVAL_ERROR, s\<lparr>m_hw := h'\<rparr>))"
    using assms(5) o c by (cases b) (simp_all add: resctrl_alloc_schemata_write_def resctrl_alloc_fopen_w_def resctrl_alloc_fclose_w_def)
  then show "hw_only s s'" by (auto split: if_splits)
  show "settings (m_hw s') = (if ret = PQOS_RETVAL_OK then (settings (m_hw s))(i := S) else settings (m_hw s))"
    using s' sch_written [OF assms(1), of ?t h h' S] sch_refused [OF c] assms(2-4) c k by (auto split: if_splits)
qed

text \<open>A query delivers the entries of the classes in order.\<close>

definition shows_entries :: "'h \<Rightarrow> (resctrl_schemata \<Rightarrow> u32 \<Rightarrow> 'e res) \<Rightarrow> (u32 \<Rightarrow> 'e \<Rightarrow> 'e) \<Rightarrow> u32 \<Rightarrow> nat list \<Rightarrow> 'e list \<Rightarrow> bool" where
  "shows_entries h get_entry set_id res = list_all2 (\<lambda>i y. \<exists>x. get_entry (settings h i) res = Inr x \<and> y = set_id (of_nat i) x)"

lemma get_loop_entries:
  assumes "set js \<subseteq> {..<grps}" "resctrl_schemata_alloc (Some (m_cap s)) (Some (m_cpu s)) = Some blank"
  shows "os_get_loop K get_entry set_id res (map of_nat js) s = Inr tab \<longleftrightarrow> shows_entries (m_hw s) get_entry set_id res js tab"
  using assms(1)
proof (induction js arbitrary: tab)
  case Nil
  then show ?case by (auto simp: shows_entries_def)
next
  case (Cons j js)
  from Cons.prems have "j < grps" by simp
  note ld = load_settings [OF this assms(2)]
  show ?case
  proof (cases tab)
    case Nil
    then show ?thesis by (auto simp: shows_entries_def split: sum.splits)
  next
    case (Cons y ys)
    with Cons.IH [of ys] Cons.prems show ?thesis by (auto simp: shows_entries_def schemata_entry_def ld split: sum.splits)
  qed
qed

lemma get_classes_entries:
  assumes "resctrl_schemata_alloc (Some (m_cap s)) (Some (m_cpu s)) = Some blank" "grps < 2 ^ 32"
  shows "fst (os_get_classes K get_entry set_id verified res (of_nat grps) s) = Inr tab \<longleftrightarrow>
    verified = PQOS_RETVAL_OK \<and> fst (resctrl_lock_shared K s) = PQOS_RETVAL_OK \<and> shows_entries (m_hw s) get_entry set_id res [0..<grps] tab"
proof -
  have g: "unat (of_nat grps :: u32) = grps" using assms(2) by (simp add: unat_of_nat_u32)
  obtain r s1 where l: "resctrl_lock_shared K s = (r, s1)" by fastforce
  then have "m_cap s1 = m_cap s" "m_cpu s1 = m_cpu s" "m_hw s1 = m_hw s"
    by (auto simp: lock_defs resctrl_lock_def Let_def split: if_splits)
  with get_loop_entries [of "[0..<grps]" s1] assms(1) l g show ?thesis
    by (auto simp: os_get_classes_def atLeast0LessThan)
qed

end

section \<open>One cache level\<close>

definition same_masks :: "pqos_ca \<Rightarrow> pqos_ca \<Rightarrow> bool" where
  "same_masks a b \<longleftrightarrow> ca_cdp a = ca_cdp b \<and> ca_word0 a = ca_word0 b \<and> (ca_cdp b \<longrightarrow> ca_word1 a = ca_word1 b)"

lemma same_masks_copy [simp]: "same_masks (copy_ca x e) e"
  by (simp add: same_masks_def copy_ca_def)

lemma copy_ca_same [simp]: "copy_ca x x = x"
  by (simp add: copy_ca_def)

lemma map2_copy_update: "map2 copy_ca t (t[j := e]) = t[j := copy_ca (t ! j) e]"
proof (rule nth_equalityI)
  fix k assume "k < length (map2 copy_ca t (t[j := e]))"
  then show "map2 copy_ca t (t[j := e]) ! k = t[j := copy_ca (t ! j) e] ! k" by (cases "k = j") simp_all
qed simp

text \<open>The last request for a class is the one that stays.\<close>

fun latest :: "nat \<Rightarrow> pqos_ca list \<Rightarrow> pqos_ca option" where
  "latest i [] = None"
| "latest i (ca # cas) = (case latest i cas of Some c \<Rightarrow> Some c | None \<Rightarrow> if unat (ca_class_id ca) = i then Some ca else None)"

locale cat_level_kernel = resctrl_schemata_kernel K settings grps blank cdp3 cdp2 +
    schemata_level label ty tyc tyd ids_of get put + id_table ids_of get_entry set_entry get put
  for K :: "'h resctrl_os" and settings grps blank cdp3 cdp2 label ty tyc tyd ids_of get put get_entry set_entry +
  fixes technology :: u32 and cdp :: bool
  assumes text_of: "schemata_text technology S = ca_lines label (ids_of S) (get S)"
    and level_cdp: "i < grps \<Longrightarrow> get (settings h i) = Some t \<Longrightarrow> ca \<in> set t \<Longrightarrow> ca_cdp ca = cdp"
    and bandwidth_kept: "sch_mba (put x S) = sch_mba S" "sch_smba (put x S) = sch_smba S"
    and level_like: "schemata_like S T \<Longrightarrow> ids_of S = ids_of T \<and> rel_option (\<lambda>x y. length x = length y) (get S) (get T)"
    and like_level: "rel_option (\<lambda>x y. length x = length y) x (get S) \<Longrightarrow> schemata_like (put x S) S"
begin

lemma store_masks:
  assumes i: "i < grps" and j: "id_index res (ids_of blank) = Some j" and ok: "tab_ok (ids_of blank) (get blank)" "get blank \<noteq> None"
    and few: "length (ids_of blank) \<le> 290" and e: "ca_cdp e = cdp"
    and st: "schemata_store K (of_nat i) technology (set_entry (settings (m_hw s) i) res e) s = (Inr S', s')"
  obtains t where "get (settings (m_hw s) i) = Some t" "j < length t"
    and "settings (m_hw s') = (settings (m_hw s))(i := put (Some (t[j := copy_ca (t ! j) e])) (settings (m_hw s) i))" and "hw_only s s'"
proof -
  let ?S = "settings (m_hw s) i"
  have like: "ids_of ?S = ids_of blank" "rel_option (\<lambda>x y. length x = length y) (get ?S) (get blank)"
    using level_like [OF settings_like [OF i, of "m_hw s"]] by auto
  then obtain t u where t: "get ?S = Some t" "get blank = Some u" "length t = length u" using ok(2) by (auto simp: rel_option_iff split: option.splits)
  have len: "length t = length (ids_of blank)" "t \<noteq> []" "distinct (ids_of blank)" using ok(1) t by (auto simp: tab_ok_def)
  have jl: "j < length t" using id_index_less [OF j] len by simp
  let ?T = "put (Some (t[j := e])) ?S"
  have set: "set_entry ?S res e = (PQOS_RETVAL_OK, ?T)" by (simp add: set_eq like j t)
  have txt1: "schemata_text technology ?T = ca_lines label (ids_of blank) (Some (t[j := e]))"
    by (simp add: text_of put_laws like)
  have cdp: "one_cdp (Some (t[j := e]))"
  proof -
    have "\<forall>ca\<in>set (t[j := e]). ca_cdp ca = cdp"
      using level_cdp [OF i t(1)] e set_update_subset_insert [of t j e] by blast
    moreover have "t[j := e] \<noteq> []" using len(2) by simp
    ultimately show ?thesis unfolding one_cdp_def option.case using hd_in_set by metis
  qed
  have "resctrl_schemata_read (schemata_text technology ?T) ?S = (PQOS_RETVAL_OK, put (over copy_ca (get ?S) (Some (t[j := e]))) ?S)"
    unfolding txt1 resctrl_schemata_read_def
    using read_ca_part [of ?S "ids_of blank" "Some (t[j := e])" "[]"] like len cdp ca_lines_length [OF level few]
    by (simp add: t tab_ok_def)
  then have rd: "resctrl_schemata_read (schemata_text technology ?T) ?S = (PQOS_RETVAL_OK, put (Some (t[j := copy_ca (t ! j) e])) ?S)"
    by (simp add: t map2_copy_update)
  obtain ret s1 where w: "resctrl_alloc_schemata_write K (of_nat i) technology ?T s = (ret, s1)" by fastforce
  from st w have "ret = PQOS_RETVAL_OK" "s1 = s'" by (auto simp: schemata_store_def set split: if_splits)
  with write_masks [OF i rd bandwidth_kept w] show thesis using that [OF t(1) jl] by simp
qed

lemma set_loop_masks:
  assumes j: "id_index res (ids_of blank) = Some j" and ok: "tab_ok (ids_of blank) (get blank)" "get blank \<noteq> None"
    and few: "length (ids_of blank) \<le> 290"
    and "resctrl_schemata_alloc (Some (m_cap s)) (Some (m_cpu s)) = Some blank"
    and "\<forall>ca\<in>set cas. unat (ca_class_id ca) < grps"
    and "os_ca_set_loop K technology set_entry res cdp cas s = (PQOS_RETVAL_OK, s')"
  shows "hw_only s s' \<and> (\<forall>i<grps. (\<forall>k. k \<noteq> res \<longrightarrow> get_entry (settings (m_hw s') i) k = get_entry (settings (m_hw s) i) k) \<and>
    (case latest i cas of None \<Rightarrow> get_entry (settings (m_hw s') i) res = get_entry (settings (m_hw s) i) res
       | Some ca \<Rightarrow> \<exists>e. get_entry (settings (m_hw s') i) res = Inr e \<and> same_masks e (os_ca_entry cdp ca)))"
  using assms(5-)
proof (induction cas arbitrary: s)
  case Nil
  then show ?case by simp
next
  case (Cons ca cas)
  let ?c = "unat (ca_class_id ca)" and ?e = "os_ca_entry cdp ca"
  have c: "?c < grps" and cid: "ca_class_id ca = of_nat ?c" using Cons.prems(2) by simp_all
  have ld: "schemata_load K (ca_class_id ca) s = Inr (settings (m_hw s) ?c)"
    using load_settings [OF c Cons.prems(1)] by simp
  have no: "\<not> (ca_cdp ca \<and> \<not> cdp)" using Cons.prems(3) by (auto split: if_splits)
  then have ecdp: "ca_cdp ?e = cdp" by (auto simp: os_ca_entry_def)
  obtain S1 s1 where st: "schemata_store K (of_nat ?c) technology (set_entry (settings (m_hw s) ?c) res ?e) s = (Inr S1, s1)"
    and rest: "os_ca_set_loop K technology set_entry res cdp cas s1 = (PQOS_RETVAL_OK, s')"
  proof (cases "schemata_store K (of_nat ?c) technology (set_entry (settings (m_hw s) ?c) res ?e) s")
    case (Pair r s1)
    then show thesis using Cons.prems(3) no that by (cases r) (auto simp: ld cid [symmetric] schemata_store_def split: prod.splits if_splits)
  qed
  from store_masks [OF c j ok few ecdp st] obtain t where t: "get (settings (m_hw s) ?c) = Some t" "j < length t"
    and upd: "settings (m_hw s1) = (settings (m_hw s))(?c := put (Some (t[j := copy_ca (t ! j) ?e])) (settings (m_hw s) ?c))"
    and hw: "hw_only s s1" by blast
  note sel = hw_only_sel [OF hw]
  have ids: "ids_of (settings (m_hw s) ?c) = ids_of blank" using level_like [OF settings_like [OF c]] by blast
  have own: "get_entry (settings (m_hw s1) ?c) res = Inr (copy_ca (t ! j) ?e)"
    using t(2) by (simp add: upd get_eq entry_at_def tab_with ids_with ids j)
  have other: "get_entry (settings (m_hw s1) i) k = get_entry (settings (m_hw s) i) k" if "i \<noteq> ?c \<or> k \<noteq> res" for i k
  proof (cases "i = ?c")
    case True
    with that have "k \<noteq> res" by simp
    show ?thesis
    proof (cases "id_index k (ids_of blank)")
      case None
      with True show ?thesis by (simp add: upd get_eq entry_at_def tab_with ids_with ids)
    next
      case (Some l)
      with id_index_less [OF Some] id_index_less [OF j] \<open>k \<noteq> res\<close> have "l \<noteq> j" by auto
      with True Some t show ?thesis by (simp add: upd get_eq entry_at_def tab_with ids_with ids)
    qed
  qed (simp add: upd)
  have "hw_only s1 s'" using Cons.IH [OF _ _ rest] Cons.prems(1,2) sel by simp
  moreover have "\<forall>i<grps. (\<forall>k. k \<noteq> res \<longrightarrow> get_entry (settings (m_hw s') i) k = get_entry (settings (m_hw s1) i) k) \<and>
    (case latest i cas of None \<Rightarrow> get_entry (settings (m_hw s') i) res = get_entry (settings (m_hw s1) i) res
       | Some ca \<Rightarrow> \<exists>e. get_entry (settings (m_hw s') i) res = Inr e \<and> same_masks e (os_ca_entry cdp ca))"
    using Cons.IH [OF _ _ rest] Cons.prems(1,2) sel by simp
  ultimately show ?case using hw own other by (auto intro: hw_only_trans split: option.splits)
qed

lemma known_entry:
  assumes "i < grps" "id_index res (ids_of blank) = Some j" "tab_ok (ids_of blank) (get blank)" "get blank \<noteq> None"
  shows "\<exists>e. get_entry (settings h i) res = Inr e"
proof -
  have like: "ids_of (settings h i) = ids_of blank" "rel_option (\<lambda>x y. length x = length y) (get (settings h i)) (get blank)"
    using level_like [OF settings_like [OF assms(1), of h]] by auto
  then obtain t u where "get (settings h i) = Some t" "get blank = Some u" "length t = length u"
    using assms(4) by (auto simp: rel_option_iff split: option.splits)
  moreover have "j < length u" using id_index_less [OF assms(2)] assms(3) calculation by (simp add: tab_ok_def)
  ultimately show ?thesis by (simp add: get_eq entry_at_def like assms(2))
qed

text \<open>The locked part of a set operation, and the query after it.\<close>

lemma set_then_get:
  assumes j: "id_index res (ids_of blank) = Some j" and ok: "tab_ok (ids_of blank) (get blank)" "get blank \<noteq> None"
    and few: "length (ids_of blank) \<le> 290" and g: "grps < 2 ^ 32"
    and al: "resctrl_schemata_alloc (Some (m_cap s)) (Some (m_cpu s)) = Some blank"
    and cls: "\<forall>ca\<in>set cas. unat (ca_class_id ca) < grps"
    and lk: "resctrl_lock_exclusive K s = (PQOS_RETVAL_OK, s1)"
    and st: "os_ca_set_loop K technology set_entry res cdp cas s1 = (PQOS_RETVAL_OK, s2)" and s': "s' = snd (resctrl_lock_release s2)"
    and lk': "fst (resctrl_lock_shared K s') = PQOS_RETVAL_OK"
  shows "m_cap s' = m_cap s" and "m_cpu s' = m_cpu s"
    and "\<exists>tab. fst (os_get_classes K get_entry (\<lambda>i ca. ca\<lparr>ca_class_id := i\<rparr>) PQOS_RETVAL_OK res (of_nat grps) s') = Inr tab \<and> length tab = grps \<and>
      (\<forall>i<grps. ca_class_id (tab ! i) = of_nat i \<and>
        (case latest i cas of Some ca \<Rightarrow> same_masks (tab ! i) (os_ca_entry cdp ca)
         | None \<Rightarrow> \<forall>old. fst (os_get_classes K get_entry (\<lambda>i ca. ca\<lparr>ca_class_id := i\<rparr>) PQOS_RETVAL_OK res (of_nat grps) s) = Inr old \<longrightarrow> tab ! i = old ! i))"
    and "\<And>k ver old. k \<noteq> res \<Longrightarrow> fst (os_get_classes K get_entry (\<lambda>i ca. ca\<lparr>ca_class_id := i\<rparr>) ver k (of_nat grps) s) = Inr old \<Longrightarrow>
      fst (os_get_classes K get_entry (\<lambda>i ca. ca\<lparr>ca_class_id := i\<rparr>) ver k (of_nat grps) s') = Inr old"
proof -
  have l1: "m_cap s1 = m_cap s" "m_cpu s1 = m_cpu s" "m_hw s1 = m_hw s"
    using lk by (auto simp: lock_defs resctrl_lock_def Let_def split: if_splits)
  note sm = set_loop_masks [OF j ok few _ cls st, unfolded l1, OF al]
  then have hw: "hw_only s1 s2" and upd: "\<And>i k. i < grps \<Longrightarrow> k \<noteq> res \<Longrightarrow> get_entry (settings (m_hw s2) i) k = get_entry (settings (m_hw s) i) k"
    "\<And>i. i < grps \<Longrightarrow> case latest i cas of None \<Rightarrow> get_entry (settings (m_hw s2) i) res = get_entry (settings (m_hw s) i) res
       | Some ca \<Rightarrow> \<exists>e. get_entry (settings (m_hw s2) i) res = Inr e \<and> same_masks e (os_ca_entry cdp ca)" by blast+
  have l2: "m_cap s' = m_cap s2" "m_cpu s' = m_cpu s2" "m_hw s' = m_hw s2"
    by (simp_all add: s' resctrl_lock_release_def)
  show cap: "m_cap s' = m_cap s" and cpu: "m_cpu s' = m_cpu s" using l1 l2 hw_only_sel [OF hw] by simp_all
  let ?id = "\<lambda>i ca. ca\<lparr>ca_class_id := i\<rparr>"
  have al': "resctrl_schemata_alloc (Some (m_cap s')) (Some (m_cpu s')) = Some blank" using al cap cpu by simp
  note new = get_classes_entries [OF al' g, where get_entry = get_entry and set_id = ?id]
    and old = get_classes_entries [OF al g, where get_entry = get_entry and set_id = ?id]
  obtain f where f: "\<And>i. i < grps \<Longrightarrow> get_entry (settings (m_hw s2) i) res = Inr (f i)"
    using known_entry [OF _ j ok, of _ "m_hw s2"] by metis
  define tab where "tab = map (\<lambda>i. ?id (of_nat i) (f i)) [0..<grps]"
  have all: "shows_entries (m_hw s') get_entry ?id res [0..<grps] tab"
    using f by (simp add: shows_entries_def list_all2_conv_all_nth tab_def l2)
  have "ca_class_id (tab ! i) = of_nat i \<and>
        (case latest i cas of Some ca \<Rightarrow> same_masks (tab ! i) (os_ca_entry cdp ca)
         | None \<Rightarrow> \<forall>old. fst (os_get_classes K get_entry ?id PQOS_RETVAL_OK res (of_nat grps) s) = Inr old \<longrightarrow> tab ! i = old ! i)"
    if i: "i < grps" for i
    using upd(2) [OF i] i f [OF i] unfolding old
    by (auto simp: tab_def shows_entries_def list_all2_conv_all_nth same_masks_def split: option.splits)
  moreover have "length tab = grps" by (simp add: tab_def)
  ultimately show "\<exists>tab. fst (os_get_classes K get_entry ?id PQOS_RETVAL_OK res (of_nat grps) s') = Inr tab \<and> length tab = grps \<and>
      (\<forall>i<grps. ca_class_id (tab ! i) = of_nat i \<and>
        (case latest i cas of Some ca \<Rightarrow> same_masks (tab ! i) (os_ca_entry cdp ca)
         | None \<Rightarrow> \<forall>old. fst (os_get_classes K get_entry ?id PQOS_RETVAL_OK res (of_nat grps) s) = Inr old \<longrightarrow> tab ! i = old ! i))"
    using all lk' unfolding new by blast
  show "fst (os_get_classes K get_entry ?id ver k (of_nat grps) s') = Inr tb"
    if "k \<noteq> res" "fst (os_get_classes K get_entry ?id ver k (of_nat grps) s) = Inr tb" for k ver tb
    using that upd(1) lk' unfolding new old by (auto simp: shows_entries_def list_all2_conv_all_nth l2)
qed

end

section \<open>Both levels\<close>

lemma technology_texts:
  "schemata_text PQOS_TECHNOLOGY_L3CA S = ca_lines ''L3'' (sch_l3ids S) (sch_l3ca S)"
  "schemata_text PQOS_TECHNOLOGY_L2CA S = ca_lines ''L2'' (sch_l2ids S) (sch_l2ca S)"
  by (simp_all add: schemata_text_def PQOS_TECHNOLOGY_L3CA_def PQOS_TECHNOLOGY_L2CA_def PQOS_TECHNOLOGY_MBA_def PQOS_TECHNOLOGY_SMBA_def
      resctrl_schemata_l3ca_write_def resctrl_schemata_l2ca_write_def)

lemma l3_level:
  assumes "resctrl_schemata_kernel K settings grps blank cdp3 cdp2"
  shows "cat_level_kernel K settings grps blank cdp3 cdp2 ''L3'' RESCTRL_SCHEMATA_TYPE_L3 RESCTRL_SCHEMATA_TYPE_L3CODE RESCTRL_SCHEMATA_TYPE_L3DATA
    sch_l3ids sch_l3ca (\<lambda>x s. s\<lparr>sch_l3ca := x\<rparr>) resctrl_schemata_l3ca_get resctrl_schemata_l3ca_set PQOS_TECHNOLOGY_L3CA cdp3"
proof (intro cat_level_kernel.intro assms l3sch.schemata_level_axioms l3tab.id_table_axioms cat_level_kernel_axioms.intro)
qed (use resctrl_schemata_kernel.l3_cdp [OF assms] in \<open>auto simp: technology_texts schemata_like_def option.rel_refl\<close>)

lemma l2_level:
  assumes "resctrl_schemata_kernel K settings grps blank cdp3 cdp2"
  shows "cat_level_kernel K settings grps blank cdp3 cdp2 ''L2'' RESCTRL_SCHEMATA_TYPE_L2 RESCTRL_SCHEMATA_TYPE_L2CODE RESCTRL_SCHEMATA_TYPE_L2DATA
    sch_l2ids sch_l2ca (\<lambda>x s. s\<lparr>sch_l2ca := x\<rparr>) resctrl_schemata_l2ca_get resctrl_schemata_l2ca_set PQOS_TECHNOLOGY_L2CA cdp2"
proof (intro cat_level_kernel.intro assms l2sch.schemata_level_axioms l2tab.id_table_axioms cat_level_kernel_axioms.intro)
qed (use resctrl_schemata_kernel.l2_cdp [OF assms] in \<open>auto simp: technology_texts schemata_like_def option.rel_refl\<close>)

section \<open>Properties\<close>

lemma alloc_levels:
  assumes "resctrl_schemata_alloc (Some cap) (Some cpu) = Some blank"
  shows "pqos_cap_get_type (Some cap) PQOS_CAP_TYPE_L3CA = Inr p \<Longrightarrow> sch_l3ca blank \<noteq> None \<and> pqos_cpu_get_l3cat_ids (Some cpu) = Some (sch_l3ids blank)"
    and "pqos_cap_get_type (Some cap) PQOS_CAP_TYPE_L2CA = Inr p \<Longrightarrow> sch_l2ca blank \<noteq> None \<and> pqos_cpu_get_l2ids (Some cpu) = Some (sch_l2ids blank)"
  using assms by (auto simp: resctrl_schemata_alloc_def Let_def split: sum.splits option.splits prod.splits)

lemma verified_index:
  assumes "verify_id (Some ids) i = PQOS_RETVAL_OK"
  shows "\<exists>j. id_index i ids = Some j"
  using assms by (simp add: verify_id_def id_index_search split: if_splits)

text \<open>
  C30. Cache allocation through resctrl is a round trip. On a file system with the documented
  behaviour of the schemata files, when \<open>os_l3ca_set\<close> answers OK and the directory can be
  locked again, \<open>os_l3ca_get\<close> on the same L3 cache delivers one entry per class: for a
  class that was requested the masks of its last request (code and data from the single
  mask when CDP is on), for any other class the entry it had before; and what it delivers
  for another L3 cache is unchanged. The path goes through the text of the schemata file in
  both directions. (Up to 290 L3 caches, whose lines fit the reader's buffer.)
\<close>

theorem os_l3ca_set_get:
  assumes K: "resctrl_schemata_kernel K settings grps blank cdp3 cdp2"
    and al: "resctrl_schemata_alloc (Some (m_cap s)) (Some (m_cpu s)) = Some blank" and ok: "schemata_ok blank" and few: "length (sch_l3ids blank) \<le> 290"
    and cdp: "pqos_l3ca_cdp_enabled (Some (m_cap s)) False True = Inr (supported, cdp3)"
    and grps: "resctrl_alloc_get_grps_num (m_cap s) = Inr (of_nat grps)" "grps < 2 ^ 32"
    and cls: "\<forall>ca\<in>set cas. unat (ca_class_id ca) < grps"
    and st: "os_l3ca_set K l3cat cas s = (PQOS_RETVAL_OK, s')"
    and lk: "fst (resctrl_lock_shared K s') = PQOS_RETVAL_OK" and max: "grps \<le> unat max_num_ca"
  shows "(\<exists>tab. fst (os_l3ca_get K l3cat max_num_ca s') = Inr tab \<and> length tab = grps \<and>
      (\<forall>i<grps. ca_class_id (tab ! i) = of_nat i \<and>
        (case latest i cas of Some ca \<Rightarrow> same_masks (tab ! i) (os_ca_entry cdp3 ca)
         | None \<Rightarrow> \<forall>old. fst (os_l3ca_get K l3cat max_num_ca s) = Inr old \<longrightarrow> tab ! i = old ! i))) \<and>
    (\<forall>k old. k \<noteq> l3cat \<longrightarrow> fst (os_l3ca_get K k max_num_ca s) = Inr old \<longrightarrow> fst (os_l3ca_get K k max_num_ca s') = Inr old)"
proof -
  obtain n where n: "pqos_l3ca_get_clos_num (Some (m_cap s)) = Inr n"
    using st by (auto simp: os_l3ca_set_def split: if_splits sum.splits)
  then obtain p where "pqos_cap_get_type (Some (m_cap s)) PQOS_CAP_TYPE_L3CA = Inr p" by (auto simp: pqos_l3ca_get_clos_num_def split: sum.splits)
  with alloc_levels(1) [OF al] have tab: "sch_l3ca blank \<noteq> None" and ids: "pqos_cpu_get_l3cat_ids (Some (m_cpu s)) = Some (sch_l3ids blank)" by auto
  have ver: "verify_l3cat_id l3cat (m_cpu s) = PQOS_RETVAL_OK"
    using st n grps(1) by (auto simp: os_l3ca_set_def Let_def split: if_splits)
  then obtain j where j: "id_index l3cat (sch_l3ids blank) = Some j"
    using verified_index [of "sch_l3ids blank" l3cat] by (auto simp: verify_l3cat_id_def ids)
  obtain s1 s2 where w: "resctrl_lock_exclusive K s = (PQOS_RETVAL_OK, s1)"
    "os_ca_set_loop K PQOS_TECHNOLOGY_L3CA resctrl_schemata_l3ca_set l3cat cdp3 cas s1 = (PQOS_RETVAL_OK, s2)" "s' = snd (resctrl_lock_release s2)"
    using st n grps(1) cdp ver by (auto simp: os_l3ca_set_def Let_def split: if_splits prod.splits)
  have ok3: "tab_ok (sch_l3ids blank) (sch_l3ca blank)" using ok by (simp add: schemata_ok_def)
  note sg = cat_level_kernel.set_then_get [OF l3_level [OF K] j ok3 tab few grps(2) al cls w lk]
  have mx: "\<not> max_num_ca < of_nat grps" using max grps(2) by (simp add: word_less_nat_alt unat_of_nat_u32)
  have get: "os_l3ca_get K k max_num_ca s = os_get_classes K resctrl_schemata_l3ca_get (\<lambda>i ca. ca\<lparr>ca_class_id := i\<rparr>) (verify_l3cat_id k (m_cpu s)) k (of_nat grps) s"
    "os_l3ca_get K k max_num_ca s' = os_get_classes K resctrl_schemata_l3ca_get (\<lambda>i ca. ca\<lparr>ca_class_id := i\<rparr>) (verify_l3cat_id k (m_cpu s)) k (of_nat grps) s'" for k
    using n grps(1) mx sg(1,2) by (simp_all add: os_l3ca_get_def)
  show ?thesis unfolding get ver using sg(3,4) by blast
qed

text \<open>The same for the L2 caches.\<close>

lemma os_l2ca_set_get:
  assumes K: "resctrl_schemata_kernel K settings grps blank cdp3 cdp2"
    and al: "resctrl_schemata_alloc (Some (m_cap s)) (Some (m_cpu s)) = Some blank" and ok: "schemata_ok blank" and few: "length (sch_l2ids blank) \<le> 290"
    and cdp: "pqos_l2ca_cdp_enabled (Some (m_cap s)) False True = Inr (supported, cdp2)"
    and grps: "resctrl_alloc_get_grps_num (m_cap s) = Inr (of_nat grps)" "grps < 2 ^ 32"
    and cls: "\<forall>ca\<in>set cas. unat (ca_class_id ca) < grps"
    and st: "os_l2ca_set K l2id cas s = (PQOS_RETVAL_OK, s')"
    and lk: "fst (resctrl_lock_shared K s') = PQOS_RETVAL_OK" and max: "grps \<le> unat max_num_ca"
  shows "(\<exists>tab. fst (os_l2ca_get K l2id max_num_ca s') = Inr tab \<and> length tab = grps \<and>
      (\<forall>i<grps. ca_class_id (tab ! i) = of_nat i \<and>
        (case latest i cas of Some ca \<Rightarrow> same_masks (tab ! i) (os_ca_entry cdp2 ca)
         | None \<Rightarrow> \<forall>old. fst (os_l2ca_get K l2id max_num_ca s) = Inr old \<longrightarrow> tab ! i = old ! i))) \<and>
    (\<forall>k old. k \<noteq> l2id \<longrightarrow> fst (os_l2ca_get K k max_num_ca s) = Inr old \<longrightarrow> fst (os_l2ca_get K k max_num_ca s') = Inr old)"
proof -
  obtain n where n: "pqos_l2ca_get_clos_num (Some (m_cap s)) = Inr n"
    using st by (auto simp: os_l2ca_set_def split: if_splits sum.splits)
  then obtain p where "pqos_cap_get_type (Some (m_cap s)) PQOS_CAP_TYPE_L2CA = Inr p" by (auto simp: pqos_l2ca_get_clos_num_def split: sum.splits)
  with alloc_levels(2) [OF al] have tab: "sch_l2ca blank \<noteq> None" and ids: "pqos_cpu_get_l2ids (Some (m_cpu s)) = Some (sch_l2ids blank)" by auto
  have ver: "verify_l2_id l2id (m_cpu s) = PQOS_RETVAL_OK"
    using st n grps(1) cdp by (auto simp: os_l2ca_set_def Let_def split: if_splits)
  then obtain j where j: "id_index l2id (sch_l2ids blank) = Some j"
    using verified_index [of "sch_l2ids blank" l2id] by (auto simp: verify_l2_id_def ids)
  obtain s1 s2 where w: "resctrl_lock_exclusive K s = (PQOS_RETVAL_OK, s1)"
    "os_ca_set_loop K PQOS_TECHNOLOGY_L2CA resctrl_schemata_l2ca_set l2id cdp2 cas s1 = (PQOS_RETVAL_OK, s2)" "s' = snd (resctrl_lock_release s2)"
    using st n grps(1) cdp ver by (auto simp: os_l2ca_set_def Let_def split: if_splits prod.splits)
  have ok2: "tab_ok (sch_l2ids blank) (sch_l2ca blank)" using ok by (simp add: schemata_ok_def)
  note sg = cat_level_kernel.set_then_get [OF l2_level [OF K] j ok2 tab few grps(2) al cls w lk]
  have mx: "\<not> max_num_ca < of_nat grps" using max grps(2) by (simp add: word_less_nat_alt unat_of_nat_u32)
  have get: "os_l2ca_get K k max_num_ca s = os_get_classes K resctrl_schemata_l2ca_get (\<lambda>i ca. ca\<lparr>ca_class_id := i\<rparr>) (verify_l2_id k (m_cpu s)) k (of_nat grps) s"
    "os_l2ca_get K k max_num_ca s' = os_get_classes K resctrl_schemata_l2ca_get (\<lambda>i ca. ca\<lparr>ca_class_id := i\<rparr>) (verify_l2_id k (m_cpu s)) k (of_nat grps) s'" for k
    using n grps(1) mx sg(1,2) by (simp_all add: os_l2ca_get_def)
  show ?thesis unfolding get ver using sg(3,4) by blast
qed

section \<open>A reference file system\<close>

text \<open>
  Two groups and two L3 caches without CDP. The state holds the four masks; a write is
  accepted when its lines change nothing but masks.
\<close>

type_synonym ref_masks = "(u64 \<times> u64) \<times> (u64 \<times> u64)"

definition ref_table :: "u64 \<times> u64 \<Rightarrow> resctrl_schemata" where
  "ref_table m = \<lparr>sch_l3ids = [0, 1], sch_l3ca = Some [zero_ca\<lparr>ca_word0 := fst m\<rparr>, zero_ca\<lparr>ca_word0 := snd m\<rparr>],
     sch_mbaids = [], sch_mba = None, sch_smbaids = [], sch_smba = None, sch_l2ids = [], sch_l2ca = None\<rparr>"

definition ref_settings :: "ref_masks \<Rightarrow> nat \<Rightarrow> resctrl_schemata" where
  "ref_settings h i = ref_table (if i = 0 then fst h else if i = 1 then snd h else (0, 0))"

definition table_masks :: "resctrl_schemata \<Rightarrow> u64 \<times> u64" where
  "table_masks S = (case sch_l3ca S of Some [a, b] \<Rightarrow> (ways_mask a, ways_mask b) | _ \<Rightarrow> (0, 0))"

definition ref_sch :: "string \<Rightarrow> nat option" where
  "ref_sch p = List.find (\<lambda>i. sch_path i = p) [0, 1]"

definition EINVAL :: int where
  "EINVAL = 22"

definition ref_sch_commit :: "string \<Rightarrow> string \<Rightarrow> ref_masks \<Rightarrow> int \<times> ref_masks" where
  "ref_sch_commit p t h =
     (case ref_sch p of
        None \<Rightarrow> (2, h)
      | Some i \<Rightarrow>
          (case resctrl_schemata_read t (ref_settings h i) of (ret, S) \<Rightarrow>
             if ret = PQOS_RETVAL_OK \<and> ref_table (table_masks S) = S
             then (0, if i = 0 then (table_masks S, snd h) else (fst h, table_masks S)) else (EINVAL, h)))"

definition ref_schemata_fs :: "ref_masks resctrl_os" where
  "ref_schemata_fs = \<lparr>fs_lstat = (\<lambda>p h. Some \<lparr>st_mode = 0x81A4, st_ino = 1, st_dev = 1\<rparr>),
     fs_fstat = (\<lambda>p h. Some \<lparr>st_mode = 0x81A4, st_ino = 1, st_dev = 1\<rparr>),
     fs_fopen_r = (\<lambda>p h. ref_sch p \<noteq> None),
     fs_content = (\<lambda>p h. case ref_sch p of None \<Rightarrow> [] | Some i \<Rightarrow> resctrl_schemata_l3ca_write (ref_settings h i)),
     fs_ferror = (\<lambda>p h. False), fs_fclose_r = (\<lambda>p h. True),
     fs_fopen_w = (\<lambda>p h. if ref_sch p \<noteq> None then Some h else None), fs_fclose_w = ref_sch_commit,
     fs_mkdir = (\<lambda>p h. (2, h)), fs_scandir = (\<lambda>p h. Some []), fs_open_dir = (\<lambda>p h. 3), fs_flock = (\<lambda>fd ty h. True),
     os_kill0 = (\<lambda>t h. False)\<rparr>"

lemma ref_sch_concrete: "ref_sch (sch_path 0) = Some 0" "ref_sch (sch_path 1) = Some 1"
  by code_simp+

lemma ref_sch_path [simp]: "i < 2 \<Longrightarrow> ref_sch (sch_path i) = Some i"
  using ref_sch_concrete less_2_cases [of i] by auto

lemma ref_sch_less: "ref_sch p = Some i \<Longrightarrow> i < 2"
  unfolding ref_sch_def by (drule find_SomeD) auto

lemma ref_masks_table [simp]: "table_masks (ref_table m) = m"
  by (simp add: table_masks_def ref_table_def)

lemma ref_table_shown:
  "resctrl_schemata_read (resctrl_schemata_l3ca_write (ref_table m)) (ref_table m') = (PQOS_RETVAL_OK, ref_table m)"
proof -
  have len: "length (ca_lines ''L3'' (sch_l3ids (ref_table m)) (sch_l3ca (ref_table m))) \<le> 16383"
    by (rule ca_lines_length) (simp_all add: ref_table_def)
  have "tab_ok (sch_l3ids (ref_table m)) (sch_l3ca (ref_table m))" "one_cdp (sch_l3ca (ref_table m))"
    "rel_option (\<lambda>x y. length x = length y) (sch_l3ca (ref_table m')) (sch_l3ca (ref_table m))"
    "sch_l3ids (ref_table m') = sch_l3ids (ref_table m)"
    by (simp_all add: ref_table_def tab_ok_def one_cdp_def zero_ca_def)
  from l3sch.read_ca_part [OF this(4,3,1,2) len, of "[]"] show ?thesis
    by (simp add: resctrl_schemata_read_def resctrl_schemata_l3ca_write_def) (simp add: ref_table_def copy_ca_def zero_ca_def)
qed

lemma ref_settings_upd:
  "i < 2 \<Longrightarrow> ref_settings (if i = 0 then (m, snd h) else (fst h, m)) = (ref_settings h)(i := ref_table m)"
  using less_2_cases [of i] by (auto simp: ref_settings_def fun_eq_iff)

lemma ref_empty_read: "resctrl_schemata_read [] S = (PQOS_RETVAL_OK, S)"
  by (simp add: resctrl_schemata_read_def)

interpretation refsch: resctrl_schemata_kernel ref_schemata_fs ref_settings 2 "ref_table (0, 0)" False False
proof
  fix i :: nat and h
  assume "i < 2"
  then show "pqos_fopen_r ref_schemata_fs (sch_path i) h \<and> fs_fclose_r ref_schemata_fs (sch_path i) h"
    by (simp add: pqos_fopen_r_def ref_schemata_fs_def)
  show "resctrl_schemata_read (fs_content ref_schemata_fs (sch_path i) h) (ref_table (0, 0)) = (PQOS_RETVAL_OK, ref_settings h i)"
    using \<open>i < 2\<close> ref_table_shown by (simp add: ref_schemata_fs_def ref_settings_def)
next
  fix p and h
  show "ref_settings (snd (fs_fclose_w ref_schemata_fs p [] h)) = ref_settings h"
  proof (cases "ref_sch p")
    case (Some i)
    have "ref_settings h i = ref_table (table_masks (ref_settings h i))" by (simp add: ref_settings_def)
    then show ?thesis using ref_settings_upd [OF ref_sch_less [OF Some], of "table_masks (ref_settings h i)" h]
      by (simp add: ref_schemata_fs_def ref_sch_commit_def Some ref_empty_read)
  qed (simp add: ref_schemata_fs_def ref_sch_commit_def)
next
  fix i :: nat and t h h' S
  assume "i < 2" "fs_fclose_w ref_schemata_fs (sch_path i) t h = (0, h')" "resctrl_schemata_read t (ref_settings h i) = (PQOS_RETVAL_OK, S)"
  then show "ref_settings h' = (ref_settings h)(i := S)"
    using ref_settings_upd [of i "table_masks S" h] by (auto simp: ref_schemata_fs_def ref_sch_commit_def EINVAL_def split: if_splits)
next
  fix i t h e h'
  assume "fs_fclose_w ref_schemata_fs (sch_path i) t h = (e, h')" "e \<noteq> 0"
  then show "ref_settings h' = ref_settings h" by (auto simp: ref_schemata_fs_def ref_sch_commit_def split: if_splits option.splits prod.splits)
qed (auto simp: ref_schemata_fs_def ref_settings_def ref_table_def zero_ca_def split: if_splits)

text \<open>Class 1 gets the mask 0xf0 on the second L3 cache.\<close>

definition sample_masks :: "ref_masks rlib" where
  "sample_masks = \<lparr>m_msr_fd = None, m_maxcores = 0,
     m_cap = [CapL3ca (sample_l3ca\<lparr>l3_num_classes := 2\<rparr>)], m_cpu = sample_cpu, m_dev = None,
     m_interface = PQOS_INTER_OS, m_config = sample_config, m_mmioinfo = None,
     m_hw = ((0xff, 0xff), (0xff, 0xff)), supported_events = 0, resctrl_lock_fd = - 1\<rparr>"

theorem os_l3ca_set_get_witness:
  "\<exists>tab. fst (os_l3ca_get ref_schemata_fs 1 2 (snd (os_l3ca_set ref_schemata_fs 1 [zero_ca\<lparr>ca_class_id := 1, ca_word0 := 0xf0\<rparr>] sample_masks))) = Inr tab \<and>
     ways_mask (tab ! 1) = 0xf0"
proof -
  let ?ca = "zero_ca\<lparr>ca_class_id := 1, ca_word0 := 0xf0\<rparr>"
  let ?r = "os_l3ca_set ref_schemata_fs 1 [?ca] sample_masks"
  have al: "resctrl_schemata_alloc (Some (m_cap sample_masks)) (Some (m_cpu sample_masks)) = Some (ref_table (0, 0))" by code_simp
  have ok: "schemata_ok (ref_table (0, 0))" by code_simp
  have few: "length (sch_l3ids (ref_table (0, 0))) \<le> 290" by code_simp
  have cdp: "pqos_l3ca_cdp_enabled (Some (m_cap sample_masks)) False True = Inr (True, False)" by code_simp
  have g: "resctrl_alloc_get_grps_num (m_cap sample_masks) = Inr (of_nat 2)" by code_simp
  have "fst ?r = PQOS_RETVAL_OK" by code_simp
  then have st: "?r = (PQOS_RETVAL_OK, snd ?r)" by (metis prod.collapse)
  have lk: "fst (resctrl_lock_shared ref_schemata_fs (snd ?r)) = PQOS_RETVAL_OK"
    by (simp add: lock_defs resctrl_lock_def ref_schemata_fs_def Let_def)
  from os_l3ca_set_get [OF refsch.resctrl_schemata_kernel_axioms al ok few cdp g _ _ st lk, of 2]
  obtain tab where "fst (os_l3ca_get ref_schemata_fs 1 2 (snd ?r)) = Inr tab" "same_masks (tab ! 1) (os_ca_entry False ?ca)"
    by (auto split: option.splits)
  then show ?thesis by (auto simp: same_masks_def os_ca_entry_def)
qed

end
