(* ===== verification/MonPerf.thy ===== *)
theory MonPerf
  imports Complex_Main Machine Capability
begin

text \<open>
  Monitoring groups (\<open>struct pqos_mon_data\<close> of \<open>lib/pqos.h\<close> with the internal part of
  \<open>lib/monitoring.h\<close>) and their perf counters: \<open>lib/perf.c\<close> and the start, stop and poll
  functions of \<open>lib/perf_monitoring.c\<close>. The system calls on perf descriptors belong to the
  record \<open>perf_os\<close>.
\<close>

section \<open>Events\<close>

definition PQOS_MON_EVENT_L3_OCCUP :: u32 where "PQOS_MON_EVENT_L3_OCCUP = 1"
definition PQOS_MON_EVENT_LMEM_BW :: u32 where "PQOS_MON_EVENT_LMEM_BW = 2"
definition PQOS_MON_EVENT_TMEM_BW :: u32 where "PQOS_MON_EVENT_TMEM_BW = 4"
definition PQOS_MON_EVENT_RMEM_BW :: u32 where "PQOS_MON_EVENT_RMEM_BW = 8"
definition PQOS_MON_EVENT_IO_L3_OCCUP :: u32 where "PQOS_MON_EVENT_IO_L3_OCCUP = 0x10"
definition PQOS_MON_EVENT_IO_TOTAL_MEM_BW :: u32 where "PQOS_MON_EVENT_IO_TOTAL_MEM_BW = 0x20"
definition PQOS_MON_EVENT_IO_MISS_MEM_BW :: u32 where "PQOS_MON_EVENT_IO_MISS_MEM_BW = 0x40"
definition PQOS_PERF_EVENT_INSTRUCTIONS :: u32 where "PQOS_PERF_EVENT_INSTRUCTIONS = 0x1000"
definition PQOS_PERF_EVENT_CYCLES :: u32 where "PQOS_PERF_EVENT_CYCLES = 0x2000"
definition PQOS_PERF_EVENT_LLC_MISS :: u32 where "PQOS_PERF_EVENT_LLC_MISS = 0x4000"
definition PQOS_PERF_EVENT_IPC :: u32 where "PQOS_PERF_EVENT_IPC = 0x8000"
definition PQOS_PERF_EVENT_LLC_REF :: u32 where "PQOS_PERF_EVENT_LLC_REF = 0x10000"
definition PQOS_PERF_EVENT_LLC_MISS_PCIE_READ :: u32 where "PQOS_PERF_EVENT_LLC_MISS_PCIE_READ = 0x100000"
definition PQOS_PERF_EVENT_LLC_MISS_PCIE_WRITE :: u32 where "PQOS_PERF_EVENT_LLC_MISS_PCIE_WRITE = 0x200000"
definition PQOS_PERF_EVENT_LLC_REF_PCIE_READ :: u32 where "PQOS_PERF_EVENT_LLC_REF_PCIE_READ = 0x400000"
definition PQOS_PERF_EVENT_LLC_REF_PCIE_WRITE :: u32 where "PQOS_PERF_EVENT_LLC_REF_PCIE_WRITE = 0x800000"
definition PQOS_MON_EVENT_CORE_ENERGY :: u32 where "PQOS_MON_EVENT_CORE_ENERGY = 0x1000000"
definition PQOS_MON_EVENT_ACTIVITY :: u32 where "PQOS_MON_EVENT_ACTIVITY = 0x2000000"
definition PQOS_MON_EVENT_POWER :: u32 where "PQOS_MON_EVENT_POWER = 0x4000000"

lemmas event_defs =
  PQOS_MON_EVENT_L3_OCCUP_def PQOS_MON_EVENT_LMEM_BW_def PQOS_MON_EVENT_TMEM_BW_def PQOS_MON_EVENT_RMEM_BW_def
  PQOS_MON_EVENT_IO_L3_OCCUP_def PQOS_MON_EVENT_IO_TOTAL_MEM_BW_def PQOS_MON_EVENT_IO_MISS_MEM_BW_def
  PQOS_PERF_EVENT_INSTRUCTIONS_def PQOS_PERF_EVENT_CYCLES_def PQOS_PERF_EVENT_LLC_MISS_def PQOS_PERF_EVENT_IPC_def
  PQOS_PERF_EVENT_LLC_REF_def PQOS_PERF_EVENT_LLC_MISS_PCIE_READ_def PQOS_PERF_EVENT_LLC_MISS_PCIE_WRITE_def
  PQOS_PERF_EVENT_LLC_REF_PCIE_READ_def PQOS_PERF_EVENT_LLC_REF_PCIE_WRITE_def PQOS_MON_EVENT_CORE_ENERGY_def
  PQOS_MON_EVENT_ACTIVITY_def PQOS_MON_EVENT_POWER_def

abbreviation has_event :: "u32 \<Rightarrow> u32 \<Rightarrow> bool" where
  "has_event events evt \<equiv> events AND evt \<noteq> 0"

section \<open>Monitoring groups\<close>

text \<open>The quotient \<open>ipc\<close> is exact; the rounding of \<open>double\<close> is not modelled.\<close>

record pqos_event_values =
  llc :: u64
  mbm_local :: u64
  mbm_total :: u64
  mbm_remote :: u64
  mbm_local_delta :: u64
  mbm_total_delta :: u64
  mbm_remote_delta :: u64
  ipc_retired :: u64
  ipc_retired_delta :: u64
  ipc_unhalted :: u64
  ipc_unhalted_delta :: u64
  ipc :: rat
  llc_misses :: u64
  llc_misses_delta :: u64
  llc_references :: u64
  llc_references_delta :: u64

record pqos_mon_poll_ctx =
  ctx_lcore :: u32
  ctx_channel_id :: pqos_channel_t
  ctx_cluster :: u32
  ctx_numa :: u32
  ctx_quiet :: bool
  ctx_rmid :: u32

record pqos_mon_perf_ctx =
  fd_llc :: int
  fd_mbl :: int
  fd_mbt :: int
  fd_inst :: int
  fd_cyc :: int
  fd_llc_misses :: int
  fd_llc_references :: int

text \<open>The counters of PCIe accesses, each with its last difference.\<close>

record pcie_values =
  miss_read :: u64
  miss_read_delta :: u64
  miss_write :: u64
  miss_write_delta :: u64
  ref_read :: u64
  ref_read_delta :: u64
  ref_write :: u64
  ref_write_delta :: u64

text \<open>A telemetry slot; \<open>double\<close> values are exact here.\<close>

record pqos_tel_slot =
  tel_current :: rat
  tel_previous :: rat
  tel_valid :: bool

text \<open>
  The fields of the public structure and of \<open>intl\<close> that polling and monitoring on the MSR
  interface use; the time stamps are seconds and nanoseconds. An array with its length is a list; a group without perf counters has no perf
  contexts.
\<close>

record pqos_mon_data =
  mg_event :: u32
  mg_values :: pqos_event_values
  mg_tid_map :: "int list"
  mg_cores :: "u32 list"
  mg_channels :: "pqos_channel_t list"
  mg_pcie :: pcie_values
  mg_perf_event :: u32
  mg_perf_ctx :: "pqos_mon_perf_ctx list option"
  mg_resctrl_event :: u32
  mg_core_energy :: pqos_tel_slot
  mg_power :: pqos_tel_slot
  mg_tel_ts :: "int \<times> int"
  mg_prev_tel_ts :: "int \<times> int"
  mg_hw_event :: u32
  mg_hw_ctx :: "pqos_mon_poll_ctx list"
  mg_sockets :: "u32 list"
  mg_valid_mbm_read :: bool

section \<open>Perf descriptors\<close>

text \<open>
  \<open>sys_perf_open event pid cpu\<close> is \<open>perf_event_open\<close> with the attributes of the event's table
  entry; \<open>sys_perf_read\<close> is \<open>None\<close> unless 8 bytes are read.
\<close>

record 'h perf_os =
  sys_perf_open :: "u32 \<Rightarrow> int \<Rightarrow> int \<Rightarrow> 'h \<Rightarrow> int \<times> 'h"
  sys_perf_close :: "int \<Rightarrow> 'h \<Rightarrow> int \<times> 'h"
  sys_perf_read :: "int \<Rightarrow> 'h \<Rightarrow> u64 option"

definition perf_setup_counter :: "'h perf_os \<Rightarrow> u32 \<Rightarrow> int \<Rightarrow> int \<Rightarrow> 'h lib \<Rightarrow> int res \<times> 'h lib" where
  "perf_setup_counter P event pid cpu s =
     (case sys_perf_open P event pid cpu (m_hw s) of (fd, h) \<Rightarrow>
        (if fd < 0 then Inl PQOS_RETVAL_ERROR else Inr fd, s\<lparr>m_hw := h\<rparr>))"

definition perf_shutdown_counter :: "'h perf_os \<Rightarrow> int \<Rightarrow> 'h lib \<Rightarrow> retval \<times> 'h lib" where
  "perf_shutdown_counter P fd s =
     (if fd < 0 then (PQOS_RETVAL_PARAM, s)
      else (case sys_perf_close P fd (m_hw s) of (ret, h) \<Rightarrow>
              (if ret < 0 then PQOS_RETVAL_ERROR else PQOS_RETVAL_OK, s\<lparr>m_hw := h\<rparr>)))"

definition perf_read_counter :: "'h perf_os \<Rightarrow> int \<Rightarrow> 'h lib \<Rightarrow> u64 res" where
  "perf_read_counter P fd s =
     (if fd < 0 then Inl PQOS_RETVAL_PARAM
      else (case sys_perf_read P fd (m_hw s) of None \<Rightarrow> Inl PQOS_RETVAL_ERROR | Some v \<Rightarrow> Inr v))"

section \<open>Counters of a group\<close>

text \<open>\<open>perf_mon_get_fd\<close> answers a pointer into the context: a value and an update here.\<close>

definition perf_mon_get_fd :: "u32 \<Rightarrow> pqos_mon_perf_ctx \<Rightarrow> int option" where
  "perf_mon_get_fd event ctx =
     (if event = PQOS_MON_EVENT_L3_OCCUP then Some (fd_llc ctx)
      else if event = PQOS_MON_EVENT_LMEM_BW then Some (fd_mbl ctx)
      else if event = PQOS_MON_EVENT_TMEM_BW then Some (fd_mbt ctx)
      else if event = PQOS_PERF_EVENT_LLC_MISS then Some (fd_llc_misses ctx)
      else if event = PQOS_PERF_EVENT_LLC_REF then Some (fd_llc_references ctx)
      else if event = PQOS_PERF_EVENT_CYCLES then Some (fd_cyc ctx)
      else if event = PQOS_PERF_EVENT_INSTRUCTIONS then Some (fd_inst ctx)
      else None)"

definition perf_mon_put_fd :: "u32 \<Rightarrow> int \<Rightarrow> pqos_mon_perf_ctx \<Rightarrow> pqos_mon_perf_ctx" where
  "perf_mon_put_fd event fd ctx =
     (if event = PQOS_MON_EVENT_L3_OCCUP then ctx\<lparr>fd_llc := fd\<rparr>
      else if event = PQOS_MON_EVENT_LMEM_BW then ctx\<lparr>fd_mbl := fd\<rparr>
      else if event = PQOS_MON_EVENT_TMEM_BW then ctx\<lparr>fd_mbt := fd\<rparr>
      else if event = PQOS_PERF_EVENT_LLC_MISS then ctx\<lparr>fd_llc_misses := fd\<rparr>
      else if event = PQOS_PERF_EVENT_LLC_REF then ctx\<lparr>fd_llc_references := fd\<rparr>
      else if event = PQOS_PERF_EVENT_CYCLES then ctx\<lparr>fd_cyc := fd\<rparr>
      else if event = PQOS_PERF_EVENT_INSTRUCTIONS then ctx\<lparr>fd_inst := fd\<rparr>
      else ctx)"

text \<open>The events that have a row in \<open>events_tab\<close>.\<close>

definition perf_known_event :: "u32 \<Rightarrow> bool" where
  "perf_known_event event \<longleftrightarrow>
     event \<in> {PQOS_MON_EVENT_L3_OCCUP, PQOS_MON_EVENT_LMEM_BW, PQOS_MON_EVENT_TMEM_BW, PQOS_MON_EVENT_RMEM_BW,
              PQOS_PERF_EVENT_INSTRUCTIONS, PQOS_PERF_EVENT_CYCLES, PQOS_PERF_EVENT_IPC, PQOS_PERF_EVENT_LLC_MISS, PQOS_PERF_EVENT_LLC_REF}"

text \<open>
  The counted entities: the cores of the group as pairs of task -1 and core, else its tasks
  with core -1.
\<close>

definition perf_targets :: "pqos_mon_data \<Rightarrow> (int \<times> int) list" where
  "perf_targets g =
     (if mg_cores g \<noteq> [] then map (\<lambda>c. (- 1, sint c)) (mg_cores g) else map (\<lambda>t. (t, - 1)) (mg_tid_map g))"

text \<open>A failure stops the loop; the descriptors opened so far stay in the contexts.\<close>

fun perf_start_loop ::
  "'h perf_os \<Rightarrow> u32 \<Rightarrow> (int \<times> int) list \<Rightarrow> pqos_mon_perf_ctx list \<Rightarrow> 'h lib \<Rightarrow> retval \<times> pqos_mon_perf_ctx list \<times> 'h lib" where
  "perf_start_loop P event ((tid, core) # ts) (ctx # ctxs) s =
     (if perf_mon_get_fd event ctx = None then (PQOS_RETVAL_ERROR, ctx # ctxs, s)
      else (case perf_setup_counter P event tid core s of
              (Inl _, s) \<Rightarrow> (PQOS_RETVAL_ERROR, ctx # ctxs, s)
            | (Inr fd, s) \<Rightarrow>
                (case perf_start_loop P event ts ctxs s of (ret, ctxs, s) \<Rightarrow> (ret, perf_mon_put_fd event fd ctx # ctxs, s))))"
| "perf_start_loop P event _ ctxs s = (PQOS_RETVAL_OK, ctxs, s)"

definition perf_mon_start :: "'h perf_os \<Rightarrow> u32 \<Rightarrow> pqos_mon_data \<Rightarrow> 'h lib \<Rightarrow> retval \<times> pqos_mon_data \<times> 'h lib" where
  "perf_mon_start P event g s =
     (if perf_targets g = [] \<or> \<not> perf_known_event event then (PQOS_RETVAL_ERROR, g, s)
      else (case perf_start_loop P event (perf_targets g) (case mg_perf_ctx g of None \<Rightarrow> [] | Some ctxs \<Rightarrow> ctxs) s of
              (ret, ctxs, s) \<Rightarrow> (ret, g\<lparr>mg_perf_ctx := Some ctxs\<rparr>, s)))"

text \<open>Failures to close are only logged.\<close>

fun perf_stop_loop :: "'h perf_os \<Rightarrow> u32 \<Rightarrow> pqos_mon_perf_ctx list \<Rightarrow> 'h lib \<Rightarrow> retval \<times> 'h lib" where
  "perf_stop_loop P event [] s = (PQOS_RETVAL_OK, s)"
| "perf_stop_loop P event (ctx # ctxs) s =
     (case perf_mon_get_fd event ctx of
        None \<Rightarrow> (PQOS_RETVAL_ERROR, s)
      | Some fd \<Rightarrow> perf_stop_loop P event ctxs (snd (perf_shutdown_counter P fd s)))"

definition perf_mon_stop :: "'h perf_os \<Rightarrow> u32 \<Rightarrow> pqos_mon_data \<Rightarrow> 'h lib \<Rightarrow> retval \<times> 'h lib" where
  "perf_mon_stop P event g s =
     (if perf_targets g = [] then (PQOS_RETVAL_ERROR, s)
      else perf_stop_loop P event (take (length (perf_targets g)) (case mg_perf_ctx g of None \<Rightarrow> [] | Some ctxs \<Rightarrow> ctxs)) s)"

text \<open>The difference of two readings, as the file computes it.\<close>

definition perf_get_delta :: "u64 \<Rightarrow> u64 \<Rightarrow> u64" where
  "perf_get_delta old_value new_value =
     (if new_value < old_value then ((- 1) - old_value) + new_value else new_value - old_value)"

text \<open>The values that belong to an event: the reading is replaced, its difference computed by \<open>d\<close>.\<close>

definition store_reading :: "(u64 \<Rightarrow> u64 \<Rightarrow> u64) \<Rightarrow> u32 \<Rightarrow> u64 \<Rightarrow> pqos_event_values \<Rightarrow> pqos_event_values option" where
  "store_reading d event value v =
     (if event = PQOS_MON_EVENT_LMEM_BW then Some (v\<lparr>mbm_local := value, mbm_local_delta := d (mbm_local v) value\<rparr>)
      else if event = PQOS_MON_EVENT_TMEM_BW then Some (v\<lparr>mbm_total := value, mbm_total_delta := d (mbm_total v) value\<rparr>)
      else if event = PQOS_PERF_EVENT_LLC_MISS then Some (v\<lparr>llc_misses := value, llc_misses_delta := d (llc_misses v) value\<rparr>)
      else if event = PQOS_PERF_EVENT_LLC_REF then Some (v\<lparr>llc_references := value, llc_references_delta := d (llc_references v) value\<rparr>)
      else if event = PQOS_PERF_EVENT_CYCLES then Some (v\<lparr>ipc_unhalted := value, ipc_unhalted_delta := d (ipc_unhalted v) value\<rparr>)
      else if event = PQOS_PERF_EVENT_INSTRUCTIONS then Some (v\<lparr>ipc_retired := value, ipc_retired_delta := d (ipc_retired v) value\<rparr>)
      else None)"

fun perf_poll_loop :: "'h perf_os \<Rightarrow> u32 \<Rightarrow> pqos_mon_perf_ctx list \<Rightarrow> u64 \<Rightarrow> 'h lib \<Rightarrow> u64 res" where
  "perf_poll_loop P event [] value s = Inr value"
| "perf_poll_loop P event (ctx # ctxs) value s =
     (case perf_mon_get_fd event ctx of
        None \<Rightarrow> Inl PQOS_RETVAL_ERROR
      | Some fd \<Rightarrow>
          (case perf_read_counter P fd s of
             Inl e \<Rightarrow> Inl e
           | Inr counter_value \<Rightarrow> perf_poll_loop P event ctxs (value + counter_value) s))"

definition perf_mon_poll :: "'h perf_os \<Rightarrow> u32 \<Rightarrow> pqos_mon_data \<Rightarrow> 'h lib \<Rightarrow> retval \<times> pqos_mon_data" where
  "perf_mon_poll P event g s =
     (if perf_targets g = [] then (PQOS_RETVAL_ERROR, g)
      else (case perf_poll_loop P event (take (length (perf_targets g)) (case mg_perf_ctx g of None \<Rightarrow> [] | Some ctxs \<Rightarrow> ctxs)) 0 s of
              Inl e \<Rightarrow> (e, g)
            | Inr value \<Rightarrow>
                if event = PQOS_MON_EVENT_L3_OCCUP then (PQOS_RETVAL_OK, g\<lparr>mg_values := (mg_values g)\<lparr>llc := value\<rparr>\<rparr>)
                else (case store_reading perf_get_delta event value (mg_values g) of
                        None \<Rightarrow> (PQOS_RETVAL_ERROR, g)
                      | Some v \<Rightarrow> (PQOS_RETVAL_OK, g\<lparr>mg_values := v\<rparr>))))"

text \<open>The difference is exact until the counter wraps, and one too small when it does.\<close>

lemma perf_delta_short:
  "perf_get_delta old_value new_value = new_value - old_value - (if new_value < old_value then 1 else 0)"
  by (simp add: perf_get_delta_def)

end
