(* ===== verification/MonUncore.thy ===== *)
theory MonUncore
  imports MonPerf Topology
begin

text \<open>
  Uncore counters of PCIe accesses (\<open>lib/uncore_monitoring.c\<close>), which exist on one processor
  model only. \<open>m_uncore\<close> says that \<open>uncore_mon_init\<close> has found that model: the event table is
  set and all four events are supported.
\<close>

section \<open>Registers and events\<close>

definition IAT_MSR_C_UNIT_CTRL :: u32 where "IAT_MSR_C_UNIT_CTRL = 0xE00"
definition UNIT_CTRL_FREEZE_COUNTER :: u64 where "UNIT_CTRL_FREEZE_COUNTER = 0x10100"
definition UNIT_CTRL_UNFREEZE_COUNTER :: u64 where "UNIT_CTRL_UNFREEZE_COUNTER = 0x10000"
definition UNIT_CTRL_RESET_COUNTER :: u64 where "UNIT_CTRL_RESET_COUNTER = 0x10102"
definition UNIT_CTRL_RESET_CONTROL :: u64 where "UNIT_CTRL_RESET_CONTROL = 0x10101"
definition OFFSET_CTRL0 :: u32 where "OFFSET_CTRL0 = 1"
definition OFFSET_CTR0 :: u32 where "OFFSET_CTR0 = 8"
definition OFFSET_FILTER1 :: u32 where "OFFSET_FILTER1 = 6"
definition LOCAL_COUNTER_ENABLE :: u64 where "LOCAL_COUNTER_ENABLE = 0x400000"
definition IAT_EVENT_TOR_INSERTS :: u64 where "IAT_EVENT_TOR_INSERTS = 0x35"

record uncore_mon_event =
  un_supported :: bool
  un_event :: u64
  un_umask :: u64
  un_xtra :: u64
  un_filter :: u64

definition uncore_events_skx :: "uncore_mon_event list" where
  "uncore_events_skx =
     [\<lparr>un_supported = True, un_event = IAT_EVENT_TOR_INSERTS, un_umask = 0x24, un_xtra = 0, un_filter = 0x43C33\<rparr>,
      \<lparr>un_supported = True, un_event = IAT_EVENT_TOR_INSERTS, un_umask = 0x24, un_xtra = 0, un_filter = 0x10049033\<rparr>,
      \<lparr>un_supported = True, un_event = IAT_EVENT_TOR_INSERTS, un_umask = 0x14, un_xtra = 0, un_filter = 0x43C33\<rparr>,
      \<lparr>un_supported = True, un_event = IAT_EVENT_TOR_INSERTS, un_umask = 0x14, un_xtra = 0, un_filter = 0x10049033\<rparr>]"

definition uncore_event_map :: "u32 list" where
  "uncore_event_map = [PQOS_PERF_EVENT_LLC_MISS_PCIE_READ, PQOS_PERF_EVENT_LLC_MISS_PCIE_WRITE,
     PQOS_PERF_EVENT_LLC_REF_PCIE_READ, PQOS_PERF_EVENT_LLC_REF_PCIE_WRITE]"

text \<open>The position of an event in the two tables, which is also the number of its unit.\<close>

definition uncore_index :: "u32 \<Rightarrow> nat option" where
  "uncore_index event =
     (if event = PQOS_PERF_EVENT_LLC_MISS_PCIE_READ then Some 0
      else if event = PQOS_PERF_EVENT_LLC_MISS_PCIE_WRITE then Some 1
      else if event = PQOS_PERF_EVENT_LLC_REF_PCIE_READ then Some 2
      else if event = PQOS_PERF_EVENT_LLC_REF_PCIE_WRITE then Some 3
      else None)"

definition uncore_get_event :: "bool \<Rightarrow> u32 \<Rightarrow> uncore_mon_event option" where
  "uncore_get_event m_uncore event =
     (if \<not> m_uncore then None else map_option (\<lambda>i. uncore_events_skx ! i) (uncore_index event))"

definition uncore_unit_ctrl_skx :: "nat \<Rightarrow> u32" where
  "uncore_unit_ctrl_skx cha = IAT_MSR_C_UNIT_CTRL + 0x10 * of_nat cha"

definition uncore_all_evt_mask :: "bool \<Rightarrow> u32" where
  "uncore_all_evt_mask m_uncore =
     (if m_uncore then fold (OR) (map fst (filter (\<lambda>(_, evt). un_supported evt) (zip uncore_event_map uncore_events_skx))) 0 else 0)"

section \<open>Operations\<close>

text \<open>A sequence of register writes on one core that stops at the first failure.\<close>

fun msr_writes :: "'h platform \<Rightarrow> u32 \<Rightarrow> (u32 \<times> u64) list \<Rightarrow> 'h lib \<Rightarrow> retval \<times> 'h lib" where
  "msr_writes E l [] s = (PQOS_RETVAL_OK, s)"
| "msr_writes E l ((reg, v) # ws) s =
     (case msr_write E l reg v s of (ret, s) \<Rightarrow>
        if ret \<noteq> MACHINE_RETVAL_OK then (PQOS_RETVAL_ERROR, s) else msr_writes E l ws s)"

definition setup_counter :: "'h platform \<Rightarrow> bool \<Rightarrow> u32 \<Rightarrow> u32 \<Rightarrow> 'h lib \<Rightarrow> retval \<times> 'h lib" where
  "setup_counter E m_uncore l event s =
     (case uncore_get_event m_uncore event of
        None \<Rightarrow> (PQOS_RETVAL_PARAM, s)
      | Some evt \<Rightarrow>
          if \<not> un_supported evt then (PQOS_RETVAL_RESOURCE, s)
          else (case uncore_index event of
             None \<Rightarrow> (PQOS_RETVAL_PARAM, s)
           | Some i \<Rightarrow>
               (let reg_unit_ctrl = uncore_unit_ctrl_skx i
                in msr_writes E l
                     ([(reg_unit_ctrl, UNIT_CTRL_UNFREEZE_COUNTER), (reg_unit_ctrl, UNIT_CTRL_FREEZE_COUNTER),
                       (reg_unit_ctrl + OFFSET_CTRL0,
                        push_bit 32 (un_xtra evt) OR LOCAL_COUNTER_ENABLE OR push_bit 8 (un_umask evt) OR un_event evt)] @
                      (if un_filter evt \<noteq> 0 then [(reg_unit_ctrl + OFFSET_FILTER1, un_filter evt)] else []) @
                      [(reg_unit_ctrl, UNIT_CTRL_RESET_COUNTER), (reg_unit_ctrl, UNIT_CTRL_UNFREEZE_COUNTER)]) s)))"

text \<open>The loop over the events of one socket stops at a failure, the loop over the sockets does not.\<close>

fun uncore_start_events :: "'h platform \<Rightarrow> bool \<Rightarrow> u32 \<Rightarrow> u32 \<Rightarrow> u32 list \<Rightarrow> retval \<Rightarrow> 'h lib \<Rightarrow> retval \<times> 'h lib" where
  "uncore_start_events E m_uncore l event [] ret s = (ret, s)"
| "uncore_start_events E m_uncore l event (e # es) ret s =
     (if event AND e = 0 then uncore_start_events E m_uncore l event es ret s
      else (case setup_counter E m_uncore l e s of (ret, s) \<Rightarrow>
              if ret \<noteq> PQOS_RETVAL_OK then (ret, s) else uncore_start_events E m_uncore l event es ret s))"

text \<open>\<open>Inl\<close> is the early return, which skips the update of the started events.\<close>

fun uncore_start_sockets :: "'h platform \<Rightarrow> bool \<Rightarrow> u32 \<Rightarrow> u32 list \<Rightarrow> retval \<Rightarrow> 'h lib \<Rightarrow> retval res \<times> 'h lib" where
  "uncore_start_sockets E m_uncore event [] ret s = (Inr ret, s)"
| "uncore_start_sockets E m_uncore event (k # ks) ret s =
     (case pqos_cpu_get_one_core (Some (m_cpu s)) k of
        Inl e \<Rightarrow> (Inl e, s)
      | Inr l \<Rightarrow>
          (case uncore_start_events E m_uncore l event uncore_event_map PQOS_RETVAL_OK s of (ret, s) \<Rightarrow>
             uncore_start_sockets E m_uncore event ks ret s))"

definition uncore_mon_start :: "'h platform \<Rightarrow> bool \<Rightarrow> u32 \<Rightarrow> pqos_mon_data \<Rightarrow> 'h lib \<Rightarrow> retval \<times> pqos_mon_data \<times> 'h lib" where
  "uncore_mon_start E m_uncore event g s =
     (case uncore_start_sockets E m_uncore event (mg_sockets g) PQOS_RETVAL_OK s of
        (Inl e, s) \<Rightarrow> (e, g, s)
      | (Inr ret, s) \<Rightarrow> (ret, g\<lparr>mg_hw_event := mg_hw_event g OR (event AND uncore_all_evt_mask m_uncore)\<rparr>, s))"

fun uncore_stop_sockets :: "'h platform \<Rightarrow> u32 \<Rightarrow> u32 list \<Rightarrow> 'h lib \<Rightarrow> retval \<times> 'h lib" where
  "uncore_stop_sockets E events [] s = (PQOS_RETVAL_OK, s)"
| "uncore_stop_sockets E events (k # ks) s =
     (case pqos_cpu_get_one_core (Some (m_cpu s)) k of
        Inl e \<Rightarrow> (e, s)
      | Inr l \<Rightarrow>
          (case msr_writes E l (map (\<lambda>i. (uncore_unit_ctrl_skx i, UNIT_CTRL_RESET_CONTROL))
                  (filter (\<lambda>i. events AND uncore_event_map ! i \<noteq> 0) [0, 1, 2, 3])) s of (ret, s) \<Rightarrow>
             if ret \<noteq> PQOS_RETVAL_OK then (ret, s) else uncore_stop_sockets E events ks s))"

definition uncore_mon_stop :: "'h platform \<Rightarrow> pqos_mon_data \<Rightarrow> 'h lib \<Rightarrow> retval \<times> 'h lib" where
  "uncore_mon_stop E g s = uncore_stop_sockets E (mg_hw_event g) (mg_sockets g) s"

definition read_counter :: "'h platform \<Rightarrow> u32 \<Rightarrow> u32 \<Rightarrow> 'h lib \<Rightarrow> u64 res \<times> 'h lib" where
  "read_counter E l event s =
     (case uncore_index event of
        None \<Rightarrow> (Inl PQOS_RETVAL_PARAM, s)
      | Some i \<Rightarrow>
          (case msr_read E l (uncore_unit_ctrl_skx i + OFFSET_CTR0) s of
             (Inl _, s) \<Rightarrow> (Inl PQOS_RETVAL_ERROR, s)
           | (Inr v, s) \<Rightarrow> (Inr v, s)))"

fun uncore_poll_sockets :: "'h platform \<Rightarrow> u32 \<Rightarrow> u32 list \<Rightarrow> u64 \<Rightarrow> 'h lib \<Rightarrow> u64 res \<times> 'h lib" where
  "uncore_poll_sockets E event [] value s = (Inr value, s)"
| "uncore_poll_sockets E event (k # ks) value s =
     (case pqos_cpu_get_one_core (Some (m_cpu s)) k of
        Inl e \<Rightarrow> (Inl e, s)
      | Inr l \<Rightarrow>
          (case read_counter E l event s of
             (Inl e, s) \<Rightarrow> (Inl e, s)
           | (Inr v, s) \<Rightarrow> uncore_poll_sockets E event ks (value + v) s))"

definition store_pcie :: "u32 \<Rightarrow> u64 \<Rightarrow> pcie_values \<Rightarrow> pcie_values option" where
  "store_pcie event value v =
     (if event = PQOS_PERF_EVENT_LLC_MISS_PCIE_READ then Some (v\<lparr>miss_read := value, miss_read_delta := value - miss_read v\<rparr>)
      else if event = PQOS_PERF_EVENT_LLC_MISS_PCIE_WRITE then Some (v\<lparr>miss_write := value, miss_write_delta := value - miss_write v\<rparr>)
      else if event = PQOS_PERF_EVENT_LLC_REF_PCIE_READ then Some (v\<lparr>ref_read := value, ref_read_delta := value - ref_read v\<rparr>)
      else if event = PQOS_PERF_EVENT_LLC_REF_PCIE_WRITE then Some (v\<lparr>ref_write := value, ref_write_delta := value - ref_write v\<rparr>)
      else None)"

definition uncore_mon_poll :: "'h platform \<Rightarrow> u32 \<Rightarrow> pqos_mon_data \<Rightarrow> 'h lib \<Rightarrow> retval \<times> pqos_mon_data \<times> 'h lib" where
  "uncore_mon_poll E event g s =
     (case uncore_poll_sockets E event (mg_sockets g) 0 s of
        (Inl e, s) \<Rightarrow> (e, g, s)
      | (Inr value, s) \<Rightarrow>
          (case store_pcie event value (mg_pcie g) of
             None \<Rightarrow> (PQOS_RETVAL_PARAM, g, s)
           | Some v \<Rightarrow> (PQOS_RETVAL_OK, g\<lparr>mg_pcie := v\<rparr>, s)))"

definition uncore_mon_is_event_supported :: "bool \<Rightarrow> u32 \<Rightarrow> bool" where
  "uncore_mon_is_event_supported m_uncore event =
     (case uncore_get_event m_uncore event of None \<Rightarrow> False | Some evt \<Rightarrow> un_supported evt)"

end
