(* ===== verification/MonCommon.thy ===== *)
theory MonCommon
  imports MonUncore AllocReset
begin

text \<open>
  The monitoring functions that the MSR and MMIO interfaces share (\<open>lib/common_monitoring.c\<close>):
  RMID association, performance counters, reset of monitoring. \<open>supported\<close> is the column of
  that name in the event table of \<open>lib/perf_monitoring.c\<close>.
\<close>

section \<open>Registers\<close>

definition PQOS_MSR_ASSOC_RMID_MASK :: u64 where "PQOS_MSR_ASSOC_RMID_MASK = 0x3ff"
definition PQOS_MSR_L3_IO_QOS_MON_EN :: u64 where "PQOS_MSR_L3_IO_QOS_MON_EN = 2"
definition PQOS_MSR_SNC_CFG :: u32 where "PQOS_MSR_SNC_CFG = 0xCA0"
definition IA32_MSR_INST_RETIRED_ANY :: u32 where "IA32_MSR_INST_RETIRED_ANY = 0x309"
definition IA32_MSR_CPU_UNHALTED_THREAD :: u32 where "IA32_MSR_CPU_UNHALTED_THREAD = 0x30A"
definition IA32_MSR_FIXED_CTR_CTRL :: u32 where "IA32_MSR_FIXED_CTR_CTRL = 0x38D"
definition IA32_MSR_PERF_GLOBAL_CTRL :: u32 where "IA32_MSR_PERF_GLOBAL_CTRL = 0x38F"
definition IA32_MSR_PMC0 :: u32 where "IA32_MSR_PMC0 = 0xC1"
definition IA32_MSR_PMC1 :: u32 where "IA32_MSR_PMC1 = 0xC2"
definition IA32_MSR_PERFEVTSEL0 :: u32 where "IA32_MSR_PERFEVTSEL0 = 0x186"
definition IA32_MSR_PERFEVTSEL1 :: u32 where "IA32_MSR_PERFEVTSEL1 = 0x187"
definition IA32_EVENT_LLC_MISS_MASK :: u64 where "IA32_EVENT_LLC_MISS_MASK = 0x2E"
definition IA32_EVENT_LLC_MISS_UMASK :: u64 where "IA32_EVENT_LLC_MISS_UMASK = 0x41"
definition IA32_EVENT_LLC_REF_MASK :: u64 where "IA32_EVENT_LLC_REF_MASK = 0x2E"
definition IA32_EVENT_LLC_REF_UMASK :: u64 where "IA32_EVENT_LLC_REF_UMASK = 0x4F"

definition RMID0 :: u32 where "RMID0 = 0"

section \<open>Performance counters\<close>

definition perf_event_list :: "u32 list" where
  "perf_event_list = [PQOS_PERF_EVENT_LLC_MISS, PQOS_PERF_EVENT_LLC_REF, PQOS_PERF_EVENT_CYCLES, PQOS_PERF_EVENT_INSTRUCTIONS]"

text \<open>The test with which \<open>ia32_perf_counter_start\<close> and \<open>ia32_perf_counter_stop\<close> begin.\<close>

definition ia32_selected :: "u32 \<Rightarrow> bool" where
  "ia32_selected event \<longleftrightarrow> has_event event (PQOS_PERF_EVENT_LLC_MISS OR PQOS_PERF_EVENT_LLC_REF OR PQOS_PERF_EVENT_IPC)"

definition global_ctrl_mask :: "u32 \<Rightarrow> u64" where
  "global_ctrl_mask event =
     (if has_event event PQOS_PERF_EVENT_IPC then push_bit 32 3 else 0) OR
     (if has_event event PQOS_PERF_EVENT_LLC_MISS then 1 else 0) OR
     (if has_event event PQOS_PERF_EVENT_LLC_REF then 2 else 0)"

text \<open>Counters in use are only reported.\<close>

fun ia32_check_loop :: "'h platform \<Rightarrow> u32 list \<Rightarrow> 'h lib \<Rightarrow> retval \<times> 'h lib" where
  "ia32_check_loop E [] s = (PQOS_RETVAL_OK, s)"
| "ia32_check_loop E (l # ls) s =
     (case msr_read E l IA32_MSR_PERF_GLOBAL_CTRL s of
        (Inl _, s) \<Rightarrow> (PQOS_RETVAL_ERROR, s)
      | (Inr _, s) \<Rightarrow> ia32_check_loop E ls s)"

definition ia32_program :: "u32 \<Rightarrow> (u32 \<times> u64) list" where
  "ia32_program event =
     [(IA32_MSR_PERF_GLOBAL_CTRL, 0)] @
     (if has_event event PQOS_PERF_EVENT_IPC
      then [(IA32_MSR_INST_RETIRED_ANY, 0), (IA32_MSR_CPU_UNHALTED_THREAD, 0), (IA32_MSR_FIXED_CTR_CTRL, 0x33)] else []) @
     (if has_event event PQOS_PERF_EVENT_LLC_MISS
      then [(IA32_MSR_PMC0, 0),
            (IA32_MSR_PERFEVTSEL0, IA32_EVENT_LLC_MISS_MASK OR push_bit 8 IA32_EVENT_LLC_MISS_UMASK OR push_bit 16 1 OR push_bit 17 1 OR push_bit 22 1)]
      else []) @
     (if has_event event PQOS_PERF_EVENT_LLC_REF
      then [(IA32_MSR_PMC1, 0),
            (IA32_MSR_PERFEVTSEL1, IA32_EVENT_LLC_REF_MASK OR push_bit 8 IA32_EVENT_LLC_REF_UMASK OR push_bit 16 1 OR push_bit 17 1 OR push_bit 22 1)]
      else []) @
     [(IA32_MSR_PERF_GLOBAL_CTRL, global_ctrl_mask event)]"

fun ia32_program_loop :: "'h platform \<Rightarrow> u32 \<Rightarrow> u32 list \<Rightarrow> 'h lib \<Rightarrow> retval \<times> 'h lib" where
  "ia32_program_loop E event [] s = (PQOS_RETVAL_OK, s)"
| "ia32_program_loop E event (l # ls) s =
     (case msr_writes E l (ia32_program event) s of (ret, s) \<Rightarrow>
        if ret \<noteq> PQOS_RETVAL_OK then (PQOS_RETVAL_ERROR, s) else ia32_program_loop E event ls s)"

definition ia32_perf_counter_start :: "'h platform \<Rightarrow> u32 list \<Rightarrow> u32 \<Rightarrow> 'h lib \<Rightarrow> retval \<times> 'h lib" where
  "ia32_perf_counter_start E ls event s =
     (if \<not> ia32_selected event then (PQOS_RETVAL_OK, s)
      else (case ia32_check_loop E ls s of (ret, s) \<Rightarrow>
              if ret \<noteq> PQOS_RETVAL_OK then (ret, s) else ia32_program_loop E event ls s))"

text \<open>The loop goes on after a failed write and remembers the failure.\<close>

fun ia32_stop_loop :: "'h platform \<Rightarrow> u32 list \<Rightarrow> retval \<Rightarrow> 'h lib \<Rightarrow> retval \<times> 'h lib" where
  "ia32_stop_loop E [] retval s = (retval, s)"
| "ia32_stop_loop E (l # ls) retval s =
     (case msr_write E l IA32_MSR_PERF_GLOBAL_CTRL 0 s of (ret, s) \<Rightarrow>
        ia32_stop_loop E ls (if ret \<noteq> MACHINE_RETVAL_OK then PQOS_RETVAL_ERROR else retval) s)"

definition ia32_perf_counter_stop :: "'h platform \<Rightarrow> u32 list \<Rightarrow> u32 \<Rightarrow> 'h lib \<Rightarrow> retval \<times> 'h lib" where
  "ia32_perf_counter_stop E ls event s =
     (if \<not> ia32_selected event then (PQOS_RETVAL_OK, s) else ia32_stop_loop E ls PQOS_RETVAL_OK s)"

text \<open>The body of the loop over the bits of the event mask.\<close>

definition mon_event_ok :: "pqos_cap \<Rightarrow> u32 \<Rightarrow> bool \<Rightarrow> nat \<Rightarrow> bool" where
  "mon_event_ok cap event iordt i \<longleftrightarrow>
     \<not> bit event i \<or> (case pqos_cap_get_event (Some cap) (push_bit i 1) of Inl _ \<Rightarrow> False | Inr m \<Rightarrow> iordt \<longrightarrow> ev_iordt m)"

definition mon_events_valid :: "pqos_cap \<Rightarrow> u32 \<Rightarrow> bool \<Rightarrow> retval" where
  "mon_events_valid cap event iordt =
     (if list_all (mon_event_ok cap event iordt) [0..<32] then PQOS_RETVAL_OK else PQOS_RETVAL_ERROR)"

section \<open>RMID association\<close>

definition mon_assoc_write :: "'h platform \<Rightarrow> u32 \<Rightarrow> u32 \<Rightarrow> 'h lib \<Rightarrow> retval \<times> 'h lib" where
  "mon_assoc_write E l rmid s =
     (case msr_read E l PQOS_MSR_ASSOC s of
        (Inl _, s) \<Rightarrow> (PQOS_RETVAL_ERROR, s)
      | (Inr val, s) \<Rightarrow>
          (let val = val AND PQOS_MSR_ASSOC_QECLOS_MASK;
               val = val OR (ucast rmid AND PQOS_MSR_ASSOC_RMID_MASK)
           in case msr_write E l PQOS_MSR_ASSOC val s of
                (MACHINE_RETVAL_OK, s) \<Rightarrow> (PQOS_RETVAL_OK, s)
              | (_, s) \<Rightarrow> (PQOS_RETVAL_ERROR, s)))"

definition mon_assoc_read :: "'h platform \<Rightarrow> u32 \<Rightarrow> 'h lib \<Rightarrow> u32 res \<times> 'h lib" where
  "mon_assoc_read E l s =
     (case msr_read E l PQOS_MSR_ASSOC s of
        (Inl _, s) \<Rightarrow> (Inl PQOS_RETVAL_ERROR, s)
      | (Inr val, s) \<Rightarrow> (Inr (ucast (val AND PQOS_MSR_ASSOC_RMID_MASK)), s))"

definition mon_assoc_get_core :: "'h platform \<Rightarrow> u32 \<Rightarrow> 'h lib \<Rightarrow> u32 res \<times> 'h lib" where
  "mon_assoc_get_core E l s =
     (if pqos_cpu_check_core (Some (m_cpu s)) l \<noteq> PQOS_RETVAL_OK then (Inl PQOS_RETVAL_PARAM, s) else mon_assoc_read E l s)"

section \<open>Perf events of a group\<close>

text \<open>The memory of a new context is not initialised; no descriptor is read before it is stored.\<close>

definition new_perf_ctx :: pqos_mon_perf_ctx where
  "new_perf_ctx = \<lparr>fd_llc = 0, fd_mbl = 0, fd_mbt = 0, fd_inst = 0, fd_cyc = 0, fd_llc_misses = 0, fd_llc_references = 0\<rparr>"

text \<open>\<open>Inl\<close> is the early return; \<open>Inr\<close> holds the events left to the machine's own counters.\<close>

fun start_perf_loop ::
  "'h perf_os \<Rightarrow> (u32 \<Rightarrow> bool) \<Rightarrow> u32 \<Rightarrow> u32 list \<Rightarrow> u32 \<Rightarrow> pqos_mon_data \<Rightarrow> 'h lib \<Rightarrow> u32 res \<times> pqos_mon_data \<times> 'h lib" where
  "start_perf_loop P supported event [] hw_event g s = (Inr hw_event, g, s)"
| "start_perf_loop P supported event (evt # evts) hw_event g s =
     (if \<not> has_event event evt then start_perf_loop P supported event evts hw_event g s
      else if supported evt
      then (case perf_mon_start P evt g s of (ret, g, s) \<Rightarrow>
              if ret \<noteq> PQOS_RETVAL_OK then (Inl ret, g, s)
              else start_perf_loop P supported event evts hw_event (g\<lparr>mg_perf_event := mg_perf_event g OR evt\<rparr>) s)
      else start_perf_loop P supported event evts (hw_event OR evt) g s)"

definition mon_start_perf ::
  "'h platform \<Rightarrow> 'h perf_os \<Rightarrow> (u32 \<Rightarrow> bool) \<Rightarrow> u32 \<Rightarrow> pqos_mon_data \<Rightarrow> 'h lib \<Rightarrow> retval \<times> pqos_mon_data \<times> 'h lib" where
  "mon_start_perf E P supported event g s =
     (case start_perf_loop P supported event perf_event_list 0 (g\<lparr>mg_perf_ctx := Some (replicate (length (mg_cores g)) new_perf_ctx)\<rparr>) s of
        (Inl ret, g, s) \<Rightarrow> (ret, g, s)
      | (Inr hw_event, g, s) \<Rightarrow>
          (let g = (if mg_perf_event g = 0 then g\<lparr>mg_perf_ctx := None\<rparr> else g)
           in if hw_event = 0 then (PQOS_RETVAL_OK, g, s)
              else (case ia32_perf_counter_start E (mg_cores g) hw_event s of (ret, s) \<Rightarrow>
                      (ret, if ret = PQOS_RETVAL_OK then g\<lparr>mg_hw_event := mg_hw_event g OR hw_event\<rparr> else g, s))))"

fun stop_perf_loop :: "'h perf_os \<Rightarrow> pqos_mon_data \<Rightarrow> u32 list \<Rightarrow> u32 \<Rightarrow> 'h lib \<Rightarrow> u32 res \<times> 'h lib" where
  "stop_perf_loop P g [] hw_event s = (Inr hw_event, s)"
| "stop_perf_loop P g (evt # evts) hw_event s =
     (if has_event (mg_perf_event g) evt
      then (case perf_mon_stop P evt g s of (ret, s) \<Rightarrow>
              if ret \<noteq> PQOS_RETVAL_OK then (Inl ret, s) else stop_perf_loop P g evts hw_event s)
      else stop_perf_loop P g evts (if has_event (mg_hw_event g) evt then hw_event OR evt else hw_event) s)"

definition mon_stop_perf :: "'h platform \<Rightarrow> 'h perf_os \<Rightarrow> pqos_mon_data \<Rightarrow> 'h lib \<Rightarrow> retval \<times> pqos_mon_data \<times> 'h lib" where
  "mon_stop_perf E P g s =
     (case stop_perf_loop P g perf_event_list 0 s of
        (Inl ret, s) \<Rightarrow> (ret, g, s)
      | (Inr hw_event, s) \<Rightarrow>
          (case (if hw_event \<noteq> 0 then ia32_perf_counter_stop E (mg_cores g) (mg_event g) s else (PQOS_RETVAL_OK, s)) of (ret, s) \<Rightarrow>
             if ret \<noteq> PQOS_RETVAL_OK then (PQOS_RETVAL_RESOURCE, g, s)
             else (PQOS_RETVAL_OK, g\<lparr>mg_perf_ctx := None\<rparr>, s)))"

fun sum_regs :: "'h platform \<Rightarrow> u32 \<Rightarrow> u32 list \<Rightarrow> u64 \<Rightarrow> 'h lib \<Rightarrow> u64 res \<times> 'h lib" where
  "sum_regs E reg [] val s = (Inr val, s)"
| "sum_regs E reg (l # ls) val s =
     (case msr_read E l reg s of (Inl _, s) \<Rightarrow> (Inl PQOS_RETVAL_ERROR, s) | (Inr tmp, s) \<Rightarrow> sum_regs E reg ls (val + tmp) s)"

definition perf_reg :: "u32 \<Rightarrow> u32 option" where
  "perf_reg event =
     (if event = PQOS_PERF_EVENT_INSTRUCTIONS then Some IA32_MSR_INST_RETIRED_ANY
      else if event = PQOS_PERF_EVENT_CYCLES then Some IA32_MSR_CPU_UNHALTED_THREAD
      else if event = PQOS_PERF_EVENT_LLC_MISS then Some IA32_MSR_PMC0
      else if event = PQOS_PERF_EVENT_LLC_REF then Some IA32_MSR_PMC1
      else None)"

definition mon_read_perf :: "'h platform \<Rightarrow> u32 \<Rightarrow> pqos_mon_data \<Rightarrow> 'h lib \<Rightarrow> retval \<times> pqos_mon_data \<times> 'h lib" where
  "mon_read_perf E event g s =
     (case perf_reg event of
        None \<Rightarrow> (PQOS_RETVAL_PARAM, g, s)
      | Some reg \<Rightarrow>
          (case sum_regs E reg (mg_cores g) 0 s of
             (Inl e, s) \<Rightarrow> (e, g, s)
           | (Inr val, s) \<Rightarrow>
               (PQOS_RETVAL_OK,
                g\<lparr>mg_values := the (store_reading (\<lambda>old new. new - old) event val (mg_values g))\<rparr>, s)))"

section \<open>Reset\<close>

definition mon_set_snc_mode :: "'h platform \<Rightarrow> pqos_snc_config \<Rightarrow> 'h lib \<Rightarrow> retval \<times> 'h lib" where
  "mon_set_snc_mode E ns s =
     (if ns = PQOS_REQUIRE_SNC_ANY then (PQOS_RETVAL_PARAM, s)
      else (case pqos_cpu_get_sockets (Some (m_cpu s)) of
              None \<Rightarrow> (PQOS_RETVAL_ERROR, s)
            | Some sockets \<Rightarrow>
                if sockets = [] then (PQOS_RETVAL_ERROR, s)
                else (case cfg_bit_loop E
                             (\<lambda>k. case pqos_cpu_get_one_core (Some (m_cpu s)) k of Inl _ \<Rightarrow> Inl PQOS_RETVAL_ERROR | Inr l \<Rightarrow> Inr l)
                             PQOS_MSR_SNC_CFG 1 (ns = PQOS_REQUIRE_SNC_LOCAL) sockets s of (ret, s) \<Rightarrow>
                        if ret \<noteq> PQOS_RETVAL_OK then (PQOS_RETVAL_ERROR, s)
                        else (PQOS_RETVAL_OK, s\<lparr>m_cap := pqos_cap_mon_snc_change ns (m_cap s)\<rparr>))))"

definition mon_reset_iordt :: "'h platform \<Rightarrow> bool \<Rightarrow> 'h lib \<Rightarrow> retval \<times> 'h lib" where
  "mon_reset_iordt E enable s =
     (case pqos_cpu_get_l3_clusters (Some (m_cpu s)) of
        None \<Rightarrow> (PQOS_RETVAL_ERROR, s)
      | Some l3ids \<Rightarrow>
          if l3ids = [] then (PQOS_RETVAL_ERROR, s)
          else cfg_bit_loop E (pqos_cpu_get_one_by_l3id (Some (m_cpu s))) PQOS_MSR_L3_IO_QOS_CFG PQOS_MSR_L3_IO_QOS_MON_EN enable l3ids s)"

record pqos_mon_config =
  mc_l3_iordt :: pqos_iordt_config
  mc_snc :: pqos_snc_config

text \<open>The core loop goes on after a failure and remembers the last one.\<close>

fun rmid_reset_loop :: "'h platform \<Rightarrow> u32 list \<Rightarrow> retval \<Rightarrow> 'h lib \<Rightarrow> retval \<times> 'h lib" where
  "rmid_reset_loop E [] ret s = (ret, s)"
| "rmid_reset_loop E (l # ls) ret s =
     (case mon_assoc_write E l RMID0 s of (retval, s) \<Rightarrow>
        rmid_reset_loop E ls (if retval \<noteq> PQOS_RETVAL_OK then retval else ret) s)"

text \<open>Switching I/O RDT monitoring; \<open>Inl\<close> is an early return.\<close>

definition mon_switch_iordt :: "'h platform \<Rightarrow> pqos_mon_config \<Rightarrow> pqos_cap_mon \<Rightarrow> 'h lib \<Rightarrow> retval res \<times> 'h lib" where
  "mon_switch_iordt E cfg mon s =
     (if mc_l3_iordt cfg = PQOS_REQUIRE_IORDT_ON \<and> \<not> mon_iordt_on mon
      then (case mon_reset_iordt E True s of (ret, s) \<Rightarrow>
              if ret \<noteq> PQOS_RETVAL_OK then (Inl ret, s)
              else (case m_dev s of
                      None \<Rightarrow> (Inr PQOS_RETVAL_OK, s)
                    | Some dev \<Rightarrow> (case iordt_mon_assoc_reset E dev s of (ret, s) \<Rightarrow> (Inr ret, s))))
      else if mc_l3_iordt cfg = PQOS_REQUIRE_IORDT_OFF \<and> mon_iordt_on mon
      then (case mon_reset_iordt E False s of (ret, s) \<Rightarrow> (if ret \<noteq> PQOS_RETVAL_OK then Inl ret else Inr PQOS_RETVAL_OK, s))
      else (Inr PQOS_RETVAL_OK, s))"

definition mon_reset :: "'h platform \<Rightarrow> pqos_mon_config option \<Rightarrow> 'h lib \<Rightarrow> retval \<times> 'h lib" where
  "mon_reset E cfg s =
     (case pqos_cap_get_type (Some (m_cap s)) PQOS_CAP_TYPE_MON of
        Inl e \<Rightarrow> (e, s)
      | Inr cap_mon \<Rightarrow>
          (let mon = u_mon cap_mon
           in if (\<exists>c\<in>set_option cfg. mc_l3_iordt c = PQOS_REQUIRE_IORDT_ON) \<and> \<not> mon_iordt mon then (PQOS_RETVAL_PARAM, s)
              else (case rmid_reset_loop E (map lcore (cores (m_cpu s))) PQOS_RETVAL_OK s of (ret, s) \<Rightarrow>
                     (case (if mon_iordt mon \<and> mon_iordt_on mon
                            then (case m_dev s of
                                    None \<Rightarrow> (PQOS_RETVAL_OK, s)
                                  | Some dev \<Rightarrow> iordt_mon_assoc_reset E dev s)
                            else (PQOS_RETVAL_OK, s)) of (retval, s) \<Rightarrow>
                        (let ret = (if retval \<noteq> PQOS_RETVAL_OK then retval else ret)
                         in if ret \<noteq> PQOS_RETVAL_OK then (ret, s)
                            else (case cfg of
                                    None \<Rightarrow> (ret, s)
                                  | Some cfg \<Rightarrow>
                                      (case mon_switch_iordt E cfg mon s of
                                         (Inl ret, s) \<Rightarrow> (ret, s)
                                       | (Inr ret, s) \<Rightarrow>
                                           (let s = s\<lparr>m_cap := pqos_cap_mon_iordt_change (mc_l3_iordt cfg) (m_cap s)\<rparr>
                                            in if mc_snc cfg = PQOS_REQUIRE_SNC_ANY then (ret, s)
                                               else if mon_snc_num mon = 1 then (PQOS_RETVAL_PARAM, s)
                                               else mon_set_snc_mode E (mc_snc cfg) s))))))))"

end
