(* ===== verification/HwMon.thy ===== *)
theory HwMon
  imports MonCommon DevInfo
begin

text \<open>
  Monitoring on the MSR interface (\<open>lib/hw_monitoring.c\<close>) and the polling of a group
  (\<open>lib/monitoring.c\<close>): allocation of RMIDs, start and stop of a group, reading of counters.
\<close>

section \<open>Module state and registers\<close>

text \<open>
  The static variables of the monitoring files once they are initialised: the number of
  RMIDs, the supported perf events, whether the uncore counters were found. \<open>mm_pci_numa\<close>
  stands for the NUMA node in the PCI configuration of a device (\<open>pci_dev_get\<close> of
  \<open>lib/pci.c\<close>), \<open>None\<close> when there is no such device.
\<close>

record mon_module =
  m_rmid_max :: u32
  mm_perf_supported :: "u32 \<Rightarrow> bool"
  mm_uncore :: bool
  mm_pci_numa :: "u16 \<Rightarrow> u16 \<Rightarrow> u32 option"

definition PQOS_MSR_MON_QMC :: u32 where "PQOS_MSR_MON_QMC = 0xC8E"
definition PQOS_MSR_MON_QMC_DATA_MASK :: u64 where "PQOS_MSR_MON_QMC_DATA_MASK = 0x3fffffffffffffff"
definition PQOS_MSR_MON_QMC_ERROR :: u64 where "PQOS_MSR_MON_QMC_ERROR = 0x8000000000000000"
definition PQOS_MSR_MON_QMC_UNAVAILABLE :: u64 where "PQOS_MSR_MON_QMC_UNAVAILABLE = 0x4000000000000000"
definition PQOS_MSR_MON_EVTSEL :: u32 where "PQOS_MSR_MON_EVTSEL = 0xC8D"
definition PQOS_MSR_MON_EVTSEL_RMID_SHIFT :: nat where "PQOS_MSR_MON_EVTSEL_RMID_SHIFT = 32"
definition PQOS_MSR_MON_EVTSEL_RMID_MASK :: u64 where "PQOS_MSR_MON_EVTSEL_RMID_MASK = 0x3ff"
definition PQOS_MSR_MON_EVTSEL_EVTID_MASK :: u64 where "PQOS_MSR_MON_EVTSEL_EVTID_MASK = 0xff"
definition PCI_NUMA_INVALID :: u32 where "PCI_NUMA_INVALID = - 1"

section \<open>RMID allocation\<close>

fun event_max_loop :: "u32 \<Rightarrow> pqos_monitor list \<Rightarrow> u32 \<Rightarrow> u32 \<Rightarrow> u32 \<times> u32" where
  "event_max_loop event [] mask_found max_rmid = (mask_found, max_rmid)"
| "event_max_loop event (m # ms) mask_found max_rmid =
     (if event AND ev_type m \<noteq> 0
      then event_max_loop event ms (mask_found OR ev_type m) (if ev_max_rmid m < max_rmid then ev_max_rmid m else max_rmid)
      else event_max_loop event ms mask_found max_rmid)"

definition rmid_get_event_max :: "mon_module \<Rightarrow> pqos_cap \<Rightarrow> u32 \<Rightarrow> u32 res" where
  "rmid_get_event_max M cap event =
     (case pqos_cap_get_type (Some cap) PQOS_CAP_TYPE_MON of
        Inl e \<Rightarrow> Inl e
      | Inr item \<Rightarrow>
          (case event_max_loop event (mon_events (u_mon item)) 0 (m_rmid_max M) of (mask_found, max_rmid) \<Rightarrow>
             if event \<noteq> mask_found \<or> max_rmid = 0 then Inl PQOS_RETVAL_ERROR else Inr max_rmid))"

definition get_socket :: "pqos_cpuinfo \<Rightarrow> u32 \<Rightarrow> u32 res" where
  "get_socket cpu n = (case List.find (\<lambda>c. numa c = n) (cores cpu) of None \<Rightarrow> Inl PQOS_RETVAL_ERROR | Some c \<Rightarrow> Inr (socket c))"

text \<open>The channel entries of the devices, in the order of the two loops of \<open>iordt_get_numa\<close>.\<close>

fun numa_loop :: "mon_module \<Rightarrow> pqos_channel_t \<Rightarrow> (u16 \<times> u16 \<times> pqos_channel_t) list \<Rightarrow> retval \<Rightarrow> u32 res" where
  "numa_loop M ch [] ret = Inl ret"
| "numa_loop M ch ((seg, bdf, c) # cs) ret =
     (if c \<noteq> ch then numa_loop M ch cs ret
      else (case mm_pci_numa M seg bdf of
              None \<Rightarrow> numa_loop M ch cs PQOS_RETVAL_ERROR
            | Some n \<Rightarrow> if n \<noteq> PCI_NUMA_INVALID then Inr n else numa_loop M ch cs ret))"

definition iordt_get_numa :: "mon_module \<Rightarrow> pqos_devinfo \<Rightarrow> pqos_channel_t \<Rightarrow> 'h lib \<Rightarrow> u32 res" where
  "iordt_get_numa M devinfo ch s =
     (case get_mmio (m_mmioinfo s) ch of
        None \<Rightarrow> Inl PQOS_RETVAL_RESOURCE
      | Some mmio \<Rightarrow>
          if mmio_numa mmio \<noteq> PCI_NUMA_INVALID then Inr (mmio_numa mmio)
          else numa_loop M ch
                 (concat (map (\<lambda>d. map (\<lambda>c. (dev_segment d, dev_bdf d, c)) (dev_channel d)) (table (devs devinfo)))) PQOS_RETVAL_RESOURCE)"

text \<open>The table of used RMIDs; RMIDs above the range are left out.\<close>

definition mark_rmid :: "u32 \<Rightarrow> u32 \<Rightarrow> bool list \<Rightarrow> bool list" where
  "mark_rmid max_rmid rmid used = (if rmid \<le> max_rmid then used[unat rmid := True] else used)"

fun mark_core_rmids :: "'h platform \<Rightarrow> u32 \<Rightarrow> u32 list \<Rightarrow> bool list \<Rightarrow> 'h lib \<Rightarrow> bool list res \<times> 'h lib" where
  "mark_core_rmids E max_rmid [] used s = (Inr used, s)"
| "mark_core_rmids E max_rmid (l # ls) used s =
     (case mon_assoc_read E l s of
        (Inl e, s) \<Rightarrow> (Inl e, s)
      | (Inr rmid, s) \<Rightarrow> mark_core_rmids E max_rmid ls (mark_rmid max_rmid rmid used) s)"

text \<open>A channel counts when its socket has the number of the cluster or is not known.\<close>

definition channel_elsewhere :: "mon_module \<Rightarrow> pqos_devinfo \<Rightarrow> u32 \<Rightarrow> pqos_channel_t \<Rightarrow> 'h lib \<Rightarrow> bool res" where
  "channel_elsewhere M dev cluster ch s =
     (case (case iordt_get_numa M dev ch s of Inl e \<Rightarrow> Inl e | Inr n \<Rightarrow> get_socket (m_cpu s) n) of
        Inr k \<Rightarrow> Inr (k \<noteq> cluster)
      | Inl e \<Rightarrow> if e \<noteq> PQOS_RETVAL_RESOURCE then Inl e else Inr False)"

fun mark_channel_rmids ::
  "'h platform \<Rightarrow> mon_module \<Rightarrow> pqos_devinfo \<Rightarrow> u32 \<Rightarrow> u32 \<Rightarrow> pqos_channel list \<Rightarrow> bool list \<Rightarrow> 'h lib \<Rightarrow> bool list res" where
  "mark_channel_rmids E M dev cluster max_rmid [] used s = Inr used"
| "mark_channel_rmids E M dev cluster max_rmid (c # cs) used s =
     (if \<not> rmid_tagging c then mark_channel_rmids E M dev cluster max_rmid cs used s
      else (case channel_elsewhere M dev cluster (channel_id c) s of
              Inl e \<Rightarrow> Inl e
            | Inr elsewhere \<Rightarrow>
                if elsewhere then mark_channel_rmids E M dev cluster max_rmid cs used s
                else (case iordt_mon_assoc_read E (channel_id c) s of
                        Inl e \<Rightarrow> Inl e
                      | Inr rmid \<Rightarrow> mark_channel_rmids E M dev cluster max_rmid cs (mark_rmid max_rmid rmid used) s)))"

text \<open>
  The table of used RMIDs has \<open>max_rmid + 2\<close> entries. The code computes the number in 32 bits, which is the same below
  2^32 - 2; the RMIDs of a processor are 10 bits wide (\<open>PQOS_MSR_ASSOC_RMID_MASK\<close>).
\<close>

definition hw_mon_assoc_unused ::
  "'h platform \<Rightarrow> mon_module \<Rightarrow> u32 \<Rightarrow> u32 \<Rightarrow> u32 \<Rightarrow> u32 \<Rightarrow> 'h lib \<Rightarrow> u32 res \<times> 'h lib" where
  "hw_mon_assoc_unused E M cluster event min_rmid max_rmid s =
     (case rmid_get_event_max M (m_cap s) event of
        Inl e \<Rightarrow> (Inl e, s)
      | Inr rmid \<Rightarrow>
          (let max_rmid = (if rmid - 1 < max_rmid then rmid - 1 else max_rmid);
               min_rmid = (if min_rmid < 1 then 1 else min_rmid)
           in case pqos_mon_iordt_enabled (Some (m_cap s)) False True of
                Inl e \<Rightarrow> (Inl e, s)
              | Inr (_, iordt) \<Rightarrow>
                  (case pqos_cpu_get_cores_l3id (Some (m_cpu s)) cluster of
                     None \<Rightarrow> (Inl PQOS_RETVAL_ERROR, s)
                   | Some core_list \<Rightarrow>
                       (case mark_core_rmids E max_rmid core_list (replicate (unat max_rmid + 2) False) s of
                          (Inl e, s) \<Rightarrow> (Inl e, s)
                        | (Inr used, s) \<Rightarrow>
                            (case (case m_dev s of
                                     None \<Rightarrow> Inr used
                                   | Some dev \<Rightarrow>
                                       if iordt then mark_channel_rmids E M dev cluster max_rmid (table (channels dev)) used s else Inr used) of
                               Inl e \<Rightarrow> (Inl e, s)
                             | Inr used \<Rightarrow>
                                 (case List.find (\<lambda>i. \<not> used ! i) [unat min_rmid..<Suc (unat max_rmid)] of
                                    None \<Rightarrow> (Inl PQOS_RETVAL_ERROR, s)
                                  | Some i \<Rightarrow> (Inr (of_nat i), s)))))))"

section \<open>Counters\<close>

text \<open>Without the capability the value is left as it is; the code asserts that it is there.\<close>

definition scale_event :: "pqos_cap \<Rightarrow> u32 \<Rightarrow> u64 \<Rightarrow> u64" where
  "scale_event cap event val =
     (case pqos_cap_get_event (Some cap) event of
        Inl _ \<Rightarrow> val
      | Inr pmon \<Rightarrow>
          (case cap_get_type_or_null cap PQOS_CAP_TYPE_MON of
             None \<Rightarrow> val
           | Some c \<Rightarrow> val * ucast (ev_scale_factor pmon) div ucast (mon_snc_num (u_mon c))))"

definition mon_evtsel :: "u32 \<Rightarrow> u32 \<Rightarrow> u64" where
  "mon_evtsel rmid event =
     push_bit PQOS_MSR_MON_EVTSEL_RMID_SHIFT (ucast rmid AND PQOS_MSR_MON_EVTSEL_RMID_MASK) OR
     (ucast event AND PQOS_MSR_MON_EVTSEL_EVTID_MASK)"

text \<open>
  The retry loop; \<open>None\<close> when it ends without a value. After an error the selection register
  is read into the same variable that holds the value.
\<close>

fun mon_read_loop :: "'h platform \<Rightarrow> u32 \<Rightarrow> u64 \<Rightarrow> nat \<Rightarrow> bool \<Rightarrow> 'h lib \<Rightarrow> u64 option \<times> 'h lib" where
  "mon_read_loop E l val_evtsel 0 flag_wrt s = (None, s)"
| "mon_read_loop E l val_evtsel (Suc n) flag_wrt s =
     (case (if flag_wrt then msr_write E l PQOS_MSR_MON_EVTSEL val_evtsel s else (MACHINE_RETVAL_OK, s)) of (m, s) \<Rightarrow>
        if m \<noteq> MACHINE_RETVAL_OK then (None, s)
        else (case msr_read E l PQOS_MSR_MON_QMC s of
                (Inl _, s) \<Rightarrow> (None, s)
              | (Inr val, s) \<Rightarrow>
                  if val AND PQOS_MSR_MON_QMC_ERROR \<noteq> 0
                  then (case msr_read E l PQOS_MSR_MON_EVTSEL s of
                          (Inl _, s) \<Rightarrow> (None, s)
                        | (Inr val, s) \<Rightarrow>
                            if val \<noteq> val_evtsel then mon_read_loop E l val_evtsel n True s
                            else if val AND PQOS_MSR_MON_QMC_UNAVAILABLE \<noteq> 0 then mon_read_loop E l val_evtsel n False s
                            else (Some val, s))
                  else if val AND PQOS_MSR_MON_QMC_UNAVAILABLE \<noteq> 0 then mon_read_loop E l val_evtsel n False s
                  else (Some val, s)))"

definition hw_mon_read :: "'h platform \<Rightarrow> u32 \<Rightarrow> u32 \<Rightarrow> u32 \<Rightarrow> 'h lib \<Rightarrow> u64 res \<times> 'h lib" where
  "hw_mon_read E l rmid event s =
     (case mon_read_loop E l (mon_evtsel rmid event) 4 True s of
        (None, s) \<Rightarrow> (Inl PQOS_RETVAL_ERROR, s)
      | (Some val, s) \<Rightarrow> (Inr (val AND PQOS_MSR_MON_QMC_DATA_MASK), s))"

definition counter_range :: "pqos_cap \<Rightarrow> u32 \<Rightarrow> u64" where
  "counter_range cap event =
     (case pqos_cap_get_event (Some cap) event of Inl _ \<Rightarrow> push_bit 24 1 | Inr pmon \<Rightarrow> push_bit (unat (ev_counter_length pmon)) 1)"

definition hw_get_delta :: "pqos_cap \<Rightarrow> u32 \<Rightarrow> u64 \<Rightarrow> u64 \<Rightarrow> u64" where
  "hw_get_delta cap event old_value new_value =
     (if new_value < old_value then (counter_range cap event - old_value) + new_value else new_value - old_value)"

text \<open>Any other event is a bug that the code asserts against.\<close>

definition get_event_id :: "u32 \<Rightarrow> u32" where
  "get_event_id event =
     (if event = PQOS_MON_EVENT_L3_OCCUP then 1
      else if event = PQOS_MON_EVENT_LMEM_BW then 3
      else if event = PQOS_MON_EVENT_TMEM_BW then 2
      else 0)"

fun sum_counters :: "'h platform \<Rightarrow> u32 \<Rightarrow> u64 \<Rightarrow> pqos_mon_poll_ctx list \<Rightarrow> u64 \<Rightarrow> 'h lib \<Rightarrow> u64 res \<times> 'h lib" where
  "sum_counters E event max_value [] value s = (Inr value, s)"
| "sum_counters E event max_value (c # cs) value s =
     (case hw_mon_read E (ctx_lcore c) (ctx_rmid c) (get_event_id event) s of
        (Inl _, s) \<Rightarrow> (Inl PQOS_RETVAL_ERROR, s)
      | (Inr tmp, s) \<Rightarrow>
          (let value = value + tmp
           in sum_counters E event max_value cs (if max_value \<le> value then value - max_value else value) s))"

text \<open>
  The new values of a group for a counter value, with the status; \<open>len\<close> is the counter length.
  Both bandwidth cases compare with the old local value.
\<close>

definition store_counter :: "pqos_cap \<Rightarrow> u32 \<Rightarrow> u32 \<Rightarrow> u64 \<Rightarrow> pqos_mon_data \<Rightarrow> retval \<times> pqos_mon_data" where
  "store_counter cap event len value g =
     (let pv = mg_values g;
          ret = (if len = 32 \<and> value < mbm_local pv then PQOS_RETVAL_OVERFLOW else PQOS_RETVAL_OK);
          delta = (\<lambda>old. if mg_valid_mbm_read g then scale_event cap event (hw_get_delta cap event old value) else 0);
          g = (if event = PQOS_MON_EVENT_LMEM_BW
               then g\<lparr>mg_values := pv\<lparr>mbm_local := value, mbm_local_delta := delta (mbm_local pv)\<rparr>\<rparr>
               else g\<lparr>mg_values := pv\<lparr>mbm_total := value, mbm_total_delta := delta (mbm_total pv)\<rparr>\<rparr>)
      in (ret, if ret = PQOS_RETVAL_OVERFLOW then g\<lparr>mg_valid_mbm_read := False\<rparr> else g))"

text \<open>
  \<open>None\<close> is the use of the uninitialised pointer \<open>pmon\<close>, when a bandwidth event is polled that
  the capabilities do not list.
\<close>

definition hw_mon_read_counter :: "'h platform \<Rightarrow> u32 \<Rightarrow> pqos_mon_data \<Rightarrow> 'h lib \<Rightarrow> (retval \<times> pqos_mon_data \<times> 'h lib) option" where
  "hw_mon_read_counter E event g s =
     (let pmon = pqos_cap_get_event (Some (m_cap s)) event
      in case sum_counters E event (counter_range (m_cap s) event) (mg_hw_ctx g) 0 s of
           (Inl e, s) \<Rightarrow> Some (e, g, s)
         | (Inr value, s) \<Rightarrow>
             if event = PQOS_MON_EVENT_L3_OCCUP
             then Some (case pmon of Inl e \<Rightarrow> e | Inr _ \<Rightarrow> PQOS_RETVAL_OK,
                        g\<lparr>mg_values := (mg_values g)\<lparr>llc := scale_event (m_cap s) event value\<rparr>\<rparr>, s)
             else if event = PQOS_MON_EVENT_LMEM_BW \<or> event = PQOS_MON_EVENT_TMEM_BW
             then (case pmon of
                     Inl _ \<Rightarrow> None
                   | Inr m \<Rightarrow> (case store_counter (m_cap s) event (ev_counter_length m) value g of (ret, g) \<Rightarrow> Some (ret, g, s)))
             else Some (PQOS_RETVAL_PARAM, g, s))"

definition hw_mon_poll :: "'h platform \<Rightarrow> u32 \<Rightarrow> pqos_mon_data \<Rightarrow> 'h lib \<Rightarrow> (retval \<times> pqos_mon_data \<times> 'h lib) option" where
  "hw_mon_poll E event g s =
     (if event \<in> {PQOS_MON_EVENT_L3_OCCUP, PQOS_MON_EVENT_LMEM_BW, PQOS_MON_EVENT_TMEM_BW} then hw_mon_read_counter E event g s
      else if event \<in> {PQOS_PERF_EVENT_CYCLES, PQOS_PERF_EVENT_INSTRUCTIONS, PQOS_PERF_EVENT_LLC_MISS, PQOS_PERF_EVENT_LLC_REF}
      then Some (mon_read_perf E event g s)
      else if event \<in> {PQOS_PERF_EVENT_LLC_MISS_PCIE_READ, PQOS_PERF_EVENT_LLC_MISS_PCIE_WRITE,
                       PQOS_PERF_EVENT_LLC_REF_PCIE_READ, PQOS_PERF_EVENT_LLC_REF_PCIE_WRITE}
      then Some (uncore_mon_poll E event g s)
      else Some (PQOS_RETVAL_PARAM, g, s))"

end
