(* ===== verification/HwMonGroup.thy ===== *)
theory HwMonGroup
  imports HwMon
begin

text \<open>
  Monitoring groups on the MSR interface: start and stop of core, socket and channel groups
  (\<open>lib/hw_monitoring.c\<close>) and the poll of a group (\<open>lib/monitoring.c\<close>). A group whose arrays
  are freed keeps its lists here: the callers clear the whole structure.
\<close>

section \<open>Core groups\<close>

definition hw_mon_assoc_get_channel :: "'h platform \<Rightarrow> pqos_channel_t \<Rightarrow> 'h lib \<Rightarrow> u32 res" where
  "hw_mon_assoc_get_channel E ch s =
     (case pqos_devinfo_get_channel (m_dev s) ch of
        None \<Rightarrow> Inl PQOS_RETVAL_PARAM
      | Some c \<Rightarrow>
          if \<not> rmid_tagging c then Inl PQOS_RETVAL_PARAM
          else (case pqos_mon_iordt_enabled (Some (m_cap s)) True True of
                  Inl e \<Rightarrow> Inl e
                | Inr (supported, enabled) \<Rightarrow>
                    if \<not> supported then Inl PQOS_RETVAL_RESOURCE
                    else if \<not> enabled then Inl PQOS_RETVAL_ERROR
                    else iordt_mon_assoc_read E ch s))"

text \<open>The cluster and NUMA number of a core and the RMID range that its contexts use.\<close>

definition rmid_range :: "pqos_cap_mon \<Rightarrow> pqos_cpuinfo \<Rightarrow> u32 \<Rightarrow> (u32 \<times> u32 \<times> u32 \<times> u32) res" where
  "rmid_range mon cpu l =
     (let rmid_numa = mon_max_rmid mon div mon_snc_num mon
      in case pqos_cpu_get_clusterid (Some cpu) l of
           Inl _ \<Rightarrow> Inl PQOS_RETVAL_PARAM
         | Inr cluster \<Rightarrow>
             if 1 < mon_snc_num mon \<and> mon_snc_mode mon = PQOS_SNC_LOCAL
             then (case pqos_cpu_get_numaid (Some cpu) l of
                     Inl _ \<Rightarrow> Inl PQOS_RETVAL_PARAM
                   | Inr n \<Rightarrow>
                       (let n = n mod mon_snc_num mon
                        in Inr (cluster, n, rmid_numa * n + 1, rmid_numa * (n + 1) - 1)))
             else Inr (cluster, 0, 1, rmid_numa - 1))"

definition shares_ctx :: "u32 \<Rightarrow> u32 \<Rightarrow> u32 \<Rightarrow> pqos_mon_poll_ctx \<Rightarrow> bool" where
  "shares_ctx l cluster n ctx \<longleftrightarrow> ctx_lcore ctx = l \<or> (ctx_cluster ctx = cluster \<and> ctx_numa ctx = n)"

text \<open>The contexts of the other NUMA nodes in total mode.\<close>

fun quiet_ctxs :: "u32 \<Rightarrow> nat \<Rightarrow> pqos_mon_poll_ctx \<Rightarrow> pqos_mon_poll_ctx list" where
  "quiet_ctxs rmid_numa 0 ctx = []"
| "quiet_ctxs rmid_numa (Suc n) ctx =
     (let ctx = ctx\<lparr>ctx_rmid := ctx_rmid ctx + rmid_numa, ctx_quiet := True\<rparr> in ctx # quiet_ctxs rmid_numa n ctx)"

definition new_ctxs :: "pqos_cap_mon \<Rightarrow> u32 \<Rightarrow> u32 \<Rightarrow> u32 \<Rightarrow> u32 \<Rightarrow> pqos_mon_poll_ctx list" where
  "new_ctxs mon l cluster n rmid =
     (let ctx = \<lparr>ctx_lcore = l, ctx_channel_id = 0, ctx_cluster = cluster, ctx_numa = n, ctx_quiet = False, ctx_rmid = rmid\<rparr>
      in ctx # (if mon_snc_mode mon = PQOS_SNC_TOTAL
                then quiet_ctxs (mon_max_rmid mon div mon_snc_num mon) (unat (mon_snc_num mon) - 1) ctx
                else []))"

text \<open>The loop that fills the poll contexts and \<open>core2rmid\<close>.\<close>

fun alloc_loop ::
  "'h platform \<Rightarrow> mon_module \<Rightarrow> pqos_cap_mon \<Rightarrow> u32 \<Rightarrow> u32 list \<Rightarrow> pqos_mon_poll_ctx list \<Rightarrow> u32 list \<Rightarrow> 'h lib \<Rightarrow>
   (pqos_mon_poll_ctx list \<times> u32 list) res \<times> 'h lib" where
  "alloc_loop E M mon event [] ctxs core2rmid s = (Inr (ctxs, core2rmid), s)"
| "alloc_loop E M mon event (l # ls) ctxs core2rmid s =
     (case rmid_range mon (m_cpu s) l of
        Inl e \<Rightarrow> (Inl e, s)
      | Inr (cluster, n, rmid_min, rmid_max) \<Rightarrow>
          (case List.find (shares_ctx l cluster n) ctxs of
             Some ctx \<Rightarrow> alloc_loop E M mon event ls ctxs (core2rmid @ [ctx_rmid ctx]) s
           | None \<Rightarrow>
               (case hw_mon_assoc_unused E M cluster event rmid_min rmid_max s of
                  (Inl e, s) \<Rightarrow> (Inl e, s)
                | (Inr rmid, s) \<Rightarrow>
                    alloc_loop E M mon event ls (ctxs @ new_ctxs mon l cluster n rmid) (core2rmid @ [rmid]) s)))"

fun assoc_loop :: "'h platform \<Rightarrow> (u32 \<times> u32) list \<Rightarrow> 'h lib \<Rightarrow> retval \<times> 'h lib" where
  "assoc_loop E [] s = (PQOS_RETVAL_OK, s)"
| "assoc_loop E ((l, rmid) # rest) s =
     (case mon_assoc_write E l rmid s of (ret, s) \<Rightarrow>
        if ret \<noteq> PQOS_RETVAL_OK then (ret, s) else assoc_loop E rest s)"

definition MON_CTX_EVENTS :: u32 where
  "MON_CTX_EVENTS = PQOS_MON_EVENT_L3_OCCUP OR PQOS_MON_EVENT_LMEM_BW OR PQOS_MON_EVENT_TMEM_BW OR PQOS_MON_EVENT_RMEM_BW"

text \<open>
  The code reads the monitoring capability without a check; its callers have found the events
  in it, so that the first branch, where the code would follow a null pointer, is not reached from them.
  The result of writing RMID 0 after a failure is ignored.
\<close>

definition hw_mon_start_counter ::
  "'h platform \<Rightarrow> mon_module \<Rightarrow> u32 \<Rightarrow> pqos_mon_data \<Rightarrow> 'h lib \<Rightarrow> retval \<times> pqos_mon_data \<times> 'h lib" where
  "hw_mon_start_counter E M event g s =
     (case cap_get_type_or_null (m_cap s) PQOS_CAP_TYPE_MON of
        None \<Rightarrow> (PQOS_RETVAL_ERROR, g, s)
      | Some cap_mon \<Rightarrow>
          (case alloc_loop E M (u_mon cap_mon) (event AND MON_CTX_EVENTS) (mg_cores g) [] [] s of
             (Inl e, s) \<Rightarrow> (e, g, s)
           | (Inr (ctxs, core2rmid), s) \<Rightarrow>
               (case assoc_loop E (zip (mg_cores g) core2rmid) s of (ret, s) \<Rightarrow>
                  if ret = PQOS_RETVAL_OK
                  then (ret, g\<lparr>mg_hw_ctx := ctxs, mg_hw_event := mg_hw_event g OR (event AND MON_CTX_EVENTS)\<rparr>, s)
                  else (ret, g, snd (rmid_reset_loop E (mg_cores g) PQOS_RETVAL_OK s)))))"

text \<open>Virtual events need their parts.\<close>

definition expand_rmem :: "u32 \<Rightarrow> u32" where
  "expand_rmem event =
     (if has_event event PQOS_MON_EVENT_RMEM_BW then event OR PQOS_MON_EVENT_LMEM_BW OR PQOS_MON_EVENT_TMEM_BW else event)"

definition expand_ipc :: "u32 \<Rightarrow> u32" where
  "expand_ipc event =
     (if has_event event PQOS_PERF_EVENT_IPC then event OR PQOS_PERF_EVENT_CYCLES OR PQOS_PERF_EVENT_INSTRUCTIONS else event)"

fun check_cores_loop :: "'h platform \<Rightarrow> u32 list \<Rightarrow> 'h lib \<Rightarrow> retval \<times> 'h lib" where
  "check_cores_loop E [] s = (PQOS_RETVAL_OK, s)"
| "check_cores_loop E (l # ls) s =
     (if pqos_cpu_check_core (Some (m_cpu s)) l \<noteq> PQOS_RETVAL_OK then (PQOS_RETVAL_PARAM, s)
      else (case mon_assoc_read E l s of
              (Inl _, s) \<Rightarrow> (PQOS_RETVAL_PARAM, s)
            | (Inr rmid, s) \<Rightarrow> if rmid \<noteq> RMID0 then (PQOS_RETVAL_RESOURCE, s) else check_cores_loop E ls s))"

text \<open>The check that every selected event runs; virtual events run when their parts do.\<close>

definition events_started :: "pqos_mon_data \<Rightarrow> retval \<times> pqos_mon_data" where
  "events_started g =
     (let started = mg_perf_event g OR mg_hw_event g;
          rmem = has_event started PQOS_MON_EVENT_LMEM_BW \<and> has_event started PQOS_MON_EVENT_TMEM_BW;
          g = (if rmem then g\<lparr>mg_values := (mg_values g)\<lparr>mbm_remote := 0\<rparr>\<rparr> else g);
          started = (if rmem then started OR PQOS_MON_EVENT_RMEM_BW else started);
          ipcs = has_event started PQOS_PERF_EVENT_CYCLES \<and> has_event started PQOS_PERF_EVENT_INSTRUCTIONS;
          g = (if ipcs then g\<lparr>mg_values := (mg_values g)\<lparr>ipc := 0\<rparr>\<rparr> else g);
          started = (if ipcs then started OR PQOS_PERF_EVENT_IPC else started)
      in (if mg_event g AND started \<noteq> mg_event g then PQOS_RETVAL_ERROR else PQOS_RETVAL_OK, g))"

definition hw_mon_start_cores ::
  "'h platform \<Rightarrow> 'h perf_os \<Rightarrow> mon_module \<Rightarrow> u32 list \<Rightarrow> u32 \<Rightarrow> pqos_mon_data \<Rightarrow> 'h lib \<Rightarrow> retval \<times> pqos_mon_data \<times> 'h lib" where
  "hw_mon_start_cores E P M ls event g s =
     (if ls = [] then (PQOS_RETVAL_PARAM, g, s)
      else if mon_events_valid (m_cap s) event False \<noteq> PQOS_RETVAL_OK then (PQOS_RETVAL_PARAM, g, s)
      else (case check_cores_loop E ls s of (ret, s) \<Rightarrow>
              if ret \<noteq> PQOS_RETVAL_OK then (ret, g, s)
              else (let req_events = expand_ipc (expand_rmem event);
                        g = g\<lparr>mg_event := event, mg_cores := ls\<rparr>
                    in case (case mon_start_perf E P (mm_perf_supported M) req_events g s of (ret, g, s) \<Rightarrow>
                               if ret \<noteq> PQOS_RETVAL_OK then (ret, g, s)
                               else (case hw_mon_start_counter E M req_events g s of (ret, g, s) \<Rightarrow>
                                       if ret \<noteq> PQOS_RETVAL_OK then (ret, g, s)
                                       else (case events_started g of (ret, g) \<Rightarrow> (ret, g, s)))) of
                         (ret, g, s) \<Rightarrow>
                           if ret \<noteq> PQOS_RETVAL_OK
                           then (case mon_stop_perf E P g s of (_, g, s) \<Rightarrow> (ret, g, s))
                           else (ret, g, s))))"

section \<open>Socket and channel groups\<close>

definition hw_mon_start_uncore ::
  "'h platform \<Rightarrow> mon_module \<Rightarrow> u32 list \<Rightarrow> u32 \<Rightarrow> pqos_mon_data \<Rightarrow> 'h lib \<Rightarrow> retval \<times> pqos_mon_data \<times> 'h lib" where
  "hw_mon_start_uncore E M sockets event g s =
     (let ret = mon_events_valid (m_cap s) event False
      in if ret \<noteq> PQOS_RETVAL_OK then (ret, g, s)
         else if list_ex (\<lambda>k. case pqos_cpu_get_one_core (Some (m_cpu s)) k of Inl _ \<Rightarrow> True | Inr _ \<Rightarrow> False) sockets
         then (PQOS_RETVAL_PARAM, g, s)
         else (case uncore_mon_start E (mm_uncore M) event (g\<lparr>mg_event := event, mg_sockets := sockets\<rparr>) s of (ret, g, s) \<Rightarrow>
                 let ret = (if ret = PQOS_RETVAL_OK \<and> mg_event g AND mg_hw_event g \<noteq> mg_event g then PQOS_RETVAL_ERROR else ret)
                 in if ret \<noteq> PQOS_RETVAL_OK then (case uncore_mon_stop E g s of (_, s) \<Rightarrow> (ret, g, s))
                    else (ret, g, s)))"

fun check_channels_loop :: "'h platform \<Rightarrow> pqos_channel_t list \<Rightarrow> 'h lib \<Rightarrow> retval" where
  "check_channels_loop E [] s = PQOS_RETVAL_OK"
| "check_channels_loop E (ch # chs) s =
     (case pqos_devinfo_get_channel (m_dev s) ch of
        None \<Rightarrow> PQOS_RETVAL_PARAM
      | Some c \<Rightarrow>
          if \<not> rmid_tagging c then PQOS_RETVAL_RESOURCE
          else (case iordt_mon_assoc_read E ch s of
                  Inl _ \<Rightarrow> PQOS_RETVAL_PARAM
                | Inr rmid \<Rightarrow> if rmid \<noteq> RMID0 then PQOS_RETVAL_RESOURCE else check_channels_loop E chs s))"

text \<open>The socket of a channel and the number of RMIDs.\<close>

definition channel_place :: "mon_module \<Rightarrow> pqos_channel_t \<Rightarrow> 'h lib \<Rightarrow> (u32 \<times> u32) res" where
  "channel_place M ch s =
     (case m_dev s of
        None \<Rightarrow> Inl PQOS_RETVAL_PARAM
      | Some dev \<Rightarrow>
          if pqos_devinfo_get_channel (Some dev) ch = None then Inl PQOS_RETVAL_PARAM
          else (case iordt_get_numa M dev ch s of
                  Inl e \<Rightarrow> Inl e
                | Inr n \<Rightarrow>
                    (case get_socket (m_cpu s) n of
                       Inl e \<Rightarrow> Inl e
                     | Inr k \<Rightarrow>
                         (case pqos_cap_get_type (Some (m_cap s)) PQOS_CAP_TYPE_MON of
                            Inl e \<Rightarrow> Inl e
                          | Inr item \<Rightarrow>
                              if mon_max_rmid (u_mon item) = 0 then Inl PQOS_RETVAL_PARAM
                              else Inr (k, mon_max_rmid (u_mon item))))))"

text \<open>The last matching context is reused.\<close>

fun channel_loop ::
  "'h platform \<Rightarrow> mon_module \<Rightarrow> u32 \<Rightarrow> pqos_channel_t list \<Rightarrow> pqos_mon_poll_ctx list \<Rightarrow> 'h lib \<Rightarrow> pqos_mon_poll_ctx list res \<times> 'h lib" where
  "channel_loop E M event [] ctxs s = (Inr ctxs, s)"
| "channel_loop E M event (ch # chs) ctxs s =
     (case channel_place M ch s of
        Inl e \<Rightarrow> (Inl e, s)
      | Inr (k, max_rmid) \<Rightarrow>
          (case List.find (\<lambda>c. ctx_cluster c = k \<and> ctx_rmid c \<le> max_rmid) (rev ctxs) of
             Some ctx \<Rightarrow>
               (case iordt_mon_assoc_write E ch (ctx_rmid ctx) s of (ret, s) \<Rightarrow>
                  if ret \<noteq> PQOS_RETVAL_OK then (Inl ret, s) else channel_loop E M event chs ctxs s)
           | None \<Rightarrow>
               (case pqos_cpu_get_one_core (Some (m_cpu s)) k of
                  Inl e \<Rightarrow> (Inl e, s)
                | Inr l \<Rightarrow>
                    (case hw_mon_assoc_unused E M k event 0 max_rmid s of
                       (Inl e, s) \<Rightarrow> (Inl e, s)
                     | (Inr rmid, s) \<Rightarrow>
                         (case iordt_mon_assoc_write E ch rmid s of (ret, s) \<Rightarrow>
                            if ret \<noteq> PQOS_RETVAL_OK then (Inl ret, s)
                            else channel_loop E M event chs
                                   (ctxs @ [\<lparr>ctx_lcore = l, ctx_channel_id = 0, ctx_cluster = k, ctx_numa = 0, ctx_quiet = False, ctx_rmid = rmid\<rparr>]) s)))))"

fun channels_rmid0 :: "'h platform \<Rightarrow> pqos_channel_t list \<Rightarrow> retval \<Rightarrow> 'h lib \<Rightarrow> retval \<times> 'h lib" where
  "channels_rmid0 E [] retval s = (retval, s)"
| "channels_rmid0 E (ch # chs) retval s =
     (case iordt_mon_assoc_write E ch RMID0 s of (ret, s) \<Rightarrow>
        channels_rmid0 E chs (if ret \<noteq> PQOS_RETVAL_OK then PQOS_RETVAL_RESOURCE else retval) s)"

definition hw_mon_start_channels ::
  "'h platform \<Rightarrow> mon_module \<Rightarrow> pqos_channel_t list \<Rightarrow> u32 \<Rightarrow> pqos_mon_data \<Rightarrow> 'h lib \<Rightarrow> retval \<times> pqos_mon_data \<times> 'h lib" where
  "hw_mon_start_channels E M chs event g s =
     (case pqos_mon_iordt_enabled (Some (m_cap s)) True True of
        Inl e \<Rightarrow> (e, g, s)
      | Inr (supported, enabled) \<Rightarrow>
          if \<not> supported then (PQOS_RETVAL_RESOURCE, g, s)
          else if \<not> enabled then (PQOS_RETVAL_ERROR, g, s)
          else if mon_events_valid (m_cap s) event True \<noteq> PQOS_RETVAL_OK then (PQOS_RETVAL_PARAM, g, s)
          else (let ret = check_channels_loop E chs s
                in if ret \<noteq> PQOS_RETVAL_OK then (ret, g, s)
                   else (case channel_loop E M event chs [] s of
                           (Inl ret, s) \<Rightarrow> (ret, g, snd (channels_rmid0 E chs PQOS_RETVAL_OK s))
                         | (Inr ctxs, s) \<Rightarrow>
                             (PQOS_RETVAL_OK,
                              g\<lparr>mg_event := event, mg_channels := chs, mg_hw_ctx := ctxs,
                                mg_hw_event := mg_hw_event g OR expand_rmem event\<rparr>, s))))"

section \<open>Stop\<close>

text \<open>A core whose RMID was changed by someone else is only reported.\<close>

fun check_ctxs_loop :: "'h platform \<Rightarrow> pqos_mon_poll_ctx list \<Rightarrow> 'h lib \<Rightarrow> retval \<times> 'h lib" where
  "check_ctxs_loop E [] s = (PQOS_RETVAL_OK, s)"
| "check_ctxs_loop E (c # cs) s =
     (if pqos_cpu_check_core (Some (m_cpu s)) (ctx_lcore c) \<noteq> PQOS_RETVAL_OK then (PQOS_RETVAL_PARAM, s)
      else (case mon_assoc_read E (ctx_lcore c) s of
              (Inl _, s) \<Rightarrow> (PQOS_RETVAL_PARAM, s)
            | (Inr _, s) \<Rightarrow> check_ctxs_loop E cs s))"

definition hw_mon_stop :: "'h platform \<Rightarrow> 'h perf_os \<Rightarrow> pqos_mon_data \<Rightarrow> 'h lib \<Rightarrow> retval \<times> pqos_mon_data \<times> 'h lib" where
  "hw_mon_stop E P g s =
     (if mg_cores g = [] \<and> mg_channels g = [] \<and> mg_sockets g = [] then (PQOS_RETVAL_PARAM, g, s)
      else if (mg_cores g \<noteq> [] \<or> mg_channels g \<noteq> []) \<and> mg_hw_ctx g = [] then (PQOS_RETVAL_PARAM, g, s)
      else (case (if mg_cores g = [] then (PQOS_RETVAL_OK, s) else check_ctxs_loop E (mg_hw_ctx g) s) of (ret, s) \<Rightarrow>
              if ret \<noteq> PQOS_RETVAL_OK then (ret, g, s)
              else (case rmid_reset_loop E (mg_cores g) PQOS_RETVAL_OK s of (ret, s) \<Rightarrow>
                     (let retval = (if ret \<noteq> PQOS_RETVAL_OK then PQOS_RETVAL_RESOURCE else PQOS_RETVAL_OK)
                      in case channels_rmid0 E (mg_channels g) retval s of (retval, s) \<Rightarrow>
                         (case mon_stop_perf E P g s of (ret, g, s) \<Rightarrow>
                            (let retval = (if ret \<noteq> PQOS_RETVAL_OK then ret else retval)
                             in case uncore_mon_stop E g s of (ret, s) \<Rightarrow>
                                  (if ret \<noteq> PQOS_RETVAL_OK then ret else retval, g, s)))))))"

section \<open>Polling\<close>

definition poll_event_list :: "u32 list" where
  "poll_event_list =
     [PQOS_MON_EVENT_L3_OCCUP, PQOS_MON_EVENT_LMEM_BW, PQOS_MON_EVENT_TMEM_BW, PQOS_MON_EVENT_IO_L3_OCCUP,
      PQOS_MON_EVENT_IO_TOTAL_MEM_BW, PQOS_MON_EVENT_IO_MISS_MEM_BW, PQOS_PERF_EVENT_LLC_MISS, PQOS_PERF_EVENT_LLC_REF,
      PQOS_PERF_EVENT_CYCLES, PQOS_PERF_EVENT_INSTRUCTIONS, PQOS_PERF_EVENT_LLC_MISS_PCIE_READ,
      PQOS_PERF_EVENT_LLC_MISS_PCIE_WRITE, PQOS_PERF_EVENT_LLC_REF_PCIE_READ, PQOS_PERF_EVENT_LLC_REF_PCIE_WRITE,
      PQOS_MON_EVENT_CORE_ENERGY, PQOS_MON_EVENT_ACTIVITY]"

definition PCIE_EVENTS :: "u32 set" where
  "PCIE_EVENTS = {PQOS_PERF_EVENT_LLC_MISS_PCIE_READ, PQOS_PERF_EVENT_LLC_MISS_PCIE_WRITE,
                  PQOS_PERF_EVENT_LLC_REF_PCIE_READ, PQOS_PERF_EVENT_LLC_REF_PCIE_WRITE}"

text \<open>
  The functions of the other interfaces that a poll calls: \<open>mmio_mon_poll\<close>, \<open>resctrl_mon_poll\<close>
  and the lock of the resctrl file system.
\<close>

record 'h poll_ops =
  op_mmio_mon_poll :: "u32 \<Rightarrow> pqos_mon_data \<Rightarrow> 'h lib \<Rightarrow> retval \<times> pqos_mon_data \<times> 'h lib"
  op_resctrl_mon_poll :: "u32 \<Rightarrow> pqos_mon_data \<Rightarrow> 'h lib \<Rightarrow> retval \<times> pqos_mon_data \<times> 'h lib"
  op_resctrl_lock_shared :: "'h lib \<Rightarrow> retval \<times> 'h lib"
  op_resctrl_lock_release :: "'h lib \<Rightarrow> 'h lib"

text \<open>One turn of the loop; on the MMIO interface a PCIe event ends its turn at once.\<close>

definition poll_event ::
  "'h platform \<Rightarrow> 'h perf_os \<Rightarrow> 'h poll_ops \<Rightarrow> pqos_interface \<Rightarrow> u32 \<Rightarrow> pqos_mon_data \<Rightarrow> 'h lib \<Rightarrow>
   (retval \<times> pqos_mon_data \<times> 'h lib) option" where
  "poll_event E P ops iface evt g s =
     (if has_event (mg_hw_event g) evt \<and> iface = PQOS_INTER_MMIO \<and> evt \<in> PCIE_EVENTS then Some (PQOS_RETVAL_OK, g, s)
      else (case (if has_event (mg_hw_event g) evt
                  then if iface = PQOS_INTER_MMIO then Some (op_mmio_mon_poll ops evt g s) else hw_mon_poll E evt g s
                  else Some (PQOS_RETVAL_OK, g, s)) of
              None \<Rightarrow> None
            | Some (ret, g, s) \<Rightarrow>
                if ret \<noteq> PQOS_RETVAL_OK then Some (ret, g, s)
                else (case (if has_event (mg_perf_event g) evt then perf_mon_poll P evt g s else (PQOS_RETVAL_OK, g)) of (ret, g) \<Rightarrow>
                        if ret \<noteq> PQOS_RETVAL_OK then Some (ret, g, s)
                        else if has_event (mg_resctrl_event g) evt
                        then (case op_resctrl_mon_poll ops evt g s of (ret, g, s) \<Rightarrow>
                                Some (if ret = PQOS_RETVAL_UNAVAILABLE then PQOS_RETVAL_OK else ret, g, s))
                        else Some (PQOS_RETVAL_OK, g, s))))"

fun poll_loop ::
  "'h platform \<Rightarrow> 'h perf_os \<Rightarrow> 'h poll_ops \<Rightarrow> pqos_interface \<Rightarrow> u32 list \<Rightarrow> pqos_mon_data \<Rightarrow> 'h lib \<Rightarrow>
   (retval \<times> pqos_mon_data \<times> 'h lib) option" where
  "poll_loop E P ops iface [] g s = Some (PQOS_RETVAL_OK, g, s)"
| "poll_loop E P ops iface (evt # evts) g s =
     (case poll_event E P ops iface evt g s of
        None \<Rightarrow> None
      | Some (ret, g, s) \<Rightarrow> if ret \<noteq> PQOS_RETVAL_OK then Some (ret, g, s) else poll_loop E P ops iface evts g s)"

text \<open>Virtual events.\<close>

definition remote_value :: "u64 \<Rightarrow> u64 \<Rightarrow> u64 \<Rightarrow> u64" where
  "remote_value max_value tot loc =
     (if 0 < max_value \<and> tot < loc then max_value - loc + tot else tot - loc)"

definition poll_remote :: "pqos_cap \<Rightarrow> pqos_mon_data \<Rightarrow> retval \<times> pqos_mon_data" where
  "poll_remote cap g =
     (let v = mg_values g;
          pmon = pqos_cap_get_event (Some cap) PQOS_MON_EVENT_RMEM_BW;
          max_value = (case pmon of Inl _ \<Rightarrow> 0 | Inr m \<Rightarrow> push_bit (unat (ev_counter_length m)) 1)
      in (case pmon of Inl e \<Rightarrow> e | Inr _ \<Rightarrow> PQOS_RETVAL_OK,
          g\<lparr>mg_values := v\<lparr>mbm_remote_delta := (if mbm_local_delta v < mbm_total_delta v then mbm_total_delta v - mbm_local_delta v else 0),
                           mbm_remote := remote_value max_value (mbm_total v) (mbm_local v)\<rparr>\<rparr>))"

definition poll_ipc :: "pqos_mon_data \<Rightarrow> pqos_mon_data" where
  "poll_ipc g =
     (let v = mg_values g
      in g\<lparr>mg_values := v\<lparr>ipc := (if 0 < ipc_unhalted_delta v
                                   then rat_of_nat (unat (ipc_retired_delta v)) / rat_of_nat (unat (ipc_unhalted_delta v)) else 0)\<rparr>\<rparr>)"

definition poll_power :: "pqos_mon_data \<Rightarrow> pqos_mon_data" where
  "poll_power g =
     (let energy = mg_core_energy g;
          (sec, nsec) = mg_tel_ts g;
          (psec, pnsec) = mg_prev_tel_ts g;
          delta_energy = tel_current energy - tel_previous energy;
          delta_t = rat_of_int (sec - psec) + rat_of_int (nsec - pnsec) / 10 ^ 9;
          power = (mg_power g)\<lparr>tel_valid := False\<rparr>
      in g\<lparr>mg_power := (if tel_valid energy \<and> (psec \<noteq> 0 \<or> pnsec \<noteq> 0) \<and> 0 < delta_t
                         then power\<lparr>tel_current := delta_energy / delta_t, tel_valid := True\<rparr> else power)\<rparr>)"

text \<open>The status of the remote bandwidth lookup survives the other virtual events.\<close>

definition poll_virtual :: "pqos_cap \<Rightarrow> pqos_mon_data \<Rightarrow> retval \<times> pqos_mon_data" where
  "poll_virtual cap g =
     (case (if has_event (mg_event g) PQOS_MON_EVENT_RMEM_BW then poll_remote cap g else (PQOS_RETVAL_OK, g)) of (ret, g) \<Rightarrow>
        (let g = (if has_event (mg_event g) PQOS_PERF_EVENT_IPC then poll_ipc g else g);
             g = (if has_event (mg_event g) PQOS_MON_EVENT_POWER then poll_power g else g)
         in (ret, if ret = PQOS_RETVAL_OK then g\<lparr>mg_valid_mbm_read := True\<rparr> else g)))"

definition pqos_mon_poll_events ::
  "'h platform \<Rightarrow> 'h perf_os \<Rightarrow> 'h poll_ops \<Rightarrow> pqos_interface \<Rightarrow> pqos_mon_data \<Rightarrow> 'h lib \<Rightarrow>
   (retval \<times> pqos_mon_data \<times> 'h lib) option" where
  "pqos_mon_poll_events E P ops iface g s =
     (case (if mg_resctrl_event g \<noteq> 0 then op_resctrl_lock_shared ops s else (PQOS_RETVAL_OK, s)) of (ret, s) \<Rightarrow>
        if ret \<noteq> PQOS_RETVAL_OK then Some (ret, g, s)
        else (case (case poll_loop E P ops iface poll_event_list g s of
                      None \<Rightarrow> None
                    | Some (ret, g, s) \<Rightarrow>
                        if ret \<noteq> PQOS_RETVAL_OK then Some (ret, g, s)
                        else (case poll_virtual (m_cap s) g of (ret, g) \<Rightarrow> Some (ret, g, s))) of
                None \<Rightarrow> None
              | Some (ret, g, s) \<Rightarrow> Some (ret, g, if mg_resctrl_event g \<noteq> 0 then op_resctrl_lock_release ops s else s)))"

end
