(* ===== verification/MonAssoc.thy ===== *)
theory MonAssoc
  imports HwMonGroup HwAssoc
begin

text \<open>
  RMIDs and classes share the association register of a core. This theory proves that the two
  fields are independent, that a free RMID is really free, and that a monitoring group
  owns its RMIDs from start to stop.
\<close>

section \<open>The RMID field of the register\<close>

definition rmid_of :: "u64 \<Rightarrow> u32" where
  "rmid_of v = ucast (v AND PQOS_MSR_ASSOC_RMID_MASK)"

definition set_rmid :: "u32 \<Rightarrow> u64 \<Rightarrow> u64" where
  "set_rmid r v = v AND PQOS_MSR_ASSOC_QECLOS_MASK OR (ucast r AND PQOS_MSR_ASSOC_RMID_MASK)"

lemma rmid_mask: "PQOS_MSR_ASSOC_RMID_MASK = mask 10"
  by (simp add: PQOS_MSR_ASSOC_RMID_MASK_def mask_eq_exp_minus_1)

lemma clos_mask: "PQOS_MSR_ASSOC_QECLOS_MASK = NOT (mask 32)"
  using qeclos_mask by (metis bit.double_compl)

lemma rmid_of_set_rmid: "rmid_of (set_rmid r v) = take_bit 10 r"
  by (auto simp: rmid_of_def set_rmid_def rmid_mask clos_mask bit_eq_iff bit_simps)

lemma take_bit_small: "r < 1024 \<Longrightarrow> take_bit 10 (r :: u32) = r"
  by (rule unsigned_word_eqI [where ?'a = nat]) (simp add: unsigned_take_bit_eq take_bit_nat_eq_self word_less_nat_alt)

lemma rmid_of_set_rmid_small [simp]: "r < 1024 \<Longrightarrow> rmid_of (set_rmid r v) = r"
  by (simp add: rmid_of_set_rmid take_bit_small)

lemma clos_field_set_rmid [simp]: "clos_field (set_rmid r v) = clos_field v"
  by (auto simp: clos_field_def set_rmid_def rmid_mask clos_mask PQOS_MSR_ASSOC_QECLOS_SHIFT_def bit_eq_iff bit_simps)

lemma rmid_of_set_clos [simp]: "rmid_of (set_clos c v) = rmid_of v"
  by (auto simp: rmid_of_def set_clos_def rmid_mask qeclos_mask PQOS_MSR_ASSOC_QECLOS_SHIFT_def bit_eq_iff bit_simps)

lemma rmid_of_less: "rmid_of v < 1024"
proof -
  have "rmid_of v = take_bit 10 (ucast v)"
    by (auto simp: rmid_of_def rmid_mask bit_eq_iff bit_simps)
  then show ?thesis using take_bit_nat_less_exp [of 10 "unat (ucast v :: u32)"] by (simp add: word_less_nat_alt unsigned_take_bit_eq)
qed

section \<open>Single accesses\<close>

context msr_driver begin

lemma mon_read_facts:
  assumes "machine_wf core_of s" and "mon_assoc_read E l s = (x, t)"
  shows "machine_wf core_of t" and "regs (m_hw t) = regs (m_hw s)" and "same_config s t"
    and "x = Inr r \<Longrightarrow> \<exists>v. regs (m_hw s) l PQOS_MSR_ASSOC = Some v \<and> r = rmid_of v"
  using assms
  by (auto simp: mon_assoc_read_def rmid_of_def split: prod.splits sum.splits
      dest: rf.rd_wf rf.rd_view rf.rd_val rf.rd_keeps)

lemma mon_write_facts:
  assumes "machine_wf core_of s" and "mon_assoc_write E l r s = (ret, t)"
  shows "machine_wf core_of t" and "same_config s t"
    and "ret = PQOS_RETVAL_OK \<or> ret = PQOS_RETVAL_ERROR"
    and "ret \<noteq> PQOS_RETVAL_OK \<Longrightarrow> regs (m_hw t) = regs (m_hw s)"
    and "ret = PQOS_RETVAL_OK \<Longrightarrow> fd_open l t \<and>
      (\<exists>v. regs (m_hw s) l PQOS_MSR_ASSOC = Some v \<and> regs (m_hw t) l PQOS_MSR_ASSOC = Some (set_rmid r v))"
    and "l' \<noteq> l \<or> q \<noteq> PQOS_MSR_ASSOC \<Longrightarrow> regs (m_hw t) l' q = regs (m_hw s) l' q"
proof -
  obtain x u where rd: "msr_read E l PQOS_MSR_ASSOC s = (x, u)" by fastforce
  note rf = read_facts [OF assms(1) rd] msr_read_keeps [OF rd]
  have all: "machine_wf core_of t \<and> same_config s t \<and> (ret = PQOS_RETVAL_OK \<or> ret = PQOS_RETVAL_ERROR) \<and>
    (ret \<noteq> PQOS_RETVAL_OK \<longrightarrow> regs (m_hw t) = regs (m_hw s)) \<and>
    (ret = PQOS_RETVAL_OK \<longrightarrow> fd_open l t \<and>
      (\<exists>v. regs (m_hw s) l PQOS_MSR_ASSOC = Some v \<and> regs (m_hw t) l PQOS_MSR_ASSOC = Some (set_rmid r v))) \<and>
    (l' \<noteq> l \<or> q \<noteq> PQOS_MSR_ASSOC \<longrightarrow> regs (m_hw t) l' q = regs (m_hw s) l' q)"
  proof (cases x)
    case (Inl e)
    with assms(2) rd rf show ?thesis by (auto simp: mon_assoc_write_def)
  next
    case (Inr v)
    obtain m w where wr: "msr_write E l PQOS_MSR_ASSOC (set_rmid r v) u = (m, w)" by fastforce
    note f = write_facts [OF rf(1) wr] msr_write_keeps [OF wr]
    from assms(2) rd Inr wr
    have tw: "t = w" and ret: "ret = (if m = MACHINE_RETVAL_OK then PQOS_RETVAL_OK else PQOS_RETVAL_ERROR)"
      by (auto simp: mon_assoc_write_def set_rmid_def Let_def split: machine_retval.splits)
    have v: "regs (m_hw s) l PQOS_MSR_ASSOC = Some v" using rf(3) [OF Inr] .
    have oth: "l' \<noteq> l \<or> q \<noteq> PQOS_MSR_ASSOC \<longrightarrow> regs (m_hw w) l' q = regs (m_hw s) l' q"
      using f(3) [where r' = q and l' = l'] f(5) [where l' = l'] rf(2) by auto
    have op: "m = MACHINE_RETVAL_OK \<longrightarrow> fd_open l w" using write_opens [OF rf(1)] wr by auto
    show ?thesis
      using f(1,2,4) oth v op rf(2) same_config_trans [OF rf(4) f(6)] by (simp add: tw ret)
  qed
  then show "machine_wf core_of t" and "same_config s t"
    and "ret = PQOS_RETVAL_OK \<or> ret = PQOS_RETVAL_ERROR"
    and "ret \<noteq> PQOS_RETVAL_OK \<Longrightarrow> regs (m_hw t) = regs (m_hw s)"
    and "ret = PQOS_RETVAL_OK \<Longrightarrow> fd_open l t \<and>
      (\<exists>v. regs (m_hw s) l PQOS_MSR_ASSOC = Some v \<and> regs (m_hw t) l PQOS_MSR_ASSOC = Some (set_rmid r v))"
    and "l' \<noteq> l \<or> q \<noteq> PQOS_MSR_ASSOC \<Longrightarrow> regs (m_hw t) l' q = regs (m_hw s) l' q"
    by blast+
qed

lemma mon_read_open:
  assumes "machine_wf core_of s" and "fd_open l s" and "regs (m_hw s) l PQOS_MSR_ASSOC = Some v"
  shows "mon_assoc_read E l s = (Inr (rmid_of v), s)"
  using assms by (simp add: mon_assoc_read_def read_open rmid_of_def)

end

section \<open>Loops over cores\<close>

text \<open>
  Only the RMID field of the association registers of the cores in \<open>L\<close> may have changed.
\<close>

definition rmid_frame ::
  "('h \<Rightarrow> int \<Rightarrow> u32 option) \<Rightarrow> ('h \<Rightarrow> u32 \<Rightarrow> u32 \<Rightarrow> u64 option) \<Rightarrow> u32 set \<Rightarrow> 'h lib \<Rightarrow> 'h lib \<Rightarrow> bool" where
  "rmid_frame core_of regs L s t \<longleftrightarrow>
     machine_wf core_of t \<and> same_config s t \<and>
     (\<forall>l q. l \<notin> L \<or> q \<noteq> PQOS_MSR_ASSOC \<longrightarrow> regs (m_hw t) l q = regs (m_hw s) l q) \<and>
     (\<forall>l. map_option clos_field (regs (m_hw t) l PQOS_MSR_ASSOC) = map_option clos_field (regs (m_hw s) l PQOS_MSR_ASSOC))"

definition core_rmid :: "('h \<Rightarrow> u32 \<Rightarrow> u32 \<Rightarrow> u64 option) \<Rightarrow> 'h lib \<Rightarrow> u32 \<Rightarrow> u32 option" where
  "core_rmid regs s l = map_option rmid_of (regs (m_hw s) l PQOS_MSR_ASSOC)"

lemma rmid_frame_same:
  "machine_wf core_of t \<Longrightarrow> same_config s t \<Longrightarrow> regs (m_hw t) = regs (m_hw s) \<Longrightarrow> rmid_frame core_of regs L s t"
  by (simp add: rmid_frame_def)

lemma rmid_frame_trans [trans]:
  "rmid_frame core_of regs L s t \<Longrightarrow> rmid_frame core_of regs K t u \<Longrightarrow> rmid_frame core_of regs (L \<union> K) s u"
  by (auto simp: rmid_frame_def intro: same_config_trans)

lemma rmid_frame_mono: "rmid_frame core_of regs L s t \<Longrightarrow> L \<subseteq> K \<Longrightarrow> rmid_frame core_of regs K s t"
  by (auto simp: rmid_frame_def)

lemma rmid_frame_rmid: "rmid_frame core_of regs L s t \<Longrightarrow> l \<notin> L \<Longrightarrow> core_rmid regs t l = core_rmid regs s l"
  by (simp add: rmid_frame_def core_rmid_def)

lemma rmid_frameD:
  assumes "rmid_frame core_of regs L s t"
  shows "machine_wf core_of t" and "same_config s t"
  using assms by (simp_all add: rmid_frame_def)

context msr_driver begin

lemma mon_write_frame:
  assumes "machine_wf core_of s" and "mon_assoc_write E l r s = (ret, t)"
  shows "rmid_frame core_of regs {l} s t"
    and "ret = PQOS_RETVAL_OK \<Longrightarrow> core_rmid regs t l = Some (take_bit 10 r)"
    and "core_rmid regs t k = core_rmid regs s k \<or> (k = l \<and> core_rmid regs t k = Some (take_bit 10 r))"
proof -
  note f = mon_write_facts [OF assms]
  have "map_option clos_field (regs (m_hw t) k PQOS_MSR_ASSOC) = map_option clos_field (regs (m_hw s) k PQOS_MSR_ASSOC)" for k
    using f(4,5) f(6) [of k PQOS_MSR_ASSOC] by (cases "k = l"; cases "ret = PQOS_RETVAL_OK") auto
  with f(1,2,6) show "rmid_frame core_of regs {l} s t" by (auto simp: rmid_frame_def)
  show *: "core_rmid regs t l = Some (take_bit 10 r)" if "ret = PQOS_RETVAL_OK"
    using f(5) [OF that] by (auto simp: core_rmid_def rmid_of_set_rmid)
  show "core_rmid regs t k = core_rmid regs s k \<or> (k = l \<and> core_rmid regs t k = Some (take_bit 10 r))"
    using * f(4) f(6) [of k PQOS_MSR_ASSOC] by (cases "k = l"; cases "ret = PQOS_RETVAL_OK") (auto simp: core_rmid_def)
qed

lemma mon_read_frame:
  assumes "machine_wf core_of s" and "mon_assoc_read E l s = (x, t)"
  shows "rmid_frame core_of regs {} s t" and "x = Inr r \<Longrightarrow> core_rmid regs s l = Some r"
    and "core_rmid regs t = core_rmid regs s"
  using mon_read_facts [OF assms] by (auto intro: rmid_frame_same simp: core_rmid_def fun_eq_iff)

lemma rmid_reset_loop_facts:
  assumes "machine_wf core_of s" and "rmid_reset_loop E ls ret s = (ret', t)"
  shows "rmid_frame core_of regs (set ls) s t \<and>
    (\<forall>k. core_rmid regs t k = core_rmid regs s k \<or> (k \<in> set ls \<and> core_rmid regs t k = Some 0)) \<and>
    (ret' = PQOS_RETVAL_OK \<longrightarrow> ret = PQOS_RETVAL_OK \<and> (\<forall>l\<in>set ls. core_rmid regs t l = Some 0))"
  using assms
proof (induction ls arbitrary: s ret)
  case Nil
  then show ?case by (auto intro: rmid_frame_same)
next
  case (Cons l ls)
  obtain r u where wr: "mon_assoc_write E l RMID0 s = (r, u)" by fastforce
  note f = mon_write_frame [OF Cons.prems(1) wr]
  let ?ret = "if r \<noteq> PQOS_RETVAL_OK then r else ret"
  from Cons.prems(2) wr have "rmid_reset_loop E ls ?ret u = (ret', t)" by simp
  note ih = Cons.IH [OF rmid_frameD(1) [OF f(1)] this]
  have fr: "rmid_frame core_of regs (set (l # ls)) s t"
    using rmid_frame_trans [OF f(1) conjunct1 [OF ih]] by simp
  have two: "core_rmid regs t k = core_rmid regs s k \<or> (k \<in> set (l # ls) \<and> core_rmid regs t k = Some 0)" for k
    using spec [OF conjunct1 [OF conjunct2 [OF ih]], of k] f(3) [of k] by (auto simp: RMID0_def)
  have ok: "ret = PQOS_RETVAL_OK \<and> (\<forall>k\<in>set (l # ls). core_rmid regs t k = Some 0)" if "ret' = PQOS_RETVAL_OK"
  proof -
    from ih that have r: "r = PQOS_RETVAL_OK" and ret: "ret = PQOS_RETVAL_OK" by (auto split: if_splits)
    have "core_rmid regs t l = Some 0" using spec [OF conjunct1 [OF conjunct2 [OF ih]], of l] f(2) [OF r] by (auto simp: RMID0_def)
    with ih that ret show ?thesis by simp
  qed
  show ?case using fr two ok by blast
qed

lemma assoc_loop_facts:
  assumes "machine_wf core_of s" and "assoc_loop E prs s = (ret, t)"
  shows "rmid_frame core_of regs (fst ` set prs) s t \<and>
    (\<forall>k. core_rmid regs t k = core_rmid regs s k \<or> (\<exists>r. (k, r) \<in> set prs \<and> core_rmid regs t k = Some (take_bit 10 r))) \<and>
    (ret = PQOS_RETVAL_OK \<longrightarrow> (\<forall>k\<in>fst ` set prs. \<exists>r. (k, r) \<in> set prs \<and> core_rmid regs t k = Some (take_bit 10 r)))"
  using assms
proof (induction prs arbitrary: s)
  case Nil
  then show ?case by (auto intro: rmid_frame_same)
next
  case (Cons p prs)
  obtain l r where p: "p = (l, r)" by fastforce
  obtain ret1 u where wr: "mon_assoc_write E l r s = (ret1, u)" by fastforce
  note f = mon_write_frame [OF Cons.prems(1) wr]
  show ?case
  proof (cases "ret1 = PQOS_RETVAL_OK")
    case False
    with Cons.prems(2) p wr have "t = u" "ret \<noteq> PQOS_RETVAL_OK" by auto
    with rmid_frame_mono [OF f(1), of "fst ` set (p # prs)"] f(3) p show ?thesis by auto
  next
    case True
    with Cons.prems(2) p wr have "assoc_loop E prs u = (ret, t)" by simp
    note ih = Cons.IH [OF rmid_frameD(1) [OF f(1)] this]
    have fr: "rmid_frame core_of regs (fst ` set (p # prs)) s t"
      using rmid_frame_trans [OF f(1) conjunct1 [OF ih]] p by simp
    have two: "core_rmid regs t k = core_rmid regs s k \<or> (\<exists>r. (k, r) \<in> set (p # prs) \<and> core_rmid regs t k = Some (take_bit 10 r))" for k
      using spec [OF conjunct1 [OF conjunct2 [OF ih]], of k] f(3) [of k] p by auto
    have "\<exists>r'. (l, r') \<in> set (p # prs) \<and> core_rmid regs t l = Some (take_bit 10 r')"
      using spec [OF conjunct1 [OF conjunct2 [OF ih]], of l] f(2) [OF True] p by auto
    with ih fr two p show ?thesis by fastforce
  qed
qed

text \<open>Marking finds every RMID in the range that a listed core has.\<close>

lemma mark_core_rmids_facts:
  assumes "machine_wf core_of s" and "mark_core_rmids E m ls used s = (x, t)"
  shows "rmid_frame core_of regs {} s t \<and> core_rmid regs t = core_rmid regs s \<and>
    (\<forall>used'. x = Inr used' \<longrightarrow> length used' = length used \<and>
       (\<forall>i<length used. used' ! i \<longleftrightarrow> used ! i \<or> (\<exists>l\<in>set ls. \<exists>r. core_rmid regs s l = Some r \<and> r \<le> m \<and> unat r = i)))"
  using assms
proof (induction ls arbitrary: s used)
  case Nil
  then show ?case by (auto intro: rmid_frame_same)
next
  case (Cons l ls)
  obtain y u where rd: "mon_assoc_read E l s = (y, u)" by fastforce
  note f = mon_read_frame [OF Cons.prems(1) rd]
  show ?case
  proof (cases y)
    case (Inl e)
    with Cons.prems(2) rd f show ?thesis by auto
  next
    case (Inr r)
    with Cons.prems(2) rd have "mark_core_rmids E m ls (mark_rmid m r used) u = (x, t)" by simp
    note ih = Cons.IH [OF rmid_frameD(1) [OF f(1)] this]
    have len: "length (mark_rmid m r used) = length used" by (simp add: mark_rmid_def)
    have mk: "mark_rmid m r used ! i \<longleftrightarrow> used ! i \<or> (r \<le> m \<and> unat r = i)" if "i < length used" for i
      using that by (auto simp: mark_rmid_def nth_list_update_True)
    have fr: "rmid_frame core_of regs {} s t" using rmid_frame_trans [OF f(1) conjunct1 [OF ih]] by simp
    show ?thesis using ih fr len mk f(2) [OF Inr] f(3) by auto
  qed
qed

end

section \<open>Free RMIDs\<close>

text \<open>An RMID is in use in an L3 cluster when a core of the cluster is associated with it.\<close>

definition rmid_in_cluster :: "('h \<Rightarrow> u32 \<Rightarrow> u32 \<Rightarrow> u64 option) \<Rightarrow> u32 \<Rightarrow> 'h lib \<Rightarrow> u32 \<Rightarrow> bool" where
  "rmid_in_cluster regs cluster s r \<longleftrightarrow> (\<exists>c\<in>set (cores (m_cpu s)). l3_id c = cluster \<and> core_rmid regs s (lcore c) = Some r)"

lemma cores_l3id_set:
  "pqos_cpu_get_cores_l3id (Some cpu) i = Some ls \<Longrightarrow> set ls = lcore ` {c \<in> set (cores cpu). l3_id c = i}"
  by (auto simp: pqos_cpu_get_cores_l3id_def get_cores_per_topology_obj_def Let_def split: if_splits)

lemma event_max_loop_le: "event_max_loop event ms f m = (f', m') \<Longrightarrow> m' \<le> m"
  by (induction ms arbitrary: f m) (fastforce split: if_splits)+

lemma event_max_facts: "rmid_get_event_max M cap event = Inr r \<Longrightarrow> 0 < r \<and> r \<le> m_rmid_max M"
  by (auto simp: rmid_get_event_max_def word_neq_0_conv dest: event_max_loop_le split: sum.splits prod.splits if_splits)

lemma mark_channel_rmids_mono:
  "mark_channel_rmids E M dev cluster m cs used s = Inr used' \<Longrightarrow>
     length used' = length used \<and> (\<forall>i<length used. used ! i \<longrightarrow> used' ! i)"
proof (induction cs arbitrary: used)
  case (Cons c cs)
  have mk: "length (mark_rmid m r used) = length used \<and> (\<forall>i<length used. used ! i \<longrightarrow> mark_rmid m r used ! i)" for r
    by (auto simp: mark_rmid_def nth_list_update_True)
  show ?case using Cons.prems Cons.IH mk by (fastforce split: if_splits sum.splits)
qed simp

lemma find_upt_Some:
  "List.find P [a..<b] = Some i \<longleftrightarrow> a \<le> i \<and> i < b \<and> P i \<and> (\<forall>j. a \<le> j \<and> j < i \<longrightarrow> \<not> P j)"
proof
  assume "List.find P [a..<b] = Some i"
  then obtain k where k: "k < b - a" "P (a + k)" "i = a + k" "\<forall>j<k. \<not> P (a + j)"
    by (auto simp: find_Some_iff)
  have "\<not> P j" if "a \<le> j" "j < i" for j
    using k(3,4) that by (metis le_add_diff_inverse nat_add_left_cancel_less)
  with k show "a \<le> i \<and> i < b \<and> P i \<and> (\<forall>j. a \<le> j \<and> j < i \<longrightarrow> \<not> P j)" by auto
next
  assume "a \<le> i \<and> i < b \<and> P i \<and> (\<forall>j. a \<le> j \<and> j < i \<longrightarrow> \<not> P j)"
  then show "List.find P [a..<b] = Some i"
    by (auto simp: find_Some_iff intro!: exI [of _ "i - a"])
qed

text \<open>An error status is never \<open>PQOS_RETVAL_OK\<close>.\<close>

named_theorems real_errors

lemma cap_get_type_error [real_errors]: "pqos_cap_get_type cap ty \<noteq> Inl PQOS_RETVAL_OK"
  by (auto simp: pqos_cap_get_type_def split: option.splits)

lemma mon_iordt_error [real_errors]: "pqos_mon_iordt_enabled cap a b \<noteq> Inl PQOS_RETVAL_OK"
  by (auto simp: pqos_mon_iordt_enabled_def cap_get_type_error split: sum.splits)

lemma event_max_error [real_errors]: "rmid_get_event_max M cap event \<noteq> Inl PQOS_RETVAL_OK"
  by (auto simp: rmid_get_event_max_def cap_get_type_error split: sum.splits prod.splits)

lemma mon_read_error [real_errors]: "fst (mon_assoc_read E l s) \<noteq> Inl PQOS_RETVAL_OK"
  by (auto simp: mon_assoc_read_def split: prod.splits sum.splits)

lemma mark_core_error [real_errors]: "fst (mark_core_rmids E m ls used s) \<noteq> Inl PQOS_RETVAL_OK"
proof (induction ls arbitrary: used s)
  case (Cons l ls)
  then show ?case using mon_read_error [of E l s] by (auto split: prod.splits sum.splits)
qed simp

lemma numa_loop_error: "ret \<noteq> PQOS_RETVAL_OK \<Longrightarrow> numa_loop M ch cs ret \<noteq> Inl PQOS_RETVAL_OK"
  by (induction cs arbitrary: ret) (auto split: option.splits if_splits)

lemma iordt_numa_error [real_errors]: "iordt_get_numa M dev ch s \<noteq> Inl PQOS_RETVAL_OK"
  by (auto simp: iordt_get_numa_def numa_loop_error split: option.splits)

lemma get_socket_error [real_errors]: "get_socket cpu n \<noteq> Inl PQOS_RETVAL_OK"
  by (auto simp: get_socket_def split: option.splits)

lemma elsewhere_error [real_errors]: "channel_elsewhere M dev cluster ch s \<noteq> Inl PQOS_RETVAL_OK"
  by (auto simp: channel_elsewhere_def iordt_numa_error get_socket_error split: sum.splits if_splits)

lemma chan_read_error [real_errors]: "chan_read E off en ch s \<noteq> Inl PQOS_RETVAL_OK"
  by (auto simp: chan_read_def iordt_read_uint16_def iordt_read_uint32_def Let_def split: option.splits)

lemma mark_channel_error [real_errors]: "mark_channel_rmids E M dev cluster m cs used s \<noteq> Inl PQOS_RETVAL_OK"
  by (induction cs arbitrary: used)
    (auto simp: elsewhere_error chan_read_error iordt_mon_assoc_read_def split: sum.splits)

text \<open>Channels are looked at when I/O RDT monitoring is on and there are devices.\<close>

definition channels_monitored :: "'h lib \<Rightarrow> bool" where
  "channels_monitored s \<longleftrightarrow> m_dev s \<noteq> None \<and> (\<exists>b. pqos_mon_iordt_enabled (Some (m_cap s)) False True = Inr (b, True))"

context msr_driver begin

lemma mon_unused_facts:
  assumes wf: "machine_wf core_of s" and run: "hw_mon_assoc_unused E M cluster event a b s = (x, t)"
  shows "rmid_frame core_of regs {} s t \<and> core_rmid regs t = core_rmid regs s \<and> x \<noteq> Inl PQOS_RETVAL_OK \<and>
    (\<forall>r. x = Inr r \<longrightarrow> 0 < r \<and> a \<le> r \<and> r \<le> b \<and> r < m_rmid_max M \<and> \<not> rmid_in_cluster regs cluster s r \<and>
       (\<not> channels_monitored s \<longrightarrow> (\<forall>r'. 0 < r' \<and> a \<le> r' \<and> r' < r \<longrightarrow> rmid_in_cluster regs cluster s r')))"
proof (cases "\<exists>max i on ls. rmid_get_event_max M (m_cap s) event = Inr max \<and>
    pqos_mon_iordt_enabled (Some (m_cap s)) False True = Inr (i, on) \<and> pqos_cpu_get_cores_l3id (Some (m_cpu s)) cluster = Some ls")
  case False
  with wf run show ?thesis
    by (auto simp: hw_mon_assoc_unused_def Let_def real_errors intro: rmid_frame_same split: sum.splits option.splits)
next
  case True
  then obtain max i on ls where m: "rmid_get_event_max M (m_cap s) event = Inr max"
    and i: "pqos_mon_iordt_enabled (Some (m_cap s)) False True = Inr (i, on)"
    and ls: "pqos_cpu_get_cores_l3id (Some (m_cpu s)) cluster = Some ls" by blast
  define hi where "hi = (if max - 1 < b then max - 1 else b)"
  define lo where "lo = (if a < 1 then 1 else a)"
  let ?used = "replicate (unat hi + 2) False"
  obtain y u where mk: "mark_core_rmids E hi ls ?used s = (y, u)" by fastforce
  note f = mark_core_rmids_facts [OF wf mk]
  define chan where "chan = (\<lambda>used. case m_dev u of None \<Rightarrow> Inr used
    | Some dev \<Rightarrow> if on then mark_channel_rmids E M dev cluster hi (table (channels dev)) used u else Inr used)"
  have run': "(case y of Inl e \<Rightarrow> (Inl e, u) | Inr used \<Rightarrow> (case chan used of Inl e \<Rightarrow> (Inl e, u)
      | Inr used \<Rightarrow> (case List.find (\<lambda>i. \<not> used ! i) [unat lo..<Suc (unat hi)] of
          None \<Rightarrow> (Inl PQOS_RETVAL_ERROR, u) | Some i \<Rightarrow> (Inr (of_nat i), u)))) = (x, t)"
    using run by (simp only: hw_mon_assoc_unused_def Let_def m i ls mk [unfolded hi_def] hi_def lo_def chan_def sum.case option.case prod.case)
  have chok: "chan used \<noteq> Inl PQOS_RETVAL_OK" for used
    by (auto simp: chan_def real_errors split: option.splits)
  have yok: "y \<noteq> Inl PQOS_RETVAL_OK" using mark_core_error [of E hi ls ?used s] mk by simp
  have t: "t = u" using run' by (cases y; simp split: sum.splits option.splits)
  have ok: "x \<noteq> Inl PQOS_RETVAL_OK"
  proof (cases y)
    case (Inr used)
    then show ?thesis using run' chok [of used] by (cases "chan used") (auto split: option.splits)
  qed (use run' yok in auto)
  have "0 < r \<and> a \<le> r \<and> r \<le> b \<and> r < m_rmid_max M \<and> \<not> rmid_in_cluster regs cluster s r \<and>
       (\<not> channels_monitored s \<longrightarrow> (\<forall>r'. 0 < r' \<and> a \<le> r' \<and> r' < r \<longrightarrow> rmid_in_cluster regs cluster s r'))" if x: "x = Inr r" for r
  proof -
    from run' x obtain used used' n where y: "y = Inr used" and ch: "chan used = Inr used'"
      and n: "List.find (\<lambda>i. \<not> used' ! i) [unat lo..<Suc (unat hi)] = Some n" and r: "r = of_nat n"
      by (auto split: option.splits sum.splits)
    from n have n': "unat lo \<le> n" "n \<le> unat hi" "\<not> used' ! n" "\<forall>j. unat lo \<le> j \<and> j < n \<longrightarrow> used' ! j"
      by (auto simp: find_upt_Some simp del: upt_Suc)
    have rn: "unat r = n" using unat_of_nat_u32 [OF le_less_trans [OF n'(2) unat_less_u32]] by (simp add: r)
    have range: "lo \<le> r \<and> r \<le> hi" using n' rn by (simp add: word_le_nat_alt)
    from f y have us: "length used = length ?used" "\<forall>j<length ?used. used ! j \<longleftrightarrow> (\<exists>l\<in>set ls. \<exists>q. core_rmid regs s l = Some q \<and> q \<le> hi \<and> unat q = j)"
      by (auto simp del: add_2_eq_Suc')
    have mono: "length used' = length used \<and> (\<forall>j<length used. used ! j \<longrightarrow> used' ! j)"
      using ch mark_channel_rmids_mono by (fastforce simp: chan_def split: option.splits if_splits)
    have in_use: "used ! unat q \<longleftrightarrow> rmid_in_cluster regs cluster s q" if "q \<le> hi" for q
      using us(2) that cores_l3id_set [OF ls] by (auto simp: rmid_in_cluster_def word_le_nat_alt word_unat_eq_iff [symmetric])
    have free: "\<not> rmid_in_cluster regs cluster s r"
      using in_use [of r] range mono us(1) n'(2,3) rn by auto
    have low: "rmid_in_cluster regs cluster s q" if "\<not> channels_monitored s" "0 < q" "a \<le> q" "q < r" for q
    proof -
      have "used' = used" using ch that(1) i same_configD(3) [OF rmid_frameD(2) [OF conjunct1 [OF f]]]
        by (auto simp: chan_def channels_monitored_def split: option.splits if_splits)
      moreover have "unat lo \<le> unat q" using that(2,3) by (auto simp: lo_def word_le_nat_alt word_less_nat_alt)
      ultimately show ?thesis using in_use [of q] n'(4) that(4) range rn by (auto simp: word_less_nat_alt word_le_nat_alt)
    qed
    have mx: "0 < max" "max \<le> m_rmid_max M" using event_max_facts [OF m] by auto
    then have "max - 1 < max" by (simp add: word_less_nat_alt unat_sub word_le_nat_alt)
    with mx range have "r < m_rmid_max M" "r \<le> b" by (auto simp: hi_def split: if_splits)
    moreover have "0 < r" "a \<le> r" using range by (auto simp: lo_def word_less_nat_alt word_le_nat_alt split: if_splits)
    ultimately show ?thesis using free low by blast
  qed
  with f t ok show ?thesis by blast
qed

end

section \<open>Allocation for a group\<close>

text \<open>
  The poll contexts come in blocks, one block per pair of cluster and NUMA number; all
  contexts of a block agree on core, cluster and NUMA number, and the first one has the RMID
  of the cores.
\<close>

type_synonym alloc_entry = "u32 \<times> u32 \<times> u32 \<times> u32"

definition block :: "pqos_cap_mon \<Rightarrow> alloc_entry \<Rightarrow> pqos_mon_poll_ctx list" where
  "block mon q = (case q of (l, cluster, n, rmid) \<Rightarrow> new_ctxs mon l cluster n rmid)"

abbreviation entry_key :: "alloc_entry \<Rightarrow> u32 \<times> u32" where
  "entry_key q \<equiv> (fst (snd q), fst (snd (snd q)))"

abbreviation entry_rmid :: "alloc_entry \<Rightarrow> u32" where
  "entry_rmid q \<equiv> snd (snd (snd q))"

definition range_key :: "pqos_cap_mon \<Rightarrow> pqos_cpuinfo \<Rightarrow> u32 \<Rightarrow> (u32 \<times> u32) option" where
  "range_key mon cpu l = (case rmid_range mon cpu l of Inl _ \<Rightarrow> None | Inr (cluster, n, _) \<Rightarrow> Some (cluster, n))"

lemma block_entry: "block mon (l, cluster, n, rmid) = new_ctxs mon l cluster n rmid"
  by (simp add: block_def)

lemma quiet_ctxs_same:
  "c \<in> set (quiet_ctxs k n ctx) \<Longrightarrow>
     ctx_lcore c = ctx_lcore ctx \<and> ctx_cluster c = ctx_cluster ctx \<and> ctx_numa c = ctx_numa ctx"
  by (induction n arbitrary: ctx) (auto simp: Let_def)

lemma block_shares:
  "c \<in> set (block mon q) \<Longrightarrow> shares_ctx l cluster n c \<longleftrightarrow> fst q = l \<or> entry_key q = (cluster, n)"
  by (cases q) (auto simp: block_def new_ctxs_def shares_ctx_def Let_def dest!: quiet_ctxs_same split: if_splits)

lemma block_hd: "\<exists>c cs. block mon q = c # cs \<and> ctx_rmid c = entry_rmid q \<and> ctx_lcore c = fst q"
  by (cases q) (auto simp: block_def new_ctxs_def Let_def)

lemma find_skip: "\<forall>x\<in>set xs. \<not> P x \<Longrightarrow> List.find P (xs @ ys) = List.find P ys"
  by (induction xs) auto

lemma find_blocks:
  "List.find (shares_ctx l cluster n) (concat (map (block mon) qs)) =
     map_option (\<lambda>q. hd (block mon q)) (List.find (\<lambda>q. fst q = l \<or> entry_key q = (cluster, n)) qs)"
proof (induction qs)
  case (Cons q qs)
  obtain c cs where b: "block mon q = c # cs" using block_hd by blast
  show ?case
  proof (cases "fst q = l \<or> entry_key q = (cluster, n)")
    case True
    then have "shares_ctx l cluster n c" using block_shares [of c mon q] b by simp
    with True b show ?thesis by simp
  next
    case False
    then have "\<forall>c\<in>set (block mon q). \<not> shares_ctx l cluster n c" using block_shares by blast
    with False Cons.IH show ?thesis by (auto simp: find_skip)
  qed
qed simp

text \<open>
  What holds of the blocks made so far: an entry belongs to the place of its core, its RMID is
  free in the cluster, and no two entries have the same place.
\<close>

definition entry_ok :: "('h \<Rightarrow> u32 \<Rightarrow> u32 \<Rightarrow> u64 option) \<Rightarrow> mon_module \<Rightarrow> pqos_cap_mon \<Rightarrow> 'h lib \<Rightarrow> alloc_entry \<Rightarrow> bool" where
  "entry_ok regs M mon s q \<longleftrightarrow>
     range_key mon (m_cpu s) (fst q) = Some (entry_key q) \<and> 0 < entry_rmid q \<and> entry_rmid q < m_rmid_max M \<and>
     \<not> rmid_in_cluster regs (fst (entry_key q)) s (entry_rmid q)"

definition entries_ok :: "('h \<Rightarrow> u32 \<Rightarrow> u32 \<Rightarrow> u64 option) \<Rightarrow> mon_module \<Rightarrow> pqos_cap_mon \<Rightarrow> 'h lib \<Rightarrow> alloc_entry list \<Rightarrow> bool" where
  "entries_ok regs M mon s qs \<longleftrightarrow> list_all (entry_ok regs M mon s) qs \<and> distinct (map entry_key qs)"

lemma entry_ok_cong:
  "same_config s t \<Longrightarrow> core_rmid regs t = core_rmid regs s \<Longrightarrow> entry_ok regs M mon t = entry_ok regs M mon s"
  by (auto simp: entry_ok_def rmid_in_cluster_def fun_eq_iff same_configD)

lemma find_entry:
  assumes "entries_ok regs M mon s qs" and "rmid_range mon (m_cpu s) l = Inr (cluster, n, a, b)"
    and "List.find (\<lambda>q. fst q = l \<or> entry_key q = (cluster, n)) qs = Some q"
  shows "q \<in> set qs \<and> entry_key q = (cluster, n)"
proof -
  from assms(3) have q: "q \<in> set qs" "fst q = l \<or> entry_key q = (cluster, n)" by (auto simp: find_Some_iff)
  with assms(1) have "entry_ok regs M mon s q" by (auto simp: entries_ok_def list_all_iff)
  with q assms(2) show ?thesis by (auto simp: entry_ok_def range_key_def)
qed

context msr_driver begin

lemma alloc_loop_facts:
  assumes "machine_wf core_of s" and "entries_ok regs M mon s qs"
    and "alloc_loop E M mon event ls (concat (map (block mon) qs)) c2r s = (x, t)"
  shows "rmid_frame core_of regs {} s t \<and> core_rmid regs t = core_rmid regs s \<and> x \<noteq> Inl PQOS_RETVAL_OK \<and>
    (\<forall>ctxs c2r'. x = Inr (ctxs, c2r') \<longrightarrow>
       (\<exists>qs' rs. ctxs = concat (map (block mon) qs') \<and> entries_ok regs M mon s qs' \<and> set qs \<subseteq> set qs' \<and>
          c2r' = c2r @ rs \<and> length rs = length ls \<and>
          (\<forall>(l, r)\<in>set (zip ls rs). \<exists>q\<in>set qs'. range_key mon (m_cpu s) l = Some (entry_key q) \<and> entry_rmid q = r)))"
  using assms
proof (induction ls arbitrary: s qs c2r)
  case Nil
  then show ?case by (auto intro: rmid_frame_same)
next
  case (Cons l ls)
  show ?case
  proof (cases "rmid_range mon (m_cpu s) l")
    case (Inl e)
    then have "e \<noteq> PQOS_RETVAL_OK" by (auto simp: rmid_range_def Let_def split: sum.splits if_splits)
    with Inl Cons.prems show ?thesis by (auto intro: rmid_frame_same)
  next
    case (Inr p)
    then obtain cluster n a b where rg: "rmid_range mon (m_cpu s) l = Inr (cluster, n, a, b)" by (cases p) auto
    have key: "range_key mon (m_cpu s) l = Some (cluster, n)" by (simp add: range_key_def rg)
    show ?thesis
    proof (cases "List.find (\<lambda>q. fst q = l \<or> entry_key q = (cluster, n)) qs")
      case (Some q)
      from find_entry [OF Cons.prems(2) rg Some] have q: "q \<in> set qs" "entry_key q = (cluster, n)" by auto
      have "ctx_rmid (hd (block mon q)) = entry_rmid q" using block_hd [of mon q] by auto
      with Cons.prems(3) rg Some
      have "alloc_loop E M mon event ls (concat (map (block mon) qs)) (c2r @ [entry_rmid q]) s = (x, t)"
        by (simp add: find_blocks)
      from Cons.IH [OF Cons.prems(1,2) this] show ?thesis
        using q key by (fastforce intro: exI [where x = "entry_rmid q # _"])
    next
      case None
      obtain y u where un: "hw_mon_assoc_unused E M cluster event a b s = (y, u)" by fastforce
      note f = mon_unused_facts [OF Cons.prems(1) un]
      show ?thesis
      proof (cases y)
        case (Inl e)
        with Cons.prems(3) rg None un f show ?thesis by (auto simp: find_blocks)
      next
        case (Inr r)
        let ?qs = "qs @ [(l, cluster, n, r)]"
        have cong: "entry_ok regs M mon u = entry_ok regs M mon s"
          using f by (intro entry_ok_cong rmid_frameD(2)) auto
        have "entry_ok regs M mon s (l, cluster, n, r)" using f Inr key by (simp add: entry_ok_def)
        moreover have "(cluster, n) \<notin> entry_key ` set qs" using None unfolding find_None_iff by (metis (mono_tags, lifting) imageE)
        ultimately have ok: "entries_ok regs M mon s ?qs" using Cons.prems(2) by (auto simp: entries_ok_def)
        then have ok': "entries_ok regs M mon u ?qs" by (simp add: entries_ok_def cong)
        from Cons.prems(3) rg None un Inr
        have "alloc_loop E M mon event ls (concat (map (block mon) ?qs)) (c2r @ [r]) u = (x, t)"
          by (simp add: find_blocks block_entry)
        note ih = Cons.IH [OF rmid_frameD(1) [OF conjunct1 [OF f]] ok' this]
        have cpu: "m_cpu u = m_cpu s" using same_configD(2) [OF rmid_frameD(2) [OF conjunct1 [OF f]]] .
        have fr: "rmid_frame core_of regs {} s t" using rmid_frame_trans [OF conjunct1 [OF f] conjunct1 [OF ih]] by simp
        have en: "entries_ok regs M mon u = entries_ok regs M mon s" by (auto simp: entries_ok_def cong fun_eq_iff)
        have "\<exists>qs' rs. ctxs = concat (map (block mon) qs') \<and> entries_ok regs M mon s qs' \<and> set qs \<subseteq> set qs' \<and>
          c2r' = c2r @ rs \<and> length rs = length (l # ls) \<and>
          (\<forall>(k, r)\<in>set (zip (l # ls) rs). \<exists>q\<in>set qs'. range_key mon (m_cpu s) k = Some (entry_key q) \<and> entry_rmid q = r)"
          if "x = Inr (ctxs, c2r')" for ctxs c2r'
        proof -
          from ih that obtain qs' rs where p: "ctxs = concat (map (block mon) qs')" "entries_ok regs M mon u qs'"
            "set ?qs \<subseteq> set qs'" "c2r' = (c2r @ [r]) @ rs" "length rs = length ls"
            "\<forall>(k, r)\<in>set (zip ls rs). \<exists>q\<in>set qs'. range_key mon (m_cpu u) k = Some (entry_key q) \<and> entry_rmid q = r"
            by blast
          have "\<exists>q\<in>set qs'. range_key mon (m_cpu s) l = Some (entry_key q) \<and> entry_rmid q = r"
            using p(3) key by (intro bexI [of _ "(l, cluster, n, r)"]) auto
          with p en cpu show ?thesis by (intro exI [of _ qs'] exI [of _ "r # rs"]) auto
        qed
        with ih fr f show ?thesis by auto
      qed
    qed
  qed
qed

end

end
