(* ===== verification/MonCounters.thy ===== *)
theory MonCounters
  imports HwMonGroup RefPlatform
begin

text \<open>
  Arithmetic of the monitoring counters: counters of \<open>n\<close> bits wrap, and the sums and
  differences that the code computes on 64-bit words are sums and differences modulo \<open>2 ^ n\<close>.
\<close>

section \<open>Wrap-around\<close>

text \<open>The width that the code assumes for an event, 24 when the capabilities do not list it.\<close>

definition counter_bits :: "pqos_cap \<Rightarrow> u32 \<Rightarrow> nat" where
  "counter_bits cap event = (case pqos_cap_get_event (Some cap) event of Inl _ \<Rightarrow> 24 | Inr m \<Rightarrow> unat (ev_counter_length m))"

lemma counter_range_exp: "counter_range cap event = 2 ^ counter_bits cap event"
  by (auto simp: counter_range_def counter_bits_def push_bit_eq_mult split: sum.splits)

lemma exp_less: "n < 64 \<Longrightarrow> (2 :: int) ^ n < 2 ^ 64"
  by (intro power_strict_increasing) simp_all

lemma uint_exp:
  assumes "n < 64"
  shows "uint ((2 :: u64) ^ n) = 2 ^ n"
proof -
  have "uint ((2 :: u64) ^ n) = uint (word_of_int (2 ^ n) :: u64)" by simp
  also have "\<dots> = 2 ^ n" using assms by (simp only: uint_word_of_int_eq) (simp add: take_bit_int_eq_self)
  finally show ?thesis .
qed

lemma wrap_down:
  assumes "n < 64" and "uint a < 2 ^ n" and "uint b < 2 ^ n" and "b < (a :: u64)"
  shows "uint (2 ^ n - a + b) = (uint b - uint a) mod 2 ^ n"
proof -
  have ab: "uint b < uint a" using assms(4) by (simp add: word_less_def)
  have le: "a \<le> 2 ^ n" using assms(1,2) by (simp add: word_le_def uint_exp)
  have d: "uint (2 ^ n - a) = 2 ^ n - uint a" using le assms(1) by (simp add: uint_minus_simple_alt uint_exp)
  note p = exp_less [OF assms(1)]
  have "uint (2 ^ n - a + b) = 2 ^ n - uint a + uint b"
  proof -
    have "uint (2 ^ n - a) + uint b < 2 ^ LENGTH(64)" using ab p by (simp add: d)
    then show ?thesis by (simp only: uint_add_lem) (simp add: d)
  qed
  moreover have "(uint b - uint a) mod 2 ^ n = uint b - uint a + 2 ^ n"
  proof -
    have "(uint b - uint a) mod 2 ^ n = (uint b - uint a + 2 ^ n) mod 2 ^ n" by simp
    also have "\<dots> = uint b - uint a + 2 ^ n"
      using ab assms(2) uint_ge_0 [of b] by (intro mod_pos_pos_trivial) linarith+
    finally show ?thesis .
  qed
  ultimately show ?thesis by simp
qed

lemma wrap_up:
  assumes "uint b < 2 ^ n" and "a \<le> (b :: u64)"
  shows "uint (b - a) = (uint b - uint a) mod 2 ^ n"
proof -
  have "uint (b - a) = uint b - uint a" using assms(2) by (simp add: uint_minus_simple_alt)
  moreover have "0 \<le> uint b - uint a" "uint b - uint a < 2 ^ n"
    using assms uint_ge_0 [of a] unfolding word_le_def by linarith+
  ultimately show ?thesis by simp
qed

lemma wrap_add:
  assumes "n < 64" and "uint a < 2 ^ n" and "uint b < 2 ^ n"
  shows "uint (if 2 ^ n \<le> a + b then a + b - 2 ^ n else a + (b :: u64)) = (uint a + uint b) mod 2 ^ n"
proof -
  have "(2 :: int) ^ Suc n \<le> 2 ^ 64" using assms(1) by (intro power_increasing) simp_all
  then have "uint a + uint b < 2 ^ LENGTH(64)" using assms(2,3) by simp
  then have s: "uint (a + b) = uint a + uint b" by (simp only: uint_add_lem)
  show ?thesis
  proof (cases "2 ^ n \<le> a + b")
    case True
    then have le: "2 ^ n \<le> uint a + uint b" using assms(1) by (simp add: word_le_def uint_exp s)
    have "uint (a + b - 2 ^ n) = uint a + uint b - 2 ^ n"
      using True assms(1) by (simp add: uint_minus_simple_alt uint_exp s)
    moreover have "(uint a + uint b) mod 2 ^ n = (uint a + uint b - 2 ^ n) mod 2 ^ n" by simp
    moreover have "(uint a + uint b - 2 ^ n) mod 2 ^ n = uint a + uint b - 2 ^ n"
      using le assms(2,3) by (intro mod_pos_pos_trivial) linarith+
    ultimately show ?thesis using True by simp
  next
    case False
    then have "uint a + uint b < 2 ^ n" using assms(1) by (simp add: word_le_def uint_exp s)
    with False show ?thesis using uint_ge_0 [of a] uint_ge_0 [of b] by (simp add: s)
  qed
qed

section \<open>Sums over contexts\<close>

text \<open>The values that the contexts of a group give, one after the other.\<close>

fun readings :: "'h platform \<Rightarrow> u32 \<Rightarrow> pqos_mon_poll_ctx list \<Rightarrow> 'h lib \<Rightarrow> u64 list res \<times> 'h lib" where
  "readings E event [] s = (Inr [], s)"
| "readings E event (c # cs) s =
     (case hw_mon_read E (ctx_lcore c) (ctx_rmid c) (get_event_id event) s of
        (Inl _, s) \<Rightarrow> (Inl PQOS_RETVAL_ERROR, s)
      | (Inr v, s) \<Rightarrow> (case readings E event cs s of (Inl e, s) \<Rightarrow> (Inl e, s) | (Inr vs, s) \<Rightarrow> (Inr (v # vs), s)))"

lemma sum_counters_error:
  "readings E event cs s = (Inl e, t) \<Longrightarrow> sum_counters E event m cs v s = (Inl e, t)"
  by (induction cs arbitrary: s v) (auto simp: Let_def split: prod.splits sum.splits)

lemma sum_counters_sum:
  assumes "readings E event cs s = (Inr vs, t)" and "n < 64" and "uint v < 2 ^ n" and "\<forall>x\<in>set vs. uint x < 2 ^ n"
  shows "\<exists>w. sum_counters E event (2 ^ n) cs v s = (Inr w, t) \<and> uint w = (uint v + (\<Sum>x\<leftarrow>vs. uint x)) mod 2 ^ n"
  using assms
proof (induction cs arbitrary: s v vs)
  case Nil
  then show ?case using uint_ge_0 [of v] by simp
next
  case (Cons c cs)
  obtain y u where rd: "hw_mon_read E (ctx_lcore c) (ctx_rmid c) (get_event_id event) s = (y, u)" by fastforce
  with Cons.prems(1) obtain x xs where y: "y = Inr x" and vs: "vs = x # xs" and rs: "readings E event cs u = (Inr xs, t)"
    by (auto split: prod.splits sum.splits)
  let ?v = "if 2 ^ n \<le> v + x then v + x - 2 ^ n else v + x"
  have v: "uint ?v = (uint v + uint x) mod 2 ^ n" using wrap_add [of n v x] Cons.prems vs by simp
  obtain w where w: "sum_counters E event (2 ^ n) cs ?v u = (Inr w, t)" "uint w = (uint ?v + (\<Sum>x\<leftarrow>xs. uint x)) mod 2 ^ n"
    using Cons.IH [OF rs Cons.prems(2), of ?v] Cons.prems(4) vs v by auto
  have "uint w = (uint v + (\<Sum>x\<leftarrow>vs. uint x)) mod 2 ^ n" using w(2) v vs by (simp add: mod_simps add.assoc)
  with w(1) rd y show ?case by (auto simp: Let_def)
qed

section \<open>Configuration\<close>

lemma mon_read_loop_keeps: "mon_read_loop E l sel n flag s = (x, t) \<Longrightarrow> same_config s t"
proof (induction n arbitrary: flag s)
  case (Suc n)
  obtain m u where wr: "(if flag then msr_write E l PQOS_MSR_MON_EVTSEL sel s else (MACHINE_RETVAL_OK, s)) = (m, u)" by fastforce
  have su: "same_config s u" using wr by (auto dest: msr_write_keeps split: if_splits)
  obtain y v where rd: "msr_read E l PQOS_MSR_MON_QMC u = (y, v)" by fastforce
  have sv: "same_config s v" using same_config_trans [OF su msr_read_keeps [OF rd]] .
  obtain z w where ev: "msr_read E l PQOS_MSR_MON_EVTSEL v = (z, w)" by fastforce
  have sw: "same_config s w" using same_config_trans [OF sv msr_read_keeps [OF ev]] .
  have ih: "mon_read_loop E l sel n flag k = (x, t) \<Longrightarrow> same_config s k \<Longrightarrow> same_config s t" for flag k
    using Suc.IH same_config_trans by blast
  show ?case using Suc.prems wr rd ev su sv sw ih by (auto split: if_splits sum.splits)
qed simp

lemma sum_counters_keeps: "sum_counters E event m cs v s = (x, t) \<Longrightarrow> same_config s t"
proof (induction cs arbitrary: v s)
  case (Cons c cs)
  obtain y u where rd: "hw_mon_read E (ctx_lcore c) (ctx_rmid c) (get_event_id event) s = (y, u)" by fastforce
  have su: "same_config s u" using rd by (auto simp: hw_mon_read_def dest: mon_read_loop_keeps split: prod.splits option.splits)
  then show ?case using Cons.prems rd Cons.IH by (auto simp: Let_def intro: same_config_trans split: sum.splits)
qed simp

section \<open>Properties\<close>

text \<open>A group as the callers clear it.\<close>

definition empty_slot :: pqos_tel_slot where
  "empty_slot = \<lparr>tel_current = 0, tel_previous = 0, tel_valid = False\<rparr>"

definition empty_group :: pqos_mon_data where
  "empty_group = \<lparr>mg_event = 0,
     mg_values = \<lparr>llc = 0, mbm_local = 0, mbm_total = 0, mbm_remote = 0, mbm_local_delta = 0, mbm_total_delta = 0,
       mbm_remote_delta = 0, ipc_retired = 0, ipc_retired_delta = 0, ipc_unhalted = 0, ipc_unhalted_delta = 0, ipc = 0,
       llc_misses = 0, llc_misses_delta = 0, llc_references = 0, llc_references_delta = 0\<rparr>,
     mg_tid_map = [], mg_cores = [], mg_channels = [],
     mg_pcie = \<lparr>miss_read = 0, miss_read_delta = 0, miss_write = 0, miss_write_delta = 0, ref_read = 0, ref_read_delta = 0,
       ref_write = 0, ref_write_delta = 0\<rparr>,
     mg_perf_event = 0, mg_perf_ctx = None, mg_resctrl_event = 0, mg_core_energy = empty_slot, mg_power = empty_slot,
     mg_tel_ts = (0, 0), mg_prev_tel_ts = (0, 0), mg_hw_event = 0, mg_hw_ctx = [], mg_sockets = [], mg_valid_mbm_read = False\<rparr>"

text \<open>
  A platform with a counter register: cores 0 and 2 read 1 and 2, core 3 reads an error.
\<close>

definition qmc_hw :: ref_hw where
  "qmc_hw = (\<lambda>l r. if r = 0xC8D then Some 0
     else if r = 0xC8E then Some (if l = 3 then 0x8000000000000000 else if l = 2 then 2 else 1) else None)"

definition qmc_event :: pqos_monitor where
  "qmc_event = \<lparr>ev_type = PQOS_MON_EVENT_LMEM_BW, ev_max_rmid = 16, ev_scale_factor = 64, ev_counter_length = 24, ev_iordt = False\<rparr>"

definition qmc_mon :: pqos_cap_mon where
  "qmc_mon = \<lparr>mon_max_rmid = 16, mon_l3_size = 32768, mon_iordt = False, mon_iordt_on = False, mon_snc_num = 1,
     mon_snc_mode = PQOS_SNC_LOCAL, mon_events = [qmc_event, qmc_event\<lparr>ev_type := PQOS_MON_EVENT_RMEM_BW\<rparr>]\<rparr>"

definition qmc_lib :: "ref_hw lib" where
  "qmc_lib = sample_lib\<lparr>m_cap := [CapMon qmc_mon], m_hw := qmc_hw\<rparr>"

definition qmc_ctx :: "u32 \<Rightarrow> pqos_mon_poll_ctx" where
  "qmc_ctx l = \<lparr>ctx_lcore = l, ctx_channel_id = 0, ctx_cluster = 0, ctx_numa = 0, ctx_quiet = False, ctx_rmid = 1\<rparr>"

definition qmc_group :: pqos_mon_data where
  "qmc_group = empty_group\<lparr>mg_event := PQOS_MON_EVENT_RMEM_BW, mg_hw_ctx := [qmc_ctx 0, qmc_ctx 2],
     mg_values := (mg_values empty_group)\<lparr>mbm_local := 16777214, mbm_total := 5\<rparr>, mg_valid_mbm_read := True\<rparr>"

definition bw_value :: "u32 \<Rightarrow> pqos_event_values \<Rightarrow> u64" where
  "bw_value event v = (if event = PQOS_MON_EVENT_LMEM_BW then mbm_local v else mbm_total v)"

definition bw_delta :: "u32 \<Rightarrow> pqos_event_values \<Rightarrow> u64" where
  "bw_delta event v = (if event = PQOS_MON_EVENT_LMEM_BW then mbm_local_delta v else mbm_total_delta v)"

lemma get_delta_mod:
  assumes "counter_bits cap event = n" and "n < 64" and "uint a < 2 ^ n" and "uint b < 2 ^ n"
  shows "uint (hw_get_delta cap event a b) = (uint b - uint a) mod 2 ^ n"
  using assms wrap_down [of n a b] wrap_up [of b n a]
  by (auto simp: hw_get_delta_def counter_range_exp not_less)

lemma bw_not_occup: "event \<in> {PQOS_MON_EVENT_LMEM_BW, PQOS_MON_EVENT_TMEM_BW} \<Longrightarrow> event \<noteq> PQOS_MON_EVENT_L3_OCCUP"
  by (auto simp: event_defs)

lemma store_counter_bw:
  assumes "event \<in> {PQOS_MON_EVENT_LMEM_BW, PQOS_MON_EVENT_TMEM_BW}" and "store_counter cap event len value g = (ret, g')"
  shows "bw_value event (mg_values g') = value \<and>
    bw_delta event (mg_values g') =
      (if mg_valid_mbm_read g then scale_event cap event (hw_get_delta cap event (bw_value event (mg_values g)) value) else 0)"
  using assms by (auto simp: store_counter_def Let_def bw_value_def bw_delta_def event_defs split: if_splits)

text \<open>
  C25. A bandwidth poll is modular arithmetic on the counter width: when every context reads a
  value of \<open>n\<close> bits, the new value of the group is their sum modulo \<open>2 ^ n\<close>, and the reported
  difference to an earlier value is the scaled difference modulo \<open>2 ^ n\<close>, whether or not
  counters wrapped since the last poll.
\<close>

theorem bandwidth_poll:
  assumes ev: "event \<in> {PQOS_MON_EVENT_LMEM_BW, PQOS_MON_EVENT_TMEM_BW}"
    and mon: "pqos_cap_get_event (Some (m_cap s)) event = Inr m" and n: "unat (ev_counter_length m) = n" "n < 64"
    and rd: "readings E event (mg_hw_ctx g) s = (Inr vs, t)" and vs: "\<forall>x\<in>set vs. uint x < 2 ^ n"
    and old: "uint (bw_value event (mg_values g)) < 2 ^ n" and valid: "mg_valid_mbm_read g"
  shows "\<exists>ret g' d. hw_mon_read_counter E event g s = Some (ret, g', t) \<and>
    uint (bw_value event (mg_values g')) = (\<Sum>x\<leftarrow>vs. uint x) mod 2 ^ n \<and>
    bw_delta event (mg_values g') = scale_event (m_cap s) event d \<and>
    uint d = ((\<Sum>x\<leftarrow>vs. uint x) - uint (bw_value event (mg_values g))) mod 2 ^ n"
proof -
  have bits: "counter_bits (m_cap s) event = n" by (simp add: counter_bits_def mon n)
  obtain w where w: "sum_counters E event (2 ^ n) (mg_hw_ctx g) 0 s = (Inr w, t)" "uint w = (\<Sum>x\<leftarrow>vs. uint x) mod 2 ^ n"
    using sum_counters_sum [OF rd n(2) _ vs, of 0] by auto
  have cap: "m_cap t = m_cap s" using same_configD(1) [OF sum_counters_keeps [OF w(1)]] .
  obtain ret g' where st: "store_counter (m_cap s) event (ev_counter_length m) w g = (ret, g')" by fastforce
  let ?d = "hw_get_delta (m_cap s) event (bw_value event (mg_values g)) w"
  have "hw_mon_read_counter E event g s = Some (ret, g', t)"
    using ev bw_not_occup [OF ev] by (simp add: hw_mon_read_counter_def counter_range_exp bits w cap mon st)
  moreover have "uint w < 2 ^ n" by (simp add: w(2))
  then have "uint ?d = ((\<Sum>x\<leftarrow>vs. uint x) - uint (bw_value event (mg_values g))) mod 2 ^ n"
    using get_delta_mod [OF bits n(2) old, of w] by (simp add: w(2) mod_simps)
  ultimately show ?thesis using store_counter_bw [OF ev st] w(2) valid by auto
qed

theorem bandwidth_poll_witness:
  "\<exists>d. uint d = (3 - 16777214) mod 2 ^ 24 \<and>
     bw_delta PQOS_MON_EVENT_LMEM_BW (mg_values (fst (snd (the (hw_mon_read_counter ref_platform PQOS_MON_EVENT_LMEM_BW qmc_group qmc_lib))))) =
     scale_event (m_cap qmc_lib) PQOS_MON_EVENT_LMEM_BW d"
proof -
  let ?r = "readings ref_platform PQOS_MON_EVENT_LMEM_BW (mg_hw_ctx qmc_group) qmc_lib"
  have mon: "pqos_cap_get_event (Some (m_cap qmc_lib)) PQOS_MON_EVENT_LMEM_BW = Inr qmc_event"
    by (simp add: qmc_lib_def pqos_cap_get_event_def pqos_cap_get_type_def qmc_mon_def qmc_event_def)
  have "fst ?r = Inr [1, 2]" by code_simp
  then have run: "?r = (Inr [1, 2], snd ?r)" by (metis prod.collapse)
  have old: "uint (bw_value PQOS_MON_EVENT_LMEM_BW (mg_values qmc_group)) < 2 ^ 24"
    and val: "bw_value PQOS_MON_EVENT_LMEM_BW (mg_values qmc_group) = 16777214" by (simp_all add: bw_value_def qmc_group_def)
  obtain ret g' d where "hw_mon_read_counter ref_platform PQOS_MON_EVENT_LMEM_BW qmc_group qmc_lib = Some (ret, g', snd ?r)"
    "bw_delta PQOS_MON_EVENT_LMEM_BW (mg_values g') = scale_event (m_cap qmc_lib) PQOS_MON_EVENT_LMEM_BW d"
    "uint d = ((\<Sum>x\<leftarrow>[1, 2 :: u64]. uint x) - uint (bw_value PQOS_MON_EVENT_LMEM_BW (mg_values qmc_group))) mod 2 ^ 24"
    using bandwidth_poll [OF _ mon _ _ run _ old] by (auto simp: qmc_event_def qmc_group_def)
  then show ?thesis by (auto simp: val)
qed

text \<open>
  Only the local counter is compared for the overflow status, also when the total bandwidth
  is polled: a wrapped total counter is reported exactly when its value is below the local one.
\<close>

lemma total_overflow_compares_local:
  "fst (store_counter cap PQOS_MON_EVENT_TMEM_BW 32 value g) = PQOS_RETVAL_OVERFLOW \<longleftrightarrow> value < mbm_local (mg_values g)"
  by (auto simp: store_counter_def Let_def)

text \<open>
  A failed counter is reported as data: when the counter register has its error bit and the
  selection register still holds the selection, \<open>hw_mon_read\<close> succeeds and answers the selection
  value, for the variable of the counter value is overwritten.
\<close>

theorem mon_read_error_as_data:
  assumes "msr_write E l PQOS_MSR_MON_EVTSEL (mon_evtsel rmid event) s = (MACHINE_RETVAL_OK, t)"
    and "msr_read E l PQOS_MSR_MON_QMC t = (Inr v, u)" and "v AND PQOS_MSR_MON_QMC_ERROR \<noteq> 0"
    and "msr_read E l PQOS_MSR_MON_EVTSEL u = (Inr (mon_evtsel rmid event), w)"
  shows "hw_mon_read E l rmid event s = (Inr (mon_evtsel rmid event), w)"
proof -
  have sel: "mon_evtsel rmid event AND PQOS_MSR_MON_QMC_UNAVAILABLE = 0"
    "mon_evtsel rmid event AND PQOS_MSR_MON_QMC_DATA_MASK = mon_evtsel rmid event"
  proof -
    have m: "PQOS_MSR_MON_QMC_DATA_MASK = mask 62"
      "PQOS_MSR_MON_EVTSEL_RMID_MASK = mask 10" "PQOS_MSR_MON_EVTSEL_EVTID_MASK = mask 8"
      by (simp_all add: PQOS_MSR_MON_QMC_DATA_MASK_def PQOS_MSR_MON_EVTSEL_RMID_MASK_def
          PQOS_MSR_MON_EVTSEL_EVTID_MASK_def mask_eq_exp_minus_1)
    show data: "mon_evtsel rmid event AND PQOS_MSR_MON_QMC_DATA_MASK = mon_evtsel rmid event"
      by (auto simp: mon_evtsel_def m PQOS_MSR_MON_EVTSEL_RMID_SHIFT_def bit_eq_iff bit_simps)
    have "PQOS_MSR_MON_QMC_DATA_MASK AND PQOS_MSR_MON_QMC_UNAVAILABLE = 0"
      by (simp add: PQOS_MSR_MON_QMC_DATA_MASK_def PQOS_MSR_MON_QMC_UNAVAILABLE_def)
    with data show "mon_evtsel rmid event AND PQOS_MSR_MON_QMC_UNAVAILABLE = 0"
      by (metis and.assoc and_zero_eq)
  qed
  have "mon_read_loop E l (mon_evtsel rmid event) (Suc 3) True s = (Some (mon_evtsel rmid event), w)"
    by (simp only: mon_read_loop.simps) (simp add: assms sel)
  then show ?thesis by (simp add: hw_mon_read_def sel)
qed

theorem mon_read_error_as_data_witness:
  "fst (hw_mon_read ref_platform 3 2 1 qmc_lib) = Inr 0x200000001"
proof -
  let ?w = "msr_write ref_platform 3 PQOS_MSR_MON_EVTSEL (mon_evtsel 2 1) qmc_lib"
  let ?q = "msr_read ref_platform 3 PQOS_MSR_MON_QMC (snd ?w)"
  let ?e = "msr_read ref_platform 3 PQOS_MSR_MON_EVTSEL (snd ?q)"
  have "fst ?w = MACHINE_RETVAL_OK" "fst ?q = Inr PQOS_MSR_MON_QMC_ERROR" "fst ?e = Inr (mon_evtsel 2 1)" by code_simp+
  then have "?w = (MACHINE_RETVAL_OK, snd ?w)" "?q = (Inr PQOS_MSR_MON_QMC_ERROR, snd ?q)" "?e = (Inr (mon_evtsel 2 1), snd ?e)"
    by (metis prod.collapse)+
  from mon_read_error_as_data [OF this(1,2) _ this(3)] have "fst (hw_mon_read ref_platform 3 2 1 qmc_lib) = Inr (mon_evtsel 2 1)"
    by (simp add: PQOS_MSR_MON_QMC_ERROR_def)
  moreover have "mon_evtsel 2 1 = 0x200000001" by code_simp
  ultimately show ?thesis by simp
qed

text \<open>
  The remote bandwidth of a poll is the difference of total and local bandwidth modulo the
  counter width, and its reported difference is never negative: it is the part by which the
  total exceeds the local one.
\<close>

theorem remote_bandwidth:
  assumes "pqos_cap_get_event (Some cap) PQOS_MON_EVENT_RMEM_BW = Inr m" and "unat (ev_counter_length m) = n" and "n < 64"
    and "uint (mbm_total (mg_values g)) < 2 ^ n" and "uint (mbm_local (mg_values g)) < 2 ^ n"
    and "has_event (mg_event g) PQOS_MON_EVENT_RMEM_BW"
  shows "\<exists>g'. poll_virtual cap g = (PQOS_RETVAL_OK, g') \<and> mg_valid_mbm_read g' \<and>
    uint (mbm_remote (mg_values g')) = (uint (mbm_total (mg_values g)) - uint (mbm_local (mg_values g))) mod 2 ^ n \<and>
    uint (mbm_remote_delta (mg_values g')) = max 0 (uint (mbm_total_delta (mg_values g)) - uint (mbm_local_delta (mg_values g)))"
proof -
  let ?t = "mbm_total (mg_values g)" and ?l = "mbm_local (mg_values g)"
  have "(0 :: u64) < 2 ^ n" using assms(3) by (simp add: word_less_def uint_exp)
  then have val: "uint (remote_value (2 ^ n) ?t ?l) = (uint ?t - uint ?l) mod 2 ^ n"
    using wrap_down [OF assms(3,5,4)] wrap_up [OF assms(4)] by (auto simp: remote_value_def not_less)
  have sub: "uint (a - b) = uint a - uint b" if "b < a" for a b :: u64
    using less_imp_le [OF that] by (simp add: uint_minus_simple_alt)
  let ?v = "mg_values g"
  have delta: "uint (if mbm_local_delta ?v < mbm_total_delta ?v then mbm_total_delta ?v - mbm_local_delta ?v else 0) =
      max 0 (uint (mbm_total_delta ?v) - uint (mbm_local_delta ?v))"
    using sub [of "mbm_local_delta ?v" "mbm_total_delta ?v"] by (auto simp: word_less_def max_def)
  show ?thesis
    using val delta by (auto simp: poll_virtual_def poll_remote_def poll_ipc_def poll_power_def Let_def assms(1,2,6)
        split: prod.splits)
qed

theorem remote_bandwidth_witness:
  "uint (mbm_remote (mg_values (snd (poll_virtual [CapMon qmc_mon] qmc_group)))) = (5 - 16777214) mod 2 ^ 24"
proof -
  have "pqos_cap_get_event (Some [CapMon qmc_mon]) PQOS_MON_EVENT_RMEM_BW = Inr (qmc_event\<lparr>ev_type := PQOS_MON_EVENT_RMEM_BW\<rparr>)"
    by (simp add: pqos_cap_get_event_def pqos_cap_get_type_def qmc_mon_def qmc_event_def event_defs)
  from remote_bandwidth [OF this, of 24 qmc_group] show ?thesis
    by (auto simp: qmc_event_def qmc_group_def event_defs)
qed

end
