(* ===== verification/MonLife.thy ===== *)
theory MonLife
  imports MonAssoc MonCounters
begin

text \<open>
  The life of a core group on the MSR interface: what a successful start gives its cores and
  what a stop takes back, whether its performance counters belong to the kernel (perf descriptors)
  or are programmed through registers.
\<close>

section \<open>Allocation\<close>

text \<open>
  The contract of a start: every core has a nonzero RMID that no core of its cluster
  had before, cores at the same place share it.
\<close>

definition group_rmids_ok ::
  "('h \<Rightarrow> u32 \<Rightarrow> u32 \<Rightarrow> u64 option) \<Rightarrow> pqos_cap_mon \<Rightarrow> u32 list \<Rightarrow> 'h lib \<Rightarrow> 'h lib \<Rightarrow> bool" where
  "group_rmids_ok regs mon ls s t \<longleftrightarrow>
     (\<forall>l\<in>set ls. \<exists>r cluster n. core_rmid regs t l = Some r \<and> r \<noteq> 0 \<and> range_key mon (m_cpu s) l = Some (cluster, n) \<and>
        \<not> rmid_in_cluster regs cluster s r) \<and>
     (\<forall>l\<in>set ls. \<forall>k\<in>set ls. range_key mon (m_cpu s) l = range_key mon (m_cpu s) k \<longrightarrow> core_rmid regs t l = core_rmid regs t k)"

text \<open>What no step of a core group changes: the targets and events the caller chose.\<close>

definition same_targets :: "pqos_mon_data \<Rightarrow> pqos_mon_data \<Rightarrow> bool" where
  "same_targets g g' \<longleftrightarrow> mg_event g' = mg_event g \<and> mg_cores g' = mg_cores g \<and> mg_channels g' = mg_channels g \<and>
     mg_sockets g' = mg_sockets g"

lemma fst_set_zip: "length rs = length ls \<Longrightarrow> fst ` set (zip ls rs) = set ls"
  by (metis map_fst_zip set_map)

context msr_driver begin

lemma assoc_entries:
  assumes wf: "machine_wf core_of s" and run: "assoc_loop E (zip ls rs) s = (PQOS_RETVAL_OK, t)"
    and en: "entries_ok regs M mon s0 qs" and len: "length rs = length ls"
    and all: "\<forall>(l, r)\<in>set (zip ls rs). \<exists>q\<in>set qs. range_key mon cpu l = Some (entry_key q) \<and> entry_rmid q = r"
    and max: "m_rmid_max M \<le> 1024" and l: "l \<in> set ls"
  shows "\<exists>q\<in>set qs. range_key mon cpu l = Some (entry_key q) \<and> core_rmid regs t l = Some (entry_rmid q)"
proof -
  have "l \<in> fst ` set (zip ls rs)" using l len by (simp add: fst_set_zip)
  then obtain r where r: "(l, r) \<in> set (zip ls rs)" "core_rmid regs t l = Some (take_bit 10 r)"
    using bspec [OF mp [OF conjunct2 [OF conjunct2 [OF assoc_loop_facts [OF wf run]]] refl]] by blast
  obtain q where q: "q \<in> set qs" "range_key mon cpu l = Some (entry_key q)" "entry_rmid q = r"
    using bspec [OF all r(1)] by auto
  with en have "r < m_rmid_max M" by (auto simp: entries_ok_def list_all_iff entry_ok_def)
  from take_bit_small [OF less_le_trans [OF this max]] have "take_bit 10 r = r" .
  with q r show ?thesis by auto
qed

lemma start_counter_facts:
  assumes wf: "machine_wf core_of s" and run: "hw_mon_start_counter E M event g s = (ret, g', t)"
  shows "rmid_frame core_of regs (set (mg_cores g)) s t \<and>
    same_targets g g' \<and>
    (ret = PQOS_RETVAL_OK \<and> m_rmid_max M \<le> 1024 \<longrightarrow>
       (\<exists>mon. cap_get_type_or_null (m_cap s) PQOS_CAP_TYPE_MON = Some mon \<and> group_rmids_ok regs (u_mon mon) (mg_cores g) s t))"
proof (cases "cap_get_type_or_null (m_cap s) PQOS_CAP_TYPE_MON")
  case None
  with wf run have "ret = PQOS_RETVAL_ERROR" "t = s" "g' = g" by (auto simp: hw_mon_start_counter_def)
  with wf show ?thesis by (auto simp: same_targets_def intro: rmid_frame_same)
next
  case (Some cap)
  let ?mon = "u_mon cap"
  obtain x u where al: "alloc_loop E M ?mon (event AND MON_CTX_EVENTS) (mg_cores g) [] [] s = (x, u)" by fastforce
  have "entries_ok regs M ?mon s []" by (simp add: entries_ok_def)
  note f = alloc_loop_facts [OF wf this, where c2r = "[]", simplified, OF al]
  note fu = rmid_frameD [OF conjunct1 [OF f]]
  show ?thesis
  proof (cases x)
    case (Inl e)
    with run Some al f have "ret \<noteq> PQOS_RETVAL_OK" "t = u" "g' = g" by (auto simp: hw_mon_start_counter_def)
    with f show ?thesis
      by (auto simp: same_targets_def intro: rmid_frame_mono)
  next
    case (Inr p)
    obtain ctxs c2r where p: "p = (ctxs, c2r)" by fastforce
    from f Inr p obtain qs where qs: "entries_ok regs M ?mon s qs" "length c2r = length (mg_cores g)"
      "\<forall>(l, r)\<in>set (zip (mg_cores g) c2r). \<exists>q\<in>set qs. range_key ?mon (m_cpu s) l = Some (entry_key q) \<and> entry_rmid q = r"
      by auto
    obtain ret1 v where as: "assoc_loop E (zip (mg_cores g) c2r) u = (ret1, v)" by fastforce
    note af = assoc_loop_facts [OF fu(1) as]
    have dom: "fst ` set (zip (mg_cores g) c2r) = set (mg_cores g)"
      using qs(2) by (simp add: fst_set_zip)
    have fr: "rmid_frame core_of regs (set (mg_cores g)) s v"
      using rmid_frame_trans [OF conjunct1 [OF f] conjunct1 [OF af]] dom by simp
    show ?thesis
    proof (cases "ret1 = PQOS_RETVAL_OK")
      case False
      obtain ret2 w where rs: "rmid_reset_loop E (mg_cores g) PQOS_RETVAL_OK v = (ret2, w)" by fastforce
      with run Some al Inr p as False have "ret \<noteq> PQOS_RETVAL_OK" "t = w" "g' = g"
        by (auto simp: hw_mon_start_counter_def)
      moreover have "rmid_frame core_of regs (set (mg_cores g)) s w"
        using rmid_frame_trans [OF fr conjunct1 [OF rmid_reset_loop_facts [OF rmid_frameD(1) [OF fr] rs]]] by simp
      ultimately show ?thesis by (auto simp: same_targets_def)
    next
      case True
      with run Some al Inr p as
      have t: "t = v" and g': "g' = g\<lparr>mg_hw_ctx := ctxs, mg_hw_event := mg_hw_event g OR (event AND MON_CTX_EVENTS)\<rparr>"
        by (auto simp: hw_mon_start_counter_def)
      have "group_rmids_ok regs ?mon (mg_cores g) s t" if "m_rmid_max M \<le> 1024"
      proof -
        note ent = assoc_entries [OF fu(1) as [unfolded True] qs(1,2,3) that]
        have inj: "q = q'" if "q \<in> set qs" "q' \<in> set qs" "entry_key q = entry_key q'" for q q'
          using qs(1) that by (auto simp: entries_ok_def distinct_map dest: inj_onD)
        have own: "\<exists>r cluster n. core_rmid regs v l = Some r \<and> r \<noteq> 0 \<and> range_key ?mon (m_cpu s) l = Some (cluster, n) \<and>
            \<not> rmid_in_cluster regs cluster s r" if "l \<in> set (mg_cores g)" for l
          using ent [OF that] qs(1) by (fastforce simp: entries_ok_def list_all_iff entry_ok_def)
        have share: "core_rmid regs v l = core_rmid regs v k"
          if "l \<in> set (mg_cores g)" "k \<in> set (mg_cores g)" "range_key ?mon (m_cpu s) l = range_key ?mon (m_cpu s) k" for l k
          using ent [OF that(1)] ent [OF that(2)] that(3) inj by fastforce
        show ?thesis unfolding group_rmids_ok_def t using own share by blast
      qed
      with fr t g' Some show ?thesis by (auto simp: same_targets_def)
    qed
  qed
qed

end

section \<open>Start and stop\<close>

text \<open>
  Like \<open>rmid_frame\<close>, but other registers than the association register may change: the
  performance counters are programmed.
\<close>

definition assoc_frame ::
  "('h \<Rightarrow> int \<Rightarrow> u32 option) \<Rightarrow> ('h \<Rightarrow> u32 \<Rightarrow> u32 \<Rightarrow> u64 option) \<Rightarrow> u32 set \<Rightarrow> 'h lib \<Rightarrow> 'h lib \<Rightarrow> bool" where
  "assoc_frame core_of regs L s t \<longleftrightarrow>
     machine_wf core_of t \<and> same_config s t \<and>
     (\<forall>l. l \<notin> L \<longrightarrow> regs (m_hw t) l PQOS_MSR_ASSOC = regs (m_hw s) l PQOS_MSR_ASSOC) \<and>
     (\<forall>l. map_option clos_field (regs (m_hw t) l PQOS_MSR_ASSOC) = map_option clos_field (regs (m_hw s) l PQOS_MSR_ASSOC))"

lemma rmid_assoc_frame: "rmid_frame core_of regs L s t \<Longrightarrow> assoc_frame core_of regs L s t"
  by (simp add: rmid_frame_def assoc_frame_def)

lemma assoc_frame_refl: "machine_wf core_of s \<Longrightarrow> assoc_frame core_of regs L s s"
  by (simp add: assoc_frame_def)

lemma assoc_frame_trans [trans]:
  "assoc_frame core_of regs L s t \<Longrightarrow> assoc_frame core_of regs K t u \<Longrightarrow> assoc_frame core_of regs (L \<union> K) s u"
  by (auto simp: assoc_frame_def intro: same_config_trans)

lemma assoc_frameD:
  assumes "assoc_frame core_of regs L s t"
  shows "machine_wf core_of t" and "same_config s t" and "l \<notin> L \<Longrightarrow> core_rmid regs t l = core_rmid regs s l"
  using assms by (simp_all add: assoc_frame_def core_rmid_def)

lemma assoc_frame_all_rmids: "assoc_frame core_of regs {} s t \<Longrightarrow> core_rmid regs t = core_rmid regs s"
  using assoc_frameD(3) by blast

lemma ia32_not_assoc: "(r, v) \<in> set (ia32_program event) \<Longrightarrow> r \<noteq> PQOS_MSR_ASSOC"
  by (auto simp: ia32_program_def IA32_MSR_PERF_GLOBAL_CTRL_def IA32_MSR_INST_RETIRED_ANY_def IA32_MSR_CPU_UNHALTED_THREAD_def
      IA32_MSR_FIXED_CTR_CTRL_def IA32_MSR_PMC0_def IA32_MSR_PMC1_def IA32_MSR_PERFEVTSEL0_def IA32_MSR_PERFEVTSEL1_def
      PQOS_MSR_ASSOC_def split: if_splits)

text \<open>
  What the kernel promises of its perf descriptors: opening and closing one leaves the association registers and the
  descriptors of the MSR files alone. The counters that it programs are other registers.
\<close>

locale perf_kernel = msr_driver E core_of regs
  for E :: "'h platform" and core_of :: "'h \<Rightarrow> int \<Rightarrow> u32 option" and regs :: "'h \<Rightarrow> u32 \<Rightarrow> u32 \<Rightarrow> u64 option" +
  fixes P :: "'h perf_os"
  assumes perf_open_keeps: "sys_perf_open P event pid cpu h = (fd, h') \<Longrightarrow>
      core_of h' = core_of h \<and> (\<forall>l. regs h' l PQOS_MSR_ASSOC = regs h l PQOS_MSR_ASSOC)"
    and perf_close_keeps: "sys_perf_close P fd h = (ret, h') \<Longrightarrow>
      core_of h' = core_of h \<and> (\<forall>l. regs h' l PQOS_MSR_ASSOC = regs h l PQOS_MSR_ASSOC)"

context msr_driver begin

lemma other_write_frame:
  assumes "machine_wf core_of s" and "msr_write E l r v s = (m, t)" and "r \<noteq> PQOS_MSR_ASSOC"
  shows "assoc_frame core_of regs {} s t"
  using write_facts(1,3) [OF assms(1,2)] msr_write_keeps [OF assms(2)] assms(3) by (simp add: assoc_frame_def)

lemma any_read_frame:
  assumes "machine_wf core_of s" and "msr_read E l r s = (x, t)"
  shows "assoc_frame core_of regs {} s t"
  using read_facts(1,2) [OF assms(1,2)] msr_read_keeps [OF assms(2)] by (simp add: assoc_frame_def)

lemma msr_writes_frame:
  assumes "machine_wf core_of s" and "msr_writes E l ws s = (ret, t)" and "\<And>r v. (r, v) \<in> set ws \<Longrightarrow> r \<noteq> PQOS_MSR_ASSOC"
  shows "assoc_frame core_of regs {} s t"
  using assms
proof (induction ws arbitrary: s)
  case (Cons w ws)
  obtain r v where w: "w = (r, v)" by fastforce
  obtain m u where wr: "msr_write E l r v s = (m, u)" by fastforce
  have f: "assoc_frame core_of regs {} s u" using other_write_frame [OF Cons.prems(1) wr] Cons.prems(3) w by auto
  show ?case
  proof (cases "m = MACHINE_RETVAL_OK")
    case True
    with Cons.prems(2) w wr have "msr_writes E l ws u = (ret, t)" by simp
    from Cons.IH [OF assoc_frameD(1) [OF f] this] Cons.prems(3) have "assoc_frame core_of regs {} u t" by auto
    from assoc_frame_trans [OF f this] show ?thesis by simp
  qed (use Cons.prems(2) w wr f in auto)
qed (auto intro: assoc_frame_refl)

lemma ia32_check_frame:
  "machine_wf core_of s \<Longrightarrow> ia32_check_loop E ls s = (ret, t) \<Longrightarrow> assoc_frame core_of regs {} s t"
proof (induction ls arbitrary: s)
  case (Cons l ls)
  obtain x u where rd: "msr_read E l IA32_MSR_PERF_GLOBAL_CTRL s = (x, u)" by fastforce
  note f = any_read_frame [OF Cons.prems(1) rd]
  show ?case
    using Cons.prems(2) rd f Cons.IH [OF assoc_frameD(1) [OF f]] assoc_frame_trans [OF f, of "{}" t]
    by (auto split: sum.splits)
qed (auto intro: assoc_frame_refl)

lemma ia32_program_frame:
  "machine_wf core_of s \<Longrightarrow> ia32_program_loop E event ls s = (ret, t) \<Longrightarrow> assoc_frame core_of regs {} s t"
proof (induction ls arbitrary: s)
  case (Cons l ls)
  obtain r u where wr: "msr_writes E l (ia32_program event) s = (r, u)" by fastforce
  have f: "assoc_frame core_of regs {} s u" by (rule msr_writes_frame [OF Cons.prems(1) wr]) (rule ia32_not_assoc)
  show ?case
    using Cons.prems(2) wr f Cons.IH [OF assoc_frameD(1) [OF f]] assoc_frame_trans [OF f, of "{}" t]
    by (auto split: if_splits)
qed (auto intro: assoc_frame_refl)

lemma ia32_stop_frame:
  "machine_wf core_of s \<Longrightarrow> ia32_stop_loop E ls retval s = (ret, t) \<Longrightarrow> assoc_frame core_of regs {} s t"
proof (induction ls arbitrary: s retval)
  case (Cons l ls)
  obtain m u where wr: "msr_write E l IA32_MSR_PERF_GLOBAL_CTRL 0 s = (m, u)" by fastforce
  have f: "assoc_frame core_of regs {} s u"
    by (rule other_write_frame [OF Cons.prems(1) wr]) (simp add: IA32_MSR_PERF_GLOBAL_CTRL_def PQOS_MSR_ASSOC_def)
  show ?case
    using Cons.prems(2) wr f Cons.IH [OF assoc_frameD(1) [OF f]] assoc_frame_trans [OF f, of "{}" t] by auto
qed (auto intro: assoc_frame_refl)

lemma check_cores_facts:
  assumes "machine_wf core_of s" and "check_cores_loop E ls s = (ret, t)"
  shows "rmid_frame core_of regs {} s t \<and> core_rmid regs t = core_rmid regs s \<and>
    (ret = PQOS_RETVAL_OK \<longrightarrow> (\<forall>l\<in>set ls. core_rmid regs s l = Some 0))"
  using assms
proof (induction ls arbitrary: s)
  case Nil
  then show ?case by (auto intro: rmid_frame_same)
next
  case (Cons l ls)
  obtain x u where rd: "mon_assoc_read E l s = (x, u)" by fastforce
  note f = mon_read_frame [OF Cons.prems(1) rd]
  show ?case
    using Cons.prems rd f Cons.IH [OF rmid_frameD(1) [OF f(1)]] rmid_frame_trans [OF f(1), of "{}" t]
    by (auto simp: RMID0_def intro: rmid_frame_same split: if_splits sum.splits)
qed

lemma check_ctxs_frame:
  assumes "machine_wf core_of s" and "check_ctxs_loop E cs s = (ret, t)"
  shows "rmid_frame core_of regs {} s t"
  using assms
proof (induction cs arbitrary: s)
  case (Cons c cs)
  obtain x u where rd: "mon_assoc_read E (ctx_lcore c) s = (x, u)" by fastforce
  note f = mon_read_frame [OF Cons.prems(1) rd]
  show ?case
    using Cons.prems rd f Cons.IH [OF rmid_frameD(1) [OF f(1)]] rmid_frame_trans [OF f(1), of "{}" t]
    by (auto intro: rmid_frame_same split: if_splits sum.splits)
qed (auto intro: rmid_frame_same)

end

context perf_kernel begin

lemma hw_frame:
  assumes "machine_wf core_of s" and "core_of h = core_of (m_hw s)" and "\<And>l. regs h l PQOS_MSR_ASSOC = regs (m_hw s) l PQOS_MSR_ASSOC"
  shows "assoc_frame core_of regs {} s (s\<lparr>m_hw := h\<rparr>)"
  using assms by (auto simp: assoc_frame_def machine_wf_def same_config_def split: option.splits)

lemma perf_setup_frame:
  "machine_wf core_of s \<Longrightarrow> perf_setup_counter P event pid cpu s = (x, t) \<Longrightarrow> assoc_frame core_of regs {} s t"
  by (auto simp: perf_setup_counter_def split: prod.splits dest!: perf_open_keeps intro!: hw_frame)

lemma perf_shutdown_frame:
  "machine_wf core_of s \<Longrightarrow> perf_shutdown_counter P fd s = (ret, t) \<Longrightarrow> assoc_frame core_of regs {} s t"
  by (auto simp: perf_shutdown_counter_def split: prod.splits if_splits dest!: perf_close_keeps intro!: hw_frame assoc_frame_refl)

lemma perf_start_loop_frame:
  "machine_wf core_of s \<Longrightarrow> perf_start_loop P event ts ctxs s = (ret, ctxs', t) \<Longrightarrow> assoc_frame core_of regs {} s t"
proof (induction ts arbitrary: ctxs s ret ctxs' t)
  case (Cons target ts)
  obtain tid core where target: "target = (tid, core)" by fastforce
  show ?case
  proof (cases ctxs)
    case Nil
    with Cons.prems target show ?thesis by (auto intro: assoc_frame_refl)
  next
    case ctxs: (Cons ctx rest)
    obtain x u where st: "perf_setup_counter P event tid core s = (x, u)" by fastforce
    note f = perf_setup_frame [OF Cons.prems(1) st]
    obtain ret1 rest1 v where loop: "perf_start_loop P event ts rest u = (ret1, rest1, v)" by (metis prod_cases3)
    from assoc_frame_trans [OF f Cons.IH [OF assoc_frameD(1) [OF f] loop]] f Cons.prems target ctxs st loop show ?thesis
      by (auto intro: assoc_frame_refl split: if_splits sum.splits)
  qed
qed (auto intro: assoc_frame_refl)

lemma perf_mon_start_facts:
  assumes "machine_wf core_of s" and "perf_mon_start P event g s = (ret, g', t)"
  shows "assoc_frame core_of regs {} s t \<and> same_targets g g'"
  using assms assoc_frame_refl [OF assms(1)]
  by (auto simp: perf_mon_start_def same_targets_def split: if_splits prod.splits dest: perf_start_loop_frame)

lemma start_perf_loop_facts:
  "machine_wf core_of s \<Longrightarrow> start_perf_loop P supported event evts hw_event g s = (x, g', t) \<Longrightarrow>
     assoc_frame core_of regs {} s t \<and> same_targets g g'"
proof (induction evts arbitrary: hw_event g s)
  case (Cons evt evts)
  show ?case
  proof (cases "has_event event evt \<and> supported evt")
    case False
    with Cons show ?thesis by (auto split: if_splits)
  next
    case True
    obtain ret g1 u where st: "perf_mon_start P evt g s = (ret, g1, u)" by (metis prod_cases3)
    note f = perf_mon_start_facts [OF Cons.prems(1) st]
    show ?thesis
    proof (cases "ret = PQOS_RETVAL_OK")
      case False
      with True Cons.prems(2) st f show ?thesis by simp
    next
      case ok: True
      with True Cons.prems(2) st
      have "start_perf_loop P supported event evts hw_event (g1\<lparr>mg_perf_event := mg_perf_event g1 OR evt\<rparr>) u = (x, g', t)" by simp
      from Cons.IH [OF assoc_frameD(1) [OF conjunct1 [OF f]] this] f assoc_frame_trans [of core_of regs "{}" s u "{}" t] show ?thesis
        by (auto simp: same_targets_def)
    qed
  qed
qed (auto intro: assoc_frame_refl simp: same_targets_def)

lemma start_perf_facts:
  assumes wf: "machine_wf core_of s" and run: "mon_start_perf E P supported event g s = (ret, g', t)"
  shows "assoc_frame core_of regs {} s t \<and> same_targets g g'"
proof -
  let ?g = "g\<lparr>mg_perf_ctx := Some (replicate (length (mg_cores g)) new_perf_ctx)\<rparr>"
  obtain x g1 s1 where loop: "start_perf_loop P supported event perf_event_list 0 ?g s = (x, g1, s1)" by (metis prod_cases3)
  note f = start_perf_loop_facts [OF wf loop]
  show ?thesis
  proof (cases x)
    case (Inl e)
    with run loop f show ?thesis by (simp add: mon_start_perf_def same_targets_def)
  next
    case (Inr hw)
    let ?g1 = "if mg_perf_event g1 = 0 then g1\<lparr>mg_perf_ctx := None\<rparr> else g1"
    obtain r1 u where chk: "ia32_check_loop E (mg_cores g1) s1 = (r1, u)" by fastforce
    note f1 = ia32_check_frame [OF assoc_frameD(1) [OF conjunct1 [OF f]] chk]
    obtain r2 v where pr: "ia32_program_loop E hw (mg_cores g1) u = (r2, v)" by fastforce
    note f2 = ia32_program_frame [OF assoc_frameD(1) [OF f1] pr]
    note fu = assoc_frame_trans [OF conjunct1 [OF f] f1, simplified]
    note fv = assoc_frame_trans [OF fu f2, simplified]
    show ?thesis
      using run loop Inr chk pr f fu fv
      by (auto simp: mon_start_perf_def Let_def ia32_perf_counter_start_def same_targets_def split: if_splits)
  qed
qed

lemma perf_stop_loop_frame:
  "machine_wf core_of s \<Longrightarrow> perf_stop_loop P event ctxs s = (ret, t) \<Longrightarrow> assoc_frame core_of regs {} s t"
proof (induction ctxs arbitrary: s)
  case (Cons ctx ctxs)
  show ?case
  proof (cases "perf_mon_get_fd event ctx")
    case None
    with Cons.prems show ?thesis by (auto intro: assoc_frame_refl)
  next
    case (Some fd)
    obtain r u where cl: "perf_shutdown_counter P fd s = (r, u)" by fastforce
    note f = perf_shutdown_frame [OF Cons.prems(1) cl]
    from Cons.prems(2) Some cl have "perf_stop_loop P event ctxs u = (ret, t)" by simp
    from assoc_frame_trans [OF f Cons.IH [OF assoc_frameD(1) [OF f] this]] show ?thesis by simp
  qed
qed (auto intro: assoc_frame_refl)

lemma stop_perf_loop_frame:
  "machine_wf core_of s \<Longrightarrow> stop_perf_loop P g evts hw_event s = (x, t) \<Longrightarrow> assoc_frame core_of regs {} s t"
proof (induction evts arbitrary: hw_event s)
  case (Cons evt evts)
  obtain r u where st: "perf_mon_stop P evt g s = (r, u)" by fastforce
  have f: "assoc_frame core_of regs {} s u"
    using st Cons.prems(1) by (auto simp: perf_mon_stop_def split: if_splits intro: assoc_frame_refl perf_stop_loop_frame)
  from Cons.prems st f Cons.IH [OF assoc_frameD(1) [OF f]] Cons.IH [OF Cons.prems(1)] assoc_frame_trans [OF f, of "{}" t] show ?case
    by (auto split: if_splits)
qed (auto intro: assoc_frame_refl)

lemma stop_perf_facts:
  assumes wf: "machine_wf core_of s" and run: "mon_stop_perf E P g s = (ret, g', t)"
  shows "assoc_frame core_of regs {} s t \<and> same_targets g g'"
proof -
  obtain x s1 where loop: "stop_perf_loop P g perf_event_list 0 s = (x, s1)" by fastforce
  note f = stop_perf_loop_frame [OF wf loop]
  obtain r1 u where st: "ia32_stop_loop E (mg_cores g) PQOS_RETVAL_OK s1 = (r1, u)" by fastforce
  note fu = assoc_frame_trans [OF f ia32_stop_frame [OF assoc_frameD(1) [OF f] st], simplified]
  show ?thesis
    using run loop st f fu
    by (cases x) (auto simp: mon_stop_perf_def ia32_perf_counter_stop_def same_targets_def split: if_splits)
qed

end

lemma group_rmids_cong:
  assumes "same_config s s'" and "core_rmid regs s' = core_rmid regs s"
  shows "group_rmids_ok regs mon ls s' t = group_rmids_ok regs mon ls s t"
  using assms by (simp add: group_rmids_ok_def rmid_in_cluster_def same_configD)

lemma events_started_targets: "events_started g = (ret, g') \<Longrightarrow> same_targets g g'"
  by (auto simp: events_started_def same_targets_def Let_def split: if_splits)

lemma same_targets_trans: "same_targets a b \<Longrightarrow> same_targets b c \<Longrightarrow> same_targets a c"
  by (simp add: same_targets_def)

context perf_kernel begin

lemma start_cores_facts:
  assumes wf: "machine_wf core_of s" and run: "hw_mon_start_cores E P M ls event g s = (PQOS_RETVAL_OK, g', t)"
  shows "assoc_frame core_of regs (set ls) s t \<and> same_targets (g\<lparr>mg_event := event, mg_cores := ls\<rparr>) g' \<and>
    (\<forall>l\<in>set ls. core_rmid regs s l = Some 0) \<and>
    (m_rmid_max M \<le> 1024 \<longrightarrow> (\<exists>mon. cap_get_type_or_null (m_cap s) PQOS_CAP_TYPE_MON = Some mon \<and>
       group_rmids_ok regs (u_mon mon) ls s t))"
proof -
  let ?ev = "expand_ipc (expand_rmem event)" and ?g = "g\<lparr>mg_event := event, mg_cores := ls\<rparr>"
  obtain r1 s1 where c1: "check_cores_loop E ls s = (r1, s1)" by fastforce
  note f1 = check_cores_facts [OF wf c1]
  obtain r2 g2 s2 where c2: "mon_start_perf E P (mm_perf_supported M) ?ev ?g s1 = (r2, g2, s2)" using prod_cases3 by blast
  note f2 = start_perf_facts [OF rmid_frameD(1) [OF conjunct1 [OF f1]] c2]
  obtain r3 g3 s3 where c3: "hw_mon_start_counter E M ?ev g2 s2 = (r3, g3, s3)" using prod_cases3 by blast
  note f3 = start_counter_facts [OF assoc_frameD(1) [OF conjunct1 [OF f2]] c3]
  from run c1 c2 c3 have ok: "r1 = PQOS_RETVAL_OK" "r2 = PQOS_RETVAL_OK" "r3 = PQOS_RETVAL_OK" "t = s3"
    and ev: "events_started g3 = (PQOS_RETVAL_OK, g')"
    by (auto simp: hw_mon_start_cores_def Let_def split: if_splits prod.splits)
  have g2: "mg_cores g2 = ls" using f2 by (simp add: same_targets_def)
  have fr2: "assoc_frame core_of regs {} s s2"
    using assoc_frame_trans [OF rmid_assoc_frame [OF conjunct1 [OF f1]] conjunct1 [OF f2]] by simp
  have fr: "assoc_frame core_of regs (set ls) s t"
    using assoc_frame_trans [OF fr2 rmid_assoc_frame [OF conjunct1 [OF f3]]] g2 ok(4) by simp
  have tg: "same_targets ?g g'"
    using f2 f3 events_started_targets [OF ev] by (blast intro: same_targets_trans)
  have mon: "\<exists>mon. cap_get_type_or_null (m_cap s) PQOS_CAP_TYPE_MON = Some mon \<and> group_rmids_ok regs (u_mon mon) ls s t"
    if "m_rmid_max M \<le> 1024"
    using f3 ok(3,4) that g2 group_rmids_cong [OF assoc_frameD(2) [OF fr2] assoc_frame_all_rmids [OF fr2]]
      same_configD(1) [OF assoc_frameD(2) [OF fr2]] by auto
  show ?thesis using fr tg f1 ok(1) mon by blast
qed

lemma stop_facts:
  assumes wf: "machine_wf core_of s" and run: "hw_mon_stop E P g s = (PQOS_RETVAL_OK, g', t)"
    and none: "mg_channels g = []" "mg_sockets g = []"
  shows "assoc_frame core_of regs (set (mg_cores g)) s t \<and> (\<forall>l\<in>set (mg_cores g). core_rmid regs t l = Some 0)"
proof -
  obtain r1 s1 where c1: "check_ctxs_loop E (mg_hw_ctx g) s = (r1, s1)" by fastforce
  note f1 = check_ctxs_frame [OF wf c1]
  obtain r2 s2 where c2: "rmid_reset_loop E (mg_cores g) PQOS_RETVAL_OK s1 = (r2, s2)" by fastforce
  note f2 = rmid_reset_loop_facts [OF rmid_frameD(1) [OF f1] c2]
  obtain r3 g3 s3 where c3: "mon_stop_perf E P g s2 = (r3, g3, s3)" using prod_cases3 by blast
  note f3 = stop_perf_facts [OF rmid_frameD(1) [OF conjunct1 [OF f2]] c3]
  have g3: "mg_sockets g3 = []" using f3 none(2) by (simp add: same_targets_def)
  have ok: "r2 = PQOS_RETVAL_OK" "t = s3"
    using run c1 c2 c3 none g3
    by (auto simp: hw_mon_stop_def uncore_mon_stop_def Let_def split: if_splits)
  have "assoc_frame core_of regs (set (mg_cores g)) s s2"
    using rmid_assoc_frame [OF rmid_frame_trans [OF f1 conjunct1 [OF f2]]] by simp
  from assoc_frame_trans [OF this conjunct1 [OF f3]] ok(2)
  have fr: "assoc_frame core_of regs (set (mg_cores g)) s t" by simp
  have "core_rmid regs t = core_rmid regs s2" using assoc_frame_all_rmids [OF conjunct1 [OF f3]] ok(2) by simp
  with fr f2 ok(1) show ?thesis by simp
qed

end

section \<open>A sample with monitoring\<close>

definition sample_event :: "u32 \<Rightarrow> pqos_monitor" where
  "sample_event e = \<lparr>ev_type = e, ev_max_rmid = 16, ev_scale_factor = 65536, ev_counter_length = 24, ev_iordt = False\<rparr>"

definition sample_mon :: pqos_cap_mon where
  "sample_mon = \<lparr>mon_max_rmid = 16, mon_l3_size = 32768, mon_iordt = False, mon_iordt_on = False, mon_snc_num = 1,
     mon_snc_mode = PQOS_SNC_LOCAL,
     mon_events = map sample_event [PQOS_MON_EVENT_L3_OCCUP, PQOS_MON_EVENT_LMEM_BW, PQOS_MON_EVENT_TMEM_BW,
       PQOS_MON_EVENT_RMEM_BW, PQOS_PERF_EVENT_LLC_MISS, PQOS_PERF_EVENT_LLC_MISS_PCIE_READ]\<rparr>"

text \<open>Core 1 is already monitored with RMID 1 by someone else.\<close>

definition sample_mon_hw :: ref_hw where
  "sample_mon_hw = (\<lambda>l r. if r = 0xC8F then Some (push_bit 32 2 OR (if l = 1 then 1 else 0)) else None)"

definition sample_mon_lib :: "ref_hw lib" where
  "sample_mon_lib = sample_lib\<lparr>m_cap := [CapMon sample_mon], m_hw := sample_mon_hw\<rparr>"

definition sample_module :: mon_module where
  "sample_module = \<lparr>m_rmid_max = 16, mm_perf_supported = (\<lambda>e. e = PQOS_PERF_EVENT_LLC_MISS), mm_uncore = False, mm_pci_numa = (\<lambda>_ _. None)\<rparr>"

definition no_perf_os :: "'h perf_os" where
  "no_perf_os = \<lparr>sys_perf_open = (\<lambda>_ _ _ h. (- 1, h)), sys_perf_close = (\<lambda>_ h. (0, h)), sys_perf_read = (\<lambda>_ _. None)\<rparr>"

text \<open>A kernel with a perf counter of cache misses for each core; the descriptors are numbered from 100 on.\<close>

definition ref_perf_os :: "'h perf_os" where
  "ref_perf_os = \<lparr>sys_perf_open = (\<lambda>event pid cpu h. (if event = PQOS_PERF_EVENT_LLC_MISS then 100 + cpu else - 1, h)),
     sys_perf_close = (\<lambda>_ h. (0, h)), sys_perf_read = (\<lambda>_ _. Some 7)\<rparr>"

interpretation refperf: perf_kernel ref_platform ref_core_of ref_regs ref_perf_os
  by unfold_locales (auto simp: ref_perf_os_def split: if_splits)

lemma sample_mon_wf: "machine_wf ref_core_of sample_mon_lib"
  by (auto simp: machine_wf_def sample_mon_lib_def less_Suc_eq_0_disj ref_core_of_def ref_core_def)

abbreviation sample_start :: "u32 \<Rightarrow> retval \<times> pqos_mon_data \<times> ref_hw lib" where
  "sample_start event \<equiv> hw_mon_start_cores ref_platform ref_perf_os sample_module [0, 2] event empty_group sample_mon_lib"

abbreviation SAMPLE_EVENTS :: u32 where
  "SAMPLE_EVENTS \<equiv> PQOS_MON_EVENT_L3_OCCUP OR PQOS_PERF_EVENT_LLC_MISS"

lemma sample_start_ok: "fst (sample_start SAMPLE_EVENTS) = PQOS_RETVAL_OK"
  by code_simp

section \<open>Properties\<close>

text \<open>
  A sequence of association writes, of classes and of RMIDs, that stops at the first failure,
  and its specification on pairs of class and RMID.
\<close>

datatype assoc_op = SetClass u32 u32 | SetRmid u32 u32

fun run_assoc :: "'h platform \<Rightarrow> assoc_op list \<Rightarrow> 'h lib \<Rightarrow> retval \<times> 'h lib" where
  "run_assoc E [] s = (PQOS_RETVAL_OK, s)"
| "run_assoc E (q # qs) s =
     (case (case q of SetClass l c \<Rightarrow> hw_alloc_assoc_write E l c s | SetRmid l r \<Rightarrow> mon_assoc_write E l r s) of (ret, s) \<Rightarrow>
        if ret \<noteq> PQOS_RETVAL_OK then (ret, s) else run_assoc E qs s)"

type_synonym assoc_view = "u32 \<Rightarrow> (u32 \<times> u32) option"

definition assoc_view_of :: "('h \<Rightarrow> u32 \<Rightarrow> u32 \<Rightarrow> u64 option) \<Rightarrow> 'h lib \<Rightarrow> assoc_view" where
  "assoc_view_of regs s = (\<lambda>l. map_option (\<lambda>v. (clos_field v, rmid_of v)) (regs (m_hw s) l PQOS_MSR_ASSOC))"

fun spec_assoc :: "assoc_op \<Rightarrow> assoc_view \<Rightarrow> assoc_view" where
  "spec_assoc (SetClass l c) m = m(l := map_option (\<lambda>(_, r). (c, r)) (m l))"
| "spec_assoc (SetRmid l r) m = m(l := map_option (\<lambda>(c, _). (c, r)) (m l))"

fun rmid_fits :: "assoc_op \<Rightarrow> bool" where
  "rmid_fits (SetClass l c) \<longleftrightarrow> True"
| "rmid_fits (SetRmid l r) \<longleftrightarrow> r < 1024"

lemma assoc_op_step:
  assumes "msr_driver E core_of regs" and "machine_wf core_of s" and "rmid_fits q"
    and "(case q of SetClass l c \<Rightarrow> hw_alloc_assoc_write E l c s | SetRmid l r \<Rightarrow> mon_assoc_write E l r s) = (PQOS_RETVAL_OK, t)"
  shows "machine_wf core_of t \<and> assoc_view_of regs t = spec_assoc q (assoc_view_of regs s)"
proof (cases q)
  case (SetClass l c)
  with assms(4) have "hw_alloc_assoc_write E l c s = (PQOS_RETVAL_OK, t)" by simp
  note f = msr_driver.assoc_write_facts [OF assms(1,2) this]
  then show ?thesis using SetClass by (auto simp: assoc_view_of_def fun_eq_iff)
next
  case (SetRmid l r)
  with assms(4) have "mon_assoc_write E l r s = (PQOS_RETVAL_OK, t)" by simp
  note f = msr_driver.mon_write_facts [OF assms(1,2) this]
  then show ?thesis using SetRmid assms(3) by (auto simp: assoc_view_of_def fun_eq_iff)
qed

text \<open>
  C24. Classes and RMIDs are independent although they share a register: a successful sequence
  of class and RMID writes, in any order and on any cores, has the effect of updating the
  written component of the core's pair of class and RMID, one write after the other.
\<close>

theorem assoc_sequence:
  assumes "msr_driver E core_of regs" and "machine_wf core_of s" and "list_all rmid_fits qs"
    and "run_assoc E qs s = (PQOS_RETVAL_OK, t)"
  shows "assoc_view_of regs t = fold spec_assoc qs (assoc_view_of regs s)"
  using assms(2-4)
proof (induction qs arbitrary: s)
  case (Cons q qs)
  obtain ret u where st: "(case q of SetClass l c \<Rightarrow> hw_alloc_assoc_write E l c s | SetRmid l r \<Rightarrow> mon_assoc_write E l r s) = (ret, u)"
    by fastforce
  with Cons.prems(3) have ok: "ret = PQOS_RETVAL_OK" and run: "run_assoc E qs u = (PQOS_RETVAL_OK, t)"
    by (auto split: if_splits)
  have "machine_wf core_of u \<and> assoc_view_of regs u = spec_assoc q (assoc_view_of regs s)"
    by (rule assoc_op_step [OF assms(1) Cons.prems(1) _ st [unfolded ok]]) (use Cons.prems(2) in simp)
  with Cons.IH [OF _ _ run] Cons.prems(2) show ?case by simp
qed simp

theorem assoc_sequence_witness:
  "assoc_view_of ref_regs (snd (run_assoc ref_platform [SetRmid 0 5, SetClass 0 3, SetRmid 1 7] sample_lib)) 0 = Some (3, 5)"
proof -
  let ?r = "run_assoc ref_platform [SetRmid 0 5, SetClass 0 3, SetRmid 1 7] sample_lib"
  have "fst ?r = PQOS_RETVAL_OK" by code_simp
  then have run: "?r = (PQOS_RETVAL_OK, snd ?r)" by (metis prod.collapse)
  have init: "assoc_view_of ref_regs sample_lib 0 = Some (0, 0)" by code_simp
  from assoc_sequence [OF refdrv.msr_driver_axioms sample_wf _ run] init show ?thesis by simp
qed

text \<open>
  C26. A free RMID is the lowest free one: when no channels are monitored, the answer of
  \<open>hw_mon_assoc_unused\<close> is the least RMID that is not 0, not below the range and not in
  use by a core of the L3 cluster; it is inside the range and below the number of RMIDs, and
  the search changes no register.
\<close>

theorem unused_rmid_least:
  assumes "msr_driver E core_of regs" and "machine_wf core_of s" and "\<not> channels_monitored s"
    and "hw_mon_assoc_unused E M cluster event rmid_min rmid_max s = (Inr r, t)"
  shows "r = (LEAST q. 0 < q \<and> rmid_min \<le> q \<and> \<not> rmid_in_cluster regs cluster s q) \<and> r \<le> rmid_max \<and> r < m_rmid_max M \<and>
    regs (m_hw t) = regs (m_hw s)"
proof -
  note f = msr_driver.mon_unused_facts [OF assms(1,2,4)]
  from f have r: "0 < r" "rmid_min \<le> r" "r \<le> rmid_max" "r < m_rmid_max M" "\<not> rmid_in_cluster regs cluster s r"
    and low: "\<And>q. 0 < q \<Longrightarrow> rmid_min \<le> q \<Longrightarrow> q < r \<Longrightarrow> rmid_in_cluster regs cluster s q" using assms(3) by auto
  have "(LEAST q. 0 < q \<and> rmid_min \<le> q \<and> \<not> rmid_in_cluster regs cluster s q) = r"
    using r low by (intro Least_equality) (auto simp: not_le [symmetric])
  moreover have "regs (m_hw t) = regs (m_hw s)" using f by (auto simp: rmid_frame_def fun_eq_iff)
  ultimately show ?thesis using r by simp
qed

theorem unused_rmid_least_witness:
  "(LEAST q :: u32. 0 < q \<and> 1 \<le> q \<and> \<not> rmid_in_cluster ref_regs 0 sample_mon_lib q) = 2"
proof -
  let ?r = "hw_mon_assoc_unused ref_platform sample_module 0 1 1 15 sample_mon_lib"
  have "fst ?r = Inr 2" by code_simp
  then have run: "?r = (Inr 2, snd ?r)" by (metis prod.collapse)
  have "\<not> channels_monitored sample_mon_lib" by (simp add: channels_monitored_def sample_mon_lib_def)
  from unused_rmid_least [OF refdrv.msr_driver_axioms sample_mon_wf this run] show ?thesis by simp
qed

text \<open>
  C6. A started group is alone with its RMIDs: on a machine with at most 1024 RMIDs (the width of the RMID field of the association
  register), and whichever events are counted by the kernel's perf descriptors, after a successful \<open>hw_mon_start_cores\<close> every core of
  the group has an RMID other than 0, cores of the group at the same place (cluster and, with
  sub-NUMA clusters, node) share it, and no core of the same L3 cluster outside the group has
  it. The associations of all other cores and the classes of all cores are as before.
\<close>

theorem start_cores_isolated:
  assumes "perf_kernel E core_of regs P" and "machine_wf core_of s" and "m_rmid_max M \<le> 1024"
    and "hw_mon_start_cores E P M ls event g s = (PQOS_RETVAL_OK, g', t)"
  shows "(\<forall>l\<in>set ls. core_rmid regs t l \<notin> {None, Some 0} \<and>
      (\<forall>c\<in>set (cores (m_cpu s)). lcore c \<notin> set ls \<and> pqos_cpu_get_clusterid (Some (m_cpu s)) l = Inr (l3_id c) \<longrightarrow>
         core_rmid regs t (lcore c) \<noteq> core_rmid regs t l)) \<and>
    (\<exists>mon. pqos_cap_get_type (Some (m_cap s)) PQOS_CAP_TYPE_MON = Inr mon \<and>
      (\<forall>l\<in>set ls. \<forall>k\<in>set ls. range_key (u_mon mon) (m_cpu s) l = range_key (u_mon mon) (m_cpu s) k \<longrightarrow>
         core_rmid regs t l = core_rmid regs t k)) \<and>
    (\<forall>l. l \<notin> set ls \<longrightarrow> regs (m_hw t) l PQOS_MSR_ASSOC = regs (m_hw s) l PQOS_MSR_ASSOC) \<and>
    (\<forall>l. map_option clos_field (regs (m_hw t) l PQOS_MSR_ASSOC) = map_option clos_field (regs (m_hw s) l PQOS_MSR_ASSOC))"
proof -
  note f = perf_kernel.start_cores_facts [OF assms(1,2,4)]
  from f assms(3) obtain mon where fr: "assoc_frame core_of regs (set ls) s t"
    and mon: "cap_get_type_or_null (m_cap s) PQOS_CAP_TYPE_MON = Some mon"
    and gr: "group_rmids_ok regs (u_mon mon) ls s t" by auto
  have own: "core_rmid regs t l \<notin> {None, Some 0} \<and>
      (\<forall>c\<in>set (cores (m_cpu s)). lcore c \<notin> set ls \<and> pqos_cpu_get_clusterid (Some (m_cpu s)) l = Inr (l3_id c) \<longrightarrow>
         core_rmid regs t (lcore c) \<noteq> core_rmid regs t l)" if l: "l \<in> set ls" for l
  proof -
    from bspec [OF conjunct1 [OF gr [unfolded group_rmids_ok_def]] l] obtain r cluster n where r: "core_rmid regs t l = Some r" "r \<noteq> 0"
      "range_key (u_mon mon) (m_cpu s) l = Some (cluster, n)" "\<not> rmid_in_cluster regs cluster s r"
      by blast
    have "pqos_cpu_get_clusterid (Some (m_cpu s)) l = Inr cluster"
      using r(3) by (auto simp: range_key_def rmid_range_def Let_def split: sum.splits if_splits)
    with r assoc_frameD(3) [OF fr] show ?thesis by (auto simp: rmid_in_cluster_def)
  qed
  have cap: "pqos_cap_get_type (Some (m_cap s)) PQOS_CAP_TYPE_MON = Inr mon"
    using mon by (simp add: cap_get_type_or_null_def split: sum.splits)
  note share = conjunct2 [OF gr [unfolded group_rmids_ok_def]]
  note rest = conjunct2 [OF conjunct2 [OF fr [unfolded assoc_frame_def]]]
  show ?thesis
    by (intro conjI exI [of _ mon] ballI own cap share) (use rest in simp_all)
qed

theorem start_cores_isolated_witness:
  "core_rmid ref_regs (snd (snd (sample_start SAMPLE_EVENTS))) 1 \<noteq> core_rmid ref_regs (snd (snd (sample_start SAMPLE_EVENTS))) 0"
proof -
  have run: "sample_start SAMPLE_EVENTS = (PQOS_RETVAL_OK, fst (snd (sample_start SAMPLE_EVENTS)), snd (snd (sample_start SAMPLE_EVENTS)))"
    using sample_start_ok by (metis prod.collapse)
  have "m_rmid_max sample_module \<le> 1024" by (simp add: sample_module_def)
  note iso = conjunct1 [OF start_cores_isolated [OF refperf.perf_kernel_axioms sample_mon_wf this run]]
  have cpu: "sample_core 1 0 \<in> set (cores (m_cpu sample_mon_lib))" "lcore (sample_core 1 0) = 1"
    and cl: "pqos_cpu_get_clusterid (Some (m_cpu sample_mon_lib)) 0 = Inr (l3_id (sample_core 1 0))" by code_simp+
  from bspec [OF iso, of 0] have "\<forall>c\<in>set (cores (m_cpu sample_mon_lib)). lcore c \<notin> {0, 2} \<and>
      pqos_cpu_get_clusterid (Some (m_cpu sample_mon_lib)) 0 = Inr (l3_id c) \<longrightarrow>
      core_rmid ref_regs (snd (snd (sample_start SAMPLE_EVENTS))) (lcore c) \<noteq> core_rmid ref_regs (snd (snd (sample_start SAMPLE_EVENTS))) 0" by simp
  from bspec [OF this cpu(1)] cl show ?thesis unfolding cpu(2) by simp
qed

text \<open>
  Starting and stopping a core group leaves no trace in the associations: after
  a successful \<open>hw_mon_start_cores\<close> on an empty group and a successful \<open>hw_mon_stop\<close> every core
  has the RMID and the class that it had before.
\<close>

theorem start_stop_cores:
  assumes "perf_kernel E core_of regs P" and "machine_wf core_of s" and "mg_channels g = []" and "mg_sockets g = []"
    and "hw_mon_start_cores E P M ls event g s = (PQOS_RETVAL_OK, g', t)"
    and "hw_mon_stop E P g' t = (PQOS_RETVAL_OK, g'', u)"
  shows "core_rmid regs u l = core_rmid regs s l \<and>
    map_option clos_field (regs (m_hw u) l PQOS_MSR_ASSOC) = map_option clos_field (regs (m_hw s) l PQOS_MSR_ASSOC)"
proof -
  note f = perf_kernel.start_cores_facts [OF assms(1,2,5)]
  have fr: "assoc_frame core_of regs (set ls) s t" and zero: "\<forall>l\<in>set ls. core_rmid regs s l = Some 0"
    and tg: "mg_cores g' = ls" "mg_channels g' = []" "mg_sockets g' = []"
    using f assms(3,4) by (auto simp: same_targets_def)
  note sf = perf_kernel.stop_facts [OF assms(1) assoc_frameD(1) [OF fr] assms(6) tg(2,3), unfolded tg(1)]
  have "assoc_frame core_of regs (set ls) s u" using assoc_frame_trans [OF fr conjunct1 [OF sf]] by simp
  then show ?thesis using sf zero assoc_frameD(3) [of core_of regs "set ls" s u l]
    by (cases "l \<in> set ls") (auto simp: assoc_frame_def)
qed

theorem start_stop_cores_witness:
  "core_rmid ref_regs (snd (snd (hw_mon_stop ref_platform ref_perf_os (fst (snd (sample_start SAMPLE_EVENTS))) (snd (snd (sample_start SAMPLE_EVENTS)))))) 2 = Some 0"
proof -
  let ?u = "hw_mon_stop ref_platform ref_perf_os (fst (snd (sample_start SAMPLE_EVENTS))) (snd (snd (sample_start SAMPLE_EVENTS)))"
  have run: "sample_start SAMPLE_EVENTS = (PQOS_RETVAL_OK, fst (snd (sample_start SAMPLE_EVENTS)), snd (snd (sample_start SAMPLE_EVENTS)))"
    using sample_start_ok by (metis prod.collapse)
  have "fst ?u = PQOS_RETVAL_OK" by code_simp
  then have stop: "?u = (PQOS_RETVAL_OK, fst (snd ?u), snd (snd ?u))" by (metis prod.collapse)
  have "core_rmid ref_regs sample_mon_lib 2 = Some 0" by code_simp
  with start_stop_cores [OF refperf.perf_kernel_axioms sample_mon_wf _ _ run stop, of 2] show ?thesis
    by (simp add: empty_group_def)
qed

text \<open>
  A start whose events do not all start reports the failure and leaves the RMIDs assigned.
\<close>

lemma failed_start_keeps_rmids:
  "fst (sample_start (PQOS_MON_EVENT_L3_OCCUP OR PQOS_PERF_EVENT_LLC_MISS_PCIE_READ)) = PQOS_RETVAL_ERROR \<and>
   core_rmid ref_regs (snd (snd (sample_start (PQOS_MON_EVENT_L3_OCCUP OR PQOS_PERF_EVENT_LLC_MISS_PCIE_READ)))) 0 = Some 2"
  by code_simp

end
