(* ===== verification/ApiLock.thy ===== *)
theory ApiLock
  imports CString
begin

text \<open>
  The lock that keeps the library to one process at a time (\<open>lib/lock.c\<close>): a lock file that
  holds the process number and the \<open>start time\<close> of its owner. \<open>lock_init\<close> creates the file
  exclusively, and takes over a file whose owner no longer runs. The routines are given
  twice: as functions that run undisturbed, and as a machine that makes one system call
  per step, so that several processes can be interleaved.
\<close>

section \<open>What the kernel keeps\<close>

text \<open>
  \<open>ld_access\<close> says whether the lock directory may be used, \<open>ld_tmp\<close> whether
  \<open>LOCKFILE_TMP\<close> exists, \<open>ld_file\<close> is the contents of \<open>LOCKFILE\<close>, and \<open>ld_stat pid\<close>
  the contents of \<open>/proc/pid/stat\<close> of a process that runs.
\<close>

record lockdir =
  ld_access :: bool
  ld_tmp :: bool
  ld_file :: "string option"
  ld_stat :: "int \<Rightarrow> string option"

text \<open>
  The outcome of the system calls apart from what the state above decides: creating and
  removing the temporary file, the descriptor of a created lock file or the failure to create
  it, opening the file for reading and writing, removing it, and the operations on the
  mutex of the process.
\<close>

record lock_env =
  le_tmp_create :: bool
  le_tmp_unlink :: bool
  le_fd :: "int option"
  le_read :: bool
  le_write :: bool
  le_unlink :: bool
  le_mutex_init :: bool
  le_mutex_destroy :: bool

text \<open>The static variables of the module.\<close>

record api_proc =
  m_apilock :: int
  m_pid :: int
  m_start_time :: u64

definition PROC_START_TIME_FIELD_IDX :: nat where "PROC_START_TIME_FIELD_IDX = 22"
definition LOCK_MAX_LINE :: int where "LOCK_MAX_LINE = 128"
definition PROCFILE_BUF_LEN :: int where "PROCFILE_BUF_LEN = 1024"

section \<open>Scanning\<close>

text \<open>
  \<open>sscanf\<close> with \<open>%lu\<close> and with \<open>%d\<close>: the value and the rest of the input, \<open>None\<close> without a
  conversion. \<open>%d\<close> stores the low 32 bits of the saturated \<open>long\<close>.
\<close>

definition scan_lu :: "string \<Rightarrow> (u64 \<times> string) option" where
  "scan_lu s = (case strtoull 10 s of (v, rest) \<Rightarrow> if rest = s then None else Some (v, rest))"

definition scan_d :: "string \<Rightarrow> (int \<times> string) option" where
  "scan_d s =
     (let t = dropWhile isspace s;
          (neg, t) = (case t of c # cs \<Rightarrow> if c = CHR ''-'' then (True, cs) else if c = CHR ''+'' then (False, cs) else (False, t)
                      | [] \<Rightarrow> (False, t))
      in case t of
           [] \<Rightarrow> None
         | c # _ \<Rightarrow>
             if \<not> is_digit 10 c then None
             else (case digits_value 10 0 t of (v, rest) \<Rightarrow>
                     Some (signed_take_bit 31 (if neg then max (- (2 ^ 63)) (- v) else min (2 ^ 63 - 1) v), rest)))"

definition show_d :: "int \<Rightarrow> string" where
  "show_d n = (if n < 0 then CHR ''-'' # show_num 10 (- n) else show_num 10 n)"

text \<open>The first line that \<open>fgets\<close> delivers into a buffer of \<open>n\<close> characters.\<close>

definition first_line :: "int \<Rightarrow> string \<Rightarrow> string option" where
  "first_line n content = (case fgets_lines (n - 1) (n - 1) [] content of [] \<Rightarrow> None | line # _ \<Rightarrow> Some (c_str line))"

section \<open>The helpers\<close>

fun skip_fields :: "nat \<Rightarrow> string \<Rightarrow> string option" where
  "skip_fields 0 p = Some p"
| "skip_fields (Suc n) p = (case cut_at CHR '' '' p of None \<Rightarrow> None | Some (_, r) \<Rightarrow> skip_fields n r)"

definition get_process_start_time :: "(int \<Rightarrow> string option) \<Rightarrow> int \<Rightarrow> u64" where
  "get_process_start_time stat pid =
     (case stat pid of
        None \<Rightarrow> 0
      | Some content \<Rightarrow>
          (case first_line PROCFILE_BUF_LEN content of
             None \<Rightarrow> 0
           | Some buf \<Rightarrow>
               (case skip_fields PROC_START_TIME_FIELD_IDX buf of
                  None \<Rightarrow> 0
                | Some p \<Rightarrow> (case scan_lu p of None \<Rightarrow> 0 | Some (v, _) \<Rightarrow> v))))"

definition lock_tmp_create :: "lock_env \<Rightarrow> lockdir \<Rightarrow> bool \<times> lockdir" where
  "lock_tmp_create e d =
     (if \<not> ld_access d then (False, d)
      else if ld_tmp d \<or> \<not> le_tmp_create e then (False, d)
      else (True, d\<lparr>ld_tmp := True\<rparr>))"

definition lock_tmp_unlink :: "lock_env \<Rightarrow> lockdir \<Rightarrow> bool \<times> lockdir" where
  "lock_tmp_unlink e d = (if le_tmp_unlink e then (True, d\<lparr>ld_tmp := False\<rparr>) else (False, d))"

definition check_lockdir_access :: "lock_env \<Rightarrow> lockdir \<Rightarrow> bool \<times> lockdir" where
  "check_lockdir_access e d =
     (case lock_tmp_create e d of (ok, d) \<Rightarrow> if \<not> ok then (False, d) else lock_tmp_unlink e d)"

definition is_pid_alive :: "lockdir \<Rightarrow> int \<Rightarrow> u64 \<Rightarrow> bool" where
  "is_pid_alive d pid start_time =
     (let cur_start_time = get_process_start_time (ld_stat d) pid in cur_start_time \<noteq> 0 \<and> cur_start_time = start_time)"

definition read_lockfile :: "lock_env \<Rightarrow> lockdir \<Rightarrow> (int \<times> u64) option" where
  "read_lockfile e d =
     (case ld_file d of
        None \<Rightarrow> None
      | Some content \<Rightarrow>
          if \<not> le_read e then None
          else (case first_line LOCK_MAX_LINE content of
                  None \<Rightarrow> None
                | Some line \<Rightarrow>
                    (case scan_d line of
                       None \<Rightarrow> None
                     | Some (pid, rest) \<Rightarrow>
                         (case scan_lu (dropWhile isspace rest) of
                            None \<Rightarrow> None
                          | Some (start_time, _) \<Rightarrow> Some (pid, start_time)))))"

definition lock_line :: "int \<Rightarrow> u64 \<Rightarrow> string" where
  "lock_line pid start_time = show_d pid @ '' '' @ show_num 10 (uint start_time) @ [CHR 0x0A]"

definition write_lockfile :: "lock_env \<Rightarrow> int \<Rightarrow> u64 \<Rightarrow> lockdir \<Rightarrow> bool \<times> lockdir" where
  "write_lockfile e pid start_time d =
     (if le_write e then (True, d\<lparr>ld_file := Some (lock_line pid start_time)\<rparr>) else (False, d))"

text \<open>\<open>open(LOCKFILE, O_RDWR | O_CREAT | O_EXCL)\<close>; the error says whether it is \<open>EEXIST\<close>.\<close>

definition open_lockfile :: "lock_env \<Rightarrow> lockdir \<Rightarrow> bool + int \<times> lockdir" where
  "open_lockfile e d =
     (case ld_file d of
        Some _ \<Rightarrow> Inl True
      | None \<Rightarrow> (case le_fd e of None \<Rightarrow> Inl False | Some fd \<Rightarrow> Inr (fd, d\<lparr>ld_file := Some []\<rparr>)))"

definition unlink_lockfile :: "lock_env \<Rightarrow> lockdir \<Rightarrow> bool \<times> lockdir" where
  "unlink_lockfile e d =
     (if ld_file d = None \<or> \<not> le_unlink e then (False, d) else (True, d\<lparr>ld_file := None\<rparr>))"

definition lock_stale :: "lock_env \<Rightarrow> lockdir \<Rightarrow> bool" where
  "lock_stale e d =
     (case read_lockfile e d of None \<Rightarrow> True | Some (pid, stime) \<Rightarrow> \<not> is_pid_alive d pid stime)"

text \<open>The part of \<open>lock_init\<close> after the lock file has been created.\<close>

definition lock_record :: "lock_env \<Rightarrow> int \<Rightarrow> api_proc \<Rightarrow> lockdir \<Rightarrow> int \<times> api_proc \<times> lockdir" where
  "lock_record e self p d =
     (let p = p\<lparr>m_pid := self, m_start_time := get_process_start_time (ld_stat d) self\<rparr>
      in case write_lockfile e (m_pid p) (m_start_time p) d of (ok, d) \<Rightarrow>
           if \<not> ok \<or> \<not> le_mutex_init e then (- 1, p\<lparr>m_apilock := - 1\<rparr>, snd (unlink_lockfile e d))
           else (0, p, d))"

definition lock_init :: "lock_env \<Rightarrow> int \<Rightarrow> api_proc \<Rightarrow> lockdir \<Rightarrow> int \<times> api_proc \<times> lockdir" where
  "lock_init e self p d =
     (case check_lockdir_access e d of (ok, d) \<Rightarrow>
        if \<not> ok then (- 1, p, d)
        else (case open_lockfile e d of
                Inr (fd, d) \<Rightarrow> lock_record e self (p\<lparr>m_apilock := fd\<rparr>) d
              | Inl eexist \<Rightarrow>
                  (let p = p\<lparr>m_apilock := - 1\<rparr>
                   in if \<not> eexist then (- 1, p, d)
                      else if lock_stale e d
                      then (case unlink_lockfile e d of (ok, d) \<Rightarrow>
                              if \<not> ok then (- 1, p, d)
                              else (case open_lockfile e d of
                                      Inl _ \<Rightarrow> (- 1, p, d)
                                    | Inr (fd, d) \<Rightarrow> lock_record e self (p\<lparr>m_apilock := fd\<rparr>) d))
                      else (- 1, p, d))))"

definition lock_fini :: "lock_env \<Rightarrow> api_proc \<Rightarrow> lockdir \<Rightarrow> int \<times> api_proc \<times> lockdir" where
  "lock_fini e p d =
     (let ret = (if m_apilock p < 0 then - 1 else 0);
          ret = (if \<not> le_mutex_destroy e then - 1 else ret)
      in case unlink_lockfile e d of (ok, d) \<Rightarrow> (if \<not> ok then - 1 else ret, p\<lparr>m_apilock := - 1\<rparr>, d))"

section \<open>One system call at a time\<close>

text \<open>
  A step is one system call that other processes can see, with two exceptions: \<open>L_read\<close> opens, reads and closes the old lock file
  and looks up its process, \<open>L_record\<close> looks up the own process and writes the new file. The
  interleavings of the steps are therefore a part of those of the program. They serve to exhibit a failure (\<open>lock_race\<close>) that
  the program has as well; no property is derived for all interleavings.
\<close>

datatype lock_pc = L_access | L_unlink_tmp | L_open | L_read | L_unlink | L_reopen | L_record | L_done | L_failed

definition lock_step :: "lock_env \<Rightarrow> int \<Rightarrow> lock_pc \<times> api_proc \<times> lockdir \<Rightarrow> lock_pc \<times> api_proc \<times> lockdir" where
  "lock_step e self c =
     (case c of (pc, p, d) \<Rightarrow>
        (case pc of
           L_access \<Rightarrow> (case lock_tmp_create e d of (ok, d) \<Rightarrow> (if ok then L_unlink_tmp else L_failed, p, d))
         | L_unlink_tmp \<Rightarrow> (case lock_tmp_unlink e d of (ok, d) \<Rightarrow> (if ok then L_open else L_failed, p, d))
         | L_open \<Rightarrow>
             (case open_lockfile e d of
                Inr (fd, d) \<Rightarrow> (L_record, p\<lparr>m_apilock := fd\<rparr>, d)
              | Inl eexist \<Rightarrow> (if eexist then L_read else L_failed, p\<lparr>m_apilock := - 1\<rparr>, d))
         | L_read \<Rightarrow> (if lock_stale e d then L_unlink else L_failed, p, d)
         | L_unlink \<Rightarrow> (case unlink_lockfile e d of (ok, d) \<Rightarrow> (if ok then L_reopen else L_failed, p, d))
         | L_reopen \<Rightarrow>
             (case open_lockfile e d of
                Inr (fd, d) \<Rightarrow> (L_record, p\<lparr>m_apilock := fd\<rparr>, d)
              | Inl _ \<Rightarrow> (L_failed, p\<lparr>m_apilock := - 1\<rparr>, d))
         | L_record \<Rightarrow>
             (case lock_record e self p d of (ret, p, d) \<Rightarrow> (if ret = 0 then L_done else L_failed, p, d))
         | L_done \<Rightarrow> c
         | L_failed \<Rightarrow> c))"

text \<open>Several processes over one directory.\<close>

record lock_world =
  w_dir :: lockdir
  w_pc :: "int \<Rightarrow> lock_pc"
  w_proc :: "int \<Rightarrow> api_proc"

definition world_step :: "lock_env \<Rightarrow> int \<Rightarrow> lock_world \<Rightarrow> lock_world" where
  "world_step e self w =
     (case lock_step e self (w_pc w self, w_proc w self, w_dir w) of (pc, p, d) \<Rightarrow>
        \<lparr>w_dir = d, w_pc = (w_pc w)(self := pc), w_proc = (w_proc w)(self := p)\<rparr>)"

definition run_schedule :: "lock_env \<Rightarrow> int list \<Rightarrow> lock_world \<Rightarrow> lock_world" where
  "run_schedule e sched w = fold (world_step e) sched w"

section \<open>Scanning what was printed\<close>

lemma digit_head:
  assumes "0 \<le> n"
  obtains c cs where "show_num 10 n = c # cs" and "is_digit 10 c" and "\<not> isspace c" and "c \<noteq> CHR ''-''" and "c \<noteq> CHR ''+''"
proof -
  obtain c cs where s: "show_num 10 n = c # cs" by (cases "show_num 10 n") simp_all
  with show_num_digits [of n 10] assms have "is_digit 10 c" by simp
  with s is_digit_facts [of 10 c] that show thesis by simp
qed

lemma scan_lu_show:
  assumes "0 \<le> n" and "n < 2 ^ 64" and "case r of [] \<Rightarrow> True | c # _ \<Rightarrow> \<not> is_digit 10 c"
  shows "scan_lu (show_num 10 n @ r) = Some (of_int n, r)"
proof -
  obtain c cs where s: "show_num 10 n = c # cs" and c: "is_digit 10 c" "\<not> isspace c" "c \<noteq> CHR ''-''" "c \<noteq> CHR ''+''"
    using digit_head [OF assms(1)] by blast
  have "digits_value 10 0 (show_num 10 n @ r) = (n, r)" using assms(1,3) by (intro digits_value_shown) simp_all
  then have dv: "digits_value 10 0 (c # cs @ r) = (n, r)" by (simp add: s)
  have "strtoull 10 (c # cs @ r) = (of_int n, r)"
    using c assms(2) dv by (simp add: strtoull_def del: digits_value.simps)
  then show ?thesis by (simp add: scan_lu_def s)
qed

lemma scan_d_show:
  assumes "0 \<le> n" and "n < 2 ^ 31" and "case r of [] \<Rightarrow> True | c # _ \<Rightarrow> \<not> is_digit 10 c"
  shows "scan_d (show_num 10 n @ r) = Some (n, r)"
proof -
  obtain c cs where s: "show_num 10 n = c # cs" and c: "is_digit 10 c" "\<not> isspace c" "c \<noteq> CHR ''-''" "c \<noteq> CHR ''+''"
    using digit_head [OF assms(1)] by blast
  have "digits_value 10 0 (show_num 10 n @ r) = (n, r)" using assms(1,3) by (intro digits_value_shown) simp_all
  then have dv: "digits_value 10 0 (c # cs @ r) = (n, r)" by (simp add: s)
  have "min (2 ^ 63 - 1) n = n" "signed_take_bit 31 n = n"
    using assms(1,2) by (simp_all add: signed_take_bit_int_eq_self)
  with c dv show ?thesis by (simp add: scan_d_def s del: digits_value.simps)
qed

lemma isspace_blank [simp]: "isspace CHR '' ''"
  by (simp add: isspace_def)

lemma not_digit [simp]: "\<not> is_digit 10 CHR '' ''" "\<not> is_digit 10 CHR 0x0A" "\<not> is_digit 10 CHR 0x00"
  by (simp_all add: is_digit_def digit_val_def)

lemma first_line_plain:
  assumes "CHR 0x0A \<notin> set b" and "CHR 0x00 \<notin> set b" and "int (length b) < n - 1"
  shows "first_line n (b @ CHR 0x0A # r) = Some (b @ [CHR 0x0A])"
  using assms by (simp add: first_line_def fgets_line c_str_plain)

lemma show_num_plain:
  assumes "0 \<le> n"
  shows "CHR 0x0A \<notin> set (show_num 10 n)" and "CHR 0x00 \<notin> set (show_num 10 n)" and "CHR '' '' \<notin> set (show_num 10 n)"
  using bspec [OF show_num_digits [OF assms, of 10]] not_digit by fastforce+

text \<open>The lock file that was written is read back.\<close>

lemma read_written:
  assumes "0 \<le> pid" and "pid < 2 ^ 31" and "ld_file d = Some (lock_line pid st)" and "le_read e"
  shows "read_lockfile e d = Some (pid, st)"
proof -
  let ?b = "show_num 10 pid @ '' '' @ show_num 10 (uint st)"
  have u: "0 \<le> uint st" "uint st < 2 ^ 64" using uint_bounded [of st] by simp_all
  have len: "length (show_num 10 pid) \<le> 10" "length (show_num 10 (uint st)) \<le> 20"
    using show_num_length [of pid 10 9] show_num_length [of "uint st" 10 19] assms(1,2) u by simp_all
  have ln: "lock_line pid st = ?b @ [CHR 0x0A]" using assms(1) by (simp add: lock_line_def show_d_def)
  have "first_line LOCK_MAX_LINE (lock_line pid st) = Some (?b @ [CHR 0x0A])"
    unfolding ln LOCK_MAX_LINE_def using len show_num_plain [OF assms(1)] show_num_plain [OF u(1)]
    by (intro first_line_plain) simp_all
  moreover have "scan_d (?b @ [CHR 0x0A]) = Some (pid, '' '' @ show_num 10 (uint st) @ [CHR 0x0A])"
    using scan_d_show [OF assms(1,2), of "'' '' @ show_num 10 (uint st) @ [CHR 0x0A]"] by simp
  moreover have "dropWhile isspace ('' '' @ show_num 10 (uint st) @ [CHR 0x0A]) = show_num 10 (uint st) @ [CHR 0x0A]"
    using digit_head [OF u(1)] by (metis (no_types) append_Cons append_Nil dropWhile.simps(2) isspace_blank)
  ultimately show ?thesis
    using assms(3,4) scan_lu_show [OF u, of "[CHR 0x0A]"] by (simp add: read_lockfile_def)
qed

section \<open>The field of the stat line\<close>

text \<open>
  A line of \<open>/proc/pid/stat\<close>: its fields separated by blanks. Field number 22 (counting
  from 1, so entry 21 of the list) is \<open>starttime\<close>, field number 23 \<open>vsize\<close>.
\<close>

fun stat_line :: "string list \<Rightarrow> string" where
  "stat_line [] = [CHR 0x0A]"
| "stat_line [f] = f @ [CHR 0x0A]"
| "stat_line (f # g # fs) = f @ CHR '' '' # stat_line (g # fs)"

definition stat_fields :: "string list \<Rightarrow> bool" where
  "stat_fields fs \<longleftrightarrow> 24 \<le> length fs \<and> length (stat_line fs) < 1023 \<and>
     (\<forall>f\<in>set fs. CHR '' '' \<notin> set f \<and> CHR 0x0A \<notin> set f \<and> CHR 0x00 \<notin> set f)"

lemma skip_stat_line:
  "n < length fs \<Longrightarrow> \<forall>f\<in>set fs. CHR '' '' \<notin> set f \<Longrightarrow> skip_fields n (stat_line fs) = Some (stat_line (drop n fs))"
proof (induction fs arbitrary: n rule: stat_line.induct)
  case (3 f g fs)
  then show ?case by (cases n) (simp_all add: cut_at_first)
qed simp_all

lemma stat_line_plain:
  "fs \<noteq> [] \<Longrightarrow> \<forall>f\<in>set fs. CHR 0x0A \<notin> set f \<and> CHR 0x00 \<notin> set f \<Longrightarrow>
     \<exists>b. stat_line fs = b @ [CHR 0x0A] \<and> CHR 0x0A \<notin> set b \<and> CHR 0x00 \<notin> set b"
proof (induction fs rule: stat_line.induct)
  case (3 f g fs)
  then obtain b where "stat_line (g # fs) = b @ [CHR 0x0A] \<and> CHR 0x0A \<notin> set b \<and> CHR 0x00 \<notin> set b" by auto
  with 3 show ?case by (intro exI [of _ "f @ CHR '' '' # b"]) simp
qed simp_all

lemma start_time_field:
  assumes "stat_fields fs" and "stat pid = Some (stat_line fs)" and "fs ! 22 = show_num 10 (uint v)"
  shows "get_process_start_time stat pid = v"
proof -
  from assms(1) have w: "24 \<le> length fs" "length (stat_line fs) < 1023" "\<forall>f\<in>set fs. CHR '' '' \<notin> set f"
    and pl: "\<forall>f\<in>set fs. CHR 0x0A \<notin> set f \<and> CHR 0x00 \<notin> set f" "fs \<noteq> []"
    by (auto simp: stat_fields_def)
  obtain b where b: "stat_line fs = b @ [CHR 0x0A]" "CHR 0x0A \<notin> set b" "CHR 0x00 \<notin> set b"
    using stat_line_plain [OF pl(2,1)] by blast
  have fl: "first_line PROCFILE_BUF_LEN (stat_line fs) = Some (stat_line fs)"
    using first_line_plain [OF b(2,3), of 1024 "[]"] w(2) by (simp add: PROCFILE_BUF_LEN_def b(1))
  have "drop 22 fs = fs ! 22 # fs ! 23 # drop 24 fs"
    using w(1) by (simp add: Cons_nth_drop_Suc numeral_eq_Suc)
  then have "stat_line (drop 22 fs) = show_num 10 (uint v) @ CHR '' '' # stat_line (fs ! 23 # drop 24 fs)" by (simp add: assms(3))
  moreover have "scan_lu (show_num 10 (uint v) @ CHR '' '' # stat_line (fs ! 23 # drop 24 fs)) =
      Some (of_int (uint v), CHR '' '' # stat_line (fs ! 23 # drop 24 fs))"
    using uint_bounded [of v] by (intro scan_lu_show) simp_all
  ultimately have "scan_lu (stat_line (drop 22 fs)) = Some (v, CHR '' '' # stat_line (fs ! 23 # drop 24 fs))" by simp
  moreover have "skip_fields 22 (stat_line fs) = Some (stat_line (drop 22 fs))" using skip_stat_line w by simp
  ultimately show ?thesis
    by (simp add: get_process_start_time_def assms(2) fl PROC_START_TIME_FIELD_IDX_def)
qed

section \<open>The undisturbed run\<close>

text \<open>An environment in which no system call fails.\<close>

definition calls_succeed :: "lock_env \<Rightarrow> bool" where
  "calls_succeed e \<longleftrightarrow> le_tmp_create e \<and> le_tmp_unlink e \<and> (\<exists>fd. le_fd e = Some fd \<and> 0 \<le> fd) \<and> le_read e \<and> le_write e \<and>
     le_unlink e \<and> le_mutex_init e \<and> le_mutex_destroy e"

text \<open>When \<open>lock_init\<close> succeeds and what it leaves: the file names the caller.\<close>

lemma lock_init_success:
  assumes "lock_init e self p d = (0, p', d')"
  shows "(ld_file d = None \<or> lock_stale e d) \<and> ld_access d \<and> \<not> ld_tmp d \<and>
    d' = d\<lparr>ld_tmp := False, ld_file := Some (lock_line self (get_process_start_time (ld_stat d) self))\<rparr> \<and>
    Some (m_apilock p') = le_fd e"
  using assms
  by (auto simp: lock_init_def check_lockdir_access_def lock_tmp_create_def lock_tmp_unlink_def open_lockfile_def unlink_lockfile_def
      lock_record_def write_lockfile_def lock_stale_def read_lockfile_def is_pid_alive_def Let_def
      split: if_splits option.splits prod.splits sum.splits)

lemma lock_init_succeeds:
  assumes "calls_succeed e" and "ld_access d" and "\<not> ld_tmp d" and "ld_file d = None \<or> lock_stale e d"
  shows "fst (lock_init e self p d) = 0"
  using assms
  by (auto simp: calls_succeed_def lock_init_def check_lockdir_access_def lock_tmp_create_def lock_tmp_unlink_def open_lockfile_def unlink_lockfile_def
      lock_record_def write_lockfile_def lock_stale_def read_lockfile_def is_pid_alive_def Let_def
      split: if_splits option.splits prod.splits sum.splits)

lemma lock_stale_cong:
  assumes "ld_file d' = ld_file d" and "ld_stat d' = ld_stat d"
  shows "lock_stale e d' = lock_stale e d"
proof -
  have "is_pid_alive d' = is_pid_alive d" by (intro ext) (simp add: is_pid_alive_def assms)
  moreover have "read_lockfile e d' = read_lockfile e d" by (simp add: read_lockfile_def assms)
  ultimately show ?thesis by (simp only: lock_stale_def)
qed

lemma lock_init_keeps_stat:
  assumes "lock_init e self p d = (ret, p', d')"
  shows "ld_stat d' = ld_stat d"
  using assms
  by (auto simp: lock_init_def check_lockdir_access_def lock_tmp_create_def lock_tmp_unlink_def open_lockfile_def unlink_lockfile_def
      lock_record_def write_lockfile_def Let_def
      split: if_splits option.splits prod.splits sum.splits)

section \<open>The steps of one process\<close>

lemma lock_step_simps:
  "lock_step e self (L_access, p, d) = (case lock_tmp_create e d of (ok, d) \<Rightarrow> (if ok then L_unlink_tmp else L_failed, p, d))"
  "lock_step e self (L_unlink_tmp, p, d) = (case lock_tmp_unlink e d of (ok, d) \<Rightarrow> (if ok then L_open else L_failed, p, d))"
  "lock_step e self (L_open, p, d) =
     (case open_lockfile e d of
        Inr (fd, d) \<Rightarrow> (L_record, p\<lparr>m_apilock := fd\<rparr>, d)
      | Inl eexist \<Rightarrow> (if eexist then L_read else L_failed, p\<lparr>m_apilock := - 1\<rparr>, d))"
  "lock_step e self (L_read, p, d) = (if lock_stale e d then L_unlink else L_failed, p, d)"
  "lock_step e self (L_unlink, p, d) = (case unlink_lockfile e d of (ok, d) \<Rightarrow> (if ok then L_reopen else L_failed, p, d))"
  "lock_step e self (L_reopen, p, d) =
     (case open_lockfile e d of
        Inr (fd, d) \<Rightarrow> (L_record, p\<lparr>m_apilock := fd\<rparr>, d)
      | Inl _ \<Rightarrow> (L_failed, p\<lparr>m_apilock := - 1\<rparr>, d))"
  "lock_step e self (L_record, p, d) =
     (case lock_record e self p d of (ret, p, d) \<Rightarrow> (if ret = 0 then L_done else L_failed, p, d))"
  "lock_step e self (L_done, p, d) = (L_done, p, d)"
  "lock_step e self (L_failed, p, d) = (L_failed, p, d)"
  by (simp_all add: lock_step_def)

text \<open>Where the remaining steps of a process lead.\<close>

definition lock_outcome :: "int \<times> api_proc \<times> lockdir \<Rightarrow> lock_pc \<times> api_proc \<times> lockdir" where
  "lock_outcome r = (case r of (ret, p, d) \<Rightarrow> (if ret = 0 then L_done else L_failed, p, d))"

lemma steps_failed: "(lock_step e self ^^ n) (L_failed, p, d) = (L_failed, p, d)"
  by (induction n) (simp_all add: lock_step_simps)

lemma steps_done: "(lock_step e self ^^ n) (L_done, p, d) = (L_done, p, d)"
  by (induction n) (simp_all add: lock_step_simps)

lemma steps_record: "(lock_step e self ^^ Suc n) (L_record, p, d) = lock_outcome (lock_record e self p d)"
  by (simp add: funpow_Suc_right lock_step_simps steps_failed steps_done lock_outcome_def split: prod.splits del: funpow.simps)

lemma steps_read:
  "(lock_step e self ^^ Suc (Suc (Suc (Suc n)))) (L_read, p\<lparr>m_apilock := - 1\<rparr>, d) =
     lock_outcome
       (if lock_stale e d
        then (case unlink_lockfile e d of (ok, d) \<Rightarrow>
                if \<not> ok then (- 1, p\<lparr>m_apilock := - 1\<rparr>, d)
                else (case open_lockfile e d of
                        Inl _ \<Rightarrow> (- 1, p\<lparr>m_apilock := - 1\<rparr>, d)
                      | Inr (fd, d) \<Rightarrow> lock_record e self (p\<lparr>m_apilock := fd\<rparr>) d))
        else (- 1, p\<lparr>m_apilock := - 1\<rparr>, d))"
proof (cases "lock_stale e d \<and> fst (unlink_lockfile e d)")
  case False
  then show ?thesis
    by (cases "lock_stale e d"; cases "unlink_lockfile e d")
      (simp_all add: funpow_Suc_right lock_step_simps steps_failed lock_outcome_def del: funpow.simps)
next
  case True
  then obtain d' where u: "unlink_lockfile e d = (True, d')" by (cases "unlink_lockfile e d") simp
  with True show ?thesis
    by (cases "open_lockfile e d'")
      (auto simp: funpow_Suc_right lock_step_simps steps_failed steps_done lock_outcome_def
        simp del: funpow.simps split: prod.splits)
qed

lemma steps_open:
  "(lock_step e self ^^ Suc (Suc (Suc (Suc (Suc n))))) (L_open, p, d) =
     lock_outcome
       (case open_lockfile e d of
          Inr (fd, d) \<Rightarrow> lock_record e self (p\<lparr>m_apilock := fd\<rparr>) d
        | Inl eexist \<Rightarrow>
            (let p = p\<lparr>m_apilock := - 1\<rparr>
             in if \<not> eexist then (- 1, p, d)
                else if lock_stale e d
                then (case unlink_lockfile e d of (ok, d) \<Rightarrow>
                        if \<not> ok then (- 1, p, d)
                        else (case open_lockfile e d of
                                Inl _ \<Rightarrow> (- 1, p, d)
                              | Inr (fd, d) \<Rightarrow> lock_record e self (p\<lparr>m_apilock := fd\<rparr>) d))
                else (- 1, p, d)))"
proof (cases "open_lockfile e d")
  case (Inl eexist)
  then show ?thesis
    using steps_read [of n e self p d]
    by (cases eexist) (simp_all add: funpow_Suc_right [of "Suc (Suc (Suc (Suc n)))"] lock_step_simps steps_failed lock_outcome_def Let_def
        del: funpow.simps split: prod.splits sum.splits)
next
  case (Inr q)
  then show ?thesis
    using steps_record [of "Suc (Suc (Suc n))"]
    by (cases q) (simp add: funpow_Suc_right [of "Suc (Suc (Suc (Suc n)))"] lock_step_simps del: funpow.simps)
qed

lemma lock_steps_refine:
  "(lock_step e self ^^ 7) (L_access, p, d) = lock_outcome (lock_init e self p d)"
proof -
  have seven: "(lock_step e self ^^ 7) c = (lock_step e self ^^ 5) (lock_step e self (lock_step e self c))" for c
    by (simp add: numeral_eq_Suc)
  obtain ok d' where t: "lock_tmp_create e d = (ok, d')" by (cases "lock_tmp_create e d")
  show ?thesis
  proof (cases "ok \<and> fst (lock_tmp_unlink e d')")
    case False
    then show ?thesis unfolding seven
      by (cases ok; cases "lock_tmp_unlink e d'")
        (simp_all add: t lock_step_simps steps_failed lock_init_def check_lockdir_access_def lock_outcome_def)
  next
    case True
    then obtain d'' where u: "lock_tmp_unlink e d' = (True, d'')" by (cases "lock_tmp_unlink e d'") simp
    have five: "(5::nat) = Suc (Suc (Suc (Suc (Suc 0))))" by simp
    from True u show ?thesis unfolding seven
      by (simp add: t lock_step_simps five steps_open lock_init_def check_lockdir_access_def Let_def del: funpow.simps)
  qed
qed

end
