(* ===== verification/LockWorld.thy ===== *)
theory LockWorld
  imports ApiLock
begin

text \<open>
  Several processes that use the API lock (\<open>lib/lock.c\<close>): the states that processes which come,
  go and call \<open>lock_init\<close> and \<open>lock_fini\<close> can reach, that at most one of them owns the library
  under the assumptions the code makes, and what happens when these fail.
\<close>

section \<open>Processes that come and go\<close>

text \<open>
  \<open>lock_init\<close> and \<open>lock_fini\<close> run undisturbed; between them processes start, end without
  releasing the lock, and change their stat line. Four assumptions are built in: the reading that identifies a process is
  not 0 and stays the same while it runs; the lock file can be read (\<open>le_read\<close> in \<open>lr_init\<close>), all other system calls may fail; only
  an owner calls \<open>lock_fini\<close>; the two functions are not interrupted. Each is needed: \<open>lock_lost_by_live_owner\<close>,
  \<open>unreadable_lock_taken_over\<close>, \<open>foreign_fini_removes\<close> and \<open>lock_race\<close> show what happens without it.
\<close>

definition set_stat :: "int \<Rightarrow> string option \<Rightarrow> lock_world \<Rightarrow> lock_world" where
  "set_stat p line w = w\<lparr>w_dir := (w_dir w)\<lparr>ld_stat := (ld_stat (w_dir w))(p := line)\<rparr>\<rparr>"

definition lock_owner :: "lock_world \<Rightarrow> int \<Rightarrow> bool" where
  "lock_owner w p \<longleftrightarrow> ld_stat (w_dir w) p \<noteq> None \<and> 0 \<le> m_apilock (w_proc w p)"

abbreviation reading :: "lock_world \<Rightarrow> int \<Rightarrow> u64" where
  "reading w p \<equiv> get_process_start_time (ld_stat (w_dir w)) p"

inductive lock_reach :: "lock_world \<Rightarrow> bool" where
  lr_start: "ld_file (w_dir w) = None \<Longrightarrow> \<forall>p. m_apilock (w_proc w p) = - 1 \<Longrightarrow> lock_reach w"
| lr_spawn: "lock_reach w \<Longrightarrow> ld_stat (w_dir w) p = None \<Longrightarrow> m_apilock v = - 1 \<Longrightarrow>
    lock_reach (set_stat p (Some line) (w\<lparr>w_proc := (w_proc w)(p := v)\<rparr>))"
| lr_exit: "lock_reach w \<Longrightarrow> lock_reach (set_stat p None w)"
| lr_stat: "lock_reach w \<Longrightarrow> ld_stat (w_dir w) p \<noteq> None \<Longrightarrow> reading (set_stat p (Some line) w) p = reading w p \<Longrightarrow>
    lock_reach (set_stat p (Some line) w)"
| lr_init: "lock_reach w \<Longrightarrow> le_read e \<Longrightarrow> 0 \<le> p \<Longrightarrow> p < 2 ^ 31 \<Longrightarrow> reading w p \<noteq> 0 \<Longrightarrow>
    lock_init e p (w_proc w p) (w_dir w) = (ret, v, d) \<Longrightarrow>
    lock_reach (w\<lparr>w_dir := d, w_proc := (w_proc w)(p := v)\<rparr>)"
| lr_fini: "lock_reach w \<Longrightarrow> lock_owner w p \<Longrightarrow> lock_fini e (w_proc w p) (w_dir w) = (ret, v, d) \<Longrightarrow>
    lock_reach (w\<lparr>w_dir := d, w_proc := (w_proc w)(p := v)\<rparr>)"

definition lock_inv :: "lock_world \<Rightarrow> bool" where
  "lock_inv w \<longleftrightarrow> (\<forall>p. lock_owner w p \<longrightarrow>
     0 \<le> p \<and> p < 2 ^ 31 \<and> reading w p \<noteq> 0 \<and> ld_file (w_dir w) = Some (lock_line p (reading w p)))"

lemma lock_invD:
  assumes "lock_inv w" and "lock_owner w p"
  shows "0 \<le> p" and "p < 2 ^ 31" and "reading w p \<noteq> 0" and "ld_file (w_dir w) = Some (lock_line p (reading w p))"
  using assms by (auto simp: lock_inv_def)

lemma lock_inv_unique:
  assumes "lock_inv w" and "lock_owner w p" and "lock_owner w q"
  shows "p = q"
proof -
  define e :: lock_env where "e = \<lparr>le_tmp_create = True, le_tmp_unlink = True, le_fd = None, le_read = True, le_write = True,
    le_unlink = True, le_mutex_init = True, le_mutex_destroy = True\<rparr>"
  have "le_read e" by (simp add: e_def)
  note r = read_written [OF _ _ _ this, of _ "w_dir w"]
  from r [OF lock_invD(1,2,4) [OF assms(1,2)]] r [OF lock_invD(1,2,4) [OF assms(1,3)]] show ?thesis by simp
qed

lemma owner_not_stale:
  assumes "lock_inv w" and "lock_owner w p" and "le_read e"
  shows "\<not> lock_stale e (w_dir w)"
  using read_written [OF lock_invD(1,2,4) [OF assms(1,2)] assms(3)] lock_invD(3) [OF assms(1,2)]
  by (simp add: lock_stale_def is_pid_alive_def)

lemma set_stat_simps [simp]:
  "w_proc (set_stat p line w) = w_proc w" "ld_file (w_dir (set_stat p line w)) = ld_file (w_dir w)"
  "ld_stat (w_dir (set_stat p line w)) q = (if q = p then line else ld_stat (w_dir w) q)"
  by (simp_all add: set_stat_def)

lemma reading_other [simp]: "q \<noteq> p \<Longrightarrow> reading (set_stat p line w) q = reading w q"
  by (simp add: get_process_start_time_def)

lemma lock_init_failure:
  assumes "lock_init e self p d = (ret, p', d')" and "ret \<noteq> 0"
  shows "(p' = p \<or> m_apilock p' = - 1) \<and> (ld_file d \<noteq> None \<and> \<not> lock_stale e d \<longrightarrow> ld_file d' = ld_file d)"
proof (intro conjI impI)
  show "p' = p \<or> m_apilock p' = - 1"
    using assms by (auto simp: lock_init_def lock_record_def Let_def split: if_splits option.splits prod.splits sum.splits)
next
  assume ns: "ld_file d \<noteq> None \<and> \<not> lock_stale e d"
  obtain ok d1 where c: "check_lockdir_access e d = (ok, d1)" by (cases "check_lockdir_access e d")
  then have k: "ld_file d1 = ld_file d" "ld_stat d1 = ld_stat d"
    by (auto simp: check_lockdir_access_def lock_tmp_create_def lock_tmp_unlink_def split: if_splits prod.splits)
  with ns have "\<not> lock_stale e d1" "open_lockfile e d1 = Inl True"
    using lock_stale_cong [OF k] by (auto simp: open_lockfile_def)
  with assms(1) c k show "ld_file d' = ld_file d" by (auto simp: lock_init_def Let_def split: if_splits)
qed

lemma lock_inv_init:
  assumes "lock_inv w" and "le_read e" and "0 \<le> p" and "p < 2 ^ 31" and "reading w p \<noteq> 0"
    and "lock_init e p (w_proc w p) (w_dir w) = (ret, v, d)"
  shows "lock_inv (w\<lparr>w_dir := d, w_proc := (w_proc w)(p := v)\<rparr>)" (is "lock_inv ?w")
proof -
  have st: "ld_stat d = ld_stat (w_dir w)" using lock_init_keeps_stat [OF assms(6)] .
  show ?thesis
  proof (cases "ret = 0")
    case True
    note s = lock_init_success [OF assms(6) [unfolded True]]
    have no: "\<not> lock_owner w q" for q
      using s owner_not_stale [OF assms(1) _ assms(2), of q] lock_invD(4) [OF assms(1), of q] by auto
    have "q = p" if "lock_owner ?w q" for q
      using that no [of q] by (auto simp: lock_owner_def st split: if_splits)
    with s assms(3-5) show ?thesis by (auto simp: lock_inv_def)
  next
    case False
    note f = lock_init_failure [OF assms(6) False]
    have "lock_owner w q" if "lock_owner ?w q" for q
      using that f by (auto simp: lock_owner_def st split: if_splits)
    then show ?thesis
      using lock_invD [OF assms(1)] owner_not_stale [OF assms(1) _ assms(2)] f by (fastforce simp: lock_inv_def st)
  qed
qed

lemma lock_reach_inv: "lock_reach w \<Longrightarrow> lock_inv w"
proof (induction rule: lock_reach.induct)
  case (lr_start w)
  then show ?case by (simp add: lock_inv_def lock_owner_def)
next
  case (lr_spawn w p v line)
  have "lock_owner w q \<and> q \<noteq> p" if "lock_owner (set_stat p (Some line) (w\<lparr>w_proc := (w_proc w)(p := v)\<rparr>)) q" for q
    using that lr_spawn by (auto simp: lock_owner_def split: if_splits)
  with lr_spawn show ?case by (fastforce simp: lock_inv_def)
next
  case (lr_exit w p)
  have "lock_owner w q \<and> q \<noteq> p" if "lock_owner (set_stat p None w) q" for q
    using that by (auto simp: lock_owner_def split: if_splits)
  with lr_exit show ?case by (fastforce simp: lock_inv_def)
next
  case (lr_stat w p line)
  have "lock_owner w q" if "lock_owner (set_stat p (Some line) w) q" for q
    using that lr_stat by (auto simp: lock_owner_def split: if_splits)
  moreover have "reading (set_stat p (Some line) w) q = reading w q" for q
    using lr_stat by (cases "q = p") simp_all
  ultimately show ?case using lr_stat(4) by (simp add: lock_inv_def)
next
  case (lr_init w e p ret v d)
  then show ?case using lock_inv_init by blast
next
  case (lr_fini w p e ret v d)
  have "\<not> lock_owner (w\<lparr>w_dir := d, w_proc := (w_proc w)(p := v)\<rparr>) q" for q
  proof
    assume o: "lock_owner (w\<lparr>w_dir := d, w_proc := (w_proc w)(p := v)\<rparr>) q"
    from lr_fini(3) have "m_apilock v = - 1" "ld_stat d = ld_stat (w_dir w)"
      by (auto simp: lock_fini_def unlink_lockfile_def Let_def split: if_splits prod.splits)
    with o have "q \<noteq> p" "lock_owner w q" by (auto simp: lock_owner_def split: if_splits)
    with lock_inv_unique lr_fini show False by blast
  qed
  then show ?case by (simp add: lock_inv_def)
qed

section \<open>Properties\<close>

text \<open>
  C9. At most one running process owns the library, whatever processes end without releasing the lock and whichever system calls other
  than the reading of the lock file fail, provided that the reading that identifies a process is not 0 and does not change while it runs,
  that \<open>lock_init\<close> can read the lock file and is not interrupted, and that only a process that owns the library calls \<open>lock_fini\<close>.
\<close>

theorem lock_exclusive:
  assumes "lock_reach w" and "lock_owner w p" and "lock_owner w q"
  shows "p = q"
  using lock_inv_unique [OF lock_reach_inv [OF assms(1)] assms(2,3)] .

definition good_env :: lock_env where
  "good_env = \<lparr>le_tmp_create = True, le_tmp_unlink = True, le_fd = Some 3, le_read = True, le_write = True,
    le_unlink = True, le_mutex_init = True, le_mutex_destroy = True\<rparr>"

definition stat_sample :: "string \<Rightarrow> string option" where
  "stat_sample v = Some (stat_line (replicate 22 ''7'' @ [v] @ replicate 29 ''0''))"

definition fresh_dir :: lockdir where
  "fresh_dir = \<lparr>ld_access = True, ld_tmp = False, ld_file = None, ld_stat = (\<lambda>p. stat_sample ''4096'')\<rparr>"

definition fresh_world :: lock_world where
  "fresh_world = \<lparr>w_dir = fresh_dir, w_pc = (\<lambda>_. L_access), w_proc = (\<lambda>_. \<lparr>m_apilock = - 1, m_pid = 0, m_start_time = 0\<rparr>)\<rparr>"

definition owned_world :: lock_world where
  "owned_world = (case lock_init good_env 5 (w_proc fresh_world 5) (w_dir fresh_world) of (_, v, d) \<Rightarrow>
     fresh_world\<lparr>w_dir := d, w_proc := (w_proc fresh_world)(5 := v)\<rparr>)"

lemma owned_world_reach: "lock_reach owned_world"
proof -
  have "lock_reach fresh_world" by (rule lr_start) (simp_all add: fresh_world_def fresh_dir_def)
  moreover have "reading fresh_world 5 \<noteq> 0" "le_read good_env" by code_simp+
  ultimately show ?thesis
    unfolding owned_world_def by (cases "lock_init good_env 5 (w_proc fresh_world 5) (w_dir fresh_world)") (auto intro: lr_init)
qed

definition refused_world :: lock_world where
  "refused_world = (case lock_init good_env 7 (w_proc owned_world 7) (w_dir owned_world) of (_, v, d) \<Rightarrow>
     owned_world\<lparr>w_dir := d, w_proc := (w_proc owned_world)(7 := v)\<rparr>)"

theorem lock_exclusive_witness: "lock_owner refused_world 5 \<and> \<not> lock_owner refused_world 7"
proof -
  have "reading owned_world 7 \<noteq> 0" "le_read good_env" by code_simp+
  with owned_world_reach have "lock_reach refused_world"
    unfolding refused_world_def by (cases "lock_init good_env 7 (w_proc owned_world 7) (w_dir owned_world)") (auto intro: lr_init)
  moreover have "lock_owner refused_world 5" by code_simp
  ultimately show ?thesis using lock_exclusive [of refused_world 5 7] by auto
qed

text \<open>
  What identifies a process is not its start time: on a stat line without blanks inside a
  field the library reads field 23, the size of the virtual memory, not field 22. So the lock of
  a process that runs, whose start time is the same, but whose memory has grown or shrunk since \<open>lock_init\<close>
  counts as stale, and another process gets the lock.
\<close>

theorem lock_lost_by_live_owner:
  assumes "calls_succeed e" and "0 \<le> p" and "p < 2 ^ 31"
    and "stat_fields fs" and "fs ! 22 = show_num 10 (uint (old :: u64))" and "ld_stat d p = Some (stat_line fs)"
    and "lock_init e p v d = (0, v', d')"
    and "fs' = fs[22 := show_num 10 (uint (new :: u64))]" and "stat_fields fs'" and "new \<noteq> old"
  shows "fs' ! 21 = fs ! 21 \<and> fst (lock_init e q u (d'\<lparr>ld_stat := (ld_stat d')(p := Some (stat_line fs'))\<rparr>)) = 0"
proof
  show "fs' ! 21 = fs ! 21" using assms(8) by simp
  let ?d = "d'\<lparr>ld_stat := (ld_stat d')(p := Some (stat_line fs'))\<rparr>"
  note s = lock_init_success [OF assms(7)]
  have "get_process_start_time (ld_stat d) p = old" using start_time_field [of fs "ld_stat d" p old] assms(4-6) by simp
  with s have f: "ld_file ?d = Some (lock_line p old)" by simp
  have "fs' ! 22 = show_num 10 (uint new)" using assms(4,8) by (simp add: stat_fields_def)
  then have "get_process_start_time (ld_stat ?d) p = new" using start_time_field [of fs' "ld_stat ?d" p new] assms(9) by simp
  then have "lock_stale e ?d"
    using read_written [OF assms(2,3) f] assms(1,10) by (simp add: lock_stale_def is_pid_alive_def calls_succeed_def)
  then show "fst (lock_init e q u ?d) = 0" using lock_init_succeeds [OF assms(1)] s by simp
qed

definition sample_stat :: "string \<Rightarrow> string list" where
  "sample_stat v = replicate 22 ''7'' @ [v] @ replicate 29 ''0''"

definition grown_dir :: lockdir where
  "grown_dir = (w_dir owned_world)\<lparr>ld_stat := (ld_stat (w_dir owned_world))(5 := Some (stat_line (sample_stat ''8192'')))\<rparr>"

theorem lock_lost_by_live_owner_witness:
  "lock_owner owned_world 5 \<and> fst (lock_init good_env 7 (w_proc owned_world 7) grown_dir) = 0"
proof
  show "lock_owner owned_world 5" by code_simp
  have e: "calls_succeed good_env" by (simp add: calls_succeed_def good_env_def)
  have f: "stat_fields (sample_stat ''4096'')" "stat_fields ((sample_stat ''4096'')[22 := show_num 10 (uint (8192::u64))])"
    "sample_stat ''4096'' ! 22 = show_num 10 (uint (4096::u64))" by code_simp+
  have st: "ld_stat fresh_dir 5 = Some (stat_line (sample_stat ''4096''))" by (simp add: fresh_dir_def stat_sample_def sample_stat_def)
  have r: "fst (lock_init good_env 5 (w_proc fresh_world 5) fresh_dir) = 0"
    "stat_line ((sample_stat ''4096'')[22 := show_num 10 (uint (8192::u64))]) = stat_line (sample_stat ''8192'')" by code_simp+
  obtain v d where i: "lock_init good_env 5 (w_proc fresh_world 5) fresh_dir = (0, v, d)"
    using r(1) by (cases "lock_init good_env 5 (w_proc fresh_world 5) fresh_dir") simp
  then have "w_dir owned_world = d" by (simp add: owned_world_def fresh_world_def)
  with lock_lost_by_live_owner [OF e _ _ f(1,3) st i refl f(2), of 7 "w_proc owned_world 7"] r(2)
  show "fst (lock_init good_env 7 (w_proc owned_world 7) grown_dir) = 0" by (simp add: grown_dir_def)
qed

text \<open>
  The check of an existing lock file and its removal are not one step: two processes
  that start together can both end up owning the library. The first has created the file
  and not yet written it; the second reads an empty file, takes it for a stale one, and replaces
  the file that the first has filled in the meantime.
\<close>

theorem lock_race:
  assumes "calls_succeed e" and "p \<noteq> q" and "ld_access (w_dir w)" and "\<not> ld_tmp (w_dir w)" and "ld_file (w_dir w) = None"
    and "w_pc w p = L_access" and "w_pc w q = L_access" and "w' = run_schedule e [p, p, p, q, q, q, q, p, q, q, q] w"
  shows "w_pc w' p = L_done \<and> w_pc w' q = L_done \<and> 0 \<le> m_apilock (w_proc w' p) \<and> 0 \<le> m_apilock (w_proc w' q) \<and>
    ld_file (w_dir w') = Some (lock_line q (reading w q))"
proof -
  from assms(1) obtain fd where e: "le_tmp_create e" "le_tmp_unlink e" "le_fd e = Some fd" "0 \<le> fd" "le_write e" "le_unlink e"
    "le_mutex_init e" by (auto simp: calls_succeed_def)
  have empty: "lock_stale e d" if "ld_file d = Some []" for d
    using that by (simp add: lock_stale_def read_lockfile_def first_line_def)
  show ?thesis
    using assms(2-7) e
    by (simp add: assms(8) run_schedule_def world_step_def lock_step_simps lock_tmp_create_def lock_tmp_unlink_def open_lockfile_def
        unlink_lockfile_def lock_record_def write_lockfile_def empty Let_def)
qed

theorem lock_race_witness:
  "\<exists>w. w = run_schedule good_env [5, 5, 5, 7, 7, 7, 7, 5, 7, 7, 7] fresh_world \<and> w_pc w 5 = L_done \<and> w_pc w 7 = L_done"
  using lock_race [of good_env 5 7 fresh_world]
  by (simp add: calls_succeed_def good_env_def fresh_world_def fresh_dir_def)

text \<open>
  C13. The lock is not lost with its owner: when the owner has ended without calling
  \<open>lock_fini\<close>, and its number has not been given to a process with the same reading, the next
  \<open>lock_init\<close> succeeds and the file names the new owner.
\<close>

theorem lock_recovers:
  assumes "calls_succeed e" and "ld_access d" and "\<not> ld_tmp d" and "0 \<le> p" and "p < 2 ^ 31" and "ld_file d = Some (lock_line p st)"
    and "ld_stat d p = None \<or> get_process_start_time (ld_stat d) p \<noteq> st"
  shows "\<exists>v' d'. lock_init e q v d = (0, v', d') \<and> 0 \<le> m_apilock v' \<and>
    ld_file d' = Some (lock_line q (get_process_start_time (ld_stat d) q))"
proof -
  have "lock_stale e d"
    using read_written [OF assms(4-6)] assms(1,7)
    by (auto simp: lock_stale_def is_pid_alive_def calls_succeed_def get_process_start_time_def Let_def)
  then have "fst (lock_init e q v d) = 0" using lock_init_succeeds [OF assms(1-3)] by blast
  then obtain v' d' where i: "lock_init e q v d = (0, v', d')" by (cases "lock_init e q v d") simp
  have "0 \<le> m_apilock v'" using lock_init_success [OF i] assms(1) by (auto simp: calls_succeed_def)
  with i lock_init_success [OF i] show ?thesis by auto
qed

definition orphan_dir :: lockdir where
  "orphan_dir = fresh_dir\<lparr>ld_file := Some (lock_line 5 4096), ld_stat := (ld_stat fresh_dir)(5 := None)\<rparr>"

theorem lock_recovers_witness:
  "\<exists>v d. lock_init good_env 7 (w_proc fresh_world 7) orphan_dir = (0, v, d) \<and>
     ld_file d = Some (lock_line 7 (get_process_start_time (ld_stat orphan_dir) 7))"
  using lock_recovers [of good_env orphan_dir 5 4096 7 "w_proc fresh_world 7"]
  by (auto simp: calls_succeed_def good_env_def orphan_dir_def fresh_dir_def)

section \<open>Further behaviour\<close>

text \<open>
  A temporary file left behind by a process that ended between creating and removing it blocks
  every later \<open>lock_init\<close>; nothing in the library removes it.
\<close>

lemma lock_blocked_by_tmp: "ld_tmp d \<Longrightarrow> lock_init e q v d = (- 1, v, d)"
  by (simp add: lock_init_def check_lockdir_access_def lock_tmp_create_def)

text \<open>
  A second \<open>lock_init\<close> in the process that owns the lock fails and forgets the descriptor of the file, so
  that \<open>lock_fini\<close> fails to close it and reports an error.
\<close>

lemma second_init_forgets:
  assumes "lock_reach w" and "lock_owner w p" and "calls_succeed e" and "ld_access (w_dir w)" and "\<not> ld_tmp (w_dir w)"
  shows "\<exists>v d. lock_init e p (w_proc w p) (w_dir w) = (- 1, v, d) \<and> fst (lock_fini e' v d) = - 1"
proof -
  note inv = lock_reach_inv [OF assms(1)]
  have ns: "\<not> lock_stale e (w_dir w)" using owner_not_stale [OF inv assms(2)] assms(3) by (simp add: calls_succeed_def)
  let ?d = "(w_dir w)\<lparr>ld_tmp := False\<rparr>"
  have "\<not> lock_stale e ?d" using ns lock_stale_cong [of ?d "w_dir w" e] by simp
  then have "lock_init e p (w_proc w p) (w_dir w) = (- 1, (w_proc w p)\<lparr>m_apilock := - 1\<rparr>, ?d)"
    using assms(3-5) lock_invD(4) [OF inv assms(2)]
    by (simp add: lock_init_def check_lockdir_access_def lock_tmp_create_def lock_tmp_unlink_def open_lockfile_def calls_succeed_def Let_def)
  then show ?thesis by (auto simp: lock_fini_def Let_def split: prod.splits)
qed

text \<open>
  A lock file that cannot be read, for want of descriptors or memory, counts as stale: the lock of a running owner is
  taken over.
\<close>

lemma unreadable_lock_taken_over:
  assumes "\<not> le_read e" and "calls_succeed (e\<lparr>le_read := True\<rparr>)" and "ld_access d" and "\<not> ld_tmp d"
  shows "fst (lock_init e q v d) = 0"
proof -
  have "lock_stale e d'" for d' using assms(1) by (simp add: lock_stale_def read_lockfile_def split: option.split)
  then show ?thesis
    using assms
    by (auto simp: calls_succeed_def lock_init_def check_lockdir_access_def lock_tmp_create_def lock_tmp_unlink_def open_lockfile_def unlink_lockfile_def
        lock_record_def write_lockfile_def Let_def split: if_splits option.splits prod.splits sum.splits)
qed

text \<open>\<open>lock_fini\<close> of a process that does not own the lock removes the owner's file.\<close>

lemma foreign_fini_removes: "le_unlink e \<Longrightarrow> ld_file (snd (snd (lock_fini e v d))) = None"
  by (auto simp: lock_fini_def unlink_lockfile_def Let_def split: prod.splits)

end
