(* ===== verification/LibInit.thy ===== *)
theory LibInit
  imports PqosTypes LockWorld
begin

text \<open>
  Initialising and shutting down the library (\<open>pqos_init\<close>, \<open>pqos_fini\<close> and
  \<open>discover_interface\<close> of \<open>lib/cap.c\<close>). The parts that are initialised one after the other are seen
  through their return values; the state says which of them are running. The API lock is the one of
  \<open>lib/lock.c\<close>.
\<close>

section \<open>State and outcomes\<close>

datatype init_part =
    Part_log | Part_cpuinfo | Part_machine | Part_erdt | Part_cores_domains | Part_alloc | Part_mon | Part_mrrm | Part_iordt
  | Part_channels_domains

datatype obj_ptr = PTR_NULL | PTR_LIVE | PTR_FREED

text \<open>
  The state of a process: the lock module and the lock directory, the API mutex, \<open>m_init_done\<close>,
  \<open>m_interface\<close>, the parts that run, and the pointer \<open>m_sysconf.erdt\<close>.
\<close>

record init_state =
  is_proc :: api_proc
  is_dir :: lockdir
  is_locked :: bool
  is_init_done :: bool
  is_interface :: pqos_interface
  is_parts :: "init_part set"
  is_erdt :: obj_ptr

text \<open>
  What the functions called by \<open>pqos_init\<close> and \<open>pqos_fini\<close> return. \<open>io_cpuinfo\<close> says whether
  \<open>cpuinfo_init\<close> delivers a topology; \<open>io_rdt_iface\<close> is the environment variable \<open>RDT_IFACE\<close>,
  \<open>io_mmio_sysfs\<close> whether both ACPI tables are there; \<open>io_mode_region\<close> and \<open>io_mode_total\<close> are the
  results of \<open>mmio_set_mbm_mba_mode\<close>.
\<close>

record init_outcome =
  io_lock :: lock_env
  io_log :: retval
  io_rdt_iface :: "string option"
  io_mmio_sysfs :: bool
  io_resctrl :: retval
  io_cpuinfo :: bool
  io_machine :: retval
  io_os_cap :: retval
  io_discover :: retval
  io_utils :: retval
  io_api :: retval
  io_erdt :: retval
  io_cores_domains :: retval
  io_mode_region :: retval
  io_mode_total :: retval
  io_alloc :: retval
  io_mon :: retval
  io_mrrm :: retval
  io_iordt :: retval
  io_channels_domains :: retval
  io_iordt_fini :: bool
  io_cpuinfo_fini :: bool
  io_machine_fini :: retval
  io_log_fini :: retval

abbreviation start_part :: "init_part \<Rightarrow> retval \<Rightarrow> init_state \<Rightarrow> init_state" where
  "start_part p ret s \<equiv> (if ret = PQOS_RETVAL_OK then s\<lparr>is_parts := insert p (is_parts s)\<rparr> else s)"

abbreviation stop_parts :: "init_part set \<Rightarrow> init_state \<Rightarrow> init_state" where
  "stop_parts ps s \<equiv> s\<lparr>is_parts := is_parts s - ps\<rparr>"

definition release_api_lock :: "init_outcome \<Rightarrow> init_state \<Rightarrow> int \<times> init_state" where
  "release_api_lock R s = (case lock_fini (io_lock R) (is_proc s) (is_dir s) of (r, p, d) \<Rightarrow> (r, s\<lparr>is_proc := p, is_dir := d\<rparr>))"

section \<open>The interface\<close>

definition env_prefix :: "string \<Rightarrow> string \<Rightarrow> bool" where
  "env_prefix name env \<longleftrightarrow> strcasecmp0 (take (length name) env) name"

definition discover_interface :: "init_outcome \<Rightarrow> pqos_interface \<Rightarrow> pqos_interface res" where
  "discover_interface R requested =
     (case io_rdt_iface R of
        Some env \<Rightarrow>
          if env_prefix ''OS'' env
          then if requested \<noteq> PQOS_INTER_OS \<and> requested \<noteq> PQOS_INTER_AUTO then Inl PQOS_RETVAL_ERROR else Inr PQOS_INTER_OS
          else if env_prefix ''MSR'' env
          then if requested \<noteq> PQOS_INTER_MSR \<and> requested \<noteq> PQOS_INTER_AUTO then Inl PQOS_RETVAL_ERROR else Inr PQOS_INTER_MSR
          else if env_prefix ''MMIO'' env
          then if requested \<noteq> PQOS_INTER_MMIO \<and> requested \<noteq> PQOS_INTER_AUTO then Inl PQOS_RETVAL_ERROR else Inr PQOS_INTER_MMIO
          else Inl PQOS_RETVAL_ERROR
      | None \<Rightarrow>
          if requested = PQOS_INTER_AUTO
          then if io_mmio_sysfs R then Inr PQOS_INTER_MMIO
               else if io_resctrl R = PQOS_RETVAL_OK then Inr PQOS_INTER_OS
               else Inr PQOS_INTER_MSR
          else Inr requested)"

section \<open>Initialisation\<close>

text \<open>The labels at the end of \<open>pqos_init\<close>, from the last one backwards.\<close>

definition init_exit :: "init_outcome \<Rightarrow> obj_ptr \<Rightarrow> retval \<Rightarrow> init_state \<Rightarrow> retval \<times> init_state" where
  "init_exit R erdt ret s =
     (let s = (if ret = PQOS_RETVAL_OK then s\<lparr>is_init_done := True, is_erdt := erdt\<rparr> else s);
          s = s\<lparr>is_locked := False\<rparr>
      in (ret, if ret \<noteq> PQOS_RETVAL_OK then snd (release_api_lock R s) else s))"

definition log_init_error :: "init_outcome \<Rightarrow> obj_ptr \<Rightarrow> retval \<Rightarrow> init_state \<Rightarrow> retval \<times> init_state" where
  "log_init_error R erdt ret s = init_exit R erdt ret (if ret \<noteq> PQOS_RETVAL_OK then stop_parts {Part_log} s else s)"

definition cpuinfo_init_error :: "init_outcome \<Rightarrow> obj_ptr \<Rightarrow> retval \<Rightarrow> init_state \<Rightarrow> retval \<times> init_state" where
  "cpuinfo_init_error R erdt ret s = log_init_error R erdt ret (if ret \<noteq> PQOS_RETVAL_OK then stop_parts {Part_cpuinfo} s else s)"

definition machine_init_error :: "init_outcome \<Rightarrow> obj_ptr \<Rightarrow> retval \<Rightarrow> init_state \<Rightarrow> retval \<times> init_state" where
  "machine_init_error R erdt ret s = cpuinfo_init_error R erdt ret (if ret \<noteq> PQOS_RETVAL_OK then stop_parts {Part_machine} s else s)"

text \<open>From the initialisation of I/R RDT to the labels.\<close>

definition init_iordt :: "init_outcome \<Rightarrow> pqos_interface \<Rightarrow> obj_ptr \<Rightarrow> init_state \<Rightarrow> retval \<times> init_state" where
  "init_iordt R iface erdt s =
     (let ret = io_iordt R;
          s = start_part Part_iordt ret s;
          ret = (if ret = PQOS_RETVAL_RESOURCE \<and> iface \<noteq> PQOS_INTER_MMIO then PQOS_RETVAL_OK else ret);
          (ret, s) = (if ret = PQOS_RETVAL_OK \<and> iface = PQOS_INTER_MMIO
                      then (io_channels_domains R, start_part Part_channels_domains (io_channels_domains R) s) else (ret, s));
          s = (if ret \<noteq> PQOS_RETVAL_OK then stop_parts {Part_iordt, Part_erdt} s else s);
          s = (if ret \<noteq> PQOS_RETVAL_OK \<and> iface = PQOS_INTER_MMIO
               then stop_parts {Part_cores_domains, Part_mrrm, Part_channels_domains} s else s)
      in machine_init_error R erdt ret s)"

text \<open>Allocation, monitoring and MRRM.\<close>

definition init_features :: "init_outcome \<Rightarrow> pqos_interface \<Rightarrow> obj_ptr \<Rightarrow> init_state \<Rightarrow> retval \<times> init_state" where
  "init_features R iface erdt s =
     (let ret = io_alloc R
      in if ret = PQOS_RETVAL_BUSY then machine_init_error R erdt ret s
         else (let cat_init = (ret = PQOS_RETVAL_OK);
                   s = start_part Part_alloc ret s;
                   mon_init = (io_mon R = PQOS_RETVAL_OK);
                   s = start_part Part_mon (io_mon R) s
               in if \<not> cat_init \<and> \<not> mon_init then machine_init_error R erdt PQOS_RETVAL_ERROR s
                  else if iface = PQOS_INTER_MMIO
                  then (let s = start_part Part_mrrm (io_mrrm R) s
                        in if io_mrrm R \<noteq> PQOS_RETVAL_OK then machine_init_error R erdt (io_mrrm R) s
                           else init_iordt R iface erdt s)
                  else init_iordt R iface erdt s))"

text \<open>The ERDT table and the mode of bandwidth monitoring and allocation.\<close>

definition init_erdt :: "init_outcome \<Rightarrow> pqos_interface \<Rightarrow> init_state \<Rightarrow> retval \<times> init_state" where
  "init_erdt R iface s =
     (let ret = io_erdt R;
          s = start_part Part_erdt ret s;
          erdt = (if ret = PQOS_RETVAL_OK then PTR_LIVE else PTR_NULL)
      in if ret \<noteq> PQOS_RETVAL_OK \<and> iface = PQOS_INTER_MMIO then machine_init_error R erdt ret s
         else if ret = PQOS_RETVAL_OK \<and> iface = PQOS_INTER_MMIO
         then (let ret = io_cores_domains R; s = start_part Part_cores_domains ret s
               in if ret \<noteq> PQOS_RETVAL_OK then machine_init_error R erdt ret s
                  else if io_mode_region R \<noteq> PQOS_RETVAL_OK then machine_init_error R erdt ret s
                  else init_features R iface erdt s)
         else if ret = PQOS_RETVAL_OK \<and> iface = PQOS_INTER_MSR
         then if io_mode_total R \<noteq> PQOS_RETVAL_OK then machine_init_error R erdt ret s
              else init_features R iface erdt s
         else init_features R iface erdt s)"

text \<open>From the processor topology to the table of functions.\<close>

definition init_base :: "init_outcome \<Rightarrow> pqos_interface \<Rightarrow> init_state \<Rightarrow> retval \<times> init_state" where
  "init_base R iface s =
     (if \<not> io_cpuinfo R then log_init_error R PTR_NULL PQOS_RETVAL_ERROR s
      else let s = start_part Part_cpuinfo PQOS_RETVAL_OK s
      in if io_machine R \<noteq> PQOS_RETVAL_OK then cpuinfo_init_error R PTR_NULL (io_machine R) s
      else let s = start_part Part_machine PQOS_RETVAL_OK s
      in if (iface = PQOS_INTER_OS \<or> iface = PQOS_INTER_OS_RESCTRL_MON) \<and> io_os_cap R \<noteq> PQOS_RETVAL_OK
         then machine_init_error R PTR_NULL (io_os_cap R) s
      else if io_discover R \<noteq> PQOS_RETVAL_OK then machine_init_error R PTR_NULL (io_discover R) s
      else if io_utils R \<noteq> PQOS_RETVAL_OK then machine_init_error R PTR_NULL (io_utils R) s
      else if io_api R \<noteq> PQOS_RETVAL_OK then machine_init_error R PTR_NULL (io_api R) s
      else init_erdt R iface (s\<lparr>is_interface := iface\<rparr>))"

text \<open>\<open>cfg\<close> is the requested interface of \<open>struct pqos_config\<close>.\<close>

definition pqos_init :: "init_outcome \<Rightarrow> int \<Rightarrow> pqos_interface option \<Rightarrow> init_state \<Rightarrow> retval \<times> init_state" where
  "pqos_init R self cfg s =
     (case cfg of
        None \<Rightarrow> (PQOS_RETVAL_PARAM, s)
      | Some requested \<Rightarrow>
          (case lock_init (io_lock R) self (is_proc s) (is_dir s) of (r, p, d) \<Rightarrow>
             (let s = s\<lparr>is_proc := p, is_dir := d\<rparr>
              in if r \<noteq> 0 then (PQOS_RETVAL_ERROR, s)
                 else if is_init_done s then (PQOS_RETVAL_INIT, snd (release_api_lock R s))
                 else (let s = s\<lparr>is_locked := True, is_erdt := PTR_NULL\<rparr>
                       in if io_log R \<noteq> PQOS_RETVAL_OK then init_exit R PTR_NULL (io_log R) s
                          else (let s = start_part Part_log PQOS_RETVAL_OK s
                                in case discover_interface R requested of
                                     Inl ret \<Rightarrow> log_init_error R PTR_NULL ret s
                                   | Inr iface \<Rightarrow> init_base R iface s)))))"

section \<open>Shutdown\<close>

text \<open>
  On the MMIO interface the mode is set through \<open>m_sysconf.erdt\<close> before anything is checked;
  without a live table the result is \<open>None\<close>.
\<close>

definition pqos_fini :: "init_outcome \<Rightarrow> init_state \<Rightarrow> (retval \<times> init_state) option" where
  "pqos_fini R s =
     (let iface = is_interface s
      in if iface = PQOS_INTER_MMIO \<and> is_erdt s \<noteq> PTR_LIVE then None
         else if \<not> is_init_done s then Some (PQOS_RETVAL_INIT, snd (release_api_lock R s))
         else (let s = stop_parts {Part_mon, Part_alloc} s;
                   s = (if iface = PQOS_INTER_MMIO then stop_parts {Part_cores_domains, Part_channels_domains, Part_mrrm} s else s);
                   s = stop_parts {Part_iordt} s;
                   retval = (if io_iordt_fini R then PQOS_RETVAL_OK else PQOS_RETVAL_ERROR);
                   s = (stop_parts {Part_erdt} s)\<lparr>is_erdt := (if is_erdt s = PTR_LIVE then PTR_FREED else is_erdt s)\<rparr>;
                   s = stop_parts {Part_cpuinfo} s;
                   retval = (if io_cpuinfo_fini R then retval else PQOS_RETVAL_ERROR);
                   s = stop_parts {Part_machine} s;
                   retval = (if io_machine_fini R \<noteq> PQOS_RETVAL_OK then io_machine_fini R else retval);
                   s = stop_parts {Part_log} s;
                   retval = (if io_log_fini R \<noteq> PQOS_RETVAL_OK then io_log_fini R else retval);
                   s = s\<lparr>is_init_done := False\<rparr>
               in case release_api_lock R s of (r, s) \<Rightarrow> Some (if r \<noteq> 0 then PQOS_RETVAL_ERROR else retval, s)))"

section \<open>Facts\<close>

lemmas init_defs = init_exit_def log_init_error_def cpuinfo_init_error_def machine_init_error_def
lemmas init_stage_defs = pqos_init_def init_base_def init_erdt_def init_features_def init_iordt_def

text \<open>What the labels at the end of \<open>pqos_init\<close> do, by the value of \<open>ret\<close>.\<close>

lemma machine_init_error_ok:
  "machine_init_error R erdt PQOS_RETVAL_OK s = (PQOS_RETVAL_OK, s\<lparr>is_init_done := True, is_erdt := erdt, is_locked := False\<rparr>)"
  by (simp add: init_defs Let_def)

lemma api_release_keeps [simp]:
  "is_init_done (snd (release_api_lock R s)) = is_init_done s" "is_parts (snd (release_api_lock R s)) = is_parts s"
  "is_erdt (snd (release_api_lock R s)) = is_erdt s" "is_interface (snd (release_api_lock R s)) = is_interface s"
  "is_locked (snd (release_api_lock R s)) = is_locked s"
  by (simp_all add: release_api_lock_def split: prod.split)

lemma release_unlocks:
  assumes "le_unlink (io_lock R)"
  shows "ld_file (is_dir (snd (release_api_lock R s))) = None \<and> m_apilock (is_proc (snd (release_api_lock R s))) = - 1"
  using assms by (auto simp: release_api_lock_def lock_fini_def unlink_lockfile_def Let_def split: prod.split)

text \<open>
  The shape of a run that gets past the lock: the state at the end is a function of the
  parts started so far.
\<close>

definition init_ends :: "init_outcome \<Rightarrow> init_state \<Rightarrow> retval \<times> init_state \<Rightarrow> bool" where
  "init_ends R s r \<longleftrightarrow> (case r of (ret, t) \<Rightarrow>
     if ret = PQOS_RETVAL_OK
     then is_init_done t \<and> \<not> is_locked t \<and> is_proc t = is_proc s \<and> is_dir t = is_dir s \<and>
       is_parts t \<subseteq> (if is_interface t = PQOS_INTER_MMIO then UNIV else - {Part_cores_domains, Part_channels_domains, Part_mrrm}) \<and>
       (is_erdt t = PTR_LIVE \<longleftrightarrow> Part_erdt \<in> is_parts t) \<and> is_erdt t \<noteq> PTR_FREED \<and>
       (is_interface t = PQOS_INTER_MMIO \<longrightarrow> is_erdt t = PTR_LIVE)
     else \<not> is_init_done t \<and> \<not> is_locked t \<and> (is_proc t, is_dir t) = snd (lock_fini (io_lock R) (is_proc s) (is_dir s)) \<and>
       is_erdt t = PTR_NULL \<and> is_parts t \<inter> {Part_log, Part_cpuinfo, Part_machine} = {})"

definition init_point :: "init_state \<Rightarrow> init_part set \<Rightarrow> init_state \<Rightarrow> bool" where
  "init_point s0 ps s \<longleftrightarrow> \<not> is_init_done s \<and> is_erdt s = PTR_NULL \<and> is_proc s = is_proc s0 \<and> is_dir s = is_dir s0 \<and> is_parts s \<subseteq> ps"

lemma fails_at_machine:
  assumes "init_point s0 UNIV s" and "ret \<noteq> PQOS_RETVAL_OK"
  shows "init_ends R s0 (machine_init_error R erdt ret s)"
  using assms by (auto simp: init_point_def init_ends_def init_defs release_api_lock_def Let_def split: prod.splits)

lemma fails_at_cpuinfo:
  assumes "init_point s0 (- {Part_machine}) s" and "ret \<noteq> PQOS_RETVAL_OK"
  shows "init_ends R s0 (cpuinfo_init_error R erdt ret s)"
  using assms by (auto simp: init_point_def init_ends_def init_defs release_api_lock_def Let_def split: prod.splits)

lemma fails_at_log:
  assumes "init_point s0 (- {Part_cpuinfo, Part_machine}) s" and "ret \<noteq> PQOS_RETVAL_OK"
  shows "init_ends R s0 (log_init_error R erdt ret s)"
  using assms by (auto simp: init_point_def init_ends_def init_defs release_api_lock_def Let_def split: prod.splits)

lemma fails_at_exit:
  assumes "init_point s0 (- {Part_log, Part_cpuinfo, Part_machine}) s" and "ret \<noteq> PQOS_RETVAL_OK"
  shows "init_ends R s0 (init_exit R erdt ret s)"
  using assms by (auto simp: init_point_def init_ends_def init_defs release_api_lock_def Let_def split: prod.splits)

text \<open>The parts that only the MMIO interface starts.\<close>

definition mmio_parts :: "pqos_interface \<Rightarrow> init_part set" where
  "mmio_parts iface = (if iface = PQOS_INTER_MMIO then UNIV else - {Part_cores_domains, Part_channels_domains, Part_mrrm})"

definition erdt_agrees :: "pqos_interface \<Rightarrow> obj_ptr \<Rightarrow> init_state \<Rightarrow> bool" where
  "erdt_agrees iface erdt s \<longleftrightarrow>
     is_interface s = iface \<and> (erdt = PTR_LIVE \<longleftrightarrow> Part_erdt \<in> is_parts s) \<and> erdt \<noteq> PTR_FREED \<and> (iface = PQOS_INTER_MMIO \<longrightarrow> erdt = PTR_LIVE)"

lemma ends_at_machine:
  assumes "init_point s0 (mmio_parts iface) s" and "erdt_agrees iface erdt s \<or> ret \<noteq> PQOS_RETVAL_OK"
  shows "init_ends R s0 (machine_init_error R erdt ret s)"
proof (cases "ret = PQOS_RETVAL_OK")
  case False
  then show ?thesis using assms fails_at_machine by (auto simp: init_point_def)
next
  case True
  with assms show ?thesis
    by (auto simp: machine_init_error_ok init_ends_def init_point_def erdt_agrees_def mmio_parts_def split: if_splits)
qed

lemma point_start:
  "init_point s0 ps s \<Longrightarrow> p \<in> ps \<Longrightarrow> init_point s0 ps (start_part p ret s)"
  by (auto simp: init_point_def)

lemma agrees_start:
  "erdt_agrees iface erdt s \<Longrightarrow> p \<noteq> Part_erdt \<Longrightarrow> erdt_agrees iface erdt (start_part p ret s)"
  by (auto simp: erdt_agrees_def)

lemma ends_iordt:
  assumes "init_point s0 (mmio_parts iface) s" and "erdt_agrees iface erdt s"
  shows "init_ends R s0 (init_iordt R iface erdt s)"
proof -
  have p: "Part_iordt \<in> mmio_parts iface" "iface = PQOS_INTER_MMIO \<Longrightarrow> Part_channels_domains \<in> mmio_parts iface"
    by (auto simp: mmio_parts_def)
  show ?thesis
    unfolding init_iordt_def Let_def using assms p
    by (auto simp: init_point_def erdt_agrees_def intro!: ends_at_machine split: prod.splits if_splits)
qed

lemma ends_features:
  assumes "init_point s0 (mmio_parts iface) s" and "erdt_agrees iface erdt s"
  shows "init_ends R s0 (init_features R iface erdt s)"
proof -
  have p: "Part_alloc \<in> mmio_parts iface" "Part_mon \<in> mmio_parts iface" "iface = PQOS_INTER_MMIO \<Longrightarrow> Part_mrrm \<in> mmio_parts iface"
    by (auto simp: mmio_parts_def)
  show ?thesis
    unfolding init_features_def Let_def using assms p
    by (auto simp: init_point_def erdt_agrees_def intro!: ends_at_machine ends_iordt split: if_splits)
qed

lemma ends_erdt:
  assumes "init_point s0 (- {Part_erdt, Part_cores_domains, Part_channels_domains, Part_mrrm}) s" and "is_interface s = iface"
  shows "init_ends R s0 (init_erdt R iface s)"
  unfolding init_erdt_def Let_def using assms
  by (auto simp: init_point_def erdt_agrees_def mmio_parts_def intro!: ends_at_machine [of _ iface] ends_features split: if_splits)

lemma ends_base:
  assumes "init_point s0 {Part_log} s"
  shows "init_ends R s0 (init_base R iface s)"
proof -
  have cp: "init_point s0 (- {Part_machine}) (start_part Part_cpuinfo PQOS_RETVAL_OK s)"
    and mp: "init_point s0 {Part_log, Part_cpuinfo, Part_machine} (start_part Part_machine PQOS_RETVAL_OK (start_part Part_cpuinfo PQOS_RETVAL_OK s))"
    and lp: "init_point s0 (- {Part_cpuinfo, Part_machine}) s"
    using assms by (auto simp: init_point_def)
  have "init_ends R s0 (init_erdt R iface ((start_part Part_machine PQOS_RETVAL_OK (start_part Part_cpuinfo PQOS_RETVAL_OK s))\<lparr>is_interface := iface\<rparr>))"
    using mp by (intro ends_erdt) (auto simp: init_point_def)
  moreover have "init_point s0 UNIV (start_part Part_machine PQOS_RETVAL_OK (start_part Part_cpuinfo PQOS_RETVAL_OK s))"
    using mp by (auto simp: init_point_def)
  ultimately show ?thesis
    unfolding init_base_def Let_def using fails_at_log [OF lp] fails_at_cpuinfo [OF cp] fails_at_machine by auto
qed

lemma discover_error: "discover_interface R requested = Inl ret \<Longrightarrow> ret = PQOS_RETVAL_ERROR"
  by (auto simp: discover_interface_def split: option.splits if_splits)

text \<open>A run of \<open>pqos_init\<close> in a process that is not initialised and gets the lock.\<close>

lemma ends_init:
  assumes "\<not> is_init_done s" and "is_parts s = {}" and "lock_init (io_lock R) self (is_proc s) (is_dir s) = (0, p, d)"
  shows "init_ends R (s\<lparr>is_proc := p, is_dir := d\<rparr>) (pqos_init R self (Some requested) s)"
proof -
  let ?run = "s\<lparr>is_proc := p, is_dir := d, is_locked := True, is_erdt := PTR_NULL\<rparr>" and ?got = "s\<lparr>is_proc := p, is_dir := d\<rparr>"
  have e: "init_point ?got (- {Part_log, Part_cpuinfo, Part_machine}) ?run" and l: "init_point ?got {Part_log} (start_part Part_log PQOS_RETVAL_OK ?run)"
    using assms(1,2) by (auto simp: init_point_def)
  have l': "init_point ?got (- {Part_cpuinfo, Part_machine}) (start_part Part_log PQOS_RETVAL_OK ?run)" using l by (auto simp: init_point_def)
  show ?thesis
    using assms fails_at_exit [OF e] ends_base [OF l] fails_at_log [OF l'] discover_error [of R requested]
    by (cases "discover_interface R requested") (auto simp: pqos_init_def Let_def)
qed

lemma fini_ends:
  assumes "is_init_done t" and "is_interface t = PQOS_INTER_MMIO \<longrightarrow> is_erdt t = PTR_LIVE"
    and "is_interface t \<noteq> PQOS_INTER_MMIO \<longrightarrow> is_parts t \<subseteq> - {Part_cores_domains, Part_channels_domains, Part_mrrm}"
  shows "\<exists>ret v. pqos_fini R t = Some (ret, snd (release_api_lock R v)) \<and> is_parts v = {} \<and> \<not> is_init_done v \<and>
    is_interface v = is_interface t \<and> is_erdt v \<noteq> PTR_LIVE"
proof -
  have all: "x \<in> {Part_log, Part_cpuinfo, Part_machine, Part_erdt, Part_cores_domains, Part_alloc, Part_mon, Part_mrrm, Part_iordt,
      Part_channels_domains}" for x by (cases x) simp_all
  let ?rest = "if is_interface t = PQOS_INTER_MMIO then {Part_cores_domains, Part_channels_domains, Part_mrrm} else {}"
  let ?left = "is_parts t - {Part_mon, Part_alloc} - ?rest - {Part_iordt} - {Part_erdt} - {Part_cpuinfo} - {Part_machine} - {Part_log}"
  let ?v = "t\<lparr>is_erdt := (if is_erdt t = PTR_LIVE then PTR_FREED else is_erdt t), is_parts := ?left, is_init_done := False\<rparr>"
  have none: "?left = {}"
    using assms(3) all by (cases "is_interface t = PQOS_INTER_MMIO") (simp_all, blast+)
  have "\<exists>ret. pqos_fini R t = Some (ret, snd (release_api_lock R ?v))"
    using assms(1,2) by (cases "is_interface t = PQOS_INTER_MMIO") (simp_all add: pqos_fini_def Let_def case_prod_beta)
  then obtain ret where "pqos_fini R t = Some (ret, snd (release_api_lock R ?v))" by blast
  moreover have "is_parts ?v = {}" using none by simp
  ultimately show ?thesis by (intro exI [of _ ret] exI [of _ ?v]) simp
qed

section \<open>Properties\<close>

text \<open>
  C10. \<open>pqos_fini\<close> undoes \<open>pqos_init\<close>: after a successful initialisation of a process in which nothing ran, shutting down
  returns, stops every part, clears the flag, and gives the API lock back, whatever the individual
  shutdown functions answer. A failed initialisation gives the lock back as well and leaves
  the library uninitialised.
\<close>

theorem init_fini:
  assumes "\<not> is_init_done s" and "is_parts s = {}" and "le_unlink (io_lock R)" and "le_unlink (io_lock R')"
    and "lock_init (io_lock R) self (is_proc s) (is_dir s) = (0, p, d)"
    and "pqos_init R self (Some requested) s = (ret, t)"
  shows "(ret = PQOS_RETVAL_OK \<longrightarrow> is_init_done t \<and>
      (\<exists>ret' u. pqos_fini R' t = Some (ret', u) \<and> is_parts u = {} \<and> \<not> is_init_done u \<and> ld_file (is_dir u) = None \<and> m_apilock (is_proc u) = - 1)) \<and>
    (ret \<noteq> PQOS_RETVAL_OK \<longrightarrow> \<not> is_init_done t \<and> ld_file (is_dir t) = None \<and> m_apilock (is_proc t) = - 1)"
proof (intro conjI impI)
  note e = ends_init [OF assms(1,2,5), of requested, unfolded assms(6)]
  {
    assume ok: "ret = PQOS_RETVAL_OK"
    show d: "is_init_done t" using e ok by (simp add: init_ends_def)
    have live: "is_interface t = PQOS_INTER_MMIO \<longrightarrow> is_erdt t = PTR_LIVE"
      and parts: "is_interface t \<noteq> PQOS_INTER_MMIO \<longrightarrow> is_parts t \<subseteq> - {Part_cores_domains, Part_channels_domains, Part_mrrm}"
      using e ok by (auto simp: init_ends_def)
    from fini_ends [OF d live parts, of R'] release_unlocks [OF assms(4)]
    show "\<exists>ret' u. pqos_fini R' t = Some (ret', u) \<and> is_parts u = {} \<and> \<not> is_init_done u \<and> ld_file (is_dir u) = None \<and> m_apilock (is_proc u) = - 1"
      by fastforce
  next
    assume "ret \<noteq> PQOS_RETVAL_OK"
    with e have k: "\<not> is_init_done t" "(is_proc t, is_dir t) = snd (lock_fini (io_lock R) p d)" by (simp_all add: init_ends_def)
    show "\<not> is_init_done t" using k by simp
    have "is_dir t = snd (snd (lock_fini (io_lock R) p d))" "is_proc t = fst (snd (lock_fini (io_lock R) p d))"
      using k(2) by (metis fst_conv snd_conv)+
    then show "ld_file (is_dir t) = None" "m_apilock (is_proc t) = - 1"
      using assms(3) by (simp_all add: lock_fini_def unlink_lockfile_def Let_def split: prod.split)
  }
qed

definition all_ok :: init_outcome where
  "all_ok = \<lparr>io_lock = good_env, io_log = PQOS_RETVAL_OK, io_rdt_iface = None, io_mmio_sysfs = True, io_resctrl = PQOS_RETVAL_OK,
     io_cpuinfo = True, io_machine = PQOS_RETVAL_OK, io_os_cap = PQOS_RETVAL_OK, io_discover = PQOS_RETVAL_OK, io_utils = PQOS_RETVAL_OK,
     io_api = PQOS_RETVAL_OK, io_erdt = PQOS_RETVAL_OK, io_cores_domains = PQOS_RETVAL_OK, io_mode_region = PQOS_RETVAL_OK,
     io_mode_total = PQOS_RETVAL_OK, io_alloc = PQOS_RETVAL_OK, io_mon = PQOS_RETVAL_OK, io_mrrm = PQOS_RETVAL_OK, io_iordt = PQOS_RETVAL_OK,
     io_channels_domains = PQOS_RETVAL_OK, io_iordt_fini = True, io_cpuinfo_fini = True, io_machine_fini = PQOS_RETVAL_OK,
     io_log_fini = PQOS_RETVAL_OK\<rparr>"

definition new_process :: "lockdir \<Rightarrow> init_state" where
  "new_process d = \<lparr>is_proc = \<lparr>m_apilock = - 1, m_pid = 0, m_start_time = 0\<rparr>, is_dir = d, is_locked = False, is_init_done = False,
     is_interface = PQOS_INTER_MSR, is_parts = {}, is_erdt = PTR_NULL\<rparr>"

lemma new_process_simps [simp]:
  "\<not> is_init_done (new_process d)" "is_parts (new_process d) = {}" "is_dir (new_process d) = d" "is_interface (new_process d) = PQOS_INTER_MSR"
  by (simp_all add: new_process_def)

theorem init_fini_witness:
  "\<exists>t ret u. pqos_init all_ok 5 (Some PQOS_INTER_AUTO) (new_process fresh_dir) = (PQOS_RETVAL_OK, t) \<and>
     pqos_fini all_ok t = Some (ret, u) \<and> is_parts u = {} \<and> ld_file (is_dir u) = None"
proof -
  have c: "fst (lock_init (io_lock all_ok) 5 (is_proc (new_process fresh_dir)) (is_dir (new_process fresh_dir))) = 0"
    "fst (pqos_init all_ok 5 (Some PQOS_INTER_AUTO) (new_process fresh_dir)) = PQOS_RETVAL_OK" "le_unlink (io_lock all_ok)" by code_simp+
  then obtain p d t where "lock_init (io_lock all_ok) 5 (is_proc (new_process fresh_dir)) (is_dir (new_process fresh_dir)) = (0, p, d)"
    and "pqos_init all_ok 5 (Some PQOS_INTER_AUTO) (new_process fresh_dir) = (PQOS_RETVAL_OK, t)" by (metis prod.collapse)
  with init_fini [OF _ _ c(3) c(3), of "new_process fresh_dir" 5] show ?thesis by simp blast
qed

text \<open>
  A failure to set the mode of bandwidth monitoring and allocation is reported as success: \<open>pqos_init\<close> jumps to its
  error label with the return value of the call before, so it answers \<open>PQOS_RETVAL_OK\<close> and marks the library as
  initialised although neither allocation nor monitoring has been.
\<close>

theorem mode_failure_reported_ok:
  assumes "\<not> is_init_done s" and "is_parts s = {}" and "lock_init (io_lock R) self (is_proc s) (is_dir s) = (0, p, d)"
    and "io_log R = PQOS_RETVAL_OK" and "discover_interface R requested = Inr iface" and "io_cpuinfo R"
    and "\<forall>ret \<in> {io_machine R, io_discover R, io_utils R, io_api R, io_erdt R}. ret = PQOS_RETVAL_OK"
    and "iface = PQOS_INTER_MSR \<and> io_mode_total R \<noteq> PQOS_RETVAL_OK \<or>
      iface = PQOS_INTER_MMIO \<and> io_cores_domains R = PQOS_RETVAL_OK \<and> io_mode_region R \<noteq> PQOS_RETVAL_OK"
  shows "\<exists>t. pqos_init R self (Some requested) s = (PQOS_RETVAL_OK, t) \<and> is_init_done t \<and> is_parts t \<inter> {Part_alloc, Part_mon} = {}"
  using assms by (auto simp: pqos_init_def init_base_def init_erdt_def machine_init_error_ok Let_def)

theorem mode_failure_reported_ok_witness:
  "\<exists>t. pqos_init (all_ok\<lparr>io_mode_region := PQOS_RETVAL_ERROR\<rparr>) 5 (Some PQOS_INTER_MMIO) (new_process fresh_dir) = (PQOS_RETVAL_OK, t) \<and>
     is_init_done t \<and> is_parts t \<inter> {Part_alloc, Part_mon} = {}"
proof -
  let ?R = "all_ok\<lparr>io_mode_region := PQOS_RETVAL_ERROR\<rparr>"
  have "fst (lock_init (io_lock ?R) 5 (is_proc (new_process fresh_dir)) (is_dir (new_process fresh_dir))) = 0" by code_simp
  then obtain p d where l: "lock_init (io_lock ?R) 5 (is_proc (new_process fresh_dir)) (is_dir (new_process fresh_dir)) = (0, p, d)"
    by (metis prod.collapse)
  show ?thesis
    using mode_failure_reported_ok [OF _ _ l, of PQOS_INTER_MMIO PQOS_INTER_MMIO]
    by (simp add: all_ok_def discover_interface_def)
qed

text \<open>
  On the MMIO interface \<open>pqos_fini\<close> is only safe once, right after a successful \<open>pqos_init\<close>: it uses \<open>m_sysconf.erdt\<close> before it checks
  whether the library is initialised. After a \<open>pqos_fini\<close> that pointer refers to freed memory, after a failed \<open>pqos_init\<close>
  it is NULL, and in both cases the next \<open>pqos_fini\<close> has no defined behaviour.
\<close>

theorem mmio_fini_unsafe:
  assumes "\<not> is_init_done s" and "is_parts s = {}" and "lock_init (io_lock R) self (is_proc s) (is_dir s) = (0, p, d)"
    and "pqos_init R self (Some requested) s = (ret, t)" and "is_interface t = PQOS_INTER_MMIO"
  shows "(ret \<noteq> PQOS_RETVAL_OK \<longrightarrow> pqos_fini R' t = None) \<and>
    (ret = PQOS_RETVAL_OK \<longrightarrow> (\<exists>ret' u. pqos_fini R' t = Some (ret', u) \<and> pqos_fini R'' u = None))"
proof -
  note e = ends_init [OF assms(1-3), of requested, unfolded assms(4)]
  show ?thesis
  proof (cases "ret = PQOS_RETVAL_OK")
    case False
    with e assms(5) show ?thesis by (simp add: init_ends_def pqos_fini_def)
  next
    case True
    with e assms(5) have t: "is_init_done t" "is_erdt t = PTR_LIVE" by (simp_all add: init_ends_def)
    from fini_ends [OF t(1), of R'] t(2) assms(5) obtain ret' v where
      v: "pqos_fini R' t = Some (ret', snd (release_api_lock R' v))" "is_interface v = PQOS_INTER_MMIO" "is_erdt v \<noteq> PTR_LIVE" by auto
    then have "pqos_fini R'' (snd (release_api_lock R' v)) = None" by (simp add: pqos_fini_def)
    with v True show ?thesis by blast
  qed
qed

theorem mmio_fini_unsafe_witness:
  "\<exists>t ret u. pqos_init all_ok 5 (Some PQOS_INTER_MMIO) (new_process fresh_dir) = (PQOS_RETVAL_OK, t) \<and>
     pqos_fini all_ok t = Some (ret, u) \<and> pqos_fini all_ok u = None"
proof -
  have c: "fst (lock_init (io_lock all_ok) 5 (is_proc (new_process fresh_dir)) (is_dir (new_process fresh_dir))) = 0"
    "fst (pqos_init all_ok 5 (Some PQOS_INTER_MMIO) (new_process fresh_dir)) = PQOS_RETVAL_OK"
    "is_interface (snd (pqos_init all_ok 5 (Some PQOS_INTER_MMIO) (new_process fresh_dir))) = PQOS_INTER_MMIO" by code_simp+
  then obtain p d t where "lock_init (io_lock all_ok) 5 (is_proc (new_process fresh_dir)) (is_dir (new_process fresh_dir)) = (0, p, d)"
    and "pqos_init all_ok 5 (Some PQOS_INTER_MMIO) (new_process fresh_dir) = (PQOS_RETVAL_OK, t)" by (metis prod.collapse)
  with c(3) mmio_fini_unsafe [of "new_process fresh_dir" all_ok 5] show ?thesis by simp
qed

text \<open>
  \<open>pqos_fini\<close> in a process that has not initialised the library takes the lock away from the process that has: it answers
  \<open>PQOS_RETVAL_INIT\<close> and removes the lock file, so that yet another process gets the lock while the
  owner is still running.
\<close>

theorem foreign_fini_breaks_lock:
  assumes "lock_reach w" and "lock_owner w p" and "ld_access (w_dir w)" and "\<not> ld_tmp (w_dir w)" and "calls_succeed (io_lock R)"
    and "\<not> is_init_done s" and "is_interface s \<noteq> PQOS_INTER_MMIO" and "is_dir s = w_dir w"
  shows "fst (lock_init (io_lock R) q v (w_dir w)) \<noteq> 0 \<and>
    (\<exists>u. pqos_fini R s = Some (PQOS_RETVAL_INIT, u) \<and> fst (lock_init (io_lock R) q v (is_dir u)) = 0)"
proof
  have rd: "le_read (io_lock R)" "le_unlink (io_lock R)" using assms(5) by (simp_all add: calls_succeed_def)
  note inv = lock_reach_inv [OF assms(1)]
  show "fst (lock_init (io_lock R) q v (w_dir w)) \<noteq> 0"
  proof
    assume "fst (lock_init (io_lock R) q v (w_dir w)) = 0"
    then obtain v' d' where "lock_init (io_lock R) q v (w_dir w) = (0, v', d')" by (metis prod.collapse)
    from lock_init_success [OF this] owner_not_stale [OF inv assms(2) rd(1)] lock_invD(4) [OF inv assms(2)] show False by auto
  qed
  let ?u = "snd (release_api_lock R s)"
  have f: "pqos_fini R s = Some (PQOS_RETVAL_INIT, ?u)" using assms(6,7) by (simp add: pqos_fini_def)
  have "is_dir ?u = (w_dir w)\<lparr>ld_file := None\<rparr>"
    using rd(2) assms(8) lock_invD(4) [OF inv assms(2)]
    by (simp add: release_api_lock_def lock_fini_def unlink_lockfile_def Let_def)
  then have "fst (lock_init (io_lock R) q v (is_dir ?u)) = 0"
    using lock_init_succeeds [OF assms(5), of "is_dir ?u" q v] assms(3,4) by simp
  with f show "\<exists>u. pqos_fini R s = Some (PQOS_RETVAL_INIT, u) \<and> fst (lock_init (io_lock R) q v (is_dir u)) = 0" by blast
qed

theorem foreign_fini_breaks_lock_witness:
  "\<exists>u. pqos_fini all_ok (new_process (w_dir owned_world)) = Some (PQOS_RETVAL_INIT, u) \<and>
     fst (lock_init (io_lock all_ok) 9 (w_proc owned_world 9) (is_dir u)) = 0"
proof -
  have o: "lock_owner owned_world 5" and d: "ld_access (w_dir owned_world)" "\<not> ld_tmp (w_dir owned_world)" by code_simp+
  have e: "calls_succeed (io_lock all_ok)" by (simp add: calls_succeed_def all_ok_def good_env_def)
  show ?thesis using foreign_fini_breaks_lock [OF owned_world_reach o d e, of "new_process (w_dir owned_world)"] by simp
qed

end
