(* ===== verification/ApiTable.thy ===== *)
theory ApiTable
  imports HwMonGroup AllocReset CatProbe HwMba OsAssoc OsCat
begin

text \<open>
  The table of functions behind the public interface (\<open>struct pqos_api\<close> and \<open>api_init\<close> of
  \<open>lib/api.c\<close>). The library's state is the record \<open>rlib\<close> of the OS interface, whose first part
  is the record \<open>lib\<close> of the MSR interface. An entry that is \<open>None\<close> is a NULL pointer. A call
  delivers an error code, its output and the new state; \<open>None\<close> is undefined behaviour of C.
\<close>

section \<open>Monitoring groups as the caller sees them\<close>

text \<open>
  \<open>valid\<close> and \<open>intl\<close> of \<open>struct pqos_mon_data\<close>, the members of the internal part that the
  interface itself uses, and the rest of the structure. The internal part is not there, allocated, or has been
  freed.
\<close>

datatype intl_ptr = INTL_NULL | INTL_LIVE | INTL_FREED

record region_values =
  rv_mbm_total :: "u64 list"
  rv_mbm_total_delta :: "u64 list"
  rv_io_llc :: u64
  rv_io_total :: u64
  rv_io_total_delta :: u64
  rv_io_miss :: u64
  rv_io_miss_delta :: u64

record mon_group =
  grp_valid :: u32
  grp_intl :: intl_ptr
  grp_manage_memory :: bool
  grp_valid_llc :: bool
  grp_valid_mbm_local :: bool
  grp_valid_mbm_total :: bool
  grp_activity :: pqos_tel_slot
  grp_regions :: region_values
  grp_data :: pqos_mon_data

section \<open>Dumps and devices\<close>

text \<open>The requests for a dump and the description of a PCI device; strings are character lists, counted arrays lists.\<close>

datatype pqos_mmio_dump_space =
    MMIO_DUMP_SPACE_CMRC | MMIO_DUMP_SPACE_MMRC | MMIO_DUMP_SPACE_MARC_OPT | MMIO_DUMP_SPACE_MARC_MIN | MMIO_DUMP_SPACE_MARC_MAX
  | MMIO_DUMP_SPACE_CMRD | MMIO_DUMP_SPACE_IBRD | MMIO_DUMP_SPACE_CARD | MMIO_DUMP_SPACE_ERROR

datatype pqos_mmio_dump_width = MMIO_DUMP_WIDTH_64BIT | MMIO_DUMP_WIDTH_8BIT

datatype pqos_mmio_dump_rmid_type =
    MMIO_DUMP_RMID_TYPE_MBM | MMIO_DUMP_RMID_TYPE_CMT | MMIO_DUMP_RMID_IO_L3 | MMIO_DUMP_RMID_IO_TOTAL | MMIO_DUMP_RMID_IO_MISS

record pqos_mmio_dump =
  dump_domain_ids :: "u16 list"
  dump_space :: pqos_mmio_dump_space
  dump_width :: pqos_mmio_dump_width
  dump_le :: u32
  dump_bin :: u32
  dump_offset :: u64
  dump_length :: u64

record pqos_mmio_dump_rmids =
  rdump_domain_ids :: "u16 list"
  rdump_regions :: "int list"
  rdump_rmids :: "u32 list"
  rdump_rmid_type :: pqos_mmio_dump_rmid_type
  rdump_bin :: u32
  rdump_upscale :: u32

record pqos_pci_info =
  pci_revision :: u32
  pci_numa :: int
  pci_is_pcie :: int
  pci_vendor_name :: string
  pci_device_name :: string
  pci_subclass_name :: string
  pci_kernel_driver :: string
  pci_pcie_type :: string
  pci_num_channels :: u32
  pci_channels :: "pqos_channel_t list"
  pci_mmio_addr :: "u64 list"
  pci_cxld :: int
  pci_domain_id :: u16

section \<open>The table\<close>

type_synonym ('h, 'o) call = "'h rlib \<Rightarrow> (retval \<times> 'o \<times> 'h rlib) option"

record 'h pqos_api =
  api_mon_assoc_get :: "(u32 \<Rightarrow> ('h, u32 option) call) option"
  api_mon_assoc_get_channel :: "(pqos_channel_t \<Rightarrow> ('h, u32 option) call) option"
  api_mon_start_cores :: "(u32 list \<Rightarrow> u32 \<Rightarrow> int list option \<Rightarrow> mon_group \<Rightarrow> ('h, mon_group) call) option"
  api_mon_start_pids :: "(int list \<Rightarrow> u32 \<Rightarrow> mon_group \<Rightarrow> ('h, mon_group) call) option"
  api_mon_start_channels :: "(pqos_channel_t list \<Rightarrow> u32 \<Rightarrow> mon_group \<Rightarrow> ('h, mon_group) call) option"
  api_mon_add_pids :: "(int list \<Rightarrow> mon_group \<Rightarrow> ('h, mon_group) call) option"
  api_mon_remove_pids :: "(int list \<Rightarrow> mon_group \<Rightarrow> ('h, mon_group) call) option"
  api_mon_start_uncore :: "(u32 list \<Rightarrow> u32 \<Rightarrow> mon_group \<Rightarrow> ('h, mon_group) call) option"
  api_mon_stop :: "(mon_group \<Rightarrow> ('h, mon_group) call) option"
  api_mon_reset :: "(pqos_mon_config option \<Rightarrow> ('h, unit) call) option"
  api_alloc_assoc_set :: "(u32 \<Rightarrow> u32 \<Rightarrow> ('h, unit) call) option"
  api_alloc_assoc_get :: "(u32 \<Rightarrow> ('h, u32 option) call) option"
  api_alloc_assoc_set_pid :: "(int \<Rightarrow> u32 \<Rightarrow> ('h, unit) call) option"
  api_alloc_assoc_get_pid :: "(int \<Rightarrow> ('h, u32 option) call) option"
  api_alloc_assoc_get_channel :: "(pqos_channel_t \<Rightarrow> ('h, u32 option) call) option"
  api_alloc_assoc_set_channel :: "(pqos_channel_t \<Rightarrow> u32 \<Rightarrow> ('h, unit) call) option"
  api_alloc_assign :: "(u32 \<Rightarrow> u32 list \<Rightarrow> ('h, u32 option) call) option"
  api_alloc_release :: "(u32 list \<Rightarrow> ('h, unit) call) option"
  api_alloc_assign_pid :: "(u32 \<Rightarrow> int list \<Rightarrow> ('h, u32 option) call) option"
  api_alloc_release_pid :: "(int list \<Rightarrow> ('h, unit) call) option"
  api_alloc_reset :: "(pqos_alloc_config option \<Rightarrow> ('h, unit) call) option"
  api_l3ca_set :: "(u32 \<Rightarrow> pqos_ca list \<Rightarrow> ('h, unit) call) option"
  api_l3ca_get :: "(u32 \<Rightarrow> pqos_ca list \<Rightarrow> ('h, (pqos_ca list \<times> u32) option) call) option"
  api_l3ca_get_min_cbm_bits :: "('h, nat option) call option"
  api_l2ca_set :: "(u32 \<Rightarrow> pqos_ca list \<Rightarrow> ('h, unit) call) option"
  api_l2ca_get :: "(u32 \<Rightarrow> pqos_ca list \<Rightarrow> ('h, (pqos_ca list \<times> u32) option) call) option"
  api_l2ca_get_min_cbm_bits :: "('h, nat option) call option"
  api_mba_get :: "(u32 \<Rightarrow> pqos_mba list \<Rightarrow> ('h, (pqos_mba list \<times> u32) option) call) option"
  api_mba_set :: "(u32 \<Rightarrow> pqos_mba list \<Rightarrow> bool \<Rightarrow> ('h, pqos_mba list) call) option"
  api_pid_get_pid_assoc :: "(u32 \<Rightarrow> 'h rlib \<Rightarrow> u32 list option \<times> 'h rlib) option"
  api_dump :: "(pqos_mmio_dump \<Rightarrow> ('h, unit) call) option"
  api_dump_rmids :: "(pqos_mmio_dump_rmids \<Rightarrow> ('h, unit) call) option"
  api_io_devs_get :: "(pqos_pci_info \<Rightarrow> u16 \<Rightarrow> u16 \<Rightarrow> ('h, pqos_pci_info) call) option"

definition null_api :: "'h pqos_api" where
  "null_api = \<lparr>api_mon_assoc_get = None, api_mon_assoc_get_channel = None, api_mon_start_cores = None, api_mon_start_pids = None,
     api_mon_start_channels = None, api_mon_add_pids = None, api_mon_remove_pids = None, api_mon_start_uncore = None,
     api_mon_stop = None, api_mon_reset = None, api_alloc_assoc_set = None, api_alloc_assoc_get = None,
     api_alloc_assoc_set_pid = None, api_alloc_assoc_get_pid = None, api_alloc_assoc_get_channel = None,
     api_alloc_assoc_set_channel = None, api_alloc_assign = None, api_alloc_release = None, api_alloc_assign_pid = None,
     api_alloc_release_pid = None, api_alloc_reset = None, api_l3ca_set = None, api_l3ca_get = None,
     api_l3ca_get_min_cbm_bits = None, api_l2ca_set = None, api_l2ca_get = None, api_l2ca_get_min_cbm_bits = None,
     api_mba_get = None, api_mba_set = None, api_pid_get_pid_assoc = None, api_dump = None, api_dump_rmids = None, api_io_devs_get = None\<rparr>"

section \<open>Functions as table entries\<close>

text \<open>The functions of the MSR interface run on the first part of the state.\<close>

definition lib_of :: "'h rlib \<Rightarrow> 'h lib" where
  "lib_of s = lib.truncate s"

definition put_lib :: "'h lib \<Rightarrow> 'h rlib \<Rightarrow> 'h rlib" where
  "put_lib t s = lib.extend t (lib.more s)"

definition hw_ret :: "('h lib \<Rightarrow> retval \<times> 'h lib) \<Rightarrow> ('h, unit) call" where
  "hw_ret f s = (case f (lib_of s) of (ret, t) \<Rightarrow> Some (ret, (), put_lib t s))"

definition hw_res :: "('h lib \<Rightarrow> 'o res \<times> 'h lib) \<Rightarrow> ('h, 'o option) call" where
  "hw_res f s =
     (case f (lib_of s) of
        (Inl ret, t) \<Rightarrow> Some (ret, None, put_lib t s)
      | (Inr v, t) \<Rightarrow> Some (PQOS_RETVAL_OK, Some v, put_lib t s))"

definition hw_out :: "('h lib \<Rightarrow> retval \<times> 'o \<times> 'h lib) \<Rightarrow> ('h, 'o) call" where
  "hw_out f s = (case f (lib_of s) of (ret, v, t) \<Rightarrow> Some (ret, v, put_lib t s))"

definition hw_grp :: "(pqos_mon_data \<Rightarrow> 'h lib \<Rightarrow> retval \<times> pqos_mon_data \<times> 'h lib) \<Rightarrow> mon_group \<Rightarrow> ('h, mon_group) call" where
  "hw_grp f g = hw_out (\<lambda>s. case f (grp_data g) s of (ret, d, s) \<Rightarrow> (ret, g\<lparr>grp_data := d\<rparr>, s))"

definition os_ret :: "('h rlib \<Rightarrow> (retval \<times> 'h rlib) option) \<Rightarrow> ('h, unit) call" where
  "os_ret f s = map_option (\<lambda>(ret, s). (ret, (), s)) (f s)"

definition os_res :: "('h rlib \<Rightarrow> ('o res \<times> 'h rlib) option) \<Rightarrow> ('h, 'o option) call" where
  "os_res f s = map_option (\<lambda>(r, s). case r of Inl ret \<Rightarrow> (ret, None, s) | Inr v \<Rightarrow> (PQOS_RETVAL_OK, Some v, s)) (f s)"

text \<open>The classes that were read replace the first entries of the caller's table.\<close>

definition os_tab :: "('h rlib \<Rightarrow> 'o list res \<times> 'h rlib) \<Rightarrow> 'o list \<Rightarrow> ('h, ('o list \<times> u32) option) call" where
  "os_tab f buf =
     os_res (\<lambda>s. case f s of (r, s) \<Rightarrow> Some (map_sum id (\<lambda>xs. (xs @ drop (length xs) buf, of_nat (length xs))) r, s))"

definition os_list :: "('h rlib \<Rightarrow> ('o list res \<times> 'h rlib) option) \<Rightarrow> ('h, 'o list) call" where
  "os_list f s = map_option (\<lambda>(r, s). case r of Inl ret \<Rightarrow> (ret, [], s) | Inr v \<Rightarrow> (PQOS_RETVAL_OK, v, s)) (f s)"

section \<open>Filling the table\<close>

text \<open>
  What the functions of the table depend on. \<open>ae_other\<close> holds the functions without a
  model of their own: those of the MMIO interface, the query of PCI devices and, on the OS interface, monitoring, the reset and the minimal
  number of bits. \<open>ae_buf\<close> is the caller-independent buffer of the minimal-bits probe.
\<close>

record 'h api_env =
  ae_platform :: "'h platform"
  ae_perf :: "'h perf_os"
  ae_module :: mon_module
  ae_os_l3 :: "pqos_cap_l3ca res"
  ae_os_l2 :: "pqos_cap_l2ca res"
  ae_kernel :: "'h resctrl_os"
  ae_buf :: "pqos_ca list"
  ae_other :: "'h pqos_api"

definition vendor_amd :: "pqos_vendor \<Rightarrow> bool" where
  "vendor_amd vendor \<longleftrightarrow> vendor = PQOS_VENDOR_AMD \<or> vendor = PQOS_VENDOR_HYGON"

definition api_init_msr :: "'h api_env \<Rightarrow> pqos_vendor \<Rightarrow> 'h pqos_api" where
  "api_init_msr A vendor =
     (let E = ae_platform A; P = ae_perf A; M = ae_module A;
          t = null_api\<lparr>
            api_mon_reset := Some (\<lambda>cfg. hw_ret (mon_reset E cfg)),
            api_mon_assoc_get := Some (\<lambda>l. hw_res (mon_assoc_get_core E l)),
            api_mon_assoc_get_channel := Some (\<lambda>ch. hw_res (\<lambda>s. (hw_mon_assoc_get_channel E ch s, s))),
            api_mon_start_cores := Some (\<lambda>ls event region. hw_grp (hw_mon_start_cores E P M ls event)),
            api_mon_start_channels := Some (\<lambda>chs event. hw_grp (hw_mon_start_channels E M chs event)),
            api_mon_stop := Some (hw_grp (hw_mon_stop E P)),
            api_alloc_assoc_set := Some (\<lambda>l class_id. hw_ret (hw_alloc_assoc_set E l class_id)),
            api_alloc_assoc_get := Some (\<lambda>l. hw_res (hw_alloc_assoc_get E l)),
            api_alloc_assoc_get_channel := Some (\<lambda>ch. hw_res (\<lambda>s. (hw_alloc_assoc_get_channel E ch s, s))),
            api_alloc_assoc_set_channel := Some (\<lambda>ch class_id. hw_ret (hw_alloc_assoc_set_channel E ch class_id)),
            api_alloc_assign := Some (\<lambda>technology ls. hw_out (hw_alloc_assign E technology ls)),
            api_alloc_release := Some (\<lambda>ls. hw_ret (hw_alloc_release E ls)),
            api_alloc_reset := Some (\<lambda>cfg. hw_ret (alloc_reset E (ae_os_l3 A) (ae_os_l2 A) cfg)),
            api_l3ca_set := Some (\<lambda>l3cat_id ca. hw_ret (hw_l3ca_set E l3cat_id ca)),
            api_l3ca_get := Some (\<lambda>l3cat_id ca. hw_res (hw_l3ca_get E l3cat_id ca)),
            api_l3ca_get_min_cbm_bits := Some (hw_out (hw_l3ca_get_min_cbm_bits E (ae_buf A))),
            api_l2ca_set := Some (\<lambda>l2id ca. hw_ret (hw_l2ca_set E l2id ca)),
            api_l2ca_get := Some (\<lambda>l2id ca. hw_res (hw_l2ca_get E l2id ca)),
            api_l2ca_get_min_cbm_bits := Some (hw_out (hw_l2ca_get_min_cbm_bits E (ae_buf A))),
            api_io_devs_get := api_io_devs_get (ae_other A)\<rparr>
      in if vendor_amd vendor
         then t\<lparr>api_mba_get := Some (\<lambda>mba_id tab. hw_res (hw_mba_get_amd E mba_id tab)),
                api_mba_set := Some (\<lambda>mba_id requested want. hw_out (hw_mba_set_amd E mba_id requested want))\<rparr>
         else t\<lparr>api_mon_start_uncore := Some (\<lambda>sockets event. hw_grp (hw_mon_start_uncore E M sockets event)),
                api_mba_get := Some (\<lambda>mba_id tab. hw_res (hw_mba_get E mba_id tab)),
                api_mba_set := Some (\<lambda>mba_id requested want. hw_out (hw_mba_set E mba_id requested want))\<rparr>)"

definition api_init_os :: "'h api_env \<Rightarrow> pqos_vendor \<Rightarrow> 'h pqos_api" where
  "api_init_os A vendor =
     (let K = ae_kernel A; other = ae_other A;
          t = null_api\<lparr>
            api_mon_reset := api_mon_reset other,
            api_mon_start_cores := api_mon_start_cores other,
            api_mon_start_pids := api_mon_start_pids other,
            api_mon_add_pids := api_mon_add_pids other,
            api_mon_remove_pids := api_mon_remove_pids other,
            api_mon_stop := api_mon_stop other,
            api_alloc_assoc_set := Some (\<lambda>l class_id. os_ret (os_alloc_assoc_set K l class_id)),
            api_alloc_assoc_get := Some (\<lambda>l s. map_option (\<lambda>(ret, v, s). (ret, Option.bind v id, s)) (os_res (os_alloc_assoc_get K l) s)),
            api_alloc_assoc_set_pid := Some (\<lambda>task class_id. os_ret (os_alloc_assoc_set_pid K task class_id)),
            api_alloc_assoc_get_pid := Some (\<lambda>task. os_res (\<lambda>s. Some (os_alloc_assoc_get_pid K task s))),
            api_alloc_assign := Some (\<lambda>technology ls. os_alloc_assign K ls),
            api_alloc_release := Some (\<lambda>ls. os_ret (os_alloc_release K ls)),
            api_alloc_assign_pid := Some (\<lambda>technology tasks s. Some (os_alloc_assign_pid K tasks s)),
            api_alloc_release_pid := Some (\<lambda>tasks. os_ret (\<lambda>s. Some (os_alloc_release_pid K tasks s))),
            api_alloc_reset := api_alloc_reset other,
            api_l3ca_set := Some (\<lambda>l3cat_id ca. os_ret (\<lambda>s. Some (os_l3ca_set K l3cat_id ca s))),
            api_l3ca_get := Some (\<lambda>l3cat_id ca. os_tab (os_l3ca_get K l3cat_id (of_nat (length ca))) ca),
            api_l3ca_get_min_cbm_bits := api_l3ca_get_min_cbm_bits other,
            api_l2ca_set := Some (\<lambda>l2id ca. os_ret (\<lambda>s. Some (os_l2ca_set K l2id ca s))),
            api_l2ca_get := Some (\<lambda>l2id ca. os_tab (os_l2ca_get K l2id (of_nat (length ca))) ca),
            api_l2ca_get_min_cbm_bits := api_l2ca_get_min_cbm_bits other,
            api_pid_get_pid_assoc := Some (os_pid_get_pid_assoc K)\<rparr>
      in if vendor_amd vendor
         then t\<lparr>api_mba_get := Some (\<lambda>mba_id tab. os_tab (os_mba_get_amd K mba_id (of_nat (length tab)) (mb_smba (hd tab))) tab),
                api_mba_set := Some (\<lambda>mba_id requested want. os_list (os_mba_set_amd K mba_id requested want))\<rparr>
         else t\<lparr>api_mba_get := Some (\<lambda>mba_id tab. os_tab (os_mba_get K mba_id (of_nat (length tab))) tab),
                api_mba_set := Some (\<lambda>mba_id requested want. os_list (os_mba_set K mba_id requested want))\<rparr>)"

definition api_init_mmio :: "'h api_env \<Rightarrow> 'h pqos_api" where
  "api_init_mmio A =
     (let E = ae_platform A; other = ae_other A
      in null_api\<lparr>
            api_mon_assoc_get := Some (\<lambda>l. hw_res (mon_assoc_get_core E l)),
            api_mon_assoc_get_channel := Some (\<lambda>ch. hw_res (\<lambda>s. (hw_mon_assoc_get_channel E ch s, s))),
            api_alloc_assoc_get := Some (\<lambda>l. hw_res (hw_alloc_assoc_get E l)),
            api_alloc_assoc_get_channel := Some (\<lambda>ch. hw_res (\<lambda>s. (hw_alloc_assoc_get_channel E ch s, s))),
            api_alloc_assoc_set_channel := Some (\<lambda>ch class_id. hw_ret (hw_alloc_assoc_set_channel E ch class_id)),
            api_alloc_reset := api_alloc_reset other,
            api_l3ca_set := api_l3ca_set other,
            api_l3ca_get := api_l3ca_get other,
            api_mba_get := api_mba_get other,
            api_mba_set := api_mba_set other,
            api_mon_start_cores := api_mon_start_cores other,
            api_mon_start_channels := api_mon_start_channels other,
            api_mon_stop := api_mon_stop other,
            api_mon_reset := api_mon_reset other,
            api_dump := api_dump other,
            api_dump_rmids := api_dump_rmids other,
            api_io_devs_get := api_io_devs_get other\<rparr>)"

definition api_init :: "'h api_env \<Rightarrow> pqos_interface \<Rightarrow> pqos_vendor \<Rightarrow> 'h pqos_api res" where
  "api_init A iface vendor =
     (case iface of
        PQOS_INTER_MSR \<Rightarrow> Inr (api_init_msr A vendor)
      | PQOS_INTER_OS \<Rightarrow> Inr (api_init_os A vendor)
      | PQOS_INTER_OS_RESCTRL_MON \<Rightarrow> Inr (api_init_os A vendor)
      | PQOS_INTER_MMIO \<Rightarrow> Inr (api_init_mmio A)
      | _ \<Rightarrow> Inl PQOS_RETVAL_PARAM)"

section \<open>Facts\<close>

lemma lib_of_put_lib [simp]: "lib_of (put_lib t s) = t"
  by (simp add: lib_of_def put_lib_def lib.defs)

lemma put_lib_lib_of [simp]: "put_lib (lib_of s) s = s"
  by (cases s) (simp add: lib_of_def put_lib_def lib.defs)

lemma put_lib_put_lib [simp]: "put_lib t (put_lib u s) = put_lib t s"
  by (simp add: put_lib_def lib.defs)

lemma lib_of_sel [simp]:
  "m_cap (lib_of s) = m_cap s" "m_cpu (lib_of s) = m_cpu s" "m_dev (lib_of s) = m_dev s" "m_interface (lib_of s) = m_interface s"
  "m_config (lib_of s) = m_config s" "m_hw (lib_of s) = m_hw s"
  by (simp_all add: lib_of_def lib.defs)

lemma put_lib_sel [simp]:
  "m_cap (put_lib t s) = m_cap t" "m_cpu (put_lib t s) = m_cpu t" "m_dev (put_lib t s) = m_dev t"
  "m_interface (put_lib t s) = m_interface t" "m_config (put_lib t s) = m_config t" "m_hw (put_lib t s) = m_hw t"
  by (simp_all add: put_lib_def lib.defs)

end
