(* ===== verification/ApiCall.thy ===== *)
theory ApiCall
  imports ApiTable
begin

text \<open>
  The public functions for allocation (\<open>lib/api.c\<close>): each checks its parameters, takes the API
  mutex, checks that the library is initialised, calls the function of the table and gives
  the mutex back. A NULL test of an output pointer is a \<open>bool\<close>; an input array is an \<open>option\<close>.
  The result is \<open>None\<close> when the call does not return (the mutex is taken already) or its
  behaviour is undefined.
\<close>

section \<open>The library behind its interface\<close>

text \<open>\<open>m_apilock_mutex\<close> of \<open>lock.c\<close>, \<open>m_init_done\<close> of \<open>cap.c\<close>, \<open>api\<close> of \<open>api.c\<close>, and the rest.\<close>

record 'h library =
  lib_locked :: bool
  m_init_done :: bool
  lib_api :: "'h pqos_api"
  lib_state :: "'h rlib"

definition lock_get :: "'h library \<Rightarrow> 'h library option" where
  "lock_get s = (if lib_locked s then None else Some (s\<lparr>lib_locked := True\<rparr>))"

definition lock_release :: "'h library \<Rightarrow> 'h library" where
  "lock_release s = s\<lparr>lib_locked := False\<rparr>"

definition pqos_check_init :: "bool \<Rightarrow> 'h library \<Rightarrow> retval" where
  "pqos_check_init expect s =
     (if m_init_done s \<and> \<not> expect then PQOS_RETVAL_INIT
      else if \<not> m_init_done s \<and> expect then PQOS_RETVAL_INIT
      else PQOS_RETVAL_OK)"

type_synonym ('h, 'o) api_fun = "'h library \<Rightarrow> (retval \<times> 'o \<times> 'h library) option"

text \<open>Running a call of the table on the library's state.\<close>

definition on_state :: "('h, 'o) call \<Rightarrow> ('h, 'o) api_fun" where
  "on_state f s = map_option (\<lambda>(ret, x, t). (ret, x, s\<lparr>lib_state := t\<rparr>)) (f (lib_state s))"

text \<open>
  Take the mutex, check the initialisation, run \<open>body\<close>, release the mutex; \<open>none\<close> is the
  output when nothing is delivered.
\<close>

definition with_lock :: "'o \<Rightarrow> ('h, 'o) api_fun \<Rightarrow> ('h, 'o) api_fun" where
  "with_lock none body s =
     (case lock_get s of
        None \<Rightarrow> None
      | Some s \<Rightarrow>
          (let ret = pqos_check_init True s
           in map_option (\<lambda>(ret, x, s). (ret, x, lock_release s))
                (if ret \<noteq> PQOS_RETVAL_OK then Some (ret, none, s) else body s)))"

definition dispatch :: "'o \<Rightarrow> ('h, 'o) call option \<Rightarrow> ('h, 'o) api_fun" where
  "dispatch none f s = (case f of None \<Rightarrow> Some (PQOS_RETVAL_RESOURCE, none, s) | Some f \<Rightarrow> on_state f s)"

definition API_CALL :: "('h pqos_api \<Rightarrow> ('h, 'o) call option) \<Rightarrow> 'o \<Rightarrow> ('h, 'o) api_fun" where
  "API_CALL slot none s = with_lock none (\<lambda>s. dispatch none (slot (lib_api s)) s) s"

text \<open>An early return with \<open>PQOS_RETVAL_PARAM\<close>.\<close>

definition bad_param :: "bool \<Rightarrow> 'o \<Rightarrow> ('h, 'o) api_fun \<Rightarrow> ('h, 'o) api_fun" where
  "bad_param bad none f s = (if bad then Some (PQOS_RETVAL_PARAM, none, s) else f s)"

abbreviation null_or_empty :: "'a list option \<Rightarrow> bool" where
  "null_or_empty xs \<equiv> (case xs of None \<Rightarrow> True | Some ys \<Rightarrow> ys = [])"

section \<open>Associations\<close>

definition pqos_alloc_assoc_set :: "u32 \<Rightarrow> u32 \<Rightarrow> ('h, unit) api_fun" where
  "pqos_alloc_assoc_set l class_id = API_CALL (\<lambda>t. map_option (\<lambda>f. f l class_id) (api_alloc_assoc_set t)) ()"

definition pqos_alloc_assoc_get :: "u32 \<Rightarrow> bool \<Rightarrow> ('h, u32 option) api_fun" where
  "pqos_alloc_assoc_get l have_class_id =
     bad_param (\<not> have_class_id) None (API_CALL (\<lambda>t. map_option (\<lambda>f. f l) (api_alloc_assoc_get t)) None)"

definition pqos_alloc_assoc_set_pid :: "int \<Rightarrow> u32 \<Rightarrow> ('h, unit) api_fun" where
  "pqos_alloc_assoc_set_pid task class_id = API_CALL (\<lambda>t. map_option (\<lambda>f. f task class_id) (api_alloc_assoc_set_pid t)) ()"

definition pqos_alloc_assoc_get_pid :: "int \<Rightarrow> bool \<Rightarrow> ('h, u32 option) api_fun" where
  "pqos_alloc_assoc_get_pid task have_class_id =
     bad_param (\<not> have_class_id) None (API_CALL (\<lambda>t. map_option (\<lambda>f. f task) (api_alloc_assoc_get_pid t)) None)"

definition pqos_alloc_assign :: "u32 \<Rightarrow> u32 list option \<Rightarrow> bool \<Rightarrow> ('h, u32 option) api_fun" where
  "pqos_alloc_assign technology core_array have_class_id =
     (let l2_req = tech_req PQOS_CAP_TYPE_L2CA technology;
          l3_req = tech_req PQOS_CAP_TYPE_L3CA technology;
          mba_req = tech_req PQOS_CAP_TYPE_MBA technology;
          smba_req = tech_req PQOS_CAP_TYPE_SMBA technology
      in bad_param (null_or_empty core_array \<or> \<not> have_class_id \<or> \<not> (l2_req \<or> l3_req \<or> mba_req \<or> smba_req)) None
           (API_CALL (\<lambda>t. map_option (\<lambda>f. f technology (the core_array)) (api_alloc_assign t)) None))"

definition pqos_alloc_release :: "u32 list option \<Rightarrow> ('h, unit) api_fun" where
  "pqos_alloc_release core_array =
     bad_param (null_or_empty core_array) () (API_CALL (\<lambda>t. map_option (\<lambda>f. f (the core_array)) (api_alloc_release t)) ())"

definition pqos_alloc_assign_pid :: "u32 \<Rightarrow> int list option \<Rightarrow> bool \<Rightarrow> ('h, u32 option) api_fun" where
  "pqos_alloc_assign_pid technology task_array have_class_id =
     bad_param (null_or_empty task_array \<or> \<not> have_class_id) None
       (API_CALL (\<lambda>t. map_option (\<lambda>f. f technology (the task_array)) (api_alloc_assign_pid t)) None)"

definition pqos_alloc_release_pid :: "int list option \<Rightarrow> ('h, unit) api_fun" where
  "pqos_alloc_release_pid task_array =
     bad_param (null_or_empty task_array) () (API_CALL (\<lambda>t. map_option (\<lambda>f. f (the task_array)) (api_alloc_release_pid t)) ())"

section \<open>Reset\<close>

text \<open>
  \<open>struct pqos_alloc_config\<close> as the caller fills it: the enumerations are any \<open>int\<close>. The
  checks accept the values of the enumerations.
\<close>

record raw_alloc_config =
  raw_l3_cdp :: int
  raw_l3_iordt :: int
  raw_l2_cdp :: int
  raw_mba :: int
  raw_mba40 :: int
  raw_smba :: int

definition cdp_of_int :: "int \<Rightarrow> pqos_cdp_config option" where
  "cdp_of_int v = (if v = 2 then Some PQOS_REQUIRE_CDP_ON else if v = 1 then Some PQOS_REQUIRE_CDP_OFF
     else if v = 0 then Some PQOS_REQUIRE_CDP_ANY else None)"

definition iordt_of_int :: "int \<Rightarrow> pqos_iordt_config option" where
  "iordt_of_int v = (if v = 2 then Some PQOS_REQUIRE_IORDT_ON else if v = 1 then Some PQOS_REQUIRE_IORDT_OFF
     else if v = 0 then Some PQOS_REQUIRE_IORDT_ANY else None)"

definition mba_of_int :: "int \<Rightarrow> pqos_mba_config option" where
  "mba_of_int v = (if v = 0 then Some PQOS_MBA_ANY else if v = 1 then Some PQOS_MBA_DEFAULT
     else if v = 2 then Some PQOS_MBA_CTRL else None)"

definition feature_of_int :: "int \<Rightarrow> pqos_feature_cfg option" where
  "feature_of_int v = (if v = 0 then Some PQOS_FEATURE_ANY else if v = 2 then Some PQOS_FEATURE_ON
     else if v = 1 then Some PQOS_FEATURE_OFF else None)"

definition snc_of_int :: "int \<Rightarrow> pqos_snc_config option" where
  "snc_of_int v = (if v = 1 then Some PQOS_REQUIRE_SNC_LOCAL else if v = 2 then Some PQOS_REQUIRE_SNC_TOTAL
     else if v = 0 then Some PQOS_REQUIRE_SNC_ANY else None)"

definition check_alloc_config :: "raw_alloc_config \<Rightarrow> pqos_alloc_config option" where
  "check_alloc_config cfg =
     (case cdp_of_int (raw_l3_cdp cfg) of None \<Rightarrow> None | Some v3 \<Rightarrow>
        (case iordt_of_int (raw_l3_iordt cfg) of None \<Rightarrow> None | Some vio \<Rightarrow>
           (case cdp_of_int (raw_l2_cdp cfg) of None \<Rightarrow> None | Some v2 \<Rightarrow>
              (case mba_of_int (raw_mba cfg) of None \<Rightarrow> None | Some vm \<Rightarrow>
                 (case feature_of_int (raw_mba40 cfg) of None \<Rightarrow> None | Some v40 \<Rightarrow>
                    (case mba_of_int (raw_smba cfg) of None \<Rightarrow> None | Some vs \<Rightarrow>
                       Some \<lparr>cfg_l3_cdp = v3, cfg_l2_cdp = v2, cfg_mba = vm, cfg_mba40 = v40,
                             cfg_l3_iordt = vio, cfg_smba = vs\<rparr>))))))"

definition pqos_alloc_reset_config :: "raw_alloc_config option \<Rightarrow> ('h, unit) api_fun" where
  "pqos_alloc_reset_config cfg =
     (case cfg of
        None \<Rightarrow> API_CALL (\<lambda>t. map_option (\<lambda>f. f None) (api_alloc_reset t)) ()
      | Some raw \<Rightarrow>
          bad_param (check_alloc_config raw = None) ()
            (API_CALL (\<lambda>t. map_option (\<lambda>f. f (check_alloc_config raw)) (api_alloc_reset t)) ()))"

definition pqos_alloc_reset :: "int \<Rightarrow> int \<Rightarrow> int \<Rightarrow> ('h, unit) api_fun" where
  "pqos_alloc_reset l3_cdp_cfg l2_cdp_cfg mba_cfg =
     pqos_alloc_reset_config (Some \<lparr>raw_l3_cdp = l3_cdp_cfg, raw_l3_iordt = 0, raw_l2_cdp = l2_cdp_cfg, raw_mba = mba_cfg,
       raw_mba40 = 0, raw_smba = 0\<rparr>)"

text \<open>
  Two functions deliver a value and no error code: the status that the shared parts compute is dropped.
\<close>

definition drop_status :: "('h, 'o) api_fun \<Rightarrow> 'h library \<Rightarrow> ('o \<times> 'h library) option" where
  "drop_status f s = map_option (\<lambda>(_, x, s). (x, s)) (f s)"

text \<open>The result is a pointer: \<open>None\<close> is NULL. The count goes with the list.\<close>

definition pqos_pid_get_pid_assoc :: "u32 \<Rightarrow> bool \<Rightarrow> 'h library \<Rightarrow> (u32 list option \<times> 'h library) option" where
  "pqos_pid_get_pid_assoc class_id have_count =
     drop_status (bad_param (\<not> have_count) None
       (with_lock None (\<lambda>s.
          case api_pid_get_pid_assoc (lib_api s) of
            None \<Rightarrow> Some (PQOS_RETVAL_OK, None, s)
          | Some f \<Rightarrow> (case f class_id (lib_state s) of (tasks, t) \<Rightarrow> Some (PQOS_RETVAL_OK, tasks, s\<lparr>lib_state := t\<rparr>)))))"

section \<open>Dumps and devices, as calls\<close>

definition pqos_dump :: "pqos_mmio_dump option \<Rightarrow> ('h, unit) api_fun" where
  "pqos_dump dump_cfg = bad_param (dump_cfg = None) () (API_CALL (\<lambda>t. map_option (\<lambda>f. f (the dump_cfg)) (api_dump t)) ())"

definition pqos_dump_rmids :: "pqos_mmio_dump_rmids option \<Rightarrow> ('h, unit) api_fun" where
  "pqos_dump_rmids dump_cfg =
     bad_param (dump_cfg = None) () (API_CALL (\<lambda>t. map_option (\<lambda>f. f (the dump_cfg)) (api_dump_rmids t)) ())"

definition pqos_io_devs_get :: "pqos_pci_info option \<Rightarrow> u16 \<Rightarrow> u16 \<Rightarrow> ('h, pqos_pci_info option) api_fun" where
  "pqos_io_devs_get pci_info segment bdf s =
     (if pci_info = None then Some (PQOS_RETVAL_PARAM, None, s)
      else map_option (\<lambda>(ret, x, s). (ret, Some x, s))
             (API_CALL (\<lambda>t. map_option (\<lambda>f. f (the pci_info) segment bdf) (api_io_devs_get t)) (the pci_info) s))"

section \<open>Classes\<close>

definition pqos_l3ca_set :: "u32 \<Rightarrow> pqos_ca list option \<Rightarrow> ('h, unit) api_fun" where
  "pqos_l3ca_set l3cat ca =
     bad_param (null_or_empty ca) () (API_CALL (\<lambda>t. map_option (\<lambda>f. f l3cat (the ca)) (api_l3ca_set t)) ())"

definition pqos_l3ca_get :: "u32 \<Rightarrow> bool \<Rightarrow> pqos_ca list option \<Rightarrow> ('h, (pqos_ca list \<times> u32) option) api_fun" where
  "pqos_l3ca_get l3cat have_num ca =
     bad_param (\<not> have_num \<or> null_or_empty ca) None (API_CALL (\<lambda>t. map_option (\<lambda>f. f l3cat (the ca)) (api_l3ca_get t)) None)"

definition pqos_l3ca_get_min_cbm_bits :: "bool \<Rightarrow> ('h, nat option) api_fun" where
  "pqos_l3ca_get_min_cbm_bits have_bits = bad_param (\<not> have_bits) None (API_CALL api_l3ca_get_min_cbm_bits None)"

definition ca_mask_nonzero :: "pqos_ca \<Rightarrow> bool" where
  "ca_mask_nonzero ca = (if ca_cdp ca then data_mask ca \<noteq> 0 \<and> code_mask ca \<noteq> 0 else ways_mask ca \<noteq> 0)"

definition pqos_l2ca_set :: "u32 \<Rightarrow> pqos_ca list option \<Rightarrow> ('h, unit) api_fun" where
  "pqos_l2ca_set l2id ca =
     bad_param (null_or_empty ca \<or> \<not> list_all ca_mask_nonzero (the ca)) ()
       (API_CALL (\<lambda>t. map_option (\<lambda>f. f l2id (the ca)) (api_l2ca_set t)) ())"

definition pqos_l2ca_get :: "u32 \<Rightarrow> bool \<Rightarrow> pqos_ca list option \<Rightarrow> ('h, (pqos_ca list \<times> u32) option) api_fun" where
  "pqos_l2ca_get l2id have_num ca =
     bad_param (\<not> have_num \<or> null_or_empty ca) None (API_CALL (\<lambda>t. map_option (\<lambda>f. f l2id (the ca)) (api_l2ca_get t)) None)"

definition pqos_l2ca_get_min_cbm_bits :: "bool \<Rightarrow> ('h, nat option) api_fun" where
  "pqos_l2ca_get_min_cbm_bits have_bits = bad_param (\<not> have_bits) None (API_CALL api_l2ca_get_min_cbm_bits None)"

definition mba_rate_ok :: "cpuinfo_config \<Rightarrow> pqos_mba \<Rightarrow> bool" where
  "mba_rate_ok vconfig req = (\<not> (\<not> mb_ctrl req \<and> (mb_max req = 0 \<or> mba_max vconfig < mb_max req)))"

definition pqos_mba_set :: "u32 \<Rightarrow> pqos_mba list option \<Rightarrow> bool \<Rightarrow> ('h, pqos_mba list) api_fun" where
  "pqos_mba_set mba requested want =
     bad_param (null_or_empty requested) []
       (with_lock [] (\<lambda>s.
          if m_interface (lib_state s) \<noteq> PQOS_INTER_MMIO \<and> \<not> list_all (mba_rate_ok (m_config (lib_state s))) (the requested)
          then Some (PQOS_RETVAL_PARAM, [], s)
          else dispatch [] (map_option (\<lambda>f. f mba (the requested) want) (api_mba_set (lib_api s))) s))"

definition pqos_mba_get :: "u32 \<Rightarrow> bool \<Rightarrow> pqos_mba list option \<Rightarrow> ('h, (pqos_mba list \<times> u32) option) api_fun" where
  "pqos_mba_get mba have_num tab =
     bad_param (\<not> have_num \<or> null_or_empty tab) None (API_CALL (\<lambda>t. map_option (\<lambda>f. f mba (the tab)) (api_mba_get t)) None)"

section \<open>Channels\<close>

definition pqos_alloc_assoc_get_channel :: "pqos_channel_t \<Rightarrow> bool \<Rightarrow> ('h, u32 option) api_fun" where
  "pqos_alloc_assoc_get_channel ch have_class_id =
     bad_param (\<not> have_class_id \<or> ch = 0) None (API_CALL (\<lambda>t. map_option (\<lambda>f. f ch) (api_alloc_assoc_get_channel t)) None)"

text \<open>A call on the channel of a device: the channel 0 stands for none.\<close>

definition with_dev_channel :: "'o \<Rightarrow> (pqos_channel_t \<Rightarrow> ('h, 'o) call) option \<Rightarrow> u16 \<Rightarrow> u16 \<Rightarrow> u32 \<Rightarrow> ('h, 'o) api_fun" where
  "with_dev_channel none f segment bdf vc s =
     (case f of
        None \<Rightarrow> Some (PQOS_RETVAL_RESOURCE, none, s)
      | Some f \<Rightarrow>
          (let ch = pqos_devinfo_get_channel_id (m_dev (lib_state s)) segment bdf vc
           in if ch = 0 then Some (PQOS_RETVAL_PARAM, none, s) else on_state (f ch) s))"

definition pqos_alloc_assoc_get_dev :: "u16 \<Rightarrow> u16 \<Rightarrow> u32 \<Rightarrow> bool \<Rightarrow> ('h, u32 option) api_fun" where
  "pqos_alloc_assoc_get_dev segment bdf vc have_class_id =
     bad_param (\<not> have_class_id \<or> PQOS_DEV_MAX_CHANNELS \<le> unat vc) None
       (with_lock None (\<lambda>s. with_dev_channel None (api_alloc_assoc_get_channel (lib_api s)) segment bdf vc s))"

definition pqos_alloc_assoc_set_channel :: "pqos_channel_t \<Rightarrow> u32 \<Rightarrow> ('h, unit) api_fun" where
  "pqos_alloc_assoc_set_channel ch class_id =
     bad_param (ch = 0) () (API_CALL (\<lambda>t. map_option (\<lambda>f. f ch class_id) (api_alloc_assoc_set_channel t)) ())"

definition pqos_alloc_assoc_set_dev :: "u16 \<Rightarrow> u16 \<Rightarrow> u32 \<Rightarrow> u32 \<Rightarrow> ('h, unit) api_fun" where
  "pqos_alloc_assoc_set_dev segment bdf vc class_id =
     bad_param (PQOS_DEV_MAX_CHANNELS \<le> unat vc) ()
       (with_lock () (\<lambda>s.
          case api_alloc_assoc_set_channel (lib_api s) of
            None \<Rightarrow> Some (PQOS_RETVAL_RESOURCE, (), s)
          | Some f \<Rightarrow>
              (let dev = m_dev (lib_state s); ch = pqos_devinfo_get_channel_id dev segment bdf vc
               in if ch = 0 then Some (PQOS_RETVAL_PARAM, (), s)
                  else (case pqos_devinfo_get_channel_shared dev ch of
                          Inl ret \<Rightarrow> Some (ret, (), s)
                        | Inr _ \<Rightarrow> on_state (f ch class_id) s))))"

end
