(* ===== verification/ApiMon.thy ===== *)
theory ApiMon
  imports ApiCall
begin

text \<open>
  The public functions for monitoring (\<open>lib/api.c\<close>). A group is the caller's structure
  (\<open>pqos_mon_start\<close>, \<open>pqos_mon_start_pids\<close>) or one that the library allocates together with its internal part.
  \<open>pqos_mon_data\<close>'s marker says that a group has been started.
\<close>

section \<open>Events and groups\<close>

definition GROUP_VALID_MARKER :: u32 where "GROUP_VALID_MARKER = 0x00DEAD00"

definition PQOS_MON_EVENTS_NON_PMU :: u32 where
  "PQOS_MON_EVENTS_NON_PMU =
     PQOS_MON_EVENT_L3_OCCUP OR PQOS_MON_EVENT_LMEM_BW OR PQOS_MON_EVENT_TMEM_BW OR PQOS_MON_EVENT_RMEM_BW OR
     PQOS_MON_EVENT_CORE_ENERGY OR PQOS_MON_EVENT_ACTIVITY OR PQOS_MON_EVENT_POWER"

definition PQOS_MON_EVENTS_PMU :: u32 where
  "PQOS_MON_EVENTS_PMU = PQOS_PERF_EVENT_IPC OR PQOS_PERF_EVENT_LLC_MISS OR PQOS_PERF_EVENT_LLC_REF"

definition PQOS_MON_EVENTS_ALLOWED :: u32 where
  "PQOS_MON_EVENTS_ALLOWED = PQOS_MON_EVENTS_NON_PMU OR PQOS_MON_EVENTS_PMU"

text \<open>The check of the events that the start functions for cores and processes share.\<close>

definition mon_event_refused :: "u32 \<Rightarrow> bool" where
  "mon_event_refused event \<longleftrightarrow>
     event AND NOT PQOS_MON_EVENTS_ALLOWED \<noteq> 0 \<or>
     (event AND PQOS_MON_EVENTS_NON_PMU = 0 \<and> event AND PQOS_MON_EVENTS_PMU \<noteq> 0)"

text \<open>The structures after \<open>memset\<close> and \<open>calloc\<close>.\<close>

definition zero_values :: pqos_event_values where
  "zero_values = \<lparr>llc = 0, mbm_local = 0, mbm_total = 0, mbm_remote = 0, mbm_local_delta = 0, mbm_total_delta = 0,
     mbm_remote_delta = 0, ipc_retired = 0, ipc_retired_delta = 0, ipc_unhalted = 0, ipc_unhalted_delta = 0, ipc = 0,
     llc_misses = 0, llc_misses_delta = 0, llc_references = 0, llc_references_delta = 0\<rparr>"

definition zero_slot :: pqos_tel_slot where
  "zero_slot = \<lparr>tel_current = 0, tel_previous = 0, tel_valid = False\<rparr>"

definition zero_data :: pqos_mon_data where
  "zero_data = \<lparr>mg_event = 0, mg_values = zero_values, mg_tid_map = [], mg_cores = [], mg_channels = [],
     mg_pcie = \<lparr>miss_read = 0, miss_read_delta = 0, miss_write = 0, miss_write_delta = 0, ref_read = 0, ref_read_delta = 0,
       ref_write = 0, ref_write_delta = 0\<rparr>,
     mg_perf_event = 0, mg_perf_ctx = None, mg_resctrl_event = 0, mg_core_energy = zero_slot, mg_power = zero_slot,
     mg_tel_ts = (0, 0), mg_prev_tel_ts = (0, 0), mg_hw_event = 0, mg_hw_ctx = [], mg_sockets = [], mg_valid_mbm_read = False\<rparr>"

definition zero_group :: mon_group where
  "zero_group = \<lparr>grp_valid = 0, grp_intl = INTL_NULL, grp_manage_memory = False, grp_valid_llc = False, grp_valid_mbm_local = False,
     grp_valid_mbm_total = False, grp_activity = zero_slot,
     grp_regions = \<lparr>rv_mbm_total = replicate PQOS_MAX_MEM_REGIONS 0, rv_mbm_total_delta = replicate PQOS_MAX_MEM_REGIONS 0, rv_io_llc = 0,
       rv_io_total = 0, rv_io_total_delta = 0, rv_io_miss = 0, rv_io_miss_delta = 0\<rparr>,
     grp_data = zero_data\<rparr>"

definition managed_group :: mon_group where
  "managed_group = zero_group\<lparr>grp_intl := INTL_LIVE, grp_manage_memory := True\<rparr>"

section \<open>Reset and RMIDs\<close>

record raw_mon_config =
  raw_mon_iordt :: int
  raw_mon_snc :: int

definition check_mon_config :: "raw_mon_config \<Rightarrow> pqos_mon_config option" where
  "check_mon_config cfg =
     (case iordt_of_int (raw_mon_iordt cfg) of None \<Rightarrow> None | Some vio \<Rightarrow>
        (case snc_of_int (raw_mon_snc cfg) of None \<Rightarrow> None | Some vs \<Rightarrow> Some \<lparr>mc_l3_iordt = vio, mc_snc = vs\<rparr>))"

definition pqos_mon_reset_config :: "raw_mon_config option \<Rightarrow> ('h, unit) api_fun" where
  "pqos_mon_reset_config cfg =
     (case cfg of
        None \<Rightarrow> API_CALL (\<lambda>t. map_option (\<lambda>f. f None) (api_mon_reset t)) ()
      | Some raw \<Rightarrow>
          bad_param (check_mon_config raw = None) ()
            (API_CALL (\<lambda>t. map_option (\<lambda>f. f (check_mon_config raw)) (api_mon_reset t)) ()))"

definition pqos_mon_reset :: "('h, unit) api_fun" where
  "pqos_mon_reset = pqos_mon_reset_config None"

definition pqos_mon_assoc_get :: "u32 \<Rightarrow> bool \<Rightarrow> ('h, u32 option) api_fun" where
  "pqos_mon_assoc_get l have_rmid =
     bad_param (\<not> have_rmid) None (API_CALL (\<lambda>t. map_option (\<lambda>f. f l) (api_mon_assoc_get t)) None)"

definition pqos_mon_assoc_get_channel :: "pqos_channel_t \<Rightarrow> bool \<Rightarrow> ('h, u32 option) api_fun" where
  "pqos_mon_assoc_get_channel ch have_rmid =
     bad_param (ch = 0 \<or> \<not> have_rmid) None (API_CALL (\<lambda>t. map_option (\<lambda>f. f ch) (api_mon_assoc_get_channel t)) None)"

definition pqos_mon_assoc_get_dev :: "u16 \<Rightarrow> u16 \<Rightarrow> u32 \<Rightarrow> bool \<Rightarrow> ('h, u32 option) api_fun" where
  "pqos_mon_assoc_get_dev segment bdf vc have_rmid =
     bad_param (\<not> have_rmid) None
       (with_lock None (\<lambda>s. with_dev_channel None (api_mon_assoc_get_channel (lib_api s)) segment bdf vc s))"

section \<open>Starting\<close>

text \<open>
  On the caller's structure. It is cleared and gets a fresh internal part before the call of the table; after a
  failure the internal part is freed, the pointer to it stays. The result is the
  structure.
\<close>

definition start_in_place :: "('h pqos_api \<Rightarrow> (mon_group \<Rightarrow> ('h, mon_group) call) option) \<Rightarrow> mon_group \<Rightarrow> ('h, mon_group) api_fun" where
  "start_in_place slot grp =
     with_lock grp (\<lambda>s.
       let g = zero_group\<lparr>grp_intl := INTL_LIVE\<rparr>
       in map_option (\<lambda>(ret, g, s).
            (ret, if ret = PQOS_RETVAL_OK then g\<lparr>grp_valid := GROUP_VALID_MARKER\<rparr> else g\<lparr>grp_intl := INTL_FREED\<rparr>, s))
          (dispatch g (map_option (\<lambda>f. f g) (slot (lib_api s))) s))"

text \<open>The pointer to the structure that a function delivers is the one that it got.\<close>

definition same_pointer :: "('h, mon_group) api_fun \<Rightarrow> ('h, mon_group option) api_fun" where
  "same_pointer f s = map_option (\<lambda>(ret, g, s). (ret, Some g, s)) (f s)"

definition pqos_mon_start :: "u32 list option \<Rightarrow> u32 \<Rightarrow> mon_group option \<Rightarrow> ('h, mon_group option) api_fun" where
  "pqos_mon_start ls event grp =
     bad_param (grp = None \<or> null_or_empty ls \<or> event = 0 \<or> grp_valid (the grp) = GROUP_VALID_MARKER \<or> mon_event_refused event) grp
       (same_pointer (start_in_place (\<lambda>t. map_option (\<lambda>f. f (the ls) event None) (api_mon_start_cores t)) (the grp)))"

definition pqos_mon_start_pids :: "int list option \<Rightarrow> u32 \<Rightarrow> mon_group option \<Rightarrow> ('h, mon_group option) api_fun" where
  "pqos_mon_start_pids pids event grp =
     bad_param (null_or_empty pids \<or> grp = None \<or> event = 0 \<or> grp_valid (the grp) = GROUP_VALID_MARKER \<or> mon_event_refused event) grp
       (same_pointer (start_in_place (\<lambda>t. map_option (\<lambda>f. f (the pids) event) (api_mon_start_pids t)) (the grp)))"

definition pqos_mon_start_pid :: "int \<Rightarrow> u32 \<Rightarrow> mon_group option \<Rightarrow> ('h, mon_group option) api_fun" where
  "pqos_mon_start_pid pid = pqos_mon_start_pids (Some [pid])"

text \<open>With a structure that the library allocates: the result is \<open>None\<close> when nothing is delivered.\<close>

definition deliver_group :: "retval \<times> mon_group \<times> 'h library \<Rightarrow> retval \<times> mon_group option \<times> 'h library" where
  "deliver_group = (\<lambda>(ret, g, s). (ret, if ret = PQOS_RETVAL_OK then Some (g\<lparr>grp_valid := GROUP_VALID_MARKER\<rparr>) else None, s))"

definition start_managed :: "('h pqos_api \<Rightarrow> (mon_group \<Rightarrow> ('h, mon_group) call) option) \<Rightarrow> ('h, mon_group option) api_fun" where
  "start_managed slot s =
     map_option deliver_group (API_CALL (\<lambda>t. map_option (\<lambda>f. f managed_group) (slot t)) managed_group s)"

definition pqos_mon_start_cores_ext :: "u32 list option \<Rightarrow> u32 \<Rightarrow> int list option \<Rightarrow> bool \<Rightarrow> bool \<Rightarrow> ('h, mon_group option) api_fun" where
  "pqos_mon_start_cores_ext ls event region have_group have_opt =
     bad_param (\<not> have_group \<or> null_or_empty ls \<or> event = 0 \<or> \<not> have_opt \<or> mon_event_refused event) None
       (start_managed (\<lambda>t. map_option (\<lambda>f. f (the ls) event region) (api_mon_start_cores t)))"

definition pqos_mon_start_cores :: "u32 list option \<Rightarrow> u32 \<Rightarrow> int list option \<Rightarrow> bool \<Rightarrow> ('h, mon_group option) api_fun" where
  "pqos_mon_start_cores ls event region have_group = pqos_mon_start_cores_ext ls event region have_group True"

definition pqos_mon_start_pids2 :: "int list option \<Rightarrow> u32 \<Rightarrow> bool \<Rightarrow> ('h, mon_group option) api_fun" where
  "pqos_mon_start_pids2 pids event have_group =
     bad_param (\<not> have_group \<or> null_or_empty pids \<or> event = 0 \<or> mon_event_refused event) None
       (start_managed (\<lambda>t. map_option (\<lambda>f. f (the pids) event) (api_mon_start_pids t)))"

definition pqos_mon_start_uncore :: "u32 list option \<Rightarrow> u32 \<Rightarrow> bool \<Rightarrow> ('h, mon_group option) api_fun" where
  "pqos_mon_start_uncore sockets event have_group =
     bad_param (null_or_empty sockets \<or> \<not> have_group \<or> event = 0 \<or>
         event AND (PQOS_PERF_EVENT_LLC_MISS_PCIE_READ OR PQOS_PERF_EVENT_LLC_MISS_PCIE_WRITE OR
           PQOS_PERF_EVENT_LLC_REF_PCIE_READ OR PQOS_PERF_EVENT_LLC_REF_PCIE_WRITE) = 0) None
       (start_managed (\<lambda>t. map_option (\<lambda>f. f (the sockets) event) (api_mon_start_uncore t)))"

definition pqos_mon_start_channels_ext :: "pqos_channel_t list option \<Rightarrow> u32 \<Rightarrow> bool \<Rightarrow> bool \<Rightarrow> ('h, mon_group option) api_fun" where
  "pqos_mon_start_channels_ext chs event have_group have_opt =
     bad_param (\<not> have_group \<or> null_or_empty chs \<or> event = 0 \<or> \<not> have_opt \<or>
         event AND NOT (PQOS_MON_EVENT_L3_OCCUP OR PQOS_MON_EVENT_LMEM_BW OR PQOS_MON_EVENT_TMEM_BW OR PQOS_MON_EVENT_RMEM_BW OR
           PQOS_MON_EVENT_IO_L3_OCCUP OR PQOS_MON_EVENT_IO_TOTAL_MEM_BW OR PQOS_MON_EVENT_IO_MISS_MEM_BW) \<noteq> 0) None
       (start_managed (\<lambda>t. map_option (\<lambda>f. f (the chs) event) (api_mon_start_channels t)))"

definition pqos_mon_start_channels :: "pqos_channel_t list option \<Rightarrow> u32 \<Rightarrow> bool \<Rightarrow> ('h, mon_group option) api_fun" where
  "pqos_mon_start_channels chs event have_group = pqos_mon_start_channels_ext chs event have_group True"

definition pqos_mon_start_dev :: "u16 \<Rightarrow> u16 \<Rightarrow> u8 \<Rightarrow> u32 \<Rightarrow> bool \<Rightarrow> ('h, mon_group option) api_fun" where
  "pqos_mon_start_dev segment bdf channel event have_group =
     bad_param (\<not> have_group \<or> event = 0 \<or> PQOS_DEV_MAX_CHANNELS \<le> unat channel \<or>
         event AND NOT (PQOS_MON_EVENT_L3_OCCUP OR PQOS_MON_EVENT_LMEM_BW OR PQOS_MON_EVENT_TMEM_BW OR PQOS_MON_EVENT_RMEM_BW) \<noteq> 0) None
       (with_lock None (\<lambda>s. map_option deliver_group
          (with_dev_channel managed_group
             (map_option (\<lambda>f ch. f [ch] event managed_group) (api_mon_start_channels (lib_api s))) segment bdf (ucast channel) s)))"

section \<open>Running groups\<close>

definition pqos_mon_add_pids :: "int list option \<Rightarrow> mon_group option \<Rightarrow> ('h, mon_group option) api_fun" where
  "pqos_mon_add_pids pids grp =
     bad_param (null_or_empty pids \<or> grp = None \<or> grp_valid (the grp) \<noteq> GROUP_VALID_MARKER) grp
       (same_pointer (API_CALL (\<lambda>t. map_option (\<lambda>f. f (the pids) (the grp)) (api_mon_add_pids t)) (the grp)))"

definition pqos_mon_remove_pids :: "int list option \<Rightarrow> mon_group option \<Rightarrow> ('h, mon_group option) api_fun" where
  "pqos_mon_remove_pids pids grp =
     bad_param (null_or_empty pids \<or> grp = None \<or> grp_valid (the grp) \<noteq> GROUP_VALID_MARKER) grp
       (same_pointer (API_CALL (\<lambda>t. map_option (\<lambda>f. f (the pids) (the grp)) (api_mon_remove_pids t)) (the grp)))"

text \<open>
  The group is released whatever the outcome: the result is \<open>None\<close> when the structure itself has been
  freed. The use of a freed internal part is undefined.
\<close>

definition pqos_mon_stop :: "mon_group option \<Rightarrow> ('h, mon_group option) api_fun" where
  "pqos_mon_stop grp =
     bad_param (grp = None \<or> grp_valid (the grp) \<noteq> GROUP_VALID_MARKER) grp
       (with_lock grp (\<lambda>s.
          case dispatch (the grp) (map_option (\<lambda>f. f (the grp)) (api_mon_stop (lib_api s))) s of
            None \<Rightarrow> None
          | Some (ret, g, s) \<Rightarrow>
              if grp_intl g \<noteq> INTL_LIVE then None
              else Some (ret, if grp_manage_memory g then None else Some zero_group, s)))"

text \<open>\<open>poll\<close> is \<open>pqos_mon_poll_events\<close>; the loop goes on after a failure.\<close>

fun poll_groups :: "(mon_group \<Rightarrow> ('h, mon_group) call) \<Rightarrow> mon_group list \<Rightarrow> retval \<Rightarrow> ('h, mon_group list) call" where
  "poll_groups poll [] ret s = Some (ret, [], s)"
| "poll_groups poll (g # gs) ret s =
     (case poll g s of
        None \<Rightarrow> None
      | Some (retval, g, s) \<Rightarrow>
          (case poll_groups poll gs (if retval \<noteq> PQOS_RETVAL_OK then retval else ret) s of
             None \<Rightarrow> None
           | Some (ret, gs, s) \<Rightarrow> Some (ret, g # gs, s)))"

definition pqos_mon_poll :: "(mon_group \<Rightarrow> ('h, mon_group) call) \<Rightarrow> mon_group option list option \<Rightarrow> ('h, mon_group list) api_fun" where
  "pqos_mon_poll poll groups =
     bad_param (null_or_empty groups \<or>
         list_ex (\<lambda>g. case g of None \<Rightarrow> True | Some g \<Rightarrow> grp_valid g \<noteq> GROUP_VALID_MARKER \<or> mg_event (grp_data g) = 0) (the groups)) []
       (with_lock [] (on_state (poll_groups poll (map the (the groups)) PQOS_RETVAL_OK)))"

section \<open>Reading the values\<close>

definition group_not_ready :: "mon_group option \<Rightarrow> u32 \<Rightarrow> bool" where
  "group_not_ready grp event \<longleftrightarrow>
     (case grp of None \<Rightarrow> True | Some g \<Rightarrow> grp_valid g \<noteq> GROUP_VALID_MARKER \<or> \<not> has_event (mg_event (grp_data g)) event)"

text \<open>Value and delta of the selected event.\<close>

definition select_value :: "mon_group \<Rightarrow> u32 \<Rightarrow> (u64 \<times> u64) option" where
  "select_value g event =
     (let v = mg_values (grp_data g); p = mg_pcie (grp_data g)
      in if event = PQOS_MON_EVENT_L3_OCCUP then Some (llc v, 0)
         else if event = PQOS_MON_EVENT_LMEM_BW then Some (mbm_local v, mbm_local_delta v)
         else if event = PQOS_MON_EVENT_TMEM_BW then Some (mbm_total v, mbm_total_delta v)
         else if event = PQOS_MON_EVENT_RMEM_BW then Some (mbm_remote v, mbm_remote_delta v)
         else if event = PQOS_PERF_EVENT_LLC_MISS then Some (llc_misses v, llc_misses_delta v)
         else if event = PQOS_PERF_EVENT_LLC_REF then Some (llc_references v, llc_references_delta v)
         else if event = PQOS_PERF_EVENT_LLC_MISS_PCIE_READ then Some (miss_read p, miss_read_delta p)
         else if event = PQOS_PERF_EVENT_LLC_MISS_PCIE_WRITE then Some (miss_write p, miss_write_delta p)
         else if event = PQOS_PERF_EVENT_LLC_REF_PCIE_READ then Some (ref_read p, ref_read_delta p)
         else if event = PQOS_PERF_EVENT_LLC_REF_PCIE_WRITE then Some (ref_write p, ref_write_delta p)
         else None)"

definition pqos_mon_get_value :: "mon_group option \<Rightarrow> u32 \<Rightarrow> ('h, (u64 \<times> u64) option) api_fun" where
  "pqos_mon_get_value grp event =
     bad_param (event = PQOS_PERF_EVENT_IPC \<or> group_not_ready grp event) None
       (with_lock None (\<lambda>s. case select_value (the grp) event of
          None \<Rightarrow> Some (PQOS_RETVAL_PARAM, None, s)
        | Some v \<Rightarrow> Some (PQOS_RETVAL_OK, Some v, s)))"

text \<open>The region number is not checked: outside the array the result is \<open>None\<close>.\<close>

definition pqos_mon_get_region_value :: "mon_group option \<Rightarrow> u32 \<Rightarrow> int \<Rightarrow> ('h, (u64 \<times> u64) option) api_fun" where
  "pqos_mon_get_region_value grp event region =
     bad_param (group_not_ready grp event) None
       (with_lock None (\<lambda>s.
          let g = the grp; v = mg_values (grp_data g); r = grp_regions g
          in if event = PQOS_MON_EVENT_L3_OCCUP then Some (PQOS_RETVAL_OK, Some (llc v, 0), s)
             else if event = PQOS_MON_EVENT_TMEM_BW
             then if 0 \<le> region \<and> nat region < length (rv_mbm_total r) \<and> nat region < length (rv_mbm_total_delta r)
                  then Some (PQOS_RETVAL_OK, Some (rv_mbm_total r ! nat region, rv_mbm_total_delta r ! nat region), s)
                  else None
             else if event = PQOS_MON_EVENT_IO_L3_OCCUP then Some (PQOS_RETVAL_OK, Some (rv_io_llc r, 0), s)
             else if event = PQOS_MON_EVENT_IO_TOTAL_MEM_BW then Some (PQOS_RETVAL_OK, Some (rv_io_total r, rv_io_total_delta r), s)
             else if event = PQOS_MON_EVENT_IO_MISS_MEM_BW then Some (PQOS_RETVAL_OK, Some (rv_io_miss r, rv_io_miss_delta r), s)
             else if event = PQOS_PERF_EVENT_LLC_MISS then Some (PQOS_RETVAL_OK, Some (llc_misses v, llc_misses_delta v), s)
             else Some (PQOS_RETVAL_PARAM, None, s)))"

definition pqos_mon_get_tel_value :: "mon_group option \<Rightarrow> u32 \<Rightarrow> bool \<Rightarrow> ('h, rat option) api_fun" where
  "pqos_mon_get_tel_value grp event have_value =
     bad_param (\<not> have_value \<or> group_not_ready grp event \<or> grp_intl (the grp) = INTL_NULL) None
       (with_lock None (\<lambda>s.
          let g = the grp
          in case (if event = PQOS_MON_EVENT_CORE_ENERGY then Some (mg_core_energy (grp_data g))
                   else if event = PQOS_MON_EVENT_ACTIVITY then Some (grp_activity g)
                   else if event = PQOS_MON_EVENT_POWER then Some (mg_power (grp_data g))
                   else None) of
               None \<Rightarrow> Some (PQOS_RETVAL_PARAM, None, s)
             | Some slot \<Rightarrow>
                 if grp_intl g = INTL_FREED then None
                 else if \<not> tel_valid slot then Some (PQOS_RETVAL_RESOURCE, None, s)
                 else Some (PQOS_RETVAL_OK, Some (tel_current slot), s)))"

definition pqos_mon_get_ipc :: "mon_group option \<Rightarrow> bool \<Rightarrow> ('h, rat option) api_fun" where
  "pqos_mon_get_ipc grp have_value =
     bad_param (\<not> have_value \<or> group_not_ready grp PQOS_PERF_EVENT_IPC) None
       (with_lock None (\<lambda>s. Some (PQOS_RETVAL_OK, Some (ipc (mg_values (grp_data (the grp)))), s)))"

text \<open>The result is 0 or 1, 0 before the library is initialised.\<close>

definition pqos_mon_event_valid :: "mon_group option \<Rightarrow> u32 \<Rightarrow> 'h library \<Rightarrow> (bool \<times> 'h library) option" where
  "pqos_mon_event_valid grp event =
     drop_status (bad_param (group_not_ready grp event \<or> grp_intl (the grp) = INTL_NULL) False
       (with_lock False (\<lambda>s.
          let g = the grp; started = mg_resctrl_event (grp_data g)
          in if grp_intl g = INTL_FREED \<and>
                event \<in> {PQOS_MON_EVENT_L3_OCCUP, PQOS_MON_EVENT_LMEM_BW, PQOS_MON_EVENT_TMEM_BW, PQOS_MON_EVENT_RMEM_BW} then None
             else Some (PQOS_RETVAL_OK,
               if event = PQOS_MON_EVENT_L3_OCCUP then has_event started event \<longrightarrow> grp_valid_llc g
               else if event = PQOS_MON_EVENT_LMEM_BW then has_event started event \<longrightarrow> grp_valid_mbm_local g
               else if event = PQOS_MON_EVENT_TMEM_BW then has_event started event \<longrightarrow> grp_valid_mbm_total g
               else if event = PQOS_MON_EVENT_RMEM_BW
               then has_event started PQOS_MON_EVENT_LMEM_BW \<and> has_event started PQOS_MON_EVENT_TMEM_BW \<longrightarrow>
                      grp_valid_mbm_local g \<and> grp_valid_mbm_total g
               else True, s))))"

end
