(* ===== verification/ApiSession.thy ===== *)
theory ApiSession
  imports ApiMon MonLife
begin

text \<open>
  Sequences of public calls (\<open>lib/api.c\<close>): that each takes the mutex once and gives it back,
  that nothing happens before the library is initialised, and what a caller sees who
  starts from a table that \<open>api_init\<close> has filled. The calls are all functions of the file but \<open>api_init\<close> and
  \<open>pqos_retval_to_string\<close>, which take no mutex.
\<close>

section \<open>The calls\<close>







section \<open>A library that is not initialised\<close>

definition refuses :: "('h, 'o) api_fun \<Rightarrow> bool" where
  "refuses f \<longleftrightarrow> (\<forall>s. \<not> lib_locked s \<and> \<not> m_init_done s \<longrightarrow> (\<exists>ret x. f s = Some (ret, x, s) \<and> ret \<in> {PQOS_RETVAL_INIT, PQOS_RETVAL_PARAM}))"

named_theorems refuse_intros "the combinators of the public functions before initialisation"

lemma refuses_with_lock [refuse_intros]: "refuses (with_lock none body)"
  by (simp add: refuses_def with_lock_def lock_get_def lock_release_def pqos_check_init_def)

lemma refuses_API_CALL [refuse_intros]: "refuses (API_CALL slot none)"
  using refuses_with_lock [of none "\<lambda>s. dispatch none (slot (lib_api s)) s"] by (simp add: refuses_def API_CALL_def)

lemma refuses_bad_param [refuse_intros]: "refuses f \<Longrightarrow> refuses (bad_param bad none f)"
  by (simp add: refuses_def bad_param_def)

lemma refuses_start_in_place [refuse_intros]: "refuses (start_in_place slot g)"
  by (simp add: start_in_place_def refuses_with_lock)

lemma refuses_same_pointer [refuse_intros]: "refuses f \<Longrightarrow> refuses (same_pointer f)"
  by (fastforce simp: refuses_def same_pointer_def)

lemma refuses_start_managed [refuse_intros]: "refuses (start_managed slot)"
  using refuses_API_CALL [of "\<lambda>t. map_option (\<lambda>f. f managed_group) (slot t)" managed_group]
  by (fastforce simp: refuses_def start_managed_def deliver_group_def)



lemma refuses_io_devs [refuse_intros]: "refuses (pqos_io_devs_get info g b)"
  using refuses_API_CALL [of "\<lambda>t. map_option (\<lambda>f. f (the info) g b) (api_io_devs_get t)" "the info"]
  by (fastforce simp: refuses_def pqos_io_devs_get_def)

lemma refuses_reset_config [refuse_intros]:
  "refuses (pqos_alloc_reset_config cfg)" "refuses (pqos_mon_reset_config raw)"
  by (cases cfg; simp add: pqos_alloc_reset_config_def refuse_intros) (cases raw; simp add: pqos_mon_reset_config_def refuse_intros)


section \<open>A table whose entries return\<close>

text \<open>What a public function leaves alone: the flag and the table; the mutex is free.\<close>

definition lib_kept :: "'h library \<Rightarrow> 'h library \<Rightarrow> bool" where
  "lib_kept s t \<longleftrightarrow> m_init_done t = m_init_done s \<and> lib_api t = lib_api s"

definition call_total :: "('h, 'o) call \<Rightarrow> bool" where
  "call_total f \<longleftrightarrow> (\<forall>s. f s \<noteq> None)"

definition entry_total :: "('h, 'o) call option \<Rightarrow> bool" where
  "entry_total f \<longleftrightarrow> (\<forall>g. f = Some g \<longrightarrow> call_total g)"

definition body_returns :: "'h pqos_api \<Rightarrow> ('h, 'o) api_fun \<Rightarrow> bool" where
  "body_returns T body \<longleftrightarrow> (\<forall>s. lib_api s = T \<longrightarrow> (\<exists>ret x t. body s = Some (ret, x, t) \<and> lib_kept s t))"

definition api_returns :: "'h pqos_api \<Rightarrow> ('h, 'o) api_fun \<Rightarrow> bool" where
  "api_returns T f \<longleftrightarrow>
     (\<forall>s. \<not> lib_locked s \<and> lib_api s = T \<longrightarrow> (\<exists>ret x t. f s = Some (ret, x, t) \<and> lib_kept s t \<and> \<not> lib_locked t))"

named_theorems return_intros "the combinators of the public functions on a table whose entries return"

lemma returns_with_lock [return_intros]: "body_returns T body \<Longrightarrow> api_returns T (with_lock none body)"
  unfolding api_returns_def
proof (intro allI impI)
  fix s :: "'a library"
  assume b: "body_returns T body" and s: "\<not> lib_locked s \<and> lib_api s = T"
  let ?s = "s\<lparr>lib_locked := True\<rparr>"
  from b [unfolded body_returns_def, rule_format, of ?s] s
  obtain ret x t where "body ?s = Some (ret, x, t)" and "lib_kept ?s t" by auto
  with s show "\<exists>ret x t. with_lock none body s = Some (ret, x, t) \<and> lib_kept s t \<and> \<not> lib_locked t"
    by (simp add: with_lock_def lock_get_def lock_release_def lib_kept_def pqos_check_init_def)
qed

lemma on_state_returns: "call_total f \<Longrightarrow> \<exists>ret x t. on_state f s = Some (ret, x, t) \<and> lib_kept s t"
proof -
  assume "call_total f"
  then obtain ret x t where "f (lib_state s) = Some (ret, x, t)" unfolding call_total_def by (metis not_None_eq prod_cases3)
  then show ?thesis by (simp add: on_state_def lib_kept_def)
qed


lemma lib_kept_refl [simp]: "lib_kept s s"
  by (simp add: lib_kept_def)

lemma body_dispatch [return_intros]: "entry_total (slot T) \<Longrightarrow> body_returns T (\<lambda>s. dispatch none (slot (lib_api s)) s)"
  by (auto simp: body_returns_def dispatch_def entry_total_def lib_kept_def split: option.split intro!: on_state_returns [simplified lib_kept_def])

lemma returns_API_CALL [return_intros]: "entry_total (slot T) \<Longrightarrow> api_returns T (API_CALL slot none)"
  using returns_with_lock [OF body_dispatch, of slot T none none] by (simp add: api_returns_def API_CALL_def)


lemma returns_map:
  assumes "api_returns T f" and "\<And>s. f' s = map_option (\<lambda>(ret, x, s). (ret, h ret x, s)) (f s)"
  shows "api_returns T f'"
  using assms(1) unfolding api_returns_def assms(2) by fastforce

lemma returns_same_pointer [return_intros]: "api_returns T f \<Longrightarrow> api_returns T (same_pointer f)"
  by (rule returns_map [where h = "\<lambda>_. Some"]) (simp_all add: same_pointer_def)

lemma returns_start_managed [return_intros]:
  "entry_total (map_option (\<lambda>f. f managed_group) (slot T)) \<Longrightarrow> api_returns T (start_managed slot)"
  by (rule returns_map [OF returns_API_CALL [where none = managed_group],
        where h = "\<lambda>ret g. if ret = PQOS_RETVAL_OK then Some (g\<lparr>grp_valid := GROUP_VALID_MARKER\<rparr>) else None"])
    (simp_all add: start_managed_def deliver_group_def)

lemma body_map:
  assumes "body_returns T f" and "\<And>s. lib_api s = T \<Longrightarrow> f' s = map_option (\<lambda>(ret, x, s). (ret, h ret x, s)) (f s)"
  shows "body_returns T f'"
  unfolding body_returns_def
proof (intro allI impI)
  fix s :: "'a library"
  assume s: "lib_api s = T"
  with assms(1) obtain ret x t where "f s = Some (ret, x, t)" "lib_kept s t" unfolding body_returns_def by blast
  then show "\<exists>ret x t. f' s = Some (ret, x, t) \<and> lib_kept s t" by (simp add: assms(2) [OF s])
qed

lemma returns_start_in_place [return_intros]:
  assumes "\<And>g. entry_total (map_option (\<lambda>f. f g) (slot T))"
  shows "api_returns T (start_in_place slot grp)"
proof -
  let ?g = "zero_group\<lparr>grp_intl := INTL_LIVE\<rparr>"
  have "body_returns T (\<lambda>s. dispatch ?g (map_option (\<lambda>f. f ?g) (slot (lib_api s))) s)"
    using assms by (intro body_dispatch [where slot = "\<lambda>t. map_option (\<lambda>f. f ?g) (slot t)"]) simp
  from body_map [OF this, where h = "\<lambda>ret g. if ret = PQOS_RETVAL_OK then g\<lparr>grp_valid := GROUP_VALID_MARKER\<rparr> else g\<lparr>grp_intl := INTL_FREED\<rparr>"]
  show ?thesis unfolding start_in_place_def Let_def by (intro returns_with_lock) (simp add: body_returns_def)
qed


lemma entry_total_simps [simp]:
  "entry_total None" "entry_total (Some f) \<longleftrightarrow> call_total f"
  by (simp_all add: entry_total_def)

lemma hw_entries_total [simp]: "call_total (hw_ret f)" "call_total (hw_res g)" "call_total (hw_out h)" "call_total (hw_grp k grp)"
  by (simp_all add: call_total_def hw_ret_def hw_res_def hw_out_def hw_grp_def split: prod.split sum.split)















section \<open>The MSR interface\<close>

lemma hw_grp_keeps:
  "hw_grp f g s = Some (ret, g', t) \<Longrightarrow> grp_valid g' = grp_valid g \<and> grp_intl g' = grp_intl g \<and> grp_manage_memory g' = grp_manage_memory g"
  by (auto simp: hw_grp_def hw_out_def split: prod.splits)



section \<open>One group of the caller\<close>




definition group_ok :: "mon_group \<Rightarrow> bool" where
  "group_ok g \<longleftrightarrow> (grp_valid g = GROUP_VALID_MARKER \<longrightarrow> grp_intl g = INTL_LIVE \<and> \<not> grp_manage_memory g)"

lemma msr_mon_entries:
  "api_mon_start_cores (api_init_msr A vendor) = Some (\<lambda>ls event region. hw_grp (hw_mon_start_cores (ae_platform A) (ae_perf A) (ae_module A) ls event))"
  "api_mon_stop (api_init_msr A vendor) = Some (hw_grp (hw_mon_stop (ae_platform A) (ae_perf A)))"
  by (simp_all add: api_init_msr_def Let_def)

lemma not_marker [simp]: "(0 :: u32) \<noteq> GROUP_VALID_MARKER" "GROUP_VALID_MARKER \<noteq> 0"
  by (simp_all add: GROUP_VALID_MARKER_def)

lemma zero_group_valid [simp]: "grp_valid zero_group = 0"
  by (simp add: zero_group_def)

lemma zero_group_ok [simp]: "group_ok zero_group"
  by (simp add: group_ok_def zero_group_def)





section \<open>A sample\<close>

definition no_files :: "'h resctrl_os" where
  "no_files = \<lparr>fs_lstat = (\<lambda>_ _. None), fs_fstat = (\<lambda>_ _. None), fs_fopen_r = (\<lambda>_ _. False), fs_content = (\<lambda>_ _. []),
     fs_ferror = (\<lambda>_ _. False), fs_fclose_r = (\<lambda>_ _. True), fs_fopen_w = (\<lambda>_ _. None), fs_fclose_w = (\<lambda>_ _ h. (0, h)),
     fs_mkdir = (\<lambda>_ h. (- 1, h)), fs_scandir = (\<lambda>_ _. None), fs_open_dir = (\<lambda>_ _. - 1), fs_flock = (\<lambda>_ _ _. False),
     os_kill0 = (\<lambda>_ _. False)\<rparr>"

definition sample_env :: "ref_hw api_env" where
  "sample_env = \<lparr>ae_platform = ref_platform, ae_perf = ref_perf_os, ae_module = sample_module, ae_os_l3 = Inl PQOS_RETVAL_RESOURCE,
     ae_os_l2 = Inl PQOS_RETVAL_RESOURCE, ae_kernel = no_files, ae_buf = [], ae_other = null_api\<rparr>"

definition sample_library :: "ref_hw lib \<Rightarrow> ref_hw library" where
  "sample_library s = \<lparr>lib_locked = False, m_init_done = True, lib_api = api_init_msr sample_env PQOS_VENDOR_INTEL,
     lib_state = lib.extend s (rlib.fields 0 (- 1))\<rparr>"

lemma sample_library_simps [simp]:
  "\<not> lib_locked (sample_library s)" "m_init_done (sample_library s)"
  "lib_api (sample_library s) = api_init_msr sample_env PQOS_VENDOR_INTEL" "lib_of (lib_state (sample_library s)) = s"
  by (simp_all add: sample_library_def lib_of_def lib.defs rlib.defs)

lemma sample_env_simps [simp]:
  "ae_platform sample_env = ref_platform" "ae_perf sample_env = ref_perf_os" "ae_module sample_env = sample_module"
  by (simp_all add: sample_env_def)

section \<open>Properties\<close>










text \<open>
  What a caller of the MSR interface associates is what it reads: after \<open>pqos_alloc_assoc_set\<close> of class \<open>c\<close> to
  core \<open>l\<close> has succeeded, \<open>pqos_alloc_assoc_get\<close> succeeds, answers \<open>c\<close> and changes nothing.
\<close>

theorem api_assoc_set_get:
  assumes "msr_driver (ae_platform A) core_of regs" and "machine_wf core_of (lib_of (lib_state s))"
    and "\<not> lib_locked s" and "m_init_done s" and "lib_api s = api_init_msr A vendor"
    and "pqos_alloc_assoc_set l c s = Some (PQOS_RETVAL_OK, (), t)"
  shows "pqos_alloc_assoc_get l True t = Some (PQOS_RETVAL_OK, Some c, t)"
proof -
  have e: "api_alloc_assoc_set (api_init_msr A vendor) = Some (\<lambda>l class_id. hw_ret (hw_alloc_assoc_set (ae_platform A) l class_id))"
    "api_alloc_assoc_get (api_init_msr A vendor) = Some (\<lambda>l. hw_res (hw_alloc_assoc_get (ae_platform A) l))"
    by (simp_all add: api_init_msr_def Let_def)
  obtain ret u where set: "hw_alloc_assoc_set (ae_platform A) l c (lib_of (lib_state s)) = (ret, u)" by fastforce
  with assms(3-6) e have ok: "ret = PQOS_RETVAL_OK" and t: "t = s\<lparr>lib_state := put_lib u (lib_state s)\<rparr>"
    by (auto simp: pqos_alloc_assoc_set_def API_CALL_def with_lock_def lock_get_def lock_release_def pqos_check_init_def dispatch_def
        on_state_def hw_ret_def)
  have "hw_alloc_assoc_get (ae_platform A) l u = (Inr c, u)"
    using assoc_set_then_get [OF assms(1,2)] set ok by blast
  then show ?thesis
    using assms(3-5) e
    by (simp add: t pqos_alloc_assoc_get_def bad_param_def API_CALL_def with_lock_def lock_get_def lock_release_def pqos_check_init_def
        dispatch_def on_state_def hw_res_def)
qed

theorem api_assoc_set_get_witness:
  "\<exists>t. pqos_alloc_assoc_set 1 3 (sample_library sample_lib) = Some (PQOS_RETVAL_OK, (), t) \<and>
     pqos_alloc_assoc_get 1 True t = Some (PQOS_RETVAL_OK, Some 3, t)"
proof -
  let ?s = "sample_library sample_lib"
  have "map_option fst (pqos_alloc_assoc_set 1 3 ?s) = Some PQOS_RETVAL_OK" by code_simp
  then obtain t where run: "pqos_alloc_assoc_set 1 3 ?s = Some (PQOS_RETVAL_OK, (), t)" by auto
  have "msr_driver (ae_platform sample_env) ref_core_of ref_regs" using refdrv.msr_driver_axioms by simp
  from api_assoc_set_get [OF this _ _ _ _ run, of PQOS_VENDOR_INTEL] sample_wf run show ?thesis by simp
qed

text \<open>
  C8. Monitoring leaves no trace: when \<open>pqos_mon_start_cores\<close> on the MSR interface and then \<open>pqos_mon_stop\<close> of the group it has
  delivered succeed, with events counted by the kernel's perf descriptors or not, the group is gone and every core has the RMID and the class of service that it had before.
\<close>

theorem api_mon_start_stop:
  assumes "perf_kernel (ae_platform A) core_of regs (ae_perf A)" and "machine_wf core_of (lib_of (lib_state s))"
    and "\<not> lib_locked s" and "m_init_done s" and "lib_api s = api_init_msr A vendor"
    and "pqos_mon_start_cores ls event region True s = Some (PQOS_RETVAL_OK, grp, t)"
    and "pqos_mon_stop grp t = Some (PQOS_RETVAL_OK, grp', u)"
  shows "grp' = None \<and> core_rmid regs (lib_of (lib_state u)) l = core_rmid regs (lib_of (lib_state s)) l \<and>
    map_option clos_field (regs (m_hw (lib_state u)) l PQOS_MSR_ASSOC) = map_option clos_field (regs (m_hw (lib_state s)) l PQOS_MSR_ASSOC)"
proof -
  let ?E = "ae_platform A" and ?P = "ae_perf A" and ?M = "ae_module A"
  obtain ret d v where st: "hw_mon_start_cores ?E ?P ?M (the ls) event (grp_data managed_group) (lib_of (lib_state s)) = (ret, d, v)"
    by (metis prod_cases3)
  let ?g = "managed_group\<lparr>grp_data := d, grp_valid := GROUP_VALID_MARKER\<rparr>"
  from assms(3-6) st have ok: "ret = PQOS_RETVAL_OK" and g: "grp = Some ?g" and t: "t = s\<lparr>lib_state := put_lib v (lib_state s)\<rparr>"
    by (auto simp: pqos_mon_start_cores_def pqos_mon_start_cores_ext_def bad_param_def start_managed_def deliver_group_def API_CALL_def
        with_lock_def lock_get_def lock_release_def pqos_check_init_def dispatch_def on_state_def msr_mon_entries hw_grp_def hw_out_def
        split: if_splits)
  have m: "grp_intl managed_group = INTL_LIVE" "grp_manage_memory managed_group" "grp_data managed_group = zero_data"
    by (simp_all add: managed_group_def zero_group_def)
  obtain ret' d' w where sp: "hw_mon_stop ?E ?P d v = (ret', d', w)" by (metis prod_cases3)
  from assms(3-5,7) sp have ok': "ret' = PQOS_RETVAL_OK" and g': "grp' = None" and u: "lib_of (lib_state u) = w" "m_hw (lib_state u) = m_hw w"
    by (auto simp: g t m pqos_mon_stop_def bad_param_def with_lock_def lock_get_def lock_release_def pqos_check_init_def dispatch_def on_state_def
        msr_mon_entries hw_grp_def hw_out_def split: if_splits)
  have "mg_channels zero_data = []" "mg_sockets zero_data = []" by (simp_all add: zero_data_def)
  from start_stop_cores [OF assms(1,2) this, where g' = d and t = v and g'' = d' and u = w] st sp ok ok' m(3) u g'
  show ?thesis by simp
qed

theorem api_mon_start_stop_witness:
  "\<exists>g t u. pqos_mon_start_cores (Some [0, 2]) SAMPLE_EVENTS None True (sample_library sample_mon_lib) = Some (PQOS_RETVAL_OK, g, t) \<and>
     pqos_mon_stop g t = Some (PQOS_RETVAL_OK, None, u) \<and>
     core_rmid ref_regs (lib_of (lib_state u)) 2 = core_rmid ref_regs sample_mon_lib 2"
proof -
  let ?s = "sample_library sample_mon_lib"
  let ?start = "pqos_mon_start_cores (Some [0, 2]) SAMPLE_EVENTS None True ?s"
  have c: "map_option fst ?start = Some PQOS_RETVAL_OK"
    "map_option fst (case ?start of None \<Rightarrow> None | Some (_, g, t) \<Rightarrow> pqos_mon_stop g t) = Some PQOS_RETVAL_OK" by code_simp+
  then obtain g t where st: "?start = Some (PQOS_RETVAL_OK, g, t)" by auto
  with c(2) obtain g' u where sp: "pqos_mon_stop g t = Some (PQOS_RETVAL_OK, g', u)" by auto
  have "perf_kernel (ae_platform sample_env) ref_core_of ref_regs (ae_perf sample_env)" using refperf.perf_kernel_axioms by simp
  from api_mon_start_stop [OF this _ _ _ _ st sp, of PQOS_VENDOR_INTEL] sample_mon_wf st sp show ?thesis by (auto simp: sample_module_def)
qed

text \<open>
  A group that the library has allocated is freed whether or not it could be stopped: after a failure the cores keep
  their RMIDs, and the caller has no group any more to stop them with.
\<close>

lemma failed_stop_frees:
  assumes "pqos_mon_stop (Some g) s = Some (ret, g', t)" and "grp_valid g = GROUP_VALID_MARKER" and "\<not> lib_locked s" and "m_init_done s"
    and "lib_api s = api_init_msr A vendor" and "grp_manage_memory g"
  shows "g' = None"
  using assms
  by (auto simp: pqos_mon_stop_def bad_param_def with_lock_def lock_get_def pqos_check_init_def dispatch_def on_state_def
      msr_mon_entries split: if_splits option.splits dest!: hw_grp_keeps)

end
