(* ===== verification/Mmio.thy ===== *)
theory Mmio
  imports Iordt
begin

text \<open>
  The memory mapped registers of the MMIO interface (\<open>lib/mmio.c\<close>) and the structures that
  describe where they are (\<open>struct pqos_erdt_info\<close> and its parts in \<open>lib/pqos.h\<close>). Physical
  memory and \<open>/dev/mem\<close> are the functions of the record \<open>mmio_os\<close>; what the code relies on is
  the locale \<open>mmio_registers\<close>. A result \<open>None\<close> is an access outside the mapped block, which C
  leaves undefined.
\<close>

section \<open>Register descriptions\<close>

record pqos_erdt_card =
  card_contention_bitmask_valid :: u32
  card_non_contiguous_cbm :: u32
  card_zero_length_bitmask :: u32
  card_contention_bitmask :: u32
  card_reg_index_func_ver :: u8
  card_reg_base_addr :: u64
  card_reg_block_size :: u32
  card_cat_reg_offset :: u16
  card_cat_reg_block_size :: u16

text \<open>\<open>correction_factor\<close> is an array of \<open>correction_factor_length\<close> entries.\<close>

record pqos_erdt_ibrd =
  ibrd_flags :: u32
  ibrd_reg_index_func_ver :: u8
  ibrd_reg_base_addr :: u64
  ibrd_reg_block_size :: u32
  ibrd_bw_reg_offset :: u16
  ibrd_miss_bw_reg_offset :: u16
  ibrd_bw_reg_clump_size :: u16
  ibrd_miss_reg_clump_size :: u16
  ibrd_counter_width :: u8
  ibrd_upscaling_factor :: u64
  ibrd_correction_factor :: "u32 list"

record pqos_erdt_cmrd =
  cmrd_flags :: u32
  cmrd_reg_index_func_ver :: u8
  cmrd_reg_base_addr :: u64
  cmrd_reg_block_size :: u32
  cmrd_offset :: u16
  cmrd_clump_size :: u16
  cmrd_upscaling_factor :: u64

record pqos_erdt_marc =
  marc_flags :: u16
  marc_reg_index_func_ver :: u8
  opt_bw_reg_block_base_addr :: u64
  min_bw_reg_block_base_addr :: u64
  max_bw_reg_block_base_addr :: u64
  marc_reg_block_size :: u32
  marc_control_window_range :: u32

record pqos_erdt_mmrc =
  mmrc_flags :: u32
  mmrc_reg_index_func_ver :: u8
  mmrc_reg_block_base_addr :: u64
  mmrc_reg_block_size :: u32
  mmrc_counter_width :: u8
  mmrc_upscaling_factor :: u64
  mmrc_correction_factor :: "u32 list"

record pqos_erdt_cmrc =
  cmrc_flags :: u32
  cmrc_reg_index_func_ver :: u8
  cmrc_block_base_addr :: u64
  cmrc_block_size :: u32
  cmrc_clump_size :: u16
  cmrc_clump_stride :: u16
  cmrc_upscaling_factor :: u64

record pqos_erdt_dase =
  dase_type :: u8
  dase_segment_number :: u16
  dase_start_bus_number :: u8
  dase_path :: "u8 list"

record pqos_erdt_dacd =
  dacd_type :: u16
  dacd_length :: u16
  dacd_rmdd_domain_id :: u16
  dacd_dase :: "pqos_erdt_dase list"

record pqos_erdt_cacd =
  cacd_rmdd_domain_id :: u16
  cacd_enumeration_ids :: "u32 list"

record pqos_erdt_rmdd =
  rmdd_flags :: u16
  rmdd_num_io_l3_slices :: u16
  rmdd_num_io_l3_sets :: u8
  rmdd_num_io_l3_ways :: u8
  rmdd_domain_id :: u16
  rmdd_max_rmids :: u32
  rmdd_control_reg_base_addr :: u64
  rmdd_control_reg_size :: u16

record pqos_cpu_agent_info =
  cpu_rmdd :: pqos_erdt_rmdd
  cpu_cacd :: pqos_erdt_cacd
  cpu_cmrc :: pqos_erdt_cmrc
  cpu_mmrc :: pqos_erdt_mmrc
  cpu_marc :: pqos_erdt_marc

record pqos_device_agent_info =
  dev_rmdd :: pqos_erdt_rmdd
  dev_dacd :: pqos_erdt_dacd
  dev_cmrd :: pqos_erdt_cmrd
  dev_ibrd :: pqos_erdt_ibrd
  dev_card :: pqos_erdt_card

record pqos_erdt_info =
  erdt_max_clos :: u32
  erdt_cpu_agents :: "pqos_cpu_agent_info list"
  erdt_dev_agents :: "pqos_device_agent_info list"

section \<open>Constants\<close>

definition RDT_REG_SIZE :: u64 where "RDT_REG_SIZE = 8"
definition PAGE_SIZE :: u32 where "PAGE_SIZE = 4096"
definition BYTES_PER_REGION_SET :: int where "BYTES_PER_REGION_SET = 512"
definition BYTES_PER_CLOS_ENTRY :: u32 where "BYTES_PER_CLOS_ENTRY = 8"
definition BYTES_PER_RMID_ENTRY :: nat where "BYTES_PER_RMID_ENTRY = 8"
definition MBM_REGION_SIZE :: int where "MBM_REGION_SIZE = 2048"
definition MBA_MAX_BW :: u32 where "MBA_MAX_BW = 0x1FF"
definition RDT_CTRL_TME_MASK :: u64 where "RDT_CTRL_TME_MASK = 4"
definition RDT_CTRL_TME_SHIFT :: nat where "RDT_CTRL_TME_SHIFT = 2"
definition L3_CMT_RMID_COUNT_MASK :: u64 where "L3_CMT_RMID_COUNT_MASK = 0x7fffffffffffffff"
definition MBM_REGION_RMID_COUNT_MASK :: u64 where "MBM_REGION_RMID_COUNT_MASK = 0x3fffffffffffffff"
definition MBM_REGION_RMID_U_MASK :: u64 where "MBM_REGION_RMID_U_MASK = 0x8000000000000000"
definition MBM_REGION_RMID_O_MASK :: u64 where "MBM_REGION_RMID_O_MASK = 0x4000000000000000"
definition IOL3_CMT_RMID_COUNT_MASK :: u64 where "IOL3_CMT_RMID_COUNT_MASK = 0x7fffffffffffffff"
definition TOTAL_IO_BW_RMID_COUNT_MASK :: u64 where "TOTAL_IO_BW_RMID_COUNT_MASK = 0x3fffffffffffffff"
definition TOTAL_IO_BW_RMID_U_MASK :: u64 where "TOTAL_IO_BW_RMID_U_MASK = 0x8000000000000000"
definition TOTAL_IO_BW_RMID_O_MASK :: u64 where "TOTAL_IO_BW_RMID_O_MASK = 0x4000000000000000"
definition IOL3_CBM_SHIFT :: nat where "IOL3_CBM_SHIFT = 32"
definition MBA_BW_ALL_BR0_MASK :: u64 where "MBA_BW_ALL_BR0_MASK = 0x00000000000001ff"
definition MBA_BW_ALL_BR1_MASK :: u64 where "MBA_BW_ALL_BR1_MASK = 0x0000000001ff0000"
definition MBA_BW_ALL_BR2_MASK :: u64 where "MBA_BW_ALL_BR2_MASK = 0x000001ff00000000"
definition MBA_BW_ALL_BR3_MASK :: u64 where "MBA_BW_ALL_BR3_MASK = 0x01ff000000000000"

lemmas mmio_consts =
  RDT_REG_SIZE_def PAGE_SIZE_def BYTES_PER_REGION_SET_def BYTES_PER_CLOS_ENTRY_def BYTES_PER_RMID_ENTRY_def
  MBM_REGION_SIZE_def PQOS_MAX_MEM_REGIONS_def IOL3_CBM_SHIFT_def RDT_CTRL_TME_MASK_def RDT_CTRL_TME_SHIFT_def

lemmas mba_masks = MBA_BW_ALL_BR0_MASK_def MBA_BW_ALL_BR1_MASK_def MBA_BW_ALL_BR2_MASK_def MBA_BW_ALL_BR3_MASK_def

section \<open>Physical memory\<close>

text \<open>
  \<open>mm_open_mem w\<close> opens \<open>/dev/mem\<close> (for writing if \<open>w\<close>), \<open>mm_mmap w len pos\<close> says whether mapping
  \<open>len\<close> bytes at \<open>pos\<close> succeeds; \<open>mm_ld64\<close> and \<open>mm_st64\<close> access 8 bytes at a physical address.
\<close>

record 'h mmio_os =
  mm_page_size :: u64
  mm_open_mem :: "bool \<Rightarrow> 'h \<Rightarrow> bool"
  mm_mmap :: "bool \<Rightarrow> u64 \<Rightarrow> u64 \<Rightarrow> 'h \<Rightarrow> bool"
  mm_ld64 :: "u64 \<Rightarrow> 'h \<Rightarrow> u64"
  mm_st64 :: "u64 \<Rightarrow> u64 \<Rightarrow> 'h \<Rightarrow> 'h"

definition pqos_mmap_read :: "'h mmio_os \<Rightarrow> u64 \<Rightarrow> u64 \<Rightarrow> 'h \<Rightarrow> bool" where
  "pqos_mmap_read M address len h =
     (mm_open_mem M False h \<and>
      (let offset = address mod mm_page_size M in mm_mmap M False (len + offset) (address - offset) h))"

definition pqos_mmap_write :: "'h mmio_os \<Rightarrow> u64 \<Rightarrow> u64 \<Rightarrow> 'h \<Rightarrow> bool" where
  "pqos_mmap_write M address len h =
     (mm_open_mem M True h \<and>
      (let offset = address mod mm_page_size M in mm_mmap M True (len + offset) (address - offset) h))"

text \<open>
  Accesses through the pointer that a mapping of \<open>len\<close> bytes at \<open>base\<close> returned, \<open>off\<close> bytes
  behind it.
\<close>

definition in_block :: "u64 \<Rightarrow> u64 \<Rightarrow> bool" where
  "in_block len off \<longleftrightarrow> unat off + 8 \<le> unat len"

definition reg_load :: "'h mmio_os \<Rightarrow> u64 \<Rightarrow> u64 \<Rightarrow> u64 \<Rightarrow> 'h \<Rightarrow> u64 option" where
  "reg_load M base len off h = (if in_block len off then Some (mm_ld64 M (base + off) h) else None)"

definition reg_store :: "'h mmio_os \<Rightarrow> u64 \<Rightarrow> u64 \<Rightarrow> u64 \<Rightarrow> u64 \<Rightarrow> 'h \<Rightarrow> 'h option" where
  "reg_store M base len off v h = (if in_block len off then Some (mm_st64 M (base + off) v h) else None)"

definition block_bytes :: "u32 \<Rightarrow> u64" where
  "block_bytes pages = ucast pages * ucast PAGE_SIZE"

section \<open>Bandwidth registers\<close>

text \<open>The byte offset of a class's register; \<open>clos_number * BYTES_PER_CLOS_ENTRY\<close> is 32-bit arithmetic.\<close>

definition get_clos_addr_by_region :: "int \<Rightarrow> u32 \<Rightarrow> u64" where
  "get_clos_addr_by_region region_num clos_number =
     word_of_int ((region_num div 4) * BYTES_PER_REGION_SET) + ucast (clos_number * BYTES_PER_CLOS_ENTRY)"

definition get_clos_region_value :: "u64 \<Rightarrow> int \<Rightarrow> u32 res" where
  "get_clos_region_value clos_value region_num =
     (if region_num = 0 then Inr (ucast (clos_value AND MBA_BW_ALL_BR0_MASK))
      else if region_num = 1 then Inr (ucast (drop_bit 0x10 (clos_value AND MBA_BW_ALL_BR1_MASK)))
      else if region_num = 2 then Inr (ucast (drop_bit 0x20 (clos_value AND MBA_BW_ALL_BR2_MASK)))
      else if region_num = 3 then Inr (ucast (drop_bit 0x30 (clos_value AND MBA_BW_ALL_BR3_MASK)))
      else Inl PQOS_RETVAL_ERROR)"

definition set_clos_region_value :: "u64 \<Rightarrow> int \<Rightarrow> u64 \<Rightarrow> u64 res" where
  "set_clos_region_value clos_value region_num val =
     (if region_num = 0 then Inr (clos_value AND NOT MBA_BW_ALL_BR0_MASK OR val)
      else if region_num = 1 then Inr (clos_value AND NOT MBA_BW_ALL_BR1_MASK OR push_bit 0x10 val)
      else if region_num = 2 then Inr (clos_value AND NOT MBA_BW_ALL_BR2_MASK OR push_bit 0x20 val)
      else if region_num = 3 then Inr (clos_value AND NOT MBA_BW_ALL_BR3_MASK OR push_bit 0x30 val)
      else Inl PQOS_RETVAL_ERROR)"

text \<open>
  The body that the three readers, and the one that the three writers share: \<open>base\<close> is the
  address of the optimal, minimal or maximal bandwidth block.
\<close>

definition get_mba_bw_region_clos :: "(pqos_erdt_marc \<Rightarrow> u64) \<Rightarrow> 'h mmio_os \<Rightarrow> pqos_erdt_marc \<Rightarrow> int \<Rightarrow> u32 \<Rightarrow> 'h
    \<Rightarrow> u32 res option" where
  "get_mba_bw_region_clos base M marc region_num clos_number h =
     (let len = block_bytes (marc_reg_block_size marc)
      in if region_num < 0 \<or> int PQOS_MAX_MEM_REGIONS \<le> region_num then Some (Inl PQOS_RETVAL_ERROR)
         else if \<not> pqos_mmap_read M (base marc) len h then Some (Inl PQOS_RETVAL_ERROR)
         else map_option (\<lambda>v. get_clos_region_value v region_num)
                (reg_load M (base marc) len (get_clos_addr_by_region region_num clos_number) h))"

definition set_mba_bw_region_clos :: "(pqos_erdt_marc \<Rightarrow> u64) \<Rightarrow> 'h mmio_os \<Rightarrow> pqos_erdt_marc \<Rightarrow> int \<Rightarrow> u32 \<Rightarrow> u32 \<Rightarrow> 'h
    \<Rightarrow> (retval \<times> 'h) option" where
  "set_mba_bw_region_clos base M marc region_num clos_number val h =
     (let len = block_bytes (marc_reg_block_size marc);
          off = get_clos_addr_by_region region_num clos_number
      in if region_num < 0 \<or> int PQOS_MAX_MEM_REGIONS \<le> region_num then Some (PQOS_RETVAL_ERROR, h)
         else if \<not> pqos_mmap_write M (base marc) len h then Some (PQOS_RETVAL_ERROR, h)
         else (case reg_load M (base marc) len off h of
                 None \<Rightarrow> None
               | Some v \<Rightarrow>
                   (case set_clos_region_value v region_num (ucast val) of
                      Inl e \<Rightarrow> Some (e, h)
                    | Inr w \<Rightarrow> map_option (\<lambda>h. (PQOS_RETVAL_OK, h)) (reg_store M (base marc) len off w h))))"

definition get_mba_optimal_bw_region_clos_v1 :: "'h mmio_os \<Rightarrow> pqos_erdt_marc \<Rightarrow> int \<Rightarrow> u32 \<Rightarrow> 'h \<Rightarrow> u32 res option" where
  "get_mba_optimal_bw_region_clos_v1 = get_mba_bw_region_clos opt_bw_reg_block_base_addr"

definition set_mba_optimal_bw_region_clos_v1 :: "'h mmio_os \<Rightarrow> pqos_erdt_marc \<Rightarrow> int \<Rightarrow> u32 \<Rightarrow> u32 \<Rightarrow> 'h
    \<Rightarrow> (retval \<times> 'h) option" where
  "set_mba_optimal_bw_region_clos_v1 = set_mba_bw_region_clos opt_bw_reg_block_base_addr"

definition get_mba_min_bw_region_clos_v1 :: "'h mmio_os \<Rightarrow> pqos_erdt_marc \<Rightarrow> int \<Rightarrow> u32 \<Rightarrow> 'h \<Rightarrow> u32 res option" where
  "get_mba_min_bw_region_clos_v1 = get_mba_bw_region_clos min_bw_reg_block_base_addr"

definition set_mba_min_bw_region_clos_v1 :: "'h mmio_os \<Rightarrow> pqos_erdt_marc \<Rightarrow> int \<Rightarrow> u32 \<Rightarrow> u32 \<Rightarrow> 'h
    \<Rightarrow> (retval \<times> 'h) option" where
  "set_mba_min_bw_region_clos_v1 = set_mba_bw_region_clos min_bw_reg_block_base_addr"

definition get_mba_max_bw_region_clos_v1 :: "'h mmio_os \<Rightarrow> pqos_erdt_marc \<Rightarrow> int \<Rightarrow> u32 \<Rightarrow> 'h \<Rightarrow> u32 res option" where
  "get_mba_max_bw_region_clos_v1 = get_mba_bw_region_clos max_bw_reg_block_base_addr"

definition set_mba_max_bw_region_clos_v1 :: "'h mmio_os \<Rightarrow> pqos_erdt_marc \<Rightarrow> int \<Rightarrow> u32 \<Rightarrow> u32 \<Rightarrow> 'h
    \<Rightarrow> (retval \<times> 'h) option" where
  "set_mba_max_bw_region_clos_v1 = set_mba_bw_region_clos max_bw_reg_block_base_addr"

section \<open>The control register\<close>

definition get_mba_mode_v1 :: "'h mmio_os \<Rightarrow> pqos_erdt_rmdd option \<Rightarrow> 'h \<Rightarrow> u64 res option" where
  "get_mba_mode_v1 M rmdd h =
     (case rmdd of None \<Rightarrow> Some (Inl PQOS_RETVAL_PARAM)
      | Some rmdd \<Rightarrow>
          let base = rmdd_control_reg_base_addr rmdd
          in if \<not> pqos_mmap_read M base RDT_REG_SIZE h then Some (Inl PQOS_RETVAL_ERROR)
             else map_option Inr (reg_load M base RDT_REG_SIZE 0 h))"

definition set_mbm_mba_mode_v1 :: "'h mmio_os \<Rightarrow> pqos_erdt_rmdd option \<Rightarrow> u32 \<Rightarrow> 'h \<Rightarrow> (retval \<times> 'h) option" where
  "set_mbm_mba_mode_v1 M rmdd val h =
     (case rmdd of None \<Rightarrow> Some (PQOS_RETVAL_PARAM, h)
      | Some rmdd \<Rightarrow>
          let base = rmdd_control_reg_base_addr rmdd
          in if 1 < val then Some (PQOS_RETVAL_PARAM, h)
             else if \<not> pqos_mmap_write M base RDT_REG_SIZE h then Some (PQOS_RETVAL_ERROR, h)
             else (case reg_load M base RDT_REG_SIZE 0 h of
                     None \<Rightarrow> None
                   | Some v \<Rightarrow> map_option (\<lambda>h. (PQOS_RETVAL_OK, h))
                       (reg_store M base RDT_REG_SIZE 0
                          (v AND NOT RDT_CTRL_TME_MASK OR ucast (push_bit RDT_CTRL_TME_SHIFT val)) h)))"

section \<open>Ranges of RMID registers\<close>

text \<open>
  \<open>memcpy\<close> of \<open>n\<close> registers from the mapped block, as the 64-bit values they hold.
\<close>

definition copy_regs :: "'h mmio_os \<Rightarrow> u64 \<Rightarrow> nat \<Rightarrow> 'h \<Rightarrow> u64 list" where
  "copy_regs M from n h = map (\<lambda>k. mm_ld64 M (from + of_nat (8 * k)) h) [0..<n]"

lemma unat_ucast_up:
  assumes "LENGTH('a) \<le> LENGTH('b)"
  shows "unat (ucast (x :: 'a::len word) :: 'b::len word) = unat x"
proof -
  have "unat x < 2 ^ LENGTH('b)"
    using unsigned_less [of x] by (rule order.strict_trans2) (simp add: assms power_increasing)
  then show ?thesis by (simp add: unsigned_ucast_eq take_bit_nat_eq_self)
qed

lemma unat_ucast_widen [simp]:
  "unat (ucast (x :: u16) :: u32) = unat x" "unat (ucast (x :: u16) :: u64) = unat x"
  "unat (ucast (y :: u32) :: u64) = unat y"
  by (simp_all add: unat_ucast_up)

lemma clump_index:
  fixes current :: u64 and cs :: u16
  assumes "cs \<noteq> 0"
  shows "unat (ucast (current mod ucast cs) :: u32) = unat current mod unat cs"
    and "unat (ucast cs - ucast (current mod ucast cs) :: u32) = unat cs - unat current mod unat cs"
    and "0 < unat cs"
proof -
  show pos: "0 < unat cs" using assms by (simp add: unat_gt_0)
  have cs64: "unat (ucast cs :: u64) = unat cs" and cs32: "unat (ucast cs :: u32) = unat cs"
    by simp_all
  have small: "unat current mod unat cs < unat cs" using pos by simp
  have bnd: "unat cs < 65536" using unsigned_less [of cs] by simp
  show idx: "unat (ucast (current mod ucast cs) :: u32) = unat current mod unat cs"
    using small bnd by (simp add: unsigned_ucast_eq unat_mod cs64 take_bit_nat_eq_self)
  show "unat (ucast cs - ucast (current mod ucast cs) :: u32) = unat cs - unat current mod unat cs"
    using small by (simp add: unat_sub word_le_nat_alt idx cs32)
qed

lemma chunk_less:
  fixes current rmid_count :: u64 and cs :: u16
  assumes "cs \<noteq> 0" "ucast (ucast cs - ucast (current mod ucast cs) :: u32) \<le> rmid_count"
  shows "unat (rmid_count - ucast (ucast cs - ucast (current mod ucast cs) :: u32)) < unat rmid_count"
proof -
  have "0 < unat (ucast (ucast cs - ucast (current mod ucast cs) :: u32) :: u64)"
    using clump_index(2) [OF assms(1), of current] clump_index(3) [OF assms(1)] by simp
  with assms(2) show ?thesis by (simp add: unat_sub word_le_nat_alt)
qed

text \<open>
  One iteration copies what is left of the clump, or of the range. The test for \<open>cs = 0\<close>
  stands for the check that the caller makes before the loop.
\<close>

function copy_rmid_loop :: "'h mmio_os \<Rightarrow> u64 \<Rightarrow> u16 \<Rightarrow> u16 \<Rightarrow> u16 \<Rightarrow> u64 \<Rightarrow> u64 \<Rightarrow> u64 \<Rightarrow> 'h \<Rightarrow> u64 list res" where
  "copy_rmid_loop M base cs stride roff mapped current rmid_count h =
     (if rmid_count = 0 \<or> cs = 0 then Inr []
      else (let rmid_idx = ucast (current mod ucast cs) :: u32;
                available = ucast cs - rmid_idx :: u32;
                copy_count = (if rmid_count < ucast available then rmid_count else ucast available);
                clump_offset = (current div ucast cs) * ucast stride + ucast roff;
                data_offset = clump_offset + ucast (rmid_idx * 8);
                copy_size = copy_count * 8
            in if mapped < data_offset \<or> mapped - data_offset < copy_size then Inl PQOS_RETVAL_PARAM
               else (case copy_rmid_loop M base cs stride roff mapped (current + copy_count) (rmid_count - copy_count) h of
                       Inl e \<Rightarrow> Inl e
                     | Inr vs \<Rightarrow> Inr (copy_regs M (base + data_offset) (unat copy_count) h @ vs))))"
  by pat_completeness auto

termination copy_rmid_loop
  by (relation "measure (\<lambda>(M, base, cs, stride, roff, mapped, current, rmid_count, h). unat rmid_count)")
    (auto intro!: chunk_less simp: unat_gt_0)

declare copy_rmid_loop.simps [simp del]

text \<open>The NULL tests of the two pointers have no counterpart: the block is mapped and the output is the result.\<close>

definition copy_generic_rmid_range :: "'h mmio_os \<Rightarrow> u32 \<Rightarrow> u32 \<Rightarrow> u64 \<Rightarrow> u16 \<Rightarrow> u16 \<Rightarrow> u16 \<Rightarrow> u64 \<Rightarrow> 'h \<Rightarrow> u64 list res" where
  "copy_generic_rmid_range M rmid_first rmid_last base cs stride roff mapped h =
     (if cs = 0 \<or> stride = 0 \<or> mapped = 0 \<or> rmid_last < rmid_first then Inl PQOS_RETVAL_PARAM
      else copy_rmid_loop M base cs stride roff mapped (ucast rmid_first) (ucast rmid_last - ucast rmid_first + 1) h)"

definition get_l3_cmt_rmid_range_v1 :: "'h mmio_os \<Rightarrow> pqos_erdt_cmrc option \<Rightarrow> u32 \<Rightarrow> u32 \<Rightarrow> 'h \<Rightarrow> u64 list res" where
  "get_l3_cmt_rmid_range_v1 M cmrc rmid_first rmid_last h =
     (case cmrc of None \<Rightarrow> Inl PQOS_RETVAL_PARAM
      | Some cmrc \<Rightarrow>
          let len = block_bytes (cmrc_block_size cmrc)
          in if cmrc_block_size cmrc = 0 then Inl PQOS_RETVAL_PARAM
             else if \<not> pqos_mmap_read M (cmrc_block_base_addr cmrc) len h then Inl PQOS_RETVAL_ERROR
             else copy_generic_rmid_range M rmid_first rmid_last (cmrc_block_base_addr cmrc)
                    (cmrc_clump_size cmrc) (cmrc_clump_stride cmrc) 0 len h)"

text \<open>
  The registers of a memory region: the start address is computed for the first RMID, the rest
  of the range is taken to follow it.
\<close>

definition mbm_block_addr :: "u32 \<Rightarrow> u64" where
  "mbm_block_addr rmid = ucast ((rmid mod 32) div 8 * 4 * PAGE_SIZE)"

definition mbm_rmid_offset :: "int \<Rightarrow> u32 \<Rightarrow> u64" where
  "mbm_rmid_offset region_num rmid =
     (ucast rmid div 32 * 8 + ucast (rmid mod 8)) * 8 + word_of_int (region_num * MBM_REGION_SIZE)"

definition get_l3_mbm_region_rmid_range_v1 :: "'h mmio_os \<Rightarrow> pqos_erdt_mmrc option \<Rightarrow> int \<Rightarrow> u32 \<Rightarrow> u32 \<Rightarrow> 'h \<Rightarrow> u64 list res" where
  "get_l3_mbm_region_rmid_range_v1 M mmrc region_num rmid_first rmid_last h =
     (case mmrc of None \<Rightarrow> Inl PQOS_RETVAL_PARAM
      | Some mmrc \<Rightarrow>
          let len = block_bytes (mmrc_reg_block_size mmrc);
              rmid_count = ucast rmid_last - ucast rmid_first + 1 :: u64;
              rmid_block_addr = mbm_block_addr rmid_first;
              rmid_offset = mbm_rmid_offset region_num rmid_first;
              copy_size = rmid_count * 8
          in if mmrc_reg_block_size mmrc = 0 \<or> rmid_last < rmid_first then Inl PQOS_RETVAL_PARAM
             else if region_num < 0 \<or> int PQOS_MAX_MEM_REGIONS \<le> region_num then Inl PQOS_RETVAL_ERROR
             else if \<not> pqos_mmap_read M (mmrc_reg_block_base_addr mmrc) len h then Inl PQOS_RETVAL_ERROR
             else if len < rmid_block_addr \<or> len - rmid_block_addr < rmid_offset \<or>
                     len - rmid_block_addr - rmid_offset < copy_size then Inl PQOS_RETVAL_PARAM
             else Inr (copy_regs M (mmrc_reg_block_base_addr mmrc + rmid_block_addr + rmid_offset) (unat rmid_count) h))"

definition get_iol3_cmt_rmid_range_v1 :: "'h mmio_os \<Rightarrow> pqos_erdt_cmrd option \<Rightarrow> u32 \<Rightarrow> u32 \<Rightarrow> 'h \<Rightarrow> u64 list res" where
  "get_iol3_cmt_rmid_range_v1 M cmrd rmid_first rmid_last h =
     (case cmrd of None \<Rightarrow> Inl PQOS_RETVAL_PARAM
      | Some cmrd \<Rightarrow>
          let len = block_bytes (cmrd_reg_block_size cmrd)
          in if cmrd_reg_block_size cmrd = 0 then Inl PQOS_RETVAL_PARAM
             else if \<not> pqos_mmap_read M (cmrd_reg_base_addr cmrd) len h then Inl PQOS_RETVAL_ERROR
             else copy_generic_rmid_range M rmid_first rmid_last (cmrd_reg_base_addr cmrd)
                    (cmrd_clump_size cmrd) (ucast PAGE_SIZE) (cmrd_offset cmrd) len h)"

definition get_total_iol3_mbm_rmid_range_v1 :: "'h mmio_os \<Rightarrow> pqos_erdt_ibrd option \<Rightarrow> u32 \<Rightarrow> u32 \<Rightarrow> 'h \<Rightarrow> u64 list res" where
  "get_total_iol3_mbm_rmid_range_v1 M ibrd rmid_first rmid_last h =
     (case ibrd of None \<Rightarrow> Inl PQOS_RETVAL_PARAM
      | Some ibrd \<Rightarrow>
          let len = block_bytes (ibrd_reg_block_size ibrd)
          in if ibrd_reg_block_size ibrd = 0 then Inl PQOS_RETVAL_PARAM
             else if \<not> pqos_mmap_read M (ibrd_reg_base_addr ibrd) len h then Inl PQOS_RETVAL_ERROR
             else copy_generic_rmid_range M rmid_first rmid_last (ibrd_reg_base_addr ibrd)
                    (ibrd_bw_reg_clump_size ibrd) (ucast PAGE_SIZE) (ibrd_bw_reg_offset ibrd) len h)"

definition get_miss_iol3_mbm_rmid_range_v1 :: "'h mmio_os \<Rightarrow> pqos_erdt_ibrd option \<Rightarrow> u32 \<Rightarrow> u32 \<Rightarrow> 'h \<Rightarrow> u64 list res" where
  "get_miss_iol3_mbm_rmid_range_v1 M ibrd rmid_first rmid_last h =
     (case ibrd of None \<Rightarrow> Inl PQOS_RETVAL_PARAM
      | Some ibrd \<Rightarrow>
          let len = block_bytes (ibrd_reg_block_size ibrd)
          in if ibrd_reg_block_size ibrd = 0 then Inl PQOS_RETVAL_PARAM
             else if \<not> pqos_mmap_read M (ibrd_reg_base_addr ibrd) len h then Inl PQOS_RETVAL_ERROR
             else copy_generic_rmid_range M rmid_first rmid_last (ibrd_reg_base_addr ibrd)
                    (ibrd_miss_reg_clump_size ibrd) (ucast PAGE_SIZE) (ibrd_miss_bw_reg_offset ibrd) len h)"

section \<open>Cache masks of device agents\<close>

text \<open>A class has one register in each page of the block.\<close>

definition cbm_offset :: "pqos_erdt_card \<Rightarrow> u32 \<Rightarrow> u32 \<Rightarrow> u64" where
  "cbm_offset crd clos_number block_number =
     ucast (card_cat_reg_offset crd) + ucast (clos_number * BYTES_PER_CLOS_ENTRY) + ucast (PAGE_SIZE * block_number)"

definition get_iol3_cbm_clos_v1 :: "'h mmio_os \<Rightarrow> pqos_erdt_card \<Rightarrow> u32 \<Rightarrow> u32 \<Rightarrow> 'h \<Rightarrow> u64 res option" where
  "get_iol3_cbm_clos_v1 M crd clos_number block_number h =
     (let len = block_bytes (card_reg_block_size crd)
      in if \<not> pqos_mmap_read M (card_reg_base_addr crd) len h then Some (Inl PQOS_RETVAL_ERROR)
         else map_option (\<lambda>v. Inr (drop_bit IOL3_CBM_SHIFT v))
                (reg_load M (card_reg_base_addr crd) len (cbm_offset crd clos_number block_number) h))"

fun cbm_store_loop :: "'h mmio_os \<Rightarrow> pqos_erdt_card \<Rightarrow> u32 \<Rightarrow> u64 \<Rightarrow> nat list \<Rightarrow> 'h \<Rightarrow> 'h option" where
  "cbm_store_loop M crd clos_number val [] h = Some h"
| "cbm_store_loop M crd clos_number val (i # is) h =
     (case reg_store M (card_reg_base_addr crd) (block_bytes (card_reg_block_size crd))
             (cbm_offset crd clos_number (of_nat i)) (push_bit IOL3_CBM_SHIFT val) h of
        None \<Rightarrow> None
      | Some h \<Rightarrow> cbm_store_loop M crd clos_number val is h)"

definition set_iol3_cbm_clos_v1 :: "'h mmio_os \<Rightarrow> pqos_erdt_card \<Rightarrow> u32 \<Rightarrow> u64 \<Rightarrow> 'h \<Rightarrow> (retval \<times> 'h) option" where
  "set_iol3_cbm_clos_v1 M crd clos_number val h =
     (if \<not> pqos_mmap_write M (card_reg_base_addr crd) (block_bytes (card_reg_block_size crd)) h then Some (PQOS_RETVAL_ERROR, h)
      else if card_reg_block_size crd = 0 then Some (PQOS_RETVAL_ERROR, h)
      else map_option (\<lambda>h. (PQOS_RETVAL_OK, h))
             (cbm_store_loop M crd clos_number val [0..<unat (card_reg_block_size crd)] h))"

section \<open>Register formats\<close>

definition l3_cmt_rmid_to_uint64 :: "u64 \<Rightarrow> u64" where
  "l3_cmt_rmid_to_uint64 v = v AND L3_CMT_RMID_COUNT_MASK"

definition is_available_l3_cmt_rmid :: "u64 \<Rightarrow> bool" where
  "is_available_l3_cmt_rmid v \<longleftrightarrow> v AND NOT L3_CMT_RMID_COUNT_MASK = 0"

definition l3_mbm_rmid_to_uint64 :: "u64 \<Rightarrow> u64" where
  "l3_mbm_rmid_to_uint64 v = v AND MBM_REGION_RMID_COUNT_MASK"

definition is_available_l3_mbm_rmid :: "u64 \<Rightarrow> bool" where
  "is_available_l3_mbm_rmid v \<longleftrightarrow> v AND MBM_REGION_RMID_U_MASK = 0"

text \<open>
  The function returns the masked 64-bit value as an \<open>int\<close>, that is, its low 32 bits.
\<close>

definition is_overflow_l3_mbm_rmid :: "u64 \<Rightarrow> int" where
  "is_overflow_l3_mbm_rmid v = sint (ucast (v AND MBM_REGION_RMID_O_MASK) :: u32)"

definition iol3_cmt_rmid_to_uint64 :: "u64 \<Rightarrow> u64" where
  "iol3_cmt_rmid_to_uint64 v = v AND IOL3_CMT_RMID_COUNT_MASK"

definition is_available_iol3_cmt_rmid :: "u64 \<Rightarrow> bool" where
  "is_available_iol3_cmt_rmid v \<longleftrightarrow> v AND NOT IOL3_CMT_RMID_COUNT_MASK = 0"

definition iol3_mbm_rmid_to_uint64 :: "u64 \<Rightarrow> u64" where
  "iol3_mbm_rmid_to_uint64 v = v AND TOTAL_IO_BW_RMID_COUNT_MASK"

definition is_available_iol3_mbm_rmid :: "u64 \<Rightarrow> bool" where
  "is_available_iol3_mbm_rmid v \<longleftrightarrow> v AND TOTAL_IO_BW_RMID_U_MASK = 0"

definition is_overflow_iol3_mbm_rmid :: "u64 \<Rightarrow> bool" where
  "is_overflow_iol3_mbm_rmid v \<longleftrightarrow> v AND TOTAL_IO_BW_RMID_O_MASK \<noteq> 0"

end
