(* ===== verification/MmioRegs.thy ===== *)
theory MmioRegs
  imports Mmio
begin

text \<open>
  What the register routines of \<open>Mmio\<close> achieve: the bandwidth fields of a register are
  independent, what is written is read back from a memory that obeys the locale
  \<open>mmio_registers\<close>, and the copy by clumps delivers one register per RMID and stays inside the
  mapped block.
\<close>

section \<open>Fields of a bandwidth register\<close>

lemma br_masks:
  "MBA_BW_ALL_BR0_MASK = mask 9" "MBA_BW_ALL_BR1_MASK = push_bit 16 (mask 9)"
  "MBA_BW_ALL_BR2_MASK = push_bit 32 (mask 9)" "MBA_BW_ALL_BR3_MASK = push_bit 48 (mask 9)"
  by (simp_all add: mba_masks mask_eq_exp_minus_1)

lemma region_cases:
  fixes r :: int
  assumes "0 \<le> r" "r < 4"
  obtains "r = 0" | "r = 1" | "r = 2" | "r = 3"
  using assms by linarith

lemma get_region_value:
  assumes "0 \<le> r" "r < 4"
  shows "get_clos_region_value v r = Inr (ucast (take_bit 9 (drop_bit (16 * nat r) v)))"
  using assms
  by (cases rule: region_cases)
    (auto simp: get_clos_region_value_def br_masks intro!: bit_word_eqI simp: bit_simps)

lemma set_region_value:
  assumes "0 \<le> r" "r < 4"
  shows "set_clos_region_value v r w =
    Inr (v AND NOT (push_bit (16 * nat r) (mask 9)) OR push_bit (16 * nat r) w)"
  using assms by (cases rule: region_cases) (auto simp: set_clos_region_value_def br_masks)

lemma field_read_write:
  fixes v w :: u64
  assumes "r < 4" and "take_bit 9 w = w"
  shows "take_bit 9 (drop_bit (16 * r) (v AND NOT (push_bit (16 * r) (mask 9)) OR push_bit (16 * r) w)) = w"
proof (rule bit_word_eqI)
  fix n assume "n < LENGTH(64)"
  have "bit w n \<Longrightarrow> n < 9" by (metis assms(2) bit_take_bit_iff)
  with assms(1) show "bit (take_bit 9 (drop_bit (16 * r) (v AND NOT (push_bit (16 * r) (mask 9)) OR push_bit (16 * r) w))) n =
      bit w n"
    by (auto simp: bit_simps)
qed

lemma field_other:
  fixes v w :: u64
  assumes "q \<noteq> r" and "take_bit 9 w = w"
  shows "take_bit 9 (drop_bit (16 * q) (v AND NOT (push_bit (16 * r) (mask 9)) OR push_bit (16 * r) w)) =
    take_bit 9 (drop_bit (16 * q) v)"
proof (rule bit_word_eqI)
  fix n assume "n < LENGTH(64)"
  have w: "bit w m \<Longrightarrow> m < 9" for m by (metis assms(2) bit_take_bit_iff)
  have "\<not> (16 * r \<le> 16 * q + n \<and> 16 * q + n - 16 * r < 9)" if "n < 9"
    using assms(1) that by (cases q r rule: linorder_cases) auto
  then show "bit (take_bit 9 (drop_bit (16 * q) (v AND NOT (push_bit (16 * r) (mask 9)) OR push_bit (16 * r) w))) n =
      bit (take_bit 9 (drop_bit (16 * q) v)) n"
    by (auto simp: bit_simps dest: w bit_imp_le_length)
qed

lemma take_bit_of_max_bw:
  "w \<le> MBA_MAX_BW \<Longrightarrow> take_bit 9 (ucast w :: u64) = ucast w"
  by (simp add: word_le_nat_alt MBA_MAX_BW_def word_unat_eq_iff unsigned_take_bit_eq take_bit_nat_eq_self)

lemma ucast_narrow_widen [simp]: "ucast (ucast (w :: u32) :: u64) = w"
  by (rule bit_word_eqI) (simp add: bit_simps)

section \<open>The memory\<close>

text \<open>
  What the code relies on of \<open>/dev/mem\<close>: a stored register is read back, registers that do not
  overlap it keep their value, and storing changes nothing about which blocks can be mapped.
\<close>

locale mmio_registers =
  fixes M :: "'h mmio_os"
  assumes ld_st: "mm_ld64 M a (mm_st64 M a v h) = v"
    and ld_st_other: "8 \<le> a - b \<Longrightarrow> 8 \<le> b - a \<Longrightarrow> mm_ld64 M a (mm_st64 M b v h) = mm_ld64 M a h"
    and open_st: "mm_open_mem M w (mm_st64 M a v h) = mm_open_mem M w h"
    and mmap_st: "mm_mmap M w n p (mm_st64 M a v h) = mm_mmap M w n p h"
begin

lemma map_read_st [simp]: "pqos_mmap_read M p n (mm_st64 M a v h) = pqos_mmap_read M p n h"
  by (simp add: pqos_mmap_read_def open_st mmap_st Let_def)

lemma map_write_st [simp]: "pqos_mmap_write M p n (mm_st64 M a v h) = pqos_mmap_write M p n h"
  by (simp add: pqos_mmap_write_def open_st mmap_st Let_def)

lemma bw_set_cases:
  assumes "set_mba_bw_region_clos base M marc r c val h = Some (PQOS_RETVAL_OK, h')"
  obtains off where "0 \<le> r" "r < 4" "off = get_clos_addr_by_region r c"
    and "in_block (block_bytes (marc_reg_block_size marc)) off"
    and "h' = mm_st64 M (base marc + off)
          (mm_ld64 M (base marc + off) h AND NOT (push_bit (16 * nat r) (mask 9)) OR push_bit (16 * nat r) (ucast val)) h"
  using assms
  by (auto simp: set_mba_bw_region_clos_def reg_load_def reg_store_def Let_def PQOS_MAX_MEM_REGIONS_def set_region_value
      split: if_splits)

text \<open>A bandwidth limit that fits its field is read back.\<close>

lemma bw_get_set:
  assumes "set_mba_bw_region_clos base M marc r c val h = Some (PQOS_RETVAL_OK, h')"
    and "val \<le> MBA_MAX_BW" and "pqos_mmap_read M (base marc) (block_bytes (marc_reg_block_size marc)) h"
  shows "get_mba_bw_region_clos base M marc r c h' = Some (Inr val)"
  using bw_set_cases [OF assms(1)]
proof cases
  case (1 off)
  then show ?thesis
    using assms(2,3) field_read_write [of "nat r" "ucast val" "mm_ld64 M (base marc + off) h"]
    by (simp del: take_bit_or take_bit_and drop_bit_or drop_bit_and add: get_mba_bw_region_clos_def Let_def PQOS_MAX_MEM_REGIONS_def reg_load_def get_region_value ld_st
        take_bit_of_max_bw)
qed

text \<open>The other regions of the class keep their limit.\<close>

lemma bw_other_region:
  assumes "set_mba_bw_region_clos base M marc r c val h = Some (PQOS_RETVAL_OK, h')"
    and "val \<le> MBA_MAX_BW" and "q \<noteq> r"
  shows "get_mba_bw_region_clos base M marc q c h' = get_mba_bw_region_clos base M marc q c h"
  using bw_set_cases [OF assms(1)]
proof cases
  case (1 off)
  have "get_clos_addr_by_region q c = off" if "0 \<le> q" "q < 4"
  proof -
    have "q div 4 = 0" "r div 4 = 0" using that 1 by simp_all
    with 1 show ?thesis by (simp add: get_clos_addr_by_region_def)
  qed
  moreover have "nat q \<noteq> nat r" if "0 \<le> q" using that assms(3) 1 by linarith
  ultimately show ?thesis
    using 1 field_other [of "nat q" "nat r" "ucast val" "mm_ld64 M (base marc + off) h"] assms(2)
    by (auto simp: get_mba_bw_region_clos_def Let_def PQOS_MAX_MEM_REGIONS_def reg_load_def get_region_value ld_st
        take_bit_of_max_bw)
qed

text \<open>A register elsewhere keeps its value, whatever block it belongs to.\<close>

lemma bw_elsewhere:
  assumes "set_mba_bw_region_clos base M marc r c val h = Some (PQOS_RETVAL_OK, h')"
    and "8 \<le> a - (base marc + get_clos_addr_by_region r c)" "8 \<le> base marc + get_clos_addr_by_region r c - a"
  shows "mm_ld64 M a h' = mm_ld64 M a h"
  using bw_set_cases [OF assms(1)] by cases (use assms(2,3) in \<open>simp add: ld_st_other\<close>)

lemma bw_set_maps:
  assumes "set_mba_bw_region_clos base M marc r c val h = Some (ret, h')"
  shows "pqos_mmap_read M p n h' = pqos_mmap_read M p n h" "pqos_mmap_write M p n h' = pqos_mmap_write M p n h"
  using assms by (auto simp: set_mba_bw_region_clos_def reg_store_def Let_def split: if_splits option.splits sum.splits)

end

section \<open>A byte-addressed memory\<close>

definition bm_ld64 :: "u64 \<Rightarrow> byte_mem \<Rightarrow> u64" where
  "bm_ld64 a h = push_bit 32 (ucast (bm_ld32 (a + 4) h)) OR ucast (bm_ld32 a h)"

definition bm_st64 :: "u64 \<Rightarrow> u64 \<Rightarrow> byte_mem \<Rightarrow> byte_mem" where
  "bm_st64 a v h = bm_st32 (a + 4) (ucast (drop_bit 32 v)) (bm_st32 a (ucast v) h)"

text \<open>Pages of 4096 bytes; a mapping succeeds unless it is empty.\<close>

definition mem_mmio :: "byte_mem mmio_os" where
  "mem_mmio = \<lparr>mm_page_size = 4096, mm_open_mem = (\<lambda>w h. True), mm_mmap = (\<lambda>w n p h. n \<noteq> 0),
     mm_ld64 = bm_ld64, mm_st64 = bm_st64\<rparr>"

lemma bm_64: "bm_ld64 a (bm_st64 a v h) = v"
proof -
  have "bm_ld32 a (bm_st32 (a + 4) w g) = bm_ld32 a g" for w g by (rule bm_32_other) auto
  then show ?thesis
    by (simp add: bm_ld64_def bm_st64_def bm_32) (rule bit_word_eqI, auto simp: bit_simps)
qed

lemma far_apart:
  fixes a b i j :: u64
  assumes "8 \<le> a - b" "8 \<le> b - a" and "i < 8" "j < 8"
  shows "a + i \<noteq> b + j"
proof
  assume eq: "a + i = b + j"
  show False
  proof (cases "i \<le> j")
    case True
    then have "unat (j - i) < 8" using assms(4) by (simp add: unat_sub word_less_nat_alt)
    moreover have "a - b = j - i" using eq by (simp add: algebra_simps)
    ultimately show False using assms(1) by (simp add: word_le_nat_alt)
  next
    case False
    then have "unat (i - j) < 8" using assms(3) by (simp add: unat_sub word_less_nat_alt word_le_nat_alt)
    moreover have "b - a = i - j" using eq by (simp add: algebra_simps)
    ultimately show False using assms(2) by (simp add: word_le_nat_alt)
  qed
qed

lemma bm_64_other:
  assumes "8 \<le> a - b" "8 \<le> b - a"
  shows "bm_ld64 a (bm_st64 b v h) = bm_ld64 a h"
proof -
  note far = far_apart [OF assms]
  have other: "bm_ld32 (a + i) (bm_st32 (b + j) w g) = bm_ld32 (a + i) g" if "i = 0 \<or> i = 4" "j = 0 \<or> j = 4" for i j w g
    using that far [of i j] far [of i "j + 1"] far [of i "j + 2"] far [of i "j + 3"]
      far [of "i + 1" j] far [of "i + 2" j] far [of "i + 3" j]
    by (intro bm_32_other) (auto simp: add.assoc)
  have "bm_ld32 a (bm_st32 b w g) = bm_ld32 a g" "bm_ld32 a (bm_st32 (b + 4) w g) = bm_ld32 a g"
      "bm_ld32 (a + 4) (bm_st32 b w g) = bm_ld32 (a + 4) g" for w g
    using other [of 0 0] other [of 0 4] other [of 4 0] by simp_all
  with other [of 4 4] show ?thesis by (simp add: bm_ld64_def bm_st64_def)
qed

interpretation memmio: mmio_registers mem_mmio
  by unfold_locales (simp_all add: mem_mmio_def bm_64 bm_64_other)

section \<open>Ranges of registers\<close>

text \<open>Where the register of one RMID is: in which clump, and where in it.\<close>

definition rmid_reg_offset :: "u16 \<Rightarrow> u16 \<Rightarrow> u16 \<Rightarrow> nat \<Rightarrow> nat" where
  "rmid_reg_offset cs stride roff r = (r div unat cs) * unat stride + unat roff + (r mod unat cs) * 8"

lemma same_clump:
  fixes c k n r :: nat
  assumes "k \<le> n - c mod n" and "c \<le> r" "r < c + k"
  shows "r div n = c div n" "r mod n = c mod n + (r - c)"
proof -
  obtain q x where q: "c div n = q" and x: "c mod n + (r - c) = x" by blast
  have r: "r = x + n * q" using assms(2) q x by (metis add.assoc add.commute le_add_diff_inverse mult_div_mod_eq)
  have "x < n" using assms x by linarith
  then show "r div n = c div n" "r mod n = c mod n + (r - c)"
    unfolding q x by (simp_all add: r)
qed

lemma clump_registers:
  assumes "k \<le> unat cs - c mod unat cs" and "c \<le> r" "r < c + k"
  shows "rmid_reg_offset cs stride roff r = rmid_reg_offset cs stride roff c + 8 * (r - c)"
  using same_clump [OF assms] by (simp add: rmid_reg_offset_def algebra_simps)

lemma clump_in_block:
  assumes "0 < k" "k \<le> unat cs - c mod unat cs"
  shows "(\<forall>r\<in>{c..<c + k}. rmid_reg_offset cs stride roff r + 8 \<le> m) \<longleftrightarrow>
    rmid_reg_offset cs stride roff c + 8 * k \<le> m"
proof
  assume all: "\<forall>r\<in>{c..<c + k}. rmid_reg_offset cs stride roff r + 8 \<le> m"
  have "c + (k - 1) \<in> {c..<c + k}" using assms(1) by simp
  with all have "rmid_reg_offset cs stride roff (c + (k - 1)) + 8 \<le> m" by blast
  moreover have "rmid_reg_offset cs stride roff (c + (k - 1)) = rmid_reg_offset cs stride roff c + 8 * (k - 1)"
    using clump_registers [OF assms(2), of "c + (k - 1)"] assms(1) by simp
  ultimately show "rmid_reg_offset cs stride roff c + 8 * k \<le> m" using assms(1) by linarith
next
  assume fits: "rmid_reg_offset cs stride roff c + 8 * k \<le> m"
  show "\<forall>r\<in>{c..<c + k}. rmid_reg_offset cs stride roff r + 8 \<le> m"
  proof
    fix r assume r: "r \<in> {c..<c + k}"
    then have "rmid_reg_offset cs stride roff r = rmid_reg_offset cs stride roff c + 8 * (r - c)"
      by (intro clump_registers [OF assms(2)]) auto
    moreover have "8 * (r - c) + 8 \<le> 8 * k" using r by auto
    ultimately show "rmid_reg_offset cs stride roff r + 8 \<le> m" using fits by linarith
  qed
qed

lemma clump_copy:
  assumes "k \<le> unat cs - c mod unat cs"
  shows "copy_regs M (base + of_nat (rmid_reg_offset cs stride roff c)) k h =
    map (\<lambda>r. mm_ld64 M (base + of_nat (rmid_reg_offset cs stride roff r)) h) [c..<c + k]"
proof -
  have "[c..<c + k] = map (\<lambda>j. c + j) [0..<k]" by (simp add: map_add_upt add.commute)
  moreover have "rmid_reg_offset cs stride roff (c + j) = rmid_reg_offset cs stride roff c + 8 * j" if "j < k" for j
    using clump_registers [OF assms, of "c + j"] that by simp
  ultimately show ?thesis by (simp add: copy_regs_def add.assoc)
qed

lemma word_of_unat: "unat w = n \<Longrightarrow> w = of_nat n"
  by auto

text \<open>The 64-bit offset that the loop computes does not wrap.\<close>

lemma data_offset_exact:
  fixes current :: u64
  assumes "cs \<noteq> 0" and "unat current < 2 ^ 32"
  shows "(current div ucast cs) * ucast stride + ucast roff + ucast (ucast (current mod ucast cs) * 8 :: u32) =
    of_nat (rmid_reg_offset cs stride roff (unat current))"
    and "rmid_reg_offset cs stride roff (unat current) < 2 ^ 50"
proof -
  have idx: "unat (ucast (current mod ucast cs) :: u32) = unat current mod unat cs" and pos: "0 < unat cs"
    using clump_index [OF assms(1)] by blast+
  have lim: "unat cs < 65536" "unat stride < 65536" "unat roff < 65536"
    using unsigned_less [of cs] unsigned_less [of stride] unsigned_less [of roff] by simp_all
  have modlim: "unat current mod unat cs < 65536" using lim(1) pos by (meson mod_less_divisor order.strict_trans)
  have "unat (ucast (ucast (current mod ucast cs) * 8 :: u32) :: u64) = unat current mod unat cs * 8"
    using modlim by (simp add: unat_word_ariths idx)
  then have w: "ucast (ucast (current mod ucast cs) * 8 :: u32) = (of_nat (unat current mod unat cs * 8) :: u64)"
    by (rule word_of_unat)
  have d: "current div ucast cs = (of_nat (unat current div unat cs) :: u64)"
    by (rule word_of_unat) (simp add: unat_div)
  have st: "ucast stride = (of_nat (unat stride) :: u64)" "ucast roff = (of_nat (unat roff) :: u64)"
    by (rule word_of_unat, simp)+
  show "(current div ucast cs) * ucast stride + ucast roff + ucast (ucast (current mod ucast cs) * 8 :: u32) =
    of_nat (rmid_reg_offset cs stride roff (unat current))"
    by (simp only: w d st rmid_reg_offset_def of_nat_add of_nat_mult)
  have "(unat current div unat cs) * unat stride \<le> 2 ^ 32 * 65536"
    using assms(2) lim(2) by (intro mult_le_mono) (auto intro: order.trans [OF div_le_dividend])
  with modlim lim(3) show "rmid_reg_offset cs stride roff (unat current) < 2 ^ 50"
    by (simp add: rmid_reg_offset_def)
qed

lemma copy_loop_equiv:
  assumes "cs \<noteq> 0" and "unat current + unat rmid_count \<le> 2 ^ 32"
  shows "copy_rmid_loop M base cs stride roff mapped current rmid_count h =
    (if \<forall>r\<in>{unat current..<unat current + unat rmid_count}. rmid_reg_offset cs stride roff r + 8 \<le> unat mapped
     then Inr (map (\<lambda>r. mm_ld64 M (base + of_nat (rmid_reg_offset cs stride roff r)) h)
                 [unat current..<unat current + unat rmid_count])
     else Inl PQOS_RETVAL_PARAM)"
  using assms(2)
proof (induction "unat rmid_count" arbitrary: current rmid_count rule: less_induct)
  case less
  show ?case
  proof (cases "rmid_count = 0")
    case True
    then show ?thesis by (simp add: copy_rmid_loop.simps)
  next
    case False
    define off where "off = rmid_reg_offset cs stride roff"
    define av where "av = (ucast (ucast cs - ucast (current mod ucast cs) :: u32) :: u64)"
    define cc where "cc = (if rmid_count < av then rmid_count else av)"
    define doff where "doff = (current div ucast cs) * ucast stride + ucast roff + ucast (ucast (current mod ucast cs) * 8 :: u32)"
    let ?c = "unat current" and ?n = "unat rmid_count"
    have n: "0 < ?n" using False by (simp add: unat_gt_0)
    have av: "unat av = unat cs - ?c mod unat cs" "0 < unat av"
      using clump_index(2) [OF assms(1), of current] clump_index(3) [OF assms(1)] by (simp_all add: av_def)
    have cc: "unat cc \<le> unat cs - ?c mod unat cs" "0 < unat cc" "unat cc \<le> ?n"
      using av n by (auto simp: cc_def word_less_nat_alt)
    have lim: "?c < 2 ^ 32" using n less.prems by linarith
    have doff: "doff = of_nat (off ?c)" "unat doff = off ?c"
      using data_offset_exact [OF assms(1) lim, of stride roff] by (simp_all add: doff_def off_def unat_of_nat take_bit_nat_eq_self)
    have nxt: "unat (current + cc) = ?c + unat cc" "unat (rmid_count - cc) = ?n - unat cc" "unat (cc * 8) = unat cc * 8"
      using lim cc(3) less.prems by (simp_all add: unat_word_ariths word_le_nat_alt unat_sub)
    have guard: "(mapped < doff \<or> mapped - doff < cc * 8) = (\<not> off ?c + 8 * unat cc \<le> unat mapped)"
      by (cases "doff \<le> mapped") (auto simp: word_less_nat_alt doff(2) nxt(3) unat_sub word_le_nat_alt)
    have IH: "copy_rmid_loop M base cs stride roff mapped (current + cc) (rmid_count - cc) h =
        (if \<forall>r\<in>{?c + unat cc..<?c + ?n}. off r + 8 \<le> unat mapped
         then Inr (map (\<lambda>r. mm_ld64 M (base + of_nat (off r)) h) [?c + unat cc..<?c + ?n]) else Inl PQOS_RETVAL_PARAM)"
      using less.hyps [of "rmid_count - cc" "current + cc"] less.prems cc nxt by (simp add: off_def)
    have step: "copy_rmid_loop M base cs stride roff mapped current rmid_count h =
        (if \<not> off ?c + 8 * unat cc \<le> unat mapped then Inl PQOS_RETVAL_PARAM
         else (case copy_rmid_loop M base cs stride roff mapped (current + cc) (rmid_count - cc) h of
                 Inl e \<Rightarrow> Inl e | Inr vs \<Rightarrow> Inr (copy_regs M (base + doff) (unat cc) h @ vs)))"
      using copy_rmid_loop.simps [of M base cs stride roff mapped current rmid_count h, unfolded Let_def,
          folded av_def, folded cc_def doff_def, unfolded guard] False assms(1)
      by simp
    have split: "{?c..<?c + ?n} = {?c..<?c + unat cc} \<union> {?c + unat cc..<?c + ?n}"
        "[?c..<?c + ?n] = [?c..<?c + unat cc] @ [?c + unat cc..<?c + ?n]"
      using cc(3) upt_add_eq_append [of ?c "?c + unat cc" "?n - unat cc"] by auto
    have first: "(\<forall>r\<in>{?c..<?c + unat cc}. off r + 8 \<le> unat mapped) = (off ?c + 8 * unat cc \<le> unat mapped)"
        "copy_regs M (base + doff) (unat cc) h = map (\<lambda>r. mm_ld64 M (base + of_nat (off r)) h) [?c..<?c + unat cc]"
      using clump_in_block [OF cc(2) cc(1)] clump_copy [OF cc(1)] by (simp_all add: off_def doff(1))
    show ?thesis
      by (simp add: step IH split ball_Un first flip: off_def)
  qed
qed

text \<open>
  C23. Reading a range of RMID counters is reading each counter: the loop that copies clump by clump
  returns, for every RMID of the range in order, the register at its place in its clump; it refuses the
  request with \<open>PQOS_RETVAL_PARAM\<close> exactly when one of these registers is not inside the mapped block,
  so that no byte outside it is read.
\<close>

theorem copy_range_equiv:
  assumes "cs \<noteq> 0" "stride \<noteq> 0" "mapped \<noteq> 0" and "rmid_first \<le> rmid_last"
  shows "copy_generic_rmid_range M rmid_first rmid_last base cs stride roff mapped h =
    (if \<forall>r\<in>{unat rmid_first..unat rmid_last}. rmid_reg_offset cs stride roff r + 8 \<le> unat mapped
     then Inr (map (\<lambda>r. mm_ld64 M (base + of_nat (rmid_reg_offset cs stride roff r)) h) [unat rmid_first..<Suc (unat rmid_last)])
     else Inl PQOS_RETVAL_PARAM)"
proof -
  have le: "unat rmid_first \<le> unat rmid_last" using assms(4) by (simp add: word_le_nat_alt)
  have cnt: "unat (ucast rmid_last - ucast rmid_first + 1 :: u64) = Suc (unat rmid_last - unat rmid_first)"
  proof -
    have "unat (ucast rmid_last - ucast rmid_first :: u64) = unat rmid_last - unat rmid_first"
      using le by (simp add: unat_sub word_le_nat_alt)
    moreover have "Suc (unat rmid_last - unat rmid_first) < 18446744073709551616" using unat_less_u32 [of rmid_last] by linarith
    ultimately show ?thesis by (simp add: unat_word_ariths)
  qed
  have lim: "unat (ucast rmid_first :: u64) + unat (ucast rmid_last - ucast rmid_first + 1 :: u64) \<le> 2 ^ 32"
  proof -
    have "unat rmid_last \<le> 4294967295" using unat_less_u32 [of rmid_last] by linarith
    with le show ?thesis by (simp add: cnt)
  qed
  have rng: "unat rmid_first + Suc (unat rmid_last - unat rmid_first) = Suc (unat rmid_last)" using le by simp
  show ?thesis
    unfolding copy_generic_rmid_range_def copy_loop_equiv [OF assms(1) lim] cnt unat_ucast_widen rng
      atLeastLessThanSuc_atLeastAtMost
    using assms by (simp add: not_less)
qed

theorem copy_range_equiv_witness:
  "copy_generic_rmid_range mem_mmio 3 5 0x1000 4 64 0 4096 (\<lambda>a. if a = 0x1018 then 7 else if a = 0x1040 then 9 else 0) = Inr [7, 9, 0]"
proof -
  let ?h = "\<lambda>a :: u64. if a = 0x1018 then 7 else if a = 0x1040 then 9 else (0 :: u8)"
  have rng: "{unat (3 :: u32)..unat (5 :: u32)} = {3, 4, 5}" "[unat (3 :: u32)..<Suc (unat (5 :: u32))] = [3, 4, 5]"
    by (auto simp: upt_rec)
  have three: "{3..5} = {3, 4, 5 :: nat}" by auto
  have "copy_generic_rmid_range mem_mmio 3 5 0x1000 4 64 0 4096 ?h =
      Inr (map (\<lambda>r. mm_ld64 mem_mmio (0x1000 + of_nat (rmid_reg_offset 4 64 0 r)) ?h) [3, 4, 5])"
    by (subst copy_range_equiv) (simp_all add: rng three rmid_reg_offset_def)
  also have "map (\<lambda>r. mm_ld64 mem_mmio (0x1000 + of_nat (rmid_reg_offset 4 64 0 r)) ?h) [3, 4, 5] = [7, 9, 0]"
    by code_simp
  finally show ?thesis .
qed

section \<open>Departures\<close>

text \<open>
  The overflow test of the memory bandwidth counters never fires: the flag is bit 62, and the result of the
  function keeps the low 32 bits of the masked value.
\<close>

lemma flag_masks: "MBM_REGION_RMID_O_MASK = 2 ^ 62" "TOTAL_IO_BW_RMID_O_MASK = 2 ^ 62"
  by (simp_all add: MBM_REGION_RMID_O_MASK_def TOTAL_IO_BW_RMID_O_MASK_def)

lemma l3_mbm_overflow_never: "is_overflow_l3_mbm_rmid v = 0"
proof -
  have "\<not> bit MBM_REGION_RMID_O_MASK n" if "n < 32" for n
    using that unfolding flag_masks by (simp only: bit_exp_iff) simp
  then have "ucast (v AND MBM_REGION_RMID_O_MASK) = (0 :: u32)"
    by (intro bit_word_eqI) (simp add: bit_simps)
  then show ?thesis by (simp add: is_overflow_l3_mbm_rmid_def)
qed

text \<open>The counterpart for I/O bandwidth tests the flag.\<close>

lemma iol3_mbm_overflow_flag: "is_overflow_iol3_mbm_rmid v \<longleftrightarrow> bit v 62"
  unfolding is_overflow_iol3_mbm_rmid_def flag_masks by (metis and_exp_eq_0_iff_not_bit)

text \<open>
  The registers of a memory region are interleaved over four blocks of pages, eight RMIDs at a time: inside a
  group of eight the registers of a range follow each other.
\<close>

lemma mbm_range_in_group:
  assumes "unat r = unat q + k" "unat q div 8 = unat r div 8"
  shows "mbm_block_addr r = mbm_block_addr q" "mbm_rmid_offset n r = mbm_rmid_offset n q + of_nat (8 * k)"
proof -
  have grp: "a mod 32 div 8 = a div 8 mod 4" "a div 32 = a div 8 div 4" for a :: nat
    using mod_mult2_eq [of a 8 4] div_mult2_eq [of a 8 4] by simp_all
  have "unat (r mod 32 div 8) = unat (q mod 32 div 8)" using assms(2) by (simp add: unat_div unat_mod grp)
  then have "r mod 32 div 8 = q mod 32 div 8" by (simp add: word_unat_eq_iff)
  then show "mbm_block_addr r = mbm_block_addr q" by (simp add: mbm_block_addr_def)
  have d: "(ucast r :: u64) div 32 = ucast q div 32"
    using assms(2) by (simp add: word_unat_eq_iff unat_div grp)
  have "unat r mod 8 = unat q mod 8 + k"
    using assms mult_div_mod_eq [of 8 "unat r"] mult_div_mod_eq [of 8 "unat q"] by linarith
  then have "unat (ucast (r mod 8) :: u64) = unat (ucast (q mod 8) :: u64) + k" by (simp add: unat_mod)
  then have "(ucast (r mod 8) :: u64) = ucast (q mod 8) + of_nat k" by (drule_tac word_of_unat) simp
  with d show "mbm_rmid_offset n r = mbm_rmid_offset n q + of_nat (8 * k)"
    by (simp add: mbm_rmid_offset_def algebra_simps)
qed

text \<open>
  Across groups they do not: RMID 8 is in another block of pages than RMID 7, and a range that
  holds both returns, as the second value, a register that is not the one of RMID 8.
\<close>

definition sample_mmrc :: pqos_erdt_mmrc where
  "sample_mmrc = \<lparr>mmrc_flags = 0, mmrc_reg_index_func_ver = 1, mmrc_reg_block_base_addr = 0x100000, mmrc_reg_block_size = 32,
     mmrc_counter_width = 62, mmrc_upscaling_factor = 64, mmrc_correction_factor = []\<rparr>"

definition sample_counters :: byte_mem where
  "sample_counters = (\<lambda>a. if a = 0x100038 then 7 else if a = 0x104000 then 8 else 0)"

lemma mbm_range_across_groups:
  "get_l3_mbm_region_rmid_range_v1 mem_mmio (Some sample_mmrc) 0 7 7 sample_counters = Inr [7]"
  "get_l3_mbm_region_rmid_range_v1 mem_mmio (Some sample_mmrc) 0 8 8 sample_counters = Inr [8]"
  "get_l3_mbm_region_rmid_range_v1 mem_mmio (Some sample_mmrc) 0 7 8 sample_counters = Inr [7, 0]"
  by code_simp+

end
