(* ===== verification/MmioAlloc.thy ===== *)
theory MmioAlloc
  imports MmioRegs HwCat AllocReset
begin

text \<open>
  Allocation on the MMIO interface (\<open>lib/mmio_allocation.c\<close>) and the helpers of
  \<open>lib/mmio_common.c\<close>: bandwidth limits per memory region in the registers of the CPU domains,
  cache masks in the registers of the device domains. The tables that describe the platform are
  arguments: \<open>erdt\<close> (\<open>_pqos_get_erdt\<close>, never NULL on this interface) and \<open>mrrm\<close> (\<open>_pqos_get_mrrm\<close>).
\<close>

section \<open>Requests\<close>

text \<open>The array \<open>bw_ctrl_val\<close> has three entries: the optimal, minimal and maximal limit; -1 is none.\<close>

record pqos_mba_mem_region =
  bw_opt :: int
  bw_min :: int
  bw_max :: int
  region_num :: int

record mmio_mba = pqos_mba +
  mb_domain_id :: u16
  mb_num_mem_regions :: int
  mb_mem_regions :: "pqos_mba_mem_region list"

record mmio_l3ca = pqos_ca +
  ca_domain_id :: u16

text \<open>The \<open>MRRM\<close> table, as far as allocation uses it.\<close>

record pqos_mrrm_info =
  mrrm_max_memory_regions_supported :: u8
  mrrm_flags :: u8

section \<open>Helpers\<close>

definition mmio_get_num_mem_regions :: "pqos_mrrm_info option \<Rightarrow> nat res" where
  "mmio_get_num_mem_regions mrrm =
     (case mrrm of None \<Rightarrow> Inl PQOS_RETVAL_RESOURCE
      | Some m \<Rightarrow>
          if mrrm_max_memory_regions_supported m = 0 then Inl PQOS_RETVAL_RESOURCE
          else Inr (min (unat (mrrm_max_memory_regions_supported m)) PQOS_MAX_MEM_REGIONS))"

definition get_cpu_agent_idx_by_domain_id :: "pqos_erdt_info \<Rightarrow> u16 \<Rightarrow> int" where
  "get_cpu_agent_idx_by_domain_id erdt domain_id =
     (let i = search_index domain_id (map (\<lambda>a. rmdd_domain_id (cpu_rmdd a)) (erdt_cpu_agents erdt))
      in if i < length (erdt_cpu_agents erdt) then int i else - 1)"

definition get_dev_agent_idx_by_domain_id :: "pqos_erdt_info \<Rightarrow> u16 \<Rightarrow> int" where
  "get_dev_agent_idx_by_domain_id erdt domain_id =
     (let i = search_index domain_id (map (\<lambda>a. rmdd_domain_id (dev_rmdd a)) (erdt_dev_agents erdt))
      in if i < length (erdt_dev_agents erdt) then int i else - 1)"

definition get_mmio_cpu_agent_by_domain :: "pqos_erdt_info \<Rightarrow> u16 \<Rightarrow> pqos_cpu_agent_info option" where
  "get_mmio_cpu_agent_by_domain erdt domain_id =
     (let idx = get_cpu_agent_idx_by_domain_id erdt domain_id
      in if 0 \<le> idx then Some (erdt_cpu_agents erdt ! nat idx) else None)"

definition get_mmio_dev_agent_by_domain :: "pqos_erdt_info \<Rightarrow> u16 \<Rightarrow> pqos_device_agent_info option" where
  "get_mmio_dev_agent_by_domain erdt domain_id =
     (let idx = get_dev_agent_idx_by_domain_id erdt domain_id
      in if 0 \<le> idx then Some (erdt_dev_agents erdt ! nat idx) else None)"

text \<open>Sequences of steps that stop at the first status other than \<open>PQOS_RETVAL_OK\<close>, or at undefined behaviour.\<close>

definition ok_then :: "(retval \<times> 'h) option \<Rightarrow> ('h \<Rightarrow> (retval \<times> 'h) option) \<Rightarrow> (retval \<times> 'h) option" where
  "ok_then m f =
     (case m of None \<Rightarrow> None | Some (ret, h) \<Rightarrow> if ret \<noteq> PQOS_RETVAL_OK then Some (ret, h) else f h)"

fun mode_loop :: "'h mmio_os \<Rightarrow> u32 \<Rightarrow> pqos_cpu_agent_info list \<Rightarrow> 'h \<Rightarrow> (retval \<times> 'h) option" where
  "mode_loop M mode [] h = Some (PQOS_RETVAL_OK, h)"
| "mode_loop M mode (a # as) h = ok_then (set_mbm_mba_mode_v1 M (Some (cpu_rmdd a)) mode h) (mode_loop M mode as)"

definition mmio_set_mbm_mba_mode :: "'h mmio_os \<Rightarrow> u32 \<Rightarrow> pqos_erdt_info \<Rightarrow> 'h \<Rightarrow> (retval \<times> 'h) option" where
  "mmio_set_mbm_mba_mode M mode erdt h = mode_loop M mode (erdt_cpu_agents erdt) h"

text \<open>
  Scaling of counters; \<open>None\<close> is a read behind the table of correction factors.
\<close>

definition correct_value :: "u32 list \<Rightarrow> u32 \<Rightarrow> u64 \<Rightarrow> u64 option" where
  "correct_value factors rmid v =
     (if length factors = 0 then Some v
      else if 1 < length factors
      then if unat rmid < length factors then Some (v * ucast (factors ! unat rmid)) else None
      else Some (v * ucast (factors ! 0)))"

definition scale_mbm_value :: "pqos_erdt_mmrc \<Rightarrow> u32 \<Rightarrow> u64 \<Rightarrow> u64 option" where
  "scale_mbm_value mmrc rmid val = correct_value (mmrc_correction_factor mmrc) rmid (val * mmrc_upscaling_factor mmrc)"

definition scale_llc_value :: "pqos_erdt_cmrc \<Rightarrow> u64 \<Rightarrow> u64" where
  "scale_llc_value cmrc val = val * cmrc_upscaling_factor cmrc"

definition scale_io_llc_value :: "pqos_erdt_cmrd \<Rightarrow> u64 \<Rightarrow> u64" where
  "scale_io_llc_value cmrd val = val * cmrd_upscaling_factor cmrd"

definition scale_io_mbm_value :: "pqos_erdt_ibrd \<Rightarrow> u32 \<Rightarrow> u64 \<Rightarrow> u64 option" where
  "scale_io_mbm_value ibrd rmid val = correct_value (ibrd_correction_factor ibrd) rmid (val * ibrd_upscaling_factor ibrd)"

section \<open>Bandwidth limits\<close>

definition cpu_agent_has_mba :: "pqos_cpu_agent_info \<Rightarrow> bool" where
  "cpu_agent_has_mba a \<longleftrightarrow>
     marc_reg_block_size (cpu_marc a) \<noteq> 0 \<and> opt_bw_reg_block_base_addr (cpu_marc a) \<noteq> 0 \<and>
     min_bw_reg_block_base_addr (cpu_marc a) \<noteq> 0 \<and> max_bw_reg_block_base_addr (cpu_marc a) \<noteq> 0"

text \<open>The value read is stored into an \<open>int\<close>.\<close>

definition get_region_mba :: "'h mmio_os \<Rightarrow> pqos_cpu_agent_info \<Rightarrow> u32 \<Rightarrow> pqos_mba_mem_region \<Rightarrow> 'h
    \<Rightarrow> (retval \<times> pqos_mba_mem_region) option" where
  "get_region_mba M a class_id reg h =
     (case get_mba_optimal_bw_region_clos_v1 M (cpu_marc a) (region_num reg) class_id h of
        None \<Rightarrow> None
      | Some (Inl e) \<Rightarrow> Some (e, reg)
      | Some (Inr v) \<Rightarrow>
          (let reg = reg\<lparr>bw_opt := sint v\<rparr>
           in case get_mba_min_bw_region_clos_v1 M (cpu_marc a) (region_num reg) class_id h of
                None \<Rightarrow> None
              | Some (Inl e) \<Rightarrow> Some (e, reg)
              | Some (Inr v) \<Rightarrow>
                  (let reg = reg\<lparr>bw_min := sint v\<rparr>
                   in case get_mba_max_bw_region_clos_v1 M (cpu_marc a) (region_num reg) class_id h of
                        None \<Rightarrow> None
                      | Some (Inl e) \<Rightarrow> Some (e, reg)
                      | Some (Inr v) \<Rightarrow> Some (PQOS_RETVAL_OK, reg\<lparr>bw_max := sint v\<rparr>))))"

text \<open>The first \<open>n\<close> entries of the array are filled, the others are kept.\<close>

fun get_regions_loop :: "'h mmio_os \<Rightarrow> pqos_cpu_agent_info \<Rightarrow> u32 \<Rightarrow> nat list \<Rightarrow> pqos_mba_mem_region list \<Rightarrow> 'h
    \<Rightarrow> pqos_mba_mem_region list res option" where
  "get_regions_loop M a class_id [] regs h = Some (Inr regs)"
| "get_regions_loop M a class_id (j # js) regs h =
     (case get_region_mba M a class_id ((regs ! j)\<lparr>region_num := int j\<rparr>) h of
        None \<Rightarrow> None
      | Some (ret, reg) \<Rightarrow>
          if ret \<noteq> PQOS_RETVAL_OK then Some (Inl ret)
          else get_regions_loop M a class_id js (regs[j := reg]) h)"

definition get_regions_mba :: "'h mmio_os \<Rightarrow> pqos_cpu_agent_info \<Rightarrow> u32 \<Rightarrow> nat \<Rightarrow> pqos_mba_mem_region list \<Rightarrow> 'h
    \<Rightarrow> pqos_mba_mem_region list res option" where
  "get_regions_mba M a class_id num_mem_regions regs h = get_regions_loop M a class_id [0..<num_mem_regions] regs h"

text \<open>The check of one request.\<close>

definition bw_ok :: "int \<Rightarrow> bool" where
  "bw_ok bw \<longleftrightarrow> bw = - 1 \<or> \<not> bw < 0 \<and> \<not> bw > uint MBA_MAX_BW"

definition region_ok :: "nat \<Rightarrow> pqos_mba_mem_region \<Rightarrow> bool" where
  "region_ok num_mem_regions reg \<longleftrightarrow>
     region_num reg = - 1 \<or>
     \<not> (region_num reg < 0 \<or> int num_mem_regions \<le> region_num reg) \<and>
     bw_ok (bw_opt reg) \<and> bw_ok (bw_min reg) \<and> bw_ok (bw_max reg)"

definition used_regions :: "mmio_mba \<Rightarrow> pqos_mba_mem_region list" where
  "used_regions mba = take (nat (mb_num_mem_regions mba)) (mb_mem_regions mba)"

definition mmio_mba_check_request :: "pqos_erdt_info \<Rightarrow> nat \<Rightarrow> mmio_mba \<Rightarrow> retval" where
  "mmio_mba_check_request erdt num_mem_regions mba =
     (case get_mmio_cpu_agent_by_domain erdt (mb_domain_id mba) of
        None \<Rightarrow> PQOS_RETVAL_PARAM
      | Some a \<Rightarrow>
          if \<not> cpu_agent_has_mba a then PQOS_RETVAL_PARAM
          else if erdt_max_clos erdt \<le> mb_class_id mba \<or> mb_num_mem_regions mba < 0 \<or>
                  int num_mem_regions < mb_num_mem_regions mba then PQOS_RETVAL_PARAM
          else if \<forall>reg\<in>set (used_regions mba). region_ok num_mem_regions reg then PQOS_RETVAL_OK
          else PQOS_RETVAL_PARAM)"

definition bw_write :: "(int \<Rightarrow> u32 \<Rightarrow> u32 \<Rightarrow> 'h \<Rightarrow> (retval \<times> 'h) option) \<Rightarrow> int \<Rightarrow> u32 \<Rightarrow> int \<Rightarrow> 'h \<Rightarrow> (retval \<times> 'h) option" where
  "bw_write set_bw reg class_id current_bw h =
     (if current_bw \<noteq> - 1 then set_bw reg class_id (word_of_int current_bw) h else Some (PQOS_RETVAL_OK, h))"

definition set_region_mba :: "'h mmio_os \<Rightarrow> pqos_erdt_marc \<Rightarrow> u32 \<Rightarrow> pqos_mba_mem_region \<Rightarrow> 'h \<Rightarrow> (retval \<times> 'h) option" where
  "set_region_mba M marc class_id reg h =
     (if region_num reg = - 1 then Some (PQOS_RETVAL_OK, h)
      else ok_then (bw_write (set_mba_optimal_bw_region_clos_v1 M marc) (region_num reg) class_id (bw_opt reg) h) (\<lambda>h.
           ok_then (bw_write (set_mba_min_bw_region_clos_v1 M marc) (region_num reg) class_id (bw_min reg) h) (\<lambda>h.
           bw_write (set_mba_max_bw_region_clos_v1 M marc) (region_num reg) class_id (bw_max reg) h)))"

fun set_regions_loop :: "'h mmio_os \<Rightarrow> pqos_erdt_marc \<Rightarrow> u32 \<Rightarrow> pqos_mba_mem_region list \<Rightarrow> 'h \<Rightarrow> (retval \<times> 'h) option" where
  "set_regions_loop M marc class_id [] h = Some (PQOS_RETVAL_OK, h)"
| "set_regions_loop M marc class_id (reg # regs) h =
     ok_then (set_region_mba M marc class_id reg h) (set_regions_loop M marc class_id regs)"

text \<open>The actual limits of the regions that were asked for.\<close>

fun actual_loop :: "'h mmio_os \<Rightarrow> pqos_cpu_agent_info \<Rightarrow> u32 \<Rightarrow> nat list \<Rightarrow> pqos_mba_mem_region list \<Rightarrow> 'h
    \<Rightarrow> (retval \<times> pqos_mba_mem_region list) option" where
  "actual_loop M a class_id [] regs h = Some (PQOS_RETVAL_OK, regs)"
| "actual_loop M a class_id (j # js) regs h =
     (if region_num (regs ! j) = - 1 then actual_loop M a class_id js regs h
      else (case get_region_mba M a class_id (regs ! j) h of
              None \<Rightarrow> None
            | Some (ret, reg) \<Rightarrow>
                if ret \<noteq> PQOS_RETVAL_OK then Some (ret, regs[j := reg])
                else actual_loop M a class_id js (regs[j := reg]) h))"

text \<open>
  The second loop; \<open>want\<close> says that \<open>actual\<close> is not NULL, the list is what has been stored in it.
  The agent was found in the first loop; without one the code would dereference NULL.
\<close>

fun mba_set_loop :: "'h mmio_os \<Rightarrow> pqos_erdt_info \<Rightarrow> bool \<Rightarrow> mmio_mba list \<Rightarrow> 'h \<Rightarrow> (retval \<times> mmio_mba list \<times> 'h) option" where
  "mba_set_loop M erdt want [] h = Some (PQOS_RETVAL_OK, [], h)"
| "mba_set_loop M erdt want (q # qs) h =
     (case get_mmio_cpu_agent_by_domain erdt (mb_domain_id q) of
        None \<Rightarrow> None
      | Some a \<Rightarrow>
          (case set_regions_loop M (cpu_marc a) (mb_class_id q) (used_regions q) h of
             None \<Rightarrow> None
           | Some (ret, h) \<Rightarrow>
               if ret \<noteq> PQOS_RETVAL_OK then Some (ret, [], h)
               else if \<not> want then mba_set_loop M erdt want qs h
               else (case actual_loop M a (mb_class_id q) [0..<nat (mb_num_mem_regions q)] (mb_mem_regions q) h of
                       None \<Rightarrow> None
                     | Some (ret, regs) \<Rightarrow>
                         if ret \<noteq> PQOS_RETVAL_OK then Some (ret, [q\<lparr>mb_mem_regions := regs\<rparr>], h)
                         else map_option (\<lambda>(ret, act, h). (ret, q\<lparr>mb_mem_regions := regs\<rparr> # act, h))
                                (mba_set_loop M erdt want qs h))))"

fun check_requests :: "pqos_erdt_info \<Rightarrow> nat \<Rightarrow> mmio_mba list \<Rightarrow> retval" where
  "check_requests erdt n [] = PQOS_RETVAL_OK"
| "check_requests erdt n (q # qs) =
     (let ret = mmio_mba_check_request erdt n q in if ret \<noteq> PQOS_RETVAL_OK then ret else check_requests erdt n qs)"

definition mmio_mba_set :: "'h mmio_os \<Rightarrow> pqos_erdt_info \<Rightarrow> pqos_mrrm_info option \<Rightarrow> mmio_mba list \<Rightarrow> bool \<Rightarrow> 'h
    \<Rightarrow> (retval \<times> mmio_mba list \<times> 'h) option" where
  "mmio_mba_set M erdt mrrm requested want h =
     (case mmio_get_num_mem_regions mrrm of
        Inl e \<Rightarrow> Some (e, [], h)
      | Inr n \<Rightarrow>
          (let ret = check_requests erdt n requested
           in if ret \<noteq> PQOS_RETVAL_OK then Some (ret, [], h) else mba_set_loop M erdt want requested h))"

text \<open>Reading fills the first \<open>max_clos\<close> entries of the table.\<close>

fun mba_get_loop :: "'h mmio_os \<Rightarrow> pqos_cpu_agent_info \<Rightarrow> nat \<Rightarrow> u16 \<Rightarrow> nat list \<Rightarrow> mmio_mba list \<Rightarrow> 'h
    \<Rightarrow> mmio_mba list res option" where
  "mba_get_loop M a n domain_id [] tab h = Some (Inr tab)"
| "mba_get_loop M a n domain_id (i # is) tab h =
     (case get_regions_mba M a (of_nat i) n (mb_mem_regions (tab ! i)) h of
        None \<Rightarrow> None
      | Some (Inl e) \<Rightarrow> Some (Inl e)
      | Some (Inr regs) \<Rightarrow>
          mba_get_loop M a n domain_id is
            (tab[i := (tab ! i)\<lparr>mb_ctrl := False, mb_class_id := of_nat i, mb_max := 0, mb_domain_id := domain_id,
                               mb_num_mem_regions := int n, mb_mem_regions := regs\<rparr>]) h)"

definition mmio_mba_get :: "'h mmio_os \<Rightarrow> pqos_erdt_info \<Rightarrow> pqos_mrrm_info option \<Rightarrow> mmio_mba list \<Rightarrow> 'h
    \<Rightarrow> mmio_mba list res option" where
  "mmio_mba_get M erdt mrrm tab h =
     (case mmio_get_num_mem_regions mrrm of
        Inl e \<Rightarrow> Some (Inl e)
      | Inr supported \<Rightarrow>
          (let asked = mb_num_mem_regions (tab ! 0);
               n = (if asked = 0 then int supported else asked)
           in if length tab < unat (erdt_max_clos erdt) then Some (Inl PQOS_RETVAL_ERROR)
              else (case get_mmio_cpu_agent_by_domain erdt (mb_domain_id (tab ! 0)) of
                      None \<Rightarrow> Some (Inl PQOS_RETVAL_PARAM)
                    | Some a \<Rightarrow>
                        if \<not> cpu_agent_has_mba a then Some (Inl PQOS_RETVAL_PARAM)
                        else if n < 0 \<or> int supported < n then Some (Inl PQOS_RETVAL_PARAM)
                        else mba_get_loop M a (nat n) (mb_domain_id (tab ! 0)) [0..<unat (erdt_max_clos erdt)] tab h)))"

section \<open>Cache masks\<close>

definition dev_agent_has_l3ca :: "pqos_device_agent_info \<Rightarrow> bool" where
  "dev_agent_has_l3ca a \<longleftrightarrow> card_reg_base_addr (dev_card a) \<noteq> 0 \<and> card_reg_block_size (dev_card a) \<noteq> 0"

definition cap_get_mmio_l3ca_non_contiguous :: "pqos_erdt_info \<Rightarrow> u16 \<Rightarrow> bool" where
  "cap_get_mmio_l3ca_non_contiguous erdt domain_id =
     (case get_mmio_dev_agent_by_domain erdt domain_id of
        None \<Rightarrow> False | Some a \<Rightarrow> card_non_contiguous_cbm (dev_card a) \<noteq> 0)"

definition cap_get_mmio_l3ca_zero_length :: "pqos_erdt_info \<Rightarrow> u16 \<Rightarrow> bool" where
  "cap_get_mmio_l3ca_zero_length erdt domain_id =
     (case get_mmio_dev_agent_by_domain erdt domain_id of
        None \<Rightarrow> False | Some a \<Rightarrow> card_zero_length_bitmask (dev_card a) \<noteq> 0)"

text \<open>\<open>(1ULL << ways) - 1\<close>; a shift by 64 or more is undefined.\<close>

definition io_l3_ways_mask :: "pqos_device_agent_info \<Rightarrow> u64 option" where
  "io_l3_ways_mask a =
     (let ways = unat (rmdd_num_io_l3_ways (dev_rmdd a)) in if ways < 64 then Some (push_bit ways 1 - 1) else None)"

fun l3ca_check_loop :: "pqos_erdt_info \<Rightarrow> mmio_l3ca list \<Rightarrow> retval option" where
  "l3ca_check_loop erdt [] = Some PQOS_RETVAL_OK"
| "l3ca_check_loop erdt (ca # cas) =
     (case get_mmio_dev_agent_by_domain erdt (ca_domain_id ca) of
        None \<Rightarrow> Some PQOS_RETVAL_PARAM
      | Some a \<Rightarrow>
          if \<not> dev_agent_has_l3ca a then Some PQOS_RETVAL_PARAM
          else (case io_l3_ways_mask a of
                  None \<Rightarrow> None
                | Some m \<Rightarrow> if m < ca_word0 ca then Some PQOS_RETVAL_PARAM else l3ca_check_loop erdt cas))"

fun l3ca_set_loop :: "'h mmio_os \<Rightarrow> pqos_erdt_info \<Rightarrow> mmio_l3ca list \<Rightarrow> 'h \<Rightarrow> (retval \<times> 'h) option" where
  "l3ca_set_loop M erdt [] h = Some (PQOS_RETVAL_OK, h)"
| "l3ca_set_loop M erdt (ca # cas) h =
     (if \<not> cap_get_mmio_l3ca_non_contiguous erdt (ca_domain_id ca) \<and> \<not> IS_CONTIGNOUS (pqos_ca.truncate ca)
      then Some (PQOS_RETVAL_PARAM, h)
      else if ca_word0 ca = 0 \<and> \<not> cap_get_mmio_l3ca_zero_length erdt (ca_domain_id ca) then Some (PQOS_RETVAL_PARAM, h)
      else (case get_mmio_dev_agent_by_domain erdt (ca_domain_id ca) of
              None \<Rightarrow> None
            | Some a \<Rightarrow>
                ok_then (set_iol3_cbm_clos_v1 M (dev_card a) (ca_class_id ca) (ca_word0 ca) h) (l3ca_set_loop M erdt cas)))"

definition mmio_l3ca_set :: "'h mmio_os \<Rightarrow> pqos_erdt_info \<Rightarrow> mmio_l3ca list \<Rightarrow> 'h \<Rightarrow> (retval \<times> 'h) option" where
  "mmio_l3ca_set M erdt cas h =
     (if unat (erdt_max_clos erdt) < length cas then Some (PQOS_RETVAL_ERROR, h)
      else (case l3ca_check_loop erdt cas of
              None \<Rightarrow> None
            | Some ret \<Rightarrow> if ret \<noteq> PQOS_RETVAL_OK then Some (ret, h) else l3ca_set_loop M erdt cas h))"

definition has_l3ca_domain :: "pqos_erdt_info \<Rightarrow> mmio_l3ca \<Rightarrow> bool" where
  "has_l3ca_domain erdt ca \<longleftrightarrow>
     (case get_mmio_dev_agent_by_domain erdt (ca_domain_id ca) of None \<Rightarrow> False | Some a \<Rightarrow> dev_agent_has_l3ca a)"

fun l3ca_get_loop :: "'h mmio_os \<Rightarrow> pqos_erdt_info \<Rightarrow> nat list \<Rightarrow> mmio_l3ca list \<Rightarrow> 'h \<Rightarrow> mmio_l3ca list res option" where
  "l3ca_get_loop M erdt [] tab h = Some (Inr tab)"
| "l3ca_get_loop M erdt (i # is) tab h =
     (case get_mmio_dev_agent_by_domain erdt (ca_domain_id (tab ! i)) of
        None \<Rightarrow> None
      | Some a \<Rightarrow>
          (case get_iol3_cbm_clos_v1 M (dev_card a) (of_nat i) 0 h of
             None \<Rightarrow> None
           | Some (Inl e) \<Rightarrow> Some (Inl e)
           | Some (Inr v) \<Rightarrow>
               l3ca_get_loop M erdt is (tab[i := (tab ! i)\<lparr>ca_cdp := False, ca_class_id := of_nat i, ca_word0 := v\<rparr>]) h))"

definition mmio_l3ca_get :: "'h mmio_os \<Rightarrow> pqos_erdt_info \<Rightarrow> mmio_l3ca list \<Rightarrow> 'h \<Rightarrow> mmio_l3ca list res option" where
  "mmio_l3ca_get M erdt tab h =
     (let n = unat (erdt_max_clos erdt)
      in if length tab < n then Some (Inl PQOS_RETVAL_ERROR)
         else if \<not> list_all (has_l3ca_domain erdt) (take n tab) then Some (Inl PQOS_RETVAL_PARAM)
         else l3ca_get_loop M erdt [0..<n] tab h)"

section \<open>Reset\<close>

fun reset_mba_loop :: "'h mmio_os \<Rightarrow> pqos_erdt_marc \<Rightarrow> (nat \<times> nat) list \<Rightarrow> 'h \<Rightarrow> (retval \<times> 'h) option" where
  "reset_mba_loop M marc [] h = Some (PQOS_RETVAL_OK, h)"
| "reset_mba_loop M marc ((i, j) # ps) h =
     ok_then (set_mba_optimal_bw_region_clos_v1 M marc (int j) (of_nat i) MBA_MAX_BW h) (\<lambda>h.
     ok_then (set_mba_min_bw_region_clos_v1 M marc (int j) (of_nat i) MBA_MAX_BW h) (\<lambda>h.
     ok_then (set_mba_max_bw_region_clos_v1 M marc (int j) (of_nat i) MBA_MAX_BW h)
       (reset_mba_loop M marc ps)))"

fun reset_mba_agents :: "'h mmio_os \<Rightarrow> nat \<Rightarrow> nat \<Rightarrow> pqos_cpu_agent_info list \<Rightarrow> 'h \<Rightarrow> (retval \<times> 'h) option" where
  "reset_mba_agents M max_clos n [] h = Some (PQOS_RETVAL_OK, h)"
| "reset_mba_agents M max_clos n (a # as) h =
     (if \<not> cpu_agent_has_mba a then reset_mba_agents M max_clos n as h
      else ok_then (reset_mba_loop M (cpu_marc a) (List.product [0..<max_clos] [0..<n]) h) (reset_mba_agents M max_clos n as))"

definition mmio_alloc_reset_mba :: "'h mmio_os \<Rightarrow> pqos_erdt_info \<Rightarrow> pqos_mrrm_info option \<Rightarrow> 'h \<Rightarrow> (retval \<times> 'h) option" where
  "mmio_alloc_reset_mba M erdt mrrm h =
     (case mmio_get_num_mem_regions mrrm of
        Inl e \<Rightarrow> Some (e, h)
      | Inr n \<Rightarrow> reset_mba_agents M (unat (erdt_max_clos erdt)) n (erdt_cpu_agents erdt) h)"

fun reset_cat_loop :: "'h mmio_os \<Rightarrow> pqos_device_agent_info \<Rightarrow> nat list \<Rightarrow> 'h \<Rightarrow> (retval \<times> 'h) option" where
  "reset_cat_loop M a [] h = Some (PQOS_RETVAL_OK, h)"
| "reset_cat_loop M a (i # is) h =
     (case io_l3_ways_mask a of
        None \<Rightarrow> None
      | Some m \<Rightarrow> ok_then (set_iol3_cbm_clos_v1 M (dev_card a) (of_nat i) m h) (reset_cat_loop M a is))"

fun reset_cat_agents :: "'h mmio_os \<Rightarrow> nat \<Rightarrow> pqos_device_agent_info list \<Rightarrow> 'h \<Rightarrow> (retval \<times> 'h) option" where
  "reset_cat_agents M max_clos [] h = Some (PQOS_RETVAL_OK, h)"
| "reset_cat_agents M max_clos (a # as) h =
     (if \<not> dev_agent_has_l3ca a then reset_cat_agents M max_clos as h
      else ok_then (reset_cat_loop M a [0..<max_clos] h) (reset_cat_agents M max_clos as))"

definition mmio_alloc_reset_cat :: "'h mmio_os \<Rightarrow> pqos_erdt_info \<Rightarrow> 'h \<Rightarrow> (retval \<times> 'h) option" where
  "mmio_alloc_reset_cat M erdt h = reset_cat_agents M (unat (erdt_max_clos erdt)) (erdt_dev_agents erdt) h"

text \<open>The whole reset: the registers of the MSR interface first.\<close>

definition mmio_alloc_reset :: "'h platform \<Rightarrow> 'h mmio_os \<Rightarrow> pqos_cap_l3ca res \<Rightarrow> pqos_cap_l2ca res \<Rightarrow> pqos_erdt_info \<Rightarrow>
    pqos_mrrm_info option \<Rightarrow> pqos_alloc_config option \<Rightarrow> 'h lib \<Rightarrow> (retval \<times> 'h lib) option" where
  "mmio_alloc_reset E M os_l3 os_l2 erdt mrrm cfg s =
     (case alloc_reset E os_l3 os_l2 cfg s of (ret, s) \<Rightarrow>
        if ret \<noteq> PQOS_RETVAL_OK then Some (ret, s)
        else map_option (\<lambda>(ret, h). (ret, s\<lparr>m_hw := h\<rparr>))
               (ok_then (mmio_alloc_reset_mba M erdt mrrm (m_hw s)) (mmio_alloc_reset_cat M erdt)))"

end
