(* ===== verification/MmioLimits.thy ===== *)
theory MmioLimits
  imports MmioAlloc
begin

text \<open>
  Bandwidth limits on the MMIO interface as an abstract table: the limit of each CPU domain, kind
  (optimal, minimal, maximal), class and memory region. Setting limits is an update of this table, reading
  delivers its entries, a reset fills it.
\<close>

section \<open>The table of limits\<close>

datatype bw_kind = BW_OPT | BW_MIN | BW_MAX

fun bw_base :: "bw_kind \<Rightarrow> pqos_erdt_marc \<Rightarrow> u64" where
  "bw_base BW_OPT = opt_bw_reg_block_base_addr"
| "bw_base BW_MIN = min_bw_reg_block_base_addr"
| "bw_base BW_MAX = max_bw_reg_block_base_addr"

type_synonym limit_key = "nat \<times> bw_kind \<times> u32 \<times> int"

text \<open>The agents of the domains that have limits, and the first byte and the size of a block.\<close>

definition mba_agent :: "pqos_erdt_info \<Rightarrow> nat \<Rightarrow> bool" where
  "mba_agent erdt i \<longleftrightarrow> i < length (erdt_cpu_agents erdt) \<and> cpu_agent_has_mba (erdt_cpu_agents erdt ! i)"

abbreviation agent_marc :: "pqos_erdt_info \<Rightarrow> nat \<Rightarrow> pqos_erdt_marc" where
  "agent_marc erdt i \<equiv> cpu_marc (erdt_cpu_agents erdt ! i)"

definition block_start :: "pqos_erdt_info \<Rightarrow> nat \<times> bw_kind \<Rightarrow> nat" where
  "block_start erdt b = unat (bw_base (snd b) (agent_marc erdt (fst b)))"

definition block_len :: "pqos_erdt_info \<Rightarrow> nat \<times> bw_kind \<Rightarrow> nat" where
  "block_len erdt b = unat (block_bytes (marc_reg_block_size (agent_marc erdt (fst b))))"

text \<open>
  A platform as the ERDT specification describes it: the blocks are large enough for the classes, lie in
  the address space, and do not overlap.
\<close>

definition wf_mba :: "pqos_erdt_info \<Rightarrow> bool" where
  "wf_mba erdt \<longleftrightarrow>
     unat (erdt_max_clos erdt) < 2 ^ 29 \<and>
     (\<forall>b. mba_agent erdt (fst b) \<longrightarrow>
        8 * unat (erdt_max_clos erdt) \<le> block_len erdt b \<and> block_start erdt b + block_len erdt b \<le> 2 ^ 64) \<and>
     (\<forall>b b'. mba_agent erdt (fst b) \<longrightarrow> mba_agent erdt (fst b') \<longrightarrow> b \<noteq> b' \<longrightarrow>
        block_start erdt b + block_len erdt b \<le> block_start erdt b' \<or>
        block_start erdt b' + block_len erdt b' \<le> block_start erdt b)"

definition mba_mapped :: "'h mmio_os \<Rightarrow> pqos_erdt_info \<Rightarrow> 'h \<Rightarrow> bool" where
  "mba_mapped M erdt h \<longleftrightarrow>
     (\<forall>i k. mba_agent erdt i \<longrightarrow>
        pqos_mmap_read M (bw_base k (agent_marc erdt i)) (block_bytes (marc_reg_block_size (agent_marc erdt i))) h \<and>
        pqos_mmap_write M (bw_base k (agent_marc erdt i)) (block_bytes (marc_reg_block_size (agent_marc erdt i))) h)"

definition mba_limit :: "'h mmio_os \<Rightarrow> pqos_erdt_info \<Rightarrow> 'h \<Rightarrow> limit_key \<Rightarrow> u32 option" where
  "mba_limit M erdt h = (\<lambda>(i, k, c, r).
     if mba_agent erdt i \<and> c < erdt_max_clos erdt
     then (case get_mba_bw_region_clos (bw_base k) M (agent_marc erdt i) r c h of Some (Inr v) \<Rightarrow> Some v | _ \<Rightarrow> None)
     else None)"

section \<open>Addresses\<close>

lemma clos_addr:
  assumes "unat c < 2 ^ 29" "0 \<le> r" "r < 4"
  shows "unat (get_clos_addr_by_region r c) = 8 * unat c"
proof -
  have "r div 4 = 0" using assms by simp
  then show ?thesis using assms(1)
    by (simp add: get_clos_addr_by_region_def BYTES_PER_CLOS_ENTRY_def unat_word_ariths)
qed

lemma words_apart:
  fixes x y :: u64
  assumes "unat x + 8 \<le> unat y" and "unat y + 8 \<le> 2 ^ 64"
  shows "8 \<le> x - y" "8 \<le> y - x"
proof -
  have "unat (y - x) = unat y - unat x" using assms(1) by (simp add: unat_sub word_le_nat_alt)
  then show "8 \<le> y - x" using assms(1) by (simp add: word_le_nat_alt)
  have "unat (x - y) = unat x + 2 ^ 64 - unat y" using assms(1) by (simp add: unat_sub_if')
  with assms show "8 \<le> x - y" by (simp add: word_le_nat_alt)
qed

text \<open>The registers of two different entries of the table do not overlap, unless they are regions of one class.\<close>

definition reg_addr :: "pqos_erdt_info \<Rightarrow> limit_key \<Rightarrow> u64" where
  "reg_addr erdt = (\<lambda>(i, k, c, r). bw_base k (agent_marc erdt i) + get_clos_addr_by_region r c)"

lemma reg_addr_nat:
  assumes "wf_mba erdt" "mba_agent erdt i" "c < erdt_max_clos erdt" "0 \<le> r" "r < 4"
  shows "unat (reg_addr erdt (i, k, c, r)) = block_start erdt (i, k) + 8 * unat c"
    and "8 * unat c + 8 \<le> block_len erdt (i, k)" and "block_start erdt (i, k) + block_len erdt (i, k) \<le> 2 ^ 64"
    and "in_block (block_bytes (marc_reg_block_size (agent_marc erdt i))) (get_clos_addr_by_region r c)"
proof -
  have wf: "8 * unat (erdt_max_clos erdt) \<le> block_len erdt (i, k)" "block_start erdt (i, k) + block_len erdt (i, k) \<le> 2 ^ 64"
      "unat (erdt_max_clos erdt) < 2 ^ 29"
    using assms(1,2) unfolding wf_mba_def by (metis fst_conv)+
  have c: "unat c < unat (erdt_max_clos erdt)" using assms(3) by (simp add: word_less_nat_alt)
  have off: "unat (get_clos_addr_by_region r c) = 8 * unat c" using c wf(3) assms(4,5) by (intro clos_addr) simp_all
  show len: "8 * unat c + 8 \<le> block_len erdt (i, k)" using c wf(1) by linarith
  show "block_start erdt (i, k) + block_len erdt (i, k) \<le> 2 ^ 64" by (fact wf(2))
  show "in_block (block_bytes (marc_reg_block_size (agent_marc erdt i))) (get_clos_addr_by_region r c)"
    using len off by (simp add: in_block_def block_len_def)
  have "block_start erdt (i, k) + 8 * unat c < 2 ^ 64" using len wf(2) by linarith
  then show "unat (reg_addr erdt (i, k, c, r)) = block_start erdt (i, k) + 8 * unat c"
    by (simp add: reg_addr_def unat_word_ariths off block_start_def)
qed

lemma regs_apart:
  assumes wf: "wf_mba erdt"
    and "mba_agent erdt i" "c < erdt_max_clos erdt" "0 \<le> r" "r < 4"
    and "mba_agent erdt j" "d < erdt_max_clos erdt" "0 \<le> q" "q < 4"
    and diff: "(i, k, c) \<noteq> (j, l, d)"
  shows "8 \<le> reg_addr erdt (j, l, d, q) - reg_addr erdt (i, k, c, r)"
proof -
  note a = reg_addr_nat(1-3) [OF wf assms(2-5), of k] and b = reg_addr_nat(1-3) [OF wf assms(6-9), of l]
  let ?x = "reg_addr erdt (i, k, c, r)" and ?y = "reg_addr erdt (j, l, d, q)"
  have "unat ?x + 8 \<le> unat ?y \<or> unat ?y + 8 \<le> unat ?x"
  proof (cases "(i, k) = (j, l)")
    case True
    with diff have "unat c \<noteq> unat d" by (simp add: word_unat_eq_iff)
    with True a(1) b(1) show ?thesis by auto
  next
    case False
    then have "block_start erdt (i, k) + block_len erdt (i, k) \<le> block_start erdt (j, l) \<or>
        block_start erdt (j, l) + block_len erdt (j, l) \<le> block_start erdt (i, k)"
      using wf assms(2,6) unfolding wf_mba_def by (metis fst_conv)
    with a b show ?thesis by linarith
  qed
  with words_apart [of ?x ?y] words_apart [of ?y ?x] a b show ?thesis by linarith
qed

section \<open>One limit\<close>

text \<open>The same blocks can be mapped.\<close>

definition same_maps :: "'h mmio_os \<Rightarrow> 'h \<Rightarrow> 'h \<Rightarrow> bool" where
  "same_maps M h h' \<longleftrightarrow>
     (\<forall>b n. pqos_mmap_read M b n h' = pqos_mmap_read M b n h \<and> pqos_mmap_write M b n h' = pqos_mmap_write M b n h)"

lemma same_maps_refl [simp]: "same_maps M h h"
  by (simp add: same_maps_def)

lemma same_maps_trans: "same_maps M g h \<Longrightarrow> same_maps M h k \<Longrightarrow> same_maps M g k"
  by (simp add: same_maps_def)

lemma mba_mapped_kept: "same_maps M h h' \<Longrightarrow> mba_mapped M erdt h' = mba_mapped M erdt h"
  by (simp add: same_maps_def mba_mapped_def)

lemma limit_elsewhere:
  assumes "mm_ld64 M (reg_addr erdt (i, k, c, r)) h' = mm_ld64 M (reg_addr erdt (i, k, c, r)) h"
    and "\<And>p n. pqos_mmap_read M p n h' = pqos_mmap_read M p n h"
  shows "mba_limit M erdt h' (i, k, c, r) = mba_limit M erdt h (i, k, c, r)"
  using assms by (auto simp: mba_limit_def get_mba_bw_region_clos_def reg_load_def reg_addr_def Let_def split: option.splits)

context mmio_registers
begin

text \<open>Setting a limit succeeds on a mapped block and updates one entry of the table.\<close>

lemma set_limit:
  assumes wf: "wf_mba erdt" and i: "mba_agent erdt i" and c: "c < erdt_max_clos erdt" and r: "0 \<le> r" "r < 4"
    and val: "val \<le> MBA_MAX_BW" and map: "mba_mapped M erdt h"
  obtains h' where "set_mba_bw_region_clos (bw_base k) M (agent_marc erdt i) r c val h = Some (PQOS_RETVAL_OK, h')"
    and "mba_limit M erdt h' = (mba_limit M erdt h)((i, k, c, r) \<mapsto> val)" and "same_maps M h h'"
proof -
  note here = reg_addr_nat(4) [OF wf i c r]
  have mapped: "pqos_mmap_read M (bw_base k (agent_marc erdt i)) (block_bytes (marc_reg_block_size (agent_marc erdt i))) h"
      "pqos_mmap_write M (bw_base k (agent_marc erdt i)) (block_bytes (marc_reg_block_size (agent_marc erdt i))) h"
    using map i by (simp_all add: mba_mapped_def)
  obtain h' where set: "set_mba_bw_region_clos (bw_base k) M (agent_marc erdt i) r c val h = Some (PQOS_RETVAL_OK, h')"
    using mapped here r
    by (simp add: set_mba_bw_region_clos_def Let_def PQOS_MAX_MEM_REGIONS_def reg_load_def reg_store_def set_region_value)
  have "mba_limit M erdt h' (j, l, d, q) = ((mba_limit M erdt h)((i, k, c, r) \<mapsto> val)) (j, l, d, q)" for j l d q
  proof (cases "mba_agent erdt j \<and> d < erdt_max_clos erdt \<and> 0 \<le> q \<and> q < 4")
    case False
    then have "mba_limit M erdt g (j, l, d, q) = None" for g
      by (auto simp: mba_limit_def get_mba_bw_region_clos_def PQOS_MAX_MEM_REGIONS_def Let_def)
    with False i c r show ?thesis by auto
  next
    case True
    consider "(j, l, d, q) = (i, k, c, r)" | "(j, l, d) = (i, k, c)" "q \<noteq> r" | "(j, l, d) \<noteq> (i, k, c)" by blast
    then show ?thesis
    proof cases
      case 1
      with bw_get_set [OF set val mapped(1)] i c show ?thesis by (simp add: mba_limit_def)
    next
      case 2
      with bw_other_region [OF set val, of q] show ?thesis by (simp add: mba_limit_def)
    next
      case 3
      have "mm_ld64 M (reg_addr erdt (j, l, d, q)) h' = mm_ld64 M (reg_addr erdt (j, l, d, q)) h"
        using bw_elsewhere [OF set] regs_apart [OF wf i c r, of j d q k l] regs_apart [OF wf _ _ _ _ i c r, of j d q l k] True 3
        by (auto simp: reg_addr_def)
      with 3 limit_elsewhere [OF _ bw_set_maps(1) [OF set]] show ?thesis by auto
    qed
  qed
  moreover have "same_maps M h h'" using bw_set_maps [OF set] by (simp add: same_maps_def)
  ultimately show ?thesis using set by (intro that) auto
qed

end

section \<open>Sequences of updates\<close>

text \<open>A step that succeeds on mapped blocks and applies the listed updates, the last one for an entry winning.\<close>

definition updates_limits :: "'h mmio_os \<Rightarrow> pqos_erdt_info \<Rightarrow> ('h \<Rightarrow> (retval \<times> 'h) option) \<Rightarrow> (limit_key \<times> u32) list \<Rightarrow> bool" where
  "updates_limits M erdt f us \<longleftrightarrow>
     (\<forall>h. mba_mapped M erdt h \<longrightarrow>
        (\<exists>h'. f h = Some (PQOS_RETVAL_OK, h') \<and> mba_limit M erdt h' = mba_limit M erdt h ++ map_of (rev us) \<and> same_maps M h h'))"

lemma updates_nothing: "updates_limits M erdt (\<lambda>h. Some (PQOS_RETVAL_OK, h)) []"
  by (simp add: updates_limits_def)

lemma updates_then:
  assumes "updates_limits M erdt f us" and "updates_limits M erdt g vs"
  shows "updates_limits M erdt (\<lambda>h. ok_then (f h) g) (us @ vs)"
  unfolding updates_limits_def
proof (intro allI impI)
  fix h assume m: "mba_mapped M erdt h"
  with assms(1) obtain h1 where 1: "f h = Some (PQOS_RETVAL_OK, h1)" "mba_limit M erdt h1 = mba_limit M erdt h ++ map_of (rev us)"
      "same_maps M h h1" by (auto simp: updates_limits_def)
  from m mba_mapped_kept [OF 1(3)] have "mba_mapped M erdt h1" by blast
  with assms(2) obtain h2 where "g h1 = Some (PQOS_RETVAL_OK, h2)" "mba_limit M erdt h2 = mba_limit M erdt h1 ++ map_of (rev vs)"
      "same_maps M h1 h2" by (auto simp: updates_limits_def)
  with 1 show "\<exists>h'. ok_then (f h) g = Some (PQOS_RETVAL_OK, h') \<and>
      mba_limit M erdt h' = mba_limit M erdt h ++ map_of (rev (us @ vs)) \<and> same_maps M h h'"
    by (auto simp: ok_then_def map_add_assoc intro: same_maps_trans)
qed

text \<open>The updates that requests ask for; -1 asks for nothing.\<close>

definition bw_updates :: "nat \<Rightarrow> u32 \<Rightarrow> int \<Rightarrow> bw_kind \<Rightarrow> int \<Rightarrow> (limit_key \<times> u32) list" where
  "bw_updates i c r k bw = (if bw = - 1 then [] else [((i, k, c, r), word_of_int bw)])"

definition region_updates :: "nat \<Rightarrow> u32 \<Rightarrow> pqos_mba_mem_region \<Rightarrow> (limit_key \<times> u32) list" where
  "region_updates i c reg =
     (if region_num reg = - 1 then []
      else bw_updates i c (region_num reg) BW_OPT (bw_opt reg) @ bw_updates i c (region_num reg) BW_MIN (bw_min reg) @
           bw_updates i c (region_num reg) BW_MAX (bw_max reg))"

definition request_updates :: "pqos_erdt_info \<Rightarrow> mmio_mba \<Rightarrow> (limit_key \<times> u32) list" where
  "request_updates erdt q =
     concat (map (region_updates (nat (get_cpu_agent_idx_by_domain_id erdt (mb_domain_id q))) (mb_class_id q)) (used_regions q))"

lemma cpu_agent_by_domain:
  assumes "get_mmio_cpu_agent_by_domain erdt d = Some a"
  defines "i \<equiv> nat (get_cpu_agent_idx_by_domain_id erdt d)"
  shows "i < length (erdt_cpu_agents erdt)" "a = erdt_cpu_agents erdt ! i"
  using assms by (auto simp: get_mmio_cpu_agent_by_domain_def get_cpu_agent_idx_by_domain_id_def Let_def split: if_splits)

lemma num_mem_regions_le: "mmio_get_num_mem_regions mrrm = Inr n \<Longrightarrow> n \<le> 4"
  by (auto simp: mmio_get_num_mem_regions_def PQOS_MAX_MEM_REGIONS_def split: option.splits if_splits)

lemma bw_ok_word:
  assumes "bw_ok bw" "bw \<noteq> - 1"
  shows "word_of_int bw \<le> MBA_MAX_BW"
  using assms by (simp add: bw_ok_def MBA_MAX_BW_def word_le_def unsigned_of_int take_bit_int_eq_self)

context mmio_registers
begin

lemma updates_set:
  assumes "wf_mba erdt" "mba_agent erdt i" "c < erdt_max_clos erdt" "0 \<le> r" "r < 4" "val \<le> MBA_MAX_BW"
  shows "updates_limits M erdt (set_mba_bw_region_clos (bw_base k) M (agent_marc erdt i) r c val) [((i, k, c, r), val)]"
  unfolding updates_limits_def
proof (intro allI impI)
  fix h assume "mba_mapped M erdt h"
  from set_limit [OF assms this, of k] obtain h' where
    "set_mba_bw_region_clos (bw_base k) M (agent_marc erdt i) r c val h = Some (PQOS_RETVAL_OK, h')"
    "mba_limit M erdt h' = (mba_limit M erdt h)((i, k, c, r) \<mapsto> val)" "same_maps M h h'" .
  then show "\<exists>h'. set_mba_bw_region_clos (bw_base k) M (agent_marc erdt i) r c val h = Some (PQOS_RETVAL_OK, h') \<and>
      mba_limit M erdt h' = mba_limit M erdt h ++ map_of (rev [((i, k, c, r), val)]) \<and> same_maps M h h'"
    by auto
qed

lemma updates_bw_write:
  assumes "wf_mba erdt" "mba_agent erdt i" "c < erdt_max_clos erdt" "0 \<le> r" "r < 4" "bw_ok bw"
  shows "updates_limits M erdt (bw_write (set_mba_bw_region_clos (bw_base k) M (agent_marc erdt i)) r c bw) (bw_updates i c r k bw)"
proof (cases "bw = - 1")
  case True
  then show ?thesis using updates_nothing [of M erdt] by (simp add: bw_write_def bw_updates_def [abs_def] fun_eq_iff updates_limits_def)
next
  case False
  with assms(6) have "word_of_int bw \<le> MBA_MAX_BW" by (intro bw_ok_word)
  from updates_set [OF assms(1-5) this, of k] False show ?thesis
    by (simp add: bw_write_def [abs_def] bw_updates_def updates_limits_def)
qed

lemma updates_set_region:
  assumes "wf_mba erdt" "mba_agent erdt i" "c < erdt_max_clos erdt" "region_ok n reg" "n \<le> 4"
  shows "updates_limits M erdt (set_region_mba M (agent_marc erdt i) c reg) (region_updates i c reg)"
proof (cases "region_num reg = - 1")
  case True
  then show ?thesis using updates_nothing by (simp add: set_region_mba_def [abs_def] region_updates_def updates_limits_def)
next
  case False
  with assms(4,5) have r: "0 \<le> region_num reg" "region_num reg < 4" "bw_ok (bw_opt reg)" "bw_ok (bw_min reg)" "bw_ok (bw_max reg)"
    by (auto simp: region_ok_def)
  note w = updates_bw_write [OF assms(1-3) r(1,2)]
  from updates_then [OF w [OF r(3), of BW_OPT] updates_then [OF w [OF r(4), of BW_MIN] w [OF r(5), of BW_MAX]]] False
  show ?thesis
    by (simp add: set_region_mba_def [abs_def] region_updates_def set_mba_optimal_bw_region_clos_v1_def
        set_mba_min_bw_region_clos_v1_def set_mba_max_bw_region_clos_v1_def)
qed

lemma updates_set_regions:
  assumes "wf_mba erdt" "mba_agent erdt i" "c < erdt_max_clos erdt" "\<forall>reg\<in>set regs. region_ok n reg" "n \<le> 4"
  shows "updates_limits M erdt (set_regions_loop M (agent_marc erdt i) c regs) (concat (map (region_updates i c) regs))"
  using assms(4)
proof (induction regs)
  case Nil
  show ?case using updates_nothing by (simp add: updates_limits_def)
next
  case (Cons reg regs)
  have "updates_limits M erdt (set_region_mba M (agent_marc erdt i) c reg) (region_updates i c reg)"
    using Cons.prems by (intro updates_set_region [OF assms(1-3) _ assms(5)]) simp
  from updates_then [OF this Cons.IH] Cons.prems show ?case by (simp add: updates_limits_def)
qed

end

section \<open>Reading\<close>

definition read_region :: "'h mmio_os \<Rightarrow> pqos_erdt_info \<Rightarrow> 'h \<Rightarrow> nat \<Rightarrow> u32 \<Rightarrow> pqos_mba_mem_region \<Rightarrow> pqos_mba_mem_region" where
  "read_region M erdt h i c reg =
     reg\<lparr>bw_opt := sint (the (mba_limit M erdt h (i, BW_OPT, c, region_num reg))),
         bw_min := sint (the (mba_limit M erdt h (i, BW_MIN, c, region_num reg))),
         bw_max := sint (the (mba_limit M erdt h (i, BW_MAX, c, region_num reg)))\<rparr>"

lemma limit_read:
  assumes "wf_mba erdt" "mba_agent erdt i" "c < erdt_max_clos erdt" "0 \<le> r" "r < 4" "mba_mapped M erdt h"
  shows "get_mba_bw_region_clos (bw_base k) M (agent_marc erdt i) r c h = Some (Inr (the (mba_limit M erdt h (i, k, c, r))))"
    and "mba_limit M erdt h (i, k, c, r) \<noteq> None"
proof -
  have "pqos_mmap_read M (bw_base k (agent_marc erdt i)) (block_bytes (marc_reg_block_size (agent_marc erdt i))) h"
    using assms(2,6) by (simp add: mba_mapped_def)
  then obtain v where "get_mba_bw_region_clos (bw_base k) M (agent_marc erdt i) r c h = Some (Inr v)"
    using assms(4,5) reg_addr_nat(4) [OF assms(1-5)]
    by (simp add: get_mba_bw_region_clos_def Let_def PQOS_MAX_MEM_REGIONS_def reg_load_def get_region_value)
  then show "get_mba_bw_region_clos (bw_base k) M (agent_marc erdt i) r c h = Some (Inr (the (mba_limit M erdt h (i, k, c, r))))"
    and "mba_limit M erdt h (i, k, c, r) \<noteq> None"
    using assms(2,3) by (simp_all add: mba_limit_def)
qed

lemma region_read:
  assumes "wf_mba erdt" "mba_agent erdt i" "c < erdt_max_clos erdt" "0 \<le> region_num reg" "region_num reg < 4" "mba_mapped M erdt h"
  shows "get_region_mba M (erdt_cpu_agents erdt ! i) c reg h = Some (PQOS_RETVAL_OK, read_region M erdt h i c reg)"
  using limit_read(1) [OF assms, of BW_OPT] limit_read(1) [OF assms, of BW_MIN] limit_read(1) [OF assms, of BW_MAX]
  by (simp add: get_region_mba_def get_mba_optimal_bw_region_clos_v1_def get_mba_min_bw_region_clos_v1_def
      get_mba_max_bw_region_clos_v1_def read_region_def Let_def)

lemma regions_read:
  assumes "wf_mba erdt" "mba_agent erdt i" "c < erdt_max_clos erdt" "mba_mapped M erdt h"
    and "distinct js" "\<forall>j\<in>set js. j < 4 \<and> j < length regs"
  shows "\<exists>regs'. get_regions_loop M (erdt_cpu_agents erdt ! i) c js regs h = Some (Inr regs') \<and> length regs' = length regs \<and>
    (\<forall>j<length regs. regs' ! j = (if j \<in> set js then read_region M erdt h i c ((regs ! j)\<lparr>region_num := int j\<rparr>) else regs ! j))"
  using assms(5,6)
proof (induction js arbitrary: regs)
  case Nil
  then show ?case by simp
next
  case (Cons j js)
  let ?reg = "read_region M erdt h i c ((regs ! j)\<lparr>region_num := int j\<rparr>)"
  have now: "get_region_mba M (erdt_cpu_agents erdt ! i) c ((regs ! j)\<lparr>region_num := int j\<rparr>) h = Some (PQOS_RETVAL_OK, ?reg)"
    using Cons.prems by (intro region_read [OF assms(1-3) _ _ assms(4)]) simp_all
  from Cons.IH [of "regs[j := ?reg]"] Cons.prems now show ?case
    by (auto simp: nth_list_update split: if_splits)
qed

lemma actual_read:
  assumes "wf_mba erdt" "mba_agent erdt i" "c < erdt_max_clos erdt" "mba_mapped M erdt h"
    and "distinct js" "\<forall>j\<in>set js. j < length regs \<and> (region_num (regs ! j) = - 1 \<or> 0 \<le> region_num (regs ! j) \<and> region_num (regs ! j) < 4)"
  shows "\<exists>regs'. actual_loop M (erdt_cpu_agents erdt ! i) c js regs h = Some (PQOS_RETVAL_OK, regs')"
  using assms(5,6)
proof (induction js arbitrary: regs)
  case Nil
  then show ?case by simp
next
  case (Cons j js)
  show ?case
  proof (cases "region_num (regs ! j) = - 1")
    case True
    with Cons show ?thesis by simp
  next
    case False
    let ?reg = "read_region M erdt h i c (regs ! j)"
    have "get_region_mba M (erdt_cpu_agents erdt ! i) c (regs ! j) h = Some (PQOS_RETVAL_OK, ?reg)"
      using Cons.prems False by (intro region_read [OF assms(1-3) _ _ assms(4)]) auto
    moreover have "\<exists>regs'. actual_loop M (erdt_cpu_agents erdt ! i) c js (regs[j := ?reg]) h = Some (PQOS_RETVAL_OK, regs')"
      using Cons.prems by (intro Cons.IH) (auto simp: nth_list_update)
    ultimately show ?thesis using False by simp
  qed
qed

section \<open>Setting\<close>

lemma request_valid:
  assumes "mmio_mba_check_request erdt n q = PQOS_RETVAL_OK" "n \<le> 4"
  defines "i \<equiv> nat (get_cpu_agent_idx_by_domain_id erdt (mb_domain_id q))"
  shows "get_mmio_cpu_agent_by_domain erdt (mb_domain_id q) = Some (erdt_cpu_agents erdt ! i)" "mba_agent erdt i"
    "mb_class_id q < erdt_max_clos erdt" "\<forall>reg\<in>set (used_regions q). region_ok n reg" "nat (mb_num_mem_regions q) \<le> n"
  using assms(1) cpu_agent_by_domain [of erdt "mb_domain_id q"]
  by (auto simp: mmio_mba_check_request_def mba_agent_def i_def not_le split: option.splits if_splits)

lemma check_requests_ok: "check_requests erdt n qs = PQOS_RETVAL_OK \<longleftrightarrow> (\<forall>q\<in>set qs. mmio_mba_check_request erdt n q = PQOS_RETVAL_OK)"
  by (induction qs) (auto simp: Let_def)

lemma check_request_param: "mmio_mba_check_request erdt n q \<noteq> PQOS_RETVAL_OK \<Longrightarrow> mmio_mba_check_request erdt n q = PQOS_RETVAL_PARAM"
  by (auto simp: mmio_mba_check_request_def split: option.splits if_splits)

lemma check_requests_param: "check_requests erdt n qs \<noteq> PQOS_RETVAL_OK \<Longrightarrow> check_requests erdt n qs = PQOS_RETVAL_PARAM"
  by (induction qs) (auto simp: Let_def dest: check_request_param)

text \<open>The four entries of a request's array.\<close>

definition wf_request :: "mmio_mba \<Rightarrow> bool" where
  "wf_request q \<longleftrightarrow> length (mb_mem_regions q) = PQOS_MAX_MEM_REGIONS"

context mmio_registers
begin

lemma mba_set_loop_updates:
  assumes "wf_mba erdt" "n \<le> 4" "\<forall>q\<in>set qs. wf_request q \<and> mmio_mba_check_request erdt n q = PQOS_RETVAL_OK" "mba_mapped M erdt h"
  shows "\<exists>act h'. mba_set_loop M erdt want qs h = Some (PQOS_RETVAL_OK, act, h') \<and>
    mba_limit M erdt h' = mba_limit M erdt h ++ map_of (rev (concat (map (request_updates erdt) qs)))"
  using assms(3,4)
proof (induction qs arbitrary: h)
  case Nil
  then show ?case by simp
next
  case (Cons q qs)
  define i where "i = nat (get_cpu_agent_idx_by_domain_id erdt (mb_domain_id q))"
  have "mmio_mba_check_request erdt n q = PQOS_RETVAL_OK" using Cons.prems by simp
  note q = request_valid [OF this assms(2), folded i_def]
  from updates_set_regions [OF assms(1) q(2,3,4) assms(2)] Cons.prems(2) obtain h1 where
    0: "set_regions_loop M (agent_marc erdt i) (mb_class_id q) (used_regions q) h = Some (PQOS_RETVAL_OK, h1)"
      "mba_limit M erdt h1 = mba_limit M erdt h ++ map_of (rev (request_updates erdt q))" "same_maps M h h1"
    by (auto simp: updates_limits_def request_updates_def i_def)
  have "mba_mapped M erdt h1" using mba_mapped_kept [OF 0(3)] Cons.prems(2) by blast
  note 1 = 0(1,2) this
  have "\<forall>j\<in>set [0..<nat (mb_num_mem_regions q)]. j < length (mb_mem_regions q) \<and>
      (region_num (mb_mem_regions q ! j) = - 1 \<or> 0 \<le> region_num (mb_mem_regions q ! j) \<and> region_num (mb_mem_regions q ! j) < 4)"
  proof
    fix j assume "j \<in> set [0..<nat (mb_num_mem_regions q)]"
    moreover from this q(5) assms(2) Cons.prems(1) have "j < length (mb_mem_regions q)"
      by (simp add: wf_request_def PQOS_MAX_MEM_REGIONS_def)
    ultimately have "j < length (mb_mem_regions q)" "mb_mem_regions q ! j \<in> set (used_regions q)"
      by (auto simp: used_regions_def in_set_conv_nth intro!: exI [of _ j])
    with q(4) assms(2) show "j < length (mb_mem_regions q) \<and>
        (region_num (mb_mem_regions q ! j) = - 1 \<or> 0 \<le> region_num (mb_mem_regions q ! j) \<and> region_num (mb_mem_regions q ! j) < 4)"
      by (force simp: region_ok_def)
  qed
  from actual_read [OF assms(1) q(2,3) 1(3) _ this] obtain regs where
    act: "actual_loop M (erdt_cpu_agents erdt ! i) (mb_class_id q) [0..<nat (mb_num_mem_regions q)] (mb_mem_regions q) h1 =
      Some (PQOS_RETVAL_OK, regs)" by auto
  from Cons.IH [OF _ 1(3)] Cons.prems obtain as h2 where
    "mba_set_loop M erdt want qs h1 = Some (PQOS_RETVAL_OK, as, h2)"
    "mba_limit M erdt h2 = mba_limit M erdt h1 ++ map_of (rev (concat (map (request_updates erdt) qs)))" by auto
  with q(1) 1(1,2) act show ?case by (cases want) (auto simp: map_add_assoc)
qed

end

text \<open>
  C15. Setting bandwidth limits on the MMIO interface is an update of the table of limits, or nothing. On a
  platform whose register blocks can be mapped and do not overlap, \<open>mmio_mba_set\<close> returns for every list of
  requests: if all of them are valid it succeeds, and every limit (of each domain, kind, class and memory region)
  is then the one that the last request for it asks for, or what it was; if one is not valid it answers
  \<open>PQOS_RETVAL_PARAM\<close> and no register has changed.
\<close>

theorem mmio_mba_set_refines:
  assumes "mmio_registers M" "wf_mba erdt" "mba_mapped M erdt h" "mmio_get_num_mem_regions mrrm = Inr n"
    and "\<forall>q\<in>set requested. wf_request q"
  shows "if \<forall>q\<in>set requested. mmio_mba_check_request erdt n q = PQOS_RETVAL_OK
    then \<exists>act h'. mmio_mba_set M erdt mrrm requested want h = Some (PQOS_RETVAL_OK, act, h') \<and>
           mba_limit M erdt h' = mba_limit M erdt h ++ map_of (rev (concat (map (request_updates erdt) requested)))
    else mmio_mba_set M erdt mrrm requested want h = Some (PQOS_RETVAL_PARAM, [], h)"
proof (cases "check_requests erdt n requested = PQOS_RETVAL_OK")
  case True
  with assms(5) have "\<forall>q\<in>set requested. wf_request q \<and> mmio_mba_check_request erdt n q = PQOS_RETVAL_OK"
    by (simp add: check_requests_ok)
  from mmio_registers.mba_set_loop_updates [OF assms(1,2) num_mem_regions_le [OF assms(4)] this assms(3), of want] True
  show ?thesis by (simp add: mmio_mba_set_def assms(4) check_requests_ok)
next
  case False
  then show ?thesis using check_requests_param [OF False] False
    by (simp add: mmio_mba_set_def assms(4) flip: check_requests_ok)
qed

section \<open>The table through the public reader\<close>

lemma of_nat_less_u32:
  fixes m :: u32
  assumes "c < unat m"
  shows "of_nat c < m"
proof -
  have "c < 4294967296" using assms unat_less_u32 [of m] by linarith
  with assms show ?thesis by (simp add: word_less_nat_alt unat_of_nat_u32)
qed

lemma mba_get_loop_reads:
  assumes "wf_mba erdt" "mba_agent erdt i" "mba_mapped M erdt h" "n \<le> 4"
    and "distinct cs" "\<forall>c\<in>set cs. c < unat (erdt_max_clos erdt) \<and> c < length tab \<and> length (mb_mem_regions (tab ! c)) = 4"
  shows "\<exists>tab'. mba_get_loop M (erdt_cpu_agents erdt ! i) n d cs tab h = Some (Inr tab') \<and> length tab' = length tab \<and>
    (\<forall>c<length tab. if c \<in> set cs
       then mb_class_id (tab' ! c) = of_nat c \<and> mb_domain_id (tab' ! c) = d \<and> mb_num_mem_regions (tab' ! c) = int n \<and>
            (\<forall>r<n. mb_mem_regions (tab' ! c) ! r =
                read_region M erdt h i (of_nat c) ((mb_mem_regions (tab ! c) ! r)\<lparr>region_num := int r\<rparr>))
       else tab' ! c = tab ! c)"
  using assms(5,6)
proof (induction cs arbitrary: tab)
  case Nil
  then show ?case by simp
next
  case (Cons c cs)
  have "of_nat c < erdt_max_clos erdt"
    using Cons.prems by (simp add: of_nat_less_u32)
  from regions_read [OF assms(1,2) this assms(3), of "[0..<n]" "mb_mem_regions (tab ! c)"] Cons.prems assms(4)
  obtain regs where regs: "get_regions_mba M (erdt_cpu_agents erdt ! i) (of_nat c) n (mb_mem_regions (tab ! c)) h = Some (Inr regs)"
    "\<forall>r<n. regs ! r = read_region M erdt h i (of_nat c) ((mb_mem_regions (tab ! c) ! r)\<lparr>region_num := int r\<rparr>)"
    by (auto simp: get_regions_mba_def)
  define t where "t = (tab ! c)\<lparr>mb_ctrl := False, mb_class_id := of_nat c, mb_max := 0, mb_domain_id := d,
                     mb_num_mem_regions := int n, mb_mem_regions := regs\<rparr>"
  have "\<forall>b\<in>set cs. b < unat (erdt_max_clos erdt) \<and> b < length (tab[c := t]) \<and> length (mb_mem_regions (tab[c := t] ! b)) = 4"
    using Cons.prems by (auto simp: nth_list_update)
  from Cons.IH [OF _ this] Cons.prems(1) obtain tab' where
    tab': "mba_get_loop M (erdt_cpu_agents erdt ! i) n d cs (tab[c := t]) h = Some (Inr tab')" "length tab' = length tab"
    "\<forall>b<length tab. if b \<in> set cs
       then mb_class_id (tab' ! b) = of_nat b \<and> mb_domain_id (tab' ! b) = d \<and> mb_num_mem_regions (tab' ! b) = int n \<and>
            (\<forall>r<n. mb_mem_regions (tab' ! b) ! r =
                read_region M erdt h i (of_nat b) ((mb_mem_regions (tab[c := t] ! b) ! r)\<lparr>region_num := int r\<rparr>))
       else tab' ! b = tab[c := t] ! b"
    by auto
  show ?case
  proof (intro exI [of _ tab'] conjI allI impI)
    show "mba_get_loop M (erdt_cpu_agents erdt ! i) n d (c # cs) tab h = Some (Inr tab')" using tab'(1) regs(1) by (simp add: t_def)
    show "length tab' = length tab" by (fact tab'(2))
    fix b assume b: "b < length tab"
    show "if b \<in> set (c # cs)
       then mb_class_id (tab' ! b) = of_nat b \<and> mb_domain_id (tab' ! b) = d \<and> mb_num_mem_regions (tab' ! b) = int n \<and>
            (\<forall>r<n. mb_mem_regions (tab' ! b) ! r =
                read_region M erdt h i (of_nat b) ((mb_mem_regions (tab ! b) ! r)\<lparr>region_num := int r\<rparr>))
       else tab' ! b = tab ! b"
      using tab'(3) [rule_format, OF b] Cons.prems(1) regs(2) b by (cases "b = c") (auto simp: nth_list_update t_def)
  qed
qed

text \<open>
  Reading the limits of a domain delivers the table: on a mapped platform \<open>mmio_mba_get\<close>, asked for all memory regions
  of a domain with bandwidth registers, returns for every class and every region of the platform
  the optimal, minimal and maximal limit that the table holds, so that what \<open>mmio_mba_set\<close> wrote is what is read.
\<close>

theorem mmio_mba_get_table:
  assumes "wf_mba erdt" "mba_mapped M erdt h" "mmio_get_num_mem_regions mrrm = Inr n"
    and "unat (erdt_max_clos erdt) \<le> length tab" "0 < length tab" "\<forall>t\<in>set tab. wf_request t" "mb_num_mem_regions (tab ! 0) = 0"
    and "get_cpu_agent_idx_by_domain_id erdt (mb_domain_id (tab ! 0)) = int i" "mba_agent erdt i"
  shows "\<exists>tab'. mmio_mba_get M erdt mrrm tab h = Some (Inr tab') \<and> length tab' = length tab \<and>
    (\<forall>c<unat (erdt_max_clos erdt). \<forall>r<n.
       let reg = mb_mem_regions (tab' ! c) ! r
       in region_num reg = int r \<and>
          bw_opt reg = sint (the (mba_limit M erdt h (i, BW_OPT, of_nat c, int r))) \<and>
          bw_min reg = sint (the (mba_limit M erdt h (i, BW_MIN, of_nat c, int r))) \<and>
          bw_max reg = sint (the (mba_limit M erdt h (i, BW_MAX, of_nat c, int r))))"
proof -
  have n: "n \<le> 4" by (rule num_mem_regions_le [OF assms(3)])
  have agent: "get_mmio_cpu_agent_by_domain erdt (mb_domain_id (tab ! 0)) = Some (erdt_cpu_agents erdt ! i)"
    by (simp add: get_mmio_cpu_agent_by_domain_def assms(8))
  have "\<forall>c\<in>set [0..<unat (erdt_max_clos erdt)]. c < unat (erdt_max_clos erdt) \<and> c < length tab \<and> length (mb_mem_regions (tab ! c)) = 4"
    using assms(4,6) by (auto simp: wf_request_def PQOS_MAX_MEM_REGIONS_def)
  from mba_get_loop_reads [OF assms(1,9,2) n _ this, of "mb_domain_id (tab ! 0)"] obtain tab' where
    tab': "mba_get_loop M (erdt_cpu_agents erdt ! i) n (mb_domain_id (tab ! 0)) [0..<unat (erdt_max_clos erdt)] tab h = Some (Inr tab')"
      "length tab' = length tab"
      "\<And>c r. c < unat (erdt_max_clos erdt) \<Longrightarrow> r < n \<Longrightarrow> mb_mem_regions (tab' ! c) ! r =
         read_region M erdt h i (of_nat c) ((mb_mem_regions (tab ! c) ! r)\<lparr>region_num := int r\<rparr>)"
    using assms(4) by auto
  have "mmio_mba_get M erdt mrrm tab h = Some (Inr tab')"
    using assms(4,7,9) tab'(1) by (simp add: mmio_mba_get_def assms(3) agent mba_agent_def Let_def)
  with tab'(2,3) show ?thesis by (auto simp: read_region_def Let_def intro!: exI [of _ tab'])
qed

section \<open>Reset\<close>

context mmio_registers
begin

lemma updates_reset_loop:
  assumes "wf_mba erdt" "mba_agent erdt i" "\<forall>(c, r)\<in>set ps. c < unat (erdt_max_clos erdt) \<and> r < 4"
  shows "updates_limits M erdt (reset_mba_loop M (agent_marc erdt i) ps)
    (concat (map (\<lambda>(c, r). map (\<lambda>k. ((i, k, of_nat c, int r), MBA_MAX_BW)) [BW_OPT, BW_MIN, BW_MAX]) ps))"
  using assms(3)
proof (induction ps)
  case Nil
  show ?case using updates_nothing by (simp add: updates_limits_def)
next
  case (Cons p ps)
  obtain c r where p: "p = (c, r)" by (cases p)
  have c: "of_nat c < erdt_max_clos erdt"
    using Cons.prems p by (simp add: of_nat_less_u32)
  have r: "0 \<le> int r" "int r < 4" using Cons.prems p by auto
  note w = updates_set [OF assms(1,2) c r order.refl]
  from updates_then [OF w [of BW_OPT] updates_then [OF w [of BW_MIN] updates_then [OF w [of BW_MAX] Cons.IH]]] Cons.prems
  show ?case
    by (simp add: p updates_limits_def set_mba_optimal_bw_region_clos_v1_def set_mba_min_bw_region_clos_v1_def
        set_mba_max_bw_region_clos_v1_def)
qed

lemma updates_reset_agents:
  assumes "wf_mba erdt" "n \<le> 4" "as = drop m (erdt_cpu_agents erdt)"
  shows "\<exists>us. updates_limits M erdt (reset_mba_agents M (unat (erdt_max_clos erdt)) n as) us \<and> (\<forall>u\<in>set us. snd u = MBA_MAX_BW) \<and>
    (\<forall>i k c r. m \<le> i \<longrightarrow> mba_agent erdt i \<longrightarrow> c < unat (erdt_max_clos erdt) \<longrightarrow> r < n \<longrightarrow> (i, k, of_nat c, int r) \<in> fst ` set us)"
  using assms(3)
proof (induction as arbitrary: m)
  case Nil
  then have "\<not> (m \<le> i \<and> mba_agent erdt i)" for i by (auto simp: mba_agent_def)
  then show ?case using updates_nothing [of M erdt] by (intro exI [of _ "[]"]) (auto simp: updates_limits_def)
next
  case (Cons a as)
  have m: "m < length (erdt_cpu_agents erdt)" "a = erdt_cpu_agents erdt ! m" "as = drop (Suc m) (erdt_cpu_agents erdt)"
    using Cons.prems by (metis drop_all list.distinct(1) not_le, metis hd_drop_conv_nth drop_all list.distinct(1) list.sel(1) not_le,
        metis drop_Suc list.sel(3) tl_drop)
  from Cons.IH [OF m(3)] obtain us where us: "updates_limits M erdt (reset_mba_agents M (unat (erdt_max_clos erdt)) n as) us"
    "\<forall>u\<in>set us. snd u = MBA_MAX_BW"
    "\<And>i k c r. Suc m \<le> i \<Longrightarrow> mba_agent erdt i \<Longrightarrow> c < unat (erdt_max_clos erdt) \<Longrightarrow> r < n \<Longrightarrow> (i, k, of_nat c, int r) \<in> fst ` set us"
    by blast
  show ?case
  proof (cases "cpu_agent_has_mba a")
    case False
    then have "m \<noteq> i" if "mba_agent erdt i" for i using that m(2) by (auto simp: mba_agent_def)
    with us False show ?thesis by (intro exI [of _ us]) (auto simp: updates_limits_def Suc_le_eq order.strict_iff_order)
  next
    case True
    let ?ps = "List.product [0..<unat (erdt_max_clos erdt)] [0..<n]"
    let ?vs = "concat (map (\<lambda>(c, r). map (\<lambda>k. ((m, k, of_nat c, int r), MBA_MAX_BW)) [BW_OPT, BW_MIN, BW_MAX]) ?ps)"
    have "updates_limits M erdt (reset_mba_loop M (cpu_marc a) ?ps) ?vs"
    proof -
      have "\<forall>(c, r)\<in>set ?ps. c < unat (erdt_max_clos erdt) \<and> r < 4" using assms(2) by auto
      moreover have "mba_agent erdt m" using m True by (simp add: mba_agent_def)
      ultimately show ?thesis using updates_reset_loop [OF assms(1), of m ?ps] m(2) by blast
    qed
    from updates_then [OF this us(1)] True
    have 1: "updates_limits M erdt (reset_mba_agents M (unat (erdt_max_clos erdt)) n (a # as)) (?vs @ us)"
      by (simp add: updates_limits_def)
    have 2: "(m, k, of_nat c, int r) \<in> fst ` set ?vs" if "c < unat (erdt_max_clos erdt)" "r < n" for k c r
      using that by (cases k) force+
    have "(i, k, of_nat c, int r) \<in> fst ` set (?vs @ us)"
      if "m \<le> i" "mba_agent erdt i" "c < unat (erdt_max_clos erdt)" "r < n" for i k c r
    proof (cases "i = m")
      case True
      with 2 [OF that(3,4), of k] show ?thesis by (simp only: set_append image_Un Un_iff) blast
    next
      case False
      with us(3) [of i c r k] that show ?thesis by (simp only: set_append image_Un Un_iff) simp
    qed
    moreover have "\<forall>u\<in>set (?vs @ us). snd u = MBA_MAX_BW" using us(2) by auto
    ultimately show ?thesis using 1 by blast
  qed
qed

end

text \<open>
  Resetting the limits: on a mapped platform \<open>mmio_alloc_reset_mba\<close> succeeds, and every limit of every class and memory
  region, in every domain that has bandwidth registers, is the maximum.
\<close>

theorem mmio_reset_mba:
  assumes "mmio_registers M" "wf_mba erdt" "mba_mapped M erdt h" "mmio_get_num_mem_regions mrrm = Inr n"
  shows "\<exists>h'. mmio_alloc_reset_mba M erdt mrrm h = Some (PQOS_RETVAL_OK, h') \<and> same_maps M h h' \<and>
    (\<forall>i k c r. mba_agent erdt i \<longrightarrow> c < unat (erdt_max_clos erdt) \<longrightarrow> r < n \<longrightarrow>
       mba_limit M erdt h' (i, k, of_nat c, int r) = Some MBA_MAX_BW)"
proof -
  from mmio_registers.updates_reset_agents [OF assms(1,2) num_mem_regions_le [OF assms(4)], of "erdt_cpu_agents erdt" 0]
  obtain us where us: "updates_limits M erdt (reset_mba_agents M (unat (erdt_max_clos erdt)) n (erdt_cpu_agents erdt)) us"
    "\<forall>u\<in>set us. snd u = MBA_MAX_BW"
    "\<And>i k c r. mba_agent erdt i \<Longrightarrow> c < unat (erdt_max_clos erdt) \<Longrightarrow> r < n \<Longrightarrow> (i, k, of_nat c, int r) \<in> fst ` set us" by auto
  from us(1) assms(3) obtain h' where h': "reset_mba_agents M (unat (erdt_max_clos erdt)) n (erdt_cpu_agents erdt) h = Some (PQOS_RETVAL_OK, h')"
    "mba_limit M erdt h' = mba_limit M erdt h ++ map_of (rev us)" "same_maps M h h'" by (auto simp: updates_limits_def)
  have "map_of (rev us) key = Some MBA_MAX_BW" if "key \<in> fst ` set us" for key
  proof -
    from that have "map_of (rev us) key \<noteq> None" by (simp add: map_of_eq_None_iff)
    then obtain v where "map_of (rev us) key = Some v" by blast
    moreover from this us(2) have "v = MBA_MAX_BW" by (force dest: map_of_SomeD)
    ultimately show ?thesis by simp
  qed
  with us(3) have "mba_limit M erdt h' (i, k, of_nat c, int r) = Some MBA_MAX_BW"
    if "mba_agent erdt i" "c < unat (erdt_max_clos erdt)" "r < n" for i k c r
    using that by (simp add: h'(2) map_add_Some_iff)
  with h'(1,3) show ?thesis by (simp add: mmio_alloc_reset_mba_def assms(4))
qed

section \<open>A platform\<close>

text \<open>Two CPU domains, the second without bandwidth registers; 4 classes; two memory regions.\<close>

definition sample_rmdd :: "u16 \<Rightarrow> pqos_erdt_rmdd" where
  "sample_rmdd d = \<lparr>rmdd_flags = 1, rmdd_num_io_l3_slices = 1, rmdd_num_io_l3_sets = 1, rmdd_num_io_l3_ways = 8, rmdd_domain_id = d,
     rmdd_max_rmids = 16, rmdd_control_reg_base_addr = 0x80000, rmdd_control_reg_size = 1\<rparr>"

definition sample_cmrc :: pqos_erdt_cmrc where
  "sample_cmrc = \<lparr>cmrc_flags = 0, cmrc_reg_index_func_ver = 1, cmrc_block_base_addr = 0x90000, cmrc_block_size = 1,
     cmrc_clump_size = 4, cmrc_clump_stride = 64, cmrc_upscaling_factor = 64\<rparr>"

definition sample_marc :: pqos_erdt_marc where
  "sample_marc = \<lparr>marc_flags = 0, marc_reg_index_func_ver = 1, opt_bw_reg_block_base_addr = 0x10000,
     min_bw_reg_block_base_addr = 0x11000, max_bw_reg_block_base_addr = 0x12000, marc_reg_block_size = 1, marc_control_window_range = 0\<rparr>"

definition no_marc :: pqos_erdt_marc where
  "no_marc = \<lparr>marc_flags = 0, marc_reg_index_func_ver = 0, opt_bw_reg_block_base_addr = 0,
     min_bw_reg_block_base_addr = 0, max_bw_reg_block_base_addr = 0, marc_reg_block_size = 0, marc_control_window_range = 0\<rparr>"

definition sample_agent :: "u16 \<Rightarrow> u32 list \<Rightarrow> pqos_erdt_marc \<Rightarrow> pqos_cpu_agent_info" where
  "sample_agent d ids marc = \<lparr>cpu_rmdd = sample_rmdd d, cpu_cacd = \<lparr>cacd_rmdd_domain_id = d, cacd_enumeration_ids = ids\<rparr>,
     cpu_cmrc = sample_cmrc, cpu_mmrc = sample_mmrc, cpu_marc = marc\<rparr>"

definition sample_card :: pqos_erdt_card where
  "sample_card = \<lparr>card_contention_bitmask_valid = 0, card_non_contiguous_cbm = 0, card_zero_length_bitmask = 0,
     card_contention_bitmask = 0, card_reg_index_func_ver = 1, card_reg_base_addr = 0x20000, card_reg_block_size = 2,
     card_cat_reg_offset = 0x100, card_cat_reg_block_size = 1\<rparr>"

definition sample_cmrd :: pqos_erdt_cmrd where
  "sample_cmrd = \<lparr>cmrd_flags = 0, cmrd_reg_index_func_ver = 1, cmrd_reg_base_addr = 0x30000, cmrd_reg_block_size = 1,
     cmrd_offset = 0, cmrd_clump_size = 32, cmrd_upscaling_factor = 64\<rparr>"

definition sample_ibrd :: pqos_erdt_ibrd where
  "sample_ibrd = \<lparr>ibrd_flags = 0, ibrd_reg_index_func_ver = 1, ibrd_reg_base_addr = 0x40000, ibrd_reg_block_size = 1,
     ibrd_bw_reg_offset = 0, ibrd_miss_bw_reg_offset = 0x400, ibrd_bw_reg_clump_size = 32, ibrd_miss_reg_clump_size = 32,
     ibrd_counter_width = 62, ibrd_upscaling_factor = 64, ibrd_correction_factor = []\<rparr>"

definition sample_dev_agent :: "u16 \<Rightarrow> pqos_device_agent_info" where
  "sample_dev_agent d = \<lparr>dev_rmdd = sample_rmdd d, dev_dacd = \<lparr>dacd_type = 1, dacd_length = 0, dacd_rmdd_domain_id = d, dacd_dase = []\<rparr>,
     dev_cmrd = sample_cmrd, dev_ibrd = sample_ibrd, dev_card = sample_card\<rparr>"

definition sample_erdt :: pqos_erdt_info where
  "sample_erdt = \<lparr>erdt_max_clos = 4, erdt_cpu_agents = [sample_agent 0 [0, 1] sample_marc, sample_agent 1 [2, 3] no_marc],
     erdt_dev_agents = [sample_dev_agent 7]\<rparr>"

definition sample_mrrm :: pqos_mrrm_info where
  "sample_mrrm = \<lparr>mrrm_max_memory_regions_supported = 2, mrrm_flags = 0\<rparr>"

lemma sample_agents: "mba_agent sample_erdt i \<longleftrightarrow> i = 0"
  by (cases i) (auto simp: mba_agent_def sample_erdt_def sample_agent_def cpu_agent_has_mba_def sample_marc_def no_marc_def nth_Cons split: nat.splits)

lemma sample_blocks:
  "block_len sample_erdt (0, k) = 4096" "block_start sample_erdt (0, BW_OPT) = 0x10000"
  "block_start sample_erdt (0, BW_MIN) = 0x11000" "block_start sample_erdt (0, BW_MAX) = 0x12000"
  by (simp_all add: block_len_def block_start_def sample_erdt_def sample_agent_def sample_marc_def block_bytes_def PAGE_SIZE_def)

lemma sample_wf_mba: "wf_mba sample_erdt"
  unfolding wf_mba_def
proof (intro conjI allI impI)
  show "unat (erdt_max_clos sample_erdt) < 2 ^ 29" by (simp add: sample_erdt_def)
next
  fix b :: "nat \<times> bw_kind" assume "mba_agent sample_erdt (fst b)"
  then obtain k where b: "b = (0, k)" by (cases b) (simp add: sample_agents)
  have "unat (erdt_max_clos sample_erdt) = 4" by (simp add: sample_erdt_def)
  with b show "8 * unat (erdt_max_clos sample_erdt) \<le> block_len sample_erdt b" by (simp add: sample_blocks)
  from b show "block_start sample_erdt b + block_len sample_erdt b \<le> 2 ^ 64" by (cases k) (simp_all add: sample_blocks)
next
  fix b b' :: "nat \<times> bw_kind"
  assume "mba_agent sample_erdt (fst b)" "mba_agent sample_erdt (fst b')" "b \<noteq> b'"
  then obtain k l where "b = (0, k)" "b' = (0, l)" "k \<noteq> l" by (cases b; cases b') (simp add: sample_agents)
  then show "block_start sample_erdt b + block_len sample_erdt b \<le> block_start sample_erdt b' \<or>
      block_start sample_erdt b' + block_len sample_erdt b' \<le> block_start sample_erdt b"
    by (cases k; cases l) (simp_all add: sample_blocks)
qed

lemma sample_mba_mapped: "mba_mapped mem_mmio sample_erdt h"
proof -
  have "pqos_mmap_read mem_mmio (bw_base k sample_marc) 4096 h \<and> pqos_mmap_write mem_mmio (bw_base k sample_marc) 4096 h" for k
    by (cases k) (simp_all add: pqos_mmap_read_def pqos_mmap_write_def mem_mmio_def sample_marc_def Let_def)
  then show ?thesis
    by (simp add: mba_mapped_def sample_agents) (simp add: sample_erdt_def sample_agent_def block_bytes_def PAGE_SIZE_def sample_marc_def)
qed

text \<open>A request that sets two of the limits of region 1 for class 2, and one outside the fields.\<close>

definition sample_request :: "int \<Rightarrow> mmio_mba" where
  "sample_request bw = \<lparr>mb_class_id = 2, mb_max = 0, mb_ctrl = False, mb_smba = False, mb_domain_id = 0, mb_num_mem_regions = 1,
     mb_mem_regions = \<lparr>bw_opt = bw, bw_min = - 1, bw_max = 0x1FF, region_num = 1\<rparr> #
       replicate 3 \<lparr>bw_opt = - 1, bw_min = - 1, bw_max = - 1, region_num = - 1\<rparr>\<rparr>"

lemma sample_num_regions: "mmio_get_num_mem_regions (Some sample_mrrm) = Inr 2"
  by (simp add: mmio_get_num_mem_regions_def sample_mrrm_def PQOS_MAX_MEM_REGIONS_def)

lemma sample_requests:
  "wf_request (sample_request bw)" "mmio_mba_check_request sample_erdt 2 (sample_request 0x40) = PQOS_RETVAL_OK"
  "mmio_mba_check_request sample_erdt 2 (sample_request 0x200) = PQOS_RETVAL_PARAM"
  "request_updates sample_erdt (sample_request 0x40) = [((0, BW_OPT, 2, 1), 0x40), ((0, BW_MAX, 2, 1), 0x1FF)]"
  by (simp add: wf_request_def sample_request_def PQOS_MAX_MEM_REGIONS_def, code_simp+)

theorem mmio_mba_set_refines_witness:
  "(\<exists>act h'. mmio_mba_set mem_mmio sample_erdt (Some sample_mrrm) [sample_request 0x40] True (\<lambda>_. 0) = Some (PQOS_RETVAL_OK, act, h') \<and>
     mba_limit mem_mmio sample_erdt h' (0, BW_OPT, 2, 1) = Some 0x40) \<and>
   mmio_mba_set mem_mmio sample_erdt (Some sample_mrrm) [sample_request 0x40, sample_request 0x200] False (\<lambda>_. 0) =
     Some (PQOS_RETVAL_PARAM, [], \<lambda>_. 0)"
proof
  note rule = mmio_mba_set_refines [OF memmio.mmio_registers_axioms sample_wf_mba sample_mba_mapped sample_num_regions]
  from rule [where requested = "[sample_request 0x40]" and h = "\<lambda>_. 0" and want = True] show "\<exists>act h'. mmio_mba_set mem_mmio sample_erdt (Some sample_mrrm) [sample_request 0x40] True (\<lambda>_. 0) =
      Some (PQOS_RETVAL_OK, act, h') \<and> mba_limit mem_mmio sample_erdt h' (0, BW_OPT, 2, 1) = Some 0x40"
    by (force simp: sample_requests)
  from rule [where requested = "[sample_request 0x40, sample_request 0x200]" and h = "\<lambda>_. 0" and want = False]
  show "mmio_mba_set mem_mmio sample_erdt (Some sample_mrrm) [sample_request 0x40, sample_request 0x200] False (\<lambda>_. 0) =
      Some (PQOS_RETVAL_PARAM, [], \<lambda>_. 0)"
    by (simp add: sample_requests)
qed

definition sample_table :: "mmio_mba list" where
  "sample_table = replicate 4 (sample_request 0\<lparr>mb_num_mem_regions := 0\<rparr>)"

theorem mmio_mba_get_table_witness:
  "\<exists>tab. mmio_mba_get mem_mmio sample_erdt (Some sample_mrrm) sample_table (\<lambda>a. if a = 0x12012 then 0x33 else 0) = Some (Inr tab) \<and>
     bw_max (mb_mem_regions (tab ! 2) ! 1) = 0x33"
proof -
  let ?h = "\<lambda>a :: u64. if a = 0x12012 then 0x33 else (0 :: u8)"
  have pre: "unat (erdt_max_clos sample_erdt) \<le> length sample_table" "0 < length sample_table" "\<forall>t\<in>set sample_table. wf_request t"
      "mb_num_mem_regions (sample_table ! 0) = 0" "get_cpu_agent_idx_by_domain_id sample_erdt (mb_domain_id (sample_table ! 0)) = int 0"
    by (simp add: sample_erdt_def sample_table_def, simp add: sample_table_def,
        simp add: sample_table_def wf_request_def sample_request_def PQOS_MAX_MEM_REGIONS_def, simp add: sample_table_def, code_simp)
  have lim: "mba_limit mem_mmio sample_erdt ?h (0, BW_MAX, of_nat 2, int 1) = Some 0x33" by code_simp
  have "2 < unat (erdt_max_clos sample_erdt)" by (simp add: sample_erdt_def)
  with mmio_mba_get_table [OF sample_wf_mba sample_mba_mapped [of ?h] sample_num_regions pre] lim
  show ?thesis by (force simp: sample_agents Let_def)
qed

theorem mmio_reset_mba_witness:
  "\<exists>h. mmio_alloc_reset_mba mem_mmio sample_erdt (Some sample_mrrm) (\<lambda>_. 0) = Some (PQOS_RETVAL_OK, h) \<and>
     mba_limit mem_mmio sample_erdt h (0, BW_MIN, of_nat 3, int 1) = Some MBA_MAX_BW"
proof -
  have "3 < unat (erdt_max_clos sample_erdt)" by (simp add: sample_erdt_def)
  moreover obtain h where "mmio_alloc_reset_mba mem_mmio sample_erdt (Some sample_mrrm) (\<lambda>_. 0) = Some (PQOS_RETVAL_OK, h)"
    and "\<And>i k c r. mba_agent sample_erdt i \<Longrightarrow> c < unat (erdt_max_clos sample_erdt) \<Longrightarrow> r < 2 \<Longrightarrow>
      mba_limit mem_mmio sample_erdt h (i, k, of_nat c, int r) = Some MBA_MAX_BW"
    using mmio_reset_mba [OF memmio.mmio_registers_axioms sample_wf_mba sample_mba_mapped sample_num_regions] by blast
  ultimately show ?thesis by (metis one_less_numeral_iff sample_agents semiring_norm(76))
qed

end
