(* ===== verification/MmioMasks.thy ===== *)
theory MmioMasks
  imports MmioLimits
begin

text \<open>
  Cache masks of the device domains on the MMIO interface as an abstract table. Every page of a domain's
  register block has its own copy of the mask of a class; setting a mask updates all copies. What
  \<open>mmio_l3ca_set\<close> does to the table, for accepted and refused requests, and the reset.
\<close>

section \<open>The table of masks\<close>

type_synonym mask_key = "nat \<times> u32 \<times> u32"

definition cat_agent :: "pqos_erdt_info \<Rightarrow> nat \<Rightarrow> bool" where
  "cat_agent erdt i \<longleftrightarrow> i < length (erdt_dev_agents erdt) \<and> dev_agent_has_l3ca (erdt_dev_agents erdt ! i)"

abbreviation agent_card :: "pqos_erdt_info \<Rightarrow> nat \<Rightarrow> pqos_erdt_card" where
  "agent_card erdt i \<equiv> dev_card (erdt_dev_agents erdt ! i)"

definition card_pages :: "pqos_erdt_info \<Rightarrow> nat \<Rightarrow> nat" where
  "card_pages erdt i = unat (card_reg_block_size (agent_card erdt i))"

definition card_start :: "pqos_erdt_info \<Rightarrow> nat \<Rightarrow> nat" where
  "card_start erdt i = unat (card_reg_base_addr (agent_card erdt i))"

text \<open>The registers of the classes fit into a page; the blocks lie in the address space and do not overlap.\<close>

definition wf_cat :: "pqos_erdt_info \<Rightarrow> bool" where
  "wf_cat erdt \<longleftrightarrow>
     (\<forall>i. cat_agent erdt i \<longrightarrow>
        unat (card_cat_reg_offset (agent_card erdt i)) + 8 * unat (erdt_max_clos erdt) \<le> 4096 \<and>
        card_pages erdt i < 2 ^ 20 \<and> card_start erdt i + 4096 * card_pages erdt i \<le> 2 ^ 64) \<and>
     (\<forall>i j. cat_agent erdt i \<longrightarrow> cat_agent erdt j \<longrightarrow> i \<noteq> j \<longrightarrow>
        card_start erdt i + 4096 * card_pages erdt i \<le> card_start erdt j \<or>
        card_start erdt j + 4096 * card_pages erdt j \<le> card_start erdt i)"

definition cat_mapped :: "'h mmio_os \<Rightarrow> pqos_erdt_info \<Rightarrow> 'h \<Rightarrow> bool" where
  "cat_mapped M erdt h \<longleftrightarrow>
     (\<forall>i. cat_agent erdt i \<longrightarrow>
        pqos_mmap_read M (card_reg_base_addr (agent_card erdt i)) (block_bytes (card_reg_block_size (agent_card erdt i))) h \<and>
        pqos_mmap_write M (card_reg_base_addr (agent_card erdt i)) (block_bytes (card_reg_block_size (agent_card erdt i))) h)"

definition mask_key_ok :: "pqos_erdt_info \<Rightarrow> mask_key \<Rightarrow> bool" where
  "mask_key_ok erdt = (\<lambda>(i, c, p). cat_agent erdt i \<and> c < erdt_max_clos erdt \<and> unat p < card_pages erdt i)"

definition cat_mask :: "'h mmio_os \<Rightarrow> pqos_erdt_info \<Rightarrow> 'h \<Rightarrow> mask_key \<Rightarrow> u64 option" where
  "cat_mask M erdt h = (\<lambda>(i, c, p).
     if mask_key_ok erdt (i, c, p)
     then (case get_iol3_cbm_clos_v1 M (agent_card erdt i) c p h of Some (Inr v) \<Rightarrow> Some v | _ \<Rightarrow> None)
     else None)"

text \<open>A table of masks per domain and class, in every page.\<close>

definition all_pages :: "pqos_erdt_info \<Rightarrow> (nat \<times> u32 \<Rightarrow> u64 option) \<Rightarrow> mask_key \<Rightarrow> u64 option" where
  "all_pages erdt m = (\<lambda>(i, c, p). if mask_key_ok erdt (i, c, p) then m (i, c) else None)"

lemma all_pages_add: "all_pages erdt (m ++ n) = all_pages erdt m ++ all_pages erdt n"
  by (auto simp: all_pages_def map_add_def fun_eq_iff)

lemma all_pages_empty [simp]: "all_pages erdt Map.empty = Map.empty"
  by (auto simp: all_pages_def fun_eq_iff)

section \<open>Addresses\<close>

definition mask_addr :: "pqos_erdt_info \<Rightarrow> mask_key \<Rightarrow> u64" where
  "mask_addr erdt = (\<lambda>(i, c, p). card_reg_base_addr (agent_card erdt i) + cbm_offset (agent_card erdt i) c p)"

lemma block_bytes_nat: "unat (block_bytes pages) = 4096 * unat pages"
proof -
  have "unat pages * 4096 < 18446744073709551616" using unat_less_u32 [of pages] by linarith
  then show ?thesis by (simp add: block_bytes_def PAGE_SIZE_def unat_word_ariths)
qed

lemma mask_addr_nat:
  assumes "wf_cat erdt" "mask_key_ok erdt (i, c, p)"
  defines "off \<equiv> unat (card_cat_reg_offset (agent_card erdt i)) + 8 * unat c"
  shows "unat (mask_addr erdt (i, c, p)) = card_start erdt i + 4096 * unat p + off" "off + 8 \<le> 4096" "unat p < card_pages erdt i"
    "card_start erdt i + 4096 * card_pages erdt i \<le> 2 ^ 64"
    "in_block (block_bytes (card_reg_block_size (agent_card erdt i))) (cbm_offset (agent_card erdt i) c p)"
proof -
  have i: "cat_agent erdt i" and c: "c < erdt_max_clos erdt" and p: "unat p < card_pages erdt i"
    using assms(2) by (simp_all add: mask_key_ok_def)
  show "unat p < card_pages erdt i" by (fact p)
  have wf: "unat (card_cat_reg_offset (agent_card erdt i)) + 8 * unat (erdt_max_clos erdt) \<le> 4096" "card_pages erdt i < 2 ^ 20"
      "card_start erdt i + 4096 * card_pages erdt i \<le> 2 ^ 64"
    using assms(1) i by (auto simp: wf_cat_def)
  show "card_start erdt i + 4096 * card_pages erdt i \<le> 2 ^ 64" by (fact wf(3))
  have c': "unat c + 1 \<le> unat (erdt_max_clos erdt)" using c by (simp add: word_less_nat_alt)
  then show off: "off + 8 \<le> 4096" using wf(1) by (simp add: off_def)
  have small: "unat c * 8 < 4294967296" "unat p * 4096 < 4294967296" using off p wf(2) by (simp_all add: off_def)
  have cbm: "unat (cbm_offset (agent_card erdt i) c p) = off + 4096 * unat p"
    using small off p wf(2) by (simp add: cbm_offset_def BYTES_PER_CLOS_ENTRY_def PAGE_SIZE_def unat_word_ariths off_def mult.commute)
  have pages: "4096 * unat p + 4096 \<le> 4096 * card_pages erdt i" using p by linarith
  with cbm off show "in_block (block_bytes (card_reg_block_size (agent_card erdt i))) (cbm_offset (agent_card erdt i) c p)"
    by (simp add: in_block_def block_bytes_nat card_pages_def)
  have "card_start erdt i + (off + 4096 * unat p) < 2 ^ 64" using off pages wf(3) by linarith
  then show "unat (mask_addr erdt (i, c, p)) = card_start erdt i + 4096 * unat p + off"
    by (simp add: mask_addr_def unat_word_ariths cbm card_start_def)
qed

lemma masks_apart:
  assumes wf: "wf_cat erdt" and "mask_key_ok erdt (i, c, p)" "mask_key_ok erdt (j, d, q)" and diff: "(i, c, p) \<noteq> (j, d, q)"
  shows "8 \<le> mask_addr erdt (j, d, q) - mask_addr erdt (i, c, p)"
proof -
  note a = mask_addr_nat [OF wf assms(2)] and b = mask_addr_nat [OF wf assms(3)]
  let ?x = "mask_addr erdt (i, c, p)" and ?y = "mask_addr erdt (j, d, q)"
  have "unat ?x + 8 \<le> unat ?y \<or> unat ?y + 8 \<le> unat ?x"
  proof (cases "i = j")
    case True
    show ?thesis
    proof (cases "p = q")
      case True
      with diff \<open>i = j\<close> have "unat c \<noteq> unat d" by (simp add: word_unat_eq_iff)
      with a(1) b(1) \<open>i = j\<close> True show ?thesis by auto
    next
      case False
      then have "unat p \<noteq> unat q" by (simp add: word_unat_eq_iff)
      then have "unat p + 1 \<le> unat q \<or> unat q + 1 \<le> unat p" by linarith
      with a(1,2) b(1,2) \<open>i = j\<close> show ?thesis by auto
    qed
  next
    case False
    then have "card_start erdt i + 4096 * card_pages erdt i \<le> card_start erdt j \<or>
        card_start erdt j + 4096 * card_pages erdt j \<le> card_start erdt i"
      using wf assms(2,3) by (simp add: wf_cat_def mask_key_ok_def)
    with a b show ?thesis by linarith
  qed
  moreover have "unat ?x + 8 \<le> 2 ^ 64" "unat ?y + 8 \<le> 2 ^ 64" using a b by linarith+
  ultimately show ?thesis using words_apart [of ?x ?y] words_apart [of ?y ?x] by blast
qed

text \<open>Addresses whose register lies outside every block of masks.\<close>

definition outside_cat :: "pqos_erdt_info \<Rightarrow> u64 \<Rightarrow> bool" where
  "outside_cat erdt a \<longleftrightarrow> unat a + 8 \<le> 2 ^ 64 \<and>
     (\<forall>i. cat_agent erdt i \<longrightarrow> unat a + 8 \<le> card_start erdt i \<or> card_start erdt i + 4096 * card_pages erdt i \<le> unat a)"

lemma outside_apart:
  assumes "wf_cat erdt" "mask_key_ok erdt (i, c, p)" "outside_cat erdt a"
  shows "8 \<le> a - mask_addr erdt (i, c, p)" "8 \<le> mask_addr erdt (i, c, p) - a"
proof -
  note m = mask_addr_nat [OF assms(1,2)]
  have "unat a + 8 \<le> card_start erdt i \<or> card_start erdt i + 4096 * card_pages erdt i \<le> unat a" "unat a + 8 \<le> 2 ^ 64"
    using assms(2,3) by (auto simp: outside_cat_def mask_key_ok_def)
  with m have "unat a + 8 \<le> unat (mask_addr erdt (i, c, p)) \<or> unat (mask_addr erdt (i, c, p)) + 8 \<le> unat a"
      "unat (mask_addr erdt (i, c, p)) + 8 \<le> 2 ^ 64" "unat a + 8 \<le> 2 ^ 64" by linarith+
  then show "8 \<le> a - mask_addr erdt (i, c, p)" "8 \<le> mask_addr erdt (i, c, p) - a"
    using words_apart [of a "mask_addr erdt (i, c, p)"] words_apart [of "mask_addr erdt (i, c, p)" a] by blast+
qed

section \<open>One mask\<close>

context mmio_registers
begin

text \<open>The loop over the pages stores the value in every listed page and nowhere else.\<close>

lemma cbm_store_loop_stores:
  assumes "wf_cat erdt" "\<forall>p\<in>set ps. mask_key_ok erdt (i, c, of_nat p)" "distinct (map of_nat ps :: u32 list)"
  shows "\<exists>h'. cbm_store_loop M (agent_card erdt i) c v ps h = Some h' \<and>
    (\<forall>p\<in>set ps. mm_ld64 M (mask_addr erdt (i, c, of_nat p)) h' = push_bit 32 v) \<and>
    (\<forall>a. (\<forall>p\<in>set ps. 8 \<le> a - mask_addr erdt (i, c, of_nat p) \<and> 8 \<le> mask_addr erdt (i, c, of_nat p) - a) \<longrightarrow>
       mm_ld64 M a h' = mm_ld64 M a h) \<and>
    same_maps M h h'"
  using assms(2,3)
proof (induction ps arbitrary: h)
  case Nil
  then show ?case by simp
next
  case (Cons p ps)
  let ?h = "mm_st64 M (mask_addr erdt (i, c, of_nat p)) (push_bit 32 v) h"
  have ok: "mask_key_ok erdt (i, c, of_nat p)" using Cons.prems by simp
  have "reg_store M (card_reg_base_addr (agent_card erdt i)) (block_bytes (card_reg_block_size (agent_card erdt i)))
      (cbm_offset (agent_card erdt i) c (of_nat p)) (push_bit 32 v) h = Some ?h"
    using mask_addr_nat(5) [OF assms(1) ok] by (simp add: reg_store_def mask_addr_def)
  moreover from Cons.IH [of ?h] Cons.prems obtain h' where
    h': "cbm_store_loop M (agent_card erdt i) c v ps ?h = Some h'"
      "\<forall>p\<in>set ps. mm_ld64 M (mask_addr erdt (i, c, of_nat p)) h' = push_bit 32 v"
      "\<And>a. (\<forall>p\<in>set ps. 8 \<le> a - mask_addr erdt (i, c, of_nat p) \<and> 8 \<le> mask_addr erdt (i, c, of_nat p) - a) \<Longrightarrow>
         mm_ld64 M a h' = mm_ld64 M a ?h"
      "same_maps M h h'"
    by (auto simp: same_maps_def)
  moreover have "mm_ld64 M (mask_addr erdt (i, c, of_nat p)) h' = mm_ld64 M (mask_addr erdt (i, c, of_nat p)) ?h"
  proof (rule h'(3), intro ballI conjI)
    fix q assume q: "q \<in> set ps"
    then have "mask_key_ok erdt (i, c, of_nat q)" "(of_nat q :: u32) \<noteq> of_nat p" using Cons.prems by (auto simp: image_iff)
    then show "8 \<le> mask_addr erdt (i, c, of_nat p) - mask_addr erdt (i, c, of_nat q)"
      "8 \<le> mask_addr erdt (i, c, of_nat q) - mask_addr erdt (i, c, of_nat p)"
      using ok by (auto intro!: masks_apart [OF assms(1)])
  qed
  ultimately show ?case by (auto simp: ld_st ld_st_other IOL3_CBM_SHIFT_def same_maps_def)
qed

lemma set_mask:
  assumes wf: "wf_cat erdt" and i: "cat_agent erdt i" and c: "c < erdt_max_clos erdt" and v: "v < 2 ^ 32" and map: "cat_mapped M erdt h"
  shows "\<exists>h'. set_iol3_cbm_clos_v1 M (agent_card erdt i) c v h = Some (PQOS_RETVAL_OK, h') \<and>
    cat_mask M erdt h' = cat_mask M erdt h ++ all_pages erdt [(i, c) \<mapsto> v] \<and>
    same_maps M h h' \<and>
    (\<forall>a. outside_cat erdt a \<longrightarrow> mm_ld64 M a h' = mm_ld64 M a h)"
proof -
  let ?n = "card_pages erdt i" and ?ps = "[0..<card_pages erdt i]"
  have lim: "?n < 2 ^ 20" using wf i by (simp add: wf_cat_def)
  have small: "unat (of_nat p :: u32) = p" if "p < ?n" for p using that lim by (simp add: unat_of_nat_u32)
  have keys: "\<forall>p\<in>set ?ps. mask_key_ok erdt (i, c, of_nat p)" using i c by (auto simp: mask_key_ok_def small)
  have "inj_on (of_nat :: nat \<Rightarrow> u32) (set ?ps)" by (rule inj_onI) (metis atLeastLessThan_iff set_upt small)
  then have dist: "distinct (map of_nat ?ps :: u32 list)" by (simp add: distinct_map)
  from cbm_store_loop_stores [OF wf keys dist] obtain h' where
    h': "cbm_store_loop M (agent_card erdt i) c v ?ps h = Some h'"
      "\<And>p. p < ?n \<Longrightarrow> mm_ld64 M (mask_addr erdt (i, c, of_nat p)) h' = push_bit 32 v"
      "\<And>a. (\<And>p. p < ?n \<Longrightarrow> 8 \<le> a - mask_addr erdt (i, c, of_nat p) \<and> 8 \<le> mask_addr erdt (i, c, of_nat p) - a) \<Longrightarrow>
         mm_ld64 M a h' = mm_ld64 M a h"
    and maps: "same_maps M h h'"
    by fastforce
  have set: "set_iol3_cbm_clos_v1 M (agent_card erdt i) c v h = Some (PQOS_RETVAL_OK, h')"
    using h'(1) map i by (simp add: set_iol3_cbm_clos_v1_def cat_mapped_def cat_agent_def dev_agent_has_l3ca_def card_pages_def)
  have key: "mask_key_ok erdt (i, c, of_nat p)" if "p < ?n" for p using keys that by simp
  have mask_at: "cat_mask M erdt g (j, d, q) = Some (drop_bit 32 (mm_ld64 M (mask_addr erdt (j, d, q)) g))"
    if "mask_key_ok erdt (j, d, q)" "cat_mapped M erdt g" for j d q g
    using that mask_addr_nat(5) [OF wf that(1)]
    by (auto simp: cat_mask_def get_iol3_cbm_clos_v1_def reg_load_def mask_addr_def Let_def cat_mapped_def mask_key_ok_def IOL3_CBM_SHIFT_def)
  have map': "cat_mapped M erdt h'" using map maps by (simp add: cat_mapped_def same_maps_def)
  have shift: "drop_bit 32 (push_bit 32 v) = v"
  proof (rule bit_word_eqI)
    fix n assume "n < LENGTH(64)"
    have "take_bit 32 v = v"
      using v by (simp add: word_less_nat_alt word_unat_eq_iff unsigned_take_bit_eq take_bit_nat_eq_self)
    then have "bit v n \<Longrightarrow> n < 32" by (metis bit_take_bit_iff)
    then show "bit (drop_bit 32 (push_bit 32 v)) n = bit v n" by (auto simp: bit_simps)
  qed
  have "cat_mask M erdt h' (j, d, q) = (cat_mask M erdt h ++ all_pages erdt [(i, c) \<mapsto> v]) (j, d, q)" for j d q
  proof (cases "mask_key_ok erdt (j, d, q)")
    case False
    then show ?thesis by (simp add: cat_mask_def all_pages_def map_add_def)
  next
    case True
    show ?thesis
    proof (cases "(j, d) = (i, c)")
      case at: True
      then have "mm_ld64 M (mask_addr erdt (j, d, q)) h' = push_bit 32 v"
        using h'(2) [of "unat q"] True by (simp add: mask_key_ok_def)
      with at True mask_at [OF True map'] shift show ?thesis by (simp add: all_pages_def map_add_def)
    next
      case off: False
      have "mm_ld64 M (mask_addr erdt (j, d, q)) h' = mm_ld64 M (mask_addr erdt (j, d, q)) h"
        using True off key by (intro h'(3) conjI) (auto intro!: masks_apart [OF wf])
      with off True mask_at [OF True map'] mask_at [OF True map] show ?thesis by (auto simp: all_pages_def map_add_def)
    qed
  qed
  moreover have "mm_ld64 M a h' = mm_ld64 M a h" if "outside_cat erdt a" for a
    using outside_apart [OF wf key that] by (intro h'(3)) simp
  ultimately show ?thesis using set maps by (intro exI [of _ h']) auto
qed

end

section \<open>Requests\<close>

text \<open>The mask that the second loop does not accept, and the update that an accepted one makes.\<close>

definition mask_refused :: "pqos_erdt_info \<Rightarrow> mmio_l3ca \<Rightarrow> bool" where
  "mask_refused erdt ca \<longleftrightarrow>
     (\<not> cap_get_mmio_l3ca_non_contiguous erdt (ca_domain_id ca) \<and> \<not> IS_CONTIGNOUS (pqos_ca.truncate ca)) \<or>
     (ca_word0 ca = 0 \<and> \<not> cap_get_mmio_l3ca_zero_length erdt (ca_domain_id ca))"

definition mask_update :: "pqos_erdt_info \<Rightarrow> mmio_l3ca \<Rightarrow> (nat \<times> u32) \<times> u64" where
  "mask_update erdt ca = ((nat (get_dev_agent_idx_by_domain_id erdt (ca_domain_id ca)), ca_class_id ca), ca_word0 ca)"

lemma dev_agent_by_domain:
  assumes "get_mmio_dev_agent_by_domain erdt d = Some a"
  defines "i \<equiv> nat (get_dev_agent_idx_by_domain_id erdt d)"
  shows "i < length (erdt_dev_agents erdt)" "a = erdt_dev_agents erdt ! i"
  using assms by (auto simp: get_mmio_dev_agent_by_domain_def get_dev_agent_idx_by_domain_id_def Let_def split: if_splits)

lemma l3ca_check_domains:
  assumes "l3ca_check_loop erdt cas = Some PQOS_RETVAL_OK" "ca \<in> set cas"
  defines "i \<equiv> nat (get_dev_agent_idx_by_domain_id erdt (ca_domain_id ca))"
  shows "get_mmio_dev_agent_by_domain erdt (ca_domain_id ca) = Some (erdt_dev_agents erdt ! i)" "cat_agent erdt i"
proof -
  from assms(1,2) obtain a where a: "get_mmio_dev_agent_by_domain erdt (ca_domain_id ca) = Some a" "dev_agent_has_l3ca a"
    by (induction cas) (auto split: option.splits if_splits)
  with dev_agent_by_domain [OF a(1)] show "get_mmio_dev_agent_by_domain erdt (ca_domain_id ca) = Some (erdt_dev_agents erdt ! i)"
    "cat_agent erdt i" by (simp_all add: cat_agent_def i_def)
qed

text \<open>Steps that apply updates of masks and leave everything outside the blocks of masks alone.\<close>

definition updates_masks :: "'h mmio_os \<Rightarrow> pqos_erdt_info \<Rightarrow> ('h \<Rightarrow> (retval \<times> 'h) option) \<Rightarrow> retval \<Rightarrow> ((nat \<times> u32) \<times> u64) list \<Rightarrow> bool" where
  "updates_masks M erdt f ret us \<longleftrightarrow>
     (\<forall>h. cat_mapped M erdt h \<longrightarrow>
        (\<exists>h'. f h = Some (ret, h') \<and> cat_mask M erdt h' = cat_mask M erdt h ++ all_pages erdt (map_of (rev us)) \<and>
           same_maps M h h' \<and>
           (\<forall>a. outside_cat erdt a \<longrightarrow> mm_ld64 M a h' = mm_ld64 M a h)))"

lemma masks_nothing: "updates_masks M erdt (\<lambda>h. Some (ret, h)) ret []"
  by (simp add: updates_masks_def)

lemma cat_mapped_kept: "same_maps M h h' \<Longrightarrow> cat_mapped M erdt h' = cat_mapped M erdt h"
  by (simp add: cat_mapped_def same_maps_def)

lemma masks_then:
  assumes "updates_masks M erdt f PQOS_RETVAL_OK us" and "updates_masks M erdt g ret vs"
  shows "updates_masks M erdt (\<lambda>h. ok_then (f h) g) ret (us @ vs)"
  unfolding updates_masks_def
proof (intro allI impI)
  fix h assume m: "cat_mapped M erdt h"
  with assms(1) obtain h1 where 1: "f h = Some (PQOS_RETVAL_OK, h1)"
      "cat_mask M erdt h1 = cat_mask M erdt h ++ all_pages erdt (map_of (rev us))"
      "same_maps M h h1"
      "\<forall>a. outside_cat erdt a \<longrightarrow> mm_ld64 M a h1 = mm_ld64 M a h" by (auto simp: updates_masks_def)
  moreover have "cat_mapped M erdt h1" using m cat_mapped_kept [OF 1(3)] by blast
  with assms(2) obtain h2 where "g h1 = Some (ret, h2)"
      "cat_mask M erdt h2 = cat_mask M erdt h1 ++ all_pages erdt (map_of (rev vs))"
      "same_maps M h1 h2"
      "\<forall>a. outside_cat erdt a \<longrightarrow> mm_ld64 M a h2 = mm_ld64 M a h1" by (auto simp: updates_masks_def)
  ultimately show "\<exists>h'. ok_then (f h) g = Some (ret, h') \<and>
      cat_mask M erdt h' = cat_mask M erdt h ++ all_pages erdt (map_of (rev (us @ vs))) \<and>
      same_maps M h h' \<and>
      (\<forall>a. outside_cat erdt a \<longrightarrow> mm_ld64 M a h' = mm_ld64 M a h)"
    by (auto simp: ok_then_def all_pages_add map_add_assoc intro: same_maps_trans)
qed

context mmio_registers
begin

lemma masks_set:
  assumes "wf_cat erdt" "cat_agent erdt i" "c < erdt_max_clos erdt" "v < 2 ^ 32"
  shows "updates_masks M erdt (set_iol3_cbm_clos_v1 M (agent_card erdt i) c v) PQOS_RETVAL_OK [((i, c), v)]"
  unfolding updates_masks_def using set_mask [OF assms] by simp

lemma l3ca_set_loop_prefix:
  assumes "wf_cat erdt"
    and "\<forall>ca\<in>set cas. ca_class_id ca < erdt_max_clos erdt \<and> ca_word0 ca < 2 ^ 32 \<and>
      (\<exists>i. get_mmio_dev_agent_by_domain erdt (ca_domain_id ca) = Some (erdt_dev_agents erdt ! i) \<and> cat_agent erdt i \<and>
         i = nat (get_dev_agent_idx_by_domain_id erdt (ca_domain_id ca)))"
  shows "updates_masks M erdt (l3ca_set_loop M erdt cas)
    (if \<exists>ca\<in>set cas. mask_refused erdt ca then PQOS_RETVAL_PARAM else PQOS_RETVAL_OK)
    (map (mask_update erdt) (takeWhile (\<lambda>ca. \<not> mask_refused erdt ca) cas))"
  using assms(2)
proof (induction cas)
  case Nil
  show ?case using masks_nothing by (simp add: updates_masks_def)
next
  case (Cons ca cas)
  show ?case
  proof (cases "mask_refused erdt ca")
    case True
    then have "l3ca_set_loop M erdt (ca # cas) = (\<lambda>h. Some (PQOS_RETVAL_PARAM, h))" by (auto simp: mask_refused_def fun_eq_iff)
    with True show ?thesis using masks_nothing [of M erdt PQOS_RETVAL_PARAM] by simp
  next
    case False
    define i where "i = nat (get_dev_agent_idx_by_domain_id erdt (ca_domain_id ca))"
    have i: "get_mmio_dev_agent_by_domain erdt (ca_domain_id ca) = Some (erdt_dev_agents erdt ! i)" "cat_agent erdt i"
      using Cons.prems by (auto simp: i_def)
    have "updates_masks M erdt (set_iol3_cbm_clos_v1 M (agent_card erdt i) (ca_class_id ca) (ca_word0 ca)) PQOS_RETVAL_OK [mask_update erdt ca]"
      using masks_set [OF assms(1) i(2)] Cons.prems by (simp add: mask_update_def i_def)
    from masks_then [OF this Cons.IH] Cons.prems
    have "updates_masks M erdt (\<lambda>h. ok_then (set_iol3_cbm_clos_v1 M (agent_card erdt i) (ca_class_id ca) (ca_word0 ca) h) (l3ca_set_loop M erdt cas))
        (if \<exists>ca\<in>set cas. mask_refused erdt ca then PQOS_RETVAL_PARAM else PQOS_RETVAL_OK)
        (mask_update erdt ca # map (mask_update erdt) (takeWhile (\<lambda>ca. \<not> mask_refused erdt ca) cas))" by simp
    moreover have "l3ca_set_loop M erdt (ca # cas) h =
        ok_then (set_iol3_cbm_clos_v1 M (agent_card erdt i) (ca_class_id ca) (ca_word0 ca) h) (l3ca_set_loop M erdt cas)" for h
      using False i(1) by (auto simp: mask_refused_def)
    ultimately show ?thesis using False by (simp add: updates_masks_def)
  qed
qed

lemma masks_reset_loop:
  assumes "wf_cat erdt" "cat_agent erdt i" "io_l3_ways_mask (erdt_dev_agents erdt ! i) = Some v" "v < 2 ^ 32"
    and "\<forall>c\<in>set cs. c < unat (erdt_max_clos erdt)"
  shows "updates_masks M erdt (reset_cat_loop M (erdt_dev_agents erdt ! i) cs) PQOS_RETVAL_OK (map (\<lambda>c. ((i, of_nat c), v)) cs)"
  using assms(5)
proof (induction cs)
  case Nil
  show ?case using masks_nothing by (simp add: updates_masks_def)
next
  case (Cons c cs)
  then have "of_nat c < erdt_max_clos erdt" by (simp add: of_nat_less_u32)
  from masks_then [OF masks_set [OF assms(1,2) this assms(4)] Cons.IH] Cons.prems assms(3) show ?case
    by (simp add: updates_masks_def)
qed

end

text \<open>
  C36. What \<open>mmio_l3ca_set\<close> does to the table of masks. On a mapped platform, for requests whose domains and way counts pass the
  first loop and whose class exists, the second loop applies the requests in order up to the first one that is not contiguous or is empty
  where that is not supported: the masks before it are set in every page of their domain, this one and the
  later ones are not, and the status tells whether there was one. A refused list is thus applied in part.
\<close>

theorem mmio_l3ca_set_prefix:
  assumes "mmio_registers M" "wf_cat erdt" "cat_mapped M erdt h" "length cas \<le> unat (erdt_max_clos erdt)"
    and "l3ca_check_loop erdt cas = Some PQOS_RETVAL_OK"
    and "\<forall>ca\<in>set cas. ca_class_id ca < erdt_max_clos erdt \<and> ca_word0 ca < 2 ^ 32"
  shows "\<exists>h'. mmio_l3ca_set M erdt cas h =
      Some (if \<exists>ca\<in>set cas. mask_refused erdt ca then PQOS_RETVAL_PARAM else PQOS_RETVAL_OK, h') \<and>
    cat_mask M erdt h' = cat_mask M erdt h ++
      all_pages erdt (map_of (rev (map (mask_update erdt) (takeWhile (\<lambda>ca. \<not> mask_refused erdt ca) cas))))"
proof -
  have "\<forall>ca\<in>set cas. ca_class_id ca < erdt_max_clos erdt \<and> ca_word0 ca < 2 ^ 32 \<and>
      (\<exists>i. get_mmio_dev_agent_by_domain erdt (ca_domain_id ca) = Some (erdt_dev_agents erdt ! i) \<and> cat_agent erdt i \<and>
         i = nat (get_dev_agent_idx_by_domain_id erdt (ca_domain_id ca)))"
    using assms(6) l3ca_check_domains [OF assms(5)] by blast
  from mmio_registers.l3ca_set_loop_prefix [OF assms(1,2) this] assms(3) show ?thesis
    using assms(4) by (force simp: mmio_l3ca_set_def assms(5) updates_masks_def)
qed

section \<open>Reading\<close>

text \<open>The reader takes the mask of each class from the first page.\<close>

lemma mask_read:
  assumes "wf_cat erdt" "mask_key_ok erdt (i, c, p)" "cat_mapped M erdt h"
  shows "get_iol3_cbm_clos_v1 M (agent_card erdt i) c p h = Some (Inr (the (cat_mask M erdt h (i, c, p))))"
  using assms mask_addr_nat(5) [OF assms(1,2)]
  by (auto simp: cat_mask_def get_iol3_cbm_clos_v1_def reg_load_def Let_def cat_mapped_def mask_key_ok_def)

section \<open>Reset\<close>

definition full_mask :: "pqos_erdt_info \<Rightarrow> nat \<Rightarrow> u64" where
  "full_mask erdt i = push_bit (unat (rmdd_num_io_l3_ways (dev_rmdd (erdt_dev_agents erdt ! i)))) 1 - 1"

definition ways_fit :: "pqos_erdt_info \<Rightarrow> bool" where
  "ways_fit erdt \<longleftrightarrow> (\<forall>i. cat_agent erdt i \<longrightarrow> unat (rmdd_num_io_l3_ways (dev_rmdd (erdt_dev_agents erdt ! i))) \<le> 32)"

lemma unat_p2_32: "unat (2 ^ 32 :: u64) = 2 ^ 32"
  by simp

lemma full_mask_fits:
  assumes "ways_fit erdt" "cat_agent erdt i"
  shows "io_l3_ways_mask (erdt_dev_agents erdt ! i) = Some (full_mask erdt i)" "full_mask erdt i < 2 ^ 32"
proof -
  let ?n = "unat (rmdd_num_io_l3_ways (dev_rmdd (erdt_dev_agents erdt ! i)))"
  have n: "?n \<le> 32" using assms by (simp add: ways_fit_def)
  then show "io_l3_ways_mask (erdt_dev_agents erdt ! i) = Some (full_mask erdt i)" by (simp add: io_l3_ways_mask_def full_mask_def)
  have "full_mask erdt i = mask ?n" by (simp add: full_mask_def mask_eq_exp_minus_1)
  with n have "take_bit 32 (full_mask erdt i) = full_mask erdt i" by (simp add: min_def)
  then have "unat (full_mask erdt i) = take_bit 32 (unat (full_mask erdt i))" by (metis unsigned_take_bit_eq)
  then show "full_mask erdt i < 2 ^ 32" by (metis take_bit_nat_less_exp word_less_nat_alt unat_p2_32)
qed

context mmio_registers
begin

lemma masks_reset_agents:
  assumes "wf_cat erdt" "ways_fit erdt" "as = drop m (erdt_dev_agents erdt)"
  shows "\<exists>us. updates_masks M erdt (reset_cat_agents M (unat (erdt_max_clos erdt)) as) PQOS_RETVAL_OK us \<and>
    (\<forall>((i, c), v)\<in>set us. v = full_mask erdt i) \<and>
    (\<forall>i c. m \<le> i \<longrightarrow> cat_agent erdt i \<longrightarrow> c < unat (erdt_max_clos erdt) \<longrightarrow> (i, of_nat c) \<in> fst ` set us)"
  using assms(3)
proof (induction as arbitrary: m)
  case Nil
  then have "\<not> (m \<le> i \<and> cat_agent erdt i)" for i by (auto simp: cat_agent_def)
  then show ?case using masks_nothing [of M erdt] by (intro exI [of _ "[]"]) (auto simp: updates_masks_def)
next
  case (Cons a as)
  have m: "m < length (erdt_dev_agents erdt)" "a = erdt_dev_agents erdt ! m" "as = drop (Suc m) (erdt_dev_agents erdt)"
    using Cons.prems by (metis drop_all list.distinct(1) not_le, metis hd_drop_conv_nth drop_all list.distinct(1) list.sel(1) not_le,
        metis drop_Suc list.sel(3) tl_drop)
  from Cons.IH [OF m(3)] obtain us where us: "updates_masks M erdt (reset_cat_agents M (unat (erdt_max_clos erdt)) as) PQOS_RETVAL_OK us"
    "\<forall>((i, c), v)\<in>set us. v = full_mask erdt i"
    "\<And>i c. Suc m \<le> i \<Longrightarrow> cat_agent erdt i \<Longrightarrow> c < unat (erdt_max_clos erdt) \<Longrightarrow> (i, of_nat c) \<in> fst ` set us" by blast
  show ?case
  proof (cases "dev_agent_has_l3ca a")
    case False
    then have "m \<noteq> i" if "cat_agent erdt i" for i using that m(2) by (auto simp: cat_agent_def)
    with us False show ?thesis by (intro exI [of _ us]) (auto simp: updates_masks_def Suc_le_eq order.strict_iff_order)
  next
    case True
    then have agent: "cat_agent erdt m" using m by (simp add: cat_agent_def)
    let ?vs = "map (\<lambda>c. ((m, of_nat c), full_mask erdt m)) [0..<unat (erdt_max_clos erdt)]"
    have "updates_masks M erdt (reset_cat_loop M a [0..<unat (erdt_max_clos erdt)]) PQOS_RETVAL_OK ?vs"
      using masks_reset_loop [OF assms(1) agent full_mask_fits [OF assms(2) agent]] m(2) by simp
    from masks_then [OF this us(1)] True
    have "updates_masks M erdt (reset_cat_agents M (unat (erdt_max_clos erdt)) (a # as)) PQOS_RETVAL_OK (?vs @ us)"
      by (simp add: updates_masks_def)
    moreover have "(i, of_nat c) \<in> fst ` set (?vs @ us)" if "m \<le> i" "cat_agent erdt i" "c < unat (erdt_max_clos erdt)" for i c
      using that us(3) [of i c] by (cases "i = m") (force simp: image_iff)+
    moreover have "\<forall>((i, c), v)\<in>set (?vs @ us). v = full_mask erdt i" using us(2) by auto
    ultimately show ?thesis by blast
  qed
qed

end

text \<open>The bandwidth registers lie outside the blocks of masks.\<close>

definition blocks_apart :: "pqos_erdt_info \<Rightarrow> bool" where
  "blocks_apart erdt \<longleftrightarrow>
     (\<forall>i k c r. mba_agent erdt i \<longrightarrow> c < erdt_max_clos erdt \<longrightarrow> 0 \<le> r \<longrightarrow> r < 4 \<longrightarrow> outside_cat erdt (reg_addr erdt (i, k, c, r)))"

text \<open>
  C16. The reset on the MMIO interface is complete: once the registers of the MSR interface are reset, and the blocks can be
  mapped, \<open>mmio_alloc_reset\<close> succeeds; then every bandwidth limit of every domain, class and memory region is the maximum, and the mask of
  every class, in every page of every device domain, has all ways of the domain.
\<close>

theorem mmio_reset_complete:
  assumes "mmio_registers M" "wf_mba erdt" "wf_cat erdt" "ways_fit erdt" "blocks_apart erdt"
    and "alloc_reset E os_l3 os_l2 cfg s = (PQOS_RETVAL_OK, t)"
    and "mba_mapped M erdt (m_hw t)" "cat_mapped M erdt (m_hw t)" "mmio_get_num_mem_regions mrrm = Inr n"
  shows "\<exists>h. mmio_alloc_reset E M os_l3 os_l2 erdt mrrm cfg s = Some (PQOS_RETVAL_OK, t\<lparr>m_hw := h\<rparr>) \<and>
    (\<forall>i k c r. mba_agent erdt i \<longrightarrow> c < unat (erdt_max_clos erdt) \<longrightarrow> r < n \<longrightarrow>
       mba_limit M erdt h (i, k, of_nat c, int r) = Some MBA_MAX_BW) \<and>
    (\<forall>i c p. cat_agent erdt i \<longrightarrow> c < unat (erdt_max_clos erdt) \<longrightarrow> p < card_pages erdt i \<longrightarrow>
       cat_mask M erdt h (i, of_nat c, of_nat p) = Some (full_mask erdt i))"
proof -
  from mmio_reset_mba [OF assms(1,2,7,9)] obtain h1 where
    h1: "mmio_alloc_reset_mba M erdt mrrm (m_hw t) = Some (PQOS_RETVAL_OK, h1)" "same_maps M (m_hw t) h1"
      "\<And>i k c r. mba_agent erdt i \<Longrightarrow> c < unat (erdt_max_clos erdt) \<Longrightarrow> r < n \<Longrightarrow>
         mba_limit M erdt h1 (i, k, of_nat c, int r) = Some MBA_MAX_BW" by blast
  from mmio_registers.masks_reset_agents [OF assms(1,3,4), of "erdt_dev_agents erdt" 0] obtain us where
    us: "updates_masks M erdt (reset_cat_agents M (unat (erdt_max_clos erdt)) (erdt_dev_agents erdt)) PQOS_RETVAL_OK us"
      "\<forall>((i, c), v)\<in>set us. v = full_mask erdt i"
      "\<And>i c. cat_agent erdt i \<Longrightarrow> c < unat (erdt_max_clos erdt) \<Longrightarrow> (i, of_nat c) \<in> fst ` set us" by auto
  have "cat_mapped M erdt h1" using assms(8) cat_mapped_kept [OF h1(2)] by blast
  with us(1) obtain h where
    h: "mmio_alloc_reset_cat M erdt h1 = Some (PQOS_RETVAL_OK, h)" "cat_mask M erdt h = cat_mask M erdt h1 ++ all_pages erdt (map_of (rev us))"
      "same_maps M h1 h" "\<And>a. outside_cat erdt a \<Longrightarrow> mm_ld64 M a h = mm_ld64 M a h1"
    by (auto simp: updates_masks_def mmio_alloc_reset_cat_def)
  have "mmio_alloc_reset E M os_l3 os_l2 erdt mrrm cfg s = Some (PQOS_RETVAL_OK, t\<lparr>m_hw := h\<rparr>)"
    using h1(1) h(1) by (simp add: mmio_alloc_reset_def assms(6) ok_then_def)
  moreover have "mba_limit M erdt h (i, k, of_nat c, int r) = Some MBA_MAX_BW"
    if "mba_agent erdt i" "c < unat (erdt_max_clos erdt)" "r < n" for i k c r
  proof -
    have "outside_cat erdt (reg_addr erdt (i, k, of_nat c, int r))"
      using assms(5) that num_mem_regions_le [OF assms(9)] by (simp add: blocks_apart_def of_nat_less_u32)
    then have "mba_limit M erdt h (i, k, of_nat c, int r) = mba_limit M erdt h1 (i, k, of_nat c, int r)"
      using h(3,4) by (intro limit_elsewhere) (simp_all add: same_maps_def)
    with h1(3) that show ?thesis by simp
  qed
  moreover have "cat_mask M erdt h (i, of_nat c, of_nat p) = Some (full_mask erdt i)"
    if "cat_agent erdt i" "c < unat (erdt_max_clos erdt)" "p < card_pages erdt i" for i c p
  proof -
    have "p < 4294967296" using that assms(3) by (auto simp: wf_cat_def)
    then have "mask_key_ok erdt (i, of_nat c, of_nat p)" using that by (simp add: mask_key_ok_def of_nat_less_u32 unat_of_nat_u32)
    moreover have "map_of (rev us) (i, of_nat c) = Some (full_mask erdt i)"
    proof -
      from us(3) [OF that(1,2)] have "map_of (rev us) (i, of_nat c) \<noteq> None" by (simp add: map_of_eq_None_iff)
      then obtain v where v: "map_of (rev us) (i, of_nat c) = Some v" by blast
      then have "((i, of_nat c), v) \<in> set us" by (auto dest: map_of_SomeD)
      with us(2) v show ?thesis by auto
    qed
    ultimately show ?thesis by (simp add: h(2) all_pages_def map_add_def)
  qed
  ultimately show ?thesis by blast
qed

section \<open>Examples\<close>

lemma sample_cat_agents: "cat_agent sample_erdt i \<longleftrightarrow> i = 0"
  by (cases i) (auto simp: cat_agent_def sample_erdt_def sample_dev_agent_def dev_agent_has_l3ca_def sample_card_def)

lemma sample_card_block: "card_pages sample_erdt 0 = 2" "card_start sample_erdt 0 = 0x20000" "unat (erdt_max_clos sample_erdt) = 4"
  by (simp_all add: card_pages_def card_start_def sample_erdt_def sample_dev_agent_def sample_card_def)

lemma sample_wf_cat: "wf_cat sample_erdt"
  by (simp add: wf_cat_def sample_cat_agents sample_card_block) (simp add: sample_erdt_def sample_dev_agent_def sample_card_def)

lemma sample_cat_mapped: "cat_mapped mem_mmio sample_erdt h"
  by (simp add: cat_mapped_def sample_cat_agents)
    (simp add: sample_erdt_def sample_dev_agent_def sample_card_def pqos_mmap_read_def pqos_mmap_write_def mem_mmio_def Let_def
      block_bytes_def PAGE_SIZE_def)

lemma sample_ways_fit: "ways_fit sample_erdt"
  by (simp add: ways_fit_def sample_cat_agents) (simp add: sample_erdt_def sample_dev_agent_def sample_rmdd_def)

lemma sample_blocks_apart: "blocks_apart sample_erdt"
  unfolding blocks_apart_def
proof (intro allI impI)
  fix i :: nat and k :: bw_kind and c :: u32 and r :: int
  assume a: "mba_agent sample_erdt i" "c < erdt_max_clos sample_erdt" "0 \<le> r" "r < 4"
  then have i: "i = 0" by (simp add: sample_agents)
  have "unat c < 4" using a(2) sample_card_block(3) by (metis word_less_nat_alt)
  moreover have "block_start sample_erdt (0, k) \<le> 0x12000" by (cases k) (simp_all add: sample_blocks)
  ultimately have "unat (reg_addr sample_erdt (i, k, c, r)) + 8 \<le> 0x20000"
    using reg_addr_nat(1) [OF sample_wf_mba a, of k] i by simp
  then show "outside_cat sample_erdt (reg_addr sample_erdt (i, k, c, r))"
    by (simp add: outside_cat_def sample_cat_agents sample_card_block)
qed

definition sample_ca :: "u32 \<Rightarrow> u64 \<Rightarrow> mmio_l3ca" where
  "sample_ca c m = \<lparr>ca_class_id = c, ca_cdp = False, ca_word0 = m, ca_word1 = 0, ca_domain_id = 7\<rparr>"

theorem mmio_l3ca_set_prefix_witness:
  "\<exists>h. mmio_l3ca_set mem_mmio sample_erdt [sample_ca 1 0x0f, sample_ca 2 0x05] (\<lambda>_. 0) = Some (PQOS_RETVAL_PARAM, h) \<and>
     cat_mask mem_mmio sample_erdt h (0, 1, 1) = Some 0x0f \<and> cat_mask mem_mmio sample_erdt h (0, 2, 1) = Some 0"
proof -
  let ?cas = "[sample_ca 1 0x0f, sample_ca 2 0x05]"
  have pre: "length ?cas \<le> unat (erdt_max_clos sample_erdt)" "l3ca_check_loop sample_erdt ?cas = Some PQOS_RETVAL_OK"
      "\<forall>ca\<in>set ?cas. ca_class_id ca < erdt_max_clos sample_erdt \<and> ca_word0 ca < 2 ^ 32"
    by (simp add: sample_card_block, code_simp, simp add: sample_ca_def sample_erdt_def)
  have r: "\<not> mask_refused sample_erdt (sample_ca 1 0x0f)" "mask_refused sample_erdt (sample_ca 2 0x05)" by code_simp+
  have u: "mask_update sample_erdt (sample_ca 1 0x0f) = ((0, 1), 0x0f)" by code_simp
  have k: "mask_key_ok sample_erdt (0, 1, 1)" "mask_key_ok sample_erdt (0, 2, 1)" by code_simp+
  have z: "cat_mask mem_mmio sample_erdt (\<lambda>_. 0) (0, 2, 1) = Some 0" by code_simp
  from mmio_l3ca_set_prefix [OF memmio.mmio_registers_axioms sample_wf_cat sample_cat_mapped pre, of "\<lambda>_. 0"] r u k z
  show ?thesis by (auto simp: all_pages_def map_add_def)
qed

text \<open>Byte-addressed memory next to registers that take every write.\<close>

definition mem_msr_platform :: "byte_mem platform" where
  "mem_msr_platform = mem_platform\<lparr>os_open_msr := (\<lambda>l h. (3, h)), os_pread := (\<lambda>fd r h. Some 0), os_pwrite := (\<lambda>fd r v h. (True, h))\<rparr>"

definition sample_reset_lib :: "byte_mem lib" where
  "sample_reset_lib = sample_io_lib\<lparr>m_msr_fd := Some (replicate 4 (- 1)), m_maxcores := 4, m_cap := [CapMba sample_mba], m_dev := None\<rparr>"

lemma sample_reset_run:
  "fst (alloc_reset mem_msr_platform (Inl PQOS_RETVAL_ERROR) (Inl PQOS_RETVAL_ERROR) None sample_reset_lib) = PQOS_RETVAL_OK"
  by code_simp

theorem mmio_reset_complete_witness:
  "\<exists>t. mmio_alloc_reset mem_msr_platform mem_mmio (Inl PQOS_RETVAL_ERROR) (Inl PQOS_RETVAL_ERROR) sample_erdt (Some sample_mrrm) None
       sample_reset_lib = Some (PQOS_RETVAL_OK, t) \<and> cat_mask mem_mmio sample_erdt (m_hw t) (0, of_nat 3, of_nat 1) = Some 0xff"
proof -
  let ?r = "alloc_reset mem_msr_platform (Inl PQOS_RETVAL_ERROR) (Inl PQOS_RETVAL_ERROR) None sample_reset_lib"
  have "?r = (PQOS_RETVAL_OK, snd ?r)" using sample_reset_run by (metis prod.collapse)
  from mmio_reset_complete [OF memmio.mmio_registers_axioms sample_wf_mba sample_wf_cat sample_ways_fit sample_blocks_apart this
      sample_mba_mapped sample_cat_mapped sample_num_regions]
  obtain h where "mmio_alloc_reset mem_msr_platform mem_mmio (Inl PQOS_RETVAL_ERROR) (Inl PQOS_RETVAL_ERROR) sample_erdt (Some sample_mrrm) None
       sample_reset_lib = Some (PQOS_RETVAL_OK, (snd ?r)\<lparr>m_hw := h\<rparr>)"
    and masks: "\<And>i c p. cat_agent sample_erdt i \<Longrightarrow> c < unat (erdt_max_clos sample_erdt) \<Longrightarrow> p < card_pages sample_erdt i \<Longrightarrow>
       cat_mask mem_mmio sample_erdt h (i, of_nat c, of_nat p) = Some (full_mask sample_erdt i)" by blast
  moreover have "full_mask sample_erdt 0 = 0xff" by code_simp
  moreover have "cat_mask mem_mmio sample_erdt h (0, of_nat 3, of_nat 1) = Some (full_mask sample_erdt 0)"
    by (rule masks) (simp_all add: sample_card_block sample_cat_agents)
  ultimately show ?thesis by (intro exI [of _ "(snd ?r)\<lparr>m_hw := h\<rparr>"]) simp
qed

section \<open>Departures\<close>

text \<open>
  The class of a request is not compared with the number of classes. On the platform above, with 4 classes, class 4 is accepted, and a
  class whose register does not fit into a page is a store outside the mapped block, which is undefined.
\<close>

theorem l3ca_class_unbounded:
  "(case mmio_l3ca_set mem_mmio sample_erdt [sample_ca 4 0x0f] (\<lambda>_. 0) of
      Some (ret, h) \<Rightarrow> ret = PQOS_RETVAL_OK \<and> mm_ld64 mem_mmio 0x20120 h = 0x0f00000000 | None \<Rightarrow> False) \<and>
   (case mmio_l3ca_set mem_mmio sample_erdt [sample_ca 480 0x0f] (\<lambda>_. 0) of Some _ \<Rightarrow> False | None \<Rightarrow> True)"
  by code_simp

text \<open>
  An empty mask is not contiguous: where only contiguous masks are allowed it is refused, also when the domain reports that empty masks
  are supported.
\<close>

lemma empty_mask_refused:
  assumes "\<not> cap_get_mmio_l3ca_non_contiguous erdt (ca_domain_id ca)" "\<not> ca_cdp ca" "ca_word0 ca = 0"
  shows "mask_refused erdt ca"
proof -
  have "alloc_is_bitmask_contiguous 0 = Some False" by (simp add: alloc_is_bitmask_contiguous_def)
  with assms show ?thesis by (simp add: mask_refused_def IS_CONTIGNOUS_def pqos_ca.truncate_def)
qed

end
