(* ===== verification/MmioMon.thy ===== *)
theory MmioMon
  imports MmioAlloc HwMonGroup
begin

text \<open>
  Monitoring on the MMIO interface (\<open>lib/mmio_monitoring.c\<close>): RMIDs of cores are allocated per cluster and associated through
  MSRs, RMIDs of channels per device domain, and the counters are read from the memory mapped registers of the domain. The tables of the
  platform are the record \<open>mmio_sys\<close>. A result \<open>None\<close> is an access outside an array.
\<close>

section \<open>Data\<close>

text \<open>\<open>struct pqos_channels_domains\<close> with its third array, the positions of the domains in \<open>dev_agents\<close>.\<close>

record mmio_channels_domains = pqos_channels_domains +
  cd_domain_id_idxs :: "u16 list"

record mmio_sys =
  sys_erdt :: pqos_erdt_info
  sys_cores_domains :: "u16 list option"
  sys_channels_domains :: mmio_channels_domains

text \<open>
  The members of a group that only this interface uses: the numbers of the selected memory regions (\<open>regions\<close>), the
  values per region and for I/O (\<open>region_values\<close>), and whether there is an earlier I/O reading.
\<close>

record mmio_mon_data = pqos_mon_data +
  mr_region_num :: "int list"
  mr_mbm_total :: "u64 list"
  mr_mbm_total_delta :: "u64 list"
  mr_io_llc :: u64
  mr_io_total :: u64
  mr_io_total_delta :: u64
  mr_io_miss :: u64
  mr_io_miss_delta :: u64
  mr_valid_io_total_read :: bool
  mr_valid_io_miss_read :: bool

text \<open>The functions of \<open>lib/common_monitoring.c\<close> work on the common part of a group.\<close>

definition on_common :: "(pqos_mon_data \<Rightarrow> 's \<Rightarrow> retval \<times> pqos_mon_data \<times> 's) \<Rightarrow> mmio_mon_data \<Rightarrow> 's \<Rightarrow> retval \<times> mmio_mon_data \<times> 's" where
  "on_common f g s =
     (case f (pqos_mon_data.truncate g) s of (ret, b, s) \<Rightarrow> (ret, pqos_mon_data.extend b (pqos_mon_data.more g), s))"

definition get_cpu_agent_by_core :: "mmio_sys \<Rightarrow> u32 \<Rightarrow> pqos_cpu_agent_info option" where
  "get_cpu_agent_by_core Y l =
     (case sys_cores_domains Y of
        None \<Rightarrow> None
      | Some domains \<Rightarrow>
          if length domains \<le> unat l then None
          else (let idx = get_cpu_agent_idx_by_domain_id (sys_erdt Y) (domains ! unat l)
                in if 0 \<le> idx then Some (erdt_cpu_agents (sys_erdt Y) ! nat idx) else None))"

section \<open>RMID allocation\<close>

text \<open>The file has its own copy of \<open>rmid_get_event_max\<close>.\<close>

definition mmio_rmid_get_event_max :: "mon_module \<Rightarrow> pqos_cap \<Rightarrow> u32 \<Rightarrow> u32 res" where
  "mmio_rmid_get_event_max M cap event =
     (case pqos_cap_get_type (Some cap) PQOS_CAP_TYPE_MON of
        Inl e \<Rightarrow> Inl e
      | Inr item \<Rightarrow>
          (case event_max_loop event (mon_events (u_mon item)) 0 (m_rmid_max M) of (mask_found, max_rmid) \<Rightarrow>
             if event \<noteq> mask_found \<or> max_rmid = 0 then Inl PQOS_RETVAL_ERROR else Inr max_rmid))"

definition mmio_mon_assoc_unused :: "'h platform \<Rightarrow> mon_module \<Rightarrow> u32 \<Rightarrow> u32 \<Rightarrow> u32 \<Rightarrow> u32 \<Rightarrow> 'h lib \<Rightarrow> u32 res \<times> 'h lib" where
  "mmio_mon_assoc_unused E M cluster event min_rmid max_rmid s =
     (case mmio_rmid_get_event_max M (m_cap s) event of
        Inl e \<Rightarrow> (Inl e, s)
      | Inr rmid \<Rightarrow>
          (let max_rmid = (if rmid - 1 < max_rmid then rmid - 1 else max_rmid);
               min_rmid = (if min_rmid < 1 then 1 else min_rmid)
           in case pqos_cpu_get_cores_l3id (Some (m_cpu s)) cluster of
                None \<Rightarrow> (Inl PQOS_RETVAL_ERROR, s)
              | Some core_list \<Rightarrow>
                  (case mark_core_rmids E max_rmid core_list (replicate (unat max_rmid + 2) False) s of
                     (Inl e, s) \<Rightarrow> (Inl e, s)
                   | (Inr used, s) \<Rightarrow>
                       (case List.find (\<lambda>i. \<not> used ! i) [unat min_rmid..<Suc (unat max_rmid)] of
                          None \<Rightarrow> (Inl PQOS_RETVAL_ERROR, s)
                        | Some i \<Rightarrow> (Inr (of_nat i), s)))))"

definition get_dev_domain_info :: "mmio_sys \<Rightarrow> pqos_channel_t \<Rightarrow> (u16 \<times> u16) res" where
  "get_dev_domain_info Y ch =
     (let cd = sys_channels_domains Y; idx = search_index ch (cd_channel_ids cd)
      in if idx < length (cd_channel_ids cd) then Inr (cd_domain_ids cd ! idx, cd_domain_id_idxs cd ! idx)
         else Inl PQOS_RETVAL_UNAVAILABLE)"

text \<open>The tables of used RMIDs, one per device agent with its domain.\<close>

type_synonym dev_rmid_list = "(u16 \<times> bool list) list"

text \<open>
  The code's guards. They keep the index inside the tables, which have an entry per agent and a flag per RMID of the agent
  (\<open>dev_table_inside\<close> in \<open>MmioCounters\<close>), so that the update never falls outside the list.
\<close>

definition mark_dev_rmid :: "pqos_erdt_info \<Rightarrow> u32 \<Rightarrow> u16 \<Rightarrow> nat \<Rightarrow> u32 \<Rightarrow> dev_rmid_list \<Rightarrow> dev_rmid_list" where
  "mark_dev_rmid erdt max_rmid domain_id i rmid used =
     (if rmid \<le> max_rmid \<and> rmid \<le> rmdd_max_rmids (dev_rmdd (erdt_dev_agents erdt ! i)) \<and> fst (used ! i) = domain_id
      then used[i := (fst (used ! i), (snd (used ! i))[unat rmid := True])] else used)"

fun get_dev_rmid_list :: "'h platform \<Rightarrow> mmio_sys \<Rightarrow> u32 \<Rightarrow> u32 \<Rightarrow> pqos_channel list \<Rightarrow> dev_rmid_list \<Rightarrow> 'h lib \<Rightarrow> dev_rmid_list res" where
  "get_dev_rmid_list E Y cluster max_rmid [] used s = Inr used"
| "get_dev_rmid_list E Y cluster max_rmid (c # cs) used s =
     (if \<not> rmid_tagging c then get_dev_rmid_list E Y cluster max_rmid cs used s
      else (case get_dev_domain_info Y (channel_id c) of
              Inl _ \<Rightarrow> get_dev_rmid_list E Y cluster max_rmid cs used s
            | Inr (domain_id, domain_id_idx) \<Rightarrow>
                if ucast domain_id \<noteq> cluster then get_dev_rmid_list E Y cluster max_rmid cs used s
                else (case iordt_mon_assoc_read E (channel_id c) s of
                        Inl e \<Rightarrow> Inl e
                      | Inr rmid \<Rightarrow>
                          if length (erdt_dev_agents (sys_erdt Y)) \<le> unat domain_id_idx then Inl PQOS_RETVAL_UNAVAILABLE
                          else get_dev_rmid_list E Y cluster max_rmid cs
                                 (mark_dev_rmid (sys_erdt Y) max_rmid domain_id (unat domain_id_idx) rmid used) s)))"

text \<open>The last agent of the domain; its position is kept in 16 bits, all ones meaning none.\<close>

fun last_domain_idx :: "u32 \<Rightarrow> dev_rmid_list \<Rightarrow> nat \<Rightarrow> u16 \<Rightarrow> u16" where
  "last_domain_idx cluster [] idx found = found"
| "last_domain_idx cluster ((d, _) # rest) idx found =
     last_domain_idx cluster rest (Suc idx) (if cluster = ucast d then of_nat idx else found)"

fun free_dev_rmid :: "bool list \<Rightarrow> nat list \<Rightarrow> u32 res option" where
  "free_dev_rmid used [] = Some (Inl PQOS_RETVAL_ERROR)"
| "free_dev_rmid used (i # is) =
     (if length used \<le> i then None else if \<not> used ! i then Some (Inr (of_nat i)) else free_dev_rmid used is)"

definition mmio_mon_channels_assoc_unused :: "'h platform \<Rightarrow> mmio_sys \<Rightarrow> u32 \<Rightarrow> u32 \<Rightarrow> u32 \<Rightarrow> 'h lib \<Rightarrow> u32 res option" where
  "mmio_mon_channels_assoc_unused E Y cluster min_rmid max_rmid s =
     (if max_rmid = 0 then Some (Inl PQOS_RETVAL_ERROR)
      else (let min_rmid = (if min_rmid < 1 then 1 else min_rmid);
                used = map (\<lambda>a. (rmdd_domain_id (dev_rmdd a), replicate (unat (rmdd_max_rmids (dev_rmdd a)) + 1) False))
                         (erdt_dev_agents (sys_erdt Y))
            in case pqos_mon_iordt_enabled (Some (m_cap s)) False True of
                 Inl e \<Rightarrow> Some (Inl e)
               | Inr (_, iordt) \<Rightarrow>
                   (case (case m_dev s of
                            None \<Rightarrow> Inr used
                          | Some dev \<Rightarrow>
                              if iordt then get_dev_rmid_list E Y cluster max_rmid (table (channels dev)) used s else Inr used) of
                      Inl e \<Rightarrow> Some (Inl e)
                    | Inr used \<Rightarrow>
                        (let idx = last_domain_idx cluster used 0 (- 1)
                         in if idx = - 1 then Some (Inl PQOS_RETVAL_ERROR)
                            else free_dev_rmid (snd (used ! unat idx)) [unat min_rmid..<Suc (unat max_rmid)]))))"

section \<open>Core groups\<close>

definition MMIO_CTX_EVENTS :: u32 where
  "MMIO_CTX_EVENTS = PQOS_MON_EVENT_L3_OCCUP OR PQOS_MON_EVENT_TMEM_BW"

definition mmio_shares_ctx :: "u32 \<Rightarrow> u32 \<Rightarrow> pqos_mon_poll_ctx \<Rightarrow> bool" where
  "mmio_shares_ctx l cluster ctx \<longleftrightarrow> ctx_lcore ctx = l \<or> ctx_cluster ctx = cluster"

fun mmio_alloc_loop :: "'h platform \<Rightarrow> mon_module \<Rightarrow> mmio_sys \<Rightarrow> u32 \<Rightarrow> u32 list \<Rightarrow> pqos_mon_poll_ctx list \<Rightarrow> u32 list \<Rightarrow> 'h lib \<Rightarrow>
   (pqos_mon_poll_ctx list \<times> u32 list) res \<times> 'h lib" where
  "mmio_alloc_loop E M Y event [] ctxs core2rmid s = (Inr (ctxs, core2rmid), s)"
| "mmio_alloc_loop E M Y event (l # ls) ctxs core2rmid s =
     (case get_cpu_agent_by_core Y l of
        None \<Rightarrow> (Inl PQOS_RETVAL_PARAM, s)
      | Some a \<Rightarrow>
          (case pqos_cpu_get_clusterid (Some (m_cpu s)) l of
             Inl _ \<Rightarrow> (Inl PQOS_RETVAL_PARAM, s)
           | Inr cluster \<Rightarrow>
               (case List.find (mmio_shares_ctx l cluster) ctxs of
                  Some ctx \<Rightarrow> mmio_alloc_loop E M Y event ls ctxs (core2rmid @ [ctx_rmid ctx]) s
                | None \<Rightarrow>
                    (case mmio_mon_assoc_unused E M cluster event 1 (rmdd_max_rmids (cpu_rmdd a)) s of
                       (Inl e, s) \<Rightarrow> (Inl e, s)
                     | (Inr rmid, s) \<Rightarrow>
                         mmio_alloc_loop E M Y event ls
                           (ctxs @ [\<lparr>ctx_lcore = l, ctx_channel_id = 0, ctx_cluster = cluster, ctx_numa = 0, ctx_quiet = False, ctx_rmid = rmid\<rparr>])
                           (core2rmid @ [rmid]) s))))"

definition mmio_mon_start_counter :: "'h platform \<Rightarrow> mon_module \<Rightarrow> mmio_sys \<Rightarrow> u32 \<Rightarrow> mmio_mon_data \<Rightarrow> 'h lib \<Rightarrow> retval \<times> mmio_mon_data \<times> 'h lib" where
  "mmio_mon_start_counter E M Y event g s =
     (case mmio_alloc_loop E M Y (event AND MMIO_CTX_EVENTS) (mg_cores g) [] [] s of
        (Inl e, s) \<Rightarrow> (e, g, s)
      | (Inr (ctxs, core2rmid), s) \<Rightarrow>
          (case assoc_loop E (zip (mg_cores g) core2rmid) s of (ret, s) \<Rightarrow>
             if ret = PQOS_RETVAL_OK
             then (ret, g\<lparr>mg_hw_ctx := ctxs, mg_hw_event := mg_hw_event g OR (event AND MMIO_CTX_EVENTS)\<rparr>, s)
             else (ret, g, snd (rmid_reset_loop E (mg_cores g) PQOS_RETVAL_OK s))))"

definition mmio_events_started :: "mmio_mon_data \<Rightarrow> retval \<times> mmio_mon_data" where
  "mmio_events_started g =
     (let started = mg_perf_event g OR mg_hw_event g;
          ipcs = has_event started PQOS_PERF_EVENT_CYCLES \<and> has_event started PQOS_PERF_EVENT_INSTRUCTIONS;
          g = (if ipcs then g\<lparr>mg_values := (mg_values g)\<lparr>ipc := 0\<rparr>\<rparr> else g);
          started = (if ipcs then started OR PQOS_PERF_EVENT_IPC else started)
      in (if mg_event g AND started \<noteq> mg_event g then PQOS_RETVAL_ERROR else PQOS_RETVAL_OK, g))"

definition mmio_mon_start_cores :: "'h platform \<Rightarrow> 'h perf_os \<Rightarrow> mon_module \<Rightarrow> mmio_sys \<Rightarrow> u32 list \<Rightarrow> u32 \<Rightarrow> int list \<Rightarrow> mmio_mon_data \<Rightarrow> 'h lib
    \<Rightarrow> retval \<times> mmio_mon_data \<times> 'h lib" where
  "mmio_mon_start_cores E P M Y ls event regions g s =
     (if ls = [] then (PQOS_RETVAL_PARAM, g, s)
      else if mon_events_valid (m_cap s) event False \<noteq> PQOS_RETVAL_OK then (PQOS_RETVAL_PARAM, g, s)
      else (case check_cores_loop E ls s of (ret, s) \<Rightarrow>
              if ret \<noteq> PQOS_RETVAL_OK then (ret, g, s)
              else (let req_events = expand_ipc event;
                        g = g\<lparr>mg_event := event, mg_cores := ls, mr_region_num := regions\<rparr>
                    in case (case on_common (mon_start_perf E P (mm_perf_supported M) req_events) g s of (ret, g, s) \<Rightarrow>
                               if ret \<noteq> PQOS_RETVAL_OK then (ret, g, s)
                               else (case mmio_mon_start_counter E M Y req_events g s of (ret, g, s) \<Rightarrow>
                                       if ret \<noteq> PQOS_RETVAL_OK then (ret, g, s)
                                       else (case mmio_events_started g of (ret, g) \<Rightarrow> (ret, g, s)))) of
                         (ret, g, s) \<Rightarrow>
                           if ret \<noteq> PQOS_RETVAL_OK
                           then (case on_common (mon_stop_perf E P) g s of (_, g, s) \<Rightarrow> (ret, g, s))
                           else (ret, g, s))))"

section \<open>Channel groups\<close>

definition dev_max_rmid :: "pqos_erdt_info \<Rightarrow> u16 \<Rightarrow> u32" where
  "dev_max_rmid erdt domain_id =
     (case List.find (\<lambda>a. rmdd_domain_id (dev_rmdd a) = domain_id) (erdt_dev_agents erdt) of
        None \<Rightarrow> 0 | Some a \<Rightarrow> rmdd_max_rmids (dev_rmdd a))"

fun mmio_channel_loop :: "'h platform \<Rightarrow> mmio_sys \<Rightarrow> pqos_channel_t list \<Rightarrow> pqos_mon_poll_ctx list \<Rightarrow> 'h lib
    \<Rightarrow> (pqos_mon_poll_ctx list res \<times> 'h lib) option" where
  "mmio_channel_loop E Y [] ctxs s = Some (Inr ctxs, s)"
| "mmio_channel_loop E Y (ch # chs) ctxs s =
     (if pqos_devinfo_get_channel (m_dev s) ch = None then Some (Inl PQOS_RETVAL_PARAM, s)
      else (case get_dev_domain_info Y ch of
              Inl e \<Rightarrow> Some (Inl e, s)
            | Inr (domain_id, _) \<Rightarrow>
                (let max_rmid = dev_max_rmid (sys_erdt Y) domain_id
                 in case List.find (\<lambda>c. ctx_cluster c = ucast domain_id \<and> ctx_rmid c \<le> max_rmid) (rev ctxs) of
                      Some ctx \<Rightarrow>
                        (case iordt_mon_assoc_write E ch (ctx_rmid ctx) s of (ret, s) \<Rightarrow>
                           if ret \<noteq> PQOS_RETVAL_OK then Some (Inl ret, s) else mmio_channel_loop E Y chs ctxs s)
                    | None \<Rightarrow>
                        (case mmio_mon_channels_assoc_unused E Y (ucast domain_id) 1 max_rmid s of
                           None \<Rightarrow> None
                         | Some (Inl e) \<Rightarrow> Some (Inl e, s)
                         | Some (Inr rmid) \<Rightarrow>
                             (case iordt_mon_assoc_write E ch rmid s of (ret, s) \<Rightarrow>
                                if ret \<noteq> PQOS_RETVAL_OK then Some (Inl ret, s)
                                else mmio_channel_loop E Y chs
                                       (ctxs @ [\<lparr>ctx_lcore = 0, ctx_channel_id = ch, ctx_cluster = ucast domain_id, ctx_numa = 0,
                                                 ctx_quiet = False, ctx_rmid = rmid\<rparr>]) s)))))"

definition mmio_mon_start_channels :: "'h platform \<Rightarrow> mmio_sys \<Rightarrow> pqos_channel_t list \<Rightarrow> u32 \<Rightarrow> mmio_mon_data \<Rightarrow> 'h lib
    \<Rightarrow> (retval \<times> mmio_mon_data \<times> 'h lib) option" where
  "mmio_mon_start_channels E Y chs event g s =
     (if event \<in> {PQOS_MON_EVENT_RMEM_BW, PQOS_MON_EVENT_LMEM_BW, PQOS_MON_EVENT_TMEM_BW, PQOS_MON_EVENT_L3_OCCUP}
      then Some (PQOS_RETVAL_RESOURCE, g, s)
      else (case pqos_mon_iordt_enabled (Some (m_cap s)) True True of
              Inl e \<Rightarrow> Some (e, g, s)
            | Inr (supported, enabled) \<Rightarrow>
                if \<not> supported then Some (PQOS_RETVAL_RESOURCE, g, s)
                else if \<not> enabled then Some (PQOS_RETVAL_ERROR, g, s)
                else (let ret = check_channels_loop E chs s
                      in if ret \<noteq> PQOS_RETVAL_OK then Some (ret, g, s)
                         else (case mmio_channel_loop E Y chs [] s of
                                 None \<Rightarrow> None
                               | Some (Inl ret, s) \<Rightarrow> Some (ret, g, snd (channels_rmid0 E chs PQOS_RETVAL_OK s))
                               | Some (Inr ctxs, s) \<Rightarrow>
                                   Some (PQOS_RETVAL_OK,
                                         g\<lparr>mg_event := event, mg_channels := chs, mg_hw_ctx := ctxs, mg_hw_event := mg_hw_event g OR event\<rparr>, s)))))"

section \<open>Stop\<close>

definition mmio_mon_stop :: "'h platform \<Rightarrow> 'h perf_os \<Rightarrow> mmio_mon_data \<Rightarrow> 'h lib \<Rightarrow> retval \<times> mmio_mon_data \<times> 'h lib" where
  "mmio_mon_stop E P g s =
     (if mg_cores g = [] \<and> mg_channels g = [] then (PQOS_RETVAL_PARAM, g, s)
      else if mg_hw_ctx g = [] then (PQOS_RETVAL_PARAM, g, s)
      else (case (if mg_cores g = [] then (PQOS_RETVAL_OK, s) else check_ctxs_loop E (mg_hw_ctx g) s) of (ret, s) \<Rightarrow>
              if ret \<noteq> PQOS_RETVAL_OK then (ret, g, s)
              else (case rmid_reset_loop E (mg_cores g) PQOS_RETVAL_OK s of (ret, s) \<Rightarrow>
                     (let retval = (if ret \<noteq> PQOS_RETVAL_OK then PQOS_RETVAL_RESOURCE else PQOS_RETVAL_OK)
                      in case channels_rmid0 E (mg_channels g) retval s of (retval, s) \<Rightarrow>
                         (case on_common (mon_stop_perf E P) g s of (ret, g, s) \<Rightarrow>
                            (if ret \<noteq> PQOS_RETVAL_OK then ret else retval, g, s))))))"

section \<open>Counters\<close>

text \<open>One register through the range readers.\<close>

definition one_reg :: "u64 list res \<Rightarrow> u64 res" where
  "one_reg r = (case r of Inl e \<Rightarrow> Inl e | Inr vs \<Rightarrow> Inr (hd vs))"

text \<open>Occupancy; the sum is kept in the group, also when a later context fails.\<close>

fun read_llc_loop :: "'h mmio_os \<Rightarrow> mmio_sys \<Rightarrow> pqos_mon_poll_ctx list \<Rightarrow> mmio_mon_data \<Rightarrow> 'h \<Rightarrow> retval \<times> mmio_mon_data" where
  "read_llc_loop D Y [] g h = (PQOS_RETVAL_OK, g)"
| "read_llc_loop D Y (c # cs) g h =
     (case get_cpu_agent_by_core Y (ctx_lcore c) of
        None \<Rightarrow> (PQOS_RETVAL_PARAM, g)
      | Some a \<Rightarrow>
          (case one_reg (get_l3_cmt_rmid_range_v1 D (Some (cpu_cmrc a)) (ctx_rmid c) (ctx_rmid c) h) of
             Inl e \<Rightarrow> (e, g)
           | Inr v \<Rightarrow>
               if \<not> is_available_l3_cmt_rmid v then (PQOS_RETVAL_UNAVAILABLE, g)
               else read_llc_loop D Y cs
                      (g\<lparr>mg_values := (mg_values g)\<lparr>llc := llc (mg_values g) + scale_llc_value (cpu_cmrc a) (l3_cmt_rmid_to_uint64 v)\<rparr>\<rparr>) h))"

text \<open>The counters of one context in the selected regions, added to the sums.\<close>

fun read_regions_loop :: "'h mmio_os \<Rightarrow> pqos_erdt_mmrc \<Rightarrow> u32 \<Rightarrow> int list \<Rightarrow> u64 list \<Rightarrow> 'h \<Rightarrow> u64 list res option" where
  "read_regions_loop D mmrc rmid (r # rs) (x # xs) h =
     (case one_reg (get_l3_mbm_region_rmid_range_v1 D (Some mmrc) r rmid rmid h) of
        Inl e \<Rightarrow> Some (Inl e)
      | Inr v \<Rightarrow>
          if \<not> is_available_l3_mbm_rmid v then Some (Inl PQOS_RETVAL_UNAVAILABLE)
          else if is_overflow_l3_mbm_rmid v \<noteq> 0 then Some (Inl PQOS_RETVAL_OVERFLOW)
          else (case scale_mbm_value mmrc rmid (l3_mbm_rmid_to_uint64 v) of
                  None \<Rightarrow> None
                | Some y \<Rightarrow> map_option (map_sum id (Cons (x + y))) (read_regions_loop D mmrc rmid rs xs h)))"
| "read_regions_loop D mmrc rmid rs xs h = Some (Inr xs)"

fun read_mbm_loop :: "'h mmio_os \<Rightarrow> mmio_sys \<Rightarrow> int list \<Rightarrow> pqos_mon_poll_ctx list \<Rightarrow> u64 list \<Rightarrow> 'h \<Rightarrow> u64 list res option" where
  "read_mbm_loop D Y regions [] acc h = Some (Inr acc)"
| "read_mbm_loop D Y regions (c # cs) acc h =
     (case get_cpu_agent_by_core Y (ctx_lcore c) of
        None \<Rightarrow> Some (Inl PQOS_RETVAL_PARAM)
      | Some a \<Rightarrow>
          (case read_regions_loop D (cpu_mmrc a) (ctx_rmid c) regions acc h of
             None \<Rightarrow> None
           | Some (Inl e) \<Rightarrow> Some (Inl e)
           | Some (Inr acc) \<Rightarrow> read_mbm_loop D Y regions cs acc h))"

definition store_regions :: "u64 list \<Rightarrow> mmio_mon_data \<Rightarrow> mmio_mon_data" where
  "store_regions acc g =
     g\<lparr>mr_mbm_total_delta := (if mg_valid_mbm_read g then map2 (-) acc (take (length acc) (mr_mbm_total g)) else map (\<lambda>_. 0) acc) @
                             drop (length acc) (mr_mbm_total_delta g),
       mr_mbm_total := acc @ drop (length acc) (mr_mbm_total g), mg_valid_mbm_read := True\<rparr>"

text \<open>The agent that the domain tables name for a channel.\<close>

definition dev_agent_of_channel :: "mmio_sys \<Rightarrow> pqos_channel_t \<Rightarrow> pqos_device_agent_info option" where
  "dev_agent_of_channel Y ch =
     (case get_dev_domain_info Y ch of
        Inl _ \<Rightarrow> None
      | Inr (_, idx) \<Rightarrow>
          if length (erdt_dev_agents (sys_erdt Y)) \<le> unat idx then None else Some (erdt_dev_agents (sys_erdt Y) ! unat idx))"

fun read_io_llc_loop :: "'h mmio_os \<Rightarrow> mmio_sys \<Rightarrow> pqos_mon_poll_ctx list \<Rightarrow> mmio_mon_data \<Rightarrow> 'h \<Rightarrow> retval \<times> mmio_mon_data" where
  "read_io_llc_loop D Y [] g h = (PQOS_RETVAL_OK, g)"
| "read_io_llc_loop D Y (c # cs) g h =
     (case dev_agent_of_channel Y (ctx_channel_id c) of
        None \<Rightarrow> (PQOS_RETVAL_UNAVAILABLE, g)
      | Some a \<Rightarrow>
          (case one_reg (get_iol3_cmt_rmid_range_v1 D (Some (dev_cmrd a)) (ctx_rmid c) (ctx_rmid c) h) of
             Inl e \<Rightarrow> (e, g)
           | Inr v \<Rightarrow>
               if \<not> is_available_iol3_cmt_rmid v then (PQOS_RETVAL_UNAVAILABLE, g)
               else read_io_llc_loop D Y cs
                      (g\<lparr>mr_io_llc := mr_io_llc g + scale_io_llc_value (dev_cmrd a) (iol3_cmt_rmid_to_uint64 v)\<rparr>) h))"

text \<open>
  The sum of the I/O bandwidth counters that \<open>reader\<close> delivers; \<open>PQOS_RETVAL_OVERFLOW\<close> also ends the validity of the
  earlier reading.
\<close>

fun read_io_mbm_loop :: "(pqos_erdt_ibrd option \<Rightarrow> u32 \<Rightarrow> u32 \<Rightarrow> 'h \<Rightarrow> u64 list res) \<Rightarrow> mmio_sys \<Rightarrow> pqos_mon_poll_ctx list \<Rightarrow> u64 \<Rightarrow> 'h
    \<Rightarrow> u64 res option" where
  "read_io_mbm_loop reader Y [] val h = Some (Inr val)"
| "read_io_mbm_loop reader Y (c # cs) val h =
     (case dev_agent_of_channel Y (ctx_channel_id c) of
        None \<Rightarrow> Some (Inl PQOS_RETVAL_UNAVAILABLE)
      | Some a \<Rightarrow>
          (case one_reg (reader (Some (dev_ibrd a)) (ctx_rmid c) (ctx_rmid c) h) of
             Inl e \<Rightarrow> Some (Inl e)
           | Inr v \<Rightarrow>
               if \<not> is_available_iol3_mbm_rmid v then Some (Inl PQOS_RETVAL_UNAVAILABLE)
               else if is_overflow_iol3_mbm_rmid v then Some (Inl PQOS_RETVAL_OVERFLOW)
               else (case scale_io_mbm_value (dev_ibrd a) (ctx_rmid c) (iol3_mbm_rmid_to_uint64 v) of
                       None \<Rightarrow> None
                     | Some y \<Rightarrow> read_io_mbm_loop reader Y cs (val + y) h)))"

definition mmio_mon_read_counter :: "'h mmio_os \<Rightarrow> mmio_sys \<Rightarrow> u32 \<Rightarrow> mmio_mon_data \<Rightarrow> 'h \<Rightarrow> (retval \<times> mmio_mon_data) option" where
  "mmio_mon_read_counter D Y event g h =
     (if event = PQOS_MON_EVENT_L3_OCCUP
      then Some (read_llc_loop D Y (mg_hw_ctx g) (g\<lparr>mg_values := (mg_values g)\<lparr>llc := 0\<rparr>\<rparr>) h)
      else if event = PQOS_MON_EVENT_TMEM_BW
      then if PQOS_MAX_MEM_REGIONS < length (mr_region_num g) then None
           else map_option (\<lambda>r. case r of Inl e \<Rightarrow> (e, g) | Inr acc \<Rightarrow> (PQOS_RETVAL_OK, store_regions acc g))
                  (read_mbm_loop D Y (mr_region_num g) (mg_hw_ctx g) (replicate (length (mr_region_num g)) 0) h)
      else if event = PQOS_MON_EVENT_IO_L3_OCCUP
      then Some (read_io_llc_loop D Y (mg_hw_ctx g) (g\<lparr>mr_io_llc := 0\<rparr>) h)
      else if event = PQOS_MON_EVENT_IO_TOTAL_MEM_BW
      then map_option (\<lambda>r. case r of
               Inl e \<Rightarrow> (e, if e = PQOS_RETVAL_OVERFLOW then g\<lparr>mr_valid_io_total_read := False\<rparr> else g)
             | Inr val \<Rightarrow> (PQOS_RETVAL_OK,
                 g\<lparr>mr_io_total_delta := (if mr_valid_io_total_read g then val - mr_io_total g else 0), mr_io_total := val,
                   mr_valid_io_total_read := True\<rparr>))
             (read_io_mbm_loop (get_total_iol3_mbm_rmid_range_v1 D) Y (mg_hw_ctx g) 0 h)
      else if event = PQOS_MON_EVENT_IO_MISS_MEM_BW
      then map_option (\<lambda>r. case r of
               Inl e \<Rightarrow> (e, if e = PQOS_RETVAL_OVERFLOW then g\<lparr>mr_valid_io_miss_read := False\<rparr> else g)
             | Inr val \<Rightarrow> (PQOS_RETVAL_OK,
                 g\<lparr>mr_io_miss_delta := (if mr_valid_io_miss_read g then val - mr_io_miss g else 0), mr_io_miss := val,
                   mr_valid_io_miss_read := True\<rparr>))
             (read_io_mbm_loop (get_miss_iol3_mbm_rmid_range_v1 D) Y (mg_hw_ctx g) 0 h)
      else Some (PQOS_RETVAL_OK, g\<lparr>mg_values := (mg_values g)\<lparr>mbm_total := 0\<rparr>\<rparr>))"

definition MMIO_COUNTERS :: "u32 list" where
  "MMIO_COUNTERS = [PQOS_MON_EVENT_L3_OCCUP, PQOS_MON_EVENT_TMEM_BW, PQOS_MON_EVENT_IO_L3_OCCUP, PQOS_MON_EVENT_IO_TOTAL_MEM_BW,
     PQOS_MON_EVENT_IO_MISS_MEM_BW]"

definition mmio_mon_poll :: "'h platform \<Rightarrow> 'h mmio_os \<Rightarrow> mmio_sys \<Rightarrow> u32 \<Rightarrow> mmio_mon_data \<Rightarrow> 'h lib \<Rightarrow> (retval \<times> mmio_mon_data \<times> 'h lib) option" where
  "mmio_mon_poll E D Y event g s =
     (if event \<in> set MMIO_COUNTERS
      then map_option (\<lambda>(ret, g). (ret, g, s)) (mmio_mon_read_counter D Y event g (m_hw s))
      else if event \<in> {PQOS_PERF_EVENT_CYCLES, PQOS_PERF_EVENT_INSTRUCTIONS, PQOS_PERF_EVENT_LLC_MISS, PQOS_PERF_EVENT_LLC_REF}
      then Some (on_common (mon_read_perf E event) g s)
      else Some (PQOS_RETVAL_PARAM, g, s))"

end
