(* ===== verification/MmioCounters.thy ===== *)
theory MmioCounters
  imports MmioMon MmioLimits MonLife
begin

text \<open>
  Facts on monitoring over MMIO: a poll of the region-aware bandwidth delivers, per region, the sum of the scaled counters of the
  group's contexts and its change; a poll of I/O bandwidth the same in total, or the overflow of a counter; an RMID that is chosen for a
  channel is not in use in the domain. A concrete run shows how a failed start is treated.
\<close>

section \<open>Bandwidth per memory region\<close>

text \<open>
  The count of a context in a region, scaled to bytes, of a counter that can be read and is available. The overflow flag of the register
  has no part in it, because the code's test for it never fires (\<open>l3_mbm_overflow_never\<close>).
\<close>

definition region_reading :: "'h mmio_os \<Rightarrow> mmio_sys \<Rightarrow> 'h \<Rightarrow> pqos_mon_poll_ctx \<Rightarrow> int \<Rightarrow> u64 option" where
  "region_reading D Y h c r =
     (case get_cpu_agent_by_core Y (ctx_lcore c) of
        None \<Rightarrow> None
      | Some a \<Rightarrow>
          (case one_reg (get_l3_mbm_region_rmid_range_v1 D (Some (cpu_mmrc a)) r (ctx_rmid c) (ctx_rmid c) h) of
             Inl _ \<Rightarrow> None
           | Inr v \<Rightarrow>
               if is_available_l3_mbm_rmid v then scale_mbm_value (cpu_mmrc a) (ctx_rmid c) (l3_mbm_rmid_to_uint64 v) else None))"

lemma read_regions_sum:
  assumes "get_cpu_agent_by_core Y (ctx_lcore c) = Some a"
    and "\<forall>r\<in>set rs. region_reading D Y h c r = Some (val r)" and "length xs = length rs"
  shows "read_regions_loop D (cpu_mmrc a) (ctx_rmid c) rs xs h = Some (Inr (map2 (\<lambda>x r. x + val r) xs rs))"
  using assms(2,3)
proof (induction rs arbitrary: xs)
  case (Cons r rs)
  then obtain y ys where xs: "xs = y # ys" "length ys = length rs" by (cases xs) auto
  from Cons.prems(1) obtain v where
    "one_reg (get_l3_mbm_region_rmid_range_v1 D (Some (cpu_mmrc a)) r (ctx_rmid c) (ctx_rmid c) h) = Inr v"
    "is_available_l3_mbm_rmid v" "scale_mbm_value (cpu_mmrc a) (ctx_rmid c) (l3_mbm_rmid_to_uint64 v) = Some (val r)"
    by (auto simp: region_reading_def assms(1) split: sum.splits if_splits)
  with Cons.IH [OF _ xs(2)] Cons.prems(1) xs(1) show ?case by (simp add: l3_mbm_overflow_never)
qed simp

lemma read_mbm_sum:
  assumes "\<forall>c\<in>set cs. \<forall>r\<in>set rs. region_reading D Y h c r = Some (val c r)" and "rs \<noteq> []" and "length acc = length rs"
  shows "read_mbm_loop D Y rs cs acc h = Some (Inr (map2 (\<lambda>x r. x + (\<Sum>c\<leftarrow>cs. val c r)) acc rs))"
  using assms(1,3)
proof (induction cs arbitrary: acc)
  case Nil
  then show ?case by (auto intro: nth_equalityI)
next
  case (Cons c cs)
  from assms(2) obtain r where "r \<in> set rs" by (cases rs) auto
  with Cons.prems(1) obtain a where a: "get_cpu_agent_by_core Y (ctx_lcore c) = Some a"
    by (force simp: region_reading_def split: option.splits)
  have one: "read_regions_loop D (cpu_mmrc a) (ctx_rmid c) rs acc h = Some (Inr (map2 (\<lambda>x r. x + val c r) acc rs))"
    by (rule read_regions_sum [OF a]) (use Cons.prems in auto)
  have "map2 (\<lambda>x r. x + (\<Sum>c\<leftarrow>cs. val c r)) (map2 (\<lambda>x r. x + val c r) acc rs) rs = map2 (\<lambda>x r. x + (\<Sum>c\<leftarrow>c # cs. val c r)) acc rs"
    using Cons.prems(2) by (intro nth_equalityI) (auto simp: add.assoc)
  with Cons.IH [of "map2 (\<lambda>x r. x + val c r) acc rs"] Cons.prems a one show ?case by simp
qed

text \<open>
  C22. A poll of the total bandwidth over MMIO succeeds when every counter it needs can be read and is available, whether or not counters
  have their overflow flag set: the code never answers the \<open>PQOS_RETVAL_OVERFLOW\<close> that \<open>mmio_monitoring.h\<close> and \<open>pqos.h\<close> document for
  this case, and adds the counts of overflowed counters like any other. The total of each selected region is then the sum of the scaled counters of the group's contexts (modulo 2^64), the delta is the change since the last
  successful poll and zero at the first one, and the entries behind the selected regions are kept.
\<close>

theorem mmio_region_poll:
  assumes "mr_region_num g \<noteq> []" "length (mr_region_num g) \<le> 4"
    and "length (mr_mbm_total g) = 4" "length (mr_mbm_total_delta g) = 4"
    and "\<forall>c\<in>set (mg_hw_ctx g). \<forall>r\<in>set (mr_region_num g). region_reading D Y h c r = Some (val c r)"
  shows "\<exists>g'. mmio_mon_read_counter D Y PQOS_MON_EVENT_TMEM_BW g h = Some (PQOS_RETVAL_OK, g') \<and> mg_valid_mbm_read g' \<and>
     length (mr_mbm_total g') = 4 \<and> length (mr_mbm_total_delta g') = 4 \<and>
     (\<forall>j<4. mr_mbm_total g' ! j =
        (if j < length (mr_region_num g) then \<Sum>c\<leftarrow>mg_hw_ctx g. val c (mr_region_num g ! j) else mr_mbm_total g ! j)) \<and>
     (\<forall>j<4. mr_mbm_total_delta g' ! j =
        (if length (mr_region_num g) \<le> j then mr_mbm_total_delta g ! j
         else if mg_valid_mbm_read g then (\<Sum>c\<leftarrow>mg_hw_ctx g. val c (mr_region_num g ! j)) - mr_mbm_total g ! j else 0))"
proof -
  let ?rs = "mr_region_num g"
  let ?acc = "map2 (\<lambda>x r. x + (\<Sum>c\<leftarrow>mg_hw_ctx g. val c r)) (replicate (length ?rs) 0) ?rs"
  have ev: "PQOS_MON_EVENT_TMEM_BW \<noteq> PQOS_MON_EVENT_L3_OCCUP" by code_simp
  have "read_mbm_loop D Y ?rs (mg_hw_ctx g) (replicate (length ?rs) 0) h = Some (Inr ?acc)"
    by (rule read_mbm_sum [OF assms(5,1)]) simp
  then have run: "mmio_mon_read_counter D Y PQOS_MON_EVENT_TMEM_BW g h = Some (PQOS_RETVAL_OK, store_regions ?acc g)"
    using assms(2) ev by (simp add: mmio_mon_read_counter_def PQOS_MAX_MEM_REGIONS_def)
  have len: "length ?acc = length ?rs" by simp
  have acc: "?acc ! j = (\<Sum>c\<leftarrow>mg_hw_ctx g. val c (?rs ! j))" if "j < length ?rs" for j using that by simp
  show ?thesis
    using assms(2-4) len acc
    by (intro exI [of _ "store_regions ?acc g"] conjI run) (auto simp: store_regions_def nth_append)
qed

section \<open>I/O bandwidth\<close>

text \<open>
  What a context contributes when its counter can be read and is available: its scaled count, or \<open>None\<close> when the
  overflow flag, bit 62, is set.
\<close>

definition io_reading :: "(pqos_erdt_ibrd option \<Rightarrow> u32 \<Rightarrow> u32 \<Rightarrow> 'h \<Rightarrow> u64 list res) \<Rightarrow> mmio_sys \<Rightarrow> 'h \<Rightarrow> pqos_mon_poll_ctx \<Rightarrow> u64 option option" where
  "io_reading reader Y h c =
     (case dev_agent_of_channel Y (ctx_channel_id c) of
        None \<Rightarrow> None
      | Some a \<Rightarrow>
          (case one_reg (reader (Some (dev_ibrd a)) (ctx_rmid c) (ctx_rmid c) h) of
             Inl _ \<Rightarrow> None
           | Inr v \<Rightarrow>
               if \<not> is_available_iol3_mbm_rmid v then None
               else if bit v 62 then Some None
               else map_option Some (scale_io_mbm_value (dev_ibrd a) (ctx_rmid c) (iol3_mbm_rmid_to_uint64 v))))"

lemma read_io_mbm_sum:
  assumes "\<forall>c\<in>set cs. io_reading reader Y h c = Some (val c)"
  shows "read_io_mbm_loop reader Y cs acc h =
    Some (if \<exists>c\<in>set cs. val c = None then Inl PQOS_RETVAL_OVERFLOW else Inr (acc + (\<Sum>c\<leftarrow>cs. the (val c))))"
  using assms
proof (induction cs arbitrary: acc)
  case (Cons c cs)
  then obtain a v where a: "dev_agent_of_channel Y (ctx_channel_id c) = Some a"
      and v: "one_reg (reader (Some (dev_ibrd a)) (ctx_rmid c) (ctx_rmid c) h) = Inr v" "is_available_iol3_mbm_rmid v"
    by (auto simp: io_reading_def split: option.splits sum.splits if_splits)
  show ?case
  proof (cases "bit v 62")
    case True
    with Cons.prems a v have "val c = None" by (auto simp: io_reading_def)
    with True a v show ?thesis by (simp add: iol3_mbm_overflow_flag)
  next
    case False
    from Cons.prems have "io_reading reader Y h c = Some (val c)" by simp
    with False a v have "map_option Some (scale_io_mbm_value (dev_ibrd a) (ctx_rmid c) (iol3_mbm_rmid_to_uint64 v)) = Some (val c)"
      by (simp add: io_reading_def)
    then obtain y where y: "scale_io_mbm_value (dev_ibrd a) (ctx_rmid c) (iol3_mbm_rmid_to_uint64 v) = Some y" "val c = Some y"
      by (cases "val c") auto
    from Cons.IH [of "acc + y"] Cons.prems False a v y show ?thesis by (simp add: iol3_mbm_overflow_flag add.assoc)
  qed
qed simp

text \<open>
  C37. A poll of the I/O bandwidth over MMIO reports overflow and stores nothing of it. When every counter of the group can be read and is
  available, the poll answers \<open>PQOS_RETVAL_OVERFLOW\<close> exactly if a counter has its overflow flag set, and then changes nothing but that the next
  successful poll has no predecessor (its delta is zero); otherwise it stores the sum of the scaled counters (modulo 2^64) and the
  change since the last successful poll. This holds for the total traffic and for the misses.
\<close>

theorem mmio_io_poll:
  assumes "\<forall>c\<in>set (mg_hw_ctx g). io_reading (get_total_iol3_mbm_rmid_range_v1 D) Y h c = Some (tot c)"
    and "\<forall>c\<in>set (mg_hw_ctx g). io_reading (get_miss_iol3_mbm_rmid_range_v1 D) Y h c = Some (mis c)"
  shows "mmio_mon_read_counter D Y PQOS_MON_EVENT_IO_TOTAL_MEM_BW g h = Some
      (if \<exists>c\<in>set (mg_hw_ctx g). tot c = None then (PQOS_RETVAL_OVERFLOW, g\<lparr>mr_valid_io_total_read := False\<rparr>)
       else (let sum = \<Sum>c\<leftarrow>mg_hw_ctx g. the (tot c)
             in (PQOS_RETVAL_OK, g\<lparr>mr_io_total_delta := (if mr_valid_io_total_read g then sum - mr_io_total g else 0), mr_io_total := sum,
               mr_valid_io_total_read := True\<rparr>))) \<and>
    mmio_mon_read_counter D Y PQOS_MON_EVENT_IO_MISS_MEM_BW g h = Some
      (if \<exists>c\<in>set (mg_hw_ctx g). mis c = None then (PQOS_RETVAL_OVERFLOW, g\<lparr>mr_valid_io_miss_read := False\<rparr>)
       else (let sum = \<Sum>c\<leftarrow>mg_hw_ctx g. the (mis c)
             in (PQOS_RETVAL_OK, g\<lparr>mr_io_miss_delta := (if mr_valid_io_miss_read g then sum - mr_io_miss g else 0), mr_io_miss := sum,
               mr_valid_io_miss_read := True\<rparr>)))"
proof -
  have ev: "PQOS_MON_EVENT_IO_TOTAL_MEM_BW \<notin> {PQOS_MON_EVENT_L3_OCCUP, PQOS_MON_EVENT_TMEM_BW, PQOS_MON_EVENT_IO_L3_OCCUP}"
    "PQOS_MON_EVENT_IO_MISS_MEM_BW \<notin> {PQOS_MON_EVENT_L3_OCCUP, PQOS_MON_EVENT_TMEM_BW, PQOS_MON_EVENT_IO_L3_OCCUP, PQOS_MON_EVENT_IO_TOTAL_MEM_BW}"
    by code_simp+
  show ?thesis
    using ev by (auto simp: mmio_mon_read_counter_def read_io_mbm_sum [OF assms(1)] read_io_mbm_sum [OF assms(2)] Let_def)
qed

section \<open>RMIDs of channels\<close>

text \<open>The domain table and the agents agree, and no domain is described twice.\<close>

definition wf_domains :: "mmio_sys \<Rightarrow> bool" where
  "wf_domains Y \<longleftrightarrow>
     distinct (map (\<lambda>a. rmdd_domain_id (dev_rmdd a)) (erdt_dev_agents (sys_erdt Y))) \<and>
     length (erdt_dev_agents (sys_erdt Y)) < 2 ^ 16 \<and>
     (\<forall>ch d i. get_dev_domain_info Y ch = Inr (d, i) \<longrightarrow>
        unat i < length (erdt_dev_agents (sys_erdt Y)) \<and> rmdd_domain_id (dev_rmdd (erdt_dev_agents (sys_erdt Y) ! unat i)) = d)"

definition dev_table :: "pqos_erdt_info \<Rightarrow> dev_rmid_list \<Rightarrow> bool" where
  "dev_table erdt used \<longleftrightarrow>
     length used = length (erdt_dev_agents erdt) \<and>
     (\<forall>i<length used. fst (used ! i) = rmdd_domain_id (dev_rmdd (erdt_dev_agents erdt ! i)) \<and>
        length (snd (used ! i)) = unat (rmdd_max_rmids (dev_rmdd (erdt_dev_agents erdt ! i))) + 1)"

lemma dev_table_inside:
  assumes "dev_table erdt used" and "i < length (erdt_dev_agents erdt)" and "r \<le> rmdd_max_rmids (dev_rmdd (erdt_dev_agents erdt ! i))"
  shows "i < length used \<and> unat r < length (snd (used ! i))"
  using assms by (auto simp: dev_table_def word_le_nat_alt)

lemma mark_dev_facts:
  assumes "dev_table erdt used" and "i < length used"
  shows "dev_table erdt (mark_dev_rmid erdt m d i r used) \<and>
    (\<forall>j<length used. \<forall>k<length (snd (used ! j)). snd (used ! j) ! k \<longrightarrow> snd (mark_dev_rmid erdt m d i r used ! j) ! k) \<and>
    (fst (used ! i) = d \<longrightarrow> r \<le> m \<longrightarrow> unat r < length (snd (used ! i)) \<longrightarrow> snd (mark_dev_rmid erdt m d i r used ! i) ! unat r)"
  using assms by (auto simp: dev_table_def mark_dev_rmid_def nth_list_update word_le_nat_alt)

text \<open>The list of used RMIDs contains the RMID of every tagged channel of the domain.\<close>

lemma dev_rmid_list_facts:
  assumes wf: "wf_domains Y"
    and "get_dev_rmid_list E Y cluster m cs used s = Inr used'" and "dev_table (sys_erdt Y) used"
  shows "dev_table (sys_erdt Y) used' \<and>
    (\<forall>j<length used. \<forall>k<length (snd (used ! j)). snd (used ! j) ! k \<longrightarrow> snd (used' ! j) ! k) \<and>
    (\<forall>c\<in>set cs. \<forall>d i r. rmid_tagging c \<longrightarrow> get_dev_domain_info Y (channel_id c) = Inr (d, i) \<longrightarrow> ucast d = cluster \<longrightarrow>
       iordt_mon_assoc_read E (channel_id c) s = Inr r \<longrightarrow> r \<le> m \<longrightarrow> unat r < length (snd (used' ! unat i)) \<longrightarrow> snd (used' ! unat i) ! unat r)"
  using assms(2,3)
proof (induction cs arbitrary: used)
  case (Cons c cs)
  show ?case
  proof (cases "rmid_tagging c \<and> (\<exists>d i. get_dev_domain_info Y (channel_id c) = Inr (d, i) \<and> ucast d = cluster)")
    case False
    then have "get_dev_rmid_list E Y cluster m cs used s = Inr used'"
      using Cons.prems(1) by (auto split: sum.splits if_splits)
    from Cons.IH [OF this Cons.prems(2)] False show ?thesis by auto
  next
    case True
    then obtain d i where di: "get_dev_domain_info Y (channel_id c) = Inr (d, i)" "ucast d = cluster" by auto
    with wf have i: "unat i < length (erdt_dev_agents (sys_erdt Y))"
        and d: "rmdd_domain_id (dev_rmdd (erdt_dev_agents (sys_erdt Y) ! unat i)) = d"
      unfolding wf_domains_def by auto
    from True di Cons.prems(1) obtain r where r: "iordt_mon_assoc_read E (channel_id c) s = Inr r"
        and rest: "get_dev_rmid_list E Y cluster m cs (mark_dev_rmid (sys_erdt Y) m d (unat i) r used) s = Inr used'"
      by (auto split: sum.splits if_splits)
    let ?u = "mark_dev_rmid (sys_erdt Y) m d (unat i) r used"
    have iu: "unat i < length used" and fd: "fst (used ! unat i) = d"
      using i d Cons.prems(2) by (auto simp: dev_table_def)
    note mk = mark_dev_facts [OF Cons.prems(2) iu, of m d r]
    note ih = Cons.IH [OF rest conjunct1 [OF mk]]
    have lens: "length ?u = length used" "\<forall>j<length used. length (snd (?u ! j)) = length (snd (used ! j))"
        "\<forall>j<length used. length (snd (used' ! j)) = length (snd (used ! j))" "length used' = length used"
      using mk ih Cons.prems(2) by (auto simp: dev_table_def)
    show ?thesis using mk ih lens iu fd di(1) r by auto
  qed
qed simp

lemma last_domain_unique:
  assumes "distinct (map fst used)" "i < length used" "ucast (fst (used ! i)) = cluster"
  shows "last_domain_idx cluster used k f = of_nat (k + i)"
  using assms
proof (induction used arbitrary: i k f)
  case (Cons p used)
  obtain d l where p: "p = (d, l)" by fastforce
  have inj: "d = d'" if "ucast d = (ucast d' :: u32)" for d' :: u16
    using arg_cong [OF that, of unat] by (simp add: unat_ucast_up word_unat_eq_iff)
  show ?case
  proof (cases i)
    case 0
    have "last_domain_idx cluster used n g = g" if "cluster \<notin> (\<lambda>q. ucast (fst q)) ` set used" for n g
      using that by (induction used arbitrary: n g) auto
    moreover have "cluster \<notin> (\<lambda>q. ucast (fst q)) ` set used"
      using Cons.prems 0 p inj by (fastforce simp: image_iff)
    ultimately show ?thesis using Cons.prems(3) 0 p by simp
  next
    case (Suc j)
    then show ?thesis using Cons.prems Cons.IH [of j "Suc k"] p by simp
  qed
qed simp

lemma free_dev_found:
  assumes "free_dev_rmid used is = Some (Inr r)"
  shows "\<exists>i\<in>set is. i < length used \<and> r = of_nat i \<and> \<not> used ! i"
  using assms by (induction "is") (auto split: if_splits)

text \<open>
  C21. The RMID chosen for a channel of a domain lies in the requested range and is not the RMID of any channel of this domain that
  supports monitoring, so that two groups of channels never share counters.
\<close>

theorem mmio_channel_rmid_free:
  assumes "wf_domains Y" and "mmio_mon_channels_assoc_unused E Y cluster min_rmid max_rmid s = Some (Inr r)"
    and "pqos_mon_iordt_enabled (Some (m_cap s)) False True = Inr (x, True)"
    and "m_dev s = Some dev" "c \<in> set (table (channels dev))" "rmid_tagging c"
    and "get_dev_domain_info Y (channel_id c) = Inr (d, i)" "ucast d = cluster"
  shows "1 \<le> r \<and> min_rmid \<le> r \<and> r \<le> max_rmid \<and> iordt_mon_assoc_read E (channel_id c) s \<noteq> Inr r"
proof -
  let ?agents = "erdt_dev_agents (sys_erdt Y)"
  let ?init = "map (\<lambda>a. (rmdd_domain_id (dev_rmdd a), replicate (unat (rmdd_max_rmids (dev_rmdd a)) + 1) False)) ?agents"
  let ?min = "if min_rmid < 1 then 1 else min_rmid"
  from assms(2-4) obtain used where used: "get_dev_rmid_list E Y cluster max_rmid (table (channels dev)) ?init s = Inr used"
      and free: "free_dev_rmid (snd (used ! unat (last_domain_idx cluster used 0 (- 1)))) [unat ?min..<Suc (unat max_rmid)] = Some (Inr r)"
    by (auto simp: mmio_mon_channels_assoc_unused_def Let_def split: if_splits sum.splits)
  have "dev_table (sys_erdt Y) ?init" by (simp add: dev_table_def)
  note f = dev_rmid_list_facts [OF assms(1) used this]
  have i: "unat i < length ?agents" and d: "rmdd_domain_id (dev_rmdd (?agents ! unat i)) = d"
    using assms(1,7) unfolding wf_domains_def by auto
  have firsts: "map fst used = map (\<lambda>a. rmdd_domain_id (dev_rmdd a)) ?agents"
    using f by (auto simp: dev_table_def intro: nth_equalityI)
  have "last_domain_idx cluster used 0 (- 1) = of_nat (0 + unat i)"
    by (rule last_domain_unique) (use firsts assms(1,8) i d f in \<open>auto simp: wf_domains_def dev_table_def\<close>)
  then have idx: "last_domain_idx cluster used 0 (- 1) = i" by simp
  from free_dev_found [OF free [unfolded idx]] obtain k where
    k: "unat ?min \<le> k" "k \<le> unat max_rmid" "k < length (snd (used ! unat i))" "r = of_nat k" "\<not> snd (used ! unat i) ! k"
    by (auto simp: less_Suc_eq_le simp del: upt_Suc)
  have "k < 2 ^ 32" using k(2) unsigned_less [of max_rmid] by (auto intro: le_less_trans)
  then have r: "unat r = k" using k(4) by (simp add: unat_of_nat take_bit_nat_eq_self)
  have rng: "?min \<le> r" "r \<le> max_rmid" using k(1,2) r by (auto simp: word_le_nat_alt)
  have "iordt_mon_assoc_read E (channel_id c) s \<noteq> Inr r"
    using f assms(5-8) rng(2) k(3,5) r by blast
  moreover have "1 \<le> ?min" "min_rmid \<le> ?min" by (auto simp: not_less word_le_nat_alt Suc_le_eq unat_gt_0)
  ultimately show ?thesis using rng by (meson order_trans)
qed

section \<open>Samples\<close>

text \<open>Cores 0 and 1 in domain 0, cores 2 and 3 in domain 1, channel \<open>0x102\<close> in device domain 7.\<close>

definition sample_sys :: mmio_sys where
  "sample_sys = \<lparr>sys_erdt = sample_erdt, sys_cores_domains = Some [0, 0, 1, 1],
     sys_channels_domains = \<lparr>cd_channel_ids = [0x102], cd_domain_ids = [7], cd_domain_id_idxs = [0]\<rparr>\<rparr>"

definition mmio_group :: "pqos_mon_data \<Rightarrow> int list \<Rightarrow> mmio_mon_data" where
  "mmio_group g regions = pqos_mon_data.extend g
     \<lparr>mr_region_num = regions, mr_mbm_total = [3, 0, 0, 0], mr_mbm_total_delta = [0, 0, 0, 0], mr_io_llc = 0, mr_io_total = 0,
      mr_io_total_delta = 0, mr_io_miss = 0, mr_io_miss_delta = 0, mr_valid_io_total_read = False, mr_valid_io_miss_read = False\<rparr>"

definition sample_ctx :: "u32 \<Rightarrow> u32 \<Rightarrow> pqos_mon_poll_ctx" where
  "sample_ctx l rmid = \<lparr>ctx_lcore = l, ctx_channel_id = 0x102, ctx_cluster = 0, ctx_numa = 0, ctx_quiet = False, ctx_rmid = rmid\<rparr>"

text \<open>A group with two contexts, in its second poll.\<close>

definition sample_mmio_group :: mmio_mon_data where
  "sample_mmio_group = mmio_group (empty_group\<lparr>mg_hw_ctx := [sample_ctx 0 7, sample_ctx 2 8], mg_valid_mbm_read := True\<rparr>) [0]"

theorem mmio_region_poll_witness:
  "\<exists>g'. mmio_mon_read_counter mem_mmio sample_sys PQOS_MON_EVENT_TMEM_BW sample_mmio_group sample_counters = Some (PQOS_RETVAL_OK, g') \<and>
     mr_mbm_total g' ! 0 = 960 \<and> mr_mbm_total_delta g' ! 0 = 957"
proof -
  let ?g = "sample_mmio_group" and ?val = "\<lambda>c r. if ctx_rmid c = 7 then 448 else (512 :: u64)"
  have pre: "mr_region_num ?g \<noteq> []" "length (mr_region_num ?g) \<le> 4" "length (mr_mbm_total ?g) = 4" "length (mr_mbm_total_delta ?g) = 4"
    by code_simp+
  have ctxs: "mg_hw_ctx ?g = [sample_ctx 0 7, sample_ctx 2 8]" "mr_region_num ?g = [0]" "mg_valid_mbm_read ?g" "mr_mbm_total ?g ! 0 = 3"
    by code_simp+
  have "region_reading mem_mmio sample_sys sample_counters (sample_ctx 0 7) 0 = Some 448"
    "region_reading mem_mmio sample_sys sample_counters (sample_ctx 2 8) 0 = Some 512" by code_simp+
  then have rd: "\<forall>c\<in>set (mg_hw_ctx ?g). \<forall>r\<in>set (mr_region_num ?g). region_reading mem_mmio sample_sys sample_counters c r = Some (?val c r)"
    unfolding ctxs by (simp add: sample_ctx_def)
  from mmio_region_poll [OF pre rd] show ?thesis unfolding ctxs by (force simp: ctxs sample_ctx_def)
qed

text \<open>The total counter of RMID 7 is 7 with the overflow flag, the one of its misses is 5.\<close>

definition sample_io_counters :: byte_mem where
  "sample_io_counters = (\<lambda>a. if a = 0x4003F then 0x40 else if a = 0x40038 then 7 else if a = 0x40438 then 5 else 0)"

definition sample_io_group :: mmio_mon_data where
  "sample_io_group = mmio_group (empty_group\<lparr>mg_hw_ctx := [sample_ctx 0 7]\<rparr>) []"

theorem mmio_io_poll_witness:
  "mmio_mon_read_counter mem_mmio sample_sys PQOS_MON_EVENT_IO_TOTAL_MEM_BW sample_io_group sample_io_counters =
     Some (PQOS_RETVAL_OVERFLOW, sample_io_group\<lparr>mr_valid_io_total_read := False\<rparr>) \<and>
   map_option fst (mmio_mon_read_counter mem_mmio sample_sys PQOS_MON_EVENT_IO_MISS_MEM_BW sample_io_group sample_io_counters) = Some PQOS_RETVAL_OK"
proof -
  have ctx: "mg_hw_ctx sample_io_group = [sample_ctx 0 7]" by code_simp
  have rd: "io_reading (get_total_iol3_mbm_rmid_range_v1 mem_mmio) sample_sys sample_io_counters (sample_ctx 0 7) = Some None" by code_simp
  have "map_option (\<lambda>v. v \<noteq> None) (io_reading (get_miss_iol3_mbm_rmid_range_v1 mem_mmio) sample_sys sample_io_counters (sample_ctx 0 7)) = Some True"
    by code_simp
  then obtain y where mis: "io_reading (get_miss_iol3_mbm_rmid_range_v1 mem_mmio) sample_sys sample_io_counters (sample_ctx 0 7) = Some (Some y)"
    by auto
  from mmio_io_poll [of sample_io_group mem_mmio sample_sys sample_io_counters "\<lambda>_. None" "\<lambda>_. Some y"] rd mis show ?thesis
    by (simp add: ctx Let_def)
qed

definition sample_io_mon :: "byte_mem lib" where
  "sample_io_mon = snd (iordt_mon_assoc_write mem_platform 0x102 1
     (sample_io_lib\<lparr>m_cap := [CapMon (sample_mon\<lparr>mon_iordt := True, mon_iordt_on := True\<rparr>)]\<rparr>))"

lemma sample_wf_domains: "wf_domains sample_sys"
proof -
  have "get_dev_domain_info sample_sys ch = (if ch = 0x102 then Inr (7, 0) else Inl PQOS_RETVAL_UNAVAILABLE)" for ch
    by (simp add: get_dev_domain_info_def sample_sys_def Let_def)
  then show ?thesis
    by (auto simp: wf_domains_def sample_sys_def sample_erdt_def sample_dev_agent_def sample_rmdd_def)
qed

theorem mmio_channel_rmid_free_witness:
  "mmio_mon_channels_assoc_unused mem_platform sample_sys 7 0 16 sample_io_mon = Some (Inr 2) \<and>
   iordt_mon_assoc_read mem_platform 0x102 sample_io_mon \<noteq> Inr 2"
proof -
  let ?c = "\<lparr>channel_id = 0x102, rmid_tagging = True, clos_tagging = True, cxld = False, mmio_addr = 0x1000, chan_numa = 0\<rparr>"
  have run: "mmio_mon_channels_assoc_unused mem_platform sample_sys 7 0 16 sample_io_mon = Some (Inr 2)" by code_simp
  have en: "pqos_mon_iordt_enabled (Some (m_cap sample_io_mon)) False True = Inr (True, True)" by code_simp
  have dev: "m_dev sample_io_mon = Some \<lparr>channels = Some [?c], devs = None\<rparr>" by code_simp
  have dom: "get_dev_domain_info sample_sys (channel_id ?c) = Inr (7, 0)" "ucast (7 :: u16) = (7 :: u32)" by code_simp+
  have c: "?c \<in> set (table (channels \<lparr>channels = Some [?c], devs = None\<rparr>))" "rmid_tagging ?c" by (simp_all add: table_def)
  from mmio_channel_rmid_free [OF sample_wf_domains run en dev c dom] run show ?thesis by simp
qed

section \<open>Error paths\<close>

text \<open>
  A failed start leaves traces: with the local bandwidth event, which the MMIO interface lists as a capability but has no counter for,
  \<open>mmio_mon_start_cores\<close> answers \<open>PQOS_RETVAL_ERROR\<close>, and the core stays associated with the RMID that was allocated for it, so that
  the next start of the core, also for an event that is supported, is refused.
\<close>

theorem mmio_start_leaves_rmids:
  "(case mmio_mon_start_cores ref_platform no_perf_os sample_module sample_sys [0] PQOS_MON_EVENT_LMEM_BW [0] (mmio_group empty_group []) sample_mon_lib
    of (ret, g, s) \<Rightarrow>
      (ret, fst (mon_assoc_read ref_platform 0 s),
       fst (mmio_mon_start_cores ref_platform no_perf_os sample_module sample_sys [0] PQOS_MON_EVENT_TMEM_BW [0] (mmio_group empty_group []) s))) =
   (PQOS_RETVAL_ERROR, Inr 2, PQOS_RETVAL_RESOURCE)"
  by code_simp

text \<open>On a fresh core the supported event starts.\<close>

lemma mmio_start_succeeds:
  "fst (mmio_mon_start_cores ref_platform no_perf_os sample_module sample_sys [0] PQOS_MON_EVENT_TMEM_BW [0] (mmio_group empty_group []) sample_mon_lib) =
   PQOS_RETVAL_OK"
  by code_simp

end
