(* ===== verification/Erdt.thy ===== *)
theory Erdt
  imports Mmio "HOL-Library.Monad_Syntax"
begin

text \<open>
  The parser of the ERDT table (\<open>lib/erdt.c\<close>, structures in \<open>lib/erdt.h\<close>). The table is the list of its bytes and a pointer an
  offset into it. A result \<open>None\<close> is an access outside the table or outside an array, or a loop that does not
  end; \<open>Some (Inl e)\<close> is a status.
\<close>

section \<open>Packed structures\<close>

text \<open>Little-endian fields of packed structures.\<close>

fun le_word :: "u8 list \<Rightarrow> 'a::len word" where
  "le_word [] = 0"
| "le_word (b # bs) = ucast b OR push_bit 8 (le_word bs)"

definition read_le :: "nat \<Rightarrow> u8 list \<Rightarrow> nat \<Rightarrow> 'a::len word option" where
  "read_le n bs p = (if p + n \<le> length bs then Some (le_word (take n (drop p bs))) else None)"

definition rd8 :: "u8 list \<Rightarrow> nat \<Rightarrow> u8 option" where "rd8 = read_le 1"
definition rd16 :: "u8 list \<Rightarrow> nat \<Rightarrow> u16 option" where "rd16 = read_le 2"
definition rd32 :: "u8 list \<Rightarrow> nat \<Rightarrow> u32 option" where "rd32 = read_le 4"
definition rd64 :: "u8 list \<Rightarrow> nat \<Rightarrow> u64 option" where "rd64 = read_le 8"

text \<open>\<open>memcpy\<close> of \<open>n\<close> bytes, and of an array of \<open>n\<close> 32-bit numbers.\<close>

definition rd_bytes :: "u8 list \<Rightarrow> nat \<Rightarrow> nat \<Rightarrow> u8 list option" where
  "rd_bytes bs p n = (if p + n \<le> length bs then Some (take n (drop p bs)) else None)"

definition rd_array32 :: "u8 list \<Rightarrow> nat \<Rightarrow> nat \<Rightarrow> u32 list option" where
  "rd_array32 bs p n =
     (if p + 4 * n \<le> length bs then Some (map (\<lambda>k. le_word (take 4 (drop (p + 4 * k) bs))) [0..<n]) else None)"

text \<open>An operation with a status, followed by one that needs its result.\<close>

definition and_then :: "'a res option \<Rightarrow> ('a \<Rightarrow> 'b res option) \<Rightarrow> 'b res option" where
  "and_then m f = (case m of None \<Rightarrow> None | Some (Inl e) \<Rightarrow> Some (Inl e) | Some (Inr x) \<Rightarrow> f x)"

lemma and_then_simps [simp]:
  "and_then None f = None" "and_then (Some (Inl e)) f = Some (Inl e)" "and_then (Some (Inr x)) f = f x"
  by (simp_all add: and_then_def)

text \<open>Sizes of the packed structures.\<close>

definition ACPI_HEADER_SIZE :: nat where "ACPI_HEADER_SIZE = 36"
definition ERDT_HEADER_SIZE :: nat where "ERDT_HEADER_SIZE = 64"
definition RMDD_SIZE :: nat where "RMDD_SIZE = 34"
definition CACD_SIZE :: nat where "CACD_SIZE = 8"
definition DACD_SIZE :: nat where "DACD_SIZE = 8"
definition CMRC_SIZE :: nat where "CMRC_SIZE = 48"
definition MMRC_SIZE :: nat where "MMRC_SIZE = 56"
definition MARC_SIZE :: nat where "MARC_SIZE = 48"
definition CMRD_SIZE :: nat where "CMRD_SIZE = 48"
definition IBRD_SIZE :: nat where "IBRD_SIZE = 64"
definition CARD_SIZE :: nat where "CARD_SIZE = 40"

definition ACPI_ERDT_REVISION :: u8 where "ACPI_ERDT_REVISION = 1"
definition ACPI_ERDT_STRUCT_RMDD_TYPE :: u16 where "ACPI_ERDT_STRUCT_RMDD_TYPE = 0"
definition ACPI_ERDT_STRUCT_CACD_TYPE :: u16 where "ACPI_ERDT_STRUCT_CACD_TYPE = 1"
definition ACPI_ERDT_STRUCT_DACD_TYPE :: u16 where "ACPI_ERDT_STRUCT_DACD_TYPE = 2"
definition ACPI_ERDT_STRUCT_CMRC_TYPE :: u16 where "ACPI_ERDT_STRUCT_CMRC_TYPE = 3"
definition ACPI_ERDT_STRUCT_MMRC_TYPE :: u16 where "ACPI_ERDT_STRUCT_MMRC_TYPE = 4"
definition ACPI_ERDT_STRUCT_MARC_TYPE :: u16 where "ACPI_ERDT_STRUCT_MARC_TYPE = 5"
definition ACPI_ERDT_STRUCT_CMRD_TYPE :: u16 where "ACPI_ERDT_STRUCT_CMRD_TYPE = 7"
definition ACPI_ERDT_STRUCT_IBRD_TYPE :: u16 where "ACPI_ERDT_STRUCT_IBRD_TYPE = 8"
definition ACPI_ERDT_STRUCT_CARD_TYPE :: u16 where "ACPI_ERDT_STRUCT_CARD_TYPE = 10"
definition ACPI_ERDT_STRUCT_DASE_HEADER_LENGTH :: nat where "ACPI_ERDT_STRUCT_DASE_HEADER_LENGTH = 6"
definition PATH_PAIR_LENGTH :: nat where "PATH_PAIR_LENGTH = 2"
definition RMDD_L3_DOMAIN :: u16 where "RMDD_L3_DOMAIN = 1"
definition RMDD_IO_L3_DOMAIN :: u16 where "RMDD_IO_L3_DOMAIN = 2"
definition RMDD_DOMAIN_MASK :: u16 where "RMDD_DOMAIN_MASK = RMDD_L3_DOMAIN OR RMDD_IO_L3_DOMAIN"

lemmas erdt_sizes =
  ACPI_HEADER_SIZE_def ERDT_HEADER_SIZE_def RMDD_SIZE_def CACD_SIZE_def DACD_SIZE_def CMRC_SIZE_def MMRC_SIZE_def MARC_SIZE_def
  CMRD_SIZE_def IBRD_SIZE_def CARD_SIZE_def ACPI_ERDT_STRUCT_DASE_HEADER_LENGTH_def PATH_PAIR_LENGTH_def

section \<open>Sub-structures\<close>

text \<open>The structure starts at the cursor; the result is the cursor behind it and what remains.\<close>

definition erdt_get_structure :: "u8 list \<Rightarrow> nat \<Rightarrow> nat \<Rightarrow> (nat \<times> nat) res option" where
  "erdt_get_structure bs cursor remaining =
     (if remaining < 4 then Some (Inl PQOS_RETVAL_ERROR)
      else do {
        len \<leftarrow> rd16 bs (cursor + 2);
        Some (if unat len < 4 \<or> remaining < unat len then Inl PQOS_RETVAL_ERROR
              else Inr (cursor + unat len, remaining - unat len)) })"

lemma get_structure_shrinks:
  "erdt_get_structure bs cursor remaining = Some (Inr (c, r)) \<Longrightarrow> r < remaining \<and> c + r = cursor + remaining \<and> cursor + 4 \<le> c"
  by (auto simp: erdt_get_structure_def split: if_splits Option.bind_splits)

text \<open>
  The loop over the sub-structures, shared by the four places that have it; \<open>body\<close> gets the offset of the
  structure.
\<close>

function erdt_loop :: "(nat \<Rightarrow> 's \<Rightarrow> 's res option) \<Rightarrow> u8 list \<Rightarrow> nat \<Rightarrow> nat \<Rightarrow> 's \<Rightarrow> 's res option" where
  "erdt_loop body bs cursor remaining st =
     (if remaining = 0 then Some (Inr st)
      else (case erdt_get_structure bs cursor remaining of
              None \<Rightarrow> None
            | Some (Inl e) \<Rightarrow> Some (Inl e)
            | Some (Inr (c, r)) \<Rightarrow> and_then (body cursor st) (erdt_loop body bs c r)))"
  by pat_completeness auto
termination erdt_loop
  by (relation "measure (\<lambda>(body, bs, cursor, remaining, st). remaining)") (auto dest: get_structure_shrinks)

declare erdt_loop.simps [simp del]

section \<open>The parts of an agent\<close>

definition copy_correction_factor :: "u8 list \<Rightarrow> nat \<Rightarrow> nat \<Rightarrow> u32 \<Rightarrow> u32 list res option" where
  "copy_correction_factor bs p count max_rmids =
     (if count \<noteq> 0 \<and> count \<noteq> 1 \<and> (max_rmids = - 1 \<or> count \<noteq> unat max_rmids + 1) then Some (Inl PQOS_RETVAL_ERROR)
      else if count = 0 then Some (Inr [])
      else map_option Inr (rd_array32 bs p count))"

definition erdt_populate_cacd :: "u8 list \<Rightarrow> nat \<Rightarrow> pqos_erdt_cacd res option" where
  "erdt_populate_cacd bs p = do {
     len \<leftarrow> rd16 bs (p + 2);
     domain \<leftarrow> rd16 bs (p + 6);
     (let enum_ids_size = unat len - CACD_SIZE
      in if enum_ids_size mod 4 \<noteq> 0 then Some (Inl PQOS_RETVAL_ERROR)
         else do {
           ids \<leftarrow> rd_array32 bs (p + CACD_SIZE) (enum_ids_size div 4);
           Some (Inr \<lparr>cacd_rmdd_domain_id = domain, cacd_enumeration_ids = ids\<rparr>) }) }"

definition erdt_populate_cmrc :: "u8 list \<Rightarrow> nat \<Rightarrow> pqos_erdt_cmrc option" where
  "erdt_populate_cmrc bs p = do {
     flags \<leftarrow> rd32 bs (p + 8);
     ver \<leftarrow> rd8 bs (p + 12);
     base \<leftarrow> rd64 bs (p + 24);
     bsize \<leftarrow> rd32 bs (p + 32);
     clump \<leftarrow> rd16 bs (p + 36);
     stride \<leftarrow> rd16 bs (p + 38);
     scale \<leftarrow> rd64 bs (p + 40);
     Some \<lparr>cmrc_flags = flags, cmrc_reg_index_func_ver = ver, cmrc_block_base_addr = base, cmrc_block_size = bsize,
           cmrc_clump_size = clump, cmrc_clump_stride = stride, cmrc_upscaling_factor = scale\<rparr> }"

definition erdt_populate_mmrc :: "u8 list \<Rightarrow> nat \<Rightarrow> u32 \<Rightarrow> pqos_erdt_mmrc res option" where
  "erdt_populate_mmrc bs p max_rmids = do {
     len \<leftarrow> rd16 bs (p + 2);
     listed \<leftarrow> rd32 bs (p + 52);
     (let available = unat len - MMRC_SIZE
      in if available mod 4 \<noteq> 0 \<or> unat listed \<noteq> available div 4 then Some (Inl PQOS_RETVAL_ERROR)
         else do {
           flags \<leftarrow> rd32 bs (p + 8);
           ver \<leftarrow> rd8 bs (p + 12);
           base \<leftarrow> rd64 bs (p + 24);
           bsize \<leftarrow> rd32 bs (p + 32);
           width \<leftarrow> rd8 bs (p + 36);
           scale \<leftarrow> rd64 bs (p + 37);
           and_then (copy_correction_factor bs (p + MMRC_SIZE) (unat listed) max_rmids) (\<lambda>factors.
             Some (Inr \<lparr>mmrc_flags = flags, mmrc_reg_index_func_ver = ver, mmrc_reg_block_base_addr = base,
                        mmrc_reg_block_size = bsize, mmrc_counter_width = width, mmrc_upscaling_factor = scale,
                        mmrc_correction_factor = factors\<rparr>)) }) }"

definition erdt_populate_marc :: "u8 list \<Rightarrow> nat \<Rightarrow> pqos_erdt_marc option" where
  "erdt_populate_marc bs p = do {
     flags \<leftarrow> rd16 bs (p + 6);
     ver \<leftarrow> rd8 bs (p + 8);
     opt \<leftarrow> rd64 bs (p + 16);
     mini \<leftarrow> rd64 bs (p + 24);
     maxi \<leftarrow> rd64 bs (p + 32);
     bsize \<leftarrow> rd32 bs (p + 40);
     window \<leftarrow> rd32 bs (p + 44);
     Some \<lparr>marc_flags = flags, marc_reg_index_func_ver = ver, opt_bw_reg_block_base_addr = opt,
           min_bw_reg_block_base_addr = mini, max_bw_reg_block_base_addr = maxi, marc_reg_block_size = bsize,
           marc_control_window_range = window\<rparr> }"

text \<open>
  The DASE entries: the first pass checks and counts them, the second copies them. The second pass has no
  checks; where an entry lies outside the table it is \<open>None\<close>.
\<close>

function erdt_calculate_num_dases :: "u8 list \<Rightarrow> nat \<Rightarrow> nat \<Rightarrow> nat \<Rightarrow> nat res option" where
  "erdt_calculate_num_dases bs len p count =
     (if len = 0 then Some (Inr count)
      else if len < ACPI_ERDT_STRUCT_DASE_HEADER_LENGTH then Some (Inl PQOS_RETVAL_ERROR)
      else do {
        dlen \<leftarrow> rd8 bs (p + 1);
        (if unat dlen < ACPI_ERDT_STRUCT_DASE_HEADER_LENGTH + PATH_PAIR_LENGTH \<or> len < unat dlen then Some (Inl PQOS_RETVAL_ERROR)
         else if (unat dlen - ACPI_ERDT_STRUCT_DASE_HEADER_LENGTH) mod PATH_PAIR_LENGTH \<noteq> 0 then Some (Inl PQOS_RETVAL_ERROR)
         else do {
           ty \<leftarrow> rd8 bs p;
           if ty \<noteq> 1 \<and> ty \<noteq> 2 then Some (Inl PQOS_RETVAL_ERROR)
           else erdt_calculate_num_dases bs (len - unat dlen) (p + unat dlen) (Suc count) }) })"
  by pat_completeness auto
termination erdt_calculate_num_dases
  by (relation "measure (\<lambda>(bs, len, p, count). len)") (auto simp: erdt_sizes)

declare erdt_calculate_num_dases.simps [simp del]

fun erdt_copy_dases :: "u8 list \<Rightarrow> nat \<Rightarrow> nat \<Rightarrow> pqos_erdt_dase list option" where
  "erdt_copy_dases bs 0 p = Some []"
| "erdt_copy_dases bs (Suc n) p = do {
     ty \<leftarrow> rd8 bs p;
     dlen \<leftarrow> rd8 bs (p + 1);
     segment \<leftarrow> rd16 bs (p + 2);
     bus \<leftarrow> rd8 bs (p + 5);
     path \<leftarrow> rd_bytes bs (p + ACPI_ERDT_STRUCT_DASE_HEADER_LENGTH) (unat dlen - ACPI_ERDT_STRUCT_DASE_HEADER_LENGTH);
     rest \<leftarrow> erdt_copy_dases bs n (p + unat dlen);
     Some (\<lparr>dase_type = ty, dase_segment_number = segment, dase_start_bus_number = bus, dase_path = path\<rparr> # rest) }"

definition erdt_populate_dacd :: "u8 list \<Rightarrow> nat \<Rightarrow> pqos_erdt_dacd res option" where
  "erdt_populate_dacd bs p = do {
     len \<leftarrow> rd16 bs (p + 2);
     domain \<leftarrow> rd16 bs (p + 6);
     (let dase_size = unat len - DACD_SIZE
      in if dase_size = 0 then Some (Inl PQOS_RETVAL_ERROR)
         else and_then (erdt_calculate_num_dases bs dase_size (p + DACD_SIZE) 0) (\<lambda>num_dases. do {
           dases \<leftarrow> erdt_copy_dases bs num_dases (p + DACD_SIZE);
           Some (Inr \<lparr>dacd_type = 0, dacd_length = 0, dacd_rmdd_domain_id = domain, dacd_dase = dases\<rparr>) })) }"

definition erdt_populate_cmrd :: "u8 list \<Rightarrow> nat \<Rightarrow> pqos_erdt_cmrd option" where
  "erdt_populate_cmrd bs p = do {
     flags \<leftarrow> rd32 bs (p + 8);
     ver \<leftarrow> rd8 bs (p + 12);
     base \<leftarrow> rd64 bs (p + 24);
     bsize \<leftarrow> rd32 bs (p + 32);
     off \<leftarrow> rd16 bs (p + 36);
     clump \<leftarrow> rd16 bs (p + 38);
     scale \<leftarrow> rd64 bs (p + 40);
     Some \<lparr>cmrd_flags = flags, cmrd_reg_index_func_ver = ver, cmrd_reg_base_addr = base, cmrd_reg_block_size = bsize,
           cmrd_offset = off, cmrd_clump_size = clump, cmrd_upscaling_factor = scale\<rparr> }"

definition erdt_populate_ibrd :: "u8 list \<Rightarrow> nat \<Rightarrow> u32 \<Rightarrow> pqos_erdt_ibrd res option" where
  "erdt_populate_ibrd bs p max_rmids = do {
     len \<leftarrow> rd16 bs (p + 2);
     listed \<leftarrow> rd32 bs (p + 60);
     (let available = unat len - IBRD_SIZE
      in if available mod 4 \<noteq> 0 \<or> unat listed \<noteq> available div 4 then Some (Inl PQOS_RETVAL_ERROR)
         else do {
           flags \<leftarrow> rd32 bs (p + 8);
           ver \<leftarrow> rd8 bs (p + 12);
           base \<leftarrow> rd64 bs (p + 24);
           bsize \<leftarrow> rd32 bs (p + 32);
           off \<leftarrow> rd16 bs (p + 36);
           miss \<leftarrow> rd16 bs (p + 38);
           clump \<leftarrow> rd16 bs (p + 40);
           mclump \<leftarrow> rd16 bs (p + 42);
           width \<leftarrow> rd8 bs (p + 51);
           scale \<leftarrow> rd64 bs (p + 52);
           and_then (copy_correction_factor bs (p + IBRD_SIZE) (unat listed) max_rmids) (\<lambda>factors.
             Some (Inr \<lparr>ibrd_flags = flags, ibrd_reg_index_func_ver = ver, ibrd_reg_base_addr = base, ibrd_reg_block_size = bsize,
                        ibrd_bw_reg_offset = off, ibrd_miss_bw_reg_offset = miss, ibrd_bw_reg_clump_size = clump,
                        ibrd_miss_reg_clump_size = mclump, ibrd_counter_width = width, ibrd_upscaling_factor = scale,
                        ibrd_correction_factor = factors\<rparr>)) }) }"

definition flag_bit :: "u32 \<Rightarrow> u32 \<Rightarrow> u32" where
  "flag_bit flags b = (if flags AND b \<noteq> 0 then 1 else 0)"

definition erdt_populate_card :: "u8 list \<Rightarrow> nat \<Rightarrow> pqos_erdt_card option" where
  "erdt_populate_card bs p = do {
     flags \<leftarrow> rd32 bs (p + 8);
     contention \<leftarrow> rd32 bs (p + 12);
     ver \<leftarrow> rd8 bs (p + 16);
     base \<leftarrow> rd64 bs (p + 24);
     bsize \<leftarrow> rd32 bs (p + 32);
     off \<leftarrow> rd16 bs (p + 36);
     csize \<leftarrow> rd16 bs (p + 38);
     Some \<lparr>card_contention_bitmask_valid = flag_bit flags 1, card_non_contiguous_cbm = flag_bit flags 2,
           card_zero_length_bitmask = flag_bit flags 4, card_contention_bitmask = contention, card_reg_index_func_ver = ver,
           card_reg_base_addr = base, card_reg_block_size = bsize, card_cat_reg_offset = off, card_cat_reg_block_size = csize\<rparr> }"

definition erdt_populate_rmdd :: "u8 list \<Rightarrow> nat \<Rightarrow> pqos_erdt_rmdd option" where
  "erdt_populate_rmdd bs p = do {
     flags \<leftarrow> rd16 bs (p + 4);
     slices \<leftarrow> rd16 bs (p + 6);
     sets \<leftarrow> rd8 bs (p + 8);
     ways \<leftarrow> rd8 bs (p + 9);
     domain \<leftarrow> rd16 bs (p + 18);
     rmids \<leftarrow> rd32 bs (p + 20);
     base \<leftarrow> rd64 bs (p + 24);
     csize \<leftarrow> rd16 bs (p + 32);
     Some \<lparr>rmdd_flags = flags, rmdd_num_io_l3_slices = slices, rmdd_num_io_l3_sets = sets, rmdd_num_io_l3_ways = ways,
           rmdd_domain_id = domain, rmdd_max_rmids = rmids, rmdd_control_reg_base_addr = base, rmdd_control_reg_size = csize\<rparr> }"

section \<open>Agents\<close>

text \<open>An agent as \<open>calloc\<close> delivers it, with the RMDD filled in.\<close>

definition new_cpu_agent :: "pqos_erdt_rmdd \<Rightarrow> pqos_cpu_agent_info" where
  "new_cpu_agent rmdd = \<lparr>cpu_rmdd = rmdd,
     cpu_cacd = \<lparr>cacd_rmdd_domain_id = 0, cacd_enumeration_ids = []\<rparr>,
     cpu_cmrc = \<lparr>cmrc_flags = 0, cmrc_reg_index_func_ver = 0, cmrc_block_base_addr = 0, cmrc_block_size = 0, cmrc_clump_size = 0,
       cmrc_clump_stride = 0, cmrc_upscaling_factor = 0\<rparr>,
     cpu_mmrc = \<lparr>mmrc_flags = 0, mmrc_reg_index_func_ver = 0, mmrc_reg_block_base_addr = 0, mmrc_reg_block_size = 0,
       mmrc_counter_width = 0, mmrc_upscaling_factor = 0, mmrc_correction_factor = []\<rparr>,
     cpu_marc = \<lparr>marc_flags = 0, marc_reg_index_func_ver = 0, opt_bw_reg_block_base_addr = 0, min_bw_reg_block_base_addr = 0,
       max_bw_reg_block_base_addr = 0, marc_reg_block_size = 0, marc_control_window_range = 0\<rparr>\<rparr>"

definition new_dev_agent :: "pqos_erdt_rmdd \<Rightarrow> pqos_device_agent_info" where
  "new_dev_agent rmdd = \<lparr>dev_rmdd = rmdd,
     dev_dacd = \<lparr>dacd_type = 0, dacd_length = 0, dacd_rmdd_domain_id = 0, dacd_dase = []\<rparr>,
     dev_cmrd = \<lparr>cmrd_flags = 0, cmrd_reg_index_func_ver = 0, cmrd_reg_base_addr = 0, cmrd_reg_block_size = 0, cmrd_offset = 0,
       cmrd_clump_size = 0, cmrd_upscaling_factor = 0\<rparr>,
     dev_ibrd = \<lparr>ibrd_flags = 0, ibrd_reg_index_func_ver = 0, ibrd_reg_base_addr = 0, ibrd_reg_block_size = 0,
       ibrd_bw_reg_offset = 0, ibrd_miss_bw_reg_offset = 0, ibrd_bw_reg_clump_size = 0, ibrd_miss_reg_clump_size = 0,
       ibrd_counter_width = 0, ibrd_upscaling_factor = 0, ibrd_correction_factor = []\<rparr>,
     dev_card = \<lparr>card_contention_bitmask_valid = 0, card_non_contiguous_cbm = 0, card_zero_length_bitmask = 0,
       card_contention_bitmask = 0, card_reg_index_func_ver = 0, card_reg_base_addr = 0, card_reg_block_size = 0,
       card_cat_reg_offset = 0, card_cat_reg_block_size = 0\<rparr>\<rparr>"

text \<open>The bits of \<open>seen\<close> are the types of the structures that have occurred.\<close>

definition type_bit :: "u16 \<Rightarrow> u32" where
  "type_bit ty = push_bit (unat ty) 1"

definition cpu_agent_body :: "u8 list \<Rightarrow> nat \<Rightarrow> u32 \<times> pqos_cpu_agent_info \<Rightarrow> (u32 \<times> pqos_cpu_agent_info) res option" where
  "cpu_agent_body bs p = (\<lambda>(seen, a). do {
     ty \<leftarrow> rd16 bs p;
     len \<leftarrow> rd16 bs (p + 2);
     (if ty = ACPI_ERDT_STRUCT_CACD_TYPE then
        if seen AND type_bit ty \<noteq> 0 \<or> unat len < CACD_SIZE then Some (Inl PQOS_RETVAL_ERROR)
        else do {
          domain \<leftarrow> rd16 bs (p + 6);
          if domain \<noteq> rmdd_domain_id (cpu_rmdd a) then Some (Inl PQOS_RETVAL_ERROR)
          else and_then (erdt_populate_cacd bs p) (\<lambda>x. Some (Inr (seen OR type_bit ty, a\<lparr>cpu_cacd := x\<rparr>))) }
      else if ty = ACPI_ERDT_STRUCT_CMRC_TYPE then
        if seen AND type_bit ty \<noteq> 0 \<or> unat len \<noteq> CMRC_SIZE then Some (Inl PQOS_RETVAL_ERROR)
        else do { x \<leftarrow> erdt_populate_cmrc bs p; Some (Inr (seen OR type_bit ty, a\<lparr>cpu_cmrc := x\<rparr>)) }
      else if ty = ACPI_ERDT_STRUCT_MMRC_TYPE then
        if seen AND type_bit ty \<noteq> 0 \<or> unat len < MMRC_SIZE then Some (Inl PQOS_RETVAL_ERROR)
        else and_then (erdt_populate_mmrc bs p (rmdd_max_rmids (cpu_rmdd a)))
               (\<lambda>x. Some (Inr (seen OR type_bit ty, a\<lparr>cpu_mmrc := x\<rparr>)))
      else if ty = ACPI_ERDT_STRUCT_MARC_TYPE then
        if seen AND type_bit ty \<noteq> 0 \<or> unat len \<noteq> MARC_SIZE then Some (Inl PQOS_RETVAL_ERROR)
        else do { x \<leftarrow> erdt_populate_marc bs p; Some (Inr (seen OR type_bit ty, a\<lparr>cpu_marc := x\<rparr>)) }
      else Some (Inr (seen, a))) })"

text \<open>
  \<open>length - sizeof\<close> is unsigned; where it would wrap around, the loop would leave the table.
\<close>

definition agent_remaining :: "u16 \<Rightarrow> nat option" where
  "agent_remaining len = (if unat len < RMDD_SIZE then None else Some (unat len - RMDD_SIZE))"

definition erdt_populate_rmdd_cpu_agent :: "u8 list \<Rightarrow> nat \<Rightarrow> pqos_cpu_agent_info res option" where
  "erdt_populate_rmdd_cpu_agent bs p = do {
     len \<leftarrow> rd16 bs (p + 2);
     rmdd \<leftarrow> erdt_populate_rmdd bs p;
     remaining \<leftarrow> agent_remaining len;
     and_then (erdt_loop (cpu_agent_body bs) bs (p + RMDD_SIZE) remaining (0, new_cpu_agent rmdd)) (\<lambda>(seen, a).
       Some (if seen AND type_bit ACPI_ERDT_STRUCT_CACD_TYPE = 0 then Inl PQOS_RETVAL_ERROR else Inr a)) }"

definition dev_agent_body :: "u8 list \<Rightarrow> nat \<Rightarrow> u32 \<times> pqos_device_agent_info \<Rightarrow> (u32 \<times> pqos_device_agent_info) res option" where
  "dev_agent_body bs p = (\<lambda>(seen, a). do {
     ty \<leftarrow> rd16 bs p;
     len \<leftarrow> rd16 bs (p + 2);
     (if ty = ACPI_ERDT_STRUCT_DACD_TYPE then
        if seen AND type_bit ty \<noteq> 0 \<or> unat len < DACD_SIZE then Some (Inl PQOS_RETVAL_ERROR)
        else do {
          domain \<leftarrow> rd16 bs (p + 6);
          if domain \<noteq> rmdd_domain_id (dev_rmdd a) then Some (Inl PQOS_RETVAL_ERROR)
          else and_then (erdt_populate_dacd bs p) (\<lambda>x. Some (Inr (seen OR type_bit ty, a\<lparr>dev_dacd := x\<rparr>))) }
      else if ty = ACPI_ERDT_STRUCT_CMRD_TYPE then
        if seen AND type_bit ty \<noteq> 0 \<or> unat len \<noteq> CMRD_SIZE then Some (Inl PQOS_RETVAL_ERROR)
        else do { x \<leftarrow> erdt_populate_cmrd bs p; Some (Inr (seen OR type_bit ty, a\<lparr>dev_cmrd := x\<rparr>)) }
      else if ty = ACPI_ERDT_STRUCT_IBRD_TYPE then
        if seen AND type_bit ty \<noteq> 0 \<or> unat len < IBRD_SIZE then Some (Inl PQOS_RETVAL_ERROR)
        else and_then (erdt_populate_ibrd bs p (rmdd_max_rmids (dev_rmdd a)))
               (\<lambda>x. Some (Inr (seen OR type_bit ty, a\<lparr>dev_ibrd := x\<rparr>)))
      else if ty = ACPI_ERDT_STRUCT_CARD_TYPE then
        if seen AND type_bit ty \<noteq> 0 \<or> unat len \<noteq> CARD_SIZE then Some (Inl PQOS_RETVAL_ERROR)
        else do { x \<leftarrow> erdt_populate_card bs p; Some (Inr (seen OR type_bit ty, a\<lparr>dev_card := x\<rparr>)) }
      else Some (Inr (seen, a))) })"

definition erdt_populate_rmdd_device_agent :: "u8 list \<Rightarrow> nat \<Rightarrow> pqos_device_agent_info res option" where
  "erdt_populate_rmdd_device_agent bs p = do {
     len \<leftarrow> rd16 bs (p + 2);
     rmdd \<leftarrow> erdt_populate_rmdd bs p;
     remaining \<leftarrow> agent_remaining len;
     and_then (erdt_loop (dev_agent_body bs) bs (p + RMDD_SIZE) remaining (0, new_dev_agent rmdd)) (\<lambda>(seen, a).
       Some (if seen AND type_bit ACPI_ERDT_STRUCT_DACD_TYPE = 0 then Inl PQOS_RETVAL_ERROR else Inr a)) }"

section \<open>The table\<close>

text \<open>
  The search for an earlier RMDD of the same domain, from \<open>q\<close> over \<open>remaining\<close> bytes. It trusts the
  lengths; a length of zero would make it run for ever.
\<close>

partial_function (option) duplicate_domain :: "u8 list \<Rightarrow> nat \<Rightarrow> nat \<Rightarrow> u16 \<Rightarrow> bool option" where
  "duplicate_domain bs q remaining domain =
     (if remaining = 0 then Some False
      else do {
        ty \<leftarrow> rd16 bs q;
        found \<leftarrow> (if ty = ACPI_ERDT_STRUCT_RMDD_TYPE then map_option (\<lambda>d. d = domain) (rd16 bs (q + 18)) else Some False);
        if found then Some True
        else do { len \<leftarrow> rd16 bs (q + 2); duplicate_domain bs (q + unat len) (remaining - unat len) domain } })"

declare duplicate_domain.simps [code]

definition count_body :: "u8 list \<Rightarrow> nat \<Rightarrow> u32 \<times> u32 \<times> nat \<Rightarrow> (u32 \<times> u32 \<times> nat) res option" where
  "count_body bs p = (\<lambda>(cpus, devices, rmdds). do {
     ty \<leftarrow> rd16 bs p;
     if ty \<noteq> ACPI_ERDT_STRUCT_RMDD_TYPE then Some (Inr (cpus, devices, rmdds))
     else do {
       len \<leftarrow> rd16 bs (p + 2);
       if unat len < RMDD_SIZE then Some (Inl PQOS_RETVAL_ERROR)
       else do {
         flags \<leftarrow> rd16 bs (p + 4);
         if flags AND RMDD_DOMAIN_MASK = 0 \<or> flags AND NOT RMDD_DOMAIN_MASK \<noteq> 0 then Some (Inl PQOS_RETVAL_ERROR)
         else do {
           domain \<leftarrow> rd16 bs (p + 18);
           dup \<leftarrow> duplicate_domain bs ERDT_HEADER_SIZE (p - ERDT_HEADER_SIZE) domain;
           Some (if dup then Inl PQOS_RETVAL_ERROR
                 else if flags AND RMDD_L3_DOMAIN \<noteq> 0 \<and> cpus = - 1 then Inl PQOS_RETVAL_ERROR
                 else if flags AND RMDD_IO_L3_DOMAIN \<noteq> 0 \<and> devices = - 1 then Inl PQOS_RETVAL_ERROR
                 else Inr (if flags AND RMDD_L3_DOMAIN \<noteq> 0 then cpus + 1 else cpus,
                           if flags AND RMDD_IO_L3_DOMAIN \<noteq> 0 then devices + 1 else devices, Suc rmdds)) } } } })"

definition erdt_count_rmdds :: "u8 list \<Rightarrow> nat \<Rightarrow> (u32 \<times> u32) res option" where
  "erdt_count_rmdds bs remaining =
     and_then (erdt_loop (count_body bs) bs ERDT_HEADER_SIZE remaining (0, 0, 0)) (\<lambda>(cpus, devices, rmdds).
       Some (if rmdds = 0 then Inl PQOS_RETVAL_ERROR else Inr (cpus, devices)))"

text \<open>The second pass; the arrays have the numbers of entries that the first pass has counted.\<close>

definition rmdds_body :: "u8 list \<Rightarrow> u32 \<Rightarrow> u32 \<Rightarrow> nat \<Rightarrow> pqos_cpu_agent_info list \<times> pqos_device_agent_info list
    \<Rightarrow> (pqos_cpu_agent_info list \<times> pqos_device_agent_info list) res option" where
  "rmdds_body bs num_cpu num_dev p = (\<lambda>(cpus, devices). do {
     ty \<leftarrow> rd16 bs p;
     if ty \<noteq> ACPI_ERDT_STRUCT_RMDD_TYPE then Some (Inr (cpus, devices))
     else do {
       flags \<leftarrow> rd16 bs (p + 4);
       and_then (if flags AND RMDD_L3_DOMAIN = 0 then Some (Inr cpus)
                 else if unat num_cpu \<le> length cpus then None
                 else and_then (erdt_populate_rmdd_cpu_agent bs p) (\<lambda>a. Some (Inr (cpus @ [a])))) (\<lambda>cpus.
       and_then (if flags AND RMDD_IO_L3_DOMAIN = 0 then Some (Inr devices)
                 else if unat num_dev \<le> length devices then None
                 else and_then (erdt_populate_rmdd_device_agent bs p) (\<lambda>a. Some (Inr (devices @ [a])))) (\<lambda>devices.
       Some (Inr (cpus, devices)))) } })"

definition erdt_populate_rmdds :: "u8 list \<Rightarrow> pqos_erdt_info res option" where
  "erdt_populate_rmdds bs = do {
     revision \<leftarrow> rd8 bs 8;
     len \<leftarrow> rd32 bs 4;
     (if revision \<noteq> ACPI_ERDT_REVISION then Some (Inl PQOS_RETVAL_ERROR)
      else if unat len < ERDT_HEADER_SIZE then Some (Inl PQOS_RETVAL_ERROR)
      else (let remaining = unat len - ERDT_HEADER_SIZE
            in and_then (erdt_count_rmdds bs remaining) (\<lambda>(num_cpu, num_dev). do {
                 max_clos \<leftarrow> rd32 bs ACPI_HEADER_SIZE;
                 and_then (erdt_loop (rmdds_body bs num_cpu num_dev) bs ERDT_HEADER_SIZE remaining ([], [])) (\<lambda>(cpus, devices).
                   Some (Inr \<lparr>erdt_max_clos = max_clos, erdt_cpu_agents = cpus, erdt_dev_agents = devices\<rparr>)) }))) }"

end
