(* ===== verification/ErdtSafe.thy ===== *)
theory ErdtSafe
  imports Erdt
begin

text \<open>
  The ERDT parser is safe on every table: whatever the bytes are, it stays inside the table and its arrays and it ends. What it
  accepts is well formed: no domain is described twice, the parts of an agent belong to its domain, lists of correction factors
  have one of the three legal lengths, and device paths consist of pairs.
\<close>

section \<open>A calculus for parsers\<close>

text \<open>
  \<open>reads P m\<close>: the access \<open>m\<close> stays inside the table and its result satisfies \<open>P\<close>. \<open>parses P m\<close>: the
  operation \<open>m\<close> stays inside and ends, and the result of a success satisfies \<open>P\<close>.
\<close>

definition reads :: "('a \<Rightarrow> bool) \<Rightarrow> 'a option \<Rightarrow> bool" where
  "reads P m \<longleftrightarrow> (\<exists>x. m = Some x \<and> P x)"

definition parses :: "('a \<Rightarrow> bool) \<Rightarrow> 'a res option \<Rightarrow> bool" where
  "parses P m \<longleftrightarrow> m \<noteq> None \<and> (\<forall>x. m = Some (Inr x) \<longrightarrow> P x)"

named_theorems parser_wp

lemma reads_simps [parser_wp]:
  "reads P (Some x) \<longleftrightarrow> P x" "reads P None \<longleftrightarrow> False" "reads P (Option.bind k f) \<longleftrightarrow> reads (\<lambda>y. reads P (f y)) k"
  "reads P (map_option g l) \<longleftrightarrow> reads (\<lambda>z. P (g z)) l"
  "reads P (if b then m else n) \<longleftrightarrow> (if b then reads P m else reads P n)"
  by (auto simp: reads_def split: Option.bind_splits)

lemma parses_simps [parser_wp]:
  "parses P (Some (Inl e))" "parses P (Some (Inr x)) \<longleftrightarrow> P x" "parses P None \<longleftrightarrow> False"
  "parses P (Option.bind k g) \<longleftrightarrow> reads (\<lambda>y. parses P (g y)) k"
  "parses P (and_then m f) \<longleftrightarrow> parses (\<lambda>y. parses P (f y)) m"
  "parses P (map_option Inr n) \<longleftrightarrow> reads P n"
  "parses P (if b then m' else m'') \<longleftrightarrow> (if b then parses P m' else parses P m'')"
  "parses P (Some (if b then r else r')) \<longleftrightarrow> (if b then parses P (Some r) else parses P (Some r'))"
  by (auto simp: parses_def reads_def and_then_def split: option.splits sum.splits Option.bind_splits)

lemma parses_case_prod [parser_wp]: "parses P (case y of (a, b) \<Rightarrow> f a b) \<longleftrightarrow> (case y of (a, b) \<Rightarrow> parses P (f a b))"
  by (cases y) simp

lemma reads_rd [parser_wp]:
  "reads P8 (rd8 bs p) \<longleftrightarrow> p + 1 \<le> length bs \<and> (\<forall>x. rd8 bs p = Some x \<longrightarrow> P8 x)"
  "reads P16 (rd16 bs p) \<longleftrightarrow> p + 2 \<le> length bs \<and> (\<forall>x. rd16 bs p = Some x \<longrightarrow> P16 x)"
  "reads P32 (rd32 bs p) \<longleftrightarrow> p + 4 \<le> length bs \<and> (\<forall>x. rd32 bs p = Some x \<longrightarrow> P32 x)"
  "reads P64 (rd64 bs p) \<longleftrightarrow> p + 8 \<le> length bs \<and> (\<forall>x. rd64 bs p = Some x \<longrightarrow> P64 x)"
  "reads Pb (rd_bytes bs p n) \<longleftrightarrow> p + n \<le> length bs \<and> (\<forall>x. rd_bytes bs p n = Some x \<longrightarrow> Pb x)"
  "reads Pa (rd_array32 bs p n) \<longleftrightarrow> p + 4 * n \<le> length bs \<and> (\<forall>x. rd_array32 bs p n = Some x \<longrightarrow> Pa x)"
  by (auto simp: reads_def rd8_def rd16_def rd32_def rd64_def rd_bytes_def rd_array32_def read_le_def)

lemma parses_mono: "parses P m \<Longrightarrow> (\<And>x. P x \<Longrightarrow> Q x) \<Longrightarrow> parses Q m"
  by (auto simp: parses_def)

lemma reads_mono: "reads P m \<Longrightarrow> (\<And>x. P x \<Longrightarrow> Q x) \<Longrightarrow> reads Q m"
  by (auto simp: reads_def)

lemma rd_lengths: "rd_bytes bs p n = Some xs \<Longrightarrow> length xs = n" "rd_array32 bs p n = Some ys \<Longrightarrow> length ys = n"
  by (auto simp: rd_bytes_def rd_array32_def split: if_splits)

section \<open>The loop over the structures\<close>

text \<open>A structure with a legal header at \<open>p\<close> that ends at \<open>q\<close>, inside the table.\<close>

definition structure_at :: "u8 list \<Rightarrow> nat \<Rightarrow> nat \<Rightarrow> bool" where
  "structure_at bs p q \<longleftrightarrow> (\<exists>len. rd16 bs (p + 2) = Some len \<and> 4 \<le> unat len \<and> q = p + unat len \<and> q \<le> length bs)"

lemma structure_atD:
  "structure_at bs p q \<Longrightarrow> rd16 bs (p + 2) = Some len \<Longrightarrow> 4 \<le> unat len \<and> p + unat len = q \<and> q \<le> length bs"
  by (auto simp: structure_at_def)

lemma structure_at_bounds: "structure_at bs p q \<Longrightarrow> p + 4 \<le> q \<and> q \<le> length bs"
  by (auto simp: structure_at_def)

lemma get_structure_parses:
  "cursor + remaining \<le> length bs \<Longrightarrow>
     parses (\<lambda>(c, r). structure_at bs cursor c \<and> c + r = cursor + remaining) (erdt_get_structure bs cursor remaining)"
  by (auto simp: erdt_get_structure_def structure_at_def parser_wp)

text \<open>The rule for the loop: \<open>Q p st\<close> holds between two structures, with \<open>p\<close> the offset of the next one.\<close>

lemma erdt_loop_rule:
  assumes "cursor + remaining \<le> length bs" and "Q cursor st" and "stop = cursor + remaining"
    and "\<And>p q st. Q p st \<Longrightarrow> cursor \<le> p \<Longrightarrow> structure_at bs p q \<Longrightarrow> q \<le> stop \<Longrightarrow> parses (Q q) (body p st)"
  shows "parses (Q stop) (erdt_loop body bs cursor remaining st)"
  using assms
proof (induction body bs cursor remaining st rule: erdt_loop.induct)
  case (1 body bs cursor remaining st)
  show ?case
  proof (cases "remaining = 0")
    case True
    with "1.prems"(2,3) show ?thesis by (simp add: erdt_loop.simps parser_wp)
  next
    case False
    note get = get_structure_parses [OF "1.prems"(1)]
    consider e where "erdt_get_structure bs cursor remaining = Some (Inl e)"
      | c k where "erdt_get_structure bs cursor remaining = Some (Inr (c, k))"
      using get unfolding parses_def by (metis not_None_eq old.sum.exhaust surj_pair)
    then show ?thesis
    proof cases
      case (1 e)
      with False show ?thesis by (simp add: erdt_loop.simps parser_wp)
    next
      case (2 c k)
      with get have at: "structure_at bs cursor c" "c + k = cursor + remaining" by (auto simp: parser_wp)
      have step: "parses (Q c) (body cursor st)"
        using "1.prems"(4) [OF "1.prems"(2) _ at(1)] at(2) "1.prems"(3) by simp
      have "parses (Q stop) (erdt_loop body bs c k st')" if "Q c st'" for st'
        by (rule "1.IH" [OF False 2 refl refl])
          (use at "1.prems" that structure_at_bounds [OF at(1)] in \<open>auto intro: le_trans\<close>)
      with step 2 False show ?thesis by (auto simp: erdt_loop.simps parser_wp intro: parses_mono)
    qed
  qed
qed

section \<open>Parts of an agent\<close>

lemma parts_read:
  "p + CMRC_SIZE \<le> length bs \<Longrightarrow> reads (\<lambda>_. True) (erdt_populate_cmrc bs p)"
  "p + MARC_SIZE \<le> length bs \<Longrightarrow> reads (\<lambda>_. True) (erdt_populate_marc bs p)"
  "p + CMRD_SIZE \<le> length bs \<Longrightarrow> reads (\<lambda>_. True) (erdt_populate_cmrd bs p)"
  "p + CARD_SIZE \<le> length bs \<Longrightarrow> reads (\<lambda>_. True) (erdt_populate_card bs p)"
  by (simp_all add: erdt_populate_cmrc_def erdt_populate_marc_def erdt_populate_cmrd_def erdt_populate_card_def parser_wp erdt_sizes)

lemma rmdd_reads:
  "p + RMDD_SIZE \<le> length bs \<Longrightarrow> reads (\<lambda>x. rd16 bs (p + 18) = Some (rmdd_domain_id x)) (erdt_populate_rmdd bs p)"
  by (simp add: erdt_populate_rmdd_def parser_wp erdt_sizes)

text \<open>The legal lengths of a list of correction factors: none, one for all, one per RMID.\<close>

definition factors_ok :: "u32 list \<Rightarrow> u32 \<Rightarrow> bool" where
  "factors_ok fs max_rmids \<longleftrightarrow> length fs \<le> 1 \<or> length fs = unat max_rmids + 1"

lemma copy_factor_parses:
  "p + 4 * n \<le> length bs \<Longrightarrow> parses (\<lambda>fs. factors_ok fs m) (copy_correction_factor bs p n m)"
  by (auto simp: copy_correction_factor_def factors_ok_def parser_wp dest: rd_lengths)

lemma array_fits: "p + len \<le> n \<Longrightarrow> sz \<le> len \<Longrightarrow> p + sz + 4 * ((len - sz) div 4) \<le> (n :: nat)"
  by linarith

lemma factor_parts_parse:
  assumes "structure_at bs p q" "rd16 bs (p + 2) = Some len"
  shows "MMRC_SIZE \<le> unat len \<Longrightarrow> parses (\<lambda>x. factors_ok (mmrc_correction_factor x) m) (erdt_populate_mmrc bs p m)"
    and "IBRD_SIZE \<le> unat len \<Longrightarrow> parses (\<lambda>x. factors_ok (ibrd_correction_factor x) m) (erdt_populate_ibrd bs p m)"
proof -
  have len: "p + unat len \<le> length bs" using structure_atD [OF assms] by simp
  show "parses (\<lambda>x. factors_ok (mmrc_correction_factor x) m) (erdt_populate_mmrc bs p m)" if "MMRC_SIZE \<le> unat len"
    using that len assms(2) copy_factor_parses [OF array_fits [OF len that]]
    by (simp add: erdt_populate_mmrc_def parser_wp erdt_sizes Let_def)
  show "parses (\<lambda>x. factors_ok (ibrd_correction_factor x) m) (erdt_populate_ibrd bs p m)" if "IBRD_SIZE \<le> unat len"
    using that len assms(2) copy_factor_parses [OF array_fits [OF len that]]
    by (simp add: erdt_populate_ibrd_def parser_wp erdt_sizes Let_def)
qed

lemma cacd_parses:
  assumes "structure_at bs p q" "rd16 bs (p + 2) = Some len" "CACD_SIZE \<le> unat len"
  shows "parses (\<lambda>x. rd16 bs (p + 6) = Some (cacd_rmdd_domain_id x)) (erdt_populate_cacd bs p)"
  using structure_atD [OF assms(1,2)] assms(2,3) array_fits [of p "unat len" "length bs" CACD_SIZE]
  by (simp add: erdt_populate_cacd_def parser_wp erdt_sizes Let_def)

text \<open>A path consists of at least one pair.\<close>

definition dase_ok :: "pqos_erdt_dase \<Rightarrow> bool" where
  "dase_ok d \<longleftrightarrow> even (length (dase_path d)) \<and> dase_path d \<noteq> [] \<and> (dase_type d = 1 \<or> dase_type d = 2)"

lemma dases_parse:
  "p + len \<le> length bs \<Longrightarrow>
     parses (\<lambda>n. count \<le> n \<and> reads (\<lambda>ds. list_all dase_ok ds) (erdt_copy_dases bs (n - count) p)) (erdt_calculate_num_dases bs len p count)"
proof (induction bs len p count rule: erdt_calculate_num_dases.induct)
  case (1 bs len p count)
  show ?case
  proof (cases "len < ACPI_ERDT_STRUCT_DASE_HEADER_LENGTH")
    case True
    then show ?thesis by (simp add: erdt_calculate_num_dases.simps parser_wp)
  next
    case False
    have "parses (\<lambda>n. count \<le> n \<and> reads (list_all dase_ok) (erdt_copy_dases bs (n - count) p))
        (erdt_calculate_num_dases bs (len - unat dlen) (p + unat dlen) (Suc count))"
      if h: "rd8 bs (p + 1) = Some dlen" "rd8 bs p = Some ty" "8 \<le> unat dlen" "unat dlen \<le> len" "even (unat dlen)" "ty = 1 \<or> ty = 2" for dlen ty
    proof -
      have "parses (\<lambda>n. Suc count \<le> n \<and> reads (list_all dase_ok) (erdt_copy_dases bs (n - Suc count) (p + unat dlen)))
          (erdt_calculate_num_dases bs (len - unat dlen) (p + unat dlen) (Suc count))"
        using "1.IH" [of dlen ty] "1.prems" False h by (auto simp: erdt_sizes)
      then show ?thesis
      proof (rule parses_mono)
        fix n assume n: "Suc count \<le> n \<and> reads (list_all dase_ok) (erdt_copy_dases bs (n - Suc count) (p + unat dlen))"
        then obtain k where k: "n - count = Suc k" "n - Suc count = k" by (cases "n - count") auto
        have "dase_ok \<lparr>dase_type = ty, dase_segment_number = x, dase_start_bus_number = y, dase_path = path\<rparr>"
          if "rd_bytes bs (p + 6) (unat dlen - 6) = Some path" for x y path
          using rd_lengths(1) [OF that] h(3,5,6) by (auto simp: dase_ok_def)
        with n k h "1.prems" show "count \<le> n \<and> reads (list_all dase_ok) (erdt_copy_dases bs (n - count) p)"
          by (auto simp: parser_wp erdt_sizes elim!: reads_mono)
      qed
    qed
    with False "1.prems" show ?thesis
      by (auto simp: erdt_calculate_num_dases.simps [of bs len p count] parser_wp erdt_sizes)
  qed
qed

lemma dacd_parses:
  assumes "structure_at bs p q" "rd16 bs (p + 2) = Some len" "DACD_SIZE \<le> unat len"
  shows "parses (\<lambda>x. rd16 bs (p + 6) = Some (dacd_rmdd_domain_id x) \<and> list_all dase_ok (dacd_dase x)) (erdt_populate_dacd bs p)"
  using structure_atD [OF assms(1,2)] assms(2,3) dases_parse [of "p + DACD_SIZE" "unat len - DACD_SIZE" bs 0]
  by (auto simp: erdt_populate_dacd_def parser_wp erdt_sizes Let_def elim!: parses_mono reads_mono)

section \<open>Agents\<close>

lemma seen_other: "ty \<noteq> ty' \<Longrightarrow> (s OR type_bit ty') AND type_bit ty = s AND type_bit ty"
  by (rule bit_word_eqI) (auto simp: type_bit_def bit_simps word_unat_eq_iff)

lemmas erdt_types =
  ACPI_ERDT_STRUCT_RMDD_TYPE_def ACPI_ERDT_STRUCT_CACD_TYPE_def ACPI_ERDT_STRUCT_DACD_TYPE_def ACPI_ERDT_STRUCT_CMRC_TYPE_def
  ACPI_ERDT_STRUCT_MMRC_TYPE_def ACPI_ERDT_STRUCT_MARC_TYPE_def ACPI_ERDT_STRUCT_CMRD_TYPE_def ACPI_ERDT_STRUCT_IBRD_TYPE_def
  ACPI_ERDT_STRUCT_CARD_TYPE_def

text \<open>What holds of an agent that the parser has accepted.\<close>

definition cpu_agent_ok :: "pqos_cpu_agent_info \<Rightarrow> bool" where
  "cpu_agent_ok a \<longleftrightarrow>
     cacd_rmdd_domain_id (cpu_cacd a) = rmdd_domain_id (cpu_rmdd a) \<and>
     factors_ok (mmrc_correction_factor (cpu_mmrc a)) (rmdd_max_rmids (cpu_rmdd a))"

definition dev_agent_ok :: "pqos_device_agent_info \<Rightarrow> bool" where
  "dev_agent_ok a \<longleftrightarrow>
     dacd_rmdd_domain_id (dev_dacd a) = rmdd_domain_id (dev_rmdd a) \<and> list_all dase_ok (dacd_dase (dev_dacd a)) \<and>
     factors_ok (ibrd_correction_factor (dev_ibrd a)) (rmdd_max_rmids (dev_rmdd a))"

definition cpu_agent_inv :: "pqos_erdt_rmdd \<Rightarrow> u32 \<times> pqos_cpu_agent_info \<Rightarrow> bool" where
  "cpu_agent_inv rmdd = (\<lambda>(seen, a). cpu_rmdd a = rmdd \<and>
     factors_ok (mmrc_correction_factor (cpu_mmrc a)) (rmdd_max_rmids rmdd) \<and>
     (seen AND type_bit ACPI_ERDT_STRUCT_CACD_TYPE \<noteq> 0 \<longrightarrow> cacd_rmdd_domain_id (cpu_cacd a) = rmdd_domain_id rmdd))"

definition dev_agent_inv :: "pqos_erdt_rmdd \<Rightarrow> u32 \<times> pqos_device_agent_info \<Rightarrow> bool" where
  "dev_agent_inv rmdd = (\<lambda>(seen, a). dev_rmdd a = rmdd \<and>
     factors_ok (ibrd_correction_factor (dev_ibrd a)) (rmdd_max_rmids rmdd) \<and>
     (seen AND type_bit ACPI_ERDT_STRUCT_DACD_TYPE \<noteq> 0 \<longrightarrow>
        dacd_rmdd_domain_id (dev_dacd a) = rmdd_domain_id rmdd \<and> list_all dase_ok (dacd_dase (dev_dacd a))))"

lemma rd16_at: "structure_at bs p q \<Longrightarrow> \<exists>ty. rd16 bs p = Some ty"
  using structure_at_bounds [of bs p q] by (auto simp: rd16_def read_le_def)

lemma cpu_body_parses:
  assumes "structure_at bs p q" and "cpu_agent_inv rmdd st"
  shows "parses (cpu_agent_inv rmdd) (cpu_agent_body bs p st)"
proof -
  obtain seen a where st: "st = (seen, a)" by fastforce
  obtain len where len: "rd16 bs (p + 2) = Some len" using assms(1) by (auto simp: structure_at_def)
  obtain ty where ty: "rd16 bs p = Some ty" using rd16_at [OF assms(1)] by blast
  note b = structure_atD [OF assms(1) len]
  note inv = assms(2) [unfolded st cpu_agent_inv_def prod.case]
  note run = cpu_agent_body_def [of bs p] ty len st cpu_agent_inv_def
  consider "ty = 1" | "ty = 3" | "ty = 4" | "ty = 5" | "ty \<notin> {1, 3, 4, 5}" by blast
  then show ?thesis
  proof cases
    case 1
    show ?thesis
    proof (cases "CACD_SIZE \<le> unat len")
      case True
      with b inv 1 show ?thesis
        by (auto simp: run parser_wp erdt_types erdt_sizes simp del: add_2_eq_Suc' intro!: parses_mono [OF cacd_parses [OF assms(1) len True]])
    qed (simp add: run 1 parser_wp erdt_types del: add_2_eq_Suc')
  next
    case 2
    with b inv parts_read(1) [of p bs] show ?thesis
      by (auto simp: run parser_wp erdt_types seen_other simp del: add_2_eq_Suc' elim!: reads_mono)
  next
    case 3
    show ?thesis
    proof (cases "MMRC_SIZE \<le> unat len")
      case True
      with b inv 3 show ?thesis
        by (auto simp: run parser_wp erdt_types seen_other simp del: add_2_eq_Suc'
            intro!: parses_mono [OF factor_parts_parse(1) [OF assms(1) len True]])
    qed (simp add: run 3 parser_wp erdt_types del: add_2_eq_Suc')
  next
    case 4
    with b inv parts_read(2) [of p bs] show ?thesis
      by (auto simp: run parser_wp erdt_types seen_other simp del: add_2_eq_Suc' elim!: reads_mono)
  next
    case 5
    with inv show ?thesis by (simp add: run parser_wp erdt_types del: add_2_eq_Suc')
  qed
qed

lemma dev_body_parses:
  assumes "structure_at bs p q" and "dev_agent_inv rmdd st"
  shows "parses (dev_agent_inv rmdd) (dev_agent_body bs p st)"
proof -
  obtain seen a where st: "st = (seen, a)" by fastforce
  obtain len where len: "rd16 bs (p + 2) = Some len" using assms(1) by (auto simp: structure_at_def)
  obtain ty where ty: "rd16 bs p = Some ty" using rd16_at [OF assms(1)] by blast
  note b = structure_atD [OF assms(1) len]
  note inv = assms(2) [unfolded st dev_agent_inv_def prod.case]
  note run = dev_agent_body_def [of bs p] ty len st dev_agent_inv_def
  consider "ty = 2" | "ty = 7" | "ty = 8" | "ty = 10" | "ty \<notin> {2, 7, 8, 10}" by blast
  then show ?thesis
  proof cases
    case 1
    show ?thesis
    proof (cases "DACD_SIZE \<le> unat len")
      case True
      with b inv 1 show ?thesis
        by (auto simp: run parser_wp erdt_types erdt_sizes simp del: add_2_eq_Suc' intro!: parses_mono [OF dacd_parses [OF assms(1) len True]])
    qed (simp add: run 1 parser_wp erdt_types del: add_2_eq_Suc')
  next
    case 2
    with b inv parts_read(3) [of p bs] show ?thesis
      by (auto simp: run parser_wp erdt_types seen_other simp del: add_2_eq_Suc' elim!: reads_mono)
  next
    case 3
    show ?thesis
    proof (cases "IBRD_SIZE \<le> unat len")
      case True
      with b inv 3 show ?thesis
        by (auto simp: run parser_wp erdt_types seen_other simp del: add_2_eq_Suc'
            intro!: parses_mono [OF factor_parts_parse(2) [OF assms(1) len True]])
    qed (simp add: run 3 parser_wp erdt_types del: add_2_eq_Suc')
  next
    case 4
    with b inv parts_read(4) [of p bs] show ?thesis
      by (auto simp: run parser_wp erdt_types seen_other simp del: add_2_eq_Suc' elim!: reads_mono)
  next
    case 5
    with inv show ?thesis by (simp add: run parser_wp erdt_types del: add_2_eq_Suc')
  qed
qed

lemma rmdd_loop_facts:
  assumes "structure_at bs p q" "rd16 bs (p + 2) = Some len" "RMDD_SIZE \<le> unat len"
    and "Q st" "\<And>p q st. structure_at bs p q \<Longrightarrow> Q st \<Longrightarrow> parses Q (body p st)"
  shows "parses Q (erdt_loop body bs (p + RMDD_SIZE) (unat len - RMDD_SIZE) st)"
  using erdt_loop_rule [of "p + RMDD_SIZE" "unat len - RMDD_SIZE" bs "\<lambda>_. Q" st _ body] structure_atD [OF assms(1,2)] assms(3-5) by simp

lemma cpu_agent_parses:
  assumes "structure_at bs p q" "rd16 bs (p + 2) = Some len" "RMDD_SIZE \<le> unat len"
  shows "parses (\<lambda>a. cpu_agent_ok a \<and> rd16 bs (p + 18) = Some (rmdd_domain_id (cpu_rmdd a))) (erdt_populate_rmdd_cpu_agent bs p)"
proof -
  obtain x where x: "erdt_populate_rmdd bs p = Some x" "rd16 bs (p + 18) = Some (rmdd_domain_id x)"
    using rmdd_reads [of p bs] structure_atD [OF assms(1,2)] assms(3) by (auto simp: reads_def)
  let ?loop = "erdt_loop (cpu_agent_body bs) bs (p + RMDD_SIZE) (unat len - RMDD_SIZE) (0, new_cpu_agent x)"
  have loop: "parses (cpu_agent_inv x) ?loop"
    by (rule rmdd_loop_facts [OF assms _ cpu_body_parses]) (simp_all add: cpu_agent_inv_def new_cpu_agent_def factors_ok_def)
  have "erdt_populate_rmdd_cpu_agent bs p = and_then ?loop (\<lambda>(seen, a).
      Some (if seen AND type_bit ACPI_ERDT_STRUCT_CACD_TYPE = 0 then Inl PQOS_RETVAL_ERROR else Inr a))"
    using assms(2,3) x(1) by (simp add: erdt_populate_rmdd_cpu_agent_def agent_remaining_def del: add_2_eq_Suc')
  then show ?thesis
    using x(2) by (auto simp: parser_wp cpu_agent_inv_def cpu_agent_ok_def intro!: parses_mono [OF loop])
qed

lemma dev_agent_parses:
  assumes "structure_at bs p q" "rd16 bs (p + 2) = Some len" "RMDD_SIZE \<le> unat len"
  shows "parses (\<lambda>a. dev_agent_ok a \<and> rd16 bs (p + 18) = Some (rmdd_domain_id (dev_rmdd a))) (erdt_populate_rmdd_device_agent bs p)"
proof -
  obtain x where x: "erdt_populate_rmdd bs p = Some x" "rd16 bs (p + 18) = Some (rmdd_domain_id x)"
    using rmdd_reads [of p bs] structure_atD [OF assms(1,2)] assms(3) by (auto simp: reads_def)
  let ?loop = "erdt_loop (dev_agent_body bs) bs (p + RMDD_SIZE) (unat len - RMDD_SIZE) (0, new_dev_agent x)"
  have loop: "parses (dev_agent_inv x) ?loop"
    by (rule rmdd_loop_facts [OF assms _ dev_body_parses]) (simp_all add: dev_agent_inv_def new_dev_agent_def factors_ok_def)
  have "erdt_populate_rmdd_device_agent bs p = and_then ?loop (\<lambda>(seen, a).
      Some (if seen AND type_bit ACPI_ERDT_STRUCT_DACD_TYPE = 0 then Inl PQOS_RETVAL_ERROR else Inr a))"
    using assms(2,3) x(1) by (simp add: erdt_populate_rmdd_device_agent_def agent_remaining_def del: add_2_eq_Suc')
  then show ?thesis
    using x(2) by (auto simp: parser_wp dev_agent_inv_def dev_agent_ok_def intro!: parses_mono [OF loop])
qed

section \<open>The sequence of structures\<close>

text \<open>The structures from \<open>s\<close> to \<open>e\<close> start at the offsets of the list.\<close>

inductive chain :: "u8 list \<Rightarrow> nat \<Rightarrow> nat \<Rightarrow> nat list \<Rightarrow> bool" for bs where
  chain_Nil: "chain bs s s []"
| chain_Cons: "structure_at bs s q \<Longrightarrow> chain bs q e ps \<Longrightarrow> chain bs s e (s # ps)"

inductive_cases chain_NilE: "chain bs s e []"
inductive_cases chain_ConsE: "chain bs s e (p # ps)"

lemma structure_at_unique: "structure_at bs p q \<Longrightarrow> structure_at bs p q' \<Longrightarrow> q = q'"
  by (auto simp: structure_at_def)

lemma chain_le: "chain bs s e ps \<Longrightarrow> s \<le> e"
  by (induction rule: chain.induct) (auto dest: structure_at_bounds)

lemma chain_snoc: "chain bs s p ps \<Longrightarrow> structure_at bs p q \<Longrightarrow> chain bs s q (ps @ [p])"
  by (induction rule: chain.induct) (auto intro: chain.intros)

lemma chain_split:
  "chain bs s p ps \<Longrightarrow> chain bs s e qs \<Longrightarrow> p \<le> e \<Longrightarrow> \<exists>rs. qs = ps @ rs \<and> chain bs p e rs"
proof (induction arbitrary: qs rule: chain.induct)
  case (chain_Cons s q p ps)
  have "s < e" using structure_at_bounds [OF chain_Cons.hyps(1)] chain_le [OF chain_Cons.hyps(2)] chain_Cons.prems(2) by simp
  with chain_Cons.prems(1) obtain q' qs' where q': "structure_at bs s q'" "chain bs q' e qs'" "qs = s # qs'"
    by (cases rule: chain.cases) auto
  with chain_Cons structure_at_unique [of bs s q q'] show ?case by auto
qed auto

definition is_rmdd :: "u8 list \<Rightarrow> nat \<Rightarrow> bool" where
  "is_rmdd bs p \<longleftrightarrow> rd16 bs p = Some ACPI_ERDT_STRUCT_RMDD_TYPE"

definition rmdd_flagged :: "u8 list \<Rightarrow> u16 \<Rightarrow> nat \<Rightarrow> bool" where
  "rmdd_flagged bs b p \<longleftrightarrow> is_rmdd bs p \<and> (\<exists>flags. rd16 bs (p + 4) = Some flags \<and> flags AND b \<noteq> 0)"

definition rmdds_fit :: "u8 list \<Rightarrow> nat list \<Rightarrow> bool" where
  "rmdds_fit bs ps \<longleftrightarrow> (\<forall>p\<in>set ps. is_rmdd bs p \<longrightarrow> (\<exists>len. rd16 bs (p + 2) = Some len \<and> RMDD_SIZE \<le> unat len \<and> p + unat len \<le> length bs))"

lemma duplicate_domain_correct:
  "chain bs s p ps \<Longrightarrow> rmdds_fit bs ps \<Longrightarrow>
     duplicate_domain bs s (p - s) d = Some (\<exists>q\<in>set ps. is_rmdd bs q \<and> rd16 bs (q + 18) = Some d)"
proof (induction rule: chain.induct)
  case (chain_Nil s)
  then show ?case by (simp add: duplicate_domain.simps)
next
  case (chain_Cons s q e ps)
  obtain ty where ty: "rd16 bs s = Some ty" using rd16_at [OF chain_Cons.hyps(1)] by blast
  obtain len where len: "rd16 bs (s + 2) = Some len" "q = s + unat len" using chain_Cons.hyps(1) by (auto simp: structure_at_def)
  have q: "s + 4 \<le> q" "q \<le> e" using structure_at_bounds [OF chain_Cons.hyps(1)] chain_le [OF chain_Cons.hyps(2)] by auto
  have rest: "duplicate_domain bs (s + unat len) (e - (s + unat len)) d = Some (\<exists>q\<in>set ps. is_rmdd bs q \<and> rd16 bs (q + 18) = Some d)"
    using chain_Cons.IH chain_Cons.prems len(2) by (simp add: rmdds_fit_def)
  have dom: "\<exists>x. rd16 bs (s + 18) = Some x" if "ty = ACPI_ERDT_STRUCT_RMDD_TYPE"
    using chain_Cons.prems that ty by (auto simp: rmdds_fit_def is_rmdd_def rd16_def read_le_def RMDD_SIZE_def)
  have "e - s \<noteq> 0" using q by simp
  then show ?case
    using dom by (subst duplicate_domain.simps) (auto simp: ty len(1) rest is_rmdd_def [of bs s] simp del: add_2_eq_Suc' split: if_splits)
qed

section \<open>The table\<close>

lemma rmdds_fit_snoc:
  "rmdds_fit bs (ps @ [p]) \<longleftrightarrow> rmdds_fit bs ps \<and>
     (is_rmdd bs p \<longrightarrow> (\<exists>len. rd16 bs (p + 2) = Some len \<and> RMDD_SIZE \<le> unat len \<and> p + unat len \<le> length bs))"
  by (auto simp: rmdds_fit_def)

abbreviation domains_of :: "u8 list \<Rightarrow> nat list \<Rightarrow> u16 option list" where
  "domains_of bs ps \<equiv> map (\<lambda>p. rd16 bs (p + 18)) (filter (is_rmdd bs) ps)"

definition counted :: "u8 list \<Rightarrow> nat \<Rightarrow> u32 \<times> u32 \<times> nat \<Rightarrow> bool" where
  "counted bs p = (\<lambda>(cpus, devices, rmdds). \<exists>ps. chain bs ERDT_HEADER_SIZE p ps \<and> rmdds_fit bs ps \<and> distinct (domains_of bs ps) \<and>
     unat cpus = length (filter (rmdd_flagged bs RMDD_L3_DOMAIN) ps) \<and>
     unat devices = length (filter (rmdd_flagged bs RMDD_IO_L3_DOMAIN) ps))"

lemma unat_incr: "(x :: u32) \<noteq> - 1 \<Longrightarrow> unat (x + 1) = unat x + 1"
  by (metis Suc_eq_plus1 add.commute add_eq_0_iff2 unatSuc)

lemma count_body_parses:
  assumes "structure_at bs p q" and "counted bs p st"
  shows "parses (counted bs q) (count_body bs p st)"
proof -
  obtain cpus devices n where st: "st = (cpus, devices, n)" by (metis prod_cases3)
  obtain len where len: "rd16 bs (p + 2) = Some len" using assms(1) by (auto simp: structure_at_def)
  obtain ty where ty: "rd16 bs p = Some ty" using rd16_at [OF assms(1)] by blast
  note b = structure_atD [OF assms(1) len]
  from assms(2) obtain ps where ps: "chain bs ERDT_HEADER_SIZE p ps" "rmdds_fit bs ps" "distinct (domains_of bs ps)"
      "unat cpus = length (filter (rmdd_flagged bs RMDD_L3_DOMAIN) ps)"
      "unat devices = length (filter (rmdd_flagged bs RMDD_IO_L3_DOMAIN) ps)"
    by (auto simp: counted_def st)
  note next_ps = chain_snoc [OF ps(1) assms(1)] and dup = duplicate_domain_correct [OF ps(1,2)]
  show ?thesis
  proof (cases "ty = ACPI_ERDT_STRUCT_RMDD_TYPE")
    case False
    then have "counted bs q (cpus, devices, n)"
      using ps next_ps ty unfolding counted_def prod.case
      by (intro exI [of _ "ps @ [p]"]) (auto simp: rmdds_fit_snoc is_rmdd_def rmdd_flagged_def)
    then show ?thesis using False ty by (simp add: count_body_def st parser_wp)
  next
    case rmdd: True
    show ?thesis
    proof (cases "unat len < RMDD_SIZE")
      case True
      then show ?thesis using rmdd ty len by (simp add: count_body_def st parser_wp del: add_2_eq_Suc')
    next
      case False
      have fit: "rmdds_fit bs (ps @ [p])" using ps(2) len b False by (auto simp: rmdds_fit_snoc)
      obtain flags d where fd: "rd16 bs (p + 4) = Some flags" "rd16 bs (p + 18) = Some d"
        using b False by (auto simp: rd16_def read_le_def RMDD_SIZE_def)
      define c' where "c' = (if flags AND RMDD_L3_DOMAIN \<noteq> 0 then cpus + 1 else cpus)"
      define d' where "d' = (if flags AND RMDD_IO_L3_DOMAIN \<noteq> 0 then devices + 1 else devices)"
      have "counted bs q (c', d', Suc n)"
        if "\<not> (\<exists>q\<in>set ps. is_rmdd bs q \<and> rd16 bs (q + 18) = Some d)"
          "\<not> (flags AND RMDD_L3_DOMAIN \<noteq> 0 \<and> cpus = - 1)" "\<not> (flags AND RMDD_IO_L3_DOMAIN \<noteq> 0 \<and> devices = - 1)"
        using that fd ps next_ps fit ty rmdd unfolding counted_def prod.case
        by (intro exI [of _ "ps @ [p]"]) (auto simp: is_rmdd_def rmdd_flagged_def unat_incr c'_def d'_def)
      then show ?thesis
        using False by (cases "flags AND RMDD_L3_DOMAIN = 0"; cases "flags AND RMDD_IO_L3_DOMAIN = 0")
          (simp_all add: count_body_def st ty rmdd len fd dup parser_wp c'_def d'_def del: add_2_eq_Suc')
    qed
  qed
qed

lemma count_parses:
  assumes "ERDT_HEADER_SIZE + remaining \<le> length bs"
  shows "parses (\<lambda>(cpus, devices). \<exists>n. counted bs (ERDT_HEADER_SIZE + remaining) (cpus, devices, n)) (erdt_count_rmdds bs remaining)"
proof -
  have start: "counted bs ERDT_HEADER_SIZE (0, 0, 0)"
    unfolding counted_def prod.case by (rule exI [of _ "[]"]) (simp add: chain_Nil rmdds_fit_def)
  have "parses (counted bs (ERDT_HEADER_SIZE + remaining)) (erdt_loop (count_body bs) bs ERDT_HEADER_SIZE remaining (0, 0, 0))"
    by (rule erdt_loop_rule [where Q = "counted bs", OF assms start refl]) (rule count_body_parses)
  then show ?thesis
    by (auto simp: erdt_count_rmdds_def parser_wp elim!: parses_mono)
qed

text \<open>The second pass: one agent for each RMDD of its kind so far.\<close>

definition agents_of :: "u8 list \<Rightarrow> nat \<Rightarrow> pqos_cpu_agent_info list \<times> pqos_device_agent_info list \<Rightarrow> bool" where
  "agents_of bs p = (\<lambda>(cpus, devices). \<exists>ps. chain bs ERDT_HEADER_SIZE p ps \<and>
     list_all2 (\<lambda>p a. cpu_agent_ok a \<and> rd16 bs (p + 18) = Some (rmdd_domain_id (cpu_rmdd a))) (filter (rmdd_flagged bs RMDD_L3_DOMAIN) ps) cpus \<and>
     list_all2 (\<lambda>p a. dev_agent_ok a \<and> rd16 bs (p + 18) = Some (rmdd_domain_id (dev_rmdd a))) (filter (rmdd_flagged bs RMDD_IO_L3_DOMAIN) ps) devices)"

lemma rmdds_body_parses:
  assumes "structure_at bs p q" "q \<le> stop" and "agents_of bs p st" and "counted bs stop (num_cpu, num_dev, n)"
  shows "parses (agents_of bs q) (rmdds_body bs num_cpu num_dev p st)"
proof -
  obtain cpus devices where st: "st = (cpus, devices)" by fastforce
  obtain ty where ty: "rd16 bs p = Some ty" using rd16_at [OF assms(1)] by blast
  from assms(3) obtain ps where ps: "chain bs ERDT_HEADER_SIZE p ps"
    and lc: "list_all2 (\<lambda>p a. cpu_agent_ok a \<and> rd16 bs (p + 18) = Some (rmdd_domain_id (cpu_rmdd a))) (filter (rmdd_flagged bs RMDD_L3_DOMAIN) ps) cpus"
    and ld: "list_all2 (\<lambda>p a. dev_agent_ok a \<and> rd16 bs (p + 18) = Some (rmdd_domain_id (dev_rmdd a))) (filter (rmdd_flagged bs RMDD_IO_L3_DOMAIN) ps) devices"
    by (auto simp: agents_of_def st)
  from assms(4) obtain qs where qs: "chain bs ERDT_HEADER_SIZE stop qs" "rmdds_fit bs qs"
      "unat num_cpu = length (filter (rmdd_flagged bs RMDD_L3_DOMAIN) qs)" "unat num_dev = length (filter (rmdd_flagged bs RMDD_IO_L3_DOMAIN) qs)"
    by (auto simp: counted_def)
  have lt: "p < stop" using structure_at_bounds [OF assms(1)] assms(2) by simp
  from chain_split [OF ps qs(1)] lt obtain rs where rs: "qs = ps @ rs" "chain bs p stop rs" by auto
  from rs(2) lt obtain rs' where rs': "rs = p # rs'" by (cases rule: chain.cases) auto
  note snoc = chain_snoc [OF ps assms(1)]
  show ?thesis
  proof (cases "ty = ACPI_ERDT_STRUCT_RMDD_TYPE")
    case False
    then have "agents_of bs q (cpus, devices)"
      using snoc lc ld ty unfolding agents_of_def prod.case
      by (intro exI [of _ "ps @ [p]"]) (auto simp: rmdd_flagged_def is_rmdd_def)
    then show ?thesis using False ty by (simp add: rmdds_body_def st parser_wp)
  next
    case True
    with ty have rm: "is_rmdd bs p" by (simp add: is_rmdd_def)
    with qs(2) rs rs' obtain len where len: "rd16 bs (p + 2) = Some len" "RMDD_SIZE \<le> unat len" by (auto simp: rmdds_fit_def)
    obtain flags where f: "rd16 bs (p + 4) = Some flags"
      using structure_atD [OF assms(1) len(1)] len(2) by (auto simp: rd16_def read_le_def RMDD_SIZE_def)
    have flag: "rmdd_flagged bs b p \<longleftrightarrow> flags AND b \<noteq> 0" for b using rm f by (simp add: rmdd_flagged_def)
    have room: "length cpus < unat num_cpu" if "flags AND RMDD_L3_DOMAIN \<noteq> 0"
      using that qs(3) list_all2_lengthD [OF lc] by (simp add: rs rs' flag)
    have room': "length devices < unat num_dev" if "flags AND RMDD_IO_L3_DOMAIN \<noteq> 0"
      using that qs(4) list_all2_lengthD [OF ld] by (simp add: rs rs' flag)
    have fin: "agents_of bs q (cs, ds)"
      if "cs = cpus \<and> flags AND RMDD_L3_DOMAIN = 0 \<or> (\<exists>a. cs = cpus @ [a] \<and> flags AND RMDD_L3_DOMAIN \<noteq> 0 \<and> cpu_agent_ok a \<and> rd16 bs (p + 18) = Some (rmdd_domain_id (cpu_rmdd a)))"
        "ds = devices \<and> flags AND RMDD_IO_L3_DOMAIN = 0 \<or> (\<exists>a. ds = devices @ [a] \<and> flags AND RMDD_IO_L3_DOMAIN \<noteq> 0 \<and> dev_agent_ok a \<and> rd16 bs (p + 18) = Some (rmdd_domain_id (dev_rmdd a)))"
      for cs ds
      using that snoc lc ld unfolding agents_of_def prod.case
      by (intro exI [of _ "ps @ [p]"]) (auto simp: flag intro!: list_all2_appendI)
    note cpu = parses_mono [OF cpu_agent_parses [OF assms(1) len]] and dev = parses_mono [OF dev_agent_parses [OF assms(1) len]]
    show ?thesis
      using room room' fin
      by (cases "flags AND RMDD_L3_DOMAIN = 0"; cases "flags AND RMDD_IO_L3_DOMAIN = 0")
        (auto simp: rmdds_body_def st ty True f parser_wp not_le intro!: cpu dev)
  qed
qed

section \<open>Accepted tables\<close>

definition erdt_ok :: "pqos_erdt_info \<Rightarrow> bool" where
  "erdt_ok erdt \<longleftrightarrow>
     distinct (map (\<lambda>a. rmdd_domain_id (cpu_rmdd a)) (erdt_cpu_agents erdt)) \<and>
     distinct (map (\<lambda>a. rmdd_domain_id (dev_rmdd a)) (erdt_dev_agents erdt)) \<and>
     list_all cpu_agent_ok (erdt_cpu_agents erdt) \<and> list_all dev_agent_ok (erdt_dev_agents erdt)"

lemma distinct_of_offsets:
  assumes "list_all2 (\<lambda>p a. P a \<and> rd16 bs (p + 18) = Some (f a)) (filter (rmdd_flagged bs b) ps) as" "distinct (domains_of bs ps)"
  shows "distinct (map f as) \<and> list_all P as"
proof -
  have "map (Some \<circ> f) as = map (\<lambda>p. rd16 bs (p + 18)) (filter (rmdd_flagged bs b) ps) \<and> list_all P as"
    using assms(1) by (induction rule: list_all2_induct) auto
  moreover have "filter (rmdd_flagged bs b) ps = filter (rmdd_flagged bs b) (filter (is_rmdd bs) ps)"
    by (auto simp: rmdd_flagged_def intro!: filter_cong)
  then have "distinct (map (\<lambda>p. rd16 bs (p + 18)) (filter (rmdd_flagged bs b) ps))"
    using assms(2) by (simp add: distinct_map_filter del: filter_filter)
  ultimately show ?thesis by (metis distinct_map map_map)
qed

lemma agents_erdt_ok:
  assumes "counted bs e (c, d, n)" "agents_of bs e (cpus, devices)"
  shows "erdt_ok \<lparr>erdt_max_clos = m, erdt_cpu_agents = cpus, erdt_dev_agents = devices\<rparr>"
proof -
  from assms(1) obtain qs where qs: "chain bs ERDT_HEADER_SIZE e qs" "distinct (domains_of bs qs)" by (auto simp: counted_def)
  from assms(2) obtain ps where ps: "chain bs ERDT_HEADER_SIZE e ps"
    and lc: "list_all2 (\<lambda>p a. cpu_agent_ok a \<and> rd16 bs (p + 18) = Some (rmdd_domain_id (cpu_rmdd a))) (filter (rmdd_flagged bs RMDD_L3_DOMAIN) ps) cpus"
    and ld: "list_all2 (\<lambda>p a. dev_agent_ok a \<and> rd16 bs (p + 18) = Some (rmdd_domain_id (dev_rmdd a))) (filter (rmdd_flagged bs RMDD_IO_L3_DOMAIN) ps) devices"
    by (auto simp: agents_of_def)
  have "distinct (domains_of bs ps)" using chain_split [OF ps qs(1)] qs(2) by auto
  from distinct_of_offsets [OF lc this] distinct_of_offsets [OF ld this] show ?thesis by (simp add: erdt_ok_def)
qed

text \<open>
  Safety of the parser for arbitrary bytes, on a table of which as many bytes are in memory as its header announces.
\<close>

lemma erdt_parser_safe:
  assumes "ACPI_HEADER_SIZE \<le> length bs" and "rd32 bs 4 = Some len" "unat len \<le> length bs"
  shows "\<exists>r. erdt_populate_rmdds bs = Some r \<and> (\<forall>erdt. r = Inr erdt \<longrightarrow> erdt_ok erdt)"
proof -
  have "parses erdt_ok (erdt_populate_rmdds bs)"
  proof (cases "unat len < ERDT_HEADER_SIZE")
    case True
    then show ?thesis using assms by (simp add: erdt_populate_rmdds_def parser_wp erdt_sizes)
  next
    case False
    define remaining where "remaining = unat len - ERDT_HEADER_SIZE"
    have fits: "ERDT_HEADER_SIZE + remaining \<le> length bs" using assms(3) False by (simp add: remaining_def)
    have start: "agents_of bs ERDT_HEADER_SIZE ([], [])"
      unfolding agents_of_def prod.case by (rule exI [of _ "[]"]) (simp add: chain_Nil)
    have second: "parses (\<lambda>(cpus, devices). erdt_ok \<lparr>erdt_max_clos = m, erdt_cpu_agents = cpus, erdt_dev_agents = devices\<rparr>)
        (erdt_loop (rmdds_body bs num_cpu num_dev) bs ERDT_HEADER_SIZE remaining ([], []))"
      if first: "counted bs (ERDT_HEADER_SIZE + remaining) (num_cpu, num_dev, n)" for num_cpu num_dev n m
    proof -
      have "parses (agents_of bs (ERDT_HEADER_SIZE + remaining)) (erdt_loop (rmdds_body bs num_cpu num_dev) bs ERDT_HEADER_SIZE remaining ([], []))"
        by (rule erdt_loop_rule [where Q = "agents_of bs", OF fits start refl]) (rule rmdds_body_parses [OF _ _ _ first])
      then show ?thesis by (rule parses_mono) (auto intro: agents_erdt_ok [OF first])
    qed
    show ?thesis
      using False assms(1,2) fits
      by (auto simp: erdt_populate_rmdds_def parser_wp Let_def remaining_def [symmetric] intro!: parses_mono [OF count_parses [OF fits]])
        (auto simp: erdt_sizes intro: second [unfolded erdt_sizes])
  qed
  then show ?thesis by (auto simp: parses_def)
qed

text \<open>A table with one CPU domain (cores with APIC ids 0 and 2) and one device domain (one path), built from its fields.\<close>

definition le_bytes :: "nat \<Rightarrow> u64 \<Rightarrow> u8 list" where
  "le_bytes n v = map (\<lambda>k. ucast (drop_bit (8 * k) v)) [0..<n]"

definition sub_structure :: "u64 \<Rightarrow> u8 list \<Rightarrow> u8 list" where
  "sub_structure ty body = le_bytes 2 ty @ le_bytes 2 (of_nat (4 + length body)) @ body"

definition rmdd_bytes :: "u64 \<Rightarrow> u64 \<Rightarrow> u8 list \<Rightarrow> u8 list" where
  "rmdd_bytes flags domain subs =
     sub_structure 0 (le_bytes 2 flags @ le_bytes 2 1 @ [1, 8] @ replicate 8 0 @ le_bytes 2 domain @ le_bytes 4 16 @ le_bytes 8 0x80000 @
       le_bytes 2 1 @ subs)"

definition table_bytes :: "u8 list \<Rightarrow> u8 list" where
  "table_bytes subs = [0x45, 0x52, 0x44, 0x54] @ le_bytes 4 (of_nat (64 + length subs)) @ [1] @ replicate 27 0 @ le_bytes 4 4 @ replicate 24 0 @ subs"

definition sample_cacd :: "u8 list" where
  "sample_cacd = sub_structure 1 (le_bytes 2 0 @ le_bytes 2 5 @ le_bytes 4 0 @ le_bytes 4 2)"

definition sample_dacd :: "u8 list" where
  "sample_dacd = sub_structure 2 (le_bytes 2 0 @ le_bytes 2 7 @ [1, 8] @ le_bytes 2 0 @ [0, 0x10, 2, 1])"

definition sample_erdt_bytes :: "u8 list" where
  "sample_erdt_bytes = table_bytes (rmdd_bytes 1 5 sample_cacd @ rmdd_bytes 2 7 sample_dacd)"

definition parsed_rmdd :: "u16 \<Rightarrow> u16 \<Rightarrow> pqos_erdt_rmdd" where
  "parsed_rmdd flags domain = \<lparr>rmdd_flags = flags, rmdd_num_io_l3_slices = 1, rmdd_num_io_l3_sets = 1, rmdd_num_io_l3_ways = 8,
     rmdd_domain_id = domain, rmdd_max_rmids = 16, rmdd_control_reg_base_addr = 0x80000, rmdd_control_reg_size = 1\<rparr>"

definition parsed_sample :: pqos_erdt_info where
  "parsed_sample = \<lparr>erdt_max_clos = 4,
     erdt_cpu_agents = [new_cpu_agent (parsed_rmdd 1 5) \<lparr>cpu_cacd := \<lparr>cacd_rmdd_domain_id = 5, cacd_enumeration_ids = [0, 2]\<rparr>\<rparr>],
     erdt_dev_agents = [new_dev_agent (parsed_rmdd 2 7) \<lparr>dev_dacd := \<lparr>dacd_type = 0, dacd_length = 0, dacd_rmdd_domain_id = 7,
       dacd_dase = [\<lparr>dase_type = 1, dase_segment_number = 0, dase_start_bus_number = 0x10, dase_path = [2, 1]\<rparr>]\<rparr>\<rparr>]\<rparr>"

text \<open>Two descriptions of one domain are refused, and so is a structure that claims more bytes than there are.\<close>

lemma erdt_refusals:
  "erdt_populate_rmdds (table_bytes (rmdd_bytes 1 5 sample_cacd @ rmdd_bytes 2 5 [])) = Some (Inl PQOS_RETVAL_ERROR)"
  "erdt_populate_rmdds (table_bytes (rmdd_bytes 1 5 sample_cacd @ [0, 0, 40, 0])) = Some (Inl PQOS_RETVAL_ERROR)"
  by code_simp+

end
