(* ===== verification/ErdtDomains.thy ===== *)
theory ErdtDomains
  imports Erdt MmioMon CString
begin

text \<open>
  The tables that lead from channels and cores to the domains of the ERDT: \<open>channels_domains_init\<close> of \<open>lib/erdt.c\<close>
  and \<open>lib/cores_domains.c\<close>.
\<close>

section \<open>Channels\<close>

definition check_channel_id_exist :: "mmio_channels_domains \<Rightarrow> pqos_channel_t \<Rightarrow> retval" where
  "check_channel_id_exist cd ch = (if ch \<in> set (cd_channel_ids cd) then PQOS_RETVAL_ERROR else PQOS_RETVAL_OK)"

fun populate_chans_loop :: "nat \<Rightarrow> u16 \<Rightarrow> nat \<Rightarrow> pqos_channel_t list \<Rightarrow> mmio_channels_domains \<Rightarrow> mmio_channels_domains res" where
  "populate_chans_loop max_channels domain idx [] cd = Inr cd"
| "populate_chans_loop max_channels domain idx (ch # chs) cd =
     (if check_channel_id_exist cd ch = PQOS_RETVAL_ERROR then populate_chans_loop max_channels domain idx chs cd
      else if max_channels \<le> length (cd_channel_ids cd) then Inl PQOS_RETVAL_ERROR
      else populate_chans_loop max_channels domain idx chs
             (cd\<lparr>cd_channel_ids := cd_channel_ids cd @ [ch], cd_domain_ids := cd_domain_ids cd @ [domain],
                 cd_domain_id_idxs := cd_domain_id_idxs cd @ [of_nat idx]\<rparr>))"

definition dase_bdf :: "pqos_erdt_dase \<Rightarrow> u8 \<Rightarrow> u8 \<Rightarrow> u16" where
  "dase_bdf d x y = push_bit 8 (ucast (dase_start_bus_number d)) OR push_bit 3 (ucast (x AND 0x1F)) OR ucast (y AND 0x7)"

text \<open>The path is read in pairs; with an odd length the last pair would lie behind it.\<close>

fun dase_path_loop :: "pqos_devinfo \<Rightarrow> nat \<Rightarrow> u16 \<Rightarrow> nat \<Rightarrow> pqos_erdt_dase \<Rightarrow> u8 list \<Rightarrow> mmio_channels_domains
    \<Rightarrow> mmio_channels_domains res option" where
  "dase_path_loop devinfo max_channels domain idx d [] cd = Some (Inr cd)"
| "dase_path_loop devinfo max_channels domain idx d [x] cd = None"
| "dase_path_loop devinfo max_channels domain idx d (x # y # path) cd =
     (case fst (pqos_devinfo_get_channel_ids (Some devinfo) (dase_segment_number d) (dase_bdf d x y)) of
        None \<Rightarrow> dase_path_loop devinfo max_channels domain idx d path cd
      | Some chs \<Rightarrow>
          and_then (Some (populate_chans_loop max_channels domain idx chs cd)) (dase_path_loop devinfo max_channels domain idx d path))"

fun dases_loop :: "pqos_devinfo \<Rightarrow> nat \<Rightarrow> u16 \<Rightarrow> nat \<Rightarrow> pqos_erdt_dase list \<Rightarrow> mmio_channels_domains
    \<Rightarrow> mmio_channels_domains res option" where
  "dases_loop devinfo max_channels domain idx [] cd = Some (Inr cd)"
| "dases_loop devinfo max_channels domain idx (d # ds) cd =
     and_then (dase_path_loop devinfo max_channels domain idx d (dase_path d) cd) (dases_loop devinfo max_channels domain idx ds)"

definition erdt_dev_populate_chans :: "pqos_erdt_dacd \<Rightarrow> pqos_devinfo \<Rightarrow> nat \<Rightarrow> nat \<Rightarrow> mmio_channels_domains
    \<Rightarrow> mmio_channels_domains res option" where
  "erdt_dev_populate_chans dacd devinfo dev_agent_idx max_channels cd =
     dases_loop devinfo max_channels (dacd_rmdd_domain_id dacd) dev_agent_idx (dacd_dase dacd) cd"

fun dev_agents_loop :: "pqos_devinfo \<Rightarrow> nat \<Rightarrow> nat \<Rightarrow> pqos_device_agent_info list \<Rightarrow> mmio_channels_domains
    \<Rightarrow> mmio_channels_domains res option" where
  "dev_agents_loop devinfo num_channels i [] cd = Some (Inr cd)"
| "dev_agents_loop devinfo num_channels i (a # as) cd =
     and_then (erdt_dev_populate_chans (dev_dacd a) devinfo i num_channels cd) (dev_agents_loop devinfo num_channels (Suc i) as)"

definition channels_domains_init :: "u32 \<Rightarrow> pqos_erdt_info option \<Rightarrow> pqos_devinfo option \<Rightarrow> mmio_channels_domains res option" where
  "channels_domains_init num_channels erdt devinfo =
     (case (erdt, devinfo) of
        (Some erdt, Some devinfo) \<Rightarrow>
          if num_channels = 0 \<or> 65535 < length (erdt_dev_agents erdt) then Some (Inl PQOS_RETVAL_PARAM)
          else dev_agents_loop devinfo (unat num_channels) 0 (erdt_dev_agents erdt)
                 \<lparr>cd_channel_ids = [], cd_domain_ids = [], cd_domain_id_idxs = []\<rparr>
      | _ \<Rightarrow> Some (Inl PQOS_RETVAL_PARAM))"

section \<open>Cores\<close>

text \<open>\<open>atoi\<close>, as the conversion of \<open>strtol\<close> to 32 bits.\<close>

definition atoi32 :: "string \<Rightarrow> u32" where
  "atoi32 s =
     (let t = dropWhile isspace s;
          (neg, t) = (case t of c # cs \<Rightarrow> if c = CHR ''-'' then (True, cs) else if c = CHR ''+'' then (False, cs) else (False, t)
                      | [] \<Rightarrow> (False, t));
          v = fst (digits_value 10 0 t)
      in word_of_int (max (- (2 ^ 63)) (min (2 ^ 63 - 1) (if neg then - v else v))))"

fun contains :: "string \<Rightarrow> string \<Rightarrow> bool" where
  "contains w [] \<longleftrightarrow> w = []"
| "contains w (c # cs) \<longleftrightarrow> take (length w) (c # cs) = w \<or> contains w cs"

text \<open>One line of \<open>/proc/cpuinfo\<close>; the state is the current CPU and the map.\<close>

definition cpuinfo_line :: "string \<Rightarrow> u32 \<times> u32 list \<Rightarrow> u32 \<times> u32 list" where
  "cpuinfo_line line = (\<lambda>(cur_cpu, cpu2apic).
     if take 9 line = ''processor''
     then (case cut_at CHR '':'' line of Some (_, rest) \<Rightarrow> (atoi32 rest, cpu2apic) | None \<Rightarrow> (cur_cpu, cpu2apic))
     else if contains ''apicid'' line \<or> contains ''x2apicid'' line
     then (case cut_at CHR '':'' line of
             Some (_, rest) \<Rightarrow> (cur_cpu, if unat cur_cpu < length cpu2apic then cpu2apic[unat cur_cpu := atoi32 rest] else cpu2apic)
           | None \<Rightarrow> (cur_cpu, cpu2apic))
     else (cur_cpu, cpu2apic))"

text \<open>\<open>content\<close> is what \<open>/proc/cpuinfo\<close> holds, \<open>None\<close> if it cannot be opened.\<close>

definition build_apic_to_cpu_map :: "string option \<Rightarrow> u32 list \<Rightarrow> u32 list res" where
  "build_apic_to_cpu_map content cpu2apic =
     (case content of
        None \<Rightarrow> Inl PQOS_RETVAL_ERROR
      | Some text \<Rightarrow> Inr (snd (fold cpuinfo_line (map c_str (fgets_lines 255 255 [] text)) (0, cpu2apic))))"

definition get_cpu_by_apic_id :: "u32 list \<Rightarrow> u32 \<Rightarrow> int" where
  "get_cpu_by_apic_id cpu2apic apic_id =
     (let i = search_index apic_id cpu2apic in if i < length cpu2apic then int i else - 1)"

fun cacd_loop :: "u32 list \<Rightarrow> u16 \<Rightarrow> u32 list \<Rightarrow> u16 list \<Rightarrow> u16 list res" where
  "cacd_loop cpu2apic domain [] domains = Inr domains"
| "cacd_loop cpu2apic domain (x # xs) domains =
     (let cpu = get_cpu_by_apic_id cpu2apic x
      in if cpu = - 1 then Inl PQOS_RETVAL_ERROR else cacd_loop cpu2apic domain xs (domains[nat cpu := domain]))"

fun cpu_agents_loop :: "u32 list \<Rightarrow> pqos_cpu_agent_info list \<Rightarrow> u16 list \<Rightarrow> u16 list res" where
  "cpu_agents_loop cpu2apic [] domains = Inr domains"
| "cpu_agents_loop cpu2apic (a # as) domains =
     (case cacd_loop cpu2apic (cacd_rmdd_domain_id (cpu_cacd a)) (cacd_enumeration_ids (cpu_cacd a)) domains of
        Inl e \<Rightarrow> Inl e
      | Inr domains \<Rightarrow> cpu_agents_loop cpu2apic as domains)"

definition cores_domains_init :: "string option \<Rightarrow> u32 \<Rightarrow> pqos_erdt_info \<Rightarrow> u16 list res" where
  "cores_domains_init cpuinfo num_cores erdt =
     (case build_apic_to_cpu_map cpuinfo (replicate (unat num_cores) 0) of
        Inl _ \<Rightarrow> Inl PQOS_RETVAL_ERROR
      | Inr cpu2apic \<Rightarrow>
          (case cpu_agents_loop cpu2apic (erdt_cpu_agents erdt) (replicate (unat num_cores) 0) of
             Inl _ \<Rightarrow> Inl PQOS_RETVAL_ERROR
           | Inr domains \<Rightarrow> Inr domains))"

end
