(* ===== verification/DomainTables.thy ===== *)
theory DomainTables
  imports ErdtSafe ErdtDomains MmioCounters
begin

text \<open>
  What the tables of domains hold. For every channel the table names the first device agent of the ERDT that lists the channel; for
  every core that a CPU agent lists, the agent found for the core is this agent. With the ERDT parser this discharges the
  assumptions that monitoring over MMIO makes of its tables.
\<close>

section \<open>Channels\<close>

fun path_pairs :: "u8 list \<Rightarrow> (u8 \<times> u8) list" where
  "path_pairs (x # y # path) = (x, y) # path_pairs path"
| "path_pairs _ = []"

definition dase_channels :: "pqos_devinfo \<Rightarrow> pqos_erdt_dase \<Rightarrow> pqos_channel_t list" where
  "dase_channels dev d = concat (map (\<lambda>(x, y).
     case fst (pqos_devinfo_get_channel_ids (Some dev) (dase_segment_number d) (dase_bdf d x y)) of None \<Rightarrow> [] | Some chs \<Rightarrow> chs)
       (path_pairs (dase_path d)))"

definition agent_channels :: "pqos_devinfo \<Rightarrow> pqos_device_agent_info \<Rightarrow> pqos_channel_t list" where
  "agent_channels dev a = concat (map (dase_channels dev) (dacd_dase (dev_dacd a)))"

text \<open>The table as a function, and the part of the record that the loops keep in step.\<close>

definition domain_of :: "mmio_channels_domains \<Rightarrow> pqos_channel_t \<Rightarrow> (u16 \<times> u16) option" where
  "domain_of cd ch = (let i = search_index ch (cd_channel_ids cd)
     in if i < length (cd_channel_ids cd) then Some (cd_domain_ids cd ! i, cd_domain_id_idxs cd ! i) else None)"

definition in_step :: "mmio_channels_domains \<Rightarrow> bool" where
  "in_step cd \<longleftrightarrow> length (cd_domain_ids cd) = length (cd_channel_ids cd) \<and> length (cd_domain_id_idxs cd) = length (cd_channel_ids cd)"

lemma search_index_append: "search_index x (xs @ ys) = (if x \<in> set xs then search_index x xs else length xs + search_index x ys)"
  by (induction xs) auto

lemma domain_of_None: "domain_of cd ch = None \<longleftrightarrow> ch \<notin> set (cd_channel_ids cd)"
  by (simp add: domain_of_def Let_def search_index_less_iff)

lemma domain_of_new:
  assumes "in_step cd" "ch \<notin> set (cd_channel_ids cd)"
  shows "domain_of (cd\<lparr>cd_channel_ids := cd_channel_ids cd @ [ch], cd_domain_ids := cd_domain_ids cd @ [d],
      cd_domain_id_idxs := cd_domain_id_idxs cd @ [i]\<rparr>) = (domain_of cd)(ch \<mapsto> (d, i))"
proof
  fix x
  have "x \<in> set (cd_channel_ids cd) \<Longrightarrow> search_index x (cd_channel_ids cd) < Suc (length (cd_channel_ids cd))"
    by (simp only: less_SucI search_index_less_iff)
  then show "domain_of (cd\<lparr>cd_channel_ids := cd_channel_ids cd @ [ch], cd_domain_ids := cd_domain_ids cd @ [d],
      cd_domain_id_idxs := cd_domain_id_idxs cd @ [i]\<rparr>) x = ((domain_of cd)(ch \<mapsto> (d, i))) x"
    using assms by (auto simp: domain_of_def Let_def search_index_append in_step_def nth_append)
qed

lemma chans_loop_facts:
  "in_step cd \<Longrightarrow> populate_chans_loop m d i chs cd = Inr cd' \<Longrightarrow>
     in_step cd' \<and> domain_of cd' = (\<lambda>ch. case domain_of cd ch of Some v \<Rightarrow> Some v | None \<Rightarrow> if ch \<in> set chs then Some (d, of_nat i) else None)"
proof (induction chs arbitrary: cd)
  case Nil
  then show ?case by (auto simp: fun_eq_iff split: option.splits)
next
  case (Cons ch chs)
  let ?new = "cd\<lparr>cd_channel_ids := cd_channel_ids cd @ [ch], cd_domain_ids := cd_domain_ids cd @ [d],
      cd_domain_id_idxs := cd_domain_id_idxs cd @ [of_nat i]\<rparr>"
  show ?case
  proof (cases "ch \<in> set (cd_channel_ids cd)")
    case True
    with Cons.prems have "populate_chans_loop m d i chs cd = Inr cd'" by (simp add: check_channel_id_exist_def)
    note ih = Cons.IH [OF Cons.prems(1) this]
    have "domain_of cd ch \<noteq> None" using True by (simp add: domain_of_None)
    with ih show ?thesis by (auto simp: fun_eq_iff split: option.splits)
  next
    case False
    with Cons.prems have run: "populate_chans_loop m d i chs ?new = Inr cd'"
      by (simp add: check_channel_id_exist_def split: if_splits)
    have "in_step ?new" using Cons.prems(1) by (simp add: in_step_def)
    from Cons.IH [OF this run] have ih: "in_step cd'" "domain_of cd' = (\<lambda>x. case ((domain_of cd)(ch \<mapsto> (d, of_nat i))) x of
        Some v \<Rightarrow> Some v | None \<Rightarrow> if x \<in> set chs then Some (d, of_nat i) else None)"
      unfolding domain_of_new [OF Cons.prems(1) False] by auto
    have "domain_of cd ch = None" using False by (simp add: domain_of_None)
    with ih show ?thesis by (auto simp: fun_eq_iff split: option.splits)
  qed
qed

lemma chans_loop_append:
  "populate_chans_loop m d i (xs @ ys) cd =
     (case populate_chans_loop m d i xs cd of Inl e \<Rightarrow> Inl e | Inr cd \<Rightarrow> populate_chans_loop m d i ys cd)"
  by (induction xs arbitrary: cd) auto

text \<open>On paths of pairs the loops over entries and paths are the loop over the agent's channels.\<close>

lemma path_loop_channels:
  "even (length path) \<Longrightarrow>
     dase_path_loop dev m dm i d path cd = Some (populate_chans_loop m dm i (concat (map (\<lambda>(x, y).
       case fst (pqos_devinfo_get_channel_ids (Some dev) (dase_segment_number d) (dase_bdf d x y)) of None \<Rightarrow> [] | Some chs \<Rightarrow> chs)
       (path_pairs path))) cd)"
  by (induction dev m dm i d path cd rule: dase_path_loop.induct)
    (auto simp: chans_loop_append and_then_def split: option.splits sum.splits)

lemma dases_loop_channels:
  "list_all dase_ok ds \<Longrightarrow> dases_loop dev m dm i ds cd = Some (populate_chans_loop m dm i (concat (map (dase_channels dev) ds)) cd)"
  by (induction ds arbitrary: cd)
    (auto simp: dase_ok_def path_loop_channels dase_channels_def [symmetric] chans_loop_append and_then_def split: sum.splits)

lemma agent_loop_channels:
  "dev_agent_ok a \<Longrightarrow> erdt_dev_populate_chans (dev_dacd a) dev i m cd =
     Some (populate_chans_loop m (rmdd_domain_id (dev_rmdd a)) i (agent_channels dev a) cd)"
  by (simp add: erdt_dev_populate_chans_def dev_agent_ok_def dases_loop_channels agent_channels_def)

text \<open>The first agent that lists a channel, counted from \<open>i\<close>.\<close>

fun first_agent :: "pqos_devinfo \<Rightarrow> nat \<Rightarrow> pqos_device_agent_info list \<Rightarrow> pqos_channel_t \<Rightarrow> (u16 \<times> u16) option" where
  "first_agent dev i [] ch = None"
| "first_agent dev i (a # as) ch =
     (if ch \<in> set (agent_channels dev a) then Some (rmdd_domain_id (dev_rmdd a), of_nat i) else first_agent dev (Suc i) as ch)"

lemma agents_loop_facts:
  assumes "list_all dev_agent_ok as" "in_step cd"
  shows "\<exists>r. dev_agents_loop dev m i as cd = Some r \<and>
    (\<forall>cd'. r = Inr cd' \<longrightarrow> in_step cd' \<and> domain_of cd' = (\<lambda>ch. case domain_of cd ch of Some v \<Rightarrow> Some v | None \<Rightarrow> first_agent dev i as ch))"
  using assms
proof (induction as arbitrary: i cd)
  case Nil
  then show ?case by (auto simp: fun_eq_iff split: option.splits)
next
  case (Cons a as)
  note pop = agent_loop_channels [of a dev i m cd]
  show ?case
  proof (cases "populate_chans_loop m (rmdd_domain_id (dev_rmdd a)) i (agent_channels dev a) cd")
    case (Inl e)
    with pop Cons.prems(1) show ?thesis by simp
  next
    case (Inr cd1)
    note f = chans_loop_facts [OF Cons.prems(2) Inr]
    from Cons.IH [of cd1 "Suc i"] f Cons.prems(1) obtain r where
      "dev_agents_loop dev m (Suc i) as cd1 = Some r" and
      r: "\<forall>cd'. r = Inr cd' \<longrightarrow> in_step cd' \<and> domain_of cd' = (\<lambda>ch. case domain_of cd1 ch of Some v \<Rightarrow> Some v | None \<Rightarrow> first_agent dev (Suc i) as ch)"
      by auto
    with pop Cons.prems(1) Inr have "dev_agents_loop dev m i (a # as) cd = Some r" by simp
    with r f show ?thesis by (auto simp: fun_eq_iff split: option.splits)
  qed
qed

definition mmio_tables :: "pqos_erdt_info \<Rightarrow> u16 list option \<Rightarrow> mmio_channels_domains \<Rightarrow> mmio_sys" where
  "mmio_tables erdt domains cd = \<lparr>sys_erdt = erdt, sys_cores_domains = domains, sys_channels_domains = cd\<rparr>"

lemma get_dev_domain_info_domain_of:
  "get_dev_domain_info (mmio_tables erdt domains cd) ch =
     (case domain_of cd ch of None \<Rightarrow> Inl PQOS_RETVAL_UNAVAILABLE | Some v \<Rightarrow> Inr v)"
  by (simp add: get_dev_domain_info_def mmio_tables_def domain_of_def Let_def)

lemma first_agent_position:
  "first_agent dev i as ch = Some (d, x) \<Longrightarrow>
     \<exists>k<length as. x = of_nat (i + k) \<and> rmdd_domain_id (dev_rmdd (as ! k)) = d"
proof (induction dev i as ch rule: first_agent.induct)
  case (2 dev i a as ch)
  show ?case
  proof (cases "ch \<in> set (agent_channels dev a)")
    case True
    with 2 show ?thesis by (intro exI [of _ 0]) auto
  next
    case False
    with 2 obtain k where "k < length as" "x = of_nat (Suc i + k)" "rmdd_domain_id (dev_rmdd (as ! k)) = d" by auto
    then show ?thesis by (intro exI [of _ "Suc k"]) auto
  qed
qed simp

text \<open>
  C18. The table of channel domains of a parsed ERDT: building it never reads behind a device path and returns; the table that it
  builds answers for every channel the domain and the position of the first device agent whose scope lists the channel, and
  \<open>PQOS_RETVAL_UNAVAILABLE\<close> for every other channel, and it satisfies what the allocation of RMIDs for channels relies on.
\<close>

theorem channels_domains_correct:
  assumes "erdt_ok erdt"
  shows "\<exists>r. channels_domains_init n (Some erdt) (Some dev) = Some r \<and>
    (\<forall>cd. r = Inr cd \<longrightarrow> wf_domains (mmio_tables erdt domains cd) \<and>
       (\<forall>ch. get_dev_domain_info (mmio_tables erdt domains cd) ch =
          (case first_agent dev 0 (erdt_dev_agents erdt) ch of None \<Rightarrow> Inl PQOS_RETVAL_UNAVAILABLE | Some v \<Rightarrow> Inr v)))"
proof (cases "n = 0 \<or> 65535 < length (erdt_dev_agents erdt)")
  case True
  then show ?thesis by (simp add: channels_domains_init_def)
next
  case False
  let ?as = "erdt_dev_agents erdt" and ?cd0 = "\<lparr>cd_channel_ids = [], cd_domain_ids = [], cd_domain_id_idxs = []\<rparr> :: mmio_channels_domains"
  have ok: "list_all dev_agent_ok ?as" "distinct (map (\<lambda>a. rmdd_domain_id (dev_rmdd a)) ?as)" using assms by (auto simp: erdt_ok_def)
  have "in_step ?cd0" "domain_of ?cd0 = (\<lambda>_. None)" by (auto simp: in_step_def domain_of_def fun_eq_iff)
  with agents_loop_facts [OF ok(1), of ?cd0 dev "unat n" 0] obtain r where run: "dev_agents_loop dev (unat n) 0 ?as ?cd0 = Some r"
    and r: "\<And>cd. r = Inr cd \<Longrightarrow> domain_of cd = first_agent dev 0 ?as" by auto
  have info: "get_dev_domain_info (mmio_tables erdt domains cd) ch =
      (case first_agent dev 0 ?as ch of None \<Rightarrow> Inl PQOS_RETVAL_UNAVAILABLE | Some v \<Rightarrow> Inr v)" if "r = Inr cd" for cd ch
    by (simp add: get_dev_domain_info_domain_of r [OF that])
  have "wf_domains (mmio_tables erdt domains cd)" if "r = Inr cd" for cd
  proof -
    have "unat x < length ?as \<and> rmdd_domain_id (dev_rmdd (?as ! unat x)) = d"
      if d: "get_dev_domain_info (mmio_tables erdt domains cd) ch = Inr (d, x)" for ch d x
    proof -
      from d info [OF \<open>r = Inr cd\<close>] have "first_agent dev 0 ?as ch = Some (d, x)" by (simp split: option.splits)
      from first_agent_position [OF this] obtain k where k: "k < length ?as" "x = of_nat k" "rmdd_domain_id (dev_rmdd (?as ! k)) = d"
        by auto
      then have "unat x = k" using False by (simp add: unat_of_nat)
      with k show ?thesis by simp
    qed
    with ok(2) False show ?thesis by (auto simp: wf_domains_def mmio_tables_def)
  qed
  with run info False show ?thesis by (simp add: channels_domains_init_def)
qed

section \<open>Cores\<close>

lemma cacd_loop_facts:
  "cacd_loop m d xs ds = Inr ds' \<Longrightarrow> length ds = length m \<Longrightarrow>
     length ds' = length m \<and> set xs \<subseteq> set m \<and>
     (\<forall>l<length m. ds' ! l = (if \<exists>x\<in>set xs. search_index x m = l then d else ds ! l))"
  by (induction m d xs ds rule: cacd_loop.induct)
    (auto simp: get_cpu_by_apic_id_def Let_def nth_list_update split: if_splits)

lemma search_index_inj: "x \<in> set xs \<Longrightarrow> search_index x xs = search_index y xs \<Longrightarrow> x = y"
  by (induction xs) (auto split: if_splits)

definition lists_id :: "pqos_cpu_agent_info \<Rightarrow> u32 \<Rightarrow> bool" where
  "lists_id a x \<longleftrightarrow> x \<in> set (cacd_enumeration_ids (cpu_cacd a))"

lemma cpu_agents_loop_facts:
  "cpu_agents_loop m as ds = Inr ds' \<Longrightarrow> length ds = length m \<Longrightarrow>
     length ds' = length m \<and> (\<forall>a\<in>set as. \<forall>x. lists_id a x \<longrightarrow> x \<in> set m) \<and>
     (\<forall>x\<in>set m. (\<forall>a\<in>set as. \<not> lists_id a x) \<longrightarrow> ds' ! search_index x m = ds ! search_index x m)"
proof (induction m as ds rule: cpu_agents_loop.induct)
  case (2 m a as ds)
  then obtain ds1 where c: "cacd_loop m (cacd_rmdd_domain_id (cpu_cacd a)) (cacd_enumeration_ids (cpu_cacd a)) ds = Inr ds1"
    and rest: "cpu_agents_loop m as ds1 = Inr ds'" by (auto split: sum.splits)
  note f = cacd_loop_facts [OF c 2(3)]
  from 2(1) [OF c rest] f have ih: "length ds' = length m" "\<forall>a\<in>set as. \<forall>x. lists_id a x \<longrightarrow> x \<in> set m"
    "\<forall>x\<in>set m. (\<forall>a\<in>set as. \<not> lists_id a x) \<longrightarrow> ds' ! search_index x m = ds1 ! search_index x m" by auto
  have "ds1 ! search_index x m = ds ! search_index x m" if "x \<in> set m" "\<not> lists_id a x" for x
    using f that search_index_inj [of _ m x] by (auto simp: lists_id_def)
  with ih f show ?case by (auto simp: lists_id_def)
qed auto

lemma cpu_agents_loop_domain:
  assumes "cpu_agents_loop m as ds = Inr ds'" "length ds = length m" "i < length as" "lists_id (as ! i) x"
    and "\<forall>j<length as. j \<noteq> i \<longrightarrow> \<not> lists_id (as ! j) x"
  shows "x \<in> set m \<and> ds' ! search_index x m = cacd_rmdd_domain_id (cpu_cacd (as ! i))"
  using assms
proof (induction m as ds arbitrary: i rule: cpu_agents_loop.induct)
  case (2 m a as ds)
  from 2(2) obtain ds1 where c: "cacd_loop m (cacd_rmdd_domain_id (cpu_cacd a)) (cacd_enumeration_ids (cpu_cacd a)) ds = Inr ds1"
    and rest: "cpu_agents_loop m as ds1 = Inr ds'" by (auto split: sum.splits)
  note f = cacd_loop_facts [OF c 2(3)]
  show ?case
  proof (cases i)
    case 0
    with 2(5) f have x: "x \<in> set m" and lx: "x \<in> set (cacd_enumeration_ids (cpu_cacd a))" by (auto simp: lists_id_def)
    have dx: "ds1 ! search_index x m = cacd_rmdd_domain_id (cpu_cacd a)" using f lx x by (metis search_index_less_iff)
    have "\<forall>b\<in>set as. \<not> lists_id b x" using 2(6) 0 by (force simp: in_set_conv_nth)
    with cpu_agents_loop_facts [OF rest] f x dx 0 show ?thesis by auto
  next
    case (Suc k)
    have "\<forall>j<length as. j \<noteq> k \<longrightarrow> \<not> lists_id (as ! j) x" using 2(6) Suc by force
    with 2(1) [OF c rest, of k] f 2(4,5) Suc show ?thesis by simp
  qed
qed simp

lemma build_map_length: "build_apic_to_cpu_map content m = Inr m' \<Longrightarrow> length m' = length m"
proof -
  have "length (snd (fold cpuinfo_line ls st)) = length (snd st)" for ls st
    by (induction ls arbitrary: st) (auto simp: cpuinfo_line_def split: option.splits)
  then show "build_apic_to_cpu_map content m = Inr m' \<Longrightarrow> length m' = length m"
    by (auto simp: build_apic_to_cpu_map_def split: option.splits)
qed

text \<open>
  C19. The table of core domains of a parsed ERDT: when the table is built, every APIC id that exactly one CPU agent lists belongs
  to a core, the first one to which \<open>/proc/cpuinfo\<close> gives this id, and the agent that monitoring and allocation find for
  this core is the agent that lists the id.
\<close>

theorem cores_domains_correct:
  assumes "erdt_ok erdt" and "build_apic_to_cpu_map cpuinfo (replicate (unat n) 0) = Inr m"
    and "cores_domains_init cpuinfo n erdt = Inr domains"
    and "i < length (erdt_cpu_agents erdt)" "lists_id (erdt_cpu_agents erdt ! i) x"
    and "\<forall>j<length (erdt_cpu_agents erdt). j \<noteq> i \<longrightarrow> \<not> lists_id (erdt_cpu_agents erdt ! j) x"
  shows "\<exists>l<n. m ! unat l = x \<and> (\<forall>k<l. m ! unat k \<noteq> x) \<and>
    get_cpu_agent_by_core (mmio_tables erdt (Some domains) cd) l = Some (erdt_cpu_agents erdt ! i)"
proof -
  let ?as = "erdt_cpu_agents erdt" and ?id = "\<lambda>a. rmdd_domain_id (cpu_rmdd a)"
  from assms(2,3) have run: "cpu_agents_loop m ?as (replicate (unat n) 0) = Inr domains"
    by (auto simp: cores_domains_init_def split: sum.splits)
  have len: "length m = unat n" using build_map_length [OF assms(2)] by simp
  have "x \<in> set m \<and> domains ! search_index x m = cacd_rmdd_domain_id (cpu_cacd (?as ! i))"
    by (rule cpu_agents_loop_domain [OF run _ assms(4-6)]) (simp add: len)
  moreover have "cacd_rmdd_domain_id (cpu_cacd (?as ! i)) = ?id (?as ! i)"
    using assms(1,4) by (auto simp: erdt_ok_def cpu_agent_ok_def list_all_length)
  ultimately have x: "x \<in> set m" "domains ! search_index x m = ?id (?as ! i)" by auto
  have lm: "length domains = unat n" using cpu_agents_loop_facts [OF run] len by simp
  define l :: u32 where "l = of_nat (search_index x m)"
  have lt: "search_index x m < unat n" using x(1) len by (metis search_index_less_iff)
  moreover have "unat n < 2 ^ 32" using unsigned_less [of n] by simp
  ultimately have "search_index x m < 2 ^ 32" by (rule order_less_trans)
  then have l: "unat l = search_index x m" by (simp add: l_def unat_of_nat)
  have first: "m ! k \<noteq> x" if "k < search_index x m" for k
    using that by (induction m arbitrary: k) (auto simp: nth_Cons split: if_splits nat.splits)
  have "search_index (?id (?as ! i)) (map ?id ?as) = i"
    using search_index_nth_distinct [of "map ?id ?as" i] assms(1,4) by (auto simp: erdt_ok_def)
  then have "get_cpu_agent_by_core (mmio_tables erdt (Some domains) cd) l = Some (?as ! i)"
    using lt l x(2) lm assms(4) by (simp add: get_cpu_agent_by_core_def mmio_tables_def get_cpu_agent_idx_by_domain_id_def)
  with lt l x(1) first show ?thesis by (intro exI [of _ l]) (simp add: word_less_nat_alt nth_search_index)
qed

section \<open>Samples\<close>

text \<open>A device on the path that the sample table names, and the processors of the cores that it lists.\<close>

definition path_devinfo :: pqos_devinfo where
  "path_devinfo = \<lparr>channels = None, devs = Some [\<lparr>dev_segment = 0, dev_bdf = 0x1011, dev_channel = [0x102, 0, 0x103, 0, 0, 0, 0, 0]\<rparr>]\<rparr>"

definition sample_cpuinfo :: string where
  "sample_cpuinfo = ''processor : 0'' @ [CHR 0x0A] @ ''apicid : 2'' @ [CHR 0x0A] @ ''processor : 1'' @ [CHR 0x0A] @ ''apicid : 0'' @ [CHR 0x0A]"

lemma parsed_sample_ok: "erdt_ok parsed_sample"
  by code_simp

lemma sample_channels_domains:
  "channels_domains_init 4 (Some parsed_sample) (Some path_devinfo) =
     Some (Inr \<lparr>cd_channel_ids = [0x102, 0x103], cd_domain_ids = [7, 7], cd_domain_id_idxs = [0, 0]\<rparr>)"
proof -
  have "length (erdt_dev_agents parsed_sample) = 1" by code_simp
  moreover have "dev_agents_loop path_devinfo 4 0 (erdt_dev_agents parsed_sample) \<lparr>cd_channel_ids = [], cd_domain_ids = [], cd_domain_id_idxs = []\<rparr> =
     Some (Inr \<lparr>cd_channel_ids = [0x102, 0x103], cd_domain_ids = [7, 7], cd_domain_id_idxs = [0, 0]\<rparr>)" by code_simp
  ultimately show ?thesis by (simp add: channels_domains_init_def)
qed

lemma sample_apic_map: "build_apic_to_cpu_map (Some sample_cpuinfo) (replicate (unat (2 :: u32)) 0) = Inr [2, 0]"
  by code_simp

lemma sample_cores_domains: "cores_domains_init (Some sample_cpuinfo) 2 parsed_sample = Inr [5, 5]"
  by code_simp

theorem channels_domains_correct_witness:
  "get_dev_domain_info (mmio_tables parsed_sample None
     \<lparr>cd_channel_ids = [0x102, 0x103], cd_domain_ids = [7, 7], cd_domain_id_idxs = [0, 0]\<rparr>) 0x103 = Inr (7, 0)"
proof -
  have "first_agent path_devinfo 0 (erdt_dev_agents parsed_sample) 0x103 = Some (7, 0)" by code_simp
  with channels_domains_correct [OF parsed_sample_ok, of 4 path_devinfo None] show ?thesis by (auto simp: sample_channels_domains)
qed

theorem cores_domains_correct_witness:
  "\<exists>l<2. [2, 0 :: u32] ! unat l = 2 \<and> (\<forall>k<l. [2, 0 :: u32] ! unat k \<noteq> 2) \<and>
     get_cpu_agent_by_core (mmio_tables parsed_sample (Some [5, 5]) \<lparr>cd_channel_ids = [], cd_domain_ids = [], cd_domain_id_idxs = []\<rparr>) (l :: u32) =
       Some (erdt_cpu_agents parsed_sample ! 0)"
proof (rule cores_domains_correct [OF parsed_sample_ok sample_apic_map sample_cores_domains])
  have "length (erdt_cpu_agents parsed_sample) = 1" by code_simp
  then show "0 < length (erdt_cpu_agents parsed_sample)"
    "\<forall>j<length (erdt_cpu_agents parsed_sample). j \<noteq> 0 \<longrightarrow> \<not> lists_id (erdt_cpu_agents parsed_sample ! j) 2" by simp_all
  show "lists_id (erdt_cpu_agents parsed_sample ! 0) 2" by code_simp
qed

text \<open>A core that no agent lists keeps the zero with which the table is cleared: it is taken for a core of domain 0.\<close>

lemma unlisted_core_domain_zero:
  assumes "build_apic_to_cpu_map cpuinfo (replicate (unat n) 0) = Inr m" "cores_domains_init cpuinfo n erdt = Inr domains"
    and "x \<in> set m" "\<forall>a\<in>set (erdt_cpu_agents erdt). \<not> lists_id a x"
  shows "domains ! search_index x m = 0"
proof -
  from assms(1,2) have run: "cpu_agents_loop m (erdt_cpu_agents erdt) (replicate (unat n) 0) = Inr domains"
    by (auto simp: cores_domains_init_def split: sum.splits)
  have len: "length m = unat n" using build_map_length [OF assms(1)] by simp
  then have "search_index x m < unat n" using assms(3) by (metis search_index_less_iff)
  then show ?thesis using cpu_agents_loop_facts [OF run] assms(3,4) len by simp
qed

end
