(* ===== verification/Acpi.thy ===== *)
theory Acpi
  imports ErdtSafe MmioAlloc CString
begin

text \<open>
  Finding and reading ACPI tables (\<open>lib/acpi.c\<close>) and the parser of the MRRM table (\<open>lib/mrrm.c\<close>). The file system and
  physical memory are the record \<open>acpi_os\<close>. As in the ERDT parser, a result \<open>None\<close> is an access outside a block of memory; a
  missing table (NULL) is \<open>Some None\<close>.
\<close>

section \<open>The system\<close>

text \<open>
  \<open>ac_systab\<close> is what \<open>/sys/firmware/efi/systab\<close> holds, if it can be opened; \<open>ac_map a n\<close> the \<open>n\<close> bytes of
  physical memory at \<open>a\<close> that \<open>acpi_memory_map\<close> gives access to, or none; \<open>ac_table sig\<close> the content of the
  file of a table in \<open>/sys/firmware/acpi/tables\<close>, if there is one (it is opened and read without an error), \<open>ac_dir\<close>
  whether this directory exists. \<open>ac_fresh n\<close> is what \<open>n\<close> bytes of newly allocated memory hold.
\<close>

record acpi_os =
  ac_systab :: "string option"
  ac_map :: "u64 \<Rightarrow> u64 \<Rightarrow> u8 list option"
  ac_table :: "string \<Rightarrow> u8 list option"
  ac_dir :: bool
  ac_fresh :: "nat \<Rightarrow> u8 list"

section \<open>Checksums\<close>

definition acpi_verify_checksum :: "u8 list \<Rightarrow> nat \<Rightarrow> bool option" where
  "acpi_verify_checksum mem n =
     (if n = 0 then Some False else if length mem < n then None else Some (fold (+) (take n mem) 0 = 0))"

definition ACPI_TABLE_RSDP_SIZE :: nat where "ACPI_TABLE_RSDP_SIZE = 20"
definition RSDP_SIZE :: nat where "RSDP_SIZE = 36"

definition acpi_rsdp_verify_checksum :: "u8 list \<Rightarrow> bool option" where
  "acpi_rsdp_verify_checksum mem = do {
     ok \<leftarrow> acpi_verify_checksum mem ACPI_TABLE_RSDP_SIZE;
     if \<not> ok then Some False
     else do {
       revision \<leftarrow> rd8 mem 15;
       if 2 \<le> revision then acpi_verify_checksum mem RSDP_SIZE else Some True } }"

section \<open>The root pointer\<close>

text \<open>\<open>sscanf\<close> with a literal prefix and one \<open>%llx\<close>.\<close>

definition scan_hex :: "string \<Rightarrow> string \<Rightarrow> u64 option" where
  "scan_hex prefix s =
     (if take (length prefix) s \<noteq> prefix then None
      else (let rest = drop (length prefix) s; (v, after) = strtoull 16 rest in if after = rest then None else Some v))"

fun efi_lines :: "string list \<Rightarrow> u64 \<Rightarrow> u64" where
  "efi_lines [] addr = addr"
| "efi_lines (l # ls) addr =
     (case scan_hex ''ACPI20=0x'' l of
        Some a \<Rightarrow> a
      | None \<Rightarrow> efi_lines ls (case scan_hex ''ACPI=0x'' l of Some a \<Rightarrow> a | None \<Rightarrow> addr))"

definition acpi_rsdp_address_efi :: "acpi_os \<Rightarrow> u64" where
  "acpi_rsdp_address_efi A =
     (let addr = (case ac_systab A of None \<Rightarrow> 0 | Some text \<Rightarrow> efi_lines (map c_str (fgets_lines 79 79 [] text)) 0)
      in if addr = 0 \<or> - 1 - of_nat RSDP_SIZE < addr then 0 else addr)"

definition BIOS_RO_MEM_ADDR :: u64 where "BIOS_RO_MEM_ADDR = 0xE0000"
definition BIOS_RO_MEM_SIZE :: u64 where "BIOS_RO_MEM_SIZE = 0x20000"

definition RSDP_SIGNATURE :: "u8 list" where
  "RSDP_SIGNATURE = map of_char ''RSD PTR ''"

text \<open>\<open>n\<close> paragraphs of 16 bytes from the offset \<open>off\<close> on; the result is the offset of the pointer.\<close>

fun rsdp_scan :: "u8 list \<Rightarrow> nat \<Rightarrow> nat \<Rightarrow> nat option option" where
  "rsdp_scan area off 0 = Some None"
| "rsdp_scan area off (Suc n) = do {
     sig \<leftarrow> rd_bytes area off 8;
     if sig \<noteq> RSDP_SIGNATURE then rsdp_scan area (off + 16) n
     else do {
       ok \<leftarrow> acpi_rsdp_verify_checksum (drop off area);
       if ok then Some (Some off) else rsdp_scan area (off + 16) n } }"

definition acpi_rsdp_address_scan :: "acpi_os \<Rightarrow> u64 option" where
  "acpi_rsdp_address_scan A =
     (case ac_map A BIOS_RO_MEM_ADDR BIOS_RO_MEM_SIZE of
        None \<Rightarrow> Some 0
      | Some area \<Rightarrow> do {
          found \<leftarrow> rsdp_scan area 0 (unat (BIOS_RO_MEM_SIZE div 16));
          Some (case found of None \<Rightarrow> 0 | Some off \<Rightarrow> BIOS_RO_MEM_ADDR + of_nat off) })"

definition acpi_get_rsdp :: "acpi_os \<Rightarrow> u8 list option option" where
  "acpi_get_rsdp A = do {
     let address = acpi_rsdp_address_efi A;
     address \<leftarrow> (if address = 0 then acpi_rsdp_address_scan A else Some address);
     if address = 0 then Some None
     else (case ac_map A address (of_nat RSDP_SIZE) of
             None \<Rightarrow> Some None
           | Some mem \<Rightarrow> do { ok \<leftarrow> acpi_rsdp_verify_checksum mem; Some (if ok then Some mem else None) }) }"

section \<open>Tables in memory\<close>

definition acpi_get_addr :: "acpi_os \<Rightarrow> u64 \<Rightarrow> u8 list option option" where
  "acpi_get_addr A addr =
     (case ac_map A addr (of_nat ACPI_HEADER_SIZE) of
        None \<Rightarrow> Some None
      | Some header \<Rightarrow> do {
          size \<leftarrow> rd32 header 4;
          case ac_map A addr (ucast size) of
            None \<Rightarrow> Some None
          | Some mem \<Rightarrow> do { ok \<leftarrow> acpi_verify_checksum mem (unat size); Some (if ok then Some mem else None) } })"

text \<open>
  The entries of the XSDT (\<open>w = 8\<close> bytes each) or the RSDT (\<open>w = 4\<close>), from number \<open>i\<close> on, \<open>n\<close> of them.
\<close>

fun find_entry :: "acpi_os \<Rightarrow> u8 list \<Rightarrow> u8 list \<Rightarrow> nat \<Rightarrow> nat \<Rightarrow> nat \<Rightarrow> u8 list option option" where
  "find_entry A sig root w i 0 = Some None"
| "find_entry A sig root w i (Suc n) = do {
     addr \<leftarrow> read_le w root (ACPI_HEADER_SIZE + w * i);
     case ac_map A addr 4 of
       None \<Rightarrow> Some None
     | Some mem \<Rightarrow> do {
         s \<leftarrow> rd_bytes mem 0 4;
         if s = sig then acpi_get_addr A addr else find_entry A sig root w (Suc i) n } }"

definition acpi_get_root_entry :: "acpi_os \<Rightarrow> u8 list \<Rightarrow> u64 \<Rightarrow> nat \<Rightarrow> u8 list option option" where
  "acpi_get_root_entry A sig addr w =
     Option.bind (acpi_get_addr A addr) (\<lambda>root. case root of
       None \<Rightarrow> Some None
     | Some root \<Rightarrow> do {
         len \<leftarrow> rd32 root 4;
         if unat len < ACPI_HEADER_SIZE then Some None
         else find_entry A sig root w 0 ((unat len - ACPI_HEADER_SIZE) div w) })"

definition acpi_get_mmap :: "acpi_os \<Rightarrow> string \<Rightarrow> u8 list option option" where
  "acpi_get_mmap A sig =
     Option.bind (acpi_get_rsdp A) (\<lambda>rsdp. case rsdp of
       None \<Rightarrow> Some None
     | Some rsdp \<Rightarrow> do {
         revision \<leftarrow> rd8 rsdp 15;
         xsdt \<leftarrow> rd64 rsdp 24;
         rsdt \<leftarrow> rd32 rsdp 16;
         if 2 \<le> revision \<and> xsdt \<noteq> 0 then acpi_get_root_entry A (map of_char sig) xsdt 8
         else if rsdt \<noteq> 0 then acpi_get_root_entry A (map of_char sig) (ucast rsdt) 4
         else Some None })"

section \<open>Tables in files\<close>

text \<open>
  \<open>pqos_read\<close> of \<open>lib/common.c\<close> on a file of which \<open>left\<close> is still unread: the new content of the buffer and the
  returned number. At the end of the file the loop stops and the function still returns \<open>count\<close>.
\<close>

definition pqos_read :: "u8 list \<Rightarrow> u8 list \<Rightarrow> nat \<Rightarrow> u8 list \<times> nat" where
  "pqos_read left buf count = (take count left @ drop (length (take count left)) buf, count)"

definition acpi_read_fs :: "acpi_os \<Rightarrow> u8 list \<Rightarrow> u8 list option option" where
  "acpi_read_fs A content =
     (case pqos_read content (ac_fresh A ACPI_HEADER_SIZE) ACPI_HEADER_SIZE of (header, n) \<Rightarrow>
        if n \<noteq> ACPI_HEADER_SIZE then Some None
        else do {
          len \<leftarrow> rd32 header 4;
          if unat len \<le> ACPI_HEADER_SIZE \<or> len = - 1 then Some None
          else (case pqos_read (drop ACPI_HEADER_SIZE content) (ac_fresh A (unat len - ACPI_HEADER_SIZE)) (unat len - ACPI_HEADER_SIZE) of
                  (entries, n) \<Rightarrow>
                    if n \<noteq> unat len - ACPI_HEADER_SIZE then Some None
                    else do {
                      ok \<leftarrow> acpi_verify_checksum (header @ entries) (unat len);
                      Some (if ok then Some (header @ entries) else None) }) })"

definition acpi_get_sig :: "acpi_os \<Rightarrow> string \<Rightarrow> u8 list option option" where
  "acpi_get_sig A sig =
     Option.bind (case ac_table A sig of None \<Rightarrow> Some None | Some content \<Rightarrow> acpi_read_fs A content) (\<lambda>tbl.
       if tbl \<noteq> None then Some tbl else if ac_dir A then Some None else acpi_get_mmap A sig)"

text \<open>
  \<open>erdt_init\<close> of \<open>lib/erdt.c\<close> with arguments that are not NULL. It logs the table with \<open>acpi_print\<close> before, which is left out here and in
  \<open>mrrm_init\<close>: for a table of their signatures it reads the header only (\<open>acpi_print_reads\<close> of the theory IrdtSafe).
\<close>

definition erdt_init :: "acpi_os \<Rightarrow> pqos_erdt_info res option" where
  "erdt_init A = Option.bind (acpi_get_sig A ''ERDT'') (\<lambda>tbl.
     case tbl of None \<Rightarrow> Some (Inl PQOS_RETVAL_RESOURCE) | Some bs \<Rightarrow> erdt_populate_rmdds bs)"

section \<open>MRRM\<close>

record pqos_mre_info =
  mre_base_address_low :: u32
  mre_base_address_high :: u32
  mre_length_low :: u32
  mre_length_high :: u32
  mre_region_id_flags :: u16
  mre_local_region_id :: u8
  mre_remote_region_id :: u8
  mre_programming_regs :: "u8 list"

text \<open>\<open>struct pqos_mrrm_info\<close> with its entries.\<close>

record mrrm_table = pqos_mrrm_info +
  mrrm_mre :: "pqos_mre_info list"

definition ACPI_MRRM_REVISION :: u8 where "ACPI_MRRM_REVISION = 1"
definition REGION_ASSIGNMENT_TYPE_BIT :: u8 where "REGION_ASSIGNMENT_TYPE_BIT = 1"
definition REGION_ID_FLAGS_MASK :: u16 where "REGION_ID_FLAGS_MASK = 3"
definition ACPI_MRRM_MRE_TYPE :: u16 where "ACPI_MRRM_MRE_TYPE = 0"
definition ACPI_MRRM_PROGRAMMING_REGISTER_SIZE :: nat where "ACPI_MRRM_PROGRAMMING_REGISTER_SIZE = 8"
definition MRRM_HEADER_SIZE :: nat where "MRRM_HEADER_SIZE = 64"
definition MRE_SIZE :: nat where "MRE_SIZE = 32"

lemmas mrrm_sizes = MRRM_HEADER_SIZE_def MRE_SIZE_def ACPI_MRRM_PROGRAMMING_REGISTER_SIZE_def ACPI_HEADER_SIZE_def

text \<open>\<open>n\<close> registers from \<open>p\<close> on, each a multiple of its size.\<close>

fun regs_aligned :: "u8 list \<Rightarrow> nat \<Rightarrow> nat \<Rightarrow> bool option" where
  "regs_aligned bs p 0 = Some True"
| "regs_aligned bs p (Suc n) = do {
     reg \<leftarrow> rd64 bs p;
     if reg mod of_nat ACPI_MRRM_PROGRAMMING_REGISTER_SIZE \<noteq> 0 then Some False
     else regs_aligned bs (p + ACPI_MRRM_PROGRAMMING_REGISTER_SIZE) n }"

definition mrrm_populate_mre :: "u8 list \<Rightarrow> nat \<Rightarrow> u8 \<Rightarrow> pqos_mre_info res option" where
  "mrrm_populate_mre bs p flags = do {
     ty \<leftarrow> rd16 bs p;
     len \<leftarrow> rd16 bs (p + 2);
     if ty \<noteq> ACPI_MRRM_MRE_TYPE \<or> unat len < MRE_SIZE then Some (Inl PQOS_RETVAL_ERROR)
     else do {
       idflags \<leftarrow> rd16 bs (p + 24);
       if idflags AND NOT REGION_ID_FLAGS_MASK \<noteq> 0 then Some (Inl PQOS_RETVAL_ERROR)
       else do {
         base_lo \<leftarrow> rd32 bs (p + 8);
         base_hi \<leftarrow> rd32 bs (p + 12);
         len_lo \<leftarrow> rd32 bs (p + 16);
         len_hi \<leftarrow> rd32 bs (p + 20);
         loc \<leftarrow> rd8 bs (p + 26);
         rem \<leftarrow> rd8 bs (p + 27);
         let mre = \<lparr>mre_base_address_low = base_lo, mre_base_address_high = base_hi, mre_length_low = len_lo, mre_length_high = len_hi,
           mre_region_id_flags = idflags, mre_local_region_id = loc, mre_remote_region_id = rem, mre_programming_regs = []\<rparr>;
         let regs_length = unat len - MRE_SIZE;
         if flags AND REGION_ASSIGNMENT_TYPE_BIT = 0 then Some (if unat len \<noteq> MRE_SIZE then Inl PQOS_RETVAL_ERROR else Inr mre)
         else if regs_length = 0 \<or> regs_length mod ACPI_MRRM_PROGRAMMING_REGISTER_SIZE \<noteq> 0 then Some (Inl PQOS_RETVAL_ERROR)
         else do {
           ok \<leftarrow> regs_aligned bs (p + MRE_SIZE) (regs_length div ACPI_MRRM_PROGRAMMING_REGISTER_SIZE);
           if \<not> ok then Some (Inl PQOS_RETVAL_ERROR)
           else do { regs \<leftarrow> rd_bytes bs (p + MRE_SIZE) regs_length; Some (Inr (mre\<lparr>mre_programming_regs := regs\<rparr>)) } } } } }"

text \<open>The first pass checks the lengths and counts the entries, the second reads \<open>n\<close> of them.\<close>

function mrrm_count :: "u8 list \<Rightarrow> nat \<Rightarrow> nat \<Rightarrow> nat \<Rightarrow> nat res option" where
  "mrrm_count bs p remaining n =
     (if remaining = 0 then Some (Inr n)
      else if remaining < MRE_SIZE then Some (Inl PQOS_RETVAL_ERROR)
      else do {
        len \<leftarrow> rd16 bs (p + 2);
        if unat len < MRE_SIZE \<or> remaining < unat len then Some (Inl PQOS_RETVAL_ERROR)
        else mrrm_count bs (p + unat len) (remaining - unat len) (Suc n) })"
  by pat_completeness auto
termination mrrm_count
  by (relation "measure (\<lambda>(bs, p, remaining, n). remaining)") (auto simp: mrrm_sizes)

declare mrrm_count.simps [simp del]

fun mrrm_entries :: "u8 list \<Rightarrow> u8 \<Rightarrow> nat \<Rightarrow> nat \<Rightarrow> pqos_mre_info list res option" where
  "mrrm_entries bs flags p 0 = Some (Inr [])"
| "mrrm_entries bs flags p (Suc n) =
     and_then (mrrm_populate_mre bs p flags) (\<lambda>mre. do {
       len \<leftarrow> rd16 bs (p + 2);
       and_then (mrrm_entries bs flags (p + unat len) n) (\<lambda>mres. Some (Inr (mre # mres))) })"

definition mrrm_populate :: "u8 list \<Rightarrow> mrrm_table res option" where
  "mrrm_populate bs = do {
     revision \<leftarrow> rd8 bs 8;
     len \<leftarrow> rd32 bs 4;
     if revision \<noteq> ACPI_MRRM_REVISION \<or> unat len < MRRM_HEADER_SIZE then Some (Inl PQOS_RETVAL_ERROR)
     else do {
       maxr \<leftarrow> rd8 bs ACPI_HEADER_SIZE;
       flags \<leftarrow> rd8 bs (ACPI_HEADER_SIZE + 1);
       if flags AND NOT REGION_ASSIGNMENT_TYPE_BIT \<noteq> 0 \<or> maxr = 0 then Some (Inl PQOS_RETVAL_ERROR)
       else and_then (mrrm_count bs MRRM_HEADER_SIZE (unat len - MRRM_HEADER_SIZE) 0) (\<lambda>n.
              if n = 0 then Some (Inl PQOS_RETVAL_ERROR)
              else and_then (mrrm_entries bs flags MRRM_HEADER_SIZE n) (\<lambda>mres.
                     Some (Inr \<lparr>mrrm_max_memory_regions_supported = maxr, mrrm_flags = flags, mrrm_mre = mres\<rparr>))) } }"

definition mrrm_init :: "acpi_os \<Rightarrow> mrrm_table res option" where
  "mrrm_init A = Option.bind (acpi_get_sig A ''MRRM'') (\<lambda>tbl.
     case tbl of None \<Rightarrow> Some (Inl PQOS_RETVAL_RESOURCE) | Some bs \<Rightarrow> mrrm_populate bs)"

end
