(* ===== verification/AcpiSafe.thy ===== *)
theory AcpiSafe
  imports Acpi
begin

text \<open>
  Safety of the tables that come from files. A file may hold anything, and less than its header announces: the table that is
  handed to the parsers has the length of its header and a correct checksum, and the parsers of the ERDT and of the MRRM stay
  inside it.
\<close>

section \<open>Reading a file\<close>

definition sized_table :: "u8 list \<Rightarrow> bool" where
  "sized_table bs \<longleftrightarrow> ACPI_HEADER_SIZE \<le> length bs \<and> (\<exists>len. rd32 bs 4 = Some len \<and> unat len = length bs)"

lemma rd32_append: "p + 4 \<le> length bs \<Longrightarrow> rd32 (bs @ cs) p = rd32 bs p"
  by (simp add: rd32_def read_le_def)

lemma pqos_read_length: "length buf = count \<Longrightarrow> length (fst (pqos_read left buf count)) = count"
  by (simp add: pqos_read_def)

lemma pqos_read_complete: "count \<le> length left \<Longrightarrow> length buf = count \<Longrightarrow> fst (pqos_read left buf count) = take count left"
  by (simp add: pqos_read_def)

lemma pqos_read_nothing: "fst (pqos_read [] buf count) = buf"
  by (simp add: pqos_read_def)

lemma checksum_total: "n \<le> length mem \<Longrightarrow> \<exists>b. acpi_verify_checksum mem n = Some b"
  by (auto simp: acpi_verify_checksum_def)

lemma read_fs_table:
  assumes "\<forall>n. length (ac_fresh A n) = n"
  shows "\<exists>t. acpi_read_fs A content = Some t \<and>
    (\<forall>bs. t = Some bs \<longrightarrow> sized_table bs \<and> fold (+) bs 0 = 0 \<and> (length bs \<le> length content \<longrightarrow> bs = take (length bs) content))"
proof -
  define header where "header = fst (pqos_read content (ac_fresh A ACPI_HEADER_SIZE) ACPI_HEADER_SIZE)"
  have h: "length header = ACPI_HEADER_SIZE" using assms by (simp add: header_def pqos_read_length)
  then obtain len where len: "rd32 header 4 = Some len" by (auto simp: rd32_def read_le_def ACPI_HEADER_SIZE_def)
  define k where "k = unat len - ACPI_HEADER_SIZE"
  define entries where "entries = fst (pqos_read (drop ACPI_HEADER_SIZE content) (ac_fresh A k) k)"
  have e: "length entries = k" using assms by (simp add: entries_def pqos_read_length)
  have p: "pqos_read content (ac_fresh A ACPI_HEADER_SIZE) ACPI_HEADER_SIZE = (header, ACPI_HEADER_SIZE)"
    "pqos_read (drop ACPI_HEADER_SIZE content) (ac_fresh A k) k = (entries, k)" by (simp_all add: header_def entries_def pqos_read_def)
  have run: "acpi_read_fs A content =
      (if unat len \<le> ACPI_HEADER_SIZE \<or> len = - 1 then Some None
       else do { ok \<leftarrow> acpi_verify_checksum (header @ entries) (unat len); Some (if ok then Some (header @ entries) else None) })"
    unfolding acpi_read_fs_def p using len by (simp add: k_def [symmetric] p)
  show ?thesis
  proof (cases "unat len \<le> ACPI_HEADER_SIZE \<or> len = - 1")
    case True
    with run show ?thesis by simp
  next
    case False
    then have total: "length (header @ entries) = unat len" using h e by (simp add: k_def)
    have "sized_table (header @ entries)"
      using total h len rd32_append [of 4 header entries] by (auto simp: sized_table_def ACPI_HEADER_SIZE_def)
    moreover have "header @ entries = take (length (header @ entries)) content" if "length (header @ entries) \<le> length content"
    proof -
      have "header = take ACPI_HEADER_SIZE content" "entries = take k (drop ACPI_HEADER_SIZE content)"
        using that h e assms by (simp_all add: header_def entries_def pqos_read_complete)
      then show ?thesis using h e by (simp add: take_add)
    qed
    ultimately show ?thesis
      using False run total by (auto simp: acpi_verify_checksum_def)
  qed
qed

text \<open>
  The count that \<open>pqos_read\<close> returns does not tell a short file from a complete one: when the new memory happens to hold a valid
  table, an empty file passes as this table.
\<close>

lemma short_file_accepted:
  assumes "sized_table bs" "ACPI_HEADER_SIZE < length bs" "length bs < 2 ^ 32 - 1" "fold (+) bs 0 = 0"
    and "ac_fresh A ACPI_HEADER_SIZE = take ACPI_HEADER_SIZE bs" "ac_fresh A (length bs - ACPI_HEADER_SIZE) = drop ACPI_HEADER_SIZE bs"
  shows "acpi_read_fs A [] = Some (Some bs)"
proof -
  obtain len where len: "rd32 bs 4 = Some len" "unat len = length bs" using assms(1) by (auto simp: sized_table_def)
  then have "rd32 (take ACPI_HEADER_SIZE bs) 4 = Some len"
    using assms(2) rd32_append [of 4 "take ACPI_HEADER_SIZE bs" "drop ACPI_HEADER_SIZE bs"] by (simp add: ACPI_HEADER_SIZE_def)
  moreover have "unat (- 1 :: u32) = 2 ^ 32 - 1" by (simp add: unsigned_minus_1_eq_mask mask_eq_exp_minus_1)
  then have "len \<noteq> - 1" using len(2) assms(3) by force
  moreover have "bs \<noteq> []" using assms(2) by auto
  ultimately show ?thesis
    using len assms by (simp add: acpi_read_fs_def pqos_read_def acpi_verify_checksum_def)
qed

section \<open>The MRRM parser\<close>

definition mre_ok :: "u8 \<Rightarrow> pqos_mre_info \<Rightarrow> bool" where
  "mre_ok flags e \<longleftrightarrow> mre_region_id_flags e AND NOT REGION_ID_FLAGS_MASK = 0 \<and>
     (if flags AND REGION_ASSIGNMENT_TYPE_BIT = 0 then mre_programming_regs e = []
      else mre_programming_regs e \<noteq> [] \<and> 8 dvd length (mre_programming_regs e) \<and>
        regs_aligned (mre_programming_regs e) 0 (length (mre_programming_regs e) div 8) = Some True)"

lemma regs_aligned_reads: "p + 8 * n \<le> length bs \<Longrightarrow> reads (\<lambda>_. True) (regs_aligned bs p n)"
  by (induction bs p n rule: regs_aligned.induct) (auto simp: parser_wp mrrm_sizes)

text \<open>The check made in the table holds of the copy.\<close>

lemma regs_aligned_shift:
  "p + 8 * n \<le> q + length (drop q bs) \<Longrightarrow> q \<le> p \<Longrightarrow> regs_aligned bs p n = regs_aligned (drop q bs) (p - q) n"
proof (induction n arbitrary: p)
  case (Suc n)
  then have "rd64 bs p = rd64 (drop q bs) (p - q)" by (auto simp: rd64_def read_le_def)
  with Suc show ?case by (auto simp: mrrm_sizes split: Option.bind_splits)
qed simp

lemma regs_aligned_take: "p + 8 * n \<le> m \<Longrightarrow> m \<le> length bs \<Longrightarrow> regs_aligned (take m bs) p n = regs_aligned bs p n"
proof (induction n arbitrary: p)
  case (Suc n)
  then have "rd64 (take m bs) p = rd64 bs p" by (auto simp: rd64_def read_le_def drop_take)
  with Suc show ?case by (auto simp: mrrm_sizes split: Option.bind_splits)
qed simp

lemma regs_aligned_copy:
  assumes "rd_bytes bs p (8 * n) = Some regs" "regs_aligned bs p n = Some True"
  shows "regs_aligned regs 0 n = Some True"
proof -
  from assms(1) have "p + 8 * n \<le> length bs" and regs: "regs = take (8 * n) (drop p bs)" by (auto simp: rd_bytes_def split: if_splits)
  then show ?thesis using assms(2) regs_aligned_shift [of p n p bs] regs_aligned_take [of 0 n "8 * n" "drop p bs"] by simp
qed

lemma mre_parses:
  assumes "rd16 bs (p + 2) = Some len" "MRE_SIZE \<le> unat len" "p + unat len \<le> length bs"
  shows "parses (mre_ok flags) (mrrm_populate_mre bs p flags)"
proof -
  have "reads (\<lambda>_. True) (regs_aligned bs (p + 32) ((unat len - 32) div 8))"
    by (rule regs_aligned_reads) (use assms in \<open>auto simp: mrrm_sizes\<close>)
  then obtain b where b: "regs_aligned bs (p + 32) ((unat len - 32) div 8) = Some b" by (auto simp: reads_def)
  have rb: "reads P (regs_aligned bs (p + 32) ((unat len - 32) div 8)) \<longleftrightarrow> P b" for P using b by (simp add: reads_def)
  have copy: "mre_ok flags e"
    if "rd_bytes bs (p + 32) (unat len - 32) = Some (mre_programming_regs e)" "b" "0 < unat len - 32" "(unat len - 32) mod 8 = 0"
      "flags AND REGION_ASSIGNMENT_TYPE_BIT \<noteq> 0" "mre_region_id_flags e AND NOT REGION_ID_FLAGS_MASK = 0" for e
  proof -
    have "8 * ((unat len - 32) div 8) = unat len - 32" using that(4) by presburger
    with regs_aligned_copy [of bs "p + 32" "(unat len - 32) div 8" "mre_programming_regs e"] that b have "regs_aligned (mre_programming_regs e) 0 ((unat len - 32) div 8) = Some True"
      by simp
    moreover have "length (mre_programming_regs e) = unat len - 32" using rd_lengths(1) [OF that(1)] .
    ultimately show ?thesis using that by (auto simp: mre_ok_def)
  qed
  have "mre_ok flags e" if "mre_programming_regs e = []" "flags AND REGION_ASSIGNMENT_TYPE_BIT = 0"
      "mre_region_id_flags e AND NOT REGION_ID_FLAGS_MASK = 0" for e
    using that by (simp add: mre_ok_def)
  with copy show ?thesis
    using assms by (auto simp: mrrm_populate_mre_def parser_wp mrrm_sizes Let_def rb)
qed

text \<open>The entries that the first pass has counted are the ones that the second pass reads.\<close>

lemma mrrm_passes:
  "p + remaining \<le> length bs \<Longrightarrow>
     parses (\<lambda>n. count \<le> n \<and> parses (list_all (mre_ok flags)) (mrrm_entries bs flags p (n - count)) \<and> (remaining \<noteq> 0 \<longrightarrow> count < n)
       \<and> (n - count = 0 \<longrightarrow> remaining = 0))
       (mrrm_count bs p remaining count)"
proof (induction bs p remaining count rule: mrrm_count.induct)
  case (1 bs p remaining count)
  show ?case
  proof (cases "remaining < MRE_SIZE")
    case True
    then show ?thesis by (auto simp: mrrm_count.simps [of bs p remaining count] parser_wp)
  next
    case False
    with "1.prems" obtain len where len: "rd16 bs (p + 2) = Some len" by (auto simp: rd16_def read_le_def mrrm_sizes)
    show ?thesis
    proof (cases "unat len < MRE_SIZE \<or> remaining < unat len")
      case True
      with False len show ?thesis by (auto simp: mrrm_count.simps [of bs p remaining count] parser_wp)
    next
      case fits: False
      let ?rest = "mrrm_count bs (p + unat len) (remaining - unat len) (Suc count)"
      have nz: "remaining \<noteq> 0" using False by (auto simp: mrrm_sizes)
      have "parses (mre_ok flags) (mrrm_populate_mre bs p flags)"
        by (rule mre_parses [OF len]) (use fits "1.prems" in auto)
      note first = this
      have "parses (\<lambda>n. Suc count \<le> n \<and> parses (list_all (mre_ok flags)) (mrrm_entries bs flags (p + unat len) (n - Suc count))) ?rest"
        using "1.IH" [OF nz False len fits] fits "1.prems" by (auto elim!: parses_mono)
      then have "parses (\<lambda>n. count \<le> n \<and> parses (list_all (mre_ok flags)) (mrrm_entries bs flags p (n - count)) \<and> (remaining \<noteq> 0 \<longrightarrow> count < n)
          \<and> (n - count = 0 \<longrightarrow> remaining = 0)) ?rest"
      proof (rule parses_mono)
        fix n
        assume n: "Suc count \<le> n \<and> parses (list_all (mre_ok flags)) (mrrm_entries bs flags (p + unat len) (n - Suc count))"
        then have "n - count = Suc (n - Suc count)" by (simp add: Suc_diff_Suc)
        moreover have "parses (list_all (mre_ok flags)) (mrrm_entries bs flags p (Suc (n - Suc count)))"
          using n len by (auto simp: parser_wp reads_def intro!: parses_mono [OF first] elim!: parses_mono)
        ultimately show "count \<le> n \<and> parses (list_all (mre_ok flags)) (mrrm_entries bs flags p (n - count)) \<and> (remaining \<noteq> 0 \<longrightarrow> count < n)
            \<and> (n - count = 0 \<longrightarrow> remaining = 0)" using n by auto
      qed
      with nz False len fits show ?thesis by (simp add: mrrm_count.simps [of bs p remaining count])
    qed
  qed
qed

definition mrrm_ok :: "mrrm_table \<Rightarrow> bool" where
  "mrrm_ok m \<longleftrightarrow> mrrm_max_memory_regions_supported m \<noteq> 0 \<and> mrrm_flags m AND NOT REGION_ASSIGNMENT_TYPE_BIT = 0 \<and>
     mrrm_mre m \<noteq> [] \<and> list_all (mre_ok (mrrm_flags m)) (mrrm_mre m)"

lemma mrrm_entries_length: "mrrm_entries bs flags p n = Some (Inr mres) \<Longrightarrow> length mres = n"
  by (induction bs flags p n arbitrary: mres rule: mrrm_entries.induct)
    (auto simp: and_then_def split: option.splits sum.splits Option.bind_splits)

lemma mrrm_parser_safe:
  assumes "sized_table bs"
  shows "parses mrrm_ok (mrrm_populate bs)"
proof -
  from assms obtain len where len: "rd32 bs 4 = Some len" "unat len = length bs" "36 \<le> length bs"
    by (auto simp: sized_table_def ACPI_HEADER_SIZE_def)
  show ?thesis
  proof (cases "unat len < MRRM_HEADER_SIZE")
    case True
    with len show ?thesis by (auto simp: mrrm_populate_def parser_wp)
  next
    case False
    have passes: "parses (\<lambda>n. 0 < n \<longrightarrow> parses (\<lambda>mres. mres \<noteq> [] \<and> list_all (mre_ok flags) mres) (mrrm_entries bs flags 64 n))
        (mrrm_count bs 64 (length bs - 64) 0)" for flags
    proof (rule parses_mono [OF mrrm_passes [of 64 "length bs - 64" bs 0 flags]])
      show "64 + (length bs - 64) \<le> length bs" using False len by (simp add: mrrm_sizes)
    next
      fix n
      assume "0 \<le> n \<and> parses (list_all (mre_ok flags)) (mrrm_entries bs flags 64 (n - 0)) \<and> (length bs - 64 \<noteq> 0 \<longrightarrow> 0 < n)
        \<and> (n - 0 = 0 \<longrightarrow> length bs - 64 = 0)"
      then show "0 < n \<longrightarrow> parses (\<lambda>mres. mres \<noteq> [] \<and> list_all (mre_ok flags) mres) (mrrm_entries bs flags 64 n)"
        using mrrm_entries_length [of bs flags 64 n] by (fastforce simp: parses_def)
    qed
    show ?thesis
      using False len
      by (auto simp: mrrm_populate_def parser_wp mrrm_sizes mrrm_ok_def intro!: passes)
  qed
qed

section \<open>The root pointer\<close>

text \<open>The scan of the BIOS area stays inside it when no signature stands in the last 32 bytes.\<close>

lemma rsdp_checksum_total: "RSDP_SIZE \<le> length mem \<Longrightarrow> \<exists>b. acpi_rsdp_verify_checksum mem = Some b"
  by (auto simp: acpi_rsdp_verify_checksum_def acpi_verify_checksum_def rd8_def read_le_def RSDP_SIZE_def ACPI_TABLE_RSDP_SIZE_def)

lemma rsdp_scan_safe:
  "off + 16 * n \<le> length area \<Longrightarrow> \<forall>o'. rd_bytes area o' 8 = Some RSDP_SIGNATURE \<longrightarrow> o' + RSDP_SIZE \<le> length area \<Longrightarrow>
     \<exists>r. rsdp_scan area off n = Some r"
proof (induction area off n rule: rsdp_scan.induct)
  case (2 area off n)
  then obtain sig where sig: "rd_bytes area off 8 = Some sig" by (auto simp: rd_bytes_def)
  show ?case
  proof (cases "sig = RSDP_SIGNATURE")
    case True
    with "2.prems"(2) sig have "off + RSDP_SIZE \<le> length area" by blast
    then have "RSDP_SIZE \<le> length (drop off area)" by simp
    then obtain b where "acpi_rsdp_verify_checksum (drop off area) = Some b"
      using rsdp_checksum_total by blast
    with 2 sig True show ?thesis by (cases b) auto
  next
    case False
    with 2 sig show ?thesis by simp
  qed
qed simp

section \<open>Properties\<close>

lemma sig_from_files:
  assumes "\<forall>n. length (ac_fresh A n) = n" "ac_dir A"
  shows "\<exists>t. acpi_get_sig A sig = Some t \<and> (\<forall>bs. t = Some bs \<longrightarrow> sized_table bs)"
proof (cases "ac_table A sig")
  case None
  with assms(2) show ?thesis by (simp add: acpi_get_sig_def)
next
  case (Some content)
  with read_fs_table [OF assms(1), of content] assms(2) show ?thesis by (auto simp: acpi_get_sig_def)
qed

text \<open>
  C17. Safety of the tables from the file system, whatever the files and the allocated memory hold: reading and parsing the ERDT and
  the MRRM never leaves the table or an array that a first pass has sized, and returns. An accepted ERDT describes no domain twice,
  the parts of its agents belong to their domains, and its lists of correction factors and device paths have legal lengths. An
  accepted MRRM has regions and ranges, and its ranges have programming registers, all aligned, exactly when the table says that
  regions are assigned by software.
\<close>

theorem acpi_init_safe:
  assumes "\<forall>n. length (ac_fresh A n) = n" "ac_dir A"
  shows "(\<exists>r. erdt_init A = Some r \<and> (\<forall>erdt. r = Inr erdt \<longrightarrow> erdt_ok erdt)) \<and>
    (\<exists>r. mrrm_init A = Some r \<and> (\<forall>m. r = Inr m \<longrightarrow> mrrm_ok m))"
proof
  from sig_from_files [OF assms, of "''ERDT''"] obtain t where
    t: "acpi_get_sig A ''ERDT'' = Some t" "\<forall>bs. t = Some bs \<longrightarrow> sized_table bs" by blast
  show "\<exists>r. erdt_init A = Some r \<and> (\<forall>erdt. r = Inr erdt \<longrightarrow> erdt_ok erdt)"
  proof (cases t)
    case None
    with t show ?thesis by (simp add: erdt_init_def)
  next
    case (Some bs)
    with t erdt_parser_safe [of bs] show ?thesis by (auto simp: erdt_init_def sized_table_def)
  qed
next
  from sig_from_files [OF assms, of "''MRRM''"] obtain t where
    t: "acpi_get_sig A ''MRRM'' = Some t" "\<forall>bs. t = Some bs \<longrightarrow> sized_table bs" by blast
  show "\<exists>r. mrrm_init A = Some r \<and> (\<forall>m. r = Inr m \<longrightarrow> mrrm_ok m)"
  proof (cases t)
    case None
    with t show ?thesis by (simp add: mrrm_init_def)
  next
    case (Some bs)
    with t mrrm_parser_safe [of bs] show ?thesis by (auto simp: mrrm_init_def parses_def)
  qed
qed

text \<open>Files with a correct checksum: the sample ERDT, and an MRRM with two regions and one range with one register.\<close>

definition with_checksum :: "u8 list \<Rightarrow> u8 list" where
  "with_checksum bs = bs[9 := - fold (+) (bs[9 := 0]) 0]"

definition sample_mrrm_bytes :: "u8 list" where
  "sample_mrrm_bytes = [0x4D, 0x52, 0x52, 0x4D] @ le_bytes 4 104 @ [1] @ replicate 27 0 @ [2, 1] @ replicate 26 0 @
     sub_structure 0 (replicate 4 0 @ le_bytes 4 0x1000 @ le_bytes 4 0 @ le_bytes 4 0x1000 @ le_bytes 4 0 @ le_bytes 2 3 @ [0, 1] @
       replicate 4 0 @ le_bytes 8 0x2008)"

definition sample_acpi :: acpi_os where
  "sample_acpi = \<lparr>ac_systab = None, ac_map = (\<lambda>_ _. None),
     ac_table = [''ERDT'' \<mapsto> with_checksum sample_erdt_bytes, ''MRRM'' \<mapsto> with_checksum sample_mrrm_bytes],
     ac_dir = True, ac_fresh = (\<lambda>n. replicate n 0)\<rparr>"

definition parsed_mrrm :: mrrm_table where
  "parsed_mrrm = \<lparr>mrrm_max_memory_regions_supported = 2, mrrm_flags = 1, mrrm_mre =
     [\<lparr>mre_base_address_low = 0x1000, mre_base_address_high = 0, mre_length_low = 0x1000, mre_length_high = 0, mre_region_id_flags = 3,
       mre_local_region_id = 0, mre_remote_region_id = 1, mre_programming_regs = le_bytes 8 0x2008\<rparr>]\<rparr>"

theorem acpi_init_safe_witness:
  "erdt_init sample_acpi = Some (Inr parsed_sample) \<and> erdt_ok parsed_sample \<and>
   mrrm_init sample_acpi = Some (Inr parsed_mrrm) \<and> mrrm_ok parsed_mrrm"
proof -
  have pre: "\<forall>n. length (ac_fresh sample_acpi n) = n" "ac_dir sample_acpi" by (simp_all add: sample_acpi_def)
  have "erdt_init sample_acpi = Some (Inr parsed_sample)" "mrrm_init sample_acpi = Some (Inr parsed_mrrm)" by code_simp+
  with acpi_init_safe [OF pre] show ?thesis by auto
qed

end
