(* ===== verification/Irdt.thy ===== *)
theory Irdt
  imports Acpi HwMon
begin

text \<open>
  The IRDT table, which lists the I/O devices and their channels: the walks of \<open>lib/acpi.c\<close> over its structures and
  \<open>iordt_init\<close> of \<open>lib/iordt.c\<close>, which builds the tables of devices, channels and register blocks from it. Structures are
  offsets into the bytes of the table; a result \<open>None\<close> is an access outside the table. Of \<open>acpi_print\<close>, which logs the
  table first, the accesses are modelled and not the text. The NUMA node of a PCI device
  (\<open>pci_dev_get\<close>) is the argument \<open>pci\<close>, which takes a segment and a BDF.
\<close>

section \<open>Structures\<close>

definition IRDT_SIZE :: nat where "IRDT_SIZE = 48"
definition RMUD_SIZE :: nat where "RMUD_SIZE = 13"
definition DEV_HEADER_SIZE :: nat where "DEV_HEADER_SIZE = 4"
definition DSS_SIZE :: nat where "DSS_SIZE = 8"
definition RCS_SIZE :: nat where "RCS_SIZE = 40"
definition CHMS_SIZE :: nat where "CHMS_SIZE = 16"
definition CHMS_VCS :: nat where "CHMS_VCS = 8"

definition ACPI_TABLE_IRDT_TYPE_DSS :: u16 where "ACPI_TABLE_IRDT_TYPE_DSS = 0"
definition ACPI_TABLE_IRDT_TYPE_RCS :: u16 where "ACPI_TABLE_IRDT_TYPE_RCS = 1"
definition ACPI_TABLE_IRDT_CHMS_CHAN_SHARED :: u8 where "ACPI_TABLE_IRDT_CHMS_CHAN_SHARED = 0x40"
definition ACPI_TABLE_IRDT_CHMS_CHAN_VALID :: u8 where "ACPI_TABLE_IRDT_CHMS_CHAN_VALID = 0x80"
definition ACPI_TABLE_IRDT_CHMS_CHAN_MASK :: u8 where
  "ACPI_TABLE_IRDT_CHMS_CHAN_MASK = ACPI_TABLE_IRDT_CHMS_CHAN_SHARED OR ACPI_TABLE_IRDT_CHMS_CHAN_VALID"
definition RCS_FLAGS_RTS :: u16 where "RCS_FLAGS_RTS = 2"
definition RCS_FLAGS_CTS :: u16 where "RCS_FLAGS_CTS = 4"
definition RCS_FLAGS_CXLD :: u16 where "RCS_FLAGS_CXLD = 0x10"

lemmas irdt_sizes = IRDT_SIZE_def RMUD_SIZE_def DEV_HEADER_SIZE_def DSS_SIZE_def RCS_SIZE_def CHMS_SIZE_def CHMS_VCS_def

text \<open>The list of structures is NULL, here the status that every caller makes of it, on an error and when it is empty.\<close>

definition non_null :: "nat list \<Rightarrow> nat list res option" where
  "non_null xs = Some (if xs = [] then Inl PQOS_RETVAL_ERROR else Inr xs)"

definition acpi_get_irdt_chms :: "u8 list \<Rightarrow> nat \<Rightarrow> nat list res option" where
  "acpi_get_irdt_chms bs dev = do {
     ty \<leftarrow> rd16 bs dev;
     if ty \<noteq> ACPI_TABLE_IRDT_TYPE_DSS then Some (Inl PQOS_RETVAL_PARAM)
     else do {
       len \<leftarrow> rd16 bs (dev + 2);
       Some (if unat len < DSS_SIZE then Inl PQOS_RETVAL_RESOURCE
             else Inr (map (\<lambda>i. dev + DSS_SIZE + CHMS_SIZE * i) [0..<(unat len - DSS_SIZE) div CHMS_SIZE])) } }"

function irdt_dev_loop :: "u8 list \<Rightarrow> nat \<Rightarrow> nat \<Rightarrow> nat list res option" where
  "irdt_dev_loop bs dev dev_len =
     (if dev_len = 0 then Some (Inr [])
      else if dev_len < DEV_HEADER_SIZE then Some (Inl PQOS_RETVAL_ERROR)
      else do {
        len \<leftarrow> rd16 bs (dev + 2);
        if unat len < DEV_HEADER_SIZE then Some (Inl PQOS_RETVAL_ERROR)
        else if dev_len = unat len then Some (Inr [dev])
        else if dev_len < unat len then Some (Inl PQOS_RETVAL_ERROR)
        else and_then (irdt_dev_loop bs (dev + unat len) (dev_len - unat len)) (\<lambda>devs. Some (Inr (dev # devs))) })"
  by pat_completeness auto
termination irdt_dev_loop
  by (relation "measure (\<lambda>(bs, dev, dev_len). dev_len)") (auto simp: irdt_sizes)

definition acpi_get_irdt_dev :: "u8 list \<Rightarrow> nat \<Rightarrow> nat list res option" where
  "acpi_get_irdt_dev bs rmud = do {
     len \<leftarrow> rd32 bs (rmud + 4);
     if unat len < RMUD_SIZE then Some (Inl PQOS_RETVAL_ERROR)
     else and_then (irdt_dev_loop bs (rmud + RMUD_SIZE) (unat len - RMUD_SIZE)) non_null }"

function irdt_rmud_loop :: "u8 list \<Rightarrow> nat \<Rightarrow> nat \<Rightarrow> nat list res option" where
  "irdt_rmud_loop bs rmud rmuds_len =
     (if rmuds_len = 0 then Some (Inr [])
      else if rmuds_len < RMUD_SIZE then Some (Inl PQOS_RETVAL_ERROR)
      else do {
        len \<leftarrow> rd32 bs (rmud + 4);
        if unat len < RMUD_SIZE then Some (Inl PQOS_RETVAL_ERROR)
        else if rmuds_len = unat len then Some (Inr [rmud])
        else if rmuds_len < unat len then Some (Inl PQOS_RETVAL_ERROR)
        else and_then (irdt_rmud_loop bs (rmud + unat len) (rmuds_len - unat len)) (\<lambda>rmuds. Some (Inr (rmud # rmuds))) })"
  by pat_completeness auto
termination irdt_rmud_loop
  by (relation "measure (\<lambda>(bs, rmud, rmuds_len). rmuds_len)") (auto simp: irdt_sizes)

declare irdt_dev_loop.simps [simp del] irdt_rmud_loop.simps [simp del]

definition acpi_get_irdt_rmud :: "u8 list \<Rightarrow> nat list res option" where
  "acpi_get_irdt_rmud bs = do {
     len \<leftarrow> rd32 bs 4;
     if unat len < IRDT_SIZE then Some (Inl PQOS_RETVAL_ERROR)
     else and_then (irdt_rmud_loop bs IRDT_SIZE (unat len - IRDT_SIZE)) non_null }"

section \<open>Identifiers\<close>

definition PQOS_IRDT_CHAN_ID :: "nat \<Rightarrow> u8 \<Rightarrow> u64 \<Rightarrow> pqos_channel_t" where
  "PQOS_IRDT_CHAN_ID rmud_index rcs_enum chan_num = chan_num OR push_bit 8 (ucast rcs_enum) OR push_bit 16 (of_nat rmud_index + 1)"

definition PQOS_IRDT_MMIO_ID :: "nat \<Rightarrow> u8 \<Rightarrow> u64" where
  "PQOS_IRDT_MMIO_ID rmud_index rcs_enum = push_bit 8 (ucast rcs_enum) OR push_bit 16 (of_nat rmud_index + 1)"

section \<open>Devices\<close>

text \<open>The valid entries of \<open>n\<close> bytes of \<open>vc_map\<close> at \<open>p\<close>, appended to the channels of the device.\<close>

fun vc_loop :: "u8 list \<Rightarrow> nat \<Rightarrow> u8 \<Rightarrow> nat \<Rightarrow> nat \<Rightarrow> pqos_channel_t list \<Rightarrow> pqos_channel_t list res option" where
  "vc_loop bs rmud_idx rcs p 0 chans = Some (Inr chans)"
| "vc_loop bs rmud_idx rcs p (Suc n) chans = do {
     vc \<leftarrow> rd8 bs p;
     if vc AND ACPI_TABLE_IRDT_CHMS_CHAN_VALID = 0 then vc_loop bs rmud_idx rcs (p + 1) n chans
     else if PQOS_DEV_MAX_CHANNELS \<le> length chans then Some (Inl PQOS_RETVAL_ERROR)
     else vc_loop bs rmud_idx rcs (p + 1) n
            (chans @ [PQOS_IRDT_CHAN_ID rmud_idx rcs (ucast (vc AND NOT ACPI_TABLE_IRDT_CHMS_CHAN_MASK))]) }"

fun chms_loop :: "u8 list \<Rightarrow> nat \<Rightarrow> nat list \<Rightarrow> pqos_channel_t list \<Rightarrow> pqos_channel_t list res option" where
  "chms_loop bs rmud_idx [] chans = Some (Inr chans)"
| "chms_loop bs rmud_idx (c # cs) chans = do {
     rcs \<leftarrow> rd8 bs c;
     and_then (vc_loop bs rmud_idx rcs (c + 1) CHMS_VCS chans) (chms_loop bs rmud_idx cs) }"

definition iordt_dev_populate_chans :: "u8 list \<Rightarrow> nat \<Rightarrow> nat \<Rightarrow> pqos_channel_t list res option" where
  "iordt_dev_populate_chans bs dev rmud_idx =
     and_then (acpi_get_irdt_chms bs dev) (\<lambda>chms.
       and_then (chms_loop bs rmud_idx chms []) (\<lambda>chans. Some (Inr (chans @ replicate (PQOS_DEV_MAX_CHANNELS - length chans) 0))))"

text \<open>The member \<open>type\<close> of \<open>struct pqos_dev\<close> is checked here and not kept in the record.\<close>

fun devs_loop :: "u8 list \<Rightarrow> u16 \<Rightarrow> nat \<Rightarrow> nat list \<Rightarrow> pqos_dev list \<Rightarrow> pqos_dev list res option" where
  "devs_loop bs segment rmud_idx [] vs = Some (Inr vs)"
| "devs_loop bs segment rmud_idx (d # ds) vs = do {
     ty \<leftarrow> rd16 bs d;
     if ty \<noteq> ACPI_TABLE_IRDT_TYPE_DSS then devs_loop bs segment rmud_idx ds vs
     else if of_nat (length vs) = (- 1 :: u32) then Some (Inl PQOS_RETVAL_ERROR)
     else do {
       device_type \<leftarrow> rd8 bs (d + 4);
       if device_type \<noteq> 1 \<and> device_type \<noteq> 2 then Some (Inl PQOS_RETVAL_ERROR)
       else do {
         bdf \<leftarrow> rd16 bs (d + 5);
         and_then (iordt_dev_populate_chans bs d rmud_idx) (\<lambda>chans.
           devs_loop bs segment rmud_idx ds (vs @ [\<lparr>dev_segment = segment, dev_bdf = bdf, dev_channel = chans\<rparr>])) } } }"

definition iordt_populate_devs :: "u8 list \<Rightarrow> nat \<Rightarrow> nat \<Rightarrow> pqos_dev list \<Rightarrow> pqos_dev list res option" where
  "iordt_populate_devs bs rmud rmud_idx vs =
     and_then (acpi_get_irdt_dev bs rmud) (\<lambda>ds. do {
       segment \<leftarrow> rd16 bs (rmud + 8);
       devs_loop bs segment rmud_idx ds vs })"

section \<open>Channels\<close>

fun rcs_channel_loop :: "iordt_mmio list \<Rightarrow> nat \<Rightarrow> u8 \<Rightarrow> u16 \<Rightarrow> nat list \<Rightarrow> pqos_channel list \<Rightarrow> pqos_channel list res" where
  "rcs_channel_loop mmios rmud_idx rcs flags [] chans = Inr chans"
| "rcs_channel_loop mmios rmud_idx rcs flags (k # ks) chans =
     (if of_nat (length chans) = (- 1 :: u32) then Inl PQOS_RETVAL_ERROR
      else (let id = PQOS_IRDT_CHAN_ID rmud_idx rcs (of_nat k)
            in case get_mmio (Some mmios) id of
                 None \<Rightarrow> Inl PQOS_RETVAL_ERROR
               | Some mmio \<Rightarrow> rcs_channel_loop mmios rmud_idx rcs flags ks
                   (chans @ [\<lparr>channel_id = id, rmid_tagging = flags AND RCS_FLAGS_RTS \<noteq> 0, clos_tagging = flags AND RCS_FLAGS_CTS \<noteq> 0,
                              cxld = flags AND RCS_FLAGS_CXLD \<noteq> 0, mmio_addr = mmio_base mmio, chan_numa = mmio_numa mmio\<rparr>])))"

fun rcs_chans_loop :: "u8 list \<Rightarrow> iordt_mmio list \<Rightarrow> nat \<Rightarrow> nat list \<Rightarrow> pqos_channel list \<Rightarrow> pqos_channel list res option" where
  "rcs_chans_loop bs mmios rmud_idx [] chans = Some (Inr chans)"
| "rcs_chans_loop bs mmios rmud_idx (d # ds) chans = do {
     ty \<leftarrow> rd16 bs d;
     if ty \<noteq> ACPI_TABLE_IRDT_TYPE_RCS then rcs_chans_loop bs mmios rmud_idx ds chans
     else do {
       flags \<leftarrow> rd16 bs (d + 8);
       count \<leftarrow> rd8 bs (d + 7);
       if MMIO_MAX_CHANNELS < ucast count then Some (Inl PQOS_RETVAL_ERROR)
       else do {
         rcs \<leftarrow> rd8 bs (d + 6);
         and_then (Some (rcs_channel_loop mmios rmud_idx rcs flags [0..<unat count] chans)) (rcs_chans_loop bs mmios rmud_idx ds) } } }"

definition iordt_populate_chans :: "u8 list \<Rightarrow> iordt_mmio list \<Rightarrow> nat \<Rightarrow> nat \<Rightarrow> pqos_channel list \<Rightarrow> pqos_channel list res option" where
  "iordt_populate_chans bs mmios rmud rmud_idx chans =
     and_then (acpi_get_irdt_dev bs rmud) (\<lambda>ds. rcs_chans_loop bs mmios rmud_idx ds chans)"

section \<open>Register blocks\<close>

fun mmio_rcs_loop :: "u8 list \<Rightarrow> nat \<Rightarrow> nat list \<Rightarrow> iordt_mmio list \<Rightarrow> iordt_mmio list res option" where
  "mmio_rcs_loop bs rmud_idx [] mmios = Some (Inr mmios)"
| "mmio_rcs_loop bs rmud_idx (d # ds) mmios = do {
     ty \<leftarrow> rd16 bs d;
     if ty \<noteq> ACPI_TABLE_IRDT_TYPE_RCS then mmio_rcs_loop bs rmud_idx ds mmios
     else do {
       addr \<leftarrow> rd64 bs (d + 32);
       if of_nat (length mmios) = (- 1 :: u32) then Some (Inl PQOS_RETVAL_ERROR)
       else do {
         rcs \<leftarrow> rd8 bs (d + 6);
         roff \<leftarrow> rd16 bs (d + 10);
         coff \<leftarrow> rd16 bs (d + 12);
         flags \<leftarrow> rd16 bs (d + 8);
         mmio_rcs_loop bs rmud_idx ds (mmios @ [\<lparr>mmio_id = PQOS_IRDT_MMIO_ID rmud_idx rcs, mmio_base = addr, mmio_numa = PCI_NUMA_INVALID,
           mmio_rmid_offset = roff, mmio_clos_offset = coff, mmio_flags = ucast flags\<rparr>]) } } }"

text \<open>The search runs to the end of the table, so that the last block with the id counts.\<close>

definition last_mmio :: "iordt_mmio list \<Rightarrow> u64 \<Rightarrow> nat option" where
  "last_mmio mmios x = (case filter (\<lambda>i. mmio_id (mmios ! i) = x) [0..<length mmios] of [] \<Rightarrow> None | is \<Rightarrow> Some (last is))"

fun chms_numa_loop :: "(u16 \<Rightarrow> u16 \<Rightarrow> u32 option) \<Rightarrow> u8 list \<Rightarrow> u16 \<Rightarrow> u16 \<Rightarrow> nat \<Rightarrow> nat list \<Rightarrow> iordt_mmio list \<Rightarrow> iordt_mmio list option" where
  "chms_numa_loop pci bs segment bdf rmud_idx [] mmios = Some mmios"
| "chms_numa_loop pci bs segment bdf rmud_idx (c # cs) mmios = do {
     rcs \<leftarrow> rd8 bs c;
     chms_numa_loop pci bs segment bdf rmud_idx cs
       (case last_mmio mmios (PQOS_IRDT_MMIO_ID rmud_idx rcs) of
          None \<Rightarrow> mmios
        | Some i \<Rightarrow>
            if mmio_numa (mmios ! i) \<noteq> PCI_NUMA_INVALID then mmios
            else (case pci segment bdf of None \<Rightarrow> mmios | Some n \<Rightarrow> mmios[i := (mmios ! i)\<lparr>mmio_numa := n\<rparr>])) }"

fun dss_numa_loop :: "(u16 \<Rightarrow> u16 \<Rightarrow> u32 option) \<Rightarrow> u8 list \<Rightarrow> u16 \<Rightarrow> nat \<Rightarrow> nat list \<Rightarrow> iordt_mmio list \<Rightarrow> iordt_mmio list res option" where
  "dss_numa_loop pci bs segment rmud_idx [] mmios = Some (Inr mmios)"
| "dss_numa_loop pci bs segment rmud_idx (d # ds) mmios = do {
     ty \<leftarrow> rd16 bs d;
     if ty \<noteq> ACPI_TABLE_IRDT_TYPE_DSS then dss_numa_loop pci bs segment rmud_idx ds mmios
     else and_then (acpi_get_irdt_chms bs d) (\<lambda>chms. do {
            bdf \<leftarrow> rd16 bs (d + 5);
            mmios \<leftarrow> chms_numa_loop pci bs segment bdf rmud_idx chms mmios;
            dss_numa_loop pci bs segment rmud_idx ds mmios }) }"

definition iordt_populate_mmio :: "(u16 \<Rightarrow> u16 \<Rightarrow> u32 option) \<Rightarrow> u8 list \<Rightarrow> nat \<Rightarrow> nat \<Rightarrow> iordt_mmio list \<Rightarrow> iordt_mmio list res option" where
  "iordt_populate_mmio pci bs rmud rmud_idx mmios =
     and_then (acpi_get_irdt_dev bs rmud) (\<lambda>ds.
       and_then (mmio_rcs_loop bs rmud_idx ds mmios) (\<lambda>mmios. do {
         segment \<leftarrow> rd16 bs (rmud + 8);
         dss_numa_loop pci bs segment rmud_idx ds mmios }))"

section \<open>Printing\<close>

text \<open>
  The arguments of the log calls are read whether or not messages of this level are shown. A list of structures that cannot be
  obtained is not printed.
\<close>

definition log_bytes :: "u8 list \<Rightarrow> nat \<Rightarrow> nat \<Rightarrow> unit option" where
  "log_bytes bs p n = map_option (\<lambda>_. ()) (rd_bytes bs p n)"

fun print_all :: "(nat \<Rightarrow> unit option) \<Rightarrow> nat list \<Rightarrow> unit option" where
  "print_all f [] = Some ()"
| "print_all f (x # xs) = do { f x; print_all f xs }"

definition print_list :: "(nat \<Rightarrow> unit option) \<Rightarrow> nat list res option \<Rightarrow> unit option" where
  "print_list f m = Option.bind m (\<lambda>r. case r of Inl _ \<Rightarrow> Some () | Inr xs \<Rightarrow> print_all f xs)"

definition acpi_print_irdt_chms :: "u8 list \<Rightarrow> nat \<Rightarrow> unit option" where
  "acpi_print_irdt_chms bs c = do { log_bytes bs c 1; print_all (\<lambda>i. log_bytes bs (c + 1 + i) 1) [0..<CHMS_VCS] }"

definition acpi_print_irdt_device :: "u8 list \<Rightarrow> nat \<Rightarrow> unit option" where
  "acpi_print_irdt_device bs dev = do {
     ty \<leftarrow> rd16 bs dev;
     len \<leftarrow> rd16 bs (dev + 2);
     if ty = ACPI_TABLE_IRDT_TYPE_DSS then do {
       log_bytes bs (dev + 4) 1;
       log_bytes bs (dev + 5) 2;
       if unat len < DSS_SIZE then Some ()
       else print_list (acpi_print_irdt_chms bs) (acpi_get_irdt_chms bs dev) }
     else if ty = ACPI_TABLE_IRDT_TYPE_RCS then do {
       log_bytes bs (dev + 4) 2;
       log_bytes bs (dev + 6) 1;
       log_bytes bs (dev + 7) 1;
       log_bytes bs (dev + 8) 2;
       log_bytes bs (dev + 10) 2;
       log_bytes bs (dev + 12) 2;
       log_bytes bs (dev + 32) 8 }
     else Some () }"

definition acpi_print_irdt_rmud :: "u8 list \<Rightarrow> nat \<Rightarrow> unit option" where
  "acpi_print_irdt_rmud bs rmud = do {
     log_bytes bs rmud 1;
     log_bytes bs (rmud + 4) 4;
     log_bytes bs (rmud + 8) 2;
     print_list (acpi_print_irdt_device bs) (acpi_get_irdt_dev bs rmud) }"

text \<open>\<open>n\<close> bytes for each entry behind the header.\<close>

definition print_entries :: "u8 list \<Rightarrow> nat \<Rightarrow> unit option" where
  "print_entries bs n = do {
     len \<leftarrow> rd32 bs 4;
     if unat len < ACPI_HEADER_SIZE then Some ()
     else print_all (\<lambda>i. log_bytes bs (ACPI_HEADER_SIZE + n * i) n) [0..<(unat len - ACPI_HEADER_SIZE) div n] }"

definition acpi_print :: "u8 list \<Rightarrow> unit option" where
  "acpi_print bs = do {
     sig8 \<leftarrow> rd_bytes bs 0 8;
     if sig8 = RSDP_SIGNATURE then do {
       log_bytes bs 0 15;
       revision \<leftarrow> rd8 bs 15;
       log_bytes bs 16 4;
       if 2 \<le> revision then log_bytes bs 20 13 else Some () }
     else do {
       log_bytes bs 0 ACPI_HEADER_SIZE;
       sig \<leftarrow> rd_bytes bs 0 4;
       if sig = map of_char ''XSDT'' then print_entries bs 8
       else if sig = map of_char ''RSDT'' then print_entries bs 4
       else if sig = map of_char ''IRDT'' then do {
         log_bytes bs ACPI_HEADER_SIZE 2;
         log_bytes bs (ACPI_HEADER_SIZE + 2) 2;
         print_list (acpi_print_irdt_rmud bs) (acpi_get_irdt_rmud bs) }
       else Some () } }"

section \<open>Initialisation\<close>

fun irdt_rmuds :: "(u16 \<Rightarrow> u16 \<Rightarrow> u32 option) \<Rightarrow> u8 list \<Rightarrow> nat \<Rightarrow> nat list \<Rightarrow> iordt_mmio list \<times> pqos_dev list \<times> pqos_channel list
    \<Rightarrow> (iordt_mmio list \<times> pqos_dev list \<times> pqos_channel list) res option" where
  "irdt_rmuds pci bs rmud_idx [] st = Some (Inr st)"
| "irdt_rmuds pci bs rmud_idx (r # rs) (mmios, vs, chans) =
     and_then (iordt_populate_mmio pci bs r rmud_idx mmios) (\<lambda>mmios.
     and_then (iordt_populate_devs bs r rmud_idx vs) (\<lambda>vs.
     and_then (iordt_populate_chans bs mmios r rmud_idx chans) (\<lambda>chans.
       irdt_rmuds pci bs (Suc rmud_idx) rs (mmios, vs, chans))))"

text \<open>An array that has never been allocated is NULL.\<close>

definition array_ptr :: "'a list \<Rightarrow> 'a list option" where
  "array_ptr xs = (if xs = [] then None else Some xs)"

text \<open>\<open>iordt_init\<close> with arguments that are not NULL, \<open>pci_init\<close> being the status \<open>pci_ret\<close>.\<close>

definition iordt_init :: "acpi_os \<Rightarrow> retval \<Rightarrow> (u16 \<Rightarrow> u16 \<Rightarrow> u32 option) \<Rightarrow> pqos_cap \<Rightarrow> (pqos_devinfo \<times> iordt_mmio list) res option" where
  "iordt_init A pci_ret pci cap =
     (let ret = iordt_check_support (Some cap)
      in if ret \<noteq> PQOS_RETVAL_OK then Some (Inl ret)
         else if pci_ret \<noteq> PQOS_RETVAL_OK then Some (Inl pci_ret)
         else Option.bind (acpi_get_sig A ''IRDT'') (\<lambda>tbl.
                case tbl of
                  None \<Rightarrow> Some (Inl PQOS_RETVAL_RESOURCE)
                | Some bs \<Rightarrow>
                    Option.bind (acpi_print bs) (\<lambda>_.
                    and_then (acpi_get_irdt_rmud bs) (\<lambda>rmuds.
                    and_then (irdt_rmuds pci bs 0 rmuds ([], [], [])) (\<lambda>(mmios, vs, chans).
                      Some (Inr (\<lparr>channels = array_ptr chans, devs = array_ptr vs\<rparr>, mmios)))))))"

end
