(* ===== verification/IrdtSafe.thy ===== *)
theory IrdtSafe
  imports Irdt AcpiSafe Iordt
begin

text \<open>
  What \<open>iordt_init\<close> guarantees. The walks over the table stay inside it. Some fields are read without a check that they are there:
  the protocol flags behind the header, the fields of an RCS structure and, by \<open>acpi_print\<close>, the first fields of a DSS structure,
  so that safety needs the hypothesis that they are. In the tables that result, every channel
  has a register block, and a number for which the block has a register.
\<close>

section \<open>Walks\<close>

definition rmud_at :: "u8 list \<Rightarrow> nat \<Rightarrow> bool" where
  "rmud_at bs r \<longleftrightarrow> (\<exists>len. rd32 bs (r + 4) = Some len \<and> RMUD_SIZE \<le> unat len \<and> r + unat len \<le> length bs)"

definition device_at :: "u8 list \<Rightarrow> nat \<Rightarrow> bool" where
  "device_at bs d \<longleftrightarrow> (\<exists>q. structure_at bs d q)"

lemma dev_loop_parses:
  "dev + dev_len \<le> length bs \<Longrightarrow> parses (\<lambda>ds. \<forall>d\<in>set ds. device_at bs d) (irdt_dev_loop bs dev dev_len)"
proof (induction bs dev dev_len rule: irdt_dev_loop.induct)
  case (1 bs dev dev_len)
  show ?case
  proof (cases "dev_len < DEV_HEADER_SIZE")
    case True
    then show ?thesis by (auto simp: irdt_dev_loop.simps [of bs dev dev_len] parser_wp)
  next
    case False
    with "1.prems" obtain len where len: "rd16 bs (dev + 2) = Some len" by (auto simp: rd16_def read_le_def irdt_sizes)
    have at: "device_at bs dev" if "4 \<le> unat len" "unat len \<le> dev_len"
      using that len "1.prems" by (auto simp: device_at_def structure_at_def)
    have ih: "parses (\<lambda>ds. \<forall>d\<in>set ds. device_at bs d) (irdt_dev_loop bs (dev + unat len) (dev_len - unat len))"
      if "\<not> unat len < DEV_HEADER_SIZE" "dev_len \<noteq> unat len" "\<not> dev_len < unat len"
      by (rule "1.IH") (use that len False "1.prems" in \<open>auto simp: irdt_sizes\<close>)
    show ?thesis
      using False len at ih
      by (auto simp: irdt_dev_loop.simps [of bs dev dev_len] parser_wp irdt_sizes elim!: parses_mono)
  qed
qed

lemma get_dev_parses:
  assumes "rmud_at bs r"
  shows "parses (\<lambda>ds. \<forall>d\<in>set ds. device_at bs d) (acpi_get_irdt_dev bs r)"
proof -
  from assms obtain len where len: "rd32 bs (r + 4) = Some len" "RMUD_SIZE \<le> unat len" "r + unat len \<le> length bs"
    by (auto simp: rmud_at_def)
  have "parses (\<lambda>ds. \<forall>d\<in>set ds. device_at bs d) (irdt_dev_loop bs (r + RMUD_SIZE) (unat len - RMUD_SIZE))"
    by (rule dev_loop_parses) (use len in simp)
  then show ?thesis
    using len by (auto simp: acpi_get_irdt_dev_def non_null_def parses_def and_then_def split: option.splits sum.splits)
qed

lemma rmud_loop_parses:
  "r + n \<le> length bs \<Longrightarrow> parses (\<lambda>rs. \<forall>r\<in>set rs. rmud_at bs r) (irdt_rmud_loop bs r n)"
proof (induction bs r n rule: irdt_rmud_loop.induct)
  case (1 bs r n)
  show ?case
  proof (cases "n < RMUD_SIZE")
    case True
    then show ?thesis by (auto simp: irdt_rmud_loop.simps [of bs r n] parser_wp)
  next
    case False
    with "1.prems" obtain len where len: "rd32 bs (r + 4) = Some len" by (auto simp: rd32_def read_le_def irdt_sizes)
    have at: "rmud_at bs r" if "\<not> unat len < RMUD_SIZE" "unat len \<le> n"
      using that len "1.prems" by (auto simp: rmud_at_def)
    have ih: "parses (\<lambda>rs. \<forall>r\<in>set rs. rmud_at bs r) (irdt_rmud_loop bs (r + unat len) (n - unat len))"
      if "\<not> unat len < RMUD_SIZE" "n \<noteq> unat len" "\<not> n < unat len"
      by (rule "1.IH") (use that len False "1.prems" in \<open>auto simp: irdt_sizes\<close>)
    show ?thesis
      using False len at ih
      by (auto simp: irdt_rmud_loop.simps [of bs r n] parser_wp irdt_sizes elim!: parses_mono)
  qed
qed

lemma get_rmud_parses:
  assumes "sized_table bs"
  shows "parses (\<lambda>rs. \<forall>r\<in>set rs. rmud_at bs r) (acpi_get_irdt_rmud bs)"
proof -
  from assms obtain len where len: "rd32 bs 4 = Some len" "unat len = length bs" by (auto simp: sized_table_def)
  have "parses (\<lambda>rs. \<forall>r\<in>set rs. rmud_at bs r) (irdt_rmud_loop bs IRDT_SIZE (length bs - IRDT_SIZE))" if "\<not> length bs < IRDT_SIZE"
    by (rule rmud_loop_parses) (use that in simp)
  then show ?thesis
    using len by (cases "length bs < IRDT_SIZE") (auto simp: acpi_get_irdt_rmud_def non_null_def parses_def and_then_def split: option.splits sum.splits)
qed

text \<open>The structures of a DSS device are inside it; that there are any means that the device has its full size.\<close>

definition dss_full :: "u8 list \<Rightarrow> nat \<Rightarrow> bool" where
  "dss_full bs d \<longleftrightarrow> (rd16 bs d = Some ACPI_TABLE_IRDT_TYPE_DSS \<longrightarrow> d + DSS_SIZE \<le> length bs)"

lemma chms_parses:
  assumes "device_at bs d"
  shows "parses (\<lambda>cs. d + DSS_SIZE \<le> length bs \<and> (\<forall>c\<in>set cs. c + CHMS_SIZE \<le> length bs)) (acpi_get_irdt_chms bs d)"
proof -
  from assms obtain len where len: "rd16 bs (d + 2) = Some len" "4 \<le> unat len" "d + unat len \<le> length bs"
    by (auto simp: device_at_def structure_at_def)
  have "8 + 16 * i + 16 \<le> unat len" if "i < (unat len - 8) div 16" for i
  proof -
    have "16 * Suc i \<le> 16 * ((unat len - 8) div 16)" using that by simp
    also have "\<dots> \<le> unat len - 8" by (rule times_div_less_eq_dividend)
    finally show ?thesis using that by (cases "unat len < 8") auto
  qed
  with len show ?thesis by (force simp: acpi_get_irdt_chms_def parser_wp irdt_sizes)
qed

section \<open>Register blocks\<close>

text \<open>What the later steps keep of the blocks: their ids and addresses, in order.\<close>

definition block_keys :: "iordt_mmio list \<Rightarrow> (u64 \<times> u64) list" where
  "block_keys ms = map (\<lambda>m. (mmio_id m, mmio_base m)) ms"

definition rcs_full :: "u8 list \<Rightarrow> nat \<Rightarrow> bool" where
  "rcs_full bs d \<longleftrightarrow> (rd16 bs d = Some ACPI_TABLE_IRDT_TYPE_RCS \<longrightarrow> d + RCS_SIZE \<le> length bs)"

lemma device_type: "device_at bs d \<Longrightarrow> \<exists>ty. rd16 bs d = Some ty"
  by (auto simp: device_at_def structure_at_def rd16_def read_le_def)

lemma mmio_rcs_parses:
  "\<forall>d\<in>set ds. device_at bs d \<and> rcs_full bs d \<Longrightarrow>
     parses (\<lambda>ms'. \<exists>new. block_keys ms' = block_keys ms @ new) (mmio_rcs_loop bs k ds ms)"
proof (induction ds arbitrary: ms)
  case (Cons d ds)
  then obtain ty where ty: "rd16 bs d = Some ty" using device_type by force
  have ih: "parses (\<lambda>ms'. \<exists>new. block_keys ms' = block_keys ms1 @ new) (mmio_rcs_loop bs k ds ms1)" for ms1
    using Cons by simp
  have step: "parses (\<lambda>ms'. \<exists>new. block_keys ms' = block_keys ms @ new) (mmio_rcs_loop bs k ds (ms @ [m]))" for m
    using ih [of "ms @ [m]"] by (rule parses_mono) (auto simp: block_keys_def)
  show ?case
    using Cons.prems ty ih step by (auto simp: parser_wp rcs_full_def irdt_sizes)
qed (simp add: parser_wp)

lemma last_mmio_index: "last_mmio ms x = Some i \<Longrightarrow> i < length ms"
proof -
  assume "last_mmio ms x = Some i"
  then have "filter (\<lambda>i. mmio_id (ms ! i) = x) [0..<length ms] \<noteq> [] \<and> i = last (filter (\<lambda>i. mmio_id (ms ! i) = x) [0..<length ms])"
    by (simp add: last_mmio_def split: list.splits)
  then have "i \<in> set (filter (\<lambda>i. mmio_id (ms ! i) = x) [0..<length ms])" by (metis last_in_set)
  then show ?thesis by simp
qed

lemma numa_keys: "i < length ms \<Longrightarrow> block_keys (ms[i := (ms ! i)\<lparr>mmio_numa := n\<rparr>]) = block_keys ms"
  by (simp add: block_keys_def map_update list_update_same_conv)

lemma chms_numa_reads:
  "\<forall>c\<in>set cs. c + CHMS_SIZE \<le> length bs \<Longrightarrow> reads (\<lambda>ms'. block_keys ms' = block_keys ms) (chms_numa_loop pci bs seg bdf k cs ms)"
proof (induction cs arbitrary: ms)
  case (Cons c cs)
  have ih: "reads (\<lambda>ms'. block_keys ms' = block_keys ms) (chms_numa_loop pci bs seg bdf k cs ms1)" if "block_keys ms1 = block_keys ms" for ms1
    using Cons.IH [of ms1] Cons.prems that by simp
  show ?case
    using Cons.prems by (auto simp: parser_wp irdt_sizes numa_keys dest!: last_mmio_index split: option.splits intro!: ih)
qed (simp add: parser_wp)

lemma dss_numa_parses:
  "\<forall>d\<in>set ds. device_at bs d \<Longrightarrow>
     parses (\<lambda>ms'. block_keys ms' = block_keys ms \<and> (\<forall>d\<in>set ds. dss_full bs d)) (dss_numa_loop pci bs seg k ds ms)"
proof (induction ds arbitrary: ms)
  case (Cons d ds)
  then obtain ty where ty: "rd16 bs d = Some ty" using device_type by force
  have ih: "parses (\<lambda>ms'. block_keys ms' = block_keys ms1 \<and> (\<forall>d\<in>set ds. dss_full bs d)) (dss_numa_loop pci bs seg k ds ms1)" for ms1
    using Cons by simp
  show ?case
  proof (cases "ty = ACPI_TABLE_IRDT_TYPE_DSS")
    case False
    with ty ih [of ms] show ?thesis by (auto simp: parser_wp dss_full_def elim!: parses_mono)
  next
    case True
    have "parses (\<lambda>ms'. block_keys ms' = block_keys ms \<and> (\<forall>d\<in>set (d # ds). dss_full bs d)) (dss_numa_loop pci bs seg k ds ms1)"
      if "block_keys ms1 = block_keys ms" "d + DSS_SIZE \<le> length bs" for ms1
      using ih [of ms1] that by (auto simp: dss_full_def elim!: parses_mono)
    then show ?thesis
      using Cons.prems ty True chms_parses [of bs d]
      by (auto simp: parser_wp irdt_sizes intro!: reads_mono [OF chms_numa_reads] elim!: parses_mono)
  qed
qed (simp add: parser_wp)

text \<open>
  The hypothesis on a table: it holds the protocol flags, DSS structures reach to the end of the enumeration id and RCS structures have
  their full size.
\<close>

definition IRDT_FLAGS_END :: nat where "IRDT_FLAGS_END = 40"
definition DSS_ID_END :: nat where "DSS_ID_END = 7"

definition device_sized :: "u8 list \<Rightarrow> nat \<Rightarrow> bool" where
  "device_sized bs d \<longleftrightarrow> (\<exists>ty len. rd16 bs d = Some ty \<and> rd16 bs (d + 2) = Some len \<and>
     (ty = ACPI_TABLE_IRDT_TYPE_DSS \<longrightarrow> DSS_ID_END \<le> unat len) \<and> (ty = ACPI_TABLE_IRDT_TYPE_RCS \<longrightarrow> RCS_SIZE \<le> unat len))"

definition irdt_sized :: "u8 list \<Rightarrow> bool" where
  "irdt_sized bs \<longleftrightarrow> IRDT_FLAGS_END \<le> length bs \<and>
     (\<forall>rs r ds d. acpi_get_irdt_rmud bs = Some (Inr rs) \<longrightarrow> r \<in> set rs \<longrightarrow> acpi_get_irdt_dev bs r = Some (Inr ds) \<longrightarrow>
        d \<in> set ds \<longrightarrow> device_sized bs d)"

text \<open>The fields of a DSS structure that \<open>acpi_print\<close> reads are inside the table.\<close>

definition dss_id :: "u8 list \<Rightarrow> nat \<Rightarrow> bool" where
  "dss_id bs d \<longleftrightarrow> (rd16 bs d = Some ACPI_TABLE_IRDT_TYPE_DSS \<longrightarrow> d + DSS_ID_END \<le> length bs)"

definition sized_rmud :: "u8 list \<Rightarrow> nat \<Rightarrow> bool" where
  "sized_rmud bs r \<longleftrightarrow> rmud_at bs r \<and> (\<forall>ds. acpi_get_irdt_dev bs r = Some (Inr ds) \<longrightarrow> (\<forall>d\<in>set ds. device_at bs d \<and> rcs_full bs d \<and> dss_id bs d))"

lemma rmuds_parse:
  assumes "sized_table bs" "irdt_sized bs"
  shows "parses (\<lambda>rs. \<forall>r\<in>set rs. sized_rmud bs r) (acpi_get_irdt_rmud bs)"
proof -
  have "sized_rmud bs r" if rs: "acpi_get_irdt_rmud bs = Some (Inr rs)" "r \<in> set rs" for rs r
  proof -
    have at: "rmud_at bs r" using get_rmud_parses [OF assms(1)] rs by (auto simp: parses_def)
    have "device_at bs d \<and> rcs_full bs d \<and> dss_id bs d" if ds: "acpi_get_irdt_dev bs r = Some (Inr ds)" "d \<in> set ds" for ds d
    proof -
      have d: "device_at bs d" using get_dev_parses [OF at] ds by (auto simp: parses_def)
      moreover have "device_sized bs d" using assms(2) rs ds unfolding irdt_sized_def by blast
      ultimately show ?thesis by (auto simp: rcs_full_def dss_id_def device_sized_def device_at_def structure_at_def)
    qed
    with at show ?thesis by (auto simp: sized_rmud_def)
  qed
  then show ?thesis using get_rmud_parses [OF assms(1)] by (auto simp: parses_def)
qed

lemma populate_mmio_parses:
  assumes "sized_rmud bs r"
  shows "parses (\<lambda>ms'. (\<exists>new. block_keys ms' = block_keys ms @ new) \<and>
    (\<forall>ds. acpi_get_irdt_dev bs r = Some (Inr ds) \<longrightarrow> (\<forall>d\<in>set ds. dss_full bs d))) (iordt_populate_mmio pci bs r k ms)"
proof -
  have at: "rmud_at bs r" using assms by (simp add: sized_rmud_def)
  then obtain seg where seg: "rd16 bs (r + 8) = Some seg" by (auto simp: rmud_at_def rd16_def read_le_def irdt_sizes)
  show ?thesis
  proof (cases "\<exists>ds. acpi_get_irdt_dev bs r = Some (Inr ds)")
    case False
    with get_dev_parses [OF at] show ?thesis
      by (auto simp: iordt_populate_mmio_def parses_def and_then_def split: option.splits sum.splits)
  next
    case True
    then obtain ds where ds: "acpi_get_irdt_dev bs r = Some (Inr ds)" by blast
    with assms have d: "\<forall>d\<in>set ds. device_at bs d \<and> rcs_full bs d" by (simp add: sized_rmud_def)
    have "parses (\<lambda>ms'. (\<exists>new. block_keys ms' = block_keys ms @ new) \<and> (\<forall>d\<in>set ds. dss_full bs d)) (dss_numa_loop pci bs seg k ds ms1)"
      if "\<exists>new. block_keys ms1 = block_keys ms @ new" for ms1
      by (rule parses_mono [OF dss_numa_parses]) (use d that in auto)
    with ds d seg show ?thesis
      by (auto simp: iordt_populate_mmio_def parser_wp reads_def intro!: parses_mono [OF mmio_rcs_parses [of ds bs ms k]])
  qed
qed

section \<open>Printing\<close>

lemma reads_log [parser_wp]: "reads P (log_bytes bs p n) \<longleftrightarrow> p + n \<le> length bs \<and> P ()"
  by (auto simp: log_bytes_def reads_def rd_bytes_def)

lemma print_all_iff: "print_all f xs = Some () \<longleftrightarrow> (\<forall>x\<in>set xs. f x = Some ())"
  by (induction xs) (auto split: Option.bind_splits)

lemma reads_print_all [parser_wp]: "reads P (print_all f xs) \<longleftrightarrow> (\<forall>x\<in>set xs. reads (\<lambda>_. True) (f x)) \<and> P ()"
  by (auto simp: reads_def print_all_iff)

lemma print_list_reads: "parses (\<lambda>xs. \<forall>x\<in>set xs. reads (\<lambda>_. True) (f x)) m \<Longrightarrow> reads (\<lambda>_. True) (print_list f m)"
  by (auto simp: print_list_def parser_wp parses_def split: sum.split)

lemma print_chms_reads: "c + CHMS_SIZE \<le> length bs \<Longrightarrow> reads (\<lambda>_. True) (acpi_print_irdt_chms bs c)"
  by (auto simp: acpi_print_irdt_chms_def parser_wp irdt_sizes)

lemma print_device_reads:
  assumes "device_at bs d" "rcs_full bs d" "dss_id bs d"
  shows "reads (\<lambda>_. True) (acpi_print_irdt_device bs d)"
proof -
  have "reads (\<lambda>_. True) (print_list (acpi_print_irdt_chms bs) (acpi_get_irdt_chms bs d))"
    by (rule print_list_reads, rule parses_mono [OF chms_parses [OF assms(1)]]) (auto intro: print_chms_reads)
  moreover have "d + 4 \<le> length bs" using assms(1) by (auto simp: device_at_def structure_at_def)
  ultimately show ?thesis
    using assms(2,3) by (auto simp: acpi_print_irdt_device_def parser_wp rcs_full_def dss_id_def RCS_SIZE_def DSS_ID_END_def)
qed

lemma print_rmud_reads:
  assumes "sized_rmud bs r"
  shows "reads (\<lambda>_. True) (acpi_print_irdt_rmud bs r)"
proof -
  have ds: "\<forall>d\<in>set ds. device_at bs d \<and> rcs_full bs d \<and> dss_id bs d" if "acpi_get_irdt_dev bs r = Some (Inr ds)" for ds
    using assms that by (simp_all add: sized_rmud_def)
  have at: "rmud_at bs r" using assms by (simp add: sized_rmud_def)
  have "parses (\<lambda>ds. \<forall>d\<in>set ds. reads (\<lambda>_. True) (acpi_print_irdt_device bs d)) (acpi_get_irdt_dev bs r)"
    using get_dev_parses [OF at] ds by (auto simp: parses_def intro!: print_device_reads)
  with at show ?thesis by (auto simp: acpi_print_irdt_rmud_def parser_wp rmud_at_def RMUD_SIZE_def intro!: print_list_reads)
qed

lemma print_entries_reads:
  assumes "sized_table bs" "0 < n"
  shows "reads (\<lambda>_. True) (print_entries bs n)"
proof -
  from assms(1) obtain len where len: "rd32 bs 4 = Some len" "unat len = length bs" "ACPI_HEADER_SIZE \<le> length bs"
    by (auto simp: sized_table_def)
  have "ACPI_HEADER_SIZE + n * i + n \<le> length bs" if "i < (length bs - ACPI_HEADER_SIZE) div n" for i
  proof -
    have "n * Suc i \<le> n * ((length bs - ACPI_HEADER_SIZE) div n)" using that by (intro mult_le_mono2) simp
    also have "\<dots> \<le> length bs - ACPI_HEADER_SIZE" by (rule times_div_less_eq_dividend)
    finally show ?thesis using len(3) by simp
  qed
  with len show ?thesis by (auto simp: print_entries_def parser_wp ACPI_HEADER_SIZE_def)
qed

text \<open>
  A table whose length is in its header is printed without an access outside; of a table with the signature \<open>IRDT\<close> the hypothesis is
  needed. \<open>erdt_init\<close> and \<open>mrrm_init\<close> print their tables as well, which have other signatures.
\<close>

lemma acpi_print_reads:
  assumes "sized_table bs" and "take 4 bs = map of_char ''IRDT'' \<longrightarrow> irdt_sized bs"
  shows "acpi_print bs = Some ()"
proof -
  have n: "36 \<le> length bs" using assms(1) by (simp add: sized_table_def ACPI_HEADER_SIZE_def)
  have irdt: "reads (\<lambda>_. True) (print_list (acpi_print_irdt_rmud bs) (acpi_get_irdt_rmud bs))" if "irdt_sized bs"
    by (rule print_list_reads, rule parses_mono [OF rmuds_parse [OF assms(1) that]]) (auto intro: print_rmud_reads)
  have "reads (\<lambda>_. True) (acpi_print bs)"
    using n assms(2) irdt print_entries_reads [OF assms(1)]
    by (auto simp: acpi_print_def parser_wp ACPI_HEADER_SIZE_def irdt_sized_def IRDT_FLAGS_END_def rd_bytes_def)
  then show ?thesis by (auto simp: reads_def)
qed

section \<open>Devices and channels\<close>

lemma vc_parses:
  "p + n \<le> length bs \<Longrightarrow> length chans \<le> PQOS_DEV_MAX_CHANNELS \<Longrightarrow>
     parses (\<lambda>cs. length cs \<le> PQOS_DEV_MAX_CHANNELS) (vc_loop bs k rcs p n chans)"
  by (induction n arbitrary: p chans) (auto simp: parser_wp)

lemma chms_loop_parses:
  "\<forall>c\<in>set cs. c + CHMS_SIZE \<le> length bs \<Longrightarrow> length chans \<le> PQOS_DEV_MAX_CHANNELS \<Longrightarrow>
     parses (\<lambda>cs. length cs \<le> PQOS_DEV_MAX_CHANNELS) (chms_loop bs k cs chans)"
proof (induction cs arbitrary: chans)
  case (Cons c cs)
  have vc: "parses (\<lambda>xs. length xs \<le> PQOS_DEV_MAX_CHANNELS) (vc_loop bs k rcs (Suc c) 8 chans)" for rcs
    by (rule vc_parses) (use Cons.prems in \<open>auto simp: irdt_sizes\<close>)
  from Cons show ?case by (auto simp: parser_wp irdt_sizes intro!: parses_mono [OF vc])
qed (simp add: parser_wp)

lemma dev_chans_parses:
  "device_at bs d \<Longrightarrow> parses (\<lambda>cs. length cs = PQOS_DEV_MAX_CHANNELS) (iordt_dev_populate_chans bs d k)"
  by (auto simp: iordt_dev_populate_chans_def parser_wp intro!: parses_mono [OF chms_parses] parses_mono [OF chms_loop_parses])

lemma devs_loop_parses:
  "\<forall>d\<in>set ds. device_at bs d \<and> dss_full bs d \<Longrightarrow> list_all wf_dev vs \<Longrightarrow> parses (list_all wf_dev) (devs_loop bs seg k ds vs)"
proof (induction ds arbitrary: vs)
  case (Cons d ds)
  then obtain ty where ty: "rd16 bs d = Some ty" using device_type by force
  have "parses (\<lambda>cs. length cs = PQOS_DEV_MAX_CHANNELS) (iordt_dev_populate_chans bs d k)"
    by (rule dev_chans_parses) (use Cons.prems in simp)
  with Cons ty show ?case by (auto simp: parser_wp dss_full_def irdt_sizes wf_dev_def elim!: parses_mono)
qed (simp add: parser_wp)

text \<open>A channel with its block: the first block with the id of the channel has the address that is noted in the channel.\<close>

definition chan_ok :: "iordt_mmio list \<Rightarrow> pqos_channel \<Rightarrow> bool" where
  "chan_ok ms c \<longleftrightarrow> (\<exists>m. get_mmio (Some ms) (channel_id c) = Some m \<and> mmio_base m = mmio_addr c) \<and>
     PQOS_IRDT_CHAN (channel_id c) < MMIO_MAX_CHANNELS"

lemma get_mmio_keys:
  "map_option mmio_base (get_mmio (Some ms) ch) = map_option snd (List.find (\<lambda>p. fst p = PQOS_IRDT_CHAN_MMIO ch) (block_keys ms))"
  by (induction ms) (auto simp: get_mmio_def block_keys_def)

lemma chan_ok_grows: "chan_ok ms c \<Longrightarrow> block_keys ms' = block_keys ms @ new \<Longrightarrow> chan_ok ms' c"
proof -
  assume ok: "chan_ok ms c" and keys: "block_keys ms' = block_keys ms @ new"
  have grow: "List.find P xs = Some x \<Longrightarrow> List.find P (xs @ ys) = Some x" for P and x :: "u64 \<times> u64" and xs ys
    by (induction xs) auto
  from ok have "map_option mmio_base (get_mmio (Some ms) (channel_id c)) = Some (mmio_addr c)" by (auto simp: chan_ok_def)
  then have "map_option mmio_base (get_mmio (Some ms') (channel_id c)) = Some (mmio_addr c)"
    unfolding get_mmio_keys keys by (auto dest: grow)
  with ok show ?thesis by (auto simp: chan_ok_def)
qed

lemma chan_of_id: "k < 8 \<Longrightarrow> PQOS_IRDT_CHAN (PQOS_IRDT_CHAN_ID i rcs (of_nat k)) < MMIO_MAX_CHANNELS"
proof -
  assume k: "k < 8"
  have mask: "(0xFF :: u64) = mask 8" by (simp add: mask_eq_exp_minus_1)
  have "PQOS_IRDT_CHAN (PQOS_IRDT_CHAN_ID i rcs (of_nat k)) = of_nat k AND 0xFF"
    unfolding PQOS_IRDT_CHAN_def PQOS_IRDT_CHAN_ID_def mask
    by (rule bit_word_eqI) (auto simp: bit_simps)
  also have "\<dots> \<le> of_nat k" by (rule word_and_le2)
  also have "\<dots> < (8 :: u64)" using k by (simp add: word_less_nat_alt unat_of_nat)
  finally show ?thesis by (simp add: MMIO_MAX_CHANNELS_def)
qed

lemma rcs_channel_loop_ok:
  "list_all (chan_ok ms) chans \<Longrightarrow> \<forall>k\<in>set ks. k < 8 \<Longrightarrow> rcs_channel_loop ms i rcs flags ks chans = Inr chans' \<Longrightarrow> list_all (chan_ok ms) chans'"
proof (induction ks arbitrary: chans)
  case (Cons k ks)
  let ?id = "PQOS_IRDT_CHAN_ID i rcs (of_nat k)"
  from Cons.prems(3) obtain m where m: "get_mmio (Some ms) ?id = Some m" by (auto simp: Let_def split: if_splits option.splits)
  define c where "c = \<lparr>channel_id = ?id, rmid_tagging = flags AND RCS_FLAGS_RTS \<noteq> 0, clos_tagging = flags AND RCS_FLAGS_CTS \<noteq> 0,
    cxld = flags AND RCS_FLAGS_CXLD \<noteq> 0, mmio_addr = mmio_base m, chan_numa = mmio_numa m\<rparr>"
  from Cons.prems(3) m have run: "rcs_channel_loop ms i rcs flags ks (chans @ [c]) = Inr chans'"
    by (auto simp: Let_def c_def split: if_splits)
  have "chan_ok ms c" using m Cons.prems(2) by (simp add: chan_ok_def chan_of_id c_def)
  with Cons.IH [OF _ _ run] Cons.prems show ?case by simp
qed simp

lemma rcs_chans_parses:
  "\<forall>d\<in>set ds. device_at bs d \<and> rcs_full bs d \<Longrightarrow> list_all (chan_ok ms) chans \<Longrightarrow>
     parses (list_all (chan_ok ms)) (rcs_chans_loop bs ms i ds chans)"
proof (induction ds arbitrary: chans)
  case (Cons d ds)
  then obtain ty where ty: "rd16 bs d = Some ty" using device_type by force
  have chans: "parses (list_all (chan_ok ms)) (Some (rcs_channel_loop ms i rcs flags [0..<unat count] chans))"
    if "\<not> MMIO_MAX_CHANNELS < ucast count" for rcs flags and count :: u8
  proof -
    have "unat count < 2 ^ 8" using unsigned_less [of count] by simp
    then have "take_bit 64 (unat count) = unat count" by (intro take_bit_nat_eq_self) simp
    then have "unat count \<le> 8" using that by (simp add: MMIO_MAX_CHANNELS_def not_less word_le_nat_alt unsigned_ucast_eq)
    with rcs_channel_loop_ok [OF Cons.prems(2), of "[0..<unat count]" i rcs flags] show ?thesis by (auto simp: parses_def)
  qed
  from Cons ty show ?case by (auto simp: parser_wp rcs_full_def irdt_sizes intro!: parses_mono [OF chans])
qed (simp add: parser_wp)

section \<open>The tables\<close>

definition irdt_inv :: "iordt_mmio list \<times> pqos_dev list \<times> pqos_channel list \<Rightarrow> bool" where
  "irdt_inv = (\<lambda>(ms, vs, chans). list_all wf_dev vs \<and> list_all (chan_ok ms) chans)"

lemma one_rmud_parses:
  assumes "sized_rmud bs r" "list_all wf_dev vs" "list_all (chan_ok ms) chans"
  shows "parses (\<lambda>ms'. list_all (chan_ok ms') chans \<and>
    parses (\<lambda>vs'. list_all wf_dev vs' \<and> parses (list_all (chan_ok ms')) (iordt_populate_chans bs ms' r k chans))
      (iordt_populate_devs bs r k vs)) (iordt_populate_mmio pci bs r k ms)"
proof (rule parses_mono [OF populate_mmio_parses [OF assms(1)]])
  fix ms'
  assume ms': "(\<exists>new. block_keys ms' = block_keys ms @ new) \<and> (\<forall>ds. acpi_get_irdt_dev bs r = Some (Inr ds) \<longrightarrow> (\<forall>d\<in>set ds. dss_full bs d))"
  have at: "rmud_at bs r" using assms(1) by (simp add: sized_rmud_def)
  then obtain seg where seg: "rd16 bs (r + 8) = Some seg" by (auto simp: rmud_at_def rd16_def read_le_def irdt_sizes)
  have chans: "list_all (chan_ok ms') chans" using assms(3) ms' chan_ok_grows by (metis list_all_iff)
  have devs: "\<forall>d\<in>set ds. device_at bs d \<and> rcs_full bs d \<and> dss_full bs d" if "acpi_get_irdt_dev bs r = Some (Inr ds)" for ds
    using that ms' assms(1) by (simp add: sized_rmud_def)
  have get: "parses P (acpi_get_irdt_dev bs r)" if "\<And>ds. acpi_get_irdt_dev bs r = Some (Inr ds) \<Longrightarrow> P ds" for P
    using that get_dev_parses [OF at] by (auto simp: parses_def)
  have "parses (list_all (chan_ok ms')) (iordt_populate_chans bs ms' r k chans)"
    using devs chans by (auto simp: iordt_populate_chans_def parser_wp intro!: get rcs_chans_parses)
  moreover have "parses (list_all wf_dev) (iordt_populate_devs bs r k vs)"
    using devs seg assms(2) by (auto simp: iordt_populate_devs_def parser_wp intro!: get devs_loop_parses)
  ultimately show "list_all (chan_ok ms') chans \<and>
      parses (\<lambda>vs'. list_all wf_dev vs' \<and> parses (list_all (chan_ok ms')) (iordt_populate_chans bs ms' r k chans)) (iordt_populate_devs bs r k vs)"
    using chans by (auto elim!: parses_mono)
qed

lemma irdt_rmuds_parses:
  "\<forall>r\<in>set rs. sized_rmud bs r \<Longrightarrow> irdt_inv st \<Longrightarrow> parses irdt_inv (irdt_rmuds pci bs k rs st)"
proof (induction rs arbitrary: k st)
  case (Cons r rs)
  obtain ms vs chans where st: "st = (ms, vs, chans)" by (cases st)
  have "parses (\<lambda>ms'. list_all (chan_ok ms') chans \<and>
      parses (\<lambda>vs'. list_all wf_dev vs' \<and> parses (list_all (chan_ok ms')) (iordt_populate_chans bs ms' r k chans))
        (iordt_populate_devs bs r k vs)) (iordt_populate_mmio pci bs r k ms)"
    by (rule one_rmud_parses) (use Cons.prems in \<open>auto simp: st irdt_inv_def\<close>)
  with Cons show ?case by (auto simp: st irdt_inv_def parser_wp elim!: parses_mono)
qed (simp add: parser_wp)

section \<open>Properties\<close>

text \<open>
  C20. The tables of I/O RDT from a file, whatever it holds, provided that the table reaches to the end of its protocol flags, its DSS
  structures to the end of their enumeration ids, and that its RCS structures have their full size: printing the table and building
  the tables from it never reads outside the file's bytes and returns. Every device has an array of eight channels. Every channel has a register block, its
  number is one for which the block has a register, and the address noted in the channel is the address of the block that the
  association of the channel uses.
\<close>

theorem iordt_init_correct:
  assumes "\<forall>n. length (ac_fresh A n) = n" "ac_dir A" "\<forall>bs. acpi_get_sig A ''IRDT'' = Some (Some bs) \<longrightarrow> irdt_sized bs"
  shows "\<exists>r. iordt_init A pci_ret pci cap = Some r \<and>
    (\<forall>dev ms. r = Inr (dev, ms) \<longrightarrow> (\<forall>d\<in>set (table (devs dev)). wf_dev d) \<and>
       (\<forall>c\<in>set (table (channels dev)). \<exists>m. get_mmio (Some ms) (channel_id c) = Some m \<and> mmio_base m = mmio_addr c \<and>
          PQOS_IRDT_CHAN (channel_id c) < MMIO_MAX_CHANNELS))"
proof -
  have tab: "set (table (array_ptr xs)) = set xs" for xs :: "'x list" by (simp add: table_def array_ptr_def)
  have parse: "parses (\<lambda>(dev, ms). (\<forall>d\<in>set (table (devs dev)). wf_dev d) \<and> (\<forall>c\<in>set (table (channels dev)). chan_ok ms c))
      (and_then (acpi_get_irdt_rmud bs) (\<lambda>rmuds. and_then (irdt_rmuds pci bs 0 rmuds ([], [], [])) (\<lambda>(ms, vs, chans).
         Some (Inr (\<lparr>channels = array_ptr chans, devs = array_ptr vs\<rparr>, ms)))))" if "sized_table bs" "irdt_sized bs" for bs
  proof -
    have run: "parses irdt_inv (irdt_rmuds pci bs 0 rs ([], [], []))" if "\<forall>r\<in>set rs. sized_rmud bs r" for rs
      by (rule irdt_rmuds_parses) (use that in \<open>simp_all add: irdt_inv_def\<close>)
    show ?thesis
      by (auto simp: parser_wp tab irdt_inv_def list_all_iff intro!: parses_mono [OF rmuds_parse [OF that]] parses_mono [OF run])
  qed
  from sig_from_files [OF assms(1,2), of "''IRDT''"] obtain t where
    t: "acpi_get_sig A ''IRDT'' = Some t" "\<forall>bs. t = Some bs \<longrightarrow> sized_table bs" by blast
  show ?thesis
  proof (cases t)
    case None
    with t show ?thesis by (simp add: iordt_init_def Let_def)
  next
    case (Some bs)
    with t assms(3) parse [of bs] acpi_print_reads [of bs] show ?thesis by (auto simp: iordt_init_def Let_def parses_def chan_ok_def)
  qed
qed

text \<open>A table with one RMUD in segment 1: a device with two valid virtual channels, and its RCS with the given length.\<close>

definition irdt_bytes :: "u8 list \<Rightarrow> u8 list" where
  "irdt_bytes ds = (let rmud = [0, 0, 0, 0] @ le_bytes 4 (of_nat (13 + length ds)) @ le_bytes 2 1 @ [0, 0, 0] @ ds
     in with_checksum ([0x49, 0x52, 0x44, 0x54] @ le_bytes 4 (of_nat (48 + length rmud)) @ [1] @ replicate 27 0 @ le_bytes 2 3 @ le_bytes 2 0 @
          replicate 8 0 @ rmud))"

definition sample_dss :: "u8 list" where
  "sample_dss = sub_structure 0 ([1] @ le_bytes 2 0x10 @ [0] @ [1, 0x80, 0x81, 0, 0, 0, 0, 0, 0] @ replicate 7 0)"

definition sample_rcs :: "u8 list" where
  "sample_rcs = sub_structure 1 (le_bytes 2 0 @ [1, 2] @ le_bytes 2 0x6E @ le_bytes 2 0 @ le_bytes 2 0x40 @ replicate 18 0 @ le_bytes 8 0x1000)"

definition irdt_acpi :: "u8 list \<Rightarrow> acpi_os" where
  "irdt_acpi ds = sample_acpi\<lparr>ac_table := [''IRDT'' \<mapsto> irdt_bytes ds]\<rparr>"

definition irdt_cap :: pqos_cap where
  "irdt_cap = [CapL3ca (sample_l3ca\<lparr>l3_iordt := True\<rparr>)]"

text \<open>
  Each part of the hypothesis is needed. An RCS structure that consists of its header only makes the code read behind the table, and so
  does such a DSS structure, whose type and enumeration id are printed before its length is checked, and a file of 37 bytes.
\<close>

lemma short_rcs_read_outside: "iordt_init (irdt_acpi (sub_structure 1 [])) PQOS_RETVAL_OK (\<lambda>_ _. Some 0) irdt_cap = None"
  by code_simp

lemma short_dss_read_outside: "acpi_print (irdt_bytes (sub_structure 0 [])) = None"
  "iordt_init (irdt_acpi (sub_structure 0 [])) PQOS_RETVAL_OK (\<lambda>_ _. Some 0) irdt_cap = None"
  by code_simp+

definition short_irdt :: "u8 list" where
  "short_irdt = with_checksum ([0x49, 0x52, 0x44, 0x54] @ le_bytes 4 37 @ [1] @ replicate 28 0)"

lemma short_table_read_outside:
  "iordt_init (sample_acpi\<lparr>ac_table := [''IRDT'' \<mapsto> short_irdt]\<rparr>) PQOS_RETVAL_OK (\<lambda>_ _. Some 0) irdt_cap = None"
  by code_simp

theorem iordt_init_correct_witness:
  "\<exists>dev ms. iordt_init (irdt_acpi (sample_dss @ sample_rcs)) PQOS_RETVAL_OK (\<lambda>_ _. Some 0) irdt_cap = Some (Inr (dev, ms)) \<and>
     map channel_id (table (channels dev)) = [0x10100, 0x10101] \<and>
     (\<forall>c\<in>set (table (channels dev)). \<exists>m. get_mmio (Some ms) (channel_id c) = Some m \<and> mmio_base m = mmio_addr c \<and>
        PQOS_IRDT_CHAN (channel_id c) < MMIO_MAX_CHANNELS)"
proof -
  let ?A = "irdt_acpi (sample_dss @ sample_rcs)" and ?bs = "irdt_bytes (sample_dss @ sample_rcs)"
  have tab: "acpi_get_sig ?A ''IRDT'' = Some (Some ?bs)" by code_simp
  have walk: "acpi_get_irdt_rmud ?bs = Some (Inr [48])" "acpi_get_irdt_dev ?bs 48 = Some (Inr [61, 85])"
    "rd16 ?bs 61 = Some 0" "rd16 ?bs 63 = Some 24" "rd16 ?bs 85 = Some 1" "rd16 ?bs 87 = Some 40" "length ?bs = 125" by code_simp+
  then have "irdt_sized ?bs"
    by (auto simp: irdt_sized_def device_sized_def irdt_sizes DSS_ID_END_def IRDT_FLAGS_END_def ACPI_TABLE_IRDT_TYPE_RCS_def ACPI_TABLE_IRDT_TYPE_DSS_def)
  then have pre: "\<forall>n. length (ac_fresh ?A n) = n" "ac_dir ?A" "\<forall>bs. acpi_get_sig ?A ''IRDT'' = Some (Some bs) \<longrightarrow> irdt_sized bs"
    by (simp_all add: tab) (simp_all add: irdt_acpi_def sample_acpi_def)
  have "map_option (map_sum id (\<lambda>(dev, ms). map channel_id (table (channels dev)))) (iordt_init ?A PQOS_RETVAL_OK (\<lambda>_ _. Some 0) irdt_cap) =
      Some (Inr [0x10100, 0x10101])" by code_simp
  then obtain dev ms where run: "iordt_init ?A PQOS_RETVAL_OK (\<lambda>_ _. Some 0) irdt_cap = Some (Inr (dev, ms))"
    and ids: "map channel_id (table (channels dev)) = [0x10100, 0x10101]"
    by (cases "iordt_init ?A PQOS_RETVAL_OK (\<lambda>_ _. Some 0) irdt_cap") (auto simp: map_sum_def split: sum.splits)
  from iordt_init_correct [OF pre, of PQOS_RETVAL_OK "\<lambda>_ _. Some 0" irdt_cap] run ids show ?thesis by auto
qed

end
