(* ===== verification/PqosArgs.thy ===== *)
theory PqosArgs
  imports PqosTypes CString "HOL-Library.Monad_Syntax"
begin

text \<open>
  The arguments of the command line tool: numbers, lists of numbers and PCI ids (\<open>pqos/main.c\<close>, \<open>pqos/common.c\<close>). A function
  that ends the process with a message has the result \<open>Inl EXIT_FAILURE\<close>; one that answers -1 has the result \<open>None\<close>. The parsers of
  lists have a further \<open>None\<close> around their result: a write behind the table, or a loop that does not end.
\<close>

datatype exit_status = EXIT_FAILURE

type_synonym 'a tool = "exit_status + 'a"

definition tool_then :: "'a tool option \<Rightarrow> ('a \<Rightarrow> 'b tool option) \<Rightarrow> 'b tool option" where
  "tool_then m f = (case m of None \<Rightarrow> None | Some (Inl e) \<Rightarrow> Some (Inl e) | Some (Inr x) \<Rightarrow> f x)"

lemma tool_then_simps [simp]:
  "tool_then None f = None" "tool_then (Some (Inl e)) f = Some (Inl e)" "tool_then (Some (Inr x)) f = f x"
  by (simp_all add: tool_then_def)

section \<open>Numbers\<close>

text \<open>Whether \<open>strtoull\<close> sets \<open>errno\<close> to \<open>ERANGE\<close>.\<close>

definition strtoull_erange :: "int \<Rightarrow> string \<Rightarrow> bool" where
  "strtoull_erange base s =
     (let t = dropWhile isspace s;
          t = (case t of c # cs \<Rightarrow> if c = CHR ''-'' \<or> c = CHR ''+'' then cs else t | [] \<Rightarrow> t);
          t = (if base = 16 \<and> map tolower (take 2 t) = ''0x'' \<and> (case drop 2 t of c # _ \<Rightarrow> is_digit 16 c | [] \<Rightarrow> False)
               then drop 2 t else t)
      in 2 ^ 64 \<le> fst (digits_value base 0 t))"

definition strtouint64_base :: "string \<Rightarrow> int \<Rightarrow> u64 tool" where
  "strtouint64_base s default_base =
     (let (base, s) = (if map tolower (take 2 s) = ''0x'' then (16, drop 2 s) else (default_base, s));
          (n, rest) = strtoull base s
      in if strtoull_erange base s \<or> rest = s \<or> rest \<noteq> [] then Inl EXIT_FAILURE else Inr n)"

definition strtouint64 :: "string \<Rightarrow> u64 tool" where
  "strtouint64 s = strtouint64_base s 10"

definition strhextouint64 :: "string \<Rightarrow> u64 tool" where
  "strhextouint64 s = strtouint64_base s 16"

definition is_sign :: "char \<Rightarrow> bool" where
  "is_sign c \<longleftrightarrow> c = CHR ''-'' \<or> c = CHR ''+''"

text \<open>
  \<open>pqos_parse_uint64\<close>: white space around the number is allowed, a sign in front of it is not. The test that there were digits
  compares with the start after the trailing white space has been skipped.
\<close>

definition pqos_parse_uint64 :: "string \<Rightarrow> u64 option" where
  "pqos_parse_uint64 text =
     (let digits = dropWhile isspace text
      in if digits = [] \<or> is_sign (hd digits) then None
         else (let (base, digits) = (if take 2 digits = ''0x'' \<or> take 2 digits = ''0X'' then (16, drop 2 digits) else (10, digits));
                   (parsed, rest) = strtoull base digits;
                   rest = dropWhile isspace rest
               in if strtoull_erange base digits \<or> rest = digits \<or> rest \<noteq> [] then None else Some parsed))"

section \<open>Lists of numbers\<close>

definition isdup :: "u64 list \<Rightarrow> u64 \<Rightarrow> bool" where
  "isdup tab val \<longleftrightarrow> val \<in> set tab"

text \<open>The numbers from \<open>n\<close> to \<open>stop\<close>; the counter wraps around.\<close>

partial_function (option) range_to_tab :: "nat \<Rightarrow> u64 \<Rightarrow> u64 \<Rightarrow> u64 list \<Rightarrow> u64 list tool option" where
  "range_to_tab max_len n stop tab =
     (if n \<le> stop then
        if max_len \<le> length tab then Some (Inl EXIT_FAILURE)
        else range_to_tab max_len (n + 1) stop (if isdup tab n then tab else tab @ [n])
      else Some (Inr tab))"

declare range_to_tab.simps [code]

text \<open>A piece of the list: blank, a range or a single number.\<close>

definition token_to_tab :: "nat \<Rightarrow> string \<Rightarrow> u64 list \<Rightarrow> u64 list tool option" where
  "token_to_tab max_len w tab =
     (let token = dropWhile isspace w
      in if token = [] then Some (Inr tab)
         else (case cut_at CHR ''-'' token of
                 Some (a, b) \<Rightarrow>
                   tool_then (Some (strtouint64 a)) (\<lambda>x. tool_then (Some (strtouint64 b)) (\<lambda>y.
                     range_to_tab max_len (min x y) (max x y) tab))
               | None \<Rightarrow>
                   tool_then (Some (strtouint64 token)) (\<lambda>val.
                     if isdup tab val then Some (Inr tab)
                     else if max_len \<le> length tab then Some (Inl EXIT_FAILURE)
                     else Some (Inr (tab @ [val])))))"

fun tokens_to_tab :: "nat \<Rightarrow> string list \<Rightarrow> u64 list \<Rightarrow> u64 list tool option" where
  "tokens_to_tab max_len [] tab = Some (Inr tab)"
| "tokens_to_tab max_len (w # ws) tab = tool_then (token_to_tab max_len w tab) (tokens_to_tab max_len ws)"

definition strlisttotab :: "string \<Rightarrow> nat \<Rightarrow> u64 list tool option" where
  "strlisttotab s max_len = (if max_len = 0 then Some (Inr []) else tokens_to_tab max_len (strtok CHR '','' s) [])"

section \<open>Lists in tables that grow\<close>

text \<open>The new number of entries; allocation is taken to succeed.\<close>

definition realloc_and_init :: "u32 \<Rightarrow> u32 option" where
  "realloc_and_init elem_count =
     (if elem_count = 0 then Some 1 else if - 1 div 2 < elem_count then None else Some (elem_count * 2))"

lemma realloc_grows: "realloc_and_init m = Some m' \<Longrightarrow> unat m < unat m' \<and> (m \<noteq> 0 \<longrightarrow> unat m' = 2 * unat m)"
proof -
  assume r: "realloc_and_init m = Some m'"
  show ?thesis
  proof (cases "m = 0")
    case True
    with r show ?thesis by (simp add: realloc_and_init_def)
  next
    case False
    with r have m: "m \<le> 0x7FFFFFFF" "m' = m * 2" by (auto simp: realloc_and_init_def not_less split: if_splits)
    then have "unat m \<le> 0x7FFFFFFF" by (simp add: word_le_nat_alt)
    with m have "unat m' = 2 * unat m" by (simp add: unat_word_ariths)
    moreover have "0 < unat m" using False by (simp add: unat_gt_0)
    ultimately show ?thesis by simp
  qed
qed

function grow_to :: "u64 \<Rightarrow> u32 \<Rightarrow> u32 tool" where
  "grow_to len max_len =
     (if unat max_len < unat len then (case realloc_and_init max_len of None \<Rightarrow> Inl EXIT_FAILURE | Some m \<Rightarrow> grow_to len m)
      else Inr max_len)"
  by pat_completeness auto
termination grow_to
  by (relation "measure (\<lambda>(len, m). unat len - unat m)") (auto dest: realloc_grows)

declare grow_to.simps [simp del]

text \<open>A store behind the \<open>max_len\<close> entries of the table is \<open>None\<close>.\<close>

definition tab_store :: "u32 \<Rightarrow> u64 list \<Rightarrow> u64 \<Rightarrow> u64 list option" where
  "tab_store max_len tab val = (if unat max_len \<le> length tab then None else Some (tab @ [val]))"

definition grow_full :: "u64 list \<Rightarrow> u32 \<Rightarrow> (u64 list \<times> u32) tool" where
  "grow_full tab max_len =
     (if unat max_len \<le> length tab then (case realloc_and_init max_len of None \<Rightarrow> Inl EXIT_FAILURE | Some m \<Rightarrow> Inr (tab, m))
      else Inr (tab, max_len))"

definition add_number :: "u64 \<Rightarrow> u64 list \<times> u32 \<Rightarrow> (u64 list \<times> u32) tool option" where
  "add_number val = (\<lambda>(tab, max_len). do {
     tab \<leftarrow> (if isdup tab val then Some tab else tab_store max_len tab val);
     Some (grow_full tab max_len) })"

partial_function (option) fill_range :: "u32 \<Rightarrow> u64 \<Rightarrow> u64 \<Rightarrow> u64 list \<Rightarrow> u64 list option" where
  "fill_range max_len n stop tab =
     (if n \<le> stop then Option.bind (tab_store max_len tab n) (fill_range max_len (n + 1) stop) else Some tab)"

partial_function (option) add_range :: "u64 \<Rightarrow> u64 \<Rightarrow> u64 list \<times> u32 \<Rightarrow> (u64 list \<times> u32) tool option" where
  "add_range n stop st =
     (if n \<le> stop then
        (case add_number n st of None \<Rightarrow> None | Some (Inl e) \<Rightarrow> Some (Inl e) | Some (Inr st) \<Rightarrow> add_range (n + 1) stop st)
      else Some (Inr st))"

declare fill_range.simps [code] add_range.simps [code]

definition first_range :: "u64 \<Rightarrow> u64 \<Rightarrow> u32 \<Rightarrow> (u64 list \<times> u32) tool option" where
  "first_range start stop max_len =
     (if start = 0 \<and> stop = - 1 then Some (Inl EXIT_FAILURE)
      else (let range_len = stop - start + 1
            in if 0xFFFFFFFF < range_len then Some (Inl EXIT_FAILURE)
               else tool_then (Some (grow_to range_len max_len)) (\<lambda>max_len.
                      map_option (\<lambda>tab. Inr (tab, max_len)) (fill_range max_len start stop []))))"

definition token_to_tab_realloc :: "string \<Rightarrow> u64 list \<times> u32 \<Rightarrow> (u64 list \<times> u32) tool option" where
  "token_to_tab_realloc w st =
     (let token = dropWhile isspace w
      in if token = [] then Some (Inr st)
         else (case cut_at CHR ''-'' token of
                 Some (a, b) \<Rightarrow>
                   tool_then (Some (strtouint64 a)) (\<lambda>x.
                     if b = [] \<or> \<not> is_digit 10 (hd b) then Some (Inl EXIT_FAILURE)
                     else tool_then (Some (strtouint64 b)) (\<lambda>y.
                       if fst st = [] then first_range (min x y) (max x y) (snd st) else add_range (min x y) (max x y) st))
               | None \<Rightarrow> tool_then (Some (strtouint64 token)) (\<lambda>val. add_number val st)))"

fun tokens_to_tab_realloc :: "string list \<Rightarrow> u64 list \<times> u32 \<Rightarrow> (u64 list \<times> u32) tool option" where
  "tokens_to_tab_realloc [] st = Some (Inr st)"
| "tokens_to_tab_realloc (w # ws) st = tool_then (token_to_tab_realloc w st) (tokens_to_tab_realloc ws)"

definition strlisttotabrealloc :: "string \<Rightarrow> u32 \<Rightarrow> (u64 list \<times> u32) tool option" where
  "strlisttotabrealloc s max_len =
     (if max_len = 0 then Some (Inr ([], max_len)) else tokens_to_tab_realloc (strtok CHR '','' s) ([], max_len))"

section \<open>Memory regions\<close>

text \<open>The regions from \<open>n\<close> to \<open>stop\<close>, appended to \<open>regs\<close>.\<close>

function region_range :: "nat \<Rightarrow> u64 \<Rightarrow> u64 \<Rightarrow> u64 list \<Rightarrow> u64 list option" where
  "region_range max_regions n stop regs =
     (if n \<le> stop then
        if max_regions \<le> length regs then None
        else if PQOS_MAX_MEM_REGIONS \<le> unat n then None
        else if n \<in> set regs then None
        else region_range max_regions (n + 1) stop (regs @ [n])
      else Some regs)"
  by pat_completeness auto
termination region_range
  by (relation "measure (\<lambda>(m, n, stop, regs). m - length regs)") auto

declare region_range.simps [simp del]

fun region_tokens :: "nat \<Rightarrow> string list \<Rightarrow> u64 list \<Rightarrow> u64 list option" where
  "region_tokens max_regions [] regs = Some regs"
| "region_tokens max_regions (token # ts) regs =
     (case cut_at CHR ''-'' token of
        Some (c # cs, b) \<Rightarrow> do {
          x \<leftarrow> pqos_parse_uint64 (c # cs);
          y \<leftarrow> pqos_parse_uint64 b;
          if y < x then None else Option.bind (region_range max_regions x y regs) (region_tokens max_regions ts) }
      | _ \<Rightarrow> do {
          x \<leftarrow> pqos_parse_uint64 token;
          Option.bind (region_range max_regions x x regs) (region_tokens max_regions ts) })"

definition pqos_parse_mem_regions :: "string \<Rightarrow> nat \<Rightarrow> u64 list option" where
  "pqos_parse_mem_regions arg max_regions =
     (if max_regions = 0 then None
      else do {
        regs \<leftarrow> region_tokens max_regions (split_on CHR '','' arg) [];
        if regs = [] then None else Some regs })"

section \<open>PCI ids\<close>

definition PCI_ID_MAX_LEN :: nat where "PCI_ID_MAX_LEN = 31"

definition parse_pci_field :: "string \<Rightarrow> u64 \<Rightarrow> u32 option" where
  "parse_pci_field text max_value =
     (if text = [] \<or> \<not> is_digit 16 (hd text) then None
      else (case strtoull 16 text of (parsed, rest) \<Rightarrow>
              if strtoull_erange 16 text \<or> rest \<noteq> [] \<or> max_value < parsed then None else Some (ucast parsed)))"

definition pqos_parse_pci_id :: "string \<Rightarrow> bool \<Rightarrow> (u16 \<times> u16 \<times> string option) option" where
  "pqos_parse_pci_id arg allow_vc = do {
     (id, vc) \<leftarrow> (case cut_at CHR ''@'' arg of
                  None \<Rightarrow> Some (arg, None)
                | Some (a, b) \<Rightarrow> if \<not> allow_vc \<or> b = [] \<or> CHR ''@'' \<in> set b then None else Some (a, Some b));
     if id = [] \<or> PCI_ID_MAX_LEN < length id then None
     else do {
       (x, rest) \<leftarrow> cut_at CHR '':'' id;
       (segment, bus_text, devfn_text) \<leftarrow>
         (case cut_at CHR '':'' rest of
            None \<Rightarrow> Some (0, x, rest)
          | Some (y, z) \<Rightarrow>
              if CHR '':'' \<in> set z then None else do { segment \<leftarrow> parse_pci_field x 0xFFFF; Some (segment, y, z) });
       (dev_text, fun_text) \<leftarrow> cut_at CHR ''.'' devfn_text;
       if CHR ''.'' \<in> set fun_text then None
       else do {
         bus \<leftarrow> parse_pci_field bus_text 0xFF;
         device \<leftarrow> parse_pci_field dev_text 0x1F;
         func \<leftarrow> parse_pci_field fun_text 7;
         Some (ucast segment, ucast (push_bit 8 bus OR push_bit 3 device OR func), vc) } } }"

end
