(* ===== verification/PqosLists.thy ===== *)
theory PqosLists
  imports PqosArgs
begin

text \<open>
  Correctness of the parsers of number lists: the numbers that a list denotes, the table with the fixed capacity and the table that grows.
\<close>

section \<open>What a list denotes\<close>

text \<open>The numbers of a token, \<open>None\<close> for a token that is not a number or a range.\<close>

definition token_numbers :: "string \<Rightarrow> u64 set option" where
  "token_numbers w =
     (let token = dropWhile isspace w
      in if token = [] then Some {}
         else (case cut_at CHR ''-'' token of
                 None \<Rightarrow> (case strtouint64 token of Inl _ \<Rightarrow> None | Inr x \<Rightarrow> Some {x})
               | Some (a, b) \<Rightarrow>
                   (case (strtouint64 a, strtouint64 b) of (Inr x, Inr y) \<Rightarrow> Some {min x y..max x y} | _ \<Rightarrow> None)))"

fun list_numbers :: "string list \<Rightarrow> u64 set option" where
  "list_numbers [] = Some {}"
| "list_numbers (w # ws) =
     (case (token_numbers w, list_numbers ws) of (Some A, Some B) \<Rightarrow> Some (A \<union> B) | _ \<Rightarrow> None)"

section \<open>The table with a fixed capacity\<close>

text \<open>The result of a parser that adds the numbers \<open>N\<close> to a table with the entries \<open>old\<close>.\<close>

definition table_result :: "nat \<Rightarrow> u64 set \<Rightarrow> u64 set option \<Rightarrow> u64 list tool option \<Rightarrow> bool" where
  "table_result m old N r \<longleftrightarrow>
     (case r of
        None \<Rightarrow> False
      | Some (Inr t) \<Rightarrow> (case N of None \<Rightarrow> False | Some A \<Rightarrow> distinct t \<and> set t = old \<union> A \<and> length t \<le> m)
      | Some (Inl _) \<Rightarrow> (case N of None \<Rightarrow> True | Some A \<Rightarrow> m \<le> card (old \<union> A) \<or> - 1 \<in> A))"

lemma table_result_simps [simp]:
  "\<not> table_result m old N None"
  "table_result m old None (Some (Inl e))"
  "\<not> table_result m old None (Some (Inr t))"
  "table_result m old (Some A) (Some (Inl e)) \<longleftrightarrow> m \<le> card (old \<union> A) \<or> - 1 \<in> A"
  "table_result m old (Some A) (Some (Inr t)) \<longleftrightarrow> distinct t \<and> set t = old \<union> A \<and> length t \<le> m"
  by (simp_all add: table_result_def)


lemma unat_inc: "n < stop \<or> n \<noteq> - 1 \<Longrightarrow> unat (n + 1) = Suc (unat n)" for n stop :: u64
  by (metis Suc_eq_plus1 add.commute add_eq_0_iff2 unatSuc word_order.extremum_strict)

lemma word_range_step:
  fixes n stop :: u64
  assumes "n \<le> stop" "stop \<noteq> - 1"
  shows "{n..stop} = insert n {n + 1..stop}"
proof -
  have "n \<noteq> - 1" using assms by (metis word_order.extremum_uniqueI)
  then have "n \<le> x \<longleftrightarrow> x = n \<or> n + 1 \<le> x" for x by (auto simp: word_le_nat_alt unat_inc Suc_le_eq le_less dest: word_unat_eq_iff [THEN iffD2])
  then have "{n..} = insert n {n + 1..}" by auto
  then have "{n..} \<inter> {..stop} = insert n {n + 1..} \<inter> {..stop}" by simp
  then show ?thesis using assms(1) by (auto simp: atLeastAtMost_def)
qed







section \<open>The table that grows\<close>

text \<open>A table with room for another entry that holds the numbers \<open>N\<close>.\<close>

definition holds_with_room :: "u64 set \<Rightarrow> u64 list \<times> u32 \<Rightarrow> bool" where
  "holds_with_room N st \<longleftrightarrow> distinct (fst st) \<and> set (fst st) = N \<and> length (fst st) < unat (snd st)"

lemma realloc_succeeds:
  assumes "unat m < 2 ^ 31"
  obtains m' where "realloc_and_init m = Some m'" "unat m < unat m'"
proof -
  have "\<not> - 1 div 2 < m" using assms by (simp add: word_less_nat_alt)
  then obtain m' where "realloc_and_init m = Some m'" by (cases "m = 0") (auto simp: realloc_and_init_def)
  with realloc_grows that show thesis by blast
qed

lemma add_number_ok:
  assumes "holds_with_room N st" "card (insert v N) < 2 ^ 31"
  shows "\<exists>st'. add_number v st = Some (Inr st') \<and> holds_with_room (insert v N) st'"
proof -
  obtain tab m where st: "st = (tab, m)" by (cases st)
  define t where "t = (if isdup tab v then tab else tab @ [v])"
  have t: "distinct t" "set t = insert v N" "length t \<le> unat m"
    using assms(1) by (auto simp: t_def isdup_def st holds_with_room_def)
  then have "length t < 2 ^ 31" using assms(2) by (simp flip: distinct_card)
  moreover have "add_number v st = Some (grow_full t m)"
    using assms(1) by (simp add: add_number_def st t_def tab_store_def holds_with_room_def)
  ultimately show ?thesis using t realloc_succeeds [of m]
    by (cases "unat m \<le> length t") (fastforce simp: grow_full_def holds_with_room_def)+
qed

lemma add_range_ok:
  assumes "stop \<noteq> - 1" "holds_with_room N st" "card (N \<union> {n..stop}) < 2 ^ 31"
  shows "\<exists>st'. add_range n stop st = Some (Inr st') \<and> holds_with_room (N \<union> {n..stop}) st'"
  using assms(2,3)
proof (induction "Suc (unat stop) - unat n" arbitrary: n N st)
  case 0
  then have "\<not> n \<le> stop" by (simp add: word_le_nat_alt)
  then show ?case using 0 by (subst add_range.simps) simp
next
  case (Suc k)
  then have le: "n \<le> stop" by (simp add: word_le_nat_alt)
  have "n \<noteq> - 1" using le assms(1) by (metis word_order.extremum_uniqueI)
  then have k: "k = Suc (unat stop) - unat (n + 1)" using Suc.hyps(2) by (simp add: unat_inc)
  have un: "insert n N \<union> {n + 1..stop} = N \<union> {n..stop}" by (simp add: word_range_step [OF le assms(1)])
  have "card (insert n N) \<le> card (N \<union> {n..stop})" using le by (intro card_mono) auto
  then obtain st' where st': "add_number n st = Some (Inr st')" "holds_with_room (insert n N) st'"
    using add_number_ok [OF Suc.prems(1), of n] Suc.prems(2) by auto
  show ?case using Suc.hyps(1) [OF k st'(2)] Suc.prems(2) le st'(1) unfolding un by (subst add_range.simps) simp
qed

lemma fill_range_ok:
  assumes "stop \<noteq> - 1" "distinct tab" "\<forall>x\<in>set tab. x < n" "length tab + (Suc (unat stop) - unat n) \<le> unat m"
  shows "\<exists>t. fill_range m n stop tab = Some t \<and> distinct t \<and> set t = set tab \<union> {n..stop}"
  using assms(2-)
proof (induction "Suc (unat stop) - unat n" arbitrary: n tab)
  case 0
  then have "\<not> n \<le> stop" by (simp add: word_le_nat_alt)
  then show ?case using 0 by (subst fill_range.simps) simp
next
  case (Suc k)
  then have le: "n \<le> stop" by (simp add: word_le_nat_alt)
  have ne: "n \<noteq> - 1" using le assms(1) by (metis word_order.extremum_uniqueI)
  then have k: "k = Suc (unat stop) - unat (n + 1)" using Suc.hyps(2) by (simp add: unat_inc)
  have "\<forall>x\<in>set (tab @ [n]). x < n + 1" using Suc.prems(2) ne by (auto simp: word_less_nat_alt unat_inc)
  moreover have "n \<notin> set tab" using Suc.prems(2) by auto
  ultimately have "\<exists>t. fill_range m (n + 1) stop (tab @ [n]) = Some t \<and> distinct t \<and> set t = set (tab @ [n]) \<union> {n + 1..stop}"
    using Suc.prems Suc.hyps(2) k by (intro Suc.hyps(1)) auto
  moreover have "\<not> unat m \<le> length tab" using Suc.prems(3) Suc.hyps(2) by linarith
  then have "fill_range m n stop tab = fill_range m (n + 1) stop (tab @ [n])" using le by (subst fill_range.simps) (simp add: tab_store_def)
  ultimately show ?case by (simp add: word_range_step [OF le assms(1)])
qed

lemma grow_to_ok: "unat len < 2 ^ 31 \<Longrightarrow> \<exists>m'. grow_to len m = Inr m' \<and> unat len \<le> unat m'"
proof (induction len m rule: grow_to.induct)
  case (1 len m)
  show ?case
  proof (cases "unat m < unat len")
    case True
    with "1.prems" obtain m' where "realloc_and_init m = Some m'" using realloc_succeeds [of m] by auto
    with 1 True show ?thesis by (subst grow_to.simps) simp
  next
    case False
    then show ?thesis by (subst grow_to.simps) simp
  qed
qed

lemma unat_u64_less: "unat n < 2 ^ 64" for n :: u64
  by (rule order.strict_trans2 [OF unsigned_less]) simp

lemma min_le_max: "min x y \<le> max x y" for x y :: u64
  by (simp add: min_le_iff_disj le_max_iff_disj)

lemma range_card: "n \<le> stop \<Longrightarrow> card {n..stop} = Suc (unat stop) - unat n" for n stop :: u64
proof -
  assume le: "n \<le> stop"
  have "unat ` {n..stop} = {unat n..unat stop}"
  proof (intro equalityI subsetI)
    fix k assume "k \<in> {unat n..unat stop}"
    moreover from this have "unat (of_nat k :: u64) = k" using unat_u64_less [of stop]
      by (simp add: unsigned_of_nat take_bit_nat_eq_self)
    ultimately show "k \<in> unat ` {n..stop}" by (intro image_eqI [of _ _ "of_nat k"]) (auto simp: word_le_nat_alt)
  qed (auto simp: word_le_nat_alt)
  then have "card {unat n..unat stop} = card {n..stop}" by (metis card_image inj_on_def word_unat_eq_iff)
  then show ?thesis by simp
qed

lemma range_len_unat: "n \<le> stop \<Longrightarrow> stop \<noteq> - 1 \<Longrightarrow> unat (stop - n + 1) = card {n..stop}" for n stop :: u64
proof -
  assume le: "n \<le> stop" and ne: "stop \<noteq> - 1"
  have "stop - n \<noteq> - 1"
  proof
    assume "stop - n = - 1"
    then have "unat stop - unat n = 2 ^ 64 - 1" using le by (simp add: unsigned_minus_1_eq_mask mask_eq_exp_minus_1 flip: unat_sub)
    moreover have "unat stop < 2 ^ 64 - 1" using ne unat_u64_less [of stop]
      by (auto simp: word_unat_eq_iff unsigned_minus_1_eq_mask mask_eq_exp_minus_1)
    ultimately show False by simp
  qed
  then show ?thesis using le by (simp add: unat_inc unat_sub range_card word_le_nat_alt Suc_diff_le)
qed

lemma first_range_ok:
  assumes "n \<le> stop" "stop \<noteq> - 1" "card {n..stop} < 2 ^ 31" "grow_to (stop - n + 1) m \<noteq> Inr (ucast (stop - n + 1))"
  shows "\<exists>st. first_range n stop m = Some (Inr st) \<and> holds_with_room {n..stop} st"
proof -
  define len where "len = stop - n + 1"
  have len: "unat len = card {n..stop}" using range_len_unat [OF assms(1,2)] by (simp add: len_def)
  then obtain m' where m': "grow_to len m = Inr m'" "unat len \<le> unat m'" using grow_to_ok [of len m] assms(3) by auto
  have "unat (ucast len :: u32) = unat len" using len assms(3) by (simp add: unsigned_ucast_eq take_bit_word_eq_self take_bit_nat_eq_self)
  then have "unat m' \<noteq> unat len" using assms(4) m' len_def by (metis word_unat_eq_iff)
  moreover obtain t where t: "fill_range m' n stop [] = Some t" "distinct t" "set t = {n..stop}"
    using fill_range_ok [of stop "[]" n m'] assms(1,2) m'(2) len range_card [OF assms(1)] by auto
  moreover have "length t = unat len" using t len by (metis distinct_card)
  moreover have "\<not> 0xFFFFFFFF < len" using len assms(3) by (simp add: word_less_nat_alt)
  ultimately show ?thesis using m' assms(2) by (auto simp: first_range_def holds_with_room_def len_def [symmetric])
qed

text \<open>
  The second number of a range has to start with a digit; and a range at the head of the list must not fill the table to its last entry.
\<close>

definition well_formed_range :: "string \<Rightarrow> bool" where
  "well_formed_range w =
     (case cut_at CHR ''-'' (dropWhile isspace w) of None \<Rightarrow> True | Some (a, b) \<Rightarrow> b \<noteq> [] \<and> is_digit 10 (hd b))"

fun first_leaves_room :: "u32 \<Rightarrow> string list \<Rightarrow> bool" where
  "first_leaves_room m [] = True"
| "first_leaves_room m (w # ws) =
     (let token = dropWhile isspace w
      in if token = [] then first_leaves_room m ws
         else (case cut_at CHR ''-'' token of
                 None \<Rightarrow> True
               | Some (a, b) \<Rightarrow>
                   (case (strtouint64 a, strtouint64 b) of
                      (Inr x, Inr y) \<Rightarrow> (let len = max x y - min x y + 1 in grow_to len m \<noteq> Inr (ucast len))
                    | _ \<Rightarrow> True)))"

lemma token_to_tab_realloc_ok:
  assumes st: "holds_with_room N st" and A: "token_numbers w = Some A" "- 1 \<notin> A" "card (N \<union> A) < 2 ^ 31" "well_formed_range w"
    and room: "N = {} \<Longrightarrow> first_leaves_room (snd st) [w]"
  shows "\<exists>st'. token_to_tab_realloc w st = Some (Inr st') \<and> holds_with_room (N \<union> A) st'"
proof -
  define token where "token = dropWhile isspace w"
  note defs = token_to_tab_realloc_def token_def [symmetric]
  consider "token = []" "A = {}"
    | x where "token \<noteq> []" "cut_at CHR ''-'' token = None" "strtouint64 token = Inr x" "A = {x}"
    | a b x y where "token \<noteq> []" "cut_at CHR ''-'' token = Some (a, b)" "strtouint64 a = Inr x" "strtouint64 b = Inr y"
        "A = {min x y..max x y}"
    using A(1) by (auto simp: token_numbers_def token_def [symmetric] split: if_splits option.splits sum.splits)
  then show ?thesis
  proof cases
    case 1
    with st show ?thesis by (simp add: defs)
  next
    case 2
    with add_number_ok [OF st] A(3) show ?thesis by (simp add: defs)
  next
    case 3
    then have ne: "max x y \<noteq> - 1" using A(2) by auto
    have b: "b \<noteq> []" "is_digit 10 (hd b)" using A(4) 3(2) by (simp_all add: well_formed_range_def token_def)
    have e: "token_to_tab_realloc w st =
        (if fst st = [] then first_range (min x y) (max x y) (snd st) else add_range (min x y) (max x y) st)"
      using 3 b by (simp add: defs)
    show ?thesis
    proof (cases "fst st = []")
      case True
      with st have N: "N = {}" by (auto simp: holds_with_room_def)
      with room 3 have "grow_to (max x y - min x y + 1) (snd st) \<noteq> Inr (ucast (max x y - min x y + 1))"
        by (simp add: token_def [symmetric] Let_def)
      then show ?thesis using first_range_ok [OF min_le_max, of x y "snd st"] ne A(3) 3(5) N e True by simp
    next
      case False
      then show ?thesis using add_range_ok [OF ne st, of "min x y"] A(3) 3(5) e by simp
    qed
  qed
qed

lemma tokens_to_tab_realloc_ok:
  assumes "holds_with_room N st" "list_numbers ws = Some M" "- 1 \<notin> M" "card (N \<union> M) < 2 ^ 31" "\<forall>w\<in>set ws. well_formed_range w"
    and "N = {} \<Longrightarrow> first_leaves_room (snd st) ws"
  shows "\<exists>st'. tokens_to_tab_realloc ws st = Some (Inr st') \<and> holds_with_room (N \<union> M) st'"
  using assms
proof (induction ws arbitrary: N M st)
  case Nil
  then show ?case by simp
next
  case (Cons w ws)
  obtain A B where AB: "token_numbers w = Some A" "list_numbers ws = Some B" "M = A \<union> B"
    using Cons.prems(2) by (auto split: option.splits)
  have "card (N \<union> A) \<le> card (N \<union> M)" using AB(3) by (intro card_mono) auto
  moreover have "first_leaves_room (snd st) [w]" if "N = {}"
    using Cons.prems(6) [OF that] by (auto simp: Let_def split: if_splits option.splits sum.splits)
  ultimately obtain st' where st': "token_to_tab_realloc w st = Some (Inr st')" "holds_with_room (N \<union> A) st'"
    using token_to_tab_realloc_ok [OF Cons.prems(1) AB(1)] Cons.prems AB(3) by auto
  have "first_leaves_room (snd st') ws" if "N \<union> A = {}"
  proof -
    have t: "dropWhile isspace w = []"
      using that AB(1) min_le_max unfolding token_numbers_def Let_def
      by (cases "dropWhile isspace w = []") (auto simp del: dropWhile_eq_Nil_conv split: option.splits sum.splits)
    then have "st' = st" using st'(1) by (simp add: token_to_tab_realloc_def)
    then show ?thesis using Cons.prems(6) that t by simp
  qed
  then show ?case using Cons.IH [OF st'(2) AB(2)] st'(1) Cons.prems(3-5) AB(3) by (simp add: Un_assoc)
qed

text \<open>
  The parser with a table that grows delivers the numbers of the list, each once, and leaves room for another entry, provided that the
  numbers do not reach the largest 64-bit number and are fewer than 2^31, that the second number of a range starts with a digit, and that a range
  at the head of the list does not fill the table to its last entry.
\<close>

theorem strlisttotabrealloc_correct:
  assumes "max_len \<noteq> 0" "list_numbers (strtok CHR '','' s) = Some N" "- 1 \<notin> N" "card N < 2 ^ 31"
    and "\<forall>w\<in>set (strtok CHR '','' s). well_formed_range w" "first_leaves_room max_len (strtok CHR '','' s)"
  shows "\<exists>tab len. strlisttotabrealloc s max_len = Some (Inr (tab, len)) \<and> distinct tab \<and> set tab = N \<and> length tab < unat len"
proof -
  have "holds_with_room {} ([], max_len)" using assms(1) by (simp add: holds_with_room_def unat_gt_0)
  from tokens_to_tab_realloc_ok [OF this assms(2,3)] assms(1,4,5,6) show ?thesis
    by (auto simp: strlisttotabrealloc_def holds_with_room_def)
qed

text \<open>A range at the head of the list that fills the table leaves no room for the next number, which is stored behind it.\<close>

lemma strlisttotabrealloc_overrun: "strlisttotabrealloc ''0-7,9'' 8 = None"
  by code_simp

lemma strlisttotabrealloc_example_tokens: "strtok CHR '','' ''5,1-2,9'' = [''5'', ''1-2'', ''9'']"
  by code_simp

lemma strlisttotabrealloc_example_numbers: "list_numbers (strtok CHR '','' ''5,1-2,9'') = Some ({5} \<union> ({1..2} \<union> {9}))"
proof -
  have "token_numbers ''5'' = Some {5}" "token_numbers ''9'' = Some {9}" by code_simp+
  moreover have "cut_at CHR ''-'' ''1-2'' = Some (''1'', ''2'')" "strtouint64 ''1'' = Inr 1" "strtouint64 ''2'' = Inr 2" "dropWhile isspace ''1-2'' = ''1-2''"
    by code_simp+
  then have "token_numbers ''1-2'' = Some {1..2}" by (simp add: token_numbers_def)
  ultimately show ?thesis by (simp add: strlisttotabrealloc_example_tokens)
qed

theorem strlisttotabrealloc_correct_witness:
  "\<exists>tab len. strlisttotabrealloc ''5,1-2,9'' 2 = Some (Inr (tab, len)) \<and> distinct tab \<and> set tab = {5} \<union> ({1..2} \<union> {9}) \<and>
     length tab < unat len"
proof (rule strlisttotabrealloc_correct)
  show "list_numbers (strtok CHR '','' ''5,1-2,9'') = Some ({5} \<union> ({1..2} \<union> {9}))" by (rule strlisttotabrealloc_example_numbers)
  show "- 1 \<notin> {5} \<union> ({1..2} \<union> {9 :: u64})" by (simp add: word_order.extremum_unique)
  have "{5} \<union> ({1..2} \<union> {9 :: u64}) = {5, 1, 2, 9}" using word_range_step [of 1 2] word_range_step [of 2 2] by auto
  then show "card ({5} \<union> ({1..2} \<union> {9 :: u64})) < 2 ^ 31" by simp
  show "\<forall>w\<in>set (strtok CHR '','' ''5,1-2,9''). well_formed_range w" by code_simp
  show "first_leaves_room 2 (strtok CHR '','' ''5,1-2,9'')" by code_simp
qed simp

section \<open>Memory regions\<close>

definition regions_ok :: "nat \<Rightarrow> u64 list \<Rightarrow> bool" where
  "regions_ok m regs \<longleftrightarrow> distinct regs \<and> length regs \<le> m \<and> (\<forall>r\<in>set regs. unat r < PQOS_MAX_MEM_REGIONS)"

lemma region_range_ok: "region_range m n stop regs = Some regs' \<Longrightarrow> regions_ok m regs \<Longrightarrow> regions_ok m regs'"
proof (induction m n stop regs rule: region_range.induct)
  case (1 m n stop regs)
  show ?case
    using "1.IH" "1.prems" unfolding region_range.simps [of m n stop regs]
    by (auto simp: regions_ok_def not_le split: if_splits)
qed

lemma region_tokens_ok: "region_tokens m ts regs = Some regs' \<Longrightarrow> regions_ok m regs \<Longrightarrow> regions_ok m regs'"
proof (induction ts arbitrary: regs)
  case (Cons t ts)
  then obtain x y mid where "region_range m x y regs = Some mid" "region_tokens m ts mid = Some regs'"
    by (auto split: option.splits list.splits prod.splits if_splits Option.bind_splits)
  with Cons region_range_ok show ?case by blast
qed simp

text \<open>
  A list of memory regions that the parser accepts is not empty, names no region twice, none that does not exist, and at most as many as
  the caller has room for.
\<close>

theorem parse_mem_regions_ok: "pqos_parse_mem_regions arg m = Some regs \<Longrightarrow> regs \<noteq> [] \<and> regions_ok m regs"
  using region_tokens_ok [of m "split_on CHR '','' arg" "[]" regs]
  by (auto simp: pqos_parse_mem_regions_def regions_ok_def split: if_splits Option.bind_splits)

end
