(* ===== verification/PqosPci.thy ===== *)
theory PqosPci
  imports PqosArgs
begin

text \<open>
  Round trip of PCI ids: what the tool prints for a device (\<open>pqos/cap.c\<close>) is what its parser (\<open>pqos/common.c\<close>) reads.
\<close>

unbundle bit_operations_syntax

definition BDF_BUS :: "u16 \<Rightarrow> u16" where "BDF_BUS bdf = drop_bit 8 bdf"
definition BDF_DEV :: "u16 \<Rightarrow> u16" where "BDF_DEV bdf = drop_bit 3 bdf AND 0x1F"
definition BDF_FUNC :: "u16 \<Rightarrow> u16" where "BDF_FUNC bdf = bdf AND 7"

text \<open>The conversion \<open>%.<k>x\<close>.\<close>

definition hex_padded :: "nat \<Rightarrow> int \<Rightarrow> string" where
  "hex_padded k n = (let s = show_num 16 n in replicate (k - length s) CHR ''0'' @ s)"

text \<open>The id in front of the description of a device: \<open>%.4x:%.2x:%.2x.%x\<close>.\<close>

definition pci_id_text :: "u16 \<Rightarrow> u16 \<Rightarrow> string" where
  "pci_id_text segment bdf =
     hex_padded 4 (uint segment) @ CHR '':'' # hex_padded 2 (uint (BDF_BUS bdf)) @ CHR '':'' # hex_padded 2 (uint (BDF_DEV bdf)) @
     CHR ''.'' # hex_padded 0 (uint (BDF_FUNC bdf))"

section \<open>Digits\<close>

lemma digits_value_all: "\<forall>c\<in>set t. is_digit base c \<Longrightarrow> snd (digits_value base acc t) = []"
  by (induction t arbitrary: acc) auto

lemma strtoull_digits:
  assumes "base = 10 \<or> base = 16" "\<forall>c\<in>set t. is_digit base c" "t \<noteq> []" "fst (digits_value base 0 t) < 2 ^ 64"
  shows "strtoull base t = (of_int (fst (digits_value base 0 t)), [])" "\<not> strtoull_erange base t"
proof -
  have b: "base \<le> 16" using assms(1) by auto
  obtain c cs where t: "t = c # cs" using assms(3) by (cases t) auto
  with assms(2) have c: "is_digit base c" by simp
  note cf = is_digit_facts [OF c b]
  have np: "map tolower (take 2 t) \<noteq> ''0x''" using digits_no_prefix [OF assms(2) b, of "[]"] by simp
  have 1: "dropWhile isspace t = t" using cf(1) by (simp add: t)
  have 2: "(case t of c # cs \<Rightarrow> if c = CHR ''-'' then (True, cs) else if c = CHR ''+'' then (False, cs) else (False, t)
      | [] \<Rightarrow> (False, t)) = (False, t)" using cf(2,3) by (simp add: t)
  have 3: "(case t of [] \<Rightarrow> (0, t) | c # _ \<Rightarrow> if \<not> is_digit base c then (0, t) else f) = f" for f :: "u64 \<times> string"
    using c by (simp add: t)
  have 4: "(case t of c # cs \<Rightarrow> if c = CHR ''-'' \<or> c = CHR ''+'' then cs else t | [] \<Rightarrow> t) = t" using cf(2,3) by (simp add: t)
  show "strtoull base t = (of_int (fst (digits_value base 0 t)), [])"
    using np assms(4) unfolding strtoull_def 1 2 Let_def prod.case
    by (simp add: 3 split_beta digits_value_all [OF assms(2)])
  show "\<not> strtoull_erange base t" using np assms(4) unfolding strtoull_erange_def 1 4 Let_def by simp
qed

lemma digits_value_zeros: "digits_value 16 0 (replicate k CHR ''0'' @ t) = digits_value 16 0 t"
  by (induction k) (simp_all add: is_digit_def digit_val_def)

lemma is_digit_zero: "is_digit 16 CHR ''0''"
  by (simp add: is_digit_def digit_val_def)

lemma hex_padded_digits: "0 \<le> n \<Longrightarrow> \<forall>c\<in>set (hex_padded k n). is_digit 16 c"
  using show_num_digits [of n 16] by (auto simp: hex_padded_def Let_def is_digit_zero)

lemma hex_padded_ne: "hex_padded k n \<noteq> []"
  by (simp add: hex_padded_def Let_def)

lemma hex_padded_length: "0 \<le> n \<Longrightarrow> n < 16 ^ Suc j \<Longrightarrow> length (hex_padded k n) \<le> max k (Suc j)"
  using show_num_length [of n 16 j] by (auto simp: hex_padded_def Let_def)

lemma hex_padded_free: "0 \<le> n \<Longrightarrow> CHR '':'' \<notin> set (hex_padded k n) \<and> CHR ''.'' \<notin> set (hex_padded k n) \<and> CHR ''@'' \<notin> set (hex_padded k n)"
  using hex_padded_digits [of n k] by (auto simp: is_digit_def digit_val_def)

lemma parse_pci_field_padded:
  assumes "0 \<le> n" "n \<le> uint mx" "mx \<le> 0xFFFF"
  shows "parse_pci_field (hex_padded k n) mx = Some (of_int n)"
proof -
  have v: "fst (digits_value 16 0 (hex_padded k n)) = n"
    using assms(1) by (simp add: hex_padded_def Let_def digits_value_zeros digits_value_show)
  have n: "n \<le> 0xFFFF" using assms(2,3) by (simp add: word_le_def)
  with strtoull_digits [of 16 "hex_padded k n"] hex_padded_digits [OF assms(1), of k]
  have s: "strtoull 16 (hex_padded k n) = (of_int n, [])" "\<not> strtoull_erange 16 (hex_padded k n)" by (auto simp: v hex_padded_ne)
  have u: "uint (of_int n :: u64) = n" using assms(1) n by (simp add: unsigned_of_int take_bit_int_eq_self)
  then have "\<not> mx < (of_int n :: u64)" using assms(2) by (simp add: word_less_def)
  moreover have "is_digit 16 (hd (hex_padded k n))" using hex_padded_digits [OF assms(1), of k] hex_padded_ne by simp
  moreover have "ucast (of_int n :: u64) = (of_int n :: u32)" by (metis u ucast_eq word_of_int_eq_iff of_int_uint word_of_int_uint)
  ultimately show ?thesis using s by (simp add: parse_pci_field_def hex_padded_ne)
qed

lemma parse_pci_field_word:
  fixes w :: u16
  assumes "uint w \<le> uint mx" "mx \<le> 0xFFFF"
  shows "parse_pci_field (hex_padded k (uint w)) mx = Some (ucast w)"
proof -
  have "(of_int (uint w) :: u32) = ucast w" by (simp add: word_uint_eq_iff unsigned_of_int unsigned_ucast_eq)
  with parse_pci_field_padded [of "uint w" mx k] assms show ?thesis by simp
qed

section \<open>The round trip\<close>

lemma bdf_parts:
  "ucast (push_bit 8 (ucast (BDF_BUS bdf) :: u32) OR push_bit 3 (ucast (BDF_DEV bdf)) OR ucast (BDF_FUNC bdf)) = bdf"
proof -
  have m: "(0x1F :: u16) = mask 5" "(7 :: u16) = mask 3" by (simp_all add: mask_eq_exp_minus_1)
  show ?thesis
  proof (rule bit_word_eqI)
    fix n assume "n < LENGTH(16)"
    then show "bit (ucast (push_bit 8 (ucast (BDF_BUS bdf) :: u32) OR push_bit 3 (ucast (BDF_DEV bdf)) OR ucast (BDF_FUNC bdf)) :: u16) n = bit bdf n"
      unfolding BDF_BUS_def BDF_DEV_def BDF_FUNC_def m by (cases "n < 8") (auto simp: bit_simps)
  qed
qed

lemma bdf_bounds: "uint (BDF_BUS bdf) \<le> 0xFF" "uint (BDF_DEV bdf) \<le> 0x1F" "uint (BDF_FUNC bdf) \<le> 7"
proof -
  have "uint bdf < 2 ^ 16" using uint_lt2p [of bdf] by simp
  then show "uint (BDF_BUS bdf) \<le> 0xFF" by (simp add: BDF_BUS_def drop_bit_eq_div uint_div_distrib)
  have "drop_bit 3 bdf AND 0x1F \<le> 0x1F" "bdf AND 7 \<le> 7" by (rule word_and_le1)+
  then show "uint (BDF_DEV bdf) \<le> 0x1F" "uint (BDF_FUNC bdf) \<le> 7" by (simp_all add: BDF_DEV_def BDF_FUNC_def word_le_def)
qed

text \<open>
  What the tool prints for a device selects this device again: the parser reads back the segment and the BDF of every printed id,
  whether or not a virtual channel is allowed behind it.
\<close>

theorem pci_id_round_trip: "pqos_parse_pci_id (pci_id_text segment bdf) allow_vc = Some (segment, bdf, None)"
proof -
  define s b d f where "s = hex_padded 4 (uint segment)" and "b = hex_padded 2 (uint (BDF_BUS bdf))"
    and "d = hex_padded 2 (uint (BDF_DEV bdf))" and "f = hex_padded 0 (uint (BDF_FUNC bdf))"
  have t: "pci_id_text segment bdf = s @ CHR '':'' # b @ CHR '':'' # d @ CHR ''.'' # f" by (simp add: pci_id_text_def s_def b_def d_def f_def)
  note free = hex_padded_free [of "uint segment" 4, folded s_def] hex_padded_free [of "uint (BDF_BUS bdf)" 2, folded b_def]
    hex_padded_free [of "uint (BDF_DEV bdf)" 2, folded d_def] hex_padded_free [of "uint (BDF_FUNC bdf)" 0, folded f_def]
  have u: "uint segment < 65536" using uint_lt2p [of segment] by simp
  have len: "length s \<le> 4" "length b \<le> 2" "length d \<le> 2" "length f \<le> 1"
    using hex_padded_length [of "uint segment" 3 4] hex_padded_length [of "uint (BDF_BUS bdf)" 1 2] hex_padded_length [of "uint (BDF_DEV bdf)" 1 2]
      hex_padded_length [of "uint (BDF_FUNC bdf)" 0 0] bdf_bounds [of bdf] u
    unfolding s_def b_def d_def f_def by (simp_all only: uint_ge_0 simp_thms numeral_eq_Suc) auto
  have fields: "parse_pci_field s 0xFFFF = Some (ucast segment)" "parse_pci_field b 0xFF = Some (ucast (BDF_BUS bdf))"
    "parse_pci_field d 0x1F = Some (ucast (BDF_DEV bdf))" "parse_pci_field f 7 = Some (ucast (BDF_FUNC bdf))"
    unfolding s_def b_def d_def f_def using bdf_bounds [of bdf] u by (simp_all add: parse_pci_field_word)
  have cuts: "cut_at CHR ''@'' (pci_id_text segment bdf) = None"
    "cut_at CHR '':'' (pci_id_text segment bdf) = Some (s, b @ CHR '':'' # d @ CHR ''.'' # f)"
    "cut_at CHR '':'' (b @ CHR '':'' # d @ CHR ''.'' # f) = Some (b, d @ CHR ''.'' # f)"
    "cut_at CHR ''.'' (d @ CHR ''.'' # f) = Some (d, f)"
    using free by (simp_all add: t cut_at_first) (simp add: cut_at_def)
  have "pci_id_text segment bdf \<noteq> []" "\<not> PCI_ID_MAX_LEN < length (pci_id_text segment bdf)"
    using len by (simp_all add: t PCI_ID_MAX_LEN_def)
  with cuts free fields bdf_parts [of bdf] show ?thesis
    by (simp add: pqos_parse_pci_id_def unsigned_ucast_eq take_bit_word_eq_self)
qed

end
