(* ===== verification/Spec2Isabelle.thy ===== *)
theory Spec2Isabelle
  imports Prelude PqosTypes Topology TopoPartition Capability Machine RefPlatform MsrSeq Bitmask DevInfo HwAssoc HwCat CatProbe HwMba
    Iordt HwCap AllocReset ErdtLimit CString Schemata Cpumask ResctrlAlloc ResctrlKernel
    OsAssoc OsCat OsCatKernel
    MonPerf MonUncore MonCommon HwMon HwMonGroup MonAssoc MonCounters MonLife
    ApiLock LockWorld LibInit ApiTable ApiCall ApiMon ApiSession
    Mmio MmioRegs MmioAlloc MmioLimits MmioMasks MmioMon MmioCounters
    Erdt ErdtSafe ErdtDomains DomainTables Acpi AcpiSafe Irdt IrdtSafe
    PqosArgs PqosLists PqosPci
begin

text \<open>
  Verification of the Intel RDT library (\<open>lib/\<close> of intel-cmt-cat): allocation and monitoring
  on the MSR and MMIO interfaces, allocation on the operating system interface, and the public interface with its initialisation and its lock; of the command line utility (\<open>pqos/\<close>) the parsers of its arguments.

  \<^bold>\<open>The program.\<close> The library discovers the cache and memory bandwidth allocation
  capabilities of a processor, keeps them in a capability table, and lets a client define
  classes of service (capacity masks, bandwidth limits) and associate cores and I/O
  channels with them, and monitor groups of cores, sockets and channels with the counters
  that belong to resource monitoring ids (RMIDs). It reaches the hardware through model specific registers, through
  memory mapped registers, or through the files of the kernel's resctrl file system. The
  global state of the C code (the tables built at initialisation, the table of open MSR
  files and the hardware behind it) is the record \<open>lib\<close> of \<open>Machine\<close>; every operation
  takes it and returns it. A public function adds the API mutex, the initialisation flag and the table of
  functions (record \<open>library\<close> of \<open>ApiCall\<close>); entries of the table without a model are parameters. Status codes are values of \<open>retval\<close>, out-parameters the right
  side of \<open>'a res = retval + 'a\<close>.

  \<^bold>\<open>Theories.\<close>
  \<^item> \<open>Prelude\<close>, \<open>PqosTypes\<close>: integer widths, results, shared facts; the structures and
    enumerations of \<open>lib/pqos.h\<close>.
  \<^item> \<open>Topology\<close>, \<open>TopoPartition\<close>, \<open>DevInfo\<close>: the \<open>pqos_cpu_*\<close> and \<open>pqos_devinfo_*\<close>
    queries of \<open>lib/utils.c\<close>. Id lists have no duplicates and hold exactly the ids of the
    machine; a core found for an id belongs to it; sockets and L3 clusters partition the
    cores; shared channels are the channels that two devices list.
  \<^item> \<open>Capability\<close>: the capability queries of \<open>lib/utils.c\<close> and the table updates of
    \<open>lib/cap.c\<close>, each update against every query.
  \<^item> \<open>Machine\<close>, \<open>RefPlatform\<close>, \<open>MsrSeq\<close>: \<open>lib/machine.c\<close>. The system calls are the
    functions of the record \<open>platform\<close>; what the kernel's MSR driver promises of them is
    the locale \<open>msr_driver\<close>, from which the contract \<open>register_file\<close> of \<open>msr_read\<close> and
    \<open>msr_write\<close> is derived; \<open>ref_platform\<close> is an instance on which examples run.
  \<^item> \<open>HwAssoc\<close>, \<open>Bitmask\<close>, \<open>HwCat\<close>, \<open>CatProbe\<close>, \<open>HwMba\<close>: \<open>lib/allocation.c\<close>: class
    association, the search for an unused class, assign and release; the test for
    contiguous masks against its specification; setting and reading class masks with and
    without code/data prioritisation (one locale, \<open>cat_level\<close>, for L2 and L3); the probe
    for the smallest mask; bandwidth on Intel and AMD.
  \<^item> \<open>Iordt\<close>: the channel registers of \<open>lib/iordt.c\<close>, over the locale \<open>mmio_memory\<close>.
  \<^item> \<open>HwCap\<close>: discovery of L3 and L2 CAT in \<open>lib/hw_cap.c\<close>, the processor identification
    of \<open>lib/cpuinfo.c\<close> and the CDP updates of \<open>lib/cap.c\<close> that use them.
  \<^item> \<open>AllocReset\<close>, \<open>ErdtLimit\<close>: \<open>alloc_reset\<close> of \<open>lib/allocation_common.c\<close>: checks, resetting of
    classes, switching of CDP, I/O RDT and MBA 4.0, resetting of associations; what its switches do to the number of classes that
    the library advertises.
  \<^item> \<open>CString\<close>, \<open>Schemata\<close>: the C string functions used below, and
    \<open>lib/resctrl_schemata.c\<close>: the table of a class, its printed form and its parser.
  \<^item> \<open>Cpumask\<close>, \<open>ResctrlAlloc\<close>: the CPU masks and the lock of \<open>lib/resctrl.c\<close>, and the groups
    of \<open>lib/resctrl_alloc.c\<close> with the part of \<open>lib/resctrl_monitoring.c\<close> they call. The
    system calls are the functions of the record \<open>resctrl_os\<close>; the library's state is the
    record \<open>rlib\<close>, which extends \<open>lib\<close>.
  \<^item> \<open>ResctrlKernel\<close>: what the kernel documents of the \<open>cpus\<close> and \<open>tasks\<close> files, as the
    locales \<open>resctrl_kernel\<close> (abstract state: the owner of each core) and
    \<open>resctrl_task_kernel\<close>, and what the library achieves on it; \<open>ref_resctrl\<close> is an instance.
  \<^item> \<open>OsAssoc\<close>, \<open>OsCat\<close>, \<open>OsCatKernel\<close>: the operating system interface of
    \<open>lib/os_allocation.c\<close>: association, assign and release of cores and tasks; class masks and
    bandwidth by reading, changing and writing the schemata file under the lock. The
    contract of the schemata files is the locale \<open>resctrl_schemata_kernel\<close> (abstract state:
    the table of each class), extended per cache level by \<open>cat_level_kernel\<close>.
  \<^item> \<open>MonPerf\<close>, \<open>MonUncore\<close>, \<open>MonCommon\<close>: a monitoring group (record \<open>pqos_mon_data\<close>), the perf
    descriptors of \<open>lib/perf.c\<close> and \<open>lib/perf_monitoring.c\<close> (system calls: record \<open>perf_os\<close>),
    the PCIe counters of \<open>lib/uncore_monitoring.c\<close>, and \<open>lib/common_monitoring.c\<close>: RMID
    association, performance counters, reset of monitoring.
  \<^item> \<open>HwMon\<close>, \<open>HwMonGroup\<close>: \<open>lib/hw_monitoring.c\<close> (search for a free RMID, counter reads,
    start and stop of groups) and the poll of \<open>lib/monitoring.c\<close>.
  \<^item> \<open>MonAssoc\<close>, \<open>MonCounters\<close>, \<open>MonLife\<close>: what monitoring achieves on a register file: RMID
    and class do not disturb each other, a free RMID is the lowest free one, counters are
    modular arithmetic, a started group has its RMIDs for itself and a stop gives them back, also when events are counted by the
    kernel's perf descriptors (what the proofs need of them: locale \<open>perf_kernel\<close>, instance \<open>ref_perf_os\<close>).
  \<^item> \<open>ApiLock\<close>, \<open>LockWorld\<close>: the lock file of \<open>lib/lock.c\<close>, run in one go and one system call at a
    time (the two agree); the states that processes which come and go can reach
    (\<open>lock_reach\<close>): at most one owner under four assumptions (a process is identified by a constant reading, the lock file
    can be read, the functions are not interrupted, only an owner shuts down), recovery from an owner that has
    died, and for each assumption what happens without it.
  \<^item> \<open>LibInit\<close>: \<open>pqos_init\<close>, \<open>pqos_fini\<close> and the choice of the interface in \<open>lib/cap.c\<close>, over the
    return values of the parts they start (record \<open>init_outcome\<close>).
  \<^item> \<open>ApiTable\<close>, \<open>ApiCall\<close>, \<open>ApiMon\<close>: \<open>lib/api.c\<close>: the table of functions that \<open>api_init\<close> fills with the
    functions of the theories above, and the public functions over the record \<open>library\<close> (mutex, flag,
    table, state). A monitoring group carries its marker and the state of its internal part.
  \<^item> \<open>ApiSession\<close>: sequences of public calls, all functions of \<open>lib/api.c\<close> that take the mutex: over any table of functions that
    return they return and release the mutex, and they do nothing before
    initialisation; associations and monitoring through the public functions on the MSR interface.

  \<^item> \<open>Mmio\<close>, \<open>MmioRegs\<close>: the registers of the MMIO interface (\<open>lib/mmio.c\<close>) over the mapping of
    physical memory (record \<open>mmio_os\<close>, locale \<open>mmio_registers\<close>, instance \<open>memmio\<close> on byte memory); the copy of a range of
    counters against its register-by-register reading.
  \<^item> \<open>MmioAlloc\<close>, \<open>MmioLimits\<close>, \<open>MmioMasks\<close>: \<open>lib/mmio_common.c\<close> and \<open>lib/mmio_allocation.c\<close>: bandwidth
    limits per memory region, I/O cache masks and the reset, as updates of the abstract tables \<open>mba_limit\<close> and \<open>cat_mask\<close>.
  \<^item> \<open>MmioMon\<close>, \<open>MmioCounters\<close>: \<open>lib/mmio_monitoring.c\<close>: RMIDs of cores and channels, start, stop and
    poll of groups.
  \<^item> \<open>Erdt\<close>, \<open>ErdtSafe\<close>, \<open>Acpi\<close>, \<open>AcpiSafe\<close>: the ACPI tables behind the MMIO interface as lists of bytes: search, reading and
    checksum (\<open>lib/acpi.c\<close>), the parsers of \<open>lib/erdt.c\<close> and \<open>lib/mrrm.c\<close>. A calculus for parsers (\<open>reads\<close>, \<open>parses\<close>) shows
    that they stay inside the table whatever its bytes are.
  \<^item> \<open>ErdtDomains\<close>, \<open>DomainTables\<close>: the tables from channels and cores to ERDT domains (\<open>lib/erdt.c\<close>,
    \<open>lib/cores_domains.c\<close>); they satisfy what monitoring over MMIO assumes of them.
  \<^item> \<open>Irdt\<close>, \<open>IrdtSafe\<close>: the IRDT table, its printing by \<open>acpi_print\<close> (the bytes it reads) and \<open>iordt_init\<close> of \<open>lib/iordt.c\<close>: devices,
    channels and register blocks; every channel has a
    register of a block. \<open>short_dss_read_outside\<close>, \<open>short_rcs_read_outside\<close> and \<open>short_table_read_outside\<close> show that the bounds it needs
    are not checked by the code.
  \<^item> \<open>PqosArgs\<close>, \<open>PqosLists\<close>, \<open>PqosPci\<close>: the arguments of the utility (\<open>pqos/main.c\<close>, \<open>pqos/common.c\<close>): numbers, lists with ranges in a table
    of fixed capacity and in one that grows, memory regions, PCI ids; the lists against the sets they denote, a PCI id against its
    printed form.

  \<^bold>\<open>What is shown.\<close> Round trips (what is set is read back: associations, L3 and L2
  masks, bandwidth up to rounding, channels, schemata files, CPU masks, and on the operating
  system interface cores, tasks and L3 masks; start and stop of monitoring; initialisation and shutdown), return of every sequence of public calls and release of the locks on every path, refusal without effect for
  every invalid request, exclusiveness of an assigned class, of the RMIDs of a group and of the library itself, safety of every mask written
  to a register, the state after a reset, the arithmetic of wrapping counters, safety of the table parsers for arbitrary bytes, equivalence of the searches with set
  comprehensions, and what the code does where it departs from its comments (the
  properties and theorems that show unchecked class ids, the probe by position, the capability without
  classes, the skipped channel reset, the ERDT limit that every reset loses, the SMBA loop, the cut CPU mask, the lock that is
  lost to memory growth, to a race, to an unreadable lock file or to a foreign shutdown, the initialisation error that is reported as success, the
  counter error and the overflow of region counters that are delivered as data, the structures of the IRDT that are read past their end,
  the list of numbers that is stored past its table, and the list of I/O masks that is applied in part).

  \<^bold>\<open>Bounds.\<close> Registers, masks and ids are words of the width of the C type, so wrap-around
  is that of the code. Every recursion is structural or has a measure, save the loops over ranges of 64-bit numbers in
  \<open>PqosArgs\<close>, whose counter can wrap around (\<open>partial_function\<close>; the theorems of \<open>PqosLists\<close> say when they end); there is no fuel.
  The schemata reader has a 16 KB buffer (16383 characters and the terminator, enough for
  the lines of 290 caches), the mask reader 512 characters, a mask 4096 cores, the
  association scan a table of \<open>PQOS_MAX_CLOS\<close> entries: they appear in the definitions and,
  where the code relies on them, in the hypotheses.

  \<^bold>\<open>Not modelled.\<close> Failure of \<open>malloc\<close> (taken to succeed), logging and the rounding of
  \<open>double\<close>. The discovery of perf events, custom RMIDs, monitoring through resctrl
  (\<open>os_monitoring.c\<close>, most of \<open>resctrl_monitoring.c\<close>), mounting and creation of the resctrl groups, discovery on the operating system interface, reading of
  the PCI devices, the contents of the register dumps,
  and the rest of the command line utility \<open>pqos/\<close> with the bindings and examples: they are either
  system input and output or later work.
\<close>

section \<open>Properties of the whole\<close>

text \<open>
  C40. On the MMIO interface a reset undoes the ERDT limit on the number of L3 classes. Initialisation cuts the \<open>n\<close> classes of CPUID to
  the \<open>m\<close> that the ERDT has, with \<open>cap_limit_num_classes_to_erdt\<close>. A successful \<open>alloc_reset\<close>, whatever its configuration, replaces
  the capability by a freshly discovered one (\<open>_pqos_cap_l3cdp_change\<close>), so that the library advertises all \<open>n\<close> classes again. This holds for
  every processor whose CPUID enumerates L3 CAT without CDP and I/O RDT, and every limit.
\<close>

theorem reset_undoes_erdt_limit:
  assumes drv: "io_driver E core_of regs" and wf: "machine_wf core_of s" and ne: "cores (m_cpu s) \<noteq> []" and mmio: "m_interface s = PQOS_INTER_MMIO"
    and cpuid: "cpuid_l3_classes E (m_cpu s) n"
    and init: "m_cap s = cap_limit_num_classes_to_erdt (Some m) caps" "pqos_l3ca_get_clos_num (Some caps) = Inr n" "m \<noteq> 0"
    and run: "alloc_reset E os_l3 os_l2 cfg s = (PQOS_RETVAL_OK, t)"
  shows "pqos_l3ca_get_clos_num (Some (m_cap s)) = Inr (min m n) \<and> pqos_l3ca_get_clos_num (Some (m_cap t)) = Inr n"
proof -
  have cut: "l3_count s = Inr (min m n)" using init by (simp add: erdt_limit_counts)
  from io_driver.alloc_reset_facts [OF drv wf ne run] obtain ids v
    where sw: "alloc_reset_switches E os_l3 os_l2 (case cfg of None \<Rightarrow> default_alloc_config | Some c \<Rightarrow> c)
        (fst ids) (fst (snd ids)) (snd (snd ids)) v = (PQOS_RETVAL_OK, t)"
      and wfv: "machine_wf core_of v" and cv: "same_config s v" by blast
  have "l3_count t = Inr n"
    by (rule io_driver.switches_count [OF drv wfv _ _ _ sw]) (use cpuid mmio cut same_configD [OF cv] in auto)
  with cut show ?thesis by simp
qed

text \<open>A processor whose CPUID reports 16 L3 classes of 8 ways, and the library on it, its class count cut to the 8 of the ERDT.\<close>

definition cat16_platform :: "ref_hw platform" where
  "cat16_platform = ref_platform\<lparr>os_cpuid := (\<lambda>leaf subleaf.
     if leaf = 7 then \<lparr>eax = 0, ebx = 0x8000, ecx = 0, edx = 0\<rparr>
     else if leaf = 0x10 \<and> subleaf = 0 then \<lparr>eax = 0, ebx = 2, ecx = 0, edx = 0\<rparr>
     else if leaf = 0x10 \<and> subleaf = 1 then \<lparr>eax = 7, ebx = 0, ecx = 0, edx = 15\<rparr>
     else \<lparr>eax = 0, ebx = 0, ecx = 0, edx = 0\<rparr>)\<rparr>"

definition erdt8_lib :: "ref_hw lib" where
  "erdt8_lib = sample_lib\<lparr>m_interface := PQOS_INTER_MMIO,
     m_cap := cap_limit_num_classes_to_erdt (Some 8) [CapL3ca (sample_l3ca\<lparr>l3_num_classes := 16, l3_cdp := False\<rparr>)]\<rparr>"

interpretation cat16: io_driver cat16_platform ref_core_of ref_regs
  using refio.io_driver_axioms by (simp add: cat16_platform_def io_driver_def io_driver_axioms_def msr_driver_def)

theorem reset_undoes_erdt_limit_witness:
  "pqos_l3ca_get_clos_num (Some (m_cap (snd
     (alloc_reset cat16_platform (Inl PQOS_RETVAL_ERROR) (Inl PQOS_RETVAL_ERROR) None erdt8_lib)))) = Inr 16"
proof -
  let ?r = "alloc_reset cat16_platform (Inl PQOS_RETVAL_ERROR) (Inl PQOS_RETVAL_ERROR) None erdt8_lib"
  let ?caps = "[CapL3ca (sample_l3ca\<lparr>l3_num_classes := 16, l3_cdp := False\<rparr>)]"
  have ok: "fst ?r = PQOS_RETVAL_OK" and cpu: "m_cpu erdt8_lib = sample_cpu" and ne: "cores (m_cpu erdt8_lib) \<noteq> []"
    and cpuid: "cpuid_l3_classes cat16_platform (m_cpu erdt8_lib) 16"
    and cap: "pqos_l3ca_get_clos_num (Some ?caps) = Inr 16" by code_simp+
  have wf: "machine_wf ref_core_of erdt8_lib" using sample_wf by (simp add: erdt8_lib_def machine_wf_def)
  have mmio: "m_interface erdt8_lib = PQOS_INTER_MMIO" "m_cap erdt8_lib = cap_limit_num_classes_to_erdt (Some 8) ?caps"
    by (simp_all add: erdt8_lib_def)
  from ok have run: "?r = (PQOS_RETVAL_OK, snd ?r)" by (metis prod.collapse)
  from reset_undoes_erdt_limit [OF cat16.io_driver_axioms wf ne mmio(1) cpuid mmio(2) cap _ run] show ?thesis by simp
qed

end
